(* ===== verification/Prelude.thy ===== *)
theory Prelude
  imports Main "HOL-Library.List_Lexorder" "HOL-Library.Char_ord"
begin

text \<open>
  Shared vocabulary of the development: database tables as lists of rows with the two
  queries the services use (\<open>scalar\<close>: the first matching row or nothing, \<open>scalars\<close>: all
  of them), the row update SQLAlchemy performs on a loaded object, the uniqueness
  constraints of a schema, the transaction of \<open>session()\<close> (commit on return, roll back
  on an exception), runs of a service over a list of requests, and the few string
  operations of Python the sources call. The locales \<open>service\<close>, \<open>monotone_service\<close>
  and \<open>keyed_rows\<close> are the interfaces the components provide; each
  component theory interprets them on its own definitions.
\<close>

named_theorems row_simps \<open>lookup and update of table rows\<close>

section \<open>Tables\<close>

type_synonym time = int

definition scalar :: "('r \<Rightarrow> bool) \<Rightarrow> 'r list \<Rightarrow> 'r option" where
  "scalar p rows = List.find p rows"

definition scalars :: "('r \<Rightarrow> bool) \<Rightarrow> 'r list \<Rightarrow> 'r list" where
  "scalars p rows = filter p rows"

definition update_rows :: "('r \<Rightarrow> bool) \<Rightarrow> ('r \<Rightarrow> 'r) \<Rightarrow> 'r list \<Rightarrow> 'r list" where
  "update_rows p f rows = map (\<lambda>r. if p r then f r else r) rows"

text \<open>
  \<open>UniqueConstraint\<close> and \<open>primary_key\<close>: no two rows with the same key. A key that
  contains SQL's NULL (\<open>None\<close>) never conflicts.
\<close>

definition unique_by :: "('r \<Rightarrow> 'k option) \<Rightarrow> 'r list \<Rightarrow> bool" where
  "unique_by key rows = distinct (List.map_filter key rows)"

definition pair_key :: "'a option \<Rightarrow> 'b option \<Rightarrow> ('a \<times> 'b) option" where
  "pair_key a b = (case (a, b) of (Some x, Some y) \<Rightarrow> Some (x, y) | _ \<Rightarrow> None)"

lemma pair_key_simps [simp]:
  "pair_key (Some x) (Some y) = Some (x, y)"
  "pair_key None b = None"
  "pair_key a None = None"
  by (auto simp: pair_key_def split: option.splits)

lemma pair_key_Some_iff [simp]:
  "pair_key a b = Some k \<longleftrightarrow> a = Some (fst k) \<and> b = Some (snd k)"
  by (cases k) (auto simp: pair_key_def split: option.splits)

lemma scalar_Some:
  "scalar p rows = Some r \<Longrightarrow> r \<in> set rows \<and> p r"
  by (auto simp: scalar_def find_Some_iff in_set_conv_nth)

lemma scalar_None [row_simps]:
  "scalar p rows = None \<longleftrightarrow> (\<forall>r\<in>set rows. \<not> p r)"
  by (auto simp: scalar_def find_None_iff)

lemma scalar_Nil [simp]: "scalar p [] = None"
  by (simp add: scalar_def)

lemma scalar_Cons [simp]:
  "scalar p (r # rows) = (if p r then Some r else scalar p rows)"
  by (simp add: scalar_def)

lemma scalar_append [row_simps]:
  "scalar p (xs @ ys) = (case scalar p xs of Some r \<Rightarrow> Some r | None \<Rightarrow> scalar p ys)"
  by (induction xs) auto

lemma scalar_unique:
  "r \<in> set rows \<Longrightarrow> p r \<Longrightarrow> (\<And>r'. r' \<in> set rows \<Longrightarrow> p r' \<Longrightarrow> r' = r) \<Longrightarrow> scalar p rows = Some r"
  by (metis not_Some_eq scalar_None scalar_Some)

lemma scalars_append [row_simps]:
  "scalars p (xs @ ys) = scalars p xs @ scalars p ys"
  by (simp add: scalars_def)

lemma set_scalars [row_simps]: "set (scalars p rows) = {r \<in> set rows. p r}"
  by (simp add: scalars_def)

lemma update_rows_append [row_simps]:
  "update_rows p f (xs @ ys) = update_rows p f xs @ update_rows p f ys"
  by (simp add: update_rows_def)

lemma update_rows_Nil [simp]: "update_rows p f [] = []"
  by (simp add: update_rows_def)

lemma update_rows_Cons [simp]:
  "update_rows p f (r # rows) = (if p r then f r else r) # update_rows p f rows"
  by (simp add: update_rows_def)

lemma set_update_rows:
  "set (update_rows p f rows) = (\<lambda>r. if p r then f r else r) ` set rows"
  by (simp add: update_rows_def)

lemma update_rows_later:
  assumes "\<And>r. r \<in> set rows \<Longrightarrow> le r (if p r then f r else r)"
  shows "\<forall>r\<in>set rows. \<exists>s\<in>set (update_rows p f rows). le r s"
proof
  fix r assume "r \<in> set rows"
  then show "\<exists>s\<in>set (update_rows p f rows). le r s"
    using assms [of r] by (intro bexI [of _ "if p r then f r else r"]) (simp_all add: set_update_rows)
qed

lemma update_rows_idle:
  "(\<And>r. r \<in> set rows \<Longrightarrow> \<not> p r) \<Longrightarrow> update_rows p f rows = rows"
  by (induction rows) auto

lemma scalars_update_rows_other:
  assumes "\<And>r. r \<in> set rows \<Longrightarrow> p r \<Longrightarrow> \<not> q r"
    and "\<And>r. r \<in> set rows \<Longrightarrow> p r \<Longrightarrow> \<not> q (f r)"
  shows "scalars q (update_rows p f rows) = scalars q rows"
  using assms by (induction rows) (auto simp: scalars_def)

section \<open>Uniqueness\<close>

lemma unique_by_Nil [simp]: "unique_by key []"
  by (simp add: unique_by_def map_filter_simps)

lemma set_map_filter_key:
  "k \<in> set (List.map_filter key rows) \<longleftrightarrow> (\<exists>r\<in>set rows. key r = Some k)"
  by (induction rows) (auto simp: map_filter_simps split: option.splits)

lemma unique_by_Cons [simp]:
  "unique_by key (r # rows) \<longleftrightarrow>
     (\<forall>k. key r = Some k \<longrightarrow> (\<forall>r'\<in>set rows. key r' \<noteq> Some k)) \<and> unique_by key rows"
proof (cases "key r")
  case None
  then show ?thesis by (simp add: unique_by_def map_filter_simps)
next
  case (Some k)
  then show ?thesis
    by (auto simp: unique_by_def map_filter_simps set_map_filter_key)
qed

lemma unique_byD:
  assumes "unique_by key rows" "r \<in> set rows" "r' \<in> set rows"
    and "key r = Some k" "key r' = Some k"
  shows "r = r'"
  using assms by (induction rows) auto

lemma unique_by_append [row_simps]:
  "unique_by key (xs @ ys) \<longleftrightarrow> unique_by key xs \<and> unique_by key ys \<and>
     (\<forall>x\<in>set xs. \<forall>y\<in>set ys. \<forall>k. key x = Some k \<longrightarrow> key y \<noteq> Some k)"
  by (induction xs) auto

lemma unique_by_snoc [simp]:
  "unique_by key (rows @ [r]) \<longleftrightarrow> unique_by key rows \<and>
     (\<forall>k. key r = Some k \<longrightarrow> (\<forall>r'\<in>set rows. key r' \<noteq> Some k))"
  by (auto simp: unique_by_append)

lemma unique_by_update_rows:
  assumes "\<And>r. r \<in> set rows \<Longrightarrow> p r \<Longrightarrow> key (f r) = key r"
  shows "unique_by key (update_rows p f rows) = unique_by key rows"
proof -
  have "List.map_filter key (update_rows p f rows) = List.map_filter key rows"
    using assms by (induction rows) (auto simp: map_filter_simps split: option.splits)
  then show ?thesis by (simp add: unique_by_def)
qed

text \<open>A table with a primary key that is never NULL.\<close>

locale keyed_rows =
  fixes key :: "'r \<Rightarrow> 'k"
begin

definition get :: "'k \<Rightarrow> 'r list \<Rightarrow> 'r option" where
  "get k rows = scalar (\<lambda>r. key r = k) rows"

definition wf :: "'r list \<Rightarrow> bool" where
  "wf rows = unique_by (\<lambda>r. Some (key r)) rows"

lemma get_Some_iff:
  assumes "wf rows"
  shows "get k rows = Some r \<longleftrightarrow> r \<in> set rows \<and> key r = k"
proof
  assume "get k rows = Some r"
  then show "r \<in> set rows \<and> key r = k"
    by (auto simp: get_def dest: scalar_Some)
next
  assume *: "r \<in> set rows \<and> key r = k"
  then obtain r' where r': "get k rows = Some r'"
    by (cases "get k rows") (auto simp: get_def scalar_None)
  then have "r' \<in> set rows \<and> key r' = k"
    by (auto simp: get_def dest: scalar_Some)
  with * assms have "r' = r"
    by (auto simp: wf_def dest: unique_byD)
  with r' show "get k rows = Some r" by simp
qed

lemma row_eq:
  "wf rows \<Longrightarrow> r \<in> set rows \<Longrightarrow> r' \<in> set rows \<Longrightarrow> key r = key r' \<Longrightarrow> r = r'"
  by (auto simp: wf_def dest: unique_byD)

lemma wf_update:
  "(\<And>r. key (f r) = key r) \<Longrightarrow> wf (update_rows p f rows) = wf rows"
  by (simp add: wf_def unique_by_update_rows)

lemma get_update:
  assumes "\<And>r. key (f r) = key r"
  shows "get k (update_rows (\<lambda>r. key r = j) f rows) =
    (if k = j then map_option f (get k rows) else get k rows)"
  using assms by (induction rows) (auto simp: get_def)

lemma get_append:
  "get k (rows @ [r]) = (case get k rows of Some x \<Rightarrow> Some x
     | None \<Rightarrow> if key r = k then Some r else None)"
  by (simp add: get_def scalar_append split: option.splits)

text \<open>
  A sum over the rows of a table changes, under an update of one row by its key, by the
  change of that row.
\<close>

lemma sum_update:
  fixes g :: "'r \<Rightarrow> int"
  assumes "wf rows" "r \<in> set rows" "key r = k"
  shows "sum_list (map g (update_rows (\<lambda>x. key x = k) f rows)) =
    sum_list (map g rows) + g (f r) - g r"
  using assms
proof (induction rows)
  case Nil
  then show ?case by simp
next
  case (Cons x rows)
  show ?case
  proof (cases "x = r")
    case True
    with Cons.prems have "\<And>y. y \<in> set rows \<Longrightarrow> key y \<noteq> k"
      by (auto simp: wf_def)
    then have "update_rows (\<lambda>x. key x = k) f rows = rows"
      by (rule update_rows_idle)
    with True Cons.prems show ?thesis by simp
  next
    case False
    with Cons.prems have "key x \<noteq> k" and "r \<in> set rows" and "wf rows"
      by (auto simp: wf_def)
    with Cons show ?thesis by simp
  qed
qed

end

section \<open>Errors\<close>

text \<open>
  An operation that may raise returns \<open>Inl\<close> of the exception. \<open>sum_bind\<close> is the
  sequence of two steps, \<open>found\<close> the guard \<open>if value is None: raise\<close>.
\<close>

fun sum_bind :: "'e + 'a \<Rightarrow> ('a \<Rightarrow> 'e + 'b) \<Rightarrow> 'e + 'b" where
  "sum_bind (Inl e) f = Inl e"
| "sum_bind (Inr a) f = f a"

definition found :: "'e \<Rightarrow> 'a option \<Rightarrow> 'e + 'a" where
  "found e v = (case v of None \<Rightarrow> Inl e | Some a \<Rightarrow> Inr a)"

lemma sum_bind_Inr: "sum_bind m f = Inr b \<longleftrightarrow> (\<exists>a. m = Inr a \<and> f a = Inr b)"
  by (cases m) auto

lemma sum_bind_cong [fundef_cong]:
  "m = m' \<Longrightarrow> (\<And>a. m' = Inr a \<Longrightarrow> f a = f' a) \<Longrightarrow> sum_bind m f = sum_bind m' f'"
  by (cases m') auto

lemma found_Inr [simp]: "found e v = Inr a \<longleftrightarrow> v = Some a"
  by (simp add: found_def split: option.splits)

lemma found_simps [simp]: "found e None = Inl e" "found e (Some a) = Inr a"
  by (simp_all add: found_def)

section \<open>Transactions and runs\<close>

text \<open>
  \<open>async with session() as db\<close> opens a transaction (\<open>db.begin()\<close>): the changes are
  committed when the body returns and rolled back when it raises. The constraints of the
  schema are checked by the database when the changes are flushed; a violation raises,
  so it rolls back too. An operation is a function from the database to an error or to
  the changed database and its response.
\<close>

definition session ::
    "('s \<Rightarrow> bool) \<Rightarrow> 'e \<Rightarrow> ('s \<Rightarrow> 'e + 's \<times> 'a) \<Rightarrow> 's \<Rightarrow> 's \<times> ('e + 'a)" where
  "session constraints integrity_error body s =
     (case body s of
        Inl e \<Rightarrow> (s, Inl e)
      | Inr (s', a) \<Rightarrow>
          if constraints s' then (s', Inr a) else (s, Inl integrity_error))"

lemma session_error: "snd (session c ie body s) = Inl e \<Longrightarrow> fst (session c ie body s) = s"
  by (auto simp: session_def split: sum.splits if_splits)

lemma session_ok:
  "session c ie body s = (s', Inr a) \<longleftrightarrow> body s = Inr (s', a) \<and> c s'"
  by (auto simp: session_def split: sum.splits if_splits)

lemma session_cases [case_names error ok]:
  assumes "\<And>e. session c ie body s = (s, Inl e) \<Longrightarrow> P"
    and "\<And>s' a. session c ie body s = (s', Inr a) \<Longrightarrow> body s = Inr (s', a) \<Longrightarrow> c s' \<Longrightarrow> P"
  shows P
proof (cases "body s")
  case (Inl e)
  then have "session c ie body s = (s, Inl e)" by (simp add: session_def)
  then show P by (rule assms(1))
next
  case (Inr r)
  show P
  proof (cases "c (fst r)")
    case True
    with Inr show P
      by (intro assms(2) [of "fst r" "snd r"]) (simp_all add: session_def case_prod_beta)
  next
    case False
    with Inr have "session c ie body s = (s, Inl ie)"
      by (simp add: session_def case_prod_beta)
    then show P by (rule assms(1))
  qed
qed

lemma session_inv:
  assumes "I s" and "\<And>s' a. body s = Inr (s', a) \<Longrightarrow> c s' \<Longrightarrow> I s'"
  shows "I (fst (session c ie body s))"
  using assms by (cases rule: session_cases [of c ie body s]) auto

definition run :: "('q \<Rightarrow> 's \<Rightarrow> 's \<times> 'a) \<Rightarrow> 'q list \<Rightarrow> 's \<Rightarrow> 's" where
  "run step qs s = fold (\<lambda>q s. fst (step q s)) qs s"

lemma run_Nil [simp]: "run step [] s = s"
  by (simp add: run_def)

lemma run_Cons [simp]: "run step (q # qs) s = run step qs (fst (step q s))"
  by (simp add: run_def)

lemma run_append: "run step (xs @ ys) s = run step ys (run step xs s)"
  by (simp add: run_def)

text \<open>
  A service: a step function over requests and an invariant every step keeps. Whatever
  the requests and their order, the invariant holds in every state the service reaches.
\<close>

locale service =
  fixes step :: "'q \<Rightarrow> 's \<Rightarrow> 's \<times> 'a" and inv :: "'s \<Rightarrow> bool"
  assumes step_inv: "inv s \<Longrightarrow> inv (fst (step q s))"
begin

lemma run_inv: "inv s \<Longrightarrow> inv (run step qs s)"
  by (induction qs arbitrary: s) (auto intro: step_inv)

end

text \<open>
  A service with a relation that every step respects (what a state keeps of an earlier
  one): the relation then holds between the first and the last state of a run.
\<close>

locale monotone_service = service step inv
  for step :: "'q \<Rightarrow> 's \<Rightarrow> 's \<times> 'a" and inv :: "'s \<Rightarrow> bool" +
  fixes le :: "'s \<Rightarrow> 's \<Rightarrow> bool"
  assumes le_refl: "le s s"
    and le_trans: "le s t \<Longrightarrow> le t u \<Longrightarrow> le s u"
    and step_le: "inv s \<Longrightarrow> le s (fst (step q s))"
begin

lemma run_le: "inv s \<Longrightarrow> le s (run step qs s)"
proof (induction qs arbitrary: s)
  case Nil
  show ?case by (simp add: le_refl)
next
  case (Cons q qs)
  have "le s (fst (step q s))" using Cons.prems by (rule step_le)
  moreover have "le (fst (step q s)) (run step qs (fst (step q s)))"
    using Cons.prems by (intro Cons.IH step_inv)
  ultimately show ?case by (auto intro: le_trans)
qed

end

section \<open>Python strings\<close>

definition py_isspace :: "char \<Rightarrow> bool" where
  "py_isspace c = (let n = (of_char c :: nat) in
     (9 \<le> n \<and> n \<le> 13) \<or> (28 \<le> n \<and> n \<le> 32) \<or> n = 133 \<or> n = 160)"

definition py_strip :: "string \<Rightarrow> string" where
  "py_strip s = rev (dropWhile py_isspace (rev (dropWhile py_isspace s)))"

lemma py_strip_plain:
  assumes "s \<noteq> []" "\<not> py_isspace (hd s)" "\<not> py_isspace (last s)"
  shows "py_strip s = s"
proof -
  have "dropWhile py_isspace s = s"
    using assms(1,2) by (cases s) auto
  moreover have "dropWhile py_isspace (rev s) = rev s"
    using assms(1,3) by (cases s rule: rev_cases) auto
  ultimately show ?thesis by (simp add: py_strip_def)
qed

text \<open>\<open>str(n)\<close> of a non-negative integer, and its inverse.\<close>

definition digit_char :: "nat \<Rightarrow> char" where
  "digit_char d = char_of (48 + d)"

definition is_digit :: "char \<Rightarrow> bool" where
  "is_digit c = (48 \<le> (of_char c :: nat) \<and> (of_char c :: nat) \<le> 57)"

definition digit_val :: "char \<Rightarrow> nat" where
  "digit_val c = of_char c - 48"

fun nat_str :: "nat \<Rightarrow> string" where
  "nat_str n = (if n < 10 then [digit_char n] else nat_str (n div 10) @ [digit_char (n mod 10)])"

declare nat_str.simps [simp del]

definition str_nat :: "string \<Rightarrow> nat" where
  "str_nat s = foldl (\<lambda>a c. 10 * a + digit_val c) 0 s"

lemma of_char_digit [simp]: "d < 10 \<Longrightarrow> (of_char (digit_char d) :: nat) = 48 + d"
  by (simp add: digit_char_def)

lemma digit_val_char [simp]: "d < 10 \<Longrightarrow> digit_val (digit_char d) = d"
  by (simp add: digit_val_def)

lemma is_digit_char [simp]: "d < 10 \<Longrightarrow> is_digit (digit_char d)"
  by (simp add: is_digit_def)

lemma is_digit_not_space: "is_digit c \<Longrightarrow> \<not> py_isspace c"
  by (auto simp: is_digit_def py_isspace_def Let_def)

lemma nat_str_digits: "c \<in> set (nat_str n) \<Longrightarrow> is_digit c"
proof (induction n rule: nat_str.induct)
  case (1 n)
  then show ?case
    by (cases "n < 10") (auto simp: nat_str.simps [of n])
qed

lemma nat_str_nonempty [simp]: "nat_str n \<noteq> []"
  by (subst nat_str.simps) simp

lemma str_nat_snoc: "str_nat (s @ [c]) = 10 * str_nat s + digit_val c"
  by (simp add: str_nat_def)

lemma str_nat_append: "str_nat (s @ t) = str_nat s * 10 ^ length t + str_nat t"
proof (induction t rule: rev_induct)
  case Nil
  then show ?case by (simp add: str_nat_def)
next
  case (snoc c t)
  have "str_nat (s @ t @ [c]) = 10 * str_nat (s @ t) + digit_val c"
    using str_nat_snoc [of "s @ t" c] by simp
  with snoc show ?case by (simp add: str_nat_snoc algebra_simps)
qed

lemma str_nat_str [simp]: "str_nat (nat_str n) = n"
proof (induction n rule: nat_str.induct)
  case (1 n)
  show ?case
  proof (cases "n < 10")
    case True
    then show ?thesis by (simp add: nat_str.simps [of n] str_nat_def)
  next
    case False
    with 1 show ?thesis by (simp add: nat_str.simps [of n] str_nat_snoc)
  qed
qed

lemma nat_str_inject [simp]: "nat_str m = nat_str n \<longleftrightarrow> m = n"
  using str_nat_str by metis

text \<open>Zero-padded decimal fields of a fixed width, as \<open>isoformat\<close> prints them.\<close>

fun padded :: "nat \<Rightarrow> nat \<Rightarrow> string" where
  "padded 0 n = []"
| "padded (Suc w) n = padded w (n div 10) @ [digit_char (n mod 10)]"

lemma length_padded [simp]: "length (padded w n) = w"
  by (induction w arbitrary: n) auto

lemma padded_digits: "c \<in> set (padded w n) \<Longrightarrow> is_digit c"
  by (induction w arbitrary: n) auto

lemma str_nat_padded: "str_nat (padded w n) = n mod 10 ^ w"
proof (induction w arbitrary: n)
  case 0
  then show ?case by (simp add: str_nat_def)
next
  case (Suc w)
  have "n mod (10 * 10 ^ w) = 10 * (n div 10 mod 10 ^ w) + n mod 10"
    by (simp add: mod_mult2_eq)
  with Suc show ?case by (simp add: str_nat_snoc)
qed

text \<open>
  \<open>uuid4()\<close> is an input of an operation, given by its 32 hexadecimal digits;
  \<open>uuid_str\<close> is \<open>str(uuid)\<close>.
\<close>

definition uuid_str :: "string \<Rightarrow> string" where
  "uuid_str h = take 8 h @ ''-'' @ take 4 (drop 8 h) @ ''-'' @ take 4 (drop 12 h) @ ''-'' @
     take 4 (drop 16 h) @ ''-'' @ drop 20 h"

end
