(* ===== verification/PyJson.thy ===== *)
theory PyJson
  imports Prelude
begin

text \<open>
  JSON documents and the canonical text the services hash: \<open>json.dumps\<close> with
  \<open>sort_keys=True\<close> and \<open>separators=(",", ":")\<close>. A dict is a list of key-value pairs in
  insertion order. The main result is that the canonical text determines the document up
  to the order of keys, so that a digest of the text binds every field.
\<close>

datatype json =
    JNull
  | JBool bool
  | JInt int
  | JStr string
  | JList "json list"
  | JObj "(string \<times> json) list"

type_synonym dict = "(string \<times> json) list"

section \<open>Printing\<close>

definition hex_char :: "nat \<Rightarrow> char" where
  "hex_char d = (if d < 10 then char_of (48 + d) else char_of (87 + d))"

text \<open>\<open>ensure_ascii\<close> escaping of one character.\<close>

definition json_escape :: "char \<Rightarrow> string" where
  "json_escape c =
     (let n = (of_char c :: nat) in
      if n = 34 then [CHR 0x5C, CHR 0x22]
      else if n = 92 then [CHR 0x5C, CHR 0x5C]
      else if n = 10 then [CHR 0x5C, CHR ''n'']
      else if n = 13 then [CHR 0x5C, CHR ''r'']
      else if n = 9 then [CHR 0x5C, CHR ''t'']
      else if n = 12 then [CHR 0x5C, CHR ''f'']
      else if n = 8 then [CHR 0x5C, CHR ''b'']
      else if 32 \<le> n \<and> n \<le> 126 then [c]
      else [CHR 0x5C, CHR ''u'', CHR ''0'', CHR ''0'', hex_char (n div 16), hex_char (n mod 16)])"

definition quote_char :: char where
  "quote_char = CHR 0x22"

definition dump_str :: "string \<Rightarrow> string" where
  "dump_str s = quote_char # concat (map json_escape s) @ [quote_char]"

definition int_str :: "int \<Rightarrow> string" where
  "int_str n = (if n < 0 then CHR ''-'' # nat_str (nat (- n)) else nat_str (nat n))"

fun join :: "string \<Rightarrow> string list \<Rightarrow> string" where
  "join sep [] = []"
| "join sep [x] = x"
| "join sep (x # y # ys) = x @ sep @ join sep (y # ys)"

fun dump :: "json \<Rightarrow> string" where
  "dump JNull = ''null''"
| "dump (JBool b) = (if b then ''true'' else ''false'')"
| "dump (JInt n) = int_str n"
| "dump (JStr s) = dump_str s"
| "dump (JList xs) = ''['' @ join '','' (map dump xs) @ '']''"
| "dump (JObj kvs) =
     CHR ''{'' # join '','' (map (\<lambda>kv. dump_str (fst kv) @ '':'' @ dump (snd kv)) kvs) @ ''}''"

text \<open>\<open>sort_keys\<close>: the pairs of every dict in the order of their keys.\<close>

fun canon :: "json \<Rightarrow> json" where
  "canon (JList xs) = JList (map canon xs)"
| "canon (JObj kvs) = JObj (sort_key fst (map (\<lambda>kv. (fst kv, canon (snd kv))) kvs))"
| "canon v = v"

definition json_dumps :: "json \<Rightarrow> string" where
  "json_dumps v = dump (canon v)"

text \<open>\<open>json.dumps(detail, sort_keys=True)\<close> with the default separators.\<close>

fun dump_spaced :: "json \<Rightarrow> string" where
  "dump_spaced (JList xs) = ''['' @ join '', '' (map dump_spaced xs) @ '']''"
| "dump_spaced (JObj kvs) =
     CHR ''{'' # join '', '' (map (\<lambda>kv. dump_str (fst kv) @ '': '' @ dump_spaced (snd kv)) kvs) @ ''}''"
| "dump_spaced v = dump v"

definition json_dumps_spaced :: "json \<Rightarrow> string" where
  "json_dumps_spaced v = dump_spaced (canon v)"

text \<open>\<open>{**d, **e}\<close>: a key of \<open>e\<close> replaces the value of \<open>d\<close> in place or is appended.\<close>

fun dict_set :: "(string \<times> json) list \<Rightarrow> string \<times> json \<Rightarrow> (string \<times> json) list" where
  "dict_set [] kv = [kv]"
| "dict_set (e # d) kv = (if fst e = fst kv then kv # d else e # dict_set d kv)"

definition dict_union :: "(string \<times> json) list \<Rightarrow> (string \<times> json) list \<Rightarrow> (string \<times> json) list" where
  "dict_union d e = foldl dict_set d e"

text \<open>An optional column as JSON: \<open>None\<close> is \<open>null\<close>.\<close>

definition JOpt :: "string option \<Rightarrow> json" where
  "JOpt v = (case v of None \<Rightarrow> JNull | Some s \<Rightarrow> JStr s)"

section \<open>The printed text determines the document\<close>

text \<open>
  What may follow a printed value: nothing, or a character that closes or separates. The
  digits of an integer cannot run into it.
\<close>

definition delimited :: "string \<Rightarrow> bool" where
  "delimited r = (r = [] \<or> hd r \<in> {CHR '','', CHR '']'', CHR ''}''})"

lemma delimited_simps [simp]:
  "delimited []" "delimited (CHR '','' # r)" "delimited (CHR '']'' # r)" "delimited (CHR ''}'' # r)"
  by (simp_all add: delimited_def)

lemma hex_char_inject: "i < 16 \<Longrightarrow> j < 16 \<Longrightarrow> hex_char i = hex_char j \<longleftrightarrow> i = j"
  by (auto simp: hex_char_def char_of_eq_iff take_bit_eq_mod split: if_splits)

lemma of_char_bound: "(of_char (c::char) :: nat) < 256"
  using of_char_of [where 'a = nat, of "of_char c"] by (simp add: take_bit_eq_mod)

lemma hex_pair_inject:
  fixes m n :: nat
  assumes "m < 256" "n < 256"
  shows "hex_char (m div 16) = hex_char (n div 16) \<and> hex_char (m mod 16) = hex_char (n mod 16)
    \<longleftrightarrow> m = n"
proof -
  have "m div 16 = n div 16 \<and> m mod 16 = n mod 16 \<longleftrightarrow> m = n"
    by (metis div_mult_mod_eq)
  then show ?thesis using assms by (simp add: hex_char_inject)
qed

text \<open>
  Escaped characters are self-delimiting (reading one back gives the character and the
  rest of the text) and none starts with the closing quote.
\<close>

definition hex_val :: "char \<Rightarrow> nat" where
  "hex_val c = (if is_digit c then of_char c - 48 else of_char c - 87)"

lemma hex_val_char: "d < 16 \<Longrightarrow> hex_val (hex_char d) = d"
  by (auto simp: hex_val_def hex_char_def is_digit_def take_bit_eq_mod)

definition short_unescape :: "char \<Rightarrow> char" where
  "short_unescape d =
     (if d = CHR ''n'' then CHR 0x0A else if d = CHR ''r'' then CHR 0x0D
      else if d = CHR ''t'' then CHR 0x09 else if d = CHR ''f'' then CHR 0x0C
      else if d = CHR ''b'' then CHR 0x08 else d)"

definition json_unescape :: "string \<Rightarrow> (char \<times> string) option" where
  "json_unescape s =
     (case s of [] \<Rightarrow> None
      | b # r \<Rightarrow>
          if b \<noteq> CHR 0x5C then Some (b, r)
          else case r of [] \<Rightarrow> None
          | d # r' \<Rightarrow>
              if d \<noteq> CHR ''u'' then Some (short_unescape d, r')
              else Some (char_of (16 * hex_val (r' ! 2) + hex_val (r' ! 3)), drop 4 r'))"

lemma char_literals:
  "char_of (34::nat) = CHR 0x22" "char_of (92::nat) = CHR 0x5C" "char_of (10::nat) = CHR 0x0A"
  "char_of (13::nat) = CHR 0x0D" "char_of (9::nat) = CHR 0x09" "char_of (12::nat) = CHR 0x0C"
  "char_of (8::nat) = CHR 0x08"
  by code_simp+

lemma json_unescape_escape: "json_unescape (json_escape c @ r) = Some (c, r)"
proof -
  define n where "n = (of_char c :: nat)"
  have n: "n < 256" and c: "c = char_of n"
    by (simp_all add: n_def of_char_bound)
  consider "n = 34" | "n = 92" | "n = 10" | "n = 13" | "n = 9" | "n = 12" | "n = 8"
    | "32 \<le> n" "n \<le> 126" "n \<noteq> 34" "n \<noteq> 92"
    | "\<not> (32 \<le> n \<and> n \<le> 126)" "n \<notin> {10, 13, 9, 12, 8}"
    by fastforce
  then show ?thesis
  proof cases
    case 8
    then have "json_escape c = [c]" by (simp add: json_escape_def flip: n_def)
    moreover have "c \<noteq> CHR 0x5C" using 8(4) n_def by auto
    ultimately show ?thesis by (simp add: json_unescape_def)
  next
    case 9
    then have "json_escape c = [CHR 0x5C, CHR ''u'', CHR ''0'', CHR ''0'',
        hex_char (n div 16), hex_char (n mod 16)]"
      by (auto simp: json_escape_def simp flip: n_def)
    moreover have "16 * (n div 16) + n mod 16 = n" by simp
    ultimately show ?thesis using n c by (simp add: json_unescape_def hex_val_char)
  qed (simp_all add: json_escape_def json_unescape_def short_unescape_def c char_literals)
qed

lemma json_escape_prefix:
  "json_escape c @ r = json_escape d @ s \<Longrightarrow> c = d \<and> r = s"
  by (metis json_unescape_escape option.inject prod.inject)

lemma json_escape_hd: "json_escape c \<noteq> [] \<and> hd (json_escape c) \<noteq> quote_char"
proof (cases "of_char c = (34::nat)")
  case True
  then show ?thesis by (simp add: json_escape_def quote_char_def)
next
  case False
  then have "c \<noteq> quote_char" by (auto simp: quote_char_def)
  with False show ?thesis by (simp add: json_escape_def quote_char_def Let_def)
qed

lemma escaped_prefix:
  "concat (map json_escape s) @ quote_char # r = concat (map json_escape t) @ quote_char # r'
     \<Longrightarrow> s = t \<and> r = r'"
proof (induction s arbitrary: t)
  case Nil
  then show ?case
    using json_escape_hd by (cases t) (auto simp: Cons_eq_append_conv, metis list.sel(1))
next
  case (Cons c s)
  show ?case
  proof (cases t)
    case Nil
    with Cons.prems json_escape_hd [of c] show ?thesis
      by (auto simp: append_eq_Cons_conv)
  next
    case (Cons d t')
    with Cons.prems have "json_escape c @ concat (map json_escape s) @ quote_char # r =
        json_escape d @ concat (map json_escape t') @ quote_char # r'" by simp
    from json_escape_prefix [OF this] Cons.IH [of t'] Cons show ?thesis by simp
  qed
qed

lemma dump_str_prefix: "dump_str s @ r = dump_str t @ r' \<Longrightarrow> s = t \<and> r = r'"
  using escaped_prefix [of s r t r'] by (simp add: dump_str_def)

definition digit_free :: "string \<Rightarrow> bool" where
  "digit_free r = (r = [] \<or> \<not> is_digit (hd r))"

lemma delimited_digit_free: "delimited r \<Longrightarrow> digit_free r"
  by (auto simp: delimited_def digit_free_def is_digit_def)

lemma nat_str_prefix:
  assumes "nat_str m @ r = nat_str n @ s" "digit_free r" "digit_free s"
  shows "m = n \<and> r = s"
proof -
  have split: "takeWhile is_digit (nat_str k @ t) = nat_str k" if "digit_free t" for k t
    using that nat_str_digits
    by (cases t) (auto simp: digit_free_def takeWhile_append)
  from split [OF assms(2)] split [OF assms(3)] assms(1) have "nat_str m = nat_str n" by metis
  with assms(1) show ?thesis by simp
qed

lemma nat_str_hd: "is_digit (hd (nat_str n @ r))"
  using nat_str_digits [of "hd (nat_str n)" n] by simp

lemma minus_not_digit: "\<not> is_digit CHR ''-''"
  by (simp add: is_digit_def)

lemma int_str_prefix:
  assumes "int_str m @ r = int_str n @ s" "digit_free r" "digit_free s"
  shows "m = n \<and> r = s"
proof -
  have neg: "CHR ''-'' # x \<noteq> nat_str k @ t" for x k t
    using nat_str_hd [of k t] minus_not_digit by (metis list.sel(1))
  show ?thesis
  proof (cases "m < 0"; cases "n < 0")
    assume "m < 0" "n < 0"
    with assms nat_str_prefix [of "nat (- m)" r "nat (- n)" s] show ?thesis
      by (simp add: int_str_def nat_eq_iff)
  next
    assume "m < 0" "\<not> n < 0"
    with assms(1) neg [of "nat_str (nat (- m)) @ r" "nat n" s] show ?thesis
      by (simp add: int_str_def)
  next
    assume "\<not> m < 0" "n < 0"
    with assms(1) neg [of "nat_str (nat (- n)) @ s" "nat m" r] show ?thesis
      by (simp add: int_str_def)
  next
    assume "\<not> m < 0" "\<not> n < 0"
    with assms nat_str_prefix [of "nat m" r "nat n" s] show ?thesis
      by (simp add: int_str_def nat_eq_iff)
  qed
qed

text \<open>The first character of a printed value tells its kind.\<close>

definition dump_kind :: "char \<Rightarrow> nat" where
  "dump_kind c =
     (if c = CHR ''n'' then 0 else if c = CHR ''t'' then 1 else if c = CHR ''f'' then 2
      else if c = quote_char then 3 else if c = CHR ''['' then 4 else if c = CHR ''{'' then 5
      else if is_digit c \<or> c = CHR ''-'' then 6 else 7)"

fun json_kind :: "json \<Rightarrow> nat" where
  "json_kind JNull = 0"
| "json_kind (JBool b) = (if b then 1 else 2)"
| "json_kind (JStr s) = 3"
| "json_kind (JList xs) = 4"
| "json_kind (JObj kvs) = 5"
| "json_kind (JInt n) = 6"

lemma dump_kind_digit: "is_digit c \<Longrightarrow> dump_kind c = 6"
  by (auto simp: dump_kind_def quote_char_def is_digit_def)

lemma dump_kind_int: "int_str n \<noteq> [] \<and> dump_kind (hd (int_str n)) = 6"
proof (cases "n < 0")
  case True
  then show ?thesis by (simp add: int_str_def dump_kind_def quote_char_def)
next
  case False
  then show ?thesis
    using dump_kind_digit [OF nat_str_hd [of "nat n" "[]"]] by (simp add: int_str_def)
qed

lemma dump_kind_hd: "dump v \<noteq> [] \<and> dump_kind (hd (dump v)) = json_kind v"
proof (cases v)
  case (JInt n)
  then show ?thesis by (simp add: dump_kind_int)
qed (simp_all add: dump_str_def dump_kind_def quote_char_def)

lemma dump_same_kind: "dump v @ r = dump w @ s \<Longrightarrow> json_kind w = json_kind v"
  using dump_kind_hd [of v] dump_kind_hd [of w] by (metis hd_append2)

lemma join_Cons: "join sep (x # xs) = x @ (if xs = [] then [] else sep @ join sep xs)"
  by (cases xs) simp_all

text \<open>A printed sequence of items, closed by a bracket, determines the items.\<close>

lemma join_prefix:
  assumes item: "\<And>x y r s. x \<in> set xs \<Longrightarrow> f x @ r = f y @ s \<Longrightarrow> delimited r \<Longrightarrow> delimited s \<Longrightarrow> x = y \<and> r = s"
    and start: "\<And>x. f x \<noteq> [] \<and> hd (f x) \<noteq> close"
    and close: "close = CHR '']'' \<or> close = CHR ''}''"
    and eq: "join '','' (map f xs) @ close # r = join '','' (map f ys) @ close # s"
  shows "xs = ys \<and> r = s"
  using item eq
proof (induction xs arbitrary: ys)
  case Nil
  show ?case
  proof (cases ys)
    case Nil
    with Nil.prems show ?thesis by simp
  next
    case (Cons y ys')
    with Nil.prems(2) obtain z where "close # r = f y @ z"
      by (simp add: join_Cons)
    with start [of y] have "hd (f y) = close" by (metis hd_append2 list.sel(1))
    with start [of y] show ?thesis by simp
  qed
next
  case (Cons x xs)
  show ?case
  proof (cases ys)
    case Nil
    with Cons.prems(2) obtain z where "f x @ z = close # s"
      by (simp add: join_Cons)
    with start [of x] have "hd (f x) = close" by (metis hd_append2 list.sel(1))
    with start [of x] show ?thesis by simp
  next
    case (Cons y ys')
    let ?rest = "\<lambda>zs t. (if zs = [] then [] else '','' @ join '','' (map f zs)) @ close # t"
    have "f x @ ?rest xs r = f y @ ?rest ys' s"
      using Cons.prems(2) Cons by (simp add: join_Cons)
    moreover have "delimited (?rest zs t)" for zs t
      using close by auto
    ultimately have "x = y \<and> ?rest xs r = ?rest ys' s"
      by (intro Cons.prems(1)) simp_all
    then have xy: "x = y" and rest: "?rest xs r = ?rest ys' s"
      by (rule conjunct1, rule conjunct2)
    have "xs = ys' \<and> r = s"
    proof (cases "xs = [] \<or> ys' = []")
      case True
      with rest close show ?thesis by (auto split: if_splits)
    next
      case False
      with rest have "join '','' (map f xs) @ close # r = join '','' (map f ys') @ close # s"
        by simp
      with Cons.prems(1) show ?thesis by (intro Cons.IH) auto
    qed
    with xy Cons show ?thesis by simp
  qed
qed

lemma dump_prefix:
  "dump v @ r = dump w @ s \<Longrightarrow> delimited r \<Longrightarrow> delimited s \<Longrightarrow> v = w \<and> r = s"
proof (induction v arbitrary: w r s)
  case JNull
  from dump_same_kind [OF JNull(1)] have "json_kind w = 0" by simp
  with JNull show ?case by (cases w) (auto split: if_splits)
next
  case (JBool b)
  from dump_same_kind [OF JBool(1)] have "json_kind w = json_kind (JBool b)" .
  with JBool show ?case by (cases w) (auto split: if_splits)
next
  case (JInt n)
  from dump_same_kind [OF JInt.prems(1)] have "json_kind w = 6" by simp
  then obtain m where "w = JInt m" by (cases w) (auto split: if_splits)
  with JInt int_str_prefix [of n r m s] show ?case by (simp add: delimited_digit_free)
next
  case (JStr t)
  from dump_same_kind [OF JStr.prems(1)] have "json_kind w = 3" by simp
  then obtain u where "w = JStr u" by (cases w) (auto split: if_splits)
  with JStr dump_str_prefix [of t r u s] show ?case by simp
next
  case (JList xs)
  from dump_same_kind [OF JList.prems(1)] have "json_kind w = 4" by simp
  then obtain ys where w: "w = JList ys" by (cases w) (auto split: if_splits)
  have start: "dump x \<noteq> [] \<and> hd (dump x) \<noteq> CHR '']''" for x
  proof -
    have "dump_kind CHR '']'' = 7" by (simp add: dump_kind_def quote_char_def is_digit_def)
    moreover have "json_kind x \<noteq> 7" by (cases x) simp_all
    ultimately show ?thesis using dump_kind_hd [of x] by auto
  qed
  have "xs = ys \<and> r = s"
    by (rule join_prefix [where f = dump and close = "CHR '']''"])
      (use JList w start in auto)
  with w show ?case by simp
next
  case (JObj kvs)
  from dump_same_kind [OF JObj.prems(1)] have "json_kind w = 5" by simp
  then obtain kws where w: "w = JObj kws" by (cases w) (auto split: if_splits)
  let ?f = "\<lambda>kv. dump_str (fst kv) @ '':'' @ dump (snd kv)"
  have item: "x = y \<and> a = b"
    if "x \<in> set kvs" "?f x @ a = ?f y @ b" "delimited a" "delimited b" for x y a b
  proof -
    from that(2) have "dump_str (fst x) @ '':'' @ dump (snd x) @ a = dump_str (fst y) @ '':'' @ dump (snd y) @ b"
      by simp
    from dump_str_prefix [OF this] have k: "fst x = fst y" and "dump (snd x) @ a = dump (snd y) @ b"
      by simp_all
    moreover have "snd x \<in> Basic_BNFs.snds x" by (simp add: snds.intros)
    ultimately have "snd x = snd y \<and> a = b" using JObj.IH that by blast
    with k show ?thesis by (simp add: prod_eq_iff)
  qed
  have start: "?f x \<noteq> [] \<and> hd (?f x) \<noteq> CHR ''}''" for x
    by (simp add: dump_str_def quote_char_def)
  have eq: "join '','' (map ?f kvs) @ CHR ''}'' # r = join '','' (map ?f kws) @ CHR ''}'' # s"
    using JObj.prems(1) w by simp
  have "kvs = kws \<and> r = s"
    by (rule join_prefix [OF item start _ eq]) simp_all
  with w show ?case by simp
qed

theorem dump_inject: "dump v = dump w \<longleftrightarrow> v = w"
  using dump_prefix [of v "[]" w "[]"] by auto

lemma json_dumps_inject: "json_dumps v = json_dumps w \<longleftrightarrow> canon v = canon w"
  by (simp add: json_dumps_def dump_inject)

text \<open>Two dicts with the same keys have the same canonical text only if their values agree.\<close>

lemma canon_obj_values:
  assumes eq: "canon (JObj kvs) = canon (JObj kws)"
    and keys: "map fst kvs = map fst kws" "distinct (map fst kvs)"
  shows "map (canon \<circ> snd) kvs = map (canon \<circ> snd) kws"
proof -
  let ?c = "\<lambda>kv. (fst kv, canon (snd kv))"
  from eq have "set (sort_key fst (map ?c kvs)) = set (sort_key fst (map ?c kws))" by simp
  then have set: "set (map ?c kvs) = set (map ?c kws)" by simp
  have d: "distinct (map fst (map ?c kws))" using keys by (simp add: comp_def)
  have "canon (snd (kvs ! i)) = canon (snd (kws ! i))" if i: "i < length kvs" for i
  proof -
    have len: "length kws = length kvs" using keys(1) by (metis length_map)
    have "?c (kvs ! i) \<in> set (map ?c kvs)" using i by simp
    then have "?c (kvs ! i) \<in> set (map ?c kws)" by (simp only: set)
    then have "map_of (map ?c kws) (fst (kvs ! i)) = Some (canon (snd (kvs ! i)))"
      using d by (simp add: map_of_eq_Some_iff)
    moreover have "?c (kws ! i) \<in> set (map ?c kws)" using i len by simp
    then have "map_of (map ?c kws) (fst (kws ! i)) = Some (canon (snd (kws ! i)))"
      using d by (simp add: map_of_eq_Some_iff)
    moreover have "map fst kvs ! i = map fst kws ! i" by (simp only: keys(1))
    then have "fst (kvs ! i) = fst (kws ! i)" using i len by simp
    ultimately show ?thesis by simp
  qed
  moreover have "length kvs = length kws" using keys(1) by (metis length_map)
  ultimately show ?thesis by (simp add: list_eq_iff_nth_eq)
qed

end
