(* ===== verification/Sha256.thy ===== *)
theory Sha256
  imports PyJson "HOL-Library.Word"
begin

text \<open>
  The digests the services compute: \<open>hashlib.sha256(...).hexdigest()\<close> and
  \<open>hmac.new(key, msg, sha256)\<close>, over bytes written as characters, and the UTF-8 encoding
  of a text. The functions are executable and are never unfolded by the theorems of the
  other theories: what the development needs of a digest is stated by the predicate
  \<open>sha256_collision\<close>. A theorem that two parties agree on hashed parameters concludes
  that they do, or exhibits two different texts with the same digest.
\<close>

unbundle bit_operations_syntax

section \<open>SHA-256\<close>

type_synonym word32 = "32 word"

definition round_constants :: "word32 list" where
  "round_constants = [
    1116352408, 1899447441, 3049323471, 3921009573, 961987163, 1508970993, 2453635748, 2870763221,
    3624381080, 310598401, 607225278, 1426881987, 1925078388, 2162078206, 2614888103, 3248222580,
    3835390401, 4022224774, 264347078, 604807628, 770255983, 1249150122, 1555081692, 1996064986,
    2554220882, 2821834349, 2952996808, 3210313671, 3336571891, 3584528711, 113926993, 338241895,
    666307205, 773529912, 1294757372, 1396182291, 1695183700, 1986661051, 2177026350, 2456956037,
    2730485921, 2820302411, 3259730800, 3345764771, 3516065817, 3600352804, 4094571909, 275423344,
    430227734, 506948616, 659060556, 883997877, 958139571, 1322822218, 1537002063, 1747873779,
    1955562222, 2024104815, 2227730452, 2361852424, 2428436474, 2756734187, 3204031479, 3329325298]"

definition initial_state :: "word32 list" where
  "initial_state = [
    1779033703, 3144134277, 1013904242, 2773480762, 1359893119, 2600822924, 528734635, 1541459225]"

definition rotr :: "nat \<Rightarrow> word32 \<Rightarrow> word32" where
  "rotr n w = drop_bit n w OR push_bit (32 - n) w"

definition message_word :: "word32 list \<Rightarrow> word32" where
  "message_word w =
     (let t = length w; x = w ! (t - 15); y = w ! (t - 2);
          s0 = rotr 7 x XOR rotr 18 x XOR drop_bit 3 x;
          s1 = rotr 17 y XOR rotr 19 y XOR drop_bit 10 y
      in w ! (t - 16) + s0 + w ! (t - 7) + s1)"

definition message_schedule :: "word32 list \<Rightarrow> word32 list" where
  "message_schedule block = ((\<lambda>w. w @ [message_word w]) ^^ 48) block"

fun compress_round :: "word32 \<times> word32 \<Rightarrow> word32 list \<Rightarrow> word32 list" where
  "compress_round (k, w) [a, b, c, d, e, f, g, h] =
     (let t1 = h + (rotr 6 e XOR rotr 11 e XOR rotr 25 e) + ((e AND f) XOR (NOT e AND g)) + k + w;
          t2 = (rotr 2 a XOR rotr 13 a XOR rotr 22 a) + ((a AND b) XOR (a AND c) XOR (b AND c))
      in [t1 + t2, a, b, c, d + t1, e, f, g])"
| "compress_round kw s = s"

definition compress :: "word32 list \<Rightarrow> word32 list \<Rightarrow> word32 list" where
  "compress state block =
     map2 (+) state (fold compress_round (zip round_constants (message_schedule block)) state)"

definition be_bytes :: "nat \<Rightarrow> nat \<Rightarrow> nat list" where
  "be_bytes w n = map (\<lambda>i. n div 256 ^ (w - 1 - i) mod 256) [0..<w]"

definition sha_pad :: "nat list \<Rightarrow> nat list" where
  "sha_pad bs = bs @ 128 # replicate ((119 - length bs mod 64) mod 64) 0 @ be_bytes 8 (8 * length bs)"

fun be_words :: "nat list \<Rightarrow> word32 list" where
  "be_words (a # b # c # d # r) = of_nat (((a * 256 + b) * 256 + c) * 256 + d) # be_words r"
| "be_words _ = []"

function chunks :: "nat \<Rightarrow> 'a list \<Rightarrow> 'a list list" where
  "chunks n xs = (if n = 0 \<or> length xs < n then [] else take n xs # chunks n (drop n xs))"
  by pat_completeness auto
termination by (relation "measure (length \<circ> snd)") auto

declare chunks.simps [simp del]

definition sha256_bytes :: "nat list \<Rightarrow> nat list" where
  "sha256_bytes bs =
     concat (map (be_bytes 4 \<circ> unat)
       (foldl compress initial_state (chunks 16 (be_words (sha_pad bs)))))"

definition byte_hex :: "nat \<Rightarrow> string" where
  "byte_hex b = [hex_char (b div 16), hex_char (b mod 16)]"

definition hexdigest :: "nat list \<Rightarrow> string" where
  "hexdigest bs = concat (map byte_hex bs)"

text \<open>UTF-8 of characters below 256.\<close>

definition utf8_char :: "char \<Rightarrow> nat list" where
  "utf8_char c = (let n = of_char c in if n < 128 then [n] else [192 + n div 64, 128 + n mod 64])"

definition utf8 :: "string \<Rightarrow> nat list" where
  "utf8 s = concat (map utf8_char s)"

definition sha256_hex :: "string \<Rightarrow> string" where
  "sha256_hex s = hexdigest (sha256_bytes (utf8 s))"

definition hmac_sha256 :: "nat list \<Rightarrow> nat list \<Rightarrow> nat list" where
  "hmac_sha256 key msg =
     (let k0 = (if length key > 64 then sha256_bytes key else key);
          k = k0 @ replicate (64 - length k0) 0
      in sha256_bytes (map (\<lambda>b. b XOR 0x5c) k @ sha256_bytes (map (\<lambda>b. b XOR 0x36) k @ msg)))"

section \<open>Shape of a digest\<close>

lemma length_compress_round: "length (compress_round kw s) = length s"
  by (cases "(kw, s)" rule: compress_round.cases) (simp_all add: Let_def)

lemma length_compress: "length (compress s b) = length s"
proof -
  have "length (fold compress_round kws t) = length t" for kws t
    by (induction kws arbitrary: t) (simp_all add: length_compress_round)
  then show ?thesis by (simp add: compress_def)
qed

lemma length_sha256_bytes: "length (sha256_bytes bs) = 32"
proof -
  have "length (foldl compress s bl) = length s" for s bl
    by (induction bl arbitrary: s) (simp_all add: length_compress)
  then show ?thesis
    by (simp add: sha256_bytes_def length_concat o_def be_bytes_def sum_list_triv initial_state_def)
qed

lemma length_sha256_hex [simp]: "length (sha256_hex s) = 64"
  by (simp add: sha256_hex_def hexdigest_def length_concat o_def byte_hex_def sum_list_triv
      length_sha256_bytes)

section \<open>Collisions\<close>

definition sha256_collision :: "string \<Rightarrow> string \<Rightarrow> bool" where
  "sha256_collision s t = (s \<noteq> t \<and> sha256_hex s = sha256_hex t)"

lemma sha256_hex_eqD: "sha256_hex s = sha256_hex t \<Longrightarrow> s = t \<or> sha256_collision s t"
  by (auto simp: sha256_collision_def)

lemma json_digest_eqD:
  assumes "sha256_hex (json_dumps v) = sha256_hex (json_dumps w)"
  shows "canon v = canon w \<or> sha256_collision (json_dumps v) (json_dumps w)"
  using sha256_hex_eqD [OF assms] by (simp add: json_dumps_inject)

end
