(* ===== verification/RuntimeScope.thy ===== *)
theory RuntimeScope
  imports Sha256
begin

text \<open>
  The signed runtime scope that travels with every remote tool call. The gateway
  (\<open>signed_runtime_meta\<close> of packages/mcp_gateway/client.py) attaches the envelope and its
  HMAC; each service checks it before it touches its database (\<open>verify_runtime_scope\<close> of
  the \<open>security.py\<close> of the ledger, the bank and the funder marketplace). The token the two
  sides share is a parameter. The lemmas show that a signed envelope is accepted with
  its fields unchanged, and that an accepted envelope is one whose canonical text has
  the supplied signature, is complete and names the called tool.
\<close>

section \<open>\<open>str\<close> and truth of JSON values\<close>

definition py_repr_char :: "char \<Rightarrow> char \<Rightarrow> string" where
  "py_repr_char q c =
     (let n = (of_char c :: nat) in
      if c = q \<or> n = 92 then [CHR 0x5C, c]
      else if n = 10 then [CHR 0x5C, CHR ''n'']
      else if n = 13 then [CHR 0x5C, CHR ''r'']
      else if n = 9 then [CHR 0x5C, CHR ''t'']
      else if (32 \<le> n \<and> n \<le> 126) \<or> (161 \<le> n \<and> n \<noteq> 173) then [c]
      else [CHR 0x5C, CHR ''x'', hex_char (n div 16), hex_char (n mod 16)])"

definition py_repr_str :: "string \<Rightarrow> string" where
  "py_repr_str s =
     (let q = (if CHR 0x27 \<in> set s \<and> CHR 0x22 \<notin> set s then CHR 0x22 else CHR 0x27)
      in q # concat (map (py_repr_char q) s) @ [q])"

fun py_repr :: "json \<Rightarrow> string" where
  "py_repr JNull = ''None''"
| "py_repr (JBool b) = (if b then ''True'' else ''False'')"
| "py_repr (JInt n) = int_str n"
| "py_repr (JStr s) = py_repr_str s"
| "py_repr (JList xs) = ''['' @ join '', '' (map py_repr xs) @ '']''"
| "py_repr (JObj kvs) =
     CHR ''{'' # join '', '' (map (\<lambda>kv. py_repr_str (fst kv) @ '': '' @ py_repr (snd kv)) kvs) @ ''}''"

definition py_str :: "json \<Rightarrow> string" where
  "py_str v = (case v of JStr s \<Rightarrow> s | _ \<Rightarrow> py_repr v)"

definition truthy :: "json \<Rightarrow> bool" where
  "truthy v = (case v of JNull \<Rightarrow> False | JBool b \<Rightarrow> b | JInt n \<Rightarrow> n \<noteq> 0 | JStr s \<Rightarrow> s \<noteq> []
     | JList xs \<Rightarrow> xs \<noteq> [] | JObj kvs \<Rightarrow> kvs \<noteq> [])"

definition dict_get :: "dict \<Rightarrow> string \<Rightarrow> json" where
  "dict_get d k = (case map_of d k of None \<Rightarrow> JNull | Some v \<Rightarrow> v)"

section \<open>The gateway's signature\<close>

definition hmac_signature :: "string \<Rightarrow> dict \<Rightarrow> string" where
  "hmac_signature secret envelope =
     hexdigest (hmac_sha256 (utf8 secret) (utf8 (json_dumps (JObj envelope))))"

datatype gateway_error = GatewayRuntimeError string

definition signed_runtime_meta :: "string option \<Rightarrow> dict \<Rightarrow> gateway_error + dict" where
  "signed_runtime_meta secret envelope =
     (case secret of
        None \<Rightarrow> Inl (GatewayRuntimeError ''Remote MCP calls require a secret reference for signed runtime scope.'')
      | Some s \<Rightarrow>
          if s = [] then
            Inl (GatewayRuntimeError ''Remote MCP calls require a secret reference for signed runtime scope.'')
          else Inr [(''ai.xyena/runtime'', JObj envelope),
                    (''ai.xyena/signature'', JStr (hmac_signature s envelope)),
                    (''ai.xyena/signature-algorithm'', JStr ''hmac-sha256'')])"

section \<open>The services' verification\<close>

text \<open>
  The fields every service requires; the ledger and the bank add the Guardian's decision
  and authorization. The bank's \<open>authorization_consumed\<close> is always true in an accepted
  scope and is no field of the record.
\<close>

record runtime_scope =
  sc_tenant_id :: string
  sc_organization_id :: string
  sc_user_id :: string
  sc_session_id :: string
  sc_run_id :: string
  sc_call_id :: string
  sc_correlation_id :: string
  sc_agent_name :: string
  sc_canonical_name :: string
  sc_purpose :: string
  sc_request_hash :: string

record guarded_scope = runtime_scope +
  sc_guardian_decision_id :: string
  sc_authorization_id :: string

definition scope_fields :: "string list" where
  "scope_fields = [''tenant_id'', ''organization_id'', ''user_id'', ''session_id'', ''run_id'',
     ''call_id'', ''correlation_id'', ''agent_name'', ''canonical_name'', ''purpose'', ''request_hash'']"

definition guarded_scope_fields :: "string list" where
  "guarded_scope_fields = scope_fields @ [''guardian_decision_id'', ''authorization_id'']"

definition has_fields :: "string list \<Rightarrow> dict \<Rightarrow> bool" where
  "has_fields required envelope = list_all (\<lambda>k. k \<in> fst ` set envelope) required"

datatype scope_error = SecurityError string | DigestTypeError

text \<open>
  The part the three functions share: both parts present, the algorithm, the comparison
  of the signatures. \<open>hmac.compare_digest\<close> raises \<open>TypeError\<close> on a string with
  characters outside ASCII.
\<close>

definition verified_envelope ::
    "string \<Rightarrow> string \<Rightarrow> string \<Rightarrow> dict \<Rightarrow> scope_error + dict" where
  "verified_envelope alg_msg sig_msg secret meta =
     (case (dict_get meta ''ai.xyena/runtime'', dict_get meta ''ai.xyena/signature'') of
        (JObj envelope, JStr supplied) \<Rightarrow>
          if dict_get meta ''ai.xyena/signature-algorithm'' \<noteq> JStr ''hmac-sha256''
          then Inl (SecurityError alg_msg)
          else if \<not> list_all (\<lambda>c. of_char c < (128::nat)) supplied then Inl DigestTypeError
          else if supplied \<noteq> hmac_signature secret envelope then Inl (SecurityError sig_msg)
          else Inr envelope
      | _ \<Rightarrow> Inl (SecurityError ''Signed Xyena runtime scope is required.''))"

definition make_scope :: "dict \<Rightarrow> runtime_scope" where
  "make_scope envelope =
     (let f = (\<lambda>k. py_str (dict_get envelope k)) in
      \<lparr>sc_tenant_id = f ''tenant_id'', sc_organization_id = f ''organization_id'',
       sc_user_id = f ''user_id'', sc_session_id = f ''session_id'', sc_run_id = f ''run_id'',
       sc_call_id = f ''call_id'', sc_correlation_id = f ''correlation_id'',
       sc_agent_name = f ''agent_name'', sc_canonical_name = f ''canonical_name'',
       sc_purpose = f ''purpose'', sc_request_hash = f ''request_hash''\<rparr>)"

definition make_guarded_scope :: "dict \<Rightarrow> guarded_scope" where
  "make_guarded_scope envelope =
     runtime_scope.extend (make_scope envelope)
       (guarded_scope.fields (py_str (dict_get envelope ''guardian_decision_id''))
         (py_str (dict_get envelope ''authorization_id'')))"

definition ledger_verify_runtime_scope ::
    "string \<Rightarrow> dict \<Rightarrow> string \<Rightarrow> scope_error + guarded_scope" where
  "ledger_verify_runtime_scope secret meta expected_tool =
     (case verified_envelope ''Unsupported runtime signature algorithm.''
         ''Runtime scope signature is invalid.'' secret meta of
        Inl e \<Rightarrow> Inl e
      | Inr envelope \<Rightarrow>
          if \<not> has_fields guarded_scope_fields envelope
             \<or> dict_get envelope ''canonical_name'' \<noteq> JStr expected_tool
          then Inl (SecurityError ''Runtime scope is incomplete or bound to another tool.'')
          else if py_strip (py_str (dict_get envelope ''purpose'')) = []
          then Inl (SecurityError ''A signed purpose is required.'')
          else if \<not> truthy (dict_get envelope ''guardian_decision_id'')
             \<or> \<not> truthy (dict_get envelope ''authorization_id'')
          then Inl (SecurityError ''Guardian decision and consumed authorization are required.'')
          else Inr (make_guarded_scope envelope))"

definition bank_verify_runtime_scope ::
    "string \<Rightarrow> dict \<Rightarrow> string \<Rightarrow> scope_error + guarded_scope" where
  "bank_verify_runtime_scope secret meta expected_tool =
     (case verified_envelope ''Unsupported runtime scope signature algorithm.''
         ''Xyena runtime scope signature is invalid.'' secret meta of
        Inl e \<Rightarrow> Inl e
      | Inr envelope \<Rightarrow>
          if \<not> has_fields (guarded_scope_fields @ [''authorization_consumed'']) envelope
          then Inl (SecurityError ''Xyena runtime scope is incomplete.'')
          else if dict_get envelope ''canonical_name'' \<noteq> JStr expected_tool
          then Inl (SecurityError ''Runtime scope tool name does not match this handler.'')
          else if py_strip (py_str (dict_get envelope ''purpose'')) = []
          then Inl (SecurityError ''A signed purpose is required.'')
          else if \<not> truthy (dict_get envelope ''guardian_decision_id'')
             \<or> \<not> truthy (dict_get envelope ''authorization_id'')
             \<or> dict_get envelope ''authorization_consumed'' \<noteq> JBool True
          then Inl (SecurityError ''Guardian decision and consumed authorization are required.'')
          else Inr (make_guarded_scope envelope))"

definition funder_verify_runtime_scope ::
    "string \<Rightarrow> dict \<Rightarrow> string \<Rightarrow> scope_error + runtime_scope" where
  "funder_verify_runtime_scope secret meta expected_tool =
     (case verified_envelope ''Unsupported runtime signature algorithm.''
         ''Xyena runtime scope signature is invalid.'' secret meta of
        Inl e \<Rightarrow> Inl e
      | Inr envelope \<Rightarrow>
          if \<not> has_fields scope_fields envelope
          then Inl (SecurityError ''Xyena runtime scope is incomplete.'')
          else if dict_get envelope ''canonical_name'' \<noteq> JStr expected_tool
          then Inl (SecurityError ''Runtime tool name does not match this marketplace handler.'')
          else if py_strip (py_str (dict_get envelope ''purpose'')) = []
          then Inl (SecurityError ''A signed funding purpose is required.'')
          else Inr (make_scope envelope))"

section \<open>What verification guarantees\<close>

lemma dict_get_Cons [simp]:
  "dict_get ((k', v) # d) k = (if k = k' then v else dict_get d k)"
  by (simp add: dict_get_def)

lemma dict_get_Nil [simp]: "dict_get [] k = JNull"
  by (simp add: dict_get_def)

lemma py_str_JStr [simp]: "py_str (JStr s) = s"
  by (simp add: py_str_def)

lemma truthy_JStr [simp]: "truthy (JStr s) \<longleftrightarrow> s \<noteq> []"
  by (simp add: truthy_def)

lemma hex_char_ascii: "d < 16 \<Longrightarrow> (of_char (hex_char d) :: nat) < 128"
  by (simp add: hex_char_def take_bit_eq_mod)

lemma be_bytes_bound: "b \<in> set (be_bytes w n) \<Longrightarrow> b < 256"
  by (auto simp: be_bytes_def)

lemma hexdigest_ascii:
  assumes "\<And>b. b \<in> set bs \<Longrightarrow> b < 256"
  shows "list_all (\<lambda>c. (of_char c :: nat) < 128) (hexdigest bs)"
  using assms
  by (auto simp: hexdigest_def byte_hex_def list_all_iff intro!: hex_char_ascii
      dest: assms)

lemma hmac_signature_ascii: "list_all (\<lambda>c. (of_char c :: nat) < 128) (hmac_signature secret envelope)"
  unfolding hmac_signature_def hmac_sha256_def Let_def sha256_bytes_def
  by (rule hexdigest_ascii) (auto dest: be_bytes_bound)

lemma verified_envelope_iff:
  "verified_envelope am sm secret meta = Inr envelope \<longleftrightarrow>
     dict_get meta ''ai.xyena/runtime'' = JObj envelope \<and>
     dict_get meta ''ai.xyena/signature'' = JStr (hmac_signature secret envelope) \<and>
     dict_get meta ''ai.xyena/signature-algorithm'' = JStr ''hmac-sha256''"
  using hmac_signature_ascii [of secret envelope]
  by (auto simp: verified_envelope_def split: json.splits if_splits)

lemma signed_meta_verified:
  "signed_runtime_meta (Some secret) envelope = Inr meta \<Longrightarrow>
     verified_envelope am sm secret meta = Inr envelope"
  by (auto simp: signed_runtime_meta_def verified_envelope_iff split: if_splits)

lemma verified_envelope_inject:
  assumes "verified_envelope am sm secret meta = Inr e" "verified_envelope am' sm' secret meta' = Inr e'"
    and "dict_get meta ''ai.xyena/signature'' = dict_get meta' ''ai.xyena/signature''"
  shows "canon (JObj e) = canon (JObj e') \<or>
    (json_dumps (JObj e) \<noteq> json_dumps (JObj e') \<and> hmac_signature secret e = hmac_signature secret e')"
  using assms by (auto simp: verified_envelope_iff json_dumps_inject)

end
