(* ===== verification/PyDecimal.thy ===== *)
theory PyDecimal
  imports Prelude
begin

text \<open>
  The part of Python's \<open>decimal\<close> module the payment services use: the constructor from a
  string, \<open>quantize(Decimal("0.01"))\<close> in the default context (28 digits, half-even) and
  \<open>str\<close>. A quantised amount is the integer number of hundredths, so \<open>1234\<close> is
  \<open>Decimal("12.34")\<close>. Strings are over 8-bit characters; the digits of other scripts
  that Python also accepts are outside the model, and so are exponents beyond the
  module's limit of eighteen digits.
\<close>

section \<open>Values and literals\<close>

datatype decimal =
    Finite (dec_neg: bool) (dec_coeff: nat) (dec_exp: int)
  | Infinity bool
  | QNaN
  | SNaN

definition lower_char :: "char \<Rightarrow> char" where
  "lower_char c = (let n = (of_char c :: nat) in if 65 \<le> n \<and> n \<le> 90 then char_of (n + 32) else c)"

definition py_lower :: "string \<Rightarrow> string" where
  "py_lower = map lower_char"

definition upper_char :: "char \<Rightarrow> char" where
  "upper_char c = (let n = (of_char c :: nat) in if 97 \<le> n \<and> n \<le> 122 then char_of (n - 32) else c)"

definition py_upper :: "string \<Rightarrow> string" where
  "py_upper = map upper_char"

fun split_sign :: "string \<Rightarrow> bool \<times> string" where
  "split_sign (c # cs) =
     (if c = CHR ''-'' then (True, cs) else if c = CHR ''+'' then (False, cs) else (False, c # cs))"
| "split_sign [] = (False, [])"

definition split_fraction :: "string \<Rightarrow> string \<times> string" where
  "split_fraction s =
     (case s of c # cs \<Rightarrow>
        if c = CHR ''.'' then (takeWhile is_digit cs, dropWhile is_digit cs) else ([], s)
      | [] \<Rightarrow> ([], []))"

definition parse_exponent :: "string \<Rightarrow> int option" where
  "parse_exponent s =
     (case s of [] \<Rightarrow> Some 0
      | c # cs \<Rightarrow>
          if c \<noteq> CHR ''e'' \<and> c \<noteq> CHR ''E'' then None
          else case split_sign cs of (neg, ds) \<Rightarrow>
            if ds = [] \<or> \<not> list_all is_digit ds then None
            else Some (if neg then - int (str_nat ds) else int (str_nat ds)))"

definition parse_special :: "bool \<Rightarrow> string \<Rightarrow> decimal option" where
  "parse_special neg s =
     (let t = py_lower s in
      if t = ''inf'' \<or> t = ''infinity'' then Some (Infinity neg)
      else if take 3 t = ''nan'' \<and> list_all is_digit (drop 3 t) then Some QNaN
      else if take 4 t = ''snan'' \<and> list_all is_digit (drop 4 t) then Some SNaN
      else None)"

text \<open>\<open>Decimal(value)\<close>; \<open>None\<close> is the \<open>InvalidOperation\<close> of a malformed literal.\<close>

definition decimal_of_string :: "string \<Rightarrow> decimal option" where
  "decimal_of_string value =
     (case split_sign (filter (\<lambda>c. c \<noteq> CHR ''_'') (py_strip value)) of (neg, body) \<Rightarrow>
      let ipart = takeWhile is_digit body in
      case split_fraction (dropWhile is_digit body) of (fpart, rest) \<Rightarrow>
      if ipart = [] \<and> fpart = [] then parse_special neg body
      else map_option (\<lambda>e. Finite neg (str_nat (ipart @ fpart)) (e - int (length fpart)))
             (parse_exponent rest))"

section \<open>Quantisation to hundredths\<close>

definition div_half_even :: "nat \<Rightarrow> nat \<Rightarrow> nat" where
  "div_half_even a b =
     (let q = a div b; r = a mod b in
      if 2 * r < b \<or> (2 * r = b \<and> even q) then q else q + 1)"

definition rescale_cents :: "nat \<Rightarrow> int \<Rightarrow> nat" where
  "rescale_cents c e =
     (if 0 \<le> e + 2 then c * 10 ^ nat (e + 2) else div_half_even c (10 ^ nat (- (e + 2))))"

datatype quantized = Cents int | NotANumber

text \<open>
  \<open>Decimal(value).quantize(Decimal("0.01"))\<close>; \<open>None\<close> is \<open>InvalidOperation\<close> (a
  malformed literal, an infinity, a signalling NaN or a result of more than 28 digits).
\<close>

definition quantize_cents :: "string \<Rightarrow> quantized option" where
  "quantize_cents value =
     (case decimal_of_string value of
        None \<Rightarrow> None
      | Some (Finite neg c e) \<Rightarrow>
          let n = rescale_cents c e in
          if n \<ge> 10 ^ 28 then None else Some (Cents (if neg then - int n else int n))
      | Some (Infinity _) \<Rightarrow> None
      | Some QNaN \<Rightarrow> Some NotANumber
      | Some SNaN \<Rightarrow> None)"

text \<open>\<open>str\<close> of a decimal with two fractional digits.\<close>

definition cents_str :: "int \<Rightarrow> string" where
  "cents_str n =
     (let m = nat \<bar>n\<bar> in
      (if n < 0 then ''-'' else '''') @ nat_str (m div 100) @ ''.'' @ padded 2 (m mod 100))"

section \<open>Rounding error and round trip\<close>

lemma div_half_even_error:
  assumes "0 < b"
  shows "\<bar>2 * (int (div_half_even a b) * int b - int a)\<bar> \<le> int b"
proof -
  have r: "a mod b < b" using assms by simp
  have a: "int a = int (a div b) * int b + int (a mod b)"
    by (metis div_mult_mod_eq of_nat_add of_nat_mult)
  show ?thesis
  proof (cases "2 * (a mod b) < b \<or> (2 * (a mod b) = b \<and> even (a div b))")
    case True
    then have "div_half_even a b = a div b" by (auto simp: div_half_even_def Let_def)
    moreover have "2 * int (a mod b) \<le> int b" using True by linarith
    ultimately show ?thesis using a by simp
  next
    case False
    then have "div_half_even a b = a div b + 1" by (auto simp: div_half_even_def Let_def)
    moreover have "int b \<le> 2 * int (a mod b)" using False by linarith
    ultimately show ?thesis using a r by (simp add: algebra_simps)
  qed
qed

lemma takeWhile_all: "(\<And>c. c \<in> set s \<Longrightarrow> is_digit c) \<Longrightarrow> takeWhile is_digit s = s"
  by (induction s) auto

lemma not_digit_chars [simp]:
  "\<not> is_digit CHR ''-''" "\<not> is_digit CHR ''+''" "\<not> is_digit CHR ''_''" "\<not> is_digit CHR ''.''"
  by (simp_all add: is_digit_def)

lemma split_sign_digits:
  assumes "\<And>c. c \<in> set s \<Longrightarrow> is_digit c" "s \<noteq> []"
  shows "split_sign (s @ t) = (False, s @ t)"
proof (cases s)
  case (Cons c cs)
  then have "is_digit c" using assms(1) by simp
  then have "c \<noteq> CHR ''-''" "c \<noteq> CHR ''+''" by (metis not_digit_chars)+
  with Cons show ?thesis by simp
qed (use assms(2) in simp)

lemma filter_underscore_digits:
  assumes "\<And>c. c \<in> set s \<Longrightarrow> is_digit c"
  shows "filter (\<lambda>c. c \<noteq> CHR ''_'') s = s"
proof (rule filter_True, rule ballI, rule notI)
  fix c
  assume "c \<in> set s" "c = CHR ''_''"
  then show False using assms [of c] not_digit_chars(3) by simp
qed

lemma decimal_of_cents_str:
  fixes n :: nat
  shows "decimal_of_string (cents_str (int n)) = Some (Finite False n (-2))"
proof -
  let ?i = "nat_str (n div 100)" and ?f = "padded 2 (n mod 100)"
  have di: "\<And>c. c \<in> set ?i \<Longrightarrow> is_digit c" by (rule nat_str_digits)
  have df: "\<And>c. c \<in> set ?f \<Longrightarrow> is_digit c" by (rule padded_digits)
  have f0: "?f \<noteq> []" by (metis length_padded length_0_conv zero_neq_numeral)
  have s: "cents_str (int n) = ?i @ ''.'' @ ?f"
    by (simp add: cents_str_def Let_def nat_mod_distrib nat_div_distrib)
  have "py_strip (?i @ ''.'' @ ?f) = ?i @ ''.'' @ ?f"
  proof (rule py_strip_plain)
    show "?i @ ''.'' @ ?f \<noteq> []" by simp
    have "hd (?i @ ''.'' @ ?f) \<in> set ?i" by simp
    then show "\<not> py_isspace (hd (?i @ ''.'' @ ?f))" using di is_digit_not_space by blast
    have "last (?i @ ''.'' @ ?f) \<in> set ?f" using f0 by (simp add: last_append)
    then show "\<not> py_isspace (last (?i @ ''.'' @ ?f))" using df is_digit_not_space by blast
  qed
  moreover have "filter (\<lambda>c. c \<noteq> CHR ''_'') (?i @ ''.'' @ ?f) = ?i @ ''.'' @ ?f"
    using di df by (simp add: filter_underscore_digits)
  moreover have "split_sign (?i @ ''.'' @ ?f) = (False, ?i @ ''.'' @ ?f)"
    using di by (intro split_sign_digits) simp_all
  moreover have "takeWhile is_digit (?i @ ''.'' @ ?f) = ?i"
    using di by (subst takeWhile_append2) simp_all
  moreover have "dropWhile is_digit (?i @ ''.'' @ ?f) = ''.'' @ ?f"
    using di by (subst dropWhile_append2) simp_all
  moreover have "split_fraction (''.'' @ ?f) = (?f, [])"
    using df by (simp add: split_fraction_def takeWhile_all dropWhile_eq_Nil_conv)
  moreover have "str_nat (?i @ ?f) = n"
    by (simp add: str_nat_append str_nat_padded)
  ultimately show ?thesis
    by (simp add: decimal_of_string_def s parse_exponent_def del: append.simps)
qed

lemma quantize_cents_str:
  "0 \<le> n \<Longrightarrow> n < 10 ^ 28 \<Longrightarrow> quantize_cents (cents_str n) = Some (Cents n)"
proof -
  assume n: "0 \<le> n" "n < 10 ^ 28"
  then obtain m where m: "n = int m" by (metis nat_0_le)
  then have "m < 10 ^ 28" using n(2) by simp
  with m show ?thesis
    using decimal_of_cents_str [of m] by (simp add: quantize_cents_def rescale_cents_def)
qed

lemma cents_str_inject: "0 \<le> m \<Longrightarrow> 0 \<le> n \<Longrightarrow> cents_str m = cents_str n \<longleftrightarrow> m = n"
  using decimal_of_cents_str [of "nat m"] decimal_of_cents_str [of "nat n"] by auto

text \<open>A finite literal is quantised to the nearest hundredth: the error is at most half of one.\<close>

lemma rescale_cents_error:
  "e + 2 < 0 \<Longrightarrow>
     \<bar>2 * (int (rescale_cents c e) * 10 ^ nat (- (e + 2)) - int c)\<bar> \<le> 10 ^ nat (- (e + 2))"
  using div_half_even_error [of "10 ^ nat (- (e + 2))" c] by (simp add: rescale_cents_def)

end
