(* ===== verification/PyTime.thy ===== *)
theory PyTime
  imports Prelude
begin

text \<open>
  Python's \<open>datetime\<close> as far as the services use it. An instant is the number of
  microseconds since 1970-01-01T00:00 UTC (\<open>time\<close>); \<open>datetime.now(UTC)\<close> is an input
  of an operation. A \<open>datetime\<close> that arrives in a request also carries its UTC offset in
  minutes, or none (a naive datetime). \<open>isoformat\<close> prints either. A \<open>date\<close> is its day
  number.
\<close>

definition seconds :: "int \<Rightarrow> time" where "seconds n = n * 1000000"
definition minutes :: "int \<Rightarrow> time" where "minutes n = seconds (60 * n)"
definition hours :: "int \<Rightarrow> time" where "hours n = minutes (60 * n)"
definition days :: "int \<Rightarrow> time" where "days n = hours (24 * n)"

lemmas timedelta_defs = seconds_def minutes_def hours_def days_def

record datetime =
  wall :: int
  tzoffset :: "int option"

definition instant :: "datetime \<Rightarrow> time" where
  "instant d = wall d - minutes (case tzoffset d of None \<Rightarrow> 0 | Some m \<Rightarrow> m)"

definition utc :: "time \<Rightarrow> datetime" where
  "utc t = \<lparr>wall = t, tzoffset = Some 0\<rparr>"

lemma instant_utc [simp]: "instant (utc t) = t"
  by (simp add: instant_def utc_def timedelta_defs)

text \<open>The proleptic Gregorian calendar: day number to year, month and day.\<close>

definition civil_of_days :: "int \<Rightarrow> int \<times> int \<times> int" where
  "civil_of_days n =
     (let z = n + 719468; era = z div 146097; doe = z mod 146097;
          yoe = (doe - doe div 1460 + doe div 36524 - doe div 146096) div 365;
          doy = doe - (365 * yoe + yoe div 4 - yoe div 100);
          mp = (5 * doy + 2) div 153;
          d = doy - (153 * mp + 2) div 5 + 1;
          m = (if mp < 10 then mp + 3 else mp - 9)
      in (yoe + era * 400 + (if m \<le> 2 then 1 else 0), m, d))"

definition date_iso :: "int \<Rightarrow> string" where
  "date_iso n =
     (case civil_of_days n of (y, m, d) \<Rightarrow>
        padded 4 (nat y) @ ''-'' @ padded 2 (nat m) @ ''-'' @ padded 2 (nat d))"

definition time_iso :: "int \<Rightarrow> string" where
  "time_iso us =
     (let s = us div 1000000; f = us mod 1000000 in
      padded 2 (nat (s div 3600)) @ '':'' @ padded 2 (nat (s div 60 mod 60)) @ '':'' @
      padded 2 (nat (s mod 60)) @ (if f = 0 then '''' else ''.'' @ padded 6 (nat f)))"

definition offset_iso :: "int option \<Rightarrow> string" where
  "offset_iso z =
     (case z of None \<Rightarrow> ''''
      | Some m \<Rightarrow> (if m < 0 then ''-'' else ''+'') @ padded 2 (nat (\<bar>m\<bar> div 60)) @ '':'' @
          padded 2 (nat (\<bar>m\<bar> mod 60)))"

definition isoformat :: "datetime \<Rightarrow> string" where
  "isoformat d =
     date_iso (wall d div days 1) @ ''T'' @ time_iso (wall d mod days 1) @ offset_iso (tzoffset d)"

abbreviation iso_utc :: "time \<Rightarrow> string" where
  "iso_utc t \<equiv> isoformat (utc t)"

lemma iso_utc_epoch: "iso_utc 1735732800000000 = ''2025-01-01T12:00:00+00:00''"
  by code_simp

end
