(* ===== verification/Ledger.thy ===== *)
theory Ledger
  imports RuntimeScope PyDecimal PyTime
begin

text \<open>
  The ledger and payment service (demos/ledger-payment/ledger_demo): its tables
  (models.py), every operation of \<open>LedgerService\<close> (service.py), the MCP tools that call
  them (mcp.py) and the settlement route (main.py), and the seed. The columns of the
  tables are the fields of the records; an amount of type \<open>Numeric(18, 2)\<close> is its number
  of hundredths. A call of \<open>uuid4()\<close> is the next element of the environment's supply of
  hexadecimal strings and \<open>datetime.now(UTC)\<close> is one reading of the clock per operation.
  The service takes no row locks, so a run of requests stands for requests served one after
  the other; concurrent ones are outside the model.
\<close>

section \<open>Tables\<close>

record ledger_account =
  la_account_id :: string
  la_tenant_id :: string
  la_code :: string
  la_name :: string
  la_account_type :: string
  la_normal_side :: string
  la_currency :: string
  la_balance :: int
  la_status :: string
  la_version :: int

record journal_entry =
  je_journal_id :: string
  je_tenant_id :: string
  je_financing_case_id :: string
  je_entry_type :: string
  je_description :: string
  je_currency :: string
  je_total_debits :: int
  je_total_credits :: int
  je_status :: string
  je_idempotency_key :: string
  je_canonical_action_hash :: string
  je_guardian_call_id :: "string option"
  je_guardian_decision_id :: "string option"
  je_reversal_of_journal_id :: "string option"
  je_reviewer_approval_id :: "string option"
  je_created_at :: time
  je_posted_at :: "time option"

record journal_line =
  jl_line_id :: string
  jl_journal_id :: string
  jl_account_id :: string
  jl_side :: string
  jl_amount :: int
  jl_currency :: string
  jl_reference :: string

record payment_instruction =
  pi_payment_id :: string
  pi_tenant_id :: string
  pi_journal_id :: string
  pi_financing_case_id :: string
  pi_source_account_token :: string
  pi_beneficiary_token :: string
  pi_amount :: int
  pi_currency :: string
  pi_rail :: string
  pi_client_idempotency_key :: string
  pi_bank_proposed_action_id :: "string option"
  pi_bank_action_hash :: "string option"
  pi_bank_execution_id :: "string option"
  pi_bank_reference :: "string option"
  pi_status :: string
  pi_created_at :: time
  pi_updated_at :: time

record settlement_receipt =
  sr_receipt_id :: string
  sr_tenant_id :: string
  sr_payment_id :: string
  sr_bank_execution_id :: string
  sr_bank_reference :: string
  sr_amount :: int
  sr_currency :: string
  sr_settled_at :: datetime
  sr_evidence_hash :: string

record reconciliation_record =
  rr_reconciliation_id :: string
  rr_tenant_id :: string
  rr_payment_id :: string
  rr_journal_id :: string
  rr_settlement_receipt_id :: "string option"
  rr_status :: string
  rr_variance_amount :: int
  rr_reason :: "string option"
  rr_reconciled_at :: "time option"

record ledger_audit_event =
  lau_id :: string
  lau_tenant_id :: string
  lau_user_id :: string
  lau_call_id :: string
  lau_tool_name :: string
  lau_outcome :: string
  lau_detail :: string
  lau_occurred_at :: time

record ledger_outbox_event =
  lob_id :: string
  lob_tenant_id :: string
  lob_aggregate_type :: string
  lob_aggregate_id :: string
  lob_event_type :: string
  lob_payload :: json
  lob_occurred_at :: time
  lob_published_at :: "time option"

record ledger_inbox_event =
  lib_event_id :: string
  lib_tenant_id :: string
  lib_event_type :: string
  lib_payload_hash :: string
  lib_processed_at :: time

record ledger_db =
  accounts :: "ledger_account list"
  journals :: "journal_entry list"
  journal_lines :: "journal_line list"
  payments :: "payment_instruction list"
  receipts :: "settlement_receipt list"
  reconciliations :: "reconciliation_record list"
  ledger_audits :: "ledger_audit_event list"
  ledger_outbox :: "ledger_outbox_event list"
  ledger_inbox :: "ledger_inbox_event list"

text \<open>The primary keys, unique constraints and foreign keys of models.py.\<close>

definition ledger_keys :: "ledger_db \<Rightarrow> bool" where
  "ledger_keys db \<longleftrightarrow>
     unique_by (Some \<circ> la_account_id) (accounts db) \<and>
     unique_by (Some \<circ> je_journal_id) (journals db) \<and>
     unique_by (\<lambda>j. Some (je_tenant_id j, je_idempotency_key j)) (journals db) \<and>
     unique_by (\<lambda>j. pair_key (Some (je_tenant_id j)) (je_guardian_call_id j)) (journals db) \<and>
     unique_by (Some \<circ> jl_line_id) (journal_lines db) \<and>
     unique_by (Some \<circ> pi_payment_id) (payments db) \<and>
     unique_by (\<lambda>p. Some (pi_tenant_id p, pi_client_idempotency_key p)) (payments db) \<and>
     unique_by pi_bank_execution_id (payments db) \<and>
     unique_by pi_bank_reference (payments db) \<and>
     unique_by (Some \<circ> sr_receipt_id) (receipts db) \<and>
     unique_by (Some \<circ> sr_payment_id) (receipts db) \<and>
     unique_by (Some \<circ> sr_bank_execution_id) (receipts db) \<and>
     unique_by (Some \<circ> sr_bank_reference) (receipts db) \<and>
     unique_by (Some \<circ> rr_reconciliation_id) (reconciliations db) \<and>
     unique_by (Some \<circ> rr_payment_id) (reconciliations db) \<and>
     unique_by (Some \<circ> lau_id) (ledger_audits db) \<and>
     unique_by (Some \<circ> lob_id) (ledger_outbox db) \<and>
     unique_by (Some \<circ> lib_event_id) (ledger_inbox db)"

definition ledger_foreign_keys :: "ledger_db \<Rightarrow> bool" where
  "ledger_foreign_keys db \<longleftrightarrow>
     (\<forall>l\<in>set (journal_lines db).
        jl_journal_id l \<in> je_journal_id ` set (journals db) \<and>
        jl_account_id l \<in> la_account_id ` set (accounts db))"

definition ledger_constraints :: "ledger_db \<Rightarrow> bool" where
  "ledger_constraints db \<longleftrightarrow> ledger_keys db \<and> ledger_foreign_keys db"

datatype ledger_error =
    LedgerDomainError string
  | LedgerSecurityError string
  | LedgerAttributeError
  | LedgerIntegrityError
  | LedgerTypeError
  | LedgerUnauthorized string

record ledger_env =
  lenv_now :: time
  lenv_uuid :: "nat \<Rightarrow> string"

definition prefixed :: "string \<Rightarrow> nat \<Rightarrow> string \<Rightarrow> string" where
  "prefixed p n hex = p @ take n hex"

section \<open>Helpers\<close>

text \<open>\<open>_amount\<close>, \<open>_hash\<close>, the guards of double entry and the two lookups.\<close>

definition ledger_amount :: "string \<Rightarrow> ledger_error + int" where
  "ledger_amount value =
     (case quantize_cents value of
        None \<Rightarrow> Inl (LedgerDomainError ''Amount must be a decimal value.'')
      | Some NotANumber \<Rightarrow> Inl (LedgerDomainError ''Amount must be greater than zero.'')
      | Some (Cents n) \<Rightarrow>
          if n \<le> 0 then Inl (LedgerDomainError ''Amount must be greater than zero.'') else Inr n)"

definition ledger_hash :: "dict \<Rightarrow> string" where
  "ledger_hash value = sha256_hex (json_dumps (JObj value))"

definition get_account :: "ledger_db \<Rightarrow> string \<Rightarrow> string \<Rightarrow> ledger_error + ledger_account" where
  "get_account db tenant_id account_id =
     found (LedgerDomainError ''Ledger account was not found in the tenant.'')
       (scalar (\<lambda>a. la_account_id a = account_id \<and> la_tenant_id a = tenant_id
                  \<and> la_status a = ''ACTIVE'') (accounts db))"

definition find_journal :: "ledger_db \<Rightarrow> string \<Rightarrow> string \<Rightarrow> ledger_error + journal_entry" where
  "find_journal db tenant_id journal_id =
     found (LedgerDomainError ''Journal was not found in the tenant.'')
       (scalar (\<lambda>j. je_journal_id j = journal_id \<and> je_tenant_id j = tenant_id) (journals db))"

definition lines_of :: "ledger_db \<Rightarrow> string \<Rightarrow> journal_line list" where
  "lines_of db journal_id = scalars (\<lambda>l. jl_journal_id l = journal_id) (journal_lines db)"

definition post_amount :: "ledger_account \<Rightarrow> journal_line \<Rightarrow> int" where
  "post_amount account line =
     (if jl_side line = la_normal_side account then jl_amount line else - jl_amount line)"

definition post_line :: "string \<Rightarrow> journal_line \<Rightarrow> ledger_db \<Rightarrow> ledger_error + ledger_db" where
  "post_line tenant_id line db =
     sum_bind (get_account db tenant_id (jl_account_id line)) (\<lambda>account.
       Inr (db\<lparr>accounts := update_rows (\<lambda>a. la_account_id a = la_account_id account)
              (\<lambda>a. a\<lparr>la_balance := la_balance a + post_amount a line,
                     la_version := la_version a + 1\<rparr>) (accounts db)\<rparr>))"

fun post_lines :: "string \<Rightarrow> journal_line list \<Rightarrow> ledger_db \<Rightarrow> ledger_error + ledger_db" where
  "post_lines tenant_id [] db = Inr db"
| "post_lines tenant_id (line # lines) db =
     sum_bind (post_line tenant_id line db) (post_lines tenant_id lines)"

definition side_total :: "string \<Rightarrow> journal_line list \<Rightarrow> int" where
  "side_total side lines = sum_list (map jl_amount (filter (\<lambda>l. jl_side l = side) lines))"

definition assert_balanced :: "journal_entry \<Rightarrow> ledger_error + unit" where
  "assert_balanced journal =
     (if je_total_debits journal \<noteq> je_total_credits journal \<or> je_total_debits journal \<le> 0
      then Inl (LedgerDomainError ''Journal debits and credits must be equal and positive.'')
      else Inr ())"

definition assert_lines_balanced :: "journal_line list \<Rightarrow> ledger_error + unit" where
  "assert_lines_balanced lines =
     (let debits = side_total ''DEBIT'' lines; credits = side_total ''CREDIT'' lines in
      if debits \<noteq> credits \<or> debits \<le> 0
      then Inl (LedgerDomainError ''Journal lines violate the double-entry invariant.'')
      else Inr ())"

definition ledger_audit ::
    "ledger_env \<Rightarrow> nat \<Rightarrow> guarded_scope \<Rightarrow> string \<Rightarrow> dict \<Rightarrow> ledger_db \<Rightarrow> ledger_db" where
  "ledger_audit env i scope outcome detail db =
     db\<lparr>ledger_audits := ledger_audits db @
       [\<lparr>lau_id = uuid_str (lenv_uuid env i), lau_tenant_id = sc_tenant_id scope,
         lau_user_id = sc_user_id scope, lau_call_id = sc_call_id scope,
         lau_tool_name = sc_canonical_name scope, lau_outcome = outcome,
         lau_detail = json_dumps_spaced (JObj detail), lau_occurred_at = lenv_now env\<rparr>]\<rparr>"

definition ledger_event ::
    "ledger_env \<Rightarrow> nat \<Rightarrow> string \<Rightarrow> string \<Rightarrow> string \<Rightarrow> string \<Rightarrow> json \<Rightarrow> ledger_db \<Rightarrow> ledger_db" where
  "ledger_event env i tenant_id aggregate_type aggregate_id event_type payload db =
     db\<lparr>ledger_outbox := ledger_outbox db @
       [\<lparr>lob_id = uuid_str (lenv_uuid env i), lob_tenant_id = tenant_id,
         lob_aggregate_type = aggregate_type, lob_aggregate_id = aggregate_id,
         lob_event_type = event_type, lob_payload = payload,
         lob_occurred_at = lenv_now env, lob_published_at = None\<rparr>]\<rparr>"

section \<open>Projections\<close>

definition account_projection :: "ledger_account \<Rightarrow> json" where
  "account_projection v = JObj
     [(''account_id'', JStr (la_account_id v)), (''code'', JStr (la_code v)),
      (''name'', JStr (la_name v)), (''account_type'', JStr (la_account_type v)),
      (''normal_side'', JStr (la_normal_side v)), (''currency'', JStr (la_currency v)),
      (''balance'', JStr (cents_str (la_balance v))), (''status'', JStr (la_status v)),
      (''version'', JInt (la_version v))]"

definition line_projection :: "journal_line \<Rightarrow> json" where
  "line_projection l = JObj
     [(''line_id'', JStr (jl_line_id l)), (''account_id'', JStr (jl_account_id l)),
      (''side'', JStr (jl_side l)), (''amount'', JStr (cents_str (jl_amount l))),
      (''currency'', JStr (jl_currency l)), (''reference'', JStr (jl_reference l))]"

definition journal_projection :: "journal_entry \<Rightarrow> journal_line list \<Rightarrow> json" where
  "journal_projection v lines = JObj
     [(''journal_id'', JStr (je_journal_id v)), (''financing_case_id'', JStr (je_financing_case_id v)),
      (''entry_type'', JStr (je_entry_type v)), (''description'', JStr (je_description v)),
      (''currency'', JStr (je_currency v)), (''total_debits'', JStr (cents_str (je_total_debits v))),
      (''total_credits'', JStr (cents_str (je_total_credits v))), (''status'', JStr (je_status v)),
      (''canonical_action_hash'', JStr (je_canonical_action_hash v)),
      (''reversal_of_journal_id'', JOpt (je_reversal_of_journal_id v)),
      (''posted_at'', JOpt (map_option iso_utc (je_posted_at v))),
      (''lines'', JList (map line_projection lines))]"

definition payment_projection :: "payment_instruction \<Rightarrow> json" where
  "payment_projection v = JObj
     [(''payment_id'', JStr (pi_payment_id v)), (''journal_id'', JStr (pi_journal_id v)),
      (''financing_case_id'', JStr (pi_financing_case_id v)),
      (''source_account_token'', JStr (pi_source_account_token v)),
      (''beneficiary_token'', JStr (pi_beneficiary_token v)),
      (''amount'', JStr (cents_str (pi_amount v))), (''currency'', JStr (pi_currency v)),
      (''rail'', JStr (pi_rail v)), (''status'', JStr (pi_status v)),
      (''bank_proposed_action_id'', JOpt (pi_bank_proposed_action_id v)),
      (''bank_execution_id'', JOpt (pi_bank_execution_id v)),
      (''bank_reference'', JOpt (pi_bank_reference v))]"

definition reconciliation_projection :: "reconciliation_record \<Rightarrow> json" where
  "reconciliation_projection v = JObj
     [(''reconciliation_id'', JStr (rr_reconciliation_id v)), (''payment_id'', JStr (rr_payment_id v)),
      (''journal_id'', JStr (rr_journal_id v)),
      (''settlement_receipt_id'', JOpt (rr_settlement_receipt_id v)),
      (''status'', JStr (rr_status v)), (''variance_amount'', JStr (cents_str (rr_variance_amount v))),
      (''reason'', JOpt (rr_reason v)),
      (''reconciled_at'', JOpt (map_option iso_utc (rr_reconciled_at v)))]"

definition disbursement_projection :: "ledger_db \<Rightarrow> journal_entry \<Rightarrow> payment_instruction \<Rightarrow> dict" where
  "disbursement_projection db journal payment =
     [(''status'', JStr (je_status journal)),
      (''journal'', journal_projection journal (lines_of db (je_journal_id journal))),
      (''payment'', payment_projection payment),
      (''execution_boundary'', JStr ''GUARDIAN_AUTHORIZED_MCP_ONLY''),
      (''security_flags'', JList [JStr ''SYNTHETIC_DATA'', JStr ''DOUBLE_ENTRY_BALANCED''])]"

section \<open>Reads\<close>

type_synonym ledger_op = "ledger_db \<Rightarrow> ledger_error + ledger_db \<times> json"

definition account_balance :: "ledger_env \<Rightarrow> guarded_scope \<Rightarrow> string \<Rightarrow> ledger_op" where
  "account_balance env scope account_id db =
     sum_bind (get_account db (sc_tenant_id scope) account_id) (\<lambda>value.
       Inr (ledger_audit env 0 scope ''SUCCESS'' [(''account_id'', JStr account_id)] db,
            account_projection value))"

definition get_journal :: "ledger_env \<Rightarrow> guarded_scope \<Rightarrow> string \<Rightarrow> ledger_op" where
  "get_journal env scope journal_id db =
     sum_bind (find_journal db (sc_tenant_id scope) journal_id) (\<lambda>value.
       Inr (ledger_audit env 0 scope ''SUCCESS'' [(''journal_id'', JStr journal_id)] db,
            journal_projection value (lines_of db journal_id)))"

definition payment_status :: "guarded_scope \<Rightarrow> string \<Rightarrow> ledger_op" where
  "payment_status scope payment_id db =
     sum_bind (found (LedgerDomainError ''Payment was not found in the signed tenant.'')
        (scalar (\<lambda>p. pi_payment_id p = payment_id \<and> pi_tenant_id p = sc_tenant_id scope) (payments db)))
       (\<lambda>value. Inr (db, payment_projection value))"

definition reconciliation :: "guarded_scope \<Rightarrow> string \<Rightarrow> ledger_op" where
  "reconciliation scope payment_id db =
     sum_bind (found (LedgerDomainError ''Reconciliation record was not found.'')
        (scalar (\<lambda>r. rr_payment_id r = payment_id \<and> rr_tenant_id r = sc_tenant_id scope)
           (reconciliations db)))
       (\<lambda>value. Inr (db, reconciliation_projection value))"

section \<open>Disbursements\<close>

record disbursement_request =
  dr_financing_case_id :: string
  dr_source_account_token :: string
  dr_beneficiary_token :: string
  dr_amount :: string
  dr_currency :: string
  dr_rail :: string
  dr_client_idempotency_key :: string

definition disbursement_action :: "guarded_scope \<Rightarrow> disbursement_request \<Rightarrow> int \<Rightarrow> dict" where
  "disbursement_action scope r value_amount =
     [(''tenant_id'', JStr (sc_tenant_id scope)), (''financing_case_id'', JStr (dr_financing_case_id r)),
      (''source_account_token'', JStr (dr_source_account_token r)),
      (''beneficiary_token'', JStr (dr_beneficiary_token r)),
      (''amount'', JStr (cents_str value_amount)), (''currency'', JStr (dr_currency r)),
      (''rail'', JStr (dr_rail r)), (''client_idempotency_key'', JStr (dr_client_idempotency_key r)),
      (''purpose'', JStr (sc_purpose scope))]"

definition new_disbursement_journal ::
    "ledger_env \<Rightarrow> guarded_scope \<Rightarrow> disbursement_request \<Rightarrow> int \<Rightarrow> journal_entry" where
  "new_disbursement_journal env scope r value_amount =
     \<lparr>je_journal_id = prefixed ''jrnl_'' 18 (lenv_uuid env 0), je_tenant_id = sc_tenant_id scope,
      je_financing_case_id = dr_financing_case_id r, je_entry_type = ''DISBURSEMENT'',
      je_description = ''Synthetic financing disbursement for '' @ dr_financing_case_id r,
      je_currency = dr_currency r, je_total_debits = value_amount, je_total_credits = value_amount,
      je_status = ''VALIDATED'', je_idempotency_key = dr_client_idempotency_key r,
      je_canonical_action_hash = ledger_hash (disbursement_action scope r value_amount),
      je_guardian_call_id = None, je_guardian_decision_id = None, je_reversal_of_journal_id = None,
      je_reviewer_approval_id = None, je_created_at = lenv_now env, je_posted_at = None\<rparr>"

definition new_payment ::
    "ledger_env \<Rightarrow> guarded_scope \<Rightarrow> disbursement_request \<Rightarrow> int \<Rightarrow> payment_instruction" where
  "new_payment env scope r value_amount =
     \<lparr>pi_payment_id = prefixed ''pay_'' 18 (lenv_uuid env 1), pi_tenant_id = sc_tenant_id scope,
      pi_journal_id = prefixed ''jrnl_'' 18 (lenv_uuid env 0),
      pi_financing_case_id = dr_financing_case_id r,
      pi_source_account_token = dr_source_account_token r,
      pi_beneficiary_token = dr_beneficiary_token r, pi_amount = value_amount,
      pi_currency = dr_currency r, pi_rail = dr_rail r,
      pi_client_idempotency_key = dr_client_idempotency_key r,
      pi_bank_proposed_action_id = None, pi_bank_action_hash = None, pi_bank_execution_id = None,
      pi_bank_reference = None, pi_status = ''PREPARED'',
      pi_created_at = lenv_now env, pi_updated_at = lenv_now env\<rparr>"

definition new_line ::
    "ledger_env \<Rightarrow> nat \<Rightarrow> disbursement_request \<Rightarrow> int \<Rightarrow> string \<Rightarrow> string \<Rightarrow> journal_line" where
  "new_line env i r value_amount account_id side =
     \<lparr>jl_line_id = uuid_str (lenv_uuid env i),
      jl_journal_id = prefixed ''jrnl_'' 18 (lenv_uuid env 0), jl_account_id = account_id,
      jl_side = side, jl_amount = value_amount, jl_currency = dr_currency r,
      jl_reference = dr_financing_case_id r\<rparr>"

definition prepare_disbursement ::
    "ledger_env \<Rightarrow> guarded_scope \<Rightarrow> disbursement_request \<Rightarrow> ledger_op" where
  "prepare_disbursement env scope r db =
     sum_bind (ledger_amount (dr_amount r)) (\<lambda>value_amount.
     if dr_currency r \<noteq> ''INR'' \<or> dr_rail r \<noteq> ''DEMO_BANK_RAIL''
     then Inl (LedgerDomainError ''Only synthetic INR over DEMO_BANK_RAIL is supported.'')
     else let action_hash = ledger_hash (disbursement_action scope r value_amount) in
     case scalar (\<lambda>j. je_tenant_id j = sc_tenant_id scope
                    \<and> je_idempotency_key j = dr_client_idempotency_key r) (journals db) of
       Some existing \<Rightarrow>
         if je_canonical_action_hash existing \<noteq> action_hash
         then Inl (LedgerDomainError ''Idempotency key is bound to another journal payload.'')
         else sum_bind (found LedgerAttributeError
             (scalar (\<lambda>p. pi_journal_id p = je_journal_id existing) (payments db)))
           (\<lambda>payment. Inr (db, JObj (disbursement_projection db existing payment)))
     | None \<Rightarrow>
         sum_bind (get_account db (sc_tenant_id scope) ''ledger_loan_receivable'') (\<lambda>_.
         sum_bind (get_account db (sc_tenant_id scope) ''ledger_cash_clearing'') (\<lambda>_.
         let journal = new_disbursement_journal env scope r value_amount;
             payment = new_payment env scope r value_amount;
             db1 = db\<lparr>journals := journals db @ [journal], payments := payments db @ [payment],
                      journal_lines := journal_lines db @
                        [new_line env 2 r value_amount ''ledger_loan_receivable'' ''DEBIT'',
                         new_line env 3 r value_amount ''ledger_cash_clearing'' ''CREDIT'']\<rparr>
         in sum_bind (assert_balanced journal) (\<lambda>_.
            let db2 = ledger_audit env 4 scope ''PREPARED''
                        [(''journal_id'', JStr (je_journal_id journal)),
                         (''payment_id'', JStr (pi_payment_id payment))] db1
            in Inr (db2, JObj (disbursement_projection db2 journal payment))))))"

record bank_execution =
  be_proposed_action_id :: string
  be_action_hash :: string
  be_execution_id :: string

definition same_execution :: "payment_instruction \<Rightarrow> bank_execution \<Rightarrow> bool" where
  "same_execution payment be \<longleftrightarrow>
     pi_bank_proposed_action_id payment = Some (be_proposed_action_id be) \<and>
     pi_bank_action_hash payment = Some (be_action_hash be) \<and>
     pi_bank_execution_id payment = Some (be_execution_id be)"

definition post_journal :: "ledger_env \<Rightarrow> guarded_scope \<Rightarrow> journal_entry \<Rightarrow> journal_entry" where
  "post_journal env scope j =
     j\<lparr>je_status := ''POSTED'', je_posted_at := Some (lenv_now env),
       je_guardian_call_id := Some (sc_call_id scope),
       je_guardian_decision_id := Some (sc_guardian_decision_id scope)\<rparr>"

definition submit_payment :: "ledger_env \<Rightarrow> bank_execution \<Rightarrow> payment_instruction \<Rightarrow> payment_instruction" where
  "submit_payment env be p =
     p\<lparr>pi_status := ''SUBMITTED'', pi_bank_proposed_action_id := Some (be_proposed_action_id be),
       pi_bank_action_hash := Some (be_action_hash be),
       pi_bank_execution_id := Some (be_execution_id be), pi_updated_at := lenv_now env\<rparr>"

definition bank_transfer_request :: "bank_execution \<Rightarrow> json" where
  "bank_transfer_request be = JObj
     [(''tool'', JStr ''bank.transfers.execute''),
      (''proposed_action_id'', JStr (be_proposed_action_id be)),
      (''canonical_action_hash'', JStr (be_action_hash be)),
      (''execution_id'', JStr (be_execution_id be))]"

definition call_unused :: "ledger_db \<Rightarrow> guarded_scope \<Rightarrow> string \<Rightarrow> ledger_error + unit" where
  "call_unused db scope journal_id =
     (case scalar (\<lambda>j. je_tenant_id j = sc_tenant_id scope
                     \<and> je_guardian_call_id j = Some (sc_call_id scope)) (journals db) of
        Some replay \<Rightarrow>
          if je_journal_id replay \<noteq> journal_id
          then Inl (LedgerSecurityError ''Guardian call id has already posted another journal.'')
          else Inr ()
      | None \<Rightarrow> Inr ())"

definition execute_disbursement ::
    "ledger_env \<Rightarrow> guarded_scope \<Rightarrow> string \<Rightarrow> string \<Rightarrow> bank_execution \<Rightarrow> ledger_op" where
  "execute_disbursement env scope journal_id canonical_action_hash be db =
     sum_bind (call_unused db scope journal_id) (\<lambda>_.
     sum_bind (find_journal db (sc_tenant_id scope) journal_id) (\<lambda>journal.
     if je_canonical_action_hash journal \<noteq> canonical_action_hash
     then Inl (LedgerSecurityError ''Canonical journal hash mismatch.'')
     else let payment = scalar (\<lambda>p. pi_journal_id p = journal_id) (payments db) in
     if je_status journal = ''POSTED'' then
       sum_bind (found LedgerAttributeError payment) (\<lambda>p.
         if \<not> same_execution p be
         then Inl (LedgerDomainError ''Posted journal is bound to different bank execution parameters.'')
         else Inr (db, JObj (disbursement_projection db journal p)))
     else if je_status journal \<noteq> ''VALIDATED''
     then Inl (LedgerDomainError ''Only a validated journal can be posted.'')
     else
       let lines = lines_of db journal_id in
       sum_bind (assert_lines_balanced lines) (\<lambda>_.
       sum_bind (post_lines (sc_tenant_id scope) lines db) (\<lambda>db1.
       sum_bind (found LedgerAttributeError payment) (\<lambda>p.
       let p' = submit_payment env be p; journal' = post_journal env scope journal;
           db2 = db1\<lparr>journals := update_rows (\<lambda>j. je_journal_id j = journal_id)
                        (post_journal env scope) (journals db1),
                     payments := update_rows (\<lambda>q. pi_payment_id q = pi_payment_id p)
                        (submit_payment env be) (payments db1)\<rparr>;
           db3 = ledger_event env 0 (sc_tenant_id scope) ''PAYMENT'' (pi_payment_id p)
                   ''ledger.payment.submitted'' (payment_projection p') db2;
           db4 = ledger_audit env 1 scope ''POSTED''
                   [(''journal_id'', JStr journal_id), (''payment_id'', JStr (pi_payment_id p))] db3
       in Inr (db4, JObj (disbursement_projection db4 journal' p' @
            [(''bank_transfer_request'', bank_transfer_request be)])))))))"

section \<open>Reversals\<close>

definition reversal_action :: "string \<Rightarrow> string \<Rightarrow> string \<Rightarrow> dict" where
  "reversal_action original_journal_id reason client_idempotency_key =
     [(''original_journal_id'', JStr original_journal_id), (''reason'', JStr reason),
      (''idempotency_key'', JStr client_idempotency_key)]"

definition new_reversal_journal ::
    "ledger_env \<Rightarrow> guarded_scope \<Rightarrow> journal_entry \<Rightarrow> string \<Rightarrow> string \<Rightarrow> journal_entry" where
  "new_reversal_journal env scope original reason client_idempotency_key =
     \<lparr>je_journal_id = prefixed ''jrnl_rev_'' 14 (lenv_uuid env 0), je_tenant_id = sc_tenant_id scope,
      je_financing_case_id = je_financing_case_id original, je_entry_type = ''REVERSAL'',
      je_description = reason, je_currency = je_currency original,
      je_total_debits = je_total_credits original, je_total_credits = je_total_debits original,
      je_status = ''REVIEW_REQUIRED'', je_idempotency_key = client_idempotency_key,
      je_canonical_action_hash =
        ledger_hash (reversal_action (je_journal_id original) reason client_idempotency_key),
      je_guardian_call_id = None, je_guardian_decision_id = None,
      je_reversal_of_journal_id = Some (je_journal_id original), je_reviewer_approval_id = None,
      je_created_at = lenv_now env, je_posted_at = None\<rparr>"

definition reverse_line :: "ledger_env \<Rightarrow> string \<Rightarrow> nat \<times> journal_line \<Rightarrow> journal_line" where
  "reverse_line env original_journal_id il =
     (case il of (i, line) \<Rightarrow>
        \<lparr>jl_line_id = uuid_str (lenv_uuid env i),
         jl_journal_id = prefixed ''jrnl_rev_'' 14 (lenv_uuid env 0),
         jl_account_id = jl_account_id line,
         jl_side = (if jl_side line = ''DEBIT'' then ''CREDIT'' else ''DEBIT''),
         jl_amount = jl_amount line, jl_currency = jl_currency line,
         jl_reference = original_journal_id\<rparr>)"

definition reversal_lines :: "ledger_env \<Rightarrow> string \<Rightarrow> journal_line list \<Rightarrow> journal_line list" where
  "reversal_lines env original_journal_id original_lines =
     map (reverse_line env original_journal_id) (enumerate 1 original_lines)"

definition prepare_reversal ::
    "ledger_env \<Rightarrow> guarded_scope \<Rightarrow> string \<Rightarrow> string \<Rightarrow> string \<Rightarrow> ledger_op" where
  "prepare_reversal env scope original_journal_id reason client_idempotency_key db =
     sum_bind (find_journal db (sc_tenant_id scope) original_journal_id) (\<lambda>original.
     if je_status original \<noteq> ''POSTED''
     then Inl (LedgerDomainError ''Only a posted journal can be reversed.'')
     else
       let original_lines = lines_of db original_journal_id;
           action_hash = ledger_hash (reversal_action original_journal_id reason client_idempotency_key) in
       case scalar (\<lambda>j. je_tenant_id j = sc_tenant_id scope
                      \<and> je_idempotency_key j = client_idempotency_key) (journals db) of
         Some existing \<Rightarrow>
           if je_canonical_action_hash existing \<noteq> action_hash
           then Inl (LedgerDomainError ''Reversal idempotency parameter drift detected.'')
           else Inr (db, journal_projection existing (lines_of db (je_journal_id existing)))
       | None \<Rightarrow>
           let reversal = new_reversal_journal env scope original reason client_idempotency_key;
               lines = reversal_lines env original_journal_id original_lines;
               db1 = db\<lparr>journals := journals db @ [reversal],
                        journal_lines := journal_lines db @ lines\<rparr>
           in sum_bind (assert_lines_balanced lines) (\<lambda>_.
              Inr (ledger_audit env (length lines + 1) scope ''PREPARED''
                     [(''journal_id'', JStr (je_journal_id reversal))] db1,
                   journal_projection reversal lines)))"

definition execute_reversal ::
    "ledger_env \<Rightarrow> guarded_scope \<Rightarrow> string \<Rightarrow> string \<Rightarrow> string \<Rightarrow> ledger_op" where
  "execute_reversal env scope journal_id canonical_action_hash reviewer_approval_id db =
     (if py_strip reviewer_approval_id = []
      then Inl (LedgerSecurityError ''Reviewer approval is mandatory for a reversal.'')
      else
     sum_bind (find_journal db (sc_tenant_id scope) journal_id) (\<lambda>journal.
     if je_canonical_action_hash journal \<noteq> canonical_action_hash
     then Inl (LedgerSecurityError ''Reversal canonical hash mismatch.'')
     else let lines = lines_of db journal_id in
     if je_status journal = ''POSTED'' then Inr (db, journal_projection journal lines)
     else if je_status journal \<noteq> ''REVIEW_REQUIRED''
     then Inl (LedgerDomainError ''Reversal is not ready for dual approval.'')
     else
       sum_bind (assert_lines_balanced lines) (\<lambda>_.
       sum_bind (post_lines (sc_tenant_id scope) lines db) (\<lambda>db1.
       let approve = (\<lambda>j. (post_journal env scope j)\<lparr>je_reviewer_approval_id := Some reviewer_approval_id\<rparr>);
           db2 = db1\<lparr>journals := update_rows (\<lambda>j. je_journal_id j = journal_id) approve (journals db1)\<rparr>;
           db3 = ledger_event env 0 (sc_tenant_id scope) ''JOURNAL'' journal_id
                   ''ledger.reversal.posted'' (JObj [(''journal_id'', JStr journal_id)]) db2;
           db4 = ledger_audit env 1 scope ''POSTED'' [(''journal_id'', JStr journal_id)] db3
       in Inr (db4, journal_projection (approve journal) lines)))))"

section \<open>Settlement\<close>

record bank_settlement =
  bs_event_id :: string
  bs_tenant_id :: string
  bs_payment_id :: string
  bs_bank_execution_id :: string
  bs_bank_reference :: string
  bs_amount :: string
  bs_currency :: string
  bs_settled_at :: datetime

definition settlement_payload :: "bank_settlement \<Rightarrow> int \<Rightarrow> dict" where
  "settlement_payload r value_amount =
     [(''payment_id'', JStr (bs_payment_id r)), (''bank_execution_id'', JStr (bs_bank_execution_id r)),
      (''bank_reference'', JStr (bs_bank_reference r)), (''amount'', JStr (cents_str value_amount)),
      (''currency'', JStr (bs_currency r)), (''settled_at'', JStr (isoformat (bs_settled_at r)))]"

definition new_receipt :: "ledger_env \<Rightarrow> bank_settlement \<Rightarrow> int \<Rightarrow> settlement_receipt" where
  "new_receipt env r value_amount =
     \<lparr>sr_receipt_id = prefixed ''stl_'' 18 (lenv_uuid env 0), sr_tenant_id = bs_tenant_id r,
      sr_payment_id = bs_payment_id r, sr_bank_execution_id = bs_bank_execution_id r,
      sr_bank_reference = bs_bank_reference r, sr_amount = value_amount,
      sr_currency = bs_currency r, sr_settled_at = bs_settled_at r,
      sr_evidence_hash = ledger_hash (settlement_payload r value_amount)\<rparr>"

definition new_reconciliation ::
    "ledger_env \<Rightarrow> bank_settlement \<Rightarrow> payment_instruction \<Rightarrow> reconciliation_record" where
  "new_reconciliation env r payment =
     \<lparr>rr_reconciliation_id = prefixed ''rec_'' 18 (lenv_uuid env 1), rr_tenant_id = bs_tenant_id r,
      rr_payment_id = bs_payment_id r, rr_journal_id = pi_journal_id payment,
      rr_settlement_receipt_id = Some (prefixed ''stl_'' 18 (lenv_uuid env 0)),
      rr_status = ''MATCHED'', rr_variance_amount = 0, rr_reason = None,
      rr_reconciled_at = Some (lenv_now env)\<rparr>"

definition settle_payment :: "ledger_env \<Rightarrow> string \<Rightarrow> payment_instruction \<Rightarrow> payment_instruction" where
  "settle_payment env bank_reference p =
     p\<lparr>pi_status := ''SETTLED'', pi_bank_reference := Some bank_reference,
       pi_updated_at := lenv_now env\<rparr>"

definition accept_bank_settlement :: "ledger_env \<Rightarrow> bank_settlement \<Rightarrow> ledger_op" where
  "accept_bank_settlement env r db =
     sum_bind (ledger_amount (bs_amount r)) (\<lambda>value_amount.
     if length (bs_bank_reference r) \<noteq> 10
     then Inl (LedgerDomainError ''Bank reference must contain exactly 10 characters.'')
     else let payload_hash = ledger_hash (settlement_payload r value_amount) in
     case scalar (\<lambda>i. lib_event_id i = bs_event_id r) (ledger_inbox db) of
       Some inbox \<Rightarrow>
         if lib_payload_hash inbox \<noteq> payload_hash
         then Inl (LedgerSecurityError ''Settlement event id parameter drift detected.'')
         else sum_bind (found LedgerAttributeError
             (scalar (\<lambda>c. rr_payment_id c = bs_payment_id r) (reconciliations db)))
           (\<lambda>c. Inr (db, reconciliation_projection c))
     | None \<Rightarrow>
         (case scalar (\<lambda>p. pi_payment_id p = bs_payment_id r \<and> pi_tenant_id p = bs_tenant_id r)
                 (payments db) of
            None \<Rightarrow> Inl (LedgerDomainError ''Settlement does not match the submitted payment.'')
          | Some payment \<Rightarrow>
              if pi_bank_execution_id payment \<noteq> Some (bs_bank_execution_id r)
              then Inl (LedgerDomainError ''Settlement does not match the submitted payment.'')
              else if pi_amount payment \<noteq> value_amount \<or> pi_currency payment \<noteq> bs_currency r
              then Inl (LedgerDomainError ''Settlement amount or currency differs from payment.'')
              else
                let c = new_reconciliation env r payment;
                    db1 = db\<lparr>payments := update_rows (\<lambda>p. pi_payment_id p = bs_payment_id r)
                                 (settle_payment env (bs_bank_reference r)) (payments db),
                             receipts := receipts db @ [new_receipt env r value_amount],
                             reconciliations := reconciliations db @ [c],
                             ledger_inbox := ledger_inbox db @
                               [\<lparr>lib_event_id = bs_event_id r, lib_tenant_id = bs_tenant_id r,
                                 lib_event_type = ''bank.transfer.settled'',
                                 lib_payload_hash = payload_hash, lib_processed_at = lenv_now env\<rparr>]\<rparr>
                in Inr (ledger_event env 2 (bs_tenant_id r) ''PAYMENT'' (bs_payment_id r)
                          ''ledger.payment.reconciled'' (reconciliation_projection c) db1,
                        reconciliation_projection c)))"

section \<open>The service: tools, settlement route, transactions\<close>

datatype ledger_tool =
    AccountsGetBalance string
  | JournalsGet string
  | PaymentsGetStatus string
  | ReconciliationGet string
  | DisbursementsPrepare disbursement_request
  | DisbursementsExecute string string bank_execution
  | ReversalsPrepare string string string
  | ReversalsExecute string string string

fun ledger_tool_name :: "ledger_tool \<Rightarrow> string" where
  "ledger_tool_name (AccountsGetBalance _) = ''ledger.accounts.get_balance''"
| "ledger_tool_name (JournalsGet _) = ''ledger.journals.get''"
| "ledger_tool_name (PaymentsGetStatus _) = ''ledger.payments.get_status''"
| "ledger_tool_name (ReconciliationGet _) = ''ledger.reconciliation.get''"
| "ledger_tool_name (DisbursementsPrepare _) = ''ledger.disbursements.prepare''"
| "ledger_tool_name (DisbursementsExecute _ _ _) = ''ledger.disbursements.execute''"
| "ledger_tool_name (ReversalsPrepare _ _ _) = ''ledger.reversals.prepare''"
| "ledger_tool_name (ReversalsExecute _ _ _) = ''ledger.reversals.execute''"

fun ledger_tool_op :: "ledger_env \<Rightarrow> guarded_scope \<Rightarrow> ledger_tool \<Rightarrow> ledger_op" where
  "ledger_tool_op env scope (AccountsGetBalance account_id) = account_balance env scope account_id"
| "ledger_tool_op env scope (JournalsGet journal_id) = get_journal env scope journal_id"
| "ledger_tool_op env scope (PaymentsGetStatus payment_id) = payment_status scope payment_id"
| "ledger_tool_op env scope (ReconciliationGet payment_id) = reconciliation scope payment_id"
| "ledger_tool_op env scope (DisbursementsPrepare r) = prepare_disbursement env scope r"
| "ledger_tool_op env scope (DisbursementsExecute journal_id h be) =
     execute_disbursement env scope journal_id h be"
| "ledger_tool_op env scope (ReversalsPrepare original reason key) =
     prepare_reversal env scope original reason key"
| "ledger_tool_op env scope (ReversalsExecute journal_id h reviewer) =
     execute_reversal env scope journal_id h reviewer"

record ledger_settings =
  ls_mcp_token :: string
  ls_settlement_event_token :: string

datatype ledger_request =
    LedgerMCP dict ledger_tool
  | BankSettlementRoute "string option" bank_settlement

definition ledger_session :: "ledger_op \<Rightarrow> ledger_db \<Rightarrow> ledger_db \<times> (ledger_error + json)" where
  "ledger_session = session ledger_constraints LedgerIntegrityError"

fun scope_ledger_error :: "scope_error \<Rightarrow> ledger_error" where
  "scope_ledger_error (SecurityError m) = LedgerSecurityError m"
| "scope_ledger_error DigestTypeError = LedgerTypeError"

definition require_event_token :: "ledger_settings \<Rightarrow> string option \<Rightarrow> ledger_error + unit" where
  "require_event_token cfg token =
     (case token of
        None \<Rightarrow> Inl (LedgerUnauthorized ''Invalid settlement event token.'')
      | Some t \<Rightarrow>
          if \<not> list_all (\<lambda>c. of_char c < (128::nat)) (t @ ls_settlement_event_token cfg)
          then Inl LedgerTypeError
          else if t \<noteq> ls_settlement_event_token cfg
          then Inl (LedgerUnauthorized ''Invalid settlement event token.'') else Inr ())"

fun ledger_step ::
    "ledger_settings \<Rightarrow> ledger_env \<times> ledger_request \<Rightarrow> ledger_db \<Rightarrow> ledger_db \<times> (ledger_error + json)" where
  "ledger_step cfg (env, LedgerMCP meta tool) db =
     (case ledger_verify_runtime_scope (ls_mcp_token cfg) meta (ledger_tool_name tool) of
        Inl e \<Rightarrow> (db, Inl (scope_ledger_error e))
      | Inr scope \<Rightarrow> ledger_session (ledger_tool_op env scope tool) db)"
| "ledger_step cfg (env, BankSettlementRoute token r) db =
     (case require_event_token cfg token of
        Inl e \<Rightarrow> (db, Inl e)
      | Inr _ \<Rightarrow> ledger_session (accept_bank_settlement env r) db)"

text \<open>\<open>seed_demo_data\<close> of seed.py.\<close>

definition demo_tenant_id :: string where
  "demo_tenant_id = ''00000000-0000-4000-8000-000000000101''"

definition seed_account :: "string \<Rightarrow> string \<Rightarrow> string \<Rightarrow> string \<Rightarrow> string \<Rightarrow> int \<Rightarrow> ledger_account" where
  "seed_account account_id code name account_type normal_side balance =
     \<lparr>la_account_id = account_id, la_tenant_id = demo_tenant_id, la_code = code, la_name = name,
      la_account_type = account_type, la_normal_side = normal_side, la_currency = ''INR'',
      la_balance = balance, la_status = ''ACTIVE'', la_version = 1\<rparr>"

definition ledger_seed_data :: "ledger_db \<Rightarrow> ledger_db" where
  "ledger_seed_data db =
     (if scalar (\<lambda>a. la_account_id a = ''ledger_cash_clearing'') (accounts db) \<noteq> None then db
      else db\<lparr>accounts := accounts db @
        [seed_account ''ledger_cash_clearing'' ''1010'' ''Cash clearing'' ''ASSET'' ''DEBIT'' 250000000,
         seed_account ''ledger_loan_receivable'' ''1210'' ''Loan receivable'' ''ASSET'' ''DEBIT'' 0,
         seed_account ''ledger_funder_payable'' ''2010'' ''Funder payable'' ''LIABILITY'' ''CREDIT'' 0,
         seed_account ''ledger_disbursement_control'' ''9010'' ''Disbursement control'' ''CONTROL''
           ''DEBIT'' 0]\<rparr>)"

definition empty_ledger :: ledger_db where
  "empty_ledger = \<lparr>accounts = [], journals = [], journal_lines = [], payments = [], receipts = [],
     reconciliations = [], ledger_audits = [], ledger_outbox = [], ledger_inbox = []\<rparr>"

end
