(* ===== verification/LedgerBooks.thy ===== *)
theory LedgerBooks
  imports Ledger
begin

text \<open>
  The ledger's abstract specification: the five ways the books may change
  (\<open>ledger_effect\<close>) and the proof that every operation of the service, when it commits,
  makes one of them. The invariants of the books are then proved once per kind of change.
\<close>

section \<open>Posting in one step\<close>

definition lines_on :: "string \<Rightarrow> journal_line list \<Rightarrow> journal_line list" where
  "lines_on account_id lines = filter (\<lambda>l. jl_account_id l = account_id) lines"

definition posted_sum :: "ledger_account \<Rightarrow> journal_line list \<Rightarrow> int" where
  "posted_sum a lines = sum_list (map (post_amount a) (lines_on (la_account_id a) lines))"

definition post_account :: "journal_line list \<Rightarrow> ledger_account \<Rightarrow> ledger_account" where
  "post_account lines a =
     a\<lparr>la_balance := la_balance a + posted_sum a lines,
       la_version := la_version a + int (length (lines_on (la_account_id a) lines))\<rparr>"

lemma post_account_simps [simp]:
  "la_account_id (post_account ls a) = la_account_id a"
  "la_tenant_id (post_account ls a) = la_tenant_id a"
  "la_status (post_account ls a) = la_status a"
  "la_normal_side (post_account ls a) = la_normal_side a"
  "la_balance (post_account ls a) = la_balance a + posted_sum a ls"
  by (simp_all add: post_account_def)

lemma post_amount_cong: "la_normal_side a = la_normal_side b \<Longrightarrow> post_amount a = post_amount b"
  by (simp add: post_amount_def fun_eq_iff)

lemma posted_sum_cong:
  "la_account_id a = la_account_id b \<Longrightarrow> la_normal_side a = la_normal_side b \<Longrightarrow> posted_sum a = posted_sum b"
  by (simp add: posted_sum_def fun_eq_iff post_amount_cong [of a b])

lemma posted_sum_append: "posted_sum a (xs @ ys) = posted_sum a xs + posted_sum a ys"
  by (simp add: posted_sum_def lines_on_def)

lemma post_account_Nil [simp]: "post_account [] a = a"
  by (simp add: post_account_def posted_sum_def lines_on_def)

lemma post_account_Cons:
  "post_account (l # ls) a =
     post_account ls (if la_account_id a = jl_account_id l
       then a\<lparr>la_balance := la_balance a + post_amount a l, la_version := la_version a + 1\<rparr> else a)"
  by (auto simp: post_account_def posted_sum_def lines_on_def post_amount_def algebra_simps
      intro!: ledger_account.equality arg_cong [where f = sum_list])

lemma get_account_Inr:
  "get_account db t i = Inr a \<Longrightarrow> a \<in> set (accounts db) \<and> la_account_id a = i
     \<and> la_tenant_id a = t \<and> la_status a = ''ACTIVE''"
  unfolding get_account_def found_Inr by (drule scalar_Some) simp

definition active_account :: "ledger_db \<Rightarrow> string \<Rightarrow> string \<Rightarrow> bool" where
  "active_account db t i \<longleftrightarrow>
     (\<exists>a\<in>set (accounts db). la_account_id a = i \<and> la_tenant_id a = t \<and> la_status a = ''ACTIVE'')"

lemma get_account_active: "get_account db t i = Inr a \<Longrightarrow> active_account db t i"
  using get_account_Inr [of db t i a] by (auto simp: active_account_def)

text \<open>The loop of \<open>_post_lines\<close> is one simultaneous update of all accounts.\<close>

lemma post_line_accounts:
  assumes "post_line t l db = Inr db'"
  shows "db' = db\<lparr>accounts := map (post_account [l]) (accounts db)\<rparr> \<and> active_account db t (jl_account_id l)"
proof -
  from assms obtain a where a: "get_account db t (jl_account_id l) = Inr a"
    and db': "db' = db\<lparr>accounts := update_rows (\<lambda>b. la_account_id b = la_account_id a)
      (\<lambda>b. b\<lparr>la_balance := la_balance b + post_amount b l, la_version := la_version b + 1\<rparr>) (accounts db)\<rparr>"
    by (auto simp: post_line_def sum_bind_Inr)
  from get_account_Inr [OF a] have i: "la_account_id a = jl_account_id l" by simp
  show ?thesis
    using db' get_account_active [OF a] by (simp add: i post_account_Cons update_rows_def)
qed

lemma post_lines_accounts:
  "post_lines t ls db = Inr db' \<Longrightarrow>
     db' = db\<lparr>accounts := map (post_account ls) (accounts db)\<rparr> \<and>
     (\<forall>l\<in>set ls. active_account db t (jl_account_id l))"
proof (induction ls arbitrary: db)
  case Nil
  then show ?case by (simp add: map_idI)
next
  case (Cons l ls)
  then obtain db1 where 1: "post_line t l db = Inr db1" and 2: "post_lines t ls db1 = Inr db'"
    by (auto simp: sum_bind_Inr)
  note one = post_line_accounts [OF 1] and rest = Cons.IH [OF 2]
  have "active_account db1 t i = active_account db t i" for i
    using one by (simp add: active_account_def)
  moreover have "post_account ls (post_account [l] a) = post_account (l # ls) a" for a
    by (simp add: post_account_Cons)
  ultimately show ?case using one rest by (simp add: o_def)
qed

section \<open>The effects on the books\<close>

text \<open>The books: everything but the audit trail and the outbox.\<close>

definition books where
  "books db = (accounts db, journals db, journal_lines db, payments db, receipts db,
     reconciliations db, ledger_inbox db)"

lemma books_audit [simp]: "books (ledger_audit env i sc out d db) = books db"
  by (simp add: books_def ledger_audit_def)

lemma books_event [simp]: "books (ledger_event env i t at ai et pl db) = books db"
  by (simp add: books_def ledger_event_def)

definition balanced_lines :: "journal_line list \<Rightarrow> bool" where
  "balanced_lines ls \<longleftrightarrow> side_total ''DEBIT'' ls = side_total ''CREDIT'' ls \<and> 0 < side_total ''DEBIT'' ls"

lemma assert_lines_balanced_iff [simp]: "assert_lines_balanced ls = Inr u \<longleftrightarrow> balanced_lines ls"
  by (auto simp: assert_lines_balanced_def balanced_lines_def Let_def)

text \<open>The first argument is the tenant whose rows the effect may change.\<close>

inductive ledger_effect :: "string \<Rightarrow> ledger_db \<Rightarrow> ledger_db \<Rightarrow> bool" where
  observe: "books db' = books db \<Longrightarrow> ledger_effect t db db'"
| prepare: "ledger_effect t db db'"
  if "books db' = (accounts db, journals db @ [j], journal_lines db @ [d, c], payments db @ [p],
        receipts db, reconciliations db, ledger_inbox db)"
    and "je_status j = ''VALIDATED''" "je_entry_type j = ''DISBURSEMENT''" "je_guardian_call_id j = None"
    and "je_total_debits j = pi_amount p" "je_total_credits j = pi_amount p" "0 < pi_amount p"
    and "jl_journal_id d = je_journal_id j" "jl_journal_id c = je_journal_id j"
    and "jl_side d = ''DEBIT''" "jl_side c = ''CREDIT''"
    and "jl_amount d = pi_amount p" "jl_amount c = pi_amount p"
    and "active_account db (je_tenant_id j) (jl_account_id d)"
    and "active_account db (je_tenant_id j) (jl_account_id c)"
    and "pi_journal_id p = je_journal_id j" "pi_tenant_id p = je_tenant_id j"
    and "pi_status p = ''PREPARED''" "pi_bank_execution_id p = None" "pi_bank_reference p = None"
    and "je_tenant_id j = t"
| submit: "ledger_effect t db db'"
  if "j \<in> set (journals db)" "je_status j = ''VALIDATED''"
    and "p \<in> set (payments db)" "pi_journal_id p = je_journal_id j"
    and "balanced_lines (lines_of db (je_journal_id j))"
    and "\<forall>l\<in>set (lines_of db (je_journal_id j)). active_account db (je_tenant_id j) (jl_account_id l)"
    and "books db' = (map (post_account (lines_of db (je_journal_id j))) (accounts db),
        update_rows (\<lambda>i. je_journal_id i = je_journal_id j) (post_journal env sc) (journals db),
        journal_lines db,
        update_rows (\<lambda>q. pi_payment_id q = pi_payment_id p) (submit_payment env be) (payments db),
        receipts db, reconciliations db, ledger_inbox db)"
    and "je_tenant_id j = t"
| draft_reversal: "ledger_effect t db db'"
  if "i \<in> set (journals db)" "je_status i = ''POSTED''"
    and "books db' = (accounts db, journals db @ [j],
        journal_lines db @ reversal_lines env (je_journal_id i) (lines_of db (je_journal_id i)), payments db,
        receipts db, reconciliations db, ledger_inbox db)"
    and "j = new_reversal_journal env sc i reason key" "je_tenant_id i = sc_tenant_id sc"
    and "balanced_lines (reversal_lines env (je_journal_id i) (lines_of db (je_journal_id i)))"
    and "sc_tenant_id sc = t"
| post_reversal: "ledger_effect t db db'"
  if "j \<in> set (journals db)" "je_status j = ''REVIEW_REQUIRED''"
    and "balanced_lines (lines_of db (je_journal_id j))"
    and "\<forall>l\<in>set (lines_of db (je_journal_id j)). active_account db (je_tenant_id j) (jl_account_id l)"
    and "books db' = (map (post_account (lines_of db (je_journal_id j))) (accounts db),
        update_rows (\<lambda>i. je_journal_id i = je_journal_id j)
          (\<lambda>i. (post_journal env sc i)\<lparr>je_reviewer_approval_id := Some reviewer\<rparr>) (journals db),
        journal_lines db, payments db, receipts db, reconciliations db, ledger_inbox db)"
    and "je_tenant_id j = t"
| settle: "ledger_effect t db db'"
  if "p \<in> set (payments db)" "pi_bank_execution_id p = Some (bs_bank_execution_id r)"
    and "pi_payment_id p = bs_payment_id r" "pi_tenant_id p = bs_tenant_id r"
    and "pi_amount p = amount" "pi_currency p = bs_currency r"
    and "lib_event_id i = bs_event_id r" "lib_tenant_id i = bs_tenant_id r"
    and "lib_payload_hash i = ledger_hash (settlement_payload r amount)"
    and "books db' = (accounts db, journals db, journal_lines db,
        update_rows (\<lambda>q. pi_payment_id q = pi_payment_id p) (settle_payment env (bs_bank_reference r)) (payments db),
        receipts db @ [new_receipt env r amount], reconciliations db @ [new_reconciliation env r p],
        ledger_inbox db @ [i])"
    and "bs_tenant_id r = t"

section \<open>Every operation makes one effect\<close>

lemma ledger_amount_pos: "ledger_amount s = Inr n \<Longrightarrow> 0 < n"
  by (auto simp: ledger_amount_def split: option.splits quantized.splits if_splits)

lemma find_journal_Inr:
  "find_journal db t i = Inr j \<Longrightarrow> j \<in> set (journals db) \<and> je_journal_id j = i \<and> je_tenant_id j = t"
  unfolding find_journal_def found_Inr by (drule scalar_Some) simp

lemma read_effects:
  "account_balance env sc i db = Inr (db', r) \<Longrightarrow> books db' = books db"
  "get_journal env sc i db = Inr (db', r) \<Longrightarrow> books db' = books db"
  "payment_status sc i db = Inr (db', r) \<Longrightarrow> books db' = books db"
  "reconciliation sc i db = Inr (db', r) \<Longrightarrow> books db' = books db"
  by (auto simp: account_balance_def get_journal_def payment_status_def reconciliation_def sum_bind_Inr)

lemma prepare_disbursement_effect:
  assumes "prepare_disbursement env sc r db = Inr (db', res)"
  shows "ledger_effect (sc_tenant_id sc) db db'"
proof -
  from assms obtain n where n: "ledger_amount (dr_amount r) = Inr n"
    by (auto simp: prepare_disbursement_def sum_bind_Inr)
  show ?thesis
  proof (cases "scalar (\<lambda>j. je_tenant_id j = sc_tenant_id sc
      \<and> je_idempotency_key j = dr_client_idempotency_key r) (journals db)")
    case (Some j)
    with assms n have "db' = db"
      by (auto simp: prepare_disbursement_def sum_bind_Inr Let_def split: if_splits)
    then show ?thesis by (simp add: observe)
  next
    case None
    with assms n obtain a b where ab: "get_account db (sc_tenant_id sc) ''ledger_loan_receivable'' = Inr a"
        "get_account db (sc_tenant_id sc) ''ledger_cash_clearing'' = Inr b"
      and db': "books db' = (accounts db, journals db @ [new_disbursement_journal env sc r n],
         journal_lines db @ [new_line env 2 r n ''ledger_loan_receivable'' ''DEBIT'',
           new_line env 3 r n ''ledger_cash_clearing'' ''CREDIT''],
         payments db @ [new_payment env sc r n], receipts db, reconciliations db, ledger_inbox db)"
      by (auto simp: prepare_disbursement_def sum_bind_Inr Let_def books_def ledger_audit_def split: if_splits)
    show ?thesis
      by (rule prepare [OF db'])
        (use ledger_amount_pos [OF n] ab [THEN get_account_active] in
          \<open>simp_all add: new_disbursement_journal_def new_line_def new_payment_def\<close>)
  qed
qed

lemma execute_disbursement_effect:
  assumes "execute_disbursement env sc ji h be db = Inr (db', res)"
  shows "ledger_effect (sc_tenant_id sc) db db'"
proof -
  from assms obtain j where fj: "find_journal db (sc_tenant_id sc) ji = Inr j"
    by (auto simp: execute_disbursement_def sum_bind_Inr)
  note j = find_journal_Inr [OF fj]
  show ?thesis
  proof (cases "je_status j = ''POSTED''")
    case True
    with assms fj have "db' = db"
      by (auto simp: execute_disbursement_def sum_bind_Inr Let_def split: if_splits)
    then show ?thesis by (simp add: observe)
  next
    case False
    with assms fj obtain db1 p where post: "post_lines (sc_tenant_id sc) (lines_of db ji) db = Inr db1"
      and bal: "balanced_lines (lines_of db ji)" and st: "je_status j = ''VALIDATED''"
      and p: "scalar (\<lambda>p. pi_journal_id p = ji) (payments db) = Some p"
      and db': "books db' = books (db1\<lparr>
          journals := update_rows (\<lambda>i. je_journal_id i = ji) (post_journal env sc) (journals db1),
          payments := update_rows (\<lambda>q. pi_payment_id q = pi_payment_id p) (submit_payment env be) (payments db1)\<rparr>)"
      by (auto simp: execute_disbursement_def sum_bind_Inr Let_def split: if_splits)
    show ?thesis
      by (rule submit [of j db p])
        (use j st bal scalar_Some [OF p] post_lines_accounts [OF post] db' in \<open>auto simp: books_def\<close>)
  qed
qed

lemma prepare_reversal_effect:
  assumes "prepare_reversal env sc oi reason key db = Inr (db', res)"
  shows "ledger_effect (sc_tenant_id sc) db db'"
proof -
  from assms obtain i where fi: "find_journal db (sc_tenant_id sc) oi = Inr i"
    and st: "je_status i = ''POSTED''"
    by (auto simp: prepare_reversal_def sum_bind_Inr split: if_splits)
  note i = find_journal_Inr [OF fi]
  show ?thesis
  proof (cases "scalar (\<lambda>j. je_tenant_id j = sc_tenant_id sc \<and> je_idempotency_key j = key) (journals db)")
    case (Some j)
    with assms fi have "db' = db"
      by (auto simp: prepare_reversal_def sum_bind_Inr Let_def split: if_splits)
    then show ?thesis by (simp add: observe)
  next
    case None
    with assms fi have bal: "balanced_lines (reversal_lines env oi (lines_of db oi))"
      and db': "books db' = (accounts db, journals db @ [new_reversal_journal env sc i reason key],
        journal_lines db @ reversal_lines env oi (lines_of db oi), payments db,
        receipts db, reconciliations db, ledger_inbox db)"
      by (auto simp: prepare_reversal_def sum_bind_Inr Let_def books_def ledger_audit_def split: if_splits)
    show ?thesis
      by (rule draft_reversal [of i db db' _ env sc reason key]) (use i st bal db' in auto)
  qed
qed

lemma execute_reversal_effect:
  assumes "execute_reversal env sc ji h reviewer db = Inr (db', res)"
  shows "ledger_effect (sc_tenant_id sc) db db'"
proof -
  from assms obtain j where fj: "find_journal db (sc_tenant_id sc) ji = Inr j"
    by (auto simp: execute_reversal_def sum_bind_Inr split: if_splits)
  note j = find_journal_Inr [OF fj]
  show ?thesis
  proof (cases "je_status j = ''POSTED''")
    case True
    with assms fj have "db' = db"
      by (auto simp: execute_reversal_def sum_bind_Inr Let_def split: if_splits)
    then show ?thesis by (simp add: observe)
  next
    case False
    with assms fj obtain db1 where post: "post_lines (sc_tenant_id sc) (lines_of db ji) db = Inr db1"
      and bal: "balanced_lines (lines_of db ji)" and st: "je_status j = ''REVIEW_REQUIRED''"
      and db': "books db' = books (db1\<lparr>journals := update_rows (\<lambda>i. je_journal_id i = ji)
          (\<lambda>i. (post_journal env sc i)\<lparr>je_reviewer_approval_id := Some reviewer\<rparr>) (journals db1)\<rparr>)"
      by (auto simp: execute_reversal_def sum_bind_Inr Let_def split: if_splits)
    show ?thesis
      by (rule post_reversal [of j db])
        (use j st bal post_lines_accounts [OF post] db' in \<open>auto simp: books_def\<close>)
  qed
qed

lemma accept_bank_settlement_effect:
  assumes "accept_bank_settlement env r db = Inr (db', res)"
  shows "ledger_effect (bs_tenant_id r) db db'"
proof -
  from assms obtain n where n: "ledger_amount (bs_amount r) = Inr n"
    by (auto simp: accept_bank_settlement_def sum_bind_Inr)
  show ?thesis
  proof (cases "scalar (\<lambda>i. lib_event_id i = bs_event_id r) (ledger_inbox db)")
    case (Some i)
    with assms n have "db' = db"
      by (auto simp: accept_bank_settlement_def sum_bind_Inr Let_def split: if_splits)
    then show ?thesis by (simp add: observe)
  next
    case None
    with assms n obtain p where p: "scalar (\<lambda>p. pi_payment_id p = bs_payment_id r
          \<and> pi_tenant_id p = bs_tenant_id r) (payments db) = Some p"
      and ok: "pi_bank_execution_id p = Some (bs_bank_execution_id r)" "pi_amount p = n"
        "pi_currency p = bs_currency r"
      and db': "books db' = (accounts db, journals db, journal_lines db,
        update_rows (\<lambda>q. pi_payment_id q = bs_payment_id r) (settle_payment env (bs_bank_reference r)) (payments db),
        receipts db @ [new_receipt env r n], reconciliations db @ [new_reconciliation env r p],
        ledger_inbox db @ [\<lparr>lib_event_id = bs_event_id r, lib_tenant_id = bs_tenant_id r,
           lib_event_type = ''bank.transfer.settled'',
           lib_payload_hash = ledger_hash (settlement_payload r n), lib_processed_at = lenv_now env\<rparr>])"
      by (auto simp: accept_bank_settlement_def sum_bind_Inr Let_def books_def ledger_event_def
          split: if_splits option.splits)
    show ?thesis
      by (rule settle [of p db r n]) (use scalar_Some [OF p] ok db' in auto)
  qed
qed

lemma ledger_tool_effect: "ledger_tool_op env sc tool db = Inr (db', res) \<Longrightarrow> ledger_effect (sc_tenant_id sc) db db'"
  by (cases tool)
    (auto intro: observe prepare_disbursement_effect execute_disbursement_effect
      prepare_reversal_effect execute_reversal_effect dest: read_effects)

text \<open>A step of the service leaves the database alone or commits one effect that satisfies the schema.\<close>

lemma ledger_step_effect:
  "fst (ledger_step cfg q db) = db \<or>
   ((\<exists>t. ledger_effect t db (fst (ledger_step cfg q db))) \<and> ledger_constraints (fst (ledger_step cfg q db)))"
proof -
  have "fst (ledger_session body db) = db \<or>
      ((\<exists>t. ledger_effect t db (fst (ledger_session body db))) \<and> ledger_constraints (fst (ledger_session body db)))"
    if "\<And>db' res. body db = Inr (db', res) \<Longrightarrow> \<exists>t. ledger_effect t db db'" for body
    unfolding ledger_session_def
    by (cases rule: session_cases [of ledger_constraints LedgerIntegrityError body db]) (auto dest: that)
  then show ?thesis
    by (cases "(cfg, q, db)" rule: ledger_step.cases)
      (auto split: sum.split dest: ledger_tool_effect accept_bank_settlement_effect)
qed

end
