(* ===== verification/LedgerInvariant.thy ===== *)
theory LedgerInvariant
  imports LedgerBooks
begin

text \<open>
  The invariants of the ledger: what the summary route of main.py advertises as
  DEBITS_EQUAL_CREDITS, POSTED_JOURNALS_IMMUTABLE and GUARDIAN_CALL_SINGLE_USE, and the
  agreement between payments, journals and settlements. Each is proved to survive every
  effect of \<open>ledger_effect\<close>, so it holds after any sequence of requests.
\<close>

section \<open>Definitions\<close>

definition posted_journal :: "ledger_db \<Rightarrow> string \<Rightarrow> bool" where
  "posted_journal db i \<longleftrightarrow> (\<exists>j\<in>set (journals db). je_journal_id j = i \<and> je_status j = ''POSTED'')"

definition posted_lines :: "ledger_db \<Rightarrow> journal_line list" where
  "posted_lines db = filter (\<lambda>l. posted_journal db (jl_journal_id l)) (journal_lines db)"

text \<open>The balance of an account before any of the posted lines.\<close>

definition opening_balances :: "ledger_db \<Rightarrow> (string \<times> int) list" where
  "opening_balances db =
     map (\<lambda>a. (la_account_id a, la_balance a - posted_sum a (posted_lines db))) (accounts db)"

definition signed_balance :: "ledger_account \<Rightarrow> int" where
  "signed_balance a = (if la_normal_side a = ''DEBIT'' then la_balance a else - la_balance a)"

definition trial_balance :: "ledger_db \<Rightarrow> int" where
  "trial_balance db = sum_list (map signed_balance (accounts db))"

definition accounts_ok :: "ledger_db \<Rightarrow> bool" where
  "accounts_ok db \<longleftrightarrow> (\<forall>a\<in>set (accounts db). la_normal_side a = ''DEBIT'' \<or> la_normal_side a = ''CREDIT'')"

definition line_ok :: "journal_line \<Rightarrow> bool" where
  "line_ok l \<longleftrightarrow> (jl_side l = ''DEBIT'' \<or> jl_side l = ''CREDIT'') \<and> 0 < jl_amount l"

definition tenant_account :: "ledger_db \<Rightarrow> string \<Rightarrow> string \<Rightarrow> bool" where
  "tenant_account db t i \<longleftrightarrow> (\<exists>a\<in>set (accounts db). la_account_id a = i \<and> la_tenant_id a = t)"

definition journal_state :: "journal_entry \<Rightarrow> bool" where
  "journal_state j \<longleftrightarrow>
     (je_status j = ''VALIDATED'' \<and> je_entry_type j = ''DISBURSEMENT'' \<and> je_guardian_call_id j = None) \<or>
     (je_status j = ''REVIEW_REQUIRED'' \<and> je_entry_type j = ''REVERSAL'' \<and> je_guardian_call_id j = None) \<or>
     (je_status j = ''POSTED'' \<and> je_entry_type j \<in> {''DISBURSEMENT'', ''REVERSAL''}
        \<and> je_guardian_call_id j \<noteq> None)"

definition journal_ok :: "ledger_db \<Rightarrow> journal_entry \<Rightarrow> bool" where
  "journal_ok db j \<longleftrightarrow> journal_state j \<and>
     side_total ''DEBIT'' (lines_of db (je_journal_id j)) = je_total_debits j \<and>
     side_total ''CREDIT'' (lines_of db (je_journal_id j)) = je_total_credits j \<and>
     je_total_debits j = je_total_credits j \<and> 0 < je_total_debits j \<and>
     (\<forall>l\<in>set (lines_of db (je_journal_id j)). line_ok l \<and> tenant_account db (je_tenant_id j) (jl_account_id l))"

definition books_ok :: "ledger_db \<Rightarrow> bool" where
  "books_ok db \<longleftrightarrow> ledger_constraints db \<and> accounts_ok db \<and> (\<forall>j\<in>set (journals db). journal_ok db j)"

section \<open>Reading the effects\<close>

lemma books_iff [simp]:
  "books db = (a, j, l, p, r, c, i) \<longleftrightarrow> accounts db = a \<and> journals db = j \<and> journal_lines db = l \<and>
     payments db = p \<and> receipts db = r \<and> reconciliations db = c \<and> ledger_inbox db = i"
  by (auto simp: books_def)

lemma books_same:
  "books db' = books db \<longleftrightarrow> accounts db' = accounts db \<and> journals db' = journals db \<and>
     journal_lines db' = journal_lines db \<and> payments db' = payments db \<and> receipts db' = receipts db \<and>
     reconciliations db' = reconciliations db \<and> ledger_inbox db' = ledger_inbox db"
  by (auto simp: books_def)

lemma constraints_journal_ids: "ledger_constraints db \<Longrightarrow> unique_by (\<lambda>j. Some (je_journal_id j)) (journals db)"
  by (simp add: ledger_constraints_def ledger_keys_def comp_def)

lemma constraints_account_ids: "ledger_constraints db \<Longrightarrow> unique_by (\<lambda>a. Some (la_account_id a)) (accounts db)"
  by (simp add: ledger_constraints_def ledger_keys_def comp_def)

lemma journal_by_id:
  "ledger_constraints db \<Longrightarrow> i \<in> set (journals db) \<Longrightarrow> j \<in> set (journals db) \<Longrightarrow>
     je_journal_id i = je_journal_id j \<Longrightarrow> i = j"
  using unique_byD [OF constraints_journal_ids] by blast

text \<open>A new journal has a fresh identifier and no line refers to it yet.\<close>

lemma new_journal_fresh:
  assumes "ledger_constraints db" "ledger_constraints db'" "journals db' = journals db @ [j]"
  shows "\<forall>i\<in>set (journals db). je_journal_id i \<noteq> je_journal_id j"
    and "lines_of db (je_journal_id j) = []"
proof -
  show fresh: "\<forall>i\<in>set (journals db). je_journal_id i \<noteq> je_journal_id j"
    using constraints_journal_ids [OF assms(2)] assms(3) by simp
  then show "lines_of db (je_journal_id j) = []"
    using assms(1)
    by (auto simp: lines_of_def scalars_def filter_empty_conv ledger_constraints_def ledger_foreign_keys_def)
qed

lemma lines_of_append:
  "journal_lines db' = journal_lines db @ ls \<Longrightarrow>
     lines_of db' i = lines_of db i @ filter (\<lambda>l. jl_journal_id l = i) ls"
  by (simp add: lines_of_def scalars_def)

lemma lines_of_same: "journal_lines db' = journal_lines db \<Longrightarrow> lines_of db' = lines_of db"
  by (simp add: lines_of_def fun_eq_iff)

lemma active_tenant_account: "active_account db t i \<Longrightarrow> tenant_account db t i"
  by (auto simp: active_account_def tenant_account_def)

lemma tenant_account_map:
  "accounts db' = map (post_account ls) (accounts db) \<Longrightarrow>
     tenant_account db' = tenant_account db"
  by (simp add: tenant_account_def fun_eq_iff)

lemma accounts_ok_map:
  "accounts db' = map (post_account ls) (accounts db) \<Longrightarrow>
     accounts_ok db' = accounts_ok db"
  by (simp add: accounts_ok_def)

lemma post_journal_simps [simp]:
  "je_journal_id (post_journal env sc j) = je_journal_id j"
  "je_tenant_id (post_journal env sc j) = je_tenant_id j"
  "je_status (post_journal env sc j) = ''POSTED''"
  "je_entry_type (post_journal env sc j) = je_entry_type j"
  "je_total_debits (post_journal env sc j) = je_total_debits j"
  "je_total_credits (post_journal env sc j) = je_total_credits j"
  "je_guardian_call_id (post_journal env sc j) = Some (sc_call_id sc)"
  by (simp_all add: post_journal_def)

section \<open>Journals stay balanced\<close>

lemma side_total_append: "side_total s (xs @ ys) = side_total s xs + side_total s ys"
  by (simp add: side_total_def)

lemma journal_ok_kept:
  assumes "journal_ok db j" "lines_of db' (je_journal_id j) = lines_of db (je_journal_id j)"
    and "tenant_account db' = tenant_account db"
  shows "journal_ok db' j"
  using assms by (simp add: journal_ok_def)

lemma journal_ok_posted:
  assumes "journal_ok db j" "je_journal_id j' = je_journal_id j" "je_tenant_id j' = je_tenant_id j"
    and "je_total_debits j' = je_total_debits j" "je_total_credits j' = je_total_credits j"
    and "je_entry_type j' = je_entry_type j" "je_status j' = ''POSTED''" "je_guardian_call_id j' \<noteq> None"
  shows "journal_ok db j'"
  using assms by (auto simp: journal_ok_def journal_state_def)

lemma reversal_lines_journal:
  "l \<in> set (reversal_lines env oi ls) \<Longrightarrow> jl_journal_id l = prefixed ''jrnl_rev_'' 14 (lenv_uuid env 0)"
  by (auto simp: reversal_lines_def reverse_line_def)

lemma reversal_lines_from:
  "l \<in> set (reversal_lines env oi ls) \<Longrightarrow>
     \<exists>l'\<in>set ls. jl_account_id l = jl_account_id l' \<and> jl_amount l = jl_amount l' \<and>
       jl_side l = (if jl_side l' = ''DEBIT'' then ''CREDIT'' else ''DEBIT'')"
proof -
  assume "l \<in> set (reversal_lines env oi ls)"
  then obtain i l' where "(i, l') \<in> set (enumerate 1 ls)" and l: "l = reverse_line env oi (i, l')"
    by (auto simp: reversal_lines_def)
  then have "l' \<in> set ls" by (metis enumerate_eq_zip set_zip_rightD)
  with l show ?thesis by (intro bexI [of _ l']) (simp_all add: reverse_line_def)
qed

lemma side_total_reversal_aux:
  "\<forall>l\<in>set ls. line_ok l \<Longrightarrow>
     side_total ''DEBIT'' (map (reverse_line env oi) (enumerate n ls)) = side_total ''CREDIT'' ls \<and>
     side_total ''CREDIT'' (map (reverse_line env oi) (enumerate n ls)) = side_total ''DEBIT'' ls"
  by (induction ls arbitrary: n) (auto simp: side_total_def reverse_line_def line_ok_def)

lemma side_total_reversal:
  assumes "\<forall>l\<in>set ls. line_ok l"
  shows "side_total ''DEBIT'' (reversal_lines env oi ls) = side_total ''CREDIT'' ls"
    "side_total ''CREDIT'' (reversal_lines env oi ls) = side_total ''DEBIT'' ls"
  using side_total_reversal_aux [OF assms] by (simp_all add: reversal_lines_def)

lemma journals_kept_update:
  assumes ok: "\<forall>j\<in>set (journals db). journal_ok db j"
    and upd: "journals db' = update_rows P f (journals db)"
    and same: "journal_lines db' = journal_lines db" "tenant_account db' = tenant_account db"
    and f: "\<And>j. journal_ok db j \<Longrightarrow> P j \<Longrightarrow> journal_ok db (f j)"
  shows "\<forall>j\<in>set (journals db'). journal_ok db' j"
proof -
  have "journal_ok db' j = journal_ok db j" for j
    using same by (simp add: journal_ok_def lines_of_same [OF same(1)])
  then show ?thesis using ok f by (auto simp: upd set_update_rows)
qed

lemma books_ok_effect:
  assumes ok: "books_ok db" and eff: "ledger_effect t db db'" and con': "ledger_constraints db'"
  shows "books_ok db'"
proof -
  from ok have con: "ledger_constraints db" and acc: "accounts_ok db"
    and jok: "\<forall>j\<in>set (journals db). journal_ok db j"
    by (auto simp: books_ok_def)
  from eff have "accounts_ok db' \<and> (\<forall>j\<in>set (journals db'). journal_ok db' j)"
  proof cases
    case observe
    then have "journal_ok db' = journal_ok db" "accounts_ok db' = accounts_ok db"
      by (simp_all add: books_same fun_eq_iff journal_ok_def lines_of_def tenant_account_def accounts_ok_def)
    then show ?thesis using jok acc observe by (simp add: books_same)
  next
    case (prepare j d c p)
    note fresh = new_journal_fresh [OF con con', of j]
    have ta: "tenant_account db' = tenant_account db" "accounts_ok db' = accounts_ok db"
      using prepare(1) by (auto simp: tenant_account_def accounts_ok_def fun_eq_iff)
    have ls: "lines_of db' i = lines_of db i @ filter (\<lambda>l. jl_journal_id l = i) [d, c]" for i
      using prepare(1) by (intro lines_of_append) simp
    have "journal_ok db' i" if i: "i \<in> set (journals db)" for i
    proof (rule journal_ok_kept [OF _ _ ta(1)])
      show "journal_ok db i" using jok i by blast
      have "je_journal_id i \<noteq> je_journal_id j" using fresh(1) prepare(1) i by auto
      then show "lines_of db' (je_journal_id i) = lines_of db (je_journal_id i)"
        using prepare(8,9) by (simp add: ls)
    qed
    moreover have "journal_ok db' j"
      using prepare fresh ta
      by (auto simp: journal_ok_def journal_state_def ls side_total_def line_ok_def
          dest: active_tenant_account)
    ultimately show ?thesis using prepare(1) ta acc by auto
  next
    case (submit j p env sc be)
    then have acc': "accounts db' = map (post_account (lines_of db (je_journal_id j))) (accounts db)" by simp
    note ta = tenant_account_map [OF acc'] accounts_ok_map [OF acc']
    have "\<forall>i\<in>set (journals db'). journal_ok db' i"
    proof (rule journals_kept_update [OF jok])
      show "journals db' = update_rows (\<lambda>i. je_journal_id i = je_journal_id j) (post_journal env sc) (journals db)" using submit by simp
    qed (use submit ta in \<open>auto intro: journal_ok_posted\<close>)
    then show ?thesis using ta acc by simp
  next
    case (draft_reversal i j env sc reason key)
    note fresh = new_journal_fresh [OF con con', of j]
    have ta: "tenant_account db' = tenant_account db" "accounts_ok db' = accounts_ok db"
      using draft_reversal(3) by (auto simp: tenant_account_def accounts_ok_def fun_eq_iff)
    let ?ls = "reversal_lines env (je_journal_id i) (lines_of db (je_journal_id i))"
    have ls: "lines_of db' k = lines_of db k @ filter (\<lambda>l. jl_journal_id l = k) ?ls" for k
      using draft_reversal(3) by (intro lines_of_append) simp
    have new: "jl_journal_id l = je_journal_id j" if "l \<in> set ?ls" for l
      using reversal_lines_journal [OF that] draft_reversal(4) by (simp add: new_reversal_journal_def)
    from jok draft_reversal(1) have iok: "journal_ok db i" by blast
    then have lok: "\<forall>l\<in>set (lines_of db (je_journal_id i)). line_ok l" by (simp add: journal_ok_def)
    have "journal_ok db' k" if k: "k \<in> set (journals db)" for k
    proof (rule journal_ok_kept [OF _ _ ta(1)])
      show "journal_ok db k" using jok k by blast
      have "je_journal_id k \<noteq> je_journal_id j" using fresh(1) draft_reversal(3) k by auto
      then show "lines_of db' (je_journal_id k) = lines_of db (je_journal_id k)"
        using new by (auto simp: ls filter_empty_conv)
    qed
    moreover have "lines_of db' (je_journal_id j) = ?ls"
      using fresh draft_reversal(3) new by (simp add: ls)
    then have "journal_ok db' j"
      using iok ta side_total_reversal [OF lok] draft_reversal(4,5)
      by (auto simp: journal_ok_def journal_state_def new_reversal_journal_def line_ok_def
          dest!: reversal_lines_from)
    ultimately show ?thesis using draft_reversal(3) ta acc by auto
  next
    case (post_reversal j reviewer env sc)
    then have acc': "accounts db' = map (post_account (lines_of db (je_journal_id j))) (accounts db)" by simp
    note ta = tenant_account_map [OF acc'] accounts_ok_map [OF acc']
    have "\<forall>i\<in>set (journals db'). journal_ok db' i"
    proof (rule journals_kept_update [OF jok])
      show "journals db' = update_rows (\<lambda>i. je_journal_id i = je_journal_id j) (\<lambda>i. (post_journal env sc i)\<lparr>je_reviewer_approval_id := Some reviewer\<rparr>) (journals db)" using post_reversal by simp
    qed (use post_reversal ta in \<open>auto intro: journal_ok_posted\<close>)
    then show ?thesis using ta acc by simp
  next
    case settle
    then have "journal_ok db' = journal_ok db" "accounts_ok db' = accounts_ok db"
      by (simp_all add: fun_eq_iff journal_ok_def lines_of_def tenant_account_def accounts_ok_def)
    then show ?thesis using jok acc settle by simp
  qed
  with con' show ?thesis by (simp add: books_ok_def)
qed

end
