(* ===== verification/LedgerAccounts.thy ===== *)
theory LedgerAccounts
  imports LedgerInvariant
begin

text \<open>
  Balances, posted journals and payments over time: the opening balances are recovered
  from the posted lines after any run, the trial balance never moves, posted journals and
  all lines stay as they are, a Guardian call posts at most one journal, and the payment
  state machine agrees with the journals and the settlement tables.
\<close>

section \<open>Balances\<close>

lemma posted_sum_filter_disj:
  assumes "\<And>l. l \<in> set ls \<Longrightarrow> \<not> (P l \<and> Q l)"
  shows "posted_sum a (filter (\<lambda>l. P l \<or> Q l) ls) = posted_sum a (filter P ls) + posted_sum a (filter Q ls)"
  using assms by (induction ls) (auto simp: posted_sum_def lines_on_def)

lemma posted_journal_update:
  assumes "ledger_constraints db" "j \<in> set (journals db)"
    and "journals db' = update_rows (\<lambda>i. je_journal_id i = je_journal_id j) f (journals db)"
    and "\<And>i. je_journal_id (f i) = je_journal_id i \<and> je_status (f i) = ''POSTED''"
  shows "posted_journal db' k \<longleftrightarrow> posted_journal db k \<or> k = je_journal_id j"
proof -
  have "posted_journal db' k \<longleftrightarrow> (\<exists>i\<in>set (journals db). je_journal_id i = k
      \<and> (je_journal_id i = je_journal_id j \<or> je_status i = ''POSTED''))"
    using assms(4) by (auto simp: posted_journal_def assms(3) set_update_rows)
  then show ?thesis using assms(2) by (auto simp: posted_journal_def)
qed

lemma posted_journal_append:
  "journals db' = journals db @ [j] \<Longrightarrow> je_status j \<noteq> ''POSTED'' \<Longrightarrow> posted_journal db' = posted_journal db"
  by (auto simp: posted_journal_def fun_eq_iff)

lemma unposted:
  assumes "ledger_constraints db" "j \<in> set (journals db)" "je_status j \<noteq> ''POSTED''"
  shows "\<not> posted_journal db (je_journal_id j)"
  using journal_by_id [OF assms(1) _ assms(2)] assms(3) by (auto simp: posted_journal_def)

lemma posted_lines_post:
  assumes con: "ledger_constraints db" and j: "j \<in> set (journals db)" "je_status j \<noteq> ''POSTED''"
    and upd: "journals db' = update_rows (\<lambda>i. je_journal_id i = je_journal_id j) f (journals db)"
      "\<And>i. je_journal_id (f i) = je_journal_id i \<and> je_status (f i) = ''POSTED''"
    and ls: "journal_lines db' = journal_lines db"
  shows "posted_sum a (posted_lines db') =
    posted_sum a (posted_lines db) + posted_sum a (lines_of db (je_journal_id j))"
  unfolding posted_lines_def lines_of_def scalars_def ls posted_journal_update [OF con j(1) upd]
  using unposted [OF con j] by (intro posted_sum_filter_disj) auto

lemma opening_balances_post:
  assumes "ledger_constraints db" "j \<in> set (journals db)" "je_status j \<noteq> ''POSTED''"
    and "journals db' = update_rows (\<lambda>i. je_journal_id i = je_journal_id j) f (journals db)"
      "\<And>i. je_journal_id (f i) = je_journal_id i \<and> je_status (f i) = ''POSTED''"
    and "journal_lines db' = journal_lines db"
    and acc: "accounts db' = map (post_account (lines_of db (je_journal_id j))) (accounts db)"
  shows "opening_balances db' = opening_balances db"
proof -
  have "posted_sum (post_account ls a) = posted_sum a" for ls a
    by (rule posted_sum_cong) simp_all
  then show ?thesis
    using posted_lines_post [OF assms(1-6)] by (simp add: opening_balances_def acc)
qed

lemma posted_lines_new:
  assumes con: "ledger_constraints db" "ledger_constraints db'"
    and j: "journals db' = journals db @ [j]" "je_status j \<noteq> ''POSTED''"
    and ls: "journal_lines db' = journal_lines db @ ls" "\<And>l. l \<in> set ls \<Longrightarrow> jl_journal_id l = je_journal_id j"
  shows "posted_lines db' = posted_lines db"
proof -
  have "\<not> posted_journal db (je_journal_id j)"
    using new_journal_fresh [OF con j(1)] by (auto simp: posted_journal_def)
  with ls show ?thesis
    by (simp add: posted_lines_def posted_journal_append [OF j] filter_empty_conv)
qed

lemma posted_lines_same:
  "journals db' = journals db \<Longrightarrow> journal_lines db' = journal_lines db \<Longrightarrow> posted_lines db' = posted_lines db"
  by (simp add: posted_lines_def posted_journal_def)

lemma opening_balances_effect:
  assumes con: "ledger_constraints db" "ledger_constraints db'" and eff: "ledger_effect t db db'"
  shows "opening_balances db' = opening_balances db"
  using eff
proof cases
  case observe
  then show ?thesis by (simp add: books_same opening_balances_def posted_lines_same [of db' db])
next
  case (prepare j d c p)
  have "posted_lines db' = posted_lines db"
    by (rule posted_lines_new [OF con, of j "[d, c]"]) (use prepare in auto)
  then show ?thesis using prepare(1) by (simp add: opening_balances_def)
next
  case (submit j p env sc be)
  show ?thesis
    by (rule opening_balances_post [OF con(1) submit(1), of db' "post_journal env sc"]) (use submit in simp_all)
next
  case (draft_reversal i j env sc reason key)
  have "posted_lines db' = posted_lines db"
    by (rule posted_lines_new [OF con,
          of j "reversal_lines env (je_journal_id i) (lines_of db (je_journal_id i))"])
      (use draft_reversal in \<open>auto simp: new_reversal_journal_def dest: reversal_lines_journal\<close>)
  then show ?thesis using draft_reversal(3) by (simp add: opening_balances_def)
next
  case (post_reversal j reviewer env sc)
  show ?thesis
    by (rule opening_balances_post [OF con(1) post_reversal(1), of db'
          "\<lambda>i. (post_journal env sc i)\<lparr>je_reviewer_approval_id := Some reviewer\<rparr>"])
      (use post_reversal in simp_all)
next
  case settle
  then show ?thesis by (simp add: opening_balances_def posted_lines_same [of db' db])
qed

text \<open>Posting balanced lines moves the signed balances by debits minus credits, which is nothing.\<close>

definition signed_amount :: "journal_line \<Rightarrow> int" where
  "signed_amount l = (if jl_side l = ''DEBIT'' then jl_amount l else - jl_amount l)"

lemma signed_post:
  assumes "la_normal_side a = ''DEBIT'' \<or> la_normal_side a = ''CREDIT''" "\<forall>l\<in>set ls. line_ok l"
  shows "signed_balance (post_account ls a) =
    signed_balance a + sum_list (map signed_amount (lines_on (la_account_id a) ls))"
proof -
  have "(if la_normal_side a = ''DEBIT'' then posted_sum a ls else - posted_sum a ls) =
      sum_list (map signed_amount (lines_on (la_account_id a) ls))"
    using assms(2)
  proof (induction ls)
    case Nil
    then show ?case by (simp add: posted_sum_def lines_on_def)
  next
    case (Cons l ls)
    have "posted_sum a (l # ls) = (if jl_account_id l = la_account_id a then post_amount a l else 0) + posted_sum a ls"
      by (simp add: posted_sum_def lines_on_def)
    with Cons assms(1) show ?case
      by (auto simp: lines_on_def post_amount_def signed_amount_def line_ok_def)
  qed
  then show ?thesis by (auto simp: signed_balance_def)
qed

lemma lines_by_account:
  assumes "distinct ids" "\<forall>l\<in>set ls. jl_account_id l \<in> set ids"
  shows "(\<Sum>i\<leftarrow>ids. sum_list (map signed_amount (lines_on i ls))) = sum_list (map signed_amount ls)"
  using assms(2)
proof (induction ls)
  case Nil
  then show ?case by (simp add: lines_on_def)
next
  case (Cons l ls)
  have "(\<Sum>i\<leftarrow>ids. sum_list (map signed_amount (lines_on i (l # ls)))) =
      (\<Sum>i\<leftarrow>ids. (if i = jl_account_id l then signed_amount l else 0)) +
      (\<Sum>i\<leftarrow>ids. sum_list (map signed_amount (lines_on i ls)))"
    unfolding sum_list_addf [symmetric]
    by (intro arg_cong [where f = sum_list] map_cong) (auto simp: lines_on_def)
  moreover have "(\<Sum>i\<leftarrow>ids. (if i = jl_account_id l then signed_amount l else 0)) = signed_amount l"
    using assms(1) Cons.prems by (simp add: sum_list_distinct_conv_sum_set)
  ultimately show ?case using Cons by simp
qed

lemma signed_total: "\<forall>l\<in>set ls. line_ok l \<Longrightarrow>
    sum_list (map signed_amount ls) = side_total ''DEBIT'' ls - side_total ''CREDIT'' ls"
  by (induction ls) (auto simp: side_total_def signed_amount_def line_ok_def)

lemma trial_balance_post:
  assumes ok: "books_ok db" and ls: "\<forall>l\<in>set ls. line_ok l" "balanced_lines ls"
    and act: "\<forall>l\<in>set ls. active_account db t (jl_account_id l)"
    and acc: "accounts db' = map (post_account ls) (accounts db)"
  shows "trial_balance db' = trial_balance db"
proof -
  let ?ids = "map la_account_id (accounts db)"
  have ids: "distinct ?ids"
    using ok constraints_account_ids [of db]
    by (simp add: books_ok_def unique_by_def map_filter_def comp_def)
  have mem: "\<forall>l\<in>set ls. jl_account_id l \<in> set ?ids" using act by (force simp: active_account_def)
  have "trial_balance db' = (\<Sum>a\<leftarrow>accounts db. signed_balance a +
      sum_list (map signed_amount (lines_on (la_account_id a) ls)))"
    using ok ls(1) signed_post
    by (auto simp: trial_balance_def acc books_ok_def accounts_ok_def intro!: arg_cong [where f = sum_list])
  also have "\<dots> = trial_balance db + (\<Sum>i\<leftarrow>?ids. sum_list (map signed_amount (lines_on i ls)))"
    by (simp add: sum_list_addf trial_balance_def comp_def)
  also have "\<dots> = trial_balance db"
    using lines_by_account [OF ids mem] signed_total [OF ls(1)] ls(2) by (simp add: balanced_lines_def)
  finally show ?thesis .
qed

lemma books_ok_lines:
  "books_ok db \<Longrightarrow> j \<in> set (journals db) \<Longrightarrow> \<forall>l\<in>set (lines_of db (je_journal_id j)). line_ok l"
  by (auto simp: books_ok_def journal_ok_def)

lemma trial_balance_effect:
  assumes ok: "books_ok db" and eff: "ledger_effect t db db'"
  shows "trial_balance db' = trial_balance db"
  using eff
proof cases
  case (submit j p env sc be)
  show ?thesis
    by (rule trial_balance_post [OF ok books_ok_lines [OF ok submit(1)] submit(5,6)]) (use submit in simp)
next
  case (post_reversal j reviewer env sc)
  show ?thesis
    by (rule trial_balance_post [OF ok books_ok_lines [OF ok post_reversal(1)] post_reversal(3,4)])
      (use post_reversal in simp)
qed (auto simp: books_same trial_balance_def)

section \<open>Payments and settlements\<close>

definition payment_state :: "payment_instruction \<Rightarrow> journal_entry \<Rightarrow> bool" where
  "payment_state p j \<longleftrightarrow>
     (pi_status p = ''PREPARED'' \<and> je_status j = ''VALIDATED'' \<and> pi_bank_execution_id p = None
        \<and> pi_bank_reference p = None) \<or>
     (pi_status p = ''SUBMITTED'' \<and> je_status j = ''POSTED'' \<and> pi_bank_execution_id p \<noteq> None
        \<and> pi_bank_reference p = None) \<or>
     (pi_status p = ''SETTLED'' \<and> je_status j = ''POSTED'' \<and> pi_bank_execution_id p \<noteq> None
        \<and> pi_bank_reference p \<noteq> None)"

definition payment_matches :: "payment_instruction \<Rightarrow> journal_entry \<Rightarrow> bool" where
  "payment_matches p j \<longleftrightarrow> je_journal_id j = pi_journal_id p \<and> je_tenant_id j = pi_tenant_id p \<and>
     je_entry_type j = ''DISBURSEMENT'' \<and> je_total_debits j = pi_amount p \<and> payment_state p j"

definition payments_ok :: "ledger_db \<Rightarrow> bool" where
  "payments_ok db \<longleftrightarrow>
     (\<forall>p\<in>set (payments db). \<exists>j\<in>set (journals db). payment_matches p j) \<and>
     unique_by (\<lambda>p. Some (pi_journal_id p)) (payments db) \<and>
     (\<forall>j\<in>set (journals db). je_entry_type j = ''DISBURSEMENT'' \<longrightarrow>
        (\<exists>p\<in>set (payments db). pi_journal_id p = je_journal_id j))"

definition receipt_matches :: "settlement_receipt \<Rightarrow> payment_instruction \<Rightarrow> bool" where
  "receipt_matches r p \<longleftrightarrow> pi_payment_id p = sr_payment_id r \<and> pi_tenant_id p = sr_tenant_id r \<and>
     pi_amount p = sr_amount r \<and> pi_currency p = sr_currency r \<and>
     pi_bank_execution_id p = Some (sr_bank_execution_id r) \<and>
     pi_bank_reference p = Some (sr_bank_reference r) \<and> pi_status p = ''SETTLED''"

definition settlements_ok :: "ledger_db \<Rightarrow> bool" where
  "settlements_ok db \<longleftrightarrow>
     (\<forall>r\<in>set (receipts db). \<exists>p\<in>set (payments db). receipt_matches r p) \<and>
     (\<forall>p\<in>set (payments db). pi_status p = ''SETTLED'' \<longrightarrow>
        (\<exists>r\<in>set (receipts db). sr_payment_id r = pi_payment_id p)) \<and>
     map sr_payment_id (receipts db) = map rr_payment_id (reconciliations db) \<and>
     map sr_evidence_hash (receipts db) = map lib_payload_hash (ledger_inbox db)"

lemma constraints_payment_ids: "ledger_constraints db \<Longrightarrow> unique_by (\<lambda>p. Some (pi_payment_id p)) (payments db)"
  by (simp add: ledger_constraints_def ledger_keys_def comp_def)

lemma constraints_receipt_payments: "ledger_constraints db \<Longrightarrow> unique_by (\<lambda>r. Some (sr_payment_id r)) (receipts db)"
  by (simp add: ledger_constraints_def ledger_keys_def comp_def)

lemma payment_by_id:
  "ledger_constraints db \<Longrightarrow> p \<in> set (payments db) \<Longrightarrow> q \<in> set (payments db) \<Longrightarrow>
     pi_payment_id p = pi_payment_id q \<Longrightarrow> p = q"
  using unique_byD [OF constraints_payment_ids] by blast

lemma submit_payment_simps [simp]:
  "pi_payment_id (submit_payment env be p) = pi_payment_id p"
  "pi_journal_id (submit_payment env be p) = pi_journal_id p"
  "pi_tenant_id (submit_payment env be p) = pi_tenant_id p"
  "pi_amount (submit_payment env be p) = pi_amount p"
  "pi_currency (submit_payment env be p) = pi_currency p"
  "pi_status (submit_payment env be p) = ''SUBMITTED''"
  "pi_bank_execution_id (submit_payment env be p) = Some (be_execution_id be)"
  "pi_bank_reference (submit_payment env be p) = pi_bank_reference p"
  by (simp_all add: submit_payment_def)

lemma settle_payment_simps [simp]:
  "pi_payment_id (settle_payment env ref p) = pi_payment_id p"
  "pi_journal_id (settle_payment env ref p) = pi_journal_id p"
  "pi_tenant_id (settle_payment env ref p) = pi_tenant_id p"
  "pi_amount (settle_payment env ref p) = pi_amount p"
  "pi_currency (settle_payment env ref p) = pi_currency p"
  "pi_status (settle_payment env ref p) = ''SETTLED''"
  "pi_bank_execution_id (settle_payment env ref p) = pi_bank_execution_id p"
  "pi_bank_reference (settle_payment env ref p) = Some ref"
  by (simp_all add: settle_payment_def)

lemma payments_ok_match:
  assumes "payments_ok db" "ledger_constraints db" "p \<in> set (payments db)" "j \<in> set (journals db)"
    and "pi_journal_id p = je_journal_id j"
  shows "payment_matches p j"
proof -
  from assms(1,3) obtain i where i: "i \<in> set (journals db)" "payment_matches p i"
    by (auto simp: payments_ok_def)
  then have "i = j" using journal_by_id [OF assms(2) i(1) assms(4)] assms(5) by (simp add: payment_matches_def)
  with i show ?thesis by simp
qed

lemma set_update_by_id:
  assumes "unique_by (\<lambda>r. Some (key r)) rows" "r \<in> set rows"
  shows "set (update_rows (\<lambda>x. key x = key r) f rows) = insert (f r) (set rows - {r})"
  using assms unique_byD [OF assms(1)] by (fastforce simp: set_update_rows image_iff)

lemma payments_ok_effect:
  assumes ok: "payments_ok db" and con: "ledger_constraints db" "ledger_constraints db'"
    and eff: "ledger_effect t db db'"
  shows "payments_ok db'"
  using eff
proof cases
  case observe
  with ok show ?thesis by (simp add: books_same payments_ok_def)
next
  case (prepare j d c p)
  then have j: "journals db' = journals db @ [j]" and p: "payments db' = payments db @ [p]" by simp_all
  have "pi_journal_id q \<noteq> pi_journal_id p" if q: "q \<in> set (payments db)" for q
  proof -
    from ok q obtain i where "i \<in> set (journals db)" "je_journal_id i = pi_journal_id q"
      by (auto simp: payments_ok_def payment_matches_def)
    with new_journal_fresh(1) [OF con j] prepare show ?thesis by auto
  qed
  moreover have "payment_matches p j" using prepare by (simp add: payment_matches_def payment_state_def)
  ultimately show ?thesis
    using ok prepare(16) by (auto simp: payments_ok_def j p)
next
  case (submit j p env sc be)
  let ?f = "post_journal env sc" and ?g = "submit_payment env be"
  have j: "set (journals db') = insert (?f j) (set (journals db) - {j})"
    using submit set_update_by_id [OF constraints_journal_ids [OF con(1)] submit(1)] by simp
  have p: "set (payments db') = insert (?g p) (set (payments db) - {p})"
    using submit set_update_by_id [OF constraints_payment_ids [OF con(1)] submit(3)] by simp
  have m: "payment_matches p j" by (rule payments_ok_match [OF ok con(1) submit(3,1,4)])
  then have "payment_matches (?g p) (?f j)"
    using submit(2) by (auto simp: payment_matches_def payment_state_def)
  moreover have "\<exists>i\<in>set (journals db'). payment_matches q i" if q: "q \<in> set (payments db) - {p}" for q
  proof -
    from ok q obtain i where i: "i \<in> set (journals db)" "payment_matches q i" by (auto simp: payments_ok_def)
    have "pi_journal_id q \<noteq> pi_journal_id p"
      using ok q submit(3) unique_byD [of "\<lambda>p. Some (pi_journal_id p)" "payments db" p q]
      by (auto simp: payments_ok_def)
    with i m have "i \<noteq> j" by (auto simp: payment_matches_def)
    with i show ?thesis by (auto simp: j)
  qed
  moreover have "unique_by (\<lambda>p. Some (pi_journal_id p)) (payments db')"
    using ok submit by (simp add: payments_ok_def unique_by_update_rows)
  moreover have "\<exists>q\<in>set (payments db'). pi_journal_id q = je_journal_id i"
    if "i \<in> set (journals db')" "je_entry_type i = ''DISBURSEMENT''" for i
  proof -
    from that j obtain i0 where "i0 \<in> set (journals db)" "je_journal_id i0 = je_journal_id i"
      "je_entry_type i0 = ''DISBURSEMENT''" using submit(1) by auto
    with ok obtain q where "q \<in> set (payments db)" "pi_journal_id q = je_journal_id i"
      by (fastforce simp: payments_ok_def)
    then show ?thesis by (cases "q = p") (auto simp: p)
  qed
  ultimately show ?thesis by (auto simp: payments_ok_def p j)
next
  case (draft_reversal i j env sc reason key)
  with ok show ?thesis by (auto simp: payments_ok_def new_reversal_journal_def)
next
  case (post_reversal j reviewer env sc)
  let ?f = "\<lambda>i. (post_journal env sc i)\<lparr>je_reviewer_approval_id := Some reviewer\<rparr>"
  have j: "set (journals db') = insert (?f j) (set (journals db) - {j})"
    using post_reversal set_update_by_id [OF constraints_journal_ids [OF con(1)] post_reversal(1)] by simp
  have "\<exists>i\<in>set (journals db'). payment_matches q i" if q: "q \<in> set (payments db)" for q
  proof -
    from ok q obtain i where i: "i \<in> set (journals db)" "payment_matches q i" by (auto simp: payments_ok_def)
    with post_reversal(2) have "i \<noteq> j" by (auto simp: payment_matches_def payment_state_def)
    with i show ?thesis by (auto simp: j)
  qed
  moreover have "payments db' = payments db" using post_reversal by simp
  ultimately show ?thesis using ok post_reversal(1) by (auto simp: payments_ok_def j)
next
  case (settle p r amount i env)
  let ?g = "settle_payment env (bs_bank_reference r)"
  have p: "set (payments db') = insert (?g p) (set (payments db) - {p})"
    using settle set_update_by_id [OF constraints_payment_ids [OF con(1)] settle(1)] by simp
  from ok settle(1) obtain j where j: "j \<in> set (journals db)" "payment_matches p j"
    by (auto simp: payments_ok_def)
  with settle(2) have "payment_matches (?g p) j"
    by (auto simp: payment_matches_def payment_state_def)
  moreover have "unique_by (\<lambda>p. Some (pi_journal_id p)) (payments db')"
    using ok settle by (simp add: payments_ok_def unique_by_update_rows)
  moreover have js: "journals db' = journals db" using settle by simp
  moreover have "\<exists>j\<in>set (journals db). payment_matches q j" if "q \<in> set (payments db) - {p}" for q
    using ok that by (auto simp: payments_ok_def)
  moreover have "\<exists>q\<in>set (payments db'). pi_journal_id q = je_journal_id i"
    if "i \<in> set (journals db)" "je_entry_type i = ''DISBURSEMENT''" for i
  proof -
    from ok that obtain q' where "q' \<in> set (payments db)" "pi_journal_id q' = je_journal_id i"
      by (auto simp: payments_ok_def)
    then show ?thesis by (cases "q' = p") (auto simp: p)
  qed
  ultimately show ?thesis using j(1) unfolding payments_ok_def js p by blast
qed

lemma settlements_ok_effect:
  assumes ok: "settlements_ok db" and pok: "payments_ok db"
    and con: "ledger_constraints db" "ledger_constraints db'" and eff: "ledger_effect t db db'"
  shows "settlements_ok db'"
  using eff
proof cases
  case observe
  with ok show ?thesis by (simp add: books_same settlements_ok_def)
next
  case (prepare j d c p)
  with ok show ?thesis by (auto simp: settlements_ok_def)
next
  case (submit j p env sc be)
  have p: "set (payments db') = insert (submit_payment env be p) (set (payments db) - {p})"
    using submit set_update_by_id [OF constraints_payment_ids [OF con(1)] submit(3)] by simp
  have "payment_matches p j" by (rule payments_ok_match [OF pok con(1) submit(3,1,4)])
  with submit(2) have "pi_status p = ''PREPARED''" by (auto simp: payment_matches_def payment_state_def)
  then have other: "q \<noteq> p" if "receipt_matches r q" for r q using that by (auto simp: receipt_matches_def)
  have same: "receipts db' = receipts db" "reconciliations db' = reconciliations db"
    "ledger_inbox db' = ledger_inbox db" using submit by simp_all
  have "\<exists>q\<in>set (payments db'). receipt_matches r q" if "r \<in> set (receipts db)" for r
  proof -
    from ok that obtain q where "q \<in> set (payments db)" "receipt_matches r q"
      by (auto simp: settlements_ok_def)
    with other show ?thesis by (auto simp: p)
  qed
  moreover have "\<exists>r\<in>set (receipts db). sr_payment_id r = pi_payment_id q"
    if "q \<in> set (payments db')" "pi_status q = ''SETTLED''" for q
    using that ok by (auto simp: p settlements_ok_def)
  ultimately show ?thesis using ok by (simp add: settlements_ok_def same)
next
  case (draft_reversal i j env sc reason key)
  with ok show ?thesis by (simp add: settlements_ok_def)
next
  case (post_reversal j reviewer env sc)
  with ok show ?thesis by (simp add: settlements_ok_def)
next
  case (settle p r amount i env)
  let ?g = "settle_payment env (bs_bank_reference r)"
  have p: "set (payments db') = insert (?g p) (set (payments db) - {p})"
    using settle set_update_by_id [OF constraints_payment_ids [OF con(1)] settle(1)] by simp
  have r: "receipts db' = receipts db @ [new_receipt env r amount]" using settle by simp
  have "sr_payment_id r' \<noteq> pi_payment_id p" if "r' \<in> set (receipts db)" for r'
    using that constraints_receipt_payments [OF con(2)] settle(3) by (simp add: r new_receipt_def)
  then have other: "q \<noteq> p" if "r' \<in> set (receipts db)" "receipt_matches r' q" for r' q
    using that by (metis receipt_matches_def)
  have "\<exists>q\<in>set (payments db'). receipt_matches r' q" if r': "r' \<in> set (receipts db)" for r'
  proof -
    from ok r' obtain q where "q \<in> set (payments db)" "receipt_matches r' q"
      by (auto simp: settlements_ok_def)
    with other [OF r'] show ?thesis by (auto simp: p)
  qed
  moreover have "receipt_matches (new_receipt env r amount) (?g p)"
    using settle by (simp add: receipt_matches_def new_receipt_def)
  moreover have "\<exists>r'\<in>set (receipts db'). sr_payment_id r' = pi_payment_id q"
    if "q \<in> set (payments db')" "pi_status q = ''SETTLED''" for q
    using that ok settle(3) by (auto simp: p r new_receipt_def settlements_ok_def)
  moreover have "map sr_payment_id (receipts db') = map rr_payment_id (reconciliations db')"
    "map sr_evidence_hash (receipts db') = map lib_payload_hash (ledger_inbox db')"
    using ok settle by (simp_all add: settlements_ok_def r new_receipt_def new_reconciliation_def)
  ultimately show ?thesis by (auto simp: settlements_ok_def p r)
qed

section \<open>What later states keep\<close>

definition payment_rank :: "payment_instruction \<Rightarrow> nat" where
  "payment_rank p = (if pi_status p = ''PREPARED'' then 0 else if pi_status p = ''SUBMITTED'' then 1 else 2)"

definition payment_later :: "payment_instruction \<Rightarrow> payment_instruction \<Rightarrow> bool" where
  "payment_later p q \<longleftrightarrow> pi_payment_id q = pi_payment_id p \<and> pi_journal_id q = pi_journal_id p \<and>
     pi_tenant_id q = pi_tenant_id p \<and> pi_beneficiary_token q = pi_beneficiary_token p \<and>
     pi_amount q = pi_amount p \<and> payment_rank p \<le> payment_rank q \<and>
     (pi_status p \<noteq> ''PREPARED'' \<longrightarrow> pi_bank_execution_id q = pi_bank_execution_id p)"

definition journal_later :: "journal_entry \<Rightarrow> journal_entry \<Rightarrow> bool" where
  "journal_later j i \<longleftrightarrow> je_journal_id i = je_journal_id j \<and> je_tenant_id i = je_tenant_id j \<and>
     je_entry_type i = je_entry_type j \<and> je_idempotency_key i = je_idempotency_key j \<and>
     je_canonical_action_hash i = je_canonical_action_hash j \<and>
     je_total_debits i = je_total_debits j \<and> (je_status j = ''POSTED'' \<longrightarrow> i = j)"

definition ledger_keeps :: "ledger_db \<Rightarrow> ledger_db \<Rightarrow> bool" where
  "ledger_keeps db db' \<longleftrightarrow>
     (\<forall>j\<in>set (journals db). \<exists>i\<in>set (journals db'). journal_later j i) \<and>
     (\<forall>j\<in>set (journals db). lines_of db' (je_journal_id j) = lines_of db (je_journal_id j)) \<and>
     (\<exists>rs. receipts db' = receipts db @ rs) \<and> (\<exists>is. ledger_inbox db' = ledger_inbox db @ is) \<and>
     (\<forall>p\<in>set (payments db). \<exists>q\<in>set (payments db'). payment_later p q) \<and>
     map la_account_id (accounts db') = map la_account_id (accounts db)"

lemma payment_later_refl: "payment_later p p"
  by (simp add: payment_later_def)

lemma payment_later_trans:
  assumes "payment_later p q" "payment_later q r"
  shows "payment_later p r"
proof -
  have "pi_status q \<noteq> ''PREPARED''" if "pi_status p \<noteq> ''PREPARED''"
    using assms(1) that by (auto simp: payment_later_def payment_rank_def split: if_splits)
  with assms show ?thesis by (auto simp: payment_later_def)
qed

lemma journal_later_refl: "journal_later j j"
  by (simp add: journal_later_def)

lemma journal_later_trans: "journal_later j i \<Longrightarrow> journal_later i k \<Longrightarrow> journal_later j k"
  by (auto simp: journal_later_def)

lemmas later_intros = payment_later_refl journal_later_refl

lemma ledger_keeps_refl: "ledger_keeps db db"
  by (auto simp: ledger_keeps_def intro: later_intros)

lemma ledger_keeps_trans:
  assumes "ledger_keeps s t" "ledger_keeps t u"
  shows "ledger_keeps s u"
proof -
  have "\<exists>q\<in>set (payments u). payment_later p q" if "p \<in> set (payments s)" for p
    using assms that unfolding ledger_keeps_def by (meson payment_later_trans)
  moreover have "\<exists>k\<in>set (journals u). journal_later j k" if "j \<in> set (journals s)" for j
    using assms that unfolding ledger_keeps_def by (meson journal_later_trans)
  moreover have "lines_of u (je_journal_id j) = lines_of s (je_journal_id j)" if j: "j \<in> set (journals s)" for j
  proof -
    from assms(1) j obtain i where "i \<in> set (journals t)" "je_journal_id i = je_journal_id j"
      by (auto simp: ledger_keeps_def journal_later_def)
    with assms j show ?thesis by (auto simp: ledger_keeps_def)
  qed
  ultimately show ?thesis using assms by (auto simp: ledger_keeps_def)
qed

lemma old_lines_kept:
  assumes "ledger_constraints db" "ledger_constraints db'" "journals db' = journals db @ [j]"
    and "journal_lines db' = journal_lines db @ ls" "\<And>l. l \<in> set ls \<Longrightarrow> jl_journal_id l = je_journal_id j"
    and "i \<in> set (journals db)"
  shows "lines_of db' (je_journal_id i) = lines_of db (je_journal_id i)"
proof -
  have "je_journal_id i \<noteq> je_journal_id j" using new_journal_fresh(1) [OF assms(1-3)] assms(6) by auto
  with assms(5) show ?thesis by (auto simp: lines_of_append [OF assms(4)] filter_empty_conv)
qed

lemma journals_kept:
  assumes "ledger_constraints db" "j \<in> set (journals db)" "journal_later j (f j)" "i \<in> set (journals db)"
  shows "\<exists>k\<in>set (update_rows (\<lambda>i. je_journal_id i = je_journal_id j) f (journals db)). journal_later i k"
  using set_update_by_id [OF constraints_journal_ids [OF assms(1)] assms(2), of f] assms(3,4)
  by (cases "i = j") (auto intro: journal_later_refl)

lemma payments_kept:
  assumes "ledger_constraints db" "p \<in> set (payments db)" "payment_later p (g p)" "q \<in> set (payments db)"
  shows "\<exists>q'\<in>set (update_rows (\<lambda>q. pi_payment_id q = pi_payment_id p) g (payments db)). payment_later q q'"
  using set_update_by_id [OF constraints_payment_ids [OF assms(1)] assms(2), of g] assms(3,4)
  by (cases "q = p") (auto intro: payment_later_refl)

lemma ledger_keeps_effect:
  assumes pok: "payments_ok db" and con: "ledger_constraints db" "ledger_constraints db'" and eff: "ledger_effect t db db'"
  shows "ledger_keeps db db'"
  using eff
proof cases
  case observe
  then show ?thesis using ledger_keeps_refl [of db] by (simp add: books_same ledger_keeps_def lines_of_same [of db' db])
next
  case (prepare j d c p)
  have "lines_of db' (je_journal_id i) = lines_of db (je_journal_id i)" if "i \<in> set (journals db)" for i
    by (rule old_lines_kept [OF con _ _ _ that, of j "[d, c]"]) (use prepare in auto)
  then show ?thesis using prepare(1) by (auto simp: ledger_keeps_def intro: later_intros)
next
  case (submit j p env sc be)
  have "payment_matches p j" by (rule payments_ok_match [OF pok con(1) submit(3,1,4)])
  with submit(2) have "payment_later p (submit_payment env be p)"
    by (auto simp: payment_matches_def payment_state_def payment_later_def payment_rank_def submit_payment_def)
  moreover have "journal_later j (post_journal env sc j)"
    using submit(2) by (simp add: journal_later_def post_journal_def)
  ultimately show ?thesis
    using submit journals_kept [OF con(1) submit(1)] payments_kept [OF con(1) submit(3)]
    by (simp add: ledger_keeps_def lines_of_same [of db' db])
next
  case (draft_reversal i j env sc reason key)
  have "lines_of db' (je_journal_id k) = lines_of db (je_journal_id k)" if "k \<in> set (journals db)" for k
    by (rule old_lines_kept [OF con _ _ _ that,
          of j "reversal_lines env (je_journal_id i) (lines_of db (je_journal_id i))"])
      (use draft_reversal in \<open>auto simp: new_reversal_journal_def dest: reversal_lines_journal\<close>)
  then show ?thesis using draft_reversal(3) by (auto simp: ledger_keeps_def intro: later_intros)
next
  case (post_reversal j reviewer env sc)
  let ?f = "\<lambda>i. (post_journal env sc i)\<lparr>je_reviewer_approval_id := Some reviewer\<rparr>"
  have "journal_later j (?f j)"
    using post_reversal(2) by (simp add: journal_later_def post_journal_def)
  with post_reversal journals_kept [OF con(1) post_reversal(1), of ?f] show ?thesis
    by (auto simp: ledger_keeps_def lines_of_same [of db' db] intro: later_intros)
next
  case (settle p r amount i env)
  have "payment_later p (settle_payment env (bs_bank_reference r) p)"
    by (simp add: payment_later_def payment_rank_def settle_payment_def)
  with settle payments_kept [OF con(1) settle(1)] show ?thesis
    by (auto simp: ledger_keeps_def lines_of_same [of db' db] intro: later_intros)
qed

section \<open>The service\<close>

definition ledger_inv :: "ledger_db \<Rightarrow> bool" where
  "ledger_inv db \<longleftrightarrow> books_ok db \<and> payments_ok db \<and> settlements_ok db"

lemma ledger_inv_constraints: "ledger_inv db \<Longrightarrow> ledger_constraints db"
  by (simp add: ledger_inv_def books_ok_def)

lemma ledger_inv_effect:
  "ledger_inv db \<Longrightarrow> ledger_effect t db db' \<Longrightarrow> ledger_constraints db' \<Longrightarrow> ledger_inv db'"
  using books_ok_effect payments_ok_effect settlements_ok_effect
  by (metis ledger_inv_def books_ok_def)

definition ledger_le :: "ledger_db \<Rightarrow> ledger_db \<Rightarrow> bool" where
  "ledger_le db db' \<longleftrightarrow> ledger_keeps db db' \<and> opening_balances db' = opening_balances db \<and>
     trial_balance db' = trial_balance db"

interpretation ledger: monotone_service "ledger_step cfg" ledger_inv ledger_le for cfg
proof
  fix q db
  assume inv: "ledger_inv db"
  from ledger_step_effect [of cfg q db] inv show "ledger_inv (fst (ledger_step cfg q db))"
    by (auto intro: ledger_inv_effect)
  from ledger_step_effect [of cfg q db] show "ledger_le db (fst (ledger_step cfg q db))"
  proof
    assume "fst (ledger_step cfg q db) = db"
    then show ?thesis by (simp add: ledger_le_def ledger_keeps_refl)
  next
    assume "(\<exists>t. ledger_effect t db (fst (ledger_step cfg q db))) \<and> ledger_constraints (fst (ledger_step cfg q db))"
    then obtain t where "ledger_effect t db (fst (ledger_step cfg q db))"
      "ledger_constraints (fst (ledger_step cfg q db))" by blast
    then show ?thesis
      using inv ledger_inv_constraints [OF inv] ledger_keeps_effect opening_balances_effect trial_balance_effect
      by (simp add: ledger_le_def ledger_inv_def)
  qed
qed (auto simp: ledger_le_def intro: ledger_keeps_refl ledger_keeps_trans)

text \<open>A ledger with accounts and nothing else, as the seed leaves it, satisfies the invariant.\<close>

lemma ledger_inv_start:
  assumes "unique_by (\<lambda>a. Some (la_account_id a)) accs"
    and "\<forall>a\<in>set accs. la_normal_side a = ''DEBIT'' \<or> la_normal_side a = ''CREDIT''"
  shows "ledger_inv (empty_ledger\<lparr>accounts := accs\<rparr>)"
  using assms
  by (simp add: ledger_inv_def books_ok_def payments_ok_def settlements_ok_def accounts_ok_def
      ledger_constraints_def ledger_keys_def ledger_foreign_keys_def empty_ledger_def comp_def)

lemma ledger_inv_seeded: "ledger_inv (ledger_seed_data empty_ledger)"
proof -
  let ?accs = "accounts (ledger_seed_data empty_ledger)"
  have "ledger_seed_data empty_ledger = empty_ledger\<lparr>accounts := ?accs\<rparr>"
    by (simp add: ledger_seed_data_def empty_ledger_def)
  moreover have "ledger_inv (empty_ledger\<lparr>accounts := ?accs\<rparr>)"
    by (rule ledger_inv_start) (simp_all add: ledger_seed_data_def empty_ledger_def seed_account_def)
  ultimately show ?thesis by simp
qed

end
