(* ===== verification/LedgerProperties.thy ===== *)
theory LedgerProperties
  imports LedgerAccounts
begin

text \<open>
  The properties of the ledger and payment service over arbitrary sequences of requests:
  balances, double entry, immutability, idempotent preparation, single use of a Guardian
  call, exactly-once settlement and isolation of tenants.
\<close>

section \<open>Facts about committed operations\<close>

abbreviation seeded_ledger :: ledger_db where
  "seeded_ledger \<equiv> ledger_seed_data empty_ledger"

abbreviation ledger_run :: "ledger_settings \<Rightarrow> (ledger_env \<times> ledger_request) list \<Rightarrow> ledger_db \<Rightarrow> ledger_db" where
  "ledger_run cfg \<equiv> run (ledger_step cfg)"

lemma ledger_session_ok:
  "ledger_session body db = (db', Inr res) \<longleftrightarrow> body db = Inr (db', res) \<and> ledger_constraints db'"
  by (simp add: ledger_session_def session_ok)

lemma ledger_session_unchanged:
  "(\<And>db' res. body db = Inr (db', res) \<Longrightarrow> ledger_constraints db' \<Longrightarrow> db' = db) \<Longrightarrow>
     fst (ledger_session body db) = db"
  unfolding ledger_session_def by (cases rule: session_cases [of ledger_constraints LedgerIntegrityError body db]) auto

lemma ledger_committed_inv:
  assumes "ledger_inv db" "ledger_session body db = (db', Inr res)"
    and "\<And>db' res. body db = Inr (db', res) \<Longrightarrow> ledger_effect t db db'"
  shows "ledger_inv db'"
  using assms(2) assms(3) ledger_inv_effect [OF assms(1)] by (auto simp: ledger_session_ok)

lemma later_run:
  assumes "ledger_inv db"
  shows "ledger_inv (ledger_run cfg qs db)" "ledger_keeps db (ledger_run cfg qs db)"
  using ledger.run_inv [OF assms] ledger.run_le [OF assms] by (simp_all add: ledger_le_def)

lemma posted_kept:
  assumes "ledger_keeps db db'" "j \<in> set (journals db)" "je_status j = ''POSTED''"
  shows "j \<in> set (journals db')"
proof -
  from assms(1,2) obtain i where "i \<in> set (journals db')" "journal_later j i"
    unfolding ledger_keeps_def by meson
  with assms(3) show ?thesis by (simp add: journal_later_def)
qed

lemma constraints_idempotency:
  "ledger_constraints db \<Longrightarrow> unique_by (\<lambda>j. Some (je_tenant_id j, je_idempotency_key j)) (journals db)"
  by (simp add: ledger_constraints_def ledger_keys_def)

lemma constraints_guardian_call:
  "ledger_constraints db \<Longrightarrow>
     unique_by (\<lambda>j. pair_key (Some (je_tenant_id j)) (je_guardian_call_id j)) (journals db)"
  by (simp add: ledger_constraints_def ledger_keys_def)

lemma guardian_call_unique:
  assumes "ledger_constraints db" "i \<in> set (journals db)" "j \<in> set (journals db)"
    and "je_tenant_id i = je_tenant_id j" "je_guardian_call_id i = Some c" "je_guardian_call_id j = Some c"
  shows "i = j"
  by (rule unique_byD [OF constraints_guardian_call [OF assms(1)] assms(2,3), of "(je_tenant_id j, c)"])
    (use assms(4-6) in simp_all)

section \<open>Preparation\<close>

text \<open>What a committed preparation leaves: a journal bound to the key and the hash, with its payment.\<close>

definition prepared ::
    "ledger_db \<Rightarrow> guarded_scope \<Rightarrow> disbursement_request \<Rightarrow> int \<Rightarrow> journal_entry \<Rightarrow> payment_instruction \<Rightarrow> bool" where
  "prepared db scope r n j p \<longleftrightarrow>
     ledger_amount (dr_amount r) = Inr n \<and> dr_currency r = ''INR'' \<and> dr_rail r = ''DEMO_BANK_RAIL'' \<and>
     j \<in> set (journals db) \<and> je_tenant_id j = sc_tenant_id scope \<and>
     je_idempotency_key j = dr_client_idempotency_key r \<and>
     je_canonical_action_hash j = ledger_hash (disbursement_action scope r n) \<and>
     p \<in> set (payments db) \<and> pi_journal_id p = je_journal_id j"

lemma prepare_disbursement_result:
  assumes "prepare_disbursement env scope r db = Inr (db', res)"
  shows "\<exists>n j p. prepared db' scope r n j p \<and> res = JObj (disbursement_projection db' j p)"
proof -
  from assms obtain n where n: "ledger_amount (dr_amount r) = Inr n"
    and c: "dr_currency r = ''INR''" "dr_rail r = ''DEMO_BANK_RAIL''"
    by (auto simp: prepare_disbursement_def sum_bind_Inr split: if_splits)
  show ?thesis
  proof (cases "scalar (\<lambda>j. je_tenant_id j = sc_tenant_id scope
      \<and> je_idempotency_key j = dr_client_idempotency_key r) (journals db)")
    case (Some j)
    with assms n c obtain p where "scalar (\<lambda>p. pi_journal_id p = je_journal_id j) (payments db) = Some p"
      and "je_canonical_action_hash j = ledger_hash (disbursement_action scope r n)"
      and "db' = db" "res = JObj (disbursement_projection db j p)"
      by (auto simp: prepare_disbursement_def sum_bind_Inr Let_def split: if_splits)
    with scalar_Some [OF Some] n c show ?thesis by (auto simp: prepared_def dest: scalar_Some)
  next
    case None
    with assms n c have
      "res = JObj (disbursement_projection db' (new_disbursement_journal env scope r n) (new_payment env scope r n))"
      "new_disbursement_journal env scope r n \<in> set (journals db')" "new_payment env scope r n \<in> set (payments db')"
      by (auto simp: prepare_disbursement_def sum_bind_Inr Let_def ledger_audit_def split: if_splits)
    with n c show ?thesis
      by (intro exI [of _ n] exI [of _ "new_disbursement_journal env scope r n"]
          exI [of _ "new_payment env scope r n"])
        (simp add: prepared_def new_disbursement_journal_def new_payment_def)
  qed
qed

lemma prepared_later:
  assumes "prepared db scope r n j p" "ledger_keeps db db'"
  shows "\<exists>j' p'. prepared db' scope r n j' p' \<and> journal_later j j' \<and> payment_later p p'"
proof -
  from assms obtain j' p' where "j' \<in> set (journals db')" "journal_later j j'"
    "p' \<in> set (payments db')" "payment_later p p'"
    unfolding prepared_def ledger_keeps_def by meson
  with assms(1) show ?thesis
    by (intro exI [of _ j'] exI [of _ p']) (auto simp: prepared_def journal_later_def payment_later_def)
qed

lemma find_prepared:
  assumes "ledger_inv db" "j \<in> set (journals db)" "je_tenant_id j = t" "je_idempotency_key j = k"
  shows "scalar (\<lambda>j. je_tenant_id j = t \<and> je_idempotency_key j = k) (journals db) = Some j"
  by (rule scalar_unique)
    (use assms unique_byD [OF constraints_idempotency [OF ledger_inv_constraints [OF assms(1)]]] in auto)

lemma find_payment:
  assumes "ledger_inv db" "p \<in> set (payments db)" "pi_journal_id p = ji"
  shows "scalar (\<lambda>p. pi_journal_id p = ji) (payments db) = Some p"
  by (rule scalar_unique)
    (use assms unique_byD [of "\<lambda>p. Some (pi_journal_id p)" "payments db"]
      in \<open>auto simp: ledger_inv_def payments_ok_def\<close>)

lemma prepare_replay:
  assumes "ledger_inv db" "prepared db scope r n j p"
  shows "ledger_session (prepare_disbursement env scope r) db =
    (db, Inr (JObj (disbursement_projection db j p)))"
proof -
  have "scalar (\<lambda>j. je_tenant_id j = sc_tenant_id scope
      \<and> je_idempotency_key j = dr_client_idempotency_key r) (journals db) = Some j"
    "scalar (\<lambda>p. pi_journal_id p = je_journal_id j) (payments db) = Some p"
    using assms by (auto simp: prepared_def intro: find_prepared find_payment)
  with assms(2) have "prepare_disbursement env scope r db = Inr (db, JObj (disbursement_projection db j p))"
    by (simp add: prepare_disbursement_def prepared_def)
  with ledger_inv_constraints [OF assms(1)] show ?thesis by (simp add: ledger_session_ok)
qed

lemma prepare_committed:
  assumes "ledger_inv db" "ledger_session (prepare_disbursement env scope r) db = (db1, Inr res)"
  shows "ledger_inv db1" "\<exists>n j p. prepared db1 scope r n j p \<and> res = JObj (disbursement_projection db1 j p)"
  using ledger_committed_inv [OF assms prepare_disbursement_effect]
    prepare_disbursement_result assms(2) by (auto simp: ledger_session_ok)

lemma disbursement_action_inject:
  assumes "canon (JObj (disbursement_action scope r n)) = canon (JObj (disbursement_action scope' r' n'))"
  shows "disbursement_action scope r n = disbursement_action scope' r' n'"
  using canon_obj_values [OF assms] by (simp add: disbursement_action_def)

section \<open>Balances and double entry\<close>

lemma seeded_accounts:
  "accounts seeded_ledger =
    [seed_account ''ledger_cash_clearing'' ''1010'' ''Cash clearing'' ''ASSET'' ''DEBIT'' 250000000,
     seed_account ''ledger_loan_receivable'' ''1210'' ''Loan receivable'' ''ASSET'' ''DEBIT'' 0,
     seed_account ''ledger_funder_payable'' ''2010'' ''Funder payable'' ''LIABILITY'' ''CREDIT'' 0,
     seed_account ''ledger_disbursement_control'' ''9010'' ''Disbursement control'' ''CONTROL'' ''DEBIT'' 0]"
  "posted_lines seeded_ledger = []"
  by (simp_all add: ledger_seed_data_def empty_ledger_def posted_lines_def)

text \<open>
  C5. After any sequence of requests to a seeded ledger, served one after the other, the
  balance of every account is
  its seeded balance plus the posted lines on it, a line counting positively on the
  account's normal side: subtracting the posted lines gives back the seed.
\<close>

theorem ledger_balances_explained:
  "opening_balances (ledger_run cfg qs seeded_ledger) =
     [(''ledger_cash_clearing'', 250000000), (''ledger_loan_receivable'', 0),
      (''ledger_funder_payable'', 0), (''ledger_disbursement_control'', 0)]"
proof -
  have "opening_balances (ledger_run cfg qs seeded_ledger) = opening_balances seeded_ledger"
    using ledger.run_le [OF ledger_inv_seeded] by (simp add: ledger_le_def)
  then show ?thesis
    by (simp add: opening_balances_def seeded_accounts seed_account_def posted_sum_def lines_on_def)
qed

text \<open>
  C3. The trial balance of a seeded ledger (debit-side balances less credit-side balances)
  is the seeded cash after any sequence of requests, served one after the other: postings,
  reversals and settlements never create or destroy money.
\<close>

theorem ledger_trial_balance:
  "trial_balance (ledger_run cfg qs seeded_ledger) = 250000000"
proof -
  have "trial_balance (ledger_run cfg qs seeded_ledger) = trial_balance seeded_ledger"
    using ledger.run_le [OF ledger_inv_seeded] by (simp add: ledger_le_def)
  then show ?thesis
    by (simp add: trial_balance_def seeded_accounts seed_account_def signed_balance_def)
qed

text \<open>
  C18. Every journal of a reachable ledger has lines with positive amounts on accounts of
  its own tenant whose debits and credits are equal, positive and the totals the journal
  records, and is in one of the three states of the code, posted exactly when it carries
  a Guardian call.
\<close>

theorem ledger_journals_balanced:
  "list_all (journal_ok (ledger_run cfg qs seeded_ledger)) (journals (ledger_run cfg qs seeded_ledger))"
  using later_run(1) [OF ledger_inv_seeded] by (auto simp: ledger_inv_def books_ok_def list_all_iff)

text \<open>
  C17. A posted journal is immutable: whatever requests follow, one after the other, the same
  row and the same lines are still there.
\<close>

theorem ledger_posted_immutable:
  assumes "ledger_inv db" "j \<in> set (journals db)" "je_status j = ''POSTED''"
  shows "j \<in> set (journals (ledger_run cfg qs db)) \<and>
    lines_of (ledger_run cfg qs db) (je_journal_id j) = lines_of db (je_journal_id j)"
  using posted_kept [OF later_run(2) [OF assms(1)] assms(2,3)] later_run(2) [OF assms(1)] assms(2)
  by (auto simp: ledger_keeps_def)

text \<open>
  C33. Preparing a disbursement is idempotent: after a committed preparation and any further
  requests, the same request changes nothing and returns the same journal and payment.
\<close>

theorem ledger_prepare_idempotent:
  assumes "ledger_inv db" "ledger_session (prepare_disbursement env scope r) db = (db1, Inr res)"
    and "db2 = ledger_run cfg qs db1"
  shows "\<exists>j1 p1 j2 p2. res = JObj (disbursement_projection db1 j1 p1) \<and>
    ledger_session (prepare_disbursement env' scope r) db2 =
      (db2, Inr (JObj (disbursement_projection db2 j2 p2))) \<and>
    je_journal_id j2 = je_journal_id j1 \<and> pi_payment_id p2 = pi_payment_id p1"
proof -
  from prepare_committed [OF assms(1,2)] obtain n j p where inv1: "ledger_inv db1"
    and p1: "prepared db1 scope r n j p" "res = JObj (disbursement_projection db1 j p)" by blast
  note run = later_run [OF inv1, of cfg qs, folded assms(3)]
  from prepared_later [OF p1(1) run(2)] obtain j' p' where p2: "prepared db2 scope r n j' p'"
    and "journal_later j j'" "payment_later p p'" by blast
  with prepare_replay [OF run(1) p2] p1(2) show ?thesis
    by (auto simp: journal_later_def payment_later_def)
qed

text \<open>
  An idempotency key is bound to its payload: if a later request of the same tenant
  with the same key is accepted, it has the same case, accounts, amount, currency, rail
  and purpose, or two different canonical texts with the same SHA-256 digest are at hand.
\<close>

theorem ledger_prepare_bound:
  assumes "ledger_inv db" "ledger_session (prepare_disbursement env scope r) db = (db1, Inr res)"
    and "sc_tenant_id scope' = sc_tenant_id scope"
    and "dr_client_idempotency_key r' = dr_client_idempotency_key r"
    and "ledger_session (prepare_disbursement env' scope' r') (ledger_run cfg qs db1) = (db3, Inr res')"
  shows "\<exists>n n'. ledger_amount (dr_amount r) = Inr n \<and> ledger_amount (dr_amount r') = Inr n' \<and>
    (disbursement_action scope' r' n' = disbursement_action scope r n \<or>
     sha256_collision (json_dumps (JObj (disbursement_action scope r n)))
       (json_dumps (JObj (disbursement_action scope' r' n'))))"
proof -
  from prepare_committed [OF assms(1,2)] obtain n j p where inv1: "ledger_inv db1"
    and p1: "prepared db1 scope r n j p" by blast
  note run = later_run [OF inv1, of cfg qs]
  from prepared_later [OF p1 run(2)] obtain j' p' where p2: "prepared (ledger_run cfg qs db1) scope r n j' p'"
    by blast
  have "scalar (\<lambda>j. je_tenant_id j = sc_tenant_id scope' \<and> je_idempotency_key j = dr_client_idempotency_key r')
      (journals (ledger_run cfg qs db1)) = Some j'"
    by (rule find_prepared [OF run(1)]) (use p2 assms(3,4) in \<open>simp_all add: prepared_def\<close>)
  with assms(5) obtain n' where n': "ledger_amount (dr_amount r') = Inr n'"
    and h: "je_canonical_action_hash j' = ledger_hash (disbursement_action scope' r' n')"
    by (auto simp: ledger_session_ok prepare_disbursement_def sum_bind_Inr split: if_splits)
  from h p2 have "sha256_hex (json_dumps (JObj (disbursement_action scope r n))) =
      sha256_hex (json_dumps (JObj (disbursement_action scope' r' n')))"
    by (simp add: prepared_def ledger_hash_def)
  with n' p1 show ?thesis
    by (auto simp: prepared_def dest!: json_digest_eqD disbursement_action_inject)
qed

section \<open>Guardian calls and settlements\<close>

lemma execute_reversal_posts:
  assumes "execute_reversal env scope ji h reviewer db = Inr (db', res)" "db' \<noteq> db"
  shows "\<exists>i\<in>set (journals db'). je_journal_id i = ji \<and> je_tenant_id i = sc_tenant_id scope \<and>
    je_guardian_call_id i = Some (sc_call_id scope)"
proof -
  let ?f = "\<lambda>j. (post_journal env scope j)\<lparr>je_reviewer_approval_id := Some reviewer\<rparr>"
  from assms obtain j db1 where j: "find_journal db (sc_tenant_id scope) ji = Inr j"
    and 1: "post_lines (sc_tenant_id scope) (lines_of db ji) db = Inr db1"
    and 2: "journals db' = update_rows (\<lambda>j. je_journal_id j = ji) ?f (journals db1)"
    by (auto simp: execute_reversal_def sum_bind_Inr Let_def ledger_audit_def ledger_event_def split: if_splits)
  from find_journal_Inr [OF j] have "?f j \<in> set (journals db')"
    using post_lines_accounts [OF 1] by (auto simp: 2 set_update_rows image_iff intro!: bexI [of _ j])
  with find_journal_Inr [OF j] show ?thesis by (intro bexI [of _ "?f j"]) simp_all
qed

text \<open>
  A Guardian call is used once: when a journal was posted under a call of a tenant, no
  later request under the same call posts another journal. Executing another
  disbursement is refused, and executing another reversal changes nothing.
\<close>

theorem ledger_guardian_call_single_use:
  assumes inv: "ledger_inv db" and j: "j \<in> set (journals db)" "je_status j = ''POSTED''"
    and call: "je_guardian_call_id j = Some (sc_call_id scope)" "je_tenant_id j = sc_tenant_id scope"
    and other: "ji \<noteq> je_journal_id j" and db2: "db2 = ledger_run cfg qs db"
  shows "ledger_session (execute_disbursement env scope ji h be) db2 =
      (db2, Inl (LedgerSecurityError ''Guardian call id has already posted another journal.'')) \<and>
    fst (ledger_session (execute_reversal env scope ji h reviewer) db2) = db2"
proof -
  note run = later_run [OF inv, of cfg qs, folded db2]
  note con = ledger_inv_constraints [OF run(1)]
  have j2: "j \<in> set (journals db2)" by (rule posted_kept [OF run(2) j])
  have "scalar (\<lambda>j. je_tenant_id j = sc_tenant_id scope \<and> je_guardian_call_id j = Some (sc_call_id scope))
      (journals db2) = Some j"
    by (rule scalar_unique [OF j2]) (use call guardian_call_unique [OF con _ j2] in auto)
  then have "execute_disbursement env scope ji h be db2 =
      Inl (LedgerSecurityError ''Guardian call id has already posted another journal.'')"
    using other by (simp add: execute_disbursement_def call_unused_def)
  moreover have "fst (ledger_session (execute_reversal env scope ji h reviewer) db2) = db2"
  proof (rule ledger_session_unchanged, rule ccontr)
    fix db' res
    assume ex: "execute_reversal env scope ji h reviewer db2 = Inr (db', res)"
      and con': "ledger_constraints db'" and ch: "db' \<noteq> db2"
    from execute_reversal_posts [OF ex ch] obtain i where i: "i \<in> set (journals db')" "je_journal_id i = ji"
      "je_tenant_id i = sc_tenant_id scope" "je_guardian_call_id i = Some (sc_call_id scope)" by blast
    have "ledger_keeps db2 db'"
      using ledger_keeps_effect [OF _ con con' execute_reversal_effect [OF ex]] run(1)
      by (simp add: ledger_inv_def)
    then have "j \<in> set (journals db')" using j2 j(2) by (rule posted_kept)
    then have "i = j" using guardian_call_unique [OF con' i(1)] i call by simp
    with i(2) other show False by simp
  qed
  ultimately show ?thesis by (simp add: ledger_session_def session_def)
qed

lemma settlement_result:
  assumes "accept_bank_settlement env r db = Inr (db', res)" "settlements_ok db"
  shows "\<exists>n. ledger_amount (bs_amount r) = Inr n \<and> length (bs_bank_reference r) = 10 \<and>
    (\<exists>i\<in>set (ledger_inbox db'). lib_event_id i = bs_event_id r
       \<and> lib_payload_hash i = ledger_hash (settlement_payload r n)) \<and>
    bs_payment_id r \<in> sr_payment_id ` set (receipts db') \<and>
    (db' = db \<or> receipts db' = receipts db @ [new_receipt env r n])"
proof -
  from assms obtain n where n: "ledger_amount (bs_amount r) = Inr n" "length (bs_bank_reference r) = 10"
    by (auto simp: accept_bank_settlement_def sum_bind_Inr split: if_splits)
  show ?thesis
  proof (cases "scalar (\<lambda>i. lib_event_id i = bs_event_id r) (ledger_inbox db)")
    case (Some i)
    with assms n obtain c where c: "scalar (\<lambda>c. rr_payment_id c = bs_payment_id r) (reconciliations db) = Some c"
      and i: "lib_payload_hash i = ledger_hash (settlement_payload r n)" "db' = db"
      by (auto simp: accept_bank_settlement_def sum_bind_Inr Let_def split: if_splits)
    from scalar_Some [OF c] have "bs_payment_id r \<in> set (map rr_payment_id (reconciliations db))" by force
    then have "bs_payment_id r \<in> set (map sr_payment_id (receipts db))"
      using assms(2) by (simp only: settlements_ok_def)
    with i scalar_Some [OF Some] n show ?thesis by auto
  next
    case None
    with assms n have "receipts db' = receipts db @ [new_receipt env r n]"
      "\<exists>i\<in>set (ledger_inbox db'). lib_event_id i = bs_event_id r
       \<and> lib_payload_hash i = ledger_hash (settlement_payload r n)"
      by (auto simp: accept_bank_settlement_def sum_bind_Inr Let_def ledger_event_def
          split: if_splits option.splits)
    with n show ?thesis by (simp add: new_receipt_def)
  qed
qed

text \<open>
  A payment is settled once: after a committed settlement and any further requests,
  sending the same event again is answered from the records and changes nothing, and no
  other event, whatever its identifier and content, settles that payment again.
\<close>

theorem ledger_settlement_once:
  assumes inv: "ledger_inv db"
    and set: "ledger_session (accept_bank_settlement env r) db = (db1, Inr res)"
    and db2: "db2 = ledger_run cfg qs db1"
    and same: "bs_payment_id r' = bs_payment_id r"
  shows "(\<exists>c. ledger_session (accept_bank_settlement env' r) db2 = (db2, Inr (reconciliation_projection c))) \<and>
    fst (ledger_session (accept_bank_settlement env' r') db2) = db2"
proof -
  have inv1: "ledger_inv db1"
    by (rule ledger_committed_inv [OF inv set accept_bank_settlement_effect])
  have "settlements_ok db" using inv by (simp add: ledger_inv_def)
  with settlement_result [of env r db db1 res] set obtain n i where n: "ledger_amount (bs_amount r) = Inr n"
      "length (bs_bank_reference r) = 10"
    and i: "i \<in> set (ledger_inbox db1)" "lib_event_id i = bs_event_id r"
      "lib_payload_hash i = ledger_hash (settlement_payload r n)"
    and p: "bs_payment_id r \<in> sr_payment_id ` set (receipts db1)"
    by (auto simp: ledger_session_ok)
  note run = later_run [OF inv1, of cfg qs, folded db2]
  note con = ledger_inv_constraints [OF run(1)]
  from run(2) i(1) p have i2: "i \<in> set (ledger_inbox db2)" and p2: "bs_payment_id r \<in> sr_payment_id ` set (receipts db2)"
    by (auto simp: ledger_keeps_def)
  have uq: "unique_by (\<lambda>i. Some (lib_event_id i)) (ledger_inbox db2)"
    using con by (simp add: ledger_constraints_def ledger_keys_def comp_def)
  have inbox: "scalar (\<lambda>i. lib_event_id i = bs_event_id r) (ledger_inbox db2) = Some i"
    by (rule scalar_unique [OF i2]) (use i(2) unique_byD [OF uq _ i2] in auto)
  have "map sr_payment_id (receipts db2) = map rr_payment_id (reconciliations db2)"
    using run(1) by (simp add: ledger_inv_def settlements_ok_def)
  with p2 have "bs_payment_id r \<in> set (map rr_payment_id (reconciliations db2))" by (metis list.set_map)
  then obtain c where c: "scalar (\<lambda>c. rr_payment_id c = bs_payment_id r) (reconciliations db2) = Some c"
    by (cases "scalar (\<lambda>c. rr_payment_id c = bs_payment_id r) (reconciliations db2)") (auto simp: scalar_None)
  have "accept_bank_settlement env' r db2 = Inr (db2, reconciliation_projection c)"
    using n inbox i(3) c by (simp add: accept_bank_settlement_def)
  moreover have "fst (ledger_session (accept_bank_settlement env' r') db2) = db2"
  proof (rule ledger_session_unchanged, rule ccontr)
    fix db' res'
    assume ex: "accept_bank_settlement env' r' db2 = Inr (db', res')" and con': "ledger_constraints db'"
      and ch: "db' \<noteq> db2"
    have "settlements_ok db2" using run(1) by (simp add: ledger_inv_def)
    from settlement_result [OF ex this] ch obtain m where "receipts db' = receipts db2 @ [new_receipt env' r' m]"
      by blast
    with constraints_receipt_payments [OF con'] p2 same show False by (auto simp: new_receipt_def)
  qed
  ultimately show ?thesis using con by (auto simp: ledger_session_ok)
qed

section \<open>Posting a disbursement\<close>

lemma new_disbursement_lines:
  assumes con: "ledger_constraints db" and ok: "ledger_session (prepare_disbursement env scope r) db = (db1, Inr res)"
    and new: "scalar (\<lambda>j. je_tenant_id j = sc_tenant_id scope
      \<and> je_idempotency_key j = dr_client_idempotency_key r) (journals db) = None"
    and n: "ledger_amount (dr_amount r) = Inr n"
  shows "new_disbursement_journal env scope r n \<in> set (journals db1)"
    and "lines_of db1 (prefixed ''jrnl_'' 18 (lenv_uuid env 0)) =
      [new_line env 2 r n ''ledger_loan_receivable'' ''DEBIT'', new_line env 3 r n ''ledger_cash_clearing'' ''CREDIT'']"
proof -
  let ?j = "new_disbursement_journal env scope r n"
  let ?ls = "[new_line env 2 r n ''ledger_loan_receivable'' ''DEBIT'', new_line env 3 r n ''ledger_cash_clearing'' ''CREDIT'']"
  from ok n new have j: "journals db1 = journals db @ [?j]" and ls: "journal_lines db1 = journal_lines db @ ?ls"
    by (auto simp: ledger_session_ok prepare_disbursement_def sum_bind_Inr Let_def ledger_audit_def split: if_splits)
  then show "?j \<in> set (journals db1)" by simp
  have "lines_of db (je_journal_id ?j) = []"
    by (rule new_journal_fresh(2) [OF con _ j]) (use ok in \<open>simp add: ledger_session_ok\<close>)
  then show "lines_of db1 (prefixed ''jrnl_'' 18 (lenv_uuid env 0)) = ?ls"
    by (simp add: lines_of_append [OF ls] new_disbursement_journal_def new_line_def)
qed

definition move_funds :: "int \<Rightarrow> ledger_account \<Rightarrow> ledger_account" where
  "move_funds n a =
     (let debit = (if la_normal_side a = ''DEBIT'' then n else - n);
          credit = (if la_normal_side a = ''CREDIT'' then n else - n) in
      if la_account_id a = ''ledger_loan_receivable''
      then a\<lparr>la_balance := la_balance a + debit, la_version := la_version a + 1\<rparr>
      else if la_account_id a = ''ledger_cash_clearing''
      then a\<lparr>la_balance := la_balance a + credit, la_version := la_version a + 1\<rparr>
      else a)"

text \<open>
  C37. A prepared disbursement that is executed later, with any requests in between, debits
  the loan receivable and credits the clearing account by exactly the prepared amount,
  each once, and touches no other account.
\<close>

theorem ledger_disbursement_moves_funds:
  assumes inv: "ledger_inv db"
    and prep: "ledger_session (prepare_disbursement env scope r) db = (db1, Inr res)"
    and new: "scalar (\<lambda>j. je_tenant_id j = sc_tenant_id scope
      \<and> je_idempotency_key j = dr_client_idempotency_key r) (journals db) = None"
    and n: "ledger_amount (dr_amount r) = Inr n"
    and ji: "ji = prefixed ''jrnl_'' 18 (lenv_uuid env 0)"
    and db2: "db2 = ledger_run cfg qs db1" "\<not> posted_journal db2 ji"
    and exec: "ledger_session (execute_disbursement env' scope' ji h be) db2 = (db3, Inr res')"
  shows "accounts db3 = map (move_funds n) (accounts db2) \<and> posted_journal db3 ji"
proof -
  have inv1: "ledger_inv db1" by (rule prepare_committed(1) [OF inv prep])
  note new1 = new_disbursement_lines [OF ledger_inv_constraints [OF inv] prep new n]
  have "lines_of db2 ji = lines_of db1 ji"
    using later_run(2) [OF inv1, of cfg qs, folded db2(1)] new1(1)
    unfolding ledger_keeps_def by (auto simp: new_disbursement_journal_def ji)
  with new1(2) have ls: "lines_of db2 ji =
      [new_line env 2 r n ''ledger_loan_receivable'' ''DEBIT'', new_line env 3 r n ''ledger_cash_clearing'' ''CREDIT'']"
    by (simp add: ji)
  from exec obtain j where fj: "find_journal db2 (sc_tenant_id scope') ji = Inr j"
    by (auto simp: ledger_session_ok execute_disbursement_def sum_bind_Inr)
  note j = find_journal_Inr [OF fj]
  with db2(2) have "je_status j \<noteq> ''POSTED''" by (auto simp: posted_journal_def)
  with exec fj obtain dbm where post: "post_lines (sc_tenant_id scope') (lines_of db2 ji) db2 = Inr dbm"
    and acc: "accounts db3 = accounts dbm"
    and js: "journals db3 = update_rows (\<lambda>i. je_journal_id i = ji) (post_journal env' scope') (journals dbm)"
    by (auto simp: ledger_session_ok execute_disbursement_def sum_bind_Inr Let_def ledger_audit_def
        ledger_event_def split: if_splits)
  have "post_account (lines_of db2 ji) a = move_funds n a" for a
    by (simp add: ls post_account_Cons move_funds_def new_line_def post_amount_def)
  with post_lines_accounts [OF post] acc have "accounts db3 = map (move_funds n) (accounts db2)" by simp
  moreover have "post_journal env' scope' j \<in> set (journals db3)"
    using j post_lines_accounts [OF post] by (auto simp: js set_update_rows image_iff intro!: bexI [of _ j])
  then have "posted_journal db3 ji" 
    using j unfolding posted_journal_def by (intro bexI [of _ "post_journal env' scope' j"]) simp_all
  ultimately show ?thesis by simp
qed

section \<open>Tenants\<close>

text \<open>
  The rows of all nine tables that are not of tenant \<open>t\<close>. A journal line has no tenant of its
  own, it belongs to the tenant of its journal.
\<close>

definition journal_ids_of :: "string \<Rightarrow> ledger_db \<Rightarrow> string set" where
  "journal_ids_of t db = je_journal_id ` set (filter (\<lambda>j. je_tenant_id j = t) (journals db))"

definition other_tenants :: "string \<Rightarrow> ledger_db \<Rightarrow> ledger_db" where
  "other_tenants t db =
     \<lparr>accounts = filter (\<lambda>a. la_tenant_id a \<noteq> t) (accounts db), journals = filter (\<lambda>j. je_tenant_id j \<noteq> t) (journals db),
      journal_lines = filter (\<lambda>l. jl_journal_id l \<notin> journal_ids_of t db) (journal_lines db),
      payments = filter (\<lambda>p. pi_tenant_id p \<noteq> t) (payments db), receipts = filter (\<lambda>r. sr_tenant_id r \<noteq> t) (receipts db),
      reconciliations = filter (\<lambda>r. rr_tenant_id r \<noteq> t) (reconciliations db),
      ledger_audits = filter (\<lambda>e. lau_tenant_id e \<noteq> t) (ledger_audits db),
      ledger_outbox = filter (\<lambda>e. lob_tenant_id e \<noteq> t) (ledger_outbox db),
      ledger_inbox = filter (\<lambda>e. lib_tenant_id e \<noteq> t) (ledger_inbox db)\<rparr>"

text \<open>The audit trail and the outbox, which are not part of the books.\<close>

definition other_logs :: "string \<Rightarrow> ledger_db \<Rightarrow> ledger_audit_event list \<times> ledger_outbox_event list" where
  "other_logs t db = (filter (\<lambda>e. lau_tenant_id e \<noteq> t) (ledger_audits db), filter (\<lambda>e. lob_tenant_id e \<noteq> t) (ledger_outbox db))"

lemma other_logs_simps [simp]:
  "other_logs (sc_tenant_id sc) (ledger_audit env i sc out d db) = other_logs (sc_tenant_id sc) db"
  "other_logs t (ledger_event env i t at ai et pl db) = other_logs t db"
  "other_logs t (db\<lparr>accounts := as\<rparr>) = other_logs t db" "other_logs t (db\<lparr>journals := js\<rparr>) = other_logs t db"
  "other_logs t (db\<lparr>journal_lines := ls\<rparr>) = other_logs t db" "other_logs t (db\<lparr>payments := ps\<rparr>) = other_logs t db"
  "other_logs t (db\<lparr>receipts := rs\<rparr>) = other_logs t db" "other_logs t (db\<lparr>reconciliations := cs\<rparr>) = other_logs t db"
  "other_logs t (db\<lparr>ledger_inbox := es\<rparr>) = other_logs t db"
  by (simp_all add: other_logs_def ledger_audit_def ledger_event_def)

lemma tool_logs:
  assumes "ledger_tool_op env sc tool db = Inr (db', res)"
  shows "other_logs (sc_tenant_id sc) db' = other_logs (sc_tenant_id sc) db"
proof (cases tool)
  case (DisbursementsExecute ji h be)
  with assms show ?thesis
    by (auto simp: execute_disbursement_def sum_bind_Inr Let_def split: if_splits dest!: post_lines_accounts)
next
  case (ReversalsExecute ji h reviewer)
  with assms show ?thesis
    by (auto simp: execute_reversal_def sum_bind_Inr Let_def split: if_splits dest!: post_lines_accounts)
qed (use assms in \<open>auto simp: account_balance_def get_journal_def payment_status_def reconciliation_def
  prepare_disbursement_def prepare_reversal_def sum_bind_Inr Let_def split: option.splits if_splits\<close>)

lemma settlement_logs:
  "accept_bank_settlement env r db = Inr (db', res) \<Longrightarrow> other_logs (bs_tenant_id r) db' = other_logs (bs_tenant_id r) db"
  by (auto simp: accept_bank_settlement_def sum_bind_Inr Let_def split: option.splits if_splits)

lemma filter_post_account:
  assumes "ledger_constraints db" "\<forall>l\<in>set ls. active_account db t (jl_account_id l)"
  shows "filter (\<lambda>a. la_tenant_id a \<noteq> t) (map (post_account ls) (accounts db)) =
    filter (\<lambda>a. la_tenant_id a \<noteq> t) (accounts db)"
proof -
  have "post_account ls a = a" if a: "a \<in> set (accounts db)" "la_tenant_id a \<noteq> t" for a
  proof -
    have "jl_account_id l \<noteq> la_account_id a" if "l \<in> set ls" for l
      using assms(2) that a unique_byD [OF constraints_account_ids [OF assms(1)] _ a(1)]
      unfolding active_account_def by metis
    then have "lines_on (la_account_id a) ls = []" by (auto simp: lines_on_def filter_empty_conv)
    then show ?thesis by (simp add: post_account_def posted_sum_def)
  qed
  then have "map (post_account ls) (filter (\<lambda>a. la_tenant_id a \<noteq> t) (accounts db)) =
      filter (\<lambda>a. la_tenant_id a \<noteq> t) (accounts db)"
    by (intro map_idI) auto
  then show ?thesis by (simp add: filter_map comp_def)
qed

lemma filter_update_other:
  assumes "\<And>r. r \<in> set rows \<Longrightarrow> P r \<Longrightarrow> \<not> Q r" "\<And>r. Q (f r) = Q r"
  shows "filter Q (update_rows P f rows) = filter Q rows"
  using assms by (induction rows) auto

lemma ids_update:
  assumes "\<And>i. je_tenant_id (f i) = je_tenant_id i" "\<And>i. je_journal_id (f i) = je_journal_id i"
    "journals db' = update_rows P f (journals db)"
  shows "journal_ids_of t db' = journal_ids_of t db"
proof -
  have "je_journal_id ` set (filter (\<lambda>j. je_tenant_id j = t) (update_rows P f js)) =
      je_journal_id ` set (filter (\<lambda>j. je_tenant_id j = t) js)" for js
    using assms(1,2) by (induction js) auto
  then show ?thesis by (simp add: journal_ids_of_def assms(3))
qed

text \<open>A new journal of the tenant brings its own lines and no old ones.\<close>

lemma ids_append:
  assumes "ledger_constraints db" "ledger_constraints db'" "journals db' = journals db @ [j]" "je_tenant_id j = t"
    "\<forall>l\<in>set ls. jl_journal_id l = je_journal_id j"
  shows "filter (\<lambda>l. jl_journal_id l \<notin> journal_ids_of t db') (journal_lines db @ ls) =
    filter (\<lambda>l. jl_journal_id l \<notin> journal_ids_of t db) (journal_lines db)"
proof -
  have ids: "journal_ids_of t db' = insert (je_journal_id j) (journal_ids_of t db)"
    using assms(4) by (auto simp: journal_ids_of_def assms(3))
  have "jl_journal_id l \<noteq> je_journal_id j" if "l \<in> set (journal_lines db)" for l
    using that new_journal_fresh(2) [OF assms(1-3)] by (auto simp: lines_of_def scalars_def filter_empty_conv)
  then have "filter (\<lambda>l. jl_journal_id l \<notin> journal_ids_of t db') (journal_lines db) =
      filter (\<lambda>l. jl_journal_id l \<notin> journal_ids_of t db) (journal_lines db)"
    by (intro filter_cong) (auto simp: ids)
  with assms(5) show ?thesis by (simp add: ids filter_empty_conv)
qed

lemma other_tenants_effect:
  assumes inv: "ledger_inv db" and eff: "ledger_effect t db db'" and con': "ledger_constraints db'"
    and logs: "other_logs t db' = other_logs t db"
  shows "other_tenants t db' = other_tenants t db"
proof -
  have con: "ledger_constraints db" and pok: "payments_ok db"
    using inv by (simp_all add: ledger_inv_constraints ledger_inv_def)
  have logs: "filter (\<lambda>e. lau_tenant_id e \<noteq> t) (ledger_audits db') = filter (\<lambda>e. lau_tenant_id e \<noteq> t) (ledger_audits db)"
    "filter (\<lambda>e. lob_tenant_id e \<noteq> t) (ledger_outbox db') = filter (\<lambda>e. lob_tenant_id e \<noteq> t) (ledger_outbox db)"
    using logs by (simp_all add: other_logs_def)
  have js: "filter (\<lambda>j. je_tenant_id j \<noteq> t) (update_rows (\<lambda>i. je_journal_id i = je_journal_id j) f (journals db)) =
      filter (\<lambda>j. je_tenant_id j \<noteq> t) (journals db)"
    if "j \<in> set (journals db)" "je_tenant_id j = t" "\<And>i. je_tenant_id (f i) = je_tenant_id i" for j f
    using that journal_by_id [OF con _ that(1)] by (intro filter_update_other) auto
  have ps: "filter (\<lambda>p. pi_tenant_id p \<noteq> t) (update_rows (\<lambda>q. pi_payment_id q = pi_payment_id p) f (payments db)) =
      filter (\<lambda>p. pi_tenant_id p \<noteq> t) (payments db)"
    if "p \<in> set (payments db)" "pi_tenant_id p = t" "\<And>i. pi_tenant_id (f i) = pi_tenant_id i" for p f
    using that payment_by_id [OF con _ that(1)] by (intro filter_update_other) auto
  from eff show ?thesis
  proof cases
    case observe
    then have "journal_ids_of t db' = journal_ids_of t db" by (simp add: books_same journal_ids_of_def)
    with observe logs show ?thesis by (simp add: books_same other_tenants_def)
  next
    case (prepare j d c p)
    then have "journals db' = journals db @ [j]" "je_tenant_id j = t" by simp_all
    from ids_append [OF con con' this, of "[d, c]"] prepare logs show ?thesis
      by (simp add: other_tenants_def)
  next
    case (submit j p env sc be)
    have "pi_tenant_id p = t"
      using payments_ok_match [OF pok con submit(3,1,4)] submit(8) by (simp add: payment_matches_def)
    moreover have "journal_ids_of t db' = journal_ids_of t db"
      by (rule ids_update [where f = "post_journal env sc"]) (use submit(7) in \<open>simp_all\<close>)
    ultimately show ?thesis using submit js [OF submit(1,8)] ps [OF submit(3)] filter_post_account [OF con] logs
      by (simp add: other_tenants_def)
  next
    case (draft_reversal i j env sc reason key)
    have j: "journals db' = journals db @ [j]" using draft_reversal by simp
    have t: "je_tenant_id j = t" using draft_reversal by (simp add: new_reversal_journal_def)
    have "\<forall>l\<in>set (reversal_lines env (je_journal_id i) (lines_of db (je_journal_id i))). jl_journal_id l = je_journal_id j"
      using draft_reversal(4) by (auto simp: reversal_lines_journal new_reversal_journal_def)
    from ids_append [OF con con' j t this] draft_reversal t logs show ?thesis
      by (simp add: other_tenants_def)
  next
    case (post_reversal j reviewer env sc)
    have "journal_ids_of t db' = journal_ids_of t db"
      by (rule ids_update [where f = "\<lambda>i. (post_journal env sc i)\<lparr>je_reviewer_approval_id := Some reviewer\<rparr>"])
        (use post_reversal(5) in \<open>simp_all\<close>)
    with post_reversal js [OF post_reversal(1,6)] filter_post_account [OF con] logs show ?thesis
      by (simp add: other_tenants_def)
  next
    case (settle p r amount i env)
    then have "journal_ids_of t db' = journal_ids_of t db" by (simp add: journal_ids_of_def)
    with settle ps [OF settle(1)] logs show ?thesis
      by (simp add: other_tenants_def new_receipt_def new_reconciliation_def)
  qed
qed

text \<open>
  C38. Tenants are isolated: whatever tool is called under a signed scope, and whatever
  settlement is delivered, the rows of every other tenant are unchanged in all nine tables;
  a journal line belongs to the tenant of its journal. The tenant of a settlement is the one its
  payload names.
\<close>

theorem ledger_tenant_isolation:
  assumes "ledger_inv db"
  shows "other_tenants (sc_tenant_id scope) (fst (ledger_session (ledger_tool_op env scope tool) db)) =
      other_tenants (sc_tenant_id scope) db \<and>
    other_tenants (bs_tenant_id r) (fst (ledger_session (accept_bank_settlement env r) db)) = other_tenants (bs_tenant_id r) db"
proof -
  have kept: "other_tenants t (fst (ledger_session body db)) = other_tenants t db"
    if "\<And>db' res. body db = Inr (db', res) \<Longrightarrow> ledger_effect t db db' \<and> other_logs t db' = other_logs t db" for t body
  proof (cases rule: session_cases [of ledger_constraints LedgerIntegrityError body db])
    case (ok db' res)
    with that [OF ok(2)] other_tenants_effect [OF assms, of t db'] show ?thesis by (simp add: ledger_session_def)
  qed (simp add: ledger_session_def)
  show ?thesis
  proof
    show "other_tenants (sc_tenant_id scope) (fst (ledger_session (ledger_tool_op env scope tool) db)) =
        other_tenants (sc_tenant_id scope) db"
      by (rule kept) (blast intro: ledger_tool_effect tool_logs)
    show "other_tenants (bs_tenant_id r) (fst (ledger_session (accept_bank_settlement env r) db)) =
        other_tenants (bs_tenant_id r) db"
      by (rule kept) (blast intro: accept_bank_settlement_effect settlement_logs)
  qed
qed

text \<open>
  C40. In every reachable ledger the payments agree with the journals and the settlement
  records: a payment belongs to one disbursement journal of its tenant and amount, is
  prepared, submitted or settled exactly as its journal and its bank fields say, and is
  settled exactly when the receipt with its amount, execution and reference exists.
\<close>

theorem ledger_payments_agree:
  "payments_ok (ledger_run cfg qs seeded_ledger) \<and> settlements_ok (ledger_run cfg qs seeded_ledger)"
  using later_run(1) [OF ledger_inv_seeded] by (simp add: ledger_inv_def)

end
