(* ===== verification/LedgerDemo.thy ===== *)
theory LedgerDemo
  imports LedgerProperties
begin

text \<open>
  A concrete history of the ledger: a disbursement of one rupee is prepared on the seeded
  ledger, executed, and settled by the bank. It instantiates the properties of
  \<open>LedgerProperties\<close> whose statements have hypotheses.
\<close>

section \<open>Requests\<close>

definition demo_env :: "string \<Rightarrow> ledger_env" where
  "demo_env k = \<lparr>lenv_now = 0, lenv_uuid = (\<lambda>i. k @ (if i = 0 then ''0'' else if i = 1 then ''1''
     else if i = 2 then ''2'' else if i = 3 then ''3'' else ''4''))\<rparr>"

definition demo_scope :: "string \<Rightarrow> guarded_scope" where
  "demo_scope call = \<lparr>sc_tenant_id = demo_tenant_id, sc_organization_id = ''o'', sc_user_id = ''u'',
     sc_session_id = ''s'', sc_run_id = ''r'', sc_call_id = call, sc_correlation_id = ''k'',
     sc_agent_name = ''a'', sc_canonical_name = ''t'', sc_purpose = ''p'', sc_request_hash = ''h'',
     sc_guardian_decision_id = ''d'', sc_authorization_id = ''z''\<rparr>"

definition demo_disbursement :: disbursement_request where
  "demo_disbursement = \<lparr>dr_financing_case_id = ''case-1'', dr_source_account_token = ''src'',
     dr_beneficiary_token = ''ben'', dr_amount = ''1.00'', dr_currency = ''INR'',
     dr_rail = ''DEMO_BANK_RAIL'', dr_client_idempotency_key = ''key-1''\<rparr>"

definition demo_execution :: bank_execution where
  "demo_execution = \<lparr>be_proposed_action_id = ''act'', be_action_hash = ''hash'', be_execution_id = ''exec''\<rparr>"

definition demo_settlement :: bank_settlement where
  "demo_settlement = \<lparr>bs_event_id = ''evt'', bs_tenant_id = demo_tenant_id, bs_payment_id = ''pay_a1'',
     bs_bank_execution_id = ''exec'', bs_bank_reference = ''REF0000001'', bs_amount = ''1.00'',
     bs_currency = ''INR'', bs_settled_at = utc 0\<rparr>"

abbreviation demo_call :: guarded_scope where
  "demo_call \<equiv> demo_scope ''call-1''"

section \<open>States\<close>

definition demo_journal :: journal_entry where
  "demo_journal = new_disbursement_journal (demo_env ''a'') demo_call demo_disbursement 100"

definition demo_payment :: payment_instruction where
  "demo_payment = new_payment (demo_env ''a'') demo_call demo_disbursement 100"

definition demo_lines :: "journal_line list" where
  "demo_lines =
     [new_line (demo_env ''a'') 2 demo_disbursement 100 ''ledger_loan_receivable'' ''DEBIT'',
      new_line (demo_env ''a'') 3 demo_disbursement 100 ''ledger_cash_clearing'' ''CREDIT'']"

definition demo_prepared :: ledger_db where
  "demo_prepared = ledger_audit (demo_env ''a'') 4 demo_call ''PREPARED''
      [(''journal_id'', JStr ''jrnl_a0''), (''payment_id'', JStr ''pay_a1'')]
     (seeded_ledger\<lparr>journals := [demo_journal], payments := [demo_payment], journal_lines := demo_lines\<rparr>)"

definition demo_hash :: string where
  "demo_hash = ledger_hash (disbursement_action demo_call demo_disbursement 100)"

definition demo_posted_journal :: journal_entry where
  "demo_posted_journal = post_journal (demo_env ''b'') demo_call demo_journal"

definition demo_submitted_payment :: payment_instruction where
  "demo_submitted_payment = submit_payment (demo_env ''b'') demo_execution demo_payment"

definition demo_submitted :: ledger_db where
  "demo_submitted = ledger_audit (demo_env ''b'') 1 demo_call ''POSTED''
      [(''journal_id'', JStr ''jrnl_a0''), (''payment_id'', JStr ''pay_a1'')]
     (ledger_event (demo_env ''b'') 0 demo_tenant_id ''PAYMENT'' ''pay_a1'' ''ledger.payment.submitted''
        (payment_projection demo_submitted_payment)
     (demo_prepared\<lparr>accounts := map (move_funds 100) (accounts seeded_ledger),
        journals := [demo_posted_journal], payments := [demo_submitted_payment]\<rparr>))"

definition demo_settings :: ledger_settings where
  "demo_settings = \<lparr>ls_mcp_token = ''token'', ls_settlement_event_token = ''event''\<rparr>"

definition demo_foreign_account :: ledger_account where
  "demo_foreign_account = (seed_account ''x'' ''1'' ''n'' ''ASSET'' ''DEBIT'' 5)\<lparr>la_tenant_id := ''other''\<rparr>"

definition demo_two_tenants :: ledger_db where
  "demo_two_tenants = empty_ledger\<lparr>accounts := accounts seeded_ledger @ [demo_foreign_account]\<rparr>"

section \<open>Evaluation\<close>

lemma demo_amount: "ledger_amount ''1.00'' = Inr 100"
proof -
  have "cents_str 100 = ''1.00''" by code_simp
  then show ?thesis using quantize_cents_str [of 100] by (simp add: ledger_amount_def)
qed

lemma demo_uuid [simp]:
  "uuid_str (lenv_uuid (demo_env ''a'') 2) = ''a2----''" "uuid_str (lenv_uuid (demo_env ''a'') 3) = ''a3----''"
  "uuid_str (lenv_uuid (demo_env ''a'') 4) = ''a4----''" "uuid_str (lenv_uuid (demo_env ''b'') 0) = ''b0----''"
  "uuid_str (lenv_uuid (demo_env ''b'') (Suc 0)) = ''b1----''" "uuid_str (lenv_uuid (demo_env ''c'') 2) = ''c2----''"
  by code_simp+

lemma demo_journal_simps [simp]:
  "je_journal_id demo_journal = ''jrnl_a0''" "je_tenant_id demo_journal = demo_tenant_id"
  "je_total_debits demo_journal = 100" "je_total_credits demo_journal = 100"
  "je_guardian_call_id demo_journal = None" "je_status demo_journal = ''VALIDATED''"
  "je_idempotency_key demo_journal = ''key-1''" "je_canonical_action_hash demo_journal = demo_hash"
  by (simp_all add: demo_journal_def new_disbursement_journal_def demo_env_def demo_scope_def
      demo_disbursement_def prefixed_def demo_hash_def)

lemma demo_payment_simps [simp]:
  "pi_payment_id demo_payment = ''pay_a1''" "pi_journal_id demo_payment = ''jrnl_a0''"
  "pi_tenant_id demo_payment = demo_tenant_id" "pi_client_idempotency_key demo_payment = ''key-1''"
  "pi_amount demo_payment = 100" "pi_currency demo_payment = ''INR''" "pi_bank_execution_id demo_payment = None"
  "pi_bank_reference demo_payment = None"
  by (simp_all add: demo_payment_def new_payment_def demo_env_def demo_scope_def demo_disbursement_def prefixed_def)

lemma demo_lines_eq:
  "demo_lines =
     [\<lparr>jl_line_id = ''a2----'', jl_journal_id = ''jrnl_a0'', jl_account_id = ''ledger_loan_receivable'',
       jl_side = ''DEBIT'', jl_amount = 100, jl_currency = ''INR'', jl_reference = ''case-1''\<rparr>,
      \<lparr>jl_line_id = ''a3----'', jl_journal_id = ''jrnl_a0'', jl_account_id = ''ledger_cash_clearing'',
       jl_side = ''CREDIT'', jl_amount = 100, jl_currency = ''INR'', jl_reference = ''case-1''\<rparr>]"
  by (simp add: demo_lines_def new_line_def) (simp add: demo_env_def demo_disbursement_def prefixed_def)

lemma demo_scope_simps [simp]:
  "sc_tenant_id (demo_scope c) = demo_tenant_id" "sc_call_id (demo_scope c) = c"
  by (simp_all add: demo_scope_def)

lemma seeded_rest [simp]:
  "journals seeded_ledger = []" "payments seeded_ledger = []" "journal_lines seeded_ledger = []"
  "receipts seeded_ledger = []" "reconciliations seeded_ledger = []" "ledger_inbox seeded_ledger = []"
  "ledger_outbox seeded_ledger = []" "ledger_audits seeded_ledger = []"
  by (simp_all add: ledger_seed_data_def empty_ledger_def)

lemma demo_prepare_body:
  "prepare_disbursement (demo_env ''a'') demo_call demo_disbursement seeded_ledger =
   Inr (demo_prepared, JObj (disbursement_projection demo_prepared demo_journal demo_payment))"
proof -
  have "ledger_amount (dr_amount demo_disbursement) = Inr 100" "dr_currency demo_disbursement = ''INR''"
    "dr_rail demo_disbursement = ''DEMO_BANK_RAIL''"
    by (simp_all add: demo_disbursement_def demo_amount)
  moreover have "assert_balanced demo_journal = Inr ()" by (simp add: assert_balanced_def)
  ultimately show ?thesis
    by (simp add: Let_def prepare_disbursement_def get_account_def seeded_accounts(1) seed_account_def
        demo_prepared_def flip: demo_journal_def demo_payment_def demo_lines_def)
qed

lemma demo_prepared_constraints: "ledger_constraints demo_prepared"
  by (simp add: ledger_constraints_def ledger_keys_def ledger_foreign_keys_def demo_prepared_def
      ledger_audit_def seeded_accounts seed_account_def demo_lines_eq)

lemma demo_prepare:
  "ledger_session (prepare_disbursement (demo_env ''a'') demo_call demo_disbursement) seeded_ledger =
   (demo_prepared, Inr (JObj (disbursement_projection demo_prepared demo_journal demo_payment)))"
  by (simp add: ledger_session_ok demo_prepare_body demo_prepared_constraints)

lemma demo_prepared_inv: "ledger_inv demo_prepared"
  by (rule prepare_committed(1) [OF ledger_inv_seeded demo_prepare])

lemma demo_prepared_simps [simp]:
  "accounts demo_prepared = accounts seeded_ledger" "journals demo_prepared = [demo_journal]"
  "payments demo_prepared = [demo_payment]" "journal_lines demo_prepared = demo_lines"
  "receipts demo_prepared = []" "reconciliations demo_prepared = []" "ledger_inbox demo_prepared = []"
  "ledger_outbox demo_prepared = []"
  by (simp_all add: demo_prepared_def ledger_audit_def)

lemma demo_lines_of: "lines_of demo_prepared ''jrnl_a0'' = demo_lines"
  by (simp add: lines_of_def scalars_def demo_lines_eq)

lemma demo_balanced: "balanced_lines demo_lines"
  by (simp add: balanced_lines_def side_total_def demo_lines_eq)

lemma demo_post_lines:
  "post_lines demo_tenant_id demo_lines demo_prepared =
     Inr (demo_prepared\<lparr>accounts := map (move_funds 100) (accounts seeded_ledger)\<rparr>)"
  by (simp add: demo_lines_eq post_line_def get_account_def seeded_accounts seed_account_def move_funds_def
      post_amount_def Let_def)

lemma demo_execute_body:
  "\<exists>res. execute_disbursement (demo_env ''b'') demo_call ''jrnl_a0'' demo_hash demo_execution demo_prepared =
     Inr (demo_submitted, res)"
proof -
  have bal: "assert_lines_balanced demo_lines = Inr ()" by (simp add: demo_balanced)
  show ?thesis
    by (simp add: bal execute_disbursement_def call_unused_def find_journal_def demo_lines_of demo_post_lines Let_def
        demo_submitted_def flip: demo_posted_journal_def demo_submitted_payment_def)
qed

lemma demo_submitted_simps [simp]:
  "accounts demo_submitted = map (move_funds 100) (accounts seeded_ledger)"
  "journals demo_submitted = [demo_posted_journal]" "payments demo_submitted = [demo_submitted_payment]"
  "journal_lines demo_submitted = demo_lines" "receipts demo_submitted = []"
  "reconciliations demo_submitted = []" "ledger_inbox demo_submitted = []"
  "map lob_id (ledger_outbox demo_submitted) = [''b0----'']"
  "map lau_id (ledger_audits demo_submitted) = [''a4----'', ''b1----'']"
  by (simp_all add: demo_submitted_def ledger_audit_def ledger_event_def demo_prepared_def)

lemma unique_by_map: "unique_by (Some \<circ> key) rows \<longleftrightarrow> distinct (map key rows)"
  by (simp add: unique_by_def map_filter_def comp_def)

lemma demo_submitted_constraints: "ledger_constraints demo_submitted"
  unfolding ledger_constraints_def ledger_keys_def ledger_foreign_keys_def unique_by_map
  by (simp add: seeded_accounts seed_account_def demo_lines_eq move_funds_def demo_posted_journal_def
      demo_submitted_payment_def)

lemma demo_execute:
  "\<exists>res. ledger_session (execute_disbursement (demo_env ''b'') demo_call ''jrnl_a0'' demo_hash demo_execution)
     demo_prepared = (demo_submitted, Inr res)"
  using demo_execute_body demo_submitted_constraints by (simp add: ledger_session_ok)

lemma demo_submitted_inv: "ledger_inv demo_submitted"
proof -
  from demo_execute obtain res where ok: "ledger_session
      (execute_disbursement (demo_env ''b'') demo_call ''jrnl_a0'' demo_hash demo_execution)
      demo_prepared = (demo_submitted, Inr res)" by blast
  show ?thesis by (rule ledger_committed_inv [OF demo_prepared_inv ok execute_disbursement_effect])
qed

lemma demo_settle:
  "\<exists>db res. ledger_session (accept_bank_settlement (demo_env ''c'') demo_settlement) demo_submitted = (db, Inr res)"
proof -
  have p: "pi_payment_id demo_submitted_payment = ''pay_a1''" "pi_tenant_id demo_submitted_payment = demo_tenant_id"
    "pi_bank_execution_id demo_submitted_payment = Some ''exec''" "pi_amount demo_submitted_payment = 100"
    "pi_currency demo_submitted_payment = ''INR''"
    by (simp_all add: demo_submitted_payment_def demo_execution_def)
  have s: "bs_event_id demo_settlement = ''evt''" "bs_tenant_id demo_settlement = demo_tenant_id"
    "bs_payment_id demo_settlement = ''pay_a1''" "bs_bank_execution_id demo_settlement = ''exec''"
    "bs_bank_reference demo_settlement = ''REF0000001''" "bs_amount demo_settlement = ''1.00''"
    "bs_currency demo_settlement = ''INR''"
    by (simp_all add: demo_settlement_def)
  obtain db res where ok: "accept_bank_settlement (demo_env ''c'') demo_settlement demo_submitted = Inr (db, res)"
    by (simp add: accept_bank_settlement_def s p demo_amount Let_def)
  then have "accounts db = accounts demo_submitted" "journals db = journals demo_submitted"
    "journal_lines db = journal_lines demo_submitted" "ledger_audits db = ledger_audits demo_submitted"
    "payments db = [settle_payment (demo_env ''c'') ''REF0000001'' demo_submitted_payment]"
    "receipts db = [new_receipt (demo_env ''c'') demo_settlement 100]"
    "reconciliations db = [new_reconciliation (demo_env ''c'') demo_settlement demo_submitted_payment]"
    "length (ledger_inbox db) = 1" "map lob_id (ledger_outbox db) = [''b0----'', ''c2----'']"
    by (auto simp: accept_bank_settlement_def s p demo_amount Let_def ledger_event_def)
  then have "ledger_constraints db"
    using demo_submitted_constraints
    unfolding ledger_constraints_def ledger_keys_def ledger_foreign_keys_def unique_by_map
    by (cases "ledger_inbox db") (auto simp: demo_submitted_payment_def)
  with ok show ?thesis by (auto simp: ledger_session_ok)
qed

section \<open>The properties on this history\<close>

theorem ledger_posted_immutable_witness:
  "demo_posted_journal \<in> set (journals (ledger_run demo_settings
      [(demo_env ''c'', BankSettlementRoute (Some ''event'') demo_settlement)] demo_submitted)) \<and>
   lines_of (ledger_run demo_settings
      [(demo_env ''c'', BankSettlementRoute (Some ''event'') demo_settlement)] demo_submitted) ''jrnl_a0'' = demo_lines"
proof -
  have "je_status demo_posted_journal = ''POSTED''" "je_journal_id demo_posted_journal = ''jrnl_a0''"
    by (simp_all add: demo_posted_journal_def)
  moreover have "lines_of demo_submitted ''jrnl_a0'' = demo_lines"
    by (simp add: lines_of_def scalars_def demo_lines_eq)
  ultimately show ?thesis
    using ledger_posted_immutable [OF demo_submitted_inv, of demo_posted_journal demo_settings
      "[(demo_env ''c'', BankSettlementRoute (Some ''event'') demo_settlement)]"] by (simp del: run_Cons)
qed

theorem ledger_prepare_idempotent_witness:
  "\<exists>j1 p1 j2 p2. JObj (disbursement_projection demo_prepared demo_journal demo_payment) =
       JObj (disbursement_projection demo_prepared j1 p1) \<and>
     ledger_session (prepare_disbursement (demo_env ''b'') demo_call demo_disbursement) demo_prepared =
       (demo_prepared, Inr (JObj (disbursement_projection demo_prepared j2 p2))) \<and>
     je_journal_id j2 = je_journal_id j1 \<and> pi_payment_id p2 = pi_payment_id p1"
  by (rule ledger_prepare_idempotent [OF ledger_inv_seeded demo_prepare, where qs = "[]"]) simp

theorem ledger_prepare_bound_witness:
  "\<exists>n n'. ledger_amount (dr_amount demo_disbursement) = Inr n \<and>
     ledger_amount (dr_amount demo_disbursement) = Inr n' \<and>
     (disbursement_action demo_call demo_disbursement n' = disbursement_action demo_call demo_disbursement n \<or>
      sha256_collision (json_dumps (JObj (disbursement_action demo_call demo_disbursement n)))
        (json_dumps (JObj (disbursement_action demo_call demo_disbursement n'))))"
proof -
  have "prepared demo_prepared demo_call demo_disbursement 100 demo_journal demo_payment"
    by (simp add: prepared_def demo_hash_def) (simp add: demo_disbursement_def demo_amount)
  from prepare_replay [OF demo_prepared_inv this, of "demo_env ''b''"]
  have "ledger_session (prepare_disbursement (demo_env ''b'') demo_call demo_disbursement)
      (ledger_run cfg [] demo_prepared) =
    (demo_prepared, Inr (JObj (disbursement_projection demo_prepared demo_journal demo_payment)))" for cfg
    by simp
  from ledger_prepare_bound [OF ledger_inv_seeded demo_prepare refl refl this] show ?thesis .
qed

theorem ledger_guardian_call_single_use_witness:
  "ledger_session (execute_disbursement (demo_env ''c'') demo_call ''jrnl_other'' ''h'' demo_execution) demo_submitted =
     (demo_submitted, Inl (LedgerSecurityError ''Guardian call id has already posted another journal.'')) \<and>
   fst (ledger_session (execute_reversal (demo_env ''c'') demo_call ''jrnl_other'' ''h'' ''rev'') demo_submitted) =
     demo_submitted"
  by (rule ledger_guardian_call_single_use [OF demo_submitted_inv, where j = demo_posted_journal and qs = "[]"])
    (simp_all add: demo_posted_journal_def)

theorem ledger_settlement_once_witness:
  "\<exists>db1 res. ledger_session (accept_bank_settlement (demo_env ''c'') demo_settlement) demo_submitted = (db1, Inr res) \<and>
     (\<exists>c. ledger_session (accept_bank_settlement (demo_env ''d'') demo_settlement) db1 =
        (db1, Inr (reconciliation_projection c))) \<and>
     fst (ledger_session (accept_bank_settlement (demo_env ''d'') (demo_settlement\<lparr>bs_event_id := ''evt2''\<rparr>)) db1) = db1"
proof -
  from demo_settle obtain db1 res where ok:
    "ledger_session (accept_bank_settlement (demo_env ''c'') demo_settlement) demo_submitted = (db1, Inr res)" by blast
  have "(\<exists>c. ledger_session (accept_bank_settlement (demo_env ''d'') demo_settlement) db1 =
        (db1, Inr (reconciliation_projection c))) \<and>
     fst (ledger_session (accept_bank_settlement (demo_env ''d'') (demo_settlement\<lparr>bs_event_id := ''evt2''\<rparr>)) db1) = db1"
    by (rule ledger_settlement_once [OF demo_submitted_inv ok, where qs = "[]"]) simp_all
  with ok show ?thesis by blast
qed

theorem ledger_disbursement_moves_funds_witness:
  "accounts demo_submitted = map (move_funds 100) (accounts demo_prepared) \<and> posted_journal demo_submitted ''jrnl_a0''"
proof -
  from demo_execute obtain res where ok: "ledger_session
      (execute_disbursement (demo_env ''b'') demo_call ''jrnl_a0'' demo_hash demo_execution)
      demo_prepared = (demo_submitted, Inr res)" by blast
  show ?thesis
    by (rule ledger_disbursement_moves_funds [OF ledger_inv_seeded demo_prepare _ _ _ _ _ ok, where qs = "[]"])
      (simp_all add: posted_journal_def demo_disbursement_def demo_amount demo_env_def prefixed_def)
qed

definition demo_foreign_ledger :: ledger_db where
  "demo_foreign_ledger = empty_ledger\<lparr>accounts := [demo_foreign_account]\<rparr>"

theorem ledger_tenant_isolation_witness:
  "ledger_inv demo_two_tenants \<and>
   other_tenants demo_tenant_id (fst (ledger_session (ledger_tool_op (demo_env ''a'') demo_call
     (DisbursementsPrepare demo_disbursement)) demo_two_tenants)) = demo_foreign_ledger"
proof -
  have inv: "ledger_inv demo_two_tenants"
    unfolding demo_two_tenants_def
    by (rule ledger_inv_start) (simp_all add: seeded_accounts seed_account_def demo_foreign_account_def)
  have "other_tenants demo_tenant_id demo_two_tenants = demo_foreign_ledger"
    by (simp add: other_tenants_def demo_two_tenants_def ledger_seed_data_def seed_account_def
        demo_foreign_account_def demo_foreign_ledger_def empty_ledger_def demo_tenant_id_def)
  with inv ledger_tenant_isolation [OF inv, of demo_call "demo_env ''a''" "DisbursementsPrepare demo_disbursement"]
  show ?thesis by simp
qed

end
