(* ===== verification/Bank.thy ===== *)
theory Bank
  imports RuntimeScope PyDecimal PyTime
begin

text \<open>
  The bank and account-aggregator service (demos/bank-mcp/bank_demo): its tables
  (models.py), every operation of \<open>BankDemoService\<close> (service.py) and the MCP tools that
  call them (mcp.py). Amounts are hundredths. \<open>uuid4()\<close>, \<open>secrets.token_hex(4)\<close>,
  \<open>datetime.now(UTC)\<close> and \<open>date.today()\<close> are read from the environment of a request,
  each clock once per request; the token that keys the evidence receipts is a setting.
  The service takes no row locks, so a run of requests stands for requests served one after
  the other; concurrent ones are outside the model.
  The table of legacy consents, which only the seed touches, is left out.
\<close>

section \<open>Tables\<close>

record bank_account =
  ba_account_token :: string
  ba_tenant_id :: string
  ba_user_id :: string
  ba_display_name :: string
  ba_masked_number :: string
  ba_account_type :: string
  ba_currency :: string
  ba_current_balance :: int
  ba_available_balance :: int
  ba_per_transfer_limit :: int
  ba_daily_limit :: int
  ba_status :: string

record bank_transaction =
  bt_id :: string
  bt_account_token :: string
  bt_booked_on :: int
  bt_direction :: string
  bt_amount :: int
  bt_currency :: string
  bt_category :: string
  bt_description :: string
  bt_reference :: string

record beneficiary =
  bf_beneficiary_token :: string
  bf_tenant_id :: string
  bf_owner_name :: string
  bf_masked_account :: string
  bf_bank_name :: string
  bf_currency :: string
  bf_verified :: bool
  bf_status :: string

record prepared_transfer =
  pt_proposed_action_id :: string
  pt_tenant_id :: string
  pt_user_id :: string
  pt_source_account_token :: string
  pt_beneficiary_token :: string
  pt_amount :: int
  pt_currency :: string
  pt_rail :: string
  pt_purpose :: string
  pt_idempotency_key :: string
  pt_canonical_action_hash :: string
  pt_status :: string
  pt_created_at :: time
  pt_expires_at :: time

record bank_audit_event =
  bau_id :: string
  bau_tenant_id :: string
  bau_user_id :: string
  bau_call_id :: string
  bau_tool_name :: string
  bau_purpose :: string
  bau_outcome :: string
  bau_detail :: string
  bau_occurred_at :: time

record aa_consent =
  ac_consent_id :: string
  ac_tenant_id :: string
  ac_user_id :: string
  ac_purpose :: string
  ac_account_tokens :: "string list"
  ac_information_types :: "string list"
  ac_idempotency_key :: string
  ac_request_hash :: string
  ac_status :: string
  ac_valid_from :: time
  ac_valid_until :: time
  ac_revoked_at :: "time option"
  ac_version :: int
  ac_created_at :: time

record information_request =
  ir_request_id :: string
  ir_tenant_id :: string
  ir_user_id :: string
  ir_consent_id :: string
  ir_information_type :: string
  ir_account_token :: string
  ir_from_date :: "int option"
  ir_to_date :: "int option"
  ir_idempotency_key :: string
  ir_request_hash :: string
  ir_evidence_receipt_id :: "string option"
  ir_status :: string
  ir_created_at :: time
  ir_completed_at :: "time option"

record transfer_execution =
  te_id :: string
  te_execution_id :: string
  te_tenant_id :: string
  te_user_id :: string
  te_proposed_action_id :: string
  te_canonical_action_hash :: string
  te_guardian_decision_id :: string
  te_guardian_call_id :: string
  te_request_hash :: string
  te_amount :: int
  te_currency :: string
  te_bank_reference :: "string option"
  te_status :: string
  te_failure_code :: "string option"
  te_created_at :: time
  te_settled_at :: "time option"

record bank_ledger_entry =
  le_id :: string
  le_tenant_id :: string
  le_execution_id :: string
  le_journal_id :: string
  le_line_number :: int
  le_ledger_account :: string
  le_entry_type :: string
  le_amount :: int
  le_currency :: string
  le_created_at :: time

record account_hold =
  ah_hold_id :: string
  ah_tenant_id :: string
  ah_user_id :: string
  ah_account_token :: string
  ah_amount :: int
  ah_currency :: string
  ah_purpose :: string
  ah_idempotency_key :: string
  ah_guardian_call_id :: string
  ah_release_guardian_call_id :: "string option"
  ah_request_hash :: string
  ah_status :: string
  ah_created_at :: time
  ah_released_at :: "time option"

record beneficiary_change =
  bch_change_id :: string
  bch_tenant_id :: string
  bch_user_id :: string
  bch_beneficiary_token :: string
  bch_requested_owner_name :: string
  bch_requested_masked_account :: string
  bch_requested_bank_name :: string
  bch_currency :: string
  bch_idempotency_key :: string
  bch_canonical_action_hash :: string
  bch_guardian_call_id :: "string option"
  bch_status :: string
  bch_expires_at :: time
  bch_created_at :: time

record prepared_reversal =
  pr_reversal_id :: string
  pr_tenant_id :: string
  pr_user_id :: string
  pr_transfer_execution_id :: string
  pr_amount :: int
  pr_currency :: string
  pr_reason :: string
  pr_idempotency_key :: string
  pr_canonical_action_hash :: string
  pr_reviewer_approval_id :: "string option"
  pr_guardian_call_id :: "string option"
  pr_bank_reference :: "string option"
  pr_status :: string
  pr_expires_at :: time
  pr_created_at :: time

record bank_outbox_event =
  bob_id :: string
  bob_tenant_id :: string
  bob_aggregate_type :: string
  bob_aggregate_id :: string
  bob_event_type :: string
  bob_payload :: json
  bob_occurred_at :: time
  bob_published_at :: "time option"

record bank_db =
  bank_accounts :: "bank_account list"
  transactions :: "bank_transaction list"
  beneficiaries :: "beneficiary list"
  transfers :: "prepared_transfer list"
  bank_audits :: "bank_audit_event list"
  consents :: "aa_consent list"
  information_requests :: "information_request list"
  executions :: "transfer_execution list"
  ledger_entries :: "bank_ledger_entry list"
  holds :: "account_hold list"
  beneficiary_changes :: "beneficiary_change list"
  reversals :: "prepared_reversal list"
  bank_outbox :: "bank_outbox_event list"

definition bank_constraints :: "bank_db \<Rightarrow> bool" where
  "bank_constraints db \<longleftrightarrow>
     unique_by (Some \<circ> ba_account_token) (bank_accounts db) \<and>
     unique_by (Some \<circ> bt_id) (transactions db) \<and>
     unique_by (Some \<circ> bf_beneficiary_token) (beneficiaries db) \<and>
     unique_by (Some \<circ> pt_proposed_action_id) (transfers db) \<and>
     unique_by (\<lambda>t. Some (pt_tenant_id t, pt_idempotency_key t)) (transfers db) \<and>
     unique_by (Some \<circ> bau_id) (bank_audits db) \<and>
     unique_by (Some \<circ> ac_consent_id) (consents db) \<and>
     unique_by (\<lambda>c. Some (ac_tenant_id c, ac_idempotency_key c)) (consents db) \<and>
     unique_by (Some \<circ> ir_request_id) (information_requests db) \<and>
     unique_by (\<lambda>r. Some (ir_tenant_id r, ir_idempotency_key r)) (information_requests db) \<and>
     unique_by (Some \<circ> te_id) (executions db) \<and>
     unique_by (\<lambda>e. Some (te_tenant_id e, te_execution_id e)) (executions db) \<and>
     unique_by (\<lambda>e. Some (te_tenant_id e, te_guardian_call_id e)) (executions db) \<and>
     unique_by (\<lambda>e. Some (te_tenant_id e, te_proposed_action_id e)) (executions db) \<and>
     unique_by te_bank_reference (executions db) \<and>
     unique_by (Some \<circ> le_id) (ledger_entries db) \<and>
     unique_by (\<lambda>e. Some (le_journal_id e, le_line_number e)) (ledger_entries db) \<and>
     unique_by (Some \<circ> ah_hold_id) (holds db) \<and>
     unique_by (\<lambda>h. Some (ah_tenant_id h, ah_idempotency_key h)) (holds db) \<and>
     unique_by (\<lambda>h. Some (ah_tenant_id h, ah_guardian_call_id h)) (holds db) \<and>
     unique_by ah_release_guardian_call_id (holds db) \<and>
     unique_by (Some \<circ> bch_change_id) (beneficiary_changes db) \<and>
     unique_by (\<lambda>c. Some (bch_tenant_id c, bch_idempotency_key c)) (beneficiary_changes db) \<and>
     unique_by bch_guardian_call_id (beneficiary_changes db) \<and>
     unique_by (Some \<circ> pr_reversal_id) (reversals db) \<and>
     unique_by (\<lambda>r. Some (pr_tenant_id r, pr_idempotency_key r)) (reversals db) \<and>
     unique_by pr_guardian_call_id (reversals db) \<and>
     unique_by pr_bank_reference (reversals db) \<and>
     unique_by (Some \<circ> bob_id) (bank_outbox db)"

datatype bank_error =
    BankDomainError string
  | BankSecurityError string
  | BankAttributeError
  | BankIntegrityError
  | BankTypeError

record bank_env =
  benv_now :: time
  benv_today :: int
  benv_uuid :: "nat \<Rightarrow> string"
  benv_token_hex :: string
  benv_mcp_token :: string

type_synonym bank_op = "bank_db \<Rightarrow> bank_error + bank_db \<times> json"

section \<open>Helpers\<close>

definition prefixed_id :: "string \<Rightarrow> string \<Rightarrow> string" where
  "prefixed_id p hex = p @ take 18 hex"

definition bank_amount :: "string \<Rightarrow> bank_error + int" where
  "bank_amount value =
     (case quantize_cents value of
        None \<Rightarrow> Inl (BankDomainError ''Amount must be a decimal value.'')
      | Some NotANumber \<Rightarrow> Inl (BankDomainError ''Amount must be greater than zero.'')
      | Some (Cents n) \<Rightarrow>
          if n \<le> 0 then Inl (BankDomainError ''Amount must be greater than zero.'') else Inr n)"

definition validate_payment :: "string \<Rightarrow> string \<Rightarrow> string \<Rightarrow> bank_error + unit" where
  "validate_payment currency rail key =
     (if currency \<noteq> ''INR'' \<or> rail \<noteq> ''DEMO_BANK_RAIL''
      then Inl (BankDomainError ''The synthetic bank supports INR over DEMO_BANK_RAIL.'')
      else if \<not> (8 \<le> length key \<and> length key \<le> 200)
      then Inl (BankDomainError ''client_idempotency_key must contain 8 to 200 characters.'')
      else Inr ())"

definition bank_hash :: "dict \<Rightarrow> string" where
  "bank_hash value = sha256_hex (json_dumps (JObj value))"

definition evidence_receipt :: "bank_env \<Rightarrow> guarded_scope \<Rightarrow> string \<Rightarrow> string list \<Rightarrow> string" where
  "evidence_receipt env scope kind refs =
     ''evr_'' @ take 24 (hmac_signature (benv_mcp_token env)
       [(''call_id'', JStr (sc_call_id scope)), (''kind'', JStr kind), (''refs'', JList (map JStr refs))])"

definition find_account :: "bank_db \<Rightarrow> guarded_scope \<Rightarrow> string \<Rightarrow> bank_error + bank_account" where
  "find_account db scope token =
     found (BankDomainError ''Account was not found in the signed tenant/user scope.'')
       (scalar (\<lambda>a. ba_account_token a = token \<and> ba_tenant_id a = sc_tenant_id scope
                  \<and> ba_user_id a = sc_user_id scope \<and> ba_status a = ''ACTIVE'') (bank_accounts db))"

definition find_beneficiary :: "bank_db \<Rightarrow> guarded_scope \<Rightarrow> string \<Rightarrow> bool \<Rightarrow> bank_error + beneficiary" where
  "find_beneficiary db scope token active =
     (let e = BankDomainError ''Beneficiary is not verified and active in the signed tenant.'' in
      sum_bind (found e (scalar (\<lambda>b. bf_beneficiary_token b = token \<and> bf_tenant_id b = sc_tenant_id scope)
                          (beneficiaries db)))
        (\<lambda>b. if active \<and> (\<not> bf_verified b \<or> bf_status b \<noteq> ''ACTIVE'') then Inl e else Inr b))"

definition find_consent ::
    "bank_env \<Rightarrow> bank_db \<Rightarrow> guarded_scope \<Rightarrow> string \<Rightarrow> bool \<Rightarrow> bank_error + aa_consent" where
  "find_consent env db scope consent_id require_active =
     sum_bind (found (BankSecurityError ''AA consent was not found in the signed scope.'')
        (scalar (\<lambda>c. ac_consent_id c = consent_id \<and> ac_tenant_id c = sc_tenant_id scope
                   \<and> ac_user_id c = sc_user_id scope) (consents db)))
       (\<lambda>c. if require_active \<and> (ac_status c \<noteq> ''ACTIVE'' \<or> ac_valid_until c \<le> benv_now env)
            then Inl (BankSecurityError ''AA consent is not active.'') else Inr c)"

definition covers :: "bank_env \<Rightarrow> string \<Rightarrow> string option \<Rightarrow> aa_consent \<Rightarrow> bool" where
  "covers env kind account_token c \<longleftrightarrow>
     ac_valid_until c > benv_now env \<and> kind \<in> set (ac_information_types c) \<and>
     (case account_token of None \<Rightarrow> True | Some t \<Rightarrow> t \<in> set (ac_account_tokens c))"

definition require_any_consent ::
    "bank_env \<Rightarrow> bank_db \<Rightarrow> guarded_scope \<Rightarrow> string \<Rightarrow> string option \<Rightarrow> bank_error + aa_consent" where
  "require_any_consent env db scope kind account_token =
     found (BankSecurityError ''An active AA consent covering this information is required.'')
       (scalar (covers env kind account_token)
         (scalars (\<lambda>c. ac_tenant_id c = sc_tenant_id scope \<and> ac_user_id c = sc_user_id scope
                     \<and> ac_status c = ''ACTIVE'') (consents db)))"

definition pending_amount :: "bank_env \<Rightarrow> bank_db \<Rightarrow> bank_account \<Rightarrow> string option \<Rightarrow> int" where
  "pending_amount env db account exclude_action =
     sum_list (map pt_amount (scalars (\<lambda>t. pt_tenant_id t = ba_tenant_id account
        \<and> pt_source_account_token t = ba_account_token account
        \<and> pt_status t = ''READY_FOR_GUARDIAN'' \<and> pt_expires_at t > benv_now env
        \<and> (case exclude_action of None \<Rightarrow> True | Some x \<Rightarrow> x = [] \<or> pt_proposed_action_id t \<noteq> x))
      (transfers db)))"

definition check_payment_capacity ::
    "bank_env \<Rightarrow> bank_db \<Rightarrow> bank_account \<Rightarrow> int \<Rightarrow> string option \<Rightarrow> bank_error + unit" where
  "check_payment_capacity env db account amount exclude_action =
     (if amount > ba_per_transfer_limit account \<or> amount > ba_available_balance account
      then Inl (BankDomainError ''Transfer exceeds bank limits or available balance.'')
      else if pending_amount env db account exclude_action + amount > ba_daily_limit account
      then Inl (BankDomainError ''Transfer plus active preparations exceeds the daily limit.'')
      else Inr ())"

definition bank_audit ::
    "bank_env \<Rightarrow> nat \<Rightarrow> guarded_scope \<Rightarrow> string \<Rightarrow> dict \<Rightarrow> bank_db \<Rightarrow> bank_db" where
  "bank_audit env i scope outcome detail db =
     db\<lparr>bank_audits := bank_audits db @
       [\<lparr>bau_id = uuid_str (benv_uuid env i), bau_tenant_id = sc_tenant_id scope,
         bau_user_id = sc_user_id scope, bau_call_id = sc_call_id scope,
         bau_tool_name = sc_canonical_name scope, bau_purpose = sc_purpose scope,
         bau_outcome = outcome, bau_detail = json_dumps_spaced (JObj detail),
         bau_occurred_at = benv_now env\<rparr>]\<rparr>"

definition bank_event ::
    "bank_env \<Rightarrow> nat \<Rightarrow> string \<Rightarrow> string \<Rightarrow> string \<Rightarrow> string \<Rightarrow> dict \<Rightarrow> bank_db \<Rightarrow> bank_db" where
  "bank_event env i tenant_id aggregate_type aggregate_id event_type payload db =
     db\<lparr>bank_outbox := bank_outbox db @
       [\<lparr>bob_id = uuid_str (benv_uuid env i), bob_tenant_id = tenant_id,
         bob_aggregate_type = aggregate_type, bob_aggregate_id = aggregate_id,
         bob_event_type = event_type, bob_payload = JObj payload,
         bob_occurred_at = benv_now env, bob_published_at = None\<rparr>]\<rparr>"

section \<open>Projections\<close>

definition flags :: "string list \<Rightarrow> json" where
  "flags fs = JList (map JStr fs)"

definition bank_account_projection :: "bank_account \<Rightarrow> dict" where
  "bank_account_projection v =
     [(''account_token'', JStr (ba_account_token v)), (''display_name'', JStr (ba_display_name v)),
      (''masked_number'', JStr (ba_masked_number v)), (''account_type'', JStr (ba_account_type v)),
      (''currency'', JStr (ba_currency v)), (''status'', JStr (ba_status v))]"

definition balance_projection :: "bank_env \<Rightarrow> bank_account \<Rightarrow> dict" where
  "balance_projection env v =
     [(''account_token'', JStr (ba_account_token v)), (''currency'', JStr (ba_currency v)),
      (''current_balance'', JStr (cents_str (ba_current_balance v))),
      (''available_balance'', JStr (cents_str (ba_available_balance v))),
      (''as_of'', JStr (iso_utc (benv_now env)))]"

definition transaction_projection :: "bank_transaction \<Rightarrow> json" where
  "transaction_projection v = JObj
     [(''transaction_id'', JStr (bt_id v)), (''booked_on'', JStr (date_iso (bt_booked_on v))),
      (''direction'', JStr (bt_direction v)), (''amount'', JStr (cents_str (bt_amount v))),
      (''currency'', JStr (bt_currency v)), (''category'', JStr (bt_category v)),
      (''description'', JStr (bt_description v)), (''reference'', JStr (bt_reference v))]"

text \<open>
  The version is a column default that is filled in by the flush: it is still \<open>None\<close> in
  the projection that \<open>create_consent\<close> puts into its event.
\<close>

definition consent_projection :: "int option \<Rightarrow> aa_consent \<Rightarrow> dict" where
  "consent_projection version v =
     [(''status'', JStr (ac_status v)), (''consent_id'', JStr (ac_consent_id v)),
      (''purpose'', JStr (ac_purpose v)), (''account_tokens'', JList (map JStr (ac_account_tokens v))),
      (''information_types'', JList (map JStr (ac_information_types v))),
      (''valid_from'', JStr (iso_utc (ac_valid_from v))), (''valid_until'', JStr (iso_utc (ac_valid_until v))),
      (''version'', (case version of None \<Rightarrow> JNull | Some n \<Rightarrow> JInt n)),
      (''security_flags'', flags [''SYNTHETIC_DATA'', ''REVOCABLE_CONSENT''])]"

definition prepared_projection :: "prepared_transfer \<Rightarrow> dict" where
  "prepared_projection v =
     [(''status'', JStr (pt_status v)), (''proposed_action_id'', JStr (pt_proposed_action_id v)),
      (''canonical_action_hash'', JStr (pt_canonical_action_hash v)),
      (''source_account_token'', JStr (pt_source_account_token v)),
      (''beneficiary_token'', JStr (pt_beneficiary_token v)), (''amount'', JStr (cents_str (pt_amount v))),
      (''currency'', JStr (pt_currency v)), (''rail'', JStr (pt_rail v)), (''purpose'', JStr (pt_purpose v)),
      (''expires_at'', JStr (iso_utc (pt_expires_at v))), (''execution_available'', JBool True),
      (''execution_tool'', JStr ''bank.transfers.execute''),
      (''security_flags'', flags [''SYNTHETIC_DATA'', ''GUARDIAN_REQUIRED''])]"

definition execution_projection :: "transfer_execution \<Rightarrow> dict" where
  "execution_projection v =
     [(''status'', JStr (te_status v)), (''execution_id'', JStr (te_execution_id v)),
      (''proposed_action_id'', JStr (te_proposed_action_id v)),
      (''canonical_action_hash'', JStr (te_canonical_action_hash v)),
      (''amount'', JStr (cents_str (te_amount v))), (''currency'', JStr (te_currency v)),
      (''bank_reference'', JOpt (te_bank_reference v)),
      (''settled_at'', JOpt (map_option iso_utc (te_settled_at v))),
      (''guardian_decision_id'', JStr (te_guardian_decision_id v)), (''authorization_consumed'', JBool True),
      (''security_flags'', flags [''SYNTHETIC_DATA'', ''GUARDIAN_AUTHORIZED''])]"

definition hold_projection :: "account_hold \<Rightarrow> dict" where
  "hold_projection v =
     [(''status'', JStr (ah_status v)), (''hold_id'', JStr (ah_hold_id v)),
      (''account_token'', JStr (ah_account_token v)), (''amount'', JStr (cents_str (ah_amount v))),
      (''currency'', JStr (ah_currency v)), (''purpose'', JStr (ah_purpose v)),
      (''released_at'', JOpt (map_option iso_utc (ah_released_at v))),
      (''security_flags'', flags [''SYNTHETIC_DATA'', ''GUARDIAN_AUTHORIZED''])]"

definition beneficiary_change_projection :: "beneficiary_change \<Rightarrow> dict" where
  "beneficiary_change_projection v =
     [(''status'', JStr (bch_status v)), (''change_id'', JStr (bch_change_id v)),
      (''beneficiary_token'', JStr (bch_beneficiary_token v)),
      (''canonical_action_hash'', JStr (bch_canonical_action_hash v)),
      (''expires_at'', JStr (iso_utc (bch_expires_at v))),
      (''security_flags'', flags [''SYNTHETIC_DATA'', ''GUARDIAN_REQUIRED''])]"

definition reversal_projection :: "prepared_reversal \<Rightarrow> dict" where
  "reversal_projection v =
     [(''status'', JStr (pr_status v)), (''reversal_id'', JStr (pr_reversal_id v)),
      (''transfer_execution_id'', JStr (pr_transfer_execution_id v)),
      (''amount'', JStr (cents_str (pr_amount v))), (''currency'', JStr (pr_currency v)),
      (''reason'', JStr (pr_reason v)), (''canonical_action_hash'', JStr (pr_canonical_action_hash v)),
      (''reviewer_approval_id'', JOpt (pr_reviewer_approval_id v)),
      (''bank_reference'', JOpt (pr_bank_reference v)),
      (''security_flags'', flags [''SYNTHETIC_DATA'', ''REVIEWER_AND_GUARDIAN_REQUIRED''])]"

section \<open>Account aggregator\<close>

text \<open>\<open>sorted(set(xs))\<close>.\<close>

definition sorted_set :: "string list \<Rightarrow> string list" where
  "sorted_set xs = sort (remdups xs)"

definition information_kinds :: "string list" where
  "information_kinds = [''ACCOUNT'', ''BALANCE'', ''TRANSACTIONS'']"

fun find_accounts :: "bank_db \<Rightarrow> guarded_scope \<Rightarrow> string list \<Rightarrow> bank_error + unit" where
  "find_accounts db scope [] = Inr ()"
| "find_accounts db scope (token # tokens) =
     sum_bind (find_account db scope token) (\<lambda>_. find_accounts db scope tokens)"

definition consent_action ::
    "guarded_scope \<Rightarrow> string list \<Rightarrow> string list \<Rightarrow> int \<Rightarrow> string \<Rightarrow> dict" where
  "consent_action scope tokens info valid_days key =
     [(''tenant_id'', JStr (sc_tenant_id scope)), (''user_id'', JStr (sc_user_id scope)),
      (''purpose'', JStr (sc_purpose scope)), (''account_tokens'', JList (map JStr tokens)),
      (''information_types'', JList (map JStr info)), (''valid_days'', JInt valid_days),
      (''idempotency_key'', JStr key)]"

definition create_consent ::
    "bank_env \<Rightarrow> guarded_scope \<Rightarrow> string list \<Rightarrow> string list \<Rightarrow> int \<Rightarrow> string \<Rightarrow> bank_op" where
  "create_consent env scope account_tokens information_types valid_days client_idempotency_key db =
     (let info = sorted_set (map py_upper information_types); tokens = sorted_set account_tokens in
      if info = [] \<or> \<not> set info \<subseteq> set information_kinds
      then Inl (BankDomainError ''Use ACCOUNT, BALANCE or TRANSACTIONS information types.'')
      else if \<not> (1 \<le> valid_days \<and> valid_days \<le> 90)
      then Inl (BankDomainError ''valid_days must be between 1 and 90.'')
      else let action_hash = bank_hash (consent_action scope tokens info valid_days client_idempotency_key) in
      case scalar (\<lambda>c. ac_tenant_id c = sc_tenant_id scope
                     \<and> ac_idempotency_key c = client_idempotency_key) (consents db) of
        Some existing \<Rightarrow>
          if ac_request_hash existing \<noteq> action_hash
          then Inl (BankDomainError ''Consent idempotency parameter drift detected.'')
          else Inr (db, JObj (consent_projection (Some (ac_version existing)) existing))
      | None \<Rightarrow>
          sum_bind (find_accounts db scope tokens) (\<lambda>_.
          let value = \<lparr>ac_consent_id = prefixed_id ''aac_'' (benv_uuid env 0),
                ac_tenant_id = sc_tenant_id scope, ac_user_id = sc_user_id scope,
                ac_purpose = sc_purpose scope, ac_account_tokens = tokens, ac_information_types = info,
                ac_idempotency_key = client_idempotency_key, ac_request_hash = action_hash,
                ac_status = ''ACTIVE'', ac_valid_from = benv_now env,
                ac_valid_until = benv_now env + days valid_days, ac_revoked_at = None,
                ac_version = 1, ac_created_at = benv_now env\<rparr>;
              db1 = bank_event env 1 (sc_tenant_id scope) ''AA_CONSENT'' (ac_consent_id value)
                      ''bank.aa.consent.created'' (consent_projection None value)
                      (db\<lparr>consents := consents db @ [value]\<rparr>);
              db2 = bank_audit env 2 scope ''CREATED'' [(''consent_id'', JStr (ac_consent_id value))] db1
          in Inr (db2, JObj (consent_projection (Some 1) value))))"

definition get_consent :: "bank_env \<Rightarrow> guarded_scope \<Rightarrow> string \<Rightarrow> bank_op" where
  "get_consent env scope consent_id db =
     sum_bind (find_consent env db scope consent_id False) (\<lambda>value.
       Inr (bank_audit env 0 scope ''SUCCESS'' [(''consent_id'', JStr consent_id)] db,
            JObj (consent_projection (Some (ac_version value)) value)))"

definition revoke :: "bank_env \<Rightarrow> aa_consent \<Rightarrow> aa_consent" where
  "revoke env c =
     c\<lparr>ac_status := ''REVOKED'', ac_revoked_at := Some (benv_now env), ac_version := ac_version c + 1\<rparr>"

definition revoke_consent :: "bank_env \<Rightarrow> guarded_scope \<Rightarrow> string \<Rightarrow> bank_op" where
  "revoke_consent env scope consent_id db =
     sum_bind (find_consent env db scope consent_id False) (\<lambda>value.
       if ac_status value = ''ACTIVE'' then
         let value' = revoke env value;
             db1 = bank_event env 0 (sc_tenant_id scope) ''AA_CONSENT'' consent_id
                     ''bank.aa.consent.revoked'' [(''consent_id'', JStr consent_id)]
                     (db\<lparr>consents := update_rows (\<lambda>c. ac_consent_id c = consent_id) (revoke env) (consents db)\<rparr>)
         in Inr (bank_audit env 1 scope ''REVOKED'' [(''consent_id'', JStr consent_id)] db1,
                 JObj (consent_projection (Some (ac_version value')) value'))
       else Inr (bank_audit env 0 scope ''REVOKED'' [(''consent_id'', JStr consent_id)] db,
                 JObj (consent_projection (Some (ac_version value)) value)))"

text \<open>Rows of a window of days, latest first, at most \<open>n\<close> of them.\<close>

definition transactions_between :: "bank_db \<Rightarrow> string \<Rightarrow> int \<Rightarrow> int \<Rightarrow> nat \<Rightarrow> bank_transaction list" where
  "transactions_between db account_token start stop n =
     take n (sort_key (\<lambda>t. - bt_booked_on t)
       (scalars (\<lambda>t. bt_account_token t = account_token \<and> start \<le> bt_booked_on t \<and> bt_booked_on t \<le> stop)
         (transactions db)))"

record information_query =
  iq_consent_id :: string
  iq_information_type :: string
  iq_account_token :: string
  iq_client_idempotency_key :: string
  iq_from_date :: "int option"
  iq_to_date :: "int option"

definition information_action :: "information_query \<Rightarrow> string \<Rightarrow> dict" where
  "information_action q kind =
     [(''consent_id'', JStr (iq_consent_id q)), (''information_type'', JStr kind),
      (''account_token'', JStr (iq_account_token q)),
      (''from_date'', JOpt (map_option date_iso (iq_from_date q))),
      (''to_date'', JOpt (map_option date_iso (iq_to_date q))),
      (''idempotency_key'', JStr (iq_client_idempotency_key q))]"

definition information_payload ::
    "bank_env \<Rightarrow> bank_db \<Rightarrow> information_query \<Rightarrow> string \<Rightarrow> bank_account \<Rightarrow> bank_error + json" where
  "information_payload env db q kind account =
     (if kind = ''ACCOUNT'' then Inr (JObj (bank_account_projection account))
      else if kind = ''BALANCE'' then Inr (JObj (balance_projection env account))
      else
        let start = (case iq_from_date q of None \<Rightarrow> benv_today env - 30 | Some d \<Rightarrow> d);
            stop = (case iq_to_date q of None \<Rightarrow> benv_today env | Some d \<Rightarrow> d) in
        if start > stop \<or> stop - start > 90
        then Inl (BankDomainError ''Transactions require a valid 90-day window.'')
        else Inr (JList (map transaction_projection
               (transactions_between db (iq_account_token q) start stop 100))))"

definition fetch_information :: "bank_env \<Rightarrow> guarded_scope \<Rightarrow> information_query \<Rightarrow> bank_op" where
  "fetch_information env scope q db =
     (let kind = py_upper (iq_information_type q) in
      if kind \<notin> set information_kinds
      then Inl (BankDomainError ''Unsupported financial information type.'')
      else let action_hash = bank_hash (information_action q kind) in
      sum_bind (find_consent env db scope (iq_consent_id q) True) (\<lambda>consent.
      if iq_account_token q \<notin> set (ac_account_tokens consent) \<or> kind \<notin> set (ac_information_types consent)
      then Inl (BankSecurityError ''Requested information is outside the AA consent scope.'')
      else if ac_purpose consent \<noteq> [] \<and> sc_purpose scope \<noteq> ac_purpose consent
      then Inl (BankSecurityError ''Purpose does not match the AA consent.'')
      else
        let existing = scalar (\<lambda>r. ir_tenant_id r = sc_tenant_id scope
              \<and> ir_idempotency_key r = iq_client_idempotency_key q) (information_requests db) in
        if (case existing of None \<Rightarrow> False | Some r \<Rightarrow> ir_request_hash r \<noteq> action_hash)
        then Inl (BankDomainError ''The FI idempotency key has different parameters.'')
        else
      sum_bind (find_account db scope (iq_account_token q)) (\<lambda>account.
      sum_bind (information_payload env db q kind account) (\<lambda>payload.
        let receipt = evidence_receipt env scope ''aa.fetch_information''
              [iq_consent_id q, iq_account_token q, action_hash];
            request = (case existing of
                Some r \<Rightarrow> r
              | None \<Rightarrow> \<lparr>ir_request_id = prefixed_id ''fir_'' (benv_uuid env 0),
                  ir_tenant_id = sc_tenant_id scope, ir_user_id = sc_user_id scope,
                  ir_consent_id = iq_consent_id q, ir_information_type = kind,
                  ir_account_token = iq_account_token q, ir_from_date = iq_from_date q,
                  ir_to_date = iq_to_date q, ir_idempotency_key = iq_client_idempotency_key q,
                  ir_request_hash = action_hash, ir_evidence_receipt_id = Some receipt,
                  ir_status = ''COMPLETED'', ir_created_at = benv_now env,
                  ir_completed_at = Some (benv_now env)\<rparr>);
            db1 = (case existing of Some _ \<Rightarrow> db
              | None \<Rightarrow> db\<lparr>information_requests := information_requests db @ [request]\<rparr>)
        in Inr (bank_audit env 1 scope ''SUCCESS'' [(''request_id'', JStr (ir_request_id request))] db1,
            JObj [(''status'', JStr ''COMPLETED''), (''request_id'', JStr (ir_request_id request)),
                  (''consent_id'', JStr (iq_consent_id q)), (''information_type'', JStr kind),
                  (''data'', payload), (''evidence_receipt_id'', JStr receipt),
                  (''security_flags'', flags [''SYNTHETIC_DATA'', ''CONSENT_SCOPED''])])))))"

section \<open>Reads\<close>

definition list_accounts :: "bank_env \<Rightarrow> guarded_scope \<Rightarrow> bank_op" where
  "list_accounts env scope db =
     sum_bind (require_any_consent env db scope ''ACCOUNT'' None) (\<lambda>_.
       let rows = scalars (\<lambda>a. ba_tenant_id a = sc_tenant_id scope \<and> ba_user_id a = sc_user_id scope
                             \<and> ba_status a = ''ACTIVE'') (bank_accounts db)
       in Inr (bank_audit env 0 scope ''SUCCESS'' [(''account_count'', JInt (int (length rows)))] db,
            JObj [(''status'', JStr ''SUCCESS''),
                  (''accounts'', JList (map (JObj \<circ> bank_account_projection) rows)),
                  (''evidence_receipt_id'',
                    JStr (evidence_receipt env scope ''accounts.list'' (map ba_account_token rows))),
                  (''security_flags'', flags [''SYNTHETIC_DATA'', ''CONSENT_SCOPED''])]))"

definition bank_get_account :: "bank_env \<Rightarrow> guarded_scope \<Rightarrow> string \<Rightarrow> bank_op" where
  "bank_get_account env scope account_token db =
     sum_bind (require_any_consent env db scope ''ACCOUNT'' (Some account_token)) (\<lambda>_.
     sum_bind (find_account db scope account_token) (\<lambda>value.
       Inr (bank_audit env 0 scope ''SUCCESS'' [(''account_token'', JStr account_token)] db,
            JObj (dict_union (dict_union (bank_account_projection value) (balance_projection env value))
              [(''evidence_receipt_id'', JStr (evidence_receipt env scope ''accounts.get'' [account_token])),
               (''security_flags'', flags [''SYNTHETIC_DATA'', ''CONSENT_SCOPED''])]))))"

definition get_balance :: "bank_env \<Rightarrow> guarded_scope \<Rightarrow> string \<Rightarrow> bank_op" where
  "get_balance env scope account_token db =
     sum_bind (require_any_consent env db scope ''BALANCE'' (Some account_token)) (\<lambda>_.
     sum_bind (find_account db scope account_token) (\<lambda>value.
       Inr (bank_audit env 0 scope ''SUCCESS'' [(''account_token'', JStr account_token)] db,
            JObj ((''status'', JStr ''SUCCESS'') # balance_projection env value @
              [(''evidence_receipt_id'', JStr (evidence_receipt env scope ''accounts.get_balance''
                  [account_token, cents_str (ba_available_balance value)])),
               (''security_flags'', flags [''SYNTHETIC_DATA'', ''CONSENT_SCOPED''])]))))"

definition list_transactions ::
    "bank_env \<Rightarrow> guarded_scope \<Rightarrow> string \<Rightarrow> int \<Rightarrow> int \<Rightarrow> int \<Rightarrow> bank_op" where
  "list_transactions env scope account_token from_date to_date limit db =
     (if from_date > to_date \<or> to_date - from_date > 90
      then Inl (BankDomainError ''A valid transaction window of at most 90 days is required.'')
      else
     sum_bind (require_any_consent env db scope ''TRANSACTIONS'' (Some account_token)) (\<lambda>_.
     sum_bind (find_account db scope account_token) (\<lambda>_.
       let rows = transactions_between db account_token from_date to_date (nat (max 1 (min limit 100)))
       in Inr (bank_audit env 0 scope ''SUCCESS'' [(''transaction_count'', JInt (int (length rows)))] db,
            JObj [(''status'', JStr ''SUCCESS''), (''account_token'', JStr account_token),
                  (''from_date'', JStr (date_iso from_date)), (''to_date'', JStr (date_iso to_date)),
                  (''transactions'', JList (map transaction_projection rows)),
                  (''evidence_receipt_id'', JStr (evidence_receipt env scope ''transactions.list'' (map bt_id rows))),
                  (''security_flags'', flags [''SYNTHETIC_DATA'', ''CONSENT_SCOPED''])]))))"

definition verify_beneficiary :: "bank_env \<Rightarrow> guarded_scope \<Rightarrow> string \<Rightarrow> bank_op" where
  "verify_beneficiary env scope beneficiary_token db =
     sum_bind (find_beneficiary db scope beneficiary_token False) (\<lambda>value.
       Inr (bank_audit env 0 scope ''SUCCESS'' [(''beneficiary_token'', JStr beneficiary_token)] db,
            JObj [(''status'', JStr ''SUCCESS''), (''beneficiary_token'', JStr (bf_beneficiary_token value)),
                  (''owner_name'', JStr (bf_owner_name value)), (''masked_account'', JStr (bf_masked_account value)),
                  (''bank_name'', JStr (bf_bank_name value)), (''currency'', JStr (bf_currency value)),
                  (''verified'', JBool (bf_verified value)), (''beneficiary_status'', JStr (bf_status value)),
                  (''evidence_receipt_id'', JStr (evidence_receipt env scope ''beneficiaries.verify''
                     [beneficiary_token, bf_status value])),
                  (''security_flags'', flags (''SYNTHETIC_DATA'' #
                     (if bf_verified value then [] else [''BENEFICIARY_UNVERIFIED''])))]))"

definition get_limits :: "bank_env \<Rightarrow> guarded_scope \<Rightarrow> string \<Rightarrow> bank_op" where
  "get_limits env scope account_token db =
     sum_bind (find_account db scope account_token) (\<lambda>account.
       Inr (bank_audit env 0 scope ''SUCCESS'' [(''account_token'', JStr account_token)] db,
            JObj [(''status'', JStr ''SUCCESS''), (''account_token'', JStr account_token),
                  (''currency'', JStr (ba_currency account)),
                  (''per_transfer'', JStr (cents_str (ba_per_transfer_limit account))),
                  (''per_day'', JStr (cents_str (ba_daily_limit account))),
                  (''allowed_rails'', JList [JStr ''DEMO_BANK_RAIL'']), (''execution_available'', JBool True),
                  (''execution_boundary'', JStr ''GUARDIAN_AUTHORIZED_MCP_ONLY''),
                  (''security_flags'', flags [''SYNTHETIC_DATA''])]))"

section \<open>Transfers\<close>

record transfer_request =
  tr_source_account_token :: string
  tr_beneficiary_token :: string
  tr_amount :: string
  tr_currency :: string
  tr_rail :: string
  tr_client_idempotency_key :: string

definition transfer_action :: "guarded_scope \<Rightarrow> transfer_request \<Rightarrow> int \<Rightarrow> dict" where
  "transfer_action scope r value_amount =
     [(''tenant_id'', JStr (sc_tenant_id scope)), (''user_id'', JStr (sc_user_id scope)),
      (''source_account_token'', JStr (tr_source_account_token r)),
      (''beneficiary_token'', JStr (tr_beneficiary_token r)),
      (''amount'', JStr (cents_str value_amount)), (''currency'', JStr (tr_currency r)),
      (''rail'', JStr (tr_rail r)), (''purpose'', JStr (sc_purpose scope)),
      (''client_idempotency_key'', JStr (tr_client_idempotency_key r))]"

definition new_transfer :: "bank_env \<Rightarrow> guarded_scope \<Rightarrow> transfer_request \<Rightarrow> int \<Rightarrow> prepared_transfer" where
  "new_transfer env scope r value_amount =
     \<lparr>pt_proposed_action_id = prefixed_id ''act_'' (benv_uuid env 0), pt_tenant_id = sc_tenant_id scope,
      pt_user_id = sc_user_id scope, pt_source_account_token = tr_source_account_token r,
      pt_beneficiary_token = tr_beneficiary_token r, pt_amount = value_amount, pt_currency = tr_currency r,
      pt_rail = tr_rail r, pt_purpose = sc_purpose scope, pt_idempotency_key = tr_client_idempotency_key r,
      pt_canonical_action_hash = bank_hash (transfer_action scope r value_amount),
      pt_status = ''READY_FOR_GUARDIAN'', pt_created_at = benv_now env,
      pt_expires_at = benv_now env + minutes 15\<rparr>"

definition prepare_transfer :: "bank_env \<Rightarrow> guarded_scope \<Rightarrow> transfer_request \<Rightarrow> bank_op" where
  "prepare_transfer env scope r db =
     sum_bind (bank_amount (tr_amount r)) (\<lambda>value_amount.
     sum_bind (validate_payment (tr_currency r) (tr_rail r) (tr_client_idempotency_key r)) (\<lambda>_.
     let action_hash = bank_hash (transfer_action scope r value_amount) in
     case scalar (\<lambda>t. pt_tenant_id t = sc_tenant_id scope
                    \<and> pt_idempotency_key t = tr_client_idempotency_key r) (transfers db) of
       Some existing \<Rightarrow>
         if pt_canonical_action_hash existing \<noteq> action_hash
         then Inl (BankDomainError ''The idempotency key is bound to a different transfer.'')
         else Inr (db, JObj (prepared_projection existing))
     | None \<Rightarrow>
         sum_bind (find_account db scope (tr_source_account_token r)) (\<lambda>account.
         sum_bind (find_beneficiary db scope (tr_beneficiary_token r) True) (\<lambda>_.
         sum_bind (check_payment_capacity env db account value_amount None) (\<lambda>_.
         let value = new_transfer env scope r value_amount in
         Inr (bank_audit env 1 scope ''PREPARED''
                [(''proposed_action_id'', JStr (pt_proposed_action_id value)), (''action_hash'', JStr action_hash)]
                (db\<lparr>transfers := transfers db @ [value]\<rparr>),
              JObj (prepared_projection value)))))))"

definition bank_reference :: "string \<Rightarrow> bank_env \<Rightarrow> string" where
  "bank_reference p env = take 10 (p @ py_upper (benv_token_hex env))"

definition debit_account :: "int \<Rightarrow> bank_account \<Rightarrow> bank_account" where
  "debit_account n a =
     a\<lparr>ba_current_balance := ba_current_balance a - n, ba_available_balance := ba_available_balance a - n\<rparr>"

definition new_execution ::
    "bank_env \<Rightarrow> guarded_scope \<Rightarrow> prepared_transfer \<Rightarrow> string \<Rightarrow> string \<Rightarrow> string \<Rightarrow> transfer_execution" where
  "new_execution env scope prepared proposed_action_id canonical_action_hash execution_id =
     \<lparr>te_id = uuid_str (benv_uuid env 1), te_execution_id = execution_id, te_tenant_id = sc_tenant_id scope,
      te_user_id = sc_user_id scope, te_proposed_action_id = proposed_action_id,
      te_canonical_action_hash = canonical_action_hash,
      te_guardian_decision_id = sc_guardian_decision_id scope, te_guardian_call_id = sc_call_id scope,
      te_request_hash = sc_request_hash scope, te_amount = pt_amount prepared,
      te_currency = pt_currency prepared, te_bank_reference = Some (bank_reference ''XY'' env),
      te_status = ''SETTLED'', te_failure_code = None, te_created_at = benv_now env,
      te_settled_at = Some (benv_now env)\<rparr>"

definition new_entry ::
    "bank_env \<Rightarrow> nat \<Rightarrow> guarded_scope \<Rightarrow> prepared_transfer \<Rightarrow> string \<Rightarrow> int \<Rightarrow> string \<Rightarrow> string \<Rightarrow> bank_ledger_entry" where
  "new_entry env i scope prepared execution_id line account side =
     \<lparr>le_id = uuid_str (benv_uuid env i), le_tenant_id = sc_tenant_id scope,
      le_execution_id = execution_id, le_journal_id = prefixed_id ''jrn_'' (benv_uuid env 0),
      le_line_number = line, le_ledger_account = account, le_entry_type = side,
      le_amount = pt_amount prepared, le_currency = pt_currency prepared,
      le_created_at = benv_now env\<rparr>"

definition new_transaction ::
    "bank_env \<Rightarrow> nat \<Rightarrow> string \<Rightarrow> string \<Rightarrow> int \<Rightarrow> string \<Rightarrow> string \<Rightarrow> string \<Rightarrow> string \<Rightarrow> bank_transaction" where
  "new_transaction env i account_token direction amount currency category description reference =
     \<lparr>bt_id = uuid_str (benv_uuid env i), bt_account_token = account_token, bt_booked_on = benv_today env,
      bt_direction = direction, bt_amount = amount, bt_currency = currency, bt_category = category,
      bt_description = description, bt_reference = reference\<rparr>"

definition settle_transfer ::
    "bank_env \<Rightarrow> guarded_scope \<Rightarrow> prepared_transfer \<Rightarrow> bank_account \<Rightarrow> string \<Rightarrow> string \<Rightarrow> string \<Rightarrow>
      bank_db \<Rightarrow> bank_db" where
  "settle_transfer env scope prepared account proposed_action_id canonical_action_hash execution_id db =
     db\<lparr>bank_accounts := update_rows (\<lambda>a. ba_account_token a = ba_account_token account)
          (debit_account (pt_amount prepared)) (bank_accounts db),
        transfers := update_rows (\<lambda>t. pt_proposed_action_id t = pt_proposed_action_id prepared)
          (\<lambda>t. t\<lparr>pt_status := ''SETTLED''\<rparr>) (transfers db),
        executions := executions db @
          [new_execution env scope prepared proposed_action_id canonical_action_hash execution_id],
        transactions := transactions db @
          [new_transaction env 4 (ba_account_token account) ''DEBIT'' (pt_amount prepared)
             (pt_currency prepared) ''GUARDIAN_PAYMENT'' ''Guardian-authorized synthetic transfer''
             (bank_reference ''XY'' env)],
        ledger_entries := ledger_entries db @
          [new_entry env 2 scope prepared execution_id 1 ''DISBURSEMENT_CLEARING'' ''DEBIT'',
           new_entry env 3 scope prepared execution_id 2 ''BANK_CASH_CONTROL'' ''CREDIT'']\<rparr>"

definition execute_transfer ::
    "bank_env \<Rightarrow> guarded_scope \<Rightarrow> string \<Rightarrow> string \<Rightarrow> string \<Rightarrow> bank_op" where
  "execute_transfer env scope proposed_action_id canonical_action_hash execution_id db =
     (case scalar (\<lambda>e. te_tenant_id e = sc_tenant_id scope \<and> te_execution_id e = execution_id) (executions db) of
        Some prior \<Rightarrow>
          if te_canonical_action_hash prior \<noteq> canonical_action_hash
          then Inl (BankDomainError ''execution_id is bound to another action hash.'')
          else Inr (db, JObj (execution_projection prior))
      | None \<Rightarrow>
     (case scalar (\<lambda>e. te_tenant_id e = sc_tenant_id scope
                     \<and> te_proposed_action_id e = proposed_action_id) (executions db) of
        Some prior_action \<Rightarrow>
          if te_canonical_action_hash prior_action \<noteq> canonical_action_hash
          then Inl (BankDomainError ''Prepared action is already bound to another hash.'')
          else Inr (db, JObj (execution_projection prior_action))
      | None \<Rightarrow>
     (case scalar (\<lambda>e. te_tenant_id e = sc_tenant_id scope
                     \<and> te_guardian_call_id e = sc_call_id scope) (executions db) of
        Some _ \<Rightarrow> Inl (BankSecurityError ''Guardian call id has already changed bank state.'')
      | None \<Rightarrow>
     (case scalar (\<lambda>t. pt_proposed_action_id t = proposed_action_id \<and> pt_tenant_id t = sc_tenant_id scope
                     \<and> pt_user_id t = sc_user_id scope) (transfers db) of
        None \<Rightarrow> Inl (BankSecurityError ''Prepared action and canonical hash do not match.'')
      | Some prepared \<Rightarrow>
          if pt_canonical_action_hash prepared \<noteq> canonical_action_hash
          then Inl (BankSecurityError ''Prepared action and canonical hash do not match.'')
          else if pt_status prepared \<noteq> ''READY_FOR_GUARDIAN'' \<or> pt_expires_at prepared \<le> benv_now env
          then Inl (BankDomainError ''Prepared transfer is not executable.'')
          else
     sum_bind (find_account db scope (pt_source_account_token prepared)) (\<lambda>account.
     sum_bind (find_beneficiary db scope (pt_beneficiary_token prepared) True) (\<lambda>_.
     sum_bind (check_payment_capacity env db account (pt_amount prepared)
                 (Some (pt_proposed_action_id prepared))) (\<lambda>_.
       let db1 = settle_transfer env scope prepared account proposed_action_id canonical_action_hash
                   execution_id db;
           payload = execution_projection (new_execution env scope prepared proposed_action_id
                       canonical_action_hash execution_id) @
                     [(''journal_id'', JStr (prefixed_id ''jrn_'' (benv_uuid env 0))),
                      (''ledger_balanced'', JBool True)];
           db2 = bank_event env 5 (sc_tenant_id scope) ''TRANSFER'' execution_id ''bank.transfer.settled'' payload db1
       in Inr (bank_audit env 6 scope ''SETTLED'' payload db2, JObj payload))))))))"

definition transfer_status :: "bank_env \<Rightarrow> guarded_scope \<Rightarrow> string \<Rightarrow> bank_op" where
  "transfer_status env scope proposed_action_id db =
     (case scalar (\<lambda>e. te_proposed_action_id e = proposed_action_id
                     \<and> te_tenant_id e = sc_tenant_id scope) (executions db) of
        Some execution \<Rightarrow> Inr (db, JObj (execution_projection execution))
      | None \<Rightarrow>
     sum_bind (found (BankDomainError ''Transfer was not found in the signed scope.'')
        (scalar (\<lambda>t. pt_proposed_action_id t = proposed_action_id \<and> pt_tenant_id t = sc_tenant_id scope
                   \<and> pt_user_id t = sc_user_id scope) (transfers db))) (\<lambda>value.
       if pt_status value = ''READY_FOR_GUARDIAN'' \<and> pt_expires_at value \<le> benv_now env
       then Inr (db\<lparr>transfers := update_rows (\<lambda>t. pt_proposed_action_id t = proposed_action_id)
                     (\<lambda>t. t\<lparr>pt_status := ''EXPIRED''\<rparr>) (transfers db)\<rparr>,
                 JObj (prepared_projection (value\<lparr>pt_status := ''EXPIRED''\<rparr>)))
       else Inr (db, JObj (prepared_projection value))))"

section \<open>Holds\<close>

definition hold_funds :: "int \<Rightarrow> bank_account \<Rightarrow> bank_account" where
  "hold_funds n a = a\<lparr>ba_available_balance := ba_available_balance a - n\<rparr>"

definition new_hold ::
    "bank_env \<Rightarrow> guarded_scope \<Rightarrow> string \<Rightarrow> int \<Rightarrow> string \<Rightarrow> string \<Rightarrow> account_hold" where
  "new_hold env scope account_token value_amount currency client_idempotency_key =
     \<lparr>ah_hold_id = prefixed_id ''hold_'' (benv_uuid env 0), ah_tenant_id = sc_tenant_id scope,
      ah_user_id = sc_user_id scope, ah_account_token = account_token, ah_amount = value_amount,
      ah_currency = currency, ah_purpose = sc_purpose scope, ah_idempotency_key = client_idempotency_key,
      ah_guardian_call_id = sc_call_id scope, ah_release_guardian_call_id = None,
      ah_request_hash = sc_request_hash scope, ah_status = ''ACTIVE'', ah_created_at = benv_now env,
      ah_released_at = None\<rparr>"

definition place_hold ::
    "bank_env \<Rightarrow> guarded_scope \<Rightarrow> string \<Rightarrow> string \<Rightarrow> string \<Rightarrow> string \<Rightarrow> bank_op" where
  "place_hold env scope account_token amount currency client_idempotency_key db =
     sum_bind (bank_amount amount) (\<lambda>value_amount.
     case scalar (\<lambda>h. ah_tenant_id h = sc_tenant_id scope
                    \<and> ah_idempotency_key h = client_idempotency_key) (holds db) of
       Some existing \<Rightarrow>
         if ah_account_token existing \<noteq> account_token \<or> ah_amount existing \<noteq> value_amount
         then Inl (BankDomainError ''Hold idempotency parameter drift detected.'')
         else Inr (db, JObj (hold_projection existing))
     | None \<Rightarrow>
         sum_bind (find_account db scope account_token) (\<lambda>account.
         if currency \<noteq> ba_currency account \<or> value_amount > ba_available_balance account
         then Inl (BankDomainError ''Hold exceeds available balance or currency differs.'')
         else
           let value = new_hold env scope account_token value_amount currency client_idempotency_key;
               db1 = db\<lparr>bank_accounts := update_rows (\<lambda>a. ba_account_token a = ba_account_token account)
                          (hold_funds value_amount) (bank_accounts db),
                        holds := holds db @ [value]\<rparr>;
               db2 = bank_event env 1 (sc_tenant_id scope) ''HOLD'' (ah_hold_id value) ''bank.hold.placed''
                       (hold_projection value) db1
           in Inr (bank_audit env 2 scope ''PLACED'' [(''hold_id'', JStr (ah_hold_id value))] db2,
                   JObj (hold_projection value))))"

definition release :: "bank_env \<Rightarrow> guarded_scope \<Rightarrow> account_hold \<Rightarrow> account_hold" where
  "release env scope h =
     h\<lparr>ah_status := ''RELEASED'', ah_released_at := Some (benv_now env),
       ah_release_guardian_call_id := Some (sc_call_id scope)\<rparr>"

definition release_hold :: "bank_env \<Rightarrow> guarded_scope \<Rightarrow> string \<Rightarrow> bank_op" where
  "release_hold env scope hold_id db =
     sum_bind (found (BankDomainError ''Hold was not found.'')
        (scalar (\<lambda>h. ah_hold_id h = hold_id \<and> ah_tenant_id h = sc_tenant_id scope
                   \<and> ah_user_id h = sc_user_id scope) (holds db))) (\<lambda>value.
     if ah_status value = ''RELEASED'' then Inr (db, JObj (hold_projection value))
     else if (case ah_release_guardian_call_id value of None \<Rightarrow> False | Some c \<Rightarrow> c \<noteq> [])
     then Inl (BankSecurityError ''Hold release was already consumed.'')
     else
       sum_bind (find_account db scope (ah_account_token value)) (\<lambda>account.
       let db1 = db\<lparr>bank_accounts := update_rows (\<lambda>a. ba_account_token a = ba_account_token account)
                      (hold_funds (- ah_amount value)) (bank_accounts db),
                    holds := update_rows (\<lambda>h. ah_hold_id h = hold_id) (release env scope) (holds db)\<rparr>;
           db2 = bank_event env 0 (sc_tenant_id scope) ''HOLD'' hold_id ''bank.hold.released''
                   (hold_projection (release env scope value)) db1
       in Inr (bank_audit env 1 scope ''RELEASED'' [(''hold_id'', JStr hold_id)] db2,
               JObj (hold_projection (release env scope value)))))"

section \<open>Beneficiary changes\<close>

record change_request =
  cr_beneficiary_token :: string
  cr_owner_name :: string
  cr_masked_account :: string
  cr_bank_name :: string
  cr_currency :: string
  cr_client_idempotency_key :: string

definition change_action :: "change_request \<Rightarrow> dict" where
  "change_action r =
     [(''beneficiary_token'', JStr (cr_beneficiary_token r)), (''owner_name'', JStr (cr_owner_name r)),
      (''masked_account'', JStr (cr_masked_account r)), (''bank_name'', JStr (cr_bank_name r)),
      (''currency'', JStr (cr_currency r)), (''idempotency_key'', JStr (cr_client_idempotency_key r))]"

definition prepare_beneficiary_change :: "bank_env \<Rightarrow> guarded_scope \<Rightarrow> change_request \<Rightarrow> bank_op" where
  "prepare_beneficiary_change env scope r db =
     (let action_hash = bank_hash (change_action r) in
      case scalar (\<lambda>c. bch_tenant_id c = sc_tenant_id scope
                     \<and> bch_idempotency_key c = cr_client_idempotency_key r) (beneficiary_changes db) of
        Some existing \<Rightarrow>
          if bch_canonical_action_hash existing \<noteq> action_hash
          then Inl (BankDomainError ''Beneficiary change parameter drift detected.'')
          else Inr (db, JObj (beneficiary_change_projection existing))
      | None \<Rightarrow>
          let value = \<lparr>bch_change_id = prefixed_id ''bchg_'' (benv_uuid env 0),
                bch_tenant_id = sc_tenant_id scope, bch_user_id = sc_user_id scope,
                bch_beneficiary_token = cr_beneficiary_token r,
                bch_requested_owner_name = cr_owner_name r,
                bch_requested_masked_account = cr_masked_account r,
                bch_requested_bank_name = cr_bank_name r, bch_currency = cr_currency r,
                bch_idempotency_key = cr_client_idempotency_key r,
                bch_canonical_action_hash = action_hash, bch_guardian_call_id = None,
                bch_status = ''READY_FOR_GUARDIAN'', bch_expires_at = benv_now env + minutes 15,
                bch_created_at = benv_now env\<rparr>
          in Inr (bank_audit env 1 scope ''PREPARED'' [(''change_id'', JStr (bch_change_id value))]
                    (db\<lparr>beneficiary_changes := beneficiary_changes db @ [value]\<rparr>),
                  JObj (beneficiary_change_projection value)))"

definition apply_change :: "beneficiary_change \<Rightarrow> beneficiary \<Rightarrow> beneficiary" where
  "apply_change c b =
     b\<lparr>bf_owner_name := bch_requested_owner_name c, bf_masked_account := bch_requested_masked_account c,
       bf_bank_name := bch_requested_bank_name c, bf_currency := bch_currency c,
       bf_verified := True, bf_status := ''ACTIVE''\<rparr>"

definition change_target ::
    "guarded_scope \<Rightarrow> beneficiary_change \<Rightarrow> bank_db \<Rightarrow> bank_error + bank_db" where
  "change_target scope c db =
     (case scalar (\<lambda>b. bf_beneficiary_token b = bch_beneficiary_token c) (beneficiaries db) of
        None \<Rightarrow> Inr (db\<lparr>beneficiaries := beneficiaries db @
          [\<lparr>bf_beneficiary_token = bch_beneficiary_token c, bf_tenant_id = sc_tenant_id scope,
            bf_owner_name = bch_requested_owner_name c,
            bf_masked_account = bch_requested_masked_account c,
            bf_bank_name = bch_requested_bank_name c, bf_currency = bch_currency c,
            bf_verified = True, bf_status = ''ACTIVE''\<rparr>]\<rparr>)
      | Some target \<Rightarrow>
          if bf_tenant_id target \<noteq> sc_tenant_id scope
          then Inl (BankSecurityError ''Beneficiary belongs to another tenant.'')
          else Inr (db\<lparr>beneficiaries := update_rows
            (\<lambda>b. bf_beneficiary_token b = bch_beneficiary_token c) (apply_change c) (beneficiaries db)\<rparr>))"

definition execute_beneficiary_change ::
    "bank_env \<Rightarrow> guarded_scope \<Rightarrow> string \<Rightarrow> string \<Rightarrow> bank_op" where
  "execute_beneficiary_change env scope change_id canonical_action_hash db =
     (case scalar (\<lambda>c. bch_change_id c = change_id \<and> bch_tenant_id c = sc_tenant_id scope)
             (beneficiary_changes db) of
        None \<Rightarrow> Inl (BankSecurityError ''Beneficiary change hash mismatch.'')
      | Some value \<Rightarrow>
          if bch_canonical_action_hash value \<noteq> canonical_action_hash
          then Inl (BankSecurityError ''Beneficiary change hash mismatch.'')
          else if bch_status value = ''EXECUTED''
          then Inr (db, JObj (beneficiary_change_projection value))
          else if bch_status value \<noteq> ''READY_FOR_GUARDIAN'' \<or> bch_expires_at value \<le> benv_now env
          then Inl (BankDomainError ''Beneficiary change is not executable.'')
          else
     sum_bind (change_target scope value db) (\<lambda>db1.
       let execute = (\<lambda>c. c\<lparr>bch_status := ''EXECUTED'', bch_guardian_call_id := Some (sc_call_id scope)\<rparr>);
           db2 = db1\<lparr>beneficiary_changes := update_rows (\<lambda>c. bch_change_id c = change_id) execute
                       (beneficiary_changes db1)\<rparr>;
           payload = beneficiary_change_projection (execute value) @
                       [(''guardian_decision_id'', JStr (sc_guardian_decision_id scope))];
           db3 = bank_event env 0 (sc_tenant_id scope) ''BENEFICIARY'' (bch_beneficiary_token value)
                   ''bank.beneficiary.changed'' payload db2
       in Inr (bank_audit env 1 scope ''EXECUTED'' [(''change_id'', JStr change_id)] db3, JObj payload)))"

section \<open>Reversals\<close>

definition bank_reversal_action :: "string \<Rightarrow> int \<Rightarrow> string \<Rightarrow> string \<Rightarrow> dict" where
  "bank_reversal_action transfer_execution_id value_amount reason client_idempotency_key =
     [(''transfer_execution_id'', JStr transfer_execution_id), (''amount'', JStr (cents_str value_amount)),
      (''reason'', JStr reason), (''idempotency_key'', JStr client_idempotency_key)]"

definition new_reversal ::
    "bank_env \<Rightarrow> guarded_scope \<Rightarrow> string \<Rightarrow> int \<Rightarrow> string \<Rightarrow> string \<Rightarrow> string \<Rightarrow> prepared_reversal" where
  "new_reversal env scope transfer_execution_id value_amount currency reason client_idempotency_key =
     \<lparr>pr_reversal_id = prefixed_id ''rev_'' (benv_uuid env 0), pr_tenant_id = sc_tenant_id scope,
      pr_user_id = sc_user_id scope, pr_transfer_execution_id = transfer_execution_id,
      pr_amount = value_amount, pr_currency = currency, pr_reason = reason,
      pr_idempotency_key = client_idempotency_key,
      pr_canonical_action_hash =
        bank_hash (bank_reversal_action transfer_execution_id value_amount reason client_idempotency_key),
      pr_reviewer_approval_id = None, pr_guardian_call_id = None, pr_bank_reference = None,
      pr_status = ''REVIEW_REQUIRED'', pr_expires_at = benv_now env + hours 1,
      pr_created_at = benv_now env\<rparr>"

definition bank_prepare_reversal ::
    "bank_env \<Rightarrow> guarded_scope \<Rightarrow> string \<Rightarrow> string \<Rightarrow> string \<Rightarrow> string \<Rightarrow> bank_op" where
  "bank_prepare_reversal env scope transfer_execution_id amount reason client_idempotency_key db =
     sum_bind (bank_amount amount) (\<lambda>value_amount.
     let action_hash = bank_hash (bank_reversal_action transfer_execution_id value_amount reason
                         client_idempotency_key) in
     sum_bind (found (BankDomainError ''Settled transfer does not support this reversal amount.'')
        (scalar (\<lambda>e. te_execution_id e = transfer_execution_id \<and> te_tenant_id e = sc_tenant_id scope
                   \<and> te_status e = ''SETTLED'') (executions db))) (\<lambda>execution.
     if value_amount > te_amount execution
     then Inl (BankDomainError ''Settled transfer does not support this reversal amount.'')
     else
     case scalar (\<lambda>r. pr_tenant_id r = sc_tenant_id scope
                    \<and> pr_idempotency_key r = client_idempotency_key) (reversals db) of
       Some existing \<Rightarrow>
         if pr_canonical_action_hash existing \<noteq> action_hash
         then Inl (BankDomainError ''Reversal parameter drift detected.'')
         else Inr (db, JObj (reversal_projection existing))
     | None \<Rightarrow>
         let value = new_reversal env scope transfer_execution_id value_amount (te_currency execution) reason
               client_idempotency_key
         in Inr (bank_audit env 1 scope ''PREPARED'' [(''reversal_id'', JStr (pr_reversal_id value))]
                   (db\<lparr>reversals := reversals db @ [value]\<rparr>),
                 JObj (reversal_projection value))))"

definition settle_reversal ::
    "bank_env \<Rightarrow> guarded_scope \<Rightarrow> string \<Rightarrow> prepared_reversal \<Rightarrow> prepared_reversal" where
  "settle_reversal env scope reviewer_approval_id r =
     r\<lparr>pr_status := ''SETTLED'', pr_reviewer_approval_id := Some reviewer_approval_id,
       pr_guardian_call_id := Some (sc_call_id scope),
       pr_bank_reference := Some (bank_reference ''RV'' env)\<rparr>"

definition bank_execute_reversal ::
    "bank_env \<Rightarrow> guarded_scope \<Rightarrow> string \<Rightarrow> string \<Rightarrow> string \<Rightarrow> bank_op" where
  "bank_execute_reversal env scope reversal_id canonical_action_hash reviewer_approval_id db =
     (if py_strip reviewer_approval_id = []
      then Inl (BankSecurityError ''A reviewer approval id is required for reversal.'')
      else
      case scalar (\<lambda>r. pr_reversal_id r = reversal_id \<and> pr_tenant_id r = sc_tenant_id scope) (reversals db) of
        None \<Rightarrow> Inl (BankSecurityError ''Reversal hash mismatch.'')
      | Some value \<Rightarrow>
          if pr_canonical_action_hash value \<noteq> canonical_action_hash
          then Inl (BankSecurityError ''Reversal hash mismatch.'')
          else if pr_status value = ''SETTLED'' then Inr (db, JObj (reversal_projection value))
          else if pr_status value \<noteq> ''REVIEW_REQUIRED'' \<or> pr_expires_at value \<le> benv_now env
          then Inl (BankDomainError ''Reversal is not executable.'')
          else
     sum_bind (found (BankDomainError ''Original transfer execution was not found.'')
        (scalar (\<lambda>e. te_execution_id e = pr_transfer_execution_id value
                   \<and> te_tenant_id e = sc_tenant_id scope) (executions db))) (\<lambda>execution.
     sum_bind (found BankAttributeError
        (scalar (\<lambda>t. pt_proposed_action_id t = te_proposed_action_id execution) (transfers db))) (\<lambda>prepared.
     sum_bind (find_account db scope (pt_source_account_token prepared)) (\<lambda>account.
       let value' = settle_reversal env scope reviewer_approval_id value;
           db1 = db\<lparr>bank_accounts := update_rows (\<lambda>a. ba_account_token a = ba_account_token account)
                      (debit_account (- pr_amount value)) (bank_accounts db),
                    reversals := update_rows (\<lambda>r. pr_reversal_id r = reversal_id)
                      (settle_reversal env scope reviewer_approval_id) (reversals db),
                    transactions := transactions db @
                      [new_transaction env 0 (ba_account_token account) ''CREDIT'' (pr_amount value)
                         (pr_currency value) ''PAYMENT_REVERSAL'' ''Approved compensating bank reversal''
                         (bank_reference ''RV'' env)]\<rparr>;
           payload = reversal_projection value' @
                       [(''guardian_decision_id'', JStr (sc_guardian_decision_id scope))];
           db2 = bank_event env 1 (sc_tenant_id scope) ''REVERSAL'' reversal_id ''bank.reversal.settled'' payload db1
       in Inr (bank_audit env 2 scope ''SETTLED'' [(''reversal_id'', JStr reversal_id)] db2, JObj payload)))))"

section \<open>The service\<close>

datatype bank_tool =
    AaCreateConsent "string list" "string list" int string
  | AaGetConsent string
  | AaRevokeConsent string
  | AaFetchInformation information_query
  | BankAccountsList
  | BankAccountsGet string
  | BankAccountsGetBalance string
  | TransactionsList string int int int
  | BeneficiariesVerify string
  | LimitsGet string
  | TransfersPrepare transfer_request
  | TransfersExecute string string string
  | TransfersGetStatus string
  | BeneficiariesPrepareChange change_request
  | BeneficiariesExecuteChange string string
  | BankReversalsPrepare string string string string
  | BankReversalsExecute string string string
  | HoldsPlace string string string string
  | HoldsRelease string

fun bank_tool_name :: "bank_tool \<Rightarrow> string" where
  "bank_tool_name (AaCreateConsent _ _ _ _) = ''bank.aa.create_consent''"
| "bank_tool_name (AaGetConsent _) = ''bank.aa.get_consent''"
| "bank_tool_name (AaRevokeConsent _) = ''bank.aa.revoke_consent''"
| "bank_tool_name (AaFetchInformation _) = ''bank.aa.fetch_information''"
| "bank_tool_name BankAccountsList = ''bank.accounts.list''"
| "bank_tool_name (BankAccountsGet _) = ''bank.accounts.get''"
| "bank_tool_name (BankAccountsGetBalance _) = ''bank.accounts.get_balance''"
| "bank_tool_name (TransactionsList _ _ _ _) = ''bank.transactions.list''"
| "bank_tool_name (BeneficiariesVerify _) = ''bank.beneficiaries.verify''"
| "bank_tool_name (LimitsGet _) = ''bank.limits.get''"
| "bank_tool_name (TransfersPrepare _) = ''bank.transfers.prepare''"
| "bank_tool_name (TransfersExecute _ _ _) = ''bank.transfers.execute''"
| "bank_tool_name (TransfersGetStatus _) = ''bank.transfers.get_status''"
| "bank_tool_name (BeneficiariesPrepareChange _) = ''bank.beneficiaries.prepare_change''"
| "bank_tool_name (BeneficiariesExecuteChange _ _) = ''bank.beneficiaries.execute_change''"
| "bank_tool_name (BankReversalsPrepare _ _ _ _) = ''bank.reversals.prepare''"
| "bank_tool_name (BankReversalsExecute _ _ _) = ''bank.reversals.execute''"
| "bank_tool_name (HoldsPlace _ _ _ _) = ''bank.holds.place''"
| "bank_tool_name (HoldsRelease _) = ''bank.holds.release''"

fun bank_tool_op :: "bank_env \<Rightarrow> guarded_scope \<Rightarrow> bank_tool \<Rightarrow> bank_op" where
  "bank_tool_op env scope (AaCreateConsent tokens types valid_days key) =
     create_consent env scope tokens types valid_days key"
| "bank_tool_op env scope (AaGetConsent consent_id) = get_consent env scope consent_id"
| "bank_tool_op env scope (AaRevokeConsent consent_id) = revoke_consent env scope consent_id"
| "bank_tool_op env scope (AaFetchInformation q) = fetch_information env scope q"
| "bank_tool_op env scope BankAccountsList = list_accounts env scope"
| "bank_tool_op env scope (BankAccountsGet token) = bank_get_account env scope token"
| "bank_tool_op env scope (BankAccountsGetBalance token) = get_balance env scope token"
| "bank_tool_op env scope (TransactionsList token d1 d2 limit) = list_transactions env scope token d1 d2 limit"
| "bank_tool_op env scope (BeneficiariesVerify token) = verify_beneficiary env scope token"
| "bank_tool_op env scope (LimitsGet token) = get_limits env scope token"
| "bank_tool_op env scope (TransfersPrepare r) = prepare_transfer env scope r"
| "bank_tool_op env scope (TransfersExecute action h execution) = execute_transfer env scope action h execution"
| "bank_tool_op env scope (TransfersGetStatus action) = transfer_status env scope action"
| "bank_tool_op env scope (BeneficiariesPrepareChange r) = prepare_beneficiary_change env scope r"
| "bank_tool_op env scope (BeneficiariesExecuteChange change h) = execute_beneficiary_change env scope change h"
| "bank_tool_op env scope (BankReversalsPrepare execution amount reason key) =
     bank_prepare_reversal env scope execution amount reason key"
| "bank_tool_op env scope (BankReversalsExecute reversal h reviewer) =
     bank_execute_reversal env scope reversal h reviewer"
| "bank_tool_op env scope (HoldsPlace token amount currency key) = place_hold env scope token amount currency key"
| "bank_tool_op env scope (HoldsRelease hold_id) = release_hold env scope hold_id"

definition bank_session :: "bank_op \<Rightarrow> bank_db \<Rightarrow> bank_db \<times> (bank_error + json)" where
  "bank_session = session bank_constraints BankIntegrityError"

fun scope_bank_error :: "scope_error \<Rightarrow> bank_error" where
  "scope_bank_error (SecurityError m) = BankSecurityError m"
| "scope_bank_error DigestTypeError = BankTypeError"

fun bank_step :: "bank_env \<times> dict \<times> bank_tool \<Rightarrow> bank_db \<Rightarrow> bank_db \<times> (bank_error + json)" where
  "bank_step (env, meta, tool) db =
     (case bank_verify_runtime_scope (benv_mcp_token env) meta (bank_tool_name tool) of
        Inl e \<Rightarrow> (db, Inl (scope_bank_error e))
      | Inr scope \<Rightarrow> bank_session (bank_tool_op env scope tool) db)"

end
