(* ===== verification/BankBooks.thy ===== *)
theory BankBooks
  imports Bank
begin

text \<open>
  The bank's abstract specification: the ways its money tables may change
  (\<open>bank_effect\<close>), the proof that every tool makes one of them when it commits, and the
  invariants: balances are explained by settled transfers, settled reversals and active
  holds, available balances stay non-negative, and every execution has its two ledger
  entries.
\<close>

section \<open>Effects\<close>

definition money where
  "money db = (bank_accounts db, transfers db, executions db, ledger_entries db, holds db, reversals db)"

lemma money_iff [simp]:
  "money db = (a, t, e, l, h, r) \<longleftrightarrow> bank_accounts db = a \<and> transfers db = t \<and> executions db = e \<and>
     ledger_entries db = l \<and> holds db = h \<and> reversals db = r"
  by (auto simp: money_def)

lemma money_same:
  "money db' = money db \<longleftrightarrow> bank_accounts db' = bank_accounts db \<and> transfers db' = transfers db \<and>
     executions db' = executions db \<and> ledger_entries db' = ledger_entries db \<and> holds db' = holds db \<and>
     reversals db' = reversals db"
  by (auto simp: money_def)

lemma money_audit [simp]: "money (bank_audit env i sc out d db) = money db"
  by (simp add: money_def bank_audit_def)

lemma money_event [simp]: "money (bank_event env i t at ai et pl db) = money db"
  by (simp add: money_def bank_event_def)

lemma money_other [simp]:
  "money (db\<lparr>consents := c\<rparr>) = money db" "money (db\<lparr>information_requests := ir\<rparr>) = money db"
  "money (db\<lparr>beneficiaries := b\<rparr>) = money db" "money (db\<lparr>beneficiary_changes := bc\<rparr>) = money db"
  "money (db\<lparr>transactions := ts\<rparr>) = money db"
  by (simp_all add: money_def)

definition owned :: "guarded_scope \<Rightarrow> string \<Rightarrow> bank_account \<Rightarrow> bool" where
  "owned sc token a \<longleftrightarrow> ba_account_token a = token \<and> ba_tenant_id a = sc_tenant_id sc \<and>
     ba_user_id a = sc_user_id sc \<and> ba_status a = ''ACTIVE''"

inductive bank_effect :: "bank_db \<Rightarrow> bank_db \<Rightarrow> bool" where
  quiet: "money db' = money db \<Longrightarrow> bank_effect db db'"
| prepare: "bank_effect db db'"
  if "money db' = (bank_accounts db, transfers db @ [t], executions db, ledger_entries db, holds db, reversals db)"
    and "0 < pt_amount t" "pt_status t = ''READY_FOR_GUARDIAN''"
| expire: "bank_effect db db'"
  if "t \<in> set (transfers db)" "pt_status t = ''READY_FOR_GUARDIAN''"
    and "money db' = (bank_accounts db,
        update_rows (\<lambda>u. pt_proposed_action_id u = pt_proposed_action_id t)
          (\<lambda>u. u\<lparr>pt_status := ''EXPIRED''\<rparr>) (transfers db),
        executions db, ledger_entries db, holds db, reversals db)"
| settle: "bank_effect db db'"
  if "t \<in> set (transfers db)" "pt_status t = ''READY_FOR_GUARDIAN''" "pt_tenant_id t = sc_tenant_id sc"
    and "a \<in> set (bank_accounts db)" "owned sc (pt_source_account_token t) a"
    and "pt_amount t \<le> ba_available_balance a" "pt_amount t \<le> ba_per_transfer_limit a"
    and "pt_canonical_action_hash t = h" "benv_now env < pt_expires_at t"
    and "\<forall>e\<in>set (executions db). te_tenant_id e = sc_tenant_id sc \<longrightarrow>
        te_proposed_action_id e \<noteq> pt_proposed_action_id t"
    and "money db' = (update_rows (\<lambda>b. ba_account_token b = ba_account_token a)
          (debit_account (pt_amount t)) (bank_accounts db),
        update_rows (\<lambda>u. pt_proposed_action_id u = pt_proposed_action_id t)
          (\<lambda>u. u\<lparr>pt_status := ''SETTLED''\<rparr>) (transfers db),
        executions db @ [new_execution env sc t (pt_proposed_action_id t) h x],
        ledger_entries db @ [new_entry env 2 sc t x 1 ''DISBURSEMENT_CLEARING'' ''DEBIT'',
          new_entry env 3 sc t x 2 ''BANK_CASH_CONTROL'' ''CREDIT''], holds db, reversals db)"
| hold: "bank_effect db db'"
  if "a \<in> set (bank_accounts db)" "owned sc token a" "0 < n" "n \<le> ba_available_balance a"
    and "money db' = (update_rows (\<lambda>b. ba_account_token b = ba_account_token a) (hold_funds n) (bank_accounts db),
        transfers db, executions db, ledger_entries db, holds db @ [new_hold env sc token n currency key],
        reversals db)"
| free: "bank_effect db db'"
  if "h \<in> set (holds db)" "ah_status h \<noteq> ''RELEASED''"
    and "a \<in> set (bank_accounts db)" "owned sc (ah_account_token h) a"
    and "money db' = (update_rows (\<lambda>b. ba_account_token b = ba_account_token a)
          (hold_funds (- ah_amount h)) (bank_accounts db),
        transfers db, executions db, ledger_entries db,
        update_rows (\<lambda>g. ah_hold_id g = ah_hold_id h) (release env sc) (holds db), reversals db)"
| draft_reversal: "bank_effect db db'"
  if "money db' = (bank_accounts db, transfers db, executions db, ledger_entries db, holds db, reversals db @ [r])"
    and "0 < pr_amount r" "pr_status r = ''REVIEW_REQUIRED''"
    and "e \<in> set (executions db)" "te_tenant_id e = pr_tenant_id r"
      "te_execution_id e = pr_transfer_execution_id r" "pr_amount r \<le> te_amount e"
| settle_rev: "bank_effect db db'"
  if "r \<in> set (reversals db)" "pr_status r = ''REVIEW_REQUIRED''" "pr_tenant_id r = sc_tenant_id sc"
    and "e \<in> set (executions db)" "te_tenant_id e = pr_tenant_id r"
      "te_execution_id e = pr_transfer_execution_id r"
    and "t \<in> set (transfers db)" "pt_proposed_action_id t = te_proposed_action_id e"
    and "a \<in> set (bank_accounts db)" "owned sc (pt_source_account_token t) a"
    and "money db' = (update_rows (\<lambda>b. ba_account_token b = ba_account_token a)
          (debit_account (- pr_amount r)) (bank_accounts db),
        transfers db, executions db, ledger_entries db, holds db,
        update_rows (\<lambda>q. pr_reversal_id q = pr_reversal_id r) (settle_reversal env sc reviewer) (reversals db))"

section \<open>Every tool makes one effect\<close>

lemma find_account_Inr: "find_account db sc token = Inr a \<Longrightarrow> a \<in> set (bank_accounts db) \<and> owned sc token a"
  unfolding find_account_def found_Inr owned_def by (drule scalar_Some) simp

lemma bank_amount_pos: "bank_amount s = Inr n \<Longrightarrow> 0 < n"
  by (auto simp: bank_amount_def split: option.splits quantized.splits if_splits)

lemma check_capacity_Inr:
  "check_payment_capacity env db a n x = Inr u \<Longrightarrow>
     n \<le> ba_available_balance a \<and> n \<le> ba_per_transfer_limit a \<and>
     pending_amount env db a x + n \<le> ba_daily_limit a"
  by (auto simp: check_payment_capacity_def split: if_splits)

lemma aa_quiet:
  "create_consent env sc ts is d k db = Inr (db', r) \<Longrightarrow> money db' = money db"
  "get_consent env sc i db = Inr (db', r) \<Longrightarrow> money db' = money db"
  "revoke_consent env sc i db = Inr (db', r) \<Longrightarrow> money db' = money db"
  "fetch_information env sc q db = Inr (db', r) \<Longrightarrow> money db' = money db"
  by (auto simp: create_consent_def get_consent_def revoke_consent_def fetch_information_def sum_bind_Inr Let_def
      split: option.splits if_splits)

lemma read_quiet:
  "list_accounts env sc db = Inr (db', r) \<Longrightarrow> money db' = money db"
  "bank_get_account env sc i db = Inr (db', r) \<Longrightarrow> money db' = money db"
  "get_balance env sc i db = Inr (db', r) \<Longrightarrow> money db' = money db"
  "list_transactions env sc i d1 d2 n db = Inr (db', r) \<Longrightarrow> money db' = money db"
  "verify_beneficiary env sc i db = Inr (db', r) \<Longrightarrow> money db' = money db"
  "get_limits env sc i db = Inr (db', r) \<Longrightarrow> money db' = money db"
  by (auto simp: list_accounts_def bank_get_account_def get_balance_def list_transactions_def
      verify_beneficiary_def get_limits_def sum_bind_Inr Let_def split: if_splits)

lemma change_quiet:
  "prepare_beneficiary_change env sc cr db = Inr (db', r) \<Longrightarrow> money db' = money db"
  "execute_beneficiary_change env sc i h db = Inr (db', r) \<Longrightarrow> money db' = money db"
  by (auto simp: prepare_beneficiary_change_def execute_beneficiary_change_def change_target_def sum_bind_Inr
      Let_def split: option.splits if_splits)

lemma prepare_transfer_effect:
  assumes "prepare_transfer env sc r db = Inr (db', res)"
  shows "bank_effect db db'"
proof -
  from assms obtain n where n: "bank_amount (tr_amount r) = Inr n"
    by (auto simp: prepare_transfer_def sum_bind_Inr)
  show ?thesis
  proof (cases "scalar (\<lambda>t. pt_tenant_id t = sc_tenant_id sc
      \<and> pt_idempotency_key t = tr_client_idempotency_key r) (transfers db)")
    case (Some t)
    with assms n have "db' = db"
      by (auto simp: prepare_transfer_def sum_bind_Inr Let_def split: if_splits)
    then show ?thesis by (simp add: quiet)
  next
    case None
    with assms n have "money db' = (bank_accounts db, transfers db @ [new_transfer env sc r n], executions db,
        ledger_entries db, holds db, reversals db)"
      by (auto simp: prepare_transfer_def sum_bind_Inr Let_def bank_audit_def split: if_splits)
    then show ?thesis
      by (rule prepare) (use bank_amount_pos [OF n] in \<open>simp_all add: new_transfer_def\<close>)
  qed
qed

lemma execute_transfer_cases:
  assumes "execute_transfer env sc i h x db = Inr (db', res)"
  obtains (same) "db' = db"
  | (settled) t a where "scalar (\<lambda>t. pt_proposed_action_id t = i \<and> pt_tenant_id t = sc_tenant_id sc
        \<and> pt_user_id t = sc_user_id sc) (transfers db) = Some t"
      and "scalar (\<lambda>e. te_tenant_id e = sc_tenant_id sc \<and> te_proposed_action_id e = i) (executions db) = None"
      and "pt_canonical_action_hash t = h" "pt_status t = ''READY_FOR_GUARDIAN''" "benv_now env < pt_expires_at t"
      and "find_account db sc (pt_source_account_token t) = Inr a"
      and "check_payment_capacity env db a (pt_amount t) (Some (pt_proposed_action_id t)) = Inr ()"
      and "money db' = money (settle_transfer env sc t a i h x db)"
proof (cases "scalar (\<lambda>e. te_tenant_id e = sc_tenant_id sc \<and> te_execution_id e = x) (executions db) = None \<and>
    scalar (\<lambda>e. te_tenant_id e = sc_tenant_id sc \<and> te_proposed_action_id e = i) (executions db) = None \<and>
    scalar (\<lambda>e. te_tenant_id e = sc_tenant_id sc \<and> te_guardian_call_id e = sc_call_id sc) (executions db) = None")
  case False
  with assms have "db' = db"
    by (auto simp: execute_transfer_def split: option.splits if_splits)
  then show thesis by (rule same)
next
  case True
  with assms show thesis
    by (auto simp: execute_transfer_def sum_bind_Inr Let_def split: option.splits if_splits intro!: settled)
qed

lemma execute_transfer_effect:
  assumes "execute_transfer env sc i h x db = Inr (db', res)"
  shows "bank_effect db db'"
  using assms
proof (cases rule: execute_transfer_cases)
  case same
  then show ?thesis by (simp add: quiet)
next
  case (settled t a)
  from scalar_Some [OF settled(1)] have t: "t \<in> set (transfers db)" "pt_proposed_action_id t = i"
    "pt_tenant_id t = sc_tenant_id sc" by simp_all
  have fresh: "\<forall>e\<in>set (executions db). te_tenant_id e = sc_tenant_id sc \<longrightarrow>
      te_proposed_action_id e \<noteq> pt_proposed_action_id t"
    using settled(2) t(2) by (simp add: scalar_None)
  show ?thesis
    by (rule settle [OF t(1) settled(4) t(3) _ _ _ _ settled(3,5) fresh])
      (use find_account_Inr [OF settled(6)] check_capacity_Inr [OF settled(7)] settled(8) t(2)
        in \<open>simp_all add: settle_transfer_def money_def\<close>)
qed

lemma transfer_status_effect:
  assumes "transfer_status env sc i db = Inr (db', res)"
  shows "bank_effect db db'"
proof (cases "db' = db")
  case True
  then show ?thesis by (simp add: quiet)
next
  case False
  with assms obtain t where t: "scalar (\<lambda>t. pt_proposed_action_id t = i \<and> pt_tenant_id t = sc_tenant_id sc
        \<and> pt_user_id t = sc_user_id sc) (transfers db) = Some t" "pt_status t = ''READY_FOR_GUARDIAN''"
    and "money db' = money (db\<lparr>transfers := update_rows (\<lambda>t. pt_proposed_action_id t = i)
                     (\<lambda>t. t\<lparr>pt_status := ''EXPIRED''\<rparr>) (transfers db)\<rparr>)"
    by (auto simp: transfer_status_def sum_bind_Inr split: option.splits if_splits)
  with scalar_Some [OF t(1)] show ?thesis by (intro expire [of t]) (auto simp: money_def)
qed

lemma place_hold_effect:
  assumes "place_hold env sc token amount currency key db = Inr (db', res)"
  shows "bank_effect db db'"
proof (cases "db' = db")
  case True
  then show ?thesis by (simp add: quiet)
next
  case False
  with assms obtain n a where n: "bank_amount amount = Inr n" and a: "find_account db sc token = Inr a"
    and le: "n \<le> ba_available_balance a"
    and db': "money db' = money (db\<lparr>bank_accounts := update_rows (\<lambda>b. ba_account_token b = ba_account_token a)
        (hold_funds n) (bank_accounts db), holds := holds db @ [new_hold env sc token n currency key]\<rparr>)"
    by (auto simp: place_hold_def sum_bind_Inr Let_def split: option.splits if_splits)
  show ?thesis
    by (rule hold [of a db sc token n])
      (use find_account_Inr [OF a] bank_amount_pos [OF n] le db' in \<open>auto simp: money_def\<close>)
qed

lemma release_hold_effect:
  assumes "release_hold env sc i db = Inr (db', res)"
  shows "bank_effect db db'"
proof (cases "db' = db")
  case True
  then show ?thesis by (simp add: quiet)
next
  case False
  with assms obtain h a where h: "scalar (\<lambda>h. ah_hold_id h = i \<and> ah_tenant_id h = sc_tenant_id sc
        \<and> ah_user_id h = sc_user_id sc) (holds db) = Some h" "ah_status h \<noteq> ''RELEASED''"
    and a: "find_account db sc (ah_account_token h) = Inr a"
    and db': "money db' = money (db\<lparr>bank_accounts := update_rows (\<lambda>b. ba_account_token b = ba_account_token a)
          (hold_funds (- ah_amount h)) (bank_accounts db),
        holds := update_rows (\<lambda>g. ah_hold_id g = i) (release env sc) (holds db)\<rparr>)"
    by (auto simp: release_hold_def sum_bind_Inr Let_def split: if_splits)
  show ?thesis
    by (rule free [of h db a sc])
      (use scalar_Some [OF h(1)] h(2) find_account_Inr [OF a] db' in \<open>auto simp: money_def\<close>)
qed

lemma bank_prepare_reversal_effect:
  assumes "bank_prepare_reversal env sc x amount reason key db = Inr (db', res)"
  shows "bank_effect db db'"
proof (cases "db' = db")
  case True
  then show ?thesis by (simp add: quiet)
next
  case False
  with assms obtain n e where n: "bank_amount amount = Inr n"
    and e: "scalar (\<lambda>e. te_execution_id e = x \<and> te_tenant_id e = sc_tenant_id sc
        \<and> te_status e = ''SETTLED'') (executions db) = Some e" "n \<le> te_amount e"
    and db': "money db' = money (db\<lparr>reversals := reversals db @
        [new_reversal env sc x n (te_currency e) reason key]\<rparr>)"
    by (auto simp: bank_prepare_reversal_def sum_bind_Inr Let_def split: option.splits if_splits)
  show ?thesis
    by (rule draft_reversal [of _ db "new_reversal env sc x n (te_currency e) reason key" e])
      (use scalar_Some [OF e(1)] e(2) bank_amount_pos [OF n] db' in \<open>auto simp: money_def new_reversal_def\<close>)
qed

lemma bank_execute_reversal_effect:
  assumes "bank_execute_reversal env sc i h reviewer db = Inr (db', res)"
  shows "bank_effect db db'"
proof (cases "db' = db")
  case True
  then show ?thesis by (simp add: quiet)
next
  case False
  with assms obtain r e t a where r: "scalar (\<lambda>r. pr_reversal_id r = i \<and> pr_tenant_id r = sc_tenant_id sc)
        (reversals db) = Some r" "pr_status r = ''REVIEW_REQUIRED''"
    and e: "scalar (\<lambda>e. te_execution_id e = pr_transfer_execution_id r
        \<and> te_tenant_id e = sc_tenant_id sc) (executions db) = Some e"
    and t: "scalar (\<lambda>t. pt_proposed_action_id t = te_proposed_action_id e) (transfers db) = Some t"
    and a: "find_account db sc (pt_source_account_token t) = Inr a"
    and db': "money db' = money (db\<lparr>bank_accounts := update_rows (\<lambda>b. ba_account_token b = ba_account_token a)
          (debit_account (- pr_amount r)) (bank_accounts db),
        reversals := update_rows (\<lambda>q. pr_reversal_id q = i) (settle_reversal env sc reviewer) (reversals db)\<rparr>)"
    by (auto simp: bank_execute_reversal_def sum_bind_Inr Let_def split: option.splits if_splits)
  show ?thesis
    by (rule settle_rev [of r db sc e t a])
      (use scalar_Some [OF r(1)] r(2) scalar_Some [OF e] scalar_Some [OF t] find_account_Inr [OF a] db'
        in \<open>auto simp: money_def\<close>)
qed

lemma bank_tool_effect: "bank_tool_op env sc tool db = Inr (db', res) \<Longrightarrow> bank_effect db db'"
  by (cases tool)
    (auto intro: quiet prepare_transfer_effect execute_transfer_effect transfer_status_effect place_hold_effect
      release_hold_effect bank_prepare_reversal_effect bank_execute_reversal_effect
      dest: aa_quiet read_quiet change_quiet)

lemma bank_step_effect:
  "fst (bank_step q db) = db \<or> (bank_effect db (fst (bank_step q db)) \<and> bank_constraints (fst (bank_step q db)))"
proof (cases "(q, db)" rule: bank_step.cases)
  case (1 env meta tool db')
  have "fst (bank_session body db) = db \<or>
      (bank_effect db (fst (bank_session body db)) \<and> bank_constraints (fst (bank_session body db)))"
    if "\<And>db' res. body db = Inr (db', res) \<Longrightarrow> bank_effect db db'" for body
    unfolding bank_session_def
    by (cases rule: session_cases [of bank_constraints BankIntegrityError body db]) (auto dest: that)
  with 1 show ?thesis by (auto split: sum.split dest: bank_tool_effect)
qed

end
