(* ===== verification/BankInvariant.thy ===== *)
theory BankInvariant
  imports BankBooks
begin

text \<open>
  The invariants of the bank, each kept by every effect of \<open>bank_effect\<close>, and the
  quantities that no effect moves.
\<close>

section \<open>Rows by key\<close>

interpretation account_rows: keyed_rows ba_account_token .
interpretation transfer_rows: keyed_rows pt_proposed_action_id .
interpretation hold_rows: keyed_rows ah_hold_id .
interpretation reversal_rows: keyed_rows pr_reversal_id .

lemma bank_keys:
  assumes "bank_constraints db"
  shows "account_rows.wf (bank_accounts db)" "transfer_rows.wf (transfers db)" "hold_rows.wf (holds db)"
    "reversal_rows.wf (reversals db)"
    and "unique_by (\<lambda>e. Some (te_tenant_id e, te_execution_id e)) (executions db)"
    and "unique_by (\<lambda>e. Some (te_tenant_id e, te_proposed_action_id e)) (executions db)"
  using assms
  by (simp_all add: bank_constraints_def account_rows.wf_def transfer_rows.wf_def hold_rows.wf_def
      reversal_rows.wf_def comp_def)

lemma distinct_keys: "unique_by (\<lambda>r. Some (k r)) rows \<longleftrightarrow> distinct (map k rows)"
  by (simp add: unique_by_def map_filter_def comp_def)

lemma set_update_key:
  assumes "unique_by (\<lambda>r. Some (key r)) rows" "r \<in> set rows"
  shows "set (update_rows (\<lambda>x. key x = key r) f rows) = insert (f r) (set rows - {r})"
  using assms unique_byD [OF assms(1)] by (fastforce simp: set_update_rows image_iff)

section \<open>Sums\<close>

definition held :: "bank_db \<Rightarrow> string \<Rightarrow> int" where
  "held db token = sum_list (map (\<lambda>h. if ah_status h = ''ACTIVE'' \<and> ah_account_token h = token
     then ah_amount h else 0) (holds db))"

definition paid :: "bank_db \<Rightarrow> string \<Rightarrow> int" where
  "paid db token = sum_list (map (\<lambda>t. if pt_status t = ''SETTLED'' \<and> pt_source_account_token t = token
     then pt_amount t else 0) (transfers db))"

definition executed_actions :: "bank_db \<Rightarrow> ((string \<times> string) \<times> string) list" where
  "executed_actions db = map (\<lambda>e. ((te_tenant_id e, te_execution_id e), te_proposed_action_id e)) (executions db)"

definition transfer_sources :: "bank_db \<Rightarrow> (string \<times> string) list" where
  "transfer_sources db = map (\<lambda>t. (pt_proposed_action_id t, pt_source_account_token t)) (transfers db)"

definition reversal_source :: "bank_db \<Rightarrow> prepared_reversal \<Rightarrow> string option" where
  "reversal_source db r =
     Option.bind (map_of (executed_actions db) (pr_tenant_id r, pr_transfer_execution_id r))
       (map_of (transfer_sources db))"

definition refunded :: "bank_db \<Rightarrow> string \<Rightarrow> int" where
  "refunded db token = sum_list (map (\<lambda>r. if pr_status r = ''SETTLED'' \<and> reversal_source db r = Some token
     then pr_amount r else 0) (reversals db))"

text \<open>
  For every account: the current balance before any settled transfer and reversal, and the
  part of it that neither is available nor held.
\<close>

definition bank_frame :: "bank_db \<Rightarrow> (string \<times> int \<times> int) list" where
  "bank_frame db =
     map (\<lambda>a. (ba_account_token a,
        ba_current_balance a + paid db (ba_account_token a) - refunded db (ba_account_token a),
        ba_current_balance a - ba_available_balance a - held db (ba_account_token a))) (bank_accounts db)"

section \<open>The invariant\<close>

definition execution_matches :: "transfer_execution \<Rightarrow> prepared_transfer \<Rightarrow> bool" where
  "execution_matches e t \<longleftrightarrow> pt_proposed_action_id t = te_proposed_action_id e \<and>
     pt_tenant_id t = te_tenant_id e \<and> pt_amount t = te_amount e \<and> pt_currency t = te_currency e \<and>
     pt_canonical_action_hash t = te_canonical_action_hash e \<and> pt_status t = ''SETTLED''"

definition transfers_ok :: "bank_db \<Rightarrow> bool" where
  "transfers_ok db \<longleftrightarrow>
     (\<forall>t\<in>set (transfers db). 0 < pt_amount t) \<and>
     (\<forall>e\<in>set (executions db). \<exists>t\<in>set (transfers db). execution_matches e t) \<and>
     (\<forall>t\<in>set (transfers db). pt_status t = ''SETTLED'' \<longrightarrow>
        (\<exists>e\<in>set (executions db). te_tenant_id e = pt_tenant_id t
           \<and> te_proposed_action_id e = pt_proposed_action_id t))"

definition holds_ok :: "bank_db \<Rightarrow> bool" where
  "holds_ok db \<longleftrightarrow> (\<forall>h\<in>set (holds db). 0 < ah_amount h \<and> (ah_status h = ''ACTIVE'' \<or> ah_status h = ''RELEASED''))"

definition reversals_ok :: "bank_db \<Rightarrow> bool" where
  "reversals_ok db \<longleftrightarrow> (\<forall>r\<in>set (reversals db). 0 < pr_amount r \<and> reversal_source db r \<noteq> None)"

definition solvent :: "bank_db \<Rightarrow> bool" where
  "solvent db \<longleftrightarrow> (\<forall>a\<in>set (bank_accounts db). 0 \<le> ba_available_balance a)"

definition entries_of :: "bank_db \<Rightarrow> transfer_execution \<Rightarrow> bank_ledger_entry list" where
  "entries_of db e = filter (\<lambda>l. le_tenant_id l = te_tenant_id e \<and> le_execution_id l = te_execution_id e)
     (ledger_entries db)"

definition balanced_entries :: "bank_db \<Rightarrow> transfer_execution \<Rightarrow> bool" where
  "balanced_entries db e \<longleftrightarrow>
     map (\<lambda>l. (le_entry_type l, le_ledger_account l, le_amount l)) (entries_of db e) =
       [(''DEBIT'', ''DISBURSEMENT_CLEARING'', te_amount e), (''CREDIT'', ''BANK_CASH_CONTROL'', te_amount e)]"

definition entries_ok :: "bank_db \<Rightarrow> bool" where
  "entries_ok db \<longleftrightarrow> (\<forall>e\<in>set (executions db). balanced_entries db e) \<and>
     (\<forall>l\<in>set (ledger_entries db). \<exists>e\<in>set (executions db).
        te_tenant_id e = le_tenant_id l \<and> te_execution_id e = le_execution_id l)"

definition bank_inv :: "bank_db \<Rightarrow> bool" where
  "bank_inv db \<longleftrightarrow> bank_constraints db \<and> transfers_ok db \<and> holds_ok db \<and> reversals_ok db \<and>
     solvent db \<and> entries_ok db"

section \<open>Stability of the lookups\<close>

lemma reversal_source_extend:
  assumes "executed_actions db' = executed_actions db @ es" "transfer_sources db' = transfer_sources db @ ts"
    and "reversal_source db r \<noteq> None"
    and "pr_tenant_id r' = pr_tenant_id r" "pr_transfer_execution_id r' = pr_transfer_execution_id r"
  shows "reversal_source db' r' = reversal_source db r"
proof -
  from assms(3) obtain i s where
    i: "map_of (executed_actions db) (pr_tenant_id r, pr_transfer_execution_id r) = Some i"
    and s: "map_of (transfer_sources db) i = Some s"
    by (auto simp: reversal_source_def split: Option.bind_splits)
  from i s have "map_of (executed_actions db @ es) (pr_tenant_id r, pr_transfer_execution_id r) = Some i"
    "map_of (transfer_sources db @ ts) i = Some s"
    by (simp_all add: map_add_Some_iff)
  with i s assms(1,2,4,5) show ?thesis by (simp add: reversal_source_def)
qed

lemma transfer_sources_update:
  assumes "\<And>t. pt_proposed_action_id (f t) = pt_proposed_action_id t \<and>
    pt_source_account_token (f t) = pt_source_account_token t"
  shows "map (\<lambda>t. (pt_proposed_action_id t, pt_source_account_token t)) (update_rows P f rows) =
    map (\<lambda>t. (pt_proposed_action_id t, pt_source_account_token t)) rows"
  using assms by (induction rows) auto

lemma reversal_source_execution:
  assumes "bank_constraints db" "e \<in> set (executions db)" "t \<in> set (transfers db)"
    and "te_tenant_id e = pr_tenant_id r" "te_execution_id e = pr_transfer_execution_id r"
    and "pt_proposed_action_id t = te_proposed_action_id e"
  shows "reversal_source db r = Some (pt_source_account_token t)"
proof -
  have "map_of (executed_actions db) (te_tenant_id e, te_execution_id e) = Some (te_proposed_action_id e)"
    using assms(2) bank_keys(5) [OF assms(1)]
    by (intro map_of_is_SomeI) (auto simp: executed_actions_def distinct_keys comp_def)
  moreover have "map_of (transfer_sources db) (pt_proposed_action_id t) = Some (pt_source_account_token t)"
    using assms(3) bank_keys(2) [OF assms(1)]
    by (intro map_of_is_SomeI) (auto simp: transfer_sources_def transfer_rows.wf_def distinct_keys comp_def)
  ultimately show ?thesis using assms(4-6) by (simp add: reversal_source_def)
qed

lemma settle_reversal_simps:
  "pr_status (settle_reversal env sc reviewer r) = ''SETTLED''"
  "pr_amount (settle_reversal env sc reviewer r) = pr_amount r"
  "pr_tenant_id (settle_reversal env sc reviewer r) = pr_tenant_id r"
  "pr_transfer_execution_id (settle_reversal env sc reviewer r) = pr_transfer_execution_id r"
  by (simp_all add: settle_reversal_def)

section \<open>The frame does not move\<close>

lemma frame_same_accounts:
  assumes "bank_accounts db' = bank_accounts db" "paid db' = paid db" "refunded db' = refunded db" "held db' = held db"
  shows "bank_frame db' = bank_frame db"
  using assms by (simp add: bank_frame_def)

lemma frame_update:
  assumes wf: "account_rows.wf (bank_accounts db)" and a: "a \<in> set (bank_accounts db)"
    and acc: "bank_accounts db' = update_rows (\<lambda>b. ba_account_token b = ba_account_token a) f (bank_accounts db)"
    and f: "ba_account_token (f a) = ba_account_token a"
    and moved: "ba_current_balance (f a) + paid db' (ba_account_token a) - refunded db' (ba_account_token a) =
        ba_current_balance a + paid db (ba_account_token a) - refunded db (ba_account_token a)"
      "ba_current_balance (f a) - ba_available_balance (f a) - held db' (ba_account_token a) =
        ba_current_balance a - ba_available_balance a - held db (ba_account_token a)"
    and other: "\<And>token. token \<noteq> ba_account_token a \<Longrightarrow> paid db' token = paid db token
        \<and> refunded db' token = refunded db token \<and> held db' token = held db token"
  shows "bank_frame db' = bank_frame db"
  unfolding bank_frame_def acc update_rows_def map_map
proof (rule map_cong [OF refl])
  fix b
  assume b: "b \<in> set (bank_accounts db)"
  show "((\<lambda>a. (ba_account_token a,
        ba_current_balance a + paid db' (ba_account_token a) - refunded db' (ba_account_token a),
        ba_current_balance a - ba_available_balance a - held db' (ba_account_token a))) \<circ>
      (\<lambda>r. if ba_account_token r = ba_account_token a then f r else r)) b =
    (ba_account_token b, ba_current_balance b + paid db (ba_account_token b) - refunded db (ba_account_token b),
     ba_current_balance b - ba_available_balance b - held db (ba_account_token b))"
  proof (cases "ba_account_token b = ba_account_token a")
    case True
    then have "b = a" using account_rows.row_eq [OF wf b a] by simp
    with moved f show ?thesis by simp
  next
    case False
    with other [of "ba_account_token b"] show ?thesis by simp
  qed
qed

lemma refunded_stable:
  assumes "reversals_ok db" "reversals db' = reversals db"
    and "executed_actions db' = executed_actions db @ es" "transfer_sources db' = transfer_sources db @ ts"
  shows "refunded db' = refunded db"
proof
  fix token
  have "reversal_source db' r = reversal_source db r" if "r \<in> set (reversals db)" for r
    using assms(1) that by (intro reversal_source_extend [OF assms(3,4)]) (auto simp: reversals_ok_def)
  then have "map (\<lambda>r. if pr_status r = ''SETTLED'' \<and> reversal_source db' r = Some token
      then pr_amount r else 0) (reversals db) =
    map (\<lambda>r. if pr_status r = ''SETTLED'' \<and> reversal_source db r = Some token
      then pr_amount r else 0) (reversals db)"
    by (intro map_cong) auto
  then show "refunded db' token = refunded db token" by (simp only: refunded_def assms(2))
qed

lemma paid_append: "transfers db' = transfers db @ [t] \<Longrightarrow> pt_status t \<noteq> ''SETTLED'' \<Longrightarrow> paid db' = paid db"
  by (simp add: paid_def fun_eq_iff)

lemma paid_status:
  assumes "transfer_rows.wf (transfers db)" "t \<in> set (transfers db)" "pt_status t = ''READY_FOR_GUARDIAN''"
    and "transfers db' = update_rows (\<lambda>u. pt_proposed_action_id u = pt_proposed_action_id t)
      (\<lambda>u. u\<lparr>pt_status := s\<rparr>) (transfers db)"
  shows "paid db' token =
    paid db token + (if s = ''SETTLED'' \<and> pt_source_account_token t = token then pt_amount t else 0)"
  unfolding paid_def assms(4) transfer_rows.sum_update [OF assms(1,2) refl] using assms(3) by simp

lemma bank_frame_effect:
  assumes inv: "bank_inv db" and eff: "bank_effect db db'"
  shows "bank_frame db' = bank_frame db"
proof -
  from inv have con: "bank_constraints db" and hok: "holds_ok db" and rok: "reversals_ok db"
    by (simp_all add: bank_inv_def)
  note keys = bank_keys [OF con]
  from eff show ?thesis
  proof cases
    case quiet
    then show ?thesis
      by (intro frame_same_accounts)
        (simp_all add: money_same paid_def refunded_def held_def fun_eq_iff reversal_source_def
          executed_actions_def transfer_sources_def)
  next
    case (prepare t)
    have "refunded db' = refunded db"
      by (rule refunded_stable [OF rok, where es = "[]" and
            ts = "[(pt_proposed_action_id t, pt_source_account_token t)]"])
        (use prepare in \<open>simp_all add: executed_actions_def transfer_sources_def\<close>)
    moreover have "paid db' = paid db" by (rule paid_append [of _ _ t]) (use prepare in simp_all)
    ultimately show ?thesis using prepare(1) by (intro frame_same_accounts) (simp_all add: held_def fun_eq_iff)
  next
    case (expire t)
    have "refunded db' = refunded db"
      by (rule refunded_stable [OF rok, where es = "[]" and ts = "[]"])
        (use expire in \<open>simp_all add: executed_actions_def transfer_sources_def transfer_sources_update\<close>)
    moreover have "paid db' = paid db"
      using paid_status [OF keys(2) expire(1,2), of db' "''EXPIRED''"] expire by (simp add: fun_eq_iff)
    ultimately show ?thesis using expire by (intro frame_same_accounts) (simp_all add: held_def fun_eq_iff)
  next
    case (settle t sc a h env x)
    have ref: "refunded db' = refunded db"
      by (rule refunded_stable [OF rok, where ts = "[]" and
            es = "[((sc_tenant_id sc, x), pt_proposed_action_id t)]"])
        (use settle in \<open>simp_all add: executed_actions_def transfer_sources_def transfer_sources_update
          new_execution_def\<close>)
    have paid: "paid db' token = paid db token + (if pt_source_account_token t = token then pt_amount t else 0)"
      for token
      using paid_status [OF keys(2) settle(1,2), of db' "''SETTLED''"] settle(11) by simp
    show ?thesis
      by (rule frame_update [OF keys(1) settle(4), where f = "debit_account (pt_amount t)"])
        (use settle paid ref in \<open>simp_all add: debit_account_def held_def owned_def\<close>)
  next
    case (hold a sc token n env currency key)
    have ref: "refunded db' = refunded db"
      by (rule refunded_stable [OF rok, where es = "[]" and ts = "[]"])
        (use hold in \<open>simp_all add: executed_actions_def transfer_sources_def\<close>)
    show ?thesis
      by (rule frame_update [OF keys(1) hold(1), where f = "hold_funds n"])
        (use hold ref in \<open>auto simp: hold_funds_def held_def owned_def paid_def new_hold_def\<close>)
  next
    case (free h a sc env)
    have ref: "refunded db' = refunded db"
      by (rule refunded_stable [OF rok, where es = "[]" and ts = "[]"])
        (use free in \<open>simp_all add: executed_actions_def transfer_sources_def\<close>)
    have act: "ah_status h = ''ACTIVE''" using hok free(1,2) by (auto simp: holds_ok_def)
    have hs: "holds db' = update_rows (\<lambda>g. ah_hold_id g = ah_hold_id h) (release env sc) (holds db)"
      using free by simp
    have held: "held db' token = held db token - (if ah_account_token h = token then ah_amount h else 0)" for token
      unfolding held_def hs hold_rows.sum_update [OF keys(3) free(1) refl] using act by (simp add: release_def)
    show ?thesis
      by (rule frame_update [OF keys(1) free(3), where f = "hold_funds (- ah_amount h)"])
        (use free ref held in \<open>auto simp: hold_funds_def owned_def paid_def\<close>)
  next
    case (draft_reversal r e)
    have rs: "reversal_source db' q = reversal_source db q" for q
      using draft_reversal(1) by (simp add: reversal_source_def executed_actions_def transfer_sources_def)
    have "refunded db' = refunded db" using draft_reversal by (simp add: refunded_def fun_eq_iff rs)
    then show ?thesis using draft_reversal(1)
      by (intro frame_same_accounts) (simp_all add: held_def paid_def fun_eq_iff)
  next
    case (settle_rev r sc e t a env reviewer)
    have rs: "reversal_source db' = reversal_source db"
      using settle_rev by (simp add: reversal_source_def executed_actions_def transfer_sources_def fun_eq_iff)
    have rvs: "reversals db' = update_rows (\<lambda>q. pr_reversal_id q = pr_reversal_id r)
        (settle_reversal env sc reviewer) (reversals db)" using settle_rev by simp
    have src: "reversal_source db r = Some (pt_source_account_token t)"
      by (rule reversal_source_execution [OF con settle_rev(4,7)]) (use settle_rev in simp_all)
    then have src': "reversal_source db (settle_reversal env sc reviewer r) = Some (pt_source_account_token t)"
      by (simp add: reversal_source_def settle_reversal_def)
    have ref: "refunded db' token =
        refunded db token + (if pt_source_account_token t = token then pr_amount r else 0)" for token
      unfolding refunded_def rs rvs reversal_rows.sum_update [OF keys(4) settle_rev(1) refl]
      using settle_rev(2) settle_reversal_simps [of env sc reviewer r] by (simp add: src src')
    show ?thesis
      by (rule frame_update [OF keys(1) settle_rev(9), where f = "debit_account (- pr_amount r)"])
        (use settle_rev ref in \<open>auto simp: debit_account_def held_def owned_def paid_def\<close>)
  qed
qed

section \<open>The invariant is kept\<close>

lemma solvent_effect:
  assumes "bank_inv db" "bank_effect db db'"
  shows "solvent db'"
proof -
  from assms(1) have s: "solvent db" and hok: "holds_ok db" and rok: "reversals_ok db" and con: "bank_constraints db"
    by (simp_all add: bank_inv_def)
  note wf = bank_keys(1) [OF con]
  have upd: "solvent db'" if "a \<in> set (bank_accounts db)" "0 \<le> ba_available_balance (f a)"
    "bank_accounts db' = update_rows (\<lambda>b. ba_account_token b = ba_account_token a) f (bank_accounts db)" for a f
    using that s set_update_key [OF wf [unfolded account_rows.wf_def] that(1), of f] by (auto simp: solvent_def)
  from assms(2) show ?thesis
  proof cases
    case (settle t sc a h env x)
    then show ?thesis by (intro upd [of a "debit_account (pt_amount t)"]) (simp_all add: debit_account_def)
  next
    case (hold a sc token n env currency key)
    then show ?thesis by (intro upd [of a "hold_funds n"]) (simp_all add: hold_funds_def)
  next
    case (free h a sc env)
    then have "0 \<le> ba_available_balance a + ah_amount h" using s hok by (fastforce simp: solvent_def holds_ok_def)
    with free show ?thesis by (intro upd [of a "hold_funds (- ah_amount h)"]) (simp_all add: hold_funds_def)
  next
    case (settle_rev r sc e t a env reviewer)
    then have "0 \<le> ba_available_balance a + pr_amount r" using s rok by (fastforce simp: solvent_def reversals_ok_def)
    with settle_rev show ?thesis
      by (intro upd [of a "debit_account (- pr_amount r)"]) (simp_all add: debit_account_def)
  qed (use s in \<open>simp_all add: solvent_def money_same\<close>)
qed

lemma holds_ok_effect: "holds_ok db \<Longrightarrow> bank_effect db db' \<Longrightarrow> holds_ok db'"
  by (erule bank_effect.cases)
    (auto simp: holds_ok_def money_same new_hold_def set_update_rows release_def)

lemma execution_transfer:
  assumes "transfers_ok db" "e \<in> set (executions db)"
  obtains t where "t \<in> set (transfers db)" "execution_matches e t"
  using assms by (auto simp: transfers_ok_def)

lemma reversals_ok_effect:
  assumes inv: "bank_inv db" and eff: "bank_effect db db'"
  shows "reversals_ok db'"
proof -
  from inv have rok: "reversals_ok db" and tok: "transfers_ok db" and con: "bank_constraints db"
    by (simp_all add: bank_inv_def)
  have ext: "reversal_source db' r' = reversal_source db r" if "r \<in> set (reversals db)"
    "pr_tenant_id r' = pr_tenant_id r" "pr_transfer_execution_id r' = pr_transfer_execution_id r"
    "executed_actions db' = executed_actions db @ es" "transfer_sources db' = transfer_sources db @ ts" for r r' es ts
    using rok that by (intro reversal_source_extend [OF that(4,5)]) (auto simp: reversals_ok_def)
  have same: "reversals_ok db'" if "reversals db' = reversals db" "executed_actions db' = executed_actions db @ es"
    "transfer_sources db' = transfer_sources db @ ts" for es ts
    using rok that ext [OF _ refl refl that(2,3)] by (auto simp: reversals_ok_def)
  from eff show ?thesis
  proof cases
    case quiet
    then show ?thesis
      by (intro same [where es = "[]" and ts = "[]"]) (simp_all add: money_same executed_actions_def transfer_sources_def)
  next
    case (prepare t)
    then show ?thesis
      by (intro same [where es = "[]" and ts = "[(pt_proposed_action_id t, pt_source_account_token t)]"])
        (simp_all add: executed_actions_def transfer_sources_def)
  next
    case (expire t)
    then show ?thesis
      by (intro same [where es = "[]" and ts = "[]"])
        (simp_all add: executed_actions_def transfer_sources_def transfer_sources_update)
  next
    case (settle t sc a h env x)
    then show ?thesis
      by (intro same [where ts = "[]" and es = "[((sc_tenant_id sc, x), pt_proposed_action_id t)]"])
        (simp_all add: executed_actions_def transfer_sources_def transfer_sources_update new_execution_def)
  next
    case (draft_reversal r e)
    have rs: "reversal_source db' = reversal_source db"
      using draft_reversal(1) by (simp add: reversal_source_def executed_actions_def transfer_sources_def fun_eq_iff)
    from execution_transfer [OF tok draft_reversal(4)] obtain t where t: "t \<in> set (transfers db)" "execution_matches e t" .
    have "reversal_source db r = Some (pt_source_account_token t)"
      by (rule reversal_source_execution [OF con draft_reversal(4) t(1) draft_reversal(5,6)])
        (use t(2) in \<open>simp add: execution_matches_def\<close>)
    with rok draft_reversal(1,2) show ?thesis by (simp add: reversals_ok_def rs)
  next
    case (settle_rev r sc e t a env reviewer)
    have rs: "reversal_source db' = reversal_source db"
      using settle_rev(11) by (simp add: reversal_source_def executed_actions_def transfer_sources_def fun_eq_iff)
    have rs': "reversal_source db (settle_reversal env sc reviewer q) = reversal_source db q" for q
      by (simp add: reversal_source_def settle_reversal_simps)
    have "reversals db' = update_rows (\<lambda>q. pr_reversal_id q = pr_reversal_id r)
        (settle_reversal env sc reviewer) (reversals db)" using settle_rev(11) by simp
    with rok show ?thesis
      by (auto simp: reversals_ok_def set_update_rows settle_reversal_simps rs rs')
  qed (intro same [where es = "[]" and ts = "[]"], simp_all add: executed_actions_def transfer_sources_def)+
qed

lemma transfers_ok_status:
  assumes tok: "transfers_ok db" and con: "bank_constraints db"
    and t: "t \<in> set (transfers db)" "pt_status t = ''READY_FOR_GUARDIAN''"
    and upd: "transfers db' = update_rows (\<lambda>u. pt_proposed_action_id u = pt_proposed_action_id t)
      (\<lambda>u. u\<lparr>pt_status := s\<rparr>) (transfers db)"
    and exe: "set (executions db') = set (executions db) \<union> es"
    and new: "\<And>e. e \<in> es \<Longrightarrow> execution_matches e (t\<lparr>pt_status := s\<rparr>)"
    and settled: "s = ''SETTLED'' \<Longrightarrow> \<exists>e\<in>es. te_tenant_id e = pt_tenant_id t
      \<and> te_proposed_action_id e = pt_proposed_action_id t"
  shows "transfers_ok db'"
proof -
  have ts: "set (transfers db') = insert (t\<lparr>pt_status := s\<rparr>) (set (transfers db) - {t})"
    unfolding upd by (rule set_update_key [OF bank_keys(2) [OF con, unfolded transfer_rows.wf_def] t(1)])
  have "\<exists>u\<in>set (transfers db'). execution_matches e u" if e: "e \<in> set (executions db')" for e
  proof (cases "e \<in> es")
    case True
    with new show ?thesis by (auto simp: ts)
  next
    case False
    with e exe have "e \<in> set (executions db)" by auto
    from execution_transfer [OF tok this] obtain u where u: "u \<in> set (transfers db)" "execution_matches e u" .
    with t(2) have "u \<noteq> t" by (auto simp: execution_matches_def)
    with u show ?thesis by (auto simp: ts)
  qed
  moreover have "\<exists>e\<in>set (executions db'). te_tenant_id e = pt_tenant_id u
      \<and> te_proposed_action_id e = pt_proposed_action_id u"
    if u: "u \<in> set (transfers db')" "pt_status u = ''SETTLED''" for u
  proof (cases "u = t\<lparr>pt_status := s\<rparr>")
    case True
    with u(2) settled show ?thesis by (auto simp: exe)
  next
    case False
    with u tok show ?thesis by (auto simp: ts exe transfers_ok_def)
  qed
  moreover have "\<forall>u\<in>set (transfers db'). 0 < pt_amount u"
    using tok t(1) by (auto simp: ts transfers_ok_def)
  ultimately show ?thesis by (auto simp: transfers_ok_def)
qed

lemma transfers_ok_effect:
  assumes inv: "bank_inv db" and eff: "bank_effect db db'"
  shows "transfers_ok db'"
proof -
  from inv have tok: "transfers_ok db" and con: "bank_constraints db" by (simp_all add: bank_inv_def)
  from eff show ?thesis
  proof cases
    case (prepare t)
    then have ts: "transfers db' = transfers db @ [t]" and es: "executions db' = executions db" by simp_all
    from tok prepare(2,3) show ?thesis by (auto simp: transfers_ok_def ts es)
  next
    case (expire t)
    show ?thesis
      by (rule transfers_ok_status [OF tok con expire(1,2), of _ "''EXPIRED''" "{}"]) (use expire in simp_all)
  next
    case (settle t sc a h env x)
    let ?e = "new_execution env sc t (pt_proposed_action_id t) h x"
    show ?thesis
      by (rule transfers_ok_status [OF tok con settle(1,2), of _ "''SETTLED''" "{?e}"])
        (use settle in \<open>simp_all add: execution_matches_def new_execution_def\<close>)
  qed (use tok in \<open>simp_all add: transfers_ok_def money_same\<close>)
qed

lemma entries_ok_effect:
  assumes inv: "bank_inv db" and eff: "bank_effect db db'" and con': "bank_constraints db'"
  shows "entries_ok db'"
proof -
  from inv have eok: "entries_ok db" by (simp add: bank_inv_def)
  from eff show ?thesis
  proof cases
    case (settle t sc a h env x)
    let ?e = "new_execution env sc t (pt_proposed_action_id t) h x"
    let ?ls = "[new_entry env 2 sc t x 1 ''DISBURSEMENT_CLEARING'' ''DEBIT'',
      new_entry env 3 sc t x 2 ''BANK_CASH_CONTROL'' ''CREDIT'']"
    have es: "executions db' = executions db @ [?e]" and ls: "ledger_entries db' = ledger_entries db @ ?ls"
      using settle(11) by simp_all
    have fresh: "\<forall>e\<in>set (executions db). \<not> (te_tenant_id e = sc_tenant_id sc \<and> te_execution_id e = x)"
      using bank_keys(5) [OF con'] by (simp add: es new_execution_def)
    have "entries_of db' e = entries_of db e" if "e \<in> set (executions db)" for e
      using fresh that by (auto simp: entries_of_def ls new_entry_def)
    then have old: "\<forall>e\<in>set (executions db). balanced_entries db' e"
      using eok by (simp add: entries_ok_def balanced_entries_def)
    have "filter (\<lambda>l. le_tenant_id l = sc_tenant_id sc \<and> le_execution_id l = x) (ledger_entries db) = []"
      using eok fresh by (auto simp: entries_ok_def filter_empty_conv)
    then have "balanced_entries db' ?e"
      by (simp add: balanced_entries_def entries_of_def ls new_entry_def new_execution_def)
    moreover have "\<exists>e\<in>set (executions db'). te_tenant_id e = le_tenant_id l \<and> te_execution_id e = le_execution_id l"
      if "l \<in> set (ledger_entries db')" for l
      using that eok by (auto simp: ls es entries_ok_def new_entry_def new_execution_def)
    ultimately show ?thesis using old by (auto simp: entries_ok_def es)
  qed (use eok in \<open>simp_all add: entries_ok_def money_same balanced_entries_def entries_of_def\<close>)
qed

lemma bank_inv_effect:
  assumes "bank_inv db" "bank_effect db db'" "bank_constraints db'"
  shows "bank_inv db'"
  using assms solvent_effect [OF assms(1,2)] reversals_ok_effect [OF assms(1,2)] transfers_ok_effect [OF assms(1,2)]
    entries_ok_effect [OF assms] holds_ok_effect [OF _ assms(2)]
  by (simp add: bank_inv_def)

section \<open>What later states keep\<close>

definition transfer_later :: "prepared_transfer \<Rightarrow> prepared_transfer \<Rightarrow> bool" where
  "transfer_later t u \<longleftrightarrow> u = t\<lparr>pt_status := pt_status u\<rparr>"

definition bank_keeps :: "bank_db \<Rightarrow> bank_db \<Rightarrow> bool" where
  "bank_keeps db db' \<longleftrightarrow>
     (\<forall>t\<in>set (transfers db). \<exists>u\<in>set (transfers db'). transfer_later t u) \<and>
     (\<exists>es. executions db' = executions db @ es) \<and> (\<exists>ls. ledger_entries db' = ledger_entries db @ ls) \<and>
     bank_frame db' = bank_frame db"

lemma transfer_later_refl: "transfer_later t t"
  by (simp add: transfer_later_def)

lemma transfer_later_trans:
  assumes "transfer_later t u" "transfer_later u v"
  shows "transfer_later t v"
proof -
  have "v = (t\<lparr>pt_status := pt_status u\<rparr>)\<lparr>pt_status := pt_status v\<rparr>"
    using assms by (metis transfer_later_def)
  then show ?thesis by (simp add: transfer_later_def)
qed

lemma transfers_kept:
  assumes "bank_effect db db'"
  shows "\<forall>t\<in>set (transfers db). \<exists>u\<in>set (transfers db'). transfer_later t u"
proof -
  have upd: "\<exists>u\<in>set (update_rows P (\<lambda>u. u\<lparr>pt_status := s\<rparr>) ts). transfer_later t u" if "t \<in> set ts" for t P s ts
    using that by (induction ts) (auto simp: transfer_later_def)
  from assms show ?thesis by cases (auto simp: money_same intro: transfer_later_refl upd)
qed

lemma bank_keeps_trans:
  assumes "bank_keeps s t" "bank_keeps t u"
  shows "bank_keeps s u"
proof -
  have "\<exists>y\<in>set (transfers u). transfer_later x y" if "x \<in> set (transfers s)" for x
    using assms that unfolding bank_keeps_def by (meson transfer_later_trans)
  with assms show ?thesis by (auto simp: bank_keeps_def)
qed

lemma bank_keeps_effect:
  assumes "bank_inv db" "bank_effect db db'"
  shows "bank_keeps db db'"
  using assms(2) bank_frame_effect [OF assms] transfers_kept [OF assms(2)]
  by cases (auto simp: bank_keeps_def money_same)

lemma bank_keeps_refl: "bank_keeps db db"
  by (auto simp: bank_keeps_def intro: transfer_later_refl)

interpretation bank: monotone_service bank_step bank_inv bank_keeps
proof
  fix q db
  assume inv: "bank_inv db"
  from bank_step_effect [of q db] inv show "bank_inv (fst (bank_step q db))"
    by (auto intro: bank_inv_effect)
  from bank_step_effect [of q db] show "bank_keeps db (fst (bank_step q db))"
    using bank_keeps_effect [OF inv] bank_keeps_refl [of db] by auto
qed (auto intro: bank_keeps_refl bank_keeps_trans)

end
