(* ===== verification/BankSeed.thy ===== *)
theory BankSeed
  imports BankInvariant
begin

text \<open>
  The seed of the bank (bank_demo/seed.py), which runs at every start of the service: the
  first start writes the demonstration rows, a later one extends or restores the seeded
  consent. The identifiers of the sample transactions are the values of \<open>uuid5\<close> for their
  references. A started bank satisfies the invariant.
\<close>

definition bank_demo_tenant_id :: string where
  "bank_demo_tenant_id = ''00000000-0000-4000-8000-000000000101''"

definition bank_demo_user_id :: string where
  "bank_demo_user_id = ''00000000-0000-4000-8000-000000000201''"

definition seed_bank_account :: "string \<Rightarrow> string \<Rightarrow> string \<Rightarrow> int \<Rightarrow> int \<Rightarrow> int \<Rightarrow> int \<Rightarrow> bank_account" where
  "seed_bank_account token name masked current available per_transfer daily =
     \<lparr>ba_account_token = token, ba_tenant_id = bank_demo_tenant_id, ba_user_id = bank_demo_user_id,
      ba_display_name = name, ba_masked_number = masked, ba_account_type = ''CURRENT'', ba_currency = ''INR'',
      ba_current_balance = current, ba_available_balance = available, ba_per_transfer_limit = per_transfer,
      ba_daily_limit = daily, ba_status = ''ACTIVE''\<rparr>"

definition seed_beneficiary :: "string \<Rightarrow> string \<Rightarrow> string \<Rightarrow> bool \<Rightarrow> string \<Rightarrow> beneficiary" where
  "seed_beneficiary token owner masked verified status =
     \<lparr>bf_beneficiary_token = token, bf_tenant_id = bank_demo_tenant_id, bf_owner_name = owner,
      bf_masked_account = masked, bf_bank_name = ''XYENA Demonstration Bank'', bf_currency = ''INR'',
      bf_verified = verified, bf_status = status\<rparr>"

definition seed_consent :: "bank_env \<Rightarrow> aa_consent" where
  "seed_consent env =
     \<lparr>ac_consent_id = ''aac_demo_active'', ac_tenant_id = bank_demo_tenant_id, ac_user_id = bank_demo_user_id,
      ac_purpose = ''synthetic financing assessment'',
      ac_account_tokens = [''acct_demo_operating'', ''acct_demo_reserve''],
      ac_information_types = [''ACCOUNT'', ''BALANCE'', ''TRANSACTIONS''],
      ac_idempotency_key = ''seed-aa-consent-active'', ac_request_hash = ''seed-aa-consent-active'',
      ac_status = ''ACTIVE'', ac_valid_from = benv_now env, ac_valid_until = benv_now env + days 30,
      ac_revoked_at = None, ac_version = 1, ac_created_at = benv_now env\<rparr>"

definition seed_transaction ::
    "bank_env \<Rightarrow> string \<times> int \<times> string \<times> int \<times> string \<times> string \<times> string \<Rightarrow> bank_transaction" where
  "seed_transaction env sample =
     (case sample of (uuid5, offset, direction, amount, category, description, reference) \<Rightarrow>
       \<lparr>bt_id = uuid5, bt_account_token = ''acct_demo_operating'', bt_booked_on = benv_today env + offset,
        bt_direction = direction, bt_amount = amount, bt_currency = ''INR'', bt_category = category,
        bt_description = description, bt_reference = reference\<rparr>)"

definition seed_samples :: "(string \<times> int \<times> string \<times> int \<times> string \<times> string \<times> string) list" where
  "seed_samples =
     [(''c6b90b43-60d4-502a-99fd-6d4cbb8445b4'', -1, ''CREDIT'', 18500000, ''CUSTOMER_RECEIPT'',
       ''Synthetic buyer receipt'', ''DEMO-CR-1001''),
      (''cc25cd7b-7e55-5b72-8b31-156bfa934003'', -3, ''DEBIT'', 6250000, ''SUPPLIER_PAYMENT'',
       ''Synthetic inventory payment'', ''DEMO-DR-1002''),
      (''2a30eda9-f2be-5e2d-af29-77cce167f81d'', -7, ''DEBIT'', 2800000, ''PAYROLL'',
       ''Synthetic payroll batch'', ''DEMO-DR-1003''),
      (''64944b7d-fed1-50eb-b0eb-e03ffdde7291'', -12, ''CREDIT'', 9600000, ''CUSTOMER_RECEIPT'',
       ''Synthetic invoice settlement'', ''DEMO-CR-1004''),
      (''64a7cc7f-b1f5-5e34-93a8-d5e67d23d7ee'', -18, ''DEBIT'', 1425000, ''UTILITIES'',
       ''Synthetic utilities payment'', ''DEMO-DR-1005''),
      (''14f84f8f-2ef3-5c4d-ae82-944522a83d01'', -26, ''CREDIT'', 21000000, ''CUSTOMER_RECEIPT'',
       ''Synthetic distributor receipt'', ''DEMO-CR-1006'')]"

definition bank_seed_data :: "bank_env \<Rightarrow> bank_op" where
  "bank_seed_data env db =
     (if scalar (\<lambda>a. ba_account_token a = ''acct_demo_operating'') (bank_accounts db) \<noteq> None then
        (if scalar (\<lambda>c. ac_consent_id c = ''aac_demo_active'') (consents db) \<noteq> None
         then Inr (db\<lparr>consents := update_rows (\<lambda>c. ac_consent_id c = ''aac_demo_active'')
                (\<lambda>c. c\<lparr>ac_valid_until := benv_now env + days 30\<rparr>) (consents db)\<rparr>, JNull)
         else Inr (db\<lparr>consents := consents db @ [seed_consent env]\<rparr>, JNull))
      else
        Inr (db\<lparr>bank_accounts := bank_accounts db @
            [seed_bank_account ''acct_demo_operating'' ''Synthetic Operating Account'' ''XXXXXX4107''
               84250000 81750000 25000000 50000000,
             seed_bank_account ''acct_demo_reserve'' ''Synthetic Reserve Account'' ''XXXXXX8821''
               31500000 31500000 10000000 20000000],
          beneficiaries := beneficiaries db @
            [seed_beneficiary ''ben_demo_verified'' ''Synthetic Supplies Private Limited'' ''XXXXXX9004''
               True ''ACTIVE'',
             seed_beneficiary ''ben_demo_unverified'' ''Unverified Demo Counterparty'' ''XXXXXX1120''
               False ''REVIEW_REQUIRED''],
          consents := consents db @ [seed_consent env],
          transactions := transactions db @ map (seed_transaction env) seed_samples\<rparr>, JNull))"

definition empty_bank :: bank_db where
  "empty_bank = \<lparr>bank_accounts = [], transactions = [], beneficiaries = [], transfers = [], bank_audits = [],
     consents = [], information_requests = [], executions = [], ledger_entries = [], holds = [],
     beneficiary_changes = [], reversals = [], bank_outbox = []\<rparr>"

section \<open>A started bank satisfies the invariant\<close>

lemma bank_seed_inv:
  assumes "bank_inv db"
  shows "bank_inv (fst (bank_session (bank_seed_data env) db))"
  unfolding bank_session_def
proof (rule session_inv [where I = bank_inv])
  fix db' res
  assume op: "bank_seed_data env db = Inr (db', res)" and con: "bank_constraints db'"
  then have rest: "transfers db' = transfers db" "executions db' = executions db"
    "ledger_entries db' = ledger_entries db" "holds db' = holds db" "reversals db' = reversals db"
    by (auto simp: bank_seed_data_def split: if_splits)
  then have src: "reversal_source db' = reversal_source db"
    by (simp add: reversal_source_def executed_actions_def transfer_sources_def fun_eq_iff)
  have ent: "balanced_entries db' = balanced_entries db"
    by (simp add: balanced_entries_def entries_of_def fun_eq_iff rest)
  have "solvent db'"
    using assms op by (auto simp: bank_seed_data_def bank_inv_def solvent_def seed_bank_account_def split: if_splits)
  with assms con show "bank_inv db'"
    by (simp add: bank_inv_def transfers_ok_def holds_ok_def reversals_ok_def entries_ok_def rest src ent)
qed (rule assms)

lemma empty_bank_inv: "bank_inv empty_bank"
  by (simp add: empty_bank_def bank_inv_def bank_constraints_def transfers_ok_def holds_ok_def reversals_ok_def
      solvent_def entries_ok_def)

abbreviation started_bank :: "bank_env \<Rightarrow> bank_db" where
  "started_bank env \<equiv> fst (bank_session (bank_seed_data env) empty_bank)"

lemma started_bank_commits:
  "\<exists>db. bank_session (bank_seed_data env) empty_bank = (db, Inr JNull) \<and>
     map ba_account_token (bank_accounts db) = [''acct_demo_operating'', ''acct_demo_reserve'']"
proof -
  obtain db where op: "bank_seed_data env empty_bank = Inr (db, JNull)"
    by (simp add: bank_seed_data_def empty_bank_def)
  then have "bank_constraints db" "map ba_account_token (bank_accounts db) = [''acct_demo_operating'', ''acct_demo_reserve'']"
    by (auto simp: bank_seed_data_def empty_bank_def bank_constraints_def seed_bank_account_def seed_beneficiary_def
        seed_samples_def seed_transaction_def)
  with op show ?thesis by (simp add: bank_session_def session_ok)
qed

lemma started_bank_inv: "bank_inv (started_bank env)"
  by (rule bank_seed_inv [OF empty_bank_inv])

end
