(* ===== verification/BankProperties.thy ===== *)
theory BankProperties
  imports BankSeed
begin

text \<open>
  The properties of the bank service: conservation of money and solvency over arbitrary
  runs, guarded and at-most-once execution bound to the prepared action, balanced entries,
  consent scoping and its revocation, and the round trip of a hold.
\<close>

abbreviation bank_run :: "(bank_env \<times> dict \<times> bank_tool) list \<Rightarrow> bank_db \<Rightarrow> bank_db" where
  "bank_run \<equiv> run bank_step"

lemma bank_session_ok:
  "bank_session body db = (db', Inr res) \<longleftrightarrow> body db = Inr (db', res) \<and> bank_constraints db'"
  by (simp add: bank_session_def session_ok)

lemma bank_session_unchanged:
  "(\<And>db' res. body db = Inr (db', res) \<Longrightarrow> bank_constraints db' \<Longrightarrow> db' = db) \<Longrightarrow> fst (bank_session body db) = db"
  unfolding bank_session_def by (cases rule: session_cases [of bank_constraints BankIntegrityError body db]) auto

lemma bank_later:
  assumes "bank_inv db"
  shows "bank_inv (bank_run qs db)" "bank_keeps db (bank_run qs db)"
  using bank.run_inv [OF assms] bank.run_le [OF assms] by simp_all

lemma bank_inv_constraints: "bank_inv db \<Longrightarrow> bank_constraints db"
  by (simp add: bank_inv_def)

section \<open>Money\<close>

text \<open>
  C2. No request creates or destroys money at the bank: for every account, the current
  balance plus its settled transfers less its settled reversals, and the current balance
  less the available balance less the active holds, are the same after any requests served
  one after the other.
\<close>

theorem bank_money_conserved:
  assumes "bank_inv db"
  shows "bank_frame (bank_run qs db) = bank_frame db"
  using bank_later(2) [OF assms] by (simp add: bank_keeps_def)

text \<open>
  C7. No sequence of requests overdraws an account: available balances stay
  non-negative, and every settled execution has exactly one debit and one credit ledger
  entry of its amount.
\<close>

theorem bank_solvent_and_balanced:
  assumes "bank_inv db"
  shows "list_all (\<lambda>a. 0 \<le> ba_available_balance a) (bank_accounts (bank_run qs db)) \<and>
    list_all (balanced_entries (bank_run qs db)) (executions (bank_run qs db))"
  using bank_later(1) [OF assms, of qs]
  by (auto simp: bank_inv_def solvent_def entries_ok_def list_all_iff)

text \<open>
  A service started on an empty database commits its two demonstration accounts, and
  after any requests, another start included, the books are in order: every account
  is solvent, every execution has its two entries and matches a settled transfer, and the
  frame of every account is the seeded one.
\<close>

theorem bank_started_ok:
  "(\<exists>db. bank_session (bank_seed_data env) empty_bank = (db, Inr JNull) \<and>
     map ba_account_token (bank_accounts db) = [''acct_demo_operating'', ''acct_demo_reserve'']) \<and>
   bank_frame (bank_run qs (started_bank env)) = bank_frame (started_bank env) \<and>
   bank_inv (bank_run qs' (fst (bank_session (bank_seed_data env') (bank_run qs (started_bank env)))))"
  using started_bank_commits [of env] bank_later(2) [OF started_bank_inv, of env qs]
    bank_later(1) [OF bank_seed_inv [OF bank_later(1) [OF started_bank_inv]]]
  by (simp add: bank_keeps_def)

section \<open>Execution\<close>

text \<open>
  C35. A transfer that changes the bank's state was prepared by the same tenant and user
  under the given action identifier and hash, was still ready and unexpired, was within
  the transfer limit, the available balance and the daily limit with all other pending
  preparations, went to a verified and active beneficiary, and debits exactly its amount
  from its source account and nothing from any other.
\<close>

theorem bank_execute_guarded:
  assumes "bank_session (execute_transfer env sc i h x) db = (db', Inr res)" "db' \<noteq> db"
  shows "\<exists>t a b. t \<in> set (transfers db) \<and> pt_proposed_action_id t = i \<and> pt_tenant_id t = sc_tenant_id sc \<and>
    pt_user_id t = sc_user_id sc \<and> pt_canonical_action_hash t = h \<and> pt_status t = ''READY_FOR_GUARDIAN'' \<and>
    benv_now env < pt_expires_at t \<and>
    a \<in> set (bank_accounts db) \<and> owned sc (pt_source_account_token t) a \<and>
    pt_amount t \<le> ba_per_transfer_limit a \<and> pt_amount t \<le> ba_available_balance a \<and>
    pending_amount env db a (Some i) + pt_amount t \<le> ba_daily_limit a \<and>
    b \<in> set (beneficiaries db) \<and> bf_beneficiary_token b = pt_beneficiary_token t \<and> bf_verified b \<and>
    bf_status b = ''ACTIVE'' \<and>
    bank_accounts db' = update_rows (\<lambda>c. ba_account_token c = pt_source_account_token t)
      (debit_account (pt_amount t)) (bank_accounts db)"
proof -
  from assms have ex: "execute_transfer env sc i h x db = Inr (db', res)" by (simp add: bank_session_ok)
  have n: "scalar (\<lambda>e. te_tenant_id e = sc_tenant_id sc \<and> te_execution_id e = x) (executions db) = None"
    "scalar (\<lambda>e. te_tenant_id e = sc_tenant_id sc \<and> te_proposed_action_id e = i) (executions db) = None"
    "scalar (\<lambda>e. te_tenant_id e = sc_tenant_id sc \<and> te_guardian_call_id e = sc_call_id sc) (executions db) = None"
    using ex assms(2) by (auto simp: execute_transfer_def split: option.splits if_splits)
  with ex obtain t a b where
    t: "scalar (\<lambda>t. pt_proposed_action_id t = i \<and> pt_tenant_id t = sc_tenant_id sc
        \<and> pt_user_id t = sc_user_id sc) (transfers db) = Some t"
    and ok: "pt_canonical_action_hash t = h" "pt_status t = ''READY_FOR_GUARDIAN''" "benv_now env < pt_expires_at t"
    and a: "find_account db sc (pt_source_account_token t) = Inr a"
    and b: "find_beneficiary db sc (pt_beneficiary_token t) True = Inr b"
    and cap: "check_payment_capacity env db a (pt_amount t) (Some (pt_proposed_action_id t)) = Inr ()"
    and db': "bank_accounts db' = bank_accounts (settle_transfer env sc t a i h x db)"
    by (auto simp: execute_transfer_def sum_bind_Inr Let_def bank_audit_def bank_event_def
        split: option.splits if_splits)
  from b have "b \<in> set (beneficiaries db)" "bf_beneficiary_token b = pt_beneficiary_token t" "bf_verified b"
    "bf_status b = ''ACTIVE''"
    by (auto simp: find_beneficiary_def sum_bind_Inr Let_def dest: scalar_Some split: if_splits)
  with scalar_Some [OF t] ok find_account_Inr [OF a] check_capacity_Inr [OF cap] db' show ?thesis
    by (intro exI [of _ t] exI [of _ a] exI [of _ b]) (auto simp: settle_transfer_def owned_def)
qed

text \<open>
  C32. A prepared action is paid at most once: when its execution is on record, any later
  attempt to execute the action, under whatever call, hash or execution identifier,
  changes nothing.
\<close>

theorem bank_execute_once:
  assumes inv: "bank_inv db" and e: "e \<in> set (executions db)" "te_tenant_id e = sc_tenant_id sc"
    "te_proposed_action_id e = i"
  shows "fst (bank_session (execute_transfer env sc i h x) (bank_run qs db)) = bank_run qs db"
proof (rule bank_session_unchanged)
  fix db' res
  assume ex: "execute_transfer env sc i h x (bank_run qs db) = Inr (db', res)"
  from bank_later(2) [OF inv, of qs] e(1) have "e \<in> set (executions (bank_run qs db))"
    by (auto simp: bank_keeps_def)
  with e(2,3) have "scalar (\<lambda>e. te_tenant_id e = sc_tenant_id sc \<and> te_proposed_action_id e = i)
      (executions (bank_run qs db)) \<noteq> None"
    by (auto simp: scalar_None)
  with ex show "db' = bank_run qs db"
    by (cases rule: execute_transfer_cases) auto
qed

section \<open>Binding to the prepared action\<close>

lemma transfer_action_inject:
  assumes "canon (JObj (transfer_action scope r n)) = canon (JObj (transfer_action scope' r' n'))"
  shows "transfer_action scope r n = transfer_action scope' r' n'"
  using canon_obj_values [OF assms] by (simp add: transfer_action_def)

text \<open>
  What was hashed is what is paid: when a transfer was newly prepared and, after any
  requests, its action is executed with the hash of some transfer parameters, those
  parameters are the prepared ones in every field, or two different canonical texts with
  the same SHA-256 digest are at hand.
\<close>

theorem bank_execute_bound:
  assumes inv: "bank_inv db"
    and prep: "bank_session (prepare_transfer env sc r) db = (db1, Inr res)"
    and new: "scalar (\<lambda>t. pt_tenant_id t = sc_tenant_id sc
      \<and> pt_idempotency_key t = tr_client_idempotency_key r) (transfers db) = None"
    and n: "bank_amount (tr_amount r) = Inr n"
    and exec: "bank_session (execute_transfer env' sc' (prefixed_id ''act_'' (benv_uuid env 0))
        (bank_hash (transfer_action sc'' r'' n'')) x) (bank_run qs db1) = (db3, Inr res')"
    and changed: "db3 \<noteq> bank_run qs db1"
  shows "transfer_action sc'' r'' n'' = transfer_action sc r n \<or>
    sha256_collision (json_dumps (JObj (transfer_action sc r n))) (json_dumps (JObj (transfer_action sc'' r'' n'')))"
proof -
  from prep n new have t: "new_transfer env sc r n \<in> set (transfers db1)"
    by (auto simp: bank_session_ok prepare_transfer_def sum_bind_Inr Let_def bank_audit_def)
  from prep have inv1: "bank_inv db1"
    using bank_inv_effect [OF inv prepare_transfer_effect] by (auto simp: bank_session_ok)
  note run = bank_later [OF inv1, of qs]
  from run(2) t obtain u where u: "u \<in> set (transfers (bank_run qs db1))"
    "transfer_later (new_transfer env sc r n) u"
    by (auto simp: bank_keeps_def)
  from exec have "execute_transfer env' sc' (prefixed_id ''act_'' (benv_uuid env 0))
      (bank_hash (transfer_action sc'' r'' n'')) x (bank_run qs db1) = Inr (db3, res')"
    by (simp add: bank_session_ok)
  then obtain v where v: "v \<in> set (transfers (bank_run qs db1))"
    "pt_proposed_action_id v = prefixed_id ''act_'' (benv_uuid env 0)"
    "pt_canonical_action_hash v = bank_hash (transfer_action sc'' r'' n'')"
    by (cases rule: execute_transfer_cases) (use changed in \<open>auto dest: scalar_Some\<close>)
  from u(2) have id: "pt_proposed_action_id u = prefixed_id ''act_'' (benv_uuid env 0)"
    and h: "pt_canonical_action_hash u = bank_hash (transfer_action sc r n)"
    unfolding transfer_later_def
    by (metis new_transfer_def prepared_transfer.select_convs(1) prepared_transfer.update_convs(12),
        metis new_transfer_def prepared_transfer.select_convs(11) prepared_transfer.update_convs(12))
  have "u = v"
    using transfer_rows.row_eq [OF bank_keys(2) [OF bank_inv_constraints [OF run(1)]] u(1) v(1)] id v(2) by simp
  with h v(3) have "sha256_hex (json_dumps (JObj (transfer_action sc r n))) =
      sha256_hex (json_dumps (JObj (transfer_action sc'' r'' n'')))"
    by (simp add: bank_hash_def)
  then show ?thesis by (auto dest!: json_digest_eqD transfer_action_inject)
qed

section \<open>Consent\<close>

text \<open>
  Financial information is released only under a consent of the same tenant and user
  that is active, unexpired, names the account and the kind of information and was given
  for the signed purpose, and only for an active account of that tenant and user.
\<close>

theorem bank_information_consented:
  assumes "bank_session (fetch_information env sc q) db = (db', Inr res)"
  shows "\<exists>c a. c \<in> set (consents db) \<and> ac_consent_id c = iq_consent_id q \<and>
    ac_tenant_id c = sc_tenant_id sc \<and> ac_user_id c = sc_user_id sc \<and> ac_status c = ''ACTIVE'' \<and>
    benv_now env < ac_valid_until c \<and> iq_account_token q \<in> set (ac_account_tokens c) \<and>
    py_upper (iq_information_type q) \<in> set (ac_information_types c) \<and>
    (ac_purpose c = [] \<or> sc_purpose sc = ac_purpose c) \<and>
    a \<in> set (bank_accounts db) \<and> owned sc (iq_account_token q) a"
proof -
  from assms obtain c a where c: "find_consent env db sc (iq_consent_id q) True = Inr c"
    and ok: "iq_account_token q \<in> set (ac_account_tokens c)"
      "py_upper (iq_information_type q) \<in> set (ac_information_types c)"
      "ac_purpose c = [] \<or> sc_purpose sc = ac_purpose c"
    and a: "find_account db sc (iq_account_token q) = Inr a"
    by (auto simp: bank_session_ok fetch_information_def sum_bind_Inr Let_def split: if_splits)
  from c have "c \<in> set (consents db)" "ac_consent_id c = iq_consent_id q" "ac_tenant_id c = sc_tenant_id sc"
    "ac_user_id c = sc_user_id sc" "ac_status c = ''ACTIVE''" "benv_now env < ac_valid_until c"
    by (auto simp: find_consent_def sum_bind_Inr dest: scalar_Some split: if_splits)
  with ok find_account_Inr [OF a] show ?thesis by blast
qed

lemma consents_tool:
  assumes "bank_tool_op env sc tool db = Inr (db', res)"
  shows "consents db' = consents db \<or> (\<exists>c. consents db' = consents db @ [c]) \<or>
    (\<exists>i c. scalar (\<lambda>c. ac_consent_id c = i \<and> ac_tenant_id c = sc_tenant_id sc \<and> ac_user_id c = sc_user_id sc)
       (consents db) = Some c \<and> ac_status c = ''ACTIVE'' \<and>
       consents db' = update_rows (\<lambda>c. ac_consent_id c = i) (revoke env) (consents db))"
proof (cases tool)
  case (AaCreateConsent ts kinds d k)
  with assms show ?thesis
    by (auto simp: create_consent_def sum_bind_Inr Let_def bank_event_def bank_audit_def
        split: option.splits if_splits)
next
  case (AaRevokeConsent i)
  with assms have op: "revoke_consent env sc i db = Inr (db', res)" by simp
  then obtain c where c: "scalar (\<lambda>c. ac_consent_id c = i \<and> ac_tenant_id c = sc_tenant_id sc \<and>
      ac_user_id c = sc_user_id sc) (consents db) = Some c"
    by (auto simp: revoke_consent_def find_consent_def sum_bind_Inr)
  have "consents db' = consents db \<or> ac_status c = ''ACTIVE'' \<and>
      consents db' = update_rows (\<lambda>c. ac_consent_id c = i) (revoke env) (consents db)"
    using op c scalar_Some [OF c]
    by (auto simp: revoke_consent_def find_consent_def sum_bind_Inr Let_def bank_event_def bank_audit_def
        split: if_splits)
  with c show ?thesis by blast
qed (use assms in \<open>auto simp: get_consent_def fetch_information_def list_accounts_def bank_get_account_def
    get_balance_def list_transactions_def verify_beneficiary_def get_limits_def prepare_transfer_def
    execute_transfer_def settle_transfer_def transfer_status_def prepare_beneficiary_change_def
    execute_beneficiary_change_def change_target_def bank_prepare_reversal_def bank_execute_reversal_def
    place_hold_def release_hold_def bank_audit_def bank_event_def sum_bind_Inr Let_def
    split: option.splits if_splits\<close>)

lemma inactive_consent_kept:
  assumes con: "bank_constraints db" and c: "c \<in> set (consents db)" "ac_status c \<noteq> ''ACTIVE''"
  shows "c \<in> set (consents (fst (bank_step q db)))"
proof -
  have uq: "unique_by (\<lambda>c. Some (ac_consent_id c)) (consents db)"
    using con by (simp add: bank_constraints_def comp_def)
  have kept: "c \<in> set (consents db')" if op: "bank_tool_op env sc tool db = Inr (db', res)" for env sc tool db' res
    using consents_tool [OF op]
  proof (elim disjE exE conjE)
    fix i d
    assume d: "scalar (\<lambda>c. ac_consent_id c = i \<and> ac_tenant_id c = sc_tenant_id sc \<and> ac_user_id c = sc_user_id sc)
        (consents db) = Some d" "ac_status d = ''ACTIVE''"
      and upd: "consents db' = update_rows (\<lambda>c. ac_consent_id c = i) (revoke env) (consents db)"
    from scalar_Some [OF d(1)] have "d \<in> set (consents db)" "ac_consent_id d = i" by simp_all
    then have "ac_consent_id c \<noteq> i" using unique_byD [OF uq c(1), of d i] d(2) c(2) by auto
    then show ?thesis using c(1) by (force simp: upd set_update_rows)
  qed (use c in auto)
  show ?thesis
  proof (cases "(q, db)" rule: bank_step.cases)
    case (1 env meta tool db')
    have "c \<in> set (consents (fst (bank_session (bank_tool_op env sc tool) db)))" for sc
      unfolding bank_session_def
      by (rule session_inv [where I = "\<lambda>s. c \<in> set (consents s)"]) (use c kept in auto)
    with 1 c(1) show ?thesis by (auto split: sum.split)
  qed
qed

lemma inactive_consent_run:
  "bank_inv db \<Longrightarrow> c \<in> set (consents db) \<Longrightarrow> ac_status c \<noteq> ''ACTIVE'' \<Longrightarrow> c \<in> set (consents (bank_run qs db))"
  by (induction qs arbitrary: db)
    (auto intro: bank.step_inv inactive_consent_kept bank_inv_constraints)

text \<open>
  Revocation is final: once a consent is revoked, no later request obtains information
  under it, whatever happened in between; the attempt is refused and nothing changes.
\<close>

theorem bank_revocation_final:
  assumes inv: "bank_inv db" and c: "c \<in> set (consents db)" "ac_status c = ''REVOKED''"
    and q: "iq_consent_id q = ac_consent_id c" and db2: "db2 = bank_run qs db"
  shows "\<exists>e. bank_session (fetch_information env sc q) db2 = (db2, Inl e)"
proof -
  have c2: "c \<in> set (consents db2)" using inactive_consent_run [OF inv c(1)] c(2) db2 by simp
  have uq: "unique_by (\<lambda>c. Some (ac_consent_id c)) (consents db2)"
    using bank_later(1) [OF inv, of qs] db2 by (simp add: bank_inv_def bank_constraints_def comp_def)
  have none: "d = c" if "d \<in> set (consents db2)" "ac_consent_id d = ac_consent_id c" for d
    using unique_byD [OF uq that(1) c2] that(2) by simp
  have "find_consent env db2 sc (iq_consent_id q) True \<noteq> Inr d" for d
  proof
    assume "find_consent env db2 sc (iq_consent_id q) True = Inr d"
    then have "d \<in> set (consents db2)" "ac_consent_id d = ac_consent_id c" "ac_status d = ''ACTIVE''"
      using q by (auto simp: find_consent_def sum_bind_Inr dest!: scalar_Some split: if_splits)
    with none [of d] c(2) show False by simp
  qed
  then obtain e where "fetch_information env sc q db2 = Inl e"
    by (cases "fetch_information env sc q db2") (auto simp: fetch_information_def sum_bind_Inr Let_def split: if_splits)
  then show ?thesis by (simp add: bank_session_def session_def)
qed

section \<open>Holds\<close>

lemma update_rows_twice:
  assumes "\<And>r. f (g r) = r" "\<And>r. P (g r) = P r"
  shows "update_rows P f (update_rows P g rows) = rows"
  using assms by (induction rows) auto

text \<open>
  C36. Placing a hold and releasing it gives back the accounts as they were: the hold takes
  its amount off the available balance and the release returns exactly that, once;
  releasing it again changes nothing.
\<close>

theorem bank_hold_round_trip:
  assumes "bank_session (place_hold env sc token amount currency key) db = (db1, Inr res)" "db1 \<noteq> db"
    and "bank_session (release_hold env' sc' (prefixed_id ''hold_'' (benv_uuid env 0))) db1 = (db2, Inr res')"
  shows "bank_accounts db2 = bank_accounts db \<and>
    bank_session (release_hold env'' sc' (prefixed_id ''hold_'' (benv_uuid env 0))) db2 =
      (db2, Inr res')"
proof -
  let ?i = "prefixed_id ''hold_'' (benv_uuid env 0)"
  from assms(1,2) obtain n a where a: "find_account db sc token = Inr a"
    and acc1: "bank_accounts db1 = update_rows (\<lambda>b. ba_account_token b = ba_account_token a) (hold_funds n) (bank_accounts db)"
    and h1: "holds db1 = holds db @ [new_hold env sc token n currency key]"
    by (auto simp: bank_session_ok place_hold_def sum_bind_Inr Let_def bank_audit_def bank_event_def
        split: option.splits if_splits)
  let ?h = "new_hold env sc token n currency key"
  from assms(1) have con1: "bank_constraints db1" by (simp add: bank_session_ok)
  have hid: "ah_hold_id ?h = ?i" by (simp add: new_hold_def)
  have uniq: "h = ?h" if "h \<in> set (holds db1)" "ah_hold_id h = ?i" for h
    using hold_rows.row_eq [OF bank_keys(3) [OF con1] that(1), of ?h] that(2) hid by (simp add: h1)
  from assms(3) obtain h where h: "scalar (\<lambda>h. ah_hold_id h = ?i \<and> ah_tenant_id h = sc_tenant_id sc'
        \<and> ah_user_id h = sc_user_id sc') (holds db1) = Some h"
    by (auto simp: bank_session_ok release_hold_def sum_bind_Inr)
  from scalar_Some [OF h] uniq have hh: "h = ?h" and own: "ah_tenant_id ?h = sc_tenant_id sc'"
    "ah_user_id ?h = sc_user_id sc'" by auto
  from assms(3) h hh obtain b where b: "find_account db1 sc' token = Inr b"
    and acc2: "bank_accounts db2 = update_rows (\<lambda>c. ba_account_token c = ba_account_token b) (hold_funds (- n)) (bank_accounts db1)"
    and h2: "holds db2 = update_rows (\<lambda>g. ah_hold_id g = ?i) (release env' sc') (holds db1)"
    and res': "res' = JObj (hold_projection (release env' sc' ?h))"
    by (auto simp: bank_session_ok release_hold_def sum_bind_Inr Let_def bank_audit_def bank_event_def
        new_hold_def split: if_splits)
  have "ba_account_token b = ba_account_token a"
    using find_account_Inr [OF a] find_account_Inr [OF b] by (simp add: owned_def)
  then have "bank_accounts db2 = bank_accounts db"
    unfolding acc2 acc1 by (simp add: update_rows_twice hold_funds_def)
  moreover have "scalar (\<lambda>h. ah_hold_id h = ?i \<and> ah_tenant_id h = sc_tenant_id sc' \<and> ah_user_id h = sc_user_id sc')
      (holds db2) = Some (release env' sc' ?h)"
  proof (rule scalar_unique)
    show "release env' sc' ?h \<in> set (holds db2)" by (simp add: h2 h1 update_rows_append hid)
    show "ah_hold_id (release env' sc' ?h) = ?i \<and> ah_tenant_id (release env' sc' ?h) = sc_tenant_id sc'
        \<and> ah_user_id (release env' sc' ?h) = sc_user_id sc'"
      using own hid by (simp add: release_def)
  next
    fix g
    assume "g \<in> set (holds db2)" "ah_hold_id g = ?i \<and> ah_tenant_id g = sc_tenant_id sc' \<and> ah_user_id g = sc_user_id sc'"
    then show "g = release env' sc' ?h"
      using uniq by (auto simp: h2 set_update_rows release_def split: if_splits)
  qed
  then have "release_hold env'' sc' ?i db2 = Inr (db2, res')"
    by (simp add: release_hold_def res') (simp add: release_def)
  ultimately show ?thesis using assms(3) by (simp add: bank_session_ok)
qed

end
