(* ===== verification/BankDemo.thy ===== *)
theory BankDemo
  imports BankProperties
begin

text \<open>
  A concrete history of the bank: an account with five rupees, a verified beneficiary and
  an active consent; a transfer of one rupee is prepared and executed, a hold of one rupee
  is placed and released, and the consent is used and revoked. It instantiates the
  properties of \<open>BankProperties\<close> whose statements have hypotheses.
\<close>

section \<open>Requests\<close>

definition bdemo_env :: "string \<Rightarrow> bank_env" where
  "bdemo_env k = \<lparr>benv_now = 0, benv_today = 0,
     benv_uuid = (\<lambda>i. k @ (if i = 0 then ''0'' else if i = 1 then ''1'' else if i = 2 then ''2''
       else if i = 3 then ''3'' else if i = 4 then ''4'' else if i = 5 then ''5'' else ''6'')),
     benv_token_hex = ''ABCDEFGH'', benv_mcp_token = ''token''\<rparr>"

definition bdemo_scope :: "string \<Rightarrow> guarded_scope" where
  "bdemo_scope call = \<lparr>sc_tenant_id = ''t'', sc_organization_id = ''o'', sc_user_id = ''u'',
     sc_session_id = ''s'', sc_run_id = ''r'', sc_call_id = call, sc_correlation_id = ''k'',
     sc_agent_name = ''a'', sc_canonical_name = ''n'', sc_purpose = ''p'', sc_request_hash = ''h'',
     sc_guardian_decision_id = ''d'', sc_authorization_id = ''z''\<rparr>"

definition bdemo_transfer :: transfer_request where
  "bdemo_transfer = \<lparr>tr_source_account_token = ''acct'', tr_beneficiary_token = ''ben'',
     tr_amount = ''1.00'', tr_currency = ''INR'', tr_rail = ''DEMO_BANK_RAIL'',
     tr_client_idempotency_key = ''key-0001''\<rparr>"

definition bdemo_query :: information_query where
  "bdemo_query = \<lparr>iq_consent_id = ''aac_1'', iq_information_type = ''BALANCE'', iq_account_token = ''acct'',
     iq_client_idempotency_key = ''fi-1'', iq_from_date = None, iq_to_date = None\<rparr>"

section \<open>States\<close>

definition bdemo_account :: bank_account where
  "bdemo_account = \<lparr>ba_account_token = ''acct'', ba_tenant_id = ''t'', ba_user_id = ''u'',
     ba_display_name = ''Operating'', ba_masked_number = ''XX1'', ba_account_type = ''CURRENT'',
     ba_currency = ''INR'', ba_current_balance = 500, ba_available_balance = 500,
     ba_per_transfer_limit = 300, ba_daily_limit = 400, ba_status = ''ACTIVE''\<rparr>"

definition bdemo_beneficiary :: beneficiary where
  "bdemo_beneficiary = \<lparr>bf_beneficiary_token = ''ben'', bf_tenant_id = ''t'', bf_owner_name = ''Supplier'',
     bf_masked_account = ''XX2'', bf_bank_name = ''Bank'', bf_currency = ''INR'', bf_verified = True,
     bf_status = ''ACTIVE''\<rparr>"

definition bdemo_consent :: aa_consent where
  "bdemo_consent = \<lparr>ac_consent_id = ''aac_1'', ac_tenant_id = ''t'', ac_user_id = ''u'', ac_purpose = ''p'',
     ac_account_tokens = [''acct''], ac_information_types = [''BALANCE''], ac_idempotency_key = ''con-1'',
     ac_request_hash = ''h'', ac_status = ''ACTIVE'', ac_valid_from = 0, ac_valid_until = days 30,
     ac_revoked_at = None, ac_version = 1, ac_created_at = 0\<rparr>"

definition bdemo_open :: bank_db where
  "bdemo_open = \<lparr>bank_accounts = [bdemo_account], transactions = [], beneficiaries = [bdemo_beneficiary],
     transfers = [], bank_audits = [], consents = [bdemo_consent], information_requests = [],
     executions = [], ledger_entries = [], holds = [], beneficiary_changes = [], reversals = [],
     bank_outbox = []\<rparr>"

definition bdemo_action :: prepared_transfer where
  "bdemo_action = new_transfer (bdemo_env ''a'') (bdemo_scope ''call-1'') bdemo_transfer 100"

definition bdemo_hash :: string where
  "bdemo_hash = bank_hash (transfer_action (bdemo_scope ''call-1'') bdemo_transfer 100)"

definition bdemo_prepared :: bank_db where
  "bdemo_prepared = bank_audit (bdemo_env ''a'') 1 (bdemo_scope ''call-1'') ''PREPARED''
     [(''proposed_action_id'', JStr (pt_proposed_action_id bdemo_action)), (''action_hash'', JStr bdemo_hash)]
     (bdemo_open\<lparr>transfers := [bdemo_action]\<rparr>)"

section \<open>Evaluation\<close>

lemma bdemo_amount: "bank_amount ''1.00'' = Inr 100"
proof -
  have "cents_str 100 = ''1.00''" by code_simp
  then show ?thesis using quantize_cents_str [of 100] by (simp add: bank_amount_def)
qed

lemma bdemo_uuid [simp]:
  "uuid_str (benv_uuid (bdemo_env k) 0) = uuid_str (k @ ''0'')"
  "uuid_str (benv_uuid (bdemo_env k) (Suc 0)) = uuid_str (k @ ''1'')"
  "uuid_str (benv_uuid (bdemo_env k) 2) = uuid_str (k @ ''2'')"
  "uuid_str (benv_uuid (bdemo_env k) 3) = uuid_str (k @ ''3'')"
  "uuid_str (benv_uuid (bdemo_env k) 4) = uuid_str (k @ ''4'')"
  "uuid_str (benv_uuid (bdemo_env k) 5) = uuid_str (k @ ''5'')"
  "uuid_str (benv_uuid (bdemo_env k) 6) = uuid_str (k @ ''6'')"
  by (simp_all add: bdemo_env_def)

lemma bdemo_uuid_distinct [simp]:
  "uuid_str ''b6'' \<noteq> uuid_str ''a1''" "uuid_str ''b3'' \<noteq> uuid_str ''b2''" "uuid_str ''b1'' \<noteq> uuid_str ''a2''"
  "uuid_str ''a2'' \<noteq> uuid_str ''b1''" "uuid_str ''a1'' \<noteq> uuid_str ''b0''" "uuid_str ''b0'' \<noteq> uuid_str ''a1''"
  by code_simp+

lemma bdemo_env_simps [simp]: "benv_now (bdemo_env k) = 0" "benv_today (bdemo_env k) = 0"
  "prefixed_id p (benv_uuid (bdemo_env ''a'') 0) = p @ ''a0''"
  "prefixed_id p (benv_uuid (bdemo_env ''b'') 0) = p @ ''b0''"
  by (simp_all add: bdemo_env_def prefixed_id_def)

lemma bdemo_scope_simps [simp]: "sc_tenant_id (bdemo_scope c) = ''t''" "sc_user_id (bdemo_scope c) = ''u''"
  "sc_call_id (bdemo_scope c) = c" "sc_purpose (bdemo_scope c) = ''p''"
  by (simp_all add: bdemo_scope_def)

lemma bdemo_open_simps [simp]: "bank_accounts bdemo_open = [bdemo_account]" "transactions bdemo_open = []"
  "beneficiaries bdemo_open = [bdemo_beneficiary]" "transfers bdemo_open = []" "bank_audits bdemo_open = []"
  "consents bdemo_open = [bdemo_consent]" "information_requests bdemo_open = []" "executions bdemo_open = []"
  "ledger_entries bdemo_open = []" "holds bdemo_open = []" "beneficiary_changes bdemo_open = []"
  "reversals bdemo_open = []" "bank_outbox bdemo_open = []"
  by (simp_all add: bdemo_open_def)

lemma bdemo_open_inv: "bank_inv bdemo_open"
  by (simp add: bank_inv_def bank_constraints_def transfers_ok_def holds_ok_def reversals_ok_def solvent_def
      entries_ok_def bdemo_account_def)

lemma bdemo_action_simps [simp]: "pt_proposed_action_id bdemo_action = ''act_a0''"
  "pt_tenant_id bdemo_action = ''t''" "pt_user_id bdemo_action = ''u''"
  "pt_source_account_token bdemo_action = ''acct''" "pt_beneficiary_token bdemo_action = ''ben''"
  "pt_amount bdemo_action = 100" "pt_currency bdemo_action = ''INR''" "pt_status bdemo_action = ''READY_FOR_GUARDIAN''"
  "pt_canonical_action_hash bdemo_action = bdemo_hash" "pt_expires_at bdemo_action = minutes 15"
  by (simp_all add: bdemo_action_def new_transfer_def bdemo_hash_def) (simp_all add: bdemo_transfer_def)

lemma bdemo_find_account: "bank_accounts db = [bdemo_account] \<Longrightarrow> find_account db (bdemo_scope c) ''acct'' = Inr bdemo_account"
  by (simp add: find_account_def bdemo_account_def)

lemma bdemo_find_beneficiary:
  "beneficiaries db = [bdemo_beneficiary] \<Longrightarrow> find_beneficiary db (bdemo_scope c) ''ben'' True = Inr bdemo_beneficiary"
  by (simp add: find_beneficiary_def bdemo_beneficiary_def)

lemma bdemo_prepare:
  "bank_session (prepare_transfer (bdemo_env ''a'') (bdemo_scope ''call-1'') bdemo_transfer) bdemo_open =
   (bdemo_prepared, Inr (JObj (prepared_projection bdemo_action)))"
proof -
  have r: "tr_amount bdemo_transfer = ''1.00''" "tr_currency bdemo_transfer = ''INR''"
    "tr_rail bdemo_transfer = ''DEMO_BANK_RAIL''" "tr_client_idempotency_key bdemo_transfer = ''key-0001''"
    "tr_source_account_token bdemo_transfer = ''acct''" "tr_beneficiary_token bdemo_transfer = ''ben''"
    by (simp_all add: bdemo_transfer_def)
  have cap: "check_payment_capacity (bdemo_env ''a'') bdemo_open bdemo_account 100 None = Inr ()"
    by (simp add: check_payment_capacity_def pending_amount_def scalars_def bdemo_account_def)
  have "bank_constraints bdemo_prepared"
    by (simp add: bdemo_prepared_def bank_audit_def bank_constraints_def)
  then show ?thesis
    by (simp add: bank_session_ok prepare_transfer_def r bdemo_amount validate_payment_def Let_def cap
        bdemo_find_account bdemo_find_beneficiary bdemo_prepared_def
        flip: bdemo_action_def bdemo_hash_def)
qed

lemma bdemo_prepared_simps [simp]: "bank_accounts bdemo_prepared = [bdemo_account]"
  "transactions bdemo_prepared = []" "beneficiaries bdemo_prepared = [bdemo_beneficiary]"
  "transfers bdemo_prepared = [bdemo_action]" "executions bdemo_prepared = []" "ledger_entries bdemo_prepared = []"
  "holds bdemo_prepared = []" "reversals bdemo_prepared = []"
  by (simp_all add: bdemo_prepared_def bank_audit_def)

lemma bdemo_prepared_inv: "bank_inv bdemo_prepared"
  using bank_inv_effect [OF bdemo_open_inv prepare_transfer_effect] bdemo_prepare by (auto simp: bank_session_ok)

definition bdemo_execution :: transfer_execution where
  "bdemo_execution = new_execution (bdemo_env ''b'') (bdemo_scope ''call-2'') bdemo_action ''act_a0'' bdemo_hash ''exec''"

definition bdemo_settlement :: dict where
  "bdemo_settlement = execution_projection bdemo_execution @
     [(''journal_id'', JStr ''jrn_b0''), (''ledger_balanced'', JBool True)]"

definition bdemo_settled :: bank_db where
  "bdemo_settled = bank_audit (bdemo_env ''b'') 6 (bdemo_scope ''call-2'') ''SETTLED'' bdemo_settlement
     (bank_event (bdemo_env ''b'') 5 ''t'' ''TRANSFER'' ''exec'' ''bank.transfer.settled'' bdemo_settlement
       (settle_transfer (bdemo_env ''b'') (bdemo_scope ''call-2'') bdemo_action bdemo_account ''act_a0'' bdemo_hash
         ''exec'' bdemo_prepared))"

lemma bdemo_settled_simps [simp]:
  "bank_accounts bdemo_settled = [debit_account 100 bdemo_account]" "beneficiaries bdemo_settled = [bdemo_beneficiary]"
  "transfers bdemo_settled = [bdemo_action\<lparr>pt_status := ''SETTLED''\<rparr>]" "executions bdemo_settled = [bdemo_execution]"
  by (simp_all add: bdemo_settled_def bank_audit_def bank_event_def settle_transfer_def bdemo_execution_def)

lemma bdemo_execution_simps [simp]: "te_tenant_id bdemo_execution = ''t''"
  "te_proposed_action_id bdemo_execution = ''act_a0''"
  by (simp_all add: bdemo_execution_def new_execution_def)

lemma bdemo_settled_constraints: "bank_constraints bdemo_settled"
  by (simp add: bank_constraints_def bdemo_settled_def bank_audit_def bank_event_def settle_transfer_def
      new_entry_def bdemo_prepared_def)

lemma bdemo_execute:
  "bank_session (execute_transfer (bdemo_env ''b'') (bdemo_scope ''call-2'') ''act_a0'' bdemo_hash ''exec'')
     bdemo_prepared = (bdemo_settled, Inr (JObj bdemo_settlement))"
proof -
  have cap: "check_payment_capacity (bdemo_env ''b'') bdemo_prepared bdemo_account 100 (Some ''act_a0'') = Inr ()"
    by (simp add: check_payment_capacity_def pending_amount_def scalars_def bdemo_account_def)
  show ?thesis
    by (simp add: bank_session_ok execute_transfer_def Let_def cap bdemo_find_account bdemo_find_beneficiary
        timedelta_defs bdemo_settled_constraints)
      (simp add: bdemo_settled_def bdemo_settlement_def bdemo_execution_def)
qed

lemma bdemo_settled_inv: "bank_inv bdemo_settled"
  using bank_inv_effect [OF bdemo_prepared_inv execute_transfer_effect] bdemo_execute by (auto simp: bank_session_ok)

lemma bdemo_executed_changed: "bdemo_settled \<noteq> bdemo_prepared"
  using bdemo_settled_simps(4) by (auto simp del: bdemo_settled_simps)

definition bdemo_hold :: account_hold where
  "bdemo_hold = new_hold (bdemo_env ''a'') (bdemo_scope ''call-1'') ''acct'' 100 ''INR'' ''hold-key''"

definition bdemo_held :: bank_db where
  "bdemo_held = bank_audit (bdemo_env ''a'') 2 (bdemo_scope ''call-1'') ''PLACED'' [(''hold_id'', JStr ''hold_a0'')]
     (bank_event (bdemo_env ''a'') 1 ''t'' ''HOLD'' ''hold_a0'' ''bank.hold.placed'' (hold_projection bdemo_hold)
       (bdemo_open\<lparr>bank_accounts := [hold_funds 100 bdemo_account], holds := [bdemo_hold]\<rparr>))"

lemma bdemo_hold_simps [simp]: "ah_hold_id bdemo_hold = ''hold_a0''" "ah_tenant_id bdemo_hold = ''t''"
  "ah_user_id bdemo_hold = ''u''" "ah_account_token bdemo_hold = ''acct''" "ah_amount bdemo_hold = 100"
  "ah_status bdemo_hold = ''ACTIVE''" "ah_release_guardian_call_id bdemo_hold = None"
  by (simp_all add: bdemo_hold_def new_hold_def)

lemma bdemo_place:
  "bank_session (place_hold (bdemo_env ''a'') (bdemo_scope ''call-1'') ''acct'' ''1.00'' ''INR'' ''hold-key'') bdemo_open =
     (bdemo_held, Inr (JObj (hold_projection bdemo_hold)))"
proof -
  have "bank_constraints bdemo_held"
    by (simp add: bdemo_held_def bank_audit_def bank_event_def bank_constraints_def)
  moreover have "ba_currency bdemo_account = ''INR''" "ba_available_balance bdemo_account = 500"
    by (simp_all add: bdemo_account_def)
  ultimately show ?thesis
    by (simp add: bank_session_ok place_hold_def bdemo_amount bdemo_find_account Let_def bdemo_held_def
        flip: bdemo_hold_def)
qed

lemma bdemo_release:
  "\<exists>db res. bank_session (release_hold (bdemo_env ''b'') (bdemo_scope ''call-2'') ''hold_a0'') bdemo_held = (db, Inr res)"
proof -
  have acc: "find_account bdemo_held (bdemo_scope ''call-2'') ''acct'' = Inr (hold_funds 100 bdemo_account)"
    by (simp add: find_account_def bdemo_held_def bank_audit_def bank_event_def hold_funds_def bdemo_account_def)
  have hs: "holds bdemo_held = [bdemo_hold]" by (simp add: bdemo_held_def bank_audit_def bank_event_def)
  obtain db res where op: "release_hold (bdemo_env ''b'') (bdemo_scope ''call-2'') ''hold_a0'' bdemo_held = Inr (db, res)"
    by (simp add: release_hold_def hs acc Let_def)
  then have "bank_constraints db"
    by (auto simp: release_hold_def hs acc Let_def bank_constraints_def bank_audit_def bank_event_def)
      (simp_all add: bdemo_held_def bank_audit_def bank_event_def)
  with op show ?thesis by (auto simp: bank_session_ok)
qed

definition bdemo_revoked :: bank_db where
  "bdemo_revoked = bdemo_open\<lparr>consents := [revoke (bdemo_env ''a'') bdemo_consent]\<rparr>"

section \<open>The properties on this history\<close>

theorem bank_money_conserved_witness:
  "bank_frame (bank_run [(bdemo_env ''b'', [], HoldsRelease ''hold_a0'')] bdemo_settled) = [(''acct'', 500, 0)]"
proof -
  have "bank_frame bdemo_settled = [(''acct'', 500, 0)]"
    by (simp add: bank_frame_def paid_def refunded_def held_def debit_account_def)
      (simp add: bdemo_settled_def bank_audit_def bank_event_def settle_transfer_def bdemo_account_def)
  then show ?thesis
    using bank_money_conserved [OF bdemo_settled_inv, of "[(bdemo_env ''b'', [], HoldsRelease ''hold_a0'')]"]
    by (simp del: run_Cons)
qed

theorem bank_solvent_and_balanced_witness:
  "list_all (\<lambda>a. 0 \<le> ba_available_balance a) (bank_accounts bdemo_settled) \<and>
   list_all (balanced_entries bdemo_settled) (executions bdemo_settled) \<and> executions bdemo_settled = [bdemo_execution]"
  using bank_solvent_and_balanced [OF bdemo_settled_inv, of "[]"] by simp

theorem bank_execute_guarded_witness:
  "\<exists>t. t \<in> set (transfers bdemo_prepared) \<and> pt_canonical_action_hash t = bdemo_hash \<and>
     bank_accounts bdemo_settled = update_rows (\<lambda>c. ba_account_token c = pt_source_account_token t)
       (debit_account (pt_amount t)) (bank_accounts bdemo_prepared)"
  using bank_execute_guarded [OF bdemo_execute bdemo_executed_changed] by blast

theorem bank_execute_once_witness:
  "fst (bank_session (execute_transfer (bdemo_env ''c'') (bdemo_scope ''call-3'') ''act_a0'' bdemo_hash ''exec2'') bdemo_settled) =
     bdemo_settled"
  using bank_execute_once [OF bdemo_settled_inv, where e = bdemo_execution and sc = "bdemo_scope ''call-3''"
      and i = "''act_a0''" and qs = "[]"] by simp

theorem bank_execute_bound_witness:
  "\<exists>n. bank_amount (tr_amount bdemo_transfer) = Inr n \<and>
   (transfer_action (bdemo_scope ''call-1'') bdemo_transfer 100 = transfer_action (bdemo_scope ''call-1'') bdemo_transfer n \<or>
    sha256_collision (json_dumps (JObj (transfer_action (bdemo_scope ''call-1'') bdemo_transfer n)))
      (json_dumps (JObj (transfer_action (bdemo_scope ''call-1'') bdemo_transfer 100))))"
proof -
  have n: "bank_amount (tr_amount bdemo_transfer) = Inr 100" by (simp add: bdemo_transfer_def bdemo_amount)
  have "bank_session (execute_transfer (bdemo_env ''b'') (bdemo_scope ''call-2'')
      (prefixed_id ''act_'' (benv_uuid (bdemo_env ''a'') 0))
      (bank_hash (transfer_action (bdemo_scope ''call-1'') bdemo_transfer 100)) ''exec'') (bank_run [] bdemo_prepared) =
    (bdemo_settled, Inr (JObj bdemo_settlement))"
    using bdemo_execute by (simp add: bdemo_hash_def)
  from bank_execute_bound [OF bdemo_open_inv bdemo_prepare _ n this] n bdemo_executed_changed show ?thesis by auto
qed

theorem bank_information_consented_witness:
  "\<exists>db res c. bank_session (fetch_information (bdemo_env ''a'') (bdemo_scope ''call-1'') bdemo_query) bdemo_open = (db, Inr res) \<and>
     c \<in> set (consents bdemo_open) \<and> ac_status c = ''ACTIVE''"
proof -
  have q: "iq_consent_id bdemo_query = ''aac_1''" "iq_account_token bdemo_query = ''acct''"
    "py_upper (iq_information_type bdemo_query) = ''BALANCE''"
    "iq_client_idempotency_key bdemo_query = ''fi-1''" by (simp_all add: bdemo_query_def) code_simp
  have c: "find_consent (bdemo_env ''a'') bdemo_open (bdemo_scope ''call-1'') ''aac_1'' True = Inr bdemo_consent"
    "ac_account_tokens bdemo_consent = [''acct'']" "ac_information_types bdemo_consent = [''BALANCE'']"
    "ac_purpose bdemo_consent = ''p''"
    by (simp_all add: find_consent_def bdemo_consent_def timedelta_defs)
  obtain db res where op: "fetch_information (bdemo_env ''a'') (bdemo_scope ''call-1'') bdemo_query bdemo_open = Inr (db, res)"
    by (simp add: fetch_information_def q c Let_def information_kinds_def bdemo_find_account information_payload_def)
  then have "bank_constraints db"
    by (auto simp: fetch_information_def q c Let_def information_kinds_def bdemo_find_account information_payload_def
        bank_constraints_def bank_audit_def)
  with op have "bank_session (fetch_information (bdemo_env ''a'') (bdemo_scope ''call-1'') bdemo_query) bdemo_open = (db, Inr res)"
    by (simp add: bank_session_ok)
  with bank_information_consented [OF this] show ?thesis by blast
qed

theorem bank_revocation_final_witness:
  "\<exists>e. bank_session (fetch_information (bdemo_env ''b'') (bdemo_scope ''call-1'') bdemo_query) bdemo_revoked =
     (bdemo_revoked, Inl e)"
proof (rule bank_revocation_final [where c = "revoke (bdemo_env ''a'') bdemo_consent" and db = bdemo_revoked and qs = "[]"])
  show "bank_inv bdemo_revoked"
    using bdemo_open_inv
    by (simp add: bank_inv_def bank_constraints_def transfers_ok_def holds_ok_def reversals_ok_def solvent_def
        entries_ok_def bdemo_revoked_def)
qed (simp_all add: bdemo_revoked_def revoke_def bdemo_query_def bdemo_consent_def)

theorem bank_hold_round_trip_witness:
  "\<exists>db res. bank_session (release_hold (bdemo_env ''b'') (bdemo_scope ''call-2'') ''hold_a0'') bdemo_held = (db, Inr res) \<and>
     bank_accounts db = [bdemo_account]"
proof -
  from bdemo_release obtain db res where rel:
    "bank_session (release_hold (bdemo_env ''b'') (bdemo_scope ''call-2'')
      (prefixed_id ''hold_'' (benv_uuid (bdemo_env ''a'') 0))) bdemo_held = (db, Inr res)" by auto
  have "holds bdemo_held = [bdemo_hold]" by (simp add: bdemo_held_def bank_audit_def bank_event_def)
  then have "bdemo_held \<noteq> bdemo_open" by auto
  from bank_hold_round_trip [OF bdemo_place this rel] rel show ?thesis by auto
qed

end
