(* ===== verification/Canonical.thy ===== *)
theory Canonical
  imports PyJson Sha256
begin

text \<open>
  The canonical form and digest of the platform (packages/tools/canonical.py):
  \<open>json.dumps\<close> with \<open>ensure_ascii=False\<close>, so that characters outside ASCII are printed as
  they are. Escaping them afterwards gives the ASCII text of \<open>PyJson\<close>; hence this text,
  too, determines the document, and its SHA-256 digest binds every field up to a collision.
\<close>

definition json_escape_raw :: "char \<Rightarrow> string" where
  "json_escape_raw c = (if 127 \<le> (of_char c :: nat) then [c] else json_escape c)"

definition dump_str_raw :: "string \<Rightarrow> string" where
  "dump_str_raw s = quote_char # concat (map json_escape_raw s) @ [quote_char]"

fun dump_raw :: "json \<Rightarrow> string" where
  "dump_raw (JStr s) = dump_str_raw s"
| "dump_raw (JList xs) = ''['' @ join '','' (map dump_raw xs) @ '']''"
| "dump_raw (JObj kvs) =
     CHR ''{'' # join '','' (map (\<lambda>kv. dump_str_raw (fst kv) @ '':'' @ dump_raw (snd kv)) kvs) @ ''}''"
| "dump_raw v = dump v"

definition canonical_json :: "json \<Rightarrow> string" where
  "canonical_json v = dump_raw (canon v)"

definition canonical_hash :: "json \<Rightarrow> string" where
  "canonical_hash v = sha256_hex (canonical_json v)"

section \<open>The text determines the document\<close>

definition to_ascii :: "string \<Rightarrow> string" where
  "to_ascii s = concat (map (\<lambda>c. if 127 \<le> (of_char c :: nat) then json_escape c else [c]) s)"

lemma to_ascii_simps [simp]:
  "to_ascii [] = []" "to_ascii (s @ t) = to_ascii s @ to_ascii t"
  "to_ascii (c # s) = (if 127 \<le> (of_char c :: nat) then json_escape c else [c]) @ to_ascii s"
  by (simp_all add: to_ascii_def)

lemma to_ascii_plain: "\<forall>c\<in>set s. (of_char c :: nat) < 127 \<Longrightarrow> to_ascii s = s"
  by (induction s) (auto simp: not_le [symmetric])

lemma to_ascii_escape: "to_ascii (json_escape_raw c) = json_escape c"
proof (cases "127 \<le> (of_char c :: nat)")
  case True
  then show ?thesis by (simp add: json_escape_raw_def)
next
  case False
  have "(of_char (hex_char d) :: nat) < 127" if "d < 16" for d
    using that by (simp add: hex_char_def take_bit_eq_mod)
  then have "(of_char d :: nat) < 127" if "d \<in> set (json_escape c)" for d
    using that False by (auto simp: json_escape_def Let_def split: if_splits)
  then show ?thesis using False by (simp add: json_escape_raw_def to_ascii_plain)
qed

lemma to_ascii_str: "to_ascii (dump_str_raw s) = dump_str s"
proof -
  have "to_ascii (concat (map json_escape_raw s)) = concat (map json_escape s)"
    by (induction s) (simp_all add: to_ascii_escape)
  then show ?thesis by (simp add: dump_str_raw_def dump_str_def quote_char_def)
qed

lemma to_ascii_join:
  "(\<And>x. x \<in> set xs \<Longrightarrow> to_ascii (f x) = g x) \<Longrightarrow> to_ascii (join '','' (map f xs)) = join '','' (map g xs)"
  by (induction xs) (auto simp: join_Cons)

lemma to_ascii_int: "to_ascii (int_str n) = int_str n"
proof (rule to_ascii_plain, rule ballI)
  fix c assume "c \<in> set (int_str n)"
  then have "is_digit c \<or> c = CHR ''-''" by (auto simp: int_str_def dest: nat_str_digits split: if_splits)
  then show "(of_char c :: nat) < 127" by (auto simp: is_digit_def)
qed

lemma to_ascii_dump: "to_ascii (dump_raw v) = dump v"
proof (induction v)
  case (JList xs)
  then have "to_ascii (join '','' (map dump_raw xs)) = join '','' (map dump xs)"
    by (rule to_ascii_join)
  then show ?case by simp
next
  case (JObj kvs)
  have "to_ascii (join '','' (map (\<lambda>kv. dump_str_raw (fst kv) @ '':'' @ dump_raw (snd kv)) kvs)) =
    join '','' (map (\<lambda>kv. dump_str (fst kv) @ '':'' @ dump (snd kv)) kvs)"
    by (rule to_ascii_join) (auto simp: to_ascii_str intro: JObj snds.intros)
  then show ?case by simp
qed (simp_all add: to_ascii_str to_ascii_int)

lemma canonical_json_inject: "canonical_json v = canonical_json w \<longleftrightarrow> canon v = canon w"
  using to_ascii_dump dump_inject by (metis canonical_json_def)

lemma canonical_hash_eqD:
  assumes "canonical_hash v = canonical_hash w"
  shows "canon v = canon w \<or> sha256_collision (canonical_json v) (canonical_json w)"
  using sha256_hex_eqD [of "canonical_json v" "canonical_json w"] assms
  by (simp add: canonical_hash_def canonical_json_inject)

end
