(* ===== verification/AuditLog.thy ===== *)
theory AuditLog
  imports Canonical PyTime
begin

text \<open>
  The audit log and the outbox of the platform (packages/audit/service.py,
  persistence/models/audit.py). Every event of a tenant carries its sequence number, the
  digest of its predecessor and the digest of its own canonical document: the log is a
  hash chain per tenant, and a chain is determined by the digest of its last event up to a
  SHA-256 collision.
\<close>

record audit_event =
  ae_id :: string
  ae_tenant_id :: string
  ae_sequence :: int
  ae_actor_type :: string
  ae_actor_id :: string
  ae_event_type :: string
  ae_subject_type :: string
  ae_subject_id :: string
  ae_payload :: dict
  ae_correlation_id :: string
  ae_previous_hash :: "string option"
  ae_event_hash :: string
  ae_occurred_at :: time

record outbox_event =
  ob_id :: string
  ob_tenant_id :: string
  ob_aggregate_type :: string
  ob_aggregate_id :: string
  ob_aggregate_version :: int
  ob_event_type :: string
  ob_schema_version :: string
  ob_payload :: dict
  ob_correlation_id :: string
  ob_created_at :: time
  ob_published_at :: "time option"
  ob_attempt_count :: int
  ob_last_error :: "string option"

text \<open>\<open>order_by(column.desc()).limit(1)\<close>: a row with the greatest value of the column.\<close>

definition latest :: "('r \<Rightarrow> int) \<Rightarrow> 'r list \<Rightarrow> 'r option" where
  "latest column rows = (case sort_key (\<lambda>r. - column r) rows of [] \<Rightarrow> None | r # _ \<Rightarrow> Some r)"

text \<open>The arguments of \<open>append_audit_event\<close>.\<close>

record audit_entry =
  an_tenant_id :: string
  an_actor_type :: string
  an_actor_id :: string
  an_event_type :: string
  an_subject_type :: string
  an_subject_id :: string
  an_correlation_id :: string
  an_payload :: dict

definition audit_document :: "audit_entry \<Rightarrow> int \<Rightarrow> string option \<Rightarrow> time \<Rightarrow> dict" where
  "audit_document a sequence previous_hash occurred_at =
     [(''tenant_id'', JStr (an_tenant_id a)), (''sequence'', JInt sequence),
      (''actor_type'', JStr (an_actor_type a)), (''actor_id'', JStr (an_actor_id a)),
      (''event_type'', JStr (an_event_type a)), (''subject_type'', JStr (an_subject_type a)),
      (''subject_id'', JStr (an_subject_id a)), (''correlation_id'', JStr (an_correlation_id a)),
      (''payload'', JObj (an_payload a)), (''previous_hash'', JOpt previous_hash),
      (''occurred_at'', JStr (iso_utc occurred_at))]"

definition append_audit_event :: "string \<Rightarrow> time \<Rightarrow> audit_entry \<Rightarrow> audit_event list \<Rightarrow> audit_event list" where
  "append_audit_event uuid now a events =
     (let last_event = latest ae_sequence (scalars (\<lambda>e. ae_tenant_id e = an_tenant_id a) events);
          sequence = (case last_event of Some e \<Rightarrow> ae_sequence e + 1 | None \<Rightarrow> 1);
          previous_hash = map_option ae_event_hash last_event;
          event_hash = sha256_hex (json_dumps (JObj (audit_document a sequence previous_hash now)))
      in events @
        [\<lparr>ae_id = uuid, ae_tenant_id = an_tenant_id a, ae_sequence = sequence,
          ae_actor_type = an_actor_type a, ae_actor_id = an_actor_id a, ae_event_type = an_event_type a,
          ae_subject_type = an_subject_type a, ae_subject_id = an_subject_id a, ae_payload = an_payload a,
          ae_correlation_id = an_correlation_id a, ae_previous_hash = previous_hash,
          ae_event_hash = event_hash, ae_occurred_at = now\<rparr>])"

definition enqueue_outbox ::
    "string \<Rightarrow> time \<Rightarrow> string \<Rightarrow> string \<Rightarrow> string \<Rightarrow> int \<Rightarrow> string \<Rightarrow> string \<Rightarrow> dict \<Rightarrow>
      outbox_event list \<Rightarrow> outbox_event list" where
  "enqueue_outbox uuid now tenant_id aggregate_type aggregate_id aggregate_version event_type correlation_id
     payload events = events @
       [\<lparr>ob_id = uuid, ob_tenant_id = tenant_id, ob_aggregate_type = aggregate_type,
         ob_aggregate_id = aggregate_id, ob_aggregate_version = aggregate_version, ob_event_type = event_type,
         ob_schema_version = ''1.0'', ob_payload = payload, ob_correlation_id = correlation_id,
         ob_created_at = now, ob_published_at = None, ob_attempt_count = 0, ob_last_error = None\<rparr>]"

definition audit_constraints :: "audit_event list \<Rightarrow> bool" where
  "audit_constraints events \<longleftrightarrow> unique_by (Some \<circ> ae_id) events \<and>
     unique_by (\<lambda>e. Some (ae_tenant_id e, ae_sequence e)) events"

section \<open>The hash chain\<close>

definition entry_of :: "audit_event \<Rightarrow> audit_entry" where
  "entry_of e = \<lparr>an_tenant_id = ae_tenant_id e, an_actor_type = ae_actor_type e, an_actor_id = ae_actor_id e,
     an_event_type = ae_event_type e, an_subject_type = ae_subject_type e, an_subject_id = ae_subject_id e,
     an_correlation_id = ae_correlation_id e, an_payload = ae_payload e\<rparr>"

definition document_of :: "audit_event \<Rightarrow> json" where
  "document_of e = JObj (audit_document (entry_of e) (ae_sequence e) (ae_previous_hash e) (ae_occurred_at e))"

fun chained :: "string option \<Rightarrow> int \<Rightarrow> audit_event list \<Rightarrow> bool" where
  "chained previous n [] = True"
| "chained previous n (e # es) \<longleftrightarrow> ae_sequence e = n \<and> ae_previous_hash e = previous \<and>
     ae_event_hash e = sha256_hex (json_dumps (document_of e)) \<and> chained (Some (ae_event_hash e)) (n + 1) es"

definition tenant_log :: "string \<Rightarrow> audit_event list \<Rightarrow> audit_event list" where
  "tenant_log tenant events = filter (\<lambda>e. ae_tenant_id e = tenant) events"

definition audit_ok :: "audit_event list \<Rightarrow> bool" where
  "audit_ok events \<longleftrightarrow> (\<forall>tenant. chained None 1 (tenant_log tenant events))"

lemma audit_ok_Nil [simp]: "audit_ok []"
  by (simp add: audit_ok_def tenant_log_def)

lemma chained_snoc:
  "chained previous n (es @ [e]) \<longleftrightarrow> chained previous n es \<and> ae_sequence e = n + int (length es) \<and>
     ae_previous_hash e = (if es = [] then previous else Some (ae_event_hash (last es))) \<and>
     ae_event_hash e = sha256_hex (json_dumps (document_of e))"
  by (induction es arbitrary: previous n) auto

lemma chained_sequence: "chained previous n es \<Longrightarrow> e \<in> set es \<Longrightarrow> n \<le> ae_sequence e \<and> ae_sequence e < n + int (length es)"
  by (induction es arbitrary: previous n) force+

lemma latest_last:
  assumes "\<forall>e\<in>set es. column e < column x"
  shows "latest column (es @ [x]) = Some x"
proof -
  have "insort_key (\<lambda>r. - column r) e (x # ys) = x # insort_key (\<lambda>r. - column r) e ys"
    if "column e < column x" for e ys
    using that by simp
  then have "sort_key (\<lambda>r. - column r) (es @ [x]) = x # sort_key (\<lambda>r. - column r) es"
    using assms by (induction es) simp_all
  then show ?thesis by (simp add: latest_def)
qed

lemma latest_Nil [simp]: "latest column [] = None"
  by (simp add: latest_def)

lemma latest_Some: "latest column rows = Some r \<Longrightarrow> r \<in> set rows"
  by (metis latest_def list.case_eq_if list.set_sel(1) option.distinct(1) option.inject set_sort)

lemma chained_latest:
  assumes "chained previous n es"
  shows "latest ae_sequence es = (if es = [] then None else Some (last es))"
proof (cases es rule: rev_cases)
  case (snoc fs x)
  with assms have "chained previous n fs" "ae_sequence x = n + int (length fs)"
    by (simp_all add: chained_snoc)
  with chained_sequence [of previous n fs] have "latest ae_sequence (fs @ [x]) = Some x"
    by (intro latest_last) auto
  with snoc show ?thesis by simp
qed simp

lemma chained_last:
  assumes "chained previous n es" "es \<noteq> []"
  shows "ae_sequence (last es) = n + int (length es) - 1"
  using assms by (cases es rule: rev_cases) (auto simp: chained_snoc)

theorem append_audit_ok:
  assumes "audit_ok events"
  shows "audit_ok (append_audit_event uuid now a events)"
  unfolding audit_ok_def
proof
  fix tenant
  define es where "es = tenant_log tenant events"
  have es: "chained None 1 es" using assms by (simp add: audit_ok_def es_def)
  show "chained None 1 (tenant_log tenant (append_audit_event uuid now a events))"
  proof (cases "tenant = an_tenant_id a")
    case True
    then have "latest ae_sequence (scalars (\<lambda>e. ae_tenant_id e = an_tenant_id a) events) =
        (if es = [] then None else Some (last es))"
      using chained_latest [OF es] by (simp add: es_def tenant_log_def scalars_def)
    moreover have "tenant_log tenant (events @ [e]) = es @ [e]" if "ae_tenant_id e = an_tenant_id a" for e
      using that True by (simp add: tenant_log_def es_def)
    ultimately show ?thesis
      using es chained_last [OF es] by (auto simp: append_audit_event_def Let_def chained_snoc document_of_def entry_of_def
          audit_document_def)
  next
    case False
    then show ?thesis using es by (simp add: append_audit_event_def Let_def tenant_log_def es_def)
  qed
qed

lemma append_audit_prefix: "\<exists>e. append_audit_event uuid now a events = events @ [e]"
  by (simp add: append_audit_event_def Let_def)

section \<open>Tamper evidence\<close>

lemma document_inject:
  assumes "canon (document_of e) = canon (document_of f)"
  shows "ae_sequence e = ae_sequence f" "ae_previous_hash e = ae_previous_hash f"
proof -
  have eq: "map (canon \<circ> snd) (audit_document (entry_of e) (ae_sequence e) (ae_previous_hash e) (ae_occurred_at e)) =
    map (canon \<circ> snd) (audit_document (entry_of f) (ae_sequence f) (ae_previous_hash f) (ae_occurred_at f))"
    by (rule canon_obj_values) (use assms in \<open>simp_all add: document_of_def audit_document_def\<close>)
  show "ae_sequence e = ae_sequence f" using eq by (simp add: audit_document_def)
  show "ae_previous_hash e = ae_previous_hash f"
    using eq by (simp add: audit_document_def JOpt_def split: option.splits)
qed

definition log_collision :: "audit_event list \<Rightarrow> audit_event list \<Rightarrow> bool" where
  "log_collision es fs \<longleftrightarrow> (\<exists>e\<in>set es. \<exists>f\<in>set fs.
     sha256_collision (json_dumps (document_of e)) (json_dumps (document_of f)))"

lemma chain_determined:
  assumes "chained None 1 es" "chained None 1 fs" "es \<noteq> []" "fs \<noteq> []"
    and "ae_event_hash (last es) = ae_event_hash (last fs)"
  shows "map (canon \<circ> document_of) es = map (canon \<circ> document_of) fs \<or> log_collision es fs"
  using assms
proof (induction es arbitrary: fs rule: rev_induct)
  case (snoc e es)
  obtain fs' f where fs: "fs = fs' @ [f]" using snoc.prems(4) by (cases fs rule: rev_cases) auto
  from snoc.prems(1,2) fs have e: "chained None 1 es" "ae_sequence e = 1 + int (length es)"
      "ae_previous_hash e = (if es = [] then None else Some (ae_event_hash (last es)))"
      "ae_event_hash e = sha256_hex (json_dumps (document_of e))"
    and f: "chained None 1 fs'" "ae_sequence f = 1 + int (length fs')"
      "ae_previous_hash f = (if fs' = [] then None else Some (ae_event_hash (last fs')))"
      "ae_event_hash f = sha256_hex (json_dumps (document_of f))"
    by (simp_all add: chained_snoc)
  from snoc.prems(5) fs e(4) f(4) have "sha256_hex (json_dumps (document_of e)) = sha256_hex (json_dumps (document_of f))"
    by simp
  from json_digest_eqD [OF this] show ?case
  proof
    assume same: "canon (document_of e) = canon (document_of f)"
    have len: "length es = length fs'" using document_inject(1) [OF same] e(2) f(2) by simp
    have "map (canon \<circ> document_of) es = map (canon \<circ> document_of) fs' \<or> log_collision es fs'"
    proof (cases "es = []")
      case False
      with len have "fs' \<noteq> []" by auto
      with False document_inject(2) [OF same] e(3) f(3) have "ae_event_hash (last es) = ae_event_hash (last fs')" by simp
      with snoc.IH [OF e(1) f(1) False \<open>fs' \<noteq> []\<close>] show ?thesis by (simp add: comp_def)
    qed (use len in simp)
    with same fs show ?thesis by (auto simp: log_collision_def comp_def)
  qed (auto simp: log_collision_def fs)
qed simp

end
