(* ===== verification/Contracts.thy ===== *)
theory Contracts
  imports AuditLog
begin

text \<open>
  The messages the platform services exchange (packages/contracts): runtime context, tool
  requests, policy snapshots and the responses of Guardian, with their
  \<open>model_dump(mode="json")\<close>. Identifiers are the text of a UUID.
\<close>

section \<open>Runtime context and tool requests\<close>

record runtime_context =
  rc_tenant_id :: string
  rc_organization_id :: string
  rc_user_id :: string
  rc_session_id :: "string option"
  rc_conversation_id :: "string option"
  rc_run_id :: "string option"
  rc_case_id :: "string option"
  rc_correlation_id :: string
  rc_roles :: "string list"
  rc_consent_ids :: "string list"
  rc_policy_bundle_version :: string
  rc_locale :: string
  rc_timezone :: string

definition JStrs :: "string list \<Rightarrow> json" where
  "JStrs xs = JList (map JStr xs)"

definition context_dump :: "runtime_context \<Rightarrow> dict" where
  "context_dump c =
     [(''tenant_id'', JStr (rc_tenant_id c)), (''organization_id'', JStr (rc_organization_id c)),
      (''user_id'', JStr (rc_user_id c)), (''session_id'', JOpt (rc_session_id c)),
      (''conversation_id'', JOpt (rc_conversation_id c)), (''run_id'', JOpt (rc_run_id c)),
      (''case_id'', JOpt (rc_case_id c)), (''correlation_id'', JStr (rc_correlation_id c)),
      (''roles'', JStrs (rc_roles c)), (''consent_ids'', JStrs (rc_consent_ids c)),
      (''policy_bundle_version'', JStr (rc_policy_bundle_version c)), (''locale'', JStr (rc_locale c)),
      (''timezone'', JStr (rc_timezone c))]"

datatype risk_class = READ | SENSITIVE_READ | MUTATE | PRIVILEGED

fun risk_value :: "risk_class \<Rightarrow> string" where
  "risk_value READ = ''READ''"
| "risk_value SENSITIVE_READ = ''SENSITIVE_READ''"
| "risk_value MUTATE = ''MUTATE''"
| "risk_value PRIVILEGED = ''PRIVILEGED''"

text \<open>\<open>ToolRiskClass(value)\<close> of a string that is not a member raises \<open>ValueError\<close>.\<close>

definition risk_of :: "string \<Rightarrow> risk_class option" where
  "risk_of s = List.find (\<lambda>r. risk_value r = s) [READ, SENSITIVE_READ, MUTATE, PRIVILEGED]"

lemma risk_of_value [simp]: "risk_of (risk_value r) = Some r"
  by (cases r) (simp_all add: risk_of_def)

record canonical_tool_request =
  cq_call_id :: string
  cq_run_id :: string
  cq_agent_version_id :: "string option"
  cq_agent_name :: string
  cq_scope :: runtime_context
  cq_server_id :: string
  cq_tool_version_id :: string
  cq_canonical_name :: string
  cq_original_name :: string
  cq_normalized_arguments :: dict
  cq_purpose :: string
  cq_resource_refs :: "string list"
  cq_idempotency_key :: "string option"
  cq_request_hash :: string

definition request_dump :: "canonical_tool_request \<Rightarrow> dict" where
  "request_dump q =
     [(''call_id'', JStr (cq_call_id q)), (''run_id'', JStr (cq_run_id q)),
      (''agent_version_id'', JOpt (cq_agent_version_id q)), (''agent_name'', JStr (cq_agent_name q)),
      (''scope'', JObj (context_dump (cq_scope q))), (''server_id'', JStr (cq_server_id q)),
      (''tool_version_id'', JStr (cq_tool_version_id q)), (''canonical_name'', JStr (cq_canonical_name q)),
      (''original_name'', JStr (cq_original_name q)),
      (''normalized_arguments'', JObj (cq_normalized_arguments q)), (''purpose'', JStr (cq_purpose q)),
      (''resource_refs'', JStrs (cq_resource_refs q)), (''idempotency_key'', JOpt (cq_idempotency_key q)),
      (''request_hash'', JStr (cq_request_hash q))]"

section \<open>Guardian\<close>

datatype guardian_outcome = ALLOW | VERIFY | ESCALATE | BLOCK

fun outcome_value :: "guardian_outcome \<Rightarrow> string" where
  "outcome_value ALLOW = ''ALLOW''"
| "outcome_value VERIFY = ''VERIFY''"
| "outcome_value ESCALATE = ''ESCALATE''"
| "outcome_value BLOCK = ''BLOCK''"

definition outcome_of :: "string \<Rightarrow> guardian_outcome option" where
  "outcome_of s = List.find (\<lambda>r. outcome_value r = s) [ALLOW, VERIFY, ESCALATE, BLOCK]"

lemma outcome_of_value [simp]: "outcome_of (outcome_value r) = Some r"
  by (cases r) (simp_all add: outcome_of_def)

record tool_policy_snapshot =
  ps_risk_class :: risk_class
  ps_required_roles :: "string list"
  ps_required_purposes :: "string list"
  ps_required_consents :: "string list"
  ps_allowed_agents :: "string list"
  ps_approval_mode :: string
  ps_side_effects :: bool
  ps_idempotent :: bool

definition policy_dump :: "tool_policy_snapshot \<Rightarrow> dict" where
  "policy_dump p =
     [(''risk_class'', JStr (risk_value (ps_risk_class p))), (''required_roles'', JStrs (ps_required_roles p)),
      (''required_purposes'', JStrs (ps_required_purposes p)),
      (''required_consents'', JStrs (ps_required_consents p)), (''allowed_agents'', JStrs (ps_allowed_agents p)),
      (''approval_mode'', JStr (ps_approval_mode p)), (''side_effects'', JBool (ps_side_effects p)),
      (''idempotent'', JBool (ps_idempotent p))]"

record guardian_evaluation_request =
  ge_request :: canonical_tool_request
  ge_policy :: tool_policy_snapshot

definition evaluation_dump :: "guardian_evaluation_request \<Rightarrow> dict" where
  "evaluation_dump e = [(''request'', JObj (request_dump (ge_request e))), (''policy'', JObj (policy_dump (ge_policy e)))]"

record guardian_evaluation_response =
  gr_decision_id :: string
  gr_outcome :: guardian_outcome
  gr_reason_codes :: "string list"
  gr_constraints :: dict
  gr_policy_bundle_version :: string
  gr_approval_id :: "string option"
  gr_authorization_id :: "string option"
  gr_authorization_token :: "string option"
  gr_expires_at :: "time option"

text \<open>A datetime prints as ISO text with \<open>Z\<close> for UTC in a JSON dump of pydantic.\<close>

definition json_datetime :: "time \<Rightarrow> string" where
  "json_datetime t = (let s = isoformat \<lparr>wall = t, tzoffset = None\<rparr> in s @ ''Z'')"

definition response_dump :: "guardian_evaluation_response \<Rightarrow> dict" where
  "response_dump r =
     [(''decision_id'', JStr (gr_decision_id r)), (''outcome'', JStr (outcome_value (gr_outcome r))),
      (''reason_codes'', JStrs (gr_reason_codes r)), (''constraints'', JObj (gr_constraints r)),
      (''policy_bundle_version'', JStr (gr_policy_bundle_version r)), (''approval_id'', JOpt (gr_approval_id r)),
      (''authorization_id'', JOpt (gr_authorization_id r)),
      (''authorization_token'', JOpt (gr_authorization_token r)),
      (''expires_at'', JOpt (map_option json_datetime (gr_expires_at r)))]"

record approval_action_create =
  aa_action :: string
  aa_actor_user_id :: string
  aa_actor_roles :: "string list"
  aa_reason :: string
  aa_correlation_id :: string

record consume_request =
  cs_token :: string
  cs_call_id :: string
  cs_request_hash :: string
  cs_correlation_id :: string

record consume_result =
  cr_authorization_id :: string
  cr_consumed :: bool
  cr_constraints :: dict

record approved_request =
  ar_call_id :: string
  ar_request_hash :: string
  ar_correlation_id :: string

end
