(* ===== verification/Guardian.thy ===== *)
theory Guardian
  imports Contracts PyDecimal
begin

text \<open>
  Guardian, the authorization plane (packages/guardian, apps/guardian/main.py): the policy
  engine, decisions, human approvals and single-use authorizations, with the tables of
  persistence/models/guardian.py and the audit log. The JWT library is a parameter (\<open>jwt\<close>):
  \<open>jwt_encode claims key\<close> is the signed token and \<open>jwt_decode now token key\<close> the verified
  claims, or nothing when the library rejects the token. \<open>datetime.now(UTC)\<close> is read once per
  request and is also the \<open>now()\<close> of the database; the identifiers of \<open>uuid4()\<close> come from the
  environment. A row written before an exception is rolled back with the session, so
  the assignments that precede a \<open>raise\<close> have no effect.
\<close>

section \<open>Tables\<close>

record guardian_decision =
  gd_id :: string
  gd_tenant_id :: string
  gd_organization_id :: string
  gd_user_id :: string
  gd_run_id :: string
  gd_tool_call_id :: string
  gd_request_hash :: string
  gd_evaluation_hash :: string
  gd_policy_bundle_version :: string
  gd_risk_class :: string
  gd_outcome :: string
  gd_reason_codes :: "string list"
  gd_constraints :: dict
  gd_expires_at :: time
  gd_created_at :: time

record approval_request =
  ap_id :: string
  ap_tenant_id :: string
  ap_decision_id :: string
  ap_tool_call_id :: string
  ap_requested_for_user_id :: string
  ap_summary :: string
  ap_risk_class :: string
  ap_status :: string
  ap_required_approver_roles :: "string list"
  ap_expires_at :: time
  ap_resolved_at :: "time option"
  ap_version :: int
  ap_created_at :: time
  ap_updated_at :: time

record approval_action =
  ax_id :: string
  ax_tenant_id :: string
  ax_approval_request_id :: string
  ax_actor_user_id :: string
  ax_actor_roles :: "string list"
  ax_action :: string
  ax_reason :: string
  ax_correlation_id :: string
  ax_created_at :: time

record authorization =
  au_id :: string
  au_tenant_id :: string
  au_decision_id :: string
  au_tool_call_id :: string
  au_request_hash :: string
  au_token_id :: string
  au_token_hash :: string
  au_constraints :: dict
  au_status :: string
  au_issued_at :: time
  au_expires_at :: time
  au_consumed_at :: "time option"
  au_consumed_correlation_id :: "string option"

record guardian_db =
  decisions :: "guardian_decision list"
  approvals :: "approval_request list"
  approval_actions :: "approval_action list"
  authorizations :: "authorization list"
  audit_events :: "audit_event list"

definition guardian_constraints :: "guardian_db \<Rightarrow> bool" where
  "guardian_constraints db \<longleftrightarrow>
     unique_by (Some \<circ> gd_id) (decisions db) \<and>
     unique_by (Some \<circ> ap_id) (approvals db) \<and>
     unique_by (Some \<circ> ap_decision_id) (approvals db) \<and>
     unique_by (Some \<circ> ax_id) (approval_actions db) \<and>
     unique_by (Some \<circ> au_id) (authorizations db) \<and>
     unique_by (Some \<circ> au_token_id) (authorizations db) \<and>
     unique_by (Some \<circ> au_token_hash) (authorizations db) \<and>
     audit_constraints (audit_events db)"

datatype guardian_error =
    GuardianServiceError string string
  | GuardianValueError
  | GuardianIntegrityError
  | GuardianHTTPError nat string
  | GuardianTypeError
  | GuardianValidationError

record guardian_env =
  genv_now :: time
  genv_uuid :: "nat \<Rightarrow> string"
  genv_signing_key :: "string option"
  genv_verify_key :: "string option"
  genv_service_token :: "string option"

record jwt_library =
  jwt_encode :: "dict \<Rightarrow> string \<Rightarrow> string"
  jwt_decode :: "time \<Rightarrow> string \<Rightarrow> string \<Rightarrow> dict option"

type_synonym 'a guardian_op = "guardian_db \<Rightarrow> guardian_error + guardian_db \<times> 'a"

section \<open>Policy\<close>

record policy_result =
  pr_outcome :: guardian_outcome
  pr_reason_codes :: "string list"
  pr_constraints :: dict

definition nil_uuid :: string where
  "nil_uuid = ''00000000-0000-0000-0000-000000000000''"

definition blocked :: "string \<Rightarrow> policy_result" where
  "blocked code = \<lparr>pr_outcome = BLOCK, pr_reason_codes = [code], pr_constraints = []\<rparr>"

definition exact_constraints :: "string \<Rightarrow> dict" where
  "exact_constraints request_hash = [(''exact_request_hash'', JStr request_hash), (''single_use'', JBool True)]"

definition policy_evaluate :: "guardian_evaluation_request \<Rightarrow> policy_result" where
  "policy_evaluate evaluation =
     (let request = ge_request evaluation; policy = ge_policy evaluation; scope = cq_scope request in
      if cq_request_hash request = [] \<or> rc_tenant_id scope = nil_uuid then blocked ''INVALID_SCOPE''
      else if ps_allowed_agents policy \<noteq> [] \<and> cq_agent_name request \<notin> set (ps_allowed_agents policy)
      then blocked ''AGENT_NOT_GRANTED''
      else if \<not> set (ps_required_roles policy) \<subseteq> set (rc_roles scope) then blocked ''ROLE_REQUIRED''
      else if ps_required_purposes policy \<noteq> [] \<and> cq_purpose request \<notin> set (ps_required_purposes policy)
      then blocked ''PURPOSE_NOT_ALLOWED''
      else if \<not> set (ps_required_consents policy) \<subseteq> set (rc_consent_ids scope) then blocked ''CONSENT_REQUIRED''
      else if ps_side_effects policy \<and> (cq_idempotency_key request = None \<or> cq_idempotency_key request = Some [])
      then blocked ''IDEMPOTENCY_REQUIRED''
      else if ps_approval_mode policy = ''ALWAYS'' \<or> ps_risk_class policy = PRIVILEGED
      then \<lparr>pr_outcome = ESCALATE, pr_reason_codes = [''HUMAN_APPROVAL_REQUIRED''],
             pr_constraints = exact_constraints (cq_request_hash request)\<rparr>
      else if ps_risk_class policy = SENSITIVE_READ \<or> ps_risk_class policy = MUTATE
      then \<lparr>pr_outcome = ALLOW, pr_reason_codes = [''PROTECTED_POLICY_SATISFIED''],
             pr_constraints = exact_constraints (cq_request_hash request)\<rparr>
      else if ps_risk_class policy = READ \<and> ps_approval_mode policy = ''NEVER''
      then \<lparr>pr_outcome = ALLOW, pr_reason_codes = [''SAFE_READ''], pr_constraints = []\<rparr>
      else blocked ''NO_ALLOW_RULE'')"

section \<open>Signing\<close>

text \<open>\<open>key.replace("\\n", "\n")\<close>: a backslash followed by an n becomes a newline.\<close>

fun unescape_newlines :: "string \<Rightarrow> string" where
  "unescape_newlines (a # b # s) =
     (if a = CHR 0x5C \<and> b = CHR ''n'' then CHR 0x0A # unescape_newlines s else a # unescape_newlines (b # s))"
| "unescape_newlines s = s"

definition authorization_claims ::
    "guardian_env \<Rightarrow> string \<Rightarrow> string \<Rightarrow> string \<Rightarrow> string \<Rightarrow> string \<Rightarrow> string \<Rightarrow> dict \<Rightarrow> dict" where
  "authorization_claims env authorization_id token_id tenant_id call_id decision_id request_hash constraints =
     [(''iss'', JStr ''xyena-guardian''), (''aud'', JStr ''xyena-mcp''), (''sub'', JStr authorization_id),
      (''jti'', JStr token_id), (''tenant_id'', JStr tenant_id), (''call_id'', JStr call_id),
      (''decision_id'', JStr decision_id), (''request_hash'', JStr request_hash),
      (''constraints'', JObj constraints), (''iat'', JInt (genv_now env div seconds 1)),
      (''nbf'', JInt (genv_now env div seconds 1)),
      (''exp'', JInt ((genv_now env + seconds 120) div seconds 1))]"

definition signer_issue ::
    "jwt_library \<Rightarrow> guardian_env \<Rightarrow> string \<Rightarrow> string \<Rightarrow> guardian_decision \<Rightarrow> (string \<times> time) option" where
  "signer_issue jwt env authorization_id token_id decision =
     map_option (\<lambda>private_key.
       (jwt_encode jwt (authorization_claims env authorization_id token_id (gd_tenant_id decision)
           (gd_tool_call_id decision) (gd_id decision) (gd_request_hash decision) (gd_constraints decision))
         (unescape_newlines private_key),
        genv_now env + seconds 120)) (genv_signing_key env)"

definition signer_verify :: "jwt_library \<Rightarrow> guardian_env \<Rightarrow> string \<Rightarrow> string + dict" where
  "signer_verify jwt env token =
     (case genv_verify_key env of
        None \<Rightarrow> Inl ''Guardian verification key is not configured.''
      | Some verify_key \<Rightarrow>
          (case jwt_decode jwt (genv_now env) token (unescape_newlines verify_key) of
             None \<Rightarrow> Inl ''Guardian authorization is invalid.'' | Some claims \<Rightarrow> Inr claims))"

definition token_hash :: "string \<Rightarrow> string" where
  "token_hash token = sha256_hex token"

section \<open>Decisions\<close>

definition new_decision :: "guardian_env \<Rightarrow> guardian_evaluation_request \<Rightarrow> guardian_decision" where
  "new_decision env evaluation =
     (let request = ge_request evaluation; scope = cq_scope request; result = policy_evaluate evaluation in
      \<lparr>gd_id = genv_uuid env 0, gd_tenant_id = rc_tenant_id scope, gd_organization_id = rc_organization_id scope,
       gd_user_id = rc_user_id scope, gd_run_id = cq_run_id request, gd_tool_call_id = cq_call_id request,
       gd_request_hash = cq_request_hash request,
       gd_evaluation_hash = canonical_hash (JObj (evaluation_dump evaluation)),
       gd_policy_bundle_version = rc_policy_bundle_version scope,
       gd_risk_class = risk_value (ps_risk_class (ge_policy evaluation)),
       gd_outcome = outcome_value (pr_outcome result), gd_reason_codes = pr_reason_codes result,
       gd_constraints = pr_constraints result, gd_expires_at = genv_now env + minutes 15,
       gd_created_at = genv_now env\<rparr>)"

definition new_approval :: "guardian_env \<Rightarrow> guardian_evaluation_request \<Rightarrow> approval_request" where
  "new_approval env evaluation =
     (let request = ge_request evaluation; scope = cq_scope request in
      \<lparr>ap_id = genv_uuid env 1, ap_tenant_id = rc_tenant_id scope, ap_decision_id = genv_uuid env 0,
       ap_tool_call_id = cq_call_id request, ap_requested_for_user_id = rc_user_id scope,
       ap_summary = ''Approve '' @ cq_canonical_name request @ '' for purpose: '' @ cq_purpose request,
       ap_risk_class = risk_value (ps_risk_class (ge_policy evaluation)), ap_status = ''PENDING'',
       ap_required_approver_roles = [''guardian-approver''], ap_expires_at = genv_now env + minutes 15,
       ap_resolved_at = None, ap_version = 1, ap_created_at = genv_now env, ap_updated_at = genv_now env\<rparr>)"

definition new_authorization ::
    "guardian_env \<Rightarrow> guardian_decision \<Rightarrow> string \<Rightarrow> time \<Rightarrow> authorization" where
  "new_authorization env decision token expires_at =
     \<lparr>au_id = genv_uuid env 3, au_tenant_id = gd_tenant_id decision, au_decision_id = gd_id decision,
      au_tool_call_id = gd_tool_call_id decision, au_request_hash = gd_request_hash decision,
      au_token_id = genv_uuid env 4, au_token_hash = token_hash token,
      au_constraints = gd_constraints decision, au_status = ''ACTIVE'', au_issued_at = genv_now env,
      au_expires_at = expires_at, au_consumed_at = None, au_consumed_correlation_id = None\<rparr>"

definition issue_authorization ::
    "jwt_library \<Rightarrow> guardian_env \<Rightarrow> guardian_decision \<Rightarrow> guardian_evaluation_response guardian_op" where
  "issue_authorization jwt env decision db =
     (case signer_issue jwt env (genv_uuid env 3) (genv_uuid env 4) decision of
        None \<Rightarrow> Inl (GuardianServiceError ''SIGNING_UNAVAILABLE'' ''Guardian signing key is not configured.'')
      | Some (token, expires_at) \<Rightarrow>
          let authorization = new_authorization env decision token expires_at in
          Inr (db\<lparr>authorizations := authorizations db @ [authorization]\<rparr>,
            \<lparr>gr_decision_id = gd_id decision, gr_outcome = ALLOW,
             gr_reason_codes = [''EXACT_AUTHORIZATION_ISSUED''], gr_constraints = gd_constraints decision,
             gr_policy_bundle_version = gd_policy_bundle_version decision, gr_approval_id = None,
             gr_authorization_id = Some (au_id authorization), gr_authorization_token = Some token,
             gr_expires_at = Some expires_at\<rparr>))"

definition decision_response ::
    "guardian_decision \<Rightarrow> guardian_outcome \<Rightarrow> string list \<Rightarrow> approval_request option \<Rightarrow> guardian_evaluation_response" where
  "decision_response decision outcome reason_codes approval =
     \<lparr>gr_decision_id = gd_id decision, gr_outcome = outcome, gr_reason_codes = reason_codes,
      gr_constraints = gd_constraints decision, gr_policy_bundle_version = gd_policy_bundle_version decision,
      gr_approval_id = map_option ap_id approval, gr_authorization_id = None, gr_authorization_token = None,
      gr_expires_at = Some (gd_expires_at decision)\<rparr>"

definition resolve_existing ::
    "jwt_library \<Rightarrow> guardian_env \<Rightarrow> guardian_decision \<Rightarrow> guardian_evaluation_response guardian_op" where
  "resolve_existing jwt env decision db =
     (let approval = scalar (\<lambda>p. ap_decision_id p = gd_id decision) (approvals db) in
      if (case approval of None \<Rightarrow> False | Some p \<Rightarrow> ap_status p = ''APPROVED'')
      then issue_authorization jwt env decision db
      else if (case approval of None \<Rightarrow> False | Some p \<Rightarrow> ap_status p = ''REJECTED'' \<or> ap_status p = ''EXPIRED'')
      then Inr (db, decision_response decision BLOCK [''APPROVAL_'' @ ap_status (the approval)] approval)
      else if gd_outcome decision = ''ALLOW'' then issue_authorization jwt env decision db
      else
        (case outcome_of (gd_outcome decision) of
           None \<Rightarrow> Inl GuardianValueError
         | Some outcome \<Rightarrow> Inr (db, decision_response decision outcome (gd_reason_codes decision) approval)))"

definition decision_entry :: "guardian_evaluation_request \<Rightarrow> guardian_decision \<Rightarrow> audit_entry" where
  "decision_entry evaluation decision =
     (let scope = cq_scope (ge_request evaluation); result = policy_evaluate evaluation in
      \<lparr>an_tenant_id = rc_tenant_id scope, an_actor_type = ''SERVICE'', an_actor_id = ''guardian'',
       an_event_type = ''guardian.decision.created'', an_subject_type = ''GUARDIAN_DECISION'',
       an_subject_id = gd_id decision, an_correlation_id = rc_correlation_id scope,
       an_payload = [(''outcome'', JStr (outcome_value (pr_outcome result))),
         (''reason_codes'', JStrs (pr_reason_codes result))]\<rparr>)"

definition guardian_evaluate ::
    "jwt_library \<Rightarrow> guardian_env \<Rightarrow> guardian_evaluation_request \<Rightarrow> guardian_evaluation_response guardian_op" where
  "guardian_evaluate jwt env evaluation db =
     (let request = ge_request evaluation in
      case latest gd_created_at (scalars (\<lambda>d. gd_tenant_id d = rc_tenant_id (cq_scope request)
             \<and> gd_tool_call_id d = cq_call_id request \<and> gd_request_hash d = cq_request_hash request
             \<and> gd_expires_at d > genv_now env) (decisions db)) of
        Some existing \<Rightarrow> resolve_existing jwt env existing db
      | None \<Rightarrow>
          let result = policy_evaluate evaluation;
              decision = new_decision env evaluation;
              approval = (if pr_outcome result = ESCALATE then Some (new_approval env evaluation) else None);
              db1 = db\<lparr>decisions := decisions db @ [decision]\<rparr>;
              db2 = (case approval of None \<Rightarrow> db1 | Some p \<Rightarrow> db1\<lparr>approvals := approvals db1 @ [p]\<rparr>);
              db3 = db2\<lparr>audit_events := append_audit_event (genv_uuid env 2) (genv_now env)
                          (decision_entry evaluation decision) (audit_events db2)\<rparr>
          in if pr_outcome result = ALLOW then issue_authorization jwt env decision db3
             else Inr (db3, decision_response decision (pr_outcome result) (pr_reason_codes result) approval))"

section \<open>Approvals\<close>

definition resolve_approval :: "guardian_env \<Rightarrow> approval_action_create \<Rightarrow> approval_request \<Rightarrow> approval_request" where
  "resolve_approval env action p =
     p\<lparr>ap_status := (if aa_action action = ''APPROVE'' then ''APPROVED'' else ''REJECTED''),
       ap_resolved_at := Some (genv_now env), ap_version := ap_version p + 1\<rparr>"

definition new_approval_action ::
    "guardian_env \<Rightarrow> string \<Rightarrow> approval_request \<Rightarrow> approval_action_create \<Rightarrow> approval_action" where
  "new_approval_action env tenant_id p action =
     \<lparr>ax_id = genv_uuid env 0, ax_tenant_id = tenant_id, ax_approval_request_id = ap_id p,
      ax_actor_user_id = aa_actor_user_id action, ax_actor_roles = aa_actor_roles action,
      ax_action = aa_action action, ax_reason = aa_reason action, ax_correlation_id = aa_correlation_id action,
      ax_created_at = genv_now env\<rparr>"

definition approval_entry :: "string \<Rightarrow> approval_request \<Rightarrow> approval_action_create \<Rightarrow> audit_entry" where
  "approval_entry tenant_id p action =
     \<lparr>an_tenant_id = tenant_id, an_actor_type = ''USER'', an_actor_id = aa_actor_user_id action,
      an_event_type = ''guardian.approval.'' @ py_lower (ap_status p), an_subject_type = ''GUARDIAN_APPROVAL'',
      an_subject_id = ap_id p, an_correlation_id = aa_correlation_id action,
      an_payload = [(''reason'', JStr (aa_reason action))]\<rparr>"

definition act_on_approval ::
    "guardian_env \<Rightarrow> string \<Rightarrow> string \<Rightarrow> approval_action_create \<Rightarrow> (approval_request \<times> bool) guardian_op" where
  "act_on_approval env approval_id tenant_id action db =
     sum_bind (found (GuardianServiceError ''APPROVAL_NOT_FOUND'' ''Approval request was not found.'')
        (scalar (\<lambda>p. ap_id p = approval_id \<and> ap_tenant_id p = tenant_id) (approvals db))) (\<lambda>approval.
     if ap_status approval \<noteq> ''PENDING''
     then Inl (GuardianServiceError ''APPROVAL_RESOLVED'' ''Approval is already resolved.'')
     else if ap_expires_at approval \<le> genv_now env
     then Inl (GuardianServiceError ''APPROVAL_EXPIRED'' ''Approval request has expired.'')
     else if \<not> set (ap_required_approver_roles approval) \<subseteq> set (aa_actor_roles action)
     then Inl (GuardianServiceError ''APPROVER_ROLE_REQUIRED'' ''Approver role is required.'')
     else
       let approval' = resolve_approval env action approval in
       Inr (db\<lparr>approvals := update_rows (\<lambda>p. ap_id p = ap_id approval)
                 (\<lambda>p. (resolve_approval env action p)\<lparr>ap_updated_at := genv_now env\<rparr>) (approvals db),
               approval_actions := approval_actions db @ [new_approval_action env tenant_id approval action],
               audit_events := append_audit_event (genv_uuid env 1) (genv_now env)
                 (approval_entry tenant_id approval' action) (audit_events db)\<rparr>,
            (approval', ap_status approval' = ''APPROVED'')))"

definition list_approvals :: "string \<Rightarrow> string \<Rightarrow> approval_request list guardian_op" where
  "list_approvals tenant_id status_filter db =
     Inr (db, sort_key (\<lambda>p. - ap_created_at p)
       (scalars (\<lambda>p. ap_tenant_id p = tenant_id \<and> (status_filter = [] \<or> ap_status p = status_filter)) (approvals db)))"

definition get_approval :: "string \<Rightarrow> string \<Rightarrow> approval_request guardian_op" where
  "get_approval approval_id tenant_id db =
     sum_bind (found (GuardianHTTPError 404 ''Approval request not found.'')
        (scalar (\<lambda>p. ap_id p = approval_id \<and> ap_tenant_id p = tenant_id) (approvals db))) (\<lambda>p. Inr (db, p))"

section \<open>Authorizations\<close>

definition consume_authorization :: "guardian_env \<Rightarrow> string \<Rightarrow> authorization \<Rightarrow> authorization" where
  "consume_authorization env correlation_id a =
     a\<lparr>au_status := ''CONSUMED'', au_consumed_at := Some (genv_now env),
       au_consumed_correlation_id := Some correlation_id\<rparr>"

definition guardian_consume :: "jwt_library \<Rightarrow> guardian_env \<Rightarrow> consume_request \<Rightarrow> consume_result guardian_op" where
  "guardian_consume jwt env request db =
     (case signer_verify jwt env (cs_token request) of
        Inl message \<Rightarrow> Inl (GuardianServiceError ''AUTHORIZATION_INVALID'' message)
      | Inr claims \<Rightarrow>
          if map_of claims ''call_id'' \<noteq> Some (JStr (cs_call_id request))
            \<or> map_of claims ''request_hash'' \<noteq> Some (JStr (cs_request_hash request))
          then Inl (GuardianServiceError ''AUTHORIZATION_SCOPE_MISMATCH'' ''Authorization scope mismatch.'')
          else
          (case scalar (\<lambda>a. au_token_hash a = token_hash (cs_token request)
                  \<and> au_tool_call_id a = cs_call_id request \<and> au_request_hash a = cs_request_hash request)
                (authorizations db) of
             None \<Rightarrow> Inl (GuardianServiceError ''AUTHORIZATION_NOT_ACTIVE'' ''Authorization is not active.'')
           | Some authorization \<Rightarrow>
               if au_status authorization \<noteq> ''ACTIVE''
               then Inl (GuardianServiceError ''AUTHORIZATION_NOT_ACTIVE'' ''Authorization is not active.'')
               else if au_expires_at authorization \<le> genv_now env
               then Inl (GuardianServiceError ''AUTHORIZATION_EXPIRED'' ''Authorization has expired.'')
               else
                 Inr (db\<lparr>authorizations := update_rows (\<lambda>a. au_id a = au_id authorization)
                        (consume_authorization env (cs_correlation_id request)) (authorizations db)\<rparr>,
                   \<lparr>cr_authorization_id = au_id authorization, cr_consumed = True,
                    cr_constraints = au_constraints authorization\<rparr>)))"

definition authorize_approved ::
    "jwt_library \<Rightarrow> guardian_env \<Rightarrow> string \<Rightarrow> approved_request \<Rightarrow> guardian_evaluation_response guardian_op" where
  "authorize_approved jwt env tenant_id request db =
     (case latest (gd_created_at \<circ> fst) (filter (\<lambda>(d, p). ap_decision_id p = gd_id d
            \<and> gd_tenant_id d = tenant_id \<and> gd_tool_call_id d = ar_call_id request
            \<and> gd_request_hash d = ar_request_hash request \<and> ap_status p = ''APPROVED'')
          (List.product (decisions db) (approvals db))) of
        None \<Rightarrow> Inl (GuardianServiceError ''APPROVED_DECISION_NOT_FOUND''
                      ''No approved decision matches this exact request.'')
      | Some (decision, _) \<Rightarrow>
          if gd_expires_at decision \<le> genv_now env
          then Inl (GuardianServiceError ''DECISION_EXPIRED'' ''The approved decision has expired.'')
          else issue_authorization jwt env decision db)"

section \<open>The service\<close>

text \<open>\<open>require_service_token\<close>: \<open>secrets.compare_digest\<close> raises \<open>TypeError\<close> outside ASCII.\<close>

definition is_ascii :: "string \<Rightarrow> bool" where
  "is_ascii s \<longleftrightarrow> (\<forall>c\<in>set s. (of_char c :: nat) < 128)"

definition partition_space :: "string \<Rightarrow> string \<times> string" where
  "partition_space s = (takeWhile (\<lambda>c. c \<noteq> CHR '' '') s, drop 1 (dropWhile (\<lambda>c. c \<noteq> CHR '' '') s))"

definition require_service_token :: "string option \<Rightarrow> string option \<Rightarrow> guardian_error + unit" where
  "require_service_token configured header =
     (case configured of
        None \<Rightarrow> Inl (GuardianHTTPError 503 ''Service authentication is not configured.'')
      | Some token \<Rightarrow>
          let (scheme, supplied) = partition_space (case header of None \<Rightarrow> [] | Some h \<Rightarrow> h) in
          if py_lower scheme \<noteq> ''bearer'' then Inl (GuardianHTTPError 401 ''Invalid service token.'')
          else if \<not> is_ascii supplied \<or> \<not> is_ascii token then Inl GuardianTypeError
          else if supplied \<noteq> token then Inl (GuardianHTTPError 401 ''Invalid service token.'')
          else Inr ())"

text \<open>The length bounds of a request hash in a body (\<open>Field(min_length=64, max_length=128)\<close>).\<close>

definition valid_request_hash :: "string \<Rightarrow> bool" where
  "valid_request_hash h \<longleftrightarrow> 64 \<le> length h \<and> length h \<le> 128"

datatype guardian_route =
    EvaluateRoute guardian_evaluation_request
  | ConsumeRoute string consume_request
  | ApprovedRoute string approved_request
  | ListApprovalsRoute string string
  | GetApprovalRoute string string
  | ActRoute string string approval_action_create

datatype guardian_response =
    EvaluationResponse guardian_evaluation_response
  | ConsumeResponse consume_result
  | ApprovalResponse approval_request
  | ApprovalsResponse "approval_request list"
  | ActionResponse approval_request bool

definition responding :: "('a \<Rightarrow> guardian_response) \<Rightarrow> 'a guardian_op \<Rightarrow> guardian_response guardian_op" where
  "responding f op db = sum_bind (op db) (\<lambda>(db', a). Inr (db', f a))"

fun guardian_route_op :: "jwt_library \<Rightarrow> guardian_env \<Rightarrow> guardian_route \<Rightarrow> guardian_response guardian_op" where
  "guardian_route_op jwt env (EvaluateRoute body) = responding EvaluationResponse (guardian_evaluate jwt env body)"
| "guardian_route_op jwt env (ConsumeRoute tenant_id body) =
     (if valid_request_hash (cs_request_hash body)
      then responding ConsumeResponse (guardian_consume jwt env body) else (\<lambda>_. Inl GuardianValidationError))"
| "guardian_route_op jwt env (ApprovedRoute tenant_id body) =
     (if valid_request_hash (ar_request_hash body)
      then responding EvaluationResponse (authorize_approved jwt env tenant_id body)
      else (\<lambda>_. Inl GuardianValidationError))"
| "guardian_route_op jwt env (ListApprovalsRoute tenant_id status_filter) =
     responding ApprovalsResponse (list_approvals tenant_id status_filter)"
| "guardian_route_op jwt env (GetApprovalRoute approval_id tenant_id) =
     responding ApprovalResponse (get_approval approval_id tenant_id)"
| "guardian_route_op jwt env (ActRoute approval_id tenant_id body) =
     (if (aa_action body = ''APPROVE'' \<or> aa_action body = ''REJECT'')
         \<and> 1 \<le> length (aa_reason body) \<and> length (aa_reason body) \<le> 1000
      then responding (\<lambda>(p, resume). ActionResponse p resume) (act_on_approval env approval_id tenant_id body)
      else (\<lambda>_. Inl GuardianValidationError))"

definition guardian_session :: "'a guardian_op \<Rightarrow> guardian_db \<Rightarrow> guardian_db \<times> (guardian_error + 'a)" where
  "guardian_session = session guardian_constraints GuardianIntegrityError"

fun guardian_step ::
    "jwt_library \<Rightarrow> guardian_env \<times> string option \<times> guardian_route \<Rightarrow> guardian_db \<Rightarrow>
      guardian_db \<times> (guardian_error + guardian_response)" where
  "guardian_step jwt (env, header, route) db =
     (case require_service_token (genv_service_token env) header of
        Inl e \<Rightarrow> (db, Inl e)
      | Inr _ \<Rightarrow> guardian_session (guardian_route_op jwt env route) db)"

end
