(* ===== verification/GuardianEvents.thy ===== *)
theory GuardianEvents
  imports Guardian
begin

text \<open>
  What Guardian may do to its tables, as a relation of six guarded events (a decision, an
  escalation, an audit record, an issued authorization, a resolved approval, a consumed
  authorization), and the simulation: every operation of the service is a sequence of such
  events. The invariant and the relation between earlier and later states are proved
  once per event.
\<close>

section \<open>Events\<close>

definition granted :: "guardian_db \<Rightarrow> guardian_decision \<Rightarrow> bool" where
  "granted db d \<longleftrightarrow> gd_outcome d = ''ALLOW'' \<or>
     (\<exists>p\<in>set (approvals db). ap_decision_id p = gd_id d \<and> ap_status p = ''APPROVED'')"

inductive guardian_event :: "guardian_db \<Rightarrow> guardian_db \<Rightarrow> bool" where
  decided: "guardian_event db (db\<lparr>decisions := decisions db @ [new_decision env evaluation]\<rparr>)"
| escalated: "d \<in> set (decisions db) \<Longrightarrow> gd_outcome d = ''ESCALATE'' \<Longrightarrow> ap_decision_id p = gd_id d \<Longrightarrow>
    ap_tenant_id p = gd_tenant_id d \<Longrightarrow> ap_status p = ''PENDING'' \<Longrightarrow>
    ap_required_approver_roles p = [''guardian-approver''] \<Longrightarrow>
    guardian_event db (db\<lparr>approvals := approvals db @ [p]\<rparr>)"
| logged: "guardian_event db (db\<lparr>audit_events := append_audit_event uuid now a (audit_events db)\<rparr>)"
| issued: "d \<in> set (decisions db) \<Longrightarrow> granted db d \<Longrightarrow> genv_now env < gd_expires_at d \<Longrightarrow>
    guardian_event db (db\<lparr>authorizations := authorizations db @
      [new_authorization env d token (genv_now env + seconds 120)]\<rparr>)"
| resolved: "p \<in> set (approvals db) \<Longrightarrow> (\<And>r. r \<in> set (approvals db) \<Longrightarrow> ap_id r = ap_id p \<Longrightarrow> r = p) \<Longrightarrow>
    ap_status p = ''PENDING'' \<Longrightarrow> genv_now env < ap_expires_at p \<Longrightarrow>
    set (ap_required_approver_roles p) \<subseteq> set (aa_actor_roles action) \<Longrightarrow>
    guardian_event db (db\<lparr>approvals := update_rows (\<lambda>r. ap_id r = ap_id p)
        (\<lambda>r. (resolve_approval env action r)\<lparr>ap_updated_at := genv_now env\<rparr>) (approvals db),
      approval_actions := approval_actions db @ [new_approval_action env (ap_tenant_id p) p action]\<rparr>)"
| consumed: "a \<in> set (authorizations db) \<Longrightarrow> (\<And>b. b \<in> set (authorizations db) \<Longrightarrow> au_id b = au_id a \<Longrightarrow> b = a) \<Longrightarrow>
    au_status a = ''ACTIVE'' \<Longrightarrow> genv_now env < au_expires_at a \<Longrightarrow>
    guardian_event db (db\<lparr>authorizations := update_rows (\<lambda>b. au_id b = au_id a)
      (consume_authorization env correlation_id) (authorizations db)\<rparr>)"

abbreviation guardian_events :: "guardian_db \<Rightarrow> guardian_db \<Rightarrow> bool" where
  "guardian_events \<equiv> guardian_event\<^sup>*\<^sup>*"

section \<open>Operations are sequences of events\<close>

lemma guardian_keys:
  assumes "guardian_constraints db"
  shows "p \<in> set (approvals db) \<Longrightarrow> r \<in> set (approvals db) \<Longrightarrow> ap_id r = ap_id p \<Longrightarrow> r = p"
    and "a \<in> set (authorizations db) \<Longrightarrow> b \<in> set (authorizations db) \<Longrightarrow> au_id b = au_id a \<Longrightarrow> b = a"
    and "a \<in> set (authorizations db) \<Longrightarrow> b \<in> set (authorizations db) \<Longrightarrow> au_token_hash b = au_token_hash a \<Longrightarrow> b = a"
    and "p \<in> set (approvals db) \<Longrightarrow> r \<in> set (approvals db) \<Longrightarrow> ap_decision_id r = ap_decision_id p \<Longrightarrow> r = p"
  using assms unfolding guardian_constraints_def comp_def by (metis unique_byD)+

lemma issue_events:
  assumes "issue_authorization jwt env d db = Inr (db', res)" "d \<in> set (decisions db)" "granted db d"
    and "genv_now env < gd_expires_at d"
  shows "guardian_event db db'"
  using assms
  by (auto simp: issue_authorization_def signer_issue_def Let_def split: option.splits intro: issued)

lemma resolve_existing_events:
  assumes "resolve_existing jwt env d db = Inr (db', res)" "d \<in> set (decisions db)" "genv_now env < gd_expires_at d"
  shows "guardian_events db db'"
proof -
  let ?p = "scalar (\<lambda>p. ap_decision_id p = gd_id d) (approvals db)"
  consider "db' = db" | "issue_authorization jwt env d db = Inr (db', res)" "gd_outcome d = ''ALLOW''"
    | p where "issue_authorization jwt env d db = Inr (db', res)" "?p = Some p" "ap_status p = ''APPROVED''"
    using assms(1) by (auto simp: resolve_existing_def Let_def split: if_splits option.splits)
  then show ?thesis
  proof cases
    case 2
    then show ?thesis using issue_events [OF 2(1) assms(2) _ assms(3)] by (auto simp: granted_def)
  next
    case 3
    then have "granted db d" using scalar_Some [OF 3(2)] by (auto simp: granted_def)
    then show ?thesis using issue_events [OF 3(1) assms(2) _ assms(3)] by auto
  qed simp
qed

lemma latest_scalars: "latest column (scalars P rows) = Some r \<Longrightarrow> r \<in> set rows \<and> P r"
  by (auto dest!: latest_Some simp: set_scalars)

lemma new_decision_simps [simp]:
  "gd_id (new_decision env ev) = genv_uuid env 0"
  "gd_outcome (new_decision env ev) = outcome_value (pr_outcome (policy_evaluate ev))"
  "gd_tenant_id (new_decision env ev) = rc_tenant_id (cq_scope (ge_request ev))"
  "gd_expires_at (new_decision env ev) = genv_now env + minutes 15"
  "gd_risk_class (new_decision env ev) = risk_value (ps_risk_class (ge_policy ev))"
  by (simp_all add: new_decision_def Let_def)

lemma evaluate_events:
  assumes "guardian_evaluate jwt env ev db = Inr (db', res)"
  shows "guardian_events db db'"
proof (cases "latest gd_created_at (scalars (\<lambda>d. gd_tenant_id d = rc_tenant_id (cq_scope (ge_request ev))
    \<and> gd_tool_call_id d = cq_call_id (ge_request ev) \<and> gd_request_hash d = cq_request_hash (ge_request ev)
    \<and> gd_expires_at d > genv_now env) (decisions db))")
  case (Some d)
  with assms have "resolve_existing jwt env d db = Inr (db', res)" by (simp add: guardian_evaluate_def Let_def)
  then show ?thesis by (rule resolve_existing_events) (use latest_scalars [OF Some] in auto)
next
  case None
  define d where "d = new_decision env ev"
  define o' where "o' = pr_outcome (policy_evaluate ev)"
  define db1 where "db1 = db\<lparr>decisions := decisions db @ [d]\<rparr>"
  define db2 where "db2 = (if o' = ESCALATE then db1\<lparr>approvals := approvals db1 @ [new_approval env ev]\<rparr> else db1)"
  define db3 where "db3 = db2\<lparr>audit_events := append_audit_event (genv_uuid env 2) (genv_now env)
    (decision_entry ev d) (audit_events db2)\<rparr>"
  have "guardian_event db db1" unfolding db1_def d_def by (rule decided)
  moreover have "guardian_events db1 db2"
  proof (cases "o' = ESCALATE")
    case True
    have "guardian_event db1 (db1\<lparr>approvals := approvals db1 @ [new_approval env ev]\<rparr>)"
      by (rule escalated [of d]) (use True in \<open>simp_all add: db1_def d_def o'_def new_approval_def Let_def\<close>)
    with True show ?thesis by (simp add: db2_def)
  qed (simp add: db2_def)
  moreover have "guardian_event db2 db3" unfolding db3_def by (rule logged)
  moreover have "guardian_events db3 db'"
  proof (cases "o' = ALLOW")
    case True
    with assms None have issue: "issue_authorization jwt env d db3 = Inr (db', res)"
      by (simp add: guardian_evaluate_def Let_def db3_def db2_def db1_def d_def o'_def)
    have "guardian_event db3 db'"
      by (rule issue_events [OF issue])
        (use True in \<open>simp_all add: db3_def db2_def db1_def d_def o'_def granted_def timedelta_defs\<close>)
    then show ?thesis by simp
  next
    case False
    with assms None have "db' = db3"
      by (simp add: guardian_evaluate_def Let_def db3_def db2_def db1_def d_def o'_def split: if_splits)
    then show ?thesis by simp
  qed
  ultimately show ?thesis by (meson r_into_rtranclp rtranclp_trans)
qed

lemma authorize_approved_events:
  assumes "authorize_approved jwt env tenant_id q db = Inr (db', res)"
  shows "guardian_event db db'"
proof -
  let ?rows = "filter (\<lambda>(d, p). ap_decision_id p = gd_id d \<and> gd_tenant_id d = tenant_id
      \<and> gd_tool_call_id d = ar_call_id q \<and> gd_request_hash d = ar_request_hash q \<and> ap_status p = ''APPROVED'')
    (List.product (decisions db) (approvals db))"
  from assms obtain d p where row: "latest (gd_created_at \<circ> fst) ?rows = Some (d, p)"
    and now: "genv_now env < gd_expires_at d" and issue: "issue_authorization jwt env d db = Inr (db', res)"
    by (auto simp: authorize_approved_def split: option.splits if_splits)
  from latest_Some [OF row] have "d \<in> set (decisions db)" "granted db d" by (auto simp: granted_def)
  then show ?thesis by (rule issue_events [OF issue _ _ now])
qed

lemma act_events:
  assumes "act_on_approval env i tenant_id action db = Inr (db', res)" "guardian_constraints db"
  shows "guardian_events db db'"
proof -
  from assms(1) obtain p where p: "scalar (\<lambda>p. ap_id p = i \<and> ap_tenant_id p = tenant_id) (approvals db) = Some p"
    and ok: "ap_status p = ''PENDING''" "genv_now env < ap_expires_at p"
      "set (ap_required_approver_roles p) \<subseteq> set (aa_actor_roles action)"
    and db': "db' = db\<lparr>approvals := update_rows (\<lambda>r. ap_id r = ap_id p)
        (\<lambda>r. (resolve_approval env action r)\<lparr>ap_updated_at := genv_now env\<rparr>) (approvals db),
      approval_actions := approval_actions db @ [new_approval_action env tenant_id p action],
      audit_events := append_audit_event (genv_uuid env 1) (genv_now env)
        (approval_entry tenant_id (resolve_approval env action p) action) (audit_events db)\<rparr>"
    by (auto simp: act_on_approval_def sum_bind_Inr Let_def split: if_splits)
  from scalar_Some [OF p] have mem: "p \<in> set (approvals db)" and ten: "ap_tenant_id p = tenant_id" by auto
  let ?db1 = "db\<lparr>approvals := update_rows (\<lambda>r. ap_id r = ap_id p)
        (\<lambda>r. (resolve_approval env action r)\<lparr>ap_updated_at := genv_now env\<rparr>) (approvals db),
      approval_actions := approval_actions db @ [new_approval_action env (ap_tenant_id p) p action]\<rparr>"
  have "guardian_event db ?db1"
    by (rule resolved) (use mem ok guardian_keys(1) [OF assms(2) mem] in auto)
  moreover have "guardian_event ?db1 db'"
    unfolding db' ten [symmetric]
    using logged [of ?db1 "genv_uuid env 1" "genv_now env"
        "approval_entry (ap_tenant_id p) (resolve_approval env action p) action"] by simp
  ultimately show ?thesis by (meson r_into_rtranclp rtranclp_trans)
qed

lemma consume_events:
  assumes "guardian_consume jwt env q db = Inr (db', res)" "guardian_constraints db"
  shows "guardian_event db db'"
proof -
  from assms(1) obtain a where a: "scalar (\<lambda>a. au_token_hash a = token_hash (cs_token q)
        \<and> au_tool_call_id a = cs_call_id q \<and> au_request_hash a = cs_request_hash q) (authorizations db) = Some a"
    and ok: "au_status a = ''ACTIVE''" "genv_now env < au_expires_at a"
    and db': "db' = db\<lparr>authorizations := update_rows (\<lambda>b. au_id b = au_id a)
        (consume_authorization env (cs_correlation_id q)) (authorizations db)\<rparr>"
    by (auto simp: guardian_consume_def split: sum.splits if_splits option.splits)
  from scalar_Some [OF a] have mem: "a \<in> set (authorizations db)" by simp
  show ?thesis unfolding db' by (rule consumed) (use mem ok guardian_keys(2) [OF assms(2) mem] in auto)
qed

lemma route_events:
  assumes "guardian_route_op jwt env route db = Inr (db', res)" "guardian_constraints db"
  shows "guardian_events db db'"
  using assms
  by (cases route)
    (auto simp: responding_def sum_bind_Inr list_approvals_def get_approval_def split: if_splits
      dest: evaluate_events act_events consume_events authorize_approved_events)

lemma step_events:
  assumes "guardian_constraints db"
  shows "guardian_events db (fst (guardian_step jwt q db))"
proof (cases "(jwt, q, db)" rule: guardian_step.cases)
  case (1 jwt' env header route db')
  have "guardian_events db (fst (guardian_session (guardian_route_op jwt env route) db))"
    unfolding guardian_session_def
    by (rule session_inv [where I = "guardian_events db"]) (use assms route_events in auto)
  with 1 show ?thesis by (auto split: sum.split)
qed

section \<open>The invariant\<close>

definition decision_ok :: "guardian_decision \<Rightarrow> bool" where
  "decision_ok d \<longleftrightarrow> (gd_risk_class d = ''PRIVILEGED'' \<longrightarrow> gd_outcome d \<noteq> ''ALLOW'')"

definition approval_ok :: "guardian_db \<Rightarrow> approval_request \<Rightarrow> bool" where
  "approval_ok db p \<longleftrightarrow> ap_status p \<in> {''PENDING'', ''APPROVED'', ''REJECTED''} \<and>
     ''guardian-approver'' \<in> set (ap_required_approver_roles p) \<and>
     (\<exists>d\<in>set (decisions db). gd_id d = ap_decision_id p \<and> gd_tenant_id d = ap_tenant_id p \<and> gd_outcome d = ''ESCALATE'') \<and>
     (ap_status p \<noteq> ''PENDING'' \<longrightarrow> (\<exists>x\<in>set (approval_actions db). ax_approval_request_id x = ap_id p \<and>
        ax_tenant_id x = ap_tenant_id p \<and> ''guardian-approver'' \<in> set (ax_actor_roles x) \<and>
        (ap_status p = ''APPROVED'' \<longleftrightarrow> ax_action x = ''APPROVE'')))"

definition authorization_ok :: "guardian_db \<Rightarrow> authorization \<Rightarrow> bool" where
  "authorization_ok db a \<longleftrightarrow> au_status a \<in> {''ACTIVE'', ''CONSUMED''} \<and>
     au_expires_at a = au_issued_at a + seconds 120 \<and>
     (\<exists>d\<in>set (decisions db). gd_id d = au_decision_id a \<and> gd_tenant_id d = au_tenant_id a \<and>
        gd_tool_call_id d = au_tool_call_id a \<and> gd_request_hash d = au_request_hash a \<and>
        gd_constraints d = au_constraints a \<and> au_issued_at a < gd_expires_at d \<and> granted db d)"

definition guardian_good :: "guardian_db \<Rightarrow> bool" where
  "guardian_good db \<longleftrightarrow> (\<forall>d\<in>set (decisions db). decision_ok d) \<and> (\<forall>p\<in>set (approvals db). approval_ok db p) \<and>
     (\<forall>a\<in>set (authorizations db). authorization_ok db a) \<and> audit_ok (audit_events db)"

definition guardian_inv :: "guardian_db \<Rightarrow> bool" where
  "guardian_inv db \<longleftrightarrow> guardian_constraints db \<and> guardian_good db"

lemma policy_privileged: "ps_risk_class (ge_policy ev) = PRIVILEGED \<Longrightarrow> pr_outcome (policy_evaluate ev) \<noteq> ALLOW"
  by (simp add: policy_evaluate_def Let_def blocked_def)

lemma risk_value_eq: "risk_value r = ''PRIVILEGED'' \<longleftrightarrow> r = PRIVILEGED"
  by (cases r) simp_all

lemma outcome_value_eq: "outcome_value r = ''ALLOW'' \<longleftrightarrow> r = ALLOW"
  by (cases r) simp_all

text \<open>Rows stay in order when tables grow and approved approvals stay approved.\<close>

lemma approval_ok_mono:
  "approval_ok db p \<Longrightarrow> set (decisions db) \<subseteq> set (decisions db') \<Longrightarrow>
     set (approval_actions db) \<subseteq> set (approval_actions db') \<Longrightarrow> approval_ok db' p"
  unfolding approval_ok_def by blast

lemma authorization_ok_mono:
  assumes "authorization_ok db a" "set (decisions db) \<subseteq> set (decisions db')" "\<And>d. granted db d \<Longrightarrow> granted db' d"
  shows "authorization_ok db' a"
  using assms unfolding authorization_ok_def by blast

lemma guardian_good_event:
  assumes "guardian_event db db'" "guardian_good db"
  shows "guardian_good db'"
  using assms
proof (cases rule: guardian_event.cases)
  case (decided env ev)
  let ?db = "db\<lparr>decisions := decisions db @ [new_decision env ev]\<rparr>"
  have "approval_ok ?db p" if "approval_ok db p" for p by (rule approval_ok_mono [OF that]) auto
  moreover have "authorization_ok ?db a" if "authorization_ok db a" for a
    by (rule authorization_ok_mono [OF that]) (auto simp: granted_def)
  ultimately show ?thesis
    using assms(2) policy_privileged [of ev]
    by (auto simp: guardian_good_def decided decision_ok_def risk_value_eq outcome_value_eq)
next
  case (escalated d p)
  let ?db = "db\<lparr>approvals := approvals db @ [p]\<rparr>"
  have "approval_ok ?db r" if "approval_ok db r" for r by (rule approval_ok_mono [OF that]) auto
  moreover have "approval_ok ?db p" using escalated by (auto simp: approval_ok_def)
  moreover have "authorization_ok ?db a" if "authorization_ok db a" for a
    by (rule authorization_ok_mono [OF that]) (auto simp: granted_def)
  ultimately show ?thesis using assms(2) by (auto simp: guardian_good_def escalated)
next
  case (logged uuid now a)
  let ?db = "db\<lparr>audit_events := append_audit_event uuid now a (audit_events db)\<rparr>"
  have "approval_ok ?db r" if "approval_ok db r" for r by (rule approval_ok_mono [OF that]) auto
  moreover have "authorization_ok ?db b" if "authorization_ok db b" for b
    by (rule authorization_ok_mono [OF that]) (auto simp: granted_def)
  ultimately show ?thesis using assms(2) by (simp add: guardian_good_def logged append_audit_ok)
next
  case (issued d env token)
  let ?a = "new_authorization env d token (genv_now env + seconds 120)"
  let ?db = "db\<lparr>authorizations := authorizations db @ [?a]\<rparr>"
  have "approval_ok ?db r" if "approval_ok db r" for r by (rule approval_ok_mono [OF that]) auto
  moreover have "authorization_ok ?db b" if "authorization_ok db b" for b
    by (rule authorization_ok_mono [OF that]) (auto simp: granted_def)
  moreover have "authorization_ok ?db ?a"
    using issued by (auto simp: authorization_ok_def new_authorization_def granted_def)
  ultimately show ?thesis using assms(2) by (auto simp: guardian_good_def issued)
next
  case (resolved p env action)
  let ?f = "\<lambda>r. (resolve_approval env action r)\<lparr>ap_updated_at := genv_now env\<rparr>"
  let ?x = "new_approval_action env (ap_tenant_id p) p action"
  have rows: "set (approvals db') = {r. r \<in> set (approvals db) \<and> ap_id r \<noteq> ap_id p} \<union> {?f p}"
    using resolved(2,3) by (auto simp: resolved(1) set_update_rows image_iff)
  have keep: "approval_ok db' r" if "approval_ok db r" for r
    by (rule approval_ok_mono [OF that]) (auto simp: resolved(1))
  have new: "approval_ok db' (?f p)"
    using resolved assms(2)
    by (auto simp: approval_ok_def resolve_approval_def new_approval_action_def guardian_good_def)
  have ne: "ap_id r \<noteq> ap_id p" if "r \<in> set (approvals db)" "ap_status r = ''APPROVED''" for r
    using resolved(3) [OF that(1)] that(2) resolved(4) by auto
  have grant: "granted db' d" if "granted db d" for d
    using that ne unfolding granted_def rows by blast
  have "authorization_ok db' a" if "authorization_ok db a" for a
    by (rule authorization_ok_mono [OF that _ grant]) (simp add: resolved(1))
  with keep new assms(2) show ?thesis unfolding guardian_good_def rows by (auto simp: resolved(1))
next
  case (consumed a env c)
  have same: "approvals db' = approvals db" "decisions db' = decisions db" "approval_actions db' = approval_actions db"
    "audit_events db' = audit_events db" by (simp_all add: consumed)
  have "authorization_ok db' b" if b: "b \<in> set (authorizations db')" for b
  proof -
    from b obtain x where x: "x \<in> set (authorizations db)"
      "b = (if au_id x = au_id a then consume_authorization env c x else x)"
      by (auto simp: consumed(1) update_rows_def)
    from assms(2) x(1) have "authorization_ok db x" by (simp add: guardian_good_def)
    then show ?thesis by (simp add: x(2) authorization_ok_def granted_def same consume_authorization_def)
  qed
  moreover have "approval_ok db' p" if "approval_ok db p" for p
    using that by (simp add: approval_ok_def same)
  ultimately show ?thesis using assms(2) by (simp add: guardian_good_def same)
qed

lemma guardian_good_events: "guardian_events db db' \<Longrightarrow> guardian_good db \<Longrightarrow> guardian_good db'"
  by (induction rule: rtranclp_induct) (auto intro: guardian_good_event)

section \<open>What later states keep\<close>

text \<open>
  An authorization keeps everything but its consumption, which happens at most once; an
  approval is resolved at most once; decisions, actions and audit events are only appended.
\<close>

definition authorization_later :: "authorization \<Rightarrow> authorization \<Rightarrow> bool" where
  "authorization_later a b \<longleftrightarrow> au_id b = au_id a \<and> au_token_hash b = au_token_hash a \<and>
     (b = a \<or> au_status a = ''ACTIVE'' \<and> au_status b = ''CONSUMED'')"

definition approval_later :: "approval_request \<Rightarrow> approval_request \<Rightarrow> bool" where
  "approval_later p r \<longleftrightarrow> ap_id r = ap_id p \<and> (r = p \<or> ap_status p = ''PENDING'' \<and> ap_status r \<noteq> ''PENDING'')"

definition guardian_keeps :: "guardian_db \<Rightarrow> guardian_db \<Rightarrow> bool" where
  "guardian_keeps db db' \<longleftrightarrow> (\<exists>ds. decisions db' = decisions db @ ds) \<and>
     (\<exists>xs. approval_actions db' = approval_actions db @ xs) \<and> (\<exists>es. audit_events db' = audit_events db @ es) \<and>
     (\<forall>a\<in>set (authorizations db). \<exists>b\<in>set (authorizations db'). authorization_later a b) \<and>
     (\<forall>p\<in>set (approvals db). \<exists>r\<in>set (approvals db'). approval_later p r)"

lemma later_refl [simp]: "authorization_later a a" "approval_later p p"
  by (simp_all add: authorization_later_def approval_later_def)

lemma later_trans:
  "authorization_later a b \<Longrightarrow> authorization_later b c \<Longrightarrow> authorization_later a c"
  "approval_later p q \<Longrightarrow> approval_later q r \<Longrightarrow> approval_later p r"
  by (auto simp: authorization_later_def approval_later_def)

lemma guardian_keeps_refl [simp]: "guardian_keeps db db"
  by (auto simp: guardian_keeps_def intro: later_refl)

lemma guardian_keeps_trans:
  assumes "guardian_keeps x y" "guardian_keeps y z"
  shows "guardian_keeps x z"
proof -
  have "\<exists>c\<in>set (authorizations z). authorization_later a c" if "a \<in> set (authorizations x)" for a
    using assms that unfolding guardian_keeps_def by (meson later_trans(1))
  moreover have "\<exists>c\<in>set (approvals z). approval_later a c" if "a \<in> set (approvals x)" for a
    using assms that unfolding guardian_keeps_def by (meson later_trans(2))
  ultimately show ?thesis using assms by (auto simp: guardian_keeps_def)
qed

lemma guardian_keeps_event:
  assumes "guardian_event db db'"
  shows "guardian_keeps db db'"
  using assms
proof (cases rule: guardian_event.cases)
  case (logged uuid now a)
  then show ?thesis using append_audit_prefix [of uuid now a "audit_events db"] by (auto simp: guardian_keeps_def intro: later_refl)
next
  case (resolved p env action)
  let ?f = "\<lambda>r. (resolve_approval env action r)\<lparr>ap_updated_at := genv_now env\<rparr>"
  have "approval_later r (if ap_id r = ap_id p then ?f r else r)" if "r \<in> set (approvals db)" for r
  proof (cases "ap_id r = ap_id p")
    case True
    with resolved(3) [OF that] resolved(4) show ?thesis by (simp add: approval_later_def resolve_approval_def)
  qed simp
  from update_rows_later [where le = approval_later and p = "\<lambda>r. ap_id r = ap_id p" and f = ?f, OF this]
  have "\<forall>r\<in>set (approvals db). \<exists>s\<in>set (approvals db'). approval_later r s"
    by (simp add: resolved(1))
  then show ?thesis by (auto simp: guardian_keeps_def resolved(1) intro: later_refl)
next
  case (consumed a env c)
  have "authorization_later b (if au_id b = au_id a then consume_authorization env c b else b)"
    if "b \<in> set (authorizations db)" for b
  proof (cases "au_id b = au_id a")
    case True
    with consumed(3) [OF that] consumed(4) show ?thesis by (simp add: authorization_later_def consume_authorization_def)
  qed simp
  from update_rows_later [where le = authorization_later and p = "\<lambda>b. au_id b = au_id a" and
      f = "consume_authorization env c", OF this] have
    "\<forall>b\<in>set (authorizations db). \<exists>s\<in>set (authorizations db'). authorization_later b s"
    by (simp add: consumed(1))
  then show ?thesis by (auto simp: guardian_keeps_def consumed(1) intro: later_refl)
qed (auto simp: guardian_keeps_def intro: later_refl)

lemma guardian_keeps_events: "guardian_events db db' \<Longrightarrow> guardian_keeps db db'"
  by (induction rule: rtranclp_induct) (auto intro: guardian_keeps_event guardian_keeps_trans)

lemma guardian_session_constraints:
  "guardian_constraints db \<Longrightarrow> guardian_constraints (fst (guardian_session op db))"
  unfolding guardian_session_def by (rule session_inv) auto

lemma guardian_step_constraints:
  "guardian_constraints db \<Longrightarrow> guardian_constraints (fst (guardian_step jwt q db))"
  by (cases "(jwt, q, db)" rule: guardian_step.cases)
    (auto simp: guardian_session_constraints split: sum.split)

interpretation guardian: monotone_service "guardian_step jwt" guardian_inv guardian_keeps
  for jwt
proof
  fix q db
  assume inv: "guardian_inv db"
  then have ev: "guardian_events db (fst (guardian_step jwt q db))"
    by (simp add: guardian_inv_def step_events)
  show "guardian_inv (fst (guardian_step jwt q db))"
    using inv guardian_good_events [OF ev] by (simp add: guardian_inv_def guardian_step_constraints)
  show "guardian_keeps db (fst (guardian_step jwt q db))" by (rule guardian_keeps_events [OF ev])
qed (auto intro: guardian_keeps_trans)

definition empty_guardian :: guardian_db where
  "empty_guardian = \<lparr>decisions = [], approvals = [], approval_actions = [], authorizations = [], audit_events = []\<rparr>"

lemma empty_guardian_inv: "guardian_inv empty_guardian"
  by (simp add: guardian_inv_def guardian_constraints_def guardian_good_def empty_guardian_def audit_constraints_def)

end
