(* ===== verification/GuardianProperties.thy ===== *)
theory GuardianProperties
  imports GuardianEvents
begin

text \<open>
  The properties of Guardian: what the policy engine decides, that every change of its
  tables is a permitted event, that an authorization exists only for an allowed or
  approved decision and is used once, that approvals are final, that an issued token can
  be consumed until it expires, and that the audit log is a hash chain.
\<close>

abbreviation guardian_run ::
    "jwt_library \<Rightarrow> (guardian_env \<times> string option \<times> guardian_route) list \<Rightarrow> guardian_db \<Rightarrow> guardian_db" where
  "guardian_run jwt \<equiv> run (guardian_step jwt)"

lemma guardian_session_ok:
  "guardian_session op db = (db', Inr res) \<longleftrightarrow> op db = Inr (db', res) \<and> guardian_constraints db'"
  by (simp add: guardian_session_def session_ok)

lemma guardian_later:
  assumes "guardian_inv db"
  shows "guardian_inv (guardian_run jwt qs db)" "guardian_keeps db (guardian_run jwt qs db)"
  using guardian.run_inv [OF assms] guardian.run_le [OF assms] by simp_all

lemma guardian_inv_constraints: "guardian_inv db \<Longrightarrow> guardian_constraints db"
  by (simp add: guardian_inv_def)

section \<open>Policy\<close>

text \<open>The conditions every protected call must meet, whatever its risk class.\<close>

definition admissible :: "guardian_evaluation_request \<Rightarrow> bool" where
  "admissible ev \<longleftrightarrow> (let q = ge_request ev; p = ge_policy ev; s = cq_scope q in
     cq_request_hash q \<noteq> [] \<and> rc_tenant_id s \<noteq> nil_uuid \<and>
     (ps_allowed_agents p = [] \<or> cq_agent_name q \<in> set (ps_allowed_agents p)) \<and>
     set (ps_required_roles p) \<subseteq> set (rc_roles s) \<and>
     (ps_required_purposes p = [] \<or> cq_purpose q \<in> set (ps_required_purposes p)) \<and>
     set (ps_required_consents p) \<subseteq> set (rc_consent_ids s) \<and>
     (ps_side_effects p \<longrightarrow> (\<exists>k. cq_idempotency_key q = Some k \<and> k \<noteq> [])))"

text \<open>
  C10. The policy engine is exactly this rule: a call is allowed at once if and only if it
  is admissible, approval is not always required, and it is a sensitive read, a mutation, or
  a plain read that never needs approval; it is escalated to a human if and only if it is
  admissible and privileged or always in need of approval; it is blocked otherwise.
\<close>

theorem guardian_policy_exact:
  "(pr_outcome (policy_evaluate ev) = ALLOW \<longleftrightarrow> admissible ev \<and> ps_approval_mode (ge_policy ev) \<noteq> ''ALWAYS'' \<and>
      (ps_risk_class (ge_policy ev) \<in> {SENSITIVE_READ, MUTATE} \<or>
       ps_risk_class (ge_policy ev) = READ \<and> ps_approval_mode (ge_policy ev) = ''NEVER'')) \<and>
   (pr_outcome (policy_evaluate ev) = ESCALATE \<longleftrightarrow> admissible ev \<and>
      (ps_approval_mode (ge_policy ev) = ''ALWAYS'' \<or> ps_risk_class (ge_policy ev) = PRIVILEGED)) \<and>
   pr_outcome (policy_evaluate ev) \<noteq> VERIFY"
proof -
  have key: "(k = None \<or> k = Some []) \<longleftrightarrow> \<not> (\<exists>x. k = Some x \<and> x \<noteq> [])" for k :: "string option"
    by (cases k) auto
  show ?thesis
  proof (cases "admissible ev")
    case True
    then show ?thesis
      by (cases "ps_risk_class (ge_policy ev)")
        (auto simp: policy_evaluate_def admissible_def blocked_def Let_def key)
  next
    case False
    then have "pr_outcome (policy_evaluate ev) = BLOCK"
      unfolding policy_evaluate_def admissible_def Let_def key by (auto simp: blocked_def)
    with False show ?thesis by simp
  qed
qed

section \<open>Refinement\<close>

lemma run_events: "guardian_inv db \<Longrightarrow> guardian_events db (guardian_run jwt qs db)"
proof (induction qs arbitrary: db)
  case (Cons q qs)
  have "guardian_events db (fst (guardian_step jwt q db))"
    using Cons.prems by (simp add: step_events guardian_inv_constraints)
  moreover have "guardian_inv (fst (guardian_step jwt q db))" using Cons.prems by (rule guardian.step_inv)
  ultimately show ?case using Cons.IH by (fastforce intro: rtranclp_trans)
qed simp

text \<open>
  C9. The service refines its specification: whatever requests arrive, in whatever order,
  the changes of Guardian's tables from an empty database are a sequence of the six
  permitted events, each under its guard.
\<close>

theorem guardian_refines_events:
  "guardian_events empty_guardian (guardian_run jwt qs empty_guardian)"
  by (rule run_events [OF empty_guardian_inv])

section \<open>Authorizations\<close>

text \<open>
  C14. In every reachable state each authorization is active or consumed, lives 120
  seconds, and matches a decision of the same tenant, call, request hash and constraints
  that was unexpired when the authorization was issued and is allowed by policy or approved
  by a human; a decision on a privileged tool is never allowed without approval.
\<close>

theorem guardian_authorizations_justified:
  "list_all (authorization_ok (guardian_run jwt qs empty_guardian)) (authorizations (guardian_run jwt qs empty_guardian)) \<and>
   list_all decision_ok (decisions (guardian_run jwt qs empty_guardian))"
  using guardian_later(1) [OF empty_guardian_inv, of jwt qs]
  by (simp add: guardian_inv_def guardian_good_def list_all_iff)

lemma consumed_row:
  assumes "guardian_session (guardian_consume jwt env q) db = (db1, Inr res)"
  shows "\<exists>a\<in>set (authorizations db1). au_id a = cr_authorization_id res \<and> au_status a = ''CONSUMED'' \<and>
    au_token_hash a = token_hash (cs_token q)"
proof -
  from assms have op: "guardian_consume jwt env q db = Inr (db1, res)" by (simp add: guardian_session_ok)
  then obtain a where a: "scalar (\<lambda>a. au_token_hash a = token_hash (cs_token q)
        \<and> au_tool_call_id a = cs_call_id q \<and> au_request_hash a = cs_request_hash q) (authorizations db) = Some a"
    and db1: "authorizations db1 = update_rows (\<lambda>b. au_id b = au_id a)
        (consume_authorization env (cs_correlation_id q)) (authorizations db)"
    and res: "cr_authorization_id res = au_id a"
    by (auto simp: guardian_consume_def split: sum.splits if_splits option.splits)
  let ?b = "consume_authorization env (cs_correlation_id q) a"
  have "?b \<in> set (authorizations db1)" using scalar_Some [OF a] by (force simp: db1 update_rows_def)
  moreover have "au_id ?b = au_id a" "au_status ?b = ''CONSUMED''" "au_token_hash ?b = token_hash (cs_token q)"
    using scalar_Some [OF a] by (simp_all add: consume_authorization_def)
  ultimately show ?thesis using res by auto
qed

text \<open>
  C6. An authorization is used at most once: after a token has been consumed, and after any
  further requests, consuming it again is refused and changes nothing.
\<close>

theorem guardian_single_use:
  assumes inv: "guardian_inv db" and use: "guardian_session (guardian_consume jwt env q) db = (db1, Inr res)"
    and db2: "db2 = guardian_run jwt' qs db1" and again: "cs_token q' = cs_token q"
  shows "\<exists>e. guardian_session (guardian_consume jwt' env' q') db2 = (db2, Inl e)"
proof -
  from use have ev: "guardian_event db db1" and con1: "guardian_constraints db1"
    using consume_events [OF _ guardian_inv_constraints [OF inv]] by (auto simp: guardian_session_ok)
  with inv have inv1: "guardian_inv db1" by (simp add: guardian_inv_def guardian_good_event)
  note later = guardian_later [OF inv1, of jwt' qs, folded db2]
  from consumed_row [OF use] obtain a where a: "a \<in> set (authorizations db1)" "au_status a = ''CONSUMED''"
    "au_token_hash a = token_hash (cs_token q)" by auto
  from later(2) a(1) obtain b where "b \<in> set (authorizations db2)" "authorization_later a b"
    by (auto simp: guardian_keeps_def)
  with a have b: "a \<in> set (authorizations db2)" by (auto simp: authorization_later_def)
  have spent: "au_status c \<noteq> ''ACTIVE''" if "scalar (\<lambda>a. au_token_hash a = token_hash (cs_token q')
      \<and> au_tool_call_id a = cs_call_id q' \<and> au_request_hash a = cs_request_hash q') (authorizations db2) = Some c" for c
    using scalar_Some [OF that] guardian_keys(3) [OF guardian_inv_constraints [OF later(1)] b] a again by auto
  have "guardian_consume jwt' env' q' db2 \<noteq> Inr x" for x
    using spent by (cases x) (auto simp: guardian_consume_def split: sum.splits if_splits option.splits)
  then obtain e where "guardian_consume jwt' env' q' db2 = Inl e" by (cases "guardian_consume jwt' env' q' db2") auto
  then show ?thesis by (simp add: guardian_session_def session_def)
qed

section \<open>Approvals\<close>

text \<open>
  C34. Approvals are decided by an approver and are final: in every later state a resolved
  approval is unchanged, its resolution is on record with an actor who held the role
  guardian-approver, and any further action on it is refused without effect.
\<close>

theorem guardian_approval_final:
  assumes inv: "guardian_inv db" and p: "p \<in> set (approvals db)" "ap_status p \<noteq> ''PENDING''"
    and db2: "db2 = guardian_run jwt qs db"
  shows "p \<in> set (approvals db2) \<and>
    (\<exists>x\<in>set (approval_actions db2). ax_approval_request_id x = ap_id p \<and> ''guardian-approver'' \<in> set (ax_actor_roles x) \<and>
      (ap_status p = ''APPROVED'' \<longleftrightarrow> ax_action x = ''APPROVE'')) \<and>
    (\<exists>e. guardian_session (act_on_approval env (ap_id p) tenant action) db2 = (db2, Inl e))"
proof -
  note later = guardian_later [OF inv, of jwt qs, folded db2]
  from later(2) p obtain r where "r \<in> set (approvals db2)" "approval_later p r" by (auto simp: guardian_keeps_def)
  with p(2) have mem: "p \<in> set (approvals db2)" by (auto simp: approval_later_def)
  with later(1) p(2) have rec: "\<exists>x\<in>set (approval_actions db2). ax_approval_request_id x = ap_id p \<and>
      ''guardian-approver'' \<in> set (ax_actor_roles x) \<and> (ap_status p = ''APPROVED'' \<longleftrightarrow> ax_action x = ''APPROVE'')"
    by (auto simp: guardian_inv_def guardian_good_def approval_ok_def)
  have "act_on_approval env (ap_id p) tenant action db2 \<noteq> Inr x" for x
    using guardian_keys(1) [OF guardian_inv_constraints [OF later(1)] mem] p(2)
    by (cases x) (auto simp: act_on_approval_def sum_bind_Inr Let_def dest!: scalar_Some split: if_splits)
  then obtain e where "act_on_approval env (ap_id p) tenant action db2 = Inl e"
    by (cases "act_on_approval env (ap_id p) tenant action db2") auto
  with mem rec show ?thesis by (simp add: guardian_session_def session_def)
qed

section \<open>An issued token can be used\<close>

lemma issued_row:
  assumes "issue_authorization jwt env d db = Inr (db', r)"
  shows "\<exists>sk token. genv_signing_key env = Some sk \<and>
    token = jwt_encode jwt (authorization_claims env (genv_uuid env 3) (genv_uuid env 4) (gd_tenant_id d)
      (gd_tool_call_id d) (gd_id d) (gd_request_hash d) (gd_constraints d)) (unescape_newlines sk) \<and>
    r = \<lparr>gr_decision_id = gd_id d, gr_outcome = ALLOW, gr_reason_codes = [''EXACT_AUTHORIZATION_ISSUED''],
      gr_constraints = gd_constraints d, gr_policy_bundle_version = gd_policy_bundle_version d,
      gr_approval_id = None, gr_authorization_id = Some (genv_uuid env 3), gr_authorization_token = Some token,
      gr_expires_at = Some (genv_now env + seconds 120)\<rparr> \<and>
    new_authorization env d token (genv_now env + seconds 120) \<in> set (authorizations db')"
  using assms
  by (auto simp: issue_authorization_def signer_issue_def Let_def new_authorization_def split: option.splits)

lemma issued_token:
  assumes "guardian_evaluate jwt env ev db = Inr (db', r)" "gr_authorization_token r = Some token"
  shows "\<exists>d db0. issue_authorization jwt env d db0 = Inr (db', r) \<and> gd_tool_call_id d = cq_call_id (ge_request ev) \<and>
    gd_request_hash d = cq_request_hash (ge_request ev)"
proof (cases "latest gd_created_at (scalars (\<lambda>d. gd_tenant_id d = rc_tenant_id (cq_scope (ge_request ev))
    \<and> gd_tool_call_id d = cq_call_id (ge_request ev) \<and> gd_request_hash d = cq_request_hash (ge_request ev)
    \<and> gd_expires_at d > genv_now env) (decisions db))")
  case (Some d)
  with assms have "resolve_existing jwt env d db = Inr (db', r)" by (simp add: guardian_evaluate_def Let_def)
  then have "issue_authorization jwt env d db = Inr (db', r)"
    using assms(2) by (auto simp: resolve_existing_def Let_def decision_response_def split: if_splits option.splits)
  with latest_scalars [OF Some] show ?thesis by blast
next
  case None
  with assms obtain db0 where "issue_authorization jwt env (new_decision env ev) db0 = Inr (db', r)"
    by (auto simp: guardian_evaluate_def Let_def decision_response_def split: if_splits)
  then show ?thesis by (intro exI [of _ "new_decision env ev"]) (auto simp: new_decision_def Let_def)
qed

lemma guardian_constraints_consume:
  "guardian_constraints db \<Longrightarrow> guardian_constraints (db\<lparr>authorizations := update_rows P
     (consume_authorization env c) (authorizations db)\<rparr>)"
  by (simp add: guardian_constraints_def unique_by_update_rows consume_authorization_def)

lemma issued_consumable:
  assumes issue: "issue_authorization jwt env d db0 = Inr (db1, r)" and con: "guardian_constraints db1"
    and "gr_authorization_token r = Some token" "genv_now env' < genv_now env + seconds 120"
    and "genv_signing_key env = Some sk" "genv_verify_key env' = Some vk"
    and jwt_round_trip: "\<And>claims. jwt_encode jwt claims (unescape_newlines sk) = token \<Longrightarrow>
      jwt_decode jwt (genv_now env') token (unescape_newlines vk) = Some claims"
  shows "\<exists>db2 res. guardian_consume jwt env' \<lparr>cs_token = token, cs_call_id = gd_tool_call_id d,
      cs_request_hash = gd_request_hash d, cs_correlation_id = c\<rparr> db1 = Inr (db2, res) \<and> guardian_constraints db2 \<and>
    gr_authorization_id r = Some (cr_authorization_id res) \<and> cr_constraints res = gr_constraints r"
proof -
  define claims where "claims = authorization_claims env (genv_uuid env 3) (genv_uuid env 4) (gd_tenant_id d)
      (gd_tool_call_id d) (gd_id d) (gd_request_hash d) (gd_constraints d)"
  define a where "a = new_authorization env d token (genv_now env + seconds 120)"
  from issued_row [OF issue] assms(3,5) have enc: "jwt_encode jwt claims (unescape_newlines sk) = token"
    and a: "a \<in> set (authorizations db1)"
    and r: "gr_authorization_id r = Some (au_id a)" "gr_constraints r = au_constraints a"
    by (auto simp: claims_def a_def new_authorization_def)
  have asel: "au_token_hash a = token_hash token" "au_tool_call_id a = gd_tool_call_id d"
    "au_request_hash a = gd_request_hash d" "au_status a = ''ACTIVE''"
    "au_expires_at a = genv_now env + seconds 120"
    by (simp_all add: a_def new_authorization_def)
  have ver: "signer_verify jwt env' token = Inr claims"
    using jwt_round_trip [OF enc] assms(6) by (simp add: signer_verify_def)
  have cl: "map_of claims ''call_id'' = Some (JStr (gd_tool_call_id d))"
    "map_of claims ''request_hash'' = Some (JStr (gd_request_hash d))"
    by (simp_all add: claims_def authorization_claims_def)
  have "scalar (\<lambda>b. au_token_hash b = token_hash token \<and> au_tool_call_id b = gd_tool_call_id d
      \<and> au_request_hash b = gd_request_hash d) (authorizations db1) = Some a"
  proof (rule scalar_unique [OF a])
    show "b = a" if "b \<in> set (authorizations db1)" "au_token_hash b = token_hash token \<and>
        au_tool_call_id b = gd_tool_call_id d \<and> au_request_hash b = gd_request_hash d" for b
      using guardian_keys(3) [OF con a that(1)] that(2) asel(1) by simp
  qed (simp add: asel)
  then show ?thesis
    using assms(4) con r
    by (simp add: guardian_consume_def ver cl asel guardian_constraints_consume)
qed

text \<open>
  C39. A token is good for its call: when an evaluation has issued a token and committed,
  consuming it for the same call and request hash, before 120 seconds have passed and before
  anything else happened, succeeds and marks the issued authorization, provided the JWT
  library decodes with the verification key what it encoded with the signing key.
\<close>

theorem guardian_issued_token_usable:
  assumes "guardian_session (guardian_evaluate jwt env ev) db = (db1, Inr r)" "gr_authorization_token r = Some token"
    and "genv_now env' < genv_now env + seconds 120"
    and "genv_signing_key env = Some sk" "genv_verify_key env' = Some vk"
    and jwt_round_trip: "\<And>claims. jwt_encode jwt claims (unescape_newlines sk) = token \<Longrightarrow>
      jwt_decode jwt (genv_now env') token (unescape_newlines vk) = Some claims"
  shows "\<exists>db2 res. guardian_session (guardian_consume jwt env' \<lparr>cs_token = token, cs_call_id = cq_call_id (ge_request ev),
      cs_request_hash = cq_request_hash (ge_request ev), cs_correlation_id = c\<rparr>) db1 = (db2, Inr res) \<and>
    gr_authorization_id r = Some (cr_authorization_id res) \<and> cr_constraints res = gr_constraints r"
proof -
  from assms(1) have op: "guardian_evaluate jwt env ev db = Inr (db1, r)" and con: "guardian_constraints db1"
    by (simp_all add: guardian_session_ok)
  from issued_token [OF op assms(2)] obtain d db0 where
    issue: "issue_authorization jwt env d db0 = Inr (db1, r)" and d: "gd_tool_call_id d = cq_call_id (ge_request ev)"
      "gd_request_hash d = cq_request_hash (ge_request ev)" by blast
  from issued_consumable [OF issue con assms(2-5) jwt_round_trip, of c] show ?thesis
    by (auto simp: d guardian_session_ok)
qed

section \<open>The audit log\<close>

text \<open>
  C16. The audit log is tamper evident: take the logs of a tenant in any two reachable
  states; if their last events carry the same digest, they record the same documents in the
  same order, from the first event on, or two different documents with the same SHA-256
  digest are at hand.
\<close>

theorem audit_log_tamper_evident:
  assumes "es = tenant_log tenant (audit_events (guardian_run jwt qs empty_guardian))"
    and "fs = tenant_log tenant (audit_events (guardian_run jwt' qs' empty_guardian))"
    and "es \<noteq> []" "fs \<noteq> []" "ae_event_hash (last es) = ae_event_hash (last fs)"
  shows "map (canon \<circ> document_of) es = map (canon \<circ> document_of) fs \<or> log_collision es fs"
proof -
  have "chained None 1 es" "chained None 1 fs"
    using guardian_later(1) [OF empty_guardian_inv, of jwt qs] guardian_later(1) [OF empty_guardian_inv, of jwt' qs']
    by (simp_all add: assms(1,2) guardian_inv_def guardian_good_def audit_ok_def)
  then show ?thesis using assms(3-5) by (rule chain_determined)
qed

end
