(* ===== verification/GuardianDemo.thy ===== *)
theory GuardianDemo
  imports GuardianProperties
begin

text \<open>
  A concrete history of Guardian: a mutating call is evaluated and its token consumed, a
  privileged call is escalated and approved. It instantiates the properties of
  \<open>GuardianProperties\<close> whose statements have hypotheses. The JWT library of the example
  encodes a token as the JSON text of its claims.
\<close>

definition gdemo_env :: guardian_env where
  "gdemo_env = \<lparr>genv_now = 0, genv_uuid = (\<lambda>i. if i = 0 then ''u0'' else if i = 1 then ''u1'' else if i = 2 then ''u2''
     else if i = 3 then ''u3'' else ''u4''), genv_signing_key = Some ''sk'', genv_verify_key = Some ''vk'',
     genv_service_token = Some ''svc''\<rparr>"

definition gdemo_context :: runtime_context where
  "gdemo_context = \<lparr>rc_tenant_id = ''t'', rc_organization_id = ''o'', rc_user_id = ''u'', rc_session_id = Some ''s'',
     rc_conversation_id = None, rc_run_id = Some ''r'', rc_case_id = None, rc_correlation_id = ''k'', rc_roles = [],
     rc_consent_ids = [], rc_policy_bundle_version = ''platform-default'', rc_locale = ''en'', rc_timezone = ''UTC''\<rparr>"

definition gdemo_request :: canonical_tool_request where
  "gdemo_request = \<lparr>cq_call_id = ''c'', cq_run_id = ''r'', cq_agent_version_id = None, cq_agent_name = ''agent'',
     cq_scope = gdemo_context, cq_server_id = ''srv'', cq_tool_version_id = ''tv'', cq_canonical_name = ''bank.tool'',
     cq_original_name = ''tool'', cq_normalized_arguments = [], cq_purpose = ''p'', cq_resource_refs = [],
     cq_idempotency_key = Some ''key'', cq_request_hash = ''hash''\<rparr>"

definition gdemo_evaluation :: "risk_class \<Rightarrow> guardian_evaluation_request" where
  "gdemo_evaluation risk = \<lparr>ge_request = gdemo_request, ge_policy = \<lparr>ps_risk_class = risk, ps_required_roles = [],
     ps_required_purposes = [], ps_required_consents = [], ps_allowed_agents = [], ps_approval_mode = ''POLICY'',
     ps_side_effects = True, ps_idempotent = True\<rparr>\<rparr>"

definition gdemo_claims :: dict where
  "gdemo_claims = authorization_claims gdemo_env ''u3'' ''u4'' ''t'' ''c'' ''u0'' ''hash'' (exact_constraints ''hash'')"

definition gdemo_token :: string where
  "gdemo_token = dump (JObj gdemo_claims)"

definition gdemo_jwt :: jwt_library where
  "gdemo_jwt = \<lparr>jwt_encode = (\<lambda>claims key. dump (JObj claims)),
     jwt_decode = (\<lambda>now token key. if token = gdemo_token then Some gdemo_claims else None)\<rparr>"

definition gdemo_action :: approval_action_create where
  "gdemo_action = \<lparr>aa_action = ''APPROVE'', aa_actor_user_id = ''boss'', aa_actor_roles = [''guardian-approver''],
     aa_reason = ''ok'', aa_correlation_id = ''k''\<rparr>"

lemma gdemo_env_simps [simp]: "genv_now gdemo_env = 0" "genv_uuid gdemo_env 0 = ''u0''" "genv_uuid gdemo_env (Suc 0) = ''u1''"
  "genv_uuid gdemo_env 2 = ''u2''" "genv_uuid gdemo_env 3 = ''u3''" "genv_uuid gdemo_env 4 = ''u4''"
  "genv_signing_key gdemo_env = Some ''sk''" "genv_verify_key gdemo_env = Some ''vk''" "genv_service_token gdemo_env = Some ''svc''"
  by (simp_all add: gdemo_env_def)

lemma gdemo_request_simps [simp]: "ge_request (gdemo_evaluation risk) = gdemo_request" "cq_call_id gdemo_request = ''c''"
  "cq_request_hash gdemo_request = ''hash''" "cq_scope gdemo_request = gdemo_context" "rc_tenant_id gdemo_context = ''t''"
  by (simp_all add: gdemo_evaluation_def gdemo_request_def gdemo_context_def)

lemma gdemo_policy: "policy_evaluate (gdemo_evaluation MUTATE) = \<lparr>pr_outcome = ALLOW,
    pr_reason_codes = [''PROTECTED_POLICY_SATISFIED''], pr_constraints = exact_constraints ''hash''\<rparr>"
  "policy_evaluate (gdemo_evaluation PRIVILEGED) = \<lparr>pr_outcome = ESCALATE,
    pr_reason_codes = [''HUMAN_APPROVAL_REQUIRED''], pr_constraints = exact_constraints ''hash''\<rparr>"
  by (simp_all add: policy_evaluate_def gdemo_evaluation_def gdemo_request_def gdemo_context_def nil_uuid_def)

lemma gdemo_decision [simp]: "gd_id (new_decision gdemo_env (gdemo_evaluation r)) = ''u0''"
  "gd_tenant_id (new_decision gdemo_env (gdemo_evaluation r)) = ''t''"
  "gd_tool_call_id (new_decision gdemo_env (gdemo_evaluation r)) = ''c''"
  "gd_request_hash (new_decision gdemo_env (gdemo_evaluation r)) = ''hash''"
  "gd_constraints (new_decision gdemo_env (gdemo_evaluation MUTATE)) = exact_constraints ''hash''"
  by (simp_all add: new_decision_def Let_def gdemo_policy)

lemma empty_guardian_simps [simp]: "decisions empty_guardian = []" "approvals empty_guardian = []"
  "approval_actions empty_guardian = []" "authorizations empty_guardian = []" "audit_events empty_guardian = []"
  by (simp_all add: empty_guardian_def)

lemma gdemo_audit: "length (append_audit_event uuid now a []) = 1"
  by (simp add: append_audit_event_def Let_def)

lemma audit_constraints_one: "length es = 1 \<Longrightarrow> audit_constraints es"
  by (auto simp: audit_constraints_def length_Suc_conv)

section \<open>Issuing and consuming\<close>

lemma gdemo_issue:
  "\<exists>db r. guardian_session (guardian_evaluate gdemo_jwt gdemo_env (gdemo_evaluation MUTATE)) empty_guardian = (db, Inr r) \<and>
     gr_authorization_token r = Some (gdemo_token)"
proof -
  obtain db r where op: "guardian_evaluate gdemo_jwt gdemo_env (gdemo_evaluation MUTATE) empty_guardian = Inr (db, r)"
    and t: "gr_authorization_token r = Some (gdemo_token)"
    by (simp add: guardian_evaluate_def scalars_def gdemo_policy Let_def issue_authorization_def signer_issue_def gdemo_jwt_def
        gdemo_token_def gdemo_claims_def)
  then have "length (decisions db) = 1" "approvals db = []" "approval_actions db = []" "length (authorizations db) = 1"
    "length (audit_events db) = 1"
    by (auto simp: guardian_evaluate_def scalars_def gdemo_policy Let_def issue_authorization_def signer_issue_def gdemo_audit)
  then have "guardian_constraints db"
    by (auto simp: guardian_constraints_def audit_constraints_one length_Suc_conv)
  with op t show ?thesis by (auto simp: guardian_session_ok)
qed

lemma gdemo_round_trip:
  assumes "jwt_encode gdemo_jwt claims k = gdemo_token"
  shows "jwt_decode gdemo_jwt now gdemo_token k' = Some claims"
proof -
  from assms have "dump (JObj claims) = dump (JObj gdemo_claims)"
    by (simp only: gdemo_jwt_def gdemo_token_def jwt_library.simps)
  then have "claims = gdemo_claims" by (simp only: dump_inject json.inject)
  then show ?thesis by (simp add: gdemo_jwt_def)
qed

abbreviation gdemo_consume :: consume_request where
  "gdemo_consume \<equiv> \<lparr>cs_token = gdemo_token, cs_call_id = ''c'', cs_request_hash = ''hash'', cs_correlation_id = ''k''\<rparr>"

theorem guardian_issued_token_usable_witness:
  "\<exists>db1 r db2 res. guardian_session (guardian_evaluate gdemo_jwt gdemo_env (gdemo_evaluation MUTATE)) empty_guardian = (db1, Inr r) \<and>
     guardian_session (guardian_consume gdemo_jwt gdemo_env gdemo_consume) db1 = (db2, Inr res) \<and>
     gr_authorization_id r = Some (cr_authorization_id res)"
proof -
  from gdemo_issue obtain db1 r where
    ok: "guardian_session (guardian_evaluate gdemo_jwt gdemo_env (gdemo_evaluation MUTATE)) empty_guardian = (db1, Inr r)"
      "gr_authorization_token r = Some (gdemo_token)" by blast
  have "\<exists>db2 res. guardian_session (guardian_consume gdemo_jwt gdemo_env \<lparr>cs_token = gdemo_token,
      cs_call_id = cq_call_id (ge_request (gdemo_evaluation MUTATE)),
      cs_request_hash = cq_request_hash (ge_request (gdemo_evaluation MUTATE)), cs_correlation_id = ''k''\<rparr>) db1 = (db2, Inr res) \<and>
    gr_authorization_id r = Some (cr_authorization_id res) \<and> cr_constraints res = gr_constraints r"
    by (rule guardian_issued_token_usable [OF ok, where sk = "''sk''" and vk = "''vk''"])
      (simp_all add: timedelta_defs gdemo_round_trip)
  with ok(1) show ?thesis by auto
qed

lemma gdemo_consumed:
  "\<exists>db db1 res. guardian_inv db \<and> guardian_session (guardian_consume gdemo_jwt gdemo_env gdemo_consume) db = (db1, Inr res)"
proof -
  from gdemo_issue obtain db r where
    ok: "guardian_session (guardian_evaluate gdemo_jwt gdemo_env (gdemo_evaluation MUTATE)) empty_guardian = (db, Inr r)"
      "gr_authorization_token r = Some (gdemo_token)" by blast
  then have "guardian_events empty_guardian db" "guardian_constraints db"
    by (auto simp: guardian_session_ok intro: evaluate_events)
  then have inv: "guardian_inv db"
    using guardian_good_events empty_guardian_inv by (auto simp: guardian_inv_def)
  from ok have op: "guardian_evaluate gdemo_jwt gdemo_env (gdemo_evaluation MUTATE) empty_guardian = Inr (db, r)"
    and con: "guardian_constraints db" by (simp_all add: guardian_session_ok)
  then obtain a where a: "authorizations db = [a]" "au_token_hash a = token_hash (gdemo_token)"
    "au_tool_call_id a = ''c''" "au_request_hash a = ''hash''" "au_status a = ''ACTIVE''" "au_expires_at a = seconds 120"
    by (auto simp: guardian_evaluate_def scalars_def gdemo_policy Let_def issue_authorization_def signer_issue_def gdemo_jwt_def
        gdemo_token_def gdemo_claims_def new_authorization_def)
  have "signer_verify gdemo_jwt gdemo_env (gdemo_token) = Inr gdemo_claims"
    by (simp add: signer_verify_def gdemo_jwt_def)
  moreover have "map_of gdemo_claims ''call_id'' = Some (JStr ''c'')" "map_of gdemo_claims ''request_hash'' = Some (JStr ''hash'')"
    by (simp_all add: gdemo_claims_def authorization_claims_def)
  moreover have "guardian_constraints (db\<lparr>authorizations := [consume_authorization gdemo_env ''k'' a]\<rparr>)"
    using guardian_constraints_consume [OF con, of "\<lambda>_. True" gdemo_env "''k''"] a(1) by simp
  ultimately have "\<exists>db1 res. guardian_session (guardian_consume gdemo_jwt gdemo_env gdemo_consume) db = (db1, Inr res)"
    by (simp add: guardian_session_ok guardian_consume_def a timedelta_defs)
  with inv show ?thesis by blast
qed

theorem guardian_single_use_witness:
  "\<exists>db db1 res e. guardian_inv db \<and> guardian_session (guardian_consume gdemo_jwt gdemo_env gdemo_consume) db = (db1, Inr res) \<and>
     guardian_session (guardian_consume gdemo_jwt gdemo_env gdemo_consume) db1 = (db1, Inl e)"
proof -
  from gdemo_consumed obtain db db1 res where inv: "guardian_inv db"
    and use: "guardian_session (guardian_consume gdemo_jwt gdemo_env gdemo_consume) db = (db1, Inr res)" by blast
  have "\<exists>e. guardian_session (guardian_consume gdemo_jwt gdemo_env gdemo_consume) db1 = (db1, Inl e)"
    by (rule guardian_single_use [OF inv use, where qs = "[]"]) simp_all
  with inv use show ?thesis by blast
qed

section \<open>Approving\<close>

definition gdemo_approval :: approval_request where
  "gdemo_approval = (resolve_approval gdemo_env gdemo_action (new_approval gdemo_env (gdemo_evaluation PRIVILEGED)))\<lparr>ap_updated_at := 0\<rparr>"

definition gdemo_approved :: guardian_db where
  "gdemo_approved = \<lparr>decisions = [new_decision gdemo_env (gdemo_evaluation PRIVILEGED)], approvals = [gdemo_approval],
     approval_actions = [new_approval_action gdemo_env ''t'' (new_approval gdemo_env (gdemo_evaluation PRIVILEGED)) gdemo_action],
     authorizations = [], audit_events = []\<rparr>"

lemma gdemo_approved_inv: "guardian_inv gdemo_approved"
  by (simp add: guardian_inv_def guardian_constraints_def guardian_good_def gdemo_approved_def audit_constraints_def decision_ok_def
      approval_ok_def gdemo_approval_def resolve_approval_def new_approval_def Let_def new_approval_action_def gdemo_action_def gdemo_policy)

theorem guardian_approval_final_witness:
  "gdemo_approval \<in> set (approvals gdemo_approved) \<and>
   (\<exists>e. guardian_session (act_on_approval gdemo_env (ap_id gdemo_approval) ''t'' gdemo_action) gdemo_approved = (gdemo_approved, Inl e))"
proof -
  have "gdemo_approval \<in> set (approvals gdemo_approved)" "ap_status gdemo_approval \<noteq> ''PENDING''"
    by (simp_all add: gdemo_approved_def gdemo_approval_def resolve_approval_def)
  from guardian_approval_final [OF gdemo_approved_inv this, of gdemo_approved gdemo_jwt "[]" gdemo_env "''t''" gdemo_action]
  show ?thesis by simp
qed

section \<open>The log\<close>

abbreviation gdemo_evaluate :: "guardian_env \<times> string option \<times> guardian_route" where
  "gdemo_evaluate \<equiv> (gdemo_env, Some ''Bearer svc'', EvaluateRoute (gdemo_evaluation MUTATE))"

theorem audit_log_tamper_evident_witness:
  "\<exists>es. es = tenant_log ''t'' (audit_events (guardian_run gdemo_jwt [gdemo_evaluate] empty_guardian)) \<and> es \<noteq> [] \<and>
     (map (canon \<circ> document_of) es = map (canon \<circ> document_of) es \<or> log_collision es es)"
proof -
  have auth: "require_service_token (genv_service_token gdemo_env) (Some ''Bearer svc'') = Inr ()"
    by (simp add: require_service_token_def partition_space_def is_ascii_def) code_simp
  from gdemo_issue obtain db r where
    ok: "guardian_session (guardian_evaluate gdemo_jwt gdemo_env (gdemo_evaluation MUTATE)) empty_guardian = (db, Inr r)" by blast
  then have op: "guardian_evaluate gdemo_jwt gdemo_env (gdemo_evaluation MUTATE) empty_guardian = Inr (db, r)"
    and con: "guardian_constraints db" by (simp_all add: guardian_session_ok)
  have run: "guardian_run gdemo_jwt [gdemo_evaluate] empty_guardian = db"
    using op con auth by (simp add: guardian_session_def session_def responding_def)
  from op have "audit_events db = append_audit_event ''u2'' 0
      (decision_entry (gdemo_evaluation MUTATE) (new_decision gdemo_env (gdemo_evaluation MUTATE))) []"
    by (auto simp: guardian_evaluate_def scalars_def gdemo_policy Let_def issue_authorization_def signer_issue_def)
  then have ne: "tenant_log ''t'' (audit_events (guardian_run gdemo_jwt [gdemo_evaluate] empty_guardian)) \<noteq> []"
    unfolding run by (simp add: append_audit_event_def Let_def tenant_log_def decision_entry_def)
  from audit_log_tamper_evident [OF refl refl this this refl] ne show ?thesis by blast
qed

end
