(* ===== verification/Gateway.thy ===== *)
theory Gateway
  imports RuntimeScope AuditLog PyDecimal
begin

text \<open>
  The gateway to remote tool servers (packages/mcp_gateway/client.py and secrets.py) and the
  tools the platform answers itself (packages/tools/core_handlers.py). The MCP client library
  and the servers behind it are a parameter: \<open>remote k m\<close> is the outcome of delivering the
  message \<open>m\<close> in the k-th attempt. The environment variables are a parameter, too. An
  operation returns the messages it has sent next to its result: they cannot be taken
  back.
\<close>

datatype py_exception = PyExc string string

section \<open>Secrets\<close>

definition py_startswith :: "string \<Rightarrow> string \<Rightarrow> bool" where
  "py_startswith s prefix \<longleftrightarrow> take (length prefix) s = prefix"

definition resolve_secret :: "(string \<Rightarrow> string option) \<Rightarrow> string option \<Rightarrow> py_exception + string option" where
  "resolve_secret getenv reference =
     (case reference of
        None \<Rightarrow> Inr None
      | Some r \<Rightarrow>
          if py_startswith r ''env://'' then
            let name = drop 6 r in
            (case getenv name of
               None \<Rightarrow> Inl (PyExc ''SecretResolutionError''
                 (''Secret environment reference '' @ py_repr_str name @ '' is unavailable''))
             | Some v \<Rightarrow>
                 if v = [] then Inl (PyExc ''SecretResolutionError''
                   (''Secret environment reference '' @ py_repr_str name @ '' is unavailable''))
                 else Inr (Some v))
          else Inl (PyExc ''SecretResolutionError''
            ''Only env:// references are enabled; configure a cloud resolver''))"

section \<open>The egress allowlist\<close>

text \<open>
  \<open>urlparse(endpoint).hostname\<close>: white space is removed, the scheme and the two slashes are
  skipped, the authority ends at a slash, question mark or number sign, user information and
  port are dropped. A lone bracket raises \<open>ValueError\<close>; the contents of brackets are
  not checked further.
\<close>

definition partition_at :: "char \<Rightarrow> string \<Rightarrow> string \<times> string" where
  "partition_at c s = (takeWhile (\<lambda>d. d \<noteq> c) s, drop 1 (dropWhile (\<lambda>d. d \<noteq> c) s))"

definition is_alpha :: "char \<Rightarrow> bool" where
  "is_alpha c = (let n = (of_char c :: nat) in 65 \<le> n \<and> n \<le> 90 \<or> 97 \<le> n \<and> n \<le> 122)"

definition scheme_char :: "char \<Rightarrow> bool" where
  "scheme_char c \<longleftrightarrow> is_alpha c \<or> is_digit c \<or> c \<in> {CHR ''+'', CHR ''-'', CHR ''.''}"

definition url_clean :: "string \<Rightarrow> string" where
  "url_clean url = filter (\<lambda>c. c \<notin> {CHR 0x09, CHR 0x0A, CHR 0x0D}) (dropWhile (\<lambda>c. (of_char c :: nat) \<le> 32) url)"

definition url_after_scheme :: "string \<Rightarrow> string" where
  "url_after_scheme url =
     (let (pre, rest) = partition_at CHR '':'' url in
      if CHR '':'' \<in> set url \<and> pre \<noteq> [] \<and> is_alpha (hd pre) \<and> list_all scheme_char pre then rest else url)"

definition url_netloc :: "string \<Rightarrow> string" where
  "url_netloc url =
     (let rest = url_after_scheme (url_clean url) in
      if take 2 rest = ''//'' then takeWhile (\<lambda>c. c \<notin> {CHR ''/'', CHR ''?'', CHR ''#''}) (drop 2 rest) else [])"

definition after_last :: "char \<Rightarrow> string \<Rightarrow> string" where
  "after_last c s = rev (takeWhile (\<lambda>d. d \<noteq> c) (rev s))"

definition url_hostname :: "string \<Rightarrow> py_exception + string" where
  "url_hostname url =
     (let netloc = url_netloc url in
      if (CHR ''['' \<in> set netloc) \<noteq> (CHR '']'' \<in> set netloc) then Inl (PyExc ''ValueError'' ''Invalid IPv6 URL'')
      else
        let hostinfo = after_last CHR ''@'' netloc;
            host = (if CHR ''['' \<in> set hostinfo
                    then fst (partition_at CHR '']'' (snd (partition_at CHR ''['' hostinfo)))
                    else fst (partition_at CHR '':'' hostinfo));
            (name, zone) = partition_at CHR ''%'' host
        in Inr (py_lower name @ (if CHR ''%'' \<in> set host then CHR ''%'' # zone else [])))"

definition rstrip_dots :: "string \<Rightarrow> string" where
  "rstrip_dots s = rev (dropWhile (\<lambda>c. c = CHR ''.'') (rev s))"

record remote_server_config =
  rs_endpoint :: string
  rs_auth_type :: string
  rs_secret_ref :: "string option"
  rs_timeout_seconds :: int
  rs_max_retries :: int
  rs_allowed_egress_hosts :: "string list"

definition host_key :: "string \<Rightarrow> string" where
  "host_key s = py_lower (rstrip_dots s)"

definition validate_egress :: "remote_server_config \<Rightarrow> py_exception + unit" where
  "validate_egress config =
     sum_bind (url_hostname (rs_endpoint config)) (\<lambda>host.
       let hostname = host_key host in
       if hostname = [] \<or> hostname \<notin> host_key ` set (rs_allowed_egress_hosts config)
       then Inl (PyExc ''RuntimeError'' ''Remote MCP endpoint is outside its exact egress host allowlist.'')
       else Inr ())"

section \<open>Calling a remote tool\<close>

record remote_message =
  rm_endpoint :: string
  rm_bearer :: "string option"
  rm_tool :: string
  rm_arguments :: dict
  rm_meta :: dict
  rm_redirects :: nat

text \<open>
  The content of a reply after \<open>_content_projection\<close>: a JSON value, or a list of objects of
  the client library, given by the length of its \<open>json.dumps(..., default=str)\<close> and the
  class of an object.
\<close>

datatype remote_content = JsonContent json | OpaqueContent nat string

text \<open>
  \<open>RemoteRedirect url same\<close> is an answer 307 or 308 with the location \<open>url\<close>: the HTTP client
  repeats the request with its method and body there. Whether the new location has the origin
  of the old one, so that the client keeps the bearer token, is the library's decision
  (\<open>same\<close>). The other redirects turn the request into a GET without a body, which is no call.
\<close>

datatype remote_reply =
    RemoteReply bool "json option" remote_content
  | RemoteRedirect string bool
  | RemoteFailure py_exception

type_synonym remote = "nat \<Rightarrow> remote_message \<Rightarrow> remote_reply"

text \<open>
  The client is created with \<open>follow_redirects=True\<close>, and so is the one the library makes itself
  when there is no token. It follows 20 redirects and never looks at the allowlist;
  \<open>rm_redirects\<close> counts the redirects that led to a message.
\<close>

definition max_redirects :: nat where
  "max_redirects = 20"

definition redirected :: "string \<Rightarrow> bool \<Rightarrow> remote_message \<Rightarrow> remote_message" where
  "redirected url same m =
     m\<lparr>rm_endpoint := url, rm_bearer := (if same then rm_bearer m else None), rm_redirects := Suc (rm_redirects m)\<rparr>"

fun deliver :: "(remote_message \<Rightarrow> remote_reply) \<Rightarrow> nat \<Rightarrow> remote_message \<Rightarrow> remote_message list \<times> remote_reply" where
  "deliver answer left m =
     (case answer m of
        RemoteRedirect url same \<Rightarrow>
          (case left of
             0 \<Rightarrow> ([m], RemoteFailure (PyExc ''TooManyRedirects'' ''Exceeded maximum allowed redirects.''))
           | Suc n \<Rightarrow> let (sent, reply) = deliver answer n (redirected url same m) in (m # sent, reply))
      | reply \<Rightarrow> ([m], reply))"

declare deliver.simps [simp del]

fun reply_outcome :: "remote_reply \<Rightarrow> py_exception + remote_content" where
  "reply_outcome (RemoteFailure e) = Inl e"
| "reply_outcome (RemoteReply is_error structured content) =
     (if is_error then Inl (PyExc ''RuntimeError'' ''Remote MCP server returned a tool error'')
      else Inr (case structured of Some v \<Rightarrow> JsonContent v | None \<Rightarrow> content))"
| "reply_outcome (RemoteRedirect url same) = Inl (PyExc ''TooManyRedirects'' ''Exceeded maximum allowed redirects.'')"

definition call_once ::
    "remote \<Rightarrow> (string \<Rightarrow> string option) \<Rightarrow> remote_server_config \<Rightarrow> string \<Rightarrow> dict \<Rightarrow> dict \<Rightarrow> nat \<Rightarrow>
      remote_message list \<times> (py_exception + remote_content)" where
  "call_once remote getenv config tool_name arguments meta attempt =
     (case validate_egress config of
        Inl e \<Rightarrow> ([], Inl e)
      | Inr _ \<Rightarrow>
     (case resolve_secret getenv (rs_secret_ref config) of
        Inl e \<Rightarrow> ([], Inl e)
      | Inr token \<Rightarrow>
          let message = \<lparr>rm_endpoint = rs_endpoint config, rm_bearer = token, rm_tool = tool_name,
                         rm_arguments = arguments, rm_meta = meta, rm_redirects = 0\<rparr> in
          (case deliver (remote attempt) max_redirects message of (sent, reply) \<Rightarrow> (sent, reply_outcome reply))))"

fun call_attempts ::
    "(nat \<Rightarrow> remote_message list \<times> (py_exception + remote_content)) \<Rightarrow> nat \<Rightarrow> nat \<Rightarrow>
      remote_message list \<times> (py_exception + remote_content)" where
  "call_attempts once retries attempt =
     (case once attempt of
        (sent, Inr v) \<Rightarrow> (sent, Inr v)
      | (sent, Inl e) \<Rightarrow>
          (case retries of
             0 \<Rightarrow> (sent, Inl e)
           | Suc n \<Rightarrow> let (sent', r) = call_attempts once n (attempt + 1) in (sent @ sent', r)))"

declare call_attempts.simps [simp del]

definition call_tool ::
    "remote \<Rightarrow> (string \<Rightarrow> string option) \<Rightarrow> remote_server_config \<Rightarrow> string \<Rightarrow> dict \<Rightarrow> dict \<Rightarrow>
      remote_message list \<times> (py_exception + remote_content)" where
  "call_tool remote getenv config tool_name arguments meta =
     (if rs_max_retries config < 0 then ([], Inl (PyExc ''AssertionError'' ''''))
      else call_attempts (call_once remote getenv config tool_name arguments meta) (nat (rs_max_retries config)) 0)"

section \<open>Tools of the platform\<close>

definition platform_describe :: "dict \<Rightarrow> json" where
  "platform_describe arguments = JObj
     [(''platform'', JStr ''Xyena + Guardian''),
      (''capabilities'', JList (map JStr [''tenant-isolated conversations'', ''multi-agent orchestration'',
         ''controlled MCP tools'', ''Guardian governance'', ''scoped context and memory''])),
      (''execution_boundary'', JStr ''No protected action executes without Guardian authorization.'')]"

definition risk_descriptions :: "(string \<times> string) list" where
  "risk_descriptions =
     [(''READ'', ''Non-sensitive read under an explicit agent grant.''),
      (''SENSITIVE_READ'', ''Purpose, consent, scope, minimization, and audit are required.''),
      (''MUTATE'', ''State-changing call requiring idempotency and Guardian policy.''),
      (''PRIVILEGED'', ''High-impact call requiring exact Guardian authorization.'')]"

definition tool_risk_explain :: "dict \<Rightarrow> json" where
  "tool_risk_explain arguments =
     (let risk_class = py_upper (py_str (case map_of arguments ''risk_class'' of None \<Rightarrow> JStr ''READ'' | Some v \<Rightarrow> v)) in
      JObj [(''risk_class'', JStr risk_class),
            (''description'', JStr (case map_of risk_descriptions risk_class of
               None \<Rightarrow> ''Unknown risk class'' | Some d \<Rightarrow> d))])"

definition core_handlers :: "string \<Rightarrow> (dict \<Rightarrow> json) option" where
  "core_handlers = map_of
     [(''xyena.platform.describe'', platform_describe), (''xyena.tools.explain_risk'', tool_risk_explain)]"

section \<open>What is sent\<close>

text \<open>
  The messages of one delivery: the given one first, then one for each redirect, every one
  to the location the answer to its predecessor named and otherwise with the same content.
\<close>

definition asked_by :: "remote_message list \<Rightarrow> (remote_message \<Rightarrow> remote_reply) \<Rightarrow> remote_message \<Rightarrow> bool" where
  "asked_by sent answer m \<longleftrightarrow> (\<exists>m' same. m' \<in> set sent \<and> answer m' = RemoteRedirect (rm_endpoint m) same \<and>
     rm_redirects m = Suc (rm_redirects m'))"

definition same_call :: "remote_message \<Rightarrow> remote_message \<Rightarrow> bool" where
  "same_call m m' \<longleftrightarrow> rm_tool m' = rm_tool m \<and> rm_arguments m' = rm_arguments m \<and> rm_meta m' = rm_meta m"

lemma asked_by_mono: "asked_by sent answer m \<Longrightarrow> set sent \<subseteq> set sent' \<Longrightarrow> asked_by sent' answer m"
  by (auto simp: asked_by_def)

lemma deliver_sent:
  assumes "deliver answer left m = (sent, reply)"
  shows "\<exists>rest. sent = m # rest \<and> length rest \<le> left \<and>
    (\<forall>m'\<in>set rest. same_call m m' \<and> rm_redirects m < rm_redirects m' \<and> asked_by sent answer m')"
  using assms
proof (induction left arbitrary: m sent reply)
  case 0
  then show ?case by (auto simp: deliver.simps [of answer 0] split: remote_reply.splits)
next
  case (Suc n)
  show ?case
  proof (cases "answer m")
    case (RemoteRedirect url same)
    let ?m = "redirected url same m"
    obtain s r where s: "deliver answer n ?m = (s, r)" by fastforce
    from Suc.IH [OF s] obtain rest where rest: "s = ?m # rest" "length rest \<le> n"
      "\<forall>m'\<in>set rest. same_call ?m m' \<and> rm_redirects ?m < rm_redirects m' \<and> asked_by s answer m'" by blast
    have sent: "sent = m # s" using Suc.prems RemoteRedirect s by (simp add: deliver.simps [of answer "Suc n"])
    have "asked_by sent answer ?m"
      unfolding asked_by_def sent using RemoteRedirect by (intro exI [of _ m] exI [of _ same]) (simp add: redirected_def)
    moreover have "asked_by sent answer m'" if "asked_by s answer m'" for m' using that sent by (auto intro: asked_by_mono)
    ultimately show ?thesis using rest by (auto simp: sent same_call_def redirected_def)
  qed (use Suc.prems in \<open>auto simp: deliver.simps [of answer "Suc n"]\<close>)
qed

text \<open>
  What holds of the messages of an attempt: the one that follows no redirect goes to the
  configured endpoint, whose host is on the allowlist; the others go where a server sent them.
\<close>

definition message_ok ::
    "remote \<Rightarrow> remote_server_config \<Rightarrow> string \<Rightarrow> dict \<Rightarrow> dict \<Rightarrow> remote_message list \<Rightarrow> remote_message \<Rightarrow> bool" where
  "message_ok remote config tool_name arguments meta sent m \<longleftrightarrow>
     rm_tool m = tool_name \<and> rm_arguments m = arguments \<and> rm_meta m = meta \<and> validate_egress config = Inr () \<and>
     (if rm_redirects m = 0 then rm_endpoint m = rs_endpoint config else \<exists>k. asked_by sent (remote k) m)"

definition calls_in :: "remote_message list \<Rightarrow> nat" where
  "calls_in sent = length (filter (\<lambda>m. rm_redirects m = 0) sent)"

definition sent_ok ::
    "remote \<Rightarrow> remote_server_config \<Rightarrow> string \<Rightarrow> dict \<Rightarrow> dict \<Rightarrow> nat \<Rightarrow> remote_message list \<Rightarrow> bool" where
  "sent_ok remote config tool_name arguments meta n sent \<longleftrightarrow>
     calls_in sent \<le> n \<and> length sent \<le> n * Suc max_redirects \<and>
     (\<forall>m\<in>set sent. message_ok remote config tool_name arguments meta sent m)"

lemma calls_in_append [simp]: "calls_in (s @ t) = calls_in s + calls_in t"
  by (simp add: calls_in_def)

lemma message_ok_mono:
  "message_ok remote config tool_name arguments meta s m \<Longrightarrow> set s \<subseteq> set t \<Longrightarrow>
     message_ok remote config tool_name arguments meta t m"
  unfolding message_ok_def using asked_by_mono [of s _ m t] by (metis (no_types))

lemma sent_ok_Nil [simp]: "sent_ok remote config tool_name arguments meta n []"
  by (simp add: sent_ok_def calls_in_def)

lemma sent_ok_append:
  "sent_ok remote config tool_name arguments meta n s \<Longrightarrow> sent_ok remote config tool_name arguments meta k t \<Longrightarrow>
     sent_ok remote config tool_name arguments meta (n + k) (s @ t)"
  by (auto simp: sent_ok_def add_mult_distrib intro: message_ok_mono)

lemma call_once_sent:
  assumes "call_once remote getenv config tool_name arguments meta attempt = (sent, r)"
  shows "sent_ok remote config tool_name arguments meta 1 sent"
proof (cases "sent = []")
  case False
  define message where "message token = \<lparr>rm_endpoint = rs_endpoint config, rm_bearer = token, rm_tool = tool_name,
    rm_arguments = arguments, rm_meta = meta, rm_redirects = 0\<rparr>" for token
  from assms False obtain token reply where egress: "validate_egress config = Inr ()"
    and "deliver (remote attempt) max_redirects (message token) = (sent, reply)"
    by (auto simp: call_once_def message_def Let_def split: sum.splits prod.splits)
  from deliver_sent [OF this(2)] obtain rest where rest: "sent = message token # rest" "length rest \<le> max_redirects"
    "\<forall>m\<in>set rest. same_call (message token) m \<and> rm_redirects (message token) < rm_redirects m \<and> asked_by sent (remote attempt) m"
    by blast
  then have "filter (\<lambda>m. rm_redirects m = 0) rest = []" by (auto simp: filter_empty_conv)
  then have "calls_in sent \<le> 1" by (simp add: calls_in_def rest(1))
  moreover have "message_ok remote config tool_name arguments meta sent m" if "m \<in> set sent" for m
    using that rest(1,3) egress by (auto simp: message_ok_def same_call_def message_def)
  ultimately show ?thesis using rest(1,2) by (simp add: sent_ok_def)
qed simp

lemma call_attempts_sent:
  assumes once: "\<And>k sent r. once k = (sent, r) \<Longrightarrow> sent_ok remote config tool_name arguments meta 1 sent"
    and "call_attempts once retries k = (sent, r)"
  shows "sent_ok remote config tool_name arguments meta (Suc retries) sent"
  using assms(2)
proof (induction retries arbitrary: k sent r)
  case 0
  obtain s x where s: "once k = (s, x)" by fastforce
  from 0 s have "sent = s" by (auto simp: call_attempts.simps [of once 0 k] split: sum.splits)
  with once [OF s] show ?case by simp
next
  case (Suc n)
  obtain s x where s: "once k = (s, x)" by fastforce
  obtain t y where t: "call_attempts once n (k + 1) = (t, y)" by fastforce
  from Suc.prems s t have "sent = s @ [] \<or> sent = s @ t"
    by (auto simp: call_attempts.simps [of once "Suc n" k] split: sum.splits)
  with sent_ok_append [OF once [OF s] Suc.IH [OF t]] sent_ok_append [OF once [OF s] sent_ok_Nil [where n = "Suc n"]]
  show ?case by auto
qed

text \<open>
  A call is made at most once more than it may be retried, each time with the given tool,
  arguments and signed scope, to the configured endpoint and only when the host of the endpoint
  is on the allowlist. Every further message repeats it at the location a server named.
\<close>

lemma call_tool_sent:
  assumes "call_tool remote getenv config tool_name arguments meta = (sent, r)"
  shows "sent_ok remote config tool_name arguments meta (Suc (nat (rs_max_retries config))) sent"
proof (cases "rs_max_retries config < 0")
  case True
  with assms show ?thesis by (auto simp: call_tool_def)
next
  case False
  with assms have "call_attempts (call_once remote getenv config tool_name arguments meta)
    (nat (rs_max_retries config)) 0 = (sent, r)" by (simp add: call_tool_def)
  from call_attempts_sent [OF call_once_sent this] show ?thesis .
qed

text \<open>
  The allowlist covers the configured endpoint only: whichever location the server names in
  its first answer, it is sent the call with its arguments and its signed scope.
\<close>

lemma redirect_leaves_allowlist:
  assumes "validate_egress config = Inr ()" "resolve_secret getenv (rs_secret_ref config) = Inr token"
    and "\<And>m. rm_redirects m = 0 \<Longrightarrow> remote attempt m = RemoteRedirect url same"
    and "call_once remote getenv config tool_name arguments meta attempt = (sent, r)"
  shows "\<exists>m\<in>set sent. rm_endpoint m = url \<and> rm_tool m = tool_name \<and> rm_arguments m = arguments \<and> rm_meta m = meta"
proof -
  define message where "message = \<lparr>rm_endpoint = rs_endpoint config, rm_bearer = token, rm_tool = tool_name,
    rm_arguments = arguments, rm_meta = meta, rm_redirects = 0\<rparr>"
  obtain s reply where s: "deliver (remote attempt) 19 (redirected url same message) = (s, reply)" by fastforce
  have "deliver (remote attempt) max_redirects message = (message # s, reply)"
    using assms(3) [of message] s
    by (subst deliver.simps) (simp add: max_redirects_def message_def eval_nat_numeral)
  then have "sent = message # s" using assms(1,2,4) by (simp add: call_once_def message_def)
  moreover from deliver_sent [OF s] have "redirected url same message \<in> set s" by auto
  ultimately show ?thesis by (intro bexI [of _ "redirected url same message"]) (simp_all add: redirected_def message_def)
qed

text \<open>An accepted endpoint has a non-empty host that is listed.\<close>

lemma validate_egress_Inr:
  "validate_egress config = Inr () \<longleftrightarrow> (\<exists>host. url_hostname (rs_endpoint config) = Inr host \<and> host_key host \<noteq> [] \<and>
     host_key host \<in> host_key ` set (rs_allowed_egress_hosts config))"
  by (auto simp: validate_egress_def sum_bind_Inr Let_def split: if_splits)

end
