(* ===== verification/Registry.thy ===== *)
theory Registry
  imports Gateway Contracts
begin

text \<open>
  The tool registry (packages/tools/registry.py, the registry routes of
  apps/mcp_server/main.py, persistence/models/mcp.py): servers, their discovered tools, tool
  versions and policies. Discovery of a server's tools is a parameter. Timestamps that no
  code of the registry or the broker reads are left out; time limits are thousandths of a
  second.
\<close>

section \<open>Tables\<close>

record mcp_server =
  ms_id :: string
  ms_tenant_id :: "string option"
  ms_label :: string
  ms_description :: string
  ms_transport :: string
  ms_endpoint :: string
  ms_auth_type :: string
  ms_secret_ref :: "string option"
  ms_trust_tier :: string
  ms_status :: string
  ms_allowed_egress_hosts :: "string list"
  ms_timeout_seconds :: int
  ms_max_retries :: int
  ms_discovery_hash :: "string option"
  ms_last_discovered_at :: "time option"
  ms_version :: int

record mcp_server_version =
  sv_id :: string
  sv_server_id :: string
  sv_implementation_name :: "string option"
  sv_implementation_version :: "string option"
  sv_protocol_version :: "string option"
  sv_discovery_hash :: string
  sv_discovery_document :: dict

record mcp_tool =
  mt_id :: string
  mt_server_id :: string
  mt_canonical_name :: string
  mt_original_name :: string
  mt_description :: "string option"
  mt_status :: string
  mt_version :: int

record mcp_tool_version =
  tv_id :: string
  tv_tool_id :: string
  tv_schema_hash :: string
  tv_input_schema :: dict
  tv_output_schema :: dict
  tv_risk_class :: string
  tv_side_effects :: bool
  tv_idempotent :: bool
  tv_parallel_allowed :: bool
  tv_hosted_mcp_allowed :: bool
  tv_status :: string
  tv_created_at :: time

record mcp_tool_policy =
  tp_id :: string
  tp_tool_version_id :: string
  tp_tenant_id :: "string option"
  tp_required_roles :: "string list"
  tp_required_purposes :: "string list"
  tp_required_consents :: "string list"
  tp_allowed_agents :: "string list"
  tp_approval_mode :: string
  tp_timeout_seconds :: int
  tp_maximum_result_bytes :: int
  tp_status :: string
  tp_version :: int

record registry_db =
  servers :: "mcp_server list"
  server_versions :: "mcp_server_version list"
  tools :: "mcp_tool list"
  tool_versions :: "mcp_tool_version list"
  tool_policies :: "mcp_tool_policy list"

definition registry_constraints :: "registry_db \<Rightarrow> bool" where
  "registry_constraints db \<longleftrightarrow>
     unique_by (Some \<circ> ms_id) (servers db) \<and>
     unique_by (\<lambda>s. map_option (\<lambda>t. (t, ms_label s)) (ms_tenant_id s)) (servers db) \<and>
     unique_by (Some \<circ> sv_id) (server_versions db) \<and>
     unique_by (\<lambda>v. Some (sv_server_id v, sv_discovery_hash v)) (server_versions db) \<and>
     unique_by (Some \<circ> mt_id) (tools db) \<and>
     unique_by (\<lambda>t. Some (mt_server_id t, mt_original_name t)) (tools db) \<and>
     unique_by (\<lambda>t. Some (mt_server_id t, mt_canonical_name t)) (tools db) \<and>
     unique_by (Some \<circ> tv_id) (tool_versions db) \<and>
     unique_by (\<lambda>v. Some (tv_tool_id v, tv_schema_hash v)) (tool_versions db) \<and>
     unique_by (Some \<circ> tp_id) (tool_policies db)"

datatype registry_error =
    RegistryValueError string
  | RegistryLookupError string
  | RegistryHTTPError nat string
  | RegistryIntegrityError
  | RegistryRemoteError py_exception

record registry_env =
  renv_now :: time
  renv_uuid :: "nat \<Rightarrow> string"

type_synonym 'a registry_op = "registry_db \<Rightarrow> registry_error + registry_db \<times> 'a"

section \<open>Servers\<close>

record server_create =
  mc_label :: string
  mc_description :: string
  mc_transport :: string
  mc_endpoint :: string
  mc_auth_type :: string
  mc_secret_ref :: "string option"
  mc_trust_tier :: string
  mc_allowed_egress_hosts :: "string list"
  mc_timeout_seconds :: int
  mc_max_retries :: int

definition register_server :: "registry_env \<Rightarrow> string option \<Rightarrow> server_create \<Rightarrow> mcp_server registry_op" where
  "register_server env tenant_id request db =
     (if scalar (\<lambda>s. ms_tenant_id s = tenant_id \<and> ms_label s = mc_label request) (servers db) \<noteq> None
      then Inl (RegistryValueError (''MCP server label '' @ py_repr_str (mc_label request) @ '' is already registered''))
      else
        let server = \<lparr>ms_id = renv_uuid env 0, ms_tenant_id = tenant_id, ms_label = mc_label request,
              ms_description = mc_description request, ms_transport = mc_transport request,
              ms_endpoint = mc_endpoint request, ms_auth_type = mc_auth_type request,
              ms_secret_ref = mc_secret_ref request, ms_trust_tier = mc_trust_tier request,
              ms_status = ''PENDING_REVIEW'', ms_allowed_egress_hosts = mc_allowed_egress_hosts request,
              ms_timeout_seconds = mc_timeout_seconds request, ms_max_retries = mc_max_retries request,
              ms_discovery_hash = None, ms_last_discovered_at = None, ms_version = 1\<rparr>
        in Inr (db\<lparr>servers := servers db @ [server]\<rparr>, server))"

definition find_server :: "string option \<Rightarrow> string \<Rightarrow> registry_db \<Rightarrow> registry_error + mcp_server" where
  "find_server tenant_id server_id db =
     (case scalar (\<lambda>s. ms_id s = server_id) (servers db) of
        None \<Rightarrow> Inl (RegistryHTTPError 404 ''MCP server not found.'')
      | Some s \<Rightarrow> if ms_tenant_id s \<noteq> tenant_id then Inl (RegistryHTTPError 404 ''MCP server not found.'') else Inr s)"

record server_review =
  mw_trust_tier :: string
  mw_status :: string

definition apply_server_review :: "server_review \<Rightarrow> mcp_server \<Rightarrow> mcp_server" where
  "apply_server_review review s =
     s\<lparr>ms_trust_tier := mw_trust_tier review, ms_status := mw_status review, ms_version := ms_version s + 1\<rparr>"

definition review_server :: "string option \<Rightarrow> string \<Rightarrow> server_review \<Rightarrow> mcp_server registry_op" where
  "review_server tenant_id server_id review db =
     sum_bind (find_server tenant_id server_id db) (\<lambda>server.
     if ms_last_discovered_at server = None \<and> mw_status review = ''ACTIVE''
     then Inl (RegistryValueError ''Discover the server before activation.'')
     else Inr (db\<lparr>servers := update_rows (\<lambda>s. ms_id s = server_id) (apply_server_review review) (servers db)\<rparr>,
               apply_server_review review server))"

section \<open>Discovery\<close>

record discovered_tool =
  dt_name :: string
  dt_description :: "string option"
  dt_input_schema :: dict
  dt_output_schema :: dict

record server_info =
  si_implementation_name :: "string option"
  si_implementation_version :: "string option"
  si_protocol_version :: "string option"

definition discovered_dump :: "discovered_tool \<Rightarrow> json" where
  "discovered_dump t = JObj [(''name'', JStr (dt_name t)), (''description'', JOpt (dt_description t)),
     (''input_schema'', JObj (dt_input_schema t)), (''output_schema'', JObj (dt_output_schema t))]"

definition discovery_document :: "mcp_server \<Rightarrow> discovered_tool list \<Rightarrow> server_info \<Rightarrow> dict" where
  "discovery_document server found_tools info =
     [(''server'', JStr (ms_label server)),
      (''tools'', JList (map discovered_dump (sort_key dt_name found_tools))),
      (''implementation_name'', JOpt (si_implementation_name info)),
      (''implementation_version'', JOpt (si_implementation_version info)),
      (''protocol_version'', JOpt (si_protocol_version info))]"

definition schema_document :: "discovered_tool \<Rightarrow> dict" where
  "schema_document t = [(''input'', JObj (dt_input_schema t)), (''output'', JObj (dt_output_schema t))]"

definition new_tool :: "string \<Rightarrow> mcp_server \<Rightarrow> discovered_tool \<Rightarrow> mcp_tool" where
  "new_tool uuid server t =
     \<lparr>mt_id = uuid, mt_server_id = ms_id server, mt_canonical_name = ms_label server @ ''.'' @ dt_name t,
      mt_original_name = dt_name t, mt_description = dt_description t, mt_status = ''PENDING_REVIEW'', mt_version = 1\<rparr>"

definition new_tool_version :: "string \<Rightarrow> time \<Rightarrow> mcp_tool \<Rightarrow> discovered_tool \<Rightarrow> mcp_tool_version" where
  "new_tool_version uuid now tool t =
     \<lparr>tv_id = uuid, tv_tool_id = mt_id tool, tv_schema_hash = canonical_hash (JObj (schema_document t)),
      tv_input_schema = dt_input_schema t, tv_output_schema = dt_output_schema t, tv_risk_class = ''READ'',
      tv_side_effects = False, tv_idempotent = True, tv_parallel_allowed = False, tv_hosted_mcp_allowed = False,
      tv_status = ''PENDING_REVIEW'', tv_created_at = now\<rparr>"

definition new_policy :: "string \<Rightarrow> mcp_server \<Rightarrow> mcp_tool_version \<Rightarrow> mcp_tool_policy" where
  "new_policy uuid server version =
     \<lparr>tp_id = uuid, tp_tool_version_id = tv_id version, tp_tenant_id = ms_tenant_id server, tp_required_roles = [],
      tp_required_purposes = [], tp_required_consents = [], tp_allowed_agents = [], tp_approval_mode = ''POLICY'',
      tp_timeout_seconds = ms_timeout_seconds server, tp_maximum_result_bytes = 262144, tp_status = ''DRAFT'',
      tp_version = 1\<rparr>"

definition ensure_tool :: "string \<Rightarrow> mcp_server \<Rightarrow> discovered_tool \<Rightarrow> registry_db \<Rightarrow> registry_db \<times> mcp_tool" where
  "ensure_tool uuid server t db =
     (case scalar (\<lambda>r. mt_server_id r = ms_id server \<and> mt_original_name r = dt_name t) (tools db) of
        Some tool \<Rightarrow> (db, tool)
      | None \<Rightarrow> let tool = new_tool uuid server t in (db\<lparr>tools := tools db @ [tool]\<rparr>, tool))"

definition ensure_version ::
    "string \<Rightarrow> string \<Rightarrow> time \<Rightarrow> mcp_server \<Rightarrow> mcp_tool \<Rightarrow> discovered_tool \<Rightarrow> registry_db \<Rightarrow> registry_db" where
  "ensure_version version_uuid policy_uuid now server tool t db =
     (case scalar (\<lambda>v. tv_tool_id v = mt_id tool \<and> tv_schema_hash v = canonical_hash (JObj (schema_document t)))
             (tool_versions db) of
        Some version \<Rightarrow> db
      | None \<Rightarrow>
          let version = new_tool_version version_uuid now tool t in
          db\<lparr>tool_versions := tool_versions db @ [version],
             tool_policies := tool_policies db @ [new_policy policy_uuid server version]\<rparr>)"

definition upsert_discovered_tool ::
    "registry_env \<Rightarrow> mcp_server \<Rightarrow> nat \<times> discovered_tool \<Rightarrow> registry_db \<Rightarrow> registry_db" where
  "upsert_discovered_tool env server item db =
     (case item of (i, t) \<Rightarrow>
        let (db1, tool) = ensure_tool (renv_uuid env (3 * i + 1)) server t db in
        ensure_version (renv_uuid env (3 * i + 2)) (renv_uuid env (3 * i + 3)) (renv_now env) server tool t db1)"

definition record_discovery :: "time \<Rightarrow> string \<Rightarrow> mcp_server \<Rightarrow> mcp_server" where
  "record_discovery now discovery_hash s =
     s\<lparr>ms_discovery_hash := Some discovery_hash, ms_last_discovered_at := Some now, ms_version := ms_version s + 1\<rparr>"

definition discover ::
    "(mcp_server \<Rightarrow> py_exception + discovered_tool list \<times> server_info) \<Rightarrow> registry_env \<Rightarrow> string option \<Rightarrow> string \<Rightarrow>
      mcp_server_version registry_op" where
  "discover list_tools env tenant_id server_id db =
     sum_bind (find_server tenant_id server_id db) (\<lambda>server.
     case list_tools server of
       Inl e \<Rightarrow> Inl (RegistryRemoteError e)
     | Inr (found_tools, info) \<Rightarrow>
         let document = discovery_document server found_tools info;
             discovery_hash = canonical_hash (JObj document);
             existing = scalar (\<lambda>v. sv_server_id v = ms_id server \<and> sv_discovery_hash v = discovery_hash) (server_versions db);
             version = (case existing of Some v \<Rightarrow> v
               | None \<Rightarrow> \<lparr>sv_id = renv_uuid env 0, sv_server_id = ms_id server,
                   sv_implementation_name = si_implementation_name info,
                   sv_implementation_version = si_implementation_version info,
                   sv_protocol_version = si_protocol_version info, sv_discovery_hash = discovery_hash,
                   sv_discovery_document = document\<rparr>);
             db1 = (case existing of Some _ \<Rightarrow> db | None \<Rightarrow> db\<lparr>server_versions := server_versions db @ [version]\<rparr>);
             db2 = fold (upsert_discovered_tool env server) (enumerate 0 found_tools) db1
         in Inr (db2\<lparr>servers := update_rows (\<lambda>s. ms_id s = server_id)
                   (record_discovery (renv_now env) discovery_hash) (servers db2)\<rparr>, version))"

section \<open>Review of tools\<close>

record policy_create =
  pc_canonical_name :: string
  pc_risk_class :: risk_class
  pc_required_roles :: "string list"
  pc_required_purposes :: "string list"
  pc_required_consents :: "string list"
  pc_allowed_agents :: "string list"
  pc_approval_mode :: string
  pc_side_effects :: bool
  pc_idempotent :: bool
  pc_parallel_allowed :: bool
  pc_hosted_mcp_allowed :: bool
  pc_timeout_seconds :: int
  pc_maximum_result_bytes :: int

definition apply_version_review :: "policy_create \<Rightarrow> mcp_tool_version \<Rightarrow> mcp_tool_version" where
  "apply_version_review review v =
     v\<lparr>tv_risk_class := risk_value (pc_risk_class review), tv_side_effects := pc_side_effects review,
       tv_idempotent := pc_idempotent review, tv_parallel_allowed := pc_parallel_allowed review,
       tv_hosted_mcp_allowed := pc_hosted_mcp_allowed review, tv_status := ''ACTIVE''\<rparr>"

definition apply_policy_review :: "policy_create \<Rightarrow> mcp_tool_policy \<Rightarrow> mcp_tool_policy" where
  "apply_policy_review review p =
     p\<lparr>tp_required_roles := pc_required_roles review, tp_required_purposes := pc_required_purposes review,
       tp_required_consents := pc_required_consents review, tp_allowed_agents := pc_allowed_agents review,
       tp_approval_mode := pc_approval_mode review, tp_timeout_seconds := pc_timeout_seconds review,
       tp_maximum_result_bytes := pc_maximum_result_bytes review, tp_status := ''ACTIVE'',
       tp_version := tp_version p + 1\<rparr>"

definition activate_tool :: "mcp_tool \<Rightarrow> mcp_tool" where
  "activate_tool t = t\<lparr>mt_status := ''ACTIVE'', mt_version := mt_version t + 1\<rparr>"

definition sibling_ids :: "mcp_tool \<Rightarrow> mcp_tool_version \<Rightarrow> registry_db \<Rightarrow> string list" where
  "sibling_ids tool version db =
     map tv_id (scalars (\<lambda>v. tv_tool_id v = mt_id tool \<and> tv_id v \<noteq> tv_id version) (tool_versions db))"

definition review_rows ::
    "string \<Rightarrow> string option \<Rightarrow> registry_db \<Rightarrow> (mcp_tool \<times> mcp_tool_version \<times> mcp_tool_policy \<times> mcp_server) list" where
  "review_rows tool_version_id tenant_id db =
     [(t, v, p, s). t \<leftarrow> tools db, v \<leftarrow> tool_versions db, p \<leftarrow> tool_policies db, s \<leftarrow> servers db,
        tv_tool_id v = mt_id t \<and> tp_tool_version_id p = tv_id v \<and> ms_id s = mt_server_id t
          \<and> tv_id v = tool_version_id \<and> ms_tenant_id s = tenant_id]"

definition review_tool_version ::
    "string \<Rightarrow> policy_create \<Rightarrow> string option \<Rightarrow> (mcp_tool \<times> mcp_tool_version \<times> mcp_tool_policy) registry_op" where
  "review_tool_version tool_version_id review tenant_id db =
     (case review_rows tool_version_id tenant_id db of
        [] \<Rightarrow> Inl (RegistryLookupError ''MCP tool version not found.'')
      | (tool, version, policy, server) # _ \<Rightarrow>
          if ms_status server \<noteq> ''ACTIVE''
          then Inl (RegistryValueError ''Activate the reviewed MCP server before its tools.'')
          else if mt_canonical_name tool \<noteq> pc_canonical_name review
          then Inl (RegistryValueError ''Canonical tool name does not match the reviewed version.'')
          else
            let siblings = sibling_ids tool version db;
                versions1 = update_rows (\<lambda>v. tv_id v \<in> set siblings) (\<lambda>v. v\<lparr>tv_status := ''SUPERSEDED''\<rparr>) (tool_versions db);
                policies1 = update_rows (\<lambda>p. tp_tool_version_id p \<in> set siblings) (\<lambda>p. p\<lparr>tp_status := ''DISABLED''\<rparr>)
                              (tool_policies db)
            in Inr (db\<lparr>tool_versions := update_rows (\<lambda>v. tv_id v = tv_id version) (apply_version_review review) versions1,
                       tool_policies := update_rows (\<lambda>p. tp_id p = tp_id policy) (apply_policy_review review) policies1,
                       tools := update_rows (\<lambda>t. mt_id t = mt_id tool) activate_tool (tools db)\<rparr>,
                    (activate_tool tool, apply_version_review review version, apply_policy_review review policy)))"

definition list_tool_versions ::
    "string option \<Rightarrow> string \<Rightarrow> (mcp_tool \<times> mcp_tool_version \<times> mcp_tool_policy) list registry_op" where
  "list_tool_versions tenant_id server_id db =
     sum_bind (find_server tenant_id server_id db) (\<lambda>_.
       Inr (db, sort_key (\<lambda>(t, v, p). mt_canonical_name t) (sort_key (\<lambda>(t, v, p). - tv_created_at v)
         [(t, v, p). t \<leftarrow> tools db, v \<leftarrow> tool_versions db, p \<leftarrow> tool_policies db,
            tv_tool_id v = mt_id t \<and> tp_tool_version_id p = tv_id v \<and> mt_server_id t = server_id])))"

definition list_servers :: "string option \<Rightarrow> mcp_server list registry_op" where
  "list_servers tenant_id db =
     Inr (db, sort_key ms_label (scalars (\<lambda>s. ms_tenant_id s = tenant_id) (servers db)))"

definition registry_session :: "'a registry_op \<Rightarrow> registry_db \<Rightarrow> registry_db \<times> (registry_error + 'a)" where
  "registry_session = session registry_constraints RegistryIntegrityError"

end
