(* ===== verification/RegistryProperties.thy ===== *)
theory RegistryProperties
  imports Registry
begin

text \<open>
  The properties of the registry: a rediscovery of an unchanged server adds nothing, a
  discovered tool is inert until it is reviewed on an active server, and a tool never has
  two active versions.
\<close>

lemma registry_session_ok:
  "registry_session op db = (db', Inr res) \<longleftrightarrow> op db = Inr (db', res) \<and> registry_constraints db'"
  by (simp add: registry_session_def session_ok)

section \<open>Discovery only appends inert rows\<close>

definition inert_extension :: "registry_db \<Rightarrow> registry_db \<Rightarrow> bool" where
  "inert_extension db db' \<longleftrightarrow>
     (\<exists>ts. tools db' = tools db @ ts \<and> list_all (\<lambda>t. mt_status t = ''PENDING_REVIEW'') ts) \<and>
     (\<exists>vs. tool_versions db' = tool_versions db @ vs \<and> list_all (\<lambda>v. tv_status v = ''PENDING_REVIEW'') vs) \<and>
     (\<exists>ps. tool_policies db' = tool_policies db @ ps \<and> list_all (\<lambda>p. tp_status p = ''DRAFT'') ps) \<and>
     servers db' = servers db \<and> server_versions db' = server_versions db"

lemma inert_refl: "inert_extension db db"
  by (simp add: inert_extension_def)

lemma inert_trans: "inert_extension x y \<Longrightarrow> inert_extension y z \<Longrightarrow> inert_extension x z"
proof -
  assume "inert_extension x y" "inert_extension y z"
  then obtain ts vs ps ts' vs' ps' where
    "tools y = tools x @ ts" "tools z = tools y @ ts'" "tool_versions y = tool_versions x @ vs" "tool_versions z = tool_versions y @ vs'"
    "tool_policies y = tool_policies x @ ps" "tool_policies z = tool_policies y @ ps'"
    "servers z = servers x" "server_versions z = server_versions x"
    and ts: "list_all (\<lambda>t. mt_status t = ''PENDING_REVIEW'') (ts @ ts')"
    and vs: "list_all (\<lambda>v. tv_status v = ''PENDING_REVIEW'') (vs @ vs')"
    and ps: "list_all (\<lambda>p. tp_status p = ''DRAFT'') (ps @ ps')"
    unfolding inert_extension_def list_all_append by (elim conjE exE) simp
  then have eqs: "tools z = tools x @ (ts @ ts')" "tool_versions z = tool_versions x @ (vs @ vs')"
    "tool_policies z = tool_policies x @ (ps @ ps')" "servers z = servers x" "server_versions z = server_versions x"
    by simp_all
  show ?thesis
    unfolding inert_extension_def eqs
    by (intro conjI exI [of _ "ts @ ts'"] exI [of _ "vs @ vs'"] exI [of _ "ps @ ps'"] ts vs ps refl)
qed

lemma ensure_tool_inert: "inert_extension db (fst (ensure_tool u server t db))"
  by (auto simp: ensure_tool_def inert_extension_def new_tool_def Let_def split: option.splits)

lemma ensure_version_inert: "inert_extension db (ensure_version u w now server tool t db)"
  by (auto simp: ensure_version_def inert_extension_def new_tool_version_def new_policy_def Let_def split: option.splits)

lemma upsert_inert: "inert_extension db (upsert_discovered_tool env server item db)"
proof (cases item)
  case (Pair i t)
  show ?thesis
    unfolding upsert_discovered_tool_def Pair Let_def prod.case case_prod_beta
    by (rule inert_trans [OF ensure_tool_inert ensure_version_inert])
qed

lemma fold_upsert_inert: "inert_extension db (fold (upsert_discovered_tool env server) items db)"
proof (induction items arbitrary: db)
  case (Cons item items)
  show ?case using inert_trans [OF upsert_inert Cons.IH] by simp
qed (simp add: inert_refl)

section \<open>Rediscovery\<close>

interpretation server_rows: keyed_rows ms_id .

definition present :: "string \<Rightarrow> registry_db \<Rightarrow> discovered_tool \<Rightarrow> bool" where
  "present server_id db t \<longleftrightarrow> (\<exists>tool. scalar (\<lambda>r. mt_server_id r = server_id \<and> mt_original_name r = dt_name t) (tools db) = Some tool \<and>
     (\<exists>v\<in>set (tool_versions db). tv_tool_id v = mt_id tool \<and> tv_schema_hash v = canonical_hash (JObj (schema_document t))))"

lemma present_extension: "inert_extension db db' \<Longrightarrow> present s db t \<Longrightarrow> present s db' t"
  by (auto simp: inert_extension_def present_def scalar_append)

lemma upsert_present: "present (ms_id server) (upsert_discovered_tool env server (i, t) db) t"
proof -
  obtain db1 tool where t: "ensure_tool (renv_uuid env (3 * i + 1)) server t db = (db1, tool)" by fastforce
  then have row: "scalar (\<lambda>r. mt_server_id r = ms_id server \<and> mt_original_name r = dt_name t) (tools db1) = Some tool"
    by (auto simp: ensure_tool_def Let_def scalar_append new_tool_def split: option.splits)
  have "\<exists>v\<in>set (tool_versions (ensure_version u w now server tool t db1)). tv_tool_id v = mt_id tool \<and>
      tv_schema_hash v = canonical_hash (JObj (schema_document t))" for u w now
    by (auto simp: ensure_version_def Let_def new_tool_version_def split: option.splits dest: scalar_Some)
  moreover have "tools (ensure_version u w now server tool t db1) = tools db1" for u w now
    by (simp add: ensure_version_def Let_def split: option.split)
  ultimately show ?thesis using t row by (simp add: upsert_discovered_tool_def present_def)
qed

lemma upsert_idle:
  assumes "present (ms_id server) db t"
  shows "upsert_discovered_tool env server (i, t) db = db"
proof -
  from assms obtain tool v where tool: "scalar (\<lambda>r. mt_server_id r = ms_id server \<and> mt_original_name r = dt_name t) (tools db) = Some tool"
    and v: "v \<in> set (tool_versions db)" "tv_tool_id v = mt_id tool" "tv_schema_hash v = canonical_hash (JObj (schema_document t))"
    by (auto simp: present_def)
  then have "scalar (\<lambda>v. tv_tool_id v = mt_id tool \<and> tv_schema_hash v = canonical_hash (JObj (schema_document t))) (tool_versions db) \<noteq> None"
    by (auto simp: scalar_None)
  with tool show ?thesis by (auto simp: upsert_discovered_tool_def ensure_tool_def ensure_version_def split: option.splits)
qed

lemma fold_upsert_present:
  "(i, t) \<in> set items \<Longrightarrow> present (ms_id server) (fold (upsert_discovered_tool env server) items db) t"
proof (induction items arbitrary: db)
  case (Cons item items)
  show ?case
  proof (cases "item = (i, t)")
    case True
    then show ?thesis using present_extension [OF fold_upsert_inert upsert_present] by simp
  next
    case False
    with Cons show ?thesis by simp
  qed
qed simp

lemma fold_upsert_idle:
  "(\<And>i t. (i, t) \<in> set items \<Longrightarrow> present (ms_id server) db t) \<Longrightarrow> fold (upsert_discovered_tool env server) items db = db"
proof (induction items)
  case (Cons item items)
  obtain i t where item: "item = (i, t)" by fastforce
  have "upsert_discovered_tool env server item db = db"
    unfolding item by (rule upsert_idle, rule Cons.prems [of i]) (simp add: item)
  moreover have "fold (upsert_discovered_tool env server) items db = db"
    by (rule Cons.IH, rule Cons.prems) (rule list.set_intros(2))
  ultimately show ?case by simp
qed simp

definition rows_of :: "registry_db \<Rightarrow> mcp_server_version list \<times> mcp_tool list \<times> mcp_tool_version list \<times> mcp_tool_policy list" where
  "rows_of db = (server_versions db, tools db, tool_versions db, tool_policies db)"

text \<open>
  Rediscovering an unchanged server is idempotent: when a discovery has committed and the
  server gives the same answer again, the second discovery returns the same server
  version and adds no server version, tool, tool version or policy.
\<close>

theorem registry_rediscovery_idempotent:
  assumes "registry_session (discover list_tools env tenant sid) db = (db1, Inr v)"
    and same: "\<And>s. list_tools s = Inr (found_tools, info)"
  shows "\<exists>db2. registry_session (discover list_tools env' tenant sid) db1 = (db2, Inr v) \<and> rows_of db2 = rows_of db1"
proof -
  from assms(1) have op: "discover list_tools env tenant sid db = Inr (db1, v)" and con: "registry_constraints db1"
    by (simp_all add: registry_session_ok)
  obtain s where s: "find_server tenant sid db = Inr s" using op by (auto simp: discover_def sum_bind_Inr)
  then have srow: "scalar (\<lambda>s. ms_id s = sid) (servers db) = Some s" "ms_tenant_id s = tenant" "ms_id s = sid"
    by (auto simp: find_server_def split: option.splits if_splits dest: scalar_Some)
  define h where "h = canonical_hash (JObj (discovery_document s found_tools info))"
  define db0 where "db0 = (case scalar (\<lambda>v. sv_server_id v = sid \<and> sv_discovery_hash v = h) (server_versions db) of
      Some _ \<Rightarrow> db | None \<Rightarrow> db\<lparr>server_versions := server_versions db @ [v]\<rparr>)"
  define dbf where "dbf = fold (upsert_discovered_tool env s) (enumerate 0 found_tools) db0"
  have db1: "db1 = dbf\<lparr>servers := update_rows (\<lambda>s. ms_id s = sid) (record_discovery (renv_now env) h) (servers dbf)\<rparr>"
    and v: "scalar (\<lambda>v. sv_server_id v = sid \<and> sv_discovery_hash v = h) (server_versions db0) = Some v"
    using op s srow(3)
    by (auto simp: discover_def same Let_def h_def db0_def dbf_def scalar_append split: option.splits)
  have inert: "inert_extension db0 dbf" unfolding dbf_def by (rule fold_upsert_inert)
  have srv: "servers dbf = servers db" "server_versions dbf = server_versions db0"
    using inert by (auto simp: inert_extension_def db0_def split: option.splits)
  define s1 where "s1 = record_discovery (renv_now env) h s"
  have s1: "find_server tenant sid db1 = Inr s1" "ms_id s1 = sid" "ms_label s1 = ms_label s"
  proof -
    have "scalar (\<lambda>s. ms_id s = sid) (update_rows (\<lambda>s. ms_id s = sid) (record_discovery (renv_now env) h) (servers db)) = Some s1"
      using srow(1) server_rows.get_update [of "record_discovery (renv_now env) h" sid sid "servers db"]
      by (simp add: server_rows.get_def s1_def record_discovery_def)
    then show "find_server tenant sid db1 = Inr s1"
      using srow(2) by (simp add: find_server_def db1 srv s1_def record_discovery_def)
  qed (simp_all add: s1_def record_discovery_def srow)
  have h1: "canonical_hash (JObj (discovery_document s1 found_tools info)) = h"
    by (simp add: h_def discovery_document_def s1(3))
  have pres: "present sid db1 t" if "(i, t) \<in> set (enumerate 0 found_tools)" for i t
    using fold_upsert_present [OF that, of s env db0] srow(3) by (simp add: dbf_def db1 present_def)
  have idle: "fold (upsert_discovered_tool env' s1) (enumerate 0 found_tools) db1 = db1"
    by (rule fold_upsert_idle) (use pres s1(2) in simp)
  have v1: "server_versions db1 = server_versions db0" by (simp add: db1 srv)
  let ?db2 = "db1\<lparr>servers := update_rows (\<lambda>s. ms_id s = sid) (record_discovery (renv_now env') h) (servers db1)\<rparr>"
  have "discover list_tools env' tenant sid db1 = Inr (?db2, v)"
    using v v1 by (simp add: discover_def s1(1,2) same Let_def h1 idle)
  moreover have "registry_constraints ?db2"
    using con by (simp add: registry_constraints_def unique_by_update_rows record_discovery_def)
  ultimately show ?thesis by (auto simp: registry_session_ok rows_of_def)
qed

section \<open>At most one active version\<close>

definition one_active :: "registry_db \<Rightarrow> bool" where
  "one_active db \<longleftrightarrow> (\<forall>v\<in>set (tool_versions db). \<forall>w\<in>set (tool_versions db).
     tv_tool_id v = tv_tool_id w \<and> tv_status v = ''ACTIVE'' \<and> tv_status w = ''ACTIVE'' \<longrightarrow> v = w)"

definition registry_inv :: "registry_db \<Rightarrow> bool" where
  "registry_inv db \<longleftrightarrow> registry_constraints db \<and> one_active db"

datatype registry_request =
    RegisterServer "string option" server_create
  | DiscoverServer "string option" string
  | ReviewServer "string option" string server_review
  | ReviewTool "string option" string policy_create
  | ListServers "string option"
  | ListTools "string option" string

fun registry_op ::
    "(mcp_server \<Rightarrow> py_exception + discovered_tool list \<times> server_info) \<Rightarrow> registry_env \<Rightarrow> registry_request \<Rightarrow> unit registry_op" where
  "registry_op list_tools env (RegisterServer tenant r) db = sum_bind (register_server env tenant r db) (\<lambda>(db', _). Inr (db', ()))"
| "registry_op list_tools env (DiscoverServer tenant sid) db = sum_bind (discover list_tools env tenant sid db) (\<lambda>(db', _). Inr (db', ()))"
| "registry_op list_tools env (ReviewServer tenant sid r) db = sum_bind (review_server tenant sid r db) (\<lambda>(db', _). Inr (db', ()))"
| "registry_op list_tools env (ReviewTool tenant vid r) db = sum_bind (review_tool_version vid r tenant db) (\<lambda>(db', _). Inr (db', ()))"
| "registry_op list_tools env (ListServers tenant) db = sum_bind (list_servers tenant db) (\<lambda>(db', _). Inr (db', ()))"
| "registry_op list_tools env (ListTools tenant sid) db = sum_bind (list_tool_versions tenant sid db) (\<lambda>(db', _). Inr (db', ()))"

fun registry_step ::
    "(mcp_server \<Rightarrow> py_exception + discovered_tool list \<times> server_info) \<Rightarrow> registry_env \<times> registry_request \<Rightarrow> registry_db \<Rightarrow>
      registry_db \<times> (registry_error + unit)" where
  "registry_step list_tools (env, q) db = registry_session (registry_op list_tools env q) db"

lemma one_active_inert: "inert_extension db db' \<Longrightarrow> one_active db \<Longrightarrow> one_active db'"
  by (auto simp: inert_extension_def one_active_def list_all_iff)

lemma discover_inert:
  assumes "discover list_tools env tenant sid db = Inr (db', v)"
  shows "\<exists>db0. inert_extension db0 (db'\<lparr>servers := servers db\<rparr>) \<and> tools db0 = tools db \<and> tool_versions db0 = tool_versions db \<and>
    tool_policies db0 = tool_policies db"
proof -
  from assms obtain s where s: "find_server tenant sid db = Inr s" by (auto simp: discover_def sum_bind_Inr)
  then obtain found_tools info where "list_tools s = Inr (found_tools, info)"
    using assms by (cases "list_tools s") (auto simp: discover_def)
  with s obtain db0 h where
    db': "db' = (let f = fold (upsert_discovered_tool env s) (enumerate 0 found_tools) db0 in
        f\<lparr>servers := update_rows (\<lambda>s. ms_id s = sid) (record_discovery (renv_now env) h) (servers f)\<rparr>)"
    and db0: "tools db0 = tools db" "tool_versions db0 = tool_versions db" "tool_policies db0 = tool_policies db" "servers db0 = servers db"
    using assms by (cases "scalar (\<lambda>v. sv_server_id v = ms_id s \<and>
        sv_discovery_hash v = canonical_hash (JObj (discovery_document s found_tools info))) (server_versions db)")
      (auto simp: discover_def Let_def)
  have "inert_extension db0 (fold (upsert_discovered_tool env s) (enumerate 0 found_tools) db0)" by (rule fold_upsert_inert)
  then have "inert_extension db0 (db'\<lparr>servers := servers db\<rparr>)"
    using db0(4) by (simp add: db' Let_def inert_extension_def)
  with db0 show ?thesis by blast
qed

interpretation version_rows: keyed_rows tv_id .

lemma review_one_active:
  assumes "review_tool_version vid r tenant db = Inr (db', res)" "registry_inv db"
  shows "one_active db'"
proof -
  from assms(1) obtain tool version policy server rest where row: "review_rows vid tenant db = (tool, version, policy, server) # rest"
    and db': "tool_versions db' = update_rows (\<lambda>v. tv_id v = tv_id version) (apply_version_review r)
      (update_rows (\<lambda>v. tv_id v \<in> set (sibling_ids tool version db)) (\<lambda>v. v\<lparr>tv_status := ''SUPERSEDED''\<rparr>) (tool_versions db))"
    by (auto simp: review_tool_version_def Let_def split: list.splits if_splits)
  have "(tool, version, policy, server) \<in> set (review_rows vid tenant db)" by (simp add: row)
  then have mem: "version \<in> set (tool_versions db)" "tv_tool_id version = mt_id tool" by (auto simp: review_rows_def)
  let ?f = "\<lambda>v. if tv_id v = tv_id version then apply_version_review r v
    else if tv_tool_id v = mt_id tool then v\<lparr>tv_status := ''SUPERSEDED''\<rparr> else v"
  have unique: "x = y" if "x \<in> set (tool_versions db)" "y \<in> set (tool_versions db)" "tv_id x = tv_id y" for x y
    by (rule version_rows.row_eq [of "tool_versions db"])
      (use assms(2) that in \<open>simp_all add: registry_inv_def registry_constraints_def version_rows.wf_def comp_def\<close>)
  note key = unique [OF _ mem(1)]
  have sib: "tv_id v \<in> set (sibling_ids tool version db) \<longleftrightarrow> tv_id v \<noteq> tv_id version \<and> tv_tool_id v = mt_id tool"
    if "v \<in> set (tool_versions db)" for v
  proof
    assume "tv_id v \<in> set (sibling_ids tool version db)"
    then obtain w where w: "w \<in> set (tool_versions db)" "tv_tool_id w = mt_id tool" "tv_id w \<noteq> tv_id version" "tv_id v = tv_id w"
      by (auto simp: sibling_ids_def scalars_def)
    with unique [OF that w(1)] show "tv_id v \<noteq> tv_id version \<and> tv_tool_id v = mt_id tool" by simp
  qed (use that in \<open>simp add: sibling_ids_def scalars_def\<close>)
  have "tool_versions db' = map ?f (tool_versions db)"
    unfolding db' update_rows_def map_map
    by (rule map_cong [OF refl]) (simp add: sib apply_version_review_def)
  then have mem': "\<exists>x\<in>set (tool_versions db). v = ?f x" if "v \<in> set (tool_versions db')" for v using that by auto
  have act: "tv_id x = tv_id version \<or> tv_tool_id x \<noteq> mt_id tool" if "tv_status (?f x) = ''ACTIVE''" for x
    using that by (auto split: if_splits)
  show ?thesis
    unfolding one_active_def
  proof (intro ballI impI, elim conjE)
    fix v w
    assume v: "v \<in> set (tool_versions db')" "w \<in> set (tool_versions db')" "tv_tool_id v = tv_tool_id w"
      "tv_status v = ''ACTIVE''" "tv_status w = ''ACTIVE''"
    obtain x y where x: "x \<in> set (tool_versions db)" "v = ?f x" and y: "y \<in> set (tool_versions db)" "w = ?f y"
      using mem' [OF v(1)] mem' [OF v(2)] by blast
    have one: "a = b" if "a \<in> set (tool_versions db)" "b \<in> set (tool_versions db)" "tv_tool_id a = tv_tool_id b"
        "tv_status a = ''ACTIVE''" "tv_status b = ''ACTIVE''" for a b
      using assms(2) that by (simp add: registry_inv_def one_active_def)
    have ids: "tv_tool_id (?f z) = tv_tool_id z" for z by (simp add: apply_version_review_def)
    have same: "tv_tool_id x = tv_tool_id y" using v(3) unfolding x(2) y(2) ids .
    have ax: "tv_id x = tv_id version \<or> tv_tool_id x \<noteq> mt_id tool" using v(4) unfolding x(2) by (rule act)
    have ay: "tv_id y = tv_id version \<or> tv_tool_id y \<noteq> mt_id tool" using v(5) unfolding y(2) by (rule act)
    have "x = y"
    proof (cases "tv_tool_id x = mt_id tool")
      case True
      with ax ay same have "tv_id x = tv_id version" "tv_id y = tv_id version" by simp_all
      then have "x = version" "y = version" by (simp_all add: key [OF x(1)] key [OF y(1)])
      then show ?thesis by simp
    next
      case False
      with same mem(2) have "tv_id x \<noteq> tv_id version" "tv_id y \<noteq> tv_id version"
        using key [OF x(1)] key [OF y(1)] by auto
      with False same have "v = x" "w = y" unfolding x(2) y(2) by simp_all
      with v(4,5) have "tv_status x = ''ACTIVE''" "tv_status y = ''ACTIVE''" by simp_all
      with one [OF x(1) y(1) same] show ?thesis by simp
    qed
    then show "v = w" unfolding x(2) y(2) by simp
  qed
qed

lemma registry_op_inv:
  assumes "registry_op list_tools env q db = Inr (db', u)" "registry_inv db"
  shows "one_active db'"
proof (cases q)
  case (DiscoverServer tenant sid)
  with assms obtain v where "discover list_tools env tenant sid db = Inr (db', v)" by (auto simp: sum_bind_Inr)
  from discover_inert [OF this] obtain db0 where "inert_extension db0 (db'\<lparr>servers := servers db\<rparr>)"
    "tool_versions db0 = tool_versions db" by blast
  then show ?thesis using assms(2) one_active_inert [of db0 "db'\<lparr>servers := servers db\<rparr>"]
    by (simp add: one_active_def registry_inv_def)
next
  case (ReviewTool tenant vid r)
  with assms obtain res where "review_tool_version vid r tenant db = Inr (db', res)" by (auto simp: sum_bind_Inr)
  then show ?thesis using assms(2) by (rule review_one_active)
qed (use assms in \<open>auto simp: sum_bind_Inr register_server_def review_server_def list_servers_def list_tool_versions_def
  Let_def registry_inv_def one_active_def split: if_splits\<close>)

interpretation registry: service "registry_step list_tools" registry_inv
  for list_tools
proof
  fix q db
  assume inv: "registry_inv db"
  show "registry_inv (fst (registry_step list_tools q db))"
  proof (cases q)
    case (Pair env r)
    have "registry_inv (fst (registry_session (registry_op list_tools env r) db))"
      unfolding registry_session_def
      by (rule session_inv [where I = registry_inv, OF inv]) (use registry_op_inv inv in \<open>auto simp: registry_inv_def\<close>)
    with Pair show ?thesis by simp
  qed
qed

definition empty_registry :: registry_db where
  "empty_registry = \<lparr>servers = [], server_versions = [], tools = [], tool_versions = [], tool_policies = []\<rparr>"

lemma empty_registry_inv: "registry_inv empty_registry"
  by (simp add: empty_registry_def registry_inv_def registry_constraints_def one_active_def)

text \<open>
  C28. A tool never has two active versions, whatever servers, discoveries and reviews occur
  from an empty registry: reviewing one version supersedes all others of the tool.
\<close>

theorem registry_one_active_version:
  "one_active (run (registry_step list_tools) qs empty_registry)"
  using registry.run_inv [OF empty_registry_inv, of list_tools qs] by (simp add: registry_inv_def)

text \<open>
  Discovery activates nothing: every tool, tool version and policy that was active after
  a discovery was active before it, and existing rows are unchanged.
\<close>

theorem registry_discovery_inert:
  assumes "registry_session (discover list_tools env tenant sid) db = (db1, Inr v)"
  shows "set (tools db) \<subseteq> set (tools db1) \<and> set (tool_versions db) \<subseteq> set (tool_versions db1) \<and>
    set (tool_policies db) \<subseteq> set (tool_policies db1) \<and>
    filter (\<lambda>t. mt_status t = ''ACTIVE'') (tools db1) = filter (\<lambda>t. mt_status t = ''ACTIVE'') (tools db) \<and>
    filter (\<lambda>v. tv_status v = ''ACTIVE'') (tool_versions db1) = filter (\<lambda>v. tv_status v = ''ACTIVE'') (tool_versions db) \<and>
    filter (\<lambda>p. tp_status p = ''ACTIVE'') (tool_policies db1) = filter (\<lambda>p. tp_status p = ''ACTIVE'') (tool_policies db)"
proof -
  have none: "filter P ys = []" if "list_all Q ys" "\<And>y. Q y \<Longrightarrow> \<not> P y" for P Q and ys :: "'a list"
    using that by (auto simp: list_all_iff filter_empty_conv)
  from assms discover_inert obtain db0 where "inert_extension db0 (db1\<lparr>servers := servers db\<rparr>)" "tools db0 = tools db"
    "tool_versions db0 = tool_versions db" "tool_policies db0 = tool_policies db"
    by (auto simp: registry_session_ok dest!: discover_inert)
  then show ?thesis by (auto simp: inert_extension_def none)
qed

end
