(* ===== verification/RegistryDemo.thy ===== *)
theory RegistryDemo
  imports RegistryProperties
begin

text \<open>
  A registry with one server that offers one tool: the discovery commits, and the
  properties of discovery apply to it.
\<close>

definition demo_server :: mcp_server where
  "demo_server = \<lparr>ms_id = ''s1'', ms_tenant_id = None, ms_label = ''bank'', ms_description = '''', ms_transport = ''streamable-http'',
     ms_endpoint = ''https://bank.example/mcp'', ms_auth_type = ''none'', ms_secret_ref = None, ms_trust_tier = ''PARTNER'',
     ms_status = ''PENDING_REVIEW'', ms_allowed_egress_hosts = [''bank.example''], ms_timeout_seconds = 20000, ms_max_retries = 2,
     ms_discovery_hash = None, ms_last_discovered_at = None, ms_version = 1\<rparr>"

definition demo_registry :: registry_db where
  "demo_registry = empty_registry\<lparr>servers := [demo_server]\<rparr>"

definition demo_tools :: "discovered_tool list" where
  "demo_tools = [\<lparr>dt_name = ''payment_initiate'', dt_description = None, dt_input_schema = [], dt_output_schema = []\<rparr>]"

definition demo_info :: server_info where
  "demo_info = \<lparr>si_implementation_name = Some ''bank'', si_implementation_version = None, si_protocol_version = None\<rparr>"

definition demo_registry_env :: registry_env where
  "demo_registry_env = \<lparr>renv_now = 7, renv_uuid = \<lambda>n. ''u'' @ nat_str n\<rparr>"

lemma demo_discovery:
  "\<exists>db1 v. registry_session (discover (\<lambda>_. Inr (demo_tools, demo_info)) demo_registry_env None ''s1'') demo_registry = (db1, Inr v) \<and>
     map mt_canonical_name (tools db1) = [''bank.payment_initiate'']"
  by (simp add: registry_session_ok discover_def find_server_def demo_registry_def empty_registry_def demo_server_def Let_def
      demo_tools_def upsert_discovered_tool_def ensure_tool_def ensure_version_def new_tool_def new_tool_version_def new_policy_def
      registry_constraints_def)

lemma registry_rediscovery_idempotent_witness:
  "\<exists>db1 v db2. registry_session (discover (\<lambda>_. Inr (demo_tools, demo_info)) demo_registry_env None ''s1'') demo_registry = (db1, Inr v) \<and>
     registry_session (discover (\<lambda>_. Inr (demo_tools, demo_info)) (demo_registry_env\<lparr>renv_now := 9\<rparr>) None ''s1'') db1 = (db2, Inr v) \<and>
     rows_of db2 = rows_of db1 \<and> map mt_canonical_name (tools db2) = [''bank.payment_initiate'']"
proof -
  obtain db1 v where first: "registry_session (discover (\<lambda>_. Inr (demo_tools, demo_info)) demo_registry_env None ''s1'') demo_registry = (db1, Inr v)"
    and found_tool: "map mt_canonical_name (tools db1) = [''bank.payment_initiate'']"
    using demo_discovery by (elim exE conjE)
  from registry_rediscovery_idempotent [OF first refl, of "demo_registry_env\<lparr>renv_now := 9\<rparr>"] first found_tool show ?thesis
    by (force simp: rows_of_def)
qed

lemma registry_discovery_inert_witness:
  "\<exists>db1 v. registry_session (discover (\<lambda>_. Inr (demo_tools, demo_info)) demo_registry_env None ''s1'') demo_registry = (db1, Inr v) \<and>
     tools db1 \<noteq> [] \<and> filter (\<lambda>t. mt_status t = ''ACTIVE'') (tools db1) = []"
proof -
  obtain db1 v where first: "registry_session (discover (\<lambda>_. Inr (demo_tools, demo_info)) demo_registry_env None ''s1'') demo_registry = (db1, Inr v)"
    and found_tool: "map mt_canonical_name (tools db1) = [''bank.payment_initiate'']"
    using demo_discovery by (elim exE conjE)
  have "tools demo_registry = []" by (simp add: demo_registry_def empty_registry_def)
  with registry_discovery_inert [OF first] first found_tool show ?thesis by auto
qed

end
