(* ===== verification/Broker.thy ===== *)
theory Broker
  imports Registry GuardianProperties
begin

text \<open>
  The tool broker (packages/tools/broker.py), its tables (persistence/models/mcp.py), the client
  of Guardian it calls (packages/guardian/client.py) and its two routes
  (apps/mcp_server/main.py). The broker's session and Guardian's sessions are separate
  transactions: what Guardian has committed stays when the broker's session is rolled back,
  and so do the messages sent to a remote server. Other clients may call Guardian between
  two calls of the broker (\<open>benv_others\<close>), and a call to Guardian may lose its request or its
  response on the way (\<open>benv_link\<close>). The JSON schema validator (\<open>iter_errors\<close>, the messages
  in the order of their paths) and the JWT library are parameters. The order of keys of a
  JSONB column is not modelled.
\<close>

section \<open>Tables\<close>

record tool_call =
  tc_id :: string
  tc_tenant_id :: string
  tc_organization_id :: string
  tc_user_id :: string
  tc_session_id :: "string option"
  tc_run_id :: string
  tc_agent_version_id :: "string option"
  tc_agent_name :: string
  tc_server_id :: string
  tc_tool_version_id :: string
  tc_canonical_name :: string
  tc_normalized_arguments :: dict
  tc_purpose :: string
  tc_resource_refs :: "string list"
  tc_request_hash :: string
  tc_idempotency_key :: "string option"
  tc_status :: string
  tc_guardian_decision_id :: "string option"
  tc_authorization_id :: "string option"
  tc_correlation_id :: string
  tc_version :: int

record call_attempt =
  ca_id :: string
  ca_tenant_id :: string
  ca_call_id :: string
  ca_attempt_number :: int
  ca_status :: string
  ca_started_at :: time
  ca_completed_at :: "time option"
  ca_error_class :: "string option"
  ca_error_detail :: "string option"

record tool_result =
  tr_id :: string
  tr_tenant_id :: string
  tr_call_id :: string
  tr_status :: string
  tr_model_projection :: json
  tr_normalized_hash :: string
  tr_classification :: "string list"
  tr_error_code :: "string option"
  tr_error_message :: "string option"

record mcp_db =
  mcp_registry :: registry_db
  mcp_calls :: "tool_call list"
  mcp_attempts :: "call_attempt list"
  mcp_results :: "tool_result list"
  mcp_outbox :: "outbox_event list"

record platform =
  guardian_plane :: guardian_db
  tool_plane :: mcp_db

definition mcp_constraints :: "mcp_db \<Rightarrow> bool" where
  "mcp_constraints db \<longleftrightarrow>
     unique_by (Some \<circ> tc_id) (mcp_calls db) \<and>
     unique_by (Some \<circ> ca_id) (mcp_attempts db) \<and>
     unique_by (\<lambda>a. Some (ca_tenant_id a, ca_call_id a, ca_attempt_number a)) (mcp_attempts db) \<and>
     unique_by (Some \<circ> tr_id) (mcp_results db) \<and>
     unique_by (\<lambda>r. Some (tr_tenant_id r, tr_call_id r)) (mcp_results db) \<and>
     unique_by (Some \<circ> ob_id) (mcp_outbox db)"

section \<open>Requests, results and the environment\<close>

record tool_intent =
  ti_requested_name :: string
  ti_arguments :: dict
  ti_purpose :: string
  ti_resource_refs :: "string list"
  ti_idempotency_key :: "string option"

record tool_call_submit =
  ts_run_id :: string
  ts_agent_version_id :: "string option"
  ts_agent_name :: string
  ts_context :: runtime_context
  ts_intent :: tool_intent

record tool_call_resume =
  ru_tenant_id :: string
  ru_call_id :: string
  ru_correlation_id :: string

record safe_tool_result =
  sf_call_id :: string
  sf_status :: string
  sf_model_projection :: json
  sf_result_ref :: "string option"
  sf_provenance_hash :: string
  sf_security_flags :: "string list"
  sf_error_code :: "string option"
  sf_error_message :: "string option"

datatype broker_error =
    ToolBrokerError string string
  | BrokerPyError py_exception
  | BrokerIntegrityError

datatype link = Delivered | RequestLost py_exception | ResponseLost py_exception

record broker_env =
  benv_now :: time
  benv_uuid :: "nat \<Rightarrow> string"
  benv_service_token :: "string option"
  benv_getenv :: "string \<Rightarrow> string option"
  benv_remote :: remote
  benv_guardian :: "nat \<Rightarrow> guardian_env"
  benv_link :: "nat \<Rightarrow> link"
  benv_others :: "nat \<Rightarrow> (guardian_env \<times> string option \<times> guardian_route) list"

type_synonym iter_errors = "dict \<Rightarrow> dict \<Rightarrow> py_exception + string list"

section \<open>The client of Guardian\<close>

datatype client_error = GuardianClientError string | ClientPyError py_exception

fun error_status :: "nat \<Rightarrow> guardian_error \<Rightarrow> nat" where
  "error_status service_status (GuardianServiceError code message) = service_status"
| "error_status service_status (GuardianHTTPError status detail) = status"
| "error_status service_status GuardianValidationError = 422"
| "error_status service_status _ = 500"

definition client_post ::
    "jwt_library \<Rightarrow> broker_env \<Rightarrow> nat \<Rightarrow> string \<Rightarrow> nat \<Rightarrow> guardian_route \<Rightarrow> guardian_db \<Rightarrow>
      guardian_db \<times> (client_error + guardian_response)" where
  "client_post jwt env k what service_status route gdb =
     (case benv_service_token env of
        None \<Rightarrow> (gdb, Inl (GuardianClientError ''Service token is not configured.''))
      | Some token \<Rightarrow>
     (case benv_link env k of
        RequestLost e \<Rightarrow> (gdb, Inl (ClientPyError e))
      | link \<Rightarrow>
          let gdb0 = run (guardian_step jwt) (benv_others env k) gdb;
              (gdb1, reply) = guardian_step jwt (benv_guardian env k, Some (''Bearer '' @ token), route) gdb0
          in (gdb1,
              (case link of
                 ResponseLost e \<Rightarrow> Inl (ClientPyError e)
               | _ \<Rightarrow>
                   (case reply of
                      Inl e \<Rightarrow> Inl (GuardianClientError (what @ '' failed with status '' @
                                 nat_str (error_status service_status e) @ ''.''))
                    | Inr v \<Rightarrow> Inr v)))))"

definition client_evaluate ::
    "jwt_library \<Rightarrow> broker_env \<Rightarrow> nat \<Rightarrow> guardian_evaluation_request \<Rightarrow> guardian_db \<Rightarrow>
      guardian_db \<times> (client_error + guardian_evaluation_response)" where
  "client_evaluate jwt env k evaluation gdb =
     (let (gdb1, reply) = client_post jwt env k ''Guardian evaluation'' 503 (EvaluateRoute evaluation) gdb in
      (gdb1, sum_bind reply (\<lambda>v. case v of EvaluationResponse r \<Rightarrow> Inr r
         | _ \<Rightarrow> Inl (ClientPyError (PyExc ''ValidationError'' '''')))))"

definition client_consume ::
    "jwt_library \<Rightarrow> broker_env \<Rightarrow> nat \<Rightarrow> string \<Rightarrow> consume_request \<Rightarrow> guardian_db \<Rightarrow>
      guardian_db \<times> (client_error + consume_result)" where
  "client_consume jwt env k tenant_id body gdb =
     (let (gdb1, reply) = client_post jwt env k ''Guardian authorization'' 403 (ConsumeRoute tenant_id body) gdb in
      (gdb1, sum_bind reply (\<lambda>v. case v of ConsumeResponse r \<Rightarrow> Inr r
         | _ \<Rightarrow> Inl (ClientPyError (PyExc ''ValidationError'' '''')))))"

definition client_authorize_approved ::
    "jwt_library \<Rightarrow> broker_env \<Rightarrow> nat \<Rightarrow> string \<Rightarrow> approved_request \<Rightarrow> guardian_db \<Rightarrow>
      guardian_db \<times> (client_error + guardian_evaluation_response)" where
  "client_authorize_approved jwt env k tenant_id body gdb =
     (let (gdb1, reply) = client_post jwt env k ''Guardian approved authorization'' 403 (ApprovedRoute tenant_id body) gdb in
      (gdb1, sum_bind reply (\<lambda>v. case v of EvaluationResponse r \<Rightarrow> Inr r
         | _ \<Rightarrow> Inl (ClientPyError (PyExc ''ValidationError'' '''')))))"

section \<open>Resolving and validating a request\<close>

type_synonym tool_row = "mcp_tool \<times> mcp_tool_version \<times> mcp_tool_policy \<times> mcp_server"

text \<open>\<open>order_by(MCPToolPolicy.tenant_id.desc().nulls_last()).limit(1)\<close> over policies of one tenant or none.\<close>

definition prefer_tenant :: "tool_row list \<Rightarrow> tool_row option" where
  "prefer_tenant rows =
     (case filter (\<lambda>(t, v, p, s). tp_tenant_id p \<noteq> None) rows @ filter (\<lambda>(t, v, p, s). tp_tenant_id p = None) rows of
        [] \<Rightarrow> None | row # _ \<Rightarrow> Some row)"

definition joined_rows :: "registry_db \<Rightarrow> tool_row list" where
  "joined_rows db =
     [(t, v, p, s). t \<leftarrow> tools db, v \<leftarrow> tool_versions db, p \<leftarrow> tool_policies db, s \<leftarrow> servers db,
        tv_tool_id v = mt_id t \<and> tp_tool_version_id p = tv_id v \<and> ms_id s = mt_server_id t]"

definition tenant_or_null :: "string \<Rightarrow> string option \<Rightarrow> bool" where
  "tenant_or_null tenant_id column \<longleftrightarrow> column = Some tenant_id \<or> column = None"

definition resolve :: "tool_call_submit \<Rightarrow> registry_db \<Rightarrow> broker_error + tool_row" where
  "resolve request db =
     found (ToolBrokerError ''TOOL_NOT_FOUND'' ''The requested tool is not registered.'')
       (prefer_tenant (filter (\<lambda>(t, v, p, s). mt_canonical_name t = ti_requested_name (ts_intent request)
            \<and> mt_status t = ''ACTIVE'' \<and> tv_status v = ''ACTIVE'' \<and> tp_status p = ''ACTIVE'' \<and> ms_status s = ''ACTIVE''
            \<and> tenant_or_null (rc_tenant_id (ts_context request)) (ms_tenant_id s)
            \<and> tenant_or_null (rc_tenant_id (ts_context request)) (tp_tenant_id p)) (joined_rows db)))"

definition validate_access :: "tool_call_submit \<Rightarrow> tool_row \<Rightarrow> broker_error + unit" where
  "validate_access request row =
     (case row of (tool, version, policy, server) \<Rightarrow>
      let context = ts_context request; intent = ts_intent request in
      if rc_session_id context = None
      then Inl (ToolBrokerError ''CONTEXT_INCOMPLETE'' ''A tool call requires a scoped session.'')
      else if list_ex (\<lambda>status. status \<noteq> ''ACTIVE'') [mt_status tool, tv_status version, tp_status policy, ms_status server]
      then Inl (ToolBrokerError ''TOOL_NOT_ACTIVE'' ''The tool or its policy is not active.'')
      else if tp_allowed_agents policy \<noteq> [] \<and> ts_agent_name request \<notin> set (tp_allowed_agents policy)
      then Inl (ToolBrokerError ''AGENT_NOT_GRANTED'' ''The agent is not granted this tool.'')
      else if \<not> set (tp_required_roles policy) \<subseteq> set (rc_roles context)
      then Inl (ToolBrokerError ''ROLE_REQUIRED'' ''The caller lacks a required role.'')
      else if tp_required_purposes policy \<noteq> [] \<and> ti_purpose intent \<notin> set (tp_required_purposes policy)
      then Inl (ToolBrokerError ''PURPOSE_NOT_ALLOWED'' ''The declared purpose is not allowed.'')
      else if \<not> set (tp_required_consents policy) \<subseteq> set (rc_consent_ids context)
      then Inl (ToolBrokerError ''CONSENT_REQUIRED'' ''Required consent is not present.'')
      else if tv_side_effects version \<and> (ti_idempotency_key intent = None \<or> ti_idempotency_key intent = Some [])
      then Inl (ToolBrokerError ''IDEMPOTENCY_REQUIRED'' ''Mutating tools require an idempotency key.'')
      else Inr ())"

definition validate_arguments :: "iter_errors \<Rightarrow> dict \<Rightarrow> dict \<Rightarrow> broker_error + unit" where
  "validate_arguments iter_errors schema arguments =
     (case iter_errors schema arguments of
        Inl e \<Rightarrow> Inl (BrokerPyError e)
      | Inr messages \<Rightarrow>
          if messages \<noteq> [] then Inl (ToolBrokerError ''TOOL_ARGUMENTS_INVALID'' (join ''; '' (take 5 messages)))
          else Inr ())"

definition normalized :: "dict \<Rightarrow> dict" where
  "normalized arguments = (case canon (JObj arguments) of JObj d \<Rightarrow> d | _ \<Rightarrow> [])"

definition request_document :: "tool_call_submit \<Rightarrow> tool_row \<Rightarrow> dict" where
  "request_document request row =
     (case row of (tool, version, policy, server) \<Rightarrow>
      [(''run_id'', JStr (ts_run_id request)), (''agent_version_id'', JOpt (ts_agent_version_id request)),
       (''agent_name'', JStr (ts_agent_name request)), (''scope'', JObj (context_dump (ts_context request))),
       (''server_id'', JStr (ms_id server)), (''tool_version_id'', JStr (tv_id version)),
       (''canonical_name'', JStr (mt_canonical_name tool)), (''original_name'', JStr (mt_original_name tool)),
       (''normalized_arguments'', JObj (normalized (ti_arguments (ts_intent request)))),
       (''purpose'', JStr (ti_purpose (ts_intent request))),
       (''resource_refs'', JStrs (ti_resource_refs (ts_intent request))),
       (''idempotency_key'', JOpt (ti_idempotency_key (ts_intent request)))])"

definition submit_hash :: "tool_call_submit \<Rightarrow> tool_row \<Rightarrow> string" where
  "submit_hash request row = canonical_hash (JObj (request_document request row))"

definition submitted_request :: "string \<Rightarrow> tool_call_submit \<Rightarrow> tool_row \<Rightarrow> canonical_tool_request" where
  "submitted_request call_id request row =
     (case row of (tool, version, policy, server) \<Rightarrow>
      \<lparr>cq_call_id = call_id, cq_run_id = ts_run_id request, cq_agent_version_id = ts_agent_version_id request,
       cq_agent_name = ts_agent_name request, cq_scope = ts_context request, cq_server_id = ms_id server,
       cq_tool_version_id = tv_id version, cq_canonical_name = mt_canonical_name tool,
       cq_original_name = mt_original_name tool, cq_normalized_arguments = normalized (ti_arguments (ts_intent request)),
       cq_purpose = ti_purpose (ts_intent request), cq_resource_refs = ti_resource_refs (ts_intent request),
       cq_idempotency_key = ti_idempotency_key (ts_intent request), cq_request_hash = submit_hash request row\<rparr>)"

definition new_call :: "string \<Rightarrow> tool_call_submit \<Rightarrow> tool_row \<Rightarrow> tool_call" where
  "new_call call_id request row =
     (case row of (tool, version, policy, server) \<Rightarrow>
      let context = ts_context request; intent = ts_intent request in
      \<lparr>tc_id = call_id, tc_tenant_id = rc_tenant_id context, tc_organization_id = rc_organization_id context,
       tc_user_id = rc_user_id context, tc_session_id = rc_session_id context, tc_run_id = ts_run_id request,
       tc_agent_version_id = ts_agent_version_id request, tc_agent_name = ts_agent_name request,
       tc_server_id = ms_id server, tc_tool_version_id = tv_id version, tc_canonical_name = mt_canonical_name tool,
       tc_normalized_arguments = normalized (ti_arguments intent), tc_purpose = ti_purpose intent,
       tc_resource_refs = ti_resource_refs intent, tc_request_hash = submit_hash request row,
       tc_idempotency_key = ti_idempotency_key intent, tc_status = ''VALIDATED'', tc_guardian_decision_id = None,
       tc_authorization_id = None, tc_correlation_id = rc_correlation_id context, tc_version = 1\<rparr>)"

section \<open>Results\<close>

definition store_result ::
    "broker_env \<Rightarrow> tool_call \<Rightarrow> string \<Rightarrow> json \<Rightarrow> string option \<Rightarrow> string option \<Rightarrow> string list \<Rightarrow> tool_result" where
  "store_result env call status projection error_code error_message flags =
     \<lparr>tr_id = benv_uuid env 2, tr_tenant_id = tc_tenant_id call, tr_call_id = tc_id call, tr_status = status,
      tr_model_projection = projection,
      tr_normalized_hash = canonical_hash (JObj [(''status'', JStr status), (''projection'', projection), (''flags'', JStrs flags)]),
      tr_classification = flags, tr_error_code = error_code, tr_error_message = error_message\<rparr>"

text \<open>\<open>SafeToolResult\<close> accepts an object, a list, a string or nothing as the projection.\<close>

definition projection_ok :: "json \<Rightarrow> bool" where
  "projection_ok v = (case v of JInt _ \<Rightarrow> False | JBool _ \<Rightarrow> False | _ \<Rightarrow> True)"

definition safe_result :: "tool_result \<Rightarrow> string \<Rightarrow> broker_error + safe_tool_result" where
  "safe_result result call_id =
     (if projection_ok (tr_model_projection result)
         \<and> tr_status result \<in> {''SUCCEEDED'', ''FAILED'', ''UNKNOWN'', ''BLOCKED''}
      then Inr \<lparr>sf_call_id = call_id, sf_status = tr_status result, sf_model_projection = tr_model_projection result,
        sf_result_ref = Some (tr_id result), sf_provenance_hash = tr_normalized_hash result,
        sf_security_flags = tr_classification result, sf_error_code = tr_error_code result,
        sf_error_message = tr_error_message result\<rparr>
      else Inl (BrokerPyError (PyExc ''ValidationError'' '''')))"

definition find_idempotent_result ::
    "tool_call_submit \<Rightarrow> tool_row \<Rightarrow> mcp_db \<Rightarrow> broker_error + safe_tool_result option" where
  "find_idempotent_result request row db =
     (case row of (tool, version, policy, server) \<Rightarrow>
      case ti_idempotency_key (ts_intent request) of
        None \<Rightarrow> Inr None
      | Some key \<Rightarrow>
          if key = [] then Inr None
          else
          (case scalar (\<lambda>c. tc_tenant_id c = rc_tenant_id (ts_context request) \<and> tc_tool_version_id c = tv_id version
                  \<and> tc_idempotency_key c = Some key) (mcp_calls db) of
             None \<Rightarrow> Inr None
           | Some existing \<Rightarrow>
               if tc_request_hash existing \<noteq> submit_hash request row
               then Inl (ToolBrokerError ''IDEMPOTENCY_CONFLICT'' ''The idempotency key was already used with a different request.'')
               else
               (case scalar (\<lambda>r. tr_call_id r = tc_id existing) (mcp_results db) of
                  None \<Rightarrow> Inl (ToolBrokerError ''CALL_IN_PROGRESS'' ''The matching tool call has not completed.'')
                | Some result \<Rightarrow> sum_bind (safe_result result (tc_id existing)) (\<lambda>s. Inr (Some s)))))"

section \<open>Authorization\<close>

definition policy_snapshot :: "mcp_tool_version \<Rightarrow> mcp_tool_policy \<Rightarrow> broker_error + tool_policy_snapshot" where
  "policy_snapshot version policy =
     (case risk_of (tv_risk_class version) of
        None \<Rightarrow> Inl (BrokerPyError (PyExc ''ValueError'' (py_repr_str (tv_risk_class version) @ '' is not a valid ToolRiskClass'')))
      | Some risk \<Rightarrow>
          if tp_approval_mode policy \<notin> {''NEVER'', ''POLICY'', ''ALWAYS''}
          then Inl (BrokerPyError (PyExc ''ValidationError'' ''''))
          else Inr \<lparr>ps_risk_class = risk, ps_required_roles = tp_required_roles policy,
            ps_required_purposes = tp_required_purposes policy, ps_required_consents = tp_required_consents policy,
            ps_allowed_agents = tp_allowed_agents policy, ps_approval_mode = tp_approval_mode policy,
            ps_side_effects = tv_side_effects version, ps_idempotent = tv_idempotent version\<rparr>)"

definition protected_tool :: "mcp_tool_version \<Rightarrow> mcp_tool_policy \<Rightarrow> bool" where
  "protected_tool version policy \<longleftrightarrow> tv_risk_class version \<noteq> ''READ'' \<or> tp_approval_mode policy \<noteq> ''NEVER''"

text \<open>
  What the part of \<open>execute\<close> before \<open>_call\<close> comes to: the call may proceed, or it ends with its
  final row, the result stored for it if any, and the answer.
\<close>

datatype call_gate = Authorized tool_call | Halted tool_call "tool_result option" safe_tool_result

definition blocked_call ::
    "broker_env \<Rightarrow> tool_call \<Rightarrow> string \<Rightarrow> string \<Rightarrow> string list \<Rightarrow> broker_error + call_gate" where
  "blocked_call env call error_code error_message flags =
     (let call' = call\<lparr>tc_status := ''BLOCKED''\<rparr>;
          result = store_result env call' ''BLOCKED'' JNull (Some error_code) (Some error_message) flags
      in sum_bind (safe_result result (tc_id call')) (\<lambda>s. Inr (Halted call' (Some result) s)))"

definition approval_required :: "tool_call \<Rightarrow> guardian_evaluation_response \<Rightarrow> call_gate" where
  "approval_required call decision =
     Halted (call\<lparr>tc_status := ''WAITING_APPROVAL''\<rparr>) None
       \<lparr>sf_call_id = tc_id call, sf_status = ''BLOCKED'', sf_model_projection = JNull, sf_result_ref = None,
        sf_provenance_hash = canonical_hash (JObj (response_dump decision)),
        sf_security_flags = ''approval_required'' # gr_reason_codes decision,
        sf_error_code = Some ''APPROVAL_REQUIRED'',
        sf_error_message = Some ''A Guardian approval is required before execution.''\<rparr>"

definition authorization_of :: "guardian_evaluation_response \<Rightarrow> string option" where
  "authorization_of decision =
     (case (gr_authorization_token decision, gr_authorization_id decision) of
        (Some token, Some _) \<Rightarrow> if token = [] then None else Some token
      | _ \<Rightarrow> None)"

fun rejected :: "client_error \<Rightarrow> broker_error" where
  "rejected (GuardianClientError message) = ToolBrokerError ''AUTHORIZATION_REJECTED'' message"
| "rejected (ClientPyError e) = BrokerPyError e"

definition protect ::
    "jwt_library \<Rightarrow> broker_env \<Rightarrow> canonical_tool_request \<Rightarrow> mcp_tool_version \<Rightarrow> mcp_tool_policy \<Rightarrow> tool_call \<Rightarrow> guardian_db \<Rightarrow>
      guardian_db \<times> (broker_error + call_gate)" where
  "protect jwt env canonical_request version policy call gdb =
     (if \<not> protected_tool version policy then (gdb, Inr (Authorized call))
      else case policy_snapshot version policy of
        Inl e \<Rightarrow> (gdb, Inl e)
      | Inr snapshot \<Rightarrow>
     (case client_evaluate jwt env 0 \<lparr>ge_request = canonical_request, ge_policy = snapshot\<rparr> gdb of
        (gdb1, Inl (GuardianClientError _)) \<Rightarrow>
          (gdb1, blocked_call env call ''GUARDIAN_UNAVAILABLE'' ''Guardian could not authorize this protected tool.''
             [''fail_closed'', ''protected_tool''])
      | (gdb1, Inl (ClientPyError e)) \<Rightarrow> (gdb1, Inl (BrokerPyError e))
      | (gdb1, Inr decision) \<Rightarrow>
          let call1 = call\<lparr>tc_guardian_decision_id := Some (gr_decision_id decision)\<rparr> in
          if gr_outcome decision = ESCALATE \<or> gr_outcome decision = VERIFY then (gdb1, Inr (approval_required call1 decision))
          else if gr_outcome decision = BLOCK
          then (gdb1, blocked_call env call1 ''GUARDIAN_BLOCKED'' ''Guardian policy blocked this tool call.''
                  (gr_reason_codes decision))
          else
            (case authorization_of decision of
               None \<Rightarrow> (gdb1, Inl (ToolBrokerError ''AUTHORIZATION_MISSING'' ''Guardian allowed a protected call without authorization.''))
             | Some token \<Rightarrow>
                 (case client_consume jwt env 1 (tc_tenant_id call1)
                         \<lparr>cs_token = token, cs_call_id = tc_id call1, cs_request_hash = tc_request_hash call1,
                          cs_correlation_id = tc_correlation_id call1\<rparr> gdb1 of
                    (gdb2, Inl e) \<Rightarrow> (gdb2, Inl (rejected e))
                  | (gdb2, Inr consumed) \<Rightarrow>
                      (gdb2, Inr (Authorized (call1\<lparr>tc_authorization_id := Some (cr_authorization_id consumed)\<rparr>)))))))"

section \<open>The call\<close>

definition remote_config :: "mcp_tool_version \<Rightarrow> mcp_tool_policy \<Rightarrow> mcp_server \<Rightarrow> remote_server_config" where
  "remote_config version policy server =
     \<lparr>rs_endpoint = ms_endpoint server, rs_auth_type = ms_auth_type server, rs_secret_ref = ms_secret_ref server,
      rs_timeout_seconds = tp_timeout_seconds policy,
      rs_max_retries = (if tv_side_effects version then 0 else ms_max_retries server),
      rs_allowed_egress_hosts = ms_allowed_egress_hosts server\<rparr>"

definition runtime_envelope :: "tool_call \<Rightarrow> dict" where
  "runtime_envelope call =
     [(''tenant_id'', JStr (tc_tenant_id call)), (''organization_id'', JStr (tc_organization_id call)),
      (''user_id'', JStr (tc_user_id call)),
      (''session_id'', JStr (case tc_session_id call of None \<Rightarrow> ''None'' | Some s \<Rightarrow> s)),
      (''run_id'', JStr (tc_run_id call)), (''call_id'', JStr (tc_id call)),
      (''correlation_id'', JStr (tc_correlation_id call)), (''agent_name'', JStr (tc_agent_name call)),
      (''canonical_name'', JStr (tc_canonical_name call)), (''purpose'', JStr (tc_purpose call)),
      (''request_hash'', JStr (tc_request_hash call)), (''guardian_decision_id'', JOpt (tc_guardian_decision_id call)),
      (''authorization_id'', JOpt (tc_authorization_id call)),
      (''authorization_consumed'', JBool (tc_authorization_id call \<noteq> None))]"

definition runtime_meta :: "broker_env \<Rightarrow> remote_server_config \<Rightarrow> dict \<Rightarrow> py_exception + dict" where
  "runtime_meta env config envelope =
     sum_bind (resolve_secret (benv_getenv env) (rs_secret_ref config)) (\<lambda>secret.
       case signed_runtime_meta secret envelope of
         Inl (GatewayRuntimeError m) \<Rightarrow> Inl (PyExc ''RuntimeError'' m)
       | Inr meta \<Rightarrow> Inr meta)"

datatype call_failure = FailedWith py_exception | FailedBroker string string

definition raw_call ::
    "broker_env \<Rightarrow> tool_call \<Rightarrow> dict \<Rightarrow> tool_row \<Rightarrow> remote_message list \<times> (py_exception + remote_content)" where
  "raw_call env call arguments row =
     (case row of (tool, version, policy, server) \<Rightarrow>
      case core_handlers (mt_canonical_name tool) of
        Some handler \<Rightarrow> ([], Inr (JsonContent (handler arguments)))
      | None \<Rightarrow>
          let config = remote_config version policy server in
          (case runtime_meta env config (runtime_envelope call) of
             Inl e \<Rightarrow> ([], Inl e)
           | Inr meta \<Rightarrow> call_tool (benv_remote env) (benv_getenv env) config (mt_original_name tool) arguments meta))"

fun content_size :: "remote_content \<Rightarrow> nat" where
  "content_size (JsonContent v) = length (dump v)"
| "content_size (OpaqueContent n _) = n"

definition checked_content :: "mcp_tool_policy \<Rightarrow> py_exception + remote_content \<Rightarrow> call_failure + json" where
  "checked_content policy outcome =
     (case outcome of
        Inl e \<Rightarrow> Inl (FailedWith e)
      | Inr content \<Rightarrow>
          if int (content_size content) > tp_maximum_result_bytes policy
          then Inl (FailedBroker ''RESULT_TOO_LARGE'' ''The tool result exceeded its policy limit.'')
          else (case content of
                  JsonContent v \<Rightarrow> Inr v
                | OpaqueContent _ cls \<Rightarrow>
                    Inl (FailedWith (PyExc ''TypeError'' (''Unsupported canonical value: '' @ cls)))))"

fun failure_class :: "call_failure \<Rightarrow> string" where
  "failure_class (FailedWith (PyExc cls message)) = cls"
| "failure_class (FailedBroker code message) = ''ToolBrokerError''"

fun failure_detail :: "call_failure \<Rightarrow> string" where
  "failure_detail (FailedWith (PyExc cls message)) = message"
| "failure_detail (FailedBroker code message) = message"

fun failure_code :: "call_failure \<Rightarrow> string" where
  "failure_code (FailedWith e) = ''TOOL_EXECUTION_FAILED''"
| "failure_code (FailedBroker code message) = code"

definition outcome_unknown :: "tool_row \<Rightarrow> bool" where
  "outcome_unknown row \<longleftrightarrow>
     (case row of (tool, version, policy, server) \<Rightarrow> core_handlers (mt_canonical_name tool) = None \<and> tv_side_effects version)"

definition settle ::
    "broker_env \<Rightarrow> tool_call \<Rightarrow> tool_row \<Rightarrow> call_failure + json \<Rightarrow> tool_call \<times> call_attempt \<times> tool_result" where
  "settle env call row outcome =
     (let attempt = \<lparr>ca_id = benv_uuid env 1, ca_tenant_id = tc_tenant_id call, ca_call_id = tc_id call,
            ca_attempt_number = 1, ca_status = ''CALLING'', ca_started_at = benv_now env, ca_completed_at = None,
            ca_error_class = None, ca_error_detail = None\<rparr>
      in case outcome of
        Inr projection \<Rightarrow>
          let call' = call\<lparr>tc_status := ''SUCCEEDED''\<rparr> in
          (call', attempt\<lparr>ca_status := ''SUCCEEDED'', ca_completed_at := Some (benv_now env)\<rparr>,
           store_result env call' ''SUCCEEDED'' projection None None [])
      | Inl failure \<Rightarrow>
          let status = (if outcome_unknown row then ''UNKNOWN'' else ''FAILED'');
              call' = call\<lparr>tc_status := status\<rparr>
          in (call',
              attempt\<lparr>ca_status := status, ca_completed_at := Some (benv_now env),
                ca_error_class := Some (failure_class failure), ca_error_detail := Some (take 4000 (failure_detail failure))\<rparr>,
              store_result env call' status JNull
                (Some (if outcome_unknown row then ''TOOL_OUTCOME_UNKNOWN'' else failure_code failure))
                (Some (if outcome_unknown row then ''The remote side effect may have occurred; reconcile before any retry.''
                       else ''The tool could not be completed.''))
                (if outcome_unknown row then [''reconciliation_required'', ''no_blind_retry''] else [])))"

definition call_entry :: "tool_call \<Rightarrow> audit_entry" where
  "call_entry call =
     \<lparr>an_tenant_id = tc_tenant_id call, an_actor_type = ''AGENT'', an_actor_id = tc_agent_name call,
      an_event_type = ''mcp.tool_call.'' @ py_lower (tc_status call), an_subject_type = ''MCP_TOOL_CALL'',
      an_subject_id = tc_id call, an_correlation_id = tc_correlation_id call,
      an_payload = [(''canonical_name'', JStr (tc_canonical_name call)), (''request_hash'', JStr (tc_request_hash call)),
        (''guardian_decision_id'', JOpt (tc_guardian_decision_id call))]\<rparr>"

definition put_call :: "tool_call \<Rightarrow> mcp_db \<Rightarrow> mcp_db" where
  "put_call call db = db\<lparr>mcp_calls := update_rows (\<lambda>c. tc_id c = tc_id call) (\<lambda>_. call) (mcp_calls db)\<rparr>"

text \<open>
  \<open>_call\<close>: the messages it sends, the rows it writes (the audit event goes to the log
  Guardian writes, too) and its answer, or the exception of an answer that cannot be built.
\<close>

definition broker_call ::
    "broker_env \<Rightarrow> tool_call \<Rightarrow> dict \<Rightarrow> tool_row \<Rightarrow> guardian_db \<Rightarrow> mcp_db \<Rightarrow>
      remote_message list \<times> (broker_error + (guardian_db \<times> mcp_db) \<times> safe_tool_result)" where
  "broker_call env call arguments row gdb db =
     (case row of (tool, version, policy, server) \<Rightarrow>
      let (sent, outcome) = raw_call env call arguments row;
          (call', attempt, result) = settle env call row (checked_content policy outcome);
          db1 = put_call call' db;
          db2 = db1\<lparr>mcp_attempts := mcp_attempts db1 @ [attempt], mcp_results := mcp_results db1 @ [result],
                    mcp_outbox := enqueue_outbox (benv_uuid env 3) (benv_now env) (tc_tenant_id call') ''MCP_TOOL_CALL''
                      (tc_id call') (tc_version call') (''mcp.tool_call.'' @ py_lower (tc_status call')) (tc_correlation_id call')
                      [(''canonical_name'', JStr (tc_canonical_name call')), (''status'', JStr (tc_status call'))]
                      (mcp_outbox db1)\<rparr>;
          gdb1 = gdb\<lparr>audit_events := append_audit_event (benv_uuid env 4) (benv_now env) (call_entry call') (audit_events gdb)\<rparr>
      in (sent, sum_bind (safe_result result (tc_id call')) (\<lambda>s. Inr ((gdb1, db2), s))))"

section \<open>The operations\<close>

definition finish ::
    "platform \<Rightarrow> guardian_db \<Rightarrow> remote_message list \<times> (broker_error + (guardian_db \<times> mcp_db) \<times> safe_tool_result) \<Rightarrow>
      remote_message list \<times> platform \<times> (broker_error + safe_tool_result)" where
  "finish pl gdb r =
     (case r of
        (sent, Inl e) \<Rightarrow> (sent, pl\<lparr>guardian_plane := gdb\<rparr>, Inl e)
      | (sent, Inr ((gdb', db'), s)) \<Rightarrow>
          if mcp_constraints db' \<and> audit_constraints (audit_events gdb')
          then (sent, pl\<lparr>guardian_plane := gdb', tool_plane := db'\<rparr>, Inr s)
          else (sent, pl\<lparr>guardian_plane := gdb\<rparr>, Inl BrokerIntegrityError))"

definition prepare :: "iter_errors \<Rightarrow> tool_call_submit \<Rightarrow> mcp_db \<Rightarrow> broker_error + tool_row \<times> safe_tool_result option" where
  "prepare iter_errors request db =
     sum_bind (resolve request (mcp_registry db)) (\<lambda>row.
     sum_bind (validate_access request row) (\<lambda>_.
     sum_bind (validate_arguments iter_errors (case row of (tool, version, policy, server) \<Rightarrow> tv_input_schema version)
                 (ti_arguments (ts_intent request))) (\<lambda>_.
     sum_bind (find_idempotent_result request row db) (\<lambda>existing. Inr (row, existing)))))"

definition execute ::
    "jwt_library \<Rightarrow> iter_errors \<Rightarrow> broker_env \<Rightarrow> tool_call_submit \<Rightarrow> platform \<Rightarrow>
      remote_message list \<times> platform \<times> (broker_error + safe_tool_result)" where
  "execute jwt iter_errors env request pl =
     (case prepare iter_errors request (tool_plane pl) of
        Inl e \<Rightarrow> ([], pl, Inl e)
      | Inr (row, Some existing) \<Rightarrow> ([], pl, Inr existing)
      | Inr (row, None) \<Rightarrow>
          let call = new_call (benv_uuid env 0) request row;
              db1 = (tool_plane pl)\<lparr>mcp_calls := mcp_calls (tool_plane pl) @ [call]\<rparr>
          in if \<not> mcp_constraints db1 then ([], pl, Inl BrokerIntegrityError)
             else
             (case protect jwt env (submitted_request (benv_uuid env 0) request row) (fst (snd row)) (fst (snd (snd row))) call
                     (guardian_plane pl) of
                (gdb, Inl e) \<Rightarrow> finish pl gdb ([], Inl e)
              | (gdb, Inr (Halted call' result s)) \<Rightarrow>
                  finish pl gdb ([], Inr ((gdb, (put_call call' db1)\<lparr>mcp_results := mcp_results db1 @
                    (case result of None \<Rightarrow> [] | Some r \<Rightarrow> [r])\<rparr>), s))
              | (gdb, Inr (Authorized call')) \<Rightarrow>
                  finish pl gdb (broker_call env call' (normalized (ti_arguments (ts_intent request))) row gdb db1)))"

definition resumed_rows :: "tool_call \<Rightarrow> registry_db \<Rightarrow> tool_row option" where
  "resumed_rows call db =
     prefer_tenant (filter (\<lambda>(t, v, p, s). tv_id v = tc_tool_version_id call \<and> tenant_or_null (tc_tenant_id call) (tp_tenant_id p))
       (joined_rows db))"

definition authorize_resumed ::
    "jwt_library \<Rightarrow> broker_env \<Rightarrow> tool_call_resume \<Rightarrow> tool_call \<Rightarrow> guardian_db \<Rightarrow> guardian_db \<times> (broker_error + tool_call)" where
  "authorize_resumed jwt env request call gdb =
     (case client_authorize_approved jwt env 0 (tc_tenant_id call)
             \<lparr>ar_call_id = tc_id call, ar_request_hash = tc_request_hash call, ar_correlation_id = ru_correlation_id request\<rparr> gdb of
        (gdb1, Inl e) \<Rightarrow> (gdb1, Inl (rejected e))
      | (gdb1, Inr decision) \<Rightarrow>
          (case authorization_of decision of
             None \<Rightarrow> (gdb1, Inl (rejected (GuardianClientError ''Guardian did not return an authorization.'')))
           | Some token \<Rightarrow>
               (case client_consume jwt env 1 (tc_tenant_id call)
                       \<lparr>cs_token = token, cs_call_id = tc_id call, cs_request_hash = tc_request_hash call,
                        cs_correlation_id = ru_correlation_id request\<rparr> gdb1 of
                  (gdb2, Inl e) \<Rightarrow> (gdb2, Inl (rejected e))
                | (gdb2, Inr consumed) \<Rightarrow>
                    (gdb2, Inr (call\<lparr>tc_guardian_decision_id := Some (gr_decision_id decision),
                       tc_authorization_id := Some (cr_authorization_id consumed),
                       tc_correlation_id := ru_correlation_id request\<rparr>)))))"

definition resume ::
    "jwt_library \<Rightarrow> broker_env \<Rightarrow> tool_call_resume \<Rightarrow> platform \<Rightarrow>
      remote_message list \<times> platform \<times> (broker_error + safe_tool_result)" where
  "resume jwt env request pl =
     (case scalar (\<lambda>c. tc_id c = ru_call_id request \<and> tc_tenant_id c = ru_tenant_id request) (mcp_calls (tool_plane pl)) of
        None \<Rightarrow> ([], pl, Inl (ToolBrokerError ''CALL_NOT_FOUND'' ''The tool call was not found.''))
      | Some call \<Rightarrow>
          if tc_status call \<noteq> ''WAITING_APPROVAL''
          then ([], pl, Inl (ToolBrokerError ''CALL_NOT_RESUMABLE'' ''The tool call is not awaiting approval.''))
          else
          (case resumed_rows call (mcp_registry (tool_plane pl)) of
             None \<Rightarrow> ([], pl, Inl (ToolBrokerError ''TOOL_NOT_FOUND'' ''The approved tool version is unavailable.''))
           | Some row \<Rightarrow>
               (case authorize_resumed jwt env request call (guardian_plane pl) of
                  (gdb, Inl e) \<Rightarrow> finish pl gdb ([], Inl e)
                | (gdb, Inr call') \<Rightarrow>
                    finish pl gdb (broker_call env call' (tc_normalized_arguments call') row gdb (tool_plane pl)))))"

end
