(* ===== verification/BrokerGate.thy ===== *)
theory BrokerGate
  imports Broker RegistryProperties
begin

text \<open>
  The broker's view of Guardian: what a call of the client leaves behind, and that the two
  ways to a remote call (the gate of \<open>execute\<close> and the authorization of \<open>resume\<close>) go
  through an authorization consumed for exactly that call.
\<close>

section \<open>Guardian as the broker sees it\<close>

definition evolves :: "guardian_db \<Rightarrow> guardian_db \<Rightarrow> bool" where
  "evolves gdb gdb' \<longleftrightarrow> guardian_inv gdb' \<and> guardian_keeps gdb gdb'"

definition spent :: "guardian_db \<Rightarrow> string \<Rightarrow> bool" where
  "spent gdb aid \<longleftrightarrow> (\<exists>a\<in>set (authorizations gdb). au_id a = aid \<and> au_status a = ''CONSUMED'')"

lemma evolves_refl: "guardian_inv gdb \<Longrightarrow> evolves gdb gdb"
  by (simp add: evolves_def)

lemma evolves_trans: "evolves x y \<Longrightarrow> evolves y z \<Longrightarrow> evolves x z"
  unfolding evolves_def using guardian_keeps_trans by blast

lemma evolves_step: "guardian_inv gdb \<Longrightarrow> evolves gdb (fst (guardian_step jwt q gdb))"
  unfolding evolves_def using guardian.step_inv guardian.step_le by blast

lemma evolves_run: "guardian_inv gdb \<Longrightarrow> evolves gdb (run (guardian_step jwt) qs gdb)"
  unfolding evolves_def using guardian_later by blast

lemma consumed_stays:
  assumes "evolves gdb gdb'" "a \<in> set (authorizations gdb)" "au_status a = ''CONSUMED''"
  shows "a \<in> set (authorizations gdb')"
proof -
  from assms(1,2) obtain b where "b \<in> set (authorizations gdb')" "authorization_later a b"
    by (auto simp: evolves_def guardian_keeps_def)
  with assms(3) show ?thesis by (auto simp: authorization_later_def)
qed

lemma spent_stays: "evolves gdb gdb' \<Longrightarrow> spent gdb aid \<Longrightarrow> spent gdb' aid"
  using consumed_stays unfolding spent_def by blast

lemma evolves_logged:
  assumes "guardian_inv gdb" "audit_constraints (append_audit_event u now a (audit_events gdb))"
  shows "evolves gdb (gdb\<lparr>audit_events := append_audit_event u now a (audit_events gdb)\<rparr>)" (is "evolves gdb ?g")
proof -
  have ev: "guardian_event gdb ?g" by (rule logged)
  have "guardian_constraints ?g" using assms by (simp add: guardian_inv_def guardian_constraints_def)
  moreover have "guardian_good ?g" using guardian_good_event [OF ev] assms(1) by (simp add: guardian_inv_def)
  ultimately show ?thesis using guardian_keeps_event [OF ev] by (simp add: evolves_def guardian_inv_def)
qed

section \<open>The client\<close>

lemma client_post_cases:
  assumes "client_post jwt env k what st route gdb = (gdb', r)"
  obtains (unsent) "gdb' = gdb" "\<And>v. r \<noteq> Inr v"
  | (sent) gdb0 token where "gdb0 = run (guardian_step jwt) (benv_others env k) gdb"
      "gdb' = fst (guardian_step jwt (benv_guardian env k, Some (''Bearer '' @ token), route) gdb0)"
      "\<And>v. r = Inr v \<Longrightarrow> guardian_step jwt (benv_guardian env k, Some (''Bearer '' @ token), route) gdb0 = (gdb', Inr v)"
proof (cases "benv_service_token env")
  case None
  with assms have "gdb' = gdb" "\<And>v. r \<noteq> Inr v" by (auto simp: client_post_def)
  then show thesis by (rule unsent)
next
  case (Some token)
  let ?g = "run (guardian_step jwt) (benv_others env k) gdb"
  let ?s = "guardian_step jwt (benv_guardian env k, Some (''Bearer '' @ token), route) ?g"
  show thesis
  proof (cases "benv_link env k")
    case (RequestLost e)
    with Some assms have "gdb' = gdb" "\<And>v. r \<noteq> Inr v" by (auto simp: client_post_def)
    then show thesis by (rule unsent)
  next
    case Delivered
    with Some assms have "gdb' = fst ?s" "\<And>v. r = Inr v \<Longrightarrow> ?s = (gdb', Inr v)"
      by (auto simp: client_post_def Let_def split: prod.splits sum.splits)
    then show thesis by (rule sent [OF refl])
  next
    case (ResponseLost e)
    with Some assms have "gdb' = fst ?s" "\<And>v. r \<noteq> Inr v"
      by (auto simp: client_post_def Let_def split: prod.splits)
    then show thesis by (intro sent [OF refl]) auto
  qed
qed

lemma client_post_evolves:
  assumes "client_post jwt env k what st route gdb = (gdb', r)" "guardian_inv gdb"
  shows "evolves gdb gdb'"
  using assms(1)
proof (cases rule: client_post_cases)
  case unsent
  with assms(2) show ?thesis by (simp add: evolves_refl)
next
  case (sent gdb0 token)
  have "evolves gdb gdb0" unfolding sent(1) using assms(2) by (rule evolves_run)
  moreover have "evolves gdb0 gdb'" unfolding sent(2)
    by (rule evolves_step) (use \<open>evolves gdb gdb0\<close> in \<open>simp add: evolves_def\<close>)
  ultimately show ?thesis by (rule evolves_trans)
qed

lemma client_evaluate_evolves:
  "client_evaluate jwt env k ev gdb = (gdb', r) \<Longrightarrow> guardian_inv gdb \<Longrightarrow> evolves gdb gdb'"
  by (auto simp: client_evaluate_def split: prod.splits dest: client_post_evolves)

lemma client_approved_evolves:
  "client_authorize_approved jwt env k t b gdb = (gdb', r) \<Longrightarrow> guardian_inv gdb \<Longrightarrow> evolves gdb gdb'"
  by (auto simp: client_authorize_approved_def split: prod.splits dest: client_post_evolves)

lemma client_consume_evolves:
  "client_consume jwt env k t b gdb = (gdb', r) \<Longrightarrow> guardian_inv gdb \<Longrightarrow> evolves gdb gdb'"
  by (auto simp: client_consume_def split: prod.splits dest: client_post_evolves)

text \<open>
  What a successful consumption leaves behind: an authorization for the named call and
  request hash, consumed now and not before.
\<close>

definition freshly_consumed :: "guardian_db \<Rightarrow> guardian_db \<Rightarrow> string \<Rightarrow> string \<Rightarrow> string \<Rightarrow> bool" where
  "freshly_consumed gdb gdb' call_id request_hash aid \<longleftrightarrow> \<not> spent gdb aid \<and>
     (\<exists>a\<in>set (authorizations gdb'). au_id a = aid \<and> au_status a = ''CONSUMED'' \<and>
        au_tool_call_id a = call_id \<and> au_request_hash a = request_hash)"

lemma consume_fresh:
  assumes "guardian_consume jwt env q db = Inr (db', res)" "guardian_constraints db"
  shows "freshly_consumed db db' (cs_call_id q) (cs_request_hash q) (cr_authorization_id res)"
proof -
  from assms(1) obtain a where a: "scalar (\<lambda>a. au_token_hash a = token_hash (cs_token q)
        \<and> au_tool_call_id a = cs_call_id q \<and> au_request_hash a = cs_request_hash q) (authorizations db) = Some a"
    and ok: "au_status a = ''ACTIVE''" "cr_authorization_id res = au_id a"
    and db': "authorizations db' = update_rows (\<lambda>b. au_id b = au_id a)
        (consume_authorization env (cs_correlation_id q)) (authorizations db)"
    by (auto simp: guardian_consume_def split: sum.splits if_splits option.splits)
  from scalar_Some [OF a] have mem: "a \<in> set (authorizations db)"
    and id: "au_tool_call_id a = cs_call_id q" "au_request_hash a = cs_request_hash q" by simp_all
  have "\<not> spent db (au_id a)"
    unfolding spent_def
  proof
    assume "\<exists>b\<in>set (authorizations db). au_id b = au_id a \<and> au_status b = ''CONSUMED''"
    then obtain b where b: "b \<in> set (authorizations db)" "au_id b = au_id a" "au_status b = ''CONSUMED''" by blast
    from guardian_keys(2) [OF assms(2) mem b(1,2)] b(3) ok(1) show False by simp
  qed
  moreover have "consume_authorization env (cs_correlation_id q) a \<in> set (authorizations db')"
    using mem by (force simp: db' update_rows_def)
  ultimately show ?thesis
    unfolding freshly_consumed_def ok(2) using id
    by (intro conjI bexI [of _ "consume_authorization env (cs_correlation_id q) a"]) (simp_all add: consume_authorization_def)
qed

lemma freshly_consumed_mono:
  assumes "evolves x y" "freshly_consumed y z c h aid"
  shows "freshly_consumed x z c h aid"
  using assms spent_stays by (auto simp: freshly_consumed_def)

lemma freshly_consumed_later:
  assumes "freshly_consumed x y c h aid" "evolves y z"
  shows "freshly_consumed x z c h aid"
  using assms consumed_stays [OF assms(2)] by (auto simp: freshly_consumed_def)

lemma guardian_step_ok:
  "guardian_step jwt (env, header, route) db = (db', Inr v) \<Longrightarrow> guardian_route_op jwt env route db = Inr (db', v)"
  by (auto simp: guardian_session_ok split: sum.splits)

lemma client_consume_fresh:
  assumes "client_consume jwt env k t b gdb = (gdb', Inr res)" "guardian_inv gdb"
  shows "freshly_consumed gdb gdb' (cs_call_id b) (cs_request_hash b) (cr_authorization_id res)"
proof -
  obtain g r where post: "client_post jwt env k ''Guardian authorization'' 403 (ConsumeRoute t b) gdb = (g, r)" by fastforce
  with assms(1) have g: "g = gdb'" and "sum_bind r (\<lambda>v. case v of ConsumeResponse r \<Rightarrow> Inr r
      | _ \<Rightarrow> Inl (ClientPyError (PyExc ''ValidationError'' ''''))) = Inr res"
    by (simp_all add: client_consume_def)
  then obtain v where "r = Inr v" and "(case v of ConsumeResponse r \<Rightarrow> Inr r
      | _ \<Rightarrow> Inl (ClientPyError (PyExc ''ValidationError'' ''''))) = Inr res"
    by (auto simp: sum_bind_Inr)
  then have r: "r = Inr (ConsumeResponse res)" by (cases v) simp_all
  note post = post [unfolded g]
  from post show ?thesis
  proof (cases rule: client_post_cases)
    case unsent
    with r show ?thesis by simp
  next
    case (sent gdb0 token)
    have "guardian_route_op jwt (benv_guardian env k) (ConsumeRoute t b) gdb0 = Inr (gdb', ConsumeResponse res)"
      by (rule guardian_step_ok [OF sent(3) [OF r]])
    then have op: "guardian_consume jwt (benv_guardian env k) b gdb0 = Inr (gdb', res)"
      by (auto simp: responding_def sum_bind_Inr split: if_splits)
    have ev: "evolves gdb gdb0" unfolding sent(1) using assms(2) by (rule evolves_run)
    then have "guardian_constraints gdb0" by (simp add: evolves_def guardian_inv_def)
    from freshly_consumed_mono [OF ev consume_fresh [OF op this]] show ?thesis .
  qed
qed

section \<open>The gate\<close>

definition authorized_call :: "guardian_db \<Rightarrow> guardian_db \<Rightarrow> tool_call \<Rightarrow> bool" where
  "authorized_call gdb gdb' call \<longleftrightarrow> tc_guardian_decision_id call \<noteq> None \<and>
     (\<exists>aid. tc_authorization_id call = Some aid \<and> freshly_consumed gdb gdb' (tc_id call) (tc_request_hash call) aid)"

lemma protect_sound:
  assumes "protect jwt env q version policy call gdb = (gdb', r)" "guardian_inv gdb"
  shows "evolves gdb gdb' \<and> (\<forall>call'. r = Inr (Authorized call') \<longrightarrow>
     (if protected_tool version policy
      then authorized_call gdb gdb' call' \<and> (\<exists>d aid. call' = call\<lparr>tc_guardian_decision_id := d, tc_authorization_id := aid\<rparr>)
      else call' = call))"
proof (cases "protected_tool version policy")
  case False
  with assms show ?thesis by (auto simp: protect_def evolves_refl)
next
  case prot: True
  show ?thesis
  proof (cases "policy_snapshot version policy")
    case (Inl e)
    with assms prot show ?thesis by (auto simp: protect_def evolves_refl)
  next
    case (Inr snapshot)
    obtain g1 x where x: "client_evaluate jwt env 0 \<lparr>ge_request = q, ge_policy = snapshot\<rparr> gdb = (g1, x)" by fastforce
    note e1 = client_evaluate_evolves [OF x assms(2)]
    show ?thesis
    proof (cases x)
      case (Inl e)
      have "gdb' = g1" "\<And>c. r \<noteq> Inr (Authorized c)"
        using assms(1) prot Inr x Inl
        by (auto simp: protect_def blocked_call_def Let_def sum_bind_Inr split: client_error.splits)
      with e1 show ?thesis by simp
    next
      case d: (Inr decision)
      let ?c1 = "call\<lparr>tc_guardian_decision_id := Some (gr_decision_id decision)\<rparr>"
      show ?thesis
      proof (cases "gr_outcome decision = ALLOW \<and> authorization_of decision \<noteq> None")
        case False
        then have "gdb' = g1" "\<And>c. r \<noteq> Inr (Authorized c)"
          using assms(1) prot Inr x d
          by (cases "gr_outcome decision"; auto simp: protect_def blocked_call_def approval_required_def Let_def sum_bind_Inr)+
        with e1 show ?thesis by simp
      next
        case True
        then obtain token where token: "authorization_of decision = Some token" by auto
        let ?b = "\<lparr>cs_token = token, cs_call_id = tc_id ?c1, cs_request_hash = tc_request_hash ?c1,
            cs_correlation_id = tc_correlation_id ?c1\<rparr>"
        obtain g2 y where y: "client_consume jwt env 1 (tc_tenant_id ?c1) ?b g1 = (g2, y)" by fastforce
        have inv1: "guardian_inv g1" using e1 by (simp add: evolves_def)
        have r: "gdb' = g2" "\<And>c. r = Inr (Authorized c) \<Longrightarrow> \<exists>res. y = Inr res \<and>
            c = ?c1\<lparr>tc_authorization_id := Some (cr_authorization_id res)\<rparr>"
          using assms(1) prot Inr x d True token y by (auto simp: protect_def Let_def split: sum.splits)
        have e2: "evolves gdb gdb'" unfolding r(1) by (rule evolves_trans [OF e1 client_consume_evolves [OF y inv1]])
        show ?thesis
        proof (intro conjI allI impI e2)
          fix c assume "r = Inr (Authorized c)"
          from r(2) [OF this] obtain res where res: "y = Inr res"
            and c: "c = ?c1\<lparr>tc_authorization_id := Some (cr_authorization_id res)\<rparr>" by blast
          from freshly_consumed_mono [OF e1 client_consume_fresh [OF y [unfolded res] inv1]]
          have "authorized_call gdb gdb' c" by (simp add: authorized_call_def c r(1))
          moreover have "\<exists>d aid. c = call\<lparr>tc_guardian_decision_id := d, tc_authorization_id := aid\<rparr>"
            by (intro exI [of _ "Some (gr_decision_id decision)"] exI [of _ "Some (cr_authorization_id res)"]) (simp add: c)
          ultimately show "if protected_tool version policy then authorized_call gdb gdb' c \<and>
              (\<exists>d aid. c = call\<lparr>tc_guardian_decision_id := d, tc_authorization_id := aid\<rparr>) else c = call"
            using prot by simp
        qed
      qed
    qed
  qed
qed

lemma authorize_resumed_sound:
  assumes "authorize_resumed jwt env request call gdb = (gdb', r)" "guardian_inv gdb"
  shows "evolves gdb gdb' \<and> (\<forall>call'. r = Inr call' \<longrightarrow> authorized_call gdb gdb' call' \<and>
    (\<exists>d aid. call' = call\<lparr>tc_guardian_decision_id := d, tc_authorization_id := aid, tc_correlation_id := ru_correlation_id request\<rparr>))"
proof -
  let ?a = "\<lparr>ar_call_id = tc_id call, ar_request_hash = tc_request_hash call, ar_correlation_id = ru_correlation_id request\<rparr>"
  obtain g1 x where x: "client_authorize_approved jwt env 0 (tc_tenant_id call) ?a gdb = (g1, x)" by fastforce
  note e1 = client_approved_evolves [OF x assms(2)]
  then have inv1: "guardian_inv g1" by (simp add: evolves_def)
  show ?thesis
  proof (cases "\<exists>decision token. x = Inr decision \<and> authorization_of decision = Some token")
    case False
    then have "gdb' = g1" "\<And>c. r \<noteq> Inr c"
      using assms(1) x by (auto simp: authorize_resumed_def split: sum.splits option.splits)
    with e1 show ?thesis by simp
  next
    case True
    then obtain decision token where d: "x = Inr decision" "authorization_of decision = Some token" by blast
    let ?b = "\<lparr>cs_token = token, cs_call_id = tc_id call, cs_request_hash = tc_request_hash call,
        cs_correlation_id = ru_correlation_id request\<rparr>"
    obtain g2 y where y: "client_consume jwt env 1 (tc_tenant_id call) ?b g1 = (g2, y)" by fastforce
    have r: "gdb' = g2" "\<And>c. r = Inr c \<Longrightarrow> \<exists>res. y = Inr res \<and> c = call\<lparr>tc_guardian_decision_id := Some (gr_decision_id decision),
        tc_authorization_id := Some (cr_authorization_id res), tc_correlation_id := ru_correlation_id request\<rparr>"
      using assms(1) x d y by (auto simp: authorize_resumed_def split: sum.splits)
    have e2: "evolves gdb gdb'" unfolding r(1) by (rule evolves_trans [OF e1 client_consume_evolves [OF y inv1]])
    show ?thesis
    proof (intro conjI allI impI e2)
      fix c assume "r = Inr c"
      from r(2) [OF this] obtain res where res: "y = Inr res"
        and c: "c = call\<lparr>tc_guardian_decision_id := Some (gr_decision_id decision),
          tc_authorization_id := Some (cr_authorization_id res), tc_correlation_id := ru_correlation_id request\<rparr>" by blast
      from freshly_consumed_mono [OF e1 client_consume_fresh [OF y [unfolded res] inv1]]
      show "authorized_call gdb gdb' c" by (simp add: authorized_call_def c r(1))
      show "\<exists>d aid. c = call\<lparr>tc_guardian_decision_id := d, tc_authorization_id := aid, tc_correlation_id := ru_correlation_id request\<rparr>"
        using c by blast
    qed
  qed
qed

end
