(* ===== verification/BrokerProperties.thy ===== *)
theory BrokerProperties
  imports BrokerGate
begin

text \<open>
  The properties of the broker together with Guardian: no protected message without a
  consumed authorization for exactly that call, no authorization behind two calls, at most
  one message of a tool with side effects, and no message when Guardian cannot be reached.
\<close>

section \<open>Messages of a call\<close>

text \<open>
  A message carries a call: its scope is the call's, its tool the row's. A message that follows
  no redirect goes to the server of the row.
\<close>

definition carries :: "broker_env \<Rightarrow> tool_call \<Rightarrow> tool_row \<Rightarrow> remote_message \<Rightarrow> bool" where
  "carries env call row m \<longleftrightarrow> (case row of (tool, version, policy, server) \<Rightarrow>
     runtime_meta env (remote_config version policy server) (runtime_envelope call) = Inr (rm_meta m) \<and>
     rm_tool m = mt_original_name tool \<and> (rm_redirects m = 0 \<longrightarrow> rm_endpoint m = ms_endpoint server) \<and>
     validate_egress (remote_config version policy server) = Inr ())"

text \<open>The bounds on what is sent, and that a redirected message is one a server asked for.\<close>

definition sent_within :: "remote \<Rightarrow> nat \<Rightarrow> remote_message list \<Rightarrow> bool" where
  "sent_within remote n sent \<longleftrightarrow> calls_in sent \<le> n \<and> length sent \<le> n * Suc max_redirects \<and>
     (\<forall>m\<in>set sent. rm_redirects m = 0 \<or> (\<exists>k. asked_by sent (remote k) m))"

lemma sent_within_Nil [simp]: "sent_within remote n []"
  by (simp add: sent_within_def calls_in_def)

definition retries_of :: "tool_row \<Rightarrow> nat" where
  "retries_of row = (case row of (tool, version, policy, server) \<Rightarrow> nat (rs_max_retries (remote_config version policy server)))"

lemma raw_call_sent:
  assumes "raw_call env call arguments row = (sent, r)"
  shows "sent_within (benv_remote env) (Suc (retries_of row)) sent \<and> (\<forall>m\<in>set sent. carries env call row m \<and> rm_arguments m = arguments)"
proof -
  obtain tool version policy server where row: "row = (tool, version, policy, server)" by (cases row) auto
  let ?c = "remote_config version policy server"
  show ?thesis
  proof (cases "core_handlers (mt_canonical_name tool)")
    case (Some h)
    with assms row show ?thesis by (simp add: raw_call_def)
  next
    case None
    show ?thesis
    proof (cases "runtime_meta env ?c (runtime_envelope call)")
      case (Inl e)
      with assms row None show ?thesis by (simp add: raw_call_def Let_def)
    next
      case (Inr meta)
      with assms row None have "call_tool (benv_remote env) (benv_getenv env) ?c (mt_original_name tool) arguments meta = (sent, r)"
        by (simp add: raw_call_def Let_def)
      from call_tool_sent [OF this] Inr show ?thesis
        by (auto simp: sent_ok_def message_ok_def sent_within_def carries_def row retries_of_def remote_config_def split: if_splits)
    qed
  qed
qed

lemma finish_call:
  assumes "finish pl gdb (broker_call env call arguments row gdb db) = (sent, pl', x)" "guardian_inv gdb"
  shows "evolves gdb (guardian_plane pl') \<and> sent_within (benv_remote env) (Suc (retries_of row)) sent \<and>
    (\<forall>m\<in>set sent. carries env call row m \<and> rm_arguments m = arguments)"
proof -
  obtain tool version policy server where row: "row = (tool, version, policy, server)" by (cases row) auto
  obtain s r where s: "raw_call env call arguments row = (s, r)" by fastforce
  obtain call' attempt result where st: "settle env call row (checked_content policy r) = (call', attempt, result)"
    by (cases "settle env call row (checked_content policy r)") auto
  obtain y where y: "broker_call env call arguments row gdb db = (s, y)"
    "\<And>g d v. y = Inr ((g, d), v) \<Longrightarrow>
      g = gdb\<lparr>audit_events := append_audit_event (benv_uuid env 4) (benv_now env) (call_entry call') (audit_events gdb)\<rparr>"
    using s st row by (auto simp: broker_call_def Let_def sum_bind_Inr)
  have "sent = s" using assms(1) y(1) by (auto simp: finish_def split: sum.splits if_splits)
  moreover have "evolves gdb (guardian_plane pl')"
  proof (cases y)
    case (Inl e)
    with assms y(1) show ?thesis by (auto simp: finish_def evolves_refl)
  next
    case (Inr z)
    obtain g d v where z: "z = ((g, d), v)" by (cases z) auto
    note g = y(2) [OF Inr [unfolded z]]
    show ?thesis
    proof (cases "mcp_constraints d \<and> audit_constraints (audit_events g)")
      case True
      then have "pl' = pl\<lparr>guardian_plane := g, tool_plane := d\<rparr>" using assms(1) y(1) Inr z by (simp add: finish_def)
      moreover have "evolves gdb g" unfolding g by (rule evolves_logged [OF assms(2)]) (use True g in simp)
      ultimately show ?thesis by simp
    next
      case False
      then have "guardian_plane pl' = gdb" using assms(1) y(1) Inr z by (auto simp: finish_def)
      with assms(2) show ?thesis by (simp add: evolves_refl)
    qed
  qed
  ultimately show ?thesis using raw_call_sent [OF s] by simp
qed

lemma finish_silent:
  assumes "finish pl gdb ([], y) = (sent, pl', x)" "\<And>g d v. y = Inr ((g, d), v) \<Longrightarrow> g = gdb"
  shows "sent = [] \<and> guardian_plane pl' = gdb"
proof (cases y)
  case (Inr z)
  obtain g d v where "z = ((g, d), v)" by (cases z) auto
  with Inr assms show ?thesis by (auto simp: finish_def split: if_splits)
qed (use assms(1) in \<open>auto simp: finish_def\<close>)

section \<open>The two operations\<close>

definition row_protected :: "tool_row \<Rightarrow> bool" where
  "row_protected row \<longleftrightarrow> (case row of (tool, version, policy, server) \<Rightarrow> protected_tool version policy)"

lemma execute_sound:
  assumes ex: "execute jwt ie env request pl = (sent, pl', x)" and inv: "guardian_inv (guardian_plane pl)"
  shows "evolves (guardian_plane pl) (guardian_plane pl') \<and>
    (sent \<noteq> [] \<longrightarrow> (\<exists>row call d aid. prepare ie request (tool_plane pl) = Inr (row, None) \<and>
      call = (new_call (benv_uuid env 0) request row)\<lparr>tc_guardian_decision_id := d, tc_authorization_id := aid\<rparr> \<and>
      sent_within (benv_remote env) (Suc (retries_of row)) sent \<and>
      (\<forall>m\<in>set sent. carries env call row m \<and> rm_arguments m = normalized (ti_arguments (ts_intent request))) \<and>
      (if row_protected row then authorized_call (guardian_plane pl) (guardian_plane pl') call else aid = None)))"
proof (cases "\<exists>row. prepare ie request (tool_plane pl) = Inr (row, None) \<and>
    mcp_constraints ((tool_plane pl)\<lparr>mcp_calls := mcp_calls (tool_plane pl) @ [new_call (benv_uuid env 0) request row]\<rparr>)")
  case False
  then have "sent = []" "pl' = pl"
    using ex by (auto simp: execute_def Let_def split: sum.splits option.splits)
  with inv show ?thesis by (simp add: evolves_refl)
next
  case True
  then obtain tool version policy server where prep: "prepare ie request (tool_plane pl) = Inr ((tool, version, policy, server), None)"
    and con: "mcp_constraints ((tool_plane pl)\<lparr>mcp_calls := mcp_calls (tool_plane pl) @
      [new_call (benv_uuid env 0) request (tool, version, policy, server)]\<rparr>)" by auto
  define row where "row = (tool, version, policy, server)"
  define call where "call = new_call (benv_uuid env 0) request row"
  define db1 where "db1 = (tool_plane pl)\<lparr>mcp_calls := mcp_calls (tool_plane pl) @ [call]\<rparr>"
  obtain gdb r where p: "protect jwt env (submitted_request (benv_uuid env 0) request row) version policy call (guardian_plane pl) = (gdb, r)"
    by fastforce
  note sound = protect_sound [OF p inv]
  then have ev: "evolves (guardian_plane pl) gdb" and inv1: "guardian_inv gdb" by (simp_all add: evolves_def)
  have ex1: "(case r of Inl e \<Rightarrow> finish pl gdb ([], Inl e)
      | Inr (Halted call' result s) \<Rightarrow> finish pl gdb ([], Inr ((gdb, (put_call call' db1)\<lparr>mcp_results := mcp_results db1 @
                    (case result of None \<Rightarrow> [] | Some r \<Rightarrow> [r])\<rparr>), s))
      | Inr (Authorized call') \<Rightarrow> finish pl gdb (broker_call env call' (normalized (ti_arguments (ts_intent request))) row gdb db1))
      = (sent, pl', x)"
    using ex prep con p by (simp add: execute_def Let_def row_def call_def db1_def split: sum.splits call_gate.splits)
  show ?thesis
  proof (cases "\<exists>c. r = Inr (Authorized c)")
    case False
    then have "sent = [] \<and> guardian_plane pl' = gdb"
      using ex1 by (auto split: sum.splits call_gate.splits dest!: finish_silent)
    with ev show ?thesis by simp
  next
    case True
    then obtain c where c: "r = Inr (Authorized c)" by blast
    from ex1 c have fin: "finish pl gdb (broker_call env c (normalized (ti_arguments (ts_intent request))) row gdb db1) = (sent, pl', x)" by simp
    note fin' = finish_call [OF fin inv1]
    from sound c have auth: "if protected_tool version policy
      then authorized_call (guardian_plane pl) gdb c \<and> (\<exists>d aid. c = call\<lparr>tc_guardian_decision_id := d, tc_authorization_id := aid\<rparr>)
      else c = call" by blast
    have cform: "\<exists>d aid. c = call\<lparr>tc_guardian_decision_id := d, tc_authorization_id := aid\<rparr> \<and>
        (if row_protected row then authorized_call (guardian_plane pl) (guardian_plane pl') c else aid = None)"
    proof (cases "protected_tool version policy")
      case True
      with auth have "authorized_call (guardian_plane pl) (guardian_plane pl') c"
        using freshly_consumed_later fin' by (auto simp: authorized_call_def)
      with True auth show ?thesis by (auto simp: row_protected_def row_def)
    next
      case False
      with auth have "c = call\<lparr>tc_guardian_decision_id := None, tc_authorization_id := None\<rparr>"
        by (simp add: call_def new_call_def row_def Let_def)
      with False show ?thesis by (auto simp: row_protected_def row_def)
    qed
    have "evolves (guardian_plane pl) (guardian_plane pl')" using evolves_trans [OF ev] fin' by blast
    then show ?thesis using prep cform fin' unfolding row_def [symmetric] call_def by blast
  qed
qed

lemma resume_sound:
  assumes re: "resume jwt env request pl = (sent, pl', x)" and inv: "guardian_inv (guardian_plane pl)"
  shows "evolves (guardian_plane pl) (guardian_plane pl') \<and>
    (sent \<noteq> [] \<longrightarrow> (\<exists>old row call d aid. old \<in> set (mcp_calls (tool_plane pl)) \<and> tc_id old = ru_call_id request \<and>
      tc_tenant_id old = ru_tenant_id request \<and> tc_status old = ''WAITING_APPROVAL'' \<and>
      resumed_rows old (mcp_registry (tool_plane pl)) = Some row \<and>
      call = old\<lparr>tc_guardian_decision_id := d, tc_authorization_id := aid, tc_correlation_id := ru_correlation_id request\<rparr> \<and>
      sent_within (benv_remote env) (Suc (retries_of row)) sent \<and>
      (\<forall>m\<in>set sent. carries env call row m \<and> rm_arguments m = tc_normalized_arguments old) \<and>
      authorized_call (guardian_plane pl) (guardian_plane pl') call))"
proof (cases "\<exists>old row. scalar (\<lambda>c. tc_id c = ru_call_id request \<and> tc_tenant_id c = ru_tenant_id request) (mcp_calls (tool_plane pl)) = Some old \<and>
    tc_status old = ''WAITING_APPROVAL'' \<and> resumed_rows old (mcp_registry (tool_plane pl)) = Some row")
  case False
  then have "sent = []" "pl' = pl" using re by (auto simp: resume_def split: option.splits if_splits)
  with inv show ?thesis by (simp add: evolves_refl)
next
  case True
  then obtain old row where old: "scalar (\<lambda>c. tc_id c = ru_call_id request \<and> tc_tenant_id c = ru_tenant_id request) (mcp_calls (tool_plane pl)) = Some old"
    and st: "tc_status old = ''WAITING_APPROVAL''" and row: "resumed_rows old (mcp_registry (tool_plane pl)) = Some row" by blast
  obtain gdb r where p: "authorize_resumed jwt env request old (guardian_plane pl) = (gdb, r)" by fastforce
  note sound = authorize_resumed_sound [OF p inv]
  then have ev: "evolves (guardian_plane pl) gdb" and inv1: "guardian_inv gdb" by (simp_all add: evolves_def)
  show ?thesis
  proof (cases r)
    case (Inl e)
    then have "sent = [] \<and> guardian_plane pl' = gdb" using re old st row p by (auto simp: resume_def dest!: finish_silent)
    with ev show ?thesis by simp
  next
    case (Inr c)
    then have fin: "finish pl gdb (broker_call env c (tc_normalized_arguments c) row gdb (tool_plane pl)) = (sent, pl', x)"
      using re old st row p by (simp add: resume_def)
    note fin' = finish_call [OF fin inv1]
    from sound Inr obtain d aid where auth: "authorized_call (guardian_plane pl) gdb c"
      and c: "c = old\<lparr>tc_guardian_decision_id := d, tc_authorization_id := aid, tc_correlation_id := ru_correlation_id request\<rparr>" by blast
    have "authorized_call (guardian_plane pl) (guardian_plane pl') c"
      using auth freshly_consumed_later fin' by (auto simp: authorized_call_def)
    moreover have "evolves (guardian_plane pl) (guardian_plane pl')" using evolves_trans [OF ev] fin' by blast
    moreover have "tc_normalized_arguments c = tc_normalized_arguments old" by (simp add: c)
    ultimately show ?thesis using scalar_Some [OF old] st row c fin' by metis
  qed
qed

section \<open>The platform\<close>

datatype platform_request =
    ExecuteCall broker_env tool_call_submit
  | ResumeCall broker_env tool_call_resume
  | GuardianCall guardian_env "string option" guardian_route
  | RegistryCall registry_env registry_request

record external_code =
  ext_jwt :: jwt_library
  ext_iter_errors :: iter_errors
  ext_list_tools :: "mcp_server \<Rightarrow> py_exception + discovered_tool list \<times> server_info"

fun platform_step :: "external_code \<Rightarrow> platform_request \<Rightarrow> platform \<Rightarrow> platform \<times> remote_message list" where
  "platform_step ext (ExecuteCall env request) pl =
     (case execute (ext_jwt ext) (ext_iter_errors ext) env request pl of (sent, pl', _) \<Rightarrow> (pl', sent))"
| "platform_step ext (ResumeCall env request) pl =
     (case resume (ext_jwt ext) env request pl of (sent, pl', _) \<Rightarrow> (pl', sent))"
| "platform_step ext (GuardianCall env header route) pl =
     (pl\<lparr>guardian_plane := fst (guardian_step (ext_jwt ext) (env, header, route) (guardian_plane pl))\<rparr>, [])"
| "platform_step ext (RegistryCall env request) pl =
     (let db = tool_plane pl in
      (pl\<lparr>tool_plane := db\<lparr>mcp_registry := fst (registry_step (ext_list_tools ext) (env, request) (mcp_registry db))\<rparr>\<rparr>, []))"

definition platform_inv :: "platform \<Rightarrow> bool" where
  "platform_inv pl \<longleftrightarrow> guardian_inv (guardian_plane pl)"

definition platform_le :: "platform \<Rightarrow> platform \<Rightarrow> bool" where
  "platform_le pl pl' \<longleftrightarrow> guardian_keeps (guardian_plane pl) (guardian_plane pl')"

text \<open>The authorization a message names in its signed envelope.\<close>

definition message_authorization :: "remote_message \<Rightarrow> string option" where
  "message_authorization m =
     (case dict_get (rm_meta m) ''ai.xyena/runtime'' of
        JObj envelope \<Rightarrow> (case dict_get envelope ''authorization_id'' of JStr s \<Rightarrow> Some s | _ \<Rightarrow> None)
      | _ \<Rightarrow> None)"

lemma runtime_meta_envelope:
  "runtime_meta env config envelope = Inr meta \<Longrightarrow> dict_get meta ''ai.xyena/runtime'' = JObj envelope"
  by (auto simp: runtime_meta_def sum_bind_Inr signed_runtime_meta_def split: sum.splits option.splits if_splits gateway_error.splits)

lemma carries_authorization:
  assumes "carries env call row m"
  shows "message_authorization m = tc_authorization_id call"
proof -
  have "dict_get (rm_meta m) ''ai.xyena/runtime'' = JObj (runtime_envelope call)"
    using assms runtime_meta_envelope by (auto simp: carries_def)
  then show ?thesis by (simp add: message_authorization_def runtime_envelope_def JOpt_def split: option.split)
qed

lemma platform_step_sound:
  assumes "platform_step ext q pl = (pl', sent)" "platform_inv pl"
  shows "evolves (guardian_plane pl) (guardian_plane pl') \<and>
    (\<forall>m\<in>set sent. \<forall>aid. message_authorization m = Some aid \<longrightarrow>
      \<not> spent (guardian_plane pl) aid \<and> spent (guardian_plane pl') aid)"
proof -
  have use: "\<not> spent g aid \<and> spent g' aid" if "authorized_call g g' call" "tc_authorization_id call = Some aid" for g g' call aid
    using that by (auto simp: authorized_call_def freshly_consumed_def spent_def)
  have inv: "guardian_inv (guardian_plane pl)" using assms(2) by (simp add: platform_inv_def)
  show ?thesis
  proof (cases q)
    case (ExecuteCall env request)
    then obtain x where ex: "execute (ext_jwt ext) (ext_iter_errors ext) env request pl = (sent, pl', x)"
      using assms(1) by (auto split: prod.splits)
    note sound = execute_sound [OF ex inv]
    have "\<not> spent (guardian_plane pl) aid \<and> spent (guardian_plane pl') aid"
      if m: "m \<in> set sent" "message_authorization m = Some aid" for m aid
    proof -
      from m have "sent \<noteq> []" by auto
      with sound obtain row call d a where call: "call = (new_call (benv_uuid env 0) request row)\<lparr>tc_guardian_decision_id := d, tc_authorization_id := a\<rparr>"
        and car: "\<forall>m\<in>set sent. carries env call row m \<and> rm_arguments m = normalized (ti_arguments (ts_intent request))"
        and auth: "if row_protected row then authorized_call (guardian_plane pl) (guardian_plane pl') call else a = None" by blast
      from car m have id: "tc_authorization_id call = Some aid" using carries_authorization by metis
      then have "row_protected row" using auth call by (auto split: if_splits)
      with auth id use show ?thesis by simp
    qed
    with sound show ?thesis by blast
  next
    case (ResumeCall env request)
    then obtain x where re: "resume (ext_jwt ext) env request pl = (sent, pl', x)"
      using assms(1) by (auto split: prod.splits)
    note sound = resume_sound [OF re inv]
    have "\<not> spent (guardian_plane pl) aid \<and> spent (guardian_plane pl') aid"
      if m: "m \<in> set sent" "message_authorization m = Some aid" for m aid
    proof -
      from m have "sent \<noteq> []" by auto
      with sound obtain row call args where car: "\<forall>m\<in>set sent. carries env call row m \<and> rm_arguments m = args"
        and auth: "authorized_call (guardian_plane pl) (guardian_plane pl') call" by blast
      from car m have "tc_authorization_id call = Some aid" using carries_authorization by metis
      with auth use show ?thesis by simp
    qed
    with sound show ?thesis by blast
  next
    case (GuardianCall env header route)
    with assms(1) have "sent = []" "guardian_plane pl' = fst (guardian_step (ext_jwt ext) (env, header, route) (guardian_plane pl))"
      by (auto simp del: guardian_step.simps)
    then show ?thesis using evolves_step [OF inv] by (simp del: guardian_step.simps)
  next
    case (RegistryCall env request)
    with assms(1) have "sent = []" "guardian_plane pl' = guardian_plane pl" by (auto simp: Let_def)
    then show ?thesis using evolves_refl [OF inv] by simp
  qed
qed

interpretation platform: monotone_service "platform_step ext" platform_inv platform_le
  for ext
proof
  fix q pl
  assume inv: "platform_inv pl"
  obtain pl' sent where "platform_step ext q pl = (pl', sent)" by fastforce
  with platform_step_sound [OF this inv] show "platform_inv (fst (platform_step ext q pl))" "platform_le pl (fst (platform_step ext q pl))"
    by (simp_all add: evolves_def platform_inv_def platform_le_def)
qed (auto simp: platform_le_def intro: guardian_keeps_trans)

fun platform_trace :: "external_code \<Rightarrow> platform_request list \<Rightarrow> platform \<Rightarrow> remote_message list list" where
  "platform_trace ext [] pl = []"
| "platform_trace ext (q # qs) pl =
     (case platform_step ext q pl of (pl', sent) \<Rightarrow> sent # platform_trace ext qs pl')"

lemma trace_unspent:
  assumes "platform_inv pl" "spent (guardian_plane pl) aid" "ms \<in> set (platform_trace ext qs pl)" "m \<in> set ms"
  shows "message_authorization m \<noteq> Some aid"
  using assms(1-3)
proof (induction qs arbitrary: pl)
  case (Cons q qs)
  obtain pl' sent where step: "platform_step ext q pl = (pl', sent)" by fastforce
  note sound = platform_step_sound [OF step Cons.prems(1)]
  show ?case
  proof (cases "ms = sent")
    case True
    with sound Cons.prems(2) assms(4) show ?thesis by blast
  next
    case False
    with Cons.prems(3) step have "ms \<in> set (platform_trace ext qs pl')" by simp
    moreover have "platform_inv pl'" "spent (guardian_plane pl') aid"
      using sound Cons.prems(2) spent_stays by (auto simp: evolves_def platform_inv_def)
    ultimately show ?thesis by (rule Cons.IH [rotated 2])
  qed
qed simp

lemma trace_distinct:
  assumes "platform_inv pl" "i < j" "j < length (platform_trace ext qs pl)"
    and "m \<in> set (platform_trace ext qs pl ! i)" "m' \<in> set (platform_trace ext qs pl ! j)" "message_authorization m = Some aid"
  shows "message_authorization m' \<noteq> Some aid"
  using assms
proof (induction qs arbitrary: pl i j)
  case (Cons q qs)
  obtain pl' sent where step: "platform_step ext q pl = (pl', sent)" by fastforce
  note sound = platform_step_sound [OF step Cons.prems(1)]
  then have inv': "platform_inv pl'" by (simp add: evolves_def platform_inv_def)
  from Cons.prems(2) obtain j' where j: "j = Suc j'" by (cases j) auto
  with Cons.prems(3) step have j': "j' < length (platform_trace ext qs pl')" by simp
  from Cons.prems(5) j step have m': "m' \<in> set (platform_trace ext qs pl' ! j')" by simp
  show ?case
  proof (cases i)
    case 0
    with Cons.prems(4,6) step sound have "spent (guardian_plane pl') aid" by auto
    from trace_unspent [OF inv' this _ m'] j' show ?thesis by (meson nth_mem)
  next
    case (Suc i')
    with Cons.prems(4) step have "m \<in> set (platform_trace ext qs pl' ! i')" by simp
    with Cons.IH [OF inv' _ j' _ m' Cons.prems(6)] Cons.prems(2) Suc j show ?thesis by simp
  qed
qed simp

definition empty_platform :: platform where
  "empty_platform = \<lparr>guardian_plane = empty_guardian,
     tool_plane = \<lparr>mcp_registry = empty_registry, mcp_calls = [], mcp_attempts = [], mcp_results = [], mcp_outbox = []\<rparr>\<rparr>"

lemma empty_platform_inv: "platform_inv empty_platform"
  by (simp add: empty_platform_def platform_inv_def empty_guardian_inv)

end
