(* ===== verification/BrokerClaims.thy ===== *)
theory BrokerClaims
  imports BrokerProperties
begin

text \<open>
  What the broker guarantees: every message of a protected tool rests on an authorization
  consumed for exactly that call, an authorization stands behind one call only, a tool with
  side effects is sent at most one message, nothing is sent when Guardian cannot
  authorize, and the signed scope of a message is what the receiving bank accepts.
\<close>

section \<open>Messages rest on authorizations\<close>

lemma authorized_row:
  assumes "authorized_call g g' call" "guardian_inv g'"
  shows "\<exists>a d. a \<in> set (authorizations g') \<and> d \<in> set (decisions g') \<and> tc_authorization_id call = Some (au_id a) \<and>
    au_status a = ''CONSUMED'' \<and> \<not> spent g (au_id a) \<and> au_tool_call_id a = tc_id call \<and> au_request_hash a = tc_request_hash call \<and>
    gd_id d = au_decision_id a \<and> gd_tool_call_id d = tc_id call \<and> gd_request_hash d = tc_request_hash call \<and> granted g' d"
proof -
  from assms(1) obtain a where a: "a \<in> set (authorizations g')" "tc_authorization_id call = Some (au_id a)" "au_status a = ''CONSUMED''"
    "\<not> spent g (au_id a)" "au_tool_call_id a = tc_id call" "au_request_hash a = tc_request_hash call"
    by (auto simp: authorized_call_def freshly_consumed_def)
  with assms(2) have "authorization_ok g' a" by (simp add: guardian_inv_def guardian_good_def)
  then obtain d where "d \<in> set (decisions g')" "gd_id d = au_decision_id a" "gd_tool_call_id d = au_tool_call_id a"
    "gd_request_hash d = au_request_hash a" "granted g' d" by (auto simp: authorization_ok_def)
  with a show ?thesis by metis
qed

lemma new_call_fields [simp]:
  "tc_id (new_call i request row) = i" "tc_request_hash (new_call i request row) = submit_hash request row"
  by (cases row; simp add: new_call_def Let_def)+

text \<open>
  C1. No protected tool is called without authorization: a message that \<open>execute\<close> sends for a
  protected tool names an authorization that Guardian holds as consumed, that was not
  consumed before this request, that is bound to this call and to the hash of this very
  request, and whose decision was allowed by policy or approved by a human.
\<close>

theorem broker_message_authorized:
  assumes "platform_inv pl" "execute jwt ie env request pl = (sent, pl', x)" "m \<in> set sent"
    and "resolve request (mcp_registry (tool_plane pl)) = Inr row" "row_protected row"
  shows "\<exists>a d. a \<in> set (authorizations (guardian_plane pl')) \<and> d \<in> set (decisions (guardian_plane pl')) \<and>
    message_authorization m = Some (au_id a) \<and> au_status a = ''CONSUMED'' \<and> \<not> spent (guardian_plane pl) (au_id a) \<and>
    au_tool_call_id a = benv_uuid env 0 \<and> au_request_hash a = submit_hash request row \<and>
    gd_id d = au_decision_id a \<and> granted (guardian_plane pl') d"
proof -
  from assms(1) have inv: "guardian_inv (guardian_plane pl)" by (simp add: platform_inv_def)
  note sound = execute_sound [OF assms(2) inv]
  from assms(3) have "sent \<noteq> []" by auto
  with sound obtain row' call d aid where prep: "prepare ie request (tool_plane pl) = Inr (row', None)"
    and call: "call = (new_call (benv_uuid env 0) request row')\<lparr>tc_guardian_decision_id := d, tc_authorization_id := aid\<rparr>"
    and car: "\<forall>m\<in>set sent. carries env call row' m \<and> rm_arguments m = normalized (ti_arguments (ts_intent request))"
    and auth: "if row_protected row' then authorized_call (guardian_plane pl) (guardian_plane pl') call else aid = None" by blast
  from prep assms(4) have row: "row' = row" by (auto simp: prepare_def sum_bind_Inr)
  with auth assms(5) have auth: "authorized_call (guardian_plane pl) (guardian_plane pl') call" by simp
  have inv': "guardian_inv (guardian_plane pl')" using sound by (simp add: evolves_def)
  have "message_authorization m = tc_authorization_id call" using car assms(3) carries_authorization by blast
  with authorized_row [OF auth inv'] show ?thesis by (auto simp: call row)
qed

text \<open>
  C15. A call is resumed only with its approval: a message that \<open>resume\<close> sends belongs to a
  stored call of the tenant that was waiting for approval, carries the arguments stored
  then, and names an authorization consumed now for that call and its stored hash, whose
  decision was allowed by policy or approved by a human.
\<close>

theorem broker_resume_authorized:
  assumes "platform_inv pl" "resume jwt env request pl = (sent, pl', x)" "m \<in> set sent"
  shows "\<exists>call a d. call \<in> set (mcp_calls (tool_plane pl)) \<and> tc_id call = ru_call_id request \<and>
    tc_tenant_id call = ru_tenant_id request \<and> tc_status call = ''WAITING_APPROVAL'' \<and>
    rm_arguments m = tc_normalized_arguments call \<and>
    a \<in> set (authorizations (guardian_plane pl')) \<and> d \<in> set (decisions (guardian_plane pl')) \<and>
    message_authorization m = Some (au_id a) \<and> au_status a = ''CONSUMED'' \<and> \<not> spent (guardian_plane pl) (au_id a) \<and>
    au_tool_call_id a = tc_id call \<and> au_request_hash a = tc_request_hash call \<and>
    gd_id d = au_decision_id a \<and> granted (guardian_plane pl') d"
proof -
  from assms(1) have inv: "guardian_inv (guardian_plane pl)" by (simp add: platform_inv_def)
  note sound = resume_sound [OF assms(2) inv]
  from assms(3) have "sent \<noteq> []" by auto
  with sound obtain old row call d aid where old: "old \<in> set (mcp_calls (tool_plane pl))" "tc_id old = ru_call_id request"
    "tc_tenant_id old = ru_tenant_id request" "tc_status old = ''WAITING_APPROVAL''"
    and call: "call = old\<lparr>tc_guardian_decision_id := d, tc_authorization_id := aid, tc_correlation_id := ru_correlation_id request\<rparr>"
    and car: "\<forall>m\<in>set sent. carries env call row m \<and> rm_arguments m = tc_normalized_arguments old"
    and auth: "authorized_call (guardian_plane pl) (guardian_plane pl') call" by blast
  have inv': "guardian_inv (guardian_plane pl')" using sound by (simp add: evolves_def)
  have "message_authorization m = tc_authorization_id call" using car assms(3) carries_authorization by blast
  moreover from authorized_row [OF auth inv'] obtain a d where "a \<in> set (authorizations (guardian_plane pl'))"
    "d \<in> set (decisions (guardian_plane pl'))" "tc_authorization_id call = Some (au_id a)" "au_status a = ''CONSUMED''"
    "\<not> spent (guardian_plane pl) (au_id a)" "au_tool_call_id a = tc_id call" "au_request_hash a = tc_request_hash call"
    "gd_id d = au_decision_id a" "granted (guardian_plane pl') d" by blast
  moreover have "rm_arguments m = tc_normalized_arguments old" using car assms(3) by blast
  moreover have "tc_id call = tc_id old" "tc_request_hash call = tc_request_hash old" by (simp_all add: call)
  ultimately show ?thesis using old by metis
qed

text \<open>
  C4. An authorization stands behind one call only: whatever broker, Guardian and registry
  requests the platform serves from its empty state, in whatever order, the messages of two
  different requests never name the same authorization.
\<close>

theorem platform_authorization_once:
  "sorted_wrt (\<lambda>sent sent'. set (List.map_filter message_authorization sent) \<inter> set (List.map_filter message_authorization sent') = {})
     (platform_trace ext qs empty_platform)"
  unfolding sorted_wrt_iff_nth_less
proof (intro allI impI)
  fix i j
  let ?tr = "platform_trace ext qs empty_platform"
  assume "i < j" "j < length ?tr"
  from trace_distinct [OF empty_platform_inv this]
  show "set (List.map_filter message_authorization (?tr ! i)) \<inter> set (List.map_filter message_authorization (?tr ! j)) = {}"
    by (fastforce simp: List.map_filter_def)
qed

section \<open>How often and where to\<close>

text \<open>
  C13. The broker makes at most one call for a tool with side effects and at most one more
  than the retries of the server otherwise. Each call goes to the endpoint of the resolved
  server, whose host is on the server's allowlist. The HTTP client follows redirects, at
  most twenty for a call, and the allowlist is not asked again: any other message repeats
  the call, with the same tool and arguments, at the location that the answer to an earlier
  message has named.
\<close>

theorem broker_messages_bounded:
  assumes "platform_inv pl" "execute jwt ie env request pl = (sent, pl', x)"
    and "resolve request (mcp_registry (tool_plane pl)) = Inr (tool, version, policy, server)"
  shows "let calls = (if tv_side_effects version then 1 else Suc (nat (ms_max_retries server))) in
    length (filter (\<lambda>m. rm_redirects m = 0) sent) \<le> calls \<and> length sent \<le> 21 * calls \<and>
    list_all (\<lambda>m. rm_tool m = mt_original_name tool \<and> rm_arguments m = normalized (ti_arguments (ts_intent request)) \<and>
      (if rm_redirects m = 0
       then rm_endpoint m = ms_endpoint server \<and>
         (\<exists>host. url_hostname (rm_endpoint m) = Inr host \<and> host_key host \<noteq> [] \<and>
           host_key host \<in> host_key ` set (ms_allowed_egress_hosts server))
       else \<exists>k m' same. m' \<in> set sent \<and> benv_remote env k m' = RemoteRedirect (rm_endpoint m) same \<and>
         rm_redirects m = Suc (rm_redirects m'))) sent"
proof (cases "sent = []")
  case False
  let ?calls = "if tv_side_effects version then 1 else Suc (nat (ms_max_retries server))"
  from assms(1) have inv: "guardian_inv (guardian_plane pl)" by (simp add: platform_inv_def)
  from execute_sound [OF assms(2) inv] False obtain row call where prep: "prepare ie request (tool_plane pl) = Inr (row, None)"
    and within: "sent_within (benv_remote env) (Suc (retries_of row)) sent"
    and car: "\<forall>m\<in>set sent. carries env call row m \<and> rm_arguments m = normalized (ti_arguments (ts_intent request))" by blast
  from prep assms(3) have row: "row = (tool, version, policy, server)" by (auto simp: prepare_def sum_bind_Inr)
  have calls: "Suc (retries_of row) = ?calls" by (simp add: row retries_of_def remote_config_def)
  have "length (filter (\<lambda>m. rm_redirects m = 0) sent) \<le> ?calls" "length sent \<le> 21 * ?calls"
    using within unfolding calls by (simp_all add: sent_within_def calls_in_def max_redirects_def mult.commute)
  moreover have "carries env call row m \<and> rm_arguments m = normalized (ti_arguments (ts_intent request)) \<and>
      (rm_redirects m = 0 \<or> (\<exists>k. asked_by sent (benv_remote env k) m))" if "m \<in> set sent" for m
    using that car within by (auto simp: sent_within_def)
  ultimately show ?thesis
    by (fastforce simp: list_all_iff Let_def carries_def row validate_egress_Inr remote_config_def asked_by_def)
qed simp

section \<open>Failing closed\<close>

text \<open>
  C12. The broker fails closed: when the evaluation of a protected call cannot be obtained from
  Guardian, nothing is sent and no attempt is recorded. An error answer of Guardian ends
  the call as blocked with GUARDIAN_UNAVAILABLE (or the request as a whole, if its rows
  conflict); a transport error ends the request and leaves the broker's tables unchanged.
\<close>

theorem broker_fails_closed:
  assumes ex: "execute jwt ie env request pl = (sent, pl', x)"
    and prep: "prepare ie request (tool_plane pl) = Inr ((tool, version, policy, server), None)"
    and prot: "protected_tool version policy" "policy_snapshot version policy = Inr snapshot"
    and fails: "client_evaluate jwt env 0 \<lparr>ge_request = submitted_request (benv_uuid env 0) request (tool, version, policy, server),
      ge_policy = snapshot\<rparr> (guardian_plane pl) = (gdb, Inl e)"
  shows "sent = [] \<and> mcp_attempts (tool_plane pl') = mcp_attempts (tool_plane pl) \<and>
    (case e of
       GuardianClientError _ \<Rightarrow> x = Inl BrokerIntegrityError \<and> tool_plane pl' = tool_plane pl \<or>
         (\<exists>s. x = Inr s \<and> sf_status s = ''BLOCKED'' \<and> sf_error_code s = Some ''GUARDIAN_UNAVAILABLE'')
     | ClientPyError ex \<Rightarrow> (x = Inl (BrokerPyError ex) \<or> x = Inl BrokerIntegrityError) \<and> tool_plane pl' = tool_plane pl)"
proof -
  let ?row = "(tool, version, policy, server)"
  let ?call = "new_call (benv_uuid env 0) request ?row"
  let ?db1 = "(tool_plane pl)\<lparr>mcp_calls := mcp_calls (tool_plane pl) @ [?call]\<rparr>"
  show ?thesis
  proof (cases "mcp_constraints ?db1")
    case False
    with ex prep have "sent = []" "pl' = pl" "x = Inl BrokerIntegrityError" by (auto simp: execute_def Let_def)
    then show ?thesis by (cases e) simp_all
  next
    case con: True
    show ?thesis
    proof (cases e)
      case (GuardianClientError msg)
      then have "protect jwt env (submitted_request (benv_uuid env 0) request ?row) version policy ?call (guardian_plane pl) =
          (gdb, blocked_call env ?call ''GUARDIAN_UNAVAILABLE'' ''Guardian could not authorize this protected tool.''
             [''fail_closed'', ''protected_tool''])"
        using prot fails by (simp add: protect_def)
      with ex prep con GuardianClientError show ?thesis
        by (auto simp: execute_def Let_def blocked_call_def safe_result_def projection_ok_def store_result_def finish_def
            put_call_def split: if_splits)
    next
      case (ClientPyError err)
      then have "protect jwt env (submitted_request (benv_uuid env 0) request ?row) version policy ?call (guardian_plane pl) =
          (gdb, Inl (BrokerPyError err))"
        using prot fails by (simp add: protect_def)
      with ex prep con ClientPyError show ?thesis by (auto simp: execute_def Let_def finish_def)
    qed
  qed
qed

section \<open>From the broker to the bank\<close>

definition message_decision :: "remote_message \<Rightarrow> string option" where
  "message_decision m =
     (case dict_get (rm_meta m) ''ai.xyena/runtime'' of
        JObj envelope \<Rightarrow> (case dict_get envelope ''guardian_decision_id'' of JStr s \<Rightarrow> Some s | _ \<Rightarrow> None)
      | _ \<Rightarrow> None)"

lemma carries_decision:
  assumes "carries env call row m"
  shows "message_decision m = tc_guardian_decision_id call"
proof -
  have "dict_get (rm_meta m) ''ai.xyena/runtime'' = JObj (runtime_envelope call)"
    using assms runtime_meta_envelope by (auto simp: carries_def)
  then show ?thesis by (simp add: message_decision_def runtime_envelope_def JOpt_def split: option.split)
qed

lemma envelope_fields: "has_fields (guarded_scope_fields @ [''authorization_consumed'']) (runtime_envelope call)"
  by (simp add: has_fields_def guarded_scope_fields_def scope_fields_def runtime_envelope_def)

lemma bank_accepts:
  assumes "signed_runtime_meta (Some secret) (runtime_envelope call) = Inr meta" "py_strip (tc_purpose call) \<noteq> []"
    and "tc_guardian_decision_id call = Some did" "tc_authorization_id call = Some aid" "did \<noteq> []" "aid \<noteq> []"
  shows "bank_verify_runtime_scope secret meta (tc_canonical_name call) = Inr (make_guarded_scope (runtime_envelope call))"
  using signed_meta_verified [OF assms(1)] assms(2-) envelope_fields [of call]
  by (simp add: bank_verify_runtime_scope_def runtime_envelope_def JOpt_def)

lemma bank_rejects:
  assumes "signed_runtime_meta (Some secret) (runtime_envelope call) = Inr meta" "tc_authorization_id call = None"
  shows "bank_verify_runtime_scope secret meta tool \<noteq> Inr scope"
  using signed_meta_verified [OF assms(1)] assms(2)
  by (simp add: bank_verify_runtime_scope_def runtime_envelope_def JOpt_def truthy_def)

lemma envelope_scope:
  "make_guarded_scope (runtime_envelope call) = scope \<Longrightarrow>
     sc_tenant_id scope = tc_tenant_id call \<and> sc_user_id scope = tc_user_id call \<and> sc_call_id scope = tc_id call \<and>
     sc_purpose scope = tc_purpose call \<and> sc_request_hash scope = tc_request_hash call \<and>
     (tc_authorization_id call = Some aid \<longrightarrow> sc_authorization_id scope = aid)"
  by (auto simp: make_guarded_scope_def make_scope_def runtime_envelope_def runtime_scope.defs guarded_scope.defs JOpt_def)

text \<open>
  C11. The scope of a message survives the journey to the bank: when the bank shares the secret
  the broker signed with, it accepts the signed scope of a message for the called tool if and
  only if the tool is protected, and then it sees the tenant, user, call, purpose and
  request hash of the call and an authorization that Guardian holds as consumed for it.
  A plain read that never needs approval carries no authorization, and the bank refuses it.
\<close>

theorem broker_scope_accepted_by_bank:
  assumes "platform_inv pl" "execute jwt ie env request pl = (sent, pl', x)" "m \<in> set sent"
    and "resolve request (mcp_registry (tool_plane pl)) = Inr (tool, version, policy, server)"
    and "resolve_secret (benv_getenv env) (ms_secret_ref server) = Inr (Some secret)"
    and "py_strip (ti_purpose (ts_intent request)) \<noteq> []"
    and "message_authorization m \<noteq> Some []" "message_decision m \<noteq> Some []"
  shows "if protected_tool version policy
    then \<exists>scope a. bank_verify_runtime_scope secret (rm_meta m) (mt_canonical_name tool) = Inr scope \<and>
      sc_tenant_id scope = rc_tenant_id (ts_context request) \<and> sc_user_id scope = rc_user_id (ts_context request) \<and>
      sc_call_id scope = benv_uuid env 0 \<and> sc_purpose scope = ti_purpose (ts_intent request) \<and>
      sc_request_hash scope = submit_hash request (tool, version, policy, server) \<and>
      a \<in> set (authorizations (guardian_plane pl')) \<and> au_id a = sc_authorization_id scope \<and> au_status a = ''CONSUMED'' \<and>
      au_tool_call_id a = sc_call_id scope \<and> au_request_hash a = sc_request_hash scope
    else \<exists>e. bank_verify_runtime_scope secret (rm_meta m) (mt_canonical_name tool) = Inl e"
proof -
  let ?row = "(tool, version, policy, server)"
  from assms(1) have inv: "guardian_inv (guardian_plane pl)" by (simp add: platform_inv_def)
  note sound = execute_sound [OF assms(2) inv]
  from assms(3) have "sent \<noteq> []" by auto
  with sound obtain row call d aid where prep: "prepare ie request (tool_plane pl) = Inr (row, None)"
    and call: "call = (new_call (benv_uuid env 0) request row)\<lparr>tc_guardian_decision_id := d, tc_authorization_id := aid\<rparr>"
    and car: "\<forall>m\<in>set sent. carries env call row m \<and> rm_arguments m = normalized (ti_arguments (ts_intent request))"
    and auth: "if row_protected row then authorized_call (guardian_plane pl) (guardian_plane pl') call else aid = None" by blast
  from prep assms(4) have row: "row = ?row" by (auto simp: prepare_def sum_bind_Inr)
  have m: "carries env call ?row m" using car assms(3) row by blast
  then have "signed_runtime_meta (Some secret) (runtime_envelope call) = Inr (rm_meta m)"
    using assms(5) by (auto simp: carries_def runtime_meta_def remote_config_def split: sum.splits gateway_error.splits)
  note meta = this
  have cn: "tc_canonical_name call = mt_canonical_name tool" "tc_purpose call = ti_purpose (ts_intent request)"
    "tc_tenant_id call = rc_tenant_id (ts_context request)" "tc_user_id call = rc_user_id (ts_context request)"
    "tc_id call = benv_uuid env 0" "tc_request_hash call = submit_hash request ?row"
    by (simp_all add: call row new_call_def Let_def)
  show ?thesis
  proof (cases "protected_tool version policy")
    case True
    with auth row have auth: "authorized_call (guardian_plane pl) (guardian_plane pl') call" by (simp add: row_protected_def)
    have inv': "guardian_inv (guardian_plane pl')" using sound by (simp add: evolves_def)
    from authorized_row [OF auth inv'] obtain a where a: "a \<in> set (authorizations (guardian_plane pl'))"
      "tc_authorization_id call = Some (au_id a)" "au_status a = ''CONSUMED''" "au_tool_call_id a = tc_id call"
      "au_request_hash a = tc_request_hash call" by blast
    from auth obtain did where did: "tc_guardian_decision_id call = Some did" by (auto simp: authorized_call_def)
    have ne: "did \<noteq> []" "au_id a \<noteq> []"
      using assms(7,8) carries_authorization [OF m] carries_decision [OF m] a(2) did by auto
    define scope where "scope = make_guarded_scope (runtime_envelope call)"
    have ok: "bank_verify_runtime_scope secret (rm_meta m) (mt_canonical_name tool) = Inr scope"
      using bank_accepts [OF meta _ did a(2) ne] assms(6) by (simp add: cn scope_def)
    note sc = envelope_scope [OF scope_def [symmetric], of "au_id a"]
    from True ok sc a show ?thesis by (auto simp: cn intro!: exI [of _ scope] exI [of _ a])
  next
    case False
    with auth row have "tc_authorization_id call = None" by (simp add: row_protected_def call)
    from False bank_rejects [OF meta this] show ?thesis
      by (cases "bank_verify_runtime_scope secret (rm_meta m) (mt_canonical_name tool)") auto
  qed
qed

end
