(* ===== verification/BrokerReplay.thy ===== *)
theory BrokerReplay
  imports BrokerProperties
begin

text \<open>
  The broker's own tables: calls keep their identity, results are only appended, and so a
  request that has been answered from a stored result is answered by the same result ever
  after.
\<close>

section \<open>What the tables keep\<close>

definition call_key :: "tool_call \<Rightarrow> string \<times> string \<times> string \<times> string option \<times> string" where
  "call_key c = (tc_id c, tc_tenant_id c, tc_tool_version_id c, tc_idempotency_key c, tc_request_hash c)"

definition mcp_inv :: "mcp_db \<Rightarrow> bool" where
  "mcp_inv db \<longleftrightarrow> mcp_constraints db \<and> (\<forall>r\<in>set (mcp_results db). \<exists>c\<in>set (mcp_calls db). tc_id c = tr_call_id r)"

definition mcp_later :: "mcp_db \<Rightarrow> mcp_db \<Rightarrow> bool" where
  "mcp_later db db' \<longleftrightarrow> (\<exists>ks. map call_key (mcp_calls db') = map call_key (mcp_calls db) @ ks) \<and>
     (\<exists>rs. mcp_results db' = mcp_results db @ rs)"

lemma mcp_later_refl: "mcp_later db db"
  by (simp add: mcp_later_def)

lemma mcp_later_trans: "mcp_later x y \<Longrightarrow> mcp_later y z \<Longrightarrow> mcp_later x z"
  by (auto simp: mcp_later_def)

lemma scalar_by_key: "map_option key (scalar (\<lambda>c. P (key c)) rows) = scalar P (map key rows)"
  by (induction rows) auto

lemma put_call_keys:
  assumes "mcp_constraints db" "c \<in> set (mcp_calls db)" "call_key c' = call_key c"
  shows "map call_key (mcp_calls (put_call c' db)) = map call_key (mcp_calls db)"
proof -
  have "r = c" if "r \<in> set (mcp_calls db)" "tc_id r = tc_id c'" for r
  proof -
    have "tc_id r = tc_id c" using that(2) assms(3) by (simp add: call_key_def)
    then show ?thesis using assms(1,2) that(1) unfolding mcp_constraints_def comp_def by (metis unique_byD)
  qed
  then show ?thesis using assms(3) by (auto simp: put_call_def update_rows_def)
qed

lemma key_ids: "map call_key xs = map call_key ys \<Longrightarrow> tc_id ` set xs = tc_id ` set ys"
proof -
  assume eq: "map call_key xs = map call_key ys"
  have ids: "tc_id ` set zs = fst ` set (map call_key zs)" for zs by (force simp: call_key_def)
  show ?thesis unfolding ids eq ..
qed

text \<open>The rows that a finished call writes.\<close>

lemma settle_key:
  "settle env call row outcome = (call', attempt, result) \<Longrightarrow>
     call_key call' = call_key call \<and> tr_call_id result = tc_id call"
  by (auto simp: settle_def Let_def call_key_def store_result_def split: sum.splits)

lemma broker_call_rows:
  assumes "broker_call env call arguments row gdb db = (s, Inr ((g, d), v))"
  shows "\<exists>call' result. call_key call' = call_key call \<and> mcp_calls d = mcp_calls (put_call call' db) \<and>
    mcp_results d = mcp_results db @ [result] \<and> tr_call_id result = tc_id call \<and> safe_result result (tc_id call) = Inr v"
proof -
  obtain tool version policy server where row: "row = (tool, version, policy, server)" by (cases row) auto
  obtain s' r where s: "raw_call env call arguments row = (s', r)" by fastforce
  obtain call' attempt result where st: "settle env call row (checked_content policy r) = (call', attempt, result)"
    by (cases "settle env call row (checked_content policy r)") auto
  note k = settle_key [OF st]
  then have "tc_id call' = tc_id call" by (simp add: call_key_def)
  with assms s st row k show ?thesis
    by (intro exI [of _ call'] exI [of _ result]) (auto simp: broker_call_def Let_def sum_bind_Inr put_call_def)
qed

lemma protect_halted:
  assumes "protect jwt env q version policy call gdb = (gdb', Inr (Halted c res s))"
  shows "call_key c = call_key call \<and> (case res of None \<Rightarrow> sf_result_ref s = None
    | Some r \<Rightarrow> tr_call_id r = tc_id call \<and> safe_result r (tc_id call) = Inr s)"
proof -
  have blocked: "call_key c = call_key k \<and> (case res of None \<Rightarrow> sf_result_ref s = None
      | Some r \<Rightarrow> tr_call_id r = tc_id k \<and> safe_result r (tc_id k) = Inr s)"
    if "blocked_call env k code msg flags = Inr (Halted c res s)" for k code msg flags
    using that by (auto simp: blocked_call_def Let_def sum_bind_Inr call_key_def store_result_def)
  show ?thesis
  proof (cases "policy_snapshot version policy")
    case (Inl e)
    with assms show ?thesis by (auto simp: protect_def split: if_splits)
  next
    case (Inr snapshot)
    obtain g1 y where y: "client_evaluate jwt env 0 \<lparr>ge_request = q, ge_policy = snapshot\<rparr> gdb = (g1, y)" by fastforce
    have prot: "protected_tool version policy" using assms by (auto simp: protect_def split: if_splits)
    show ?thesis
    proof (cases y)
      case (Inl e)
      with assms Inr y prot show ?thesis by (cases e) (auto simp: protect_def dest: blocked)
    next
      case d: (Inr decision)
      let ?k = "call\<lparr>tc_guardian_decision_id := Some (gr_decision_id decision)\<rparr>"
      have k: "call_key ?k = call_key call" "tc_id ?k = tc_id call" by (simp_all add: call_key_def)
      have "approval_required ?k decision = Halted c res s \<or>
          (\<exists>code msg flags. blocked_call env ?k code msg flags = Inr (Halted c res s))"
      proof (cases "gr_outcome decision = ALLOW")
        case True
        obtain g2 z where "client_consume jwt env 1 (tc_tenant_id ?k) \<lparr>cs_token = the (authorization_of decision), cs_call_id = tc_id ?k,
            cs_request_hash = tc_request_hash ?k, cs_correlation_id = tc_correlation_id ?k\<rparr> g1 = (g2, z)" by fastforce
        with assms Inr y prot d True show ?thesis
          by (cases "authorization_of decision"; cases z) (simp_all add: protect_def Let_def)
      next
        case False
        then have "gr_outcome decision \<in> {ESCALATE, VERIFY, BLOCK}" by (cases "gr_outcome decision") simp_all
        with assms Inr y prot d show ?thesis by (elim insertE) (auto simp: protect_def Let_def)
      qed
      then show ?thesis
      proof (elim disjE exE)
        assume "approval_required ?k decision = Halted c res s"
        then show ?thesis by (auto simp: approval_required_def call_key_def)
      next
        fix code msg flags
        assume "blocked_call env ?k code msg flags = Inr (Halted c res s)"
        from blocked [OF this] show ?thesis unfolding k .
      qed
    qed
  qed
qed

section \<open>Every request\<close>

lemma finish_tables:
  assumes "finish pl gdb r = (sent, pl', x)"
  obtains (failed) e where "x = Inl e" "tool_plane pl' = tool_plane pl"
  | (committed) g d s where "snd r = Inr ((g, d), s)" "x = Inr s" "tool_plane pl' = d" "mcp_constraints d"
proof (cases "snd r")
  case (Inl e)
  with assms have "x = Inl e" "tool_plane pl' = tool_plane pl" by (auto simp: finish_def split: prod.splits)
  then show thesis by (rule failed)
next
  case (Inr z)
  obtain g d s where z: "z = ((g, d), s)" by (cases z) auto
  show thesis
  proof (cases "mcp_constraints d \<and> audit_constraints (audit_events g)")
    case True
    with assms Inr z have "x = Inr s" "tool_plane pl' = d" by (auto simp: finish_def split: prod.splits)
    with True Inr z show thesis by (intro committed) auto
  next
    case False
    with assms Inr z have "x = Inl BrokerIntegrityError" "tool_plane pl' = tool_plane pl" by (auto simp: finish_def split: prod.splits)
    then show thesis by (rule failed)
  qed
qed

text \<open>
  An execution either leaves the tables alone or appends its call, with the identity it was
  created with, and at most one result, which is the one it answers with.
\<close>

lemma execute_tables:
  assumes ex: "execute jwt ie env request pl = (sent, pl', x)"
    and inv: "guardian_inv (guardian_plane pl)" "mcp_inv (tool_plane pl)"
  obtains (same) "tool_plane pl' = tool_plane pl" "(\<exists>e. x = Inl e) \<or> (\<exists>row s. prepare ie request (tool_plane pl) = Inr (row, Some s))"
  | (stored) row s rs where "prepare ie request (tool_plane pl) = Inr (row, None)" "x = Inr s"
      "mcp_constraints (tool_plane pl')"
      "map call_key (mcp_calls (tool_plane pl')) = map call_key (mcp_calls (tool_plane pl)) @ [call_key (new_call (benv_uuid env 0) request row)]"
      "mcp_results (tool_plane pl') = mcp_results (tool_plane pl) @ rs" "rs = [] \<Longrightarrow> sf_result_ref s = None"
      "rs \<noteq> [] \<Longrightarrow> \<exists>r. rs = [r] \<and> tr_call_id r = benv_uuid env 0 \<and> safe_result r (benv_uuid env 0) = Inr s"
proof (cases "prepare ie request (tool_plane pl)")
  case (Inl e)
  with ex show thesis by (intro same) (auto simp: execute_def)
next
  case prep: (Inr p)
  obtain row o' where p: "p = (row, o')" by (cases p)
  obtain tool version policy server where row: "row = (tool, version, policy, server)" by (cases row) auto
  define call where "call = new_call (benv_uuid env 0) request row"
  define db1 where "db1 = (tool_plane pl)\<lparr>mcp_calls := mcp_calls (tool_plane pl) @ [call]\<rparr>"
  show thesis
  proof (cases "o' = None \<and> mcp_constraints db1")
    case False
    with ex prep p row show thesis
      by (intro same) (auto simp: execute_def Let_def db1_def call_def split: option.splits)
  next
    case True
    then have con: "mcp_constraints db1" and prep: "prepare ie request (tool_plane pl) = Inr (row, None)" using prep p by simp_all
    have mem: "call \<in> set (mcp_calls db1)" by (simp add: db1_def)
    have id: "tc_id call = benv_uuid env 0" by (cases row) (simp add: call_def new_call_def Let_def)
    have keys: "map call_key (mcp_calls (put_call c db1)) = map call_key (mcp_calls (tool_plane pl)) @ [call_key call]"
      if "call_key c = call_key call" for c
      using put_call_keys [OF con mem that] by (simp add: db1_def)
    obtain gdb r where pr: "protect jwt env (submitted_request (benv_uuid env 0) request row) version policy call (guardian_plane pl) = (gdb, r)"
      by fastforce
    show thesis
    proof (cases r)
      case (Inl e)
      with ex prep row con pr have "finish pl gdb ([], Inl e) = (sent, pl', x)"
        by (simp add: execute_def Let_def call_def db1_def)
      then show thesis by (cases rule: finish_tables) (auto intro: same)
    next
      case (Inr gate)
      show thesis
      proof (cases gate)
        case (Authorized c)
        have key: "call_key c = call_key call"
          using protect_sound [OF pr inv(1)] Inr Authorized by (auto simp: call_key_def split: if_splits)
        then have cid: "tc_id c = tc_id call" by (simp add: call_key_def)
        from ex prep row con pr Inr Authorized have
          "finish pl gdb (broker_call env c (normalized (ti_arguments (ts_intent request))) row gdb db1) = (sent, pl', x)"
          by (simp add: execute_def Let_def call_def db1_def)
        then show thesis
        proof (cases rule: finish_tables)
          case (committed g d s)
          obtain m where "broker_call env c (normalized (ti_arguments (ts_intent request))) row gdb db1 = (m, Inr ((g, d), s))"
            using committed(1) by (metis prod.collapse)
          from broker_call_rows [OF this] obtain c' result where c': "call_key c' = call_key c"
            "mcp_calls d = mcp_calls (put_call c' db1)" "mcp_results d = mcp_results db1 @ [result]"
            "tr_call_id result = tc_id c" "safe_result result (tc_id c) = Inr s" by blast
          show thesis
            by (rule that(2) [OF prep committed(2), of "[result]"])
              (use committed c' keys [of c'] key cid id in \<open>simp_all add: call_def db1_def\<close>)
        qed (auto intro: same)
      next
        case (Halted c res s)
        note h = protect_halted [OF pr [unfolded Inr Halted]]
        let ?d = "(put_call c db1)\<lparr>mcp_results := mcp_results db1 @ (case res of None \<Rightarrow> [] | Some r \<Rightarrow> [r])\<rparr>"
        from ex prep row con pr Inr Halted have "finish pl gdb ([], Inr ((gdb, ?d), s)) = (sent, pl', x)"
          by (simp add: execute_def Let_def call_def db1_def)
        then show thesis
        proof (cases rule: finish_tables)
          case (committed g d s')
          then have d: "d = ?d" "s' = s" by simp_all
          show thesis
            by (rule that(2) [OF prep committed(2), of "case res of None \<Rightarrow> [] | Some r \<Rightarrow> [r]"])
              (use committed d h keys [of c] id in \<open>auto simp: call_def db1_def split: option.splits\<close>)
        qed (auto intro: same)
      qed
    qed
  qed
qed

lemma resume_tables:
  assumes re: "resume jwt env request pl = (sent, pl', x)"
    and inv: "guardian_inv (guardian_plane pl)" "mcp_inv (tool_plane pl)"
  obtains (same) "tool_plane pl' = tool_plane pl"
  | (stored) old r where "old \<in> set (mcp_calls (tool_plane pl))" "mcp_constraints (tool_plane pl')"
      "map call_key (mcp_calls (tool_plane pl')) = map call_key (mcp_calls (tool_plane pl))"
      "mcp_results (tool_plane pl') = mcp_results (tool_plane pl) @ [r]" "tr_call_id r = tc_id old"
proof (cases "\<exists>old row. scalar (\<lambda>c. tc_id c = ru_call_id request \<and> tc_tenant_id c = ru_tenant_id request) (mcp_calls (tool_plane pl)) = Some old \<and>
    tc_status old = ''WAITING_APPROVAL'' \<and> resumed_rows old (mcp_registry (tool_plane pl)) = Some row")
  case False
  then have "pl' = pl" using re by (auto simp: resume_def split: option.splits if_splits)
  then show thesis by (intro same) simp
next
  case True
  then obtain old row where old: "scalar (\<lambda>c. tc_id c = ru_call_id request \<and> tc_tenant_id c = ru_tenant_id request) (mcp_calls (tool_plane pl)) = Some old"
    and st: "tc_status old = ''WAITING_APPROVAL''" and row: "resumed_rows old (mcp_registry (tool_plane pl)) = Some row" by blast
  from scalar_Some [OF old] have mem: "old \<in> set (mcp_calls (tool_plane pl))" by simp
  obtain gdb r where p: "authorize_resumed jwt env request old (guardian_plane pl) = (gdb, r)" by fastforce
  show thesis
  proof (cases r)
    case (Inl e)
    with re old st row p have "finish pl gdb ([], Inl e) = (sent, pl', x)" by (simp add: resume_def)
    then show thesis by (cases rule: finish_tables) (auto intro: same)
  next
    case (Inr c)
    then have key: "call_key c = call_key old" using authorize_resumed_sound [OF p inv(1)] by (auto simp: call_key_def)
    then have cid: "tc_id c = tc_id old" by (simp add: call_key_def)
    from Inr re old st row p have "finish pl gdb (broker_call env c (tc_normalized_arguments c) row gdb (tool_plane pl)) = (sent, pl', x)"
      by (simp add: resume_def)
    then show thesis
    proof (cases rule: finish_tables)
      case (committed g d s)
      obtain m where "broker_call env c (tc_normalized_arguments c) row gdb (tool_plane pl) = (m, Inr ((g, d), s))"
        using committed(1) by (metis prod.collapse)
      from broker_call_rows [OF this] obtain c' result where c': "call_key c' = call_key c"
        "mcp_calls d = mcp_calls (put_call c' (tool_plane pl))" "mcp_results d = mcp_results (tool_plane pl) @ [result]"
        "tr_call_id result = tc_id c" by blast
      have "mcp_constraints (tool_plane pl)" using inv(2) by (simp add: mcp_inv_def)
      note keys = put_call_keys [OF this mem]
      show thesis
        by (rule stored [OF mem, of result]) (use committed c' keys [of c'] key cid in simp_all)
    qed (auto intro: same)
  qed
qed

definition broker_inv :: "platform \<Rightarrow> bool" where
  "broker_inv pl \<longleftrightarrow> platform_inv pl \<and> mcp_inv (tool_plane pl)"

definition broker_le :: "platform \<Rightarrow> platform \<Rightarrow> bool" where
  "broker_le pl pl' \<longleftrightarrow> mcp_later (tool_plane pl) (tool_plane pl')"

lemma mcp_inv_extend:
  assumes "mcp_inv db" "mcp_constraints db'" "map call_key (mcp_calls db') = map call_key (mcp_calls db) @ ks"
    and "mcp_results db' = mcp_results db @ rs" "\<And>r. r \<in> set rs \<Longrightarrow> tr_call_id r \<in> fst ` set (map call_key (mcp_calls db'))"
  shows "mcp_inv db' \<and> mcp_later db db'"
proof -
  have ids: "i \<in> fst ` set (map call_key zs) \<longleftrightarrow> (\<exists>c\<in>set zs. tc_id c = i)" for i zs by (force simp: call_key_def)
  have "\<exists>c\<in>set (mcp_calls db'). tc_id c = tr_call_id r" if "r \<in> set (mcp_results db')" for r
  proof (cases "r \<in> set rs")
    case True
    from assms(5) [OF this] show ?thesis unfolding ids .
  next
    case False
    with that assms(1,4) have "\<exists>c\<in>set (mcp_calls db). tc_id c = tr_call_id r" by (auto simp: mcp_inv_def)
    then have "tr_call_id r \<in> fst ` set (map call_key (mcp_calls db))" unfolding ids .
    then have "tr_call_id r \<in> fst ` set (map call_key (mcp_calls db'))" unfolding assms(3) set_append by blast
    then show ?thesis unfolding ids .
  qed
  with assms(2-4) show ?thesis by (auto simp: mcp_inv_def mcp_later_def)
qed

lemma broker_step:
  assumes "platform_step ext q pl = (pl', sent)" "broker_inv pl"
  shows "mcp_inv (tool_plane pl') \<and> mcp_later (tool_plane pl) (tool_plane pl')"
proof -
  from assms(2) have inv: "guardian_inv (guardian_plane pl)" "mcp_inv (tool_plane pl)" by (simp_all add: broker_inv_def platform_inv_def)
  then have unchanged: ?thesis if "tool_plane pl' = tool_plane pl" using that by (simp add: mcp_later_refl)
  show ?thesis
  proof (cases q)
    case (ExecuteCall env request)
    then obtain x where "execute (ext_jwt ext) (ext_iter_errors ext) env request pl = (sent, pl', x)"
      using assms(1) by (auto split: prod.splits)
    from this inv show ?thesis
    proof (cases rule: execute_tables)
      case same
      from unchanged [OF same(1)] show ?thesis .
    next
      case (stored row s rs)
      have "tr_call_id r \<in> fst ` set (map call_key (mcp_calls (tool_plane pl')))" if "r \<in> set rs" for r
      proof -
        from that have "rs \<noteq> []" by auto
        from stored(7) [OF this] that have "tr_call_id r = benv_uuid env 0" by auto
        moreover have "fst (call_key (new_call (benv_uuid env 0) request row)) = benv_uuid env 0"
          by (cases row) (simp add: call_key_def new_call_def Let_def)
        ultimately show ?thesis unfolding stored(4) by simp
      qed
      from mcp_inv_extend [OF inv(2) stored(3,4,5) this] show ?thesis .
    qed
  next
    case (ResumeCall env request)
    then obtain x where "resume (ext_jwt ext) env request pl = (sent, pl', x)"
      using assms(1) by (auto split: prod.splits)
    from this inv show ?thesis
    proof (cases rule: resume_tables)
      case same
      from unchanged [OF same(1)] show ?thesis .
    next
      case (stored old r)
      have "tr_call_id r' \<in> fst ` set (map call_key (mcp_calls (tool_plane pl')))" if "r' \<in> set [r]" for r'
        unfolding stored(3) using that stored(1,5) by (force simp: call_key_def)
      from mcp_inv_extend [OF inv(2) stored(2) _ stored(4) this, of "[]"] stored(3) show ?thesis by simp
    qed
  next
    case (GuardianCall env header route)
    with assms(1) have "tool_plane pl' = tool_plane pl" by auto
    then show ?thesis by (rule unchanged)
  next
    case (RegistryCall env request)
    with assms(1) have "mcp_calls (tool_plane pl') = mcp_calls (tool_plane pl)" "mcp_attempts (tool_plane pl') = mcp_attempts (tool_plane pl)"
      "mcp_results (tool_plane pl') = mcp_results (tool_plane pl)" "mcp_outbox (tool_plane pl') = mcp_outbox (tool_plane pl)"
      by (auto simp: Let_def)
    then show ?thesis using inv(2) by (simp add: mcp_inv_def mcp_constraints_def mcp_later_def)
  qed
qed

interpretation broker: monotone_service "platform_step ext" broker_inv broker_le
  for ext
proof
  fix q pl
  assume inv: "broker_inv pl"
  obtain pl' sent where st: "platform_step ext q pl = (pl', sent)" by fastforce
  from broker_step [OF this inv] platform.step_inv [of pl ext q] inv st
  show "broker_inv (fst (platform_step ext q pl))" "broker_le pl (fst (platform_step ext q pl))"
    by (simp_all add: broker_inv_def broker_le_def)
qed (auto simp: broker_le_def mcp_later_refl intro: mcp_later_trans)

lemma empty_broker_inv: "broker_inv empty_platform"
  using empty_platform_inv by (simp add: broker_inv_def empty_platform_def mcp_inv_def mcp_constraints_def)

section \<open>Replay\<close>

text \<open>
  C8. A completed call is replayed, not repeated: when a request with an idempotency key has
  been executed and answered with a stored result, then after any further requests to the
  platform the same request, as long as it resolves to the same tool, policy and server, is
  answered with the same result; it sends nothing and changes nothing.
\<close>

theorem broker_replay:
  assumes inv: "broker_inv pl"
    and first: "execute (ext_jwt ext) (ext_iter_errors ext) env request pl = (sent, pl1, Inr s)"
    and fresh: "prepare (ext_iter_errors ext) request (tool_plane pl) = Inr (row, None)"
    and stored: "sf_result_ref s \<noteq> None"
    and key: "ti_idempotency_key (ts_intent request) = Some k" "k \<noteq> []"
    and later: "pl2 = run (platform_step ext) qs pl1"
    and resolves: "resolve request (mcp_registry (tool_plane pl2)) = Inr row"
  shows "execute (ext_jwt ext) (ext_iter_errors ext) env' request pl2 = ([], pl2, Inr s)"
proof -
  obtain tool version policy server where row: "row = (tool, version, policy, server)" by (cases row) auto
  let ?P = "\<lambda>(i, t, v, ik, h). t = rc_tenant_id (ts_context request) \<and> v = tv_id version \<and> ik = Some k"
  have P: "(\<lambda>c. tc_tenant_id c = rc_tenant_id (ts_context request) \<and> tc_tool_version_id c = tv_id version \<and> tc_idempotency_key c = Some k)
      = (\<lambda>c. ?P (call_key c))" by (auto simp: call_key_def)
  let ?new = "call_key (new_call (benv_uuid env 0) request row)"
  have new: "?P ?new" "fst ?new = benv_uuid env 0" "snd (snd (snd (snd ?new))) = submit_hash request row"
    using key by (simp_all add: row call_key_def new_call_def Let_def)
  from inv have i: "guardian_inv (guardian_plane pl)" "mcp_inv (tool_plane pl)" by (simp_all add: broker_inv_def platform_inv_def)
  from fresh have acc: "validate_access request row = Inr ()" "validate_arguments (ext_iter_errors ext) (tv_input_schema version) (ti_arguments (ts_intent request)) = Inr ()"
    and none: "find_idempotent_result request row (tool_plane pl) = Inr None"
    by (auto simp: prepare_def sum_bind_Inr row)
  from none have absent: "scalar (\<lambda>c. ?P (call_key c)) (mcp_calls (tool_plane pl)) = None"
    using key unfolding P [symmetric] by (auto simp: find_idempotent_result_def row sum_bind_Inr split: option.splits if_splits)
  have "broker_inv pl1" using broker.step_inv [OF inv, of ext "ExecuteCall env request"] first by simp
  from broker.run_le [OF this, of ext qs] have le: "mcp_later (tool_plane pl1) (tool_plane pl2)"
    by (simp add: broker_le_def later)
  from first i show ?thesis
  proof (cases rule: execute_tables)
    case same
    with fresh show ?thesis by auto
  next
    case (stored row' s' rs)
    with fresh have row': "row' = row" and s': "s' = s" by simp_all
    from stored(6) \<open>sf_result_ref s \<noteq> None\<close> s' have "rs \<noteq> []" by auto
    from stored(7) [OF this] s' obtain r where r: "rs = [r]" "tr_call_id r = benv_uuid env 0" "safe_result r (benv_uuid env 0) = Inr s" by auto
    from le stored(4,5) obtain ks rs' where calls: "map call_key (mcp_calls (tool_plane pl2)) = map call_key (mcp_calls (tool_plane pl)) @ ?new # ks"
      and results: "mcp_results (tool_plane pl2) = mcp_results (tool_plane pl) @ r # rs'"
      by (auto simp: mcp_later_def r(1) row')
    have "scalar ?P (map call_key (mcp_calls (tool_plane pl))) = None"
      unfolding scalar_by_key [where key = call_key and P = ?P, symmetric] absent by simp
    then have "scalar ?P (map call_key (mcp_calls (tool_plane pl2))) = Some ?new" using new(1) by (simp add: calls scalar_append)
    then obtain c where c: "scalar (\<lambda>c. ?P (call_key c)) (mcp_calls (tool_plane pl2)) = Some c" "call_key c = ?new"
      unfolding scalar_by_key [where key = call_key and P = ?P, symmetric] by auto
    then have cf: "tc_id c = benv_uuid env 0" "tc_request_hash c = submit_hash request row"
      using new(2,3) by (simp_all add: call_key_def)
    have "tc_id d \<noteq> benv_uuid env 0" if "d \<in> set (mcp_calls (tool_plane pl))" for d
    proof -
      have "unique_by (Some \<circ> tc_id) (mcp_calls (tool_plane pl1))" using stored(3) by (simp add: mcp_constraints_def)
      moreover have "List.map_filter (Some \<circ> tc_id) zs = map fst (map call_key zs)" for zs
        by (induction zs) (simp_all add: call_key_def map_filter_simps)
      ultimately have "distinct (map fst (map call_key (mcp_calls (tool_plane pl)) @ [?new]))"
        unfolding unique_by_def using stored(4) row' by simp
      then show ?thesis using that new(2) by (force simp: call_key_def)
    qed
    then have "\<forall>x\<in>set (mcp_results (tool_plane pl)). tr_call_id x \<noteq> benv_uuid env 0"
      using i(2) by (force simp: mcp_inv_def)
    then have "scalar (\<lambda>x. tr_call_id x = benv_uuid env 0) (mcp_results (tool_plane pl2)) = Some r"
      by (simp add: results scalar_append scalar_None [THEN iffD2] r(2))
    then have "find_idempotent_result request row (tool_plane pl2) = Inr (Some s)"
      using key c(1) cf r(3) by (simp add: find_idempotent_result_def row P)
    then have "prepare (ext_iter_errors ext) request (tool_plane pl2) = Inr (row, Some s)"
      using acc resolves by (simp add: prepare_def row)
    then show ?thesis by (simp add: execute_def)
  qed
qed

end
