(* ===== verification/BrokerDemo.thy ===== *)
theory BrokerDemo
  imports BrokerClaims BrokerReplay GuardianDemo
begin

text \<open>
  A concrete platform: one active server with one mutating tool. A call is allowed by
  Guardian, its authorization is consumed and one message goes to the server; a call waiting
  for approval is resumed; a call is blocked when Guardian cannot be asked. They instantiate
  the properties of the broker whose statements have hypotheses.
\<close>

definition kdemo_server :: mcp_server where
  "kdemo_server = \<lparr>ms_id = ''srv'', ms_tenant_id = None, ms_label = ''bank'', ms_description = '''', ms_transport = ''STREAMABLE_HTTP'',
     ms_endpoint = ''https://bank.example/mcp'', ms_auth_type = ''BEARER'', ms_secret_ref = Some ''env://BANK'', ms_trust_tier = ''PLATFORM'',
     ms_status = ''ACTIVE'', ms_allowed_egress_hosts = [''bank.example''], ms_timeout_seconds = 30000, ms_max_retries = 2,
     ms_discovery_hash = None, ms_last_discovered_at = Some 0, ms_version = 1\<rparr>"

definition kdemo_tool :: mcp_tool where
  "kdemo_tool = \<lparr>mt_id = ''tool'', mt_server_id = ''srv'', mt_canonical_name = ''bank.pay'', mt_original_name = ''pay'',
     mt_description = None, mt_status = ''ACTIVE'', mt_version = 1\<rparr>"

definition kdemo_version :: mcp_tool_version where
  "kdemo_version = \<lparr>tv_id = ''tv'', tv_tool_id = ''tool'', tv_schema_hash = '''', tv_input_schema = [], tv_output_schema = [],
     tv_risk_class = ''MUTATE'', tv_side_effects = True, tv_idempotent = True, tv_parallel_allowed = False,
     tv_hosted_mcp_allowed = False, tv_status = ''ACTIVE'', tv_created_at = 0\<rparr>"

definition kdemo_policy :: mcp_tool_policy where
  "kdemo_policy = \<lparr>tp_id = ''tp'', tp_tool_version_id = ''tv'', tp_tenant_id = None, tp_required_roles = [], tp_required_purposes = [],
     tp_required_consents = [], tp_allowed_agents = [], tp_approval_mode = ''POLICY'', tp_timeout_seconds = 30000,
     tp_maximum_result_bytes = 1024, tp_status = ''ACTIVE'', tp_version = 1\<rparr>"

definition kdemo_row :: tool_row where
  "kdemo_row = (kdemo_tool, kdemo_version, kdemo_policy, kdemo_server)"

definition kdemo_platform :: "guardian_db \<Rightarrow> tool_call list \<Rightarrow> platform" where
  "kdemo_platform gdb calls = \<lparr>guardian_plane = gdb,
     tool_plane = \<lparr>mcp_registry = \<lparr>servers = [kdemo_server], server_versions = [], tools = [kdemo_tool],
         tool_versions = [kdemo_version], tool_policies = [kdemo_policy]\<rparr>,
       mcp_calls = calls, mcp_attempts = [], mcp_results = [], mcp_outbox = []\<rparr>\<rparr>"

definition kdemo_submit :: tool_call_submit where
  "kdemo_submit = \<lparr>ts_run_id = ''r'', ts_agent_version_id = None, ts_agent_name = ''agent'', ts_context = gdemo_context,
     ts_intent = \<lparr>ti_requested_name = ''bank.pay'', ti_arguments = [], ti_purpose = ''p'', ti_resource_refs = [],
       ti_idempotency_key = Some ''key''\<rparr>\<rparr>"

definition kdemo_hash :: string where
  "kdemo_hash = submit_hash kdemo_submit kdemo_row"

definition kdemo_claims :: dict where
  "kdemo_claims = authorization_claims gdemo_env ''u3'' ''u4'' ''t'' ''c'' ''u0'' kdemo_hash (exact_constraints kdemo_hash)"

definition kdemo_token :: string where
  "kdemo_token = dump (JObj kdemo_claims)"

definition kdemo_jwt :: jwt_library where
  "kdemo_jwt = \<lparr>jwt_encode = (\<lambda>claims key. dump (JObj claims)),
     jwt_decode = (\<lambda>now token key. if token = kdemo_token then Some kdemo_claims else None)\<rparr>"

definition kdemo_env :: broker_env where
  "kdemo_env = \<lparr>benv_now = 0, benv_uuid = (\<lambda>i. if i = 0 then ''c'' else if i = 1 then ''a'' else if i = 2 then ''res'' else ''ev''),
     benv_service_token = Some ''svc'', benv_getenv = (\<lambda>_. Some ''secret''),
     benv_remote = (\<lambda>_ _. RemoteReply False (Some (JObj [])) (JsonContent JNull)),
     benv_guardian = (\<lambda>_. gdemo_env), benv_link = (\<lambda>_. Delivered), benv_others = (\<lambda>_. [])\<rparr>"

abbreviation kdemo_validator :: iter_errors where
  "kdemo_validator \<equiv> \<lambda>_ _. Inr []"

lemmas kdemo_row_defs = kdemo_row_def kdemo_server_def kdemo_tool_def kdemo_version_def kdemo_policy_def

lemma kdemo_hash_length [simp]: "length kdemo_hash = 64"
  by (simp add: kdemo_hash_def submit_hash_def canonical_hash_def)

lemma kdemo_hash_nonempty [simp]: "kdemo_hash \<noteq> []"
  using kdemo_hash_length by fastforce

lemma kdemo_resolve: "resolve kdemo_submit (mcp_registry (tool_plane (kdemo_platform gdb calls))) = Inr kdemo_row"
  by (simp add: resolve_def kdemo_platform_def joined_rows_def prefer_tenant_def kdemo_submit_def kdemo_row_defs tenant_or_null_def)

lemma kdemo_prepare: "prepare kdemo_validator kdemo_submit (tool_plane (kdemo_platform gdb [])) = Inr (kdemo_row, None)"
  unfolding prepare_def kdemo_resolve
  by (simp add: kdemo_row_def validate_access_def validate_arguments_def find_idempotent_result_def)
    (simp add: kdemo_platform_def kdemo_submit_def gdemo_context_def kdemo_row_defs Let_def)

lemma kdemo_egress: "validate_egress (remote_config kdemo_version kdemo_policy kdemo_server) = Inr ()"
  unfolding remote_config_def kdemo_row_defs by code_simp

lemma kdemo_secret: "resolve_secret (benv_getenv kdemo_env) (ms_secret_ref kdemo_server) = Inr (Some ''secret'')"
  by (simp add: resolve_secret_def kdemo_env_def kdemo_server_def py_startswith_def)

lemma kdemo_remote: "benv_remote kdemo_env k m = RemoteReply False (Some (JObj [])) (JsonContent JNull)"
  by (simp add: kdemo_env_def)

lemma kdemo_no_handler: "core_handlers (mt_canonical_name kdemo_tool) = None"
  by (simp add: core_handlers_def kdemo_tool_def)

lemma kdemo_raw: "\<exists>m r. raw_call kdemo_env call arguments kdemo_row = ([m], r)"
proof -
  have "\<exists>meta. runtime_meta kdemo_env (remote_config kdemo_version kdemo_policy kdemo_server) envelope = Inr meta" for envelope
    using kdemo_secret by (simp add: runtime_meta_def remote_config_def signed_runtime_meta_def)
  then obtain meta where "runtime_meta kdemo_env (remote_config kdemo_version kdemo_policy kdemo_server) (runtime_envelope call) = Inr meta"
    by blast
  moreover have "rs_secret_ref (remote_config kdemo_version kdemo_policy kdemo_server) = ms_secret_ref kdemo_server"
    "rs_max_retries (remote_config kdemo_version kdemo_policy kdemo_server) = 0"
    by (simp_all add: remote_config_def kdemo_version_def)
  ultimately show ?thesis
    by (simp add: raw_call_def kdemo_row_def kdemo_no_handler Let_def call_tool_def call_attempts.simps call_once_def deliver.simps
        kdemo_egress kdemo_secret kdemo_remote split: sum.split remote_reply.split)
qed

lemma kdemo_finish_sends:
  assumes "finish pl g (broker_call kdemo_env call arguments kdemo_row g db) = (sent, pl', x)"
  shows "\<exists>m. sent = [m]"
proof -
  obtain m r where "raw_call kdemo_env call arguments kdemo_row = ([m], r)" using kdemo_raw by blast
  with assms show ?thesis
    by (auto simp: broker_call_def kdemo_row_def finish_def Let_def split: prod.splits sum.splits if_splits)
qed

section \<open>Guardian's part\<close>

lemma kdemo_token_ok: "require_service_token (Some ''svc'') (Some (''Bearer '' @ ''svc'')) = Inr ()"
  by (simp add: require_service_token_def partition_space_def is_ascii_def) code_simp

lemma kdemo_client_post:
  assumes "guardian_route_op kdemo_jwt gdemo_env route gdb = Inr (gdb', v)" "guardian_constraints gdb'"
  shows "client_post kdemo_jwt kdemo_env k what st route gdb = (gdb', Inr v)"
  using assms kdemo_token_ok by (simp add: client_post_def kdemo_env_def guardian_session_def session_def)

lemma kdemo_round_trip:
  assumes "jwt_encode kdemo_jwt claims k = kdemo_token"
  shows "jwt_decode kdemo_jwt now kdemo_token k' = Some claims"
proof -
  from assms have "dump (JObj claims) = dump (JObj kdemo_claims)"
    by (simp only: kdemo_jwt_def kdemo_token_def jwt_library.simps)
  then have "claims = kdemo_claims" by (simp only: dump_inject json.inject)
  then show ?thesis by (simp add: kdemo_jwt_def)
qed

definition kdemo_decision :: "guardian_decision \<Rightarrow> bool" where
  "kdemo_decision d \<longleftrightarrow> gd_id d = ''u0'' \<and> gd_tenant_id d = ''t'' \<and> gd_tool_call_id d = ''c'' \<and> gd_request_hash d = kdemo_hash \<and>
     gd_constraints d = exact_constraints kdemo_hash"

lemma kdemo_issue:
  assumes "kdemo_decision d"
  shows "\<exists>r. issue_authorization kdemo_jwt gdemo_env d db =
      Inr (db\<lparr>authorizations := authorizations db @ [new_authorization gdemo_env d kdemo_token (seconds 120)]\<rparr>, r) \<and>
    gr_authorization_token r = Some kdemo_token \<and> gr_authorization_id r = Some ''u3'' \<and> gr_outcome r = ALLOW \<and> gr_decision_id r = ''u0''"
  using assms
  by (simp add: issue_authorization_def signer_issue_def Let_def kdemo_jwt_def kdemo_decision_def kdemo_token_def kdemo_claims_def
      new_authorization_def)

lemma kdemo_authorization: "gr_authorization_token r = Some kdemo_token \<Longrightarrow> gr_authorization_id r = Some aid \<Longrightarrow> authorization_of r = Some kdemo_token"
  by (simp add: authorization_of_def kdemo_token_def)

lemma kdemo_consume:
  assumes "issue_authorization kdemo_jwt gdemo_env d db = Inr (g1, r)" "guardian_constraints g1" "gr_authorization_token r = Some kdemo_token"
    and "kdemo_decision d" "gr_authorization_id r = Some ''u3''"
  shows "\<exists>g2 res. client_consume kdemo_jwt kdemo_env k t \<lparr>cs_token = kdemo_token, cs_call_id = ''c'', cs_request_hash = kdemo_hash,
      cs_correlation_id = c\<rparr> g1 = (g2, Inr res) \<and> cr_authorization_id res = ''u3''"
proof -
  have "\<exists>db2 res. guardian_consume kdemo_jwt gdemo_env \<lparr>cs_token = kdemo_token, cs_call_id = gd_tool_call_id d,
      cs_request_hash = gd_request_hash d, cs_correlation_id = c\<rparr> g1 = Inr (db2, res) \<and> guardian_constraints db2 \<and>
    gr_authorization_id r = Some (cr_authorization_id res) \<and> cr_constraints res = gr_constraints r"
    by (rule issued_consumable [OF assms(1,2,3), where sk = "''sk''" and vk = "''vk''"])
      (simp_all add: timedelta_defs kdemo_round_trip)
  then obtain g2 res where op: "guardian_consume kdemo_jwt gdemo_env \<lparr>cs_token = kdemo_token, cs_call_id = ''c'',
      cs_request_hash = kdemo_hash, cs_correlation_id = c\<rparr> g1 = Inr (g2, res)" "guardian_constraints g2" "cr_authorization_id res = ''u3''"
    using assms(4,5) by (auto simp: kdemo_decision_def)
  then have "guardian_route_op kdemo_jwt gdemo_env (ConsumeRoute t \<lparr>cs_token = kdemo_token, cs_call_id = ''c'',
      cs_request_hash = kdemo_hash, cs_correlation_id = c\<rparr>) g1 = Inr (g2, ConsumeResponse res)"
    by (simp add: responding_def valid_request_hash_def)
  from kdemo_client_post [OF this op(2)] op(3) show ?thesis by (simp add: client_consume_def)
qed

section \<open>Executing\<close>

definition kdemo_evaluation :: "risk_class \<Rightarrow> guardian_evaluation_request" where
  "kdemo_evaluation risk = \<lparr>ge_request = submitted_request ''c'' kdemo_submit kdemo_row,
     ge_policy = \<lparr>ps_risk_class = risk, ps_required_roles = [], ps_required_purposes = [], ps_required_consents = [],
       ps_allowed_agents = [], ps_approval_mode = ''POLICY'', ps_side_effects = True, ps_idempotent = True\<rparr>\<rparr>"

lemma kdemo_request: "cq_request_hash (submitted_request ''c'' kdemo_submit kdemo_row) = kdemo_hash"
  "cq_call_id (submitted_request ''c'' kdemo_submit kdemo_row) = ''c''"
  "cq_scope (submitted_request ''c'' kdemo_submit kdemo_row) = gdemo_context"
  "cq_idempotency_key (submitted_request ''c'' kdemo_submit kdemo_row) = Some ''key''"
  by (simp_all add: submitted_request_def kdemo_row_def kdemo_hash_def)
    (simp_all add: kdemo_submit_def)

lemma kdemo_allows: "policy_evaluate (kdemo_evaluation MUTATE) = \<lparr>pr_outcome = ALLOW,
    pr_reason_codes = [''PROTECTED_POLICY_SATISFIED''], pr_constraints = exact_constraints kdemo_hash\<rparr>"
  "policy_evaluate (kdemo_evaluation PRIVILEGED) = \<lparr>pr_outcome = ESCALATE,
    pr_reason_codes = [''HUMAN_APPROVAL_REQUIRED''], pr_constraints = exact_constraints kdemo_hash\<rparr>"
  by (simp_all add: policy_evaluate_def kdemo_evaluation_def kdemo_request nil_uuid_def Let_def)

lemma kdemo_new_decision: "kdemo_decision (new_decision gdemo_env (kdemo_evaluation MUTATE))"
  "kdemo_decision (new_decision gdemo_env (kdemo_evaluation PRIVILEGED))"
  by (simp_all add: kdemo_decision_def new_decision_def Let_def kdemo_allows) (simp_all add: kdemo_evaluation_def kdemo_request)

lemma kdemo_evaluate:
  "\<exists>g1 db r. client_evaluate kdemo_jwt kdemo_env 0 (kdemo_evaluation MUTATE) empty_guardian = (g1, Inr r) \<and>
     issue_authorization kdemo_jwt gdemo_env (new_decision gdemo_env (kdemo_evaluation MUTATE)) db = Inr (g1, r) \<and> guardian_constraints g1 \<and>
     gr_authorization_token r = Some kdemo_token \<and> gr_authorization_id r = Some ''u3'' \<and> gr_outcome r = ALLOW \<and> gr_decision_id r = ''u0''"
proof -
  let ?d = "new_decision gdemo_env (kdemo_evaluation MUTATE)"
  let ?db = "empty_guardian\<lparr>decisions := [?d], audit_events := append_audit_event ''u2'' 0 (decision_entry (kdemo_evaluation MUTATE) ?d) []\<rparr>"
  from kdemo_issue [OF kdemo_new_decision(1), of ?db] obtain r where
    issue: "issue_authorization kdemo_jwt gdemo_env ?d ?db =
      Inr (?db\<lparr>authorizations := [new_authorization gdemo_env ?d kdemo_token (seconds 120)]\<rparr>, r)"
    and r: "gr_authorization_token r = Some kdemo_token" "gr_authorization_id r = Some ''u3''" "gr_outcome r = ALLOW" "gr_decision_id r = ''u0''"
    by auto
  let ?g = "?db\<lparr>authorizations := [new_authorization gdemo_env ?d kdemo_token (seconds 120)]\<rparr>"
  have "guardian_evaluate kdemo_jwt gdemo_env (kdemo_evaluation MUTATE) empty_guardian = Inr (?g, r)"
    using issue by (simp add: guardian_evaluate_def scalars_def Let_def kdemo_allows)
  moreover have con: "guardian_constraints ?g" using audit_constraints_one [OF gdemo_audit] by (simp add: guardian_constraints_def)
  ultimately have "client_post kdemo_jwt kdemo_env 0 ''Guardian evaluation'' 503 (EvaluateRoute (kdemo_evaluation MUTATE)) empty_guardian =
      (?g, Inr (EvaluationResponse r))"
    by (intro kdemo_client_post) (simp_all add: responding_def)
  with issue con r show ?thesis by (auto simp: client_evaluate_def)
qed

lemma kdemo_snapshot: "policy_snapshot kdemo_version kdemo_policy = Inr (ge_policy (kdemo_evaluation MUTATE))"
  by (simp add: policy_snapshot_def kdemo_version_def kdemo_policy_def kdemo_evaluation_def risk_of_def)

lemma kdemo_protected: "protected_tool kdemo_version kdemo_policy"
  by (simp add: protected_tool_def kdemo_version_def)

lemma kdemo_protect:
  "\<exists>g2 call. protect kdemo_jwt kdemo_env (submitted_request ''c'' kdemo_submit kdemo_row) kdemo_version kdemo_policy
     (new_call ''c'' kdemo_submit kdemo_row) empty_guardian = (g2, Inr (Authorized call)) \<and>
     tc_guardian_decision_id call = Some ''u0'' \<and> tc_authorization_id call = Some ''u3''"
proof -
  let ?call = "new_call ''c'' kdemo_submit kdemo_row"
  obtain g1 db r where ev: "client_evaluate kdemo_jwt kdemo_env 0 (kdemo_evaluation MUTATE) empty_guardian = (g1, Inr r)"
    and issue: "issue_authorization kdemo_jwt gdemo_env (new_decision gdemo_env (kdemo_evaluation MUTATE)) db = Inr (g1, r)"
    and con: "guardian_constraints g1" and r: "gr_authorization_token r = Some kdemo_token" "gr_authorization_id r = Some ''u3''"
      "gr_outcome r = ALLOW" "gr_decision_id r = ''u0''"
    using kdemo_evaluate by blast
  obtain g2 res where "client_consume kdemo_jwt kdemo_env 1 (tc_tenant_id ?call) \<lparr>cs_token = kdemo_token, cs_call_id = ''c'',
      cs_request_hash = kdemo_hash, cs_correlation_id = tc_correlation_id ?call\<rparr> g1 = (g2, Inr res)" "cr_authorization_id res = ''u3''"
    using kdemo_consume [OF issue con r(1) kdemo_new_decision(1) r(2)] by blast
  moreover have "client_evaluate kdemo_jwt kdemo_env 0 \<lparr>ge_request = submitted_request ''c'' kdemo_submit kdemo_row,
      ge_policy = ge_policy (kdemo_evaluation MUTATE)\<rparr> empty_guardian = (g1, Inr r)"
    using ev by (simp add: kdemo_evaluation_def)
  ultimately show ?thesis using r kdemo_authorization [OF r(1,2)]
    by (simp add: protect_def kdemo_protected kdemo_snapshot Let_def kdemo_hash_def [symmetric])
qed

lemma kdemo_platform_simps: "guardian_plane (kdemo_platform gdb calls) = gdb" "mcp_calls (tool_plane (kdemo_platform gdb calls)) = calls"
  by (simp_all add: kdemo_platform_def)

lemma kdemo_constraints: "mcp_constraints ((tool_plane (kdemo_platform gdb []))\<lparr>mcp_calls := [c]\<rparr>)"
  by (simp add: mcp_constraints_def kdemo_platform_def)

lemma kdemo_executes:
  "\<exists>m pl' x. execute kdemo_jwt kdemo_validator kdemo_env kdemo_submit (kdemo_platform empty_guardian []) = ([m], pl', x)"
proof -
  obtain g2 call where "protect kdemo_jwt kdemo_env (submitted_request ''c'' kdemo_submit kdemo_row) kdemo_version kdemo_policy
     (new_call ''c'' kdemo_submit kdemo_row) empty_guardian = (g2, Inr (Authorized call))" using kdemo_protect by blast
  moreover have "benv_uuid kdemo_env 0 = ''c''" by (simp add: kdemo_env_def)
  moreover have "fst (snd kdemo_row) = kdemo_version" "fst (snd (snd kdemo_row)) = kdemo_policy" by (simp_all add: kdemo_row_def)
  ultimately have "\<exists>db. execute kdemo_jwt kdemo_validator kdemo_env kdemo_submit (kdemo_platform empty_guardian []) =
      finish (kdemo_platform empty_guardian []) g2 (broker_call kdemo_env call (normalized (ti_arguments (ts_intent kdemo_submit))) kdemo_row g2 db)"
    using kdemo_constraints by (auto simp: execute_def kdemo_prepare Let_def kdemo_platform_simps)
  then obtain db where "execute kdemo_jwt kdemo_validator kdemo_env kdemo_submit (kdemo_platform empty_guardian []) =
      finish (kdemo_platform empty_guardian []) g2 (broker_call kdemo_env call (normalized (ti_arguments (ts_intent kdemo_submit))) kdemo_row g2 db)"
    by blast
  then show ?thesis using kdemo_finish_sends by (metis prod_cases3)
qed

lemma kdemo_inv: "platform_inv (kdemo_platform empty_guardian calls)"
  by (simp add: platform_inv_def kdemo_platform_simps empty_guardian_inv)

lemma kdemo_row_protected: "row_protected kdemo_row"
  by (simp add: row_protected_def kdemo_row_def kdemo_protected)

theorem broker_message_authorized_witness:
  "\<exists>m pl' x a. execute kdemo_jwt kdemo_validator kdemo_env kdemo_submit (kdemo_platform empty_guardian []) = ([m], pl', x) \<and>
     a \<in> set (authorizations (guardian_plane pl')) \<and> message_authorization m = Some (au_id a) \<and> au_status a = ''CONSUMED'' \<and>
     au_tool_call_id a = ''c'' \<and> au_request_hash a = kdemo_hash"
proof -
  obtain m pl' x where ex: "execute kdemo_jwt kdemo_validator kdemo_env kdemo_submit (kdemo_platform empty_guardian []) = ([m], pl', x)"
    using kdemo_executes by blast
  have "m \<in> set [m]" by simp
  from broker_message_authorized [OF kdemo_inv ex this kdemo_resolve kdemo_row_protected] ex show ?thesis
    by (auto simp: kdemo_hash_def kdemo_env_def)
qed

theorem broker_messages_bounded_witness:
  "\<exists>m pl' x. execute kdemo_jwt kdemo_validator kdemo_env kdemo_submit (kdemo_platform empty_guardian []) = ([m], pl', x) \<and>
     rm_endpoint m = ''https://bank.example/mcp'' \<and> rm_tool m = ''pay''"
proof -
  obtain m pl' x where ex: "execute kdemo_jwt kdemo_validator kdemo_env kdemo_submit (kdemo_platform empty_guardian []) = ([m], pl', x)"
    using kdemo_executes by blast
  from broker_messages_bounded [OF kdemo_inv ex kdemo_resolve [unfolded kdemo_row_def]]
  have "rm_endpoint m = ''https://bank.example/mcp''" "rm_tool m = ''pay''"
    by (auto simp: Let_def kdemo_server_def kdemo_tool_def kdemo_remote split: if_splits)
  with ex show ?thesis by blast
qed

lemma kdemo_message_ids:
  assumes "execute kdemo_jwt kdemo_validator kdemo_env kdemo_submit (kdemo_platform empty_guardian []) = ([m], pl', x)"
  shows "message_authorization m = Some ''u3''" "message_decision m = Some ''u0''"
proof -
  obtain g2 call where p: "protect kdemo_jwt kdemo_env (submitted_request ''c'' kdemo_submit kdemo_row) kdemo_version kdemo_policy
     (new_call ''c'' kdemo_submit kdemo_row) empty_guardian = (g2, Inr (Authorized call))"
    and call: "tc_guardian_decision_id call = Some ''u0''" "tc_authorization_id call = Some ''u3''" using kdemo_protect by blast
  have "benv_uuid kdemo_env 0 = ''c''" by (simp add: kdemo_env_def)
  moreover have "fst (snd kdemo_row) = kdemo_version" "fst (snd (snd kdemo_row)) = kdemo_policy" by (simp_all add: kdemo_row_def)
  ultimately obtain db where fin: "finish (kdemo_platform empty_guardian []) g2
      (broker_call kdemo_env call (normalized (ti_arguments (ts_intent kdemo_submit))) kdemo_row g2 db) = ([m], pl', x)"
    using kdemo_constraints assms p by (auto simp: execute_def kdemo_prepare Let_def kdemo_platform_simps)
  have "guardian_inv g2" using protect_sound [OF p empty_guardian_inv] by (simp add: evolves_def)
  from finish_call [OF fin this] have "carries kdemo_env call kdemo_row m" by simp
  with call show "message_authorization m = Some ''u3''" "message_decision m = Some ''u0''"
    using carries_authorization carries_decision by auto
qed

theorem broker_scope_accepted_by_bank_witness:
  "\<exists>m pl' x scope. execute kdemo_jwt kdemo_validator kdemo_env kdemo_submit (kdemo_platform empty_guardian []) = ([m], pl', x) \<and>
     bank_verify_runtime_scope ''secret'' (rm_meta m) ''bank.pay'' = Inr scope \<and> sc_call_id scope = ''c''"
proof -
  obtain m pl' x where ex: "execute kdemo_jwt kdemo_validator kdemo_env kdemo_submit (kdemo_platform empty_guardian []) = ([m], pl', x)"
    using kdemo_executes by blast
  have "m \<in> set [m]" by simp
  from broker_scope_accepted_by_bank [OF kdemo_inv ex this kdemo_resolve [unfolded kdemo_row_def] kdemo_secret] kdemo_protected
    kdemo_message_ids [OF ex] ex show ?thesis
    by (auto simp: kdemo_submit_def py_strip_plain py_isspace_def kdemo_env_def kdemo_tool_def)
qed

section \<open>Failing closed, and replaying the blocked call\<close>

definition kdemo_offline :: broker_env where
  "kdemo_offline = kdemo_env\<lparr>benv_service_token := None\<rparr>"

lemma kdemo_unavailable: "client_evaluate jwt kdemo_offline 0 ev gdb =
    (gdb, Inl (GuardianClientError ''Service token is not configured.''))"
  by (simp add: client_evaluate_def client_post_def kdemo_offline_def)

theorem broker_fails_closed_witness:
  "\<exists>pl' x. execute kdemo_jwt kdemo_validator kdemo_offline kdemo_submit (kdemo_platform empty_guardian []) = ([], pl', x) \<and>
     mcp_attempts (tool_plane pl') = []"
proof -
  obtain sent pl' x where ex: "execute kdemo_jwt kdemo_validator kdemo_offline kdemo_submit (kdemo_platform empty_guardian []) = (sent, pl', x)"
    by (metis prod_cases3)
  from broker_fails_closed [OF ex kdemo_prepare [unfolded kdemo_row_def] kdemo_protected kdemo_snapshot kdemo_unavailable] ex
  show ?thesis by (auto simp: kdemo_platform_def)
qed

lemma kdemo_results: "mcp_results (tool_plane (kdemo_platform gdb calls)) = []"
  by (simp add: kdemo_platform_def)

lemma kdemo_offline_uuid: "benv_uuid kdemo_offline 0 = ''c''"
  by (simp add: kdemo_offline_def kdemo_env_def)

lemma kdemo_gate_closed:
  "\<exists>call res s. protect jwt kdemo_offline q kdemo_version kdemo_policy c gdb = (gdb, Inr (Halted call (Some res) s)) \<and> sf_result_ref s \<noteq> None"
  by (simp add: protect_def kdemo_protected kdemo_snapshot kdemo_unavailable blocked_call_def Let_def safe_result_def projection_ok_def
      store_result_def)

lemma kdemo_blocked:
  "\<exists>pl' s. execute kdemo_jwt kdemo_validator kdemo_offline kdemo_submit (kdemo_platform empty_guardian []) = ([], pl', Inr s) \<and>
     sf_result_ref s \<noteq> None \<and> mcp_registry (tool_plane pl') = mcp_registry (tool_plane (kdemo_platform empty_guardian []))"
proof -
  have row: "fst (snd kdemo_row) = kdemo_version" "fst (snd (snd kdemo_row)) = kdemo_policy" by (simp_all add: kdemo_row_def)
  obtain call res s where p: "protect kdemo_jwt kdemo_offline (submitted_request ''c'' kdemo_submit kdemo_row) kdemo_version kdemo_policy
      (new_call ''c'' kdemo_submit kdemo_row) empty_guardian = (empty_guardian, Inr (Halted call (Some res) s))" and s: "sf_result_ref s \<noteq> None"
    using kdemo_gate_closed by blast
  have "execute kdemo_jwt kdemo_validator kdemo_offline kdemo_submit (kdemo_platform empty_guardian []) =
      finish (kdemo_platform empty_guardian []) empty_guardian ([], Inr ((empty_guardian,
        (put_call call ((tool_plane (kdemo_platform empty_guardian []))\<lparr>mcp_calls := [new_call ''c'' kdemo_submit kdemo_row]\<rparr>))\<lparr>mcp_results := [res]\<rparr>), s))"
    using kdemo_constraints kdemo_results by (simp add: execute_def kdemo_prepare Let_def kdemo_platform_simps row p kdemo_offline_uuid)
  with s show ?thesis
    by (simp add: finish_def put_call_def audit_constraints_def mcp_constraints_def kdemo_platform_def)
qed

theorem broker_replay_witness:
  "\<exists>pl1 s. execute kdemo_jwt kdemo_validator kdemo_offline kdemo_submit (kdemo_platform empty_guardian []) = ([], pl1, Inr s) \<and>
     execute kdemo_jwt kdemo_validator kdemo_env kdemo_submit pl1 = ([], pl1, Inr s)"
proof -
  define ext where "ext = \<lparr>ext_jwt = kdemo_jwt, ext_iter_errors = kdemo_validator, ext_list_tools = (\<lambda>_. Inr ([], \<lparr>si_implementation_name = None,
    si_implementation_version = None, si_protocol_version = None\<rparr>))\<rparr>"
  have ext: "ext_jwt ext = kdemo_jwt" "ext_iter_errors ext = kdemo_validator" by (simp_all add: ext_def)
  obtain pl1 s where first: "execute kdemo_jwt kdemo_validator kdemo_offline kdemo_submit (kdemo_platform empty_guardian []) = ([], pl1, Inr s)"
    and s: "sf_result_ref s \<noteq> None" and reg: "mcp_registry (tool_plane pl1) = mcp_registry (tool_plane (kdemo_platform empty_guardian []))"
    using kdemo_blocked by blast
  have "broker_inv (kdemo_platform empty_guardian [])"
    using kdemo_inv by (simp add: broker_inv_def mcp_inv_def mcp_constraints_def kdemo_platform_def)
  from broker_replay [OF this first [folded ext] kdemo_prepare [folded ext] s _ _ run_Nil [symmetric] kdemo_resolve [of empty_guardian "[]", folded reg],
      of "''key''" kdemo_env] first
  show ?thesis by (auto simp: ext kdemo_submit_def)
qed

section \<open>Resuming\<close>

definition kdemo_approved :: guardian_db where
  "kdemo_approved = \<lparr>decisions = [new_decision gdemo_env (kdemo_evaluation PRIVILEGED)],
     approvals = [(resolve_approval gdemo_env gdemo_action (new_approval gdemo_env (kdemo_evaluation PRIVILEGED)))\<lparr>ap_updated_at := 0\<rparr>],
     approval_actions = [new_approval_action gdemo_env ''t'' (new_approval gdemo_env (kdemo_evaluation PRIVILEGED)) gdemo_action],
     authorizations = [], audit_events = []\<rparr>"

definition kdemo_waiting :: tool_call where
  "kdemo_waiting = (new_call ''c'' kdemo_submit kdemo_row)\<lparr>tc_status := ''WAITING_APPROVAL''\<rparr>"

definition kdemo_resume :: tool_call_resume where
  "kdemo_resume = \<lparr>ru_tenant_id = ''t'', ru_call_id = ''c'', ru_correlation_id = ''k2''\<rparr>"

lemma kdemo_waiting_simps: "tc_id kdemo_waiting = ''c''" "tc_request_hash kdemo_waiting = kdemo_hash" "tc_status kdemo_waiting = ''WAITING_APPROVAL''"
  "tc_tenant_id kdemo_waiting = ''t''" "tc_tool_version_id kdemo_waiting = ''tv''"
  by (simp_all add: kdemo_waiting_def kdemo_hash_def)
    (simp_all add: new_call_def kdemo_row_def Let_def kdemo_submit_def kdemo_version_def)

lemma kdemo_scope: "cq_scope (ge_request (kdemo_evaluation r)) = gdemo_context" "rc_tenant_id gdemo_context = ''t''"
  "cq_call_id (ge_request (kdemo_evaluation r)) = ''c''" "cq_request_hash (ge_request (kdemo_evaluation r)) = kdemo_hash"
  by (simp_all add: kdemo_evaluation_def kdemo_request)

lemma kdemo_approved_inv: "guardian_inv kdemo_approved"
  by (simp add: guardian_inv_def guardian_constraints_def guardian_good_def kdemo_approved_def audit_constraints_def decision_ok_def
      approval_ok_def resolve_approval_def new_approval_def Let_def new_approval_action_def gdemo_action_def kdemo_allows kdemo_scope
      new_decision_def)

lemma kdemo_authorize_approved:
  "\<exists>g1 r. client_authorize_approved kdemo_jwt kdemo_env 0 ''t'' \<lparr>ar_call_id = ''c'', ar_request_hash = kdemo_hash, ar_correlation_id = c\<rparr> kdemo_approved =
      (g1, Inr r) \<and> issue_authorization kdemo_jwt gdemo_env (new_decision gdemo_env (kdemo_evaluation PRIVILEGED)) kdemo_approved = Inr (g1, r) \<and>
    guardian_constraints g1 \<and> gr_authorization_token r = Some kdemo_token \<and> gr_authorization_id r = Some ''u3''"
proof -
  let ?d = "new_decision gdemo_env (kdemo_evaluation PRIVILEGED)"
  let ?q = "\<lparr>ar_call_id = ''c'', ar_request_hash = kdemo_hash, ar_correlation_id = c\<rparr>"
  from kdemo_issue [OF kdemo_new_decision(2), of kdemo_approved] obtain r where
    issue: "issue_authorization kdemo_jwt gdemo_env ?d kdemo_approved =
      Inr (kdemo_approved\<lparr>authorizations := [new_authorization gdemo_env ?d kdemo_token (seconds 120)]\<rparr>, r)"
    and r: "gr_authorization_token r = Some kdemo_token" "gr_authorization_id r = Some ''u3''"
    by (auto simp: kdemo_approved_def)
  let ?g = "kdemo_approved\<lparr>authorizations := [new_authorization gdemo_env ?d kdemo_token (seconds 120)]\<rparr>"
  have d: "gd_id ?d = ''u0''" "gd_tenant_id ?d = ''t''" "gd_tool_call_id ?d = ''c''" "gd_request_hash ?d = kdemo_hash"
    using kdemo_new_decision(2) by (simp_all add: kdemo_decision_def)
  have ex: "gd_expires_at ?d = minutes 15" "genv_now gdemo_env < minutes 15" by (simp_all add: new_decision_def Let_def timedelta_defs)
  obtain p where p: "decisions kdemo_approved = [?d]" "approvals kdemo_approved = [p]" "ap_decision_id p = ''u0''" "ap_status p = ''APPROVED''"
    by (simp add: kdemo_approved_def resolve_approval_def new_approval_def Let_def gdemo_action_def)
  then have "authorize_approved kdemo_jwt gdemo_env ''t'' ?q kdemo_approved = issue_authorization kdemo_jwt gdemo_env ?d kdemo_approved"
    using ex by (simp add: authorize_approved_def d kdemo_scope latest_def)
  moreover have con: "guardian_constraints ?g" by (simp add: guardian_constraints_def kdemo_approved_def audit_constraints_def)
  ultimately have "client_post kdemo_jwt kdemo_env 0 ''Guardian approved authorization'' 403 (ApprovedRoute ''t'' ?q) kdemo_approved =
      (?g, Inr (EvaluationResponse r))"
    using issue by (intro kdemo_client_post) (simp_all add: responding_def valid_request_hash_def)
  with issue con r show ?thesis by (auto simp: client_authorize_approved_def)
qed

lemma kdemo_resumes: "\<exists>m pl' x. resume kdemo_jwt kdemo_env kdemo_resume (kdemo_platform kdemo_approved [kdemo_waiting]) = ([m], pl', x)"
proof -
  let ?pl = "kdemo_platform kdemo_approved [kdemo_waiting]"
  obtain g1 r where ap: "client_authorize_approved kdemo_jwt kdemo_env 0 ''t'' \<lparr>ar_call_id = ''c'', ar_request_hash = kdemo_hash,
      ar_correlation_id = ''k2''\<rparr> kdemo_approved = (g1, Inr r)"
    and issue: "issue_authorization kdemo_jwt gdemo_env (new_decision gdemo_env (kdemo_evaluation PRIVILEGED)) kdemo_approved = Inr (g1, r)"
    and con: "guardian_constraints g1" and r: "gr_authorization_token r = Some kdemo_token" "gr_authorization_id r = Some ''u3''"
    using kdemo_authorize_approved by blast
  obtain g2 res where "client_consume kdemo_jwt kdemo_env 1 ''t'' \<lparr>cs_token = kdemo_token, cs_call_id = ''c'',
      cs_request_hash = kdemo_hash, cs_correlation_id = ''k2''\<rparr> g1 = (g2, Inr res)"
    using kdemo_consume [OF issue con r(1) kdemo_new_decision(2) r(2)] by blast
  with ap kdemo_authorization [OF r] obtain call where
    auth: "authorize_resumed kdemo_jwt kdemo_env kdemo_resume kdemo_waiting kdemo_approved = (g2, Inr call)"
    by (auto simp: authorize_resumed_def kdemo_waiting_simps kdemo_resume_def)
  have rows: "resumed_rows kdemo_waiting (mcp_registry (tool_plane ?pl)) = Some kdemo_row"
    by (simp add: resumed_rows_def kdemo_platform_def joined_rows_def prefer_tenant_def kdemo_waiting_simps kdemo_row_defs tenant_or_null_def)
  obtain sent pl' x where re: "resume kdemo_jwt kdemo_env kdemo_resume ?pl = (sent, pl', x)" by (metis prod_cases3)
  then have "finish ?pl g2 (broker_call kdemo_env call (tc_normalized_arguments call) kdemo_row g2 (tool_plane ?pl)) = (sent, pl', x)"
    using auth rows by (simp add: resume_def kdemo_platform_simps kdemo_waiting_simps kdemo_resume_def)
  from kdemo_finish_sends [OF this] re show ?thesis by auto
qed

theorem broker_resume_authorized_witness:
  "\<exists>m pl' x a. resume kdemo_jwt kdemo_env kdemo_resume (kdemo_platform kdemo_approved [kdemo_waiting]) = ([m], pl', x) \<and>
     a \<in> set (authorizations (guardian_plane pl')) \<and> message_authorization m = Some (au_id a) \<and> au_status a = ''CONSUMED'' \<and>
     au_tool_call_id a = ''c''"
proof -
  obtain m pl' x where re: "resume kdemo_jwt kdemo_env kdemo_resume (kdemo_platform kdemo_approved [kdemo_waiting]) = ([m], pl', x)"
    using kdemo_resumes by blast
  have "platform_inv (kdemo_platform kdemo_approved [kdemo_waiting])" by (simp add: platform_inv_def kdemo_platform_simps kdemo_approved_inv)
  moreover have "m \<in> set [m]" by simp
  ultimately show ?thesis using broker_resume_authorized [OF _ re] re by (fastforce simp: kdemo_resume_def)
qed

end
