(* ===== verification/PyNumeric.thy ===== *)
theory PyNumeric
  imports PyDecimal PyJson
begin

text \<open>
  Decimal amounts of a request against NUMERIC columns. A request carries an arbitrary
  finite \<open>Decimal\<close>; a column with scale \<open>s\<close> holds an integer number of units of \<open>10 ^ -s\<close>, and
  PostgreSQL rounds a stored value to the nearest unit, ties away from zero. The value of a
  decimal in units is the fraction \<open>dec_num s d / dec_den s d\<close>. Decimals of more than 28
  digits, on which Python's arithmetic itself rounds, are outside the model.
\<close>

definition dec_den :: "nat \<Rightarrow> decimal \<Rightarrow> int" where
  "dec_den s d = (case d of Finite neg c e \<Rightarrow> if 0 \<le> e + int s then 1 else 10 ^ nat (- (e + int s)) | _ \<Rightarrow> 1)"

definition dec_num :: "nat \<Rightarrow> decimal \<Rightarrow> int" where
  "dec_num s d =
     (case d of
        Finite neg c e \<Rightarrow>
          let n = (if 0 \<le> e + int s then int c * 10 ^ nat (e + int s) else int c) in if neg then - n else n
      | _ \<Rightarrow> 0)"

definition is_finite :: "decimal \<Rightarrow> bool" where
  "is_finite d = (case d of Finite _ _ _ \<Rightarrow> True | _ \<Rightarrow> False)"

text \<open>Comparison with a stored value of \<open>n\<close> units.\<close>

definition dec_le :: "nat \<Rightarrow> decimal \<Rightarrow> int \<Rightarrow> bool" where
  "dec_le s d n \<longleftrightarrow> dec_num s d \<le> n * dec_den s d"

definition dec_eq :: "nat \<Rightarrow> decimal \<Rightarrow> int \<Rightarrow> bool" where
  "dec_eq s d n \<longleftrightarrow> dec_num s d = n * dec_den s d"

definition dec_ge :: "nat \<Rightarrow> decimal \<Rightarrow> int \<Rightarrow> bool" where
  "dec_ge s d n \<longleftrightarrow> n * dec_den s d \<le> dec_num s d"

definition dec_pos :: "decimal \<Rightarrow> bool" where
  "dec_pos d \<longleftrightarrow> 0 < dec_num 0 d"

text \<open>The fraction \<open>a / b\<close> rounded to the nearest integer, ties away from zero.\<close>

definition round_away :: "int \<Rightarrow> int \<Rightarrow> int" where
  "round_away a b = (if 0 \<le> a then (2 * a + b) div (2 * b) else - ((2 * - a + b) div (2 * b)))"

definition numeric :: "nat \<Rightarrow> decimal \<Rightarrow> int" where
  "numeric s d = round_away (dec_num s d) (dec_den s d)"

text \<open>The stored value of \<open>n\<close> units plus a decimal.\<close>

definition numeric_add :: "nat \<Rightarrow> int \<Rightarrow> decimal \<Rightarrow> int" where
  "numeric_add s n d = round_away (n * dec_den s d + dec_num s d) (dec_den s d)"

text \<open>\<open>str\<close> of a decimal (the scientific string of the specification), and of a stored value.\<close>

definition signed_str :: "int \<Rightarrow> string" where
  "signed_str n = (if n < 0 then ''-'' else ''+'') @ nat_str (nat \<bar>n\<bar>)"

fun decimal_str :: "decimal \<Rightarrow> string" where
  "decimal_str (Finite neg c e) =
     (let digits = nat_str c; k = int (length digits); leftdigits = e + k;
          dotplace = (if e \<le> 0 \<and> leftdigits > -6 then leftdigits else 1);
          body = (if dotplace \<le> 0 then ''0.'' @ replicate (nat (- dotplace)) CHR ''0'' @ digits
                  else if dotplace \<ge> k then digits @ replicate (nat (dotplace - k)) CHR ''0''
                  else take (nat dotplace) digits @ ''.'' @ drop (nat dotplace) digits);
          ex = (if leftdigits = dotplace then [] else CHR ''E'' # signed_str (leftdigits - dotplace))
      in (if neg then ''-'' else []) @ body @ ex)"
| "decimal_str (Infinity neg) = (if neg then ''-Infinity'' else ''Infinity'')"
| "decimal_str QNaN = ''NaN''"
| "decimal_str SNaN = ''sNaN''"

definition units_str :: "nat \<Rightarrow> int \<Rightarrow> string" where
  "units_str s n =
     (let m = nat \<bar>n\<bar> in (if n < 0 then ''-'' else []) @ nat_str (m div 10 ^ s) @
        (if s = 0 then [] else ''.'' @ padded s (m mod 10 ^ s)))"

section \<open>Rounding\<close>

lemma dec_den_pos [simp]: "0 < dec_den s d"
  by (auto simp: dec_den_def split: decimal.split)

lemma round_away_shift:
  assumes "0 < b" "0 \<le> a" "0 \<le> n"
  shows "round_away (n * b + a) b = n + round_away a b"
proof -
  have "(2 * (n * b + a) + b) div (2 * b) = n + (2 * a + b) div (2 * b)"
    using assms(1) div_mult_self1 [of "2 * b" "2 * a + b" n] by (simp add: algebra_simps)
  moreover have "0 \<le> n * b + a" using assms by simp
  ultimately show ?thesis using assms(2) by (simp add: round_away_def)
qed

lemma numeric_add_eq: "0 \<le> dec_num s d \<Longrightarrow> 0 \<le> n \<Longrightarrow> numeric_add s n d = n + numeric s d"
  by (simp add: numeric_add_def numeric_def round_away_shift)

lemma round_away_le:
  assumes "0 < b" "0 \<le> a" "a \<le> n * b"
  shows "round_away a b \<le> n"
proof -
  have "2 * a + b < (n + 1) * (2 * b)" using assms by (simp add: algebra_simps)
  moreover have "(2 * a + b) div (2 * b) * (2 * b) \<le> 2 * a + b"
    using assms(1) div_mult_mod_eq [of "2 * a + b" "2 * b"] pos_mod_sign [of "2 * b" "2 * a + b"] by linarith
  ultimately have "(2 * a + b) div (2 * b) * (2 * b) < (n + 1) * (2 * b)" by linarith
  then have "(2 * a + b) div (2 * b) < n + 1" using assms(1) by (simp only: mult_less_cancel_right)
  then show ?thesis using assms(2) by (simp add: round_away_def)
qed

lemma numeric_le: "dec_le s d n \<Longrightarrow> 0 \<le> dec_num s d \<Longrightarrow> numeric s d \<le> n"
  by (simp add: numeric_def dec_le_def round_away_le)

lemma numeric_nonneg: "0 \<le> dec_num s d \<Longrightarrow> 0 \<le> numeric s d"
  by (simp add: numeric_def round_away_def pos_imp_zdiv_nonneg_iff add_nonneg_nonneg less_imp_le)

lemma dec_pos_num:
  assumes "dec_pos d"
  shows "0 \<le> dec_num s d"
proof (cases d)
  case (Finite neg c e)
  have "\<not> neg" using assms Finite by (auto simp: dec_pos_def dec_num_def Let_def mult_less_0_iff split: if_splits)
  with Finite show ?thesis by (simp add: dec_num_def Let_def)
qed (simp_all add: dec_num_def)

section \<open>Printing a number\<close>

lemma nat_str_small: "n < 10 \<Longrightarrow> nat_str n = [digit_char n]"
  by (simp add: nat_str.simps)

lemma nat_str_large: "10 \<le> n \<Longrightarrow> nat_str n = nat_str (n div 10) @ [digit_char (n mod 10)]"
  by (subst nat_str.simps) simp

lemma digit_char_eval:
  "digit_char 0 = CHR ''0''" "digit_char 1 = CHR ''1''" "digit_char 2 = CHR ''2''" "digit_char 3 = CHR ''3''" "digit_char 4 = CHR ''4''"
  "digit_char 5 = CHR ''5''" "digit_char 6 = CHR ''6''" "digit_char 7 = CHR ''7''" "digit_char 8 = CHR ''8''" "digit_char 9 = CHR ''9''"
  by code_simp+

lemmas nat_str_eval = nat_str_small nat_str_large digit_char_eval

end
