(* ===== verification/PyContract.thy ===== *)
theory PyContract
  imports PyNumeric RuntimeScope AuditLog
begin

text \<open>
  What the contracts and queries of the demonstration services share: the checks pydantic makes
  on the fields of a request (stripped strings, their lengths, character classes of a pattern, the
  digits of a decimal),
  dicts of strings, SQL's \<open>LIKE\<close>, and counting rows by a column.
\<close>

section \<open>Fields\<close>

definition non_blank :: "string \<Rightarrow> bool" where
  "non_blank s \<longleftrightarrow> py_strip s \<noteq> []"

definition in_range :: "string \<Rightarrow> char \<Rightarrow> bool" where
  "in_range r c =
     (case r of [a, b] \<Rightarrow> (of_char a :: nat) \<le> of_char c \<and> (of_char c :: nat) \<le> of_char b | _ \<Rightarrow> False)"

definition is_alpha_upper :: "char \<Rightarrow> bool" where
  "is_alpha_upper = in_range ''AZ''"

definition hex_digit :: "char \<Rightarrow> bool" where
  "hex_digit c \<longleftrightarrow> is_digit c \<or> in_range ''af'' c \<or> in_range ''AF'' c"

definition length_between :: "nat \<Rightarrow> nat \<Rightarrow> string \<Rightarrow> bool" where
  "length_between a b s \<longleftrightarrow> a \<le> length (py_strip s) \<and> length (py_strip s) \<le> b"

definition if_given :: "('a \<Rightarrow> bool) \<Rightarrow> 'a option \<Rightarrow> bool" where
  "if_given p v = (case v of None \<Rightarrow> True | Some x \<Rightarrow> p x)"

definition filled :: "string option \<Rightarrow> bool" where
  "filled v = (case v of None \<Rightarrow> False | Some s \<Rightarrow> s \<noteq> [])"

text \<open>The superscripts one, two and three are digits to \<open>isdigit\<close> but not to \<open>int\<close>.\<close>

definition py_isdigit :: "char \<Rightarrow> bool" where
  "py_isdigit c \<longleftrightarrow> is_digit c \<or> (of_char c :: nat) \<in> {178, 179, 185}"

text \<open>
  \<open>max_digits=18, decimal_places=n\<close>: the decimal, without its trailing zeros, has at most \<open>n\<close>
  places, \<open>18 - n\<close> digits before them and 18 in all. Its value in units of \<open>10 ^ -n\<close> is then exact.
\<close>

function strip_zeros :: "nat \<Rightarrow> int \<Rightarrow> nat \<times> int" where
  "strip_zeros c e = (if c = 0 then (0, 0) else if c mod 10 = 0 then strip_zeros (c div 10) (e + 1) else (c, e))"
  by pat_completeness auto
termination by (relation "measure fst") auto

declare strip_zeros.simps [simp del]

definition places_ok :: "nat \<Rightarrow> decimal \<Rightarrow> bool" where
  "places_ok n d =
     (case d of
        Finite neg c e \<Rightarrow>
          (case strip_zeros c e of (c', e') \<Rightarrow>
             let places = nat (- e'); digits = max (length (nat_str c') + nat e') places in
             places \<le> n \<and> digits \<le> 18 \<and> digits - places \<le> 18 - n)
      | _ \<Rightarrow> False)"

section \<open>Dicts and lists\<close>

definition JStrList :: "string list \<Rightarrow> json" where
  "JStrList xs = JList (map JStr xs)"

text \<open>A dict of strings: stripped keys and values, in insertion order, a later equal key in the place of the earlier.\<close>

fun assoc_set :: "(string \<times> string) list \<Rightarrow> string \<times> string \<Rightarrow> (string \<times> string) list" where
  "assoc_set [] kv = [kv]"
| "assoc_set (e # d) kv = (if fst e = fst kv then kv # d else e # assoc_set d kv)"

fun count_status :: "(string \<times> int) list \<Rightarrow> string \<Rightarrow> (string \<times> int) list" where
  "count_status [] s = [(s, 1)]"
| "count_status ((t, n) # counts) s = (if t = s then (t, n + 1) # counts else (t, n) # count_status counts s)"

fun sum_map :: "('a \<Rightarrow> 'e + 'b) \<Rightarrow> 'a list \<Rightarrow> 'e + 'b list" where
  "sum_map f [] = Inr []"
| "sum_map f (x # xs) = sum_bind (f x) (\<lambda>y. sum_bind (sum_map f xs) (\<lambda>ys. Inr (y # ys)))"

section \<open>Queries\<close>

text \<open>
  \<open>contains\<close> is \<open>LIKE '%' || search || '%'\<close> without escaping: a percent sign or an underscore of the
  search is a wildcard, a backslash escapes the next character.
\<close>

fun like :: "string \<Rightarrow> string \<Rightarrow> bool" where
  "like [] s = (s = [])"
| "like (p # ps) [] = (p = CHR ''%'' \<and> like ps [])"
| "like (p # ps) (c # s) =
     (if p = CHR ''%'' then like ps (c # s) \<or> like (p # ps) s
      else if p = CHR ''_'' then like ps s
      else if (of_char p :: nat) = 92 \<and> ps \<noteq> [] then c = hd ps \<and> like (tl ps) s
      else c = p \<and> like ps s)"

definition sql_contains :: "string \<Rightarrow> string \<Rightarrow> bool" where
  "sql_contains search s = like (''%'' @ search @ ''%'') s"

end
