(* ===== verification/Funder.thy ===== *)
theory Funder
  imports PyContract
begin

text \<open>
  The funder marketplace (demos/funder-marketplace/funder_demo: models.py, schemas.py,
  service.py, mcp.py and the event route of main.py): funding programs with a capacity,
  applications, offers, reservations of capacity and commitments. Amounts of a row are
  hundredths (NUMERIC(18, 2)), rates ten-thousandths (NUMERIC(9, 4)); amounts of a request are
  decimals. A fresh row is returned with the values of the request it was built from,
  a loaded row with the stored ones. The clock is read once per request.
\<close>

section \<open>Tables\<close>

record funder_institution =
  fi_id :: string
  fi_tenant_id :: string
  fi_legal_name :: string
  fi_display_name :: string
  fi_institution_type :: string
  fi_status :: string
  fi_supported_currencies :: "string list"
  fi_supported_rails :: "string list"
  fi_settlement_account_token :: string
  fi_policy_metadata :: dict
  fi_version :: int

record funding_program =
  fp_id :: string
  fp_tenant_id :: string
  fp_funder_id :: string
  fp_program_code :: string
  fp_name :: string
  fp_product_type :: string
  fp_currency :: string
  fp_minimum_amount :: int
  fp_maximum_amount :: int
  fp_total_capacity :: int
  fp_reserved_capacity :: int
  fp_committed_capacity :: int
  fp_advance_rate_maximum :: int
  fp_tenor_minimum_days :: int
  fp_tenor_maximum_days :: int
  fp_pricing_model :: dict
  fp_eligible_regions :: "string list"
  fp_eligible_industries :: "string list"
  fp_required_evidence_types :: "string list"
  fp_effective_from :: int
  fp_effective_to :: "int option"
  fp_status :: string
  fp_policy_version :: int
  fp_version :: int

record program_rule =
  fu_id :: string
  fu_program_id :: string
  fu_rule_key :: string
  fu_input_field :: string
  fu_operator :: string
  fu_comparison_value :: json
  fu_reason_code :: string
  fu_effective_from :: int
  fu_effective_to :: "int option"
  fu_version :: int

record funding_application =
  fa_id :: string
  fa_tenant_id :: string
  fa_case_id :: string
  fa_msme_id :: string
  fa_msme_name :: string
  fa_receivable_id :: string
  fa_requested_amount :: int
  fa_currency :: string
  fa_tenor_days :: int
  fa_region :: string
  fa_industry :: string
  fa_evidence_receipt_ids :: "string list"
  fa_exposure_snapshot_reference :: string
  fa_exposure_amount :: int
  fa_eligibility_results :: "dict list"
  fa_status :: string
  fa_submitted_at :: time
  fa_reviewed_by :: "string option"
  fa_version :: int

record funding_offer =
  fo_id :: string
  fo_tenant_id :: string
  fo_application_id :: string
  fo_funder_id :: string
  fo_program_id :: string
  fo_approved_amount :: int
  fo_advance_rate :: int
  fo_annual_rate :: int
  fo_fee_amount :: int
  fo_tenor_days :: int
  fo_repayment_terms :: string
  fo_conditions :: "string list"
  fo_expires_at :: time
  fo_status :: string
  fo_offer_hash :: string
  fo_version :: int
  fo_created_at :: time

record offer_reservation =
  rv_id :: string
  rv_tenant_id :: string
  rv_offer_id :: string
  rv_program_id :: string
  rv_reserved_amount :: int
  rv_case_id :: string
  rv_msme_id :: string
  rv_expires_at :: time
  rv_idempotency_key :: string
  rv_status :: string
  rv_release_reference :: "string option"
  rv_commit_reference :: "string option"
  rv_version :: int
  rv_created_at :: time

record funding_commitment =
  fc_id :: string
  fc_tenant_id :: string
  fc_reservation_id :: string
  fc_committed_amount :: int
  fc_guardian_authorization_id :: "string option"
  fc_action_hash :: string
  fc_destination_token :: string
  fc_status :: string
  fc_execution_reference :: "string option"
  fc_ledger_reference :: "string option"
  fc_settlement_status :: string
  fc_version :: int
  fc_created_at :: time

record funder_audit =
  fe_id :: string
  fe_tenant_id :: string
  fe_aggregate_type :: string
  fe_aggregate_id :: string
  fe_aggregate_version :: int
  fe_event_type :: string
  fe_actor_type :: string
  fe_actor_id :: string
  fe_reason :: "string option"
  fe_payload :: dict
  fe_correlation_id :: string
  fe_occurred_at :: time

record funder_outbox =
  fx_id :: string
  fx_tenant_id :: string
  fx_aggregate_type :: string
  fx_aggregate_id :: string
  fx_aggregate_version :: int
  fx_event_type :: string
  fx_payload :: dict
  fx_correlation_id :: string
  fx_published_at :: "time option"
  fx_attempt_count :: int

record funder_inbox =
  fb_id :: string
  fb_source_application :: string
  fb_event_id :: string
  fb_event_type :: string
  fb_tenant_id :: string
  fb_processed_at :: "time option"
  fb_status :: string
  fb_payload_hash :: string

record funder_db =
  institutions :: "funder_institution list"
  programs :: "funding_program list"
  program_rules :: "program_rule list"
  applications :: "funding_application list"
  offers :: "funding_offer list"
  reservations :: "offer_reservation list"
  commitments :: "funding_commitment list"
  funder_audits :: "funder_audit list"
  funder_outboxes :: "funder_outbox list"
  funder_inboxes :: "funder_inbox list"

text \<open>Primary keys, unique columns and foreign keys.\<close>

definition funder_references :: "funder_db \<Rightarrow> bool" where
  "funder_references db \<longleftrightarrow>
     list_all (\<lambda>p. fp_funder_id p \<in> fi_id ` set (institutions db)) (programs db) \<and>
     list_all (\<lambda>r. fu_program_id r \<in> fp_id ` set (programs db)) (program_rules db) \<and>
     list_all (\<lambda>v. fo_application_id v \<in> fa_id ` set (applications db) \<and> fo_funder_id v \<in> fi_id ` set (institutions db)
                 \<and> fo_program_id v \<in> fp_id ` set (programs db)) (offers db) \<and>
     list_all (\<lambda>r. rv_offer_id r \<in> fo_id ` set (offers db) \<and> rv_program_id r \<in> fp_id ` set (programs db)) (reservations db) \<and>
     list_all (\<lambda>c. fc_reservation_id c \<in> rv_id ` set (reservations db)) (commitments db)"

definition funder_constraints :: "funder_db \<Rightarrow> bool" where
  "funder_constraints db \<longleftrightarrow>
     unique_by (Some \<circ> fi_id) (institutions db) \<and>
     unique_by (Some \<circ> fp_id) (programs db) \<and>
     unique_by (\<lambda>p. Some (fp_tenant_id p, fp_program_code p)) (programs db) \<and>
     unique_by (Some \<circ> fu_id) (program_rules db) \<and>
     unique_by (Some \<circ> fa_id) (applications db) \<and>
     unique_by (Some \<circ> fo_id) (offers db) \<and>
     unique_by (Some \<circ> rv_id) (reservations db) \<and>
     unique_by (\<lambda>r. Some (rv_tenant_id r, rv_idempotency_key r)) (reservations db) \<and>
     unique_by (Some \<circ> fc_id) (commitments db) \<and>
     unique_by (Some \<circ> fc_reservation_id) (commitments db) \<and>
     unique_by (Some \<circ> fe_id) (funder_audits db) \<and>
     unique_by (Some \<circ> fx_id) (funder_outboxes db) \<and>
     unique_by (Some \<circ> fb_id) (funder_inboxes db) \<and>
     unique_by (\<lambda>i. Some (fb_source_application i, fb_event_id i)) (funder_inboxes db) \<and>
     funder_references db"

datatype funder_error =
    FunderDomainError string
  | FunderNotFoundError string
  | FunderConflictError string
  | FunderIntegrityError
  | FunderTypeError
  | FunderValueError
  | FunderValidationError
  | FunderScopeError scope_error
  | FunderHTTPError nat string

text \<open>
  What a request reads besides the database: the clock, fresh uuids, the settings, and the sort
  key of the database's collation (\<open>ORDER BY\<close> on a text column).
\<close>

record funder_env =
  fenv_now :: time
  fenv_uuid :: "nat \<Rightarrow> string"
  fenv_mcp_token :: string
  fenv_ui_token :: string
  fenv_operator_token :: string
  fenv_execution_token :: string
  fenv_event_secret :: string
  fenv_collate :: "string \<Rightarrow> string"

type_synonym 'a funder_op = "funder_db \<Rightarrow> funder_error + funder_db \<times> 'a"

section \<open>Requests\<close>

record application_request =
  aq_case_id :: string
  aq_msme_id :: string
  aq_msme_name :: string
  aq_receivable_id :: string
  aq_requested_amount :: decimal
  aq_tenor_days :: int
  aq_region :: string
  aq_industry :: string
  aq_evidence_receipt_ids :: "string list"
  aq_exposure_snapshot_reference :: string
  aq_exposure_amount :: decimal

text \<open>The validation of a contract: strings are stripped, bounds are checked.\<close>

definition valid_application :: "application_request \<Rightarrow> funder_error + application_request" where
  "valid_application b =
     (if is_finite (aq_requested_amount b) \<and> dec_pos (aq_requested_amount b) \<and> 7 \<le> aq_tenor_days b \<and> aq_tenor_days b \<le> 180
         \<and> aq_evidence_receipt_ids b \<noteq> [] \<and> is_finite (aq_exposure_amount b) \<and> 0 \<le> dec_num 0 (aq_exposure_amount b)
      then Inr \<lparr>aq_case_id = py_strip (aq_case_id b), aq_msme_id = py_strip (aq_msme_id b), aq_msme_name = py_strip (aq_msme_name b),
        aq_receivable_id = py_strip (aq_receivable_id b), aq_requested_amount = aq_requested_amount b,
        aq_tenor_days = aq_tenor_days b, aq_region = py_strip (aq_region b), aq_industry = py_strip (aq_industry b),
        aq_evidence_receipt_ids = map py_strip (aq_evidence_receipt_ids b),
        aq_exposure_snapshot_reference = py_strip (aq_exposure_snapshot_reference b), aq_exposure_amount = aq_exposure_amount b\<rparr>
      else Inl FunderValidationError)"

record review_request =
  vq_decision :: string
  vq_actor :: string
  vq_reason :: string

definition valid_review :: "review_request \<Rightarrow> funder_error + review_request" where
  "valid_review b =
     (if vq_decision b \<in> {''APPROVE'', ''DECLINE''}
      then Inr (b\<lparr>vq_actor := py_strip (vq_actor b), vq_reason := py_strip (vq_reason b)\<rparr>) else Inl FunderValidationError)"

record offer_request =
  oq_program_id :: string
  oq_approved_amount :: decimal
  oq_advance_rate :: decimal
  oq_annual_rate :: decimal
  oq_fee_amount :: decimal
  oq_tenor_days :: int
  oq_repayment_terms :: string
  oq_conditions :: "string list"
  oq_expires_at :: datetime
  oq_actor :: string

definition valid_rate :: "decimal \<Rightarrow> bool" where
  "valid_rate d \<longleftrightarrow> is_finite d \<and> dec_pos d \<and> dec_le 0 d 100"

definition valid_offer :: "offer_request \<Rightarrow> funder_error + offer_request" where
  "valid_offer b =
     (if is_finite (oq_approved_amount b) \<and> dec_pos (oq_approved_amount b) \<and> valid_rate (oq_advance_rate b)
         \<and> valid_rate (oq_annual_rate b) \<and> is_finite (oq_fee_amount b) \<and> 0 \<le> dec_num 0 (oq_fee_amount b)
         \<and> 7 \<le> oq_tenor_days b \<and> oq_tenor_days b \<le> 180
      then Inr (b\<lparr>oq_program_id := py_strip (oq_program_id b), oq_repayment_terms := py_strip (oq_repayment_terms b),
             oq_conditions := map py_strip (oq_conditions b), oq_actor := py_strip (oq_actor b)\<rparr>)
      else Inl FunderValidationError)"

record reserve_request =
  sq_amount :: decimal
  sq_idempotency_key :: string
  sq_expires_at :: datetime

definition valid_reserve :: "reserve_request \<Rightarrow> funder_error + reserve_request" where
  "valid_reserve b =
     (let key = py_strip (sq_idempotency_key b) in
      if is_finite (sq_amount b) \<and> dec_pos (sq_amount b) \<and> 8 \<le> length key \<and> length key \<le> 120
      then Inr (b\<lparr>sq_idempotency_key := key\<rparr>) else Inl FunderValidationError)"

record confirm_request =
  cf_guardian_authorization_id :: string
  cf_action_hash :: string
  cf_execution_reference :: string

definition valid_confirm :: "confirm_request \<Rightarrow> funder_error + confirm_request" where
  "valid_confirm b =
     (let c = \<lparr>cf_guardian_authorization_id = py_strip (cf_guardian_authorization_id b), cf_action_hash = py_strip (cf_action_hash b),
            cf_execution_reference = py_strip (cf_execution_reference b)\<rparr> in
      if 8 \<le> length (cf_guardian_authorization_id c) \<and> length (cf_action_hash c) = 64 \<and> 6 \<le> length (cf_execution_reference c)
      then Inr c else Inl FunderValidationError)"

definition valid_destination :: "string \<Rightarrow> funder_error + string" where
  "valid_destination s =
     (let t = py_strip s in if 8 \<le> length t \<and> length t \<le> 140 then Inr t else Inl FunderValidationError)"

record transition_request =
  tq_action :: string
  tq_actor :: string
  tq_reason :: string

definition valid_transition :: "transition_request \<Rightarrow> funder_error + transition_request" where
  "valid_transition b =
     (if tq_action b \<in> {''ACTIVATE'', ''SUSPEND'', ''CLOSE''}
      then Inr (b\<lparr>tq_actor := py_strip (tq_actor b), tq_reason := py_strip (tq_reason b)\<rparr>) else Inl FunderValidationError)"

record release_request =
  lq_reason :: string
  lq_actor :: string

definition valid_release :: "release_request \<Rightarrow> release_request" where
  "valid_release b = \<lparr>lq_reason = py_strip (lq_reason b), lq_actor = py_strip (lq_actor b)\<rparr>"

record external_event =
  xe_event_id :: string
  xe_event_type :: string
  xe_source_application :: string
  xe_tenant_id :: string
  xe_aggregate :: dict
  xe_data :: dict
  xe_correlation_id :: string

definition valid_event :: "external_event \<Rightarrow> funder_error + external_event" where
  "valid_event b =
     (if xe_event_type b \<in> {''commitment.disbursed'', ''commitment.execution_failed'', ''commitment.settled''}
         \<and> xe_source_application b \<in> {''xyena-demo-bank'', ''xyena-demo-ledger''}
      then Inr (b\<lparr>xe_event_id := py_strip (xe_event_id b), xe_tenant_id := py_strip (xe_tenant_id b),
             xe_correlation_id := py_strip (xe_correlation_id b)\<rparr>) else Inl FunderValidationError)"

section \<open>Rows as documents\<close>

definition fmoney :: "int \<Rightarrow> json" where
  "fmoney n = JStr (units_str 2 n)"

definition available :: "funding_program \<Rightarrow> int" where
  "available p = max 0 (fp_total_capacity p - fp_reserved_capacity p - fp_committed_capacity p)"

text \<open>\<open>max(Decimal("0"), x)\<close> is the literal zero, which prints without a fraction, unless \<open>x\<close> is positive.\<close>

definition available_str :: "funding_program \<Rightarrow> string" where
  "available_str p = (if available p = 0 then ''0'' else units_str 2 (available p))"

definition funder_dict :: "funder_institution \<Rightarrow> dict" where
  "funder_dict v =
     [(''id'', JStr (fi_id v)), (''legal_name'', JStr (fi_legal_name v)), (''display_name'', JStr (fi_display_name v)),
      (''institution_type'', JStr (fi_institution_type v)), (''status'', JStr (fi_status v)),
      (''supported_currencies'', JStrList (fi_supported_currencies v)), (''supported_rails'', JStrList (fi_supported_rails v)),
      (''policy_metadata'', JObj (fi_policy_metadata v)), (''version'', JInt (fi_version v))]"

definition rule_dict :: "program_rule \<Rightarrow> json" where
  "rule_dict r = JObj
     [(''id'', JStr (fu_id r)), (''rule_key'', JStr (fu_rule_key r)), (''input_field'', JStr (fu_input_field r)),
      (''operator'', JStr (fu_operator r)), (''comparison_value'', fu_comparison_value r),
      (''reason_code'', JStr (fu_reason_code r)), (''version'', JInt (fu_version r))]"

definition program_dict :: "funding_program \<Rightarrow> funder_institution option \<Rightarrow> program_rule list \<Rightarrow> dict" where
  "program_dict v funder rules =
     [(''id'', JStr (fp_id v)), (''funder_id'', JStr (fp_funder_id v)),
      (''funder_name'', JOpt (map_option fi_display_name funder)), (''program_code'', JStr (fp_program_code v)),
      (''name'', JStr (fp_name v)), (''product_type'', JStr (fp_product_type v)), (''currency'', JStr (fp_currency v)),
      (''minimum_amount'', fmoney (fp_minimum_amount v)), (''maximum_amount'', fmoney (fp_maximum_amount v)),
      (''total_capacity'', fmoney (fp_total_capacity v)), (''reserved_capacity'', fmoney (fp_reserved_capacity v)),
      (''committed_capacity'', fmoney (fp_committed_capacity v)),
      (''available_capacity'', JStr (available_str v)),
      (''advance_rate_maximum'', JStr (units_str 4 (fp_advance_rate_maximum v))),
      (''tenor_minimum_days'', JInt (fp_tenor_minimum_days v)), (''tenor_maximum_days'', JInt (fp_tenor_maximum_days v)),
      (''pricing_model'', JObj (fp_pricing_model v)), (''eligible_regions'', JStrList (fp_eligible_regions v)),
      (''eligible_industries'', JStrList (fp_eligible_industries v)),
      (''required_evidence_types'', JStrList (fp_required_evidence_types v)), (''status'', JStr (fp_status v)),
      (''policy_version'', JInt (fp_policy_version v)), (''version'', JInt (fp_version v)),
      (''rules'', JList (map rule_dict rules))]"

definition application_dict :: "funding_application \<Rightarrow> dict" where
  "application_dict v =
     [(''id'', JStr (fa_id v)), (''case_id'', JStr (fa_case_id v)), (''msme_id'', JStr (fa_msme_id v)),
      (''msme_name'', JStr (fa_msme_name v)), (''receivable_id'', JStr (fa_receivable_id v)),
      (''requested_amount'', fmoney (fa_requested_amount v)), (''currency'', JStr (fa_currency v)),
      (''tenor_days'', JInt (fa_tenor_days v)), (''region'', JStr (fa_region v)), (''industry'', JStr (fa_industry v)),
      (''evidence_receipt_ids'', JStrList (fa_evidence_receipt_ids v)),
      (''exposure_snapshot_reference'', JStr (fa_exposure_snapshot_reference v)),
      (''exposure_amount'', fmoney (fa_exposure_amount v)),
      (''eligibility_results'', JList (map JObj (fa_eligibility_results v))), (''status'', JStr (fa_status v)),
      (''submitted_at'', JStr (iso_utc (fa_submitted_at v))), (''reviewed_by'', JOpt (fa_reviewed_by v)),
      (''version'', JInt (fa_version v))]"

definition offer_dict ::
    "funding_offer \<Rightarrow> funder_institution option \<Rightarrow> funding_program option \<Rightarrow> funding_application option \<Rightarrow> dict" where
  "offer_dict v funder program application =
     [(''id'', JStr (fo_id v)), (''application_id'', JStr (fo_application_id v)),
      (''case_id'', JOpt (map_option fa_case_id application)), (''msme_name'', JOpt (map_option fa_msme_name application)),
      (''funder_id'', JStr (fo_funder_id v)), (''funder_name'', JOpt (map_option fi_display_name funder)),
      (''program_id'', JStr (fo_program_id v)), (''program_name'', JOpt (map_option fp_name program)),
      (''approved_amount'', fmoney (fo_approved_amount v)), (''advance_rate'', JStr (units_str 4 (fo_advance_rate v))),
      (''annual_rate'', JStr (units_str 4 (fo_annual_rate v))), (''fee_amount'', fmoney (fo_fee_amount v)),
      (''tenor_days'', JInt (fo_tenor_days v)), (''repayment_terms'', JStr (fo_repayment_terms v)),
      (''conditions'', JStrList (fo_conditions v)), (''expires_at'', JStr (iso_utc (fo_expires_at v))),
      (''status'', JStr (fo_status v)), (''offer_hash'', JStr (fo_offer_hash v)), (''version'', JInt (fo_version v))]"

definition reservation_dict :: "offer_reservation \<Rightarrow> dict" where
  "reservation_dict v =
     [(''id'', JStr (rv_id v)), (''offer_id'', JStr (rv_offer_id v)), (''program_id'', JStr (rv_program_id v)),
      (''reserved_amount'', fmoney (rv_reserved_amount v)), (''case_id'', JStr (rv_case_id v)),
      (''msme_id'', JStr (rv_msme_id v)), (''expires_at'', JStr (iso_utc (rv_expires_at v))), (''status'', JStr (rv_status v)),
      (''release_reference'', JOpt (rv_release_reference v)), (''commit_reference'', JOpt (rv_commit_reference v)),
      (''version'', JInt (rv_version v))]"

definition commitment_dict :: "funding_commitment \<Rightarrow> offer_reservation option \<Rightarrow> dict" where
  "commitment_dict v reservation =
     [(''id'', JStr (fc_id v)), (''reservation_id'', JStr (fc_reservation_id v)),
      (''case_id'', JOpt (map_option rv_case_id reservation)), (''msme_id'', JOpt (map_option rv_msme_id reservation)),
      (''committed_amount'', fmoney (fc_committed_amount v)),
      (''guardian_authorization_id'', JOpt (fc_guardian_authorization_id v)), (''action_hash'', JStr (fc_action_hash v)),
      (''destination_token'', JStr (fc_destination_token v)), (''status'', JStr (fc_status v)),
      (''execution_reference'', JOpt (fc_execution_reference v)), (''ledger_reference'', JOpt (fc_ledger_reference v)),
      (''settlement_status'', JStr (fc_settlement_status v)), (''version'', JInt (fc_version v))]"

definition audit_dict :: "funder_audit \<Rightarrow> dict" where
  "audit_dict v =
     [(''id'', JStr (fe_id v)), (''aggregate_type'', JStr (fe_aggregate_type v)), (''aggregate_id'', JStr (fe_aggregate_id v)),
      (''aggregate_version'', JInt (fe_aggregate_version v)), (''event_type'', JStr (fe_event_type v)),
      (''actor_type'', JStr (fe_actor_type v)), (''actor_id'', JStr (fe_actor_id v)), (''reason'', JOpt (fe_reason v)),
      (''payload'', JObj (fe_payload v)), (''correlation_id'', JStr (fe_correlation_id v)),
      (''occurred_at'', JStr (iso_utc (fe_occurred_at v)))]"

section \<open>Shared steps\<close>

definition funder_hash :: "json \<Rightarrow> string" where
  "funder_hash v = sha256_hex (json_dumps v)"

definition commitment_action :: "string \<Rightarrow> int \<Rightarrow> string \<Rightarrow> dict" where
  "commitment_action reservation_id amount destination_token =
     [(''reservation_id'', JStr reservation_id), (''amount'', fmoney amount), (''destination_token'', JStr destination_token)]"

definition eligibility_reasons :: "funding_program \<Rightarrow> decimal \<Rightarrow> int \<Rightarrow> string \<Rightarrow> string \<Rightarrow> string list" where
  "eligibility_reasons p amount tenor region industry =
     (if \<not> dec_ge 2 amount (fp_minimum_amount p) \<or> \<not> dec_le 2 amount (fp_maximum_amount p) then [''AMOUNT_OUTSIDE_PROGRAM''] else []) @
     (if \<not> dec_le 2 amount (available p) then [''PROGRAM_CAPACITY_UNAVAILABLE''] else []) @
     (if tenor < fp_tenor_minimum_days p \<or> tenor > fp_tenor_maximum_days p then [''TENOR_OUTSIDE_PROGRAM''] else []) @
     (if region \<notin> set (fp_eligible_regions p) then [''REGION_NOT_ELIGIBLE''] else []) @
     (if industry \<notin> set (fp_eligible_industries p) then [''INDUSTRY_NOT_ELIGIBLE''] else [])"

definition expect_version :: "int \<Rightarrow> int \<Rightarrow> funder_error + unit" where
  "expect_version current expected =
     (if current \<noteq> expected then Inl (FunderConflictError (''Version conflict: current version is '' @ int_str current @ ''.''))
      else Inr ())"

definition application_model :: "funder_db \<Rightarrow> string \<Rightarrow> string \<Rightarrow> funder_error + funding_application" where
  "application_model db tenant_id value_id =
     found (FunderNotFoundError ''Funding application was not found in the signed tenant scope.'')
       (scalar (\<lambda>a. fa_tenant_id a = tenant_id \<and> fa_id a = value_id) (applications db))"

definition program_model :: "funder_db \<Rightarrow> string \<Rightarrow> string \<Rightarrow> funder_error + funding_program" where
  "program_model db tenant_id value_id =
     found (FunderNotFoundError ''Funding program was not found in the signed tenant scope.'')
       (scalar (\<lambda>p. fp_tenant_id p = tenant_id \<and> fp_id p = value_id) (programs db))"

definition offer_model :: "funder_db \<Rightarrow> string \<Rightarrow> string \<Rightarrow> funder_error + funding_offer" where
  "offer_model db tenant_id value_id =
     found (FunderNotFoundError ''Funding offer was not found in the signed tenant scope.'')
       (scalar (\<lambda>v. fo_tenant_id v = tenant_id \<and> fo_id v = value_id) (offers db))"

definition reservation_model :: "funder_db \<Rightarrow> string \<Rightarrow> string \<Rightarrow> funder_error + offer_reservation" where
  "reservation_model db tenant_id value_id =
     found (FunderNotFoundError ''Offer reservation was not found in the signed tenant scope.'')
       (scalar (\<lambda>r. rv_tenant_id r = tenant_id \<and> rv_id r = value_id) (reservations db))"

definition commitment_model :: "funder_db \<Rightarrow> string \<Rightarrow> string \<Rightarrow> funder_error + funding_commitment" where
  "commitment_model db tenant_id value_id =
     found (FunderNotFoundError ''Funding commitment was not found in the signed tenant scope.'')
       (scalar (\<lambda>c. fc_tenant_id c = tenant_id \<and> fc_id c = value_id) (commitments db))"

text \<open>The aggregate an event is about: class name, tenant, id and version.\<close>

type_synonym aggregate = "string \<times> string \<times> string \<times> int"

definition funder_record ::
    "funder_env \<Rightarrow> nat \<Rightarrow> aggregate \<Rightarrow> string \<Rightarrow> string \<Rightarrow> string \<Rightarrow> dict \<Rightarrow> string \<Rightarrow> funder_db \<Rightarrow> funder_db" where
  "funder_record env k aggregate event_type actor correlation_id payload actor_type db =
     (case aggregate of (aggregate_type, tenant_id, aggregate_id, version) \<Rightarrow>
      let reason = dict_get payload ''reason'' in
      db\<lparr>funder_audits := funder_audits db @
           [\<lparr>fe_id = uuid_str (fenv_uuid env k), fe_tenant_id = tenant_id, fe_aggregate_type = aggregate_type,
             fe_aggregate_id = aggregate_id, fe_aggregate_version = version, fe_event_type = event_type,
             fe_actor_type = actor_type, fe_actor_id = actor,
             fe_reason = (if truthy reason then Some (py_str reason) else None), fe_payload = payload,
             fe_correlation_id = correlation_id, fe_occurred_at = fenv_now env\<rparr>],
         funder_outboxes := funder_outboxes db @
           [\<lparr>fx_id = uuid_str (fenv_uuid env (k + 1)), fx_tenant_id = tenant_id, fx_aggregate_type = aggregate_type,
             fx_aggregate_id = aggregate_id, fx_aggregate_version = version, fx_event_type = event_type,
             fx_payload = payload, fx_correlation_id = correlation_id, fx_published_at = None, fx_attempt_count = 0\<rparr>]\<rparr>)"

definition program_update :: "string \<Rightarrow> (funding_program \<Rightarrow> funding_program) \<Rightarrow> funder_db \<Rightarrow> funder_db" where
  "program_update i f db = db\<lparr>programs := update_rows (\<lambda>p. fp_id p = i) f (programs db)\<rparr>"

definition offer_update :: "string \<Rightarrow> (funding_offer \<Rightarrow> funding_offer) \<Rightarrow> funder_db \<Rightarrow> funder_db" where
  "offer_update i f db = db\<lparr>offers := update_rows (\<lambda>p. fo_id p = i) f (offers db)\<rparr>"

definition reservation_update :: "string \<Rightarrow> (offer_reservation \<Rightarrow> offer_reservation) \<Rightarrow> funder_db \<Rightarrow> funder_db" where
  "reservation_update i f db = db\<lparr>reservations := update_rows (\<lambda>p. rv_id p = i) f (reservations db)\<rparr>"

definition commitment_update :: "string \<Rightarrow> (funding_commitment \<Rightarrow> funding_commitment) \<Rightarrow> funder_db \<Rightarrow> funder_db" where
  "commitment_update i f db = db\<lparr>commitments := update_rows (\<lambda>p. fc_id p = i) f (commitments db)\<rparr>"

definition application_update :: "string \<Rightarrow> (funding_application \<Rightarrow> funding_application) \<Rightarrow> funder_db \<Rightarrow> funder_db" where
  "application_update i f db = db\<lparr>applications := update_rows (\<lambda>p. fa_id p = i) f (applications db)\<rparr>"

end
