(* ===== verification/FunderService.thy ===== *)
theory FunderService
  imports Funder
begin

text \<open>
  The operations of FunderService (service.py), one definition each, and the MCP tools,
  operator routes and event route that call them (mcp.py, main.py). An operation maps the
  database to an error or to the changed database and its answer; a session commits the change
  when the constraints hold. Reads return the database as it is. A request answers with the
  first error its code raises.
\<close>

section \<open>Reads\<close>

definition sum_str :: "int list \<Rightarrow> string" where
  "sum_str xs = (if xs = [] then ''0'' else units_str 2 (sum_list xs))"

definition count_rows :: "('r \<Rightarrow> bool) \<Rightarrow> 'r list \<Rightarrow> json" where
  "count_rows p xs = JInt (int (length (filter p xs)))"

definition committed_statuses :: "string set" where
  "committed_statuses = {''COMMITTED'', ''DISBURSED'', ''SETTLED''}"

definition available_total :: "funding_program list \<Rightarrow> string" where
  "available_total ps =
     (let xs = map available (filter (\<lambda>p. fp_status p = ''ACTIVE'') ps) in
      if \<forall>x\<in>set xs. x = 0 then ''0'' else units_str 2 (sum_list xs))"

definition dashboard :: "funder_env \<Rightarrow> string \<Rightarrow> json funder_op" where
  "dashboard env tenant_id db =
     (let funders = sort_key (fenv_collate env \<circ> fi_display_name) (scalars (\<lambda>v. fi_tenant_id v = tenant_id) (institutions db));
          progs = sort_key (fenv_collate env \<circ> fp_name) (scalars (\<lambda>v. fp_tenant_id v = tenant_id) (programs db));
          apps = sort_key (\<lambda>v. - fa_submitted_at v) (scalars (\<lambda>v. fa_tenant_id v = tenant_id) (applications db));
          offs = sort_key (\<lambda>v. - fo_created_at v) (scalars (\<lambda>v. fo_tenant_id v = tenant_id) (offers db));
          ress = sort_key (\<lambda>v. - rv_created_at v) (scalars (\<lambda>v. rv_tenant_id v = tenant_id) (reservations db));
          coms = sort_key (\<lambda>v. - fc_created_at v) (scalars (\<lambda>v. fc_tenant_id v = tenant_id) (commitments db));
          audits = take 30 (sort_key (\<lambda>v. - fe_occurred_at v) (scalars (\<lambda>v. fe_tenant_id v = tenant_id) (funder_audits db)));
          funder_of = (\<lambda>i. scalar (\<lambda>v. fi_id v = i) funders);
          program_of = (\<lambda>i. scalar (\<lambda>v. fp_id v = i) progs);
          application_of = (\<lambda>i. scalar (\<lambda>v. fa_id v = i) apps);
          reservation_of = (\<lambda>i. scalar (\<lambda>v. rv_id v = i) ress);
          rules_of = (\<lambda>i. scalars (\<lambda>r. fu_program_id r = i) (program_rules db))
      in Inr (db, JObj
        [(''environment'', JStr ''SYNTHETIC_NON_PRODUCTION''), (''tenant_id'', JStr tenant_id),
         (''summary'', JObj
           [(''active_programs'', count_rows (\<lambda>v. fp_status v = ''ACTIVE'') progs),
            (''available_capacity'', JStr (available_total progs)),
            (''applications_under_review'',
              count_rows (\<lambda>v. fa_status v \<in> {''RECEIVED'', ''ELIGIBILITY_CHECKED'', ''UNDER_REVIEW''}) apps),
            (''live_offers'', count_rows (\<lambda>v. fo_status v \<in> {''ISSUED'', ''RESERVED''}) offs),
            (''active_reservations'', count_rows (\<lambda>v. rv_status v = ''ACTIVE'') ress),
            (''committed_value'',
              JStr (sum_str (map fc_committed_amount (filter (\<lambda>v. fc_status v \<in> committed_statuses) coms)))),
            (''pending_outbox_events'',
              count_rows (\<lambda>v. fx_tenant_id v = tenant_id \<and> fx_published_at v = None) (funder_outboxes db))]),
         (''funders'', JList (map (JObj \<circ> funder_dict) funders)),
         (''programs'', JList (map (\<lambda>v. JObj (program_dict v (funder_of (fp_funder_id v)) (rules_of (fp_id v)))) progs)),
         (''applications'', JList (map (JObj \<circ> application_dict) apps)),
         (''offers'', JList (map (\<lambda>v. JObj (offer_dict v (funder_of (fo_funder_id v)) (program_of (fo_program_id v))
                                        (application_of (fo_application_id v)))) offs)),
         (''reservations'', JList (map (JObj \<circ> reservation_dict) ress)),
         (''commitments'', JList (map (\<lambda>v. JObj (commitment_dict v (reservation_of (fc_reservation_id v)))) coms)),
         (''audit_events'', JList (map (JObj \<circ> audit_dict) audits))]))"

definition active_programs :: "string \<Rightarrow> funder_db \<Rightarrow> funding_program list" where
  "active_programs tenant_id db = scalars (\<lambda>p. fp_tenant_id p = tenant_id \<and> fp_status p = ''ACTIVE'') (programs db)"

definition search_programs ::
    "funder_env \<Rightarrow> string \<Rightarrow> decimal \<Rightarrow> int \<Rightarrow> string \<Rightarrow> string \<Rightarrow> dict funder_op" where
  "search_programs env tenant_id amount tenor_days region industry db =
     (let funder_of = (\<lambda>i. scalar (\<lambda>v. fi_tenant_id v = tenant_id \<and> fi_id v = i) (institutions db));
          reasons = (\<lambda>p. eligibility_reasons p amount tenor_days region industry);
          ps = active_programs tenant_id db
      in Inr (db,
        [(''eligible_programs'', JList (map (\<lambda>p. JObj (program_dict p (funder_of (fp_funder_id p)) []))
                                        (filter (\<lambda>p. reasons p = []) ps))),
         (''rejected_programs'', JList (map (\<lambda>p. JObj [(''program_id'', JStr (fp_id p)), (''reason_codes'', JStrList (reasons p))])
                                        (filter (\<lambda>p. reasons p \<noteq> []) ps))),
         (''evaluated_at'', JStr (iso_utc (fenv_now env)))]))"

definition get_offer :: "string \<Rightarrow> string \<Rightarrow> dict funder_op" where
  "get_offer tenant_id offer_id db =
     sum_bind (offer_model db tenant_id offer_id) (\<lambda>v.
       Inr (db, offer_dict v (scalar (\<lambda>x. fi_id x = fo_funder_id v) (institutions db))
                  (scalar (\<lambda>x. fp_id x = fo_program_id v) (programs db))
                  (scalar (\<lambda>x. fa_id x = fo_application_id v) (applications db))))"

definition get_exposure :: "funder_env \<Rightarrow> string \<Rightarrow> string option \<Rightarrow> dict funder_op" where
  "get_exposure env tenant_id msme_id db =
     (let ress = scalars (\<lambda>r. rv_tenant_id r = tenant_id) (reservations db);
          mine = (\<lambda>c. msme_id = None \<or> msme_id = Some [] \<or>
            (case scalar (\<lambda>r. rv_id r = fc_reservation_id c) ress of None \<Rightarrow> False | Some r \<Rightarrow> Some (rv_msme_id r) = msme_id));
          filtered = filter mine (scalars (\<lambda>c. fc_tenant_id c = tenant_id) (commitments db));
          total = (\<lambda>p. JStr (sum_str (map fc_committed_amount (filter p filtered))))
      in Inr (db,
        [(''msme_id'', JOpt msme_id),
         (''committed_exposure'', total (\<lambda>c. fc_status c \<in> committed_statuses)),
         (''prepared_exposure'', total (\<lambda>c. fc_status c = ''PREPARED'')),
         (''programs'', JList (map (\<lambda>p. JObj
            [(''program_id'', JStr (fp_id p)), (''available_capacity'', JStr (available_str p)),
             (''reserved_capacity'', fmoney (fp_reserved_capacity p)), (''committed_capacity'', fmoney (fp_committed_capacity p))])
            (scalars (\<lambda>p. fp_tenant_id p = tenant_id) (programs db)))),
         (''retrieved_at'', JStr (iso_utc (fenv_now env)))]))"

section \<open>Applications and offers\<close>

definition eligibility_result :: "application_request \<Rightarrow> funding_program \<Rightarrow> dict" where
  "eligibility_result body p =
     (let reasons = eligibility_reasons p (aq_requested_amount body) (aq_tenor_days body) (aq_region body) (aq_industry body) in
      [(''program_id'', JStr (fp_id p)), (''eligible'', JBool (reasons = [])), (''reason_codes'', JStrList reasons),
       (''policy_version'', JInt (fp_policy_version p))])"

definition new_application :: "funder_env \<Rightarrow> string \<Rightarrow> application_request \<Rightarrow> dict list \<Rightarrow> funding_application" where
  "new_application env tenant_id body results =
     \<lparr>fa_id = ''application_demo_'' @ take 14 (fenv_uuid env 0), fa_tenant_id = tenant_id, fa_case_id = aq_case_id body,
      fa_msme_id = aq_msme_id body, fa_msme_name = aq_msme_name body, fa_receivable_id = aq_receivable_id body,
      fa_requested_amount = numeric 2 (aq_requested_amount body), fa_currency = ''INR'', fa_tenor_days = aq_tenor_days body,
      fa_region = aq_region body, fa_industry = aq_industry body, fa_evidence_receipt_ids = aq_evidence_receipt_ids body,
      fa_exposure_snapshot_reference = aq_exposure_snapshot_reference body,
      fa_exposure_amount = numeric 2 (aq_exposure_amount body), fa_eligibility_results = results,
      fa_status = ''ELIGIBILITY_CHECKED'', fa_submitted_at = fenv_now env, fa_reviewed_by = None, fa_version = 1\<rparr>"

definition create_application ::
    "funder_env \<Rightarrow> string \<Rightarrow> application_request \<Rightarrow> string \<Rightarrow> string \<Rightarrow> dict funder_op" where
  "create_application env tenant_id body actor correlation_id db =
     (case scalar (\<lambda>a. fa_tenant_id a = tenant_id \<and> fa_case_id a = aq_case_id body) (applications db) of
        Some _ \<Rightarrow> Inl (FunderConflictError ''A marketplace application already exists for this case.'')
      | None \<Rightarrow>
          let results = map (eligibility_result body) (active_programs tenant_id db);
              v = new_application env tenant_id body results;
              payload = [(''eligible_programs'', JInt (int (length (filter (\<lambda>r. dict_get r ''eligible'' = JBool True) results))))]
          in Inr (funder_record env 1 (''FundingApplication'', tenant_id, fa_id v, 1) ''application.eligibility_checked''
                    actor correlation_id payload ''USER'' (db\<lparr>applications := applications db @ [v]\<rparr>),
                  dict_union (application_dict v)
                    [(''requested_amount'', JStr (decimal_str (aq_requested_amount body))),
                     (''exposure_amount'', JStr (decimal_str (aq_exposure_amount body)))]))"

definition review_application ::
    "funder_env \<Rightarrow> string \<Rightarrow> string \<Rightarrow> int \<Rightarrow> review_request \<Rightarrow> string \<Rightarrow> dict funder_op" where
  "review_application env tenant_id application_id expected_version body correlation_id db =
     sum_bind (application_model db tenant_id application_id) (\<lambda>v.
     sum_bind (expect_version (fa_version v) expected_version) (\<lambda>_.
     if fa_status v \<notin> {''ELIGIBILITY_CHECKED'', ''UNDER_REVIEW''}
     then Inl (FunderDomainError ''Only an eligibility-checked application can be reviewed.'')
     else if vq_decision body = ''APPROVE'' \<and> \<not> (\<exists>r\<in>set (fa_eligibility_results v). truthy (dict_get r ''eligible''))
     then Inl (FunderDomainError ''Application has no eligible active funding program.'')
     else
       let f = (\<lambda>a. a\<lparr>fa_status := (if vq_decision body = ''APPROVE'' then ''APPROVED'' else ''DECLINED''),
                      fa_reviewed_by := Some (vq_actor body), fa_version := fa_version a + 1\<rparr>)
       in Inr (funder_record env 0 (''FundingApplication'', tenant_id, application_id, fa_version v + 1)
                 (''application.'' @ py_lower (fa_status (f v))) (vq_actor body) correlation_id
                 [(''reason'', JStr (vq_reason body))] ''USER'' (application_update application_id f db),
               application_dict (f v))))"

definition offer_terms :: "string \<Rightarrow> string \<Rightarrow> offer_request \<Rightarrow> dict" where
  "offer_terms application_id program_id body =
     [(''application_id'', JStr application_id), (''program_id'', JStr program_id),
      (''amount'', JStr (decimal_str (oq_approved_amount body))), (''annual_rate'', JStr (decimal_str (oq_annual_rate body))),
      (''fee_amount'', JStr (decimal_str (oq_fee_amount body))), (''tenor_days'', JInt (oq_tenor_days body)),
      (''expires_at'', JStr (isoformat (oq_expires_at body)))]"

definition new_offer :: "funder_env \<Rightarrow> string \<Rightarrow> string \<Rightarrow> funding_program \<Rightarrow> offer_request \<Rightarrow> funding_offer" where
  "new_offer env tenant_id application_id program body =
     \<lparr>fo_id = ''offer_demo_'' @ take 14 (fenv_uuid env 0), fo_tenant_id = tenant_id, fo_application_id = application_id,
      fo_funder_id = fp_funder_id program, fo_program_id = fp_id program,
      fo_approved_amount = numeric 2 (oq_approved_amount body), fo_advance_rate = numeric 4 (oq_advance_rate body),
      fo_annual_rate = numeric 4 (oq_annual_rate body), fo_fee_amount = numeric 2 (oq_fee_amount body),
      fo_tenor_days = oq_tenor_days body, fo_repayment_terms = oq_repayment_terms body, fo_conditions = oq_conditions body,
      fo_expires_at = instant (oq_expires_at body), fo_status = ''ISSUED'',
      fo_offer_hash = funder_hash (JObj (offer_terms application_id (fp_id program) body)), fo_version = 1,
      fo_created_at = fenv_now env\<rparr>"

definition issue_offer ::
    "funder_env \<Rightarrow> string \<Rightarrow> string \<Rightarrow> int \<Rightarrow> offer_request \<Rightarrow> string \<Rightarrow> dict funder_op" where
  "issue_offer env tenant_id application_id expected_version body correlation_id db =
     sum_bind (application_model db tenant_id application_id) (\<lambda>application.
     sum_bind (expect_version (fa_version application) expected_version) (\<lambda>_.
     if fa_status application \<noteq> ''APPROVED''
     then Inl (FunderDomainError ''Offers require an approved funding application.'')
     else sum_bind (program_model db tenant_id (oq_program_id body)) (\<lambda>program.
     if fp_status program \<noteq> ''ACTIVE'' then Inl (FunderDomainError ''The selected program is not active.'')
     else if \<not> dec_le 2 (oq_approved_amount body) (fa_requested_amount application)
             \<or> \<not> dec_le 2 (oq_approved_amount body) (fp_maximum_amount program)
     then Inl (FunderDomainError ''Offer exceeds the application or program amount bound.'')
     else if \<not> dec_le 4 (oq_advance_rate body) (fp_advance_rate_maximum program)
     then Inl (FunderDomainError ''Offer advance rate exceeds the active program policy.'')
     else if \<not> (fp_tenor_minimum_days program \<le> oq_tenor_days body \<and> oq_tenor_days body \<le> fp_tenor_maximum_days program)
     then Inl (FunderDomainError ''Offer tenor is outside the active program range.'')
     else if instant (oq_expires_at body) \<le> fenv_now env
     then Inl (FunderDomainError ''Offer expiry must be in the future.'')
     else
       let v = new_offer env tenant_id application_id program body
       in Inr (funder_record env 1 (''FundingOffer'', tenant_id, fo_id v, 1) ''offer.issued'' (oq_actor body) correlation_id
                 [(''application_id'', JStr application_id), (''offer_hash'', JStr (fo_offer_hash v))] ''USER''
                 (application_update application_id (\<lambda>a. a\<lparr>fa_version := fa_version a + 1\<rparr>)
                   (db\<lparr>offers := offers db @ [v]\<rparr>)),
               dict_union (offer_dict v None (Some program) (Some application))
                 [(''approved_amount'', JStr (decimal_str (oq_approved_amount body))),
                  (''advance_rate'', JStr (decimal_str (oq_advance_rate body))),
                  (''annual_rate'', JStr (decimal_str (oq_annual_rate body))),
                  (''fee_amount'', JStr (decimal_str (oq_fee_amount body))),
                  (''expires_at'', JStr (isoformat (oq_expires_at body)))]))))"

section \<open>Reservations\<close>

definition new_reservation ::
    "funder_env \<Rightarrow> string \<Rightarrow> funding_offer \<Rightarrow> funding_application \<Rightarrow> reserve_request \<Rightarrow> offer_reservation" where
  "new_reservation env tenant_id offer application body =
     \<lparr>rv_id = ''reservation_demo_'' @ take 14 (fenv_uuid env 0), rv_tenant_id = tenant_id, rv_offer_id = fo_id offer,
      rv_program_id = fo_program_id offer, rv_reserved_amount = numeric 2 (sq_amount body),
      rv_case_id = fa_case_id application, rv_msme_id = fa_msme_id application, rv_expires_at = instant (sq_expires_at body),
      rv_idempotency_key = sq_idempotency_key body, rv_status = ''ACTIVE'', rv_release_reference = None,
      rv_commit_reference = None, rv_version = 1, rv_created_at = fenv_now env\<rparr>"

definition reserve_capacity :: "decimal \<Rightarrow> funding_program \<Rightarrow> funding_program" where
  "reserve_capacity amount p =
     p\<lparr>fp_reserved_capacity := numeric_add 2 (fp_reserved_capacity p) amount, fp_version := fp_version p + 1\<rparr>"

definition reserve_offer ::
    "funder_env \<Rightarrow> string \<Rightarrow> string \<Rightarrow> reserve_request \<Rightarrow> string \<Rightarrow> string \<Rightarrow> dict funder_op" where
  "reserve_offer env tenant_id offer_id body actor correlation_id db =
     (case scalar (\<lambda>r. rv_tenant_id r = tenant_id \<and> rv_idempotency_key r = sq_idempotency_key body) (reservations db) of
        Some existing \<Rightarrow>
          if rv_offer_id existing \<noteq> offer_id \<or> \<not> dec_eq 2 (sq_amount body) (rv_reserved_amount existing)
          then Inl (FunderConflictError ''Idempotency key was already used for another reservation request.'')
          else Inr (db, reservation_dict existing)
      | None \<Rightarrow>
     sum_bind (offer_model db tenant_id offer_id) (\<lambda>offer.
     if fo_status offer \<noteq> ''ISSUED'' \<or> fo_expires_at offer \<le> fenv_now env
     then Inl (FunderDomainError ''Only a current issued offer can be reserved.'')
     else if \<not> dec_le 2 (sq_amount body) (fo_approved_amount offer)
     then Inl (FunderDomainError ''Reservation exceeds the approved offer amount.'')
     else sum_bind (application_model db tenant_id (fo_application_id offer)) (\<lambda>application.
     sum_bind (program_model db tenant_id (fo_program_id offer)) (\<lambda>program.
     if fp_status program \<noteq> ''ACTIVE'' \<or> \<not> dec_le 2 (sq_amount body) (available program)
     then Inl (FunderConflictError ''Program capacity is no longer available.'')
     else if instant (sq_expires_at body) \<le> fenv_now env \<or> fo_expires_at offer < instant (sq_expires_at body)
     then Inl (FunderDomainError ''Reservation expiry must be current and no later than the offer expiry.'')
     else
       let v = new_reservation env tenant_id offer application body
       in Inr (funder_record env 1 (''OfferReservation'', tenant_id, rv_id v, 1) ''offer.reserved'' actor correlation_id
                 [(''program_id'', JStr (fp_id program)), (''reserved_amount'', JStr (decimal_str (sq_amount body)))] ''USER''
                 (offer_update offer_id (\<lambda>x. x\<lparr>fo_status := ''RESERVED'', fo_version := fo_version x + 1\<rparr>)
                   (program_update (fp_id program) (reserve_capacity (sq_amount body))
                     (db\<lparr>reservations := reservations db @ [v]\<rparr>))),
               dict_union (reservation_dict v)
                 [(''reserved_amount'', JStr (decimal_str (sq_amount body))),
                  (''expires_at'', JStr (isoformat (sq_expires_at body)))])))))"

definition free_capacity :: "int \<Rightarrow> funding_program \<Rightarrow> funding_program" where
  "free_capacity amount p =
     p\<lparr>fp_reserved_capacity := max 0 (fp_reserved_capacity p - amount), fp_version := fp_version p + 1\<rparr>"

definition release_reservation ::
    "funder_env \<Rightarrow> string \<Rightarrow> string \<Rightarrow> int \<Rightarrow> release_request \<Rightarrow> string \<Rightarrow> dict funder_op" where
  "release_reservation env tenant_id reservation_id expected_version body correlation_id db =
     sum_bind (reservation_model db tenant_id reservation_id) (\<lambda>v.
     sum_bind (expect_version (rv_version v) expected_version) (\<lambda>_.
     if rv_status v \<noteq> ''ACTIVE'' then Inl (FunderDomainError ''Only an active reservation can be released.'')
     else sum_bind (program_model db tenant_id (rv_program_id v)) (\<lambda>program.
     sum_bind (offer_model db tenant_id (rv_offer_id v)) (\<lambda>offer.
       let f = (\<lambda>r. r\<lparr>rv_status := ''RELEASED'',
                      rv_release_reference := Some (''release_demo_'' @ take 12 (fenv_uuid env 0)), rv_version := rv_version r + 1\<rparr>);
           g = (\<lambda>x. x\<lparr>fo_status := (if fenv_now env < fo_expires_at x then ''ISSUED'' else ''EXPIRED''),
                      fo_version := fo_version x + 1\<rparr>)
       in Inr (funder_record env 1 (''OfferReservation'', tenant_id, reservation_id, rv_version v + 1) ''reservation.released''
                 (lq_actor body) correlation_id [(''reason'', JStr (lq_reason body))] ''USER''
                 (reservation_update reservation_id f (offer_update (rv_offer_id v) g
                   (program_update (rv_program_id v) (free_capacity (rv_reserved_amount v)) db))),
               reservation_dict (f v))))))"

section \<open>Commitments\<close>

definition new_commitment :: "funder_env \<Rightarrow> string \<Rightarrow> offer_reservation \<Rightarrow> string \<Rightarrow> funding_commitment" where
  "new_commitment env tenant_id reservation destination_token =
     \<lparr>fc_id = ''commitment_demo_'' @ take 14 (fenv_uuid env 0), fc_tenant_id = tenant_id,
      fc_reservation_id = rv_id reservation, fc_committed_amount = rv_reserved_amount reservation,
      fc_guardian_authorization_id = None,
      fc_action_hash = funder_hash (JObj (commitment_action (rv_id reservation) (rv_reserved_amount reservation) destination_token)),
      fc_destination_token = destination_token, fc_status = ''PREPARED'', fc_execution_reference = None,
      fc_ledger_reference = None, fc_settlement_status = ''PENDING'', fc_version = 1, fc_created_at = fenv_now env\<rparr>"

definition prepare_commitment ::
    "funder_env \<Rightarrow> string \<Rightarrow> string \<Rightarrow> string \<Rightarrow> string \<Rightarrow> string \<Rightarrow> dict funder_op" where
  "prepare_commitment env tenant_id reservation_id destination_token actor correlation_id db =
     sum_bind (reservation_model db tenant_id reservation_id) (\<lambda>reservation.
     if rv_status reservation \<noteq> ''ACTIVE'' \<or> rv_expires_at reservation \<le> fenv_now env
     then Inl (FunderDomainError ''Commitment preparation requires a current active reservation.'')
     else case scalar (\<lambda>c. fc_reservation_id c = rv_id reservation) (commitments db) of
       Some existing \<Rightarrow> Inr (db, commitment_dict existing (Some reservation))
     | None \<Rightarrow>
         let v = new_commitment env tenant_id reservation destination_token
         in Inr (funder_record env 1 (''FundingCommitment'', tenant_id, fc_id v, 1) ''commitment.prepared'' actor correlation_id
                   [(''action_hash'', JStr (fc_action_hash v)), (''reservation_id'', JStr (rv_id reservation))] ''USER''
                   (db\<lparr>commitments := commitments db @ [v]\<rparr>),
                 commitment_dict v (Some reservation)))"

definition commit_capacity :: "int \<Rightarrow> funding_program \<Rightarrow> funding_program" where
  "commit_capacity amount p =
     p\<lparr>fp_reserved_capacity := max 0 (fp_reserved_capacity p - amount),
       fp_committed_capacity := fp_committed_capacity p + amount, fp_version := fp_version p + 1\<rparr>"

definition confirm :: "confirm_request \<Rightarrow> funding_commitment \<Rightarrow> funding_commitment" where
  "confirm body c =
     c\<lparr>fc_guardian_authorization_id := Some (cf_guardian_authorization_id body),
       fc_execution_reference := Some (cf_execution_reference body), fc_status := ''COMMITTED'',
       fc_version := fc_version c + 1\<rparr>"

definition commit_reservation :: "string \<Rightarrow> offer_reservation \<Rightarrow> offer_reservation" where
  "commit_reservation commitment_id r =
     r\<lparr>rv_status := ''COMMITTED'', rv_commit_reference := Some commitment_id, rv_version := rv_version r + 1\<rparr>"

definition confirm_commitment ::
    "funder_env \<Rightarrow> string \<Rightarrow> string \<Rightarrow> confirm_request \<Rightarrow> string \<Rightarrow> string \<Rightarrow> dict funder_op" where
  "confirm_commitment env tenant_id commitment_id body actor correlation_id db =
     sum_bind (commitment_model db tenant_id commitment_id) (\<lambda>v.
     if fc_status v = ''COMMITTED'' \<and> fc_execution_reference v = Some (cf_execution_reference body) then
       sum_bind (reservation_model db tenant_id (fc_reservation_id v)) (\<lambda>reservation.
         Inr (db, commitment_dict v (Some reservation)))
     else if fc_status v \<noteq> ''PREPARED'' then Inl (FunderDomainError ''Only a prepared commitment can be confirmed.'')
     else if \<not> list_all (\<lambda>c. of_char c < (128::nat)) (cf_action_hash body) then Inl FunderTypeError
     else if fc_action_hash v \<noteq> cf_action_hash body
     then Inl (FunderConflictError ''Guardian action hash does not match the prepared commitment.'')
     else sum_bind (reservation_model db tenant_id (fc_reservation_id v)) (\<lambda>reservation.
     if rv_status reservation \<noteq> ''ACTIVE'' \<or> rv_expires_at reservation \<le> fenv_now env
     then Inl (FunderDomainError ''Reservation expired before commitment confirmation.'')
     else sum_bind (program_model db tenant_id (rv_program_id reservation)) (\<lambda>program.
       Inr (funder_record env 0 (''FundingCommitment'', tenant_id, commitment_id, fc_version v + 1) ''commitment.confirmed''
                 actor correlation_id
                 [(''guardian_authorization_id'', JStr (cf_guardian_authorization_id body)),
                  (''execution_reference'', JStr (cf_execution_reference body))] ''USER''
                 (commitment_update commitment_id (confirm body) (reservation_update (rv_id reservation) (commit_reservation (fc_id v))
                   (program_update (fp_id program) (commit_capacity (fc_committed_amount v)) db))),
               commitment_dict (confirm body v) (Some (commit_reservation (fc_id v) reservation))))))"

section \<open>Programs\<close>

definition transitions :: "((string \<times> string) \<times> string) list" where
  "transitions =
     [((''DRAFT'', ''ACTIVATE''), ''ACTIVE''), ((''SUSPENDED'', ''ACTIVATE''), ''ACTIVE''),
      ((''ACTIVE'', ''SUSPEND''), ''SUSPENDED''), ((''ACTIVE'', ''CLOSE''), ''CLOSED''),
      ((''SUSPENDED'', ''CLOSE''), ''CLOSED'')]"

definition transition_program ::
    "funder_env \<Rightarrow> string \<Rightarrow> string \<Rightarrow> int \<Rightarrow> transition_request \<Rightarrow> string \<Rightarrow> dict funder_op" where
  "transition_program env tenant_id program_id expected_version body correlation_id db =
     sum_bind (program_model db tenant_id program_id) (\<lambda>v.
     sum_bind (expect_version (fp_version v) expected_version) (\<lambda>_.
     case map_of transitions (fp_status v, tq_action body) of
       None \<Rightarrow> Inl (FunderDomainError (''Program cannot transition from '' @ fp_status v @ '' using '' @ tq_action body @ ''.''))
     | Some target \<Rightarrow>
         let f = (\<lambda>p. p\<lparr>fp_status := target, fp_version := fp_version p + 1\<rparr>)
         in Inr (funder_record env 0 (''FundingProgram'', tenant_id, program_id, fp_version v + 1)
                   (''program.'' @ py_lower target) (tq_actor body) correlation_id [(''reason'', JStr (tq_reason body))] ''USER''
                   (program_update program_id f db),
                 program_dict (f v) None [])))"

section \<open>Events of other services\<close>

text \<open>\<open>int(s)\<close> of a string: surrounding whitespace, a sign, digits with single underscores between them.\<close>

fun digit_groups :: "bool \<Rightarrow> string \<Rightarrow> bool" where
  "digit_groups after [] = after"
| "digit_groups after (c # cs) =
     (if is_digit c then digit_groups True cs else if c = CHR ''_'' then after \<and> digit_groups False cs else False)"

definition int_of_str :: "string \<Rightarrow> int option" where
  "int_of_str s =
     (case split_sign (py_strip s) of (neg, t) \<Rightarrow>
        if digit_groups False t
        then let n = int (str_nat (filter is_digit t)) in Some (if neg then - n else n) else None)"

definition py_int :: "json \<Rightarrow> funder_error + int" where
  "py_int v =
     (case v of
        JInt n \<Rightarrow> Inr n
      | JBool b \<Rightarrow> Inr (if b then 1 else 0)
      | JStr s \<Rightarrow> found FunderValueError (int_of_str s)
      | _ \<Rightarrow> Inl FunderTypeError)"

definition get_default :: "dict \<Rightarrow> string \<Rightarrow> json \<Rightarrow> json" where
  "get_default d k v = (case map_of d k of None \<Rightarrow> v | Some x \<Rightarrow> x)"

definition event_effect :: "external_event \<Rightarrow> int \<Rightarrow> funding_commitment \<Rightarrow> funding_commitment" where
  "event_effect event version c =
     (let reference = py_str (get_default (xe_data event) ''ledger_reference'' (JStr [])) in
      if xe_event_type event = ''commitment.disbursed''
      then c\<lparr>fc_status := ''DISBURSED'', fc_ledger_reference := (if reference = [] then None else Some reference), fc_version := version\<rparr>
      else if xe_event_type event = ''commitment.settled''
      then c\<lparr>fc_status := ''SETTLED'', fc_settlement_status := ''SETTLED'', fc_version := version\<rparr>
      else c\<lparr>fc_status := ''EXECUTION_REVIEW_REQUIRED'', fc_settlement_status := ''UNKNOWN'', fc_version := version\<rparr>)"

definition consume_external_event :: "funder_env \<Rightarrow> external_event \<Rightarrow> string \<Rightarrow> dict funder_op" where
  "consume_external_event env event signed_payload_hash db =
     (case scalar (\<lambda>i. fb_source_application i = xe_source_application event \<and> fb_event_id i = xe_event_id event)
             (funder_inboxes db) of
        Some _ \<Rightarrow> Inr (db, [(''status'', JStr ''DUPLICATE_IGNORED''), (''event_id'', JStr (xe_event_id event))])
      | None \<Rightarrow>
          let inbox = \<lparr>fb_id = uuid_str (fenv_uuid env 0), fb_source_application = xe_source_application event,
                fb_event_id = xe_event_id event, fb_event_type = xe_event_type event, fb_tenant_id = xe_tenant_id event,
                fb_processed_at = Some (fenv_now env), fb_status = ''PROCESSED'', fb_payload_hash = signed_payload_hash\<rparr>;
              db1 = db\<lparr>funder_inboxes := funder_inboxes db @ [inbox]\<rparr>;
              commitment_id = py_str (get_default (xe_aggregate event) ''id'' (JStr []))
          in sum_bind (commitment_model db (xe_tenant_id event) commitment_id) (\<lambda>v.
             sum_bind (py_int (get_default (xe_aggregate event) ''version'' (JInt 0))) (\<lambda>version.
             if version \<le> fc_version v
             then Inr (db1, [(''status'', JStr ''STALE_VERSION_IGNORED''), (''event_id'', JStr (xe_event_id event))])
             else
               Inr (funder_record env 1 (''FundingCommitment'', xe_tenant_id event, commitment_id, version) (xe_event_type event)
                      (xe_source_application event) (xe_correlation_id event) (xe_data event) ''SERVICE''
                      (commitment_update commitment_id (event_effect event version) db1),
                    [(''status'', JStr ''PROCESSED''), (''event_id'', JStr (xe_event_id event)),
                     (''commitment_id'', JStr commitment_id)]))))"

end
