(* ===== verification/FunderApp.thy ===== *)
theory FunderApp
  imports FunderService
begin

text \<open>
  The two front doors of the marketplace: the MCP tools (mcp.py) behind the bearer token of
  \<open>MCPBearerAuthMiddleware\<close> and the signed runtime scope, and the HTTP routes (main.py) behind the
  dashboard, operator and execution tokens, with the route for signed events of the bank and the
  ledger. \<open>funder_step\<close> serves one request; a request is refused before it reaches the
  database or runs one operation in one session. The health checks, the event stream and the
  static pages, which change nothing, are left out.
\<close>

section \<open>Tokens\<close>

text \<open>\<open>compare_digest\<close> of two strings raises \<open>TypeError\<close> when one has a character outside ASCII.\<close>

definition digest_equal :: "string \<Rightarrow> string \<Rightarrow> funder_error + bool" where
  "digest_equal a b =
     (if list_all (\<lambda>c. of_char c < (128::nat)) (a @ b) then Inr (a = b) else Inl FunderTypeError)"

definition require_token :: "string \<Rightarrow> string \<Rightarrow> string option \<Rightarrow> funder_error + unit" where
  "require_token detail expected supplied =
     (case supplied of
        None \<Rightarrow> Inl (FunderHTTPError 401 detail)
      | Some t \<Rightarrow> sum_bind (digest_equal t expected) (\<lambda>ok. if ok then Inr () else Inl (FunderHTTPError 401 detail)))"

definition bearer_auth :: "string \<Rightarrow> string \<Rightarrow> funder_error + unit" where
  "bearer_auth expected authorization =
     (let scheme = takeWhile (\<lambda>c. c \<noteq> CHR '' '') authorization;
          supplied = tl (dropWhile (\<lambda>c. c \<noteq> CHR '' '') authorization);
          refused = Inl (FunderHTTPError 401 ''Invalid Funder MCP token.'')
      in if py_lower scheme \<noteq> ''bearer'' then refused
         else sum_bind (digest_equal supplied expected) (\<lambda>ok. if ok then Inr () else refused))"

definition strip_quotes :: "string \<Rightarrow> string" where
  "strip_quotes s = rev (dropWhile (\<lambda>c. c = CHR 0x22) (rev (dropWhile (\<lambda>c. c = CHR 0x22) s)))"

definition parse_version :: "string \<Rightarrow> funder_error + int" where
  "parse_version if_match =
     (let s = py_strip if_match; t = (if take 2 s = ''W/'' then drop 2 s else s)
      in found (FunderHTTPError 400 ''If-Match must contain an integer version.'') (int_of_str (strip_quotes t)))"

fun error_response :: "funder_error \<Rightarrow> (nat \<times> dict) option" where
  "error_response (FunderNotFoundError m) = Some (404, [(''code'', JStr ''NOT_FOUND''), (''detail'', JStr m)])"
| "error_response (FunderConflictError m) = Some (409, [(''code'', JStr ''CONFLICT''), (''detail'', JStr m)])"
| "error_response (FunderDomainError m) = Some (422, [(''code'', JStr ''DOMAIN_RULE_REJECTED''), (''detail'', JStr m)])"
| "error_response (FunderHTTPError n m) = Some (n, [(''detail'', JStr m)])"
| "error_response _ = None"

section \<open>MCP tools\<close>

definition funder_receipt :: "string \<Rightarrow> string \<Rightarrow> string \<Rightarrow> string \<Rightarrow> string list \<Rightarrow> string" where
  "funder_receipt mcp_token call_id kind tenant_id refs =
     ''evr_funder_demo_'' @ take 32 (hexdigest (hmac_sha256 (utf8 mcp_token) (utf8 (json_dumps (JObj
       [(''call_id'', JStr call_id), (''kind'', JStr kind), (''tenant_id'', JStr tenant_id), (''refs'', JStrList (sort refs))])))))"

definition evidence_result :: "funder_env \<Rightarrow> runtime_scope \<Rightarrow> string \<Rightarrow> dict \<Rightarrow> json" where
  "evidence_result env scope kind result =
     (let refs = map (py_str \<circ> snd) (filter (\<lambda>kv. fst kv \<in> {''id'', ''program_id'', ''offer_id'', ''reservation_id'', ''case_id''}
                                                     \<and> snd kv \<noteq> JNull) result)
      in JObj (dict_union result
           [(''source_system'', JStr ''xyena-demo-funder''), (''retrieved_at'', JStr (iso_utc (fenv_now env))),
            (''evidence_receipt_id'', JStr (funder_receipt (fenv_mcp_token env) (sc_call_id scope) kind (sc_tenant_id scope) refs)),
            (''security_flags'', JStrList [''SYNTHETIC_DATA'', ''EXTERNAL_MARKETPLACE''])]))"

datatype funder_tool =
    ProgramsSearch decimal int string string
  | OffersRequest application_request
  | OffersGet string
  | OffersReserve string reserve_request
  | ReservationsRelease string int string
  | CommitmentsPrepare string string
  | CommitmentsConfirm string confirm_request
  | ExposureGet "string option"

fun funder_tool_kind :: "funder_tool \<Rightarrow> string" where
  "funder_tool_kind (ProgramsSearch _ _ _ _) = ''programs.search''"
| "funder_tool_kind (OffersRequest _) = ''offers.request''"
| "funder_tool_kind (OffersGet _) = ''offers.get''"
| "funder_tool_kind (OffersReserve _ _) = ''offers.reserve''"
| "funder_tool_kind (ReservationsRelease _ _ _) = ''reservations.release''"
| "funder_tool_kind (CommitmentsPrepare _ _) = ''commitments.prepare''"
| "funder_tool_kind (CommitmentsConfirm _ _) = ''commitments.confirm''"
| "funder_tool_kind (ExposureGet _) = ''exposure.get''"

fun funder_tool_op :: "funder_env \<Rightarrow> runtime_scope \<Rightarrow> funder_tool \<Rightarrow> dict funder_op" where
  "funder_tool_op env scope (ProgramsSearch amount tenor_days region industry) db =
     search_programs env (sc_tenant_id scope) amount tenor_days region industry db"
| "funder_tool_op env scope (OffersRequest b) db =
     sum_bind (valid_application b) (\<lambda>body. create_application env (sc_tenant_id scope) body (sc_agent_name scope) (sc_correlation_id scope) db)"
| "funder_tool_op env scope (OffersGet offer_id) db = get_offer (sc_tenant_id scope) offer_id db"
| "funder_tool_op env scope (OffersReserve offer_id b) db =
     sum_bind (valid_reserve b) (\<lambda>body. reserve_offer env (sc_tenant_id scope) offer_id body (sc_agent_name scope) (sc_correlation_id scope) db)"
| "funder_tool_op env scope (ReservationsRelease reservation_id expected_version reason) db =
     release_reservation env (sc_tenant_id scope) reservation_id expected_version
       (valid_release \<lparr>lq_reason = reason, lq_actor = sc_agent_name scope\<rparr>) (sc_correlation_id scope) db"
| "funder_tool_op env scope (CommitmentsPrepare reservation_id destination) db =
     sum_bind (valid_destination destination) (\<lambda>token.
       prepare_commitment env (sc_tenant_id scope) reservation_id token (sc_agent_name scope) (sc_correlation_id scope) db)"
| "funder_tool_op env scope (CommitmentsConfirm commitment_id b) db =
     sum_bind (valid_confirm b) (\<lambda>body.
       confirm_commitment env (sc_tenant_id scope) commitment_id body (sc_agent_name scope) (sc_correlation_id scope) db)"
| "funder_tool_op env scope (ExposureGet msme_id) db = get_exposure env (sc_tenant_id scope) msme_id db"

section \<open>HTTP routes\<close>

definition funder_demo_tenant :: string where
  "funder_demo_tenant = ''00000000-0000-4000-8000-000000000101''"

datatype funder_route =
    DashboardRoute
  | SectionRoute string
  | OfferRoute string
  | ExposureRoute "string option"
  | TransitionRoute string transition_request string
  | CreateApplicationRoute application_request
  | ReviewRoute string review_request string
  | IssueOfferRoute string offer_request string
  | ReserveRoute string reserve_request
  | ReleaseRoute string release_request string
  | PrepareRoute string string
  | ConfirmRoute string confirm_request

fun route_auth :: "funder_env \<Rightarrow> funder_route \<Rightarrow> string option \<Rightarrow> funder_error + unit" where
  "route_auth env DashboardRoute = require_token ''Invalid marketplace dashboard token.'' (fenv_ui_token env)"
| "route_auth env (SectionRoute _) = require_token ''Invalid marketplace dashboard token.'' (fenv_ui_token env)"
| "route_auth env (OfferRoute _) = require_token ''Invalid marketplace dashboard token.'' (fenv_ui_token env)"
| "route_auth env (ExposureRoute _) = require_token ''Invalid marketplace dashboard token.'' (fenv_ui_token env)"
| "route_auth env (ConfirmRoute _ _) = require_token ''Invalid execution gateway token.'' (fenv_execution_token env)"
| "route_auth env _ = require_token ''Invalid funder operator token.'' (fenv_operator_token env)"

definition answer :: "dict funder_op \<Rightarrow> json funder_op" where
  "answer body db = sum_bind (body db) (\<lambda>(db', d). Inr (db', JObj d))"

text \<open>
  The correlation id of a route is a fresh uuid, drawn after the validation of the request and
  before the operation, whose own uuids follow it. A section of the dashboard is one of its lists.
\<close>

definition later :: "funder_env \<Rightarrow> funder_env" where
  "later env = env\<lparr>fenv_uuid := \<lambda>k. fenv_uuid env (k + 1)\<rparr>"

definition correlation :: "funder_env \<Rightarrow> string" where
  "correlation env = uuid_str (fenv_uuid env 0)"

fun route_op :: "funder_env \<Rightarrow> funder_route \<Rightarrow> json funder_op" where
  "route_op env DashboardRoute db = dashboard env funder_demo_tenant db"
| "route_op env (SectionRoute name) db =
     (if name \<in> {''funders'', ''programs'', ''applications'', ''offers'', ''reservations'', ''commitments''}
      then sum_bind (dashboard env funder_demo_tenant db) (\<lambda>(db', v).
             Inr (db', case v of JObj d \<Rightarrow> dict_get d name | _ \<Rightarrow> JNull))
      else Inl (FunderHTTPError 404 ''Not Found''))"
| "route_op env (OfferRoute offer_id) db = answer (get_offer funder_demo_tenant offer_id) db"
| "route_op env (ExposureRoute msme_id) db = answer (get_exposure env funder_demo_tenant msme_id) db"
| "route_op env (TransitionRoute program_id b if_match) db =
     sum_bind (valid_transition b) (\<lambda>body. sum_bind (parse_version if_match) (\<lambda>version.
       answer (transition_program (later env) funder_demo_tenant program_id version body (correlation env)) db))"
| "route_op env (CreateApplicationRoute b) db =
     sum_bind (valid_application b) (\<lambda>body.
       answer (create_application (later env) funder_demo_tenant body ''funder_operator'' (correlation env)) db)"
| "route_op env (ReviewRoute application_id b if_match) db =
     sum_bind (valid_review b) (\<lambda>body. sum_bind (parse_version if_match) (\<lambda>version.
       answer (review_application (later env) funder_demo_tenant application_id version body (correlation env)) db))"
| "route_op env (IssueOfferRoute application_id b if_match) db =
     sum_bind (valid_offer b) (\<lambda>body. sum_bind (parse_version if_match) (\<lambda>version.
       answer (issue_offer (later env) funder_demo_tenant application_id version body (correlation env)) db))"
| "route_op env (ReserveRoute offer_id b) db =
     sum_bind (valid_reserve b) (\<lambda>body.
       answer (reserve_offer (later env) funder_demo_tenant offer_id body ''funder_operator'' (correlation env)) db)"
| "route_op env (ReleaseRoute reservation_id b if_match) db =
     sum_bind (parse_version if_match) (\<lambda>version.
       answer (release_reservation (later env) funder_demo_tenant reservation_id version (valid_release b) (correlation env)) db)"
| "route_op env (PrepareRoute reservation_id destination) db =
     sum_bind (valid_destination destination) (\<lambda>token.
       answer (prepare_commitment (later env) funder_demo_tenant reservation_id token ''funder_operator'' (correlation env)) db)"
| "route_op env (ConfirmRoute commitment_id b) db =
     sum_bind (valid_confirm b) (\<lambda>body.
       answer (confirm_commitment (later env) funder_demo_tenant commitment_id body ''execution_gateway'' (correlation env)) db)"

text \<open>The body \<open>raw\<close> of an event is given by its bytes, the event as the framework parsed it from them.\<close>

definition consume_event :: "funder_env \<Rightarrow> external_event \<Rightarrow> nat list \<Rightarrow> string option \<Rightarrow> json funder_op" where
  "consume_event env event raw signature db =
     sum_bind (valid_event event) (\<lambda>body.
     case signature of
       None \<Rightarrow> Inl (FunderHTTPError 401 ''Event signature is required.'')
     | Some s \<Rightarrow>
         if s = [] then Inl (FunderHTTPError 401 ''Event signature is required.'')
         else sum_bind (digest_equal s (hexdigest (hmac_sha256 (utf8 (fenv_event_secret env)) raw))) (\<lambda>ok.
         if \<not> ok then Inl (FunderHTTPError 401 ''Event signature is invalid.'')
         else if xe_tenant_id body \<noteq> funder_demo_tenant \<or> dict_get (xe_aggregate body) ''type'' \<noteq> JStr ''commitment''
         then Inl (FunderHTTPError 403 ''Event is outside the marketplace tenant scope.'')
         else answer (consume_external_event env body (hexdigest (sha256_bytes raw))) db))"

section \<open>One request\<close>

datatype funder_request =
    ToolCall string dict funder_tool
  | RouteCall "string option" funder_route
  | EventCall external_event "nat list" "string option"

definition funder_session :: "json funder_op \<Rightarrow> funder_db \<Rightarrow> funder_db \<times> (funder_error + json)" where
  "funder_session = session funder_constraints FunderIntegrityError"

fun funder_op :: "funder_env \<Rightarrow> funder_request \<Rightarrow> json funder_op" where
  "funder_op env (ToolCall authorization meta tool) db =
     sum_bind (bearer_auth (fenv_mcp_token env) authorization) (\<lambda>_.
     case funder_verify_runtime_scope (fenv_mcp_token env) meta (''funder.'' @ funder_tool_kind tool) of
       Inl e \<Rightarrow> Inl (FunderScopeError e)
     | Inr scope \<Rightarrow> sum_bind (funder_tool_op env scope tool db) (\<lambda>(db', result).
         Inr (db', evidence_result env scope (funder_tool_kind tool) result)))"
| "funder_op env (RouteCall token route) db = sum_bind (route_auth env route token) (\<lambda>_. route_op env route db)"
| "funder_op env (EventCall event raw signature) db = consume_event env event raw signature db"

fun funder_step :: "funder_env \<times> funder_request \<Rightarrow> funder_db \<Rightarrow> funder_db \<times> (funder_error + json)" where
  "funder_step (env, request) db = funder_session (funder_op env request) db"

end
