(* ===== verification/FunderInvariant.thy ===== *)
theory FunderInvariant
  imports FunderApp
begin

text \<open>
  The books of the marketplace. What a program holds for active reservations and for committed
  ones is the sum over its reservations plus a constant the program started with; the two
  together never exceed its total capacity. \<open>capacity_move\<close> is the one argument behind every
  operation: an update of one program that follows the change of its reservations keeps the books.
\<close>

section \<open>The invariant\<close>

definition held_capacity :: "string \<Rightarrow> string \<Rightarrow> offer_reservation list \<Rightarrow> int" where
  "held_capacity status program_id rs =
     sum_list (map (\<lambda>r. if rv_program_id r = program_id \<and> rv_status r = status then rv_reserved_amount r else 0) rs)"

definition reserved_base :: "funder_db \<Rightarrow> funding_program \<Rightarrow> int" where
  "reserved_base db p = fp_reserved_capacity p - held_capacity ''ACTIVE'' (fp_id p) (reservations db)"

definition committed_base :: "funder_db \<Rightarrow> funding_program \<Rightarrow> int" where
  "committed_base db p = fp_committed_capacity p - held_capacity ''COMMITTED'' (fp_id p) (reservations db)"

definition program_ok :: "funder_db \<Rightarrow> funding_program \<Rightarrow> bool" where
  "program_ok db p \<longleftrightarrow> 0 \<le> reserved_base db p \<and> 0 \<le> committed_base db p
     \<and> fp_reserved_capacity p + fp_committed_capacity p \<le> fp_total_capacity p"

definition commitment_ok :: "funder_db \<Rightarrow> funding_commitment \<Rightarrow> bool" where
  "commitment_ok db c \<longleftrightarrow>
     fc_action_hash c = funder_hash (JObj (commitment_action (fc_reservation_id c) (fc_committed_amount c) (fc_destination_token c)))
     \<and> (\<forall>r\<in>set (reservations db). rv_id r = fc_reservation_id c \<longrightarrow> rv_reserved_amount r = fc_committed_amount c)"

definition funder_inv :: "funder_db \<Rightarrow> bool" where
  "funder_inv db \<longleftrightarrow> funder_constraints db \<and> (\<forall>p\<in>set (programs db). program_ok db p)
     \<and> (\<forall>r\<in>set (reservations db). 0 \<le> rv_reserved_amount r) \<and> (\<forall>c\<in>set (commitments db). commitment_ok db c)"

definition same_books :: "funder_db \<Rightarrow> funding_program \<Rightarrow> funder_db \<Rightarrow> funding_program \<Rightarrow> bool" where
  "same_books db p db' p' \<longleftrightarrow> fp_id p' = fp_id p \<and> fp_total_capacity p' = fp_total_capacity p
     \<and> reserved_base db' p' = reserved_base db p \<and> committed_base db' p' = committed_base db p"

definition funder_le :: "funder_db \<Rightarrow> funder_db \<Rightarrow> bool" where
  "funder_le db db' \<longleftrightarrow> (\<forall>p\<in>set (programs db). \<exists>p'\<in>set (programs db'). same_books db p db' p')"

interpretation program_rows: keyed_rows fp_id .
interpretation reservation_rows: keyed_rows rv_id .
interpretation commitment_rows: keyed_rows fc_id .

lemma funder_constraints_keys:
  assumes "funder_constraints db"
  shows "program_rows.wf (programs db)" "reservation_rows.wf (reservations db)" "commitment_rows.wf (commitments db)"
  using assms by (simp_all add: funder_constraints_def program_rows.wf_def reservation_rows.wf_def commitment_rows.wf_def comp_def)

section \<open>Sums over reservations\<close>

lemma held_snoc: "held_capacity s i (rs @ [r]) = held_capacity s i rs + (if rv_program_id r = i \<and> rv_status r = s then rv_reserved_amount r else 0)"
  by (simp add: held_capacity_def)

lemma held_nonneg: "(\<And>r. r \<in> set rs \<Longrightarrow> 0 \<le> rv_reserved_amount r) \<Longrightarrow> 0 \<le> held_capacity s i rs"
  by (auto simp: held_capacity_def intro!: sum_list_nonneg)

lemma held_member:
  assumes "\<forall>r\<in>set rs. 0 \<le> rv_reserved_amount r" "r \<in> set rs" "rv_status r = s"
  shows "rv_reserved_amount r \<le> held_capacity s (rv_program_id r) rs"
  using assms
proof (induction rs)
  case (Cons x rs)
  have rest: "0 \<le> held_capacity s (rv_program_id r) rs" using Cons.prems(1) by (intro held_nonneg) simp
  show ?case
  proof (cases "x = r")
    case True
    with rest Cons.prems(3) show ?thesis by (simp add: held_capacity_def)
  next
    case False
    with Cons.IH Cons.prems have "rv_reserved_amount r \<le> held_capacity s (rv_program_id r) rs" by simp
    moreover have "0 \<le> rv_reserved_amount x" using Cons.prems(1) by simp
    ultimately show ?thesis by (simp add: held_capacity_def)
  qed
qed simp

lemma held_update:
  assumes "reservation_rows.wf rs" "r \<in> set rs" "rv_status r = ''ACTIVE''" "status \<noteq> ''ACTIVE''"
    and f: "rv_status (f r) = status" "rv_program_id (f r) = rv_program_id r" "rv_reserved_amount (f r) = rv_reserved_amount r"
  shows "held_capacity s i (update_rows (\<lambda>x. rv_id x = rv_id r) f rs) = held_capacity s i rs +
    (if i = rv_program_id r then if s = ''ACTIVE'' then - rv_reserved_amount r else if s = status then rv_reserved_amount r else 0 else 0)"
  unfolding held_capacity_def by (subst reservation_rows.sum_update [OF assms(1,2) refl]) (use assms in auto)

section \<open>One move of capacity\<close>

lemma capacity_move:
  assumes inv: "\<forall>p\<in>set (programs db). program_ok db p"
    and programs: "programs db' = update_rows (\<lambda>p. fp_id p = i) f (programs db)"
    and keeps: "\<And>p. fp_id (f p) = fp_id p" "\<And>p. fp_total_capacity (f p) = fp_total_capacity p"
    and active: "\<And>j. held_capacity ''ACTIVE'' j (reservations db') = held_capacity ''ACTIVE'' j (reservations db) + (if j = i then a else 0)"
    and committed: "\<And>j. held_capacity ''COMMITTED'' j (reservations db') = held_capacity ''COMMITTED'' j (reservations db) + (if j = i then c else 0)"
    and moves: "\<And>p. p \<in> set (programs db) \<Longrightarrow> fp_id p = i \<Longrightarrow>
      fp_reserved_capacity (f p) = fp_reserved_capacity p + a \<and> fp_committed_capacity (f p) = fp_committed_capacity p + c
      \<and> fp_reserved_capacity p + a + fp_committed_capacity p + c \<le> fp_total_capacity p"
  shows "(\<forall>p\<in>set (programs db'). program_ok db' p) \<and> funder_le db db'"
proof -
  have step: "program_ok db' (if fp_id p = i then f p else p) \<and> same_books db p db' (if fp_id p = i then f p else p)"
    if p: "p \<in> set (programs db)" for p
  proof (cases "fp_id p = i")
    case True
    from moves [OF p True] inv p active [of i] committed [of i] keeps [of p] True
    show ?thesis by (auto simp: program_ok_def same_books_def reserved_base_def committed_base_def)
  next
    case False
    with inv p active [of "fp_id p"] committed [of "fp_id p"] show ?thesis
      by (auto simp: program_ok_def same_books_def reserved_base_def committed_base_def)
  qed
  have "program_ok db' p'" if p': "p' \<in> set (programs db')" for p'
  proof -
    from p' obtain p where "p \<in> set (programs db)" "p' = (if fp_id p = i then f p else p)"
      unfolding programs set_update_rows by blast
    with step show ?thesis by blast
  qed
  moreover have "\<exists>p'\<in>set (programs db'). same_books db p db' p'" if p: "p \<in> set (programs db)" for p
    using step [OF p] p unfolding programs set_update_rows by blast
  ultimately show ?thesis by (simp add: funder_le_def)
qed

lemma funder_le_refl [simp]: "funder_le db db"
  by (auto simp: funder_le_def same_books_def)

lemma funder_le_trans: "funder_le a b \<Longrightarrow> funder_le b c \<Longrightarrow> funder_le a c"
  by (fastforce simp: funder_le_def same_books_def)

text \<open>Operations that leave programs and reservations alone, or touch a program beside its capacity.\<close>

lemma books_untouched:
  assumes "funder_inv db" "funder_constraints db'" "programs db' = programs db" "reservations db' = reservations db"
    and "\<forall>c\<in>set (commitments db'). commitment_ok db c"
  shows "funder_inv db' \<and> funder_le db db'"
  using assms
  by (simp add: funder_inv_def program_ok_def commitment_ok_def funder_le_def same_books_def reserved_base_def committed_base_def) blast

lemma funder_record_simps [simp]:
  "programs (funder_record env k ag ev ac co pa ty db) = programs db"
  "reservations (funder_record env k ag ev ac co pa ty db) = reservations db"
  "commitments (funder_record env k ag ev ac co pa ty db) = commitments db"
  "offers (funder_record env k ag ev ac co pa ty db) = offers db"
  "applications (funder_record env k ag ev ac co pa ty db) = applications db"
  "institutions (funder_record env k ag ev ac co pa ty db) = institutions db"
  "program_rules (funder_record env k ag ev ac co pa ty db) = program_rules db"
  by (simp_all add: funder_record_def Let_def split: prod.split)

lemma funder_update_simps [simp]:
  "programs (program_update i fp db) = update_rows (\<lambda>p. fp_id p = i) fp (programs db)"
  "reservations (program_update i fp db) = reservations db"
  "commitments (program_update i fp db) = commitments db"
  "programs (offer_update i fo db) = programs db"
  "reservations (offer_update i fo db) = reservations db"
  "commitments (offer_update i fo db) = commitments db"
  "programs (application_update i fa db) = programs db"
  "reservations (application_update i fa db) = reservations db"
  "commitments (application_update i fa db) = commitments db"
  "programs (reservation_update i fr db) = programs db"
  "reservations (reservation_update i fr db) = update_rows (\<lambda>r. rv_id r = i) fr (reservations db)"
  "commitments (reservation_update i fr db) = commitments db"
  "programs (commitment_update i fc db) = programs db"
  "reservations (commitment_update i fc db) = reservations db"
  "commitments (commitment_update i fc db) = update_rows (\<lambda>c. fc_id c = i) fc (commitments db)"
  by (simp_all add: program_update_def offer_update_def application_update_def reservation_update_def commitment_update_def)

lemma commitments_untouched:
  assumes "\<forall>c\<in>set (commitments db). commitment_ok db c"
    and "\<And>r'. r' \<in> set rs' \<Longrightarrow> \<exists>r\<in>set (reservations db). rv_id r = rv_id r' \<and> rv_reserved_amount r = rv_reserved_amount r'"
    and "reservations db' = rs'"
  shows "\<forall>c\<in>set (commitments db). commitment_ok db' c"
  using assms unfolding commitment_ok_def by metis

section \<open>Every operation keeps the books\<close>

lemma program_model_row:
  assumes "program_model db t i = Inr p"
  shows "p \<in> set (programs db)" "fp_id p = i" "fp_tenant_id p = t"
  using assms by (auto simp: program_model_def dest: scalar_Some)

lemma reservation_model_row:
  assumes "reservation_model db t i = Inr r"
  shows "r \<in> set (reservations db)" "rv_id r = i" "rv_tenant_id r = t"
  using assms by (auto simp: reservation_model_def dest: scalar_Some)

lemma commitment_model_row:
  assumes "commitment_model db t i = Inr c"
  shows "c \<in> set (commitments db)" "fc_id c = i" "fc_tenant_id c = t"
  using assms by (auto simp: commitment_model_def dest: scalar_Some)

lemma create_application_books:
  assumes "create_application env t body actor co db = Inr (db', d)"
  shows "programs db' = programs db" "reservations db' = reservations db" "commitments db' = commitments db"
  using assms by (auto simp: create_application_def Let_def split: option.splits)

lemma review_application_books:
  assumes "review_application env t i v body co db = Inr (db', d)"
  shows "programs db' = programs db" "reservations db' = reservations db" "commitments db' = commitments db"
  using assms by (auto simp: review_application_def sum_bind_Inr Let_def split: if_splits)

lemma issue_offer_books:
  assumes "issue_offer env t i v body co db = Inr (db', d)"
  shows "programs db' = programs db" "reservations db' = reservations db" "commitments db' = commitments db"
  using assms by (auto simp: issue_offer_def sum_bind_Inr Let_def split: if_splits)

lemma transition_program_ok:
  assumes "transition_program env t i v body co db = Inr (db', d)" "funder_inv db" "funder_constraints db'"
  shows "funder_inv db' \<and> funder_le db db'"
proof -
  from assms(1) obtain target where target: "programs db' = update_rows (\<lambda>p. fp_id p = i)
       (\<lambda>p. p\<lparr>fp_status := target, fp_version := fp_version p + 1\<rparr>) (programs db)"
    and same: "reservations db' = reservations db" "commitments db' = commitments db"
    by (auto simp: transition_program_def sum_bind_Inr Let_def split: option.splits)
  have "(\<forall>p\<in>set (programs db'). program_ok db' p) \<and> funder_le db db'"
    by (rule capacity_move [OF _ target, where a = 0 and c = 0])
       (use assms(2) in \<open>auto simp: funder_inv_def program_ok_def same\<close>)
  with assms(2,3) same show ?thesis by (simp add: funder_inv_def commitment_ok_def)
qed

text \<open>What a reservation that is made has found, and what it changes.\<close>

lemma reserve_offer_made:
  assumes "reserve_offer env t oid body actor co db = Inr (db', d)" "db' \<noteq> db"
  obtains offer application program where
    "offer_model db t oid = Inr offer" "fo_status offer = ''ISSUED''" "fenv_now env < fo_expires_at offer"
    "dec_le 2 (sq_amount body) (fo_approved_amount offer)"
    "program_model db t (fo_program_id offer) = Inr program" "fp_status program = ''ACTIVE''"
    "dec_le 2 (sq_amount body) (available program)"
    "programs db' = update_rows (\<lambda>p. fp_id p = fo_program_id offer) (reserve_capacity (sq_amount body)) (programs db)"
    "reservations db' = reservations db @ [new_reservation env t offer application body]" "commitments db' = commitments db"
proof -
  from assms have none: "scalar (\<lambda>r. rv_tenant_id r = t \<and> rv_idempotency_key r = sq_idempotency_key body) (reservations db) = None"
    by (auto simp: reserve_offer_def split: option.splits if_splits)
  with assms(1) obtain offer application program where
    "offer_model db t oid = Inr offer" "fo_status offer = ''ISSUED''" "fenv_now env < fo_expires_at offer"
    "dec_le 2 (sq_amount body) (fo_approved_amount offer)"
    "program_model db t (fo_program_id offer) = Inr program" "fp_status program = ''ACTIVE''"
    "dec_le 2 (sq_amount body) (available program)"
    "programs db' = update_rows (\<lambda>p. fp_id p = fp_id program) (reserve_capacity (sq_amount body)) (programs db)"
    "reservations db' = reservations db @ [new_reservation env t offer application body]" "commitments db' = commitments db"
    by (auto simp: reserve_offer_def sum_bind_Inr Let_def split: if_splits)
  with that program_model_row(2) [of db t "fo_program_id offer" program] show ?thesis by metis
qed

lemma reserve_offer_ok:
  assumes made: "reserve_offer env t oid body actor co db = Inr (db', d)" and pos: "dec_pos (sq_amount body)"
    and inv: "funder_inv db" and con: "funder_constraints db'"
  shows "funder_inv db' \<and> funder_le db db'"
proof (cases "db' = db")
  case True
  with inv show ?thesis by simp
next
  case False
  obtain offer application program where program: "program_model db t (fo_program_id offer) = Inr program"
    and room: "dec_le 2 (sq_amount body) (available program)"
    and progs: "programs db' = update_rows (\<lambda>p. fp_id p = fo_program_id offer) (reserve_capacity (sq_amount body)) (programs db)"
    and res: "reservations db' = reservations db @ [new_reservation env t offer application body]"
    and com: "commitments db' = commitments db"
    using reserve_offer_made [OF made False] by blast
  define v where "v = new_reservation env t offer application body"
  define a where "a = numeric 2 (sq_amount body)"
  have v: "rv_program_id v = fo_program_id offer" "rv_status v = ''ACTIVE''" "rv_reserved_amount v = a"
    by (simp_all add: v_def new_reservation_def a_def)
  note num = dec_pos_num [OF pos, of 2]
  have a: "0 \<le> a" unfolding a_def using num by (rule numeric_nonneg)
  have fits: "a \<le> available program" unfolding a_def using room num by (rule numeric_le)
  have books: "(\<forall>p\<in>set (programs db'). program_ok db' p) \<and> funder_le db db'"
  proof (rule capacity_move [OF _ progs, where a = a and c = 0])
    show "\<forall>p\<in>set (programs db). program_ok db p" using inv by (simp add: funder_inv_def)
  next
    fix p assume p: "p \<in> set (programs db)" "fp_id p = fo_program_id offer"
    have "p = program"
      using program_rows.row_eq [OF funder_constraints_keys(1) p(1) program_model_row(1) [OF program]] inv p(2)
        program_model_row(2) [OF program] by (simp add: funder_inv_def)
    moreover have "program_ok db p" using inv p(1) by (simp add: funder_inv_def)
    moreover have "0 \<le> held_capacity ''ACTIVE'' (fp_id p) (reservations db)" using inv by (intro held_nonneg) (simp add: funder_inv_def)
    ultimately show "fp_reserved_capacity (reserve_capacity (sq_amount body) p) = fp_reserved_capacity p + a \<and>
        fp_committed_capacity (reserve_capacity (sq_amount body) p) = fp_committed_capacity p + 0 \<and>
        fp_reserved_capacity p + a + fp_committed_capacity p + 0 \<le> fp_total_capacity p"
      using fits num numeric_add_eq [of 2 "sq_amount body" "fp_reserved_capacity p"]
      by (auto simp: reserve_capacity_def a_def program_ok_def reserved_base_def available_def)
  qed (simp_all add: reserve_capacity_def res held_snoc v_def [symmetric] v)
  have refs: "fc_reservation_id c \<noteq> rv_id v" if c: "c \<in> set (commitments db)" for c
  proof -
    have "fc_reservation_id c \<in> rv_id ` set (reservations db)"
      using inv c by (auto simp: funder_inv_def funder_constraints_def funder_references_def list_all_iff)
    moreover have "rv_id r \<noteq> rv_id v" if "r \<in> set (reservations db)" for r
      using con that by (auto simp: funder_constraints_def res v_def)
    ultimately show ?thesis by (metis imageE)
  qed
  have coms: "\<forall>c\<in>set (commitments db'). commitment_ok db' c"
    using inv refs [symmetric] unfolding funder_inv_def commitment_ok_def res com v_def [symmetric] by auto
  have nonneg: "\<forall>r\<in>set (reservations db'). 0 \<le> rv_reserved_amount r"
    using inv a unfolding funder_inv_def res v_def [symmetric] by (auto simp: v)
  from con books coms nonneg show ?thesis by (simp add: funder_inv_def)
qed

text \<open>An active reservation leaves the active ones: released, or committed.\<close>

lemma active_room:
  assumes "funder_inv db" "r \<in> set (reservations db)" "rv_status r = ''ACTIVE''" "p \<in> set (programs db)" "fp_id p = rv_program_id r"
  shows "rv_reserved_amount r \<le> fp_reserved_capacity p"
proof -
  have "rv_reserved_amount r \<le> held_capacity ''ACTIVE'' (rv_program_id r) (reservations db)"
    by (rule held_member) (use assms in \<open>simp_all add: funder_inv_def\<close>)
  moreover have "0 \<le> reserved_base db p" using assms(1,4) by (simp add: funder_inv_def program_ok_def)
  ultimately show ?thesis using assms(5) by (simp add: reserved_base_def)
qed

lemma reservation_leaves:
  assumes inv: "funder_inv db" and con: "funder_constraints db'"
    and r: "r \<in> set (reservations db)" "rv_status r = ''ACTIVE''" and st: "status \<noteq> ''ACTIVE''"
    and f: "\<And>x. rv_id (f x) = rv_id x" "\<And>x. rv_program_id (f x) = rv_program_id x"
      "\<And>x. rv_reserved_amount (f x) = rv_reserved_amount x" "\<And>x. rv_status (f x) = status"
    and res: "reservations db' = update_rows (\<lambda>x. rv_id x = rv_id r) f (reservations db)"
    and progs: "programs db' = update_rows (\<lambda>p. fp_id p = rv_program_id r) g (programs db)"
    and g: "\<And>p. fp_id (g p) = fp_id p" "\<And>p. fp_total_capacity (g p) = fp_total_capacity p"
      "\<And>p. fp_reserved_capacity (g p) = max 0 (fp_reserved_capacity p - rv_reserved_amount r)"
      "\<And>p. fp_committed_capacity (g p) = fp_committed_capacity p + (if status = ''COMMITTED'' then rv_reserved_amount r else 0)"
    and com: "\<And>c'. c' \<in> set (commitments db') \<Longrightarrow> \<exists>c\<in>set (commitments db).
       fc_action_hash c' = fc_action_hash c \<and> fc_reservation_id c' = fc_reservation_id c \<and>
       fc_committed_amount c' = fc_committed_amount c \<and> fc_destination_token c' = fc_destination_token c"
  shows "funder_inv db' \<and> funder_le db db'"
proof -
  have wf: "reservation_rows.wf (reservations db)" using inv by (simp add: funder_inv_def funder_constraints_keys)
  note hu = held_update [where f = f and status = status, OF wf r st f(4) f(2) f(3)]
  have books: "(\<forall>p\<in>set (programs db'). program_ok db' p) \<and> funder_le db db'"
  proof (rule capacity_move [OF _ progs, where a = "- rv_reserved_amount r"
        and c = "if status = ''COMMITTED'' then rv_reserved_amount r else 0"])
    show "\<forall>p\<in>set (programs db). program_ok db p" using inv by (simp add: funder_inv_def)
  next
    fix p assume p: "p \<in> set (programs db)" "fp_id p = rv_program_id r"
    have "0 \<le> rv_reserved_amount r" using inv r by (simp add: funder_inv_def)
    moreover have "program_ok db p" using inv p(1) by (simp add: funder_inv_def)
    ultimately show "fp_reserved_capacity (g p) = fp_reserved_capacity p + - rv_reserved_amount r \<and>
        fp_committed_capacity (g p) = fp_committed_capacity p + (if status = ''COMMITTED'' then rv_reserved_amount r else 0) \<and>
        fp_reserved_capacity p + - rv_reserved_amount r + fp_committed_capacity p
          + (if status = ''COMMITTED'' then rv_reserved_amount r else 0) \<le> fp_total_capacity p"
      using active_room [OF inv r p] by (simp add: g program_ok_def)
  qed (simp_all add: g res hu)
  have amounts: "\<exists>y\<in>set (reservations db). rv_id y = rv_id x \<and> rv_reserved_amount y = rv_reserved_amount x"
    if "x \<in> set (reservations db')" for x
    using that unfolding res set_update_rows by (auto simp: f split: if_splits)
  have coms: "commitment_ok db' c'" if c': "c' \<in> set (commitments db')" for c'
  proof -
    obtain c where c: "c \<in> set (commitments db)" "fc_action_hash c' = fc_action_hash c"
       "fc_reservation_id c' = fc_reservation_id c" "fc_committed_amount c' = fc_committed_amount c"
       "fc_destination_token c' = fc_destination_token c"
      using com [OF c'] by blast
    have "commitment_ok db c" using inv c(1) by (simp add: funder_inv_def)
    then show ?thesis using amounts unfolding commitment_ok_def c(2-5) by metis
  qed
  have nonneg: "\<forall>x\<in>set (reservations db'). 0 \<le> rv_reserved_amount x"
    using amounts inv unfolding funder_inv_def by metis
  from con books coms nonneg show ?thesis by (simp add: funder_inv_def)
qed

lemma release_reservation_ok:
  assumes "release_reservation env t rid v body co db = Inr (db', d)" "funder_inv db" "funder_constraints db'"
  shows "funder_inv db' \<and> funder_le db db'"
proof -
  from assms(1) obtain r where r: "reservation_model db t rid = Inr r" "rv_status r = ''ACTIVE''"
    and res: "reservations db' = update_rows (\<lambda>x. rv_id x = rid) (\<lambda>r. r\<lparr>rv_status := ''RELEASED'',
        rv_release_reference := Some (''release_demo_'' @ take 12 (fenv_uuid env 0)), rv_version := rv_version r + 1\<rparr>) (reservations db)"
    and progs: "programs db' = update_rows (\<lambda>p. fp_id p = rv_program_id r) (free_capacity (rv_reserved_amount r)) (programs db)"
    and com: "commitments db' = commitments db"
    by (auto simp: release_reservation_def sum_bind_Inr Let_def split: if_splits)
  note row = reservation_model_row [OF r(1)]
  show ?thesis
    by (rule reservation_leaves [OF assms(2,3) row(1) r(2) _ _ _ _ _ res [folded row(2)] progs, of "''RELEASED''"])
       (auto simp: free_capacity_def com)
qed

lemma confirm_commitment_made:
  assumes "confirm_commitment env t cid body actor co db = Inr (db', d)" "db' \<noteq> db"
  obtains c r program where
    "commitment_model db t cid = Inr c" "fc_status c = ''PREPARED''" "fc_action_hash c = cf_action_hash body"
    "reservation_model db t (fc_reservation_id c) = Inr r" "rv_status r = ''ACTIVE''" "fenv_now env < rv_expires_at r"
    "program_model db t (rv_program_id r) = Inr program"
    "commitments db' = update_rows (\<lambda>x. fc_id x = cid) (confirm body) (commitments db)"
    "reservations db' = update_rows (\<lambda>x. rv_id x = rv_id r) (commit_reservation (fc_id c)) (reservations db)"
    "programs db' = update_rows (\<lambda>p. fp_id p = rv_program_id r) (commit_capacity (fc_committed_amount c)) (programs db)"
proof -
  from assms obtain c r program where
    "commitment_model db t cid = Inr c" "fc_status c = ''PREPARED''" "fc_action_hash c = cf_action_hash body"
    "reservation_model db t (fc_reservation_id c) = Inr r" "rv_status r = ''ACTIVE''" "fenv_now env < rv_expires_at r"
    "program_model db t (rv_program_id r) = Inr program"
    "commitments db' = update_rows (\<lambda>x. fc_id x = cid) (confirm body) (commitments db)"
    "reservations db' = update_rows (\<lambda>x. rv_id x = rv_id r) (commit_reservation (fc_id c)) (reservations db)"
    "programs db' = update_rows (\<lambda>p. fp_id p = fp_id program) (commit_capacity (fc_committed_amount c)) (programs db)"
    by (auto simp: confirm_commitment_def sum_bind_Inr Let_def split: if_splits)
  with that [of c r program] program_model_row(2) [of db t "rv_program_id r" program] show ?thesis by simp
qed

lemma confirm_commitment_ok:
  assumes made: "confirm_commitment env t cid body actor co db = Inr (db', d)" and inv: "funder_inv db" and con: "funder_constraints db'"
  shows "funder_inv db' \<and> funder_le db db'"
proof (cases "db' = db")
  case True
  with inv show ?thesis by simp
next
  case False
  obtain c r where c: "commitment_model db t cid = Inr c"
    and r: "reservation_model db t (fc_reservation_id c) = Inr r" "rv_status r = ''ACTIVE''"
    and com: "commitments db' = update_rows (\<lambda>x. fc_id x = cid) (confirm body) (commitments db)"
    and res: "reservations db' = update_rows (\<lambda>x. rv_id x = rv_id r) (commit_reservation (fc_id c)) (reservations db)"
    and progs: "programs db' = update_rows (\<lambda>p. fp_id p = rv_program_id r) (commit_capacity (fc_committed_amount c)) (programs db)"
    by (rule confirm_commitment_made [OF made False])
  note row = reservation_model_row [OF r(1)]
  have "commitment_ok db c" using inv commitment_model_row(1) [OF c] by (simp add: funder_inv_def)
  then have amount: "fc_committed_amount c = rv_reserved_amount r"
    using row(1,2) by (simp add: commitment_ok_def)
  show ?thesis
    by (rule reservation_leaves [OF inv con row(1) r(2) _ _ _ _ _ res progs, of "''COMMITTED''"])
       (auto simp: commit_capacity_def amount com set_update_rows confirm_def commit_reservation_def)
qed

lemma prepare_commitment_ok:
  assumes "prepare_commitment env t rid tok actor co db = Inr (db', d)" "funder_inv db" "funder_constraints db'"
  shows "funder_inv db' \<and> funder_le db db'"
proof (cases "db' = db")
  case True
  with assms show ?thesis by simp
next
  case False
  with assms(1) obtain r where r: "reservation_model db t rid = Inr r"
    and db': "commitments db' = commitments db @ [new_commitment env t r tok]"
      "programs db' = programs db" "reservations db' = reservations db"
    by (auto simp: prepare_commitment_def sum_bind_Inr Let_def split: if_splits option.splits)
  note row = reservation_model_row [OF r]
  have wf: "reservation_rows.wf (reservations db)" using assms(2) by (simp add: funder_inv_def funder_constraints_keys)
  have "commitment_ok db (new_commitment env t r tok)"
    using reservation_rows.row_eq [OF wf _ row(1)] by (auto simp: commitment_ok_def new_commitment_def)
  then show ?thesis
    using assms(2) by (intro books_untouched [OF assms(2,3) db'(2,3)]) (auto simp: db'(1) funder_inv_def)
qed

lemma event_effect_keeps:
  "fc_action_hash (event_effect e n c) = fc_action_hash c" "fc_reservation_id (event_effect e n c) = fc_reservation_id c"
  "fc_committed_amount (event_effect e n c) = fc_committed_amount c" "fc_destination_token (event_effect e n c) = fc_destination_token c"
  by (simp_all add: event_effect_def Let_def)

lemma consume_external_event_ok:
  assumes "consume_external_event env e h db = Inr (db', d)" "funder_inv db" "funder_constraints db'"
  shows "funder_inv db' \<and> funder_le db db'"
proof -
  from assms(1) have same: "programs db' = programs db" "reservations db' = reservations db"
    and com: "\<forall>c'\<in>set (commitments db'). \<exists>c\<in>set (commitments db). c' = c \<or> (\<exists>n. c' = event_effect e n c)"
    by (auto simp: consume_external_event_def sum_bind_Inr Let_def set_update_rows split: option.splits if_splits) blast+
  from assms(2) have old: "\<forall>c\<in>set (commitments db). commitment_ok db c" by (simp add: funder_inv_def)
  have "\<forall>c\<in>set (commitments db'). commitment_ok db c"
    using com old unfolding commitment_ok_def by (metis event_effect_keeps)
  then show ?thesis by (rule books_untouched [OF assms(2,3) same])
qed

end
