(* ===== verification/FunderSeed.thy ===== *)
theory FunderSeed
  imports FunderInvariant
begin

text \<open>
  The demonstration data of the marketplace (seed.py): \<open>funder_seed_data\<close> is
  \<open>seed_demo_data\<close>, which the application runs at every start and which inserts nothing when
  the first funder is already there. The data keep the books: the reservation that is active
  is covered by the reserved capacity of its program, and the prepared commitment carries the
  hash of its own terms.
\<close>

section \<open>Rows\<close>

definition seed_funder :: "string \<Rightarrow> string \<Rightarrow> string \<Rightarrow> string \<Rightarrow> string list \<Rightarrow> string \<Rightarrow> int \<Rightarrow> string \<Rightarrow> int \<Rightarrow> funder_institution" where
  "seed_funder i legal display kind rails token sla band version =
     \<lparr>fi_id = i, fi_tenant_id = funder_demo_tenant, fi_legal_name = legal, fi_display_name = display,
      fi_institution_type = kind, fi_status = ''ACTIVE'', fi_supported_currencies = [''INR''], fi_supported_rails = rails,
      fi_settlement_account_token = token,
      fi_policy_metadata = [(''review_sla_hours'', JInt sla), (''risk_band_max'', JStr band)], fi_version = version\<rparr>"

definition seed_funders :: "funder_institution list" where
  "seed_funders =
     [seed_funder ''funder_demo_aurum'' ''Aurum Working Capital Private Limited'' ''Aurum Capital'' ''NBFC''
        [''BANK_TRANSFER'', ''ESCROW''] ''acct_tok_aurum_demo_81'' 4 ''B'' 3,
      seed_funder ''funder_demo_summit'' ''Summit Trade Finance Limited'' ''Summit Trade'' ''TRADE_FINANCE''
        [''BANK_TRANSFER''] ''acct_tok_summit_demo_44'' 8 ''B'' 2,
      seed_funder ''funder_demo_civic'' ''Civic Cooperative Credit Society'' ''Civic Cooperative'' ''COOPERATIVE''
        [''BANK_TRANSFER''] ''acct_tok_civic_demo_19'' 12 ''A'' 1]"

definition rapid70 :: "int \<Rightarrow> funding_program" where
  "rapid70 today =
     \<lparr>fp_id = ''program_demo_rapid70'', fp_tenant_id = funder_demo_tenant, fp_funder_id = ''funder_demo_aurum'',
      fp_program_code = ''RAPID-70'', fp_name = ''Rapid Receivable 70'', fp_product_type = ''INVOICE_FINANCE'', fp_currency = ''INR'',
      fp_minimum_amount = 10000000, fp_maximum_amount = 500000000, fp_total_capacity = 2500000000,
      fp_reserved_capacity = 120000000, fp_committed_capacity = 640000000, fp_advance_rate_maximum = 700000,
      fp_tenor_minimum_days = 15, fp_tenor_maximum_days = 90,
      fp_pricing_model = [(''annual_rate_from'', JStr ''13.25''), (''fee_percent'', JStr ''0.75'')],
      fp_eligible_regions = [''Karnataka'', ''Tamil Nadu'', ''Maharashtra''],
      fp_eligible_industries = [''Manufacturing'', ''Textiles'', ''Components''],
      fp_required_evidence_types = [''GST_INVOICE'', ''ERP_ACCEPTANCE'', ''DELIVERY''],
      fp_effective_from = today - 120, fp_effective_to = None, fp_status = ''ACTIVE'', fp_policy_version = 4, fp_version = 6\<rparr>"

definition tradeplus :: "int \<Rightarrow> funding_program" where
  "tradeplus today =
     \<lparr>fp_id = ''program_demo_tradeplus'', fp_tenant_id = funder_demo_tenant, fp_funder_id = ''funder_demo_summit'',
      fp_program_code = ''TRADE-PLUS'', fp_name = ''Trade Plus 65'', fp_product_type = ''SUPPLY_CHAIN_FINANCE'', fp_currency = ''INR'',
      fp_minimum_amount = 25000000, fp_maximum_amount = 800000000, fp_total_capacity = 4000000000,
      fp_reserved_capacity = 180000000, fp_committed_capacity = 1240000000, fp_advance_rate_maximum = 650000,
      fp_tenor_minimum_days = 30, fp_tenor_maximum_days = 120,
      fp_pricing_model = [(''annual_rate_from'', JStr ''12.50''), (''fee_percent'', JStr ''1.10'')],
      fp_eligible_regions = [''Karnataka'', ''Gujarat'', ''Maharashtra''],
      fp_eligible_industries = [''Manufacturing'', ''Engineering'', ''Logistics''],
      fp_required_evidence_types = [''GST_INVOICE'', ''ERP_ACCEPTANCE'', ''BANK_EVIDENCE''],
      fp_effective_from = today - 80, fp_effective_to = None, fp_status = ''ACTIVE'', fp_policy_version = 3, fp_version = 5\<rparr>"

definition local60 :: "int \<Rightarrow> funding_program" where
  "local60 today =
     \<lparr>fp_id = ''program_demo_local60'', fp_tenant_id = funder_demo_tenant, fp_funder_id = ''funder_demo_civic'',
      fp_program_code = ''LOCAL-60'', fp_name = ''Local Enterprise 60'', fp_product_type = ''INVOICE_DISCOUNTING'', fp_currency = ''INR'',
      fp_minimum_amount = 5000000, fp_maximum_amount = 200000000, fp_total_capacity = 1000000000,
      fp_reserved_capacity = 0, fp_committed_capacity = 480000000, fp_advance_rate_maximum = 600000,
      fp_tenor_minimum_days = 15, fp_tenor_maximum_days = 60,
      fp_pricing_model = [(''annual_rate_from'', JStr ''11.75''), (''fee_percent'', JStr ''0.50'')],
      fp_eligible_regions = [''Karnataka''], fp_eligible_industries = [''Manufacturing'', ''Services''],
      fp_required_evidence_types = [''GST_INVOICE'', ''ERP_ACCEPTANCE''],
      fp_effective_from = today - 45, fp_effective_to = None, fp_status = ''SUSPENDED'', fp_policy_version = 2, fp_version = 4\<rparr>"

definition seed_rules :: "int \<Rightarrow> program_rule list" where
  "seed_rules today =
     [\<lparr>fu_id = ''rule_demo_rapid_region'', fu_program_id = ''program_demo_rapid70'', fu_rule_key = ''region_allowed'',
       fu_input_field = ''region'', fu_operator = ''IN'', fu_comparison_value = JStrList (fp_eligible_regions (rapid70 today)),
       fu_reason_code = ''REGION_NOT_ELIGIBLE'', fu_effective_from = today - 120, fu_effective_to = None, fu_version = 4\<rparr>,
      \<lparr>fu_id = ''rule_demo_rapid_amount'', fu_program_id = ''program_demo_rapid70'', fu_rule_key = ''amount_within_program'',
       fu_input_field = ''requested_amount'', fu_operator = ''BETWEEN'', fu_comparison_value = JStrList [''100000'', ''5000000''],
       fu_reason_code = ''AMOUNT_OUTSIDE_PROGRAM'', fu_effective_from = today - 120, fu_effective_to = None, fu_version = 4\<rparr>,
      \<lparr>fu_id = ''rule_demo_trade_industry'', fu_program_id = ''program_demo_tradeplus'', fu_rule_key = ''industry_allowed'',
       fu_input_field = ''industry'', fu_operator = ''IN'', fu_comparison_value = JStrList (fp_eligible_industries (tradeplus today)),
       fu_reason_code = ''INDUSTRY_NOT_ELIGIBLE'', fu_effective_from = today - 80, fu_effective_to = None, fu_version = 3\<rparr>]"

definition seed_applications :: "time \<Rightarrow> funding_application list" where
  "seed_applications now =
     [\<lparr>fa_id = ''application_demo_7001'', fa_tenant_id = funder_demo_tenant, fa_case_id = ''case_demo_1023'',
       fa_msme_id = ''msme_demo_northstar'', fa_msme_name = ''Northstar Precision Components'',
       fa_receivable_id = ''receivable_demo_inv2041'', fa_requested_amount = 40000000, fa_currency = ''INR'', fa_tenor_days = 60,
       fa_region = ''Karnataka'', fa_industry = ''Manufacturing'',
       fa_evidence_receipt_ids = [''evr_gst_2041'', ''evr_erp_2041'', ''evr_delivery_501''],
       fa_exposure_snapshot_reference = ''exposure_demo_northstar_v4'', fa_exposure_amount = 110000000,
       fa_eligibility_results = [[(''program_id'', JStr ''program_demo_rapid70''), (''eligible'', JBool True)]],
       fa_status = ''APPROVED'', fa_submitted_at = now - days 4, fa_reviewed_by = Some ''reviewer_demo_aurum'', fa_version = 3\<rparr>,
      \<lparr>fa_id = ''application_demo_7008'', fa_tenant_id = funder_demo_tenant, fa_case_id = ''case_demo_1092'',
       fa_msme_id = ''msme_demo_western'', fa_msme_name = ''Western Loomworks Private Limited'',
       fa_receivable_id = ''receivable_demo_inv3308'', fa_requested_amount = 85000000, fa_currency = ''INR'', fa_tenor_days = 75,
       fa_region = ''Karnataka'', fa_industry = ''Textiles'', fa_evidence_receipt_ids = [''evr_gst_3308'', ''evr_erp_3308''],
       fa_exposure_snapshot_reference = ''exposure_demo_western_v2'', fa_exposure_amount = 32000000,
       fa_eligibility_results = [],
       fa_status = ''UNDER_REVIEW'', fa_submitted_at = now - hours 9, fa_reviewed_by = None, fa_version = 2\<rparr>,
      \<lparr>fa_id = ''application_demo_7011'', fa_tenant_id = funder_demo_tenant, fa_case_id = ''case_demo_1104'',
       fa_msme_id = ''msme_demo_civicfield'', fa_msme_name = ''Civic Field Services LLP'',
       fa_receivable_id = ''receivable_demo_inv2099'', fa_requested_amount = 17500000, fa_currency = ''INR'', fa_tenor_days = 45,
       fa_region = ''Karnataka'', fa_industry = ''Services'', fa_evidence_receipt_ids = [''evr_gst_2099''],
       fa_exposure_snapshot_reference = ''exposure_demo_civicfield_v1'', fa_exposure_amount = 0,
       fa_eligibility_results = [[(''eligible'', JBool False), (''reason'', JStr ''ERP_ACCEPTANCE_MISSING'')]],
       fa_status = ''DECLINED'', fa_submitted_at = now - days 1, fa_reviewed_by = Some ''reviewer_demo_civic'', fa_version = 3\<rparr>]"

definition seed_offer ::
    "time \<Rightarrow> string \<Rightarrow> string \<Rightarrow> string \<Rightarrow> string \<Rightarrow> int \<Rightarrow> string \<Rightarrow> int \<Rightarrow> int \<Rightarrow> string \<Rightarrow> int \<Rightarrow> int \<Rightarrow> string list \<Rightarrow> time \<Rightarrow> string \<Rightarrow> int \<Rightarrow> funding_offer" where
  "seed_offer now i application funder program amount amount_str advance annual annual_str fee tenor condition_list expires status version =
     \<lparr>fo_id = i, fo_tenant_id = funder_demo_tenant, fo_application_id = application, fo_funder_id = funder, fo_program_id = program,
      fo_approved_amount = amount, fo_advance_rate = advance, fo_annual_rate = annual, fo_fee_amount = fee, fo_tenor_days = tenor,
      fo_repayment_terms = ''Single settlement on buyer payment or day '' @ int_str tenor,
      fo_conditions = condition_list,
      fo_expires_at = expires, fo_status = status,
      fo_offer_hash = funder_hash (JList [JStr i, JStr amount_str, JStr annual_str, JInt tenor]), fo_version = version,
      fo_created_at = now\<rparr>"

definition seed_offers :: "time \<Rightarrow> funding_offer list" where
  "seed_offers now =
     [seed_offer now ''offer_demo_8101'' ''application_demo_7001'' ''funder_demo_aurum'' ''program_demo_rapid70''
        40000000 ''400000'' 678000 132500 ''13.25'' 300000 60 [''Buyer acceptance remains valid'', ''No duplicate financing''] (now + days 2) ''RESERVED'' 3,
      seed_offer now ''offer_demo_8102'' ''application_demo_7001'' ''funder_demo_summit'' ''program_demo_tradeplus''
        38350000 ''383500'' 650000 125000 ''12.50'' 421850 60 [''Bank evidence refreshed before commitment''] (now + days 1) ''ISSUED'' 2,
      seed_offer now ''offer_demo_8110'' ''application_demo_7008'' ''funder_demo_aurum'' ''program_demo_rapid70''
        59500000 ''595000'' 700000 141000 ''14.10'' 446250 75 [''Delivery receipt required before reservation''] (now - hours 3) ''EXPIRED'' 3]"

definition seed_reservation :: "time \<Rightarrow> offer_reservation" where
  "seed_reservation now =
     \<lparr>rv_id = ''reservation_demo_9001'', rv_tenant_id = funder_demo_tenant, rv_offer_id = ''offer_demo_8101'',
      rv_program_id = ''program_demo_rapid70'', rv_reserved_amount = 40000000, rv_case_id = ''case_demo_1023'',
      rv_msme_id = ''msme_demo_northstar'', rv_expires_at = now + hours 18,
      rv_idempotency_key = ''reserve_demo_case1023_offer8101'', rv_status = ''ACTIVE'', rv_release_reference = None,
      rv_commit_reference = None, rv_version = 2, rv_created_at = now\<rparr>"

definition seed_commitment :: "time \<Rightarrow> funding_commitment" where
  "seed_commitment now =
     \<lparr>fc_id = ''commitment_demo_9501'', fc_tenant_id = funder_demo_tenant, fc_reservation_id = ''reservation_demo_9001'',
      fc_committed_amount = 40000000, fc_guardian_authorization_id = None,
      fc_action_hash = funder_hash (JObj [(''reservation_id'', JStr ''reservation_demo_9001''), (''amount'', JStr ''400000.00''),
        (''destination_token'', JStr ''beneficiary_tok_northstar_demo_17'')]),
      fc_destination_token = ''beneficiary_tok_northstar_demo_17'', fc_status = ''PREPARED'', fc_execution_reference = None,
      fc_ledger_reference = None, fc_settlement_status = ''PENDING'', fc_version = 1, fc_created_at = now\<rparr>"

definition seed_audit :: "string \<times> string \<times> string \<times> int \<times> string \<times> string \<times> time \<Rightarrow> funder_audit" where
  "seed_audit row =
     (case row of (i, kind, aggregate, version, event, actor, at) \<Rightarrow>
        \<lparr>fe_id = i, fe_tenant_id = funder_demo_tenant, fe_aggregate_type = kind, fe_aggregate_id = aggregate,
         fe_aggregate_version = version, fe_event_type = event,
         fe_actor_type = (if actor = ''xyena-supervisor'' then ''AGENT'' else ''USER''), fe_actor_id = actor,
         fe_reason = Some ''Synthetic marketplace workflow'', fe_payload = [], fe_correlation_id = ''corr_'' @ i, fe_occurred_at = at\<rparr>)"

definition seed_audits :: "time \<Rightarrow> funder_audit list" where
  "seed_audits now = map seed_audit
     [(''audit_demo_application'', ''FundingApplication'', ''application_demo_7001'', 3, ''application.approved'', ''reviewer_demo_aurum'', now - days 3),
      (''audit_demo_offer'', ''FundingOffer'', ''offer_demo_8101'', 2, ''offer.issued'', ''operator_demo_aurum'', now - days 2),
      (''audit_demo_reservation'', ''OfferReservation'', ''reservation_demo_9001'', 2, ''offer.reserved'', ''xyena-supervisor'', now - hours 6),
      (''audit_demo_commitment'', ''FundingCommitment'', ''commitment_demo_9501'', 1, ''commitment.prepared'', ''xyena-supervisor'', now - hours 2)]"

definition seed_funder_outbox :: funder_outbox where
  "seed_funder_outbox =
     \<lparr>fx_id = ''outbox_demo_commitment'', fx_tenant_id = funder_demo_tenant, fx_aggregate_type = ''FundingCommitment'',
      fx_aggregate_id = ''commitment_demo_9501'', fx_aggregate_version = 1, fx_event_type = ''commitment.prepared'',
      fx_payload = [(''commitment_id'', JStr ''commitment_demo_9501'')], fx_correlation_id = ''corr_audit_demo_commitment'',
      fx_published_at = None, fx_attempt_count = 0\<rparr>"

definition empty_funder :: funder_db where
  "empty_funder = \<lparr>institutions = [], programs = [], program_rules = [], applications = [], offers = [], reservations = [],
     commitments = [], funder_audits = [], funder_outboxes = [], funder_inboxes = []\<rparr>"

definition funder_seed_data :: "time \<Rightarrow> json funder_op" where
  "funder_seed_data now db =
     (if (\<exists>v\<in>set (institutions db). fi_id v = ''funder_demo_aurum'') then Inr (db, JNull)
      else let today = now div days 1 in
        Inr (db\<lparr>institutions := institutions db @ seed_funders,
               programs := programs db @ [rapid70 today, tradeplus today, local60 today],
               program_rules := program_rules db @ seed_rules today,
               applications := applications db @ seed_applications now,
               offers := offers db @ seed_offers now,
               reservations := reservations db @ [seed_reservation now],
               commitments := commitments db @ [seed_commitment now],
               funder_audits := funder_audits db @ seed_audits now,
               funder_outboxes := funder_outboxes db @ [seed_funder_outbox]\<rparr>, JNull))"

section \<open>The seeded state\<close>

definition seeded_funder :: "time \<Rightarrow> funder_db" where
  "seeded_funder now =
     (let today = now div days 1 in
      \<lparr>institutions = seed_funders, programs = [rapid70 today, tradeplus today, local60 today], program_rules = seed_rules today,
       applications = seed_applications now, offers = seed_offers now, reservations = [seed_reservation now],
       commitments = [seed_commitment now], funder_audits = seed_audits now, funder_outboxes = [seed_funder_outbox], funder_inboxes = []\<rparr>)"

lemma seed_data_empty: "funder_seed_data now empty_funder = Inr (seeded_funder now, JNull)"
  by (simp add: funder_seed_data_def empty_funder_def seeded_funder_def Let_def)

lemma seed_keys:
  "map fi_id seed_funders = [''funder_demo_aurum'', ''funder_demo_summit'', ''funder_demo_civic'']"
  "map fp_id [rapid70 d, tradeplus d, local60 d] = [''program_demo_rapid70'', ''program_demo_tradeplus'', ''program_demo_local60'']"
  "map fp_program_code [rapid70 d, tradeplus d, local60 d] = [''RAPID-70'', ''TRADE-PLUS'', ''LOCAL-60'']"
  "map fp_funder_id [rapid70 d, tradeplus d, local60 d] = [''funder_demo_aurum'', ''funder_demo_summit'', ''funder_demo_civic'']"
  "map fu_id (seed_rules d) = [''rule_demo_rapid_region'', ''rule_demo_rapid_amount'', ''rule_demo_trade_industry'']"
  "map fu_program_id (seed_rules d) = [''program_demo_rapid70'', ''program_demo_rapid70'', ''program_demo_tradeplus'']"
  "map fa_id (seed_applications now) = [''application_demo_7001'', ''application_demo_7008'', ''application_demo_7011'']"
  "map fo_id (seed_offers now) = [''offer_demo_8101'', ''offer_demo_8102'', ''offer_demo_8110'']"
  "map fo_application_id (seed_offers now) = [''application_demo_7001'', ''application_demo_7001'', ''application_demo_7008'']"
  "map fo_funder_id (seed_offers now) = [''funder_demo_aurum'', ''funder_demo_summit'', ''funder_demo_aurum'']"
  "map fo_program_id (seed_offers now) = [''program_demo_rapid70'', ''program_demo_tradeplus'', ''program_demo_rapid70'']"
  "map fe_id (seed_audits now) = [''audit_demo_application'', ''audit_demo_offer'', ''audit_demo_reservation'', ''audit_demo_commitment'']"
  by (simp_all add: seed_funders_def seed_funder_def rapid70_def tradeplus_def local60_def seed_rules_def seed_applications_def
      seed_offers_def seed_offer_def seed_audits_def seed_audit_def)

text \<open>Columns of a table decide its keys and its references.\<close>

lemma unique_by_column: "unique_by (Some \<circ> f) rows = distinct (map f rows)"
proof (induction rows)
  case (Cons r rows)
  then show ?case by (auto simp: image_iff)
qed simp

lemma references_column: "list_all (\<lambda>r. f r \<in> g ` set ts) rs \<longleftrightarrow> set (map f rs) \<subseteq> set (map g ts)"
  by (auto simp: list_all_iff)

lemma seed_unique:
  "distinct (map fi_id seed_funders)" "distinct (map fp_id [rapid70 d, tradeplus d, local60 d])"
  "distinct (map fp_program_code [rapid70 d, tradeplus d, local60 d])" "distinct (map fu_id (seed_rules d))"
  "distinct (map fa_id (seed_applications now))" "distinct (map fo_id (seed_offers now))" "distinct (map fe_id (seed_audits now))"
  unfolding seed_keys by simp_all

lemma seeded_references: "funder_references (seeded_funder now)"
proof -
  have "list_all (\<lambda>v. fo_application_id v \<in> fa_id ` set (seed_applications now) \<and> fo_funder_id v \<in> fi_id ` set seed_funders
      \<and> fo_program_id v \<in> fp_id ` set [rapid70 d, tradeplus d, local60 d]) (seed_offers now)" for d
  proof -
    have "list_all (\<lambda>v. fo_application_id v \<in> fa_id ` set (seed_applications now)) (seed_offers now)"
      "list_all (\<lambda>v. fo_funder_id v \<in> fi_id ` set seed_funders) (seed_offers now)"
      "list_all (\<lambda>v. fo_program_id v \<in> fp_id ` set [rapid70 d, tradeplus d, local60 d]) (seed_offers now)"
      unfolding references_column seed_keys by simp_all
    then show ?thesis by (simp add: list_all_iff)
  qed
  moreover have "list_all (\<lambda>p. fp_funder_id p \<in> fi_id ` set seed_funders) [rapid70 d, tradeplus d, local60 d]" for d
    unfolding references_column seed_keys by simp
  moreover have "list_all (\<lambda>r. fu_program_id r \<in> fp_id ` set [rapid70 d, tradeplus d, local60 d]) (seed_rules d)" for d
    unfolding references_column seed_keys by simp
  moreover have "rv_offer_id (seed_reservation now) \<in> set (map fo_id (seed_offers now))"
    "rv_program_id (seed_reservation now) = fp_id (rapid70 d)" "fc_reservation_id (seed_commitment now) = rv_id (seed_reservation now)" for d
    unfolding seed_keys by (simp_all add: seed_reservation_def seed_commitment_def rapid70_def)
  ultimately show ?thesis by (simp add: funder_references_def seeded_funder_def Let_def)
qed

lemma seeded_constraints: "funder_constraints (seeded_funder now)"
proof -
  have "unique_by (\<lambda>p. Some (fp_tenant_id p, fp_program_code p)) [rapid70 d, tradeplus d, local60 d]" for d
    using seed_unique(3) [of d] by (simp add: eq_commute)
  then show ?thesis
    unfolding funder_constraints_def unique_by_column
    using seed_unique seeded_references by (simp add: seeded_funder_def Let_def)
qed

lemma amount_9001: "fmoney 40000000 = JStr ''400000.00''"
proof -
  have "units_str 2 40000000 = nat_str 400000 @ ''.'' @ padded 2 0" by (simp add: units_str_def)
  moreover have "padded 2 0 = ''00''" by code_simp
  moreover have "nat_str 400000 = ''400000''" by (simp add: nat_str_eval)
  ultimately show ?thesis by (simp add: fmoney_def)
qed

lemmas seed_row_defs = rapid70_def tradeplus_def local60_def seed_reservation_def seed_commitment_def

lemma seeded_rows:
  "programs (seeded_funder now) = [rapid70 (now div days 1), tradeplus (now div days 1), local60 (now div days 1)]"
  "reservations (seeded_funder now) = [seed_reservation now]" "commitments (seeded_funder now) = [seed_commitment now]"
  by (simp_all add: seeded_funder_def Let_def)

lemma seeded_inv: "funder_inv (seeded_funder now)"
proof -
  have "\<forall>p\<in>set (programs (seeded_funder now)). program_ok (seeded_funder now) p"
    by (simp add: seeded_rows program_ok_def reserved_base_def committed_base_def held_capacity_def seed_row_defs)
  moreover have "commitment_ok (seeded_funder now) (seed_commitment now)"
    by (simp add: commitment_ok_def seeded_rows seed_reservation_def seed_commitment_def commitment_action_def amount_9001)
  ultimately show ?thesis
    using seeded_constraints [of now] by (simp add: funder_inv_def seeded_rows seed_reservation_def)
qed

text \<open>A restart finds the first funder and inserts nothing.\<close>

lemma seed_again: "\<exists>v\<in>set (institutions db). fi_id v = ''funder_demo_aurum'' \<Longrightarrow> funder_seed_data now db = Inr (db, JNull)"
  by (auto simp: funder_seed_data_def)

end
