(* ===== verification/FunderProperties.thy ===== *)
theory FunderProperties
  imports FunderSeed
begin

text \<open>
  What holds of the marketplace whatever requests arrive: the interpretation \<open>market\<close> of the
  service interface on \<open>funder_step\<close>, the exactness of a program's capacity, and the only way a
  commitment becomes committed.
\<close>

section \<open>A request keeps the books\<close>

lemma reads_unchanged:
  "search_programs env t a n reg ind db = Inr (db', x) \<Longrightarrow> db' = db"
  "get_offer t i db = Inr (db', x) \<Longrightarrow> db' = db"
  "get_exposure env t m db = Inr (db', x) \<Longrightarrow> db' = db"
  "dashboard env t db = Inr (db', y) \<Longrightarrow> db' = db"
  by (auto simp: search_programs_def get_offer_def get_exposure_def dashboard_def Let_def sum_bind_Inr)

lemma answer_Inr: "answer body db = Inr (db', v) \<longleftrightarrow> (\<exists>d. body db = Inr (db', d) \<and> v = JObj d)"
  by (auto simp: answer_def sum_bind_Inr)

lemma valid_reserve_pos: "valid_reserve b = Inr body \<Longrightarrow> dec_pos (sq_amount body)"
  by (auto simp: valid_reserve_def Let_def split: if_splits)

definition good_move :: "funder_db \<Rightarrow> funder_db \<Rightarrow> bool" where
  "good_move db db' \<longleftrightarrow> (funder_inv db \<longrightarrow> funder_constraints db' \<longrightarrow> funder_inv db' \<and> funder_le db db')"

lemma good_move_refl [simp]: "good_move db db"
  by (simp add: good_move_def)

lemma good_move_same:
  "programs db' = programs db \<Longrightarrow> reservations db' = reservations db \<Longrightarrow> commitments db' = commitments db \<Longrightarrow> good_move db db'"
  unfolding good_move_def using books_untouched [of db db'] by (simp add: funder_inv_def)

lemma good_move_ops:
  "create_application env t ab actor co db = Inr (db', d) \<Longrightarrow> good_move db db'"
  "review_application env t i n vb co db = Inr (db', d) \<Longrightarrow> good_move db db'"
  "issue_offer env t i n ob co db = Inr (db', d) \<Longrightarrow> good_move db db'"
  "transition_program env t i n tb co db = Inr (db', d) \<Longrightarrow> good_move db db'"
  "valid_reserve b = Inr body \<Longrightarrow> reserve_offer env t i body actor co db = Inr (db', d) \<Longrightarrow> good_move db db'"
  "release_reservation env t i n lb co db = Inr (db', d) \<Longrightarrow> good_move db db'"
  "prepare_commitment env t i tok actor co db = Inr (db', d) \<Longrightarrow> good_move db db'"
  "confirm_commitment env t i cb actor co db = Inr (db', d) \<Longrightarrow> good_move db db'"
  "consume_external_event env e h db = Inr (db', d) \<Longrightarrow> good_move db db'"
  subgoal by (blast intro: good_move_same dest: create_application_books)
  subgoal by (blast intro: good_move_same dest: review_application_books)
  subgoal by (blast intro: good_move_same dest: issue_offer_books)
  subgoal by (simp add: good_move_def transition_program_ok)
  subgoal using reserve_offer_ok [OF _ valid_reserve_pos] by (simp add: good_move_def)
  subgoal by (simp add: good_move_def release_reservation_ok)
  subgoal by (simp add: good_move_def prepare_commitment_ok)
  subgoal by (simp add: good_move_def confirm_commitment_ok)
  subgoal by (simp add: good_move_def consume_external_event_ok)
  done

lemma funder_tool_move: "funder_tool_op env scope tool db = Inr (db', d) \<Longrightarrow> good_move db db'"
  by (cases tool) (auto simp: sum_bind_Inr intro: good_move_ops dest: reads_unchanged)

lemma route_move: "route_op env route db = Inr (db', v) \<Longrightarrow> good_move db db'"
  by (cases route) (auto simp: sum_bind_Inr answer_Inr split: if_splits intro: good_move_ops dest: reads_unchanged)

lemma consume_event_move: "consume_event env event raw signature db = Inr (db', v) \<Longrightarrow> good_move db db'"
  by (auto simp: consume_event_def sum_bind_Inr answer_Inr split: option.splits if_splits intro: good_move_ops)

lemma funder_op_move:
  assumes "funder_op env q db = Inr (db', v)"
  shows "good_move db db'"
  using assms
  by (cases q) (auto simp: sum_bind_Inr split: sum.splits intro: funder_tool_move route_move consume_event_move)

lemma funder_step_move:
  assumes "funder_inv db"
  shows "funder_inv (fst (funder_step (env, q) db)) \<and> funder_le db (fst (funder_step (env, q) db))"
proof (cases rule: session_cases [of funder_constraints FunderIntegrityError "funder_op env q" db])
  case (error e)
  with assms show ?thesis by (simp add: funder_session_def)
next
  case (ok db' v)
  with funder_op_move [OF ok(2)] assms show ?thesis by (simp add: funder_session_def good_move_def)
qed

interpretation market: monotone_service funder_step funder_inv funder_le
proof
  fix db :: funder_db and q :: "funder_env \<times> funder_request"
  assume "funder_inv db"
  then show "funder_inv (fst (funder_step q db))" "funder_le db (fst (funder_step q db))"
    using funder_step_move [of db "fst q" "snd q"] by simp_all
qed (auto intro: funder_le_trans)

section \<open>Capacity\<close>

lemma program_bounds:
  assumes "funder_inv db" "p \<in> set (programs db)"
  shows "0 \<le> fp_reserved_capacity p" "0 \<le> fp_committed_capacity p"
    "fp_reserved_capacity p + fp_committed_capacity p \<le> fp_total_capacity p"
proof -
  have "0 \<le> held_capacity s i (reservations db)" for s i using assms(1) by (intro held_nonneg) (simp add: funder_inv_def)
  moreover have "program_ok db p" using assms by (simp add: funder_inv_def)
  ultimately show "0 \<le> fp_reserved_capacity p" "0 \<le> fp_committed_capacity p"
    "fp_reserved_capacity p + fp_committed_capacity p \<le> fp_total_capacity p"
    unfolding program_ok_def reserved_base_def committed_base_def by (smt (verit))+
qed

text \<open>
  C19. Capacity is exact. Whatever requests a marketplace with sound books serves, and in
  whatever order, every program is still there with the same total capacity; its reserved
  capacity has changed by exactly the change of the sum of its active reservations and its
  committed capacity by the change of the sum of its committed ones; neither is negative and
  together they never exceed the total.
\<close>

theorem funder_capacity_exact:
  assumes "funder_inv db" "p \<in> set (programs db)"
  shows "\<exists>p'\<in>set (programs (run funder_step requests db)).
    fp_id p' = fp_id p \<and> fp_total_capacity p' = fp_total_capacity p \<and>
    fp_reserved_capacity p' = fp_reserved_capacity p - held_capacity ''ACTIVE'' (fp_id p) (reservations db)
      + held_capacity ''ACTIVE'' (fp_id p) (reservations (run funder_step requests db)) \<and>
    fp_committed_capacity p' = fp_committed_capacity p - held_capacity ''COMMITTED'' (fp_id p) (reservations db)
      + held_capacity ''COMMITTED'' (fp_id p) (reservations (run funder_step requests db)) \<and>
    0 \<le> fp_reserved_capacity p' \<and> 0 \<le> fp_committed_capacity p' \<and>
    fp_reserved_capacity p' + fp_committed_capacity p' \<le> fp_total_capacity p'"
proof -
  define db' where "db' = run funder_step requests db"
  have inv: "funder_inv db'" unfolding db'_def by (rule market.run_inv) (rule assms(1))
  have "funder_le db db'" unfolding db'_def by (rule market.run_le) (rule assms(1))
  then obtain p' where p': "p' \<in> set (programs db')" "same_books db p db' p'"
    using assms(2) by (auto simp: funder_le_def)
  then show ?thesis unfolding db'_def [symmetric]
    using program_bounds [OF inv p'(1)]
    by (intro bexI [of _ p']) (auto simp: same_books_def reserved_base_def committed_base_def)
qed

section \<open>Commitments\<close>

text \<open>
  A commitment that a body leaves committed was so before; \<open>confirm_commitment\<close> is the exception.
\<close>

definition no_new_commit :: "funder_db \<Rightarrow> funder_db \<Rightarrow> bool" where
  "no_new_commit db db' \<longleftrightarrow> (\<forall>c'\<in>set (commitments db'). fc_status c' = ''COMMITTED'' \<longrightarrow>
     (\<exists>c\<in>set (commitments db). fc_id c = fc_id c' \<and> fc_status c = ''COMMITTED''))"

lemma no_new_commit_same: "commitments db' = commitments db \<Longrightarrow> no_new_commit db db'"
  by (auto simp: no_new_commit_def)

lemma event_effect_status: "fc_status (event_effect e n c) \<noteq> ''COMMITTED''" "fc_id (event_effect e n c) = fc_id c"
  by (simp_all add: event_effect_def Let_def)

lemma no_new_commit_ops:
  "create_application env t ab actor co db = Inr (db', d) \<Longrightarrow> no_new_commit db db'"
  "review_application env t i n vb co db = Inr (db', d) \<Longrightarrow> no_new_commit db db'"
  "issue_offer env t i n ob co db = Inr (db', d) \<Longrightarrow> no_new_commit db db'"
  "transition_program env t i n tb co db = Inr (db', d) \<Longrightarrow> no_new_commit db db'"
  "reserve_offer env t i rb actor co db = Inr (db', d) \<Longrightarrow> no_new_commit db db'"
  "release_reservation env t i n lb co db = Inr (db', d) \<Longrightarrow> no_new_commit db db'"
  "prepare_commitment env t i tok actor co db = Inr (db', d) \<Longrightarrow> no_new_commit db db'"
  "consume_external_event env e h db = Inr (db', d) \<Longrightarrow> no_new_commit db db'"
  subgoal by (blast intro: no_new_commit_same dest: create_application_books)
  subgoal by (blast intro: no_new_commit_same dest: review_application_books)
  subgoal by (blast intro: no_new_commit_same dest: issue_offer_books)
  subgoal by (auto simp: transition_program_def sum_bind_Inr Let_def split: option.splits intro!: no_new_commit_same)
  subgoal by (auto simp: reserve_offer_def sum_bind_Inr Let_def split: option.splits if_splits intro!: no_new_commit_same)
  subgoal by (auto simp: release_reservation_def sum_bind_Inr Let_def split: if_splits intro!: no_new_commit_same)
  subgoal by (auto simp: prepare_commitment_def sum_bind_Inr Let_def no_new_commit_def new_commitment_def split: option.splits if_splits)
  subgoal by (auto simp: consume_external_event_def sum_bind_Inr Let_def no_new_commit_def set_update_rows event_effect_status
        split: option.splits if_splits)
  done

text \<open>A request to confirm commitment \<open>i\<close> with \<open>b\<close>, through a door that lets it in.\<close>

inductive confirms :: "funder_env \<Rightarrow> funder_request \<Rightarrow> string \<Rightarrow> confirm_request \<Rightarrow> bool" for env where
  by_gateway: "confirms env (RouteCall (Some (fenv_execution_token env)) (ConfirmRoute i b)) i b"
| by_agent: "bearer_auth (fenv_mcp_token env) authorization = Inr () \<Longrightarrow>
    funder_verify_runtime_scope (fenv_mcp_token env) meta ''funder.commitments.confirm'' = Inr scope \<Longrightarrow>
    confirms env (ToolCall authorization meta (CommitmentsConfirm i b)) i b"

lemma require_token_Inr: "require_token m expected supplied = Inr () \<longleftrightarrow>
    supplied = Some expected \<and> list_all (\<lambda>c. of_char c < (128::nat)) expected"
  by (auto simp: require_token_def digest_equal_def sum_bind_Inr split: option.splits if_splits)

lemma committing_request:
  assumes "funder_op env q db = Inr (db', v)" "\<not> no_new_commit db db'"
  obtains i b body env' t actor co d where "confirms env q i b" "valid_confirm b = Inr body" "fenv_now env' = fenv_now env"
    "confirm_commitment env' t i body actor co db = Inr (db', d)"
proof (cases q)
  case (ToolCall authorization meta tool)
  with assms(1) obtain scope d where auth: "bearer_auth (fenv_mcp_token env) authorization = Inr ()"
      "funder_verify_runtime_scope (fenv_mcp_token env) meta (''funder.'' @ funder_tool_kind tool) = Inr scope"
      and op: "funder_tool_op env scope tool db = Inr (db', d)"
    by (auto simp: sum_bind_Inr split: sum.splits)
  show thesis
  proof (cases tool)
    case (CommitmentsConfirm i b)
    with op that [of i b _ env] show ?thesis
      using confirms.by_agent [OF auth(1), of meta scope] auth(2) ToolCall by (auto simp: sum_bind_Inr)
  qed (use op assms(2) in \<open>auto simp: sum_bind_Inr no_new_commit_same dest: no_new_commit_ops reads_unchanged\<close>)
next
  case (RouteCall token route)
  with assms(1) have op: "route_op env route db = Inr (db', v)" and auth: "route_auth env route token = Inr ()"
    by (auto simp: sum_bind_Inr)
  show thesis
  proof (cases route)
    case (ConfirmRoute i b)
    with auth have "token = Some (fenv_execution_token env)" by (simp add: require_token_Inr)
    with op ConfirmRoute that [of i b _ "later env"] RouteCall confirms.by_gateway [of env i b] show ?thesis
      by (auto simp: sum_bind_Inr answer_Inr later_def)
  qed (use op assms(2) in \<open>auto simp: sum_bind_Inr answer_Inr no_new_commit_same split: if_splits dest: no_new_commit_ops reads_unchanged\<close>)
next
  case (EventCall event raw signature)
  with assms show thesis
    by (auto simp: consume_event_def sum_bind_Inr answer_Inr split: option.splits if_splits dest: no_new_commit_ops)
qed

text \<open>
  C27. Commitment is authorised and bound. When a request leaves a commitment committed that was
  not so before, the request is a confirmation that came with the execution gateway's token, or
  from an agent with the bearer token and a signed scope for \<open>funder.commitments.confirm\<close>; the
  commitment was prepared; the hash supplied is the hash of its own reservation, amount and
  destination; the reservation was active, unexpired and of that amount; and the row records the
  authorization and the execution reference of the request, its terms unchanged.
\<close>

theorem funder_commit_authorized:
  assumes "funder_inv db" "funder_step (env, q) db = (db', Inr v)"
    and "c' \<in> set (commitments db')" "fc_status c' = ''COMMITTED''"
    and "\<forall>c\<in>set (commitments db). fc_id c = fc_id c' \<longrightarrow> fc_status c \<noteq> ''COMMITTED''"
  shows "\<exists>b body c r. confirms env q (fc_id c') b \<and> valid_confirm b = Inr body \<and>
    c \<in> set (commitments db) \<and> fc_status c = ''PREPARED'' \<and> c' = confirm body c \<and>
    cf_action_hash body = funder_hash (JObj (commitment_action (fc_reservation_id c) (fc_committed_amount c) (fc_destination_token c))) \<and>
    r \<in> set (reservations db) \<and> rv_id r = fc_reservation_id c \<and> rv_reserved_amount r = fc_committed_amount c \<and>
    rv_status r = ''ACTIVE'' \<and> fenv_now env < rv_expires_at r"
proof -
  have op: "funder_op env q db = Inr (db', v)" using assms(2) by (simp add: funder_session_def session_ok)
  have new: "\<not> no_new_commit db db'" using assms(3-5) by (auto simp: no_new_commit_def)
  from committing_request [OF op new] obtain i b body env' t actor co d where
    req: "confirms env q i b" "valid_confirm b = Inr body" "fenv_now env' = fenv_now env"
    and conf: "confirm_commitment env' t i body actor co db = Inr (db', d)" .
  have "db' \<noteq> db" using new by (auto simp: no_new_commit_def)
  then obtain c r where c: "commitment_model db t i = Inr c" "fc_status c = ''PREPARED''" "fc_action_hash c = cf_action_hash body"
    and r: "reservation_model db t (fc_reservation_id c) = Inr r" "rv_status r = ''ACTIVE''" "fenv_now env' < rv_expires_at r"
    and com: "commitments db' = update_rows (\<lambda>x. fc_id x = i) (confirm body) (commitments db)"
    by (rule confirm_commitment_made [OF conf])
  note crow = commitment_model_row [OF c(1)] and rrow = reservation_model_row [OF r(1)]
  from assms(3) com obtain x where x: "x \<in> set (commitments db)" "c' = (if fc_id x = i then confirm body x else x)"
    unfolding com set_update_rows by blast
  with assms(4,5) have xi: "fc_id x = i" by (auto split: if_splits)
  have wf: "commitment_rows.wf (commitments db)" using assms(1) by (simp add: funder_inv_def funder_constraints_keys)
  have "x = c" using commitment_rows.row_eq [OF wf x(1) crow(1)] xi crow(2) by simp
  with x xi have c': "c' = confirm body c" by simp
  have ok: "commitment_ok db c" using assms(1) crow(1) by (simp add: funder_inv_def)
  have "fc_id c' = i" using c' crow(2) by (simp add: confirm_def)
  with req c crow rrow r c' ok show ?thesis
    by (intro exI [of _ b] exI [of _ body] exI [of _ c] exI [of _ r]) (simp add: commitment_ok_def)
qed

end
