(* ===== verification/FunderDemo.thy ===== *)
theory FunderDemo
  imports FunderProperties
begin

text \<open>
  The seeded marketplace at work: the execution gateway confirms the prepared commitment of the
  seed with its own hash. The witnesses of the properties of the marketplace are taken there.
\<close>

definition fdemo_env :: funder_env where
  "fdemo_env = \<lparr>fenv_now = 0, fenv_uuid = (\<lambda>k. replicate 32 CHR ''0''), fenv_mcp_token = ''mcp'', fenv_ui_token = ''ui'',
     fenv_operator_token = ''operator'', fenv_execution_token = ''gateway'', fenv_event_secret = ''events'', fenv_collate = id\<rparr>"

definition fdemo_confirm :: confirm_request where
  "fdemo_confirm = \<lparr>cf_guardian_authorization_id = ''auth_demo_1'', cf_action_hash = fc_action_hash (seed_commitment 0),
     cf_execution_reference = ''exec_demo_1''\<rparr>"

definition fdemo_request :: funder_request where
  "fdemo_request = RouteCall (Some ''gateway'') (ConfirmRoute ''commitment_demo_9501'' fdemo_confirm)"

lemma hexdigest_solid:
  assumes "\<And>b. b \<in> set bs \<Longrightarrow> b < 256" "c \<in> set (hexdigest bs)"
  shows "\<not> py_isspace c"
proof -
  from assms(2) obtain b where b: "b \<in> set bs" "c \<in> set (byte_hex b)" by (auto simp: hexdigest_def)
  from assms(1) [OF b(1)] have "b div 16 < 16" "b mod 16 < 16" by simp_all
  moreover have "c = hex_char (b div 16) \<or> c = hex_char (b mod 16)" using b(2) by (auto simp: byte_hex_def)
  ultimately obtain d where "d < 16" "c = hex_char d" by blast
  then show ?thesis by (auto simp: hex_char_def py_isspace_def Let_def take_bit_eq_mod)
qed

lemma sha256_hex_strip: "py_strip (sha256_hex s) = sha256_hex s"
proof (rule py_strip_plain)
  show ne: "sha256_hex s \<noteq> []" using length_sha256_hex [of s] by force
  have "\<not> py_isspace c" if "c \<in> set (sha256_hex s)" for c
    using that unfolding sha256_hex_def
    by (rule hexdigest_solid [rotated]) (auto simp: sha256_bytes_def Let_def dest: be_bytes_bound)
  with ne show "\<not> py_isspace (hd (sha256_hex s))" "\<not> py_isspace (last (sha256_hex s))" by simp_all
qed

lemma sha256_hex_ascii: "list_all (\<lambda>c. (of_char c :: nat) < 128) (sha256_hex s)"
  unfolding sha256_hex_def by (rule hexdigest_ascii) (auto simp: sha256_bytes_def Let_def dest: be_bytes_bound)

lemma fdemo_tokens:
  "py_strip ''auth_demo_1'' = ''auth_demo_1''" "py_strip ''exec_demo_1'' = ''exec_demo_1''"
  "fenv_execution_token fdemo_env = ''gateway''" "require_token m ''gateway'' (Some ''gateway'') = Inr ()"
  by (simp_all add: py_strip_plain py_isspace_def require_token_def digest_equal_def fdemo_env_def)

lemma fdemo_valid: "valid_confirm fdemo_confirm = Inr fdemo_confirm"
  by (simp add: valid_confirm_def fdemo_confirm_def fdemo_tokens seed_commitment_def funder_hash_def sha256_hex_strip)

lemma fdemo_models:
  "commitment_model (seeded_funder 0) funder_demo_tenant ''commitment_demo_9501'' = Inr (seed_commitment 0)"
  "reservation_model (seeded_funder 0) funder_demo_tenant ''reservation_demo_9001'' = Inr (seed_reservation 0)"
  "program_model (seeded_funder 0) funder_demo_tenant ''program_demo_rapid70'' = Inr (rapid70 0)"
  by (simp_all add: commitment_model_def reservation_model_def program_model_def seeded_rows seed_row_defs)

definition fdemo_db :: funder_db where
  "fdemo_db = funder_record (later fdemo_env) 0 (''FundingCommitment'', funder_demo_tenant, ''commitment_demo_9501'', 2)
     ''commitment.confirmed'' ''execution_gateway'' (correlation fdemo_env)
     [(''guardian_authorization_id'', JStr ''auth_demo_1''), (''execution_reference'', JStr ''exec_demo_1'')] ''USER''
     (commitment_update ''commitment_demo_9501'' (confirm fdemo_confirm)
       (reservation_update ''reservation_demo_9001'' (commit_reservation ''commitment_demo_9501'')
         (program_update ''program_demo_rapid70'' (commit_capacity 40000000) (seeded_funder 0))))"

lemma fdemo_confirm_runs:
  "\<exists>v. funder_op fdemo_env fdemo_request (seeded_funder 0) = Inr (fdemo_db, v)"
proof -
  have "\<exists>d. confirm_commitment (later fdemo_env) funder_demo_tenant ''commitment_demo_9501'' fdemo_confirm ''execution_gateway''
      (correlation fdemo_env) (seeded_funder 0) = Inr (fdemo_db, d)"
    using sha256_hex_ascii
    by (simp add: confirm_commitment_def fdemo_models fdemo_confirm_def seed_commitment_def seed_reservation_def
        rapid70_def later_def fdemo_env_def fdemo_db_def timedelta_defs funder_hash_def correlation_def)
  then show ?thesis
    by (auto simp: fdemo_request_def fdemo_tokens fdemo_valid answer_def)
qed

lemma fdemo_tables:
  "institutions fdemo_db = seed_funders" "program_rules fdemo_db = seed_rules 0" "applications fdemo_db = seed_applications 0"
  "offers fdemo_db = seed_offers 0" "funder_inboxes fdemo_db = []"
  "programs fdemo_db = [commit_capacity 40000000 (rapid70 0), tradeplus 0, local60 0]"
  "reservations fdemo_db = [commit_reservation ''commitment_demo_9501'' (seed_reservation 0)]"
  "commitments fdemo_db = [confirm fdemo_confirm (seed_commitment 0)]"
  "map fe_id (funder_audits fdemo_db) = map fe_id (seed_audits 0) @ [uuid_str (replicate 32 CHR ''0'')]"
  "map fx_id (funder_outboxes fdemo_db) = [fx_id seed_funder_outbox, uuid_str (replicate 32 CHR ''0'')]"
  by (simp_all add: fdemo_db_def funder_record_def commitment_update_def reservation_update_def program_update_def
      seeded_funder_def seed_row_defs later_def fdemo_env_def)

lemma fdemo_references: "funder_references fdemo_db"
  using seeded_references [of 0]
  by (simp add: funder_references_def fdemo_tables seeded_funder_def commit_capacity_def commit_reservation_def confirm_def)

lemma fdemo_uuid: "uuid_str (replicate 32 CHR ''0'') = ''00000000-0000-0000-0000-000000000000''"
  by code_simp

lemma fdemo_constraints: "funder_constraints fdemo_db"
proof -
  have "unique_by (\<lambda>p. Some (fp_tenant_id p, fp_program_code p)) (programs fdemo_db)"
    using seed_unique(3) [of 0] by (simp add: fdemo_tables commit_capacity_def eq_commute)
  moreover have "distinct (map fp_id (programs fdemo_db))"
    using seed_unique(2) [of 0] by (simp add: fdemo_tables commit_capacity_def)
  moreover have "distinct (map fe_id (funder_audits fdemo_db))" "distinct (map fx_id (funder_outboxes fdemo_db))"
    unfolding fdemo_tables fdemo_uuid seed_keys by (simp_all add: seed_funder_outbox_def)
  ultimately show ?thesis
    unfolding funder_constraints_def unique_by_column
    using seed_unique fdemo_references by (simp add: fdemo_tables)
qed

lemma fdemo_step: "\<exists>v. funder_step (fdemo_env, fdemo_request) (seeded_funder 0) = (fdemo_db, Inr v)"
  using fdemo_confirm_runs fdemo_constraints by (auto simp: funder_session_def session_ok)

theorem funder_capacity_exact_witness:
  "funder_inv (seeded_funder 0) \<and> rapid70 0 \<in> set (programs (seeded_funder 0)) \<and>
   run funder_step [(fdemo_env, fdemo_request)] (seeded_funder 0) = fdemo_db \<and>
   (\<exists>p'\<in>set (programs fdemo_db). fp_id p' = ''program_demo_rapid70'' \<and>
     fp_reserved_capacity p' = 80000000 \<and> fp_committed_capacity p' = 680000000)"
proof -
  have run: "run funder_step [(fdemo_env, fdemo_request)] (seeded_funder 0) = fdemo_db"
    using fdemo_step by (auto simp del: funder_step.simps)
  have row: "rapid70 0 \<in> set (programs (seeded_funder 0))" by (simp add: seeded_rows)
  obtain p' where "p' \<in> set (programs fdemo_db)" "fp_id p' = fp_id (rapid70 0)"
    "fp_reserved_capacity p' = fp_reserved_capacity (rapid70 0) - held_capacity ''ACTIVE'' (fp_id (rapid70 0)) (reservations (seeded_funder 0))
      + held_capacity ''ACTIVE'' (fp_id (rapid70 0)) (reservations fdemo_db)"
    "fp_committed_capacity p' = fp_committed_capacity (rapid70 0) - held_capacity ''COMMITTED'' (fp_id (rapid70 0)) (reservations (seeded_funder 0))
      + held_capacity ''COMMITTED'' (fp_id (rapid70 0)) (reservations fdemo_db)"
    using funder_capacity_exact [OF seeded_inv row, of "[(fdemo_env, fdemo_request)]"] unfolding run by blast
  then have "fp_id p' = ''program_demo_rapid70'' \<and> fp_reserved_capacity p' = 80000000 \<and> fp_committed_capacity p' = 680000000"
    by (simp add: fdemo_tables seeded_rows held_capacity_def rapid70_def seed_reservation_def commit_reservation_def)
  with \<open>p' \<in> set (programs fdemo_db)\<close> run row seeded_inv show ?thesis by blast
qed

theorem funder_commit_authorized_witness:
  "funder_inv (seeded_funder 0) \<and> (\<exists>v. funder_step (fdemo_env, fdemo_request) (seeded_funder 0) = (fdemo_db, Inr v)) \<and>
   (\<exists>b body c r. confirms fdemo_env fdemo_request ''commitment_demo_9501'' b \<and> valid_confirm b = Inr body \<and>
     c \<in> set (commitments (seeded_funder 0)) \<and> fc_status c = ''PREPARED'' \<and> r \<in> set (reservations (seeded_funder 0)) \<and>
     rv_status r = ''ACTIVE'' \<and> rv_reserved_amount r = fc_committed_amount c)"
proof -
  obtain v where step: "funder_step (fdemo_env, fdemo_request) (seeded_funder 0) = (fdemo_db, Inr v)"
    using fdemo_step by blast
  define c' where "c' = confirm fdemo_confirm (seed_commitment 0)"
  have c': "c' \<in> set (commitments fdemo_db)" "fc_status c' = ''COMMITTED''" "fc_id c' = ''commitment_demo_9501''"
    by (simp_all add: c'_def fdemo_tables confirm_def seed_commitment_def)
  have "\<forall>c\<in>set (commitments (seeded_funder 0)). fc_id c = fc_id c' \<longrightarrow> fc_status c \<noteq> ''COMMITTED''"
    by (simp add: seeded_rows seed_commitment_def)
  from funder_commit_authorized [OF seeded_inv step c'(1,2) this] show ?thesis
    unfolding c'(3) using seeded_inv step by blast
qed

end
