(* ===== verification/Worker.thy ===== *)
theory Worker
  imports AuditLog
begin

text \<open>
  The job queue (apps/worker/main.py, persistence/models/ops.py): recovery of expired leases,
  claiming and finishing of jobs, publication of the outbox, and the loop of \<open>run_forever\<close>. A
  handler (apps/worker/handlers.py) drives the agent runtime and, through it, the broker, which
  adds rows to the outbox that the loop publishes later. It is a parameter: the text of
  the exception it raises, if any, and the outbox rows that are added while it runs. No handler
  adds jobs; those come from the routes of the API. The webhook is a parameter too. This theory
  has the loop of one worker and shows that it becomes idle; WorkerProperties has the
  interleaving of several workers.
\<close>

section \<open>Jobs\<close>

record job =
  jb_id :: string
  jb_tenant_id :: string
  jb_job_type :: string
  jb_payload :: dict
  jb_state :: string
  jb_available_at :: time
  jb_attempts :: int
  jb_max_attempts :: int
  jb_lease_owner :: "string option"
  jb_lease_expires_at :: "time option"
  jb_last_error :: "string option"

text \<open>
  A new job; the API gives \<open>agent.run\<close> and \<open>mcp.resume\<close> five attempts and
  \<open>memory.embed\<close> three.
\<close>

definition new_job :: "string \<Rightarrow> string \<Rightarrow> string \<Rightarrow> dict \<Rightarrow> int \<Rightarrow> time \<Rightarrow> job" where
  "new_job uuid tenant_id job_type payload max_attempts now =
     \<lparr>jb_id = uuid, jb_tenant_id = tenant_id, jb_job_type = job_type, jb_payload = payload, jb_state = ''AVAILABLE'',
      jb_available_at = now, jb_attempts = 0, jb_max_attempts = max_attempts, jb_lease_owner = None, jb_lease_expires_at = None,
      jb_last_error = None\<rparr>"

text \<open>\<open>select(...).where(p).order_by(key).limit(1)\<close>.\<close>

definition first_by :: "('r \<Rightarrow> int) \<Rightarrow> ('r \<Rightarrow> bool) \<Rightarrow> 'r list \<Rightarrow> 'r option" where
  "first_by key p rows = (case sort_key key (filter p rows) of [] \<Rightarrow> None | r # _ \<Rightarrow> Some r)"

definition lease_expired :: "time \<Rightarrow> job \<Rightarrow> bool" where
  "lease_expired now j \<longleftrightarrow> jb_state j = ''RUNNING'' \<and> (case jb_lease_expires_at j of None \<Rightarrow> False | Some t \<Rightarrow> t < now)"

definition recover_job :: "time \<Rightarrow> job \<Rightarrow> job" where
  "recover_job now j =
     j\<lparr>jb_state := (if jb_attempts j < jb_max_attempts j then ''AVAILABLE'' else ''FAILED''), jb_available_at := now,
       jb_lease_owner := None, jb_lease_expires_at := None, jb_last_error := Some ''Worker lease expired before completion.''\<rparr>"

definition job_update :: "string \<Rightarrow> (job \<Rightarrow> job) \<Rightarrow> job list \<Rightarrow> job list" where
  "job_update i f jobs = update_rows (\<lambda>j. jb_id j = i) f jobs"

text \<open>
  The rows of \<open>locked\<close> are held by other sessions at the moment; \<open>skip_locked\<close> passes over them.
\<close>

definition recover_expired_lease :: "time \<Rightarrow> string list \<Rightarrow> job list \<Rightarrow> job list \<times> bool" where
  "recover_expired_lease now locked jobs =
     (case first_by (\<lambda>j. case jb_lease_expires_at j of None \<Rightarrow> 0 | Some t \<Rightarrow> t)
             (\<lambda>j. lease_expired now j \<and> jb_id j \<notin> set locked) jobs of
        None \<Rightarrow> (jobs, False)
      | Some j \<Rightarrow> (job_update (jb_id j) (recover_job now) jobs, True))"

definition claimable :: "time \<Rightarrow> job \<Rightarrow> bool" where
  "claimable now j \<longleftrightarrow> jb_state j = ''AVAILABLE'' \<and> jb_available_at j \<le> now"

definition start_job :: "string \<Rightarrow> time \<Rightarrow> job \<Rightarrow> job" where
  "start_job owner now j =
     j\<lparr>jb_state := ''RUNNING'', jb_lease_owner := Some owner, jb_lease_expires_at := Some (now + minutes 5),
       jb_attempts := jb_attempts j + 1\<rparr>"

definition claim_job :: "string \<Rightarrow> time \<Rightarrow> string list \<Rightarrow> job list \<Rightarrow> job list \<times> job option" where
  "claim_job owner now locked jobs =
     (case first_by jb_available_at (\<lambda>j. claimable now j \<and> jb_id j \<notin> set locked) jobs of
        None \<Rightarrow> (jobs, None)
      | Some j \<Rightarrow> (job_update (jb_id j) (start_job owner now) jobs, Some j))"

definition fail_job :: "string \<Rightarrow> time \<Rightarrow> job \<Rightarrow> job" where
  "fail_job error now j =
     (let k = j\<lparr>jb_last_error := Some (take 4000 error), jb_lease_owner := None, jb_lease_expires_at := None\<rparr> in
      if jb_max_attempts j \<le> jb_attempts j then k\<lparr>jb_state := ''FAILED''\<rparr>
      else k\<lparr>jb_state := ''AVAILABLE'', jb_available_at := now + seconds (2 ^ nat (jb_attempts j))\<rparr>)"

definition complete_job :: "job \<Rightarrow> job" where
  "complete_job j = j\<lparr>jb_state := ''COMPLETED'', jb_lease_owner := None, jb_lease_expires_at := None\<rparr>"

text \<open>What the handler's return or exception does to the job, whatever its state is by then.\<close>

definition finish_job :: "string option \<Rightarrow> time \<Rightarrow> job \<Rightarrow> job" where
  "finish_job outcome now j = (case outcome of None \<Rightarrow> complete_job j | Some error \<Rightarrow> fail_job error now j)"

section \<open>A worker\<close>

record worker =
  wk_owner :: string
  wk_handlers :: "string list"
  wk_webhook :: "string option"
  wk_service_token :: "string option"

definition main_handlers :: "string list" where
  "main_handlers = [''agent.run'', ''mcp.resume'', ''memory.embed'']"

text \<open>
  What a handler leaves behind: its exception and the outbox rows added by the sessions it causes.
\<close>

record handler_effect =
  he_error :: "string option"
  he_events :: "outbox_event list"

text \<open>
  What one iteration of the loop meets: the clock when it selects and when it is done, the
  rows other sessions hold locked, the effect of a handler, and the error of a webhook call, if
  it fails.
\<close>

record worker_env =
  we_now :: time
  we_done :: time
  we_locked :: "string list"
  we_handler :: "job \<Rightarrow> handler_effect"
  we_post :: "string \<Rightarrow> (string \<times> string) list \<Rightarrow> dict \<Rightarrow> string option"

definition handler_outcome :: "worker \<Rightarrow> (job \<Rightarrow> handler_effect) \<Rightarrow> job \<Rightarrow> handler_effect" where
  "handler_outcome w handler j =
     (if jb_job_type j \<in> set (wk_handlers w) then handler j
      else \<lparr>he_error = Some (''No handler registered for '' @ jb_job_type j), he_events = []\<rparr>)"

record queue =
  jobs :: "job list"
  outbox_rows :: "outbox_event list"

text \<open>Rows that sessions add to the outbox; one whose key is taken is refused.\<close>

fun add_events :: "outbox_event list \<Rightarrow> outbox_event list \<Rightarrow> outbox_event list" where
  "add_events [] rows = rows"
| "add_events (e # es) rows = add_events es (if ob_id e \<in> ob_id ` set rows then rows else rows @ [e])"

text \<open>
  One worker by itself: nothing else writes the job between its claim and its end, so the last
  session of \<open>process_one\<close> reads and writes one and the same row.
\<close>

definition process_one :: "worker \<Rightarrow> worker_env \<Rightarrow> queue \<Rightarrow> queue \<times> bool" where
  "process_one w env q =
     (case claim_job (wk_owner w) (we_now env) (we_locked env) (jobs q) of
        (js, None) \<Rightarrow> (q\<lparr>jobs := js\<rparr>, False)
      | (js, Some j) \<Rightarrow>
          let effect = handler_outcome w (we_handler env) j in
          (q\<lparr>jobs := job_update (jb_id j) (finish_job (he_error effect) (we_done env)) js,
             outbox_rows := add_events (he_events effect) (outbox_rows q)\<rparr>, True))"

definition publish_headers :: "worker \<Rightarrow> outbox_event \<Rightarrow> (string \<times> string) list" where
  "publish_headers w e =
     [(''Content-Type'', ''application/json''), (''X-Correlation-ID'', ob_correlation_id e), (''X-Xyena-Event-ID'', ob_id e)] @
     (case wk_service_token w of None \<Rightarrow> [] | Some t \<Rightarrow> [(''Authorization'', ''Bearer '' @ t)])"

definition publish_envelope :: "outbox_event \<Rightarrow> dict" where
  "publish_envelope e =
     [(''id'', JStr (ob_id e)), (''tenant_id'', JStr (ob_tenant_id e)), (''aggregate_type'', JStr (ob_aggregate_type e)),
      (''aggregate_id'', JStr (ob_aggregate_id e)), (''aggregate_version'', JInt (ob_aggregate_version e)),
      (''event_type'', JStr (ob_event_type e)), (''schema_version'', JStr (ob_schema_version e)),
      (''payload'', JObj (ob_payload e)), (''correlation_id'', JStr (ob_correlation_id e)),
      (''created_at'', JStr (iso_utc (ob_created_at e)))]"

definition mark_published :: "time \<Rightarrow> string option \<Rightarrow> outbox_event \<Rightarrow> outbox_event" where
  "mark_published now error e =
     (case error of
        Some m \<Rightarrow> e\<lparr>ob_attempt_count := ob_attempt_count e + 1, ob_last_error := Some (take 4000 m)\<rparr>
      | None \<Rightarrow> e\<lparr>ob_published_at := Some now, ob_attempt_count := ob_attempt_count e + 1, ob_last_error := None\<rparr>)"

definition publish_outbox_one :: "worker \<Rightarrow> worker_env \<Rightarrow> outbox_event list \<Rightarrow> outbox_event list \<times> bool" where
  "publish_outbox_one w env events =
     (case wk_webhook w of
        None \<Rightarrow> (events, False)
      | Some endpoint \<Rightarrow>
          (case first_by ob_created_at (\<lambda>e. ob_published_at e = None \<and> ob_id e \<notin> set (we_locked env)) events of
             None \<Rightarrow> (events, False)
           | Some e \<Rightarrow>
               let error = we_post env endpoint (publish_headers w e) (publish_envelope e)
               in (update_rows (\<lambda>x. ob_id x = ob_id e) (mark_published (we_done env) error) events, error = None)))"

text \<open>One iteration of \<open>run_forever\<close>: \<open>recovered or process_one() or publish_outbox_one()\<close>.\<close>

definition worker_iteration :: "worker \<Rightarrow> worker_env \<Rightarrow> queue \<Rightarrow> queue \<times> bool" where
  "worker_iteration w env q =
     (case recover_expired_lease (we_now env) (we_locked env) (jobs q) of (js, recovered) \<Rightarrow>
        if recovered then (q\<lparr>jobs := js\<rparr>, True)
        else case process_one w env (q\<lparr>jobs := js\<rparr>) of (q', processed) \<Rightarrow>
          if processed then (q', True)
          else case publish_outbox_one w env (outbox_rows q') of (es, published) \<Rightarrow>
            (q'\<lparr>outbox_rows := es\<rparr>, published))"

text \<open>The loop until it sleeps; the environment of the \<open>n\<close>-th iteration is \<open>envs n\<close>.\<close>

partial_function (option) busy_loop :: "worker \<Rightarrow> (nat \<Rightarrow> worker_env) \<Rightarrow> nat \<Rightarrow> queue \<Rightarrow> (nat \<times> queue) option" where
  "busy_loop w envs n q =
     (case worker_iteration w (envs n) q of (q', processed) \<Rightarrow>
        if processed then busy_loop w envs (Suc n) q' else Some (n, q'))"

section \<open>The loop becomes idle\<close>

interpretation job_rows: keyed_rows jb_id .
interpretation outbox_keyed: keyed_rows ob_id .

lemma first_by_Some: "first_by key p rows = Some r \<Longrightarrow> r \<in> set rows \<and> p r"
proof -
  assume "first_by key p rows = Some r"
  then obtain rest where "sort_key key (filter p rows) = r # rest" by (auto simp: first_by_def split: list.splits)
  then have "r \<in> set (filter p rows)" by (metis list.set_intros(1) set_sort)
  then show "r \<in> set rows \<and> p r" by simp
qed

lemma first_by_None: "first_by key p rows = None \<longleftrightarrow> (\<forall>r\<in>set rows. \<not> p r)"
proof -
  have "first_by key p rows = None \<longleftrightarrow> sort_key key (filter p rows) = []"
    by (auto simp: first_by_def split: list.splits)
  also have "\<dots> \<longleftrightarrow> filter p rows = []" by (metis length_0_conv length_sort)
  finally show ?thesis by (simp add: filter_empty_conv)
qed

text \<open>
  How much work a job can still cause: a claim costs one, an expired lease or a failed run
  leads back to a claim only while attempts are left.
\<close>

definition job_potential :: "job \<Rightarrow> int" where
  "job_potential j =
     (let left = max 0 (jb_max_attempts j - jb_attempts j) in
      if jb_state j = ''AVAILABLE'' then (if left = 0 then 3 else 2 * left + 1)
      else if jb_state j = ''RUNNING'' then 2 * left + 2 else 0)"

definition jobs_potential :: "queue \<Rightarrow> int" where
  "jobs_potential q = sum_list (map job_potential (jobs q))"

definition unpublished :: "outbox_event list \<Rightarrow> int" where
  "unpublished es = sum_list (map (\<lambda>e. if ob_published_at e = None then 1 else 0) es)"

definition potential :: "queue \<Rightarrow> int" where
  "potential q = jobs_potential q + unpublished (outbox_rows q)"

definition queue_keys :: "queue \<Rightarrow> bool" where
  "queue_keys q \<longleftrightarrow> job_rows.wf (jobs q) \<and> outbox_keyed.wf (outbox_rows q)"

lemma job_changes_id [simp]:
  "jb_id (recover_job now j) = jb_id j" "jb_id (start_job owner now j) = jb_id j" "jb_id (finish_job out now j) = jb_id j"
  by (auto simp: recover_job_def start_job_def finish_job_def complete_job_def fail_job_def Let_def split: option.split)

lemma job_potential_nonneg: "0 \<le> job_potential j"
  by (simp add: job_potential_def Let_def)

lemma job_potential_recover: "jb_state j = ''RUNNING'' \<Longrightarrow> job_potential (recover_job now j) < job_potential j"
  by (auto simp: job_potential_def recover_job_def Let_def)

lemma job_potential_start: "jb_state j = ''AVAILABLE'' \<Longrightarrow> job_potential (start_job owner now j) < job_potential j"
  by (auto simp: job_potential_def start_job_def Let_def)

lemma job_potential_finish: "jb_state j = ''RUNNING'' \<Longrightarrow> job_potential (finish_job out now j) < job_potential j"
  by (auto simp: job_potential_def finish_job_def complete_job_def fail_job_def Let_def split: option.split)

lemma job_update_potential:
  assumes "job_rows.wf js" "j \<in> set js" "job_potential (f j) < job_potential j"
  shows "sum_list (map job_potential (job_update (jb_id j) f js)) < sum_list (map job_potential js)"
  unfolding job_update_def using job_rows.sum_update [OF assms(1,2) refl, of job_potential f] assms(3) by simp

lemma job_update_keys: "(\<And>j. jb_id (f j) = jb_id j) \<Longrightarrow> job_rows.wf (job_update i f js) = job_rows.wf js"
  by (simp add: job_update_def job_rows.wf_update)

lemma recover_progress:
  assumes "recover_expired_lease now locked js = (js', True)" "job_rows.wf js"
  shows "job_rows.wf js'" "sum_list (map job_potential js') < sum_list (map job_potential js)"
proof -
  from assms(1) obtain j where j: "j \<in> set js" "lease_expired now j" "js' = job_update (jb_id j) (recover_job now) js"
    by (auto simp: recover_expired_lease_def split: option.splits dest: first_by_Some)
  then have "job_potential (recover_job now j) < job_potential j"
    by (intro job_potential_recover) (simp add: lease_expired_def)
  with j assms(2) show "job_rows.wf js'" "sum_list (map job_potential js') < sum_list (map job_potential js)"
    by (simp_all add: job_update_keys job_update_potential)
qed

lemma add_events_keys: "outbox_keyed.wf rows \<Longrightarrow> outbox_keyed.wf (add_events es rows)"
proof (induction es arbitrary: rows)
  case (Cons e es)
  show ?case
  proof (cases "ob_id e \<in> ob_id ` set rows")
    case False
    with Cons.prems have "outbox_keyed.wf (rows @ [e])"
      by (auto simp: outbox_keyed.wf_def unique_by_snoc image_iff)
    with False Cons.IH show ?thesis by simp
  qed (use Cons in simp)
qed simp

text \<open>Every added row may have to be published.\<close>

lemma add_events_unpublished:
  "unpublished (add_events es rows) - int (length (add_events es rows)) \<le> unpublished rows - int (length rows)"
proof (induction es arbitrary: rows)
  case (Cons e es)
  from Cons.IH [of "if ob_id e \<in> ob_id ` set rows then rows else rows @ [e]"] show ?case
    by (auto simp: unpublished_def split: if_splits)
qed simp

lemma process_progress:
  assumes "process_one w env q = (q', True)" "queue_keys q"
  shows "queue_keys q'" "jobs_potential q' < jobs_potential q"
    "unpublished (outbox_rows q') - int (length (outbox_rows q')) \<le> unpublished (outbox_rows q) - int (length (outbox_rows q))"
proof -
  from assms(1) obtain j out es where j: "j \<in> set (jobs q)" "claimable (we_now env) j"
    and js': "jobs q' = job_update (jb_id j) (finish_job out (we_done env))
       (job_update (jb_id j) (start_job (wk_owner w) (we_now env)) (jobs q))"
    and es: "outbox_rows q' = add_events es (outbox_rows q)"
    by (auto simp: process_one_def claim_job_def Let_def split: option.splits dest: first_by_Some)
  from assms(2) have keys: "job_rows.wf (jobs q)" "outbox_keyed.wf (outbox_rows q)" by (simp_all add: queue_keys_def)
  define k where "k = start_job (wk_owner w) (we_now env) j"
  define mid where "mid = job_update (jb_id j) (start_job (wk_owner w) (we_now env)) (jobs q)"
  have k: "k \<in> set mid" "jb_id k = jb_id j" "jb_state k = ''RUNNING''"
    using j(1) unfolding k_def mid_def job_update_def by (auto simp: set_update_rows start_job_def)
  have last: "jobs q' = job_update (jb_id k) (finish_job out (we_done env)) mid"
    by (simp add: js' mid_def k(2))
  have wf: "job_rows.wf mid" using keys(1) by (simp add: mid_def job_update_keys)
  have one: "sum_list (map job_potential mid) < sum_list (map job_potential (jobs q))" unfolding mid_def
    using j by (intro job_update_potential [OF keys(1)] job_potential_start) (simp_all add: claimable_def)
  have two: "sum_list (map job_potential (jobs q')) < sum_list (map job_potential mid)"
    unfolding last using job_potential_finish [OF k(3)] by (rule job_update_potential [OF wf k(1)])
  have "job_rows.wf (jobs q')" using wf unfolding last by (simp add: job_update_keys)
  then show "queue_keys q'" using add_events_keys [OF keys(2)] by (simp add: queue_keys_def es)
  show "jobs_potential q' < jobs_potential q" using one two by (simp add: jobs_potential_def)
  show "unpublished (outbox_rows q') - int (length (outbox_rows q')) \<le> unpublished (outbox_rows q) - int (length (outbox_rows q))"
    unfolding es by (rule add_events_unpublished)
qed

lemma publish_length: "publish_outbox_one w env es = (es', b) \<Longrightarrow> length es' = length es"
  by (auto simp: publish_outbox_one_def update_rows_def Let_def split: option.splits)

lemma publish_progress:
  assumes "publish_outbox_one w env es = (es', True)" "outbox_keyed.wf es"
  shows "outbox_keyed.wf es'" "unpublished es' < unpublished es" "length es' = length es"
proof -
  from assms(1) obtain e endpoint where e: "e \<in> set es" "ob_published_at e = None"
    and es': "es' = update_rows (\<lambda>x. ob_id x = ob_id e) (mark_published (we_done env) None) es"
    by (auto simp: publish_outbox_one_def Let_def split: option.splits dest!: first_by_Some)
  have keep: "\<And>x. ob_id (mark_published (we_done env) None x) = ob_id x" by (simp add: mark_published_def)
  show "outbox_keyed.wf es'" unfolding es' using outbox_keyed.wf_update [OF keep] assms(2) by simp
  show "length es' = length es" using assms(1) by (rule publish_length)
  show "unpublished es' < unpublished es"
    unfolding es' unpublished_def outbox_keyed.sum_update [OF assms(2) e(1) refl] using e(2) by (simp add: mark_published_def)
qed

text \<open>
  A busy iteration uses up work of the jobs, or publishes a row and leaves the jobs alone. The
  debt is what is left to do, less the rows there are: it shrinks even while handlers add rows.
\<close>

definition debt :: "queue \<Rightarrow> int" where
  "debt q = potential q - int (length (outbox_rows q))"

lemma iteration_progress:
  assumes "worker_iteration w env q = (q', True)" "queue_keys q"
  shows "queue_keys q'" "debt q' < debt q"
    "jobs_potential q' < jobs_potential q \<or> jobs q' = jobs q \<and> unpublished (outbox_rows q') < unpublished (outbox_rows q)"
proof -
  obtain js r where rec: "recover_expired_lease (we_now env) (we_locked env) (jobs q) = (js, r)" by fastforce
  have keys: "job_rows.wf (jobs q)" "outbox_keyed.wf (outbox_rows q)" using assms(2) by (simp_all add: queue_keys_def)
  have "queue_keys q' \<and> debt q' < debt q \<and>
    (jobs_potential q' < jobs_potential q \<or> jobs q' = jobs q \<and> unpublished (outbox_rows q') < unpublished (outbox_rows q))"
  proof (cases r)
    case True
    with assms(1) rec have "q' = q\<lparr>jobs := js\<rparr>" by (simp add: worker_iteration_def)
    with True rec recover_progress [of "we_now env" "we_locked env" "jobs q" js] keys show ?thesis
      by (simp add: queue_keys_def debt_def potential_def jobs_potential_def)
  next
    case r: False
    then have "js = jobs q" using rec by (auto simp: recover_expired_lease_def split: option.splits)
    then have it: "worker_iteration w env q = (case process_one w env q of (q1, processed) \<Rightarrow> if processed then (q1, True)
        else case publish_outbox_one w env (outbox_rows q1) of (es, published) \<Rightarrow> (q1\<lparr>outbox_rows := es\<rparr>, published))"
      using rec r by (simp add: worker_iteration_def)
    obtain q1 p where proc: "process_one w env q = (q1, p)" by fastforce
    show ?thesis
    proof (cases p)
      case True
      with assms(1) it proc have "process_one w env q = (q', True)" by simp
      from process_progress [OF this assms(2)] show ?thesis by (simp add: debt_def potential_def)
    next
      case p: False
      then have q1: "q1 = q" using proc by (auto simp: process_one_def claim_job_def Let_def split: option.splits)
      obtain es b where pub: "publish_outbox_one w env (outbox_rows q) = (es, b)" by fastforce
      with assms(1) it proc p q1 have "b" "q' = q\<lparr>outbox_rows := es\<rparr>" by auto
      with publish_progress [of w env "outbox_rows q" es] pub keys show ?thesis
        by (simp add: queue_keys_def debt_def potential_def jobs_potential_def)
    qed
  qed
  then show "queue_keys q'" "debt q' < debt q"
    "jobs_potential q' < jobs_potential q \<or> jobs q' = jobs q \<and> unpublished (outbox_rows q') < unpublished (outbox_rows q)"
    by blast+
qed

lemma iteration_idle:
  assumes "worker_iteration w env q = (q', False)"
  shows "length (outbox_rows q') = length (outbox_rows q)"
  using assms by (auto simp: worker_iteration_def process_one_def Let_def dest: publish_length split: prod.splits option.splits if_splits)

lemma unpublished_nonneg: "0 \<le> unpublished es"
  unfolding unpublished_def by (intro sum_list_nonneg) auto

lemma jobs_potential_nonneg: "0 \<le> jobs_potential q"
  unfolding jobs_potential_def by (intro sum_list_nonneg) (auto simp: job_potential_nonneg)

lemma potential_nonneg: "0 \<le> potential q"
  by (simp add: potential_def unpublished_nonneg jobs_potential_nonneg)

text \<open>The jobs' work first, then the outbox: both are natural numbers.\<close>

definition busy_order :: "(queue \<times> queue) set" where
  "busy_order = measures [\<lambda>q. nat (jobs_potential q), \<lambda>q. nat (unpublished (outbox_rows q))]"

lemma wf_busy_order: "wf busy_order"
  by (simp add: busy_order_def)

lemma busy_order_decreases:
  assumes "jobs_potential q' < jobs_potential q \<or> jobs q' = jobs q \<and> unpublished (outbox_rows q') < unpublished (outbox_rows q)"
  shows "(q', q) \<in> busy_order"
proof -
  have "0 \<le> jobs_potential q'" "0 \<le> unpublished (outbox_rows q')" by (rule jobs_potential_nonneg unpublished_nonneg)+
  with assms show ?thesis by (auto simp: busy_order_def jobs_potential_def)
qed

lemma busy_loop_returns:
  assumes "queue_keys q"
  shows "\<exists>m q'. busy_loop w envs n q = Some (m, q') \<and> n \<le> m \<and> int (m - n) \<le> debt q + int (length (outbox_rows q')) \<and>
    (\<exists>q0. queue_keys q0 \<and> worker_iteration w (envs m) q0 = (q', False))"
  using assms
proof (induction q arbitrary: n rule: wf_induct_rule [OF wf_busy_order])
  case (1 q)
  obtain q1 p where it: "worker_iteration w (envs n) q = (q1, p)" by fastforce
  show ?case
  proof (cases p)
    case False
    with it have "length (outbox_rows q1) = length (outbox_rows q)" by (auto dest: iteration_idle)
    with it False "1.prems" show ?thesis
      by (subst busy_loop.simps) (auto simp: debt_def potential_nonneg)
  next
    case True
    with it have it': "worker_iteration w (envs n) q = (q1, True)" by simp
    note q1 = iteration_progress [OF it' "1.prems"]
    from "1.IH" [OF busy_order_decreases [OF q1(3)] q1(1), of "Suc n"] obtain m q' where
      m: "busy_loop w envs (Suc n) q1 = Some (m, q')" "Suc n \<le> m"
      "int (m - Suc n) \<le> debt q1 + int (length (outbox_rows q'))"
      "\<exists>q0. queue_keys q0 \<and> worker_iteration w (envs m) q0 = (q', False)" by blast
    then have "busy_loop w envs n q = Some (m, q')" using it True by (subst busy_loop.simps) simp
    moreover have "int (m - n) \<le> debt q + int (length (outbox_rows q'))" using m(2,3) q1(2) by linarith
    ultimately show ?thesis using m(2,4) by (intro exI [of _ m] exI [of _ q']) simp
  qed
qed

end
