(* ===== verification/WorkerProperties.thy ===== *)
theory WorkerProperties
  imports Worker
begin

text \<open>
  Several workers on one queue. A claim and the recovery of a lease read and write under a row
  lock, so each is one event. The session that ends a run takes no lock: \<open>db.get\<close> reads
  the job, and the commit writes the columns that have changed since; the two are separate
  events, and sessions of other workers may come between them. A worker may die at any point,
  and other processes enqueue jobs and outbox rows. \<open>pl_started\<close> records the handlers that have
  been started.
\<close>

section \<open>The pool\<close>

text \<open>A run is with its handler, or its last session has read a row and is going to write another.\<close>

datatype run_phase = Handling | Ending job job

record flight =
  fl_worker :: worker
  fl_job :: job
  fl_phase :: run_phase

record pool = queue +
  pl_flights :: "flight list"
  pl_started :: "string list"

datatype worker_event =
    Enqueues string string string dict int time
  | Emits "outbox_event list"
  | Recovers time "string list"
  | Claims worker time "string list"
  | EndReads nat time "string option"
  | EndWrites nat
  | Dies nat
  | Publishes worker worker_env

definition enqueue_job :: "job \<Rightarrow> job list \<Rightarrow> job list \<times> bool" where
  "enqueue_job j js = (if jb_id j \<in> jb_id ` set js then (js, False) else (js @ [j], True))"

text \<open>The first session of \<open>process_one\<close>; the handler of a registered type is started next.\<close>

definition pool_claim :: "worker \<Rightarrow> time \<Rightarrow> string list \<Rightarrow> pool \<Rightarrow> pool \<times> bool" where
  "pool_claim w now locked p =
     (case claim_job (wk_owner w) now locked (jobs p) of
        (js, None) \<Rightarrow> (p, False)
      | (js, Some j) \<Rightarrow>
          (p\<lparr>jobs := js, pl_flights := pl_flights p @ [\<lparr>fl_worker = w, fl_job = j, fl_phase = Handling\<rparr>],
             pl_started := pl_started p @ (if jb_job_type j \<in> set (wk_handlers w) then [jb_id j] else [])\<rparr>, True))"

text \<open>
  The last session of a run: the row it reads, with what it assigns to it. At the commit the
  columns whose value differs from the one read are written, over whatever the row is by then.
\<close>

definition end_reads :: "time \<Rightarrow> string option \<Rightarrow> job list \<Rightarrow> flight \<Rightarrow> flight option" where
  "end_reads now error js f =
     (case scalar (\<lambda>j. jb_id j = jb_id (fl_job f)) js of
        None \<Rightarrow> None
      | Some j \<Rightarrow>
          let effect = handler_outcome (fl_worker f) (\<lambda>_. \<lparr>he_error = error, he_events = []\<rparr>) (fl_job f)
          in Some (f\<lparr>fl_phase := Ending j (finish_job (he_error effect) now j)\<rparr>))"

definition written :: "('r \<Rightarrow> 'c) \<Rightarrow> 'r \<Rightarrow> 'r \<Rightarrow> 'r \<Rightarrow> 'c" where
  "written column before after row = (if column after = column before then column row else column after)"

definition write_changes :: "job \<Rightarrow> job \<Rightarrow> job \<Rightarrow> job" where
  "write_changes before after j =
     j\<lparr>jb_state := written jb_state before after j, jb_available_at := written jb_available_at before after j,
       jb_lease_owner := written jb_lease_owner before after j,
       jb_lease_expires_at := written jb_lease_expires_at before after j,
       jb_last_error := written jb_last_error before after j\<rparr>"

definition drop_nth :: "nat \<Rightarrow> 'a list \<Rightarrow> 'a list" where
  "drop_nth k xs = take k xs @ drop (Suc k) xs"

fun pool_step :: "worker_event \<Rightarrow> pool \<Rightarrow> pool \<times> bool" where
  "pool_step (Enqueues i tenant_id job_type payload max_attempts now) p =
     (case enqueue_job (new_job i tenant_id job_type payload max_attempts now) (jobs p) of (js, r) \<Rightarrow> (p\<lparr>jobs := js\<rparr>, r))"
| "pool_step (Emits es) p = (p\<lparr>outbox_rows := add_events es (outbox_rows p)\<rparr>, True)"
| "pool_step (Recovers now locked) p =
     (case recover_expired_lease now locked (jobs p) of (js, r) \<Rightarrow> (p\<lparr>jobs := js\<rparr>, r))"
| "pool_step (Claims w now locked) p = pool_claim w now locked p"
| "pool_step (EndReads k now error) p =
     (if k < length (pl_flights p) \<and> fl_phase (pl_flights p ! k) = Handling
      then (case end_reads now error (jobs p) (pl_flights p ! k) of
              None \<Rightarrow> (p\<lparr>pl_flights := drop_nth k (pl_flights p)\<rparr>, True)
            | Some f \<Rightarrow> (p\<lparr>pl_flights := (pl_flights p)[k := f]\<rparr>, True))
      else (p, False))"
| "pool_step (EndWrites k) p =
     (if k < length (pl_flights p)
      then (case fl_phase (pl_flights p ! k) of
              Handling \<Rightarrow> (p, False)
            | Ending before after \<Rightarrow>
                (p\<lparr>jobs := job_update (jb_id before) (write_changes before after) (jobs p),
                   pl_flights := drop_nth k (pl_flights p)\<rparr>, True))
      else (p, False))"
| "pool_step (Dies k) p = (p\<lparr>pl_flights := drop_nth k (pl_flights p)\<rparr>, True)"
| "pool_step (Publishes w env) p =
     (case publish_outbox_one w env (outbox_rows p) of (es, r) \<Rightarrow> (p\<lparr>outbox_rows := es\<rparr>, r))"

definition empty_pool :: pool where
  "empty_pool = \<lparr>jobs = [], outbox_rows = [], pl_flights = [], pl_started = []\<rparr>"

section \<open>Attempts\<close>

text \<open>
  A run is \<^emph>\<open>stale\<close> when its last session has read a row with attempts left: its write may make
  the job available whatever has happened to it since. It is \<^emph>\<open>open\<close> when it may become stale.
\<close>

definition stale_run :: "string \<Rightarrow> flight \<Rightarrow> bool" where
  "stale_run i f \<longleftrightarrow> (case fl_phase f of
     Handling \<Rightarrow> False
   | Ending before after \<Rightarrow> jb_id before = i \<and> jb_attempts before < jb_max_attempts before)"

definition open_run :: "string \<Rightarrow> flight \<Rightarrow> bool" where
  "open_run i f \<longleftrightarrow> stale_run i f \<or> fl_phase f = Handling \<and> jb_id (fl_job f) = i"

definition runs_in :: "(flight \<Rightarrow> bool) \<Rightarrow> flight list \<Rightarrow> int" where
  "runs_in P fs = int (length (filter P fs))"

text \<open>
  Every claim opens one run and counts one attempt, so fewer runs are open than the job may have
  attempts while attempts are left; when none are left, no further run can become
  stale, and each stale run makes the job available once at most.
\<close>

definition attempt_limit :: "job \<Rightarrow> int" where
  "attempt_limit j = max 1 (2 * jb_max_attempts j - 1)"

definition job_ok :: "string list \<Rightarrow> flight list \<Rightarrow> job \<Rightarrow> bool" where
  "job_ok started fs j \<longleftrightarrow> int (count_list started (jb_id j)) \<le> jb_attempts j \<and>
     (if jb_attempts j < jb_max_attempts j then runs_in (open_run (jb_id j)) fs \<le> jb_attempts j
      else jb_attempts j + runs_in (stale_run (jb_id j)) fs + (if jb_state j = ''AVAILABLE'' then 1 else 0) \<le> attempt_limit j)"

definition flight_ok :: "string set \<Rightarrow> flight \<Rightarrow> bool" where
  "flight_ok ids f \<longleftrightarrow> jb_id (fl_job f) \<in> ids \<and> (case fl_phase f of
     Handling \<Rightarrow> True
   | Ending before after \<Rightarrow> jb_id before = jb_id (fl_job f) \<and>
       (jb_state after = ''AVAILABLE'' \<longrightarrow> jb_state before = ''AVAILABLE'' \<or> jb_attempts before < jb_max_attempts before))"

definition pool_inv :: "pool \<Rightarrow> bool" where
  "pool_inv p \<longleftrightarrow> job_rows.wf (jobs p) \<and> set (pl_started p) \<subseteq> jb_id ` set (jobs p) \<and>
     (\<forall>f\<in>set (pl_flights p). flight_ok (jb_id ` set (jobs p)) f) \<and>
     (\<forall>j\<in>set (jobs p). job_ok (pl_started p) (pl_flights p) j)"

subsection \<open>Counting runs\<close>

lemma runs_in_simps [simp]:
  "runs_in P [] = 0" "runs_in P (f # fs) = (if P f then 1 else 0) + runs_in P fs"
  "runs_in P (fs @ gs) = runs_in P fs + runs_in P gs"
  by (simp_all add: runs_in_def)

lemma runs_in_nonneg: "0 \<le> runs_in P fs"
  by (simp add: runs_in_def)

lemma runs_in_split: "k < length fs \<Longrightarrow> runs_in P fs = (if P (fs ! k) then 1 else 0) + runs_in P (drop_nth k fs)"
  by (subst id_take_nth_drop [of k fs]) (simp_all add: drop_nth_def)

lemma runs_in_update:
  "k < length fs \<Longrightarrow> runs_in P (fs[k := f]) = (if P f then 1 else 0) + runs_in P (drop_nth k fs)"
  by (simp add: upd_conv_take_nth_drop drop_nth_def)

lemma set_drop_nth: "f \<in> set (drop_nth k fs) \<Longrightarrow> f \<in> set fs"
  unfolding drop_nth_def by (auto dest: in_set_takeD in_set_dropD)

lemma runs_in_drop: "runs_in P (drop_nth k fs) \<le> runs_in P fs"
proof (cases "k < length fs")
  case True
  from runs_in_split [OF this, of P] show ?thesis by simp
qed (simp add: drop_nth_def)

lemma stale_runs_open: "runs_in (stale_run i) fs \<le> runs_in (open_run i) fs"
  by (induction fs) (auto simp: open_run_def)

lemma no_runs: "\<forall>f\<in>set fs. flight_ok ids f \<Longrightarrow> i \<notin> ids \<Longrightarrow> runs_in (stale_run i) fs = 0 \<and> runs_in (open_run i) fs = 0"
  by (induction fs) (auto simp: flight_ok_def open_run_def stale_run_def split: run_phase.splits)

lemma job_ok_fewer:
  assumes "job_ok started fs j" "\<And>i. runs_in (open_run i) gs \<le> runs_in (open_run i) fs"
    "\<And>i. runs_in (stale_run i) gs \<le> runs_in (stale_run i) fs"
  shows "job_ok started gs j"
  using assms(1) assms(2,3) [of "jb_id j"] by (auto simp: job_ok_def)

subsection \<open>Every event keeps the invariant\<close>

lemma job_ids_update: "(\<And>j. jb_id (f j) = jb_id j) \<Longrightarrow> jb_id ` set (job_update i f js) = jb_id ` set js"
  unfolding job_update_def set_update_rows image_image by (intro image_cong) auto

lemma write_changes_fields [simp]:
  "jb_id (write_changes before after j) = jb_id j" "jb_attempts (write_changes before after j) = jb_attempts j"
  "jb_max_attempts (write_changes before after j) = jb_max_attempts j"
  "jb_state (write_changes before after j) = written jb_state before after j"
  by (simp_all add: write_changes_def)

lemma recovered_fields:
  "jb_attempts (recover_job now j) = jb_attempts j" "jb_max_attempts (recover_job now j) = jb_max_attempts j"
  "jb_state (recover_job now j) = (if jb_attempts j < jb_max_attempts j then ''AVAILABLE'' else ''FAILED'')"
  by (simp_all add: recover_job_def)

lemma attempt_limit_simps [simp]:
  "attempt_limit (write_changes before after j) = attempt_limit j" "attempt_limit (recover_job now j) = attempt_limit j"
  "attempt_limit (start_job owner now j) = attempt_limit j"
  by (simp_all add: attempt_limit_def recover_job_def start_job_def)

lemma finish_job_state:
  "jb_state (finish_job out now j) = ''AVAILABLE'' \<Longrightarrow> jb_attempts j < jb_max_attempts j"
  by (auto simp: finish_job_def complete_job_def fail_job_def Let_def split: option.splits if_splits)

lemma pool_inv_jobs:
  assumes "pool_inv p" "\<And>j. jb_id (f j) = jb_id j" "jobs p' = job_update i f (jobs p)" "pl_started p' = pl_started p"
    and flights: "\<And>g. g \<in> set (pl_flights p') \<Longrightarrow> flight_ok (jb_id ` set (jobs p)) g"
    and at: "\<And>j. j \<in> set (jobs p) \<Longrightarrow> jb_id j = i \<Longrightarrow> job_ok (pl_started p) (pl_flights p) j \<Longrightarrow>
      job_ok (pl_started p) (pl_flights p') (f j)"
    and others: "\<And>j. j \<in> set (jobs p) \<Longrightarrow> jb_id j \<noteq> i \<Longrightarrow> job_ok (pl_started p) (pl_flights p) j \<Longrightarrow>
      job_ok (pl_started p) (pl_flights p') j"
  shows "pool_inv p'"
proof -
  have "job_ok (pl_started p) (pl_flights p') k" if "k \<in> set (jobs p')" for k
    using that assms(1) at others unfolding assms(3) job_update_def set_update_rows pool_inv_def by auto
  moreover have "jb_id ` set (jobs p') = jb_id ` set (jobs p)" unfolding assms(3) by (rule job_ids_update) (rule assms(2))
  ultimately show ?thesis using assms(1-4) flights by (simp add: pool_inv_def job_update_keys)
qed

lemma pool_inv_flights:
  assumes "pool_inv p" "jobs p' = jobs p" "pl_started p' = pl_started p"
    "\<And>g. g \<in> set (pl_flights p') \<Longrightarrow> flight_ok (jb_id ` set (jobs p)) g"
    "\<And>j. j \<in> set (jobs p) \<Longrightarrow> job_ok (pl_started p) (pl_flights p) j \<Longrightarrow> job_ok (pl_started p) (pl_flights p') j"
  shows "pool_inv p'"
  using assms by (simp add: pool_inv_def)

lemma pool_claim_inv:
  assumes "pool_inv p"
  shows "pool_inv (fst (pool_claim w now locked p))"
proof (cases "first_by jb_available_at (\<lambda>j. claimable now j \<and> jb_id j \<notin> set locked) (jobs p)")
  case None
  with assms show ?thesis by (simp add: pool_claim_def claim_job_def)
next
  case (Some j)
  define p' where "p' = fst (pool_claim w now locked p)"
  have j: "j \<in> set (jobs p)" "jb_state j = ''AVAILABLE''"
    using first_by_Some [OF Some] by (simp_all add: claimable_def)
  have p': "jobs p' = job_update (jb_id j) (start_job (wk_owner w) now) (jobs p)"
    "pl_started p' = pl_started p @ (if jb_job_type j \<in> set (wk_handlers w) then [jb_id j] else [])"
    "pl_flights p' = pl_flights p @ [\<lparr>fl_worker = w, fl_job = j, fl_phase = Handling\<rparr>]"
    using Some by (simp_all add: p'_def pool_claim_def claim_job_def)
  have ids: "jb_id ` set (jobs p') = jb_id ` set (jobs p)" unfolding p'(1) by (rule job_ids_update) simp
  have ok: "job_ok (pl_started p') (pl_flights p') k'" if "k' \<in> set (jobs p')" for k'
  proof -
    from that obtain k where k: "k \<in> set (jobs p)" "k' = (if jb_id k = jb_id j then start_job (wk_owner w) now k else k)"
      unfolding p'(1) job_update_def set_update_rows by blast
    have okk: "job_ok (pl_started p) (pl_flights p) k" using assms k(1) by (simp add: pool_inv_def)
    note open_runs = stale_runs_open [of "jb_id k" "pl_flights p"]
    show ?thesis
    proof (cases "jb_id k = jb_id j")
      case True
      then have "k = j" using assms job_rows.row_eq [of "jobs p"] j(1) k(1) by (simp add: pool_inv_def)
      with k(2) okk j(2) open_runs show ?thesis
        by (auto simp: job_ok_def start_job_def p'(2,3) attempt_limit_def open_run_def stale_run_def split: if_splits)
    next
      case False
      with k(2) okk show ?thesis by (auto simp: job_ok_def p'(2,3) open_run_def stale_run_def)
    qed
  qed
  have "\<forall>f\<in>set (pl_flights p'). flight_ok (jb_id ` set (jobs p')) f"
    using assms j(1) unfolding ids by (auto simp: pool_inv_def p'(3) flight_ok_def)
  moreover have "set (pl_started p') \<subseteq> jb_id ` set (jobs p')" using assms j(1) unfolding ids by (auto simp: pool_inv_def p'(2))
  ultimately show ?thesis
    using assms ok unfolding p'_def [symmetric] by (simp add: pool_inv_def p'(1) job_update_keys)
qed

lemma enqueue_inv:
  assumes "pool_inv p" "enqueue_job (new_job i tenant_id job_type payload max_attempts now) (jobs p) = (js, r)"
  shows "pool_inv (p\<lparr>jobs := js\<rparr>)"
proof (cases "i \<in> jb_id ` set (jobs p)")
  case False
  let ?j = "new_job i tenant_id job_type payload max_attempts now"
  have js: "js = jobs p @ [?j]" using assms(2) False by (auto simp: enqueue_job_def new_job_def)
  have "i \<notin> set (pl_started p)" using assms(1) False by (auto simp: pool_inv_def)
  then have "count_list (pl_started p) i = 0" by (simp add: count_list_0_iff)
  moreover have "runs_in (stale_run i) (pl_flights p) = 0 \<and> runs_in (open_run i) (pl_flights p) = 0"
    using assms(1) False by (intro no_runs [of _ "jb_id ` set (jobs p)"]) (auto simp: pool_inv_def)
  ultimately have "job_ok (pl_started p) (pl_flights p) ?j"
    by (simp add: job_ok_def new_job_def attempt_limit_def)
  moreover have "job_rows.wf js"
    using assms(1) False by (auto simp: pool_inv_def js job_rows.wf_def unique_by_snoc image_iff new_job_def)
  moreover have "flight_ok (insert (jb_id ?j) (jb_id ` set (jobs p))) f" if "f \<in> set (pl_flights p)" for f
    using assms(1) that by (auto simp: pool_inv_def flight_ok_def)
  ultimately show ?thesis using assms(1) by (auto simp: pool_inv_def js)
qed (use assms in \<open>auto simp: enqueue_job_def new_job_def\<close>)

lemma end_reads_inv:
  assumes "pool_inv p" "k < length (pl_flights p)" "fl_phase (pl_flights p ! k) = Handling"
    "end_reads now error (jobs p) (pl_flights p ! k) = Some f"
  shows "pool_inv (p\<lparr>pl_flights := (pl_flights p)[k := f]\<rparr>)"
proof -
  let ?f = "pl_flights p ! k"
  from assms(4) obtain j out where j: "j \<in> set (jobs p)" "jb_id j = jb_id (fl_job ?f)"
    and f: "f = ?f\<lparr>fl_phase := Ending j (finish_job out now j)\<rparr>"
    by (auto simp: end_reads_def Let_def split: option.splits dest: scalar_Some)
  then have known: "jb_id (fl_job ?f) \<in> jb_id ` set (jobs p)" by (metis image_eqI)
  show ?thesis
  proof (rule pool_inv_flights [OF assms(1)])
    fix g assume "g \<in> set (pl_flights (p\<lparr>pl_flights := (pl_flights p)[k := f]\<rparr>))"
    then have "g = f \<or> g \<in> set (pl_flights p)" using set_update_subset_insert [of "pl_flights p" k f] by auto
    then show "flight_ok (jb_id ` set (jobs p)) g"
      using assms(1) j known finish_job_state by (auto simp: pool_inv_def flight_ok_def f)
  next
    fix i assume i: "i \<in> set (jobs p)" "job_ok (pl_started p) (pl_flights p) i"
    have "stale_run (jb_id i) f \<longleftrightarrow> jb_id i = jb_id j \<and> jb_attempts j < jb_max_attempts j" "\<not> stale_run (jb_id i) ?f"
      "open_run (jb_id i) ?f \<longleftrightarrow> jb_id i = jb_id j" "open_run (jb_id i) f \<longleftrightarrow> stale_run (jb_id i) f"
      using assms(3) j(2) by (auto simp: stale_run_def open_run_def f)
    moreover have "i = j" if "jb_id i = jb_id j"
      using that assms(1) i(1) j(1) job_rows.row_eq [of "jobs p"] by (simp add: pool_inv_def)
    ultimately show "job_ok (pl_started p) (pl_flights (p\<lparr>pl_flights := (pl_flights p)[k := f]\<rparr>)) i"
      using i(2) runs_in_split [OF assms(2)] by (auto simp: job_ok_def runs_in_update [OF assms(2)] split: if_splits)
  qed (simp_all)
qed

lemma end_writes_inv:
  assumes "pool_inv p" "k < length (pl_flights p)" "fl_phase (pl_flights p ! k) = Ending before after"
  shows "pool_inv (p\<lparr>jobs := job_update (jb_id before) (write_changes before after) (jobs p),
    pl_flights := drop_nth k (pl_flights p)\<rparr>)"
proof (rule pool_inv_jobs [OF assms(1), where f = "write_changes before after" and i = "jb_id before"])
  let ?f = "pl_flights p ! k"
  have ok: "flight_ok (jb_id ` set (jobs p)) ?f" using assms(1,2) by (simp add: pool_inv_def)
  have runs: "runs_in P (pl_flights p) = (if P ?f then 1 else 0) + runs_in P (drop_nth k (pl_flights p))" for P
    by (rule runs_in_split [OF assms(2)])
  let ?p = "p\<lparr>jobs := job_update (jb_id before) (write_changes before after) (jobs p), pl_flights := drop_nth k (pl_flights p)\<rparr>"
  fix j assume j: "job_ok (pl_started p) (pl_flights p) j"
  have fewer: "job_ok (pl_started p) (drop_nth k (pl_flights p)) j"
    using j by (rule job_ok_fewer) (rule runs_in_drop)+
  then show "job_ok (pl_started p) (pl_flights ?p) j" by simp
  assume i: "jb_id j = jb_id before"
  show "job_ok (pl_started p) (pl_flights ?p) (write_changes before after j)"
  proof (cases "jb_state (write_changes before after j) = ''AVAILABLE'' \<and> jb_state j \<noteq> ''AVAILABLE''")
    case True
    then have "stale_run (jb_id j) ?f"
      using ok assms(3) i by (auto simp: written_def flight_ok_def stale_run_def split: if_splits)
    with True j runs [of "stale_run (jb_id j)"] runs [of "open_run (jb_id j)"] show ?thesis
      by (auto simp: job_ok_def open_run_def)
  next
    case False
    with fewer show ?thesis by (auto simp: job_ok_def split: if_splits)
  qed
next
  fix g assume "g \<in> set (pl_flights (p\<lparr>jobs := job_update (jb_id before) (write_changes before after) (jobs p),
    pl_flights := drop_nth k (pl_flights p)\<rparr>))"
  then have "g \<in> set (pl_flights p)" by (auto dest: set_drop_nth)
  then show "flight_ok (jb_id ` set (jobs p)) g" using assms(1) by (simp add: pool_inv_def)
qed simp_all

lemma drop_run_inv:
  assumes "pool_inv p"
  shows "pool_inv (p\<lparr>pl_flights := drop_nth k (pl_flights p)\<rparr>)"
proof (rule pool_inv_flights [OF assms])
  fix g assume "g \<in> set (pl_flights (p\<lparr>pl_flights := drop_nth k (pl_flights p)\<rparr>))"
  then have "g \<in> set (pl_flights p)" by (auto dest: set_drop_nth)
  then show "flight_ok (jb_id ` set (jobs p)) g" using assms by (simp add: pool_inv_def)
next
  fix j assume "job_ok (pl_started p) (pl_flights p) j"
  then show "job_ok (pl_started p) (pl_flights (p\<lparr>pl_flights := drop_nth k (pl_flights p)\<rparr>)) j"
    by (rule job_ok_fewer) (simp_all add: runs_in_drop)
qed simp_all

lemma pool_step_inv:
  assumes "pool_inv p"
  shows "pool_inv (fst (pool_step e p))"
proof (cases e)
  case (Enqueues i tenant_id job_type payload max_attempts now)
  then show ?thesis using enqueue_inv [OF assms] by (auto split: prod.split)
next
  case (Recovers now locked)
  let ?first = "first_by (\<lambda>j. case jb_lease_expires_at j of None \<Rightarrow> 0 | Some t \<Rightarrow> t)
    (\<lambda>j. lease_expired now j \<and> jb_id j \<notin> set locked) (jobs p)"
  show ?thesis
  proof (cases ?first)
    case (Some j)
    have "pool_inv (p\<lparr>jobs := job_update (jb_id j) (recover_job now) (jobs p)\<rparr>)"
      using assms by (intro pool_inv_jobs [OF assms, of "recover_job now" _ "jb_id j"])
        (auto simp: job_ok_def recovered_fields pool_inv_def split: if_splits)
    with Recovers Some show ?thesis by (simp add: recover_expired_lease_def)
  qed (use assms Recovers in \<open>simp add: recover_expired_lease_def\<close>)
next
  case (Claims w now locked)
  then show ?thesis using pool_claim_inv [OF assms] by simp
next
  case (EndReads k now error)
  then show ?thesis using assms drop_run_inv [OF assms, of k] end_reads_inv [OF assms] by (auto split: option.split)
next
  case (EndWrites k)
  then show ?thesis using assms end_writes_inv [OF assms] by (auto split: run_phase.split)
next
  case (Dies k)
  then show ?thesis using drop_run_inv [OF assms] by simp
qed (use assms in \<open>auto simp: pool_inv_def split: prod.split\<close>)

interpretation pool_service: service pool_step pool_inv
  by unfold_locales (rule pool_step_inv)

lemma empty_pool_inv: "pool_inv empty_pool"
  by (simp add: pool_inv_def empty_pool_def job_rows.wf_def)

section \<open>Claims\<close>

text \<open>
  C29. The worker's loop becomes idle. On any queue whose rows have distinct keys, whatever the
  clock shows, whatever errors the handlers raise and however many outbox rows each of their
  runs adds, and whether or not the webhook answers, the loop comes to sleep. It takes at most as
  many iterations as the potential of the queue and the rows added meanwhile amount to, and the
  last one recovered no lease, processed no job and published no event.
\<close>

theorem worker_becomes_idle:
  assumes "queue_keys q"
  shows "\<exists>m q'. busy_loop w envs 0 q = Some (m, q') \<and>
    int m \<le> potential q + (int (length (outbox_rows q')) - int (length (outbox_rows q))) \<and>
    (\<exists>q0. worker_iteration w (envs m) q0 = (q', False))"
  using busy_loop_returns [OF assms, of w envs 0] by (auto simp: debt_def algebra_simps)

text \<open>
  C30. Attempts are bounded. In every history of jobs and of any number of workers whose sessions
  interleave, with expired leases and workers that die, the handler of a job has been started at
  most as often as it has attempts. The attempts may exceed \<open>max_attempts\<close>, since a failed run
  writes back a state it has read without a lock, but they stay below its double.
\<close>

theorem worker_attempts_bounded:
  assumes "j \<in> set (jobs (run pool_step events empty_pool))"
  shows "int (count_list (pl_started (run pool_step events empty_pool)) (jb_id j)) \<le> jb_attempts j
    \<and> jb_attempts j \<le> max 1 (2 * jb_max_attempts j - 1)"
proof -
  let ?p = "run pool_step events empty_pool"
  have "pool_inv ?p" by (rule pool_service.run_inv) (rule empty_pool_inv)
  with assms have ok: "job_ok (pl_started ?p) (pl_flights ?p) j" by (simp add: pool_inv_def)
  then have "0 \<le> jb_attempts j" by (simp add: job_ok_def)
  moreover have "0 \<le> runs_in (stale_run (jb_id j)) (pl_flights ?p)" by (rule runs_in_nonneg)
  ultimately have "jb_attempts j \<le> attempt_limit j"
  proof (cases "jb_attempts j < jb_max_attempts j")
    case False
    with ok \<open>0 \<le> runs_in _ _\<close> show ?thesis by (auto simp: job_ok_def split: if_splits)
  qed (simp add: attempt_limit_def)
  with ok show ?thesis by (simp add: job_ok_def attempt_limit_def)
qed

end
