(* ===== verification/WorkerDemo.thy ===== *)
theory WorkerDemo
  imports WorkerProperties
begin

text \<open>
  Histories of workers whose leases expire. In the first, a slow worker completes a job that has
  been claimed again, and the failure of the second run makes the completed job available. In
  the second, two failed runs write back the state they have read while the job is claimed
  again: a job of three attempts is run five times, the most that is possible. The witnesses
  of the queue's properties are taken from them.
\<close>

definition wdemo_worker :: "string \<Rightarrow> worker" where
  "wdemo_worker owner =
     \<lparr>wk_owner = owner, wk_handlers = main_handlers, wk_webhook = Some ''https://events.example'', wk_service_token = None\<rparr>"

definition wdemo_slow :: "worker_event list" where
  "wdemo_slow =
     [Enqueues ''job-1'' ''tenant'' ''agent.run'' [] 5 0, Claims (wdemo_worker ''A'') 0 [], Recovers (minutes 6) [],
      Claims (wdemo_worker ''B'') (minutes 6) [], EndReads 0 (minutes 7) None, EndWrites 0]"

definition wdemo_failure :: "worker_event list" where
  "wdemo_failure = [EndReads 0 (minutes 8) (Some ''boom''), EndWrites 0]"

definition wdemo_stale :: "worker_event list" where
  "wdemo_stale =
     [Enqueues ''job-1'' ''tenant'' ''memory.embed'' [] 3 0,
      Claims (wdemo_worker ''A'') 0 [], EndReads 0 (minutes 5) (Some ''boom''), Recovers (minutes 6) [],
      Claims (wdemo_worker ''B'') (minutes 6) [], EndReads 1 (minutes 11) (Some ''boom''), Recovers (minutes 12) [],
      Claims (wdemo_worker ''C'') (minutes 12) [], EndWrites 0,
      Claims (wdemo_worker ''D'') (minutes 13) [], EndWrites 0,
      Claims (wdemo_worker ''E'') (minutes 14) []]"

lemmas wdemo_eval = wdemo_slow_def wdemo_failure_def wdemo_stale_def wdemo_worker_def main_handlers_def empty_pool_def pool_claim_def
  claim_job_def recover_expired_lease_def first_by_def job_update_def new_job_def start_job_def recover_job_def finish_job_def
  complete_job_def fail_job_def lease_expired_def claimable_def enqueue_job_def end_reads_def handler_outcome_def
  write_changes_def written_def drop_nth_def timedelta_defs

lemma completed_job_reopened:
  "map jb_state (jobs (run pool_step wdemo_slow empty_pool)) = [''COMPLETED''] \<and>
   map jb_state (jobs (run pool_step (wdemo_slow @ wdemo_failure) empty_pool)) = [''AVAILABLE'']"
  by (simp add: wdemo_eval run_append Let_def)

definition wdemo_job :: job where
  "wdemo_job =
     \<lparr>jb_id = ''job-1'', jb_tenant_id = ''tenant'', jb_job_type = ''memory.embed'', jb_payload = [], jb_state = ''RUNNING'',
      jb_available_at = minutes 11 + seconds 4, jb_attempts = 5, jb_max_attempts = 3, jb_lease_owner = Some ''E'',
      jb_lease_expires_at = Some (minutes 19), jb_last_error = Some ''boom''\<rparr>"

lemma attempts_exceeded:
  "jobs (run pool_step wdemo_stale empty_pool) = [wdemo_job] \<and>
   pl_started (run pool_step wdemo_stale empty_pool) = replicate 5 ''job-1''"
  by (simp add: wdemo_eval wdemo_job_def Let_def eval_nat_numeral)

theorem worker_attempts_bounded_witness:
  "wdemo_job \<in> set (jobs (run pool_step wdemo_stale empty_pool)) \<and>
   int (count_list (pl_started (run pool_step wdemo_stale empty_pool)) ''job-1'') \<le> jb_attempts wdemo_job \<and>
   jb_attempts wdemo_job = 5 \<and> jb_attempts wdemo_job \<le> max 1 (2 * jb_max_attempts wdemo_job - 1)"
proof -
  have "wdemo_job \<in> set (jobs (run pool_step wdemo_stale empty_pool))" by (simp add: attempts_exceeded)
  from this worker_attempts_bounded [OF this] show ?thesis by (simp add: wdemo_job_def)
qed

text \<open>A handler that always fails, and whose every run adds an outbox row.\<close>

definition wdemo_event :: "string \<Rightarrow> outbox_event" where
  "wdemo_event i =
     \<lparr>ob_id = i, ob_tenant_id = ''tenant'', ob_aggregate_type = ''MCP_TOOL_CALL'', ob_aggregate_id = ''call'',
      ob_aggregate_version = 1, ob_event_type = ''mcp.tool_call.completed'', ob_schema_version = ''1.0'',
      ob_payload = [(''canonical_name'', JStr ''pay''), (''status'', JStr ''COMPLETED'')],
      ob_correlation_id = ''corr'', ob_created_at = 0, ob_published_at = None, ob_attempt_count = 0, ob_last_error = None\<rparr>"

definition wdemo_env :: "nat \<Rightarrow> worker_env" where
  "wdemo_env n =
     \<lparr>we_now = minutes (int n), we_done = minutes (int n), we_locked = [],
      we_handler = (\<lambda>j. \<lparr>he_error = Some ''boom'', he_events = [wdemo_event (replicate n CHR ''e'')]\<rparr>), we_post = (\<lambda>e h d. None)\<rparr>"

definition wdemo_queue :: queue where
  "wdemo_queue = \<lparr>jobs = [new_job ''job-1'' ''tenant'' ''agent.run'' [] 5 0], outbox_rows = []\<rparr>"

theorem worker_becomes_idle_witness:
  "queue_keys wdemo_queue \<and>
   (\<exists>m q'. busy_loop (wdemo_worker ''A'') wdemo_env 0 wdemo_queue = Some (m, q') \<and>
      int m \<le> 11 + int (length (outbox_rows q')))"
proof -
  have keys: "queue_keys wdemo_queue" by (simp add: queue_keys_def wdemo_queue_def job_rows.wf_def outbox_keyed.wf_def)
  have "potential wdemo_queue = 11" "outbox_rows wdemo_queue = []"
    by (simp_all add: potential_def jobs_potential_def unpublished_def wdemo_queue_def job_potential_def new_job_def)
  with keys worker_becomes_idle [OF keys, of "wdemo_worker ''A''" wdemo_env] show ?thesis by fastforce
qed

end
