(* ===== verification/DataVault.thy ===== *)
theory DataVault
  imports Contracts PyDecimal "HOL-Library.Sublist"
begin

text \<open>
  The data vault of the platform (packages/data_vault, persistence/models/data.py,
  contracts/data.py and the routes of apps/api/routes/data.py): registered and uploaded objects,
  grants and access events. The S3 client behind \<open>ObjectStore\<close> is a parameter: what it answers to
  a head request, whether a deletion succeeds, and the URL it signs; every call made to it is
  recorded. The theory shows that a request of a user reaches only the keys and the rows of that
  user, whatever has been registered before.
\<close>

section \<open>Data\<close>

record principal =
  pn_tenant_id :: string
  pn_organization_id :: string
  pn_user_id :: string

record data_object =
  do_id :: string
  do_tenant_id :: string
  do_organization_id :: string
  do_owner_user_id :: string
  do_object_key :: string
  do_display_name :: string
  do_media_type :: string
  do_size_bytes :: int
  do_content_hash :: string
  do_classification :: string
  do_schema_name :: "string option"
  do_attributes :: dict
  do_encryption_key_ref :: "string option"
  do_status :: string
  do_deleted_at :: "time option"
  do_version :: int
  do_created_at :: time

record data_grant =
  dg_id :: string
  dg_tenant_id :: string
  dg_data_object_id :: string
  dg_grantor_user_id :: string
  dg_grantee_type :: string
  dg_grantee_id :: string
  dg_purposes :: "string list"
  dg_permissions :: "string list"
  dg_status :: string
  dg_expires_at :: "datetime option"

record access_event =
  de_id :: string
  de_tenant_id :: string
  de_data_object_id :: string
  de_actor_type :: string
  de_actor_id :: string
  de_purpose :: string
  de_action :: string
  de_correlation_id :: string
  de_outcome :: string

record vault_db =
  objects :: "data_object list"
  grants :: "data_grant list"
  access_events :: "access_event list"

definition vault_constraints :: "vault_db \<Rightarrow> bool" where
  "vault_constraints db \<longleftrightarrow>
     unique_by (Some \<circ> do_id) (objects db) \<and>
     unique_by (\<lambda>v. Some (do_tenant_id v, do_object_key v)) (objects db) \<and>
     unique_by (Some \<circ> dg_id) (grants db) \<and> unique_by (Some \<circ> de_id) (access_events db) \<and>
     list_all (\<lambda>g. dg_data_object_id g \<in> do_id ` set (objects db)) (grants db) \<and>
     list_all (\<lambda>e. de_data_object_id e \<in> do_id ` set (objects db)) (access_events db)"

datatype vault_error =
    VaultLookupError string
  | VaultPermissionError string
  | VaultValueError string
  | StoreUnavailable string
  | StoreClientError
  | VaultIntegrityError
  | VaultValidationError

text \<open>Requests: an upload is a registration without an object key.\<close>

record object_request =
  dq_object_key :: string
  dq_display_name :: string
  dq_media_type :: string
  dq_size_bytes :: int
  dq_content_hash :: string
  dq_classification :: string
  dq_schema_name :: "string option"
  dq_metadata :: dict

definition is_hex :: "char \<Rightarrow> bool" where
  "is_hex c = (let n = (of_char c :: nat) in (48 \<le> n \<and> n \<le> 57) \<or> (65 \<le> n \<and> n \<le> 70) \<or> (97 \<le> n \<and> n \<le> 102))"

definition valid_object_request :: "int \<Rightarrow> object_request \<Rightarrow> bool" where
  "valid_object_request minimum b \<longleftrightarrow>
     1 \<le> length (dq_display_name b) \<and> length (dq_display_name b) \<le> 300 \<and>
     1 \<le> length (dq_media_type b) \<and> length (dq_media_type b) \<le> 200 \<and>
     minimum \<le> dq_size_bytes b \<and> dq_size_bytes b \<le> 5000000000 \<and>
     length (dq_content_hash b) = 64 \<and> list_all is_hex (dq_content_hash b) \<and>
     dq_classification b \<in> {''PUBLIC'', ''INTERNAL'', ''CONFIDENTIAL'', ''RESTRICTED''} \<and>
     (case dq_schema_name b of None \<Rightarrow> True | Some s \<Rightarrow> length s \<le> 200)"

definition valid_register :: "object_request \<Rightarrow> bool" where
  "valid_register b \<longleftrightarrow> valid_object_request 0 b \<and> 1 \<le> length (dq_object_key b) \<and> length (dq_object_key b) \<le> 1000"

record grant_request =
  gq_grantee_type :: string
  gq_grantee_id :: string
  gq_purposes :: "string list"
  gq_permissions :: "string list"
  gq_expires_at :: "datetime option"

definition valid_grant :: "grant_request \<Rightarrow> bool" where
  "valid_grant b \<longleftrightarrow> gq_grantee_type b \<in> {''USER'', ''AGENT'', ''ORGANIZATION''} \<and>
     1 \<le> length (gq_grantee_id b) \<and> length (gq_grantee_id b) \<le> 200 \<and> gq_purposes b \<noteq> [] \<and>
     gq_permissions b \<noteq> [] \<and> set (gq_permissions b) \<subseteq> {''READ'', ''USE_IN_CONTEXT''}"

section \<open>The object store\<close>

datatype store_call =
    PresignPut string string string
  | HeadObject string
  | PresignGet string
  | DeleteObject string

fun store_key :: "store_call \<Rightarrow> string" where
  "store_key (PresignPut key _ _) = key"
| "store_key (HeadObject key) = key"
| "store_key (PresignGet key) = key"
| "store_key (DeleteObject key) = key"

text \<open>\<open>st_head\<close> answers the length and the stored hash, or raises; \<open>st_delete\<close> tells whether the deletion returns.\<close>

record object_store =
  st_endpoint :: "string option"
  st_access_key :: "string option"
  st_secret_key :: "string option"
  st_sign :: "store_call \<Rightarrow> string"
  st_head :: "string \<Rightarrow> (int \<times> string) option"
  st_delete :: "string \<Rightarrow> bool"

record upload_ticket =
  ut_url :: string
  ut_required_headers :: "(string \<times> string) list"
  ut_expires_in_seconds :: int

definition given :: "string option \<Rightarrow> bool" where
  "given v = (case v of None \<Rightarrow> False | Some s \<Rightarrow> s \<noteq> [])"

definition store_client :: "object_store \<Rightarrow> vault_error + unit" where
  "store_client st =
     (if given (st_endpoint st) \<and> given (st_access_key st) \<and> given (st_secret_key st) then Inr ()
      else Inl (StoreUnavailable ''Object storage is not configured.''))"

definition presign_upload :: "object_store \<Rightarrow> string \<Rightarrow> string \<Rightarrow> string \<Rightarrow> vault_error + store_call list \<times> upload_ticket" where
  "presign_upload st key media_type content_hash =
     sum_bind (store_client st) (\<lambda>_.
       let c = PresignPut key media_type (py_lower content_hash) in
       Inr ([c], \<lparr>ut_url = st_sign st c,
         ut_required_headers = [(''Content-Type'', media_type), (''x-amz-meta-sha256'', py_lower content_hash),
           (''x-amz-server-side-encryption'', ''AES256'')],
         ut_expires_in_seconds = 900\<rparr>))"

definition verify_upload :: "object_store \<Rightarrow> string \<Rightarrow> int \<Rightarrow> string \<Rightarrow> store_call list \<times> (vault_error + unit)" where
  "verify_upload st key size_bytes content_hash =
     (case store_client st of
        Inl e \<Rightarrow> ([], Inl e)
      | Inr _ \<Rightarrow>
          ([HeadObject key],
           case st_head st key of
             None \<Rightarrow> Inl StoreClientError
           | Some (content_length, sha256) \<Rightarrow>
               if content_length \<noteq> size_bytes
               then Inl (VaultValueError ''Uploaded object size does not match its registration.'')
               else if py_lower sha256 \<noteq> py_lower content_hash
               then Inl (VaultValueError ''Uploaded object hash metadata does not match its registration.'')
               else Inr ()))"

definition presign_download :: "object_store \<Rightarrow> string \<Rightarrow> vault_error + store_call list \<times> string" where
  "presign_download st key =
     sum_bind (store_client st) (\<lambda>_. Inr ([PresignGet key], st_sign st (PresignGet key)))"

definition store_delete :: "object_store \<Rightarrow> string \<Rightarrow> store_call list \<times> (vault_error + unit)" where
  "store_delete st key =
     (case store_client st of
        Inl e \<Rightarrow> ([], Inl e)
      | Inr _ \<Rightarrow> ([DeleteObject key], if st_delete st key then Inr () else Inl StoreClientError))"

section \<open>The service\<close>

record vault_env =
  venv_now :: time
  venv_uuid :: "nat \<Rightarrow> string"
  venv_correlation :: string
  venv_store :: object_store

datatype vault_answer =
    VaultObject data_object
  | VaultObjects "data_object list"
  | VaultTicket data_object upload_ticket
  | VaultDownload string
  | VaultGrant data_grant
  | VaultDone

type_synonym vault_op = "vault_db \<Rightarrow> store_call list \<times> (vault_error + vault_db \<times> vault_answer)"

text \<open>\<open>str.isalnum\<close> of a character below 256.\<close>

definition py_isalnum :: "char \<Rightarrow> bool" where
  "py_isalnum c = (let n = (of_char c :: nat) in
     (48 \<le> n \<and> n \<le> 57) \<or> (65 \<le> n \<and> n \<le> 90) \<or> (97 \<le> n \<and> n \<le> 122) \<or>
     n \<in> {170, 178, 179, 181, 185, 186, 188, 189, 190} \<or> (192 \<le> n \<and> n \<noteq> 215 \<and> n \<noteq> 247))"

definition safe_name :: "string \<Rightarrow> string" where
  "safe_name s = take 200 (map (\<lambda>c. if py_isalnum c \<or> c \<in> set ''-_.'' then c else CHR ''_'') s)"

definition user_prefix :: "principal \<Rightarrow> string" where
  "user_prefix pr = pn_tenant_id pr @ ''/'' @ pn_user_id pr @ ''/''"

definition new_object :: "vault_env \<Rightarrow> principal \<Rightarrow> object_request \<Rightarrow> string \<Rightarrow> string \<Rightarrow> data_object" where
  "new_object env pr b key status =
     \<lparr>do_id = uuid_str (venv_uuid env 0), do_tenant_id = pn_tenant_id pr, do_organization_id = pn_organization_id pr,
      do_owner_user_id = pn_user_id pr, do_object_key = key, do_display_name = dq_display_name b,
      do_media_type = dq_media_type b, do_size_bytes = dq_size_bytes b, do_content_hash = py_lower (dq_content_hash b),
      do_classification = dq_classification b, do_schema_name = dq_schema_name b, do_attributes = dq_metadata b,
      do_encryption_key_ref = None, do_status = status, do_deleted_at = None, do_version = 1, do_created_at = venv_now env\<rparr>"

definition access_event_row :: "vault_env \<Rightarrow> nat \<Rightarrow> principal \<Rightarrow> string \<Rightarrow> string \<Rightarrow> string \<Rightarrow> access_event" where
  "access_event_row env k pr object_id purpose action =
     \<lparr>de_id = uuid_str (venv_uuid env k), de_tenant_id = pn_tenant_id pr, de_data_object_id = object_id, de_actor_type = ''USER'',
      de_actor_id = pn_user_id pr, de_purpose = purpose, de_action = action, de_correlation_id = venv_correlation env,
      de_outcome = ''SUCCEEDED''\<rparr>"

definition log_access :: "vault_env \<Rightarrow> nat \<Rightarrow> principal \<Rightarrow> string \<Rightarrow> string \<Rightarrow> string \<Rightarrow> vault_db \<Rightarrow> vault_db" where
  "log_access env k pr object_id purpose action db =
     db\<lparr>access_events := access_events db @ [access_event_row env k pr object_id purpose action]\<rparr>"

definition initiate_upload :: "vault_env \<Rightarrow> principal \<Rightarrow> object_request \<Rightarrow> vault_op" where
  "initiate_upload env pr b db =
     (let key = user_prefix pr @ uuid_str (venv_uuid env 0) @ ''/'' @ safe_name (dq_display_name b);
          v = new_object env pr b key ''PENDING_UPLOAD''
      in case presign_upload (venv_store env) key (dq_media_type b) (dq_content_hash b) of
           Inl e \<Rightarrow> ([], Inl e)
         | Inr (calls, ticket) \<Rightarrow>
             (calls, Inr (log_access env 1 pr (do_id v) ''user data management'' ''UPLOAD_INITIATED''
                            (db\<lparr>objects := objects db @ [v]\<rparr>), VaultTicket v ticket)))"

definition object_owned :: "principal \<Rightarrow> string \<Rightarrow> string list \<Rightarrow> data_object \<Rightarrow> bool" where
  "object_owned pr object_id statuses v \<longleftrightarrow> do_id v = object_id \<and> do_tenant_id v = pn_tenant_id pr \<and>
     do_organization_id v = pn_organization_id pr \<and> do_owner_user_id v = pn_user_id pr \<and> do_status v \<in> set statuses"

definition get_owned :: "vault_db \<Rightarrow> principal \<Rightarrow> string \<Rightarrow> string list \<Rightarrow> vault_error + data_object" where
  "get_owned db pr object_id statuses =
     found (VaultLookupError ''Data object not found.'') (scalar (object_owned pr object_id statuses) (objects db))"

definition get_object :: "vault_db \<Rightarrow> principal \<Rightarrow> string \<Rightarrow> vault_error + data_object" where
  "get_object db pr object_id = get_owned db pr object_id [''ACTIVE'']"

definition object_update :: "string \<Rightarrow> (data_object \<Rightarrow> data_object) \<Rightarrow> vault_db \<Rightarrow> vault_db" where
  "object_update i f db = db\<lparr>objects := update_rows (\<lambda>v. do_id v = i) f (objects db)\<rparr>"

definition activate_object :: "data_object \<Rightarrow> data_object" where
  "activate_object v = v\<lparr>do_status := ''ACTIVE'', do_version := do_version v + 1\<rparr>"

definition complete_upload :: "vault_env \<Rightarrow> principal \<Rightarrow> string \<Rightarrow> vault_op" where
  "complete_upload env pr object_id db =
     (case get_owned db pr object_id [''PENDING_UPLOAD''] of
        Inl e \<Rightarrow> ([], Inl e)
      | Inr v \<Rightarrow>
          (case verify_upload (venv_store env) (do_object_key v) (do_size_bytes v) (do_content_hash v) of (calls, checked) \<Rightarrow>
             (calls, sum_bind checked (\<lambda>_.
                Inr (log_access env 0 pr object_id ''user data management'' ''UPLOAD_COMPLETED''
                       (object_update object_id activate_object db), VaultObject (activate_object v))))))"

definition download_ticket :: "vault_env \<Rightarrow> principal \<Rightarrow> string \<Rightarrow> vault_op" where
  "download_ticket env pr object_id db =
     (case get_object db pr object_id of
        Inl e \<Rightarrow> ([], Inl e)
      | Inr v \<Rightarrow>
          (case presign_download (venv_store env) (do_object_key v) of
             Inl e \<Rightarrow> ([], Inl e)
           | Inr (calls, url) \<Rightarrow>
               (calls, Inr (log_access env 0 pr object_id ''user data management'' ''DOWNLOAD_AUTHORIZED'' db, VaultDownload url))))"

definition register_object :: "vault_env \<Rightarrow> principal \<Rightarrow> object_request \<Rightarrow> vault_op" where
  "register_object env pr b db =
     ([],
      if \<not> prefix (user_prefix pr) (dq_object_key b)
      then Inl (VaultPermissionError ''Object key must be inside the authenticated tenant/user prefix.'')
      else case scalar (\<lambda>v. do_tenant_id v = pn_tenant_id pr \<and> do_object_key v = dq_object_key b) (objects db) of
        Some _ \<Rightarrow> Inl (VaultValueError ''Object key is already registered.'')
      | None \<Rightarrow>
          let v = new_object env pr b (dq_object_key b) ''ACTIVE''
          in Inr (log_access env 1 pr (do_id v) ''object registration'' ''REGISTER'' (db\<lparr>objects := objects db @ [v]\<rparr>), VaultObject v))"

definition list_objects :: "principal \<Rightarrow> vault_db \<Rightarrow> data_object list" where
  "list_objects pr db =
     sort_key (\<lambda>v. - do_created_at v)
       (scalars (\<lambda>v. do_tenant_id v = pn_tenant_id pr \<and> do_organization_id v = pn_organization_id pr \<and>
          do_owner_user_id v = pn_user_id pr \<and> do_status v = ''ACTIVE'') (objects db))"

definition create_grant :: "vault_env \<Rightarrow> principal \<Rightarrow> string \<Rightarrow> grant_request \<Rightarrow> vault_op" where
  "create_grant env pr object_id b db =
     ([], sum_bind (get_object db pr object_id) (\<lambda>_.
        let g = \<lparr>dg_id = uuid_str (venv_uuid env 0), dg_tenant_id = pn_tenant_id pr, dg_data_object_id = object_id,
              dg_grantor_user_id = pn_user_id pr, dg_grantee_type = gq_grantee_type b, dg_grantee_id = gq_grantee_id b,
              dg_purposes = gq_purposes b, dg_permissions = gq_permissions b, dg_status = ''ACTIVE'', dg_expires_at = gq_expires_at b\<rparr>
        in Inr (db\<lparr>grants := grants db @ [g]\<rparr>, VaultGrant g)))"

definition delete_row :: "time \<Rightarrow> data_object \<Rightarrow> data_object" where
  "delete_row now v = v\<lparr>do_status := ''DELETED'', do_deleted_at := Some now, do_version := do_version v + 1\<rparr>"

definition delete_object :: "vault_env \<Rightarrow> principal \<Rightarrow> string \<Rightarrow> vault_op" where
  "delete_object env pr object_id db =
     (case get_object db pr object_id of
        Inl e \<Rightarrow> ([], Inl e)
      | Inr v \<Rightarrow>
          (case store_delete (venv_store env) (do_object_key v) of (calls, deleted) \<Rightarrow>
             (calls, sum_bind deleted (\<lambda>_.
                Inr (log_access env 0 pr object_id ''user deletion request'' ''DELETE''
                       (object_update object_id (delete_row (venv_now env)) db), VaultDone)))))"

section \<open>Routes\<close>

datatype vault_request =
    InitiateUpload object_request
  | CompleteUpload string
  | AuthorizeDownload string
  | RegisterObject object_request
  | ListObjects
  | GetObject string
  | CreateGrant string grant_request
  | DeleteRequest string

definition checked :: "bool \<Rightarrow> vault_op \<Rightarrow> vault_op" where
  "checked ok op db = (if ok then op db else ([], Inl VaultValidationError))"

fun vault_request_op :: "vault_env \<Rightarrow> principal \<Rightarrow> vault_request \<Rightarrow> vault_op" where
  "vault_request_op env pr (InitiateUpload b) = checked (valid_object_request 1 b) (initiate_upload env pr b)"
| "vault_request_op env pr (CompleteUpload i) = complete_upload env pr i"
| "vault_request_op env pr (AuthorizeDownload i) = download_ticket env pr i"
| "vault_request_op env pr (RegisterObject b) = checked (valid_register b) (register_object env pr b)"
| "vault_request_op env pr ListObjects = (\<lambda>db. ([], Inr (db, VaultObjects (list_objects pr db))))"
| "vault_request_op env pr (GetObject i) = (\<lambda>db. ([], sum_bind (get_object db pr i) (\<lambda>v. Inr (db, VaultObject v))))"
| "vault_request_op env pr (CreateGrant i b) = checked (valid_grant b) (create_grant env pr i b)"
| "vault_request_op env pr (DeleteRequest i) = delete_object env pr i"

text \<open>The status code of an error; an exception the route does not catch is a 500.\<close>

fun vault_status :: "vault_request \<Rightarrow> vault_error \<Rightarrow> nat" where
  "vault_status q VaultValidationError = 422"
| "vault_status (InitiateUpload _) (StoreUnavailable _) = 503"
| "vault_status (AuthorizeDownload _) (StoreUnavailable _) = 503"
| "vault_status (CompleteUpload _) (StoreUnavailable _) = 422"
| "vault_status (CompleteUpload _) (VaultValueError _) = 422"
| "vault_status (RegisterObject _) (VaultPermissionError _) = 403"
| "vault_status (RegisterObject _) (VaultValueError _) = 409"
| "vault_status ListObjects _ = 500"
| "vault_status (InitiateUpload _) _ = 500"
| "vault_status (RegisterObject _) _ = 500"
| "vault_status _ (VaultLookupError _) = 404"
| "vault_status _ _ = 500"

definition vault_session :: "vault_op \<Rightarrow> vault_db \<Rightarrow> vault_db \<times> store_call list \<times> (vault_error + vault_answer)" where
  "vault_session op db =
     (case op db of
        (calls, Inl e) \<Rightarrow> (db, calls, Inl e)
      | (calls, Inr (db', a)) \<Rightarrow> if vault_constraints db' then (db', calls, Inr a) else (db, calls, Inl VaultIntegrityError))"

fun vault_step ::
    "vault_env \<times> principal \<times> vault_request \<Rightarrow> vault_db \<Rightarrow> vault_db \<times> store_call list \<times> (vault_error + vault_answer)" where
  "vault_step (env, pr, q) db = vault_session (vault_request_op env pr q) db"

definition empty_vault :: vault_db where
  "empty_vault = \<lparr>objects = [], grants = [], access_events = []\<rparr>"

section \<open>Confinement\<close>

definition own :: "principal \<Rightarrow> data_object \<Rightarrow> bool" where
  "own pr v \<longleftrightarrow> do_tenant_id v = pn_tenant_id pr \<and> do_owner_user_id v = pn_user_id pr"

definition key_ok :: "data_object \<Rightarrow> bool" where
  "key_ok v \<longleftrightarrow> prefix (do_tenant_id v @ ''/'' @ do_owner_user_id v @ ''/'') (do_object_key v)"

definition vault_inv :: "vault_db \<Rightarrow> bool" where
  "vault_inv db \<longleftrightarrow> unique_by (Some \<circ> do_id) (objects db) \<and> list_all key_ok (objects db)"

text \<open>What a body of a request of \<open>pr\<close> may do: call the store on its own keys, change its own objects.\<close>

definition confined :: "principal \<Rightarrow> vault_db \<Rightarrow> vault_op \<Rightarrow> bool" where
  "confined pr db op \<longleftrightarrow>
     (\<forall>c\<in>set (fst (op db)). prefix (user_prefix pr) (store_key c)) \<and>
     (\<forall>db' a. snd (op db) = Inr (db', a) \<longrightarrow> list_all key_ok (objects db') \<and>
        filter (\<lambda>v. \<not> own pr v) (objects db') = filter (\<lambda>v. \<not> own pr v) (objects db))"

interpretation object_rows: keyed_rows do_id .

lemma get_owned_row:
  assumes "get_owned db pr i statuses = Inr v" "vault_inv db"
  shows "v \<in> set (objects db)" "do_id v = i" "own pr v" "prefix (user_prefix pr) (do_object_key v)"
proof -
  have "v \<in> set (objects db) \<and> object_owned pr i statuses v"
    using assms(1) by (auto simp: get_owned_def dest: scalar_Some)
  with assms(2) show "v \<in> set (objects db)" "do_id v = i" "own pr v" "prefix (user_prefix pr) (do_object_key v)"
    by (auto simp: object_owned_def own_def vault_inv_def list_all_iff key_ok_def user_prefix_def)
qed

lemma own_update:
  assumes inv: "vault_inv db" and v: "v \<in> set (objects db)" "own pr v"
    and f: "\<And>x. do_tenant_id (f x) = do_tenant_id x \<and> do_owner_user_id (f x) = do_owner_user_id x \<and> do_object_key (f x) = do_object_key x"
  shows "list_all key_ok (objects (object_update (do_id v) f db)) \<and>
    filter (\<lambda>x. \<not> own pr x) (objects (object_update (do_id v) f db)) = filter (\<lambda>x. \<not> own pr x) (objects db)"
proof -
  have wf: "object_rows.wf (objects db)" using inv by (simp add: vault_inv_def object_rows.wf_def comp_def)
  have "own pr x" if "x \<in> set (objects db)" "do_id x = do_id v" for x
    using object_rows.row_eq [OF wf that(1) v(1) that(2)] v(2) by simp
  then have "scalars (\<lambda>x. \<not> own pr x) (update_rows (\<lambda>x. do_id x = do_id v) f (objects db)) = scalars (\<lambda>x. \<not> own pr x) (objects db)"
    using f by (intro scalars_update_rows_other) (auto simp: own_def)
  moreover have "list_all key_ok (update_rows (\<lambda>x. do_id x = do_id v) f (objects db))"
    using inv f by (auto simp: vault_inv_def list_all_iff set_update_rows key_ok_def)
  ultimately show ?thesis by (simp add: object_update_def scalars_def)
qed

lemma new_object_own: "own pr (new_object env pr b key status)"
  by (simp add: own_def new_object_def)

lemma new_object_key: "prefix (user_prefix pr) key \<Longrightarrow> key_ok (new_object env pr b key status)"
  by (simp add: key_ok_def new_object_def user_prefix_def)

lemma confined_ops:
  assumes inv: "vault_inv db"
  shows "confined pr db (initiate_upload env pr b)" "confined pr db (complete_upload env pr i)"
    "confined pr db (download_ticket env pr i)" "confined pr db (register_object env pr b)"
    "confined pr db (create_grant env pr i g)" "confined pr db (delete_object env pr i)"
proof -
  note keys = inv [unfolded vault_inv_def]
  show "confined pr db (initiate_upload env pr b)"
    using keys by (auto simp: confined_def initiate_upload_def Let_def presign_upload_def sum_bind_Inr log_access_def new_object_own
        split: sum.splits intro!: new_object_key)
  show "confined pr db (complete_upload env pr i)"
  proof (cases "get_owned db pr i [''PENDING_UPLOAD'']")
    case (Inr v)
    note row = get_owned_row [OF Inr inv]
    have "\<And>x. do_tenant_id (activate_object x) = do_tenant_id x \<and> do_owner_user_id (activate_object x) = do_owner_user_id x
        \<and> do_object_key (activate_object x) = do_object_key x" by (simp add: activate_object_def)
    note upd = own_update [OF inv row(1,3) this, unfolded row(2)]
    show ?thesis using Inr row(4) upd
      by (auto simp: confined_def complete_upload_def verify_upload_def sum_bind_Inr log_access_def split: sum.splits)
  qed (simp add: confined_def complete_upload_def)
  show "confined pr db (download_ticket env pr i)"
  proof (cases "get_object db pr i")
    case (Inr v)
    note row = get_owned_row [OF Inr [unfolded get_object_def] inv]
    show ?thesis using Inr row(4) keys
      by (auto simp: confined_def download_ticket_def presign_download_def sum_bind_Inr log_access_def split: sum.splits)
  qed (simp add: confined_def download_ticket_def)
  show "confined pr db (register_object env pr b)"
    using keys by (auto simp: confined_def register_object_def Let_def log_access_def new_object_own new_object_key
        split: if_splits option.splits)
  show "confined pr db (create_grant env pr i g)"
    using keys by (auto simp: confined_def create_grant_def sum_bind_Inr Let_def)
  show "confined pr db (delete_object env pr i)"
  proof (cases "get_object db pr i")
    case (Inr v)
    note row = get_owned_row [OF Inr [unfolded get_object_def] inv]
    have "\<And>x. do_tenant_id (delete_row (venv_now env) x) = do_tenant_id x \<and> do_owner_user_id (delete_row (venv_now env) x) = do_owner_user_id x
        \<and> do_object_key (delete_row (venv_now env) x) = do_object_key x" by (simp add: delete_row_def)
    note upd = own_update [OF inv row(1,3) this, unfolded row(2)]
    show ?thesis using Inr row(4) upd
      by (auto simp: confined_def delete_object_def store_delete_def sum_bind_Inr log_access_def split: sum.splits if_splits)
  qed (simp add: confined_def delete_object_def)
qed

lemma confined_request:
  assumes "vault_inv db"
  shows "confined pr db (vault_request_op env pr q)"
  using assms confined_ops [OF assms]
  by (cases q) (auto simp: confined_def checked_def sum_bind_Inr vault_inv_def)

lemma vault_step_confined:
  assumes "vault_inv db" "vault_step (env, pr, q) db = (db', calls, r)"
  shows "vault_inv db'" "\<forall>c\<in>set calls. prefix (user_prefix pr) (store_key c)"
    "filter (\<lambda>v. \<not> own pr v) (objects db') = filter (\<lambda>v. \<not> own pr v) (objects db)"
proof -
  obtain cs res where op: "vault_request_op env pr q db = (cs, res)" by fastforce
  have conf: "\<forall>c\<in>set cs. prefix (user_prefix pr) (store_key c)"
    "\<And>d a. res = Inr (d, a) \<Longrightarrow> list_all key_ok (objects d) \<and>
        filter (\<lambda>v. \<not> own pr v) (objects d) = filter (\<lambda>v. \<not> own pr v) (objects db)"
    using confined_request [OF assms(1), of pr env q] op by (auto simp: confined_def)
  have "vault_inv db' \<and> (\<forall>c\<in>set calls. prefix (user_prefix pr) (store_key c)) \<and>
    filter (\<lambda>v. \<not> own pr v) (objects db') = filter (\<lambda>v. \<not> own pr v) (objects db)"
  proof (cases "\<exists>d a. res = Inr (d, a) \<and> vault_constraints d")
    case True
    then obtain d a where "res = Inr (d, a)" "vault_constraints d" by blast
    with assms op conf(1) conf(2) [of d a] show ?thesis
      by (simp add: vault_session_def vault_inv_def vault_constraints_def)
  next
    case False
    with assms op have "db' = db" "calls = cs" by (auto simp: vault_session_def split: sum.splits if_splits)
    with assms(1) conf(1) show ?thesis by simp
  qed
  then show "vault_inv db'" "\<forall>c\<in>set calls. prefix (user_prefix pr) (store_key c)"
    "filter (\<lambda>v. \<not> own pr v) (objects db') = filter (\<lambda>v. \<not> own pr v) (objects db)" by simp_all
qed

interpretation vault: service vault_step vault_inv
proof
  fix db :: vault_db and q :: "vault_env \<times> principal \<times> vault_request"
  assume "vault_inv db"
  then show "vault_inv (fst (vault_step q db))"
    by (cases q, cases "vault_step q db") (metis fst_conv vault_step_confined(1))
qed

lemma empty_vault_inv: "vault_inv empty_vault"
  by (simp add: vault_inv_def empty_vault_def)

text \<open>
  C31. The vault is confined. After any history of requests of any users, a request of a user
  makes calls to the object store only on keys under that user's tenant and user prefix, and
  leaves every object that belongs to another tenant or user as it was.
\<close>

theorem vault_confined:
  assumes "vault_step (env, pr, q) (run vault_step history empty_vault) = (db', calls, r)"
  shows "(\<forall>c\<in>set calls. prefix (pn_tenant_id pr @ ''/'' @ pn_user_id pr @ ''/'') (store_key c)) \<and>
    filter (\<lambda>v. \<not> own pr v) (objects db') = filter (\<lambda>v. \<not> own pr v) (objects (run vault_step history empty_vault))"
proof -
  have inv: "vault_inv (run vault_step history empty_vault)" by (rule vault.run_inv) (rule empty_vault_inv)
  show ?thesis using vault_step_confined(2,3) [OF inv assms] by (simp add: user_prefix_def)
qed

section \<open>A deletion\<close>

definition vdemo_env :: vault_env where
  "vdemo_env = \<lparr>venv_now = 0, venv_uuid = (\<lambda>k. replicate 31 CHR ''0'' @ [digit_char k]), venv_correlation = ''c'',
     venv_store = \<lparr>st_endpoint = Some ''http://s3'', st_access_key = Some ''a'', st_secret_key = Some ''s'', st_sign = store_key,
       st_head = (\<lambda>k. None), st_delete = (\<lambda>k. True)\<rparr>\<rparr>"

definition vdemo_user :: principal where
  "vdemo_user = \<lparr>pn_tenant_id = ''t'', pn_organization_id = ''o'', pn_user_id = ''u''\<rparr>"

definition vdemo_register :: "vault_env \<times> principal \<times> vault_request" where
  "vdemo_register = (vdemo_env, vdemo_user, RegisterObject \<lparr>dq_object_key = ''t/u/report'', dq_display_name = ''report'',
     dq_media_type = ''text/plain'', dq_size_bytes = 1, dq_content_hash = replicate 64 CHR ''a'', dq_classification = ''INTERNAL'',
     dq_schema_name = None, dq_metadata = []\<rparr>)"

definition vdemo_delete :: "vault_env \<times> principal \<times> vault_request" where
  "vdemo_delete = (vdemo_env, vdemo_user, DeleteRequest ''00000000-0000-0000-0000-000000000000'')"

lemma vdemo_deletes:
  "fst (snd (vault_step vdemo_delete (run vault_step [vdemo_register] empty_vault))) = [DeleteObject ''t/u/report'']"
  by code_simp

theorem vault_confined_witness:
  "fst (snd (vault_step vdemo_delete (run vault_step [vdemo_register] empty_vault))) = [DeleteObject ''t/u/report''] \<and>
   prefix ''t/u/'' (store_key (DeleteObject ''t/u/report''))"
proof -
  obtain db' calls r where step: "vault_step vdemo_delete (run vault_step [vdemo_register] empty_vault) = (db', calls, r)"
    by (cases "vault_step vdemo_delete (run vault_step [vdemo_register] empty_vault)")
  with vdemo_deletes have calls: "calls = [DeleteObject ''t/u/report'']" by simp
  from vault_confined [OF step [unfolded vdemo_delete_def]] show ?thesis
    unfolding vdemo_deletes calls by (simp add: vdemo_user_def)
qed

end
