(* ===== verification/Delivery.thy ===== *)
theory Delivery
  imports FunderService
begin

text \<open>
  The delivery service (demos/delivery-mcp/delivery_demo): tables (models.py), contracts
  (schemas.py), roles (auth.py) and the shared steps of DeliveryDemoService. Quantities are
  thousandths (NUMERIC(18, 3)), money hundredths; a request carries decimals, which its contract
  limits to as many places. A column whose JSON text only the service writes holds the document,
  the addresses of a delivery hold the text; columns that are constant
  (application and aggregate type, schema version) are left out. Printing an address is
  pydantic's work and a parameter; candidates for tracking numbers, clock and uuids are inputs.
\<close>

section \<open>Tables\<close>

record delivery =
  dv_id :: string
  dv_tenant_id :: string
  dv_delivery_number :: string
  dv_purchase_order_id :: string
  dv_invoice_id :: "string option"
  dv_invoice_number :: "string option"
  dv_seller_business_id :: string
  dv_seller_gstin :: string
  dv_buyer_id :: string
  dv_buyer_gstin :: string
  dv_carrier_id :: "string option"
  dv_tracking_number :: "string option"
  dv_status :: string
  dv_ship_from :: string
  dv_ship_to :: string
  dv_dispatch_date :: "time option"
  dv_expected_delivery_date :: "int option"
  dv_delivered_at :: "time option"
  dv_currency :: string
  dv_declared_value :: int
  dv_verified_delivered_value :: int
  dv_exception_code :: "string option"
  dv_version :: int
  dv_created_at :: time
  dv_created_by :: string
  dv_updated_at :: time
  dv_updated_by :: string

record delivery_item =
  di_id :: string
  di_delivery_id :: string
  di_po_line_id :: string
  di_invoice_line_id :: "string option"
  di_sku :: string
  di_description :: string
  di_unit :: string
  di_ordered_quantity :: int
  di_dispatched_quantity :: int
  di_delivered_quantity :: int
  di_accepted_quantity :: int
  di_rejected_quantity :: int
  di_supported_unit_value :: int
  di_rejection_reason :: "string option"
  di_version :: int

record delivery_event =
  dn_id :: string
  dn_delivery_id :: string
  dn_event_type :: string
  dn_occurred_at :: time
  dn_actor :: string
  dn_location :: "dict option"
  dn_notes :: "string option"
  dn_prior_status :: "string option"
  dn_new_status :: string
  dn_version :: int
  dn_correlation_id :: "string option"

record proof_of_delivery =
  po_id :: string
  po_delivery_id :: string
  po_proof_type :: string
  po_restricted_object_key :: string
  po_content_hash :: string
  po_mime_type :: string
  po_captured_at :: time
  po_recipient_token :: "string option"
  po_recipient_name :: "string option"
  po_recipient_role :: "string option"
  po_verification_status :: string
  po_verification_method :: "string option"
  po_verifier :: "string option"
  po_replacement_link :: "string option"
  po_security_flags :: "string list"

record buyer_acceptance =
  bc_id :: string
  bc_delivery_id :: string
  bc_version :: int
  bc_buyer_identity :: string
  bc_status :: string
  bc_accepted_value :: int
  bc_item_level_acceptance :: json
  bc_actor :: string
  bc_reason :: "string option"
  bc_occurred_at :: time
  bc_source_hash :: string

record delivery_correction =
  dc_id :: string
  dc_delivery_id :: string
  dc_aggregate_version :: int
  dc_correction_type :: string
  dc_proposed_changes :: "(string \<times> string) list"
  dc_reason :: string
  dc_requester :: string
  dc_reviewer :: "string option"
  dc_decision :: string
  dc_applied_version :: "int option"
  dc_status :: string

record delivery_audit =
  da_id :: string
  da_tenant_id :: string
  da_aggregate_id :: string
  da_aggregate_version :: int
  da_event_type :: string
  da_actor_type :: string
  da_actor_id :: string
  da_reason :: "string option"
  da_before_hash :: "string option"
  da_after_hash :: string
  da_detail :: string
  da_correlation_id :: string
  da_occurred_at :: time

record delivery_outbox =
  dx_id :: string
  dx_tenant_id :: string
  dx_aggregate_id :: string
  dx_aggregate_version :: int
  dx_event_type :: string
  dx_payload :: string
  dx_correlation_id :: string
  dx_created_at :: time
  dx_published_at :: "time option"

record delivery_inbox =
  db_source_application :: string
  db_event_id :: string
  db_tenant_id :: string
  db_event_type :: string
  db_aggregate_type :: string
  db_aggregate_id :: string
  db_aggregate_version :: int
  db_processed_at :: time
  db_status :: string
  db_payload_hash :: string

record external_version =
  ev_id :: string
  ev_tenant_id :: string
  ev_source_application :: string
  ev_aggregate_type :: string
  ev_aggregate_id :: string
  ev_latest_version :: int

record delivery_db =
  deliveries :: "delivery list"
  delivery_items :: "delivery_item list"
  delivery_events :: "delivery_event list"
  proofs :: "proof_of_delivery list"
  acceptances :: "buyer_acceptance list"
  corrections :: "delivery_correction list"
  delivery_audits :: "delivery_audit list"
  delivery_outboxes :: "delivery_outbox list"
  delivery_inboxes :: "delivery_inbox list"
  external_versions :: "external_version list"

definition delivery_references :: "delivery_db \<Rightarrow> bool" where
  "delivery_references db \<longleftrightarrow>
     (let ids = dv_id ` set (deliveries db) in
      list_all (\<lambda>i. di_delivery_id i \<in> ids) (delivery_items db) \<and> list_all (\<lambda>e. dn_delivery_id e \<in> ids) (delivery_events db) \<and>
      list_all (\<lambda>p. po_delivery_id p \<in> ids) (proofs db) \<and> list_all (\<lambda>a. bc_delivery_id a \<in> ids) (acceptances db) \<and>
      list_all (\<lambda>c. dc_delivery_id c \<in> ids) (corrections db))"

definition delivery_constraints :: "delivery_db \<Rightarrow> bool" where
  "delivery_constraints db \<longleftrightarrow>
     unique_by (Some \<circ> dv_id) (deliveries db) \<and>
     unique_by (\<lambda>d. Some (dv_tenant_id d, dv_delivery_number d)) (deliveries db) \<and>
     unique_by (\<lambda>d. pair_key (Some (dv_tenant_id d)) (dv_tracking_number d)) (deliveries db) \<and>
     unique_by (Some \<circ> di_id) (delivery_items db) \<and>
     unique_by (\<lambda>i. Some (di_delivery_id i, di_po_line_id i)) (delivery_items db) \<and>
     unique_by (\<lambda>i. Some (di_delivery_id i, di_sku i)) (delivery_items db) \<and>
     unique_by (Some \<circ> dn_id) (delivery_events db) \<and>
     unique_by (\<lambda>e. Some (dn_delivery_id e, dn_version e)) (delivery_events db) \<and>
     unique_by (Some \<circ> po_id) (proofs db) \<and> unique_by (Some \<circ> bc_id) (acceptances db) \<and>
     unique_by (\<lambda>a. Some (bc_delivery_id a, bc_version a)) (acceptances db) \<and>
     unique_by (Some \<circ> dc_id) (corrections db) \<and> unique_by (Some \<circ> da_id) (delivery_audits db) \<and>
     unique_by (Some \<circ> dx_id) (delivery_outboxes db) \<and>
     unique_by (\<lambda>i. Some (db_source_application i, db_event_id i)) (delivery_inboxes db) \<and>
     unique_by (Some \<circ> ev_id) (external_versions db) \<and>
     unique_by (\<lambda>v. Some (ev_tenant_id v, ev_source_application v, ev_aggregate_type v, ev_aggregate_id v)) (external_versions db) \<and>
     delivery_references db"

datatype delivery_error =
    DeliveryDomainError string
  | DeliveryNotFoundError string
  | DeliveryConflictError string
  | DeliveryIntegrityError
  | DeliveryValueError
  | DeliveryTypeError
  | DeliveryValidationError
  | DeliveryScopeError scope_error
  | DeliveryHTTPError nat string

record actor_scope =
  ac_tenant :: string
  ac_actor :: string
  ac_role :: string

section \<open>Contracts\<close>

definition quantity_ok :: "decimal \<Rightarrow> bool" where
  "quantity_ok d \<longleftrightarrow> places_ok 3 d \<and> 0 \<le> dec_num 0 d"

definition positive_quantity :: "decimal \<Rightarrow> bool" where
  "positive_quantity d \<longleftrightarrow> places_ok 3 d \<and> dec_pos d"

definition money_ok :: "decimal \<Rightarrow> bool" where
  "money_ok d \<longleftrightarrow> places_ok 2 d \<and> 0 \<le> dec_num 0 d"

text \<open>\<open>[0-9]{2}[A-Z]{5}[0-9]{4}[A-Z][1-9A-Z]Z[0-9A-Z]\<close>.\<close>

definition gstin_ok :: "string \<Rightarrow> bool" where
  "gstin_ok s \<longleftrightarrow> length s = 15 \<and> list_all is_digit (take 2 s) \<and> list_all is_alpha_upper (take 5 (drop 2 s)) \<and>
     list_all is_digit (take 4 (drop 7 s)) \<and> is_alpha_upper (s ! 11) \<and> (in_range ''19'' (s ! 12) \<or> is_alpha_upper (s ! 12)) \<and>
     s ! 13 = CHR ''Z'' \<and> (is_digit (s ! 14) \<or> is_alpha_upper (s ! 14))"

record address =
  ad_name :: string
  ad_address :: string
  ad_city :: "string option"
  ad_region :: "string option"
  ad_postal_code :: "string option"
  ad_country_code :: "string option"

definition address_ok :: "address \<Rightarrow> bool" where
  "address_ok a \<longleftrightarrow> non_blank (ad_name a) \<and> non_blank (ad_address a) \<and>
     (case ad_country_code a of None \<Rightarrow> True | Some c \<Rightarrow> length (py_strip c) = 2 \<and> list_all is_alpha_upper (py_strip c))"

definition strip_address :: "address \<Rightarrow> address" where
  "strip_address a = \<lparr>ad_name = py_strip (ad_name a), ad_address = py_strip (ad_address a), ad_city = map_option py_strip (ad_city a),
     ad_region = map_option py_strip (ad_region a), ad_postal_code = map_option py_strip (ad_postal_code a),
     ad_country_code = map_option py_strip (ad_country_code a)\<rparr>"

text \<open>\<open>model_dump\<close>, with the keys in the order in which \<open>sort_keys\<close> stores them.\<close>

definition address_dump :: "address \<Rightarrow> dict" where
  "address_dump a = [(''address'', JStr (ad_address a)), (''city'', JOpt (ad_city a)), (''country_code'', JOpt (ad_country_code a)),
     (''name'', JStr (ad_name a)), (''postal_code'', JOpt (ad_postal_code a)), (''region'', JOpt (ad_region a))]"

record item_create =
  ic_po_line_id :: string
  ic_invoice_line_id :: "string option"
  ic_sku :: string
  ic_description :: string
  ic_unit :: string
  ic_ordered_quantity :: decimal
  ic_supported_unit_value :: decimal

definition strip_item :: "item_create \<Rightarrow> item_create" where
  "strip_item i = i\<lparr>ic_po_line_id := py_strip (ic_po_line_id i), ic_invoice_line_id := map_option py_strip (ic_invoice_line_id i),
     ic_sku := py_strip (ic_sku i), ic_description := py_strip (ic_description i), ic_unit := py_strip (ic_unit i)\<rparr>"

definition item_create_ok :: "item_create \<Rightarrow> bool" where
  "item_create_ok i \<longleftrightarrow> non_blank (ic_po_line_id i) \<and> non_blank (ic_sku i) \<and> non_blank (ic_description i) \<and> non_blank (ic_unit i) \<and>
     positive_quantity (ic_ordered_quantity i) \<and> money_ok (ic_supported_unit_value i)"

record delivery_create =
  cq_delivery_number :: string
  cq_purchase_order_id :: string
  cq_invoice_id :: "string option"
  cq_invoice_number :: "string option"
  cq_seller_business_id :: string
  cq_seller_gstin :: string
  cq_buyer_id :: string
  cq_buyer_gstin :: string
  cq_ship_from :: address
  cq_ship_to :: address
  cq_expected_delivery_date :: "int option"
  cq_currency :: string
  cq_declared_value :: decimal
  cq_items :: "item_create list"

text \<open>The value of quantities in thousandths at prices in hundredths, quantised to hundredths half-even.\<close>

definition line_value :: "(int \<times> int) list \<Rightarrow> int" where
  "line_value xs = int (div_half_even (nat (sum_list (map (\<lambda>(q, v). q * v) xs))) 1000)"

definition calculated_value :: "item_create list \<Rightarrow> int" where
  "calculated_value items = line_value (map (\<lambda>i. (numeric 3 (ic_ordered_quantity i), numeric 2 (ic_supported_unit_value i))) items)"

definition valid_delivery :: "delivery_create \<Rightarrow> delivery_error + delivery_create" where
  "valid_delivery b =
     (let items = map strip_item (cq_items b) in
      if non_blank (cq_delivery_number b) \<and> non_blank (cq_purchase_order_id b) \<and> non_blank (cq_seller_business_id b) \<and>
         gstin_ok (py_strip (cq_seller_gstin b)) \<and> non_blank (cq_buyer_id b) \<and> gstin_ok (py_strip (cq_buyer_gstin b)) \<and>
         address_ok (cq_ship_from b) \<and> address_ok (cq_ship_to b) \<and>
         length (py_strip (cq_currency b)) = 3 \<and> list_all is_alpha_upper (py_strip (cq_currency b)) \<and> money_ok (cq_declared_value b) \<and>
         1 \<le> length items \<and> length items \<le> 250 \<and> list_all item_create_ok items \<and>
         distinct (map ic_sku items) \<and> distinct (map ic_po_line_id items) \<and>
         dec_eq 2 (cq_declared_value b) (calculated_value items)
      then Inr (b\<lparr>cq_delivery_number := py_strip (cq_delivery_number b), cq_purchase_order_id := py_strip (cq_purchase_order_id b),
        cq_invoice_id := map_option py_strip (cq_invoice_id b), cq_invoice_number := map_option py_strip (cq_invoice_number b),
        cq_seller_business_id := py_strip (cq_seller_business_id b), cq_seller_gstin := py_strip (cq_seller_gstin b),
        cq_buyer_id := py_strip (cq_buyer_id b), cq_buyer_gstin := py_strip (cq_buyer_gstin b),
        cq_ship_from := strip_address (cq_ship_from b), cq_ship_to := strip_address (cq_ship_to b),
        cq_currency := py_strip (cq_currency b), cq_items := items\<rparr>)
      else Inl DeliveryValidationError)"

text \<open>A dict of quantities by sku: the keys are stripped, the last of equal keys counts.\<close>

type_synonym quantities = "(string \<times> decimal) list"

definition strip_keys :: "quantities \<Rightarrow> quantities" where
  "strip_keys q = rev (map (\<lambda>(k, v). (py_strip k, v)) q)"

definition quantity_of :: "quantities \<Rightarrow> string \<Rightarrow> decimal" where
  "quantity_of q sku = (case map_of q sku of Some d \<Rightarrow> d | None \<Rightarrow> Finite False 0 0)"

record dispatch_request =
  hq_carrier_id :: string
  hq_item_quantities :: quantities

definition valid_dispatch :: "dispatch_request \<Rightarrow> delivery_error + dispatch_request" where
  "valid_dispatch b =
     (if non_blank (hq_carrier_id b) \<and> list_all (\<lambda>(k, d). positive_quantity d) (hq_item_quantities b)
      then Inr \<lparr>hq_carrier_id = py_strip (hq_carrier_id b), hq_item_quantities = strip_keys (hq_item_quantities b)\<rparr>
      else Inl DeliveryValidationError)"

record transit_request =
  yq_event_type :: string
  yq_location :: "address option"
  yq_occurred_at :: "datetime option"
  yq_notes :: "string option"

definition valid_transit :: "transit_request \<Rightarrow> delivery_error + transit_request" where
  "valid_transit b =
     (if yq_event_type b \<in> {''IN_TRANSIT'', ''OUT_FOR_DELIVERY'', ''DELIVERY_DELAYED'', ''DELIVERY_RESUMED''} \<and>
         if_given address_ok (yq_location b) \<and> if_given (\<lambda>t. tzoffset t \<noteq> None) (yq_occurred_at b) \<and>
         if_given (length_between 0 500) (yq_notes b)
      then Inr (b\<lparr>yq_location := map_option strip_address (yq_location b), yq_notes := map_option py_strip (yq_notes b)\<rparr>)
      else Inl DeliveryValidationError)"

record attempt_request =
  kq_success :: bool
  kq_item_quantities :: quantities
  kq_failure_reason :: "string option"

definition valid_attempt :: "attempt_request \<Rightarrow> delivery_error + attempt_request" where
  "valid_attempt b =
     (if list_all (\<lambda>(k, d). quantity_ok d) (kq_item_quantities b) \<and> if_given (length_between 3 240) (kq_failure_reason b) \<and>
         (kq_success b \<longrightarrow> kq_item_quantities b \<noteq> []) \<and> (\<not> kq_success b \<longrightarrow> kq_failure_reason b \<noteq> None)
      then Inr (b\<lparr>kq_item_quantities := strip_keys (kq_item_quantities b), kq_failure_reason := map_option py_strip (kq_failure_reason b)\<rparr>)
      else Inl DeliveryValidationError)"

record proof_request =
  zq_proof_type :: string
  zq_restricted_object_key :: string
  zq_content_hash :: string
  zq_mime_type :: string
  zq_recipient_token :: "string option"
  zq_recipient_role :: "string option"
  zq_security_flags :: "string list"

definition valid_proof :: "proof_request \<Rightarrow> delivery_error + proof_request" where
  "valid_proof b =
     (if zq_proof_type b \<in> {''SIGNATURE'', ''PHOTO'', ''OTP'', ''DOCUMENT''} \<and> non_blank (zq_restricted_object_key b) \<and>
         length (py_strip (zq_content_hash b)) = 64 \<and> list_all hex_digit (py_strip (zq_content_hash b)) \<and> non_blank (zq_mime_type b)
      then Inr (b\<lparr>zq_restricted_object_key := py_strip (zq_restricted_object_key b), zq_content_hash := py_strip (zq_content_hash b),
        zq_mime_type := py_strip (zq_mime_type b), zq_recipient_token := map_option py_strip (zq_recipient_token b),
        zq_recipient_role := map_option py_strip (zq_recipient_role b), zq_security_flags := map py_strip (zq_security_flags b)\<rparr>)
      else Inl DeliveryValidationError)"

definition valid_proof_review :: "bool \<Rightarrow> string option \<Rightarrow> delivery_error + string option" where
  "valid_proof_review verified reason =
     (if if_given (length_between 3 240) reason \<and> (\<not> verified \<longrightarrow> reason \<noteq> None) then Inr (map_option py_strip reason)
      else Inl DeliveryValidationError)"

record item_acceptance =
  ia_sku :: string
  ia_accepted_quantity :: decimal
  ia_rejected_quantity :: decimal
  ia_reason :: "string option"

record acceptance_request =
  nq_items :: "item_acceptance list"
  nq_reason :: "string option"

definition valid_acceptance :: "acceptance_request \<Rightarrow> delivery_error + acceptance_request" where
  "valid_acceptance b =
     (if nq_items b \<noteq> [] \<and> if_given (length_between 0 240) (nq_reason b) \<and>
         list_all (\<lambda>i. non_blank (ia_sku i) \<and> quantity_ok (ia_accepted_quantity i) \<and> quantity_ok (ia_rejected_quantity i) \<and>
           if_given (length_between 0 240) (ia_reason i)) (nq_items b)
      then Inr \<lparr>nq_items = map (\<lambda>i. i\<lparr>ia_sku := py_strip (ia_sku i), ia_reason := map_option py_strip (ia_reason i)\<rparr>) (nq_items b),
             nq_reason = map_option py_strip (nq_reason b)\<rparr>
      else Inl DeliveryValidationError)"

definition valid_reason :: "string \<Rightarrow> delivery_error + string" where
  "valid_reason r = (if length_between 3 240 r then Inr (py_strip r) else Inl DeliveryValidationError)"

definition valid_review_reason :: "string option \<Rightarrow> delivery_error + string option" where
  "valid_review_reason r = (if if_given (length_between 0 240) r then Inr (map_option py_strip r) else Inl DeliveryValidationError)"

record correction_request =
  mq_correction_type :: string
  mq_proposed_changes :: "(string \<times> string) list"
  mq_reason :: string

definition valid_correction :: "correction_request \<Rightarrow> delivery_error + correction_request" where
  "valid_correction b =
     (if mq_correction_type b \<in> {''IDENTITY'', ''REFERENCE'', ''TRACKING'', ''ADDRESS''} \<and> length_between 3 240 (mq_reason b)
      then Inr (b\<lparr>mq_proposed_changes := foldl assoc_set [] (map (\<lambda>(k, v). (py_strip k, py_strip v)) (mq_proposed_changes b)),
             mq_reason := py_strip (mq_reason b)\<rparr>)
      else Inl DeliveryValidationError)"

record delivery_envelope =
  en_event_id :: string
  en_event_type :: string
  en_source_application :: string
  en_tenant_id :: string
  en_occurred_at :: datetime
  en_correlation_id :: string
  en_aggregate_type :: string
  en_aggregate_id :: string
  en_aggregate_version :: int

definition valid_envelope :: "delivery_envelope \<Rightarrow> delivery_error + delivery_envelope" where
  "valid_envelope b =
     (if non_blank (en_event_id b) \<and> en_event_type b \<in> {''purchase_order.cancelled'', ''invoice.cancelled'', ''business.updated''} \<and>
         non_blank (en_source_application b) \<and> non_blank (en_tenant_id b) \<and> tzoffset (en_occurred_at b) \<noteq> None \<and>
         non_blank (en_correlation_id b) \<and> en_aggregate_type b \<in> {''purchase_order'', ''invoice'', ''business''} \<and>
         non_blank (en_aggregate_id b) \<and> 0 < en_aggregate_version b
      then Inr (b\<lparr>en_event_id := py_strip (en_event_id b), en_source_application := py_strip (en_source_application b),
        en_tenant_id := py_strip (en_tenant_id b), en_correlation_id := py_strip (en_correlation_id b),
        en_aggregate_id := py_strip (en_aggregate_id b)\<rparr>)
      else Inl DeliveryValidationError)"

record fulfilment_claim =
  fk_purchase_order_id :: string
  fk_invoice_id :: string
  fk_po_line_id :: "string option"
  fk_invoice_line_id :: "string option"
  fk_sku :: "string option"
  fk_claimed_quantity :: decimal
  fk_claimed_unit_value :: decimal

definition valid_claim :: "fulfilment_claim \<Rightarrow> delivery_error + fulfilment_claim" where
  "valid_claim b =
     (let c = b\<lparr>fk_purchase_order_id := py_strip (fk_purchase_order_id b), fk_invoice_id := py_strip (fk_invoice_id b),
            fk_po_line_id := map_option py_strip (fk_po_line_id b), fk_invoice_line_id := map_option py_strip (fk_invoice_line_id b),
            fk_sku := map_option py_strip (fk_sku b)\<rparr> in
      if fk_purchase_order_id c \<noteq> [] \<and> fk_invoice_id c \<noteq> [] \<and> quantity_ok (fk_claimed_quantity c) \<and> money_ok (fk_claimed_unit_value c) \<and>
         (filled (fk_po_line_id c) \<or> filled (fk_invoice_line_id c) \<or> filled (fk_sku c))
      then Inr c else Inl DeliveryValidationError)"

section \<open>Shared steps\<close>

record delivery_env =
  denv_now :: time
  denv_uuid :: "nat \<Rightarrow> string"
  denv_tracking :: "string list"
  denv_address_json :: "address \<Rightarrow> string"
  denv_mcp_token :: string
  denv_source_key :: string
  denv_event_key :: string
  denv_tokens :: "string list"

type_synonym 'a delivery_op = "delivery_db \<Rightarrow> delivery_error + delivery_db \<times> 'a"

definition terminal_statuses :: "string set" where
  "terminal_statuses = {''DELIVERED'', ''PARTIALLY_ACCEPTED'', ''REJECTED'', ''CANCELLED''}"

definition pending_acceptance_statuses :: "string set" where
  "pending_acceptance_statuses = {''DELIVERED_PENDING_ACCEPTANCE'', ''PARTIAL_PENDING_ACCEPTANCE''}"

definition delivery_hash :: "json \<Rightarrow> string" where
  "delivery_hash v = sha256_hex (json_dumps v)"

text \<open>\<open>_snapshot\<close>; the value prints as it was given until the row is loaded again.\<close>

definition delivery_snapshot :: "string \<Rightarrow> delivery \<Rightarrow> json" where
  "delivery_snapshot value d = JObj
     [(''id'', JStr (dv_id d)), (''tenant_id'', JStr (dv_tenant_id d)), (''delivery_number'', JStr (dv_delivery_number d)),
      (''purchase_order_id'', JStr (dv_purchase_order_id d)), (''invoice_id'', JOpt (dv_invoice_id d)), (''status'', JStr (dv_status d)),
      (''carrier_id'', JOpt (dv_carrier_id d)), (''tracking_number'', JOpt (dv_tracking_number d)),
      (''verified_delivered_value'', JStr value), (''exception_code'', JOpt (dv_exception_code d)), (''version'', JInt (dv_version d))]"

definition loaded_snapshot :: "delivery \<Rightarrow> json" where
  "loaded_snapshot d = delivery_snapshot (units_str 2 (dv_verified_delivered_value d)) d"

definition find_delivery :: "delivery_db \<Rightarrow> string \<Rightarrow> string \<Rightarrow> delivery_error + delivery" where
  "find_delivery db tenant_id delivery_id =
     found (DeliveryNotFoundError ''Delivery not found.'')
       (scalar (\<lambda>d. dv_id d = delivery_id \<and> dv_tenant_id d = tenant_id) (deliveries db))"

definition expect_delivery_version :: "delivery \<Rightarrow> int \<Rightarrow> delivery_error + unit" where
  "expect_delivery_version d expected =
     (if dv_version d \<noteq> expected
      then Inl (DeliveryConflictError (''Delivery version is '' @ int_str (dv_version d) @
        ''; refresh and retry with If-Match: '' @ int_str (dv_version d) @ ''.''))
      else Inr ())"

text \<open>\<open>_tracking_number\<close>: the first of twenty random candidates that the tenant does not use yet.\<close>

definition fresh_tracking :: "delivery_env \<Rightarrow> delivery_db \<Rightarrow> string \<Rightarrow> delivery_error + string" where
  "fresh_tracking env db tenant_id =
     found (DeliveryConflictError ''A unique tracking number could not be generated.'')
       (List.find (\<lambda>c. \<not> (\<exists>d\<in>set (deliveries db). dv_tenant_id d = tenant_id \<and> dv_tracking_number d = Some c)) (take 20 (denv_tracking env)))"

record event_note =
  no_location :: "dict option"
  no_notes :: "string option"
  no_occurred_at :: "time option"
  no_reason :: "string option"
  no_before :: "json option"
  no_detail :: dict
  no_correlation_id :: "string option"

definition plain_note :: event_note where
  "plain_note = \<lparr>no_location = None, no_notes = None, no_occurred_at = None, no_reason = None, no_before = None, no_detail = [],
     no_correlation_id = None\<rparr>"

definition delivery_timeline ::
    "delivery_env \<Rightarrow> nat \<Rightarrow> delivery \<Rightarrow> string \<Rightarrow> string \<Rightarrow> string option \<Rightarrow> event_note \<Rightarrow> delivery_db \<Rightarrow> delivery_db" where
  "delivery_timeline env k d event_type actor prior_status n db =
     db\<lparr>delivery_events := delivery_events db @
       [\<lparr>dn_id = uuid_str (denv_uuid env k), dn_delivery_id = dv_id d, dn_event_type = event_type,
         dn_occurred_at = (case no_occurred_at n of Some t \<Rightarrow> t | None \<Rightarrow> denv_now env), dn_actor = actor,
         dn_location = no_location n, dn_notes = no_notes n, dn_prior_status = prior_status, dn_new_status = dv_status d,
         dn_version = dv_version d, dn_correlation_id = no_correlation_id n\<rparr>]\<rparr>"

definition delivery_record ::
    "delivery_env \<Rightarrow> nat \<Rightarrow> delivery \<Rightarrow> string \<Rightarrow> string \<Rightarrow> string \<Rightarrow> actor_scope \<Rightarrow> event_note \<Rightarrow> delivery_db \<Rightarrow> delivery_db" where
  "delivery_record env k d value_str event_type actor_type actor n db =
     (let given = (case no_correlation_id n of Some c \<Rightarrow> c \<noteq> [] | None \<Rightarrow> False);
          correlation_id = (if given then the (no_correlation_id n) else ''corr_'' @ denv_uuid env k);
          k' = (if given then k else k + 1)
      in db\<lparr>delivery_audits := delivery_audits db @
             [\<lparr>da_id = uuid_str (denv_uuid env k'), da_tenant_id = dv_tenant_id d, da_aggregate_id = dv_id d,
               da_aggregate_version = dv_version d, da_event_type = event_type, da_actor_type = actor_type, da_actor_id = ac_actor actor,
               da_reason = no_reason n, da_before_hash = map_option delivery_hash (no_before n),
               da_after_hash = delivery_hash (delivery_snapshot value_str d), da_detail = json_dumps_spaced (JObj (no_detail n)),
               da_correlation_id = correlation_id, da_occurred_at = denv_now env\<rparr>],
           delivery_outboxes := delivery_outboxes db @
             [\<lparr>dx_id = ''evt_'' @ denv_uuid env (k' + 1), dx_tenant_id = dv_tenant_id d, dx_aggregate_id = dv_id d,
               dx_aggregate_version = dv_version d, dx_event_type = event_type,
               dx_payload = json_dumps_spaced (JObj [(''delivery_id'', JStr (dv_id d)), (''status'', JStr (dv_status d)), (''version'', JInt (dv_version d))]),
               dx_correlation_id = correlation_id, dx_created_at = denv_now env, dx_published_at = None\<rparr>]\<rparr>)"

text \<open>
  The common end of a workflow step: the changed delivery with its next version is stored, and the
  change is entered on the timeline, in the audit log and in the outbox.
\<close>

definition delivery_actor_type :: "actor_scope \<Rightarrow> string" where
  "delivery_actor_type actor = (if ac_role actor = ''SERVICE'' then ''SERVICE'' else ''USER'')"

definition bump :: "string \<Rightarrow> (delivery \<Rightarrow> delivery) \<Rightarrow> delivery \<Rightarrow> delivery" where
  "bump actor f d = (f d)\<lparr>dv_version := dv_version d + 1, dv_updated_by := actor\<rparr>"

definition store_delivery :: "delivery \<Rightarrow> delivery_db \<Rightarrow> delivery_db" where
  "store_delivery d db = db\<lparr>deliveries := update_rows (\<lambda>x. dv_id x = dv_id d) (\<lambda>_. d) (deliveries db)\<rparr>"

definition commit_step ::
    "delivery_env \<Rightarrow> nat \<Rightarrow> actor_scope \<Rightarrow> string \<Rightarrow> event_note \<Rightarrow> delivery \<Rightarrow> delivery \<Rightarrow> delivery_db \<Rightarrow> delivery_db" where
  "commit_step env k actor event_type n d d' db =
     delivery_record env (k + 1) d' (units_str 2 (dv_verified_delivered_value d')) event_type (delivery_actor_type actor) actor
       (n\<lparr>no_before := Some (loaded_snapshot d)\<rparr>)
       (delivery_timeline env k d' event_type (ac_actor actor) (Some (dv_status d)) n (store_delivery d' db))"

end
