(* ===== verification/DeliveryService.thy ===== *)
theory DeliveryService
  imports Delivery
begin

text \<open>
  The operations of DeliveryDemoService (service.py), each a function from the database to an
  error or the changed database and the row it returns: the workflow of a delivery from its
  creation over dispatch, transit, attempt, proof and acceptance, cancellation and corrections,
  the events of other applications, and the reads that sign evidence.
\<close>

section \<open>Creation and dispatch\<close>

definition new_item :: "delivery_env \<Rightarrow> nat \<Rightarrow> string \<Rightarrow> item_create \<Rightarrow> delivery_item" where
  "new_item env k delivery_id i =
     \<lparr>di_id = uuid_str (denv_uuid env k), di_delivery_id = delivery_id, di_po_line_id = ic_po_line_id i,
      di_invoice_line_id = ic_invoice_line_id i, di_sku = ic_sku i, di_description = ic_description i, di_unit = ic_unit i,
      di_ordered_quantity = numeric 3 (ic_ordered_quantity i), di_dispatched_quantity = 0, di_delivered_quantity = 0,
      di_accepted_quantity = 0, di_rejected_quantity = 0, di_supported_unit_value = numeric 2 (ic_supported_unit_value i),
      di_rejection_reason = None, di_version = 1\<rparr>"

definition new_delivery :: "delivery_env \<Rightarrow> actor_scope \<Rightarrow> delivery_create \<Rightarrow> delivery" where
  "new_delivery env actor b =
     \<lparr>dv_id = uuid_str (denv_uuid env 0), dv_tenant_id = ac_tenant actor, dv_delivery_number = cq_delivery_number b,
      dv_purchase_order_id = cq_purchase_order_id b, dv_invoice_id = cq_invoice_id b, dv_invoice_number = cq_invoice_number b,
      dv_seller_business_id = cq_seller_business_id b, dv_seller_gstin = cq_seller_gstin b, dv_buyer_id = cq_buyer_id b,
      dv_buyer_gstin = cq_buyer_gstin b, dv_carrier_id = None, dv_tracking_number = None, dv_status = ''CREATED'',
      dv_ship_from = denv_address_json env (cq_ship_from b), dv_ship_to = denv_address_json env (cq_ship_to b),
      dv_dispatch_date = None, dv_expected_delivery_date = cq_expected_delivery_date b, dv_delivered_at = None,
      dv_currency = cq_currency b, dv_declared_value = numeric 2 (cq_declared_value b), dv_verified_delivered_value = 0,
      dv_exception_code = None, dv_version = 1, dv_created_at = denv_now env, dv_created_by = ac_actor actor,
      dv_updated_at = denv_now env, dv_updated_by = ac_actor actor\<rparr>"

definition create_delivery :: "delivery_env \<Rightarrow> actor_scope \<Rightarrow> delivery_create \<Rightarrow> delivery delivery_op" where
  "create_delivery env actor b db =
     (case scalar (\<lambda>d. dv_tenant_id d = ac_tenant actor \<and> dv_delivery_number d = cq_delivery_number b) (deliveries db) of
        Some _ \<Rightarrow> Inl (DeliveryConflictError ''Delivery number already exists in this tenant.'')
      | None \<Rightarrow>
          let d = new_delivery env actor b; n = length (cq_items b);
              items = map (\<lambda>(k, i). new_item env (Suc k) (dv_id d) i) (enumerate 0 (cq_items b));
              db1 = db\<lparr>deliveries := deliveries db @ [d], delivery_items := delivery_items db @ items\<rparr>
          in Inr (delivery_record env (n + 2) d ''0'' ''delivery.created'' (delivery_actor_type actor) actor plain_note
                    (delivery_timeline env (n + 1) d ''delivery.created'' (ac_actor actor) None plain_note db1), d))"

text \<open>A step on one delivery: the row of the tenant, its expected version, then the step.\<close>

definition on_delivery :: "delivery_db \<Rightarrow> string \<Rightarrow> string \<Rightarrow> int \<Rightarrow> (delivery \<Rightarrow> delivery_error + 'a) \<Rightarrow> delivery_error + 'a" where
  "on_delivery db tenant_id delivery_id expected f =
     sum_bind (find_delivery db tenant_id delivery_id) (\<lambda>d. sum_bind (expect_delivery_version d expected) (\<lambda>_. f d))"

definition mark_ready :: "delivery_env \<Rightarrow> actor_scope \<Rightarrow> string \<Rightarrow> int \<Rightarrow> delivery delivery_op" where
  "mark_ready env actor delivery_id expected db =
     on_delivery db (ac_tenant actor) delivery_id expected (\<lambda>d.
     if dv_status d \<noteq> ''CREATED'' then Inl (DeliveryConflictError ''Only a CREATED delivery can be marked ready.'')
     else if dv_purchase_order_id d = [] \<or> dv_seller_business_id d = [] \<or> dv_buyer_id d = []
     then Inl (DeliveryConflictError ''Purchase order, seller and buyer identities are required.'')
     else sum_bind (fresh_tracking env db (ac_tenant actor)) (\<lambda>tracking.
       let d' = bump (ac_actor actor) (\<lambda>x. x\<lparr>dv_tracking_number := Some tracking, dv_status := ''READY_TO_DISPATCH''\<rparr>) d
       in Inr (commit_step env 0 actor ''delivery.ready'' plain_note d d' db, d')))"

definition items_of :: "delivery_db \<Rightarrow> string \<Rightarrow> delivery_item list" where
  "items_of db delivery_id = scalars (\<lambda>i. di_delivery_id i = delivery_id) (delivery_items db)"

text \<open>\<open>set(quantities) != {item.sku for item in items}\<close>.\<close>

definition covers_items :: "quantities \<Rightarrow> delivery_item list \<Rightarrow> bool" where
  "covers_items q items \<longleftrightarrow> set (map fst q) = set (map di_sku items)"

definition update_items :: "string \<Rightarrow> (delivery_item \<Rightarrow> delivery_item) \<Rightarrow> delivery_db \<Rightarrow> delivery_db" where
  "update_items delivery_id f db =
     db\<lparr>delivery_items := update_rows (\<lambda>i. di_delivery_id i = delivery_id) f (delivery_items db)\<rparr>"

definition thousandths :: "quantities \<Rightarrow> delivery_item \<Rightarrow> int" where
  "thousandths q i = numeric 3 (quantity_of q (di_sku i))"

definition dispatch_item :: "quantities \<Rightarrow> delivery_item \<Rightarrow> delivery_item" where
  "dispatch_item q i = i\<lparr>di_dispatched_quantity := thousandths q i, di_version := di_version i + 1\<rparr>"

definition dispatch_delivery :: "delivery_env \<Rightarrow> actor_scope \<Rightarrow> string \<Rightarrow> int \<Rightarrow> dispatch_request \<Rightarrow> delivery delivery_op" where
  "dispatch_delivery env actor delivery_id expected b db =
     on_delivery db (ac_tenant actor) delivery_id expected (\<lambda>d.
     if dv_status d \<noteq> ''READY_TO_DISPATCH'' \<or> \<not> filled (dv_tracking_number d)
     then Inl (DeliveryConflictError ''Delivery must be ready with a server-issued tracking number.'')
     else let items = items_of db delivery_id; q = hq_item_quantities b in
     if \<not> covers_items q items then Inl (DeliveryDomainError ''Dispatch quantities must include every delivery SKU exactly once.'')
     else case List.find (\<lambda>i. di_ordered_quantity i < thousandths q i) items of
       Some i \<Rightarrow> Inl (DeliveryDomainError (''Dispatch for '' @ di_sku i @ '' exceeds ordered quantity.''))
     | None \<Rightarrow>
         let d' = bump (ac_actor actor) (\<lambda>x. x\<lparr>dv_carrier_id := Some (hq_carrier_id b), dv_dispatch_date := Some (denv_now env),
                     dv_status := ''DISPATCHED''\<rparr>) d
         in Inr (commit_step env 0 actor ''delivery.dispatched'' plain_note d d' (update_items delivery_id (dispatch_item q) db), d'))"

section \<open>Transit and attempts\<close>

definition transit_transitions :: "((string \<times> string) \<times> string) list" where
  "transit_transitions =
     [((''DISPATCHED'', ''IN_TRANSIT''), ''IN_TRANSIT''), ((''IN_TRANSIT'', ''OUT_FOR_DELIVERY''), ''OUT_FOR_DELIVERY''),
      ((''DISPATCHED'', ''DELIVERY_DELAYED''), ''DELIVERY_FAILED''), ((''IN_TRANSIT'', ''DELIVERY_DELAYED''), ''DELIVERY_FAILED''),
      ((''OUT_FOR_DELIVERY'', ''DELIVERY_DELAYED''), ''DELIVERY_FAILED''), ((''DELIVERY_FAILED'', ''DELIVERY_RESUMED''), ''IN_TRANSIT'')]"

definition record_transit_event :: "delivery_env \<Rightarrow> actor_scope \<Rightarrow> string \<Rightarrow> int \<Rightarrow> transit_request \<Rightarrow> delivery delivery_op" where
  "record_transit_event env actor delivery_id expected b db =
     on_delivery db (ac_tenant actor) delivery_id expected (\<lambda>d.
     case map_of transit_transitions (dv_status d, yq_event_type b) of
       None \<Rightarrow> Inl (DeliveryConflictError (yq_event_type b @ '' is invalid from '' @ dv_status d @ ''.''))
     | Some target \<Rightarrow>
         let occurred_at = (case yq_occurred_at b of Some t \<Rightarrow> instant t | None \<Rightarrow> denv_now env) in
         if denv_now env + minutes 5 < occurred_at then Inl (DeliveryDomainError ''Transit event cannot be in the future.'')
         else if (case dv_dispatch_date d of Some t \<Rightarrow> occurred_at < t | None \<Rightarrow> False)
         then Inl (DeliveryDomainError ''Transit event cannot predate dispatch.'')
         else
           let d' = bump (ac_actor actor) (\<lambda>x. x\<lparr>dv_status := target,
                  dv_exception_code := (if target = ''DELIVERY_FAILED'' then Some ''DELIVERY_DELAYED'' else None)\<rparr>) d;
               n = plain_note\<lparr>no_location := map_option address_dump (yq_location b),
                  no_notes := yq_notes b, no_occurred_at := Some occurred_at\<rparr>
           in Inr (commit_step env 0 actor (''delivery.'' @ py_lower (yq_event_type b)) n d d' db, d'))"

definition deliver_item :: "quantities \<Rightarrow> delivery_item \<Rightarrow> delivery_item" where
  "deliver_item q i = i\<lparr>di_delivered_quantity := thousandths q i, di_version := di_version i + 1\<rparr>"

definition arrive :: "time \<Rightarrow> bool \<Rightarrow> delivery \<Rightarrow> delivery" where
  "arrive now partial x =
     x\<lparr>dv_delivered_at := Some now,
       dv_status := (if partial then ''PARTIAL_PENDING_ACCEPTANCE'' else ''DELIVERED_PENDING_ACCEPTANCE''),
       dv_exception_code := (if partial then Some ''SHORT_DELIVERY'' else None)\<rparr>"

definition record_delivery_attempt :: "delivery_env \<Rightarrow> actor_scope \<Rightarrow> string \<Rightarrow> int \<Rightarrow> attempt_request \<Rightarrow> delivery delivery_op" where
  "record_delivery_attempt env actor delivery_id expected b db =
     on_delivery db (ac_tenant actor) delivery_id expected (\<lambda>d.
     if dv_status d \<notin> {''IN_TRANSIT'', ''OUT_FOR_DELIVERY''}
     then Inl (DeliveryConflictError ''Delivery attempt requires IN_TRANSIT or OUT_FOR_DELIVERY status.'')
     else let items = items_of db delivery_id; q = kq_item_quantities b;
              n = plain_note\<lparr>no_notes := kq_failure_reason b, no_reason := kq_failure_reason b\<rparr> in
     if kq_success b then
       if \<not> covers_items q items then Inl (DeliveryDomainError ''Delivered quantities must include every SKU exactly once.'')
       else case List.find (\<lambda>i. di_dispatched_quantity i < thousandths q i) items of
         Some i \<Rightarrow> Inl (DeliveryDomainError (''Delivered quantity for '' @ di_sku i @ '' exceeds dispatch.''))
       | None \<Rightarrow>
           let partial = (\<exists>i\<in>set items. thousandths q i < di_dispatched_quantity i);
               d' = bump (ac_actor actor) (arrive (denv_now env) partial) d
           in Inr (commit_step env 0 actor ''delivery.attempt_succeeded'' n d d' (update_items delivery_id (deliver_item q) db), d')
     else
       let d' = bump (ac_actor actor) (\<lambda>x. x\<lparr>dv_status := ''DELIVERY_FAILED'', dv_exception_code := Some ''ATTEMPT_FAILED''\<rparr>) d
       in Inr (commit_step env 0 actor ''delivery.attempt_failed'' n d d' db, d'))"

section \<open>Proof and acceptance\<close>

definition new_proof :: "delivery_env \<Rightarrow> string \<Rightarrow> proof_request \<Rightarrow> proof_of_delivery" where
  "new_proof env delivery_id b =
     \<lparr>po_id = uuid_str (denv_uuid env 0), po_delivery_id = delivery_id, po_proof_type = zq_proof_type b,
      po_restricted_object_key = zq_restricted_object_key b, po_content_hash = py_lower (zq_content_hash b), po_mime_type = zq_mime_type b,
      po_captured_at = denv_now env, po_recipient_token = zq_recipient_token b, po_recipient_name = None,
      po_recipient_role = zq_recipient_role b, po_verification_status = ''PENDING_VERIFICATION'', po_verification_method = None,
      po_verifier = None, po_replacement_link = None, po_security_flags = zq_security_flags b\<rparr>"

definition replace_proof :: "string \<Rightarrow> string \<Rightarrow> proof_of_delivery \<Rightarrow> proof_of_delivery" where
  "replace_proof delivery_id proof_id p =
     (if po_delivery_id p = delivery_id \<and> po_verification_status p = ''PENDING_VERIFICATION''
      then p\<lparr>po_verification_status := ''REJECTED'', po_replacement_link := Some proof_id\<rparr> else p)"

definition capture_pod :: "delivery_env \<Rightarrow> actor_scope \<Rightarrow> string \<Rightarrow> int \<Rightarrow> proof_request \<Rightarrow> proof_of_delivery delivery_op" where
  "capture_pod env actor delivery_id expected b db =
     on_delivery db (ac_tenant actor) delivery_id expected (\<lambda>d.
     if dv_status d \<notin> pending_acceptance_statuses
     then Inl (DeliveryConflictError ''Proof can only be captured after a successful delivery attempt.'')
     else
       let p = new_proof env delivery_id b; d' = bump (ac_actor actor) id d;
           n = plain_note\<lparr>no_detail := [(''proof_id'', JStr (po_id p)), (''content_hash'', JStr (po_content_hash p))]\<rparr>;
           db1 = db\<lparr>proofs := map (replace_proof delivery_id (po_id p)) (proofs db) @ [p]\<rparr>
       in Inr (commit_step env 1 actor ''delivery.proof_captured'' n d d' db1, p))"

text \<open>\<open>sorted(set(flags))\<close>.\<close>

definition add_flag :: "string \<Rightarrow> string list \<Rightarrow> string list" where
  "add_flag f flags = sort (remdups (flags @ [f]))"

definition review_proof :: "actor_scope \<Rightarrow> bool \<Rightarrow> proof_of_delivery \<Rightarrow> proof_of_delivery" where
  "review_proof actor verified p =
     p\<lparr>po_verification_status := (if verified then ''VERIFIED'' else ''REJECTED''), po_verification_method := Some ''INDEPENDENT_REVIEW'',
       po_verifier := Some (ac_actor actor),
       po_security_flags := (if verified then po_security_flags p else add_flag ''REVIEW_REJECTED'' (po_security_flags p))\<rparr>"

definition verify_pod :: "delivery_env \<Rightarrow> actor_scope \<Rightarrow> string \<Rightarrow> string \<Rightarrow> int \<Rightarrow> bool \<Rightarrow> string option \<Rightarrow> delivery delivery_op" where
  "verify_pod env actor delivery_id proof_id expected verified rejection_reason db =
     on_delivery db (ac_tenant actor) delivery_id expected (\<lambda>d.
     case scalar (\<lambda>p. po_id p = proof_id \<and> po_delivery_id p = delivery_id) (proofs db) of
       None \<Rightarrow> Inl (DeliveryNotFoundError ''Proof not found.'')
     | Some p \<Rightarrow>
         if po_verification_status p \<noteq> ''PENDING_VERIFICATION'' then Inl (DeliveryConflictError ''Only pending proof can be reviewed.'')
         else
           let d' = bump (ac_actor actor) id d;
               event = (if verified then ''delivery.proof_verified'' else ''delivery.proof_rejected'');
               n = plain_note\<lparr>no_notes := rejection_reason, no_reason := rejection_reason, no_detail := [(''proof_id'', JStr proof_id)]\<rparr>;
               db1 = db\<lparr>proofs := update_rows (\<lambda>x. po_id x = proof_id) (review_proof actor verified) (proofs db)\<rparr>
           in Inr (commit_step env 0 actor event n d d' db1, d'))"

definition entry_of_sku :: "item_acceptance list \<Rightarrow> string \<Rightarrow> item_acceptance" where
  "entry_of_sku entries sku =
     (case List.find (\<lambda>e. ia_sku e = sku) entries of
        Some e \<Rightarrow> e | None \<Rightarrow> \<lparr>ia_sku = sku, ia_accepted_quantity = Finite False 0 0, ia_rejected_quantity = Finite False 0 0, ia_reason = None\<rparr>)"

fun first_some :: "'a option list \<Rightarrow> 'a option" where
  "first_some [] = None"
| "first_some (x # xs) = (case x of Some v \<Rightarrow> Some v | None \<Rightarrow> first_some xs)"

lemma first_some_None: "first_some xs = None \<longleftrightarrow> (\<forall>x\<in>set xs. x = None)"
  by (induction xs) (auto split: option.splits)

text \<open>The checks of one item, in the order of the loop.\<close>

definition acceptance_error :: "item_acceptance list \<Rightarrow> delivery_item \<Rightarrow> delivery_error option" where
  "acceptance_error entries i =
     (let e = entry_of_sku entries (di_sku i) in
      if numeric 3 (ia_accepted_quantity e) + numeric 3 (ia_rejected_quantity e) \<noteq> di_delivered_quantity i
      then Some (DeliveryDomainError (''Acceptance quantities for '' @ di_sku i @ '' must equal delivered quantity.''))
      else if numeric 3 (ia_rejected_quantity e) \<noteq> 0 \<and> \<not> filled (ia_reason e)
      then Some (DeliveryDomainError (''Rejected quantity for '' @ di_sku i @ '' requires a reason.''))
      else None)"

definition accept_item :: "item_acceptance list \<Rightarrow> delivery_item \<Rightarrow> delivery_item" where
  "accept_item entries i =
     (let e = entry_of_sku entries (di_sku i) in
      i\<lparr>di_accepted_quantity := numeric 3 (ia_accepted_quantity e), di_rejected_quantity := numeric 3 (ia_rejected_quantity e),
        di_rejection_reason := ia_reason e, di_version := di_version i + 1\<rparr>)"

text \<open>A line of the stored snapshot, its keys in the order of \<open>sort_keys\<close>.\<close>

definition acceptance_line :: "item_acceptance list \<Rightarrow> delivery_item \<Rightarrow> json" where
  "acceptance_line entries i =
     (let e = entry_of_sku entries (di_sku i) in
      JObj [(''accepted_quantity'', JStr (decimal_str (ia_accepted_quantity e))), (''reason'', JOpt (ia_reason e)),
            (''rejected_quantity'', JStr (decimal_str (ia_rejected_quantity e))), (''sku'', JStr (di_sku i))])"

definition accepted_value :: "delivery_item list \<Rightarrow> int" where
  "accepted_value items = line_value (map (\<lambda>i. (di_accepted_quantity i, di_supported_unit_value i)) items)"

definition acceptance_status :: "delivery_item list \<Rightarrow> string" where
  "acceptance_status items =
     (let any_accepted = (\<exists>i\<in>set items. 0 < di_accepted_quantity i); any_rejected = (\<exists>i\<in>set items. 0 < di_rejected_quantity i) in
      if any_accepted \<and> any_rejected then ''PARTIALLY_ACCEPTED'' else if any_accepted then ''DELIVERED'' else ''REJECTED'')"

definition accept_delivery :: "delivery_item list \<Rightarrow> delivery \<Rightarrow> delivery" where
  "accept_delivery items x = x\<lparr>dv_status := acceptance_status items, dv_verified_delivered_value := accepted_value items\<rparr>"

definition new_acceptance :: "delivery_env \<Rightarrow> actor_scope \<Rightarrow> delivery \<Rightarrow> json \<Rightarrow> string option \<Rightarrow> buyer_acceptance" where
  "new_acceptance env actor d snapshot reason =
     \<lparr>bc_id = uuid_str (denv_uuid env 0), bc_delivery_id = dv_id d, bc_version = dv_version d, bc_buyer_identity = dv_buyer_id d,
      bc_status = (if dv_status d = ''DELIVERED'' then ''ACCEPTED'' else dv_status d), bc_accepted_value = dv_verified_delivered_value d,
      bc_item_level_acceptance = snapshot, bc_actor = ac_actor actor, bc_reason = reason,
      bc_occurred_at = denv_now env, bc_source_hash = delivery_hash snapshot\<rparr>"

definition record_buyer_acceptance ::
    "delivery_env \<Rightarrow> actor_scope \<Rightarrow> string \<Rightarrow> int \<Rightarrow> acceptance_request \<Rightarrow> delivery delivery_op" where
  "record_buyer_acceptance env actor delivery_id expected b db =
     on_delivery db (ac_tenant actor) delivery_id expected (\<lambda>d.
     if dv_status d \<notin> pending_acceptance_statuses
     then Inl (DeliveryConflictError ''Acceptance requires a delivery pending acceptance.'')
     else if \<not> (\<exists>p\<in>set (proofs db). po_delivery_id p = delivery_id \<and> po_verification_status p = ''VERIFIED'')
     then Inl (DeliveryConflictError ''Buyer acceptance requires independently verified proof of delivery.'')
     else let items = items_of db delivery_id; entries = nq_items b in
     if \<not> distinct (map ia_sku entries) \<or> set (map ia_sku entries) \<noteq> set (map di_sku items)
     then Inl (DeliveryDomainError ''Acceptance must include every SKU exactly once.'')
     else case first_some (map (acceptance_error entries) items) of
       Some e \<Rightarrow> Inl e
     | None \<Rightarrow>
         let items' = map (accept_item entries) items; snapshot = JList (map (acceptance_line entries) items);
             d' = bump (ac_actor actor) (accept_delivery items') d;
             n = plain_note\<lparr>no_reason := nq_reason b\<rparr>;
             db1 = (update_items delivery_id (accept_item entries) db)
                     \<lparr>acceptances := acceptances db @ [new_acceptance env actor d' snapshot (nq_reason b)]\<rparr>
         in Inr (commit_step env 1 actor ''delivery.accepted'' n d d' db1, d'))"

section \<open>Cancellation and corrections\<close>

definition cancel_delivery :: "delivery_env \<Rightarrow> actor_scope \<Rightarrow> string \<Rightarrow> int \<Rightarrow> string \<Rightarrow> delivery delivery_op" where
  "cancel_delivery env actor delivery_id expected reason db =
     on_delivery db (ac_tenant actor) delivery_id expected (\<lambda>d.
     if dv_status d \<in> terminal_statuses then Inl (DeliveryConflictError ''A terminal delivery cannot be cancelled.'')
     else if dv_status d \<notin> {''CREATED'', ''READY_TO_DISPATCH''} \<and> ac_role actor \<noteq> ''DELIVERY_REVIEWER''
     then Inl (DeliveryConflictError ''Post-dispatch cancellation requires independent reviewer approval.'')
     else
       let d' = bump (ac_actor actor) (\<lambda>x. x\<lparr>dv_status := ''CANCELLED'',
              dv_exception_code := (if ac_role actor = ''DELIVERY_REVIEWER'' then Some ''CANCELLED_BY_REVIEWER'' else None)\<rparr>) d
       in Inr (commit_step env 0 actor ''delivery.cancelled'' (plain_note\<lparr>no_notes := Some reason, no_reason := Some reason\<rparr>) d d' db, d'))"

fun allowed_fields :: "string \<Rightarrow> string set" where
  "allowed_fields t =
     (if t = ''IDENTITY'' then {''seller_business_id'', ''seller_gstin'', ''buyer_id'', ''buyer_gstin''}
      else if t = ''REFERENCE'' then {''purchase_order_id'', ''invoice_id'', ''invoice_number''}
      else if t = ''TRACKING'' then {''tracking_number'', ''carrier_id''}
      else {''ship_from'', ''ship_to''})"

definition propose_correction ::
    "delivery_env \<Rightarrow> actor_scope \<Rightarrow> string \<Rightarrow> int \<Rightarrow> correction_request \<Rightarrow> delivery_correction delivery_op" where
  "propose_correction env actor delivery_id expected b db =
     (if mq_proposed_changes b = [] \<or> \<not> fst ` set (mq_proposed_changes b) \<subseteq> allowed_fields (mq_correction_type b)
      then Inl (DeliveryDomainError ''Correction contains fields outside its approved type.'')
      else on_delivery db (ac_tenant actor) delivery_id expected (\<lambda>d.
      if (\<exists>c\<in>set (corrections db). dc_delivery_id c = delivery_id \<and> dc_status c = ''PENDING'')
      then Inl (DeliveryConflictError ''This delivery already has a pending correction.'')
      else
        let c = \<lparr>dc_id = uuid_str (denv_uuid env 0), dc_delivery_id = delivery_id, dc_aggregate_version = dv_version d,
              dc_correction_type = mq_correction_type b, dc_proposed_changes = sort_key fst (mq_proposed_changes b), dc_reason = mq_reason b,
              dc_requester = ac_actor actor, dc_reviewer = None, dc_decision = ''PENDING'', dc_applied_version = None, dc_status = ''PENDING''\<rparr>;
            d' = bump (ac_actor actor) id d;
            n = plain_note\<lparr>no_notes := Some (mq_reason b), no_reason := Some (mq_reason b), no_detail := [(''correction_id'', JStr (dc_id c))]\<rparr>
        in Inr (commit_step env 1 actor ''delivery.correction_proposed'' n d d' (db\<lparr>corrections := corrections db @ [c]\<rparr>), c)))"

text \<open>
  Whether \<open>json.loads\<close> accepts a text. A parser takes the text to the rest after one value;
  the fuel of \<open>json_value\<close> bounds the nesting and is never more than the text has characters.
\<close>

definition json_space :: "char \<Rightarrow> bool" where
  "json_space c \<longleftrightarrow> (of_char c :: nat) \<in> {9, 10, 13, 32}"

definition skip_space :: "string \<Rightarrow> string" where
  "skip_space s = dropWhile json_space s"

definition expect :: "string \<Rightarrow> string \<Rightarrow> string option" where
  "expect t s = (if take (length t) s = t then Some (drop (length t) s) else None)"

fun string_tail :: "string \<Rightarrow> string option" where
  "string_tail [] = None"
| "string_tail (c # s) =
     (if c = CHR 0x22 then Some s
      else if (of_char c :: nat) < 32 then None
      else if (of_char c :: nat) \<noteq> 92 then string_tail s
      else case s of
        [] \<Rightarrow> None
      | e # s' \<Rightarrow>
          if e \<in> set [CHR 0x22, CHR 0x5C, CHR ''/'', CHR ''b'', CHR ''f'', CHR ''n'', CHR ''r'', CHR ''t''] then string_tail s'
          else if e = CHR ''u'' \<and> 4 \<le> length s' \<and> list_all hex_digit (take 4 s') then string_tail (drop 4 s')
          else None)"

definition digits1 :: "string \<Rightarrow> string option" where
  "digits1 s = (case s of c # _ \<Rightarrow> if is_digit c then Some (dropWhile is_digit s) else None | [] \<Rightarrow> None)"

definition fraction_tail :: "string \<Rightarrow> string" where
  "fraction_tail s = (case s of c # s' \<Rightarrow> if c = CHR ''.'' then (case digits1 s' of Some r \<Rightarrow> r | None \<Rightarrow> s) else s | [] \<Rightarrow> s)"

definition exponent_tail :: "string \<Rightarrow> string" where
  "exponent_tail s =
     (case s of
        c # s' \<Rightarrow>
          if c = CHR ''e'' \<or> c = CHR ''E'' then
            (case digits1 (case s' of d # s'' \<Rightarrow> if d = CHR ''+'' \<or> d = CHR ''-'' then s'' else s' | [] \<Rightarrow> s') of Some r \<Rightarrow> r | None \<Rightarrow> s)
          else s
      | [] \<Rightarrow> s)"

definition number_tail :: "string \<Rightarrow> string option" where
  "number_tail s =
     (let t = (case s of c # s' \<Rightarrow> if c = CHR ''-'' then s' else s | [] \<Rightarrow> s) in
      map_option (\<lambda>r. exponent_tail (fraction_tail r))
        (case t of c # t' \<Rightarrow> if c = CHR ''0'' then Some t' else digits1 t | [] \<Rightarrow> None))"

fun json_value :: "nat \<Rightarrow> string \<Rightarrow> string option"
  and json_members :: "nat \<Rightarrow> bool \<Rightarrow> string \<Rightarrow> string option" where
  "json_value 0 s = None"
| "json_value (Suc n) s =
     (case s of
        [] \<Rightarrow> None
      | c # s' \<Rightarrow>
          if c = CHR 0x22 then string_tail s'
          else if c = CHR ''{'' then
            (case expect ''}'' (skip_space s') of Some r \<Rightarrow> Some r | None \<Rightarrow> json_members n True (skip_space s'))
          else if c = CHR ''['' then
            (case expect '']'' (skip_space s') of Some r \<Rightarrow> Some r | None \<Rightarrow> json_members n False (skip_space s'))
          else first_some [expect ''null'' s, expect ''true'' s, expect ''false'' s, number_tail s,
                 expect ''NaN'' s, expect ''Infinity'' s, expect ''-Infinity'' s])"
| "json_members 0 object s = None"
| "json_members (Suc n) object s =
     (case (if object then
              (case s of
                 c # s' \<Rightarrow> if c = CHR 0x22
                   then Option.bind (string_tail s') (\<lambda>r. Option.bind (expect '':'' (skip_space r)) (\<lambda>r'. json_value n (skip_space r')))
                   else None
               | [] \<Rightarrow> None)
            else json_value n s) of
        None \<Rightarrow> None
      | Some r \<Rightarrow>
          (case expect '','' (skip_space r) of
             Some r' \<Rightarrow> json_members n object (skip_space r')
           | None \<Rightarrow> expect (if object then ''}'' else '']'') (skip_space r)))"

definition json_loads_ok :: "string \<Rightarrow> bool" where
  "json_loads_ok s =
     (case json_value (2 * length s + 2) (skip_space s) of None \<Rightarrow> False | Some r \<Rightarrow> skip_space r = [])"

fun set_field :: "string \<times> string \<Rightarrow> delivery \<Rightarrow> delivery" where
  "set_field (f, v) d =
     (if f = ''seller_business_id'' then d\<lparr>dv_seller_business_id := v\<rparr>
      else if f = ''seller_gstin'' then d\<lparr>dv_seller_gstin := v\<rparr>
      else if f = ''buyer_id'' then d\<lparr>dv_buyer_id := v\<rparr>
      else if f = ''buyer_gstin'' then d\<lparr>dv_buyer_gstin := v\<rparr>
      else if f = ''purchase_order_id'' then d\<lparr>dv_purchase_order_id := v\<rparr>
      else if f = ''invoice_id'' then d\<lparr>dv_invoice_id := Some v\<rparr>
      else if f = ''invoice_number'' then d\<lparr>dv_invoice_number := Some v\<rparr>
      else if f = ''tracking_number'' then d\<lparr>dv_tracking_number := Some v\<rparr>
      else if f = ''carrier_id'' then d\<lparr>dv_carrier_id := Some v\<rparr>
      else if f = ''ship_from'' then d\<lparr>dv_ship_from := v\<rparr>
      else if f = ''ship_to'' then d\<lparr>dv_ship_to := v\<rparr> else d)"

definition check_tracking :: "delivery_db \<Rightarrow> delivery \<Rightarrow> string \<Rightarrow> (string \<times> string) list \<Rightarrow> delivery_error + unit" where
  "check_tracking db d tenant_id changes =
     (case map_of changes ''tracking_number'' of
        None \<Rightarrow> Inr ()
      | Some tracking \<Rightarrow>
          if length tracking \<noteq> 10 \<or> take 2 tracking \<noteq> ''XY''
          then Inl (DeliveryDomainError ''Replacement tracking must be a 10-character XY identifier.'')
          else if (\<exists>x\<in>set (deliveries db). dv_tenant_id x = tenant_id \<and> dv_tracking_number x = Some tracking \<and> dv_id x \<noteq> dv_id d)
          then Inl (DeliveryConflictError ''Tracking number already exists.'')
          else Inr ())"

definition check_changes :: "delivery_db \<Rightarrow> delivery \<Rightarrow> string \<Rightarrow> (string \<times> string) list \<Rightarrow> delivery_error + unit" where
  "check_changes db d tenant_id changes =
     sum_bind (check_tracking db d tenant_id changes) (\<lambda>_.
     if list_all (\<lambda>(f, v). f \<in> {''ship_from'', ''ship_to''} \<longrightarrow> json_loads_ok v) changes then Inr () else Inl DeliveryValueError)"

definition decide_correction :: "actor_scope \<Rightarrow> bool \<Rightarrow> int \<Rightarrow> delivery_correction \<Rightarrow> delivery_correction" where
  "decide_correction actor approve version c =
     (let decision = (if approve then ''APPROVED'' else ''REJECTED'') in
      c\<lparr>dc_reviewer := Some (ac_actor actor), dc_decision := decision, dc_status := decision,
        dc_applied_version := (if approve then Some version else dc_applied_version c)\<rparr>)"

definition review_correction :: "delivery_env \<Rightarrow> actor_scope \<Rightarrow> string \<Rightarrow> int \<Rightarrow> bool \<Rightarrow> string option \<Rightarrow> delivery delivery_op" where
  "review_correction env actor correction_id expected approve reason db =
     sum_bind (found (DeliveryNotFoundError ''Correction not found.'')
       (scalar (\<lambda>c. dc_id c = correction_id) (corrections db))) (\<lambda>c.
     on_delivery db (ac_tenant actor) (dc_delivery_id c) expected (\<lambda>d.
     if dc_status c \<noteq> ''PENDING'' then Inl (DeliveryConflictError ''Correction has already been reviewed.'')
     else sum_bind (if approve then check_changes db d (ac_tenant actor) (dc_proposed_changes c) else Inr ()) (\<lambda>_.
       let d' = bump (ac_actor actor) (if approve then fold set_field (dc_proposed_changes c) else id) d;
           event = (if approve then ''delivery.correction_approved'' else ''delivery.correction_rejected'');
           n = plain_note\<lparr>no_notes := reason, no_reason := reason,
             no_detail := [(''correction_id'', JStr correction_id), (''changes'', JObj (map (\<lambda>(f, v). (f, JStr v)) (dc_proposed_changes c)))]\<rparr>;
           db1 = db\<lparr>corrections := update_rows (\<lambda>x. dc_id x = correction_id) (decide_correction actor approve (dv_version d')) (corrections db)\<rparr>
       in Inr (commit_step env 0 actor event n d d' db1, d'))))"

end
