(* ===== verification/DeliveryReads.thy ===== *)
theory DeliveryReads
  imports DeliveryService
begin

text \<open>
  The rest of DeliveryDemoService: the events of other applications (\<open>consume_external_event\<close>)
  and the reads of a tenant's deliveries, the evidence envelope (\<open>source_envelope\<close>) and the
  comparison of invoice lines with accepted quantities (\<open>verify_fulfilment\<close>).
\<close>

section \<open>Events of other applications\<close>

definition same_aggregate :: "delivery_envelope \<Rightarrow> external_version \<Rightarrow> bool" where
  "same_aggregate e v \<longleftrightarrow> ev_tenant_id v = en_tenant_id e \<and> ev_source_application v = en_source_application e \<and>
     ev_aggregate_type v = en_aggregate_type e \<and> ev_aggregate_id v = en_aggregate_id e"

definition concerns :: "delivery_envelope \<Rightarrow> delivery \<Rightarrow> bool" where
  "concerns e d \<longleftrightarrow> dv_tenant_id d = en_tenant_id e \<and>
     (if en_aggregate_type e = ''purchase_order'' then dv_purchase_order_id d = en_aggregate_id e
      else if en_aggregate_type e = ''invoice'' then dv_invoice_id d = Some (en_aggregate_id e)
      else dv_seller_business_id d = en_aggregate_id e \<or> dv_buyer_id d = en_aggregate_id e)"

definition source_exception :: "string \<Rightarrow> string" where
  "source_exception event_type =
     (if event_type = ''purchase_order.cancelled'' then ''SOURCE_PO_CANCELLED''
      else if event_type = ''invoice.cancelled'' then ''SOURCE_INVOICE_CANCELLED''
      else ''SOURCE_IDENTITY_CHANGED'')"

text \<open>The loop over the deliveries concerned: each change draws three uuids.\<close>

fun mark_source :: "delivery_env \<Rightarrow> nat \<Rightarrow> delivery_envelope \<Rightarrow> delivery list \<Rightarrow> delivery_db \<Rightarrow> delivery_db" where
  "mark_source env k e [] db = db"
| "mark_source env k e (d # ds) db =
     (if dv_status d \<in> terminal_statuses then mark_source env k e ds db
      else
        let d' = bump (en_source_application e) (\<lambda>x. x\<lparr>dv_exception_code := Some (source_exception (en_event_type e))\<rparr>) d;
            actor = \<lparr>ac_tenant = en_tenant_id e, ac_actor = en_source_application e, ac_role = ''SERVICE''\<rparr>;
            n = plain_note\<lparr>no_occurred_at := Some (instant (en_occurred_at e)), no_correlation_id := Some (en_correlation_id e),
              no_detail := [(''source_event_id'', JStr (en_event_id e)), (''source_aggregate_version'', JInt (en_aggregate_version e))]\<rparr>
        in mark_source env (k + 3) e ds (commit_step env k actor (en_event_type e) n d d' db))"

definition note_version :: "delivery_env \<Rightarrow> delivery_envelope \<Rightarrow> delivery_db \<Rightarrow> delivery_db" where
  "note_version env e db =
     (case scalar (same_aggregate e) (external_versions db) of
        Some v \<Rightarrow> db\<lparr>external_versions :=
          update_rows (\<lambda>x. ev_id x = ev_id v) (\<lambda>x. x\<lparr>ev_latest_version := en_aggregate_version e\<rparr>) (external_versions db)\<rparr>
      | None \<Rightarrow> db\<lparr>external_versions := external_versions db @
          [\<lparr>ev_id = uuid_str (denv_uuid env 0), ev_tenant_id = en_tenant_id e, ev_source_application = en_source_application e,
            ev_aggregate_type = en_aggregate_type e, ev_aggregate_id = en_aggregate_id e, ev_latest_version = en_aggregate_version e\<rparr>]\<rparr>)"

definition consume_source_event :: "delivery_env \<Rightarrow> delivery_envelope \<Rightarrow> string \<Rightarrow> string delivery_op" where
  "consume_source_event env e payload_hash db =
     (case scalar (\<lambda>i. db_source_application i = en_source_application e \<and> db_event_id i = en_event_id e) (delivery_inboxes db) of
        Some _ \<Rightarrow> Inr (db, ''DUPLICATE'')
      | None \<Rightarrow>
          let known = scalar (same_aggregate e) (external_versions db);
              stale = (case known of Some v \<Rightarrow> en_aggregate_version e \<le> ev_latest_version v | None \<Rightarrow> False);
              status = (if stale then ''STALE'' else ''PROCESSED'');
              db1 = (if stale then db
                     else mark_source env (if known = None then 1 else 0) e (scalars (concerns e) (deliveries db)) (note_version env e db))
          in Inr (db1\<lparr>delivery_inboxes := delivery_inboxes db1 @
               [\<lparr>db_source_application = en_source_application e, db_event_id = en_event_id e, db_tenant_id = en_tenant_id e,
                 db_event_type = en_event_type e, db_aggregate_type = en_aggregate_type e, db_aggregate_id = en_aggregate_id e,
                 db_aggregate_version = en_aggregate_version e, db_processed_at = denv_now env, db_status = status,
                 db_payload_hash = payload_hash\<rparr>]\<rparr>, status))"

section \<open>Reads\<close>

record delivery_view =
  vw_delivery :: delivery
  vw_items :: "delivery_item list"
  vw_events :: "delivery_event list"
  vw_proofs :: "proof_of_delivery list"
  vw_acceptances :: "buyer_acceptance list"
  vw_corrections :: "delivery_correction list"

definition events_of :: "delivery_db \<Rightarrow> string \<Rightarrow> delivery_event list" where
  "events_of db delivery_id = sort_key dn_occurred_at (scalars (\<lambda>e. dn_delivery_id e = delivery_id) (delivery_events db))"

definition proofs_of :: "delivery_db \<Rightarrow> string \<Rightarrow> proof_of_delivery list" where
  "proofs_of db delivery_id = sort_key (\<lambda>p. - po_captured_at p) (scalars (\<lambda>p. po_delivery_id p = delivery_id) (proofs db))"

definition acceptances_of :: "delivery_db \<Rightarrow> string \<Rightarrow> buyer_acceptance list" where
  "acceptances_of db delivery_id = sort_key (\<lambda>a. - bc_occurred_at a) (scalars (\<lambda>a. bc_delivery_id a = delivery_id) (acceptances db))"

definition get_delivery :: "string \<Rightarrow> string \<Rightarrow> delivery_db \<Rightarrow> delivery_error + delivery_view" where
  "get_delivery tenant_id delivery_id db =
     sum_bind (find_delivery db tenant_id delivery_id) (\<lambda>d. Inr
       \<lparr>vw_delivery = d, vw_items = items_of db delivery_id, vw_events = events_of db delivery_id, vw_proofs = proofs_of db delivery_id,
        vw_acceptances = acceptances_of db delivery_id,
        vw_corrections = sort_key (\<lambda>c. - dc_aggregate_version c) (scalars (\<lambda>c. dc_delivery_id c = delivery_id) (corrections db))\<rparr>)"

definition evidence_body :: "delivery_env \<Rightarrow> string \<Rightarrow> int \<Rightarrow> json \<Rightarrow> time option \<Rightarrow> dict" where
  "evidence_body env request_id record_version data updated_at =
     [(''schema_version'', JStr ''1.0''), (''source_system'', JStr ''xyena-demo-delivery''), (''request_id'', JStr request_id),
      (''record_version'', JInt record_version),
      (''updated_at'', JStr (iso_utc (case updated_at of Some t \<Rightarrow> t | None \<Rightarrow> denv_now env))),
      (''retrieved_at'', JStr (iso_utc (denv_now env))), (''fresh_until'', JStr (iso_utc (denv_now env + minutes 15))),
      (''data'', data), (''security_labels'', JStrList [''SYNTHETIC_DATA'', ''TENANT_SCOPED'']),
      (''source_signature_algorithm'', JStr ''hmac-sha256'')]"

definition source_envelope :: "delivery_env \<Rightarrow> string \<Rightarrow> int \<Rightarrow> json \<Rightarrow> time option \<Rightarrow> json" where
  "source_envelope env request_id record_version data updated_at =
     (let envelope = evidence_body env request_id record_version data updated_at
      in JObj (envelope @ [(''source_signature'', JStr (hmac_signature (denv_source_key env) envelope))]))"

text \<open>One claim of \<open>verify_fulfilment\<close>: the accepted lines of verified deliveries that it names.\<close>

definition line_identity :: "fulfilment_claim \<Rightarrow> string" where
  "line_identity c =
     (if filled (fk_po_line_id c) then the (fk_po_line_id c)
      else if filled (fk_invoice_line_id c) then the (fk_invoice_line_id c) else the (fk_sku c))"

definition claim_line :: "fulfilment_claim \<Rightarrow> delivery_item \<Rightarrow> bool" where
  "claim_line c i =
     (if filled (fk_po_line_id c) then Some (di_po_line_id i) = fk_po_line_id c
      else if filled (fk_invoice_line_id c) then di_invoice_line_id i = fk_invoice_line_id c
      else Some (di_sku i) = fk_sku c)"

definition supports :: "delivery_db \<Rightarrow> string \<Rightarrow> fulfilment_claim \<Rightarrow> delivery_item \<Rightarrow> delivery \<Rightarrow> bool" where
  "supports db tenant_id c i d \<longleftrightarrow> di_delivery_id i = dv_id d \<and> dv_tenant_id d = tenant_id \<and>
     dv_purchase_order_id d = fk_purchase_order_id c \<and> dv_invoice_id d = Some (fk_invoice_id c) \<and>
     dv_status d \<in> {''DELIVERED'', ''PARTIALLY_ACCEPTED''} \<and>
     (\<exists>p\<in>set (proofs db). po_delivery_id p = dv_id d \<and> po_verification_status p = ''VERIFIED'') \<and> claim_line c i"

definition claim_rows :: "delivery_db \<Rightarrow> string \<Rightarrow> fulfilment_claim \<Rightarrow> (delivery_item \<times> delivery) list" where
  "claim_rows db tenant_id c = filter (\<lambda>(i, d). supports db tenant_id c i d) (List.product (delivery_items db) (deliveries db))"

definition accepted_total :: "(delivery_item \<times> delivery) list \<Rightarrow> int" where
  "accepted_total rows = sum_list (map (\<lambda>(i, d). di_accepted_quantity i) rows)"

definition unit_values :: "(delivery_item \<times> delivery) list \<Rightarrow> int list" where
  "unit_values rows = remdups (map (\<lambda>(i, d). di_supported_unit_value i) rows)"

definition source_versions :: "(delivery_item \<times> delivery) list \<Rightarrow> int list" where
  "source_versions rows = sort (remdups (map (\<lambda>(i, d). dv_version d) rows))"

definition quantity_matches :: "(delivery_item \<times> delivery) list \<Rightarrow> fulfilment_claim \<Rightarrow> bool" where
  "quantity_matches rows c = dec_eq 3 (fk_claimed_quantity c) (accepted_total rows)"

definition value_matches :: "(delivery_item \<times> delivery) list \<Rightarrow> fulfilment_claim \<Rightarrow> bool" where
  "value_matches rows c = (case unit_values rows of [v] \<Rightarrow> dec_eq 2 (fk_claimed_unit_value c) v | _ \<Rightarrow> False)"

definition unit_value_strs :: "(delivery_item \<times> delivery) list \<Rightarrow> json" where
  "unit_value_strs rows = JStrList (sort (map (units_str 2) (unit_values rows)))"

definition claim_errors :: "(delivery_item \<times> delivery) list \<Rightarrow> fulfilment_claim \<Rightarrow> json list" where
  "claim_errors rows c =
     (if quantity_matches rows c then []
      else [JObj [(''code'', JStr ''QUANTITY_MISMATCH''), (''supported'', JStr (units_str 3 (accepted_total rows)))]]) @
     (if value_matches rows c then [] else [JObj [(''code'', JStr ''VALUE_MISMATCH''), (''supported'', unit_value_strs rows)]])"

definition claim_result :: "(delivery_item \<times> delivery) list \<Rightarrow> fulfilment_claim \<Rightarrow> dict" where
  "claim_result rows c =
     [(''purchase_order_id'', JStr (fk_purchase_order_id c)), (''invoice_id'', JStr (fk_invoice_id c)),
      (''line_identity'', JStr (line_identity c)), (''claimed_quantity'', JStr (decimal_str (fk_claimed_quantity c))),
      (''accepted_quantity'', JStr (units_str 3 (accepted_total rows))),
      (''claimed_unit_value'', JStr (decimal_str (fk_claimed_unit_value c))),
      (''supported_unit_values'', unit_value_strs rows), (''source_versions'', JList (map JInt (source_versions rows)))]"

record fulfilment =
  fu_matches :: "dict list"
  fu_unmatched :: "dict list"
  fu_contradictions :: "dict list"
  fu_record_version :: int

definition check_claim :: "delivery_db \<Rightarrow> string \<Rightarrow> fulfilment_claim \<Rightarrow> fulfilment \<Rightarrow> fulfilment" where
  "check_claim db tenant_id c r =
     (let rows = claim_rows db tenant_id c in
      if rows = [] then r\<lparr>fu_unmatched := fu_unmatched r @ [[(''line_identity'', JStr (line_identity c)),
             (''reason'', JStr ''No accepted delivery line matched all invoice and PO identities.'')]]\<rparr>
      else
        let r' = r\<lparr>fu_record_version := fold max (source_versions rows) (fu_record_version r)\<rparr>; errors = claim_errors rows c in
        if errors = [] then r'\<lparr>fu_matches := fu_matches r @ [claim_result rows c]\<rparr>
        else r'\<lparr>fu_contradictions := fu_contradictions r @ [claim_result rows c @ [(''errors'', JList errors)]]\<rparr>)"

definition verify_fulfilment :: "string \<Rightarrow> fulfilment_claim list \<Rightarrow> delivery_db \<Rightarrow> fulfilment" where
  "verify_fulfilment tenant_id claims db =
     fold (check_claim db tenant_id) claims \<lparr>fu_matches = [], fu_unmatched = [], fu_contradictions = [], fu_record_version = 0\<rparr>"

section \<open>Dashboard and lists\<close>

definition delayed_days :: "delivery_env \<Rightarrow> delivery \<Rightarrow> int option" where
  "delayed_days env d =
     (if dv_status d \<in> {''DISPATCHED'', ''IN_TRANSIT'', ''OUT_FOR_DELIVERY''}
      then map_option (\<lambda>day. denv_now env div days 1 - day) (dv_expected_delivery_date d) else None)"

definition aged :: "delivery_env \<Rightarrow> (int \<Rightarrow> bool) \<Rightarrow> delivery list \<Rightarrow> json" where
  "aged env p ds = JInt (int (length (filter (\<lambda>d. case delayed_days env d of Some n \<Rightarrow> p n | None \<Rightarrow> False) ds)))"

definition delivery_dashboard :: "delivery_env \<Rightarrow> string \<Rightarrow> delivery_db \<Rightarrow> dict" where
  "delivery_dashboard env tenant_id db =
     (let ds = scalars (\<lambda>d. dv_tenant_id d = tenant_id) (deliveries db);
          audits = take 10 (sort_key (\<lambda>a. - da_occurred_at a) (scalars (\<lambda>a. da_tenant_id a = tenant_id) (delivery_audits db)));
          total = (\<lambda>f. JStr (if ds = [] then ''0'' else units_str 2 (sum_list (map f ds)))) in
      [(''counts'', JObj (map (\<lambda>(s, n). (s, JInt n)) (foldl count_status [] (map dv_status ds)))),
       (''total_accepted_value'', total dv_verified_delivered_value), (''total_declared_value'', total dv_declared_value),
       (''aging_report'', JObj [(''1_day'', aged env (\<lambda>n. 1 \<le> n \<and> n < 3) ds), (''3_days'', aged env (\<lambda>n. 3 \<le> n \<and> n < 5) ds),
          (''5_plus_days'', aged env (\<lambda>n. 5 \<le> n) ds)]),
       (''alerts'', JList (map (\<lambda>d. JObj [(''delivery_id'', JStr (dv_id d)), (''delivery_number'', JStr (dv_delivery_number d)),
          (''type'', JOpt (dv_exception_code d))]) (filter (\<lambda>d. filled (dv_exception_code d)) ds))),
       (''recent_audit_trail'', JList (map (\<lambda>a. JObj [(''id'', JStr (da_id a)), (''event_type'', JStr (da_event_type a)),
          (''aggregate_id'', JStr (da_aggregate_id a)), (''actor_id'', JStr (da_actor_id a)),
          (''occurred_at'', JStr (iso_utc (da_occurred_at a)))]) audits))])"

definition list_deliveries :: "string \<Rightarrow> string option \<Rightarrow> string option \<Rightarrow> delivery_db \<Rightarrow> delivery list" where
  "list_deliveries tenant_id search status db =
     sort_key (\<lambda>d. - dv_created_at d) (scalars (\<lambda>d. dv_tenant_id d = tenant_id \<and>
       (filled search \<longrightarrow> sql_contains (the search) (dv_delivery_number d) \<or> sql_contains (the search) (dv_purchase_order_id d) \<or>
          (case dv_invoice_number d of Some n \<Rightarrow> sql_contains (the search) n | None \<Rightarrow> False)) \<and>
       (filled status \<longrightarrow> dv_status d = the status)) (deliveries db))"

end
