(* ===== verification/DeliveryApp.thy ===== *)
theory DeliveryApp
  imports DeliveryReads
begin

text \<open>
  The front doors of the delivery service: the role tokens (auth.py), the HTTP routes (main.py),
  the route for signed events, and the MCP tools (mcp.py) behind the bearer token and the signed
  runtime scope (security.py). \<open>delivery_step\<close> serves one request in one session. A workflow
  route answers with the row the service returned; how it prints the row is left out, as are the
  health checks, the metrics, the event stream and the static pages, which change nothing.
\<close>

section \<open>Roles\<close>

definition delivery_demo_tenant :: string where
  "delivery_demo_tenant = ''00000000-0000-4000-8000-000000000101''"

definition token_entries :: "(string \<times> string) list" where
  "token_entries =
     [(''demo_viewer'', ''DEMO_VIEWER''), (''seller_operator'', ''SELLER_OPERATOR''), (''carrier_operator'', ''CARRIER_OPERATOR''),
      (''buyer_receiver'', ''BUYER_RECEIVER''), (''delivery_reviewer'', ''DELIVERY_REVIEWER''), (''delivery_admin'', ''DEMO_ADMIN'')]"

text \<open>\<open>denv_tokens\<close> holds the six secrets in this order; of equal secrets the last entry counts.\<close>

definition token_map :: "delivery_env \<Rightarrow> string \<Rightarrow> actor_scope option" where
  "token_map env token =
     map_option (\<lambda>(actor_id, role). \<lparr>ac_tenant = delivery_demo_tenant, ac_actor = actor_id, ac_role = role\<rparr>)
       (map_of (rev (zip (denv_tokens env) token_entries)) token)"

definition authenticate_token :: "delivery_env \<Rightarrow> string option \<Rightarrow> delivery_error + actor_scope" where
  "authenticate_token env token =
     found (DeliveryHTTPError 401 ''A valid delivery demo role token is required.'')
       (token_map env (case token of Some t \<Rightarrow> t | None \<Rightarrow> []))"

definition require_roles :: "delivery_env \<Rightarrow> string list \<Rightarrow> string option \<Rightarrow> delivery_error + actor_scope" where
  "require_roles env allowed_roles token =
     sum_bind (authenticate_token env token) (\<lambda>scope.
     if ac_role scope \<notin> set allowed_roles
     then Inl (DeliveryHTTPError 403 (''This operation requires one of: '' @ join '', '' allowed_roles @ ''.''))
     else Inr scope)"

definition strip_chars :: "string \<Rightarrow> string \<Rightarrow> string" where
  "strip_chars cs s = rev (dropWhile (\<lambda>c. c \<in> set cs) (rev (dropWhile (\<lambda>c. c \<in> set cs) s)))"

definition if_match :: "string \<Rightarrow> delivery_error + int" where
  "if_match header =
     (let s = strip_chars [CHR 0x22] (strip_chars ''W/'' (py_strip header));
          refused = Inl (DeliveryHTTPError 400 ''If-Match must contain a positive delivery version.'') in
      if s = [] \<or> \<not> list_all py_isdigit s then refused
      else if \<not> list_all is_digit s then Inl DeliveryValueError
      else if str_nat s < 1 then refused else Inr (int (str_nat s)))"

section \<open>Routes\<close>

datatype delivery_route =
    DashboardPage
  | ListPage "string option" "string option"
  | DeliveryPage string
  | CreateDelivery delivery_create
  | MarkReady string string
  | Dispatch string string dispatch_request
  | Transit string string transit_request
  | Attempt string string attempt_request
  | CaptureProof string string proof_request
  | ReviewProof string string string bool "string option"
  | Acceptance string string acceptance_request
  | Cancel string string string
  | ProposeCorrection string string correction_request
  | ReviewCorrection string string bool "string option"

datatype delivery_answer =
    EvidenceAnswer json
  | DashboardAnswer dict
  | ListAnswer "delivery list"
  | ViewAnswer delivery_view
  | DeliveryAnswer delivery
  | ProofAnswer proof_of_delivery
  | CorrectionAnswer delivery_correction
  | EventAnswer string string

definition read_roles :: "string list" where
  "read_roles = map snd token_entries"

fun route_roles :: "delivery_route \<Rightarrow> string list" where
  "route_roles DashboardPage = read_roles"
| "route_roles (ListPage _ _) = read_roles"
| "route_roles (DeliveryPage _) = read_roles"
| "route_roles (CreateDelivery _) = [''SELLER_OPERATOR'', ''DEMO_ADMIN'']"
| "route_roles (MarkReady _ _) = [''SELLER_OPERATOR'', ''DEMO_ADMIN'']"
| "route_roles (Dispatch _ _ _) = [''SELLER_OPERATOR'', ''DEMO_ADMIN'']"
| "route_roles (Transit _ _ _) = [''CARRIER_OPERATOR'', ''DEMO_ADMIN'']"
| "route_roles (Attempt _ _ _) = [''CARRIER_OPERATOR'', ''DEMO_ADMIN'']"
| "route_roles (CaptureProof _ _ _) = [''CARRIER_OPERATOR'', ''DEMO_ADMIN'']"
| "route_roles (ReviewProof _ _ _ _ _) = [''DELIVERY_REVIEWER'']"
| "route_roles (Acceptance _ _ _) = [''BUYER_RECEIVER'', ''DEMO_ADMIN'']"
| "route_roles (Cancel _ _ _) = [''SELLER_OPERATOR'', ''DELIVERY_REVIEWER'']"
| "route_roles (ProposeCorrection _ _ _) = [''SELLER_OPERATOR'', ''CARRIER_OPERATOR'', ''BUYER_RECEIVER'']"
| "route_roles (ReviewCorrection _ _ _ _) = [''DELIVERY_REVIEWER'']"

definition answering :: "('a \<Rightarrow> delivery_answer) \<Rightarrow> 'a delivery_op \<Rightarrow> delivery_answer delivery_op" where
  "answering f body db = sum_bind (body db) (\<lambda>(db', x). Inr (db', f x))"

text \<open>A workflow route: the validated body, the version of the \<open>If-Match\<close> header, the operation.\<close>

definition workflow :: "('a \<Rightarrow> delivery_answer) \<Rightarrow> string \<Rightarrow> delivery_error + 'b \<Rightarrow> (int \<Rightarrow> 'b \<Rightarrow> 'a delivery_op) \<Rightarrow> delivery_answer delivery_op" where
  "workflow f header body op db =
     sum_bind body (\<lambda>b. sum_bind (if_match header) (\<lambda>version. answering f (op version b) db))"

fun delivery_route_op :: "delivery_env \<Rightarrow> actor_scope \<Rightarrow> delivery_route \<Rightarrow> delivery_answer delivery_op" where
  "delivery_route_op env a DashboardPage db = Inr (db, DashboardAnswer (delivery_dashboard env (ac_tenant a) db))"
| "delivery_route_op env a (ListPage search status) db = Inr (db, ListAnswer (list_deliveries (ac_tenant a) search status db))"
| "delivery_route_op env a (DeliveryPage i) db = sum_bind (get_delivery (ac_tenant a) i db) (\<lambda>v. Inr (db, ViewAnswer v))"
| "delivery_route_op env a (CreateDelivery b) db =
     sum_bind (valid_delivery b) (\<lambda>body. answering DeliveryAnswer (create_delivery env a body) db)"
| "delivery_route_op env a (MarkReady i h) db = workflow DeliveryAnswer h (Inr ()) (\<lambda>v _. mark_ready env a i v) db"
| "delivery_route_op env a (Dispatch i h b) db = workflow DeliveryAnswer h (valid_dispatch b) (dispatch_delivery env a i) db"
| "delivery_route_op env a (Transit i h b) db = workflow DeliveryAnswer h (valid_transit b) (record_transit_event env a i) db"
| "delivery_route_op env a (Attempt i h b) db = workflow DeliveryAnswer h (valid_attempt b) (record_delivery_attempt env a i) db"
| "delivery_route_op env a (CaptureProof i h b) db = workflow ProofAnswer h (valid_proof b) (capture_pod env a i) db"
| "delivery_route_op env a (ReviewProof i p h verified reason) db =
     workflow DeliveryAnswer h (valid_proof_review verified reason) (\<lambda>v r. verify_pod env a i p v verified r) db"
| "delivery_route_op env a (Acceptance i h b) db = workflow DeliveryAnswer h (valid_acceptance b) (record_buyer_acceptance env a i) db"
| "delivery_route_op env a (Cancel i h reason) db = workflow DeliveryAnswer h (valid_reason reason) (cancel_delivery env a i) db"
| "delivery_route_op env a (ProposeCorrection i h b) db = workflow CorrectionAnswer h (valid_correction b) (propose_correction env a i) db"
| "delivery_route_op env a (ReviewCorrection i h approve reason) db =
     workflow DeliveryAnswer h (valid_review_reason reason) (\<lambda>v r. review_correction env a i v approve r) db"

section \<open>Tools\<close>

definition delivery_verify_runtime_scope :: "string \<Rightarrow> dict \<Rightarrow> string \<Rightarrow> scope_error + runtime_scope" where
  "delivery_verify_runtime_scope secret meta expected_tool =
     (case verified_envelope ''Unsupported runtime scope signature algorithm.''
         ''Xyena runtime scope signature is invalid.'' secret meta of
        Inl e \<Rightarrow> Inl e
      | Inr envelope \<Rightarrow>
          if \<not> has_fields scope_fields envelope
          then Inl (SecurityError ''Xyena runtime scope is incomplete.'')
          else if dict_get envelope ''canonical_name'' \<noteq> JStr expected_tool
          then Inl (SecurityError ''Runtime scope tool name does not match this handler.'')
          else if py_strip (py_str (dict_get envelope ''purpose'')) = []
          then Inl (SecurityError ''A signed purpose is required.'')
          else Inr (make_scope envelope))"

datatype delivery_tool =
    DeliveriesGet string
  | FindByInvoice "string option" "string option" "string option"
  | FindByPo string
  | EventsList string
  | ProofsGet string
  | AcceptanceGet string
  | FulfilmentVerify "fulfilment_claim list"

fun delivery_tool_name :: "delivery_tool \<Rightarrow> string" where
  "delivery_tool_name (DeliveriesGet _) = ''deliveries.get''"
| "delivery_tool_name (FindByInvoice _ _ _) = ''deliveries.find_by_invoice''"
| "delivery_tool_name (FindByPo _) = ''deliveries.find_by_po''"
| "delivery_tool_name (EventsList _) = ''events.list''"
| "delivery_tool_name (ProofsGet _) = ''proofs.get''"
| "delivery_tool_name (AcceptanceGet _) = ''acceptance.get''"
| "delivery_tool_name (FulfilmentVerify _) = ''fulfilment.verify''"

definition delivery_dict :: "delivery \<Rightarrow> json" where
  "delivery_dict d = JObj
     [(''id'', JStr (dv_id d)), (''delivery_number'', JStr (dv_delivery_number d)), (''purchase_order_id'', JStr (dv_purchase_order_id d)),
      (''invoice_id'', JOpt (dv_invoice_id d)), (''invoice_number'', JOpt (dv_invoice_number d)),
      (''seller_business_id'', JStr (dv_seller_business_id d)), (''buyer_id'', JStr (dv_buyer_id d)), (''carrier_id'', JOpt (dv_carrier_id d)),
      (''tracking_number'', JOpt (dv_tracking_number d)), (''status'', JStr (dv_status d)),
      (''declared_value'', JStr (units_str 2 (dv_declared_value d))),
      (''verified_delivered_value'', JStr (units_str 2 (dv_verified_delivered_value d))),
      (''exception_code'', JOpt (dv_exception_code d)), (''version'', JInt (dv_version d))]"

definition item_dict :: "delivery_item \<Rightarrow> json" where
  "item_dict i = JObj
     [(''po_line_id'', JStr (di_po_line_id i)), (''invoice_line_id'', JOpt (di_invoice_line_id i)), (''sku'', JStr (di_sku i)),
      (''unit'', JStr (di_unit i)), (''ordered_quantity'', JStr (units_str 3 (di_ordered_quantity i))),
      (''dispatched_quantity'', JStr (units_str 3 (di_dispatched_quantity i))),
      (''delivered_quantity'', JStr (units_str 3 (di_delivered_quantity i))),
      (''accepted_quantity'', JStr (units_str 3 (di_accepted_quantity i))),
      (''rejected_quantity'', JStr (units_str 3 (di_rejected_quantity i))),
      (''supported_unit_value'', JStr (units_str 2 (di_supported_unit_value i))), (''version'', JInt (di_version i))]"

definition event_dict :: "delivery_event \<Rightarrow> json" where
  "event_dict e = JObj
     [(''id'', JStr (dn_id e)), (''event_type'', JStr (dn_event_type e)), (''occurred_at'', JStr (iso_utc (dn_occurred_at e))),
      (''actor'', JStr (dn_actor e)), (''location'', case dn_location e of Some a \<Rightarrow> JObj a | None \<Rightarrow> JNull), (''notes'', JOpt (dn_notes e)),
      (''prior_status'', JOpt (dn_prior_status e)), (''new_status'', JStr (dn_new_status e)), (''version'', JInt (dn_version e))]"

definition proof_dict :: "proof_of_delivery \<Rightarrow> json" where
  "proof_dict p = JObj
     [(''id'', JStr (po_id p)), (''proof_type'', JStr (po_proof_type p)), (''content_hash'', JStr (po_content_hash p)),
      (''mime_type'', JStr (po_mime_type p)), (''captured_at'', JStr (iso_utc (po_captured_at p))),
      (''verification_status'', JStr (po_verification_status p)), (''verification_method'', JOpt (po_verification_method p)),
      (''security_flags'', JStrList (po_security_flags p))]"

definition acceptance_dict :: "buyer_acceptance \<Rightarrow> json" where
  "acceptance_dict a = JObj
     [(''id'', JStr (bc_id a)), (''buyer_identity'', JStr (bc_buyer_identity a)), (''status'', JStr (bc_status a)),
      (''accepted_value'', JStr (units_str 2 (bc_accepted_value a))), (''occurred_at'', JStr (iso_utc (bc_occurred_at a))),
      (''reason'', JOpt (bc_reason a)), (''items'', bc_item_level_acceptance a), (''source_hash'', JStr (bc_source_hash a))]"

definition not_found_answer :: json where
  "not_found_answer = JObj [(''status'', JStr ''NOT_FOUND''), (''message'', JStr ''Delivery not found.'')]"

definition success :: "dict \<Rightarrow> json" where
  "success d = JObj ((''status'', JStr ''SUCCESS'') # d)"

text \<open>A tool on one delivery of the tenant: its answer is signed with the delivery's version and time.\<close>

definition delivery_evidence :: "delivery_env \<Rightarrow> runtime_scope \<Rightarrow> delivery_db \<Rightarrow> string \<Rightarrow> (delivery \<Rightarrow> json) \<Rightarrow> json" where
  "delivery_evidence env scope db delivery_id data =
     (case scalar (\<lambda>d. dv_id d = delivery_id \<and> dv_tenant_id d = sc_tenant_id scope) (deliveries db) of
        None \<Rightarrow> not_found_answer
      | Some d \<Rightarrow> source_envelope env (sc_call_id scope) (dv_version d) (data d) (Some (dv_updated_at d)))"

definition deliveries_evidence :: "delivery_env \<Rightarrow> runtime_scope \<Rightarrow> delivery_db \<Rightarrow> (delivery \<Rightarrow> bool) \<Rightarrow> json" where
  "deliveries_evidence env scope db p =
     (let ds = scalars (\<lambda>d. dv_tenant_id d = sc_tenant_id scope \<and> p d) (deliveries db);
          version = (case map dv_version ds of [] \<Rightarrow> 0 | v # vs \<Rightarrow> fold max vs v)
      in source_envelope env (sc_call_id scope) version (success [(''deliveries'', JList (map delivery_dict ds))]) None)"

fun delivery_tool_answer :: "delivery_env \<Rightarrow> runtime_scope \<Rightarrow> delivery_tool \<Rightarrow> delivery_db \<Rightarrow> delivery_error + json" where
  "delivery_tool_answer env scope (DeliveriesGet i) db = Inr (delivery_evidence env scope db i (\<lambda>d.
     success [(''delivery'', delivery_dict d), (''items'', JList (map item_dict (items_of db i)))]))"
| "delivery_tool_answer env scope (FindByInvoice invoice_id seller_id invoice_number) db =
     Inr (if \<not> filled invoice_id \<and> \<not> (filled seller_id \<and> filled invoice_number)
          then source_envelope env (sc_call_id scope) 0 (JObj [(''status'', JStr ''INVALID_REQUEST''),
                 (''message'', JStr ''Use invoice_id, or seller_id with invoice_number.'')]) None
          else if filled invoice_id then deliveries_evidence env scope db (\<lambda>d. dv_invoice_id d = invoice_id)
          else deliveries_evidence env scope db (\<lambda>d. Some (dv_seller_business_id d) = seller_id \<and> dv_invoice_number d = invoice_number))"
| "delivery_tool_answer env scope (FindByPo purchase_order_id) db =
     Inr (deliveries_evidence env scope db (\<lambda>d. dv_purchase_order_id d = purchase_order_id))"
| "delivery_tool_answer env scope (EventsList i) db = Inr (delivery_evidence env scope db i (\<lambda>d.
     success [(''delivery_id'', JStr (dv_id d)), (''events'', JList (map event_dict (events_of db i)))]))"
| "delivery_tool_answer env scope (ProofsGet i) db = Inr (delivery_evidence env scope db i (\<lambda>d.
     success [(''delivery_id'', JStr (dv_id d)), (''proofs'', JList (map proof_dict (proofs_of db i)))]))"
| "delivery_tool_answer env scope (AcceptanceGet i) db = Inr (delivery_evidence env scope db i (\<lambda>d.
     case acceptances_of db i of
       [] \<Rightarrow> JObj [(''status'', JStr ''PENDING''), (''delivery_id'', JStr (dv_id d))]
     | a # _ \<Rightarrow> success [(''delivery_id'', JStr (dv_id d)), (''acceptance'', acceptance_dict a)]))"
| "delivery_tool_answer env scope (FulfilmentVerify claims) db =
     sum_bind (sum_map valid_claim claims) (\<lambda>cs.
       let r = verify_fulfilment (sc_tenant_id scope) cs db
       in Inr (source_envelope env (sc_call_id scope) (fu_record_version r)
            (success [(''matches'', JList (map JObj (fu_matches r))), (''unmatched_lines'', JList (map JObj (fu_unmatched r))),
               (''contradiction_lines'', JList (map JObj (fu_contradictions r)))]) None))"

section \<open>One request\<close>

definition delivery_digest_equal :: "string \<Rightarrow> string \<Rightarrow> delivery_error + bool" where
  "delivery_digest_equal a b =
     (if list_all (\<lambda>c. of_char c < (128::nat)) (a @ b) then Inr (a = b) else Inl DeliveryTypeError)"

definition delivery_bearer :: "string \<Rightarrow> string \<Rightarrow> delivery_error + unit" where
  "delivery_bearer expected authorization =
     (let scheme = takeWhile (\<lambda>c. c \<noteq> CHR '' '') authorization;
          supplied = tl (dropWhile (\<lambda>c. c \<noteq> CHR '' '') authorization);
          refused = Inl (DeliveryHTTPError 401 ''Invalid delivery MCP token.'')
      in if py_lower scheme \<noteq> ''bearer'' then refused
         else sum_bind (delivery_digest_equal supplied expected) (\<lambda>ok. if ok then Inr () else refused))"

text \<open>The body \<open>raw\<close> of an event is given by its bytes, with the event that pydantic parses from them.\<close>

definition receive_event :: "delivery_env \<Rightarrow> delivery_envelope \<Rightarrow> nat list \<Rightarrow> string \<Rightarrow> delivery_answer delivery_op" where
  "receive_event env event raw signature db =
     sum_bind (delivery_digest_equal signature (hexdigest (hmac_sha256 (utf8 (denv_event_key env)) raw))) (\<lambda>ok.
     if \<not> ok then Inl (DeliveryHTTPError 401 ''Invalid event signature.'')
     else sum_bind (valid_envelope event) (\<lambda>e.
       answering (\<lambda>status. EventAnswer status (en_event_id e)) (consume_source_event env e (hexdigest (sha256_bytes raw))) db))"

datatype delivery_request =
    DeliveryRoute "string option" delivery_route
  | DeliveryTool string dict delivery_tool
  | DeliveryInbox delivery_envelope "nat list" string

fun delivery_op :: "delivery_env \<Rightarrow> delivery_request \<Rightarrow> delivery_answer delivery_op" where
  "delivery_op env (DeliveryRoute token route) db =
     sum_bind (require_roles env (route_roles route) token) (\<lambda>actor. delivery_route_op env actor route db)"
| "delivery_op env (DeliveryTool authorization meta tool) db =
     sum_bind (delivery_bearer (denv_mcp_token env) authorization) (\<lambda>_.
     case delivery_verify_runtime_scope (denv_mcp_token env) meta (''delivery.'' @ delivery_tool_name tool) of
       Inl e \<Rightarrow> Inl (DeliveryScopeError e)
     | Inr scope \<Rightarrow> sum_bind (delivery_tool_answer env scope tool db) (\<lambda>v. Inr (db, EvidenceAnswer v)))"
| "delivery_op env (DeliveryInbox event raw signature) db = receive_event env event raw signature db"

definition delivery_session :: "delivery_answer delivery_op \<Rightarrow> delivery_db \<Rightarrow> delivery_db \<times> (delivery_error + delivery_answer)" where
  "delivery_session = session delivery_constraints DeliveryIntegrityError"

fun delivery_step :: "delivery_env \<times> delivery_request \<Rightarrow> delivery_db \<Rightarrow> delivery_db \<times> (delivery_error + delivery_answer)" where
  "delivery_step (env, request) db = delivery_session (delivery_op env request) db"

definition empty_delivery :: delivery_db where
  "empty_delivery = \<lparr>deliveries = [], delivery_items = [], delivery_events = [], proofs = [], acceptances = [], corrections = [],
     delivery_audits = [], delivery_outboxes = [], delivery_inboxes = [], external_versions = []\<rparr>"

end
