(* ===== verification/DeliveryInvariant.thy ===== *)
theory DeliveryInvariant
  imports DeliveryApp
begin

text \<open>
  The invariant of the delivery service. Of every item no more is accepted and rejected than was
  delivered, no more delivered than dispatched, no more dispatched than ordered; the verified
  value of a delivery is the value of its accepted quantities; and only a delivery with
  independently verified proof is accepted. Each operation changes one delivery (\<open>commit_step\<close>);
  \<open>commit_sound\<close> reduces its proof to the changed row.
\<close>

section \<open>Values\<close>

lemma div_half_even_0 [simp]: "0 < b \<Longrightarrow> div_half_even 0 b = 0"
  by (simp add: div_half_even_def Let_def)

lemma div_half_even_bounds: "a div b \<le> div_half_even a b" "div_half_even a b \<le> a div b + 1"
  by (auto simp: div_half_even_def Let_def)

lemma div_half_even_mono:
  assumes "a \<le> a'"
  shows "div_half_even a b \<le> div_half_even a' b"
proof (cases "a div b < a' div b")
  case True
  then show ?thesis using div_half_even_bounds [of a b] div_half_even_bounds [of a' b] by linarith
next
  case False
  then have q: "a div b = a' div b" using div_le_mono [OF assms, of b] by simp
  have "a div b * b + a mod b \<le> a' div b * b + a' mod b" using assms by simp
  then have "a mod b \<le> a' mod b" by (simp only: q add_le_cancel_left)
  then show ?thesis using q by (auto simp: div_half_even_def Let_def)
qed

lemma line_value_mono:
  assumes "list_all2 (\<lambda>(q, v) (q', v'). v = v' \<and> 0 \<le> v \<and> q \<le> q') xs ys"
  shows "line_value xs \<le> line_value ys"
proof -
  from assms have "sum_list (map (\<lambda>(q, v). q * v) xs) \<le> sum_list (map (\<lambda>(q, v). q * v) ys)"
    by (induction rule: list_all2_induct) (auto intro: add_mono mult_right_mono)
  then show ?thesis by (auto simp: line_value_def intro!: div_half_even_mono nat_mono)
qed

lemma dec_eq_numeric:
  assumes "dec_eq s d n" "0 \<le> n"
  shows "numeric s d = n"
proof -
  have "numeric s d = round_away (n * dec_den s d + 0) (dec_den s d)" using assms(1) by (simp add: numeric_def dec_eq_def)
  also have "\<dots> = n + round_away 0 (dec_den s d)" using assms(2) by (intro round_away_shift) auto
  also have "round_away 0 (dec_den s d) = 0" using dec_den_pos [of s d] by (simp add: round_away_def div_pos_pos_trivial)
  finally show ?thesis by simp
qed

lemma dec_num_nonneg: "0 \<le> dec_num 0 d \<Longrightarrow> 0 \<le> dec_num s d"
  by (auto simp: dec_num_def Let_def mult_le_0_iff power_le_zero_eq split: decimal.splits if_splits)

section \<open>The invariant\<close>

definition open_statuses :: "string set" where
  "open_statuses = {''CREATED'', ''READY_TO_DISPATCH'', ''DISPATCHED'', ''IN_TRANSIT'', ''OUT_FOR_DELIVERY'', ''DELIVERY_FAILED''}"

definition item_sound :: "string \<Rightarrow> delivery_item \<Rightarrow> bool" where
  "item_sound status i \<longleftrightarrow>
     0 \<le> di_supported_unit_value i \<and> 0 \<le> di_accepted_quantity i \<and> 0 \<le> di_rejected_quantity i \<and>
     di_accepted_quantity i + di_rejected_quantity i \<le> di_delivered_quantity i \<and>
     di_delivered_quantity i \<le> di_dispatched_quantity i \<and> di_dispatched_quantity i \<le> di_ordered_quantity i \<and>
     (status \<in> open_statuses \<longrightarrow> di_delivered_quantity i = 0) \<and>
     (status \<notin> {''DELIVERED'', ''PARTIALLY_ACCEPTED''} \<longrightarrow> di_accepted_quantity i = 0)"

definition verified_proof :: "delivery_db \<Rightarrow> string \<Rightarrow> bool" where
  "verified_proof db delivery_id \<longleftrightarrow>
     (\<exists>p\<in>set (proofs db). po_delivery_id p = delivery_id \<and> po_verification_status p = ''VERIFIED'')"

definition delivery_sound :: "delivery_db \<Rightarrow> delivery \<Rightarrow> bool" where
  "delivery_sound db d \<longleftrightarrow>
     (let items = items_of db (dv_id d) in
      list_all (item_sound (dv_status d)) items \<and>
      dv_declared_value d = line_value (map (\<lambda>i. (di_ordered_quantity i, di_supported_unit_value i)) items) \<and>
      dv_verified_delivered_value d = accepted_value items \<and>
      (dv_status d \<in> {''DELIVERED'', ''PARTIALLY_ACCEPTED''} \<longrightarrow> verified_proof db (dv_id d)))"

definition proof_sound :: "proof_of_delivery \<Rightarrow> bool" where
  "proof_sound p \<longleftrightarrow> (po_verification_status p = ''VERIFIED'' \<longrightarrow> po_verifier p = Some ''delivery_reviewer'')"

definition delivery_inv :: "delivery_db \<Rightarrow> bool" where
  "delivery_inv db \<longleftrightarrow> delivery_constraints db \<and> list_all (delivery_sound db) (deliveries db) \<and> list_all proof_sound (proofs db)"


lemma inv_row:
  "delivery_inv db \<Longrightarrow> d \<in> set (deliveries db) \<Longrightarrow> delivery_sound db d"
  by (auto simp: delivery_inv_def list_all_iff)

lemma inv_keys: "delivery_inv db \<Longrightarrow> unique_by (Some \<circ> dv_id) (deliveries db)"
  by (simp add: delivery_inv_def delivery_constraints_def)

section \<open>One changed delivery\<close>

lemma commit_step_tables [simp]:
  "deliveries (commit_step env k actor ev n d d' db) = update_rows (\<lambda>x. dv_id x = dv_id d') (\<lambda>_. d') (deliveries db)"
  "delivery_items (commit_step env k actor ev n d d' db) = delivery_items db"
  "proofs (commit_step env k actor ev n d d' db) = proofs db"
  by (simp_all add: commit_step_def delivery_record_def delivery_timeline_def store_delivery_def Let_def)

lemma items_of_commit [simp]: "items_of (commit_step env k actor ev n d d' db) j = items_of db j"
  by (simp add: items_of_def)

lemma verified_commit [simp]: "verified_proof (commit_step env k actor ev n d d' db) j = verified_proof db j"
  by (simp add: verified_proof_def)

lemma sound_commit [simp]: "delivery_sound (commit_step env k actor ev n d d' db) x = delivery_sound db x"
  by (simp add: delivery_sound_def)

text \<open>What every operation shows: the new rows are sound; the session checks the constraints.\<close>

definition rows_sound :: "delivery_db \<Rightarrow> bool" where
  "rows_sound db \<longleftrightarrow> list_all (delivery_sound db) (deliveries db) \<and> list_all proof_sound (proofs db)"

lemma inv_rows: "delivery_inv db \<Longrightarrow> rows_sound db"
  by (simp add: delivery_inv_def rows_sound_def)

lemma sound_other:
  assumes "delivery_sound db x" "items_of db1 (dv_id x) = items_of db (dv_id x)"
    and "verified_proof db (dv_id x) \<Longrightarrow> verified_proof db1 (dv_id x)"
  shows "delivery_sound db1 x"
  using assms by (auto simp: delivery_sound_def Let_def)

lemma commit_sound:
  assumes rows: "rows_sound db" and same: "deliveries db1 = deliveries db" and id: "dv_id d' = dv_id d"
    and others: "\<And>j. j \<noteq> dv_id d \<Longrightarrow> items_of db1 j = items_of db j"
    and verified: "\<And>j. verified_proof db j \<Longrightarrow> verified_proof db1 j"
    and proofs: "list_all proof_sound (proofs db1)" and new: "delivery_sound db1 d'"
  shows "rows_sound (commit_step env k actor ev n d d' db1)"
proof -
  have "delivery_sound db1 x" if "x \<in> set (deliveries db)" "dv_id x \<noteq> dv_id d'" for x
  proof (rule sound_other [of db])
    show "delivery_sound db x" using rows that(1) by (auto simp: rows_sound_def list_all_iff)
  qed (use that id others verified in auto)
  then show ?thesis using new proofs same by (auto simp: rows_sound_def list_all_iff set_update_rows)
qed

lemma plain_commit_sound:
  assumes "rows_sound db" "dv_id d' = dv_id d" "delivery_sound db d'"
  shows "rows_sound (commit_step env k actor ev n d d' db)"
  using assms by (intro commit_sound [of db]) (auto simp: rows_sound_def)

section \<open>Operations that keep the items\<close>

lemma on_delivery_row:
  assumes "on_delivery db tenant i expected f = Inr x"
  obtains d where "d \<in> set (deliveries db)" "dv_id d = i" "f d = Inr x"
  using assms by (auto simp: on_delivery_def find_delivery_def sum_bind_Inr dest!: scalar_Some)

lemma bump_fields [simp]:
  "dv_id (bump a f d) = dv_id (f d)" "dv_status (bump a f d) = dv_status (f d)"
  "dv_declared_value (bump a f d) = dv_declared_value (f d)"
  "dv_verified_delivered_value (bump a f d) = dv_verified_delivered_value (f d)"
  by (simp_all add: bump_def)

abbreviation accepted_statuses :: "string set" where
  "accepted_statuses \<equiv> {''DELIVERED'', ''PARTIALLY_ACCEPTED''}"

lemma sound_status:
  assumes "delivery_sound db d" "dv_id d' = dv_id d" "dv_declared_value d' = dv_declared_value d"
    "dv_verified_delivered_value d' = dv_verified_delivered_value d"
    "dv_status d' \<in> open_statuses \<Longrightarrow> dv_status d \<in> open_statuses"
    "dv_status d' \<in> accepted_statuses \<longleftrightarrow> dv_status d \<in> accepted_statuses"
  shows "delivery_sound db d'"
  using assms by (auto simp: delivery_sound_def item_sound_def list_all_iff Let_def)

lemma rows_soundD: "rows_sound db \<Longrightarrow> d \<in> set (deliveries db) \<Longrightarrow> delivery_sound db d"
  by (auto simp: rows_sound_def list_all_iff)

lemma mark_ready_sound:
  assumes "mark_ready env actor i v db = Inr (db', r)" "rows_sound db"
  shows "rows_sound db'"
  using assms(1) unfolding mark_ready_def
  by (auto simp: sum_bind_Inr Let_def open_statuses_def elim!: on_delivery_row split: if_splits
      intro!: plain_commit_sound [OF assms(2)] sound_status [OF rows_soundD [OF assms(2)]])

lemma transit_target:
  assumes "map_of transit_transitions (s, ev) = Some t"
  shows "s \<in> open_statuses" "t \<in> open_statuses"
  using assms by (auto simp: transit_transitions_def open_statuses_def split: if_splits)

lemma open_accepted: "s \<in> open_statuses \<Longrightarrow> s \<notin> accepted_statuses"
  by (auto simp: open_statuses_def)

lemma record_transit_event_sound:
  assumes "record_transit_event env actor i v b db = Inr (db', r)" "rows_sound db"
  shows "rows_sound db'"
proof -
  from assms(1) obtain d t ev n where d: "d \<in> set (deliveries db)" "map_of transit_transitions (dv_status d, yq_event_type b) = Some t"
    and db': "db' = commit_step env 0 actor ev n d (bump (ac_actor actor) (\<lambda>x. x\<lparr>dv_status := t,
       dv_exception_code := (if t = ''DELIVERY_FAILED'' then Some ''DELIVERY_DELAYED'' else None)\<rparr>) d) db"
    unfolding record_transit_event_def by (auto simp: Let_def elim!: on_delivery_row split: if_splits option.splits)
  show ?thesis unfolding db' using transit_target [OF d(2)] open_accepted
    by (intro plain_commit_sound sound_status [OF rows_soundD [OF assms(2) d(1)]] assms(2)) auto
qed

lemma cancel_delivery_sound:
  assumes "cancel_delivery env actor i v reason db = Inr (db', r)" "rows_sound db"
  shows "rows_sound db'"
proof -
  from assms(1) obtain d ev n c where d: "d \<in> set (deliveries db)" "dv_status d \<notin> terminal_statuses"
    and db': "db' = commit_step env 0 actor ev n d (bump (ac_actor actor) (\<lambda>x. x\<lparr>dv_status := ''CANCELLED'', dv_exception_code := c\<rparr>) d) db"
    unfolding cancel_delivery_def by (auto simp: Let_def elim!: on_delivery_row split: if_splits)
  show ?thesis unfolding db' using d(2)
    by (intro plain_commit_sound sound_status [OF rows_soundD [OF assms(2) d(1)]] assms(2))
      (auto simp: terminal_statuses_def open_statuses_def)
qed

lemma pending_accepted: "s \<in> pending_acceptance_statuses \<Longrightarrow> s \<notin> accepted_statuses"
  by (auto simp: pending_acceptance_statuses_def)

text \<open>Steps that change proofs or corrections and no status.\<close>

lemma side_commit_sound:
  assumes rows: "rows_sound db" and d: "d \<in> set (deliveries db)" and id: "dv_id d' = dv_id d" "dv_declared_value d' = dv_declared_value d"
    "dv_verified_delivered_value d' = dv_verified_delivered_value d" "dv_status d' = dv_status d"
    and same: "deliveries db1 = deliveries db" "delivery_items db1 = delivery_items db"
    and verified: "\<And>j. verified_proof db j \<Longrightarrow> verified_proof db1 j" and proofs: "list_all proof_sound (proofs db1)"
  shows "rows_sound (commit_step env k actor ev n d d' db1)"
proof (rule commit_sound [OF rows same(1) id(1) _ verified proofs])
  have "delivery_sound db1 d"
    by (rule sound_other [OF rows_soundD [OF rows d]]) (use same verified in \<open>auto simp: items_of_def\<close>)
  then show "delivery_sound db1 d'" by (rule sound_status) (use id in auto)
qed (use same in \<open>auto simp: items_of_def\<close>)

lemma replace_proof_sound:
  assumes "list_all proof_sound ps"
  shows "list_all proof_sound (map (replace_proof i j) ps)"
    and "(\<exists>p\<in>set ps. po_delivery_id p = k \<and> po_verification_status p = ''VERIFIED'') \<Longrightarrow>
      (\<exists>p\<in>set (map (replace_proof i j) ps). po_delivery_id p = k \<and> po_verification_status p = ''VERIFIED'')"
  using assms by (auto simp: replace_proof_def proof_sound_def list_all_iff)

lemma capture_pod_sound:
  assumes "capture_pod env actor i v b db = Inr (db', r)" "rows_sound db"
  shows "rows_sound db'"
proof -
  from assms(1) obtain d n where d: "d \<in> set (deliveries db)"
    and db': "db' = commit_step env 1 actor ''delivery.proof_captured'' n d (bump (ac_actor actor) id d)
       (db\<lparr>proofs := map (replace_proof i (po_id (new_proof env i b))) (proofs db) @ [new_proof env i b]\<rparr>)"
    unfolding capture_pod_def by (auto simp: Let_def elim!: on_delivery_row split: if_splits)
  have ps: "list_all proof_sound (proofs db)" using assms(2) by (simp add: rows_sound_def)
  show ?thesis unfolding db' using replace_proof_sound [OF ps]
    by (intro side_commit_sound [OF assms(2) d]) (auto simp: verified_proof_def new_proof_def proof_sound_def)
qed

lemma propose_correction_sound:
  assumes "propose_correction env actor i v b db = Inr (db', r)" "rows_sound db"
  shows "rows_sound db'"
proof -
  from assms(1) obtain d n c where d: "d \<in> set (deliveries db)"
    and db': "db' = commit_step env 1 actor ''delivery.correction_proposed'' n d (bump (ac_actor actor) id d) (db\<lparr>corrections := c\<rparr>)"
    unfolding propose_correction_def by (auto simp: Let_def elim!: on_delivery_row split: if_splits)
  show ?thesis unfolding db'
    by (intro side_commit_sound [OF assms(2) d]) (use assms(2) in \<open>auto simp: verified_proof_def rows_sound_def\<close>)
qed

lemma set_field_keeps [simp]:
  "dv_id (set_field fv d) = dv_id d" "dv_status (set_field fv d) = dv_status d"
  "dv_declared_value (set_field fv d) = dv_declared_value d"
  "dv_verified_delivered_value (set_field fv d) = dv_verified_delivered_value d"
  by (cases fv; simp)+

lemma set_fields_keep [simp]:
  "dv_id (fold set_field fs d) = dv_id d" "dv_status (fold set_field fs d) = dv_status d"
  "dv_declared_value (fold set_field fs d) = dv_declared_value d"
  "dv_verified_delivered_value (fold set_field fs d) = dv_verified_delivered_value d"
  by (induction fs arbitrary: d) simp_all

lemma review_correction_sound:
  assumes "review_correction env actor i v approve reason db = Inr (db', r)" "rows_sound db"
  shows "rows_sound db'"
  using assms(1) assms(2) [unfolded rows_sound_def] unfolding review_correction_def
  by (auto simp: Let_def sum_bind_Inr verified_proof_def elim!: on_delivery_row split: if_splits
      intro!: side_commit_sound [OF assms(2)])

lemma review_proof_sound:
  assumes "list_all proof_sound ps" "ac_actor actor = ''delivery_reviewer''" "unique_by (Some \<circ> po_id) ps"
    "p \<in> set ps" "po_verification_status p = ''PENDING_VERIFICATION''"
  shows "list_all proof_sound (update_rows (\<lambda>x. po_id x = po_id p) (review_proof actor verified) ps)"
    and "(\<exists>x\<in>set ps. po_delivery_id x = k \<and> po_verification_status x = ''VERIFIED'') \<Longrightarrow>
      (\<exists>x\<in>set (update_rows (\<lambda>x. po_id x = po_id p) (review_proof actor verified) ps).
        po_delivery_id x = k \<and> po_verification_status x = ''VERIFIED'')"
proof -
  have only: "x = p" if "x \<in> set ps" "po_id x = po_id p" for x
    using unique_byD [OF assms(3), of x p] that assms(4) by simp
  show "list_all proof_sound (update_rows (\<lambda>x. po_id x = po_id p) (review_proof actor verified) ps)"
    using assms(1,2) by (auto simp: list_all_iff set_update_rows review_proof_def proof_sound_def)
  show "(\<exists>x\<in>set ps. po_delivery_id x = k \<and> po_verification_status x = ''VERIFIED'') \<Longrightarrow>
      (\<exists>x\<in>set (update_rows (\<lambda>x. po_id x = po_id p) (review_proof actor verified) ps).
        po_delivery_id x = k \<and> po_verification_status x = ''VERIFIED'')"
    using only assms(5) by (fastforce simp: set_update_rows)
qed

lemma verify_pod_sound:
  assumes "verify_pod env actor i pid v verified reason db = Inr (db', r)" "rows_sound db"
    and "ac_actor actor = ''delivery_reviewer''" "unique_by (Some \<circ> po_id) (proofs db)"
  shows "rows_sound db'"
proof -
  from assms(1) obtain d ev n p where d: "d \<in> set (deliveries db)"
    and p: "p \<in> set (proofs db)" "po_verification_status p = ''PENDING_VERIFICATION''"
    and db': "db' = commit_step env 0 actor ev n d (bump (ac_actor actor) id d)
       (db\<lparr>proofs := update_rows (\<lambda>x. po_id x = po_id p) (review_proof actor verified) (proofs db)\<rparr>)"
    unfolding verify_pod_def by (auto simp: Let_def elim!: on_delivery_row split: if_splits option.splits dest!: scalar_Some)
  have ps: "list_all proof_sound (proofs db)" using assms(2) by (simp add: rows_sound_def)
  show ?thesis unfolding db' using review_proof_sound [OF ps assms(3,4) p]
    by (intro side_commit_sound [OF assms(2) d]) (auto simp: verified_proof_def)
qed

section \<open>Operations that change quantities\<close>

lemma items_of_update [simp]:
  "items_of (update_items i f db) j = (if j = i then map f (items_of db i) else items_of db j)"
  if "\<And>x. di_delivery_id (f x) = di_delivery_id x"
proof -
  have "filter (\<lambda>x. di_delivery_id x = j) (update_rows (\<lambda>x. di_delivery_id x = i) f rows) =
    (if j = i then map f (filter (\<lambda>x. di_delivery_id x = i) rows) else filter (\<lambda>x. di_delivery_id x = j) rows)" for rows
    by (induction rows) (auto simp: that)
  then show ?thesis by (simp add: items_of_def update_items_def scalars_def)
qed

lemma update_items_tables [simp]:
  "deliveries (update_items i f db) = deliveries db" "proofs (update_items i f db) = proofs db"
  by (simp_all add: update_items_def)

lemma items_commit_sound:
  assumes rows: "rows_sound db" and d: "d \<in> set (deliveries db)" and id: "dv_id d' = dv_id d" "dv_declared_value d' = dv_declared_value d"
    and f: "\<And>x. di_delivery_id (f x) = di_delivery_id x" "\<And>x. di_ordered_quantity (f x) = di_ordered_quantity x"
      "\<And>x. di_supported_unit_value (f x) = di_supported_unit_value x"
    and same: "deliveries db1 = deliveries db" "proofs db1 = proofs db" "delivery_items db1 = delivery_items (update_items (dv_id d) f db)"
    and items: "\<And>i. i \<in> set (items_of db (dv_id d)) \<Longrightarrow> item_sound (dv_status d) i \<Longrightarrow> item_sound (dv_status d') (f i)"
    and verified: "dv_verified_delivered_value d' = accepted_value (map f (items_of db (dv_id d)))"
    and accepted: "dv_status d' \<in> accepted_statuses \<Longrightarrow> verified_proof db (dv_id d)"
  shows "rows_sound (commit_step env k actor ev n d d' db1)"
proof (rule commit_sound [OF rows same(1) id(1)])
  have items_of: "items_of db1 j = items_of (update_items (dv_id d) f db) j" for j by (simp add: items_of_def same(3))
  show "items_of db1 j = items_of db j" if "j \<noteq> dv_id d" for j using that f(1) by (simp add: items_of)
  show "verified_proof db1 j" if "verified_proof db j" for j using that same(2) by (simp add: verified_proof_def)
  show "list_all proof_sound (proofs db1)" using rows same(2) by (simp add: rows_sound_def)
  show "delivery_sound db1 d'"
    using rows_soundD [OF rows d] id items verified accepted same(2) f
    by (auto simp: delivery_sound_def items_of Let_def list_all_iff verified_proof_def comp_def)
qed

definition quantities_nonneg :: "quantities \<Rightarrow> bool" where
  "quantities_nonneg q \<longleftrightarrow> list_all (\<lambda>(k, d). 0 \<le> numeric 3 d) q"

lemma thousandths_nonneg: "quantities_nonneg q \<Longrightarrow> 0 \<le> thousandths q i"
  by (auto simp: thousandths_def quantity_of_def quantities_nonneg_def list_all_iff numeric_nonneg dec_num_def
      dest!: map_of_SomeD split: option.splits)

lemma item_update_keeps [simp]:
  "di_delivery_id (dispatch_item q i) = di_delivery_id i" "di_ordered_quantity (dispatch_item q i) = di_ordered_quantity i"
  "di_supported_unit_value (dispatch_item q i) = di_supported_unit_value i" "di_accepted_quantity (dispatch_item q i) = di_accepted_quantity i"
  "di_delivery_id (deliver_item q i) = di_delivery_id i" "di_ordered_quantity (deliver_item q i) = di_ordered_quantity i"
  "di_supported_unit_value (deliver_item q i) = di_supported_unit_value i" "di_accepted_quantity (deliver_item q i) = di_accepted_quantity i"
  "di_delivery_id (accept_item es i) = di_delivery_id i" "di_ordered_quantity (accept_item es i) = di_ordered_quantity i"
  "di_supported_unit_value (accept_item es i) = di_supported_unit_value i" "di_delivered_quantity (accept_item es i) = di_delivered_quantity i"
  "di_dispatched_quantity (accept_item es i) = di_dispatched_quantity i"
  by (simp_all add: dispatch_item_def deliver_item_def accept_item_def Let_def)

lemma same_accepted_value:
  "(\<And>i. di_accepted_quantity (f i) = di_accepted_quantity i) \<Longrightarrow> (\<And>i. di_supported_unit_value (f i) = di_supported_unit_value i) \<Longrightarrow>
     accepted_value (map f items) = accepted_value items"
  by (simp add: accepted_value_def comp_def)

lemma dispatch_item_sound:
  assumes "item_sound ''READY_TO_DISPATCH'' i" "0 \<le> thousandths q i" "\<not> di_ordered_quantity i < thousandths q i"
  shows "item_sound ''DISPATCHED'' (dispatch_item q i)"
  using assms by (simp add: item_sound_def dispatch_item_def open_statuses_def)

lemma dispatch_delivery_sound:
  assumes "dispatch_delivery env actor i v b db = Inr (db', r)" "rows_sound db" "quantities_nonneg (hq_item_quantities b)"
  shows "rows_sound db'"
proof -
  from assms(1) obtain d where d: "d \<in> set (deliveries db)" "dv_status d = ''READY_TO_DISPATCH''" "dv_id d = i"
    and none: "List.find (\<lambda>x. di_ordered_quantity x < thousandths (hq_item_quantities b) x) (items_of db i) = None"
    and db': "db' = commit_step env 0 actor ''delivery.dispatched'' plain_note d
      (bump (ac_actor actor) (\<lambda>x. x\<lparr>dv_carrier_id := Some (hq_carrier_id b), dv_dispatch_date := Some (denv_now env), dv_status := ''DISPATCHED''\<rparr>) d)
      (update_items i (dispatch_item (hq_item_quantities b)) db)"
    unfolding dispatch_delivery_def by (auto simp: Let_def elim!: on_delivery_row split: if_splits option.splits)
  show ?thesis unfolding db'
  proof (rule items_commit_sound [OF assms(2) d(1), where f = "dispatch_item (hq_item_quantities b)"])
    fix x assume x: "x \<in> set (items_of db (dv_id d))" "item_sound (dv_status d) x"
    with none d(2,3) show "item_sound (dv_status (bump (ac_actor actor) (\<lambda>x. x\<lparr>dv_carrier_id := Some (hq_carrier_id b),
        dv_dispatch_date := Some (denv_now env), dv_status := ''DISPATCHED''\<rparr>) d)) (dispatch_item (hq_item_quantities b) x)"
      by (auto simp: find_None_iff intro!: dispatch_item_sound thousandths_nonneg assms(3))
  qed (use rows_soundD [OF assms(2) d(1)] d(3) in \<open>auto simp: delivery_sound_def Let_def same_accepted_value\<close>)
qed

lemma deliver_item_sound:
  assumes "item_sound s i" "s \<in> open_statuses" "0 \<le> thousandths q i" "\<not> di_dispatched_quantity i < thousandths q i"
    "t \<in> pending_acceptance_statuses"
  shows "item_sound t (deliver_item q i)"
proof -
  have "t \<notin> open_statuses" using assms(5) by (auto simp: open_statuses_def pending_acceptance_statuses_def)
  with assms open_accepted [OF assms(2)] show ?thesis by (simp add: item_sound_def deliver_item_def)
qed

lemma arrive_fields [simp]:
  "dv_id (arrive now partial d) = dv_id d" "dv_declared_value (arrive now partial d) = dv_declared_value d"
  "dv_verified_delivered_value (arrive now partial d) = dv_verified_delivered_value d"
  "dv_status (arrive now partial d) \<in> pending_acceptance_statuses"
  by (simp_all add: arrive_def pending_acceptance_statuses_def)

lemma record_delivery_attempt_sound:
  assumes "record_delivery_attempt env actor i v b db = Inr (db', r)" "rows_sound db" "quantities_nonneg (kq_item_quantities b)"
  shows "rows_sound db'"
proof (cases "kq_success b")
  case True
  with assms(1) obtain d n partial where d: "d \<in> set (deliveries db)" "dv_status d \<in> {''IN_TRANSIT'', ''OUT_FOR_DELIVERY''}" "dv_id d = i"
    and none: "List.find (\<lambda>x. di_dispatched_quantity x < thousandths (kq_item_quantities b) x) (items_of db i) = None"
    and db': "db' = commit_step env 0 actor ''delivery.attempt_succeeded'' n d (bump (ac_actor actor) (arrive (denv_now env) partial) d)
      (update_items i (deliver_item (kq_item_quantities b)) db)"
    unfolding record_delivery_attempt_def by (auto simp: Let_def elim!: on_delivery_row split: if_splits option.splits)
  from d(2) have op: "dv_status d \<in> open_statuses" by (auto simp: open_statuses_def)
  show ?thesis unfolding db'
  proof (rule items_commit_sound [OF assms(2) d(1), where f = "deliver_item (kq_item_quantities b)"])
    fix x assume x: "x \<in> set (items_of db (dv_id d))" "item_sound (dv_status d) x"
    with none d(3) have "\<not> di_dispatched_quantity x < thousandths (kq_item_quantities b) x" by (auto simp: find_None_iff)
    then show "item_sound (dv_status (bump (ac_actor actor) (arrive (denv_now env) partial) d)) (deliver_item (kq_item_quantities b) x)"
      by (intro deliver_item_sound [OF x(2) op] thousandths_nonneg assms(3)) simp_all
  qed (use rows_soundD [OF assms(2) d(1)] d(3) pending_accepted in \<open>auto simp: delivery_sound_def Let_def same_accepted_value\<close>)
next
  case False
  then show ?thesis using assms(1) unfolding record_delivery_attempt_def
    by (auto simp: Let_def open_statuses_def elim!: on_delivery_row split: if_splits
        intro!: plain_commit_sound [OF assms(2)] sound_status [OF rows_soundD [OF assms(2)]])
qed

definition entries_nonneg :: "item_acceptance list \<Rightarrow> bool" where
  "entries_nonneg es \<longleftrightarrow> list_all (\<lambda>e. 0 \<le> numeric 3 (ia_accepted_quantity e) \<and> 0 \<le> numeric 3 (ia_rejected_quantity e)) es"

lemma entry_nonneg:
  assumes "entries_nonneg es"
  shows "0 \<le> numeric 3 (ia_accepted_quantity (entry_of_sku es s))" "0 \<le> numeric 3 (ia_rejected_quantity (entry_of_sku es s))"
  using assms by (auto simp: entry_of_sku_def entries_nonneg_def list_all_iff numeric_nonneg dec_num_def find_Some_iff split: option.splits)

lemma accept_item_sound:
  assumes "item_sound s i" "entries_nonneg es" "acceptance_error es i = None" "t \<notin> open_statuses"
    "t \<notin> accepted_statuses \<Longrightarrow> \<not> 0 < di_accepted_quantity (accept_item es i)"
  shows "item_sound t (accept_item es i)"
  using assms entry_nonneg [OF assms(2), of "di_sku i"]
  by (auto simp: item_sound_def accept_item_def acceptance_error_def Let_def split: if_splits)

lemma acceptance_status_cases:
  "acceptance_status items \<notin> open_statuses"
  "acceptance_status items \<notin> accepted_statuses \<Longrightarrow> i \<in> set items \<Longrightarrow> \<not> 0 < di_accepted_quantity i"
  by (auto simp: acceptance_status_def open_statuses_def Let_def split: if_splits)

lemma accept_delivery_fields [simp]:
  "dv_id (accept_delivery items d) = dv_id d" "dv_declared_value (accept_delivery items d) = dv_declared_value d"
  "dv_status (accept_delivery items d) = acceptance_status items"
  "dv_verified_delivered_value (accept_delivery items d) = accepted_value items"
  by (simp_all add: accept_delivery_def)

lemma record_buyer_acceptance_sound:
  assumes "record_buyer_acceptance env actor i v b db = Inr (db', r)" "rows_sound db" "entries_nonneg (nq_items b)"
  shows "rows_sound db'"
proof -
  from assms(1) obtain d n a where d: "d \<in> set (deliveries db)" "dv_id d = i" and proved: "verified_proof db i"
    and none: "\<forall>x\<in>set (items_of db i). acceptance_error (nq_items b) x = None"
    and db': "db' = commit_step env 1 actor ''delivery.accepted'' n d
      (bump (ac_actor actor) (accept_delivery (map (accept_item (nq_items b)) (items_of db i))) d)
      ((update_items i (accept_item (nq_items b)) db)\<lparr>acceptances := a\<rparr>)"
    unfolding record_buyer_acceptance_def verified_proof_def
    by (auto simp: Let_def first_some_None elim!: on_delivery_row split: if_splits option.splits)
  show ?thesis unfolding db'
  proof (rule items_commit_sound [OF assms(2) d(1), where f = "accept_item (nq_items b)"])
    fix x assume x: "x \<in> set (items_of db (dv_id d))" "item_sound (dv_status d) x"
    then have mem: "accept_item (nq_items b) x \<in> set (map (accept_item (nq_items b)) (items_of db i))" using d(2) by simp
    have "item_sound (acceptance_status (map (accept_item (nq_items b)) (items_of db i))) (accept_item (nq_items b) x)"
    proof (rule accept_item_sound [OF x(2) assms(3)])
      show "acceptance_error (nq_items b) x = None" using none x(1) d(2) by blast
    qed (rule acceptance_status_cases(1), rule acceptance_status_cases(2) [OF _ mem])
    then show "item_sound (dv_status (bump (ac_actor actor) (accept_delivery (map (accept_item (nq_items b)) (items_of db i))) d))
        (accept_item (nq_items b) x)" by simp
  qed (use d(2) proved in simp_all)
qed

section \<open>Creation\<close>

lemma map_enumerate_snd: "map (\<lambda>p. f (snd p)) (enumerate n xs) = map f xs"
  by (induction xs arbitrary: n) auto

lemma line_value_nonneg: "0 \<le> line_value xs"
  by (simp add: line_value_def)

lemma line_value_zero: "(\<And>q v. (q, v) \<in> set xs \<Longrightarrow> q = 0) \<Longrightarrow> line_value xs = 0"
proof -
  assume "\<And>q v. (q, v) \<in> set xs \<Longrightarrow> q = 0"
  then have "sum_list (map (\<lambda>(q, v). q * v) xs) = 0" by (induction xs) fastforce+
  then show ?thesis by (simp add: line_value_def)
qed

definition new_items :: "delivery_env \<Rightarrow> string \<Rightarrow> item_create list \<Rightarrow> delivery_item list" where
  "new_items env delivery_id items = map (\<lambda>(k, i). new_item env (Suc k) delivery_id i) (enumerate 0 items)"

lemma new_items_values:
  "map (\<lambda>i. (di_ordered_quantity i, di_supported_unit_value i)) (new_items env j items) =
     map (\<lambda>i. (numeric 3 (ic_ordered_quantity i), numeric 2 (ic_supported_unit_value i))) items"
  by (simp add: new_items_def comp_def case_prod_beta new_item_def map_enumerate_snd [where f = "\<lambda>i. (numeric 3 (ic_ordered_quantity i), numeric 2 (ic_supported_unit_value i))"])

lemma new_items_owner: "i \<in> set (new_items env j items) \<Longrightarrow> di_delivery_id i = j"
  by (auto simp: new_items_def new_item_def)

lemma new_items_sound:
  assumes "list_all item_create_ok items"
  shows "list_all (item_sound s) (new_items env j items)" "accepted_value (new_items env j items) = 0"
proof -
  have "item_sound s (new_item env (Suc k) j i)" if "i \<in> set items" for k i
  proof -
    have "dec_pos (ic_ordered_quantity i)" "0 \<le> dec_num 0 (ic_supported_unit_value i)"
      using assms that by (simp_all add: list_all_iff item_create_ok_def positive_quantity_def money_ok_def)
    then show ?thesis
      by (simp add: item_sound_def new_item_def numeric_nonneg dec_pos_num dec_num_nonneg [of "ic_supported_unit_value i" 2])
  qed
  then show "list_all (item_sound s) (new_items env j items)"
    by (auto simp: new_items_def list_all_iff in_set_enumerate_eq)
  show "accepted_value (new_items env j items) = 0"
    unfolding accepted_value_def by (rule line_value_zero) (auto simp: new_items_def new_item_def)
qed

lemma valid_delivery_facts:
  assumes "valid_delivery b = Inr body"
  shows "list_all item_create_ok (cq_items body)" "numeric 2 (cq_declared_value body) = calculated_value (cq_items body)"
  using assms by (auto simp: valid_delivery_def Let_def calculated_value_def line_value_nonneg split: if_splits intro!: dec_eq_numeric)

lemma create_delivery_sound:
  assumes "create_delivery env actor b db = Inr (db', r)" "delivery_inv db" "delivery_constraints db'"
    and items: "list_all item_create_ok (cq_items b)" and declared: "numeric 2 (cq_declared_value b) = calculated_value (cq_items b)"
  shows "rows_sound db'"
proof -
  define d where "d = new_delivery env actor b"
  from assms(1) have db': "deliveries db' = deliveries db @ [d]" "delivery_items db' = delivery_items db @ new_items env (dv_id d) (cq_items b)"
    "proofs db' = proofs db"
    by (auto simp: create_delivery_def Let_def delivery_record_def delivery_timeline_def new_items_def d_def split: option.splits)
  have fresh: "dv_id x \<noteq> dv_id d" if "x \<in> set (deliveries db)" for x
    using assms(3) that by (auto simp: delivery_constraints_def db'(1))
  have "di_delivery_id i \<in> dv_id ` set (deliveries db)" if "i \<in> set (delivery_items db)" for i
    using assms(2) that by (auto simp: delivery_inv_def delivery_constraints_def delivery_references_def list_all_iff Let_def)
  then have none: "items_of db (dv_id d) = []" using fresh by (fastforce simp: items_of_def scalars_def filter_empty_conv)
  have new: "items_of db' (dv_id d) = new_items env (dv_id d) (cq_items b)"
    using none new_items_owner by (fastforce simp: items_of_def db' scalars_def filter_id_conv)
  have old: "items_of db' (dv_id x) = items_of db (dv_id x)" if "x \<in> set (deliveries db)" for x
    using fresh [OF that] new_items_owner by (fastforce simp: items_of_def db' scalars_def filter_empty_conv)
  have "delivery_sound db' d"
    using new new_items_sound [OF items] declared
    by (simp add: delivery_sound_def new_items_values calculated_value_def d_def new_delivery_def)
  moreover have "delivery_sound db' x" if "x \<in> set (deliveries db)" for x
    by (rule sound_other [OF inv_row [OF assms(2) that] old [OF that]]) (simp add: verified_proof_def db')
  ultimately show ?thesis using assms(2) by (auto simp: rows_sound_def delivery_inv_def db' list_all_iff)
qed

section \<open>Events\<close>

lemma mark_source_sound:
  assumes "rows_sound db" "set ds \<subseteq> set (deliveries db)" "distinct (map dv_id ds)"
  shows "rows_sound (mark_source env k e ds db)"
  using assms
proof (induction env k e ds db rule: mark_source.induct)
  case (2 env k e d ds db)
  show ?case
  proof (cases "dv_status d \<in> terminal_statuses")
    case False
    define d' where "d' = bump (en_source_application e) (\<lambda>x. x\<lparr>dv_exception_code := Some (source_exception (en_event_type e))\<rparr>) d"
    have "d \<in> set (deliveries db)" using 2 by simp
    then have sound: "rows_sound (commit_step env k actor ev n d d' db)" for actor ev n
      by (intro side_commit_sound [OF 2(3)]) (use 2(3) in \<open>auto simp: d'_def rows_sound_def\<close>)
    have "set ds \<subseteq> set (deliveries (commit_step env k actor ev n d d' db))" for actor ev n
    proof
      fix x assume "x \<in> set ds"
      with 2(4,5) have "x \<in> set (deliveries db)" "dv_id x \<noteq> dv_id d" by (auto simp: image_iff)
      then show "x \<in> set (deliveries (commit_step env k actor ev n d d' db))" by (auto simp: set_update_rows d'_def image_iff)
    qed
    then show ?thesis using False 2(2) sound 2(5) by (simp add: Let_def d'_def)
  qed (use 2 in simp)
qed simp

lemma note_version_tables [simp]:
  "deliveries (note_version env e db) = deliveries db" "delivery_items (note_version env e db) = delivery_items db"
  "proofs (note_version env e db) = proofs db"
  by (simp_all add: note_version_def split: option.splits)

lemma rows_sound_cong:
  "deliveries db' = deliveries db \<Longrightarrow> delivery_items db' = delivery_items db \<Longrightarrow> proofs db' = proofs db \<Longrightarrow> rows_sound db' = rows_sound db"
  by (simp add: rows_sound_def delivery_sound_def items_of_def verified_proof_def list_all_iff)

lemma rows_sound_inbox [simp]: "rows_sound (db\<lparr>delivery_inboxes := x\<rparr>) = rows_sound db"
  by (rule rows_sound_cong) simp_all

lemma consume_source_event_sound:
  assumes "consume_source_event env e h db = Inr (db', r)" "delivery_inv db"
  shows "rows_sound db'"
proof -
  have keys: "distinct (map dv_id (scalars p (deliveries db)))" for p
    using inv_keys [OF assms(2)] by (simp add: unique_by_def scalars_def distinct_map_filter comp_def map_filter_def)
  have "rows_sound (mark_source env k e (scalars (concerns e) (deliveries db)) (note_version env e db))" for k
    by (rule mark_source_sound) (use keys inv_rows [OF assms(2)] in \<open>auto simp: set_scalars rows_sound_cong [of "note_version env e db" db]\<close>)
  then show ?thesis using assms(1) inv_rows [OF assms(2)]
    by (auto simp: consume_source_event_def Let_def split: option.splits if_splits)
qed

end
