(* ===== verification/DeliveryProperties.thy ===== *)
theory DeliveryProperties
  imports DeliveryInvariant
begin

text \<open>
  Every request of the delivery service keeps its invariant, so it holds after every history of
  requests. The operations' lemmas ask that quantities are not negative and that the reviewer of
  a proof is \<open>delivery_reviewer\<close>; the contracts and the role tokens give both.
\<close>

section \<open>What the contracts and the roles give\<close>

lemma valid_dispatch_nonneg: "valid_dispatch b = Inr body \<Longrightarrow> quantities_nonneg (hq_item_quantities body)"
  by (fastforce simp: valid_dispatch_def quantities_nonneg_def strip_keys_def list_all_iff positive_quantity_def
      split: if_splits intro!: numeric_nonneg dec_pos_num)

lemma quantity_ok_nonneg: "quantity_ok d \<Longrightarrow> 0 \<le> numeric 3 d"
  by (simp add: quantity_ok_def numeric_nonneg dec_num_nonneg [of d 3])

lemma valid_attempt_nonneg: "valid_attempt b = Inr body \<Longrightarrow> quantities_nonneg (kq_item_quantities body)"
  by (fastforce simp: valid_attempt_def quantities_nonneg_def strip_keys_def list_all_iff split: if_splits intro!: quantity_ok_nonneg)

lemma valid_acceptance_nonneg: "valid_acceptance b = Inr body \<Longrightarrow> entries_nonneg (nq_items body)"
  by (auto simp: valid_acceptance_def entries_nonneg_def list_all_iff split: if_splits intro!: quantity_ok_nonneg)

lemma reviewer_actor:
  assumes "require_roles env [''DELIVERY_REVIEWER''] token = Inr actor"
  shows "ac_actor actor = ''delivery_reviewer''"
proof -
  from assms obtain e where e: "e \<in> set (zip (denv_tokens env) token_entries)"
    and actor: "ac_actor actor = fst (snd e)" "ac_role actor = snd (snd e)" and role: "ac_role actor = ''DELIVERY_REVIEWER''"
    by (fastforce simp: require_roles_def authenticate_token_def token_map_def sum_bind_Inr split: if_splits dest!: map_of_SomeD)
  obtain k a r where "e = (k, a, r)" by (cases e)
  with set_zip_rightD [of k "(a, r)"] e have "(a, r) \<in> set token_entries" "ac_actor actor = a" "r = ''DELIVERY_REVIEWER''"
    using actor role by auto
  then show ?thesis by (auto simp: token_entries_def)
qed

section \<open>Every request keeps the invariant\<close>

lemma workflow_Inr:
  "workflow f h body op db = Inr (db', r) \<longleftrightarrow>
     (\<exists>b v x. body = Inr b \<and> if_match h = Inr v \<and> op v b db = Inr (db', x) \<and> r = f x)"
  by (auto simp: workflow_def answering_def sum_bind_Inr)

lemma delivery_route_sound:
  assumes "delivery_route_op env actor q db = Inr (db', r)" "require_roles env (route_roles q) token = Inr actor"
    and "delivery_inv db" "delivery_constraints db'"
  shows "rows_sound db'"
proof -
  have rows: "rows_sound db" using assms(3) by (rule inv_rows)
  have unique: "unique_by (Some \<circ> po_id) (proofs db)" using assms(3) by (simp add: delivery_inv_def delivery_constraints_def)
  note ops = mark_ready_sound [OF _ rows] dispatch_delivery_sound [OF _ rows valid_dispatch_nonneg] record_transit_event_sound [OF _ rows]
    record_delivery_attempt_sound [OF _ rows valid_attempt_nonneg] capture_pod_sound [OF _ rows]
    record_buyer_acceptance_sound [OF _ rows valid_acceptance_nonneg] cancel_delivery_sound [OF _ rows]
    propose_correction_sound [OF _ rows] review_correction_sound [OF _ rows]
  show ?thesis
  proof (cases q)
    case (CreateDelivery b)
    with assms(1) obtain body x where "valid_delivery b = Inr body" "create_delivery env actor body db = Inr (db', x)"
      by (auto simp: sum_bind_Inr answering_def)
    with assms(3,4) show ?thesis by (blast intro: create_delivery_sound valid_delivery_facts)
  next
    case (ReviewProof i p h verified reason)
    with assms(2) have "ac_actor actor = ''delivery_reviewer''" by (auto dest: reviewer_actor)
    with ReviewProof assms(1) rows unique show ?thesis by (auto simp: workflow_Inr intro: verify_pod_sound)
  qed (use assms(1) rows in \<open>auto simp: workflow_Inr sum_bind_Inr intro: ops\<close>)
qed

lemma delivery_op_sound:
  assumes "delivery_op env q db = Inr (db', r)" "delivery_inv db" "delivery_constraints db'"
  shows "rows_sound db'"
proof (cases q)
  case (DeliveryRoute token route)
  with assms show ?thesis by (auto simp: sum_bind_Inr intro: delivery_route_sound)
next
  case (DeliveryInbox event raw signature)
  with assms show ?thesis by (auto simp: receive_event_def answering_def sum_bind_Inr split: if_splits intro: consume_source_event_sound)
qed (use assms inv_rows in \<open>auto simp: sum_bind_Inr split: sum.splits\<close>)

lemma delivery_step_inv: "delivery_inv db \<Longrightarrow> delivery_inv (fst (delivery_step q db))"
  by (cases q) (auto simp: delivery_session_def delivery_inv_def rows_sound_def
      intro!: session_inv [where I = delivery_inv, unfolded delivery_inv_def] dest!: delivery_op_sound [unfolded delivery_inv_def rows_sound_def])

interpretation deliveries_service: service delivery_step delivery_inv
  by unfold_locales (rule delivery_step_inv)

lemma empty_delivery_inv: "delivery_inv empty_delivery"
  by (simp add: delivery_inv_def empty_delivery_def delivery_constraints_def delivery_references_def)

section \<open>Claim\<close>

lemma sound_value_le:
  assumes "delivery_sound db d"
  shows "dv_verified_delivered_value d \<le> dv_declared_value d"
proof -
  have "di_accepted_quantity i \<le> di_ordered_quantity i \<and> 0 \<le> di_supported_unit_value i" if "i \<in> set (items_of db (dv_id d))" for i
    using assms that by (auto simp: delivery_sound_def item_sound_def list_all_iff Let_def)
  then have "line_value (map (\<lambda>i. (di_accepted_quantity i, di_supported_unit_value i)) (items_of db (dv_id d))) \<le>
      line_value (map (\<lambda>i. (di_ordered_quantity i, di_supported_unit_value i)) (items_of db (dv_id d)))"
    by (intro line_value_mono) (auto simp: list_all2_map1 list_all2_map2 intro!: list.rel_refl_strong)
  with assms show ?thesis by (simp add: delivery_sound_def accepted_value_def Let_def)
qed

lemma sound_value_zero:
  assumes "delivery_sound db d" "dv_status d \<notin> accepted_statuses"
  shows "dv_verified_delivered_value d = 0"
  using assms line_value_zero [of "map (\<lambda>i. (di_accepted_quantity i, di_supported_unit_value i)) (items_of db (dv_id d))"]
  by (auto simp: delivery_sound_def item_sound_def accepted_value_def list_all_iff Let_def)

text \<open>
  C20. The verified value of a delivery is supported. After every history of requests to a new
  service, whoever sends them, the verified value of a delivery is the value of its accepted
  quantities and at most its declared value; of each of its items no more is accepted and rejected
  than was delivered, no more delivered than dispatched and no more dispatched than ordered; and a
  value above zero belongs to an accepted delivery with a proof that the reviewer has verified.
\<close>

theorem delivery_value_supported:
  assumes "db = run delivery_step requests empty_delivery" "d \<in> set (deliveries db)"
  shows "dv_verified_delivered_value d = accepted_value (items_of db (dv_id d)) \<and>
    dv_verified_delivered_value d \<le> dv_declared_value d \<and>
    (\<forall>i\<in>set (items_of db (dv_id d)). 0 \<le> di_accepted_quantity i \<and> 0 \<le> di_rejected_quantity i \<and>
       di_accepted_quantity i + di_rejected_quantity i \<le> di_delivered_quantity i \<and>
       di_delivered_quantity i \<le> di_dispatched_quantity i \<and> di_dispatched_quantity i \<le> di_ordered_quantity i) \<and>
    (0 < dv_verified_delivered_value d \<longrightarrow> dv_status d \<in> {''DELIVERED'', ''PARTIALLY_ACCEPTED''} \<and>
       (\<exists>p\<in>set (proofs db). po_delivery_id p = dv_id d \<and> po_verification_status p = ''VERIFIED'' \<and>
          po_verifier p = Some ''delivery_reviewer''))"
proof -
  have inv: "delivery_inv db" unfolding assms(1) by (rule deliveries_service.run_inv) (rule empty_delivery_inv)
  have sound: "delivery_sound db d" by (rule inv_row [OF inv assms(2)])
  have "dv_status d \<in> accepted_statuses" if "0 < dv_verified_delivered_value d"
    using sound_value_zero [OF sound] that by fastforce
  then have "dv_status d \<in> accepted_statuses \<and> verified_proof db (dv_id d)" if "0 < dv_verified_delivered_value d"
    using sound that by (simp add: delivery_sound_def Let_def)
  moreover have "proof_sound p" if "p \<in> set (proofs db)" for p using inv that by (simp add: delivery_inv_def list_all_iff)
  ultimately have "dv_status d \<in> accepted_statuses \<and> (\<exists>p\<in>set (proofs db). po_delivery_id p = dv_id d \<and>
      po_verification_status p = ''VERIFIED'' \<and> po_verifier p = Some ''delivery_reviewer'')" if "0 < dv_verified_delivered_value d"
    using that by (fastforce simp: verified_proof_def proof_sound_def)
  moreover have "dv_verified_delivered_value d = accepted_value (items_of db (dv_id d))" using sound by (simp add: delivery_sound_def Let_def)
  moreover have "\<forall>i\<in>set (items_of db (dv_id d)). item_sound (dv_status d) i" using sound by (simp add: delivery_sound_def Let_def list_all_iff)
  ultimately show ?thesis using sound_value_le [OF sound] by (simp add: item_sound_def)
qed

end
