(* ===== verification/DeliveryDemo.thy ===== *)
theory DeliveryDemo
  imports DeliveryProperties
begin

text \<open>
  One delivery from its creation to its acceptance: seller, carrier, reviewer and buyer each send
  the requests of their role. No step depends on the text that the audit log hashes or prints, so
  these functions are left unevaluated.
\<close>

definition ddemo_env :: "char \<Rightarrow> delivery_env" where
  "ddemo_env c = \<lparr>denv_now = 0, denv_uuid = (\<lambda>k. c # replicate k CHR ''0''), denv_tracking = [''XY00000001''],
     denv_address_json = ad_name, denv_mcp_token = ''mcp'', denv_source_key = ''source'', denv_event_key = ''events'',
     denv_tokens = [''viewer'', ''seller'', ''carrier'', ''buyer'', ''reviewer'', ''admin'']\<rparr>"

definition ddemo_address :: "string \<Rightarrow> address" where
  "ddemo_address n = \<lparr>ad_name = n, ad_address = ''Dock 1'', ad_city = None, ad_region = None, ad_postal_code = None, ad_country_code = None\<rparr>"

definition ddemo_create :: delivery_create where
  "ddemo_create = \<lparr>cq_delivery_number = ''D1'', cq_purchase_order_id = ''PO1'', cq_invoice_id = Some ''I1'', cq_invoice_number = None,
     cq_seller_business_id = ''S1'', cq_seller_gstin = ''29ABCDE1234F1Z5'', cq_buyer_id = ''B1'', cq_buyer_gstin = ''27ABCDE1234F1Z5'',
     cq_ship_from = ddemo_address ''Seller'', cq_ship_to = ddemo_address ''Buyer'', cq_expected_delivery_date = None, cq_currency = ''INR'',
     cq_declared_value = Finite False 1 (-2),
     cq_items = [\<lparr>ic_po_line_id = ''L1'', ic_invoice_line_id = None, ic_sku = ''SKU'', ic_description = ''Part'', ic_unit = ''EA'',
       ic_ordered_quantity = Finite False 1 (-3), ic_supported_unit_value = Finite False 501 (-2)\<rparr>]\<rparr>"

definition ddemo_id :: string where
  "ddemo_id = uuid_str ''a''"

definition ddemo_requests :: "(delivery_env \<times> delivery_request) list" where
  "ddemo_requests =
     [(ddemo_env CHR ''a'', DeliveryRoute (Some ''seller'') (CreateDelivery ddemo_create)),
      (ddemo_env CHR ''b'', DeliveryRoute (Some ''seller'') (MarkReady ddemo_id ''1'')),
      (ddemo_env CHR ''c'', DeliveryRoute (Some ''seller'') (Dispatch ddemo_id ''2''
         \<lparr>hq_carrier_id = ''C1'', hq_item_quantities = [(''SKU'', Finite False 1 (-3))]\<rparr>)),
      (ddemo_env CHR ''d'', DeliveryRoute (Some ''carrier'') (Transit ddemo_id ''3''
         \<lparr>yq_event_type = ''IN_TRANSIT'', yq_location = None, yq_occurred_at = None, yq_notes = None\<rparr>)),
      (ddemo_env CHR ''e'', DeliveryRoute (Some ''carrier'') (Attempt ddemo_id ''4''
         \<lparr>kq_success = True, kq_item_quantities = [(''SKU'', Finite False 1 (-3))], kq_failure_reason = None\<rparr>)),
      (ddemo_env CHR ''f'', DeliveryRoute (Some ''carrier'') (CaptureProof ddemo_id ''5''
         \<lparr>zq_proof_type = ''OTP'', zq_restricted_object_key = ''k'', zq_content_hash = replicate 64 CHR ''0'', zq_mime_type = ''text/plain'',
          zq_recipient_token = None, zq_recipient_role = None, zq_security_flags = []\<rparr>)),
      (ddemo_env CHR ''g'', DeliveryRoute (Some ''reviewer'') (ReviewProof ddemo_id (uuid_str ''f'') ''6'' True None)),
      (ddemo_env CHR ''h'', DeliveryRoute (Some ''buyer'') (Acceptance ddemo_id ''7''
         \<lparr>nq_items = [\<lparr>ia_sku = ''SKU'', ia_accepted_quantity = Finite False 1 (-3), ia_rejected_quantity = Finite False 0 0, ia_reason = None\<rparr>],
          nq_reason = None\<rparr>))]"

declare delivery_hash_def [code del]
declare json_dumps_spaced_def [code del]
declare units_str_def [code del]

lemma ddemo_run:
  "map (\<lambda>d. (dv_id d, dv_verified_delivered_value d)) (deliveries (run delivery_step ddemo_requests empty_delivery)) = [(ddemo_id, 1)]"
  by code_simp

theorem delivery_value_supported_witness:
  "\<exists>d\<in>set (deliveries (run delivery_step ddemo_requests empty_delivery)).
     dv_verified_delivered_value d = 1 \<and> dv_verified_delivered_value d \<le> dv_declared_value d \<and>
     dv_status d \<in> {''DELIVERED'', ''PARTIALLY_ACCEPTED''} \<and>
     (\<exists>p\<in>set (proofs (run delivery_step ddemo_requests empty_delivery)).
        po_delivery_id p = dv_id d \<and> po_verifier p = Some ''delivery_reviewer'')"
proof -
  obtain d where d: "d \<in> set (deliveries (run delivery_step ddemo_requests empty_delivery))" "dv_verified_delivered_value d = 1"
    using ddemo_run by (auto simp: map_eq_Cons_conv)
  with delivery_value_supported [OF refl d(1)] show ?thesis by auto
qed

end
