(* ===== verification/Scrypt.thy ===== *)
theory Scrypt
  imports Sha256
begin

text \<open>
  \<open>hashlib.scrypt\<close> (RFC 7914), with which the demonstration services keep passwords: PBKDF2 with
  one iteration of HMAC-SHA-256, and between its two passes the memory-hard mixing of blocks of
  32-bit words by Salsa20/8. A block of size parameter \<open>r\<close> is a list of \<open>32 * r\<close> words.
\<close>

unbundle bit_operations_syntax

section \<open>PBKDF2\<close>

definition pbkdf2_sha256 :: "nat list \<Rightarrow> nat list \<Rightarrow> nat \<Rightarrow> nat list" where
  "pbkdf2_sha256 password salt dklen =
     take dklen (concat (map (\<lambda>i. hmac_sha256 password (salt @ be_bytes 4 i)) [1..<(dklen + 31) div 32 + 1]))"

section \<open>Salsa20/8\<close>

definition mix_word :: "nat \<Rightarrow> nat \<Rightarrow> nat \<Rightarrow> nat \<Rightarrow> 32 word list \<Rightarrow> 32 word list" where
  "mix_word b a d n x = x[b := x ! b XOR word_rotl n (x ! a + x ! d)]"

definition quarter_round :: "32 word list \<Rightarrow> nat \<times> nat \<times> nat \<times> nat \<Rightarrow> 32 word list" where
  "quarter_round x q =
     (case q of (a, b, c, d) \<Rightarrow> mix_word a d c 18 (mix_word d c b 13 (mix_word c b a 9 (mix_word b a d 7 x))))"

definition double_round :: "32 word list \<Rightarrow> 32 word list" where
  "double_round x = foldl quarter_round x
     [(0, 4, 8, 12), (5, 9, 13, 1), (10, 14, 2, 6), (15, 3, 7, 11), (0, 1, 2, 3), (5, 6, 7, 4), (10, 11, 8, 9), (15, 12, 13, 14)]"

definition salsa20_8 :: "32 word list \<Rightarrow> 32 word list" where
  "salsa20_8 x = map2 (+) x ((double_round ^^ 4) x)"

section \<open>Mixing\<close>

fun salsa_chain :: "32 word list \<Rightarrow> 32 word list list \<Rightarrow> 32 word list list" where
  "salsa_chain x [] = []"
| "salsa_chain x (b # bs) = (let y = salsa20_8 (map2 (XOR) x b) in y # salsa_chain y bs)"

definition block_mix :: "nat \<Rightarrow> 32 word list \<Rightarrow> 32 word list" where
  "block_mix r b =
     (let bs = chunks 16 b; ys = salsa_chain (last bs) bs
      in concat (map (\<lambda>i. ys ! (2 * i)) [0..<r]) @ concat (map (\<lambda>i. ys ! (2 * i + 1)) [0..<r]))"

fun fill_table :: "nat \<Rightarrow> nat \<Rightarrow> 32 word list \<Rightarrow> 32 word list list \<times> 32 word list" where
  "fill_table r 0 x = ([], x)"
| "fill_table r (Suc n) x = (let (v, y) = fill_table r n (block_mix r x) in (x # v, y))"

text \<open>The index is the last block as a number modulo \<open>n\<close>: for \<open>n\<close> up to \<open>2 ^ 32\<close> its first word decides.\<close>

definition ro_mix :: "nat \<Rightarrow> nat \<Rightarrow> 32 word list \<Rightarrow> 32 word list" where
  "ro_mix r n b =
     (let (v, x) = fill_table r n b
      in ((\<lambda>x. block_mix r (map2 (XOR) x (v ! (unat (x ! (32 * r - 16)) mod n)))) ^^ n) x)"

definition le_word :: "nat list \<Rightarrow> 32 word" where
  "le_word bs = word_of_nat (foldr (\<lambda>b a. b + 256 * a) bs 0)"

definition le_bytes :: "32 word \<Rightarrow> nat list" where
  "le_bytes w = rev (be_bytes 4 (unat w))"

fun words_of_bytes :: "nat \<Rightarrow> nat list \<Rightarrow> 32 word list" where
  "words_of_bytes 0 bs = []"
| "words_of_bytes (Suc n) bs = le_word (take 4 bs) # words_of_bytes n (drop 4 bs)"

text \<open>The call of the services has one lane (\<open>p = 1\<close>).\<close>

definition scrypt :: "nat \<Rightarrow> nat \<Rightarrow> nat \<Rightarrow> nat list \<Rightarrow> nat list \<Rightarrow> nat list" where
  "scrypt n r dklen password salt =
     (let b = ro_mix r n (words_of_bytes (32 * r) (pbkdf2_sha256 password salt (128 * r)))
      in pbkdf2_sha256 password (concat (map le_bytes b)) dklen)"

end
