(* ===== verification/BusinessRegistry.thy ===== *)
theory BusinessRegistry
  imports PyContract Scrypt
begin

text \<open>
  The business registry (demos/business-registry/business_registry): tables (models.py),
  contracts (schemas.py), browser sessions and passwords (auth.py) and the audit and outbox rows
  of a change (domain.py). Random values (uuids, tokens, salts) and the clock, read once per
  request, are inputs. A registered address is a dict of strings; the patch of a change request
  holds the fields that were proposed. Ownership percentages are hundredths. Of the widths of
  columns only that of \<open>registered_state_code\<close> is kept, which no contract bounds.
\<close>

section \<open>Tables\<close>

record registry_user =
  us_id :: string
  us_tenant_id :: string
  us_email :: string
  us_display_name :: string
  us_password_hash :: string
  us_roles :: "string list"
  us_status :: string
  us_last_login_at :: "time option"
  us_created_at :: time

record browser_session =
  ss_id :: string
  ss_token_hash :: string
  ss_csrf_hash :: string
  ss_user_id :: string
  ss_tenant_id :: string
  ss_expires_at :: time
  ss_created_at :: time
  ss_last_seen_at :: time

type_synonym str_dict = "(string \<times> string) list"

record business =
  bz_id :: string
  bz_tenant_id :: string
  bz_business_id :: string
  bz_registry_number :: string
  bz_business_type :: string
  bz_legal_name :: string
  bz_trade_name :: "string option"
  bz_incorporation_date :: int
  bz_status :: string
  bz_registered_state_code :: string
  bz_registered_address :: str_dict
  bz_industry_code :: "string option"
  bz_msme_classification :: "string option"
  bz_primary_gstin :: "string option"
  bz_pan_token :: "string option"
  bz_risk_flags :: "string list"
  bz_source_hash :: string
  bz_version :: int
  bz_created_by :: string
  bz_updated_by :: string
  bz_created_at :: time
  bz_updated_at :: time

record business_name =
  nm_id :: string
  nm_tenant_id :: string
  nm_business_id :: string
  nm_name_type :: string
  nm_name :: string
  nm_effective_from :: int
  nm_effective_to :: "int option"
  nm_source_hash :: string
  nm_record_version :: int

record business_address =
  bd_id :: string
  bd_tenant_id :: string
  bd_business_id :: string
  bd_address_type :: string
  bd_address_json :: str_dict
  bd_verification_status :: string
  bd_effective_from :: int
  bd_effective_to :: "int option"
  bd_source_hash :: string
  bd_record_version :: int

record business_person =
  bp_id :: string
  bp_tenant_id :: string
  bp_business_id :: string
  bp_person_token :: string
  bp_display_name :: string
  bp_role :: string
  bp_appointment_date :: int
  bp_cessation_date :: "int option"
  bp_authorization_status :: string
  bp_verification_status :: string
  bp_source_hash :: string
  bp_version :: int

record ownership_link =
  ow_id :: string
  ow_tenant_id :: string
  ow_business_id :: string
  ow_owner_type :: string
  ow_owner_token :: string
  ow_owner_display_name :: string
  ow_ownership_percentage :: int
  ow_effective_from :: int
  ow_effective_to :: "int option"
  ow_verification_status :: string
  ow_source_hash :: string
  ow_version :: int

record business_relationship =
  rl_id :: string
  rl_tenant_id :: string
  rl_source_business_id :: string
  rl_target_business_id :: string
  rl_relationship_type :: string
  rl_status :: string
  rl_effective_from :: int
  rl_effective_to :: "int option"
  rl_evidence_hash :: string
  rl_version :: int

record identity_patch =
  ip_legal_name :: "string option"
  ip_trade_name :: "string option"
  ip_registered_address :: "str_dict option"
  ip_industry_code :: "string option"
  ip_msme_classification :: "string option"
  ip_primary_gstin :: "string option"

record identity_change =
  ch_id :: string
  ch_tenant_id :: string
  ch_business_id :: string
  ch_target_version :: int
  ch_requested_patch :: identity_patch
  ch_reason :: string
  ch_status :: string
  ch_requested_by :: string
  ch_reviewed_by :: "string option"
  ch_decision_reason :: "string option"
  ch_applied_version :: "int option"
  ch_created_at :: time
  ch_decided_at :: "time option"

record registry_audit =
  ra_id :: string
  ra_tenant_id :: string
  ra_aggregate_type :: string
  ra_aggregate_id :: string
  ra_aggregate_version :: int
  ra_event_type :: string
  ra_actor_type :: string
  ra_actor_id :: string
  ra_reason :: "string option"
  ra_metadata :: dict
  ra_occurred_at :: time

record registry_outbox =
  bo_id :: string
  bo_tenant_id :: string
  bo_aggregate_type :: string
  bo_aggregate_id :: string
  bo_aggregate_version :: int
  bo_event_type :: string
  bo_payload :: dict
  bo_correlation_id :: string
  bo_created_at :: time

record business_db =
  registry_users :: "registry_user list"
  browser_sessions :: "browser_session list"
  businesses :: "business list"
  business_names :: "business_name list"
  business_addresses :: "business_address list"
  business_people :: "business_person list"
  ownership_links :: "ownership_link list"
  business_relationships :: "business_relationship list"
  identity_changes :: "identity_change list"
  registry_audits :: "registry_audit list"
  registry_outboxes :: "registry_outbox list"

definition business_references :: "business_db \<Rightarrow> bool" where
  "business_references db \<longleftrightarrow>
     (let ids = bz_id ` set (businesses db) in
      list_all (\<lambda>s. ss_user_id s \<in> us_id ` set (registry_users db)) (browser_sessions db) \<and>
      list_all (\<lambda>n. nm_business_id n \<in> ids) (business_names db) \<and> list_all (\<lambda>a. bd_business_id a \<in> ids) (business_addresses db) \<and>
      list_all (\<lambda>p. bp_business_id p \<in> ids) (business_people db) \<and> list_all (\<lambda>w. ow_business_id w \<in> ids) (ownership_links db) \<and>
      list_all (\<lambda>r. rl_source_business_id r \<in> ids \<and> rl_target_business_id r \<in> ids) (business_relationships db) \<and>
      list_all (\<lambda>c. ch_business_id c \<in> ids) (identity_changes db))"

definition business_constraints :: "business_db \<Rightarrow> bool" where
  "business_constraints db \<longleftrightarrow>
     unique_by (Some \<circ> us_id) (registry_users db) \<and> unique_by (Some \<circ> us_email) (registry_users db) \<and>
     unique_by (Some \<circ> ss_id) (browser_sessions db) \<and> unique_by (Some \<circ> ss_token_hash) (browser_sessions db) \<and>
     unique_by (Some \<circ> bz_id) (businesses db) \<and>
     unique_by (\<lambda>b. Some (bz_tenant_id b, bz_registry_number b)) (businesses db) \<and>
     unique_by (\<lambda>b. Some (bz_tenant_id b, bz_business_id b)) (businesses db) \<and>
     unique_by (\<lambda>b. pair_key (Some (bz_tenant_id b)) (bz_primary_gstin b)) (businesses db) \<and>
     unique_by (Some \<circ> nm_id) (business_names db) \<and> unique_by (Some \<circ> bd_id) (business_addresses db) \<and>
     unique_by (Some \<circ> bp_id) (business_people db) \<and>
     unique_by (\<lambda>p. Some (bp_business_id p, bp_person_token p, bp_role p)) (business_people db) \<and>
     unique_by (Some \<circ> ow_id) (ownership_links db) \<and> unique_by (Some \<circ> rl_id) (business_relationships db) \<and>
     unique_by (\<lambda>r. Some (rl_source_business_id r, rl_target_business_id r, rl_relationship_type r)) (business_relationships db) \<and>
     unique_by (Some \<circ> ch_id) (identity_changes db) \<and> unique_by (Some \<circ> ra_id) (registry_audits db) \<and>
     unique_by (Some \<circ> bo_id) (registry_outboxes db) \<and>
     list_all (\<lambda>b. length (bz_registered_state_code b) \<le> 2) (businesses db) \<and> business_references db"

datatype business_error =
    BusinessAuthenticationError string
  | BusinessAuthorizationError string
  | BusinessNotFoundError string
  | BusinessConflictError string
  | BusinessDomainError string
  | BusinessDatabaseError
  | BusinessValueError
  | BusinessTypeError
  | BusinessValidationError
  | BusinessScopeError scope_error
  | BusinessHTTPError nat string

section \<open>Contracts\<close>

definition gstin_pattern :: "string \<Rightarrow> bool" where
  "gstin_pattern s \<longleftrightarrow> length s = 15 \<and> list_all (\<lambda>c. is_digit c \<or> is_alpha_upper c) s"

definition registry_number_pattern :: "string \<Rightarrow> bool" where
  "registry_number_pattern s \<longleftrightarrow> 6 \<le> length s \<and> length s \<le> 40 \<and>
     list_all (\<lambda>c. is_alpha_upper c \<or> is_digit c \<or> c = CHR ''/'' \<or> c = CHR ''-'') s"

definition business_id_pattern :: "string \<Rightarrow> bool" where
  "business_id_pattern s \<longleftrightarrow> 6 \<le> length s \<and> length s \<le> 80 \<and>
     list_all (\<lambda>c. in_range ''az'' c \<or> is_digit c \<or> c = CHR ''_'' \<or> c = CHR ''-'') s"

definition digits_pattern :: "nat \<Rightarrow> string \<Rightarrow> bool" where
  "digits_pattern n s \<longleftrightarrow> length s = n \<and> list_all is_digit s"

record login_request =
  lq_email :: string
  lq_password :: string

definition valid_login :: "login_request \<Rightarrow> business_error + login_request" where
  "valid_login b =
     (if length_between 5 200 (lq_email b) \<and> length_between 8 200 (lq_password b)
      then Inr \<lparr>lq_email = py_strip (lq_email b), lq_password = py_strip (lq_password b)\<rparr> else Inl BusinessValidationError)"

record business_create =
  bq_registry_number :: string
  bq_business_id :: string
  bq_business_type :: string
  bq_legal_name :: string
  bq_trade_name :: "string option"
  bq_incorporation_date :: int
  bq_registered_state_code :: string
  bq_address_line1 :: string
  bq_city :: string
  bq_postal_code :: string
  bq_industry_code :: "string option"
  bq_msme_classification :: "string option"
  bq_primary_gstin :: "string option"

definition business_types :: "string set" where
  "business_types = {''PROPRIETORSHIP'', ''PARTNERSHIP'', ''LLP'', ''COMPANY'', ''OTHER''}"

definition msme_classes :: "string set" where
  "msme_classes = {''MICRO'', ''SMALL'', ''MEDIUM''}"

text \<open>The upper case is taken before the string is stripped and matched.\<close>

definition upper_field :: "string \<Rightarrow> string" where
  "upper_field s = py_strip (py_upper s)"

definition valid_business :: "business_create \<Rightarrow> business_error + business_create" where
  "valid_business b =
     (if registry_number_pattern (upper_field (bq_registry_number b)) \<and> business_id_pattern (py_strip (bq_business_id b)) \<and>
         bq_business_type b \<in> business_types \<and> length_between 3 200 (bq_legal_name b) \<and>
         if_given (length_between 0 160) (bq_trade_name b) \<and> digits_pattern 2 (py_strip (bq_registered_state_code b)) \<and>
         length_between 5 180 (bq_address_line1 b) \<and> length_between 2 100 (bq_city b) \<and> digits_pattern 6 (py_strip (bq_postal_code b)) \<and>
         if_given (length_between 0 20) (bq_industry_code b) \<and> if_given (\<lambda>c. c \<in> msme_classes) (bq_msme_classification b) \<and>
         if_given (\<lambda>g. gstin_pattern (upper_field g)) (bq_primary_gstin b)
      then Inr (b\<lparr>bq_registry_number := upper_field (bq_registry_number b), bq_business_id := py_strip (bq_business_id b),
        bq_legal_name := py_strip (bq_legal_name b), bq_trade_name := map_option py_strip (bq_trade_name b),
        bq_registered_state_code := py_strip (bq_registered_state_code b), bq_address_line1 := py_strip (bq_address_line1 b),
        bq_city := py_strip (bq_city b), bq_postal_code := py_strip (bq_postal_code b),
        bq_industry_code := map_option py_strip (bq_industry_code b), bq_primary_gstin := map_option upper_field (bq_primary_gstin b)\<rparr>)
      else Inl BusinessValidationError)"

record status_transition =
  st_target_status :: string
  st_reason :: string

definition valid_status_transition :: "status_transition \<Rightarrow> business_error + status_transition" where
  "valid_status_transition b =
     (if st_target_status b \<in> {''ACTIVE'', ''SUSPENDED'', ''DISSOLVED'', ''REJECTED''} \<and> length_between 10 500 (st_reason b)
      then Inr (b\<lparr>st_reason := py_strip (st_reason b)\<rparr>) else Inl BusinessValidationError)"

record change_create =
  cc_target_version :: int
  cc_patch :: identity_patch
  cc_reason :: string

definition strip_dict :: "str_dict \<Rightarrow> str_dict" where
  "strip_dict d = foldl assoc_set [] (map (\<lambda>(k, v). (py_strip k, py_strip v)) d)"

definition valid_change :: "change_create \<Rightarrow> business_error + change_create" where
  "valid_change b =
     (let p = cc_patch b in
      if 1 \<le> cc_target_version b \<and> if_given (length_between 3 200) (ip_legal_name p) \<and> if_given (length_between 0 160) (ip_trade_name p) \<and>
         if_given (length_between 0 20) (ip_industry_code p) \<and> if_given (\<lambda>c. c \<in> msme_classes) (ip_msme_classification p) \<and>
         if_given (\<lambda>g. gstin_pattern (upper_field g)) (ip_primary_gstin p) \<and> length_between 10 500 (cc_reason b)
      then Inr \<lparr>cc_target_version = cc_target_version b,
        cc_patch = \<lparr>ip_legal_name = map_option py_strip (ip_legal_name p), ip_trade_name = map_option py_strip (ip_trade_name p),
          ip_registered_address = map_option strip_dict (ip_registered_address p), ip_industry_code = map_option py_strip (ip_industry_code p),
          ip_msme_classification = ip_msme_classification p, ip_primary_gstin = map_option upper_field (ip_primary_gstin p)\<rparr>,
        cc_reason = py_strip (cc_reason b)\<rparr>
      else Inl BusinessValidationError)"

definition valid_decision :: "string \<Rightarrow> business_error + string" where
  "valid_decision r = (if length_between 10 500 r then Inr (py_strip r) else Inl BusinessValidationError)"

section \<open>Changes\<close>

text \<open>
  \<open>bnv_pick\<close> stands for the row the database returns of a query with \<open>LIMIT 1\<close> and no order, when
  several rows match.
\<close>

record business_env =
  bnv_now :: time
  bnv_uuid :: "nat \<Rightarrow> string"
  bnv_session_token :: string
  bnv_csrf_token :: string
  bnv_salt :: "nat list"
  bnv_pick :: nat
  bnv_mcp_token :: string

type_synonym 'a business_op = "business_db \<Rightarrow> business_error + business_db \<times> 'a"

definition registry_hash :: "json \<Rightarrow> string" where
  "registry_hash v = sha256_hex (json_dumps v)"

definition JDict :: "str_dict \<Rightarrow> json" where
  "JDict d = JObj (map (\<lambda>(k, v). (k, JStr v)) d)"

definition record_registry_change ::
    "business_env \<Rightarrow> nat \<Rightarrow> string \<Rightarrow> string \<Rightarrow> string \<Rightarrow> int \<Rightarrow> string \<Rightarrow> string \<Rightarrow> string \<Rightarrow> string option \<Rightarrow> dict \<Rightarrow>
       business_db \<Rightarrow> business_db" where
  "record_registry_change env k tenant_id aggregate_type aggregate_id aggregate_version event_type actor_type actor_id reason metadata db =
     db\<lparr>registry_audits := registry_audits db @
          [\<lparr>ra_id = uuid_str (bnv_uuid env (k + 1)), ra_tenant_id = tenant_id, ra_aggregate_type = aggregate_type,
            ra_aggregate_id = aggregate_id, ra_aggregate_version = aggregate_version, ra_event_type = event_type,
            ra_actor_type = actor_type, ra_actor_id = actor_id, ra_reason = reason, ra_metadata = metadata, ra_occurred_at = bnv_now env\<rparr>],
        registry_outboxes := registry_outboxes db @
          [\<lparr>bo_id = uuid_str (bnv_uuid env (k + 2)), bo_tenant_id = tenant_id, bo_aggregate_type = aggregate_type,
            bo_aggregate_id = aggregate_id, bo_aggregate_version = aggregate_version, bo_event_type = event_type,
            bo_payload = [(''id'', JStr aggregate_id), (''version'', JInt aggregate_version)],
            bo_correlation_id = uuid_str (bnv_uuid env k), bo_created_at = bnv_now env\<rparr>]\<rparr>"

section \<open>Passwords and browser sessions\<close>

definition hash_password :: "nat list \<Rightarrow> string \<Rightarrow> nat list \<Rightarrow> string" where
  "hash_password random password salt =
     (let actual_salt = (if salt = [] then random else salt)
      in ''scrypt$'' @ hexdigest actual_salt @ ''$'' @ hexdigest (scrypt (2 ^ 14) 8 32 (utf8 password) actual_salt))"

text \<open>One step of \<open>split("$", 2)\<close>, and \<open>bytes.fromhex\<close>, which skips white space between the bytes.\<close>

definition split_dollar :: "string \<Rightarrow> string \<times> string option" where
  "split_dollar s =
     (takeWhile (\<lambda>c. c \<noteq> CHR ''$'') s, case dropWhile (\<lambda>c. c \<noteq> CHR ''$'') s of [] \<Rightarrow> None | _ # t \<Rightarrow> Some t)"

fun from_hex :: "string \<Rightarrow> nat list option" where
  "from_hex [] = Some []"
| "from_hex (c # s) =
     (if (of_char c :: nat) \<in> {9, 10, 11, 12, 13, 32} then from_hex s
      else case s of
        [] \<Rightarrow> None
      | d # r \<Rightarrow> if hex_digit c \<and> hex_digit d then map_option ((#) (16 * hex_val (lower_char c) + hex_val (lower_char d))) (from_hex r) else None)"

definition verify_password :: "nat list \<Rightarrow> string \<Rightarrow> string \<Rightarrow> bool" where
  "verify_password random password encoded =
     (case split_dollar encoded of
        (algorithm, Some rest) \<Rightarrow>
          (case split_dollar rest of
             (salt_hex, Some expected_hex) \<Rightarrow>
               algorithm = ''scrypt'' \<and>
               (case from_hex salt_hex of
                  None \<Rightarrow> False
                | Some salt \<Rightarrow>
                    (case split_dollar (drop 7 (hash_password random password salt)) of
                       (_, Some candidate) \<Rightarrow> candidate = expected_hex
                     | _ \<Rightarrow> False))
           | _ \<Rightarrow> False)
      | _ \<Rightarrow> False)"

definition hash_token :: "string \<Rightarrow> string" where
  "hash_token value = sha256_hex value"

definition authenticate_user :: "business_env \<Rightarrow> business_db \<Rightarrow> string \<Rightarrow> string \<Rightarrow> business_error + registry_user" where
  "authenticate_user env db email password =
     (case scalar (\<lambda>u. us_email u = py_lower email \<and> us_status u = ''ACTIVE'') (registry_users db) of
        None \<Rightarrow> Inl (BusinessAuthenticationError ''The email or password was not accepted.'')
      | Some u \<Rightarrow>
          if verify_password (bnv_salt env) password (us_password_hash u) then Inr u
          else Inl (BusinessAuthenticationError ''The email or password was not accepted.''))"

definition create_browser_session :: "business_env \<Rightarrow> registry_user \<Rightarrow> (string \<times> string) business_op" where
  "create_browser_session env u db =
     Inr (db\<lparr>browser_sessions := browser_sessions db @
            [\<lparr>ss_id = uuid_str (bnv_uuid env 0), ss_token_hash = hash_token (bnv_session_token env),
              ss_csrf_hash = hash_token (bnv_csrf_token env), ss_user_id = us_id u, ss_tenant_id = us_tenant_id u,
              ss_expires_at = bnv_now env + hours 8, ss_created_at = bnv_now env, ss_last_seen_at = bnv_now env\<rparr>],
          registry_users := update_rows (\<lambda>x. us_id x = us_id u) (\<lambda>x. x\<lparr>us_last_login_at := Some (bnv_now env)\<rparr>) (registry_users db)\<rparr>,
        (bnv_session_token env, bnv_csrf_token env))"

record browser_scope =
  bs_session :: browser_session
  bs_user :: registry_user

abbreviation bs_tenant :: "browser_scope \<Rightarrow> string" where
  "bs_tenant scope \<equiv> us_tenant_id (bs_user scope)"

definition session_rows :: "business_db \<Rightarrow> string \<Rightarrow> browser_scope list" where
  "session_rows db token =
     map (\<lambda>(s, u). \<lparr>bs_session = s, bs_user = u\<rparr>)
       (filter (\<lambda>(s, u). us_id u = ss_user_id s \<and> ss_token_hash s = hash_token token)
         (List.product (browser_sessions db) (registry_users db)))"

definition resolve_browser_scope :: "business_env \<Rightarrow> string option \<Rightarrow> browser_scope business_op" where
  "resolve_browser_scope env token db =
     (if \<not> filled token then Inl (BusinessAuthenticationError ''Sign in to continue.'')
      else case session_rows db (the token) of
        [] \<Rightarrow> Inl (BusinessAuthenticationError ''The session is invalid.'')
      | scope # _ \<Rightarrow>
          if ss_expires_at (bs_session scope) \<le> bnv_now env then Inl (BusinessAuthenticationError ''The session has expired.'')
          else if us_status (bs_user scope) \<noteq> ''ACTIVE'' \<or> ss_tenant_id (bs_session scope) \<noteq> bs_tenant scope
          then Inl (BusinessAuthorizationError ''The user or tenant scope is inactive.'')
          else Inr (db\<lparr>browser_sessions := update_rows (\<lambda>s. ss_id s = ss_id (bs_session scope))
                 (\<lambda>s. s\<lparr>ss_last_seen_at := bnv_now env\<rparr>) (browser_sessions db)\<rparr>, scope))"

definition scope_roles :: "browser_scope \<Rightarrow> string list \<Rightarrow> business_error + unit" where
  "scope_roles scope allowed =
     (if set (us_roles (bs_user scope)) \<inter> set allowed = {}
      then Inl (BusinessAuthorizationError ''This account is not permitted to perform that action.'') else Inr ())"

definition verify_csrf :: "browser_scope \<Rightarrow> string option \<Rightarrow> business_error + unit" where
  "verify_csrf scope supplied =
     (if map_option hash_token supplied = Some (ss_csrf_hash (bs_session scope)) then Inr ()
      else Inl (BusinessAuthorizationError ''The form security token is missing or invalid.''))"

definition rotate_csrf :: "business_env \<Rightarrow> browser_scope \<Rightarrow> string business_op" where
  "rotate_csrf env scope db =
     Inr (db\<lparr>browser_sessions := update_rows (\<lambda>s. ss_id s = ss_id (bs_session scope))
            (\<lambda>s. s\<lparr>ss_csrf_hash := hash_token (bnv_csrf_token env)\<rparr>) (browser_sessions db)\<rparr>, bnv_csrf_token env)"

end
