(* ===== verification/BusinessService.thy ===== *)
theory BusinessService
  imports BusinessRegistry
begin

text \<open>
  The operations of RegistryService (service.py): the intake of a business, its review, the
  proposal and the decision of identity changes, each a function from the database to an error or
  the changed database and the answer, and the reads. The answer of an operation is built before
  its changes are flushed, so it shows the earlier \<open>updated_at\<close>, and no \<open>created_at\<close> for a change
  request that was just submitted. Names are ordered by their characters.
\<close>

section \<open>Projections\<close>

definition JDate :: "int option \<Rightarrow> json" where
  "JDate d = JOpt (map_option date_iso d)"

definition business_summary :: "business \<Rightarrow> dict" where
  "business_summary b =
     [(''id'', JStr (bz_id b)), (''business_id'', JStr (bz_business_id b)), (''registry_number'', JStr (bz_registry_number b)),
      (''business_type'', JStr (bz_business_type b)), (''legal_name'', JStr (bz_legal_name b)), (''trade_name'', JOpt (bz_trade_name b)),
      (''status'', JStr (bz_status b)), (''registered_state_code'', JStr (bz_registered_state_code b)),
      (''msme_classification'', JOpt (bz_msme_classification b)), (''primary_gstin'', JOpt (bz_primary_gstin b)),
      (''risk_flags'', JStrList (bz_risk_flags b)), (''version'', JInt (bz_version b)), (''updated_at'', JStr (iso_utc (bz_updated_at b)))]"

definition business_projection :: "business \<Rightarrow> dict" where
  "business_projection b = business_summary b @
     [(''tenant_id'', JStr (bz_tenant_id b)), (''incorporation_date'', JStr (date_iso (bz_incorporation_date b))),
      (''registered_address'', JDict (bz_registered_address b)), (''industry_code'', JOpt (bz_industry_code b)),
      (''pan_token'', JOpt (bz_pan_token b)), (''source_hash'', JStr (bz_source_hash b)), (''created_by'', JStr (bz_created_by b)),
      (''updated_by'', JStr (bz_updated_by b)), (''created_at'', JStr (iso_utc (bz_created_at b)))]"

definition name_projection :: "business_name \<Rightarrow> json" where
  "name_projection n = JObj
     [(''id'', JStr (nm_id n)), (''name_type'', JStr (nm_name_type n)), (''name'', JStr (nm_name n)),
      (''effective_from'', JStr (date_iso (nm_effective_from n))), (''effective_to'', JDate (nm_effective_to n)),
      (''source_hash'', JStr (nm_source_hash n)), (''record_version'', JInt (nm_record_version n))]"

definition address_projection :: "business_address \<Rightarrow> json" where
  "address_projection a = JObj
     [(''id'', JStr (bd_id a)), (''address_type'', JStr (bd_address_type a)), (''address'', JDict (bd_address_json a)),
      (''verification_status'', JStr (bd_verification_status a)), (''effective_from'', JStr (date_iso (bd_effective_from a))),
      (''effective_to'', JDate (bd_effective_to a)), (''source_hash'', JStr (bd_source_hash a)), (''record_version'', JInt (bd_record_version a))]"

definition person_projection :: "business_person \<Rightarrow> json" where
  "person_projection p = JObj
     [(''id'', JStr (bp_id p)), (''person_token'', JStr (bp_person_token p)), (''display_name'', JStr (bp_display_name p)),
      (''role'', JStr (bp_role p)), (''appointment_date'', JStr (date_iso (bp_appointment_date p))),
      (''cessation_date'', JDate (bp_cessation_date p)), (''authorization_status'', JStr (bp_authorization_status p)),
      (''verification_status'', JStr (bp_verification_status p)), (''source_hash'', JStr (bp_source_hash p)), (''version'', JInt (bp_version p))]"

definition ownership_projection :: "ownership_link \<Rightarrow> json" where
  "ownership_projection w = JObj
     [(''id'', JStr (ow_id w)), (''owner_type'', JStr (ow_owner_type w)), (''owner_token'', JStr (ow_owner_token w)),
      (''owner_display_name'', JStr (ow_owner_display_name w)), (''ownership_percentage'', JStr (units_str 2 (ow_ownership_percentage w))),
      (''effective_from'', JStr (date_iso (ow_effective_from w))), (''effective_to'', JDate (ow_effective_to w)),
      (''verification_status'', JStr (ow_verification_status w)), (''source_hash'', JStr (ow_source_hash w)), (''version'', JInt (ow_version w))]"

definition relationship_projection :: "business_relationship \<Rightarrow> dict" where
  "relationship_projection r =
     [(''id'', JStr (rl_id r)), (''source_business_id'', JStr (rl_source_business_id r)),
      (''target_business_id'', JStr (rl_target_business_id r)), (''relationship_type'', JStr (rl_relationship_type r)),
      (''status'', JStr (rl_status r)), (''effective_from'', JStr (date_iso (rl_effective_from r))),
      (''effective_to'', JDate (rl_effective_to r)), (''evidence_hash'', JStr (rl_evidence_hash r)), (''version'', JInt (rl_version r))]"

text \<open>\<open>model_dump(exclude_none=True)\<close>: the fields that are given, in the order of the contract.\<close>

definition patch_dict :: "identity_patch \<Rightarrow> dict" where
  "patch_dict p =
     List.map_filter id
       [map_option (\<lambda>v. (''legal_name'', JStr v)) (ip_legal_name p), map_option (\<lambda>v. (''trade_name'', JStr v)) (ip_trade_name p),
        map_option (\<lambda>v. (''registered_address'', JDict v)) (ip_registered_address p),
        map_option (\<lambda>v. (''industry_code'', JStr v)) (ip_industry_code p),
        map_option (\<lambda>v. (''msme_classification'', JStr v)) (ip_msme_classification p),
        map_option (\<lambda>v. (''primary_gstin'', JStr v)) (ip_primary_gstin p)]"

definition change_projection :: "time option \<Rightarrow> identity_change \<Rightarrow> dict" where
  "change_projection created_at c =
     [(''id'', JStr (ch_id c)), (''business_id'', JStr (ch_business_id c)), (''target_version'', JInt (ch_target_version c)),
      (''requested_patch'', JObj (patch_dict (ch_requested_patch c))), (''reason'', JStr (ch_reason c)), (''status'', JStr (ch_status c)),
      (''requested_by'', JStr (ch_requested_by c)), (''reviewed_by'', JOpt (ch_reviewed_by c)),
      (''decision_reason'', JOpt (ch_decision_reason c)),
      (''applied_version'', case ch_applied_version c of None \<Rightarrow> JNull | Some v \<Rightarrow> JInt v),
      (''created_at'', JOpt (map_option iso_utc created_at)), (''decided_at'', JOpt (map_option iso_utc (ch_decided_at c)))]"

definition audit_projection :: "registry_audit \<Rightarrow> json" where
  "audit_projection a = JObj
     [(''id'', JStr (ra_id a)), (''event_type'', JStr (ra_event_type a)), (''aggregate_type'', JStr (ra_aggregate_type a)),
      (''aggregate_id'', JStr (ra_aggregate_id a)), (''version'', JInt (ra_aggregate_version a)), (''actor_type'', JStr (ra_actor_type a)),
      (''actor_id'', JStr (ra_actor_id a)), (''reason'', JOpt (ra_reason a)), (''metadata'', JObj (ra_metadata a)),
      (''occurred_at'', JStr (iso_utc (ra_occurred_at a)))]"

section \<open>Shared steps\<close>

text \<open>A record answers to its id, business id, registry number and GSTIN.\<close>

definition answers_to :: "string \<Rightarrow> string \<Rightarrow> business \<Rightarrow> bool" where
  "answers_to tenant_id identifier b \<longleftrightarrow> bz_tenant_id b = tenant_id \<and>
     (bz_id b = identifier \<or> bz_business_id b = identifier \<or> bz_registry_number b = identifier \<or>
      bz_primary_gstin b = Some (py_upper identifier))"

definition find_business :: "business_env \<Rightarrow> business_db \<Rightarrow> string \<Rightarrow> string \<Rightarrow> business_error + business" where
  "find_business env db tenant_id identifier =
     (case scalars (answers_to tenant_id identifier) (businesses db) of
        [] \<Rightarrow> Inl (BusinessNotFoundError ''Business record was not found in the tenant scope.'')
      | rows \<Rightarrow> Inr (rows ! (bnv_pick env mod length rows)))"

definition identity_hash :: "business \<Rightarrow> string" where
  "identity_hash b = registry_hash (JObj
     [(''id'', JStr (bz_id b)), (''tenant_id'', JStr (bz_tenant_id b)), (''business_id'', JStr (bz_business_id b)),
      (''registry_number'', JStr (bz_registry_number b)), (''business_type'', JStr (bz_business_type b)),
      (''legal_name'', JStr (bz_legal_name b)), (''trade_name'', JOpt (bz_trade_name b)),
      (''incorporation_date'', JStr (date_iso (bz_incorporation_date b))), (''status'', JStr (bz_status b)),
      (''registered_state_code'', JStr (bz_registered_state_code b)), (''registered_address'', JDict (bz_registered_address b)),
      (''industry_code'', JOpt (bz_industry_code b)), (''msme_classification'', JOpt (bz_msme_classification b)),
      (''primary_gstin'', JOpt (bz_primary_gstin b)), (''risk_flags'', JStrList (bz_risk_flags b)), (''version'', JInt (bz_version b))])"

text \<open>The row as an \<open>UPDATE\<close> stores it: \<open>onupdate\<close> sets the time.\<close>

definition store_business :: "business_env \<Rightarrow> business \<Rightarrow> business_db \<Rightarrow> business_db" where
  "store_business env b db =
     db\<lparr>businesses := update_rows (\<lambda>x. bz_id x = bz_id b) (\<lambda>_. b\<lparr>bz_updated_at := bnv_now env\<rparr>) (businesses db)\<rparr>"

definition store_change :: "identity_change \<Rightarrow> business_db \<Rightarrow> business_db" where
  "store_change c db = db\<lparr>identity_changes := update_rows (\<lambda>x. ch_id x = ch_id c) (\<lambda>_. c) (identity_changes db)\<rparr>"

section \<open>Intake and review\<close>

definition create_address :: "business_create \<Rightarrow> str_dict" where
  "create_address b =
     [(''line1'', bq_address_line1 b), (''city'', bq_city b), (''state_code'', bq_registered_state_code b),
      (''postal_code'', bq_postal_code b), (''country'', ''IN'')]"

definition create_dump :: "business_create \<Rightarrow> json" where
  "create_dump b = JObj
     [(''registry_number'', JStr (bq_registry_number b)), (''business_id'', JStr (bq_business_id b)),
      (''business_type'', JStr (bq_business_type b)), (''legal_name'', JStr (bq_legal_name b)), (''trade_name'', JOpt (bq_trade_name b)),
      (''incorporation_date'', JStr (date_iso (bq_incorporation_date b))), (''registered_state_code'', JStr (bq_registered_state_code b)),
      (''address_line1'', JStr (bq_address_line1 b)), (''city'', JStr (bq_city b)), (''postal_code'', JStr (bq_postal_code b)),
      (''industry_code'', JOpt (bq_industry_code b)), (''msme_classification'', JOpt (bq_msme_classification b)),
      (''primary_gstin'', JOpt (bq_primary_gstin b))]"

definition new_business :: "business_env \<Rightarrow> browser_scope \<Rightarrow> business_create \<Rightarrow> business" where
  "new_business env scope b =
     \<lparr>bz_id = uuid_str (bnv_uuid env 0), bz_tenant_id = bs_tenant scope, bz_business_id = bq_business_id b,
      bz_registry_number = bq_registry_number b, bz_business_type = bq_business_type b, bz_legal_name = bq_legal_name b,
      bz_trade_name = bq_trade_name b, bz_incorporation_date = bq_incorporation_date b, bz_status = ''PENDING_REVIEW'',
      bz_registered_state_code = bq_registered_state_code b, bz_registered_address = create_address b,
      bz_industry_code = bq_industry_code b, bz_msme_classification = bq_msme_classification b, bz_primary_gstin = bq_primary_gstin b,
      bz_pan_token = Some (''pan_demo_'' @ take 10 (bnv_uuid env 1)), bz_risk_flags = [''PENDING_IDENTITY_REVIEW''],
      bz_source_hash = registry_hash (create_dump b), bz_version = 1, bz_created_by = us_id (bs_user scope),
      bz_updated_by = us_id (bs_user scope), bz_created_at = bnv_now env, bz_updated_at = bnv_now env\<rparr>"

definition add_name :: "business_env \<Rightarrow> nat \<Rightarrow> int \<Rightarrow> business \<Rightarrow> business_db \<Rightarrow> business_db" where
  "add_name env k effective_from b db =
     db\<lparr>business_names := business_names db @
       [\<lparr>nm_id = uuid_str (bnv_uuid env k), nm_tenant_id = bz_tenant_id b, nm_business_id = bz_id b, nm_name_type = ''LEGAL'',
         nm_name = bz_legal_name b, nm_effective_from = effective_from, nm_effective_to = None,
         nm_source_hash = registry_hash (JStr (bz_legal_name b)), nm_record_version = bz_version b\<rparr>]\<rparr>"

definition add_address :: "business_env \<Rightarrow> nat \<Rightarrow> string \<Rightarrow> int \<Rightarrow> business \<Rightarrow> business_db \<Rightarrow> business_db" where
  "add_address env k verification_status effective_from b db =
     db\<lparr>business_addresses := business_addresses db @
       [\<lparr>bd_id = uuid_str (bnv_uuid env k), bd_tenant_id = bz_tenant_id b, bd_business_id = bz_id b, bd_address_type = ''REGISTERED'',
         bd_address_json = bz_registered_address b, bd_verification_status = verification_status, bd_effective_from = effective_from,
         bd_effective_to = None, bd_source_hash = registry_hash (JDict (bz_registered_address b)), bd_record_version = bz_version b\<rparr>]\<rparr>"

definition registry_today :: "business_env \<Rightarrow> int" where
  "registry_today env = bnv_now env div days 1"

definition create_business :: "business_env \<Rightarrow> browser_scope \<Rightarrow> business_create \<Rightarrow> json business_op" where
  "create_business env scope b db =
     sum_bind (scope_roles scope [''REGISTRY_OPERATOR'']) (\<lambda>_.
     if registry_today env < bq_incorporation_date b then Inl (BusinessDomainError ''Incorporation date cannot be in the future.'')
     else if \<exists>x\<in>set (businesses db). bz_tenant_id x = bs_tenant scope \<and>
            (bz_registry_number x = bq_registry_number b \<or> bz_business_id x = bq_business_id b)
     then Inl (BusinessConflictError ''The registry number or business ID already exists.'')
     else
       let x = new_business env scope b; db1 = db\<lparr>businesses := businesses db @ [x]\<rparr>;
           db2 = add_address env 3 ''PENDING'' (bz_incorporation_date x) x (add_name env 2 (bz_incorporation_date x) x db1)
       in Inr (record_registry_change env 4 (bs_tenant scope) ''BUSINESS'' (bz_id x) 1 ''business.created'' ''USER''
                 (us_id (bs_user scope)) (Some ''New synthetic business submitted for review'') [] db2, JObj (business_projection x)))"

definition allowed_transitions :: "string \<Rightarrow> string set" where
  "allowed_transitions status =
     (if status = ''PENDING_REVIEW'' then {''ACTIVE'', ''REJECTED''}
      else if status = ''ACTIVE'' then {''SUSPENDED'', ''DISSOLVED''}
      else if status = ''SUSPENDED'' then {''ACTIVE'', ''DISSOLVED''} else {})"

definition review_flags :: "string \<Rightarrow> string list \<Rightarrow> string list" where
  "review_flags target flags =
     (let kept = filter (\<lambda>f. f \<noteq> ''PENDING_IDENTITY_REVIEW'') flags in
      if target \<in> {''SUSPENDED'', ''DISSOLVED'', ''REJECTED''} then sort (remdups (kept @ [''REGISTRY_'' @ target])) else kept)"

text \<open>The common end of a change of a row: its next version, who made it, and the hash of the result.\<close>

definition next_version :: "string \<Rightarrow> business \<Rightarrow> business" where
  "next_version user_id b =
     (let b' = b\<lparr>bz_version := bz_version b + 1, bz_updated_by := user_id\<rparr> in b'\<lparr>bz_source_hash := identity_hash b'\<rparr>)"

definition reviewed :: "string \<Rightarrow> string \<Rightarrow> business \<Rightarrow> business" where
  "reviewed user_id target b =
     next_version user_id (b\<lparr>bz_status := target, bz_risk_flags := review_flags target (bz_risk_flags b)\<rparr>)"

definition transition_event :: "string \<Rightarrow> string" where
  "transition_event target = (if target = ''ACTIVE'' then ''business.activated'' else ''business.'' @ py_lower target)"

definition transition_status :: "business_env \<Rightarrow> browser_scope \<Rightarrow> string \<Rightarrow> status_transition \<Rightarrow> int \<Rightarrow> json business_op" where
  "transition_status env scope business_id r expected_version db =
     sum_bind (scope_roles scope [''REGISTRY_REVIEWER'']) (\<lambda>_.
     sum_bind (find_business env db (bs_tenant scope) business_id) (\<lambda>b.
     if bz_version b \<noteq> expected_version then Inl (BusinessConflictError ''The business record changed. Reload it before review.'')
     else if st_target_status r \<notin> allowed_transitions (bz_status b)
     then Inl (BusinessConflictError (''A '' @ bz_status b @ '' record cannot move to '' @ st_target_status r @ ''.''))
     else
       let b' = reviewed (us_id (bs_user scope)) (st_target_status r) b
       in Inr (record_registry_change env 0 (bs_tenant scope) ''BUSINESS'' (bz_id b) (bz_version b') (transition_event (st_target_status r))
                 ''USER'' (us_id (bs_user scope)) (Some (st_reason r))
                 [(''prior_status'', JStr (bz_status b)), (''new_status'', JStr (st_target_status r))] (store_business env b' db),
               JObj (business_projection b'))))"

section \<open>Changes of identity\<close>

definition empty_patch :: "identity_patch \<Rightarrow> bool" where
  "empty_patch p \<longleftrightarrow> patch_dict p = []"

definition address_fields :: "string list" where
  "address_fields = [''line1'', ''city'', ''state_code'', ''postal_code'', ''country'']"

definition new_change :: "business_env \<Rightarrow> browser_scope \<Rightarrow> business \<Rightarrow> change_create \<Rightarrow> identity_change" where
  "new_change env scope b r =
     \<lparr>ch_id = uuid_str (bnv_uuid env 0), ch_tenant_id = bs_tenant scope, ch_business_id = bz_id b, ch_target_version = bz_version b,
      ch_requested_patch = cc_patch r, ch_reason = cc_reason r, ch_status = ''SUBMITTED'', ch_requested_by = us_id (bs_user scope),
      ch_reviewed_by = None, ch_decision_reason = None, ch_applied_version = None, ch_created_at = bnv_now env, ch_decided_at = None\<rparr>"

definition create_change_request :: "business_env \<Rightarrow> browser_scope \<Rightarrow> string \<Rightarrow> change_create \<Rightarrow> json business_op" where
  "create_change_request env scope business_id r db =
     sum_bind (scope_roles scope [''REGISTRY_OPERATOR'']) (\<lambda>_.
     sum_bind (find_business env db (bs_tenant scope) business_id) (\<lambda>b.
     if bz_status b \<notin> {''ACTIVE'', ''SUSPENDED''}
     then Inl (BusinessConflictError ''Changes can only be proposed for active or suspended records.'')
     else if cc_target_version r \<noteq> bz_version b then Inl (BusinessConflictError ''The target business version is stale.'')
     else if empty_patch (cc_patch r) then Inl (BusinessDomainError ''At least one identity field must be proposed.'')
     else if \<not> if_given (\<lambda>a. set address_fields \<subseteq> fst ` set a) (ip_registered_address (cc_patch r))
     then Inl (BusinessDomainError ''The proposed registered address is incomplete.'')
     else
       let c = new_change env scope b r
       in Inr (record_registry_change env 1 (bs_tenant scope) ''CHANGE_REQUEST'' (ch_id c) 1 ''business.change_submitted'' ''USER''
                 (us_id (bs_user scope)) (Some (cc_reason r)) [(''business_id'', JStr (bz_id b))]
                 (db\<lparr>identity_changes := identity_changes db @ [c]\<rparr>), JObj (change_projection None c))))"

definition or_else :: "'a option \<Rightarrow> 'a \<Rightarrow> 'a" where
  "or_else v d = (case v of Some x \<Rightarrow> x | None \<Rightarrow> d)"

text \<open>The fields of a patch on the row; \<open>state_code\<close> is present in every address that was proposed.\<close>

definition patched :: "identity_patch \<Rightarrow> business \<Rightarrow> business" where
  "patched p b =
     b\<lparr>bz_legal_name := or_else (ip_legal_name p) (bz_legal_name b),
       bz_trade_name := (if ip_trade_name p = None then bz_trade_name b else ip_trade_name p),
       bz_industry_code := (if ip_industry_code p = None then bz_industry_code b else ip_industry_code p),
       bz_msme_classification := (if ip_msme_classification p = None then bz_msme_classification b else ip_msme_classification p),
       bz_primary_gstin := (if ip_primary_gstin p = None then bz_primary_gstin b else ip_primary_gstin p),
       bz_registered_address := or_else (ip_registered_address p) (bz_registered_address b),
       bz_registered_state_code := (case ip_registered_address p of None \<Rightarrow> bz_registered_state_code b
          | Some a \<Rightarrow> or_else (map_of a ''state_code'') [])\<rparr>"

definition decided :: "business_env \<Rightarrow> browser_scope \<Rightarrow> bool \<Rightarrow> string \<Rightarrow> int option \<Rightarrow> identity_change \<Rightarrow> identity_change" where
  "decided env scope approve decision_reason applied c =
     c\<lparr>ch_status := (if approve then ''APPROVED'' else ''REJECTED''), ch_reviewed_by := Some (us_id (bs_user scope)),
       ch_decision_reason := Some decision_reason, ch_decided_at := Some (bnv_now env), ch_applied_version := applied\<rparr>"

text \<open>The history rows of an approved change: they draw one uuid each.\<close>

definition add_history :: "business_env \<Rightarrow> identity_patch \<Rightarrow> business \<Rightarrow> business \<Rightarrow> business_db \<Rightarrow> nat \<times> business_db" where
  "add_history env p b b' db =
     (let (k, db1) = (if bz_legal_name b' \<noteq> bz_legal_name b then (1, add_name env 0 (registry_today env) b' db) else (0, db))
      in if ip_registered_address p = None then (k, db1)
         else (k + 1, add_address env k ''VERIFIED'' (registry_today env) b' db1))"

definition gstin_taken :: "business_db \<Rightarrow> business \<Rightarrow> identity_patch \<Rightarrow> bool" where
  "gstin_taken db b p \<longleftrightarrow> ip_primary_gstin p \<noteq> None \<and>
     (\<exists>x\<in>set (businesses db). bz_tenant_id x = bz_tenant_id b \<and> bz_primary_gstin x = ip_primary_gstin p \<and> bz_id x \<noteq> bz_id b)"

definition decide_change :: "business_env \<Rightarrow> browser_scope \<Rightarrow> string \<Rightarrow> bool \<Rightarrow> string \<Rightarrow> json business_op" where
  "decide_change env scope change_id approve decision_reason db =
     sum_bind (scope_roles scope [''REGISTRY_REVIEWER'']) (\<lambda>_.
     sum_bind (found (BusinessNotFoundError ''Change request was not found.'')
       (scalar (\<lambda>c. ch_id c = change_id \<and> ch_tenant_id c = bs_tenant scope) (identity_changes db))) (\<lambda>c.
     if ch_status c \<noteq> ''SUBMITTED'' then Inl (BusinessConflictError ''Only a submitted change request can be decided.'')
     else sum_bind (find_business env db (bs_tenant scope) (ch_business_id c)) (\<lambda>b.
     if approve \<and> bz_version b \<noteq> ch_target_version c
     then Inl (BusinessConflictError ''The business changed after this request was submitted.'')
     else if approve \<and> gstin_taken db b (ch_requested_patch c)
     then Inl (BusinessConflictError ''The proposed GSTIN belongs to another business record.'')
     else if approve then
       let b' = next_version (us_id (bs_user scope)) (patched (ch_requested_patch c) b);
           c' = decided env scope True decision_reason (Some (bz_version b')) c;
           (k, db1) = add_history env (ch_requested_patch c) b b' (store_business env b' (store_change c' db))
       in Inr (record_registry_change env k (bs_tenant scope) ''BUSINESS'' (bz_id b) (bz_version b') ''business.updated'' ''USER''
                 (us_id (bs_user scope)) (Some decision_reason) [(''change_request_id'', JStr (ch_id c))] db1,
               JObj (change_projection (Some (ch_created_at c)) c'))
     else
       let c' = decided env scope False decision_reason (ch_applied_version c) c
       in Inr (record_registry_change env 0 (bs_tenant scope) ''BUSINESS'' (bz_id b) (bz_version b) ''business.change_rejected'' ''USER''
                 (us_id (bs_user scope)) (Some decision_reason) [(''change_request_id'', JStr (ch_id c))] (store_change c' db),
               JObj (change_projection (Some (ch_created_at c)) c')))))"

section \<open>Reads\<close>

definition session_view :: "browser_scope \<Rightarrow> dict" where
  "session_view scope =
     [(''user'', JObj [(''id'', JStr (us_id (bs_user scope))), (''display_name'', JStr (us_display_name (bs_user scope))),
        (''email'', JStr (us_email (bs_user scope)))]),
      (''tenant_id'', JStr (bs_tenant scope)), (''roles'', JStrList (sort (remdups (us_roles (bs_user scope))))),
      (''environment'', JStr ''SYNTHETIC_NON_PRODUCTION'')]"

definition count_by :: "(business \<Rightarrow> string) \<Rightarrow> business list \<Rightarrow> json" where
  "count_by f bs = JObj (map (\<lambda>(s, n). (s, JInt n)) (foldl count_status [] (map f bs)))"

definition registry_dashboard :: "business_db \<Rightarrow> string \<Rightarrow> json" where
  "registry_dashboard db tenant_id =
     (let bs = scalars (\<lambda>b. bz_tenant_id b = tenant_id) (businesses db) in JObj
      [(''status_counts'', count_by bz_status bs), (''type_counts'', count_by bz_business_type bs),
       (''pending_changes'', JInt (int (length (scalars (\<lambda>c. ch_tenant_id c = tenant_id \<and> ch_status c = ''SUBMITTED'') (identity_changes db))))),
       (''flagged_businesses'', JInt (int (length (filter (\<lambda>b. bz_risk_flags b \<noteq> []) bs)))),
       (''recent_businesses'', JList (map (JObj \<circ> business_summary) (take 6 (sort_key (\<lambda>b. - bz_updated_at b) bs))))])"

definition matches_query :: "string \<Rightarrow> business \<Rightarrow> bool" where
  "matches_query query b =
     (let ilike = (\<lambda>s. sql_contains (py_lower (py_strip query)) (py_lower s));
          ilike_opt = (\<lambda>v. case v of None \<Rightarrow> False | Some s \<Rightarrow> ilike s)
      in ilike (bz_registry_number b) \<or> ilike (bz_business_id b) \<or> ilike (bz_legal_name b) \<or> ilike_opt (bz_trade_name b) \<or>
         ilike_opt (bz_primary_gstin b))"

definition list_businesses :: "business_db \<Rightarrow> string \<Rightarrow> string option \<Rightarrow> string option \<Rightarrow> string option \<Rightarrow> json" where
  "list_businesses db tenant_id query status business_type =
     JList (map (JObj \<circ> business_summary) (take 100 (sort_key bz_legal_name (scalars (\<lambda>b. bz_tenant_id b = tenant_id \<and>
       (filled query \<longrightarrow> matches_query (the query) b) \<and> (filled status \<longrightarrow> bz_status b = py_upper (the status)) \<and>
       (filled business_type \<longrightarrow> bz_business_type b = py_upper (the business_type))) (businesses db)))))"

definition ownership_of :: "business_db \<Rightarrow> string \<Rightarrow> string \<Rightarrow> ownership_link list" where
  "ownership_of db tenant_id business_id =
     sort_key (\<lambda>w. - ow_ownership_percentage w) (scalars (\<lambda>w. ow_tenant_id w = tenant_id \<and> ow_business_id w = business_id) (ownership_links db))"

definition relationship_rows ::
    "business_db \<Rightarrow> (business_relationship \<Rightarrow> bool) \<Rightarrow> (business_relationship \<times> business \<times> business) list" where
  "relationship_rows db p =
     sort_key (\<lambda>(r, s, t). [bz_legal_name s, bz_legal_name t])
       (filter (\<lambda>(r, s, t). bz_id s = rl_source_business_id r \<and> bz_id t = rl_target_business_id r)
         (List.product (scalars p (business_relationships db)) (List.product (businesses db) (businesses db))))"

definition relationship_view :: "business_relationship \<times> business \<times> business \<Rightarrow> json" where
  "relationship_view = (\<lambda>(r, s, t). JObj (relationship_projection r @
     [(''source_business'', JObj (business_summary s)), (''target_business'', JObj (business_summary t))]))"

definition relationships_of :: "business_db \<Rightarrow> string \<Rightarrow> string \<Rightarrow> (business_relationship \<times> business \<times> business) list" where
  "relationships_of db tenant_id business_id =
     relationship_rows db (\<lambda>r. rl_tenant_id r = tenant_id \<and> (rl_source_business_id r = business_id \<or> rl_target_business_id r = business_id))"

definition all_relationships :: "business_db \<Rightarrow> string \<Rightarrow> json" where
  "all_relationships db tenant_id = JList (map relationship_view (relationship_rows db (\<lambda>r. rl_tenant_id r = tenant_id)))"

definition people_of :: "business_db \<Rightarrow> string \<Rightarrow> string \<Rightarrow> (business_person \<Rightarrow> bool) \<Rightarrow> business_person list" where
  "people_of db tenant_id business_id p =
     sort_key bp_display_name (scalars (\<lambda>x. bp_tenant_id x = tenant_id \<and> bp_business_id x = business_id \<and> p x) (business_people db))"

definition authorized_persons :: "business_db \<Rightarrow> string \<Rightarrow> string \<Rightarrow> business_person list" where
  "authorized_persons db tenant_id business_id = people_of db tenant_id business_id (\<lambda>x. bp_authorization_status x = ''ACTIVE'')"

definition get_business :: "business_env \<Rightarrow> business_db \<Rightarrow> string \<Rightarrow> string \<Rightarrow> business_error + business \<times> dict" where
  "get_business env db tenant_id business_id =
     sum_bind (find_business env db tenant_id business_id) (\<lambda>b. Inr (b, business_projection b @
       [(''names'', JList (map name_projection (sort_key (\<lambda>n. - nm_effective_from n)
           (scalars (\<lambda>n. nm_tenant_id n = tenant_id \<and> nm_business_id n = bz_id b) (business_names db))))),
        (''addresses'', JList (map address_projection (sort_key (\<lambda>a. - bd_effective_from a)
           (scalars (\<lambda>a. bd_tenant_id a = tenant_id \<and> bd_business_id a = bz_id b) (business_addresses db))))),
        (''authorized_persons'', JList (map person_projection (people_of db tenant_id (bz_id b) (\<lambda>_. True)))),
        (''ownership'', JList (map ownership_projection (ownership_of db tenant_id (bz_id b)))),
        (''relationships'', JList (map relationship_view (relationships_of db tenant_id (bz_id b)))),
        (''change_requests'', JList (map (\<lambda>c. JObj (change_projection (Some (ch_created_at c)) c)) (sort_key (\<lambda>c. - ch_created_at c)
           (scalars (\<lambda>c. ch_tenant_id c = tenant_id \<and> ch_business_id c = bz_id b) (identity_changes db)))))]))"

definition list_changes :: "business_db \<Rightarrow> string \<Rightarrow> string option \<Rightarrow> json" where
  "list_changes db tenant_id status =
     JList (map (\<lambda>(c, b). JObj (change_projection (Some (ch_created_at c)) c @ [(''business'', JObj (business_summary b))]))
       (sort_key (\<lambda>(c, b). - ch_created_at c)
         (filter (\<lambda>(c, b). bz_id b = ch_business_id c \<and> ch_tenant_id c = tenant_id \<and>
             (filled status \<longrightarrow> ch_status c = py_upper (the status)))
           (List.product (identity_changes db) (businesses db)))))"

definition registry_audit_list :: "business_db \<Rightarrow> string \<Rightarrow> json" where
  "registry_audit_list db tenant_id =
     JList (map audit_projection (take 150 (sort_key (\<lambda>a. - ra_occurred_at a)
       (scalars (\<lambda>a. ra_tenant_id a = tenant_id) (registry_audits db)))))"

end
