(* ===== verification/BusinessApp.thy ===== *)
theory BusinessApp
  imports BusinessService
begin

text \<open>
  The front doors of the business registry: the browser routes (main.py) behind the session cookie
  and the form token, and the six MCP tools (mcp_server.py, mcp_service.py) behind the bearer token
  and the signed runtime scope (mcp_security.py). \<open>business_step\<close> serves one request in one session.
  The pages, the health checks and the polling loop of the event stream are left out; one poll of
  the stream is \<open>poll_events\<close>.
\<close>

section \<open>Routes\<close>

datatype business_route =
    Login login_request
  | CurrentSession
  | Logout
  | RegistryDashboard
  | BusinessList "string option" "string option" "string option"
  | CreateBusiness business_create
  | BusinessPage string
  | TransitionBusiness string "string option" status_transition
  | ProposeChange string change_create
  | ChangeList "string option"
  | DecideChange string string string
  | OwnershipPage string
  | RelationshipPage string
  | AllRelationships
  | RegistryAudit

datatype business_answer =
    SignedIn string string
  | SignedOut
  | BusinessJson json

text \<open>The version of the \<open>If-Match\<close> header.\<close>

definition match_version :: "string option \<Rightarrow> business_error + int" where
  "match_version header =
     (case header of
        None \<Rightarrow> Inl (BusinessHTTPError 428 ''A numeric If-Match version is required.'')
      | Some s \<Rightarrow>
          if s = [] \<or> \<not> list_all py_isdigit s then Inl (BusinessHTTPError 428 ''A numeric If-Match version is required.'')
          else if \<not> list_all is_digit s then Inl BusinessValueError else Inr (int (str_nat s)))"

text \<open>A route that reads, and one that changes, in the scope of the browser session.\<close>

definition browsing :: "business_env \<Rightarrow> string option \<Rightarrow> (browser_scope \<Rightarrow> 'a business_op) \<Rightarrow> 'a business_op" where
  "browsing env token f db = sum_bind (resolve_browser_scope env token db) (\<lambda>(db1, scope). f scope db1)"

definition guarded :: "business_env \<Rightarrow> string option \<Rightarrow> string option \<Rightarrow> (browser_scope \<Rightarrow> 'a business_op) \<Rightarrow> 'a business_op" where
  "guarded env token csrf f =
     browsing env token (\<lambda>scope db. sum_bind (verify_csrf scope csrf) (\<lambda>_. f scope db))"

definition as_json :: "json business_op \<Rightarrow> business_answer business_op" where
  "as_json body db = sum_bind (body db) (\<lambda>(db', v). Inr (db', BusinessJson v))"

definition reading :: "(business_db \<Rightarrow> business_error + json) \<Rightarrow> business_answer business_op" where
  "reading f db = sum_bind (f db) (\<lambda>v. Inr (db, BusinessJson v))"

fun business_route_op :: "business_env \<Rightarrow> string option \<Rightarrow> string option \<Rightarrow> business_route \<Rightarrow> business_answer business_op" where
  "business_route_op env token csrf (Login body) db =
     sum_bind (valid_login body) (\<lambda>b. sum_bind (authenticate_user env db (lq_email b) (lq_password b)) (\<lambda>u.
       sum_bind (create_browser_session env u db) (\<lambda>(db', raw, form). Inr (db', SignedIn raw form))))"
| "business_route_op env token csrf CurrentSession db =
     browsing env token (\<lambda>scope db1. sum_bind (rotate_csrf env scope db1) (\<lambda>(db2, form).
       Inr (db2, BusinessJson (JObj (session_view scope @ [(''csrf_token'', JStr form)]))))) db"
| "business_route_op env token csrf Logout db =
     guarded env token csrf (\<lambda>scope db1.
       Inr (db1\<lparr>browser_sessions := filter (\<lambda>s. ss_id s \<noteq> ss_id (bs_session scope)) (browser_sessions db1)\<rparr>, SignedOut)) db"
| "business_route_op env token csrf RegistryDashboard db =
     browsing env token (\<lambda>scope. reading (\<lambda>d. Inr (registry_dashboard d (bs_tenant scope)))) db"
| "business_route_op env token csrf (BusinessList query status business_type) db =
     browsing env token (\<lambda>scope. reading (\<lambda>d. Inr (list_businesses d (bs_tenant scope) query status business_type))) db"
| "business_route_op env token csrf (CreateBusiness body) db =
     sum_bind (valid_business body) (\<lambda>b. guarded env token csrf (\<lambda>scope. as_json (create_business env scope b)) db)"
| "business_route_op env token csrf (BusinessPage i) db =
     browsing env token (\<lambda>scope. reading (\<lambda>d. sum_bind (get_business env d (bs_tenant scope) i) (\<lambda>(b, v). Inr (JObj v)))) db"
| "business_route_op env token csrf (TransitionBusiness i if_match body) db =
     sum_bind (valid_status_transition body) (\<lambda>r. sum_bind (match_version if_match) (\<lambda>version.
       guarded env token csrf (\<lambda>scope. as_json (transition_status env scope i r version)) db))"
| "business_route_op env token csrf (ProposeChange i body) db =
     sum_bind (valid_change body) (\<lambda>r. guarded env token csrf (\<lambda>scope. as_json (create_change_request env scope i r)) db)"
| "business_route_op env token csrf (ChangeList status) db =
     browsing env token (\<lambda>scope. reading (\<lambda>d. Inr (list_changes d (bs_tenant scope) status))) db"
| "business_route_op env token csrf (DecideChange i decision reason) db =
     sum_bind (valid_decision reason) (\<lambda>r.
       if decision \<notin> {''approve'', ''reject''} then Inl (BusinessDomainError ''Decision must be approve or reject.'')
       else guarded env token csrf (\<lambda>scope. as_json (decide_change env scope i (decision = ''approve'') r)) db)"
| "business_route_op env token csrf (OwnershipPage i) db =
     browsing env token (\<lambda>scope. reading (\<lambda>d. sum_bind (find_business env d (bs_tenant scope) i) (\<lambda>b.
       Inr (JList (map ownership_projection (ownership_of d (bs_tenant scope) (bz_id b))))))) db"
| "business_route_op env token csrf (RelationshipPage i) db =
     browsing env token (\<lambda>scope. reading (\<lambda>d. sum_bind (find_business env d (bs_tenant scope) i) (\<lambda>b.
       Inr (JList (map relationship_view (relationships_of d (bs_tenant scope) (bz_id b))))))) db"
| "business_route_op env token csrf AllRelationships db =
     browsing env token (\<lambda>scope. reading (\<lambda>d. Inr (all_relationships d (bs_tenant scope)))) db"
| "business_route_op env token csrf RegistryAudit db =
     browsing env token (\<lambda>scope. reading (\<lambda>d. Inr (registry_audit_list d (bs_tenant scope)))) db"

text \<open>One poll of the event stream: at most twenty outbox rows after the cursor, and the next cursor.\<close>

definition poll_events :: "business_db \<Rightarrow> string \<Rightarrow> time \<Rightarrow> registry_outbox list \<times> time" where
  "poll_events db tenant_id cursor =
     (let values = take 20 (sort_key bo_created_at
            (scalars (\<lambda>v. bo_tenant_id v = tenant_id \<and> cursor < bo_created_at v) (registry_outboxes db)))
      in (values, fold max (map bo_created_at values) cursor))"

section \<open>Tools\<close>

definition registry_verify_runtime_scope :: "string \<Rightarrow> dict \<Rightarrow> string \<Rightarrow> scope_error + runtime_scope" where
  "registry_verify_runtime_scope secret meta expected_tool =
     (case verified_envelope ''Unsupported runtime signature algorithm.''
         ''Xyena runtime scope signature is invalid.'' secret meta of
        Inl e \<Rightarrow> Inl e
      | Inr envelope \<Rightarrow>
          if \<not> has_fields scope_fields envelope
          then Inl (SecurityError ''Xyena runtime scope is incomplete.'')
          else if dict_get envelope ''canonical_name'' \<noteq> JStr expected_tool
          then Inl (SecurityError ''Runtime tool name does not match this handler.'')
          else if py_strip (py_str (dict_get envelope ''purpose'')) = []
          then Inl (SecurityError ''A signed purpose is required.'')
          else Inr (make_scope envelope))"

datatype business_tool =
    BusinessesGet string
  | BusinessesVerify string "string option" "string option" "string option"
  | BusinessesSearch string "string option" int
  | OwnershipGet string
  | RelationshipsGet string
  | AuthorizedPersonsGet string

fun business_tool_name :: "business_tool \<Rightarrow> string" where
  "business_tool_name (BusinessesGet _) = ''businesses.get''"
| "business_tool_name (BusinessesVerify _ _ _ _) = ''businesses.verify''"
| "business_tool_name (BusinessesSearch _ _ _) = ''businesses.search''"
| "business_tool_name (OwnershipGet _) = ''ownership.get''"
| "business_tool_name (RelationshipsGet _) = ''relationships.get''"
| "business_tool_name (AuthorizedPersonsGet _) = ''authorized_persons.get''"

definition wrap_body :: "business_env \<Rightarrow> runtime_scope \<Rightarrow> string \<Rightarrow> json \<Rightarrow> int \<Rightarrow> time \<Rightarrow> dict" where
  "wrap_body env scope schema_version data record_version updated_at =
     [(''schema_version'', JStr schema_version), (''source_system'', JStr ''xyena-demo-business-registry''),
      (''request_id'', JStr (sc_call_id scope)), (''record_version'', JInt record_version), (''updated_at'', JStr (iso_utc updated_at)),
      (''retrieved_at'', JStr (iso_utc (bnv_now env))), (''fresh_until'', JStr (iso_utc (bnv_now env + minutes 10))), (''data'', data),
      (''security_labels'', JStrList [''EXTERNAL_DATA'', ''SYNTHETIC_DEMO_SOURCE'', ''BUSINESS_IDENTITY''])]"

definition wrap :: "business_env \<Rightarrow> runtime_scope \<Rightarrow> string \<Rightarrow> json \<Rightarrow> int \<Rightarrow> time \<Rightarrow> dict" where
  "wrap env scope schema_version data record_version updated_at =
     (let body = wrap_body env scope schema_version data record_version updated_at
      in body @ [(''source_signature'', JStr (hmac_signature (bnv_mcp_token env) body)), (''source_hash'', JStr (registry_hash data))])"

definition comparison :: "string \<Rightarrow> json \<Rightarrow> bool \<Rightarrow> json" where
  "comparison claimed source match = JObj [(''claimed'', JStr claimed), (''source'', source), (''match'', JBool match)]"

text \<open>The comparisons of \<open>business_verify\<close>, each with whether it matches.\<close>

definition identity_comparisons :: "business \<Rightarrow> string option \<Rightarrow> string option \<Rightarrow> string option \<Rightarrow> (string \<times> json \<times> bool) list" where
  "identity_comparisons b legal_name gstin status =
     List.map_filter id
       [map_option (\<lambda>c. let m = (py_lower c = py_lower (bz_legal_name b)) in
          (''legal_name'', comparison c (JStr (bz_legal_name b)) m, m)) legal_name,
        map_option (\<lambda>c. let m = (Some (py_upper c) = bz_primary_gstin b) in
          (''primary_gstin'', comparison (py_upper c) (JOpt (bz_primary_gstin b)) m, m)) gstin,
        map_option (\<lambda>c. let m = (py_upper c = bz_status b) in
          (''status'', comparison (py_upper c) (JStr (bz_status b)) m, m)) status]"

definition verification_data :: "business \<Rightarrow> dict \<Rightarrow> (string \<times> json \<times> bool) list \<Rightarrow> json" where
  "verification_data b record cs = JObj
     [(''business_id'', JStr (bz_business_id b)), (''verified'', JBool (cs \<noteq> [] \<and> list_all (\<lambda>(k, v, m). m) cs)),
      (''legally_active'', JBool (bz_status b = ''ACTIVE'')), (''comparisons'', JObj (map (\<lambda>(k, v, m). (k, v)) cs)),
      (''risk_flags'', JStrList (bz_risk_flags b)), (''source_record'', JObj record)]"

definition business_evidence :: "business_env \<Rightarrow> runtime_scope \<Rightarrow> business_db \<Rightarrow> string \<Rightarrow> business_error + business \<times> dict \<times> dict" where
  "business_evidence env scope db i =
     sum_bind (get_business env db (sc_tenant_id scope) i) (\<lambda>(b, v).
       Inr (b, v, wrap env scope ''registry.business.v1'' (JObj v) (bz_version b) (bz_updated_at b)))"

definition newest :: "business_env \<Rightarrow> business list \<Rightarrow> time" where
  "newest env bs = (case map bz_updated_at bs of [] \<Rightarrow> bnv_now env | t # ts \<Rightarrow> fold max ts t)"

definition search_rows :: "runtime_scope \<Rightarrow> business_db \<Rightarrow> string \<Rightarrow> string option \<Rightarrow> int \<Rightarrow> business list" where
  "search_rows scope db query status limit =
     take (nat (max 1 (min limit 50))) (sort_key bz_legal_name (scalars (\<lambda>b. bz_tenant_id b = sc_tenant_id scope \<and>
       (py_strip query \<noteq> [] \<longrightarrow> matches_query query b) \<and> (filled status \<longrightarrow> bz_status b = py_upper (the status))) (businesses db)))"

text \<open>The evidence about the surroundings of one business, of a version no older than any of its rows.\<close>

definition related_evidence ::
    "business_env \<Rightarrow> runtime_scope \<Rightarrow> business_db \<Rightarrow> string \<Rightarrow> string \<Rightarrow> string \<Rightarrow> (business \<Rightarrow> (json \<times> int) list) \<Rightarrow> business_error + json" where
  "related_evidence env scope db i schema_version key rows =
     sum_bind (find_business env db (sc_tenant_id scope) i) (\<lambda>b.
       Inr (JObj (wrap env scope schema_version
         (JObj [(''business'', JObj (business_summary b)), (key, JList (map fst (rows b)))])
         (fold max (map snd (rows b)) (bz_version b)) (bz_updated_at b))))"

fun business_tool_answer :: "business_env \<Rightarrow> runtime_scope \<Rightarrow> business_tool \<Rightarrow> business_db \<Rightarrow> business_error + json" where
  "business_tool_answer env scope (BusinessesGet i) db = sum_bind (business_evidence env scope db i) (\<lambda>(b, v, e). Inr (JObj e))"
| "business_tool_answer env scope (BusinessesVerify i legal_name gstin status) db =
     sum_bind (business_evidence env scope db i) (\<lambda>(b, v, e).
       let data = verification_data b v (identity_comparisons b legal_name gstin status)
       in Inr (JObj (dict_set (dict_set e (''schema_version'', JStr ''registry.business-verification.v1'')) (''data'', data))))"
| "business_tool_answer env scope (BusinessesSearch query status limit) db =
     (let bs = search_rows scope db query status limit
      in Inr (JObj (wrap env scope ''registry.business-search.v1'' (JObj [(''items'', JList (map (JObj \<circ> business_summary) bs))])
           (case map bz_version bs of [] \<Rightarrow> 1 | v # vs \<Rightarrow> fold max vs v) (newest env bs))))"
| "business_tool_answer env scope (OwnershipGet i) db = related_evidence env scope db i ''registry.ownership.v1'' ''owners''
     (\<lambda>b. map (\<lambda>w. (ownership_projection w, ow_version w)) (ownership_of db (sc_tenant_id scope) (bz_id b)))"
| "business_tool_answer env scope (RelationshipsGet i) db = related_evidence env scope db i ''registry.relationships.v1'' ''relationships''
     (\<lambda>b. map (\<lambda>x. (relationship_view x, rl_version (fst x))) (relationships_of db (sc_tenant_id scope) (bz_id b)))"
| "business_tool_answer env scope (AuthorizedPersonsGet i) db =
     related_evidence env scope db i ''registry.authorized-persons.v1'' ''authorized_persons''
       (\<lambda>b. map (\<lambda>p. (person_projection p, bp_version p)) (authorized_persons db (sc_tenant_id scope) (bz_id b)))"

section \<open>One request\<close>

definition business_bearer :: "string \<Rightarrow> string \<Rightarrow> business_error + unit" where
  "business_bearer expected authorization =
     (let scheme = takeWhile (\<lambda>c. c \<noteq> CHR '' '') authorization;
          supplied = tl (dropWhile (\<lambda>c. c \<noteq> CHR '' '') authorization)
      in if py_lower scheme \<noteq> ''bearer'' then Inl (BusinessHTTPError 401 ''Invalid Registry MCP token.'')
         else if \<not> list_all (\<lambda>c. of_char c < (128::nat)) (supplied @ expected) then Inl BusinessTypeError
         else if supplied \<noteq> expected then Inl (BusinessHTTPError 401 ''Invalid Registry MCP token.'') else Inr ())"

datatype business_request =
    BusinessRoute "string option" "string option" business_route
  | BusinessTool string dict business_tool

fun business_request_op :: "business_env \<Rightarrow> business_request \<Rightarrow> business_answer business_op" where
  "business_request_op env (BusinessRoute token csrf route) db = business_route_op env token csrf route db"
| "business_request_op env (BusinessTool authorization meta tool) db =
     sum_bind (business_bearer (bnv_mcp_token env) authorization) (\<lambda>_.
     case registry_verify_runtime_scope (bnv_mcp_token env) meta (''registry.'' @ business_tool_name tool) of
       Inl e \<Rightarrow> Inl (BusinessScopeError e)
     | Inr scope \<Rightarrow> reading (business_tool_answer env scope tool) db)"

definition business_session :: "business_answer business_op \<Rightarrow> business_db \<Rightarrow> business_db \<times> (business_error + business_answer)" where
  "business_session = session business_constraints BusinessDatabaseError"

fun business_step :: "business_env \<times> business_request \<Rightarrow> business_db \<Rightarrow> business_db \<times> (business_error + business_answer)" where
  "business_step (env, request) db = business_session (business_request_op env request) db"

end
