(* ===== verification/BusinessInvariant.thy ===== *)
theory BusinessInvariant
  imports BusinessApp
begin

text \<open>
  What a request of the business registry can do to its records. \<open>registry_act\<close> lists the four
  operations that change them, each with the authority it needs; every other request leaves
  businesses, change requests and the audit log as they are (\<open>request_act\<close>).
\<close>

section \<open>Requests as acts\<close>

definition acting :: "business_env \<Rightarrow> business_db \<Rightarrow> string option \<Rightarrow> string option \<Rightarrow> string \<Rightarrow> browser_scope \<Rightarrow> bool" where
  "acting env db token csrf role scope \<longleftrightarrow>
     bs_session scope \<in> set (browser_sessions db) \<and> bs_user scope \<in> set (registry_users db) \<and>
     ss_user_id (bs_session scope) = us_id (bs_user scope) \<and> map_option hash_token token = Some (ss_token_hash (bs_session scope)) \<and>
     bnv_now env < ss_expires_at (bs_session scope) \<and> us_status (bs_user scope) = ''ACTIVE'' \<and>
     ss_tenant_id (bs_session scope) = bs_tenant scope \<and> map_option hash_token csrf = Some (ss_csrf_hash (bs_session scope)) \<and>
     role \<in> set (us_roles (bs_user scope))"

definition registry_core :: "business_db \<Rightarrow> business list \<times> identity_change list \<times> registry_audit list" where
  "registry_core db = (businesses db, identity_changes db, registry_audits db)"

lemma registry_core_eq [simp]:
  "registry_core db = registry_core db' \<longleftrightarrow>
     businesses db = businesses db' \<and> identity_changes db = identity_changes db' \<and> registry_audits db = registry_audits db'"
  by (simp add: registry_core_def)

lemma registry_core_sessions: "registry_core (db\<lparr>browser_sessions := rows\<rparr>) = registry_core db"
  by simp

inductive registry_act :: "business_env \<Rightarrow> business_db \<Rightarrow> business_db \<Rightarrow> business_request \<Rightarrow> bool" for env db db' where
  idle: "registry_core db' = registry_core db \<Longrightarrow> registry_act env db db' q"
| create: "acting env db token csrf ''REGISTRY_OPERATOR'' scope \<Longrightarrow> valid_business body = Inr b \<Longrightarrow> registry_core db1 = registry_core db \<Longrightarrow>
     create_business env scope b db1 = Inr (db', v) \<Longrightarrow> registry_act env db db' (BusinessRoute token csrf (CreateBusiness body))"
| review: "acting env db token csrf ''REGISTRY_REVIEWER'' scope \<Longrightarrow> valid_status_transition body = Inr r \<Longrightarrow> match_version header = Inr version \<Longrightarrow>
     registry_core db1 = registry_core db \<Longrightarrow> transition_status env scope i r version db1 = Inr (db', v) \<Longrightarrow>
     registry_act env db db' (BusinessRoute token csrf (TransitionBusiness i header body))"
| propose: "acting env db token csrf ''REGISTRY_OPERATOR'' scope \<Longrightarrow> valid_change body = Inr r \<Longrightarrow> registry_core db1 = registry_core db \<Longrightarrow>
     create_change_request env scope i r db1 = Inr (db', v) \<Longrightarrow> registry_act env db db' (BusinessRoute token csrf (ProposeChange i body))"
| decide: "acting env db token csrf ''REGISTRY_REVIEWER'' scope \<Longrightarrow> valid_decision reason = Inr r \<Longrightarrow> decision \<in> {''approve'', ''reject''} \<Longrightarrow>
     registry_core db1 = registry_core db \<Longrightarrow> decide_change env scope i (decision = ''approve'') r db1 = Inr (db', v) \<Longrightarrow>
     registry_act env db db' (BusinessRoute token csrf (DecideChange i decision reason))"

lemma session_rowsD:
  assumes "scope \<in> set (session_rows db token)"
  shows "bs_session scope \<in> set (browser_sessions db)" "bs_user scope \<in> set (registry_users db)"
    "ss_user_id (bs_session scope) = us_id (bs_user scope)" "ss_token_hash (bs_session scope) = hash_token token"
  using assms by (auto simp: session_rows_def)

lemma resolve_browser_scope_Inr:
  assumes "resolve_browser_scope env token db = Inr (db1, scope)"
  shows "registry_core db1 = registry_core db" "bs_session scope \<in> set (browser_sessions db)" "bs_user scope \<in> set (registry_users db)"
    "ss_user_id (bs_session scope) = us_id (bs_user scope)" "map_option hash_token token = Some (ss_token_hash (bs_session scope))"
    "bnv_now env < ss_expires_at (bs_session scope)" "us_status (bs_user scope) = ''ACTIVE''"
    "ss_tenant_id (bs_session scope) = bs_tenant scope"
proof -
  from assms obtain t rest where t: "token = Some t" "session_rows db t = scope # rest"
    and ok: "bnv_now env < ss_expires_at (bs_session scope)" "us_status (bs_user scope) = ''ACTIVE''"
      "ss_tenant_id (bs_session scope) = bs_tenant scope" "registry_core db1 = registry_core db"
    by (auto simp: resolve_browser_scope_def filled_def split: if_splits list.splits option.splits)
  from t(2) have row: "scope \<in> set (session_rows db t)" by simp
  from ok session_rowsD [OF row] t(1) show "registry_core db1 = registry_core db" "bs_session scope \<in> set (browser_sessions db)"
    "bs_user scope \<in> set (registry_users db)" "ss_user_id (bs_session scope) = us_id (bs_user scope)"
    "map_option hash_token token = Some (ss_token_hash (bs_session scope))"
    "bnv_now env < ss_expires_at (bs_session scope)" "us_status (bs_user scope) = ''ACTIVE''"
    "ss_tenant_id (bs_session scope) = bs_tenant scope" by simp_all
qed

lemma verify_csrf_Inr: "verify_csrf scope csrf = Inr u \<longleftrightarrow> map_option hash_token csrf = Some (ss_csrf_hash (bs_session scope))"
  by (simp add: verify_csrf_def)

lemma scope_roles_Inr: "scope_roles scope [role] = Inr u \<longleftrightarrow> role \<in> set (us_roles (bs_user scope))"
  by (auto simp: scope_roles_def)

lemma guarded_acting:
  assumes "guarded env token csrf (\<lambda>scope. as_json (f scope)) db = Inr (db', a)"
    and roles: "\<And>scope d d' v. f scope d = Inr (d', v) \<Longrightarrow> role \<in> set (us_roles (bs_user scope))"
  obtains scope db1 v where "acting env db token csrf role scope" "registry_core db1 = registry_core db" "f scope db1 = Inr (db', v)"
proof -
  from assms(1) obtain scope db1 v where r: "resolve_browser_scope env token db = Inr (db1, scope)"
    and c: "map_option hash_token csrf = Some (ss_csrf_hash (bs_session scope))" and f: "f scope db1 = Inr (db', v)"
    by (auto simp: guarded_def browsing_def as_json_def sum_bind_Inr verify_csrf_Inr)
  show thesis
    using that [OF _ resolve_browser_scope_Inr(1) [OF r] f] resolve_browser_scope_Inr [OF r] c roles [OF f]
    by (simp add: acting_def)
qed

lemma operation_roles:
  "create_business env scope b d = Inr (d', v) \<Longrightarrow> ''REGISTRY_OPERATOR'' \<in> set (us_roles (bs_user scope))"
  "transition_status env scope i r n d = Inr (d', v) \<Longrightarrow> ''REGISTRY_REVIEWER'' \<in> set (us_roles (bs_user scope))"
  "create_change_request env scope i cc d = Inr (d', v) \<Longrightarrow> ''REGISTRY_OPERATOR'' \<in> set (us_roles (bs_user scope))"
  "decide_change env scope i ok reason d = Inr (d', v) \<Longrightarrow> ''REGISTRY_REVIEWER'' \<in> set (us_roles (bs_user scope))"
  by (auto simp: create_business_def transition_status_def create_change_request_def decide_change_def sum_bind_Inr scope_roles_Inr)

lemma browsing_core:
  assumes "browsing env token f db = Inr (db', a)"
    and "\<And>scope d d' v. f scope d = Inr (d', v) \<Longrightarrow> registry_core d' = registry_core d"
  shows "registry_core db' = registry_core db"
  using assms(1) by (auto simp: browsing_def sum_bind_Inr dest!: resolve_browser_scope_Inr(1) assms(2) simp del: registry_core_eq)

lemma reading_core: "reading f d = Inr (d', v) \<Longrightarrow> registry_core d' = registry_core d"
  by (auto simp: reading_def sum_bind_Inr)

lemma route_act:
  assumes "business_route_op env token csrf route db = Inr (db', a)"
  shows "registry_act env db db' (BusinessRoute token csrf route)"
proof (cases route)
  case (CreateBusiness body)
  with assms obtain b where b: "valid_business body = Inr b"
    and g: "guarded env token csrf (\<lambda>scope. as_json (create_business env scope b)) db = Inr (db', a)"
    by (auto simp: sum_bind_Inr)
  show ?thesis unfolding CreateBusiness
    by (rule guarded_acting [OF g operation_roles(1)]) (auto intro: registry_act.create b simp del: registry_core_eq)
next
  case (TransitionBusiness i header body)
  with assms obtain r version where b: "valid_status_transition body = Inr r" "match_version header = Inr version"
    and g: "guarded env token csrf (\<lambda>scope. as_json (transition_status env scope i r version)) db = Inr (db', a)"
    by (auto simp: sum_bind_Inr)
  show ?thesis unfolding TransitionBusiness
    by (rule guarded_acting [OF g operation_roles(2)]) (auto intro: registry_act.review b simp del: registry_core_eq)
next
  case (ProposeChange i body)
  with assms obtain r where b: "valid_change body = Inr r"
    and g: "guarded env token csrf (\<lambda>scope. as_json (create_change_request env scope i r)) db = Inr (db', a)"
    by (auto simp: sum_bind_Inr)
  show ?thesis unfolding ProposeChange
    by (rule guarded_acting [OF g operation_roles(3)]) (auto intro: registry_act.propose b simp del: registry_core_eq)
next
  case (DecideChange i decision reason)
  with assms obtain r where b: "valid_decision reason = Inr r" "decision \<in> {''approve'', ''reject''}"
    and g: "guarded env token csrf (\<lambda>scope. as_json (decide_change env scope i (decision = ''approve'') r)) db = Inr (db', a)"
    by (auto simp: sum_bind_Inr split: if_splits)
  show ?thesis unfolding DecideChange
    by (rule guarded_acting [OF g operation_roles(4)], assumption) (rule registry_act.decide [OF _ b])
next
  case (Login body)
  with assms show ?thesis by (intro registry_act.idle) (auto simp: sum_bind_Inr create_browser_session_def)
next
  case CurrentSession
  with assms show ?thesis by (intro registry_act.idle) (auto simp: sum_bind_Inr rotate_csrf_def registry_core_sessions simp del: registry_core_eq elim!: browsing_core)
next
  case Logout
  with assms show ?thesis
    by (intro registry_act.idle) (auto simp: guarded_def sum_bind_Inr registry_core_sessions simp del: registry_core_eq elim!: browsing_core)
qed (use assms in \<open>auto simp del: registry_core_eq intro!: registry_act.idle elim!: browsing_core dest: reading_core\<close>)

lemma request_act:
  "business_request_op env q db = Inr (db', a) \<Longrightarrow> registry_act env db db' q"
  by (cases q) (auto simp: sum_bind_Inr split: sum.splits intro: route_act registry_act.idle reading_core)

end
