(* ===== verification/BusinessProperties.thy ===== *)
theory BusinessProperties
  imports BusinessInvariant
begin

text \<open>
  The properties of the business registry. Records change only by a reviewer's status transition
  or an approved change request (\<open>business_identity_controlled\<close>); the audit log holds one entry
  for every version of every record (\<open>business_history_complete\<close>); and the columns keep their
  domains (\<open>business_columns_typed\<close>).
\<close>

section \<open>What the operations do to the tables\<close>

lemma registry_change_tables [simp]:
  "businesses (record_registry_change env k t ty i ver ev at ac re me db) = businesses db"
  "identity_changes (record_registry_change env k t ty i ver ev at ac re me db) = identity_changes db"
  "registry_audits (record_registry_change env k t ty i ver ev at ac re me db) = registry_audits db @
     [\<lparr>ra_id = uuid_str (bnv_uuid env (k + 1)), ra_tenant_id = t, ra_aggregate_type = ty, ra_aggregate_id = i, ra_aggregate_version = ver,
       ra_event_type = ev, ra_actor_type = at, ra_actor_id = ac, ra_reason = re, ra_metadata = me, ra_occurred_at = bnv_now env\<rparr>]"
  by (simp_all add: record_registry_change_def)

lemma history_tables [simp]:
  "businesses (snd (add_history env p b b' db)) = businesses db"
  "identity_changes (snd (add_history env p b b' db)) = identity_changes db"
  "registry_audits (snd (add_history env p b b' db)) = registry_audits db"
  by (simp_all add: add_history_def add_name_def add_address_def Let_def)

lemma stored_tables [simp]:
  "businesses (store_business env b db) = update_rows (\<lambda>x. bz_id x = bz_id b) (\<lambda>_. b\<lparr>bz_updated_at := bnv_now env\<rparr>) (businesses db)"
  "identity_changes (store_business env b db) = identity_changes db" "registry_audits (store_business env b db) = registry_audits db"
  "businesses (store_change c db) = businesses db"
  "identity_changes (store_change c db) = update_rows (\<lambda>x. ch_id x = ch_id c) (\<lambda>_. c) (identity_changes db)"
  "registry_audits (store_change c db) = registry_audits db"
  by (simp_all add: store_business_def store_change_def)

lemma next_version_fields [simp]:
  "bz_id (next_version u b) = bz_id b" "bz_tenant_id (next_version u b) = bz_tenant_id b" "bz_version (next_version u b) = bz_version b + 1"
  "bz_updated_by (next_version u b) = u" "bz_status (next_version u b) = bz_status b" "bz_risk_flags (next_version u b) = bz_risk_flags b"
  by (simp_all add: next_version_def Let_def)

lemma patched_fields [simp]:
  "bz_id (patched p b) = bz_id b" "bz_tenant_id (patched p b) = bz_tenant_id b" "bz_version (patched p b) = bz_version b"
  "bz_status (patched p b) = bz_status b" "bz_risk_flags (patched p b) = bz_risk_flags b"
  by (simp_all add: patched_def)

lemma decided_fields [simp]:
  "ch_id (decided env scope approve reason applied c) = ch_id c"
  "ch_target_version (decided env scope approve reason applied c) = ch_target_version c"
  "ch_applied_version (decided env scope approve reason applied c) = applied"
  "ch_requested_patch (decided env scope approve reason applied c) = ch_requested_patch c"
  "ch_status (decided env scope approve reason applied c) = (if approve then ''APPROVED'' else ''REJECTED'')"
  by (simp_all add: decided_def)

lemma find_business_Inr:
  assumes "find_business env db tenant i = Inr b"
  shows "b \<in> set (businesses db)" "answers_to tenant i b"
proof -
  let ?rows = "scalars (answers_to tenant i) (businesses db)"
  from assms have "?rows \<noteq> []" and b: "b = ?rows ! (bnv_pick env mod length ?rows)"
    by (auto simp: find_business_def split: list.splits)
  then have "b \<in> set ?rows" by (metis length_greater_0_conv mod_less_divisor nth_mem)
  then show "b \<in> set (businesses db)" "answers_to tenant i b" by (auto simp: set_scalars)
qed

lemma create_business_Inr:
  assumes "create_business env scope b db = Inr (db', v)"
  obtains e where "businesses db' = businesses db @ [new_business env scope b]" "identity_changes db' = identity_changes db"
    "registry_audits db' = registry_audits db @ [e]" "ra_event_type e = ''business.created''"
  using assms by (auto simp: create_business_def sum_bind_Inr Let_def add_name_def add_address_def split: if_splits)

lemma transition_status_Inr:
  assumes "transition_status env scope i r version db = Inr (db', v)"
  obtains b e where "b \<in> set (businesses db)" "answers_to (bs_tenant scope) i b" "bz_version b = version"
    "st_target_status r \<in> allowed_transitions (bz_status b)"
    "businesses db' = businesses (store_business env (reviewed (us_id (bs_user scope)) (st_target_status r) b) db)"
    "identity_changes db' = identity_changes db" "registry_audits db' = registry_audits db @ [e]"
    "ra_aggregate_type e = ''BUSINESS''" "ra_aggregate_id e = bz_id b" "ra_aggregate_version e = bz_version b + 1"
    "ra_event_type e = transition_event (st_target_status r)" "ra_actor_id e = us_id (bs_user scope)"
proof -
  from assms obtain b where b: "find_business env db (bs_tenant scope) i = Inr b" "bz_version b = version"
    "st_target_status r \<in> allowed_transitions (bz_status b)"
    and db': "db' = record_registry_change env 0 (bs_tenant scope) ''BUSINESS'' (bz_id b) (bz_version b + 1)
      (transition_event (st_target_status r)) ''USER'' (us_id (bs_user scope)) (Some (st_reason r))
      [(''prior_status'', JStr (bz_status b)), (''new_status'', JStr (st_target_status r))]
      (store_business env (reviewed (us_id (bs_user scope)) (st_target_status r) b) db)"
    by (auto simp: transition_status_def sum_bind_Inr Let_def reviewed_def split: if_splits)
  show thesis
    by (rule that [OF find_business_Inr [OF b(1)] b(2,3), of "last (registry_audits db')"]) (simp_all add: db')
qed

lemma create_change_request_Inr:
  assumes "create_change_request env scope i r db = Inr (db', v)"
  obtains b e where "b \<in> set (businesses db)" "cc_target_version r = bz_version b"
    "if_given (\<lambda>a. set address_fields \<subseteq> fst ` set a) (ip_registered_address (cc_patch r))"
    "businesses db' = businesses db" "identity_changes db' = identity_changes db @ [new_change env scope b r]"
    "registry_audits db' = registry_audits db @ [e]" "ra_event_type e = ''business.change_submitted''"
  using assms by (auto simp: create_change_request_def sum_bind_Inr Let_def dest: find_business_Inr split: if_splits)

lemma decide_change_Inr:
  assumes "decide_change env scope i approve reason db = Inr (db', v)"
  obtains c b e where "c \<in> set (identity_changes db)" "ch_id c = i" "ch_tenant_id c = bs_tenant scope" "ch_status c = ''SUBMITTED''"
    "b \<in> set (businesses db)" "answers_to (bs_tenant scope) (ch_business_id c) b"
    "approve \<longrightarrow> bz_version b = ch_target_version c"
    "businesses db' = (if approve
       then businesses (store_business env (next_version (us_id (bs_user scope)) (patched (ch_requested_patch c) b)) db) else businesses db)"
    "identity_changes db' = identity_changes (store_change (decided env scope approve reason
       (if approve then Some (bz_version b + 1) else ch_applied_version c) c) db)"
    "registry_audits db' = registry_audits db @ [e]"
    "ra_aggregate_type e = ''BUSINESS''" "ra_aggregate_id e = bz_id b" "ra_actor_id e = us_id (bs_user scope)"
    "ra_event_type e = (if approve then ''business.updated'' else ''business.change_rejected'')"
    "approve \<longrightarrow> ra_aggregate_version e = bz_version b + 1" "ra_metadata e = [(''change_request_id'', JStr (ch_id c))]"
proof -
  from assms obtain c b where c: "scalar (\<lambda>c. ch_id c = i \<and> ch_tenant_id c = bs_tenant scope) (identity_changes db) = Some c"
      "ch_status c = ''SUBMITTED''"
    and b: "find_business env db (bs_tenant scope) (ch_business_id c) = Inr b" "approve \<longrightarrow> bz_version b = ch_target_version c"
    and rest: "(if approve then
       let b' = next_version (us_id (bs_user scope)) (patched (ch_requested_patch c) b);
           c' = decided env scope True reason (Some (bz_version b')) c;
           (k, db1) = add_history env (ch_requested_patch c) b b' (store_business env b' (store_change c' db))
       in record_registry_change env k (bs_tenant scope) ''BUSINESS'' (bz_id b) (bz_version b') ''business.updated'' ''USER''
                 (us_id (bs_user scope)) (Some reason) [(''change_request_id'', JStr (ch_id c))] db1
     else record_registry_change env 0 (bs_tenant scope) ''BUSINESS'' (bz_id b) (bz_version b) ''business.change_rejected'' ''USER''
                 (us_id (bs_user scope)) (Some reason) [(''change_request_id'', JStr (ch_id c))]
                 (store_change (decided env scope False reason (ch_applied_version c) c) db)) = db'"
    by (auto simp: decide_change_def sum_bind_Inr Let_def case_prod_beta split: if_splits)
  have row: "c \<in> set (identity_changes db)" "ch_id c = i" "ch_tenant_id c = bs_tenant scope"
    using scalar_Some [OF c(1)] by auto
  show thesis
    by (rule that [OF row c(2) find_business_Inr [OF b(1)], of "last (registry_audits db')"])
      (use b(2) in \<open>auto simp: rest [symmetric] Let_def case_prod_beta\<close>)
qed

section \<open>Control of identity records\<close>

text \<open>The status transitions of the review workflow.\<close>

definition review_moves :: "(string \<times> string) set" where
  "review_moves =
     {(''PENDING_REVIEW'', ''ACTIVE''), (''PENDING_REVIEW'', ''REJECTED''), (''ACTIVE'', ''SUSPENDED''), (''ACTIVE'', ''DISSOLVED''),
      (''SUSPENDED'', ''ACTIVE''), (''SUSPENDED'', ''DISSOLVED'')}"

text \<open>The record \<open>b'\<close> is the next version of \<open>b\<close>, made by the user of the scope and hashed.\<close>

definition succeeds :: "browser_scope \<Rightarrow> business \<Rightarrow> business \<Rightarrow> bool" where
  "succeeds scope b b' \<longleftrightarrow> bz_tenant_id b = bs_tenant scope \<and> bz_version b' = bz_version b + 1 \<and>
     bz_updated_by b' = us_id (bs_user scope) \<and> bz_source_hash b' = identity_hash b' \<and>
     bz_id b' = bz_id b \<and> bz_tenant_id b' = bz_tenant_id b \<and> bz_business_id b' = bz_business_id b \<and>
     bz_registry_number b' = bz_registry_number b \<and> bz_business_type b' = bz_business_type b \<and>
     bz_incorporation_date b' = bz_incorporation_date b \<and> bz_pan_token b' = bz_pan_token b \<and>
     bz_created_by b' = bz_created_by b \<and> bz_created_at b' = bz_created_at b"

text \<open>The fields a change request proposes have the proposed values, the others their former ones.\<close>

definition follows_patch :: "identity_patch \<Rightarrow> business \<Rightarrow> business \<Rightarrow> bool" where
  "follows_patch p b b' \<longleftrightarrow>
     bz_legal_name b' = or_else (ip_legal_name p) (bz_legal_name b) \<and>
     bz_trade_name b' = or_else (map_option Some (ip_trade_name p)) (bz_trade_name b) \<and>
     bz_industry_code b' = or_else (map_option Some (ip_industry_code p)) (bz_industry_code b) \<and>
     bz_msme_classification b' = or_else (map_option Some (ip_msme_classification p)) (bz_msme_classification b) \<and>
     bz_primary_gstin b' = or_else (map_option Some (ip_primary_gstin p)) (bz_primary_gstin b) \<and>
     bz_registered_address b' = or_else (ip_registered_address p) (bz_registered_address b) \<and>
     bz_registered_state_code b' = (case ip_registered_address p of None \<Rightarrow> bz_registered_state_code b | Some a \<Rightarrow> or_else (map_of a ''state_code'') [])"

definition no_patch :: identity_patch where
  "no_patch = \<lparr>ip_legal_name = None, ip_trade_name = None, ip_registered_address = None, ip_industry_code = None,
     ip_msme_classification = None, ip_primary_gstin = None\<rparr>"

definition changed_by_review :: "business_env \<Rightarrow> business_request \<Rightarrow> business_db \<Rightarrow> business \<Rightarrow> business \<Rightarrow> bool" where
  "changed_by_review env q db b b' \<longleftrightarrow>
     (\<exists>token csrf scope i header body. q = BusinessRoute token csrf (TransitionBusiness i header body) \<and>
        acting env db token csrf ''REGISTRY_REVIEWER'' scope \<and> answers_to (bs_tenant scope) i b \<and> match_version header = Inr (bz_version b) \<and>
        succeeds scope b b' \<and> (bz_status b, bz_status b') \<in> review_moves \<and> bz_status b' = st_target_status body \<and> follows_patch no_patch b b')"

definition changed_by_request :: "business_env \<Rightarrow> business_request \<Rightarrow> business_db \<Rightarrow> business \<Rightarrow> business \<Rightarrow> bool" where
  "changed_by_request env q db b b' \<longleftrightarrow>
     (\<exists>token csrf scope c reason. q = BusinessRoute token csrf (DecideChange (ch_id c) ''approve'' reason) \<and>
        acting env db token csrf ''REGISTRY_REVIEWER'' scope \<and> c \<in> set (identity_changes db) \<and> ch_tenant_id c = bs_tenant scope \<and>
        ch_status c = ''SUBMITTED'' \<and> ch_target_version c = bz_version b \<and> answers_to (bs_tenant scope) (ch_business_id c) b \<and>
        succeeds scope b b' \<and> bz_status b' = bz_status b \<and> bz_risk_flags b' = bz_risk_flags b \<and>
        follows_patch (ch_requested_patch c) b b')"

definition newly_created :: "business_env \<Rightarrow> business_request \<Rightarrow> business_db \<Rightarrow> business \<Rightarrow> bool" where
  "newly_created env q db b \<longleftrightarrow>
     (\<exists>token csrf scope body. q = BusinessRoute token csrf (CreateBusiness body) \<and> acting env db token csrf ''REGISTRY_OPERATOR'' scope \<and>
        bz_tenant_id b = bs_tenant scope \<and> bz_status b = ''PENDING_REVIEW'' \<and> bz_version b = 1 \<and> bz_created_by b = us_id (bs_user scope))"

lemma identity_hash_ignores [simp]:
  "identity_hash (b\<lparr>bz_updated_at := t\<rparr>) = identity_hash b" "identity_hash (b\<lparr>bz_source_hash := h\<rparr>) = identity_hash b"
  by (simp_all add: identity_hash_def)

lemma next_version_succeeds:
  assumes "bz_tenant_id b = bs_tenant scope"
  shows "succeeds scope b (next_version (us_id (bs_user scope)) (patched p b)\<lparr>bz_updated_at := t\<rparr>)"
    "succeeds scope b (next_version (us_id (bs_user scope)) (b\<lparr>bz_status := s, bz_risk_flags := f\<rparr>)\<lparr>bz_updated_at := t\<rparr>)"
  using assms by (simp_all add: succeeds_def next_version_def patched_def Let_def)

lemma next_version_patch:
  "follows_patch p b (next_version u (patched p b)\<lparr>bz_updated_at := t\<rparr>)"
  "follows_patch no_patch b (next_version u (b\<lparr>bz_status := s, bz_risk_flags := f\<rparr>)\<lparr>bz_updated_at := t\<rparr>)"
  by (auto simp: follows_patch_def no_patch_def next_version_def patched_def or_else_def Let_def split: option.splits)

lemma allowed_review: "t \<in> allowed_transitions s \<Longrightarrow> (s, t) \<in> review_moves"
  by (auto simp: allowed_transitions_def review_moves_def split: if_splits)

lemma stored_row:
  assumes "unique_by (Some \<circ> bz_id) bs" "b \<in> set bs" "x \<in> set bs" "k = bz_id b"
  shows "(if x = b then n else x) \<in> set (update_rows (\<lambda>y. bz_id y = k) (\<lambda>_. n) bs)"
  using assms unique_byD [OF assms(1), of b x] by (auto simp: set_update_rows image_iff)

lemma stored_rowD:
  assumes "x \<in> set (update_rows (\<lambda>y. bz_id y = k) (\<lambda>_. n) bs)" "bz_id n = k" "b \<in> set bs" "k = bz_id b"
  shows "bz_id x \<in> bz_id ` set bs"
  using assms by (auto simp: set_update_rows split: if_splits)

lemma valid_status_transition_target: "valid_status_transition body = Inr r \<Longrightarrow> st_target_status r = st_target_status body"
  by (auto simp: valid_status_transition_def split: if_splits)

lemma act_controlled:
  assumes act: "registry_act env db db' q" and keys: "unique_by (Some \<circ> bz_id) (businesses db)" and x: "x \<in> set (businesses db)"
  shows "\<exists>x'\<in>set (businesses db'). bz_id x' = bz_id x \<and> (x' = x \<or> changed_by_review env q db x x' \<or> changed_by_request env q db x x')"
  using act
proof cases
  case idle
  then show ?thesis using x by auto
next
  case (create token csrf scope body b db1 v)
  then show ?thesis using x by (auto elim!: create_business_Inr)
next
  case (propose token csrf scope body r db1 i v)
  then show ?thesis using x by (auto elim!: create_change_request_Inr)
next
  case (review token csrf scope body r header version db1 i v)
  then have core: "businesses db1 = businesses db" by simp
  from transition_status_Inr [OF review(6)] obtain b where b: "b \<in> set (businesses db)" "answers_to (bs_tenant scope) i b"
      "bz_version b = version" "st_target_status r \<in> allowed_transitions (bz_status b)"
    and db': "businesses db' = businesses (store_business env (reviewed (us_id (bs_user scope)) (st_target_status r) b) db1)"
    unfolding core by metis
  let ?n = "(reviewed (us_id (bs_user scope)) (st_target_status r) b)\<lparr>bz_updated_at := bnv_now env\<rparr>"
  have "bz_tenant_id b = bs_tenant scope" using b(2) by (simp add: answers_to_def)
  then have "changed_by_review env q db b ?n"
    using review(1-4) b(2-4) valid_status_transition_target [OF review(3)] allowed_review [OF b(4)]
    by (auto simp: changed_by_review_def reviewed_def intro!: next_version_succeeds(2) next_version_patch(2))
  moreover have rows: "businesses db' = update_rows (\<lambda>y. bz_id y = bz_id b) (\<lambda>_. ?n) (businesses db)"
    by (simp add: db' core reviewed_def)
  have "(if x = b then ?n else x) \<in> set (businesses db')"
    unfolding rows by (rule stored_row [OF keys b(1) x refl])
  ultimately show ?thesis by (intro bexI [of _ "if x = b then ?n else x"]) (auto simp: reviewed_def)
next
  case (decide token csrf scope reason r decision db1 i v)
  then have core: "businesses db1 = businesses db" "identity_changes db1 = identity_changes db" by simp_all
  from decide_change_Inr [OF decide(6)] obtain c b where c: "c \<in> set (identity_changes db)" "ch_id c = i" "ch_tenant_id c = bs_tenant scope"
      "ch_status c = ''SUBMITTED''"
    and b: "b \<in> set (businesses db)" "answers_to (bs_tenant scope) (ch_business_id c) b"
      "decision = ''approve'' \<Longrightarrow> bz_version b = ch_target_version c"
    and db': "businesses db' = (if decision = ''approve''
       then businesses (store_business env (next_version (us_id (bs_user scope)) (patched (ch_requested_patch c) b)) db1) else businesses db)"
    unfolding core by metis
  let ?n = "(next_version (us_id (bs_user scope)) (patched (ch_requested_patch c) b))\<lparr>bz_updated_at := bnv_now env\<rparr>"
  show ?thesis
  proof (cases "decision = ''approve''")
    case True
    have "bz_tenant_id b = bs_tenant scope" using b(2) by (simp add: answers_to_def)
    then have "changed_by_request env q db b ?n"
      using decide(1,2) c b(2,3) True
      unfolding changed_by_request_def
      by (intro exI [of _ token] exI [of _ csrf] exI [of _ scope] exI [of _ c] exI [of _ reason])
        (simp add: next_version_succeeds(1) next_version_patch(1))
    moreover have rows: "businesses db' = update_rows (\<lambda>y. bz_id y = bz_id b) (\<lambda>_. ?n) (businesses db)"
      using True by (simp add: db' core)
    have "(if x = b then ?n else x) \<in> set (businesses db')"
      unfolding rows by (rule stored_row [OF keys b(1) x refl])
    ultimately show ?thesis by (intro bexI [of _ "if x = b then ?n else x"]) auto
  qed (use db' x in auto)
qed

lemma act_created:
  assumes "registry_act env db db' q" "x \<in> set (businesses db')"
  shows "bz_id x \<in> bz_id ` set (businesses db) \<or> newly_created env q db x"
  using assms(1)
proof cases
  case (create token csrf scope body b db1 v)
  then have rows: "businesses db' = businesses db @ [new_business env scope b]" by (auto elim!: create_business_Inr)
  have "newly_created env q db (new_business env scope b)"
    unfolding newly_created_def create(1) using create(2) by (intro exI conjI) (rule refl, assumption, simp_all add: new_business_def)
  then show ?thesis using assms(2) by (auto simp: rows)
next
  case (review token csrf scope body r header version db1 i v)
  then show ?thesis using assms(2) by (auto simp: set_update_rows reviewed_def elim!: transition_status_Inr split: if_splits)
next
  case (decide token csrf scope reason r decision db1 i v)
  then have core: "businesses db1 = businesses db" by simp
  from decide_change_Inr [OF decide(6)] obtain b n where "b \<in> set (businesses db1)" "bz_id n = bz_id b"
      "businesses db' = (if decision = ''approve'' then businesses (store_business env n db1) else businesses db1)"
    by (metis next_version_fields(1) patched_fields(1))
  then show ?thesis using assms(2) by (auto simp: core set_update_rows split: if_splits)
qed (use assms(2) in \<open>auto elim!: create_change_request_Inr\<close>)

lemma business_step_cases [case_names same act]:
  assumes "fst (business_step (env, q) db) = db \<Longrightarrow> P"
    and "\<And>db'. fst (business_step (env, q) db) = db' \<Longrightarrow> registry_act env db db' q \<Longrightarrow> business_constraints db' \<Longrightarrow> P"
  shows P
proof (cases rule: session_cases [of business_constraints BusinessDatabaseError "business_request_op env q" db])
  case (error e)
  then show P using assms(1) by (simp add: business_session_def)
next
  case (ok db' a)
  then show P using assms(2) [of db'] by (simp add: business_session_def request_act)
qed

lemma constraints_keys: "business_constraints db \<Longrightarrow> unique_by (Some \<circ> bz_id) (businesses db) \<and> unique_by (Some \<circ> ch_id) (identity_changes db)"
  by (simp add: business_constraints_def)

text \<open>
  C23. Control of identity records. Whatever a request does, every business record stays, and it is
  unchanged unless the request is a status transition or the approval of a submitted change
  request, made in a live session of an active user with the reviewer role and the session's form
  token. A transition quotes the record's current version and follows the review workflow, changing
  no identity field; an approval needs the version the change request was submitted for and sets
  exactly the proposed fields. Either makes the next version, with a new hash, in the reviewer's
  tenant and name. A new record is pending review, created by an active operator.
\<close>

theorem business_identity_controlled:
  assumes "business_constraints db"
  shows "(\<forall>b\<in>set (businesses db). \<exists>b'\<in>set (businesses (fst (business_step (env, q) db))). bz_id b' = bz_id b \<and>
            (b' = b \<or> changed_by_review env q db b b' \<or> changed_by_request env q db b b')) \<and>
         (\<forall>b'\<in>set (businesses (fst (business_step (env, q) db))). bz_id b' \<in> bz_id ` set (businesses db) \<or> newly_created env q db b')"
proof (cases rule: business_step_cases [of env q db])
  case same
  then show ?thesis by auto
next
  case (act db')
  show ?thesis unfolding act(1)
    using act_controlled [OF act(2)] act_created [OF act(2)] constraints_keys [OF assms] by blast
qed

section \<open>The history of records\<close>

definition version_event_types :: "string set" where
  "version_event_types = {''business.activated'', ''business.suspended'', ''business.dissolved'', ''business.rejected'', ''business.updated''}"

definition version_entry :: "string \<Rightarrow> registry_audit \<Rightarrow> bool" where
  "version_entry i a \<longleftrightarrow> ra_aggregate_type a = ''BUSINESS'' \<and> ra_aggregate_id a = i \<and> ra_event_type a \<in> version_event_types"

definition change_entry :: "string \<Rightarrow> registry_audit \<Rightarrow> bool" where
  "change_entry i a \<longleftrightarrow> ra_event_type a = ''business.updated'' \<and> ra_metadata a = [(''change_request_id'', JStr i)]"

definition record_explained :: "business_db \<Rightarrow> business \<Rightarrow> bool" where
  "record_explained db b \<longleftrightarrow>
     (let entries = filter (version_entry (bz_id b)) (registry_audits db) in
      map ra_aggregate_version entries = [2..bz_version b] \<and> (entries \<noteq> [] \<longrightarrow> ra_actor_id (last entries) = bz_updated_by b))"

definition change_explained :: "business_db \<Rightarrow> identity_change \<Rightarrow> bool" where
  "change_explained db c \<longleftrightarrow>
     map ra_aggregate_version (filter (change_entry (ch_id c)) (registry_audits db)) =
       (if ch_status c = ''APPROVED'' then [ch_target_version c + 1] else []) \<and>
     ch_applied_version c = (if ch_status c = ''APPROVED'' then Some (ch_target_version c + 1) else None)"

definition history_ok :: "business_db \<Rightarrow> bool" where
  "history_ok db \<longleftrightarrow>
     list_all (\<lambda>b. 1 \<le> bz_version b \<and> record_explained db b) (businesses db) \<and> list_all (change_explained db) (identity_changes db) \<and>
     list_all (\<lambda>a. \<forall>i. version_entry i a \<longrightarrow> i \<in> bz_id ` set (businesses db)) (registry_audits db) \<and>
     list_all (\<lambda>a. ra_event_type a = ''business.updated'' \<longrightarrow> (\<exists>c\<in>set (identity_changes db). change_entry (ch_id c) a)) (registry_audits db)"

definition history_inv :: "business_db \<Rightarrow> bool" where
  "history_inv db \<longleftrightarrow> business_constraints db \<and> history_ok db"

lemma transition_event_types:
  "t \<in> allowed_transitions s \<Longrightarrow> transition_event t \<in> version_event_types - {''business.updated''}"
proof -
  have e: "transition_event ''ACTIVE'' = ''business.activated''" "transition_event ''SUSPENDED'' = ''business.suspended''"
    "transition_event ''DISSOLVED'' = ''business.dissolved''" "transition_event ''REJECTED'' = ''business.rejected''"
    by code_simp+
  assume "t \<in> allowed_transitions s"
  then show ?thesis using e by (auto simp: allowed_transitions_def version_event_types_def split: if_splits)
qed

text \<open>A row that keeps its version, with no new entry about it, stays explained; so does the next version with its entry.\<close>

lemma explained_other:
  assumes "record_explained db b" "registry_audits db' = registry_audits db @ [e]" "\<not> version_entry (bz_id b) e"
  shows "record_explained db' b"
  using assms by (simp add: record_explained_def)

lemma explained_next:
  assumes "record_explained db b" "1 \<le> bz_version b" "registry_audits db' = registry_audits db @ [e]" "version_entry (bz_id b) e"
    "ra_aggregate_version e = bz_version b + 1" "bz_id b' = bz_id b" "bz_version b' = bz_version b + 1" "bz_updated_by b' = ra_actor_id e"
  shows "record_explained db' b'"
  using assms upto_rec2 [of 2 "bz_version b + 1"] by (simp add: record_explained_def Let_def)

lemma change_explained_other:
  assumes "change_explained db c" "registry_audits db' = registry_audits db @ [e]" "\<not> change_entry (ch_id c) e"
  shows "change_explained db' c"
  using assms by (simp add: change_explained_def)

lemma history_okD:
  assumes "history_ok db"
  shows "b \<in> set (businesses db) \<Longrightarrow> 1 \<le> bz_version b \<and> record_explained db b"
    "c \<in> set (identity_changes db) \<Longrightarrow> change_explained db c"
    "a \<in> set (registry_audits db) \<Longrightarrow> version_entry i a \<Longrightarrow> i \<in> bz_id ` set (businesses db)"
    "a \<in> set (registry_audits db) \<Longrightarrow> ra_event_type a = ''business.updated'' \<Longrightarrow> \<exists>c\<in>set (identity_changes db). change_entry (ch_id c) a"
  using assms by (auto simp: history_ok_def list_all_iff)

lemma history_okI:
  assumes "\<And>b. b \<in> set (businesses db) \<Longrightarrow> 1 \<le> bz_version b \<and> record_explained db b"
    and "\<And>c. c \<in> set (identity_changes db) \<Longrightarrow> change_explained db c"
    and "\<And>a i. a \<in> set (registry_audits db) \<Longrightarrow> version_entry i a \<Longrightarrow> i \<in> bz_id ` set (businesses db)"
    and "\<And>a. a \<in> set (registry_audits db) \<Longrightarrow> ra_event_type a = ''business.updated'' \<Longrightarrow>
      \<exists>c\<in>set (identity_changes db). change_entry (ch_id c) a"
  shows "history_ok db"
  using assms by (auto simp: history_ok_def list_all_iff)

lemma create_history:
  assumes ok: "history_ok db" and op: "create_business env scope b db = Inr (db', v)" and keys: "business_constraints db'"
  shows "history_ok db'"
proof -
  from op obtain e where db': "businesses db' = businesses db @ [new_business env scope b]" "identity_changes db' = identity_changes db"
    "registry_audits db' = registry_audits db @ [e]" "ra_event_type e = ''business.created''" by (rule create_business_Inr)
  then have e: "\<not> version_entry i e" "\<not> change_entry i e" for i
    by (simp_all add: version_entry_def change_entry_def version_event_types_def)
  have fresh: "bz_id (new_business env scope b) \<notin> bz_id ` set (businesses db)"
    using keys db'(1) by (auto simp: business_constraints_def)
  then have "filter (version_entry (bz_id (new_business env scope b))) (registry_audits db') = []"
    using history_okD(3) [OF ok] e by (auto simp: db'(3) filter_empty_conv)
  then have "record_explained db' (new_business env scope b)" by (simp add: record_explained_def new_business_def)
  then show ?thesis
    using ok e explained_other [OF _ db'(3)] change_explained_other [OF _ db'(3)]
    by (auto simp: history_ok_def list_all_iff db' new_business_def)
qed

lemma history_ok_core: "registry_core db = registry_core db' \<Longrightarrow> history_ok db = history_ok db'"
  by (auto simp: history_ok_def list_all_iff record_explained_def change_explained_def)

lemma updated_keys: "key n = k \<Longrightarrow> key ` set (update_rows (\<lambda>y. key y = k) (\<lambda>_. n) rows) = key ` set rows"
  by (induction rows) auto

text \<open>The next version of one record, entered in the log, keeps the records explained.\<close>

lemma next_version_history:
  assumes ok: "history_ok db" and b: "b \<in> set (businesses db)" "bz_id n = bz_id b" "bz_version n = bz_version b + 1"
    and rows: "businesses db' = update_rows (\<lambda>y. bz_id y = bz_id b) (\<lambda>_. n) (businesses db)"
    and log: "registry_audits db' = registry_audits db @ [e]" "version_entry (bz_id b) e" "ra_aggregate_version e = bz_version b + 1"
      "bz_updated_by n = ra_actor_id e"
  shows "x \<in> set (businesses db') \<Longrightarrow> 1 \<le> bz_version x \<and> record_explained db' x"
    and "a \<in> set (registry_audits db') \<Longrightarrow> version_entry i a \<Longrightarrow> i \<in> bz_id ` set (businesses db')"
proof -
  note bd = history_okD(1) [OF ok b(1)]
  have n: "record_explained db' n" by (rule explained_next [of db b db' e]) (use bd b log in auto)
  assume "x \<in> set (businesses db')"
  then consider "x = n" | "x \<in> set (businesses db)" "bz_id x \<noteq> bz_id b" by (auto simp: rows set_update_rows split: if_splits)
  then show "1 \<le> bz_version x \<and> record_explained db' x"
  proof cases
    case 1
    then show ?thesis using n bd b by simp
  next
    case 2
    then have "\<not> version_entry (bz_id x) e" using log(2) by (simp add: version_entry_def)
    then show ?thesis using explained_other [OF _ log(1)] history_okD(1) [OF ok 2(1)] by blast
  qed
next
  assume "a \<in> set (registry_audits db')" "version_entry i a"
  then show "i \<in> bz_id ` set (businesses db')"
    using history_okD(3) [OF ok, of a i] log b by (auto simp: rows updated_keys version_entry_def)
qed

lemma review_history:
  assumes ok: "history_ok db" and op: "transition_status env scope i r version db = Inr (db', v)"
  shows "history_ok db'"
proof -
  from op obtain b e where b: "b \<in> set (businesses db)" "st_target_status r \<in> allowed_transitions (bz_status b)"
    and db': "businesses db' = businesses (store_business env (reviewed (us_id (bs_user scope)) (st_target_status r) b) db)"
      "identity_changes db' = identity_changes db" "registry_audits db' = registry_audits db @ [e]"
    and e: "ra_aggregate_type e = ''BUSINESS''" "ra_aggregate_id e = bz_id b" "ra_aggregate_version e = bz_version b + 1"
      "ra_event_type e = transition_event (st_target_status r)" "ra_actor_id e = us_id (bs_user scope)"
    by (rule transition_status_Inr)
  let ?n = "(reviewed (us_id (bs_user scope)) (st_target_status r) b)\<lparr>bz_updated_at := bnv_now env\<rparr>"
  note ev = transition_event_types [OF b(2)]
  have rows: "businesses db' = update_rows (\<lambda>y. bz_id y = bz_id b) (\<lambda>_. ?n) (businesses db)" by (simp add: db' reviewed_def)
  have e': "\<not> change_entry j e" "version_entry (bz_id b) e" for j using ev e by (auto simp: change_entry_def version_entry_def)
  note step = next_version_history [OF ok b(1) _ _ rows db'(3) e'(2) e(3)]
  show ?thesis
  proof (rule history_okI)
    fix c assume "c \<in> set (identity_changes db')"
    then show "change_explained db' c"
      using change_explained_other [OF history_okD(2) [OF ok] db'(3) e'(1)] by (simp add: db'(2))
  next
    fix a assume "a \<in> set (registry_audits db')" "ra_event_type a = ''business.updated''"
    then show "\<exists>c\<in>set (identity_changes db'). change_entry (ch_id c) a"
      using history_okD(4) [OF ok, of a] ev e(4) by (auto simp: db'(2,3))
  qed (rule step, simp_all add: reviewed_def e(5))+
qed

lemma propose_history:
  assumes ok: "history_ok db" and op: "create_change_request env scope i r db = Inr (db', v)" and keys: "business_constraints db'"
  shows "history_ok db'"
proof -
  from op obtain b e where db': "businesses db' = businesses db" "identity_changes db' = identity_changes db @ [new_change env scope b r]"
    "registry_audits db' = registry_audits db @ [e]" "ra_event_type e = ''business.change_submitted''" by (rule create_change_request_Inr)
  then have e: "\<not> version_entry i e" "\<not> change_entry i e" for i
    by (simp_all add: version_entry_def change_entry_def version_event_types_def)
  have fresh: "ch_id (new_change env scope b r) \<notin> ch_id ` set (identity_changes db)"
    using keys db'(2) by (auto simp: business_constraints_def)
  have "\<not> change_entry (ch_id (new_change env scope b r)) a" if a: "a \<in> set (registry_audits db)" for a
  proof
    assume *: "change_entry (ch_id (new_change env scope b r)) a"
    then obtain c where "c \<in> set (identity_changes db)" "change_entry (ch_id c) a"
      using history_okD(4) [OF ok a] by (auto simp: change_entry_def)
    with * fresh show False by (auto simp: change_entry_def)
  qed
  then have "filter (change_entry (ch_id (new_change env scope b r))) (registry_audits db') = []"
    using e by (simp add: db'(3) filter_empty_conv)
  then have "change_explained db' (new_change env scope b r)" by (simp add: change_explained_def new_change_def)
  then show ?thesis
    using ok e explained_other [OF _ db'(3)] change_explained_other [OF _ db'(3)] db'(4)
    by (auto simp: history_ok_def list_all_iff db'(1-3))
qed

lemma change_updated:
  assumes "unique_by (Some \<circ> ch_id) cs" "c \<in> set cs" "x \<in> set (update_rows (\<lambda>y. ch_id y = ch_id c) (\<lambda>_. c') cs)"
  obtains "x = c'" | "x \<in> set cs" "ch_id x \<noteq> ch_id c"
  using assms by (auto simp: set_update_rows split: if_splits)

lemma decide_history:
  assumes ok: "history_ok db" and op: "decide_change env scope i approve reason db = Inr (db', v)"
    and keys: "unique_by (Some \<circ> ch_id) (identity_changes db)"
  shows "history_ok db'"
proof -
  from op obtain c b e where c: "c \<in> set (identity_changes db)" and _: "ch_id c = i" "ch_tenant_id c = bs_tenant scope"
    and c2: "ch_status c = ''SUBMITTED''" and b: "b \<in> set (businesses db)" and _: "answers_to (bs_tenant scope) (ch_business_id c) b"
    and b2: "approve \<longrightarrow> bz_version b = ch_target_version c"
    and bs: "businesses db' = (if approve
       then businesses (store_business env (next_version (us_id (bs_user scope)) (patched (ch_requested_patch c) b)) db) else businesses db)"
    and cs: "identity_changes db' = identity_changes (store_change (decided env scope approve reason
       (if approve then Some (bz_version b + 1) else ch_applied_version c) c) db)"
    and log: "registry_audits db' = registry_audits db @ [e]" and e: "ra_aggregate_type e = ''BUSINESS''" "ra_aggregate_id e = bz_id b"
      "ra_actor_id e = us_id (bs_user scope)" "ra_event_type e = (if approve then ''business.updated'' else ''business.change_rejected'')"
      "approve \<longrightarrow> ra_aggregate_version e = bz_version b + 1" "ra_metadata e = [(''change_request_id'', JStr (ch_id c))]"
    by (rule decide_change_Inr)
  let ?c = "decided env scope approve reason (if approve then Some (bz_version b + 1) else ch_applied_version c) c"
  have entry: "change_entry j e \<longleftrightarrow> approve \<and> j = ch_id c" "version_entry j e \<longleftrightarrow> approve \<and> j = bz_id b" for j
    using e by (auto simp: change_entry_def version_entry_def version_event_types_def)
  have c': "change_explained db' ?c"
    using history_okD(2) [OF ok c] c2 b2 e(5) by (cases approve) (simp_all add: change_explained_def log entry)
  have changes: "change_explained db' x" if "x \<in> set (identity_changes db')" for x
    using that unfolding cs stored_tables decided_fields
  proof (cases rule: change_updated [OF keys c, consumes 1])
    case 2
    then show ?thesis using change_explained_other [OF history_okD(2) [OF ok 2(1)] log] entry(1) by simp
  qed (use c' in simp)
  have ids: "ch_id ` set (identity_changes db') = ch_id ` set (identity_changes db)"
    by (simp add: cs updated_keys)
  have logged: "\<exists>x\<in>set (identity_changes db'). change_entry (ch_id x) a"
    if "a \<in> set (registry_audits db')" "ra_event_type a = ''business.updated''" for a
  proof -
    have "\<exists>j\<in>ch_id ` set (identity_changes db). change_entry j a"
      using that history_okD(4) [OF ok, of a] entry(1) [of "ch_id c"] c e(4) by (auto simp: log split: if_splits)
    then show ?thesis unfolding ids [symmetric] by blast
  qed
  show ?thesis
  proof (cases approve)
    case True
    let ?n = "(next_version (us_id (bs_user scope)) (patched (ch_requested_patch c) b))\<lparr>bz_updated_at := bnv_now env\<rparr>"
    have rows: "businesses db' = update_rows (\<lambda>y. bz_id y = bz_id b) (\<lambda>_. ?n) (businesses db)" using True by (simp add: bs)
    note step = next_version_history [OF ok b _ _ rows log _ e(5) [THEN mp, OF True]]
    show ?thesis by (rule history_okI) (use True entry e(3) changes logged step in auto)
  next
    case False
    show ?thesis
      by (rule history_okI) (use False changes logged history_okD [OF ok] explained_other [OF _ log] entry in \<open>auto simp: bs log\<close>)
  qed
qed

lemma history_step: "history_inv db \<Longrightarrow> history_inv (fst (business_step (env, q) db))"
proof (cases rule: business_step_cases [of env q db])
  case (act db')
  assume "history_inv db"
  then have inv: "history_ok db" and keys: "business_constraints db" by (simp_all add: history_inv_def)
  have core: "history_ok db1" if "registry_core db1 = registry_core db" for db1
    using history_ok_core [OF that] inv by blast
  have "history_ok db'" using act(2)
  proof cases
    case idle
    then show ?thesis by (rule core)
  next
    case (create token csrf scope body b db1 v)
    show ?thesis by (rule create_history [OF core [OF create(4)] create(5) act(3)])
  next
    case (review token csrf scope body r header version db1 i v)
    show ?thesis by (rule review_history [OF core [OF review(5)] review(6)])
  next
    case (propose token csrf scope body r db1 i v)
    show ?thesis by (rule propose_history [OF core [OF propose(4)] propose(5) act(3)])
  next
    case (decide token csrf scope reason r decision db1 i v)
    then have "identity_changes db1 = identity_changes db" by simp
    then have "unique_by (Some \<circ> ch_id) (identity_changes db1)" using constraints_keys [OF keys] by simp
    then show ?thesis by (rule decide_history [OF core [OF decide(5)] decide(6)])
  qed
  with act show ?thesis by (simp add: history_inv_def)
qed simp

interpretation business_history: service business_step history_inv
  by unfold_locales (auto intro: history_step simp del: business_step.simps)

text \<open>A registry before its first review: first versions, and no change request decided.\<close>

definition unreviewed :: "business_db \<Rightarrow> bool" where
  "unreviewed db \<longleftrightarrow> business_constraints db \<and> list_all (\<lambda>b. bz_version b = 1) (businesses db) \<and>
     list_all (\<lambda>c. ch_status c = ''SUBMITTED'' \<and> ch_applied_version c = None) (identity_changes db) \<and>
     list_all (\<lambda>a. ra_event_type a \<notin> version_event_types) (registry_audits db)"

lemma unreviewed_history:
  assumes "unreviewed db"
  shows "history_inv db"
proof -
  have none: "filter (version_entry i) (registry_audits db) = []" "filter (change_entry i) (registry_audits db) = []" for i
    using assms by (auto simp: unreviewed_def filter_empty_conv version_entry_def change_entry_def version_event_types_def list_all_iff)
  then have "history_ok db"
    using assms by (auto simp: history_ok_def unreviewed_def record_explained_def change_explained_def list_all_iff filter_empty_conv
        version_event_types_def)
  then show ?thesis using assms by (simp add: history_inv_def unreviewed_def)
qed

text \<open>
  C24. The history of the registry is complete. Whatever requests a registry serves from before its
  first review: for every business record the audit log holds exactly one entry for each version
  after the first, in the order of the versions, the last of them by the user the record names (the
  entries of the five events that make a version; a rejected change request is logged, too, with
  the version the record keeps); and
  an approved change request was applied exactly once, to the version after the one it was
  submitted for, a request that is not approved never.
\<close>

theorem business_history_complete:
  assumes "unreviewed db"
  shows "(\<forall>b\<in>set (businesses (run business_step qs db)).
            map ra_aggregate_version (filter (version_entry (bz_id b)) (registry_audits (run business_step qs db))) = [2..bz_version b] \<and>
            (1 < bz_version b \<longrightarrow>
               ra_actor_id (last (filter (version_entry (bz_id b)) (registry_audits (run business_step qs db)))) = bz_updated_by b)) \<and>
         (\<forall>c\<in>set (identity_changes (run business_step qs db)).
            map ra_aggregate_version (filter (change_entry (ch_id c)) (registry_audits (run business_step qs db))) =
              (if ch_status c = ''APPROVED'' then [ch_target_version c + 1] else []) \<and>
            ch_applied_version c = (if ch_status c = ''APPROVED'' then Some (ch_target_version c + 1) else None))"
proof -
  let ?db = "run business_step qs db"
  have ok: "history_ok ?db"
    using business_history.run_inv [OF unreviewed_history [OF assms], of qs] by (simp add: history_inv_def)
  then have b: "record_explained ?db b" if "b \<in> set (businesses ?db)" for b using history_okD(1) that by blast
  have "filter (version_entry (bz_id b)) (registry_audits ?db) \<noteq> []" if "b \<in> set (businesses ?db)" "1 < bz_version b" for b
    using b [OF that(1)] that(2) by (auto simp: record_explained_def Let_def)
  then show ?thesis using b history_okD(2) [OF ok] by (simp add: record_explained_def change_explained_def Let_def)
qed

section \<open>Columns\<close>

definition short :: "nat \<Rightarrow> string \<Rightarrow> bool" where
  "short n s \<longleftrightarrow> length s \<le> n"

definition business_statuses :: "string set" where
  "business_statuses = {''PENDING_REVIEW'', ''ACTIVE'', ''SUSPENDED'', ''DISSOLVED'', ''REJECTED''}"

definition complete_address :: "str_dict \<Rightarrow> bool" where
  "complete_address a \<longleftrightarrow> set address_fields \<subseteq> fst ` set a"

definition business_typed :: "business \<Rightarrow> bool" where
  "business_typed b \<longleftrightarrow>
     bz_status b \<in> business_statuses \<and> bz_business_type b \<in> business_types \<and> 1 \<le> bz_version b \<and>
     business_id_pattern (bz_business_id b) \<and> registry_number_pattern (bz_registry_number b) \<and>
     3 \<le> length (bz_legal_name b) \<and> short 200 (bz_legal_name b) \<and> if_given (short 160) (bz_trade_name b) \<and>
     if_given (short 20) (bz_industry_code b) \<and> if_given (\<lambda>c. c \<in> msme_classes) (bz_msme_classification b) \<and>
     if_given gstin_pattern (bz_primary_gstin b) \<and> complete_address (bz_registered_address b) \<and> length (bz_source_hash b) = 64"

definition patch_typed :: "identity_patch \<Rightarrow> bool" where
  "patch_typed p \<longleftrightarrow>
     if_given (\<lambda>s. 3 \<le> length s \<and> short 200 s) (ip_legal_name p) \<and> if_given (short 160) (ip_trade_name p) \<and>
     if_given (short 20) (ip_industry_code p) \<and> if_given (\<lambda>c. c \<in> msme_classes) (ip_msme_classification p) \<and>
     if_given gstin_pattern (ip_primary_gstin p) \<and> if_given complete_address (ip_registered_address p)"

definition change_typed :: "identity_change \<Rightarrow> bool" where
  "change_typed c \<longleftrightarrow>
     patch_typed (ch_requested_patch c) \<and> 1 \<le> ch_target_version c \<and> 10 \<le> length (ch_reason c) \<and> short 500 (ch_reason c) \<and>
     ch_status c \<in> {''SUBMITTED'', ''APPROVED'', ''REJECTED''} \<and>
     (ch_status c = ''SUBMITTED'' \<longleftrightarrow> ch_reviewed_by c = None) \<and> (ch_status c = ''SUBMITTED'' \<longleftrightarrow> ch_decided_at c = None) \<and>
     (ch_status c = ''SUBMITTED'' \<longleftrightarrow> ch_decision_reason c = None)"

definition columns_typed :: "business_db \<Rightarrow> bool" where
  "columns_typed db \<longleftrightarrow> list_all business_typed (businesses db) \<and> list_all change_typed (identity_changes db)"

lemma if_given_simps [simp]: "if_given p None" "if_given p (Some x) = p x"
  by (simp_all add: if_given_def)

lemma if_given_map: "if_given p (map_option f v) = if_given (p \<circ> f) v"
  by (cases v) simp_all

lemma new_business_typed:
  assumes "valid_business body = Inr b"
  shows "business_typed (new_business env scope b)"
  using assms
  by (auto simp: valid_business_def business_typed_def new_business_def business_statuses_def complete_address_def address_fields_def
      create_address_def short_def [abs_def] length_between_def [abs_def] registry_hash_def if_given_map comp_def split: if_splits)

lemma valid_change_patch:
  assumes "valid_change body = Inr r" "if_given complete_address (ip_registered_address (cc_patch r))"
  shows "patch_typed (cc_patch r)" "1 \<le> cc_target_version r" "10 \<le> length (cc_reason r)" "short 500 (cc_reason r)"
  using assms by (auto simp: valid_change_def patch_typed_def short_def [abs_def] length_between_def [abs_def] if_given_map comp_def Let_def split: if_splits)

lemma next_version_typed: "business_typed b \<Longrightarrow> business_typed ((next_version u b)\<lparr>bz_updated_at := t\<rparr>)"
  by (simp add: business_typed_def next_version_def identity_hash_def registry_hash_def Let_def)

lemma patched_typed: "business_typed b \<Longrightarrow> patch_typed p \<Longrightarrow> business_typed (patched p b)"
  by (auto simp: business_typed_def patch_typed_def patched_def or_else_def split: option.splits)

lemma reviewed_typed:
  "business_typed b \<Longrightarrow> t \<in> allowed_transitions s \<Longrightarrow> business_typed ((reviewed u t b)\<lparr>bz_updated_at := now\<rparr>)"
  unfolding reviewed_def
  by (rule next_version_typed) (auto simp: business_typed_def business_statuses_def allowed_transitions_def split: if_splits)

lemma decided_typed: "change_typed c \<Longrightarrow> change_typed (decided env scope approve reason applied c)"
  by (simp add: change_typed_def decided_def)

lemma stored_typed: "list_all p rows \<Longrightarrow> p n \<Longrightarrow> list_all p (update_rows q (\<lambda>_. n) rows)"
  by (auto simp: list_all_iff set_update_rows)

lemma act_typed:
  assumes act: "registry_act env db db' q" and typed: "columns_typed db"
  shows "columns_typed db'"
  using act
proof cases
  case idle
  then show ?thesis using typed by (simp add: columns_typed_def)
next
  case (create token csrf scope body b db1 v)
  have rows: "businesses db' = businesses db1 @ [new_business env scope b]" "identity_changes db' = identity_changes db1"
    using create(5) by (auto elim!: create_business_Inr)
  show ?thesis using typed create(4) new_business_typed [OF create(3)] by (simp add: columns_typed_def rows)
next
  case (review token csrf scope body r header version db1 i v)
  from transition_status_Inr [OF review(6)] obtain b where b: "b \<in> set (businesses db1)"
      "st_target_status r \<in> allowed_transitions (bz_status b)" and rows: "identity_changes db' = identity_changes db1"
      "businesses db' = businesses (store_business env (reviewed (us_id (bs_user scope)) (st_target_status r) b) db1)" by metis
  have "business_typed b" using b(1) typed review(5) by (auto simp: columns_typed_def list_all_iff)
  from reviewed_typed [OF this b(2)] show ?thesis
    using typed review(5) by (auto simp: columns_typed_def rows stored_typed)
next
  case (propose token csrf scope body r db1 i v)
  from create_change_request_Inr [OF propose(5)] obtain b where b: "cc_target_version r = bz_version b"
      "if_given complete_address (ip_registered_address (cc_patch r))"
    and rows: "businesses db' = businesses db1" "identity_changes db' = identity_changes db1 @ [new_change env scope b r]"
    by (auto simp: complete_address_def [abs_def])
  have "change_typed (new_change env scope b r)"
    using valid_change_patch [OF propose(3) b(2)] b(1) by (simp add: change_typed_def new_change_def)
  then show ?thesis using typed propose(4) by (simp add: columns_typed_def rows)
next
  case (decide token csrf scope reason r decision db1 i v)
  from decide_change_Inr [OF decide(6)] obtain c b applied where c: "c \<in> set (identity_changes db1)" and b: "b \<in> set (businesses db1)"
    and rows: "businesses db' = (if decision = ''approve''
       then businesses (store_business env (next_version (us_id (bs_user scope)) (patched (ch_requested_patch c) b)) db1) else businesses db1)"
      "identity_changes db' = identity_changes (store_change (decided env scope (decision = ''approve'') r applied c) db1)" by metis
  have t: "columns_typed db1" using typed decide(5) by (simp add: columns_typed_def)
  then have tc: "change_typed c" and tb: "business_typed b" using b c by (auto simp: columns_typed_def list_all_iff)
  then have "business_typed ((next_version u (patched (ch_requested_patch c) b))\<lparr>bz_updated_at := bnv_now env\<rparr>)" for u
    by (intro next_version_typed patched_typed) (simp_all add: change_typed_def)
  then show ?thesis using t decided_typed [OF tc] by (simp add: columns_typed_def rows stored_typed)
qed

definition typed_inv :: "business_db \<Rightarrow> bool" where
  "typed_inv db \<longleftrightarrow> business_constraints db \<and> columns_typed db"

lemma typed_step: "typed_inv db \<Longrightarrow> typed_inv (fst (business_step (env, q) db))"
  by (cases rule: business_step_cases [of env q db]) (auto simp: typed_inv_def intro: act_typed)

interpretation business_types_kept: service business_step typed_inv
  by unfold_locales (auto intro: typed_step simp del: business_step.simps)

text \<open>
  C25. The columns of the registry keep their types. Whatever requests a registry serves from a state
  whose rows are well typed: every business has one of the five statuses and of the five types, a
  version of at least 1, identifiers and an optional GSTIN of the contract's patterns, names and
  codes within their lengths, a state code of at most two characters, an address with all five parts
  and a digest as its hash; every change request proposes such values, and has a reviewer, a reason
  and a time of decision exactly when it is decided. No two businesses of a tenant share a registry
  number, a business id or a GSTIN.
\<close>

theorem business_columns_typed:
  assumes "business_constraints db" "columns_typed db"
  shows "list_all (\<lambda>b. business_typed b \<and> short 2 (bz_registered_state_code b)) (businesses (run business_step qs db)) \<and>
         list_all change_typed (identity_changes (run business_step qs db)) \<and>
         unique_by (\<lambda>b. Some (bz_tenant_id b, bz_registry_number b)) (businesses (run business_step qs db)) \<and>
         unique_by (\<lambda>b. Some (bz_tenant_id b, bz_business_id b)) (businesses (run business_step qs db)) \<and>
         unique_by (\<lambda>b. pair_key (Some (bz_tenant_id b)) (bz_primary_gstin b)) (businesses (run business_step qs db))"
proof -
  have "typed_inv (run business_step qs db)"
    using business_types_kept.run_inv [of db qs] assms by (simp add: typed_inv_def)
  then show ?thesis by (auto simp: typed_inv_def columns_typed_def business_constraints_def short_def list_all_iff)
qed

section \<open>Passwords\<close>

lemma hex_char_hex: "d < 16 \<Longrightarrow> hex_digit (hex_char d) \<and> lower_char (hex_char d) = hex_char d \<and>
    (of_char (hex_char d) :: nat) \<notin> {9, 10, 11, 12, 13, 32, 36}"
  by (auto simp: hex_digit_def in_range_def is_digit_def lower_char_def hex_char_def take_bit_eq_mod Let_def)

lemma hex_char_dollar: "d < 16 \<Longrightarrow> hex_char d \<noteq> CHR ''$''"
  using hex_char_hex [of d] by auto

lemma from_hex_hexdigest: "list_all (\<lambda>b. b < 256) bs \<Longrightarrow> from_hex (hexdigest bs) = Some bs"
proof (induction bs)
  case (Cons b bs)
  then have "b div 16 < 16" "b mod 16 < 16" by auto
  then show ?case
    using Cons hex_char_hex [of "b div 16"] hex_char_hex [of "b mod 16"]
    by (simp add: hexdigest_def byte_hex_def hex_val_char)
qed (simp add: hexdigest_def)

lemma hexdigest_no_dollar:
  assumes "list_all (\<lambda>b. b < 256) bs"
  shows "list_all (\<lambda>c. c \<noteq> CHR ''$'') (hexdigest bs)"
  using assms hex_char_dollar
  by (induction bs) (auto simp: hexdigest_def byte_hex_def)

lemma split_dollar_append:
  assumes "list_all (\<lambda>c. c \<noteq> CHR ''$'') s"
  shows "split_dollar (s @ CHR ''$'' # t) = (s, Some t)"
  using assms by (induction s) (auto simp: split_dollar_def)

lemma hash_password_parts:
  assumes "salt \<noteq> []" "list_all (\<lambda>b. b < 256) salt"
  shows "split_dollar (hash_password random password salt) =
      (''scrypt'', Some (hexdigest salt @ CHR ''$'' # hexdigest (scrypt (2 ^ 14) 8 32 (utf8 password) salt)))"
    and "split_dollar (drop 7 (hash_password random password salt)) =
      (hexdigest salt, Some (hexdigest (scrypt (2 ^ 14) 8 32 (utf8 password) salt)))"
  using assms split_dollar_append [of "''scrypt''"] split_dollar_append [OF hexdigest_no_dollar [OF assms(2)]]
  by (simp_all add: hash_password_def Let_def)

text \<open>
  Passwords. A password hash made with a salt of at least one byte accepts the password it was
  made from, whatever random bytes either call draws; and it accepts another password only if
  scrypt gives both the same digest.
\<close>

theorem business_password_round_trip:
  assumes "salt \<noteq> []" "list_all (\<lambda>b. b < 256) salt"
  shows "verify_password random password (hash_password random' password salt) \<and>
    (verify_password random other (hash_password random' password salt) \<longrightarrow>
       hexdigest (scrypt (2 ^ 14) 8 32 (utf8 other) salt) = hexdigest (scrypt (2 ^ 14) 8 32 (utf8 password) salt))"
  unfolding verify_password_def hash_password_parts(1) [OF assms] split_dollar_append [OF hexdigest_no_dollar [OF assms(2)]]
    prod.case option.case from_hex_hexdigest [OF assms(2)] hash_password_parts(2) [OF assms] by simp

end
