(* ===== verification/BusinessSeed.thy ===== *)
theory BusinessSeed
  imports BusinessApp
begin

text \<open>
  The demonstration data of the business registry (seed.py): two users with hashed passwords, four
  businesses with their names, addresses, people and owners, two relationships and one pending
  change request. \<open>stable_id\<close> tabulates the values of \<open>uuid5\<close> for the names the seed uses; dates
  are day numbers. The two random salts and the settings' passwords are inputs.
\<close>

definition registry_tenant :: string where
  "registry_tenant = ''00000000-0000-4000-8000-000000001301''"

definition stable_ids :: "(string \<times> string) list" where
  "stable_ids =
     [(''registry-operator'', ''bd5ca8d8-597a-5cb4-a406-ebca1f852d3a''),
      (''registry-reviewer'', ''29756bbc-3faa-54ad-8425-3defd063f696''),
      (''name-1'', ''82bea9e9-4718-5f4b-9bea-26ab9d47513f''),
      (''address-1'', ''fb5deb27-0766-512b-8a0c-d3cd36b99c4d''),
      (''person-1'', ''008f21e2-9a41-5bb4-bc17-6cb3fc795fd6''),
      (''owner-1'', ''468394be-bff4-5f87-b66d-600b6f188691''),
      (''audit-business-1'', ''9d0a440d-04ee-560c-bb37-6c0f684f1acd''),
      (''name-2'', ''f6d1787e-7a36-5fbd-8abf-0aebd89d1c08''),
      (''address-2'', ''263f60b2-c5eb-5197-85fd-bf0bdd5efd70''),
      (''person-2'', ''ae134459-aaf6-5be2-9495-274d26f4c8ff''),
      (''owner-2'', ''cc795a4c-6993-5636-ba53-9fde8bcd6645''),
      (''audit-business-2'', ''3d9d206b-8277-5ae6-9151-69f8eff8478b''),
      (''name-3'', ''2dada0d5-7047-589e-a166-4f793602fbb2''),
      (''address-3'', ''5ca7f005-c600-524f-9aa4-aa89d1c8f1db''),
      (''person-3'', ''f9c36ec2-fbca-5c64-a5c0-7e7d1ce0a955''),
      (''owner-3'', ''c3a6780c-80e7-5bd6-9049-8faa534d78a3''),
      (''audit-business-3'', ''462604d0-31da-5e46-a257-374b79218e66''),
      (''name-4'', ''245350cb-227b-5556-8399-92ca6039d00c''),
      (''address-4'', ''ebc7cc7a-fb5b-5b58-80a0-97f97bfc384f''),
      (''person-4'', ''a11468b7-5c13-568b-bb7d-6c71f7809e87''),
      (''owner-4'', ''693c8b91-a04d-5372-b59e-149a6506c58f''),
      (''audit-business-4'', ''2e2211f8-b04c-5eb0-99c7-5879adced103''),
      (''relationship-kaveri-bluepeak'', ''a5a76a95-8010-5876-940e-038f188956c8''),
      (''relationship-orbit-bluepeak'', ''831eed53-a77e-5c11-8476-d6467e18537d''),
      (''pending-change-kaveri'', ''8eee2ced-50d2-529e-80ca-1bc32b5b6b06'')]"

definition stable_id :: "string \<Rightarrow> string" where
  "stable_id name = or_else (map_of stable_ids name) []"

record business_fixture =
  bx_id :: string
  bx_business_id :: string
  bx_registry_number :: string
  bx_business_type :: string
  bx_legal_name :: string
  bx_trade_name :: string
  bx_incorporation_date :: int
  bx_status :: string
  bx_state :: string
  bx_city :: string
  bx_postal_code :: string
  bx_industry_code :: string
  bx_classification :: string
  bx_gstin :: string
  bx_flags :: "string list"
  bx_person :: string

definition business_fixtures :: "business_fixture list" where
  "business_fixtures =
     [\<lparr>bx_id = ''00000000-0000-4000-8000-000000001201'', bx_business_id = ''biz_gst_micro_01'', bx_registry_number = ''U28999KA2021PTC145201'', bx_business_type = ''COMPANY'', bx_legal_name = ''Kaveri Precision Components Private Limited'', bx_trade_name = ''Kaveri Precision'', bx_incorporation_date = 18676, bx_status = ''ACTIVE'', bx_state = ''29'', bx_city = ''Bengaluru'', bx_postal_code = ''560058'', bx_industry_code = ''C2599'', bx_classification = ''MICRO'', bx_gstin = ''29ABCDE1234F1Z5'', bx_flags = [], bx_person = ''Priya Nair''\<rparr>,
      \<lparr>bx_id = ''00000000-0000-4000-8000-000000002201'', bx_business_id = ''biz_buyer_bluepeak_01'', bx_registry_number = ''U52100KA2016PLC092221'', bx_business_type = ''COMPANY'', bx_legal_name = ''Bluepeak Retail Networks Limited'', bx_trade_name = ''Bluepeak Retail'', bx_incorporation_date = 16933, bx_status = ''ACTIVE'', bx_state = ''29'', bx_city = ''Bengaluru'', bx_postal_code = ''560103'', bx_industry_code = ''G4719'', bx_classification = ''MEDIUM'', bx_gstin = ''29BUYER1234A1Z8'', bx_flags = [], bx_person = ''Arjun Shah''\<rparr>,
      \<lparr>bx_id = ''00000000-0000-4000-8000-000000002202'', bx_business_id = ''biz_supplier_orbit_01'', bx_registry_number = ''AAE-4421-DEMO'', bx_business_type = ''LLP'', bx_legal_name = ''Orbit Alloy Services LLP'', bx_trade_name = ''Orbit Alloy'', bx_incorporation_date = 18206, bx_status = ''SUSPENDED'', bx_state = ''27'', bx_city = ''Pune'', bx_postal_code = ''411019'', bx_industry_code = ''C2410'', bx_classification = ''SMALL'', bx_gstin = ''27ORBIT4421L1Z3'', bx_flags = [''GST_STATUS_MISMATCH'', ''RELATED_PARTY_REVIEW''], bx_person = ''Rohit Kulkarni''\<rparr>,
      \<lparr>bx_id = ''00000000-0000-4000-8000-000000002203'', bx_business_id = ''biz_pending_nimbus_01'', bx_registry_number = ''U62099DL2026PTC441902'', bx_business_type = ''COMPANY'', bx_legal_name = ''Nimbus Trade Systems Private Limited'', bx_trade_name = ''Nimbus Trade'', bx_incorporation_date = 20613, bx_status = ''PENDING_REVIEW'', bx_state = ''07'', bx_city = ''New Delhi'', bx_postal_code = ''110020'', bx_industry_code = ''J6209'', bx_classification = ''MICRO'', bx_gstin = ''07NIMBU4419N1Z6'', bx_flags = [''NEWLY_INCORPORATED''], bx_person = ''Neha Batra''\<rparr>]"

definition fixture_address :: "nat \<Rightarrow> business_fixture \<Rightarrow> str_dict" where
  "fixture_address k f =
     [(''line1'', nat_str (18 + k) @ '', Industrial Records Estate''), (''city'', bx_city f), (''state_code'', bx_state f),
      (''postal_code'', bx_postal_code f), (''country'', ''IN'')]"

definition fixture_source :: "nat \<Rightarrow> business_fixture \<Rightarrow> json" where
  "fixture_source k f = JObj
     [(''registry_number'', JStr (bx_registry_number f)), (''legal_name'', JStr (bx_legal_name f)), (''status'', JStr (bx_status f)),
      (''gstin'', JStr (bx_gstin f)), (''address'', JDict (fixture_address k f))]"

definition seed_operator :: string where
  "seed_operator = stable_id ''registry-operator''"

definition seeded_business :: "time \<Rightarrow> nat \<Rightarrow> business_fixture \<Rightarrow> business" where
  "seeded_business now k f =
     \<lparr>bz_id = bx_id f, bz_tenant_id = registry_tenant, bz_business_id = bx_business_id f, bz_registry_number = bx_registry_number f,
      bz_business_type = bx_business_type f, bz_legal_name = bx_legal_name f, bz_trade_name = Some (bx_trade_name f),
      bz_incorporation_date = bx_incorporation_date f, bz_status = bx_status f, bz_registered_state_code = bx_state f,
      bz_registered_address = fixture_address k f, bz_industry_code = Some (bx_industry_code f),
      bz_msme_classification = Some (bx_classification f), bz_primary_gstin = Some (bx_gstin f),
      bz_pan_token = Some (''pan_demo_'' @ padded 2 k), bz_risk_flags = bx_flags f, bz_source_hash = registry_hash (fixture_source k f),
      bz_version = 1, bz_created_by = seed_operator, bz_updated_by = seed_operator, bz_created_at = now, bz_updated_at = now\<rparr>"

definition fixture_key :: "string \<Rightarrow> nat \<Rightarrow> string" where
  "fixture_key prefix k = stable_id (prefix @ nat_str k)"

definition seed_business :: "time \<Rightarrow> nat \<times> business_fixture \<Rightarrow> business_db \<Rightarrow> business_db" where
  "seed_business now kf db =
     (case kf of (k, f) \<Rightarrow>
        db\<lparr>businesses := businesses db @ [seeded_business now k f],
           business_names := business_names db @
             [\<lparr>nm_id = fixture_key ''name-'' k, nm_tenant_id = registry_tenant, nm_business_id = bx_id f, nm_name_type = ''LEGAL'',
               nm_name = bx_legal_name f, nm_effective_from = bx_incorporation_date f, nm_effective_to = None,
               nm_source_hash = registry_hash (JStr (bx_legal_name f)), nm_record_version = 1\<rparr>],
           business_addresses := business_addresses db @
             [\<lparr>bd_id = fixture_key ''address-'' k, bd_tenant_id = registry_tenant, bd_business_id = bx_id f, bd_address_type = ''REGISTERED'',
               bd_address_json = fixture_address k f, bd_verification_status = ''VERIFIED'', bd_effective_from = bx_incorporation_date f,
               bd_effective_to = None, bd_source_hash = registry_hash (JDict (fixture_address k f)), bd_record_version = 1\<rparr>],
           business_people := business_people db @
             [\<lparr>bp_id = fixture_key ''person-'' k, bp_tenant_id = registry_tenant, bp_business_id = bx_id f,
               bp_person_token = ''person_demo_'' @ padded 2 k, bp_display_name = bx_person f, bp_role = ''AUTHORIZED_SIGNATORY'',
               bp_appointment_date = bx_incorporation_date f, bp_cessation_date = None,
               bp_authorization_status = (if bx_status f = ''ACTIVE'' then ''ACTIVE'' else ''REVIEW_REQUIRED''),
               bp_verification_status = ''VERIFIED'',
               bp_source_hash = registry_hash (JObj [(''business'', JStr (bx_id f)), (''person'', JInt (int k))]), bp_version = 1\<rparr>],
           ownership_links := ownership_links db @
             [\<lparr>ow_id = fixture_key ''owner-'' k, ow_tenant_id = registry_tenant, ow_business_id = bx_id f, ow_owner_type = ''PERSON'',
               ow_owner_token = ''owner_demo_'' @ padded 2 k, ow_owner_display_name = bx_person f, ow_ownership_percentage = 7000,
               ow_effective_from = bx_incorporation_date f, ow_effective_to = None, ow_verification_status = ''VERIFIED'',
               ow_source_hash = registry_hash (JObj [(''business'', JStr (bx_id f)), (''owner'', JInt (int k))]), ow_version = 1\<rparr>],
           registry_audits := registry_audits db @
             [\<lparr>ra_id = fixture_key ''audit-business-'' k, ra_tenant_id = registry_tenant, ra_aggregate_type = ''BUSINESS'',
               ra_aggregate_id = bx_id f, ra_aggregate_version = 1, ra_event_type = ''demo.business_seeded'', ra_actor_type = ''SYSTEM'',
               ra_actor_id = ''registry-demo-seeder'', ra_reason = Some ''Versioned synthetic registry fixture'',
               ra_metadata = [(''fixture'', JInt (int k))], ra_occurred_at = now\<rparr>]\<rparr>)"

definition seed_user :: "time \<Rightarrow> string \<Rightarrow> string \<Rightarrow> string \<Rightarrow> string \<Rightarrow> string \<Rightarrow> nat list \<Rightarrow> registry_user" where
  "seed_user now i email display_name role password salt =
     \<lparr>us_id = i, us_tenant_id = registry_tenant, us_email = email, us_display_name = display_name,
      us_password_hash = hash_password [] password salt, us_roles = [''REGISTRY_VIEWER'', role], us_status = ''ACTIVE'',
      us_last_login_at = None, us_created_at = now\<rparr>"

definition seeded_relationship :: "string \<Rightarrow> string \<Rightarrow> string \<Rightarrow> string \<Rightarrow> int \<Rightarrow> int option \<Rightarrow> string \<Rightarrow> int \<Rightarrow> business_relationship" where
  "seeded_relationship i source target status effective_from effective_to evidence version =
     \<lparr>rl_id = i, rl_tenant_id = registry_tenant, rl_source_business_id = source, rl_target_business_id = target,
      rl_relationship_type = ''BUYER'', rl_status = status, rl_effective_from = effective_from, rl_effective_to = effective_to,
      rl_evidence_hash = registry_hash (JStr evidence), rl_version = version\<rparr>"

definition seeded_change :: "time \<Rightarrow> identity_change" where
  "seeded_change now =
     \<lparr>ch_id = stable_id ''pending-change-kaveri'', ch_tenant_id = registry_tenant, ch_business_id = ''00000000-0000-4000-8000-000000001201'',
      ch_target_version = 1,
      ch_requested_patch = \<lparr>ip_legal_name = None, ip_trade_name = Some ''Kaveri Precision Works'', ip_registered_address = None,
        ip_industry_code = None, ip_msme_classification = None, ip_primary_gstin = None\<rparr>,
      ch_reason = ''Trade name alignment requested for current commercial records'', ch_status = ''SUBMITTED'',
      ch_requested_by = seed_operator, ch_reviewed_by = None, ch_decision_reason = None, ch_applied_version = None,
      ch_created_at = now, ch_decided_at = None\<rparr>"

text \<open>\<open>seed_demo_data\<close> does nothing when the first business is there already.\<close>

definition seed_registry :: "time \<Rightarrow> string \<Rightarrow> string \<Rightarrow> nat list \<Rightarrow> nat list \<Rightarrow> business_db \<Rightarrow> business_db" where
  "seed_registry now operator_password reviewer_password salt1 salt2 db =
     (if \<exists>b\<in>set (businesses db). bz_id b = ''00000000-0000-4000-8000-000000001201'' then db
      else
        let db1 = db\<lparr>registry_users := registry_users db @
              [seed_user now seed_operator ''operator@registry.demo.xyena.test'' ''Ananya Rao'' ''REGISTRY_OPERATOR'' operator_password salt1,
               seed_user now (stable_id ''registry-reviewer'') ''reviewer@registry.demo.xyena.test'' ''Vikram Menon'' ''REGISTRY_REVIEWER''
                 reviewer_password salt2]\<rparr>;
            db2 = fold (seed_business now) (enumerate 1 business_fixtures) db1
        in db2\<lparr>business_relationships := business_relationships db2 @
               [seeded_relationship (stable_id ''relationship-kaveri-bluepeak'') ''00000000-0000-4000-8000-000000001201''
                  ''00000000-0000-4000-8000-000000002201'' ''ACTIVE'' 19448 None ''kaveri-bluepeak-buyer'' 1,
                seeded_relationship (stable_id ''relationship-orbit-bluepeak'') ''00000000-0000-4000-8000-000000002202''
                  ''00000000-0000-4000-8000-000000002201'' ''REVOKED'' 19174 (Some 20604) ''orbit-bluepeak-revoked'' 2],
             identity_changes := identity_changes db2 @ [seeded_change now]\<rparr>)"

definition empty_business_registry :: business_db where
  "empty_business_registry = \<lparr>registry_users = [], browser_sessions = [], businesses = [], business_names = [], business_addresses = [],
     business_people = [], ownership_links = [], business_relationships = [], identity_changes = [], registry_audits = [],
     registry_outboxes = []\<rparr>"

end
