(* ===== verification/BusinessDemo.thy ===== *)
theory BusinessDemo
  imports BusinessProperties BusinessSeed
begin

text \<open>
  The seeded registry satisfies the hypotheses of the properties (\<open>seed_unreviewed\<close>). The
  demonstrations run on its users, its first business and the pending change request, with the
  reviewer signed in, who approves the request. The digests and the printed answers are left
  unevaluated.
\<close>

definition zdemo_env :: "char \<Rightarrow> nat \<Rightarrow> business_env" where
  "zdemo_env c pick = \<lparr>bnv_now = 0, bnv_uuid = (\<lambda>k. c # replicate k CHR ''0''), bnv_session_token = ''raw'', bnv_csrf_token = ''form'',
     bnv_salt = [1], bnv_pick = pick, bnv_mcp_token = ''mcp''\<rparr>"

definition zdemo_session :: browser_session where
  "zdemo_session = \<lparr>ss_id = ''s1'', ss_token_hash = hash_token ''cookie'', ss_csrf_hash = hash_token ''token'',
     ss_user_id = stable_id ''registry-reviewer'', ss_tenant_id = registry_tenant, ss_expires_at = 100, ss_created_at = 0, ss_last_seen_at = 0\<rparr>"

definition zdemo_user :: "string \<Rightarrow> string \<Rightarrow> registry_user" where
  "zdemo_user name role = seed_user 0 (stable_id name) name [] role ''demo-password'' [1]"

definition zdemo_start :: business_db where
  "zdemo_start = empty_business_registry
     \<lparr>registry_users := [zdemo_user ''registry-operator'' ''REGISTRY_OPERATOR'', zdemo_user ''registry-reviewer'' ''REGISTRY_REVIEWER''],
      browser_sessions := [zdemo_session], businesses := [seeded_business 0 1 (hd business_fixtures)], identity_changes := [seeded_change 0]\<rparr>"

definition zdemo_kaveri :: string where
  "zdemo_kaveri = ''00000000-0000-4000-8000-000000001201''"

definition zdemo_change :: string where
  "zdemo_change = stable_id ''pending-change-kaveri''"

definition zdemo_approve :: "business_request" where
  "zdemo_approve = BusinessRoute (Some ''cookie'') (Some ''token'') (DecideChange zdemo_change ''approve'' ''Matches the filed records.'')"

definition zdemo_impostor :: business_create where
  "zdemo_impostor = \<lparr>bq_registry_number = ''IMPOSTOR-1'', bq_business_id = zdemo_kaveri, bq_business_type = ''OTHER'', bq_legal_name = ''Impostor'',
     bq_trade_name = None, bq_incorporation_date = 0, bq_registered_state_code = ''29'', bq_address_line1 = ''1 Example Street'',
     bq_city = ''Pune'', bq_postal_code = ''411019'', bq_industry_code = None, bq_msme_classification = None, bq_primary_gstin = None\<rparr>"

definition zdemo_scope :: "string \<Rightarrow> string \<Rightarrow> browser_scope" where
  "zdemo_scope name role = \<lparr>bs_session = zdemo_session, bs_user = zdemo_user name role\<rparr>"

definition zdemo_after :: business_db where
  "zdemo_after = run business_step [(zdemo_env CHR ''a'' 0, zdemo_approve)] zdemo_start"

declare registry_hash_def [code del]
declare hash_token_def [code del]
declare hash_password_def [code del]
declare business_projection_def [code del]
declare change_projection_def [code del]

lemma seed_unreviewed:
  "unreviewed (seed_registry 0 ''operator-password'' ''reviewer-password'' [1] [2] empty_business_registry)"
  by code_simp

lemma zdemo_unreviewed: "unreviewed zdemo_start"
  by code_simp

lemma zdemo_typed: "columns_typed zdemo_start"
proof -
  have "business_id_pattern ''biz_gst_micro_01'' \<and> registry_number_pattern ''U28999KA2021PTC145201'' \<and> gstin_pattern ''29ABCDE1234F1Z5'' \<and>
    change_typed (seeded_change 0)" by code_simp
  then show ?thesis
    by (simp add: columns_typed_def zdemo_start_def business_fixtures_def business_typed_def seeded_business_def complete_address_def
        address_fields_def fixture_address_def registry_hash_def business_statuses_def business_types_def msme_classes_def short_def)
qed

lemma zdemo_run:
  "map (\<lambda>b. (bz_id b, bz_version b, bz_trade_name b)) (businesses zdemo_after) = [(zdemo_kaveri, 2, Some ''Kaveri Precision Works'')]"
  by code_simp

lemma zdemo_row:
  obtains b where "b \<in> set (businesses zdemo_after)" "bz_id b = zdemo_kaveri" "bz_version b = 2" "bz_trade_name b = Some ''Kaveri Precision Works''"
proof (cases "businesses zdemo_after")
  case (Cons b bs)
  then show thesis using zdemo_run that [of b] by simp
qed (use zdemo_run in simp)

lemma zdemo_constraints: "business_constraints zdemo_start"
  using zdemo_unreviewed by (simp add: unreviewed_def)

lemma zdemo_before:
  "map (\<lambda>b. (bz_id b, bz_version b)) (businesses zdemo_start) = [(zdemo_kaveri, 1)]"
  by code_simp

theorem business_identity_controlled_witness:
  "business_constraints zdemo_start \<and>
   (\<exists>b\<in>set (businesses zdemo_start). \<exists>b'\<in>set (businesses (fst (business_step (zdemo_env CHR ''a'' 0, zdemo_approve) zdemo_start))).
      bz_id b = zdemo_kaveri \<and> bz_id b' = zdemo_kaveri \<and> bz_version b = 1 \<and> bz_version b' = 2 \<and>
      changed_by_request (zdemo_env CHR ''a'' 0) zdemo_approve zdemo_start b b')"
proof -
  let ?env = "zdemo_env CHR ''a'' 0"
  let ?after = "fst (business_step (?env, zdemo_approve) zdemo_start)"
  have after: "zdemo_after = ?after"
    unfolding zdemo_after_def by (simp del: business_step.simps)
  obtain b where b: "b \<in> set (businesses zdemo_start)" "bz_id b = zdemo_kaveri" "bz_version b = 1"
    using zdemo_before by (auto simp: map_eq_Cons_conv)
  then obtain b' where b': "b' \<in> set (businesses ?after)" "bz_id b' = bz_id b"
      "b' = b \<or> changed_by_review ?env zdemo_approve zdemo_start b b' \<or> changed_by_request ?env zdemo_approve zdemo_start b b'"
    using business_identity_controlled [OF zdemo_constraints, of ?env zdemo_approve] by blast
  have "bz_version b' = 2" using b'(1) zdemo_run unfolding after [symmetric] by (auto simp: map_eq_Cons_conv)
  moreover have "\<not> changed_by_review ?env zdemo_approve zdemo_start b b'"
    by (simp add: changed_by_review_def zdemo_approve_def)
  ultimately show ?thesis using b b' zdemo_constraints by force
qed

theorem business_history_complete_witness:
  "unreviewed zdemo_start \<and> (\<exists>b\<in>set (businesses zdemo_after).
     map ra_aggregate_version (filter (version_entry (bz_id b)) (registry_audits zdemo_after)) = [2] \<and>
     ra_actor_id (last (filter (version_entry (bz_id b)) (registry_audits zdemo_after))) = bz_updated_by b)"
proof -
  obtain b where "b \<in> set (businesses zdemo_after)" "bz_version b = 2" by (rule zdemo_row)
  then show ?thesis
    using business_history_complete [OF zdemo_unreviewed, of "[(zdemo_env CHR ''a'' 0, zdemo_approve)]"] zdemo_unreviewed
    unfolding zdemo_after_def [symmetric] by force
qed

theorem business_columns_typed_witness:
  "business_constraints zdemo_start \<and> columns_typed zdemo_start \<and> list_all change_typed (identity_changes zdemo_after) \<and>
   (\<exists>b\<in>set (businesses zdemo_after). bz_version b = 2 \<and> business_typed b)"
proof -
  obtain b where "b \<in> set (businesses zdemo_after)" "bz_version b = 2" by (rule zdemo_row)
  then show ?thesis
    using business_columns_typed [OF zdemo_constraints zdemo_typed, of "[(zdemo_env CHR ''a'' 0, zdemo_approve)]"] zdemo_constraints zdemo_typed
    unfolding zdemo_after_def [symmetric] by (auto simp: list_all_iff)
qed

theorem business_password_round_trip_witness:
  "verify_password [] ''reviewer-password'' (hash_password [7] ''reviewer-password'' [1, 2])"
  using business_password_round_trip [of "[1, 2]" "[]" "''reviewer-password''" "[7]" "[]"] by simp

text \<open>
  A change request can be applied to another record than the one it was submitted for. A record is
  looked up by any of its identifiers, and the contract of a new business accepts as its business id
  the id of an existing record; when both records then match, the database may return either. Here an
  operator creates such a record and the reviewer approves the pending request of the first business:
  the new record gets the proposed trade name and its second version, the business of the request
  stays as it was, and the request counts as approved. The database accepts the result.
\<close>

lemma business_change_misapplied:
  "valid_business zdemo_impostor = Inr zdemo_impostor \<and>
   (case create_business (zdemo_env CHR ''c'' 0) (zdemo_scope ''registry-operator'' ''REGISTRY_OPERATOR'') zdemo_impostor zdemo_start of
      Inl e \<Rightarrow> False
    | Inr (db1, v) \<Rightarrow>
        (case decide_change (zdemo_env CHR ''d'' 1) (zdemo_scope ''registry-reviewer'' ''REGISTRY_REVIEWER'') zdemo_change True ''reason'' db1 of
           Inl e \<Rightarrow> False
         | Inr (db2, w) \<Rightarrow> business_constraints db2 \<and>
             map (\<lambda>c. (ch_business_id c, ch_status c)) (identity_changes db2) = [(zdemo_kaveri, ''APPROVED'')] \<and>
             map (\<lambda>b. (bz_legal_name b, bz_trade_name b, bz_version b)) (filter (\<lambda>b. bz_id b = zdemo_kaveri) (businesses db2)) =
               [(''Kaveri Precision Components Private Limited'', Some ''Kaveri Precision'', 1)] \<and>
             map (\<lambda>b. (bz_trade_name b, bz_version b)) (filter (\<lambda>b. bz_legal_name b = ''Impostor'') (businesses db2)) =
               [(Some ''Kaveri Precision Works'', 2)]))"
  by code_simp

end
