(* ===== verification/GstPortal.thy ===== *)
theory GstPortal
  imports BusinessRegistry
begin

text \<open>
  The GST and e-invoice portal (demos/gst-portal/gst_portal): tables (models.py), contracts
  (schemas.py), tax arithmetic (domain.py) and browser sessions of an enterprise's members
  (auth.py; passwords and tokens are those of the business registry). Amounts are hundredths,
  quantities thousandths, tax rates hundredths of a percent; the decimals of a request are exact in
  these units. Arithmetic is that of the decimal module's default context, 28 digits rounded
  half-even; a value that does not fit its column fails at the flush. Dates are day numbers, and the
  server's day is that of UTC.
\<close>

section \<open>Tables\<close>

record gst_user =
  gu_id :: string
  gu_email :: string
  gu_display_name :: string
  gu_password_hash :: string
  gu_status :: string
  gu_last_login_at :: "time option"
  gu_created_at :: time

record enterprise =
  et_id :: string
  et_tenant_id :: string
  et_business_id :: string
  et_legal_name :: string
  et_trade_name :: string
  et_primary_gstin :: string
  et_declared_classification :: string
  et_calculated_classification :: string
  et_effective_classification :: string
  et_classification_provenance :: string
  et_classification_as_of :: int
  et_status :: string
  et_version :: int
  et_created_at :: time
  et_updated_at :: time

record enterprise_membership =
  mb_id :: string
  mb_user_id :: string
  mb_enterprise_id :: string
  mb_tenant_id :: string
  mb_roles :: "string list"
  mb_status :: string

record gst_session_row =
  gs_id :: string
  gs_token_hash :: string
  gs_csrf_hash :: string
  gs_user_id :: string
  gs_enterprise_id :: string
  gs_expires_at :: time
  gs_created_at :: time
  gs_last_seen_at :: time

record taxpayer =
  tx_id :: string
  tx_tenant_id :: string
  tx_enterprise_id :: string
  tx_gstin :: string
  tx_legal_name :: string
  tx_trade_name :: string
  tx_taxpayer_type :: string
  tx_registration_status :: string
  tx_registration_date :: int
  tx_state_code :: string
  tx_registered_address :: str_dict
  tx_risk_flags :: "string list"
  tx_version :: int
  tx_updated_at :: time

record classification_snapshot =
  cs_id :: string
  cs_tenant_id :: string
  cs_enterprise_id :: string
  cs_financial_year :: string
  cs_investment_amount :: int
  cs_annual_turnover :: int
  cs_declared_classification :: string
  cs_calculated_classification :: string
  cs_effective_classification :: string
  cs_source_type :: string
  cs_source_reference :: string
  cs_source_hash :: string
  cs_threshold_policy_version :: string
  cs_verification_status :: string
  cs_effective_from :: int
  cs_effective_to :: "int option"
  cs_created_at :: time

record invoice =
  iv_id :: string
  iv_tenant_id :: string
  iv_enterprise_id :: string
  iv_invoice_number :: string
  iv_invoice_type :: string
  iv_invoice_date :: int
  iv_financial_year :: string
  iv_seller_gstin :: string
  iv_buyer_gstin :: string
  iv_buyer_name :: string
  iv_purchase_order_id :: "string option"
  iv_currency :: string
  iv_place_of_supply :: string
  iv_taxable_value :: int
  iv_cgst_amount :: int
  iv_sgst_amount :: int
  iv_igst_amount :: int
  iv_cess_amount :: int
  iv_total_invoice_value :: int
  iv_status :: string
  iv_irn :: "string option"
  iv_ack_number :: "string option"
  iv_ack_date :: "time option"
  iv_cancellation_reason :: "string option"
  iv_source_document_hash :: "string option"
  iv_security_flags :: "string list"
  iv_version :: int
  iv_created_by :: string
  iv_updated_by :: string
  iv_created_at :: time
  iv_updated_at :: time

record invoice_line =
  il_id :: string
  il_invoice_id :: string
  il_line_number :: int
  il_description :: string
  il_hsn_sac :: string
  il_quantity :: int
  il_unit :: string
  il_unit_price :: int
  il_discount :: int
  il_taxable_value :: int
  il_gst_rate :: int
  il_cgst_amount :: int
  il_sgst_amount :: int
  il_igst_amount :: int
  il_total_value :: int

record status_history =
  ih_id :: string
  ih_invoice_id :: string
  ih_tenant_id :: string
  ih_prior_status :: "string option"
  ih_new_status :: string
  ih_reason :: "string option"
  ih_actor_id :: string
  ih_version :: int
  ih_occurred_at :: time

record return_summary =
  rt_id :: string
  rt_tenant_id :: string
  rt_enterprise_id :: string
  rt_gstin :: string
  rt_period :: string
  rt_return_type :: string
  rt_version :: int
  rt_status :: string
  rt_turnover :: int
  rt_tax_total :: int
  rt_invoice_count :: int
  rt_source_hash :: string
  rt_updated_at :: time

record gst_audit =
  ga_id :: string
  ga_tenant_id :: string
  ga_aggregate_type :: string
  ga_aggregate_id :: string
  ga_aggregate_version :: int
  ga_event_type :: string
  ga_actor_type :: string
  ga_actor_id :: string
  ga_reason :: "string option"
  ga_metadata :: dict
  ga_occurred_at :: time

record gst_outbox =
  gx_id :: string
  gx_tenant_id :: string
  gx_aggregate_type :: string
  gx_aggregate_id :: string
  gx_aggregate_version :: int
  gx_event_type :: string
  gx_payload :: dict
  gx_correlation_id :: string
  gx_created_at :: time

record gst_db =
  gst_users :: "gst_user list"
  enterprises :: "enterprise list"
  memberships :: "enterprise_membership list"
  gst_sessions :: "gst_session_row list"
  taxpayers :: "taxpayer list"
  classifications :: "classification_snapshot list"
  invoices :: "invoice list"
  invoice_lines :: "invoice_line list"
  status_histories :: "status_history list"
  return_summaries :: "return_summary list"
  gst_audits :: "gst_audit list"
  gst_outboxes :: "gst_outbox list"

definition gst_references :: "gst_db \<Rightarrow> bool" where
  "gst_references db \<longleftrightarrow>
     (let users = gu_id ` set (gst_users db); ids = et_id ` set (enterprises db); invs = iv_id ` set (invoices db) in
      list_all (\<lambda>m. mb_user_id m \<in> users \<and> mb_enterprise_id m \<in> ids) (memberships db) \<and>
      list_all (\<lambda>s. gs_user_id s \<in> users \<and> gs_enterprise_id s \<in> ids) (gst_sessions db) \<and>
      list_all (\<lambda>t. tx_enterprise_id t \<in> ids) (taxpayers db) \<and> list_all (\<lambda>c. cs_enterprise_id c \<in> ids) (classifications db) \<and>
      list_all (\<lambda>i. iv_enterprise_id i \<in> ids) (invoices db) \<and> list_all (\<lambda>l. il_invoice_id l \<in> invs) (invoice_lines db) \<and>
      list_all (\<lambda>h. ih_invoice_id h \<in> invs) (status_histories db) \<and> list_all (\<lambda>r. rt_enterprise_id r \<in> ids) (return_summaries db))"

text \<open>The columns \<open>NUMERIC(18, s)\<close> and \<open>NUMERIC(5, 2)\<close>.\<close>

definition amount_fits :: "int \<Rightarrow> bool" where
  "amount_fits n \<longleftrightarrow> \<bar>n\<bar> < 10 ^ 18"

definition invoice_fits :: "invoice \<Rightarrow> bool" where
  "invoice_fits i \<longleftrightarrow> amount_fits (iv_taxable_value i) \<and> amount_fits (iv_cgst_amount i) \<and> amount_fits (iv_sgst_amount i) \<and>
     amount_fits (iv_igst_amount i) \<and> amount_fits (iv_cess_amount i) \<and> amount_fits (iv_total_invoice_value i)"

definition line_fits :: "invoice_line \<Rightarrow> bool" where
  "line_fits l \<longleftrightarrow> amount_fits (il_quantity l) \<and> amount_fits (il_unit_price l) \<and> amount_fits (il_discount l) \<and>
     amount_fits (il_taxable_value l) \<and> \<bar>il_gst_rate l\<bar> < 10 ^ 5 \<and> amount_fits (il_cgst_amount l) \<and> amount_fits (il_sgst_amount l) \<and>
     amount_fits (il_igst_amount l) \<and> amount_fits (il_total_value l)"

definition gst_constraints :: "gst_db \<Rightarrow> bool" where
  "gst_constraints db \<longleftrightarrow>
     unique_by (Some \<circ> gu_id) (gst_users db) \<and> unique_by (Some \<circ> gu_email) (gst_users db) \<and>
     unique_by (Some \<circ> et_id) (enterprises db) \<and> unique_by (Some \<circ> et_primary_gstin) (enterprises db) \<and>
     unique_by (Some \<circ> mb_id) (memberships db) \<and> unique_by (\<lambda>m. Some (mb_user_id m, mb_enterprise_id m)) (memberships db) \<and>
     unique_by (Some \<circ> gs_id) (gst_sessions db) \<and> unique_by (Some \<circ> gs_token_hash) (gst_sessions db) \<and>
     unique_by (Some \<circ> tx_id) (taxpayers db) \<and> unique_by (Some \<circ> tx_gstin) (taxpayers db) \<and>
     unique_by (Some \<circ> cs_id) (classifications db) \<and> unique_by (Some \<circ> iv_id) (invoices db) \<and>
     unique_by (\<lambda>i. Some (iv_enterprise_id i, iv_financial_year i, iv_invoice_number i)) (invoices db) \<and>
     unique_by iv_irn (invoices db) \<and> unique_by (Some \<circ> il_id) (invoice_lines db) \<and>
     unique_by (\<lambda>l. Some (il_invoice_id l, il_line_number l)) (invoice_lines db) \<and>
     unique_by (Some \<circ> ih_id) (status_histories db) \<and> unique_by (Some \<circ> rt_id) (return_summaries db) \<and>
     unique_by (\<lambda>r. Some (rt_enterprise_id r, rt_period r, rt_return_type r, rt_version r)) (return_summaries db) \<and>
     unique_by (Some \<circ> ga_id) (gst_audits db) \<and> unique_by (Some \<circ> gx_id) (gst_outboxes db) \<and>
     list_all invoice_fits (invoices db) \<and> list_all line_fits (invoice_lines db) \<and> gst_references db"

datatype gst_error =
    GstAuthenticationError string
  | GstAuthorizationError string
  | GstNotFoundError string
  | GstConflictError string
  | GstDomainError string
  | GstDatabaseError
  | GstValueError
  | GstInvalidOperation
  | GstTypeError
  | GstValidationError
  | GstScopeError scope_error
  | GstHTTPError nat string

section \<open>Contracts\<close>

record line_create =
  lc_description :: string
  lc_hsn_sac :: string
  lc_quantity :: decimal
  lc_unit :: string
  lc_unit_price :: decimal
  lc_discount :: decimal
  lc_gst_rate :: decimal

text \<open>A rate of at most 28 with two places has no more than the five digits of its contract.\<close>

definition line_create_ok :: "line_create \<Rightarrow> bool" where
  "line_create_ok l \<longleftrightarrow>
     length_between 2 300 (lc_description l) \<and>
     4 \<le> length (py_strip (lc_hsn_sac l)) \<and> length (py_strip (lc_hsn_sac l)) \<le> 8 \<and> list_all is_digit (py_strip (lc_hsn_sac l)) \<and>
     places_ok 3 (lc_quantity l) \<and> dec_pos (lc_quantity l) \<and>
     2 \<le> length (py_strip (lc_unit l)) \<and> length (py_strip (lc_unit l)) \<le> 10 \<and> list_all is_alpha_upper (py_strip (lc_unit l)) \<and>
     places_ok 2 (lc_unit_price l) \<and> dec_pos (lc_unit_price l) \<and> places_ok 2 (lc_discount l) \<and> 0 \<le> dec_num 0 (lc_discount l) \<and>
     places_ok 2 (lc_gst_rate l) \<and> 0 \<le> dec_num 0 (lc_gst_rate l) \<and> dec_le 0 (lc_gst_rate l) 28"

definition strip_line :: "line_create \<Rightarrow> line_create" where
  "strip_line l = l\<lparr>lc_description := py_strip (lc_description l), lc_hsn_sac := py_strip (lc_hsn_sac l), lc_unit := py_strip (lc_unit l)\<rparr>"

record invoice_create =
  iq_invoice_number :: string
  iq_invoice_type :: string
  iq_invoice_date :: int
  iq_buyer_gstin :: string
  iq_buyer_name :: string
  iq_purchase_order_id :: "string option"
  iq_place_of_supply :: string
  iq_lines :: "line_create list"

definition invoice_number_pattern :: "string \<Rightarrow> bool" where
  "invoice_number_pattern s \<longleftrightarrow> 3 \<le> length s \<and> length s \<le> 40 \<and> (is_alpha_upper (hd s) \<or> is_digit (hd s)) \<and>
     list_all (\<lambda>c. is_alpha_upper c \<or> is_digit c \<or> c = CHR ''/'' \<or> c = CHR ''-'') s"

text \<open>The upper case is taken after the patterns have matched.\<close>

definition valid_invoice :: "invoice_create \<Rightarrow> gst_error + invoice_create" where
  "valid_invoice b =
     (if invoice_number_pattern (py_strip (iq_invoice_number b)) \<and> iq_invoice_type b \<in> {''B2B'', ''CREDIT_NOTE'', ''DEBIT_NOTE'', ''EXPORT''} \<and>
         gstin_pattern (py_strip (iq_buyer_gstin b)) \<and> length_between 2 200 (iq_buyer_name b) \<and>
         if_given (length_between 0 80) (iq_purchase_order_id b) \<and> digits_pattern 2 (py_strip (iq_place_of_supply b)) \<and>
         1 \<le> length (iq_lines b) \<and> length (iq_lines b) \<le> 100 \<and> list_all line_create_ok (iq_lines b)
      then Inr (b\<lparr>iq_invoice_number := py_upper (py_strip (iq_invoice_number b)), iq_buyer_gstin := py_upper (py_strip (iq_buyer_gstin b)),
        iq_buyer_name := py_strip (iq_buyer_name b), iq_purchase_order_id := map_option py_strip (iq_purchase_order_id b),
        iq_place_of_supply := py_strip (iq_place_of_supply b), iq_lines := map strip_line (iq_lines b)\<rparr>)
      else Inl GstValidationError)"

definition valid_transition_reason :: "string option \<Rightarrow> gst_error + string option" where
  "valid_transition_reason r = (if if_given (length_between 0 500) r then Inr (map_option py_strip r) else Inl GstValidationError)"

record classification_review =
  cv_effective_classification :: string
  cv_reason :: string

definition valid_classification_review :: "classification_review \<Rightarrow> gst_error + classification_review" where
  "valid_classification_review b =
     (if cv_effective_classification b \<in> {''MICRO'', ''SMALL'', ''MEDIUM'', ''OUTSIDE_MSME_LIMITS'', ''UNKNOWN''} \<and>
         length_between 10 500 (cv_reason b)
      then Inr (b\<lparr>cv_reason := py_strip (cv_reason b)\<rparr>) else Inl GstValidationError)"

definition valid_switch :: "string \<Rightarrow> gst_error + string" where
  "valid_switch i = (if length_between 36 36 i then Inr (py_strip i) else Inl GstValidationError)"

definition valid_gst_login :: "login_request \<Rightarrow> gst_error + login_request" where
  "valid_gst_login b =
     (if length_between 5 200 (lq_email b) \<and> length_between 8 200 (lq_password b)
      then Inr \<lparr>lq_email = py_strip (lq_email b), lq_password = py_strip (lq_password b)\<rparr> else Inl GstValidationError)"

section \<open>Domain\<close>

definition threshold_version :: string where
  "threshold_version = ''INDIA_MSME_2025_04_01''"

definition financial_year :: "int \<Rightarrow> string" where
  "financial_year day =
     (case civil_of_days day of (y, m, d) \<Rightarrow>
        let start = (if 4 \<le> m then y else y - 1); next = nat_str (nat (start + 1))
        in nat_str (nat start) @ ''-'' @ drop (length next - 2) next)"

text \<open>A crore is ten million, the amounts are hundredths.\<close>

definition crore :: int where
  "crore = 10000000 * 100"

definition classify_msme :: "int \<Rightarrow> int \<Rightarrow> string" where
  "classify_msme investment turnover =
     (if 2 * investment \<le> 5 * crore \<and> turnover \<le> 10 * crore then ''MICRO''
      else if investment \<le> 25 * crore \<and> turnover \<le> 100 * crore then ''SMALL''
      else if investment \<le> 125 * crore \<and> turnover \<le> 500 * crore then ''MEDIUM''
      else ''OUTSIDE_MSME_LIMITS'')"

record line_amounts =
  am_taxable_value :: int
  am_cgst_amount :: int
  am_sgst_amount :: int
  am_igst_amount :: int
  am_total_value :: int

text \<open>
  A result of more than 28 digits is rounded half-even to 28. \<open>money\<close> rounds the fraction \<open>a / b\<close>
  to hundredths, ties away from zero, and raises \<open>InvalidOperation\<close> when they have more than 28
  digits.
\<close>

function excess_digits :: "nat \<Rightarrow> nat" where
  "excess_digits m = (if m < 10 ^ 28 then 0 else Suc (excess_digits (m div 10)))"
  by pat_completeness auto
termination by (relation "measure id") auto

declare excess_digits.simps [simp del]

definition context_round :: "int \<Rightarrow> int" where
  "context_round n =
     (if \<bar>n\<bar> < 10 ^ 28 then n
      else let m = nat \<bar>n\<bar>; unit = 10 ^ excess_digits m in sgn n * int (div_half_even m unit * unit))"

definition gst_money :: "int \<Rightarrow> int \<Rightarrow> gst_error + int" where
  "gst_money a b = (let n = round_away a b in if 10 ^ 28 \<le> \<bar>n\<bar> then Inl GstInvalidOperation else Inr n)"

definition decimal_sum :: "int list \<Rightarrow> int" where
  "decimal_sum ns = foldl (\<lambda>a n. context_round (a + n)) 0 ns"

definition calculate_line :: "int \<Rightarrow> int \<Rightarrow> int \<Rightarrow> int \<Rightarrow> bool \<Rightarrow> gst_error + line_amounts" where
  "calculate_line quantity unit_price discount gst_rate intra_state =
     sum_bind (gst_money (context_round (context_round (quantity * unit_price) - 1000 * discount)) 1000) (\<lambda>taxable.
     if taxable < 0 then Inl (GstDomainError ''A line discount cannot exceed its gross value.'')
     else
       sum_bind (gst_money (context_round (taxable * gst_rate)) 10000) (\<lambda>tax.
       sum_bind (if intra_state then gst_money (context_round (5 * tax)) 10 else Inr 0) (\<lambda>cgst.
       sum_bind (if intra_state then gst_money (context_round (tax - cgst)) 1 else Inr 0) (\<lambda>sgst.
       sum_bind (gst_money (context_round (taxable + tax)) 1) (\<lambda>total.
         Inr \<lparr>am_taxable_value = taxable, am_cgst_amount = cgst, am_sgst_amount = sgst,
              am_igst_amount = (if intra_state then 0 else tax), am_total_value = total\<rparr>)))))"

record gst_env =
  gnv_now :: time
  gnv_uuid :: "nat \<Rightarrow> string"
  gnv_session_token :: string
  gnv_csrf_token :: string
  gnv_salt :: "nat list"
  gnv_ack :: nat
  gnv_mcp_token :: string

type_synonym 'a gst_op = "gst_db \<Rightarrow> gst_error + gst_db \<times> 'a"

definition gst_today :: "gst_env \<Rightarrow> int" where
  "gst_today env = gnv_now env div days 1"

definition record_gst_change ::
    "gst_env \<Rightarrow> nat \<Rightarrow> string \<Rightarrow> string \<Rightarrow> string \<Rightarrow> int \<Rightarrow> string \<Rightarrow> string \<Rightarrow> string option \<Rightarrow> gst_db \<Rightarrow> gst_db" where
  "record_gst_change env k tenant_id aggregate_type aggregate_id aggregate_version event_type actor_id reason db =
     db\<lparr>gst_audits := gst_audits db @
          [\<lparr>ga_id = uuid_str (gnv_uuid env (k + 1)), ga_tenant_id = tenant_id, ga_aggregate_type = aggregate_type,
            ga_aggregate_id = aggregate_id, ga_aggregate_version = aggregate_version, ga_event_type = event_type,
            ga_actor_type = ''USER'', ga_actor_id = actor_id, ga_reason = reason, ga_metadata = [], ga_occurred_at = gnv_now env\<rparr>],
        gst_outboxes := gst_outboxes db @
          [\<lparr>gx_id = uuid_str (gnv_uuid env (k + 2)), gx_tenant_id = tenant_id, gx_aggregate_type = aggregate_type,
            gx_aggregate_id = aggregate_id, gx_aggregate_version = aggregate_version, gx_event_type = event_type,
            gx_payload = [(''id'', JStr aggregate_id), (''version'', JInt aggregate_version)],
            gx_correlation_id = uuid_str (gnv_uuid env k), gx_created_at = gnv_now env\<rparr>]\<rparr>"

section \<open>Browser sessions\<close>

definition authenticate_gst :: "gst_env \<Rightarrow> gst_db \<Rightarrow> string \<Rightarrow> string \<Rightarrow> gst_error + gst_user" where
  "authenticate_gst env db email password =
     (case scalar (\<lambda>u. gu_email u = py_lower email \<and> gu_status u = ''ACTIVE'') (gst_users db) of
        None \<Rightarrow> Inl (GstAuthenticationError ''The email or password was not accepted.'')
      | Some u \<Rightarrow>
          if verify_password (gnv_salt env) password (gu_password_hash u) then Inr u
          else Inl (GstAuthenticationError ''The email or password was not accepted.''))"

text \<open>Login calls it without an enterprise: the membership with the least enterprise id.\<close>

definition create_gst_session :: "gst_env \<Rightarrow> gst_user \<Rightarrow> (string \<times> string) gst_op" where
  "create_gst_session env u db =
     (case sort_key mb_enterprise_id (scalars (\<lambda>m. mb_user_id m = gu_id u \<and> mb_status m = ''ACTIVE'') (memberships db)) of
        [] \<Rightarrow> Inl (GstAuthorizationError ''The test user has no active enterprise membership.'')
      | m # _ \<Rightarrow>
          Inr (db\<lparr>gst_sessions := gst_sessions db @
                 [\<lparr>gs_id = uuid_str (gnv_uuid env 0), gs_token_hash = hash_token (gnv_session_token env),
                   gs_csrf_hash = hash_token (gnv_csrf_token env), gs_user_id = gu_id u, gs_enterprise_id = mb_enterprise_id m,
                   gs_expires_at = gnv_now env + hours 8, gs_created_at = gnv_now env, gs_last_seen_at = gnv_now env\<rparr>],
               gst_users := update_rows (\<lambda>x. gu_id x = gu_id u) (\<lambda>x. x\<lparr>gu_last_login_at := Some (gnv_now env)\<rparr>) (gst_users db)\<rparr>,
             (gnv_session_token env, gnv_csrf_token env)))"

record gst_scope =
  go_session :: gst_session_row
  go_user :: gst_user
  go_enterprise :: enterprise
  go_membership :: enterprise_membership

definition gst_session_rows :: "gst_db \<Rightarrow> string \<Rightarrow> gst_scope list" where
  "gst_session_rows db token =
     [\<lparr>go_session = s, go_user = u, go_enterprise = e, go_membership = m\<rparr>.
        s \<leftarrow> filter (\<lambda>s. gs_token_hash s = hash_token token) (gst_sessions db),
        u \<leftarrow> filter (\<lambda>u. gu_id u = gs_user_id s) (gst_users db), e \<leftarrow> filter (\<lambda>e. et_id e = gs_enterprise_id s) (enterprises db),
        m \<leftarrow> filter (\<lambda>m. mb_user_id m = gs_user_id s \<and> mb_enterprise_id m = gs_enterprise_id s) (memberships db)]"

definition update_gst_session :: "gst_scope \<Rightarrow> (gst_session_row \<Rightarrow> gst_session_row) \<Rightarrow> gst_db \<Rightarrow> gst_db" where
  "update_gst_session scope f db =
     db\<lparr>gst_sessions := update_rows (\<lambda>s. gs_id s = gs_id (go_session scope)) f (gst_sessions db)\<rparr>"

definition resolve_gst_scope :: "gst_env \<Rightarrow> string option \<Rightarrow> gst_scope gst_op" where
  "resolve_gst_scope env token db =
     (if \<not> filled token then Inl (GstAuthenticationError ''Sign in to continue.'')
      else case gst_session_rows db (the token) of
        [] \<Rightarrow> Inl (GstAuthenticationError ''The session is invalid.'')
      | scope # _ \<Rightarrow>
          if gs_expires_at (go_session scope) \<le> gnv_now env then Inl (GstAuthenticationError ''The session has expired.'')
          else if gu_status (go_user scope) \<noteq> ''ACTIVE'' \<or> et_status (go_enterprise scope) \<noteq> ''ACTIVE'' \<or>
             mb_status (go_membership scope) \<noteq> ''ACTIVE''
          then Inl (GstAuthorizationError ''The user or enterprise membership is inactive.'')
          else Inr (update_gst_session scope (\<lambda>s. s\<lparr>gs_last_seen_at := gnv_now env\<rparr>) db, scope))"

definition gst_roles :: "gst_scope \<Rightarrow> string list \<Rightarrow> gst_error + unit" where
  "gst_roles scope allowed =
     (if set (mb_roles (go_membership scope)) \<inter> set allowed = {}
      then Inl (GstAuthorizationError ''This account is not permitted to perform that action.'') else Inr ())"

definition verify_gst_csrf :: "gst_scope \<Rightarrow> string option \<Rightarrow> gst_error + unit" where
  "verify_gst_csrf scope supplied =
     (if map_option hash_token supplied = Some (gs_csrf_hash (go_session scope)) then Inr ()
      else Inl (GstAuthorizationError ''The form security token is missing or invalid.''))"

definition rotate_gst_csrf :: "gst_env \<Rightarrow> gst_scope \<Rightarrow> string gst_op" where
  "rotate_gst_csrf env scope db =
     Inr (update_gst_session scope (\<lambda>s. s\<lparr>gs_csrf_hash := hash_token (gnv_csrf_token env)\<rparr>) db, gnv_csrf_token env)"

end
