(* ===== verification/GstService.thy ===== *)
theory GstService
  imports GstPortal
begin

text \<open>
  The operations of GstPortalService (service.py): the creation of an invoice, its transitions,
  the recalculation and the review of an enterprise's classification, and the reads. The answer of
  a transition is built before its changes are flushed, so it shows the earlier \<open>updated_at\<close>; that
  of a creation shows the lines as stored. Rows with equal sort keys come in the order of their
  insertion.
\<close>

section \<open>Projections\<close>

definition enterprise_projection :: "gst_env \<Rightarrow> enterprise \<Rightarrow> json" where
  "enterprise_projection env e = JObj
     [(''id'', JStr (et_id e)), (''tenant_id'', JStr (et_tenant_id e)), (''business_id'', JStr (et_business_id e)),
      (''legal_name'', JStr (et_legal_name e)), (''trade_name'', JStr (et_trade_name e)), (''gstin'', JStr (et_primary_gstin e)),
      (''classification'', JStr (et_effective_classification e)),
      (''classification_provenance'', JStr (et_classification_provenance e)),
      (''financial_year'', JStr (financial_year (gst_today env))), (''status'', JStr (et_status e)), (''version'', JInt (et_version e))]"

definition taxpayer_projection :: "taxpayer \<Rightarrow> dict" where
  "taxpayer_projection t =
     [(''id'', JStr (tx_id t)), (''gstin'', JStr (tx_gstin t)), (''legal_name'', JStr (tx_legal_name t)),
      (''trade_name'', JStr (tx_trade_name t)), (''taxpayer_type'', JStr (tx_taxpayer_type t)),
      (''registration_status'', JStr (tx_registration_status t)), (''registration_date'', JStr (date_iso (tx_registration_date t))),
      (''state_code'', JStr (tx_state_code t)), (''registered_address'', JDict (tx_registered_address t)),
      (''risk_flags'', JStrList (tx_risk_flags t)), (''version'', JInt (tx_version t)), (''updated_at'', JStr (iso_utc (tx_updated_at t)))]"

definition classification_projection :: "classification_snapshot \<Rightarrow> json" where
  "classification_projection c = JObj
     [(''id'', JStr (cs_id c)), (''financial_year'', JStr (cs_financial_year c)),
      (''investment_amount'', JStr (units_str 2 (cs_investment_amount c))), (''annual_turnover'', JStr (units_str 2 (cs_annual_turnover c))),
      (''declared_classification'', JStr (cs_declared_classification c)),
      (''calculated_classification'', JStr (cs_calculated_classification c)),
      (''effective_classification'', JStr (cs_effective_classification c)), (''source_type'', JStr (cs_source_type c)),
      (''source_reference'', JStr (cs_source_reference c)), (''threshold_policy_version'', JStr (cs_threshold_policy_version c)),
      (''verification_status'', JStr (cs_verification_status c)), (''effective_from'', JStr (date_iso (cs_effective_from c))),
      (''created_at'', JStr (iso_utc (cs_created_at c)))]"

definition invoice_summary :: "invoice \<Rightarrow> dict" where
  "invoice_summary i =
     [(''id'', JStr (iv_id i)), (''invoice_number'', JStr (iv_invoice_number i)), (''invoice_date'', JStr (date_iso (iv_invoice_date i))),
      (''financial_year'', JStr (iv_financial_year i)), (''buyer_name'', JStr (iv_buyer_name i)), (''buyer_gstin'', JStr (iv_buyer_gstin i)),
      (''total_invoice_value'', JStr (units_str 2 (iv_total_invoice_value i))), (''status'', JStr (iv_status i)), (''irn'', JOpt (iv_irn i)),
      (''version'', JInt (iv_version i)), (''updated_at'', JStr (iso_utc (iv_updated_at i))), (''security_flags'', JStrList (iv_security_flags i))]"

definition invoice_line_projection :: "invoice_line \<Rightarrow> json" where
  "invoice_line_projection l = JObj
     [(''id'', JStr (il_id l)), (''line_number'', JInt (il_line_number l)), (''description'', JStr (il_description l)),
      (''hsn_sac'', JStr (il_hsn_sac l)), (''quantity'', JStr (units_str 3 (il_quantity l))), (''unit'', JStr (il_unit l)),
      (''unit_price'', JStr (units_str 2 (il_unit_price l))), (''discount'', JStr (units_str 2 (il_discount l))),
      (''taxable_value'', JStr (units_str 2 (il_taxable_value l))), (''gst_rate'', JStr (units_str 2 (il_gst_rate l))),
      (''cgst_amount'', JStr (units_str 2 (il_cgst_amount l))), (''sgst_amount'', JStr (units_str 2 (il_sgst_amount l))),
      (''igst_amount'', JStr (units_str 2 (il_igst_amount l))), (''total_value'', JStr (units_str 2 (il_total_value l)))]"

definition history_projection :: "status_history \<Rightarrow> json" where
  "history_projection h = JObj
     [(''prior_status'', JOpt (ih_prior_status h)), (''new_status'', JStr (ih_new_status h)), (''reason'', JOpt (ih_reason h)),
      (''actor_id'', JStr (ih_actor_id h)), (''version'', JInt (ih_version h)), (''occurred_at'', JStr (iso_utc (ih_occurred_at h)))]"

definition invoice_projection :: "invoice_line list \<Rightarrow> status_history list \<Rightarrow> invoice \<Rightarrow> dict" where
  "invoice_projection ls hs i = invoice_summary i @
     [(''invoice_type'', JStr (iv_invoice_type i)), (''seller_gstin'', JStr (iv_seller_gstin i)),
      (''purchase_order_id'', JOpt (iv_purchase_order_id i)), (''place_of_supply'', JStr (iv_place_of_supply i)),
      (''currency'', JStr (iv_currency i)), (''taxable_value'', JStr (units_str 2 (iv_taxable_value i))),
      (''cgst_amount'', JStr (units_str 2 (iv_cgst_amount i))), (''sgst_amount'', JStr (units_str 2 (iv_sgst_amount i))),
      (''igst_amount'', JStr (units_str 2 (iv_igst_amount i))), (''cess_amount'', JStr (units_str 2 (iv_cess_amount i))),
      (''ack_number'', JOpt (iv_ack_number i)), (''ack_date'', JOpt (map_option iso_utc (iv_ack_date i))),
      (''source_document_hash'', JOpt (iv_source_document_hash i)), (''cancellation_reason'', JOpt (iv_cancellation_reason i)),
      (''lines'', JList (map invoice_line_projection ls)), (''history'', JList (map history_projection hs))]"

definition return_projection :: "return_summary \<Rightarrow> json" where
  "return_projection r = JObj
     [(''id'', JStr (rt_id r)), (''gstin'', JStr (rt_gstin r)), (''period'', JStr (rt_period r)), (''return_type'', JStr (rt_return_type r)),
      (''version'', JInt (rt_version r)), (''status'', JStr (rt_status r)), (''turnover'', JStr (units_str 2 (rt_turnover r))),
      (''tax_total'', JStr (units_str 2 (rt_tax_total r))), (''invoice_count'', JInt (rt_invoice_count r)),
      (''source_hash'', JStr (rt_source_hash r)), (''updated_at'', JStr (iso_utc (rt_updated_at r)))]"

definition gst_audit_projection :: "gst_audit \<Rightarrow> json" where
  "gst_audit_projection a = JObj
     [(''id'', JStr (ga_id a)), (''event_type'', JStr (ga_event_type a)), (''aggregate_type'', JStr (ga_aggregate_type a)),
      (''aggregate_id'', JStr (ga_aggregate_id a)), (''version'', JInt (ga_aggregate_version a)), (''actor_type'', JStr (ga_actor_type a)),
      (''actor_id'', JStr (ga_actor_id a)), (''reason'', JOpt (ga_reason a)), (''occurred_at'', JStr (iso_utc (ga_occurred_at a)))]"

section \<open>Shared steps\<close>

definition owned_by :: "enterprise \<Rightarrow> invoice \<Rightarrow> bool" where
  "owned_by e i \<longleftrightarrow> iv_tenant_id i = et_tenant_id e \<and> iv_enterprise_id i = et_id e"

definition find_invoice :: "gst_db \<Rightarrow> enterprise \<Rightarrow> string \<Rightarrow> gst_error + invoice" where
  "find_invoice db e invoice_id =
     found (GstNotFoundError ''Invoice was not found in the active enterprise scope.'')
       (scalar (\<lambda>i. iv_id i = invoice_id \<and> owned_by e i) (invoices db))"

definition invoice_lines_of :: "gst_db \<Rightarrow> string \<Rightarrow> invoice_line list" where
  "invoice_lines_of db invoice_id = scalars (\<lambda>l. il_invoice_id l = invoice_id) (invoice_lines db)"

definition history_of :: "gst_db \<Rightarrow> string \<Rightarrow> status_history list" where
  "history_of db invoice_id = scalars (\<lambda>h. ih_invoice_id h = invoice_id) (status_histories db)"

definition latest_snapshot :: "gst_db \<Rightarrow> string \<Rightarrow> string \<Rightarrow> gst_error + classification_snapshot" where
  "latest_snapshot db tenant_id enterprise_id =
     (case sort_key (\<lambda>c. - cs_created_at c)
         (scalars (\<lambda>c. cs_tenant_id c = tenant_id \<and> cs_enterprise_id c = enterprise_id) (classifications db)) of
        [] \<Rightarrow> Inl (GstNotFoundError ''Classification snapshot was not found.'')
      | c # _ \<Rightarrow> Inr c)"

definition add_status :: "gst_env \<Rightarrow> nat \<Rightarrow> invoice \<Rightarrow> string option \<Rightarrow> string \<Rightarrow> string \<Rightarrow> string option \<Rightarrow> gst_db \<Rightarrow> gst_db" where
  "add_status env k i prior target actor_id reason db =
     db\<lparr>status_histories := status_histories db @
       [\<lparr>ih_id = uuid_str (gnv_uuid env k), ih_invoice_id = iv_id i, ih_tenant_id = iv_tenant_id i, ih_prior_status = prior,
         ih_new_status = target, ih_reason = reason, ih_actor_id = actor_id, ih_version = iv_version i, ih_occurred_at = gnv_now env\<rparr>]\<rparr>"

text \<open>The rows as an \<open>UPDATE\<close> stores them: \<open>onupdate\<close> sets the time.\<close>

definition store_invoice :: "gst_env \<Rightarrow> invoice \<Rightarrow> gst_db \<Rightarrow> gst_db" where
  "store_invoice env i db =
     db\<lparr>invoices := update_rows (\<lambda>x. iv_id x = iv_id i) (\<lambda>_. i\<lparr>iv_updated_at := gnv_now env\<rparr>) (invoices db)\<rparr>"

definition store_enterprise :: "gst_env \<Rightarrow> enterprise \<Rightarrow> gst_db \<Rightarrow> gst_db" where
  "store_enterprise env e db =
     db\<lparr>enterprises := update_rows (\<lambda>x. et_id x = et_id e) (\<lambda>_. e\<lparr>et_updated_at := gnv_now env\<rparr>) (enterprises db)\<rparr>"

section \<open>Invoices\<close>

definition same_state :: "enterprise \<Rightarrow> string \<Rightarrow> bool" where
  "same_state e place_of_supply \<longleftrightarrow> take 2 (et_primary_gstin e) = place_of_supply"

definition line_calculation :: "bool \<Rightarrow> line_create \<Rightarrow> gst_error + line_create \<times> line_amounts" where
  "line_calculation intra_state l =
     sum_bind (calculate_line (numeric 3 (lc_quantity l)) (numeric 2 (lc_unit_price l)) (numeric 2 (lc_discount l))
         (numeric 2 (lc_gst_rate l)) intra_state) (\<lambda>a. Inr (l, a))"

definition new_invoice :: "gst_env \<Rightarrow> gst_scope \<Rightarrow> invoice_create \<Rightarrow> int \<Rightarrow> int \<Rightarrow> int \<Rightarrow> int \<Rightarrow> int \<Rightarrow> invoice" where
  "new_invoice env scope b taxable cgst sgst igst total_value =
     \<lparr>iv_id = uuid_str (gnv_uuid env 0), iv_tenant_id = et_tenant_id (go_enterprise scope), iv_enterprise_id = et_id (go_enterprise scope),
      iv_invoice_number = iq_invoice_number b, iv_invoice_type = iq_invoice_type b, iv_invoice_date = iq_invoice_date b,
      iv_financial_year = financial_year (iq_invoice_date b), iv_seller_gstin = et_primary_gstin (go_enterprise scope),
      iv_buyer_gstin = iq_buyer_gstin b, iv_buyer_name = iq_buyer_name b, iv_purchase_order_id = iq_purchase_order_id b,
      iv_currency = ''INR'', iv_place_of_supply = iq_place_of_supply b, iv_taxable_value = taxable, iv_cgst_amount = cgst,
      iv_sgst_amount = sgst, iv_igst_amount = igst, iv_cess_amount = 0, iv_total_invoice_value = total_value, iv_status = ''DRAFT'',
      iv_irn = None, iv_ack_number = None, iv_ack_date = None, iv_cancellation_reason = None, iv_source_document_hash = None,
      iv_security_flags = [], iv_version = 1, iv_created_by = gu_id (go_user scope), iv_updated_by = gu_id (go_user scope),
      iv_created_at = gnv_now env, iv_updated_at = gnv_now env\<rparr>"

definition new_invoice_line :: "gst_env \<Rightarrow> string \<Rightarrow> nat \<times> line_create \<times> line_amounts \<Rightarrow> invoice_line" where
  "new_invoice_line env invoice_id x =
     (case x of (k, l, a) \<Rightarrow>
        \<lparr>il_id = uuid_str (gnv_uuid env k), il_invoice_id = invoice_id, il_line_number = int k, il_description = lc_description l,
         il_hsn_sac = lc_hsn_sac l, il_quantity = numeric 3 (lc_quantity l), il_unit = lc_unit l,
         il_unit_price = numeric 2 (lc_unit_price l), il_discount = numeric 2 (lc_discount l), il_taxable_value = am_taxable_value a,
         il_gst_rate = numeric 2 (lc_gst_rate l), il_cgst_amount = am_cgst_amount a, il_sgst_amount = am_sgst_amount a,
         il_igst_amount = am_igst_amount a, il_total_value = am_total_value a\<rparr>)"

definition number_taken :: "gst_db \<Rightarrow> enterprise \<Rightarrow> invoice_create \<Rightarrow> bool" where
  "number_taken db e b \<longleftrightarrow> (\<exists>i\<in>set (invoices db). iv_enterprise_id i = et_id e \<and>
     iv_financial_year i = financial_year (iq_invoice_date b) \<and> iv_invoice_number i = iq_invoice_number b)"

definition gst_total :: "(line_amounts \<Rightarrow> int) \<Rightarrow> (line_create \<times> line_amounts) list \<Rightarrow> gst_error + int" where
  "gst_total f lines = gst_money (decimal_sum (map (f \<circ> snd) lines)) 1"

definition create_invoice :: "gst_env \<Rightarrow> gst_scope \<Rightarrow> invoice_create \<Rightarrow> json gst_op" where
  "create_invoice env scope b db =
     sum_bind (gst_roles scope [''GST_OPERATOR'']) (\<lambda>_.
     if gst_today env < iq_invoice_date b then Inl (GstDomainError ''Invoice date cannot be in the future.'')
     else if number_taken db (go_enterprise scope) b
     then Inl (GstConflictError ''This invoice number already exists for the financial year.'')
     else
       sum_bind (sum_map (line_calculation (same_state (go_enterprise scope) (iq_place_of_supply b))) (iq_lines b)) (\<lambda>lines.
       sum_bind (gst_total am_taxable_value lines) (\<lambda>taxable. sum_bind (gst_total am_cgst_amount lines) (\<lambda>cgst.
       sum_bind (gst_total am_sgst_amount lines) (\<lambda>sgst. sum_bind (gst_total am_igst_amount lines) (\<lambda>igst.
       sum_bind (gst_money (decimal_sum [taxable, cgst, sgst, igst]) 1) (\<lambda>total_value.
       let i = new_invoice env scope b taxable cgst sgst igst total_value; ls = map (new_invoice_line env (iv_id i)) (enumerate 1 lines);
           k = length lines + 1;
           db1 = db\<lparr>invoices := invoices db @ [i], invoice_lines := invoice_lines db @ ls\<rparr>;
           db2 = add_status env k i None ''DRAFT'' (gu_id (go_user scope)) (Some ''Invoice created'') db1
       in Inr (record_gst_change env (k + 1) (iv_tenant_id i) ''INVOICE'' (iv_id i) 1 ''invoice.created'' (gu_id (go_user scope)) None db2,
               JObj (invoice_projection ls [] i)))))))))"

text \<open>\<open>transitions\<close>: the status an action expects, the one it sets and the role it needs.\<close>

definition invoice_transition :: "string \<Rightarrow> (string \<times> string \<times> string) option" where
  "invoice_transition action =
     map_of [(''submit'', (''DRAFT'', ''SUBMITTED'', ''GST_OPERATOR'')), (''register'', (''SUBMITTED'', ''REGISTERED'', ''GST_REVIEWER'')),
       (''reject'', (''SUBMITTED'', ''REJECTED'', ''GST_REVIEWER'')), (''cancel'', (''REGISTERED'', ''CANCELLED'', ''GST_REVIEWER''))] action"

definition given_reason :: "string option \<Rightarrow> bool" where
  "given_reason reason = (case reason of None \<Rightarrow> False | Some r \<Rightarrow> non_blank r)"

definition document_hash :: "invoice_line list \<Rightarrow> invoice \<Rightarrow> string" where
  "document_hash ls i = registry_hash (JObj (invoice_projection ls [] i))"

definition invoice_irn :: "invoice \<Rightarrow> string" where
  "invoice_irn i =
     ''IRNDEMO'' @ py_upper (take 24 (registry_hash (JObj [(''id'', JStr (iv_id i)), (''v'', JInt (iv_version i))])))"

definition ack_number :: "gst_env \<Rightarrow> string" where
  "ack_number env =
     (case civil_of_days (gst_today env) of (y, m, d) \<Rightarrow>
        ''ACK'' @ padded 2 (nat (y mod 100)) @ padded 2 (nat m) @ padded 2 (nat d) @ padded 6 (gnv_ack env mod 10 ^ 6))"

definition moved :: "gst_env \<Rightarrow> gst_scope \<Rightarrow> invoice_line list \<Rightarrow> string \<Rightarrow> string \<Rightarrow> string option \<Rightarrow> invoice \<Rightarrow> invoice" where
  "moved env scope ls action target reason i =
     (let i1 = i\<lparr>iv_status := target, iv_version := iv_version i + 1, iv_updated_by := gu_id (go_user scope)\<rparr> in
      if action = ''submit'' then i1\<lparr>iv_source_document_hash := Some (document_hash ls i1)\<rparr>
      else if action = ''register''
      then i1\<lparr>iv_irn := Some (invoice_irn i1), iv_ack_number := Some (ack_number env), iv_ack_date := Some (gnv_now env)\<rparr>
      else if action = ''cancel'' then i1\<lparr>iv_cancellation_reason := reason\<rparr> else i1)"

definition transition_invoice :: "gst_env \<Rightarrow> gst_scope \<Rightarrow> string \<Rightarrow> string \<Rightarrow> int \<Rightarrow> string option \<Rightarrow> json gst_op" where
  "transition_invoice env scope invoice_id action expected_version reason db =
     sum_bind (find_invoice db (go_enterprise scope) invoice_id) (\<lambda>i.
     if iv_version i \<noteq> expected_version then Inl (GstConflictError ''The invoice changed. Reload it before applying this action.'')
     else case invoice_transition action of
       None \<Rightarrow> Inl (GstDomainError ''Unsupported invoice transition.'')
     | Some (expected, target, role) \<Rightarrow>
         sum_bind (gst_roles scope [role]) (\<lambda>_.
         if iv_status i \<noteq> expected then Inl (GstConflictError (''Only a '' @ expected @ '' invoice can be '' @ action @ ''ed.''))
         else if action \<in> {''reject'', ''cancel''} \<and> \<not> given_reason reason
         then Inl (GstDomainError ''A reason is required for rejection or cancellation.'')
         else
           let ls = invoice_lines_of db (iv_id i); i' = moved env scope ls action target reason i;
               db1 = add_status env 0 i' (Some expected) target (gu_id (go_user scope)) reason (store_invoice env i' db)
           in Inr (record_gst_change env 1 (iv_tenant_id i) ''INVOICE'' (iv_id i) (iv_version i') (''invoice.'' @ py_lower target)
                     (gu_id (go_user scope)) reason db1, JObj (invoice_projection ls [] i'))))"

section \<open>Classification\<close>

definition add_snapshot :: "classification_snapshot \<Rightarrow> gst_db \<Rightarrow> gst_db" where
  "add_snapshot c db = db\<lparr>classifications := classifications db @ [c]\<rparr>"

definition recalculated :: "gst_env \<Rightarrow> classification_snapshot \<Rightarrow> classification_snapshot" where
  "recalculated env c =
     (let calculated = classify_msme (cs_investment_amount c) (cs_annual_turnover c) in
      c\<lparr>cs_id := uuid_str (gnv_uuid env 0), cs_calculated_classification := calculated, cs_source_type := ''DEMO_DERIVED'',
        cs_source_reference := ''recalc_'' @ take 12 (gnv_uuid env 1),
        cs_source_hash := registry_hash (JObj [(''investment'', JStr (units_str 2 (cs_investment_amount c))),
          (''turnover'', JStr (units_str 2 (cs_annual_turnover c)))]),
        cs_threshold_policy_version := threshold_version,
        cs_verification_status := (if calculated = cs_declared_classification c then ''VERIFIED'' else ''REVIEW_REQUIRED''),
        cs_effective_from := gst_today env, cs_effective_to := None, cs_created_at := gnv_now env\<rparr>)"

definition recalculate_classification :: "gst_env \<Rightarrow> gst_scope \<Rightarrow> json gst_op" where
  "recalculate_classification env scope db =
     sum_bind (gst_roles scope [''GST_REVIEWER'']) (\<lambda>_.
     sum_bind (latest_snapshot db (et_tenant_id (go_enterprise scope)) (et_id (go_enterprise scope))) (\<lambda>c.
     let c' = recalculated env c; e = go_enterprise scope;
         e' = e\<lparr>et_calculated_classification := cs_calculated_classification c',
           et_classification_provenance := (if cs_verification_status c' = ''VERIFIED'' then ''DEMO_DERIVED'' else ''REVIEW_REQUIRED''),
           et_classification_as_of := gst_today env, et_version := et_version e + 1\<rparr>
     in Inr (record_gst_change env 2 (cs_tenant_id c) ''ENTERPRISE'' (cs_enterprise_id c) (et_version e')
               ''enterprise.classification_recalculated'' (gu_id (go_user scope)) None (store_enterprise env e' (add_snapshot c' db)),
             classification_projection c')))"

definition reviewed_snapshot :: "gst_env \<Rightarrow> classification_review \<Rightarrow> classification_snapshot \<Rightarrow> classification_snapshot" where
  "reviewed_snapshot env r c =
     c\<lparr>cs_id := uuid_str (gnv_uuid env 0), cs_effective_classification := cv_effective_classification r,
       cs_source_type := ''UDYAM_TEST_FIXTURE'', cs_source_reference := ''review_'' @ take 12 (gnv_uuid env 1),
       cs_source_hash := registry_hash (JObj [(''prior_snapshot'', JStr (cs_id c)),
         (''effective_classification'', JStr (cv_effective_classification r)), (''reason'', JStr (cv_reason r))]),
       cs_verification_status := ''VERIFIED'', cs_effective_from := gst_today env, cs_effective_to := None, cs_created_at := gnv_now env\<rparr>"

definition review_classification :: "gst_env \<Rightarrow> gst_scope \<Rightarrow> classification_review \<Rightarrow> json gst_op" where
  "review_classification env scope r db =
     sum_bind (gst_roles scope [''GST_REVIEWER'']) (\<lambda>_.
     sum_bind (latest_snapshot db (et_tenant_id (go_enterprise scope)) (et_id (go_enterprise scope))) (\<lambda>c.
     let c' = reviewed_snapshot env r c; e = go_enterprise scope;
         e' = e\<lparr>et_effective_classification := cv_effective_classification r, et_classification_provenance := ''UDYAM_TEST_FIXTURE'',
           et_classification_as_of := gst_today env, et_version := et_version e + 1\<rparr>
     in Inr (record_gst_change env 2 (cs_tenant_id c) ''ENTERPRISE'' (cs_enterprise_id c) (et_version e')
               ''enterprise.classification_changed'' (gu_id (go_user scope)) (Some (cv_reason r))
               (store_enterprise env e' (add_snapshot c' db)), classification_projection c')))"

section \<open>Reads\<close>

definition gst_session_view :: "gst_env \<Rightarrow> gst_db \<Rightarrow> gst_scope \<Rightarrow> dict" where
  "gst_session_view env db scope =
     (let u = go_user scope;
          ms = sort_key (\<lambda>(m, e). et_trade_name e)
            (filter (\<lambda>(m, e). et_id e = mb_enterprise_id m \<and> mb_user_id m = gu_id u \<and> mb_status m = ''ACTIVE'')
              (List.product (memberships db) (enterprises db)))
      in [(''user'', JObj [(''id'', JStr (gu_id u)), (''display_name'', JStr (gu_display_name u)), (''email'', JStr (gu_email u))]),
          (''enterprise'', enterprise_projection env (go_enterprise scope)),
          (''roles'', JStrList (sort (remdups (mb_roles (go_membership scope))))),
          (''memberships'', JList (map (\<lambda>(m, e). JObj
             [(''enterprise_id'', JStr (et_id e)), (''trade_name'', JStr (et_trade_name e)), (''gstin'', JStr (et_primary_gstin e)),
              (''classification'', JStr (et_effective_classification e))]) ms)),
          (''environment'', JStr ''SYNTHETIC_NON_PRODUCTION'')])"

text \<open>\<open>COALESCE(SUM(..), 0)\<close>, printed: without rows the zero has no decimals.\<close>

definition total_str :: "int list \<Rightarrow> string" where
  "total_str ns = (if ns = [] then ''0'' else units_str 2 (sum_list ns))"

definition gst_dashboard :: "gst_env \<Rightarrow> gst_db \<Rightarrow> gst_scope \<Rightarrow> gst_error + json" where
  "gst_dashboard env db scope =
     (let e = go_enterprise scope; rows = scalars (owned_by e) (invoices db);
          registered = filter (\<lambda>i. iv_status i = ''REGISTERED'') rows
      in sum_bind (latest_snapshot db (et_tenant_id e) (et_id e)) (\<lambda>c. Inr (JObj
        [(''enterprise'', enterprise_projection env e),
         (''invoice_counts'', JObj (map (\<lambda>(s, n). (s, JInt n)) (foldl count_status [] (map iv_status rows)))),
         (''registered_taxable_turnover'', JStr (total_str (map iv_taxable_value registered))),
         (''registered_tax_total'', JStr (total_str (map (\<lambda>i. iv_cgst_amount i + iv_sgst_amount i + iv_igst_amount i) registered))),
         (''recent_invoices'', JList (map (JObj \<circ> invoice_summary) (take 6 (sort_key (\<lambda>i. - iv_updated_at i) rows)))),
         (''classification'', classification_projection c), (''environment'', JStr ''SYNTHETIC_NON_PRODUCTION'')])))"

definition ilike_term :: "string \<Rightarrow> string \<Rightarrow> bool" where
  "ilike_term query s = sql_contains (py_lower (py_strip query)) (py_lower s)"

definition list_invoices :: "gst_db \<Rightarrow> gst_scope \<Rightarrow> string option \<Rightarrow> string option \<Rightarrow> json" where
  "list_invoices db scope query status =
     JList (map (JObj \<circ> invoice_summary) (take 100 (sort_key (\<lambda>i. - iv_invoice_date i)
       (scalars (\<lambda>i. owned_by (go_enterprise scope) i \<and> (filled status \<longrightarrow> iv_status i = the status) \<and>
          (filled query \<longrightarrow> ilike_term (the query) (iv_invoice_number i) \<or> ilike_term (the query) (iv_buyer_name i) \<or>
             ilike_term (the query) (iv_buyer_gstin i) \<or> (case iv_irn i of None \<Rightarrow> False | Some s \<Rightarrow> ilike_term (the query) s)))
        (invoices db)))))"

definition get_invoice :: "gst_db \<Rightarrow> gst_scope \<Rightarrow> string \<Rightarrow> gst_error + json" where
  "get_invoice db scope invoice_id =
     sum_bind (find_invoice db (go_enterprise scope) invoice_id) (\<lambda>i.
       Inr (JObj (invoice_projection (invoice_lines_of db (iv_id i)) (sort_key ih_occurred_at (history_of db (iv_id i))) i)))"

definition gst_taxpayers :: "gst_db \<Rightarrow> gst_scope \<Rightarrow> taxpayer list" where
  "gst_taxpayers db scope =
     sort_key tx_trade_name (scalars (\<lambda>t. tx_tenant_id t = et_tenant_id (go_enterprise scope) \<and>
       tx_enterprise_id t = et_id (go_enterprise scope)) (taxpayers db))"

definition gst_classification :: "gst_db \<Rightarrow> gst_scope \<Rightarrow> gst_error + json" where
  "gst_classification db scope =
     sum_bind (latest_snapshot db (et_tenant_id (go_enterprise scope)) (et_id (go_enterprise scope))) (\<lambda>c. Inr (classification_projection c))"

text \<open>\<open>ORDER BY period DESC, version DESC\<close>: the stable sorts by the lesser key first.\<close>

definition gst_returns :: "gst_db \<Rightarrow> gst_scope \<Rightarrow> json" where
  "gst_returns db scope =
     JList (map return_projection (rev (sort_key rt_period (rev (sort_key (\<lambda>r. - rt_version r)
       (scalars (\<lambda>r. rt_tenant_id r = et_tenant_id (go_enterprise scope) \<and> rt_enterprise_id r = et_id (go_enterprise scope))
         (return_summaries db)))))))"

definition gst_audit_list :: "gst_db \<Rightarrow> gst_scope \<Rightarrow> json" where
  "gst_audit_list db scope =
     JList (map gst_audit_projection (take 100 (sort_key (\<lambda>a. - ga_occurred_at a)
       (scalars (\<lambda>a. ga_tenant_id a = et_tenant_id (go_enterprise scope)) (gst_audits db)))))"

end
