(* ===== verification/GstApp.thy ===== *)
theory GstApp
  imports GstService BusinessApp
begin

text \<open>
  The front doors of the GST portal: the browser routes (main.py) behind the session cookie and the
  form token, and the eight MCP tools (mcp_server.py, mcp_service.py) behind the bearer token and
  the signed runtime scope, which mcp_security.py verifies as the business registry does.
  \<open>gst_step\<close> serves one request in one session. The pages, the health checks and the polling loop
  of the event stream are left out; one poll is \<open>poll_gst_events\<close>. A claimed total that rounds to
  zero is printed without a sign.
\<close>

section \<open>Routes\<close>

datatype gst_route =
    GstLogin login_request
  | GstCurrentSession
  | GstLogout
  | SwitchEnterprise string
  | GstDashboard
  | CurrentEnterprise
  | TaxpayerList
  | TaxpayerPage string
  | InvoiceList "string option" "string option"
  | CreateInvoice invoice_create
  | InvoicePage string
  | TransitionInvoice string string "string option" "string option"
  | CurrentClassification
  | RecalculateClassification
  | ReviewClassification classification_review
  | ReturnList
  | GstAuditPage

datatype gst_answer =
    GstSignedIn string string
  | GstSignedOut
  | GstJson json

definition gst_browsing :: "gst_env \<Rightarrow> string option \<Rightarrow> (gst_scope \<Rightarrow> 'a gst_op) \<Rightarrow> 'a gst_op" where
  "gst_browsing env token f db = sum_bind (resolve_gst_scope env token db) (\<lambda>(db1, scope). f scope db1)"

definition gst_guarded :: "gst_env \<Rightarrow> string option \<Rightarrow> string option \<Rightarrow> (gst_scope \<Rightarrow> 'a gst_op) \<Rightarrow> 'a gst_op" where
  "gst_guarded env token csrf f =
     gst_browsing env token (\<lambda>scope db. sum_bind (verify_gst_csrf scope csrf) (\<lambda>_. f scope db))"

definition gst_json :: "json gst_op \<Rightarrow> gst_answer gst_op" where
  "gst_json body db = sum_bind (body db) (\<lambda>(db', v). Inr (db', GstJson v))"

definition gst_reading :: "(gst_db \<Rightarrow> gst_error + json) \<Rightarrow> gst_answer gst_op" where
  "gst_reading f db = sum_bind (f db) (\<lambda>v. Inr (db, GstJson v))"

definition switch_enterprise :: "gst_scope \<Rightarrow> string \<Rightarrow> json gst_op" where
  "switch_enterprise scope enterprise_id db =
     (case scalar (\<lambda>m. mb_user_id m = gu_id (go_user scope) \<and> mb_enterprise_id m = enterprise_id \<and> mb_status m = ''ACTIVE'') (memberships db) of
        None \<Rightarrow> Inl (GstAuthorizationError ''The requested enterprise is not assigned to this user.'')
      | Some m \<Rightarrow>
          Inr (update_gst_session scope (\<lambda>s. s\<lparr>gs_enterprise_id := enterprise_id\<rparr>) db,
               JObj [(''status'', JStr ''ENTERPRISE_SWITCHED''), (''enterprise_id'', JStr enterprise_id)]))"

text \<open>The \<open>If-Match\<close> header is checked with \<open>isdigit\<close> before the session opens and read by \<open>int\<close> in it.\<close>

definition numeric_header :: "string option \<Rightarrow> bool" where
  "numeric_header header = (case header of None \<Rightarrow> False | Some s \<Rightarrow> s \<noteq> [] \<and> list_all py_isdigit s)"

definition header_version :: "string option \<Rightarrow> gst_error + int" where
  "header_version header =
     (case header of None \<Rightarrow> Inl GstValueError | Some s \<Rightarrow> if list_all is_digit s then Inr (int (str_nat s)) else Inl GstValueError)"

definition taxpayer_page :: "gst_db \<Rightarrow> gst_scope \<Rightarrow> string \<Rightarrow> gst_error + json" where
  "taxpayer_page db scope gstin =
     (case find (\<lambda>t. tx_gstin t = py_upper gstin) (gst_taxpayers db scope) of
        None \<Rightarrow> Inl (GstNotFoundError ''Taxpayer was not found in the active enterprise.'')
      | Some t \<Rightarrow> Inr (JObj (taxpayer_projection t)))"

fun gst_route_op :: "gst_env \<Rightarrow> string option \<Rightarrow> string option \<Rightarrow> gst_route \<Rightarrow> gst_answer gst_op" where
  "gst_route_op env token csrf (GstLogin body) db =
     sum_bind (valid_gst_login body) (\<lambda>b. sum_bind (authenticate_gst env db (lq_email b) (lq_password b)) (\<lambda>u.
       sum_bind (create_gst_session env u db) (\<lambda>(db', raw, form). Inr (db', GstSignedIn raw form))))"
| "gst_route_op env token csrf GstCurrentSession db =
     gst_browsing env token (\<lambda>scope db1. sum_bind (rotate_gst_csrf env scope db1) (\<lambda>(db2, form).
       Inr (db2, GstJson (JObj (gst_session_view env db1 scope @ [(''csrf_token'', JStr form)]))))) db"
| "gst_route_op env token csrf GstLogout db =
     gst_guarded env token csrf (\<lambda>scope db1.
       Inr (db1\<lparr>gst_sessions := filter (\<lambda>s. gs_id s \<noteq> gs_id (go_session scope)) (gst_sessions db1)\<rparr>, GstSignedOut)) db"
| "gst_route_op env token csrf (SwitchEnterprise i) db =
     sum_bind (valid_switch i) (\<lambda>e. gst_guarded env token csrf (\<lambda>scope. gst_json (switch_enterprise scope e)) db)"
| "gst_route_op env token csrf GstDashboard db =
     gst_browsing env token (\<lambda>scope. gst_reading (\<lambda>d. gst_dashboard env d scope)) db"
| "gst_route_op env token csrf CurrentEnterprise db =
     gst_browsing env token (\<lambda>scope. gst_reading (\<lambda>d. Inr (enterprise_projection env (go_enterprise scope)))) db"
| "gst_route_op env token csrf TaxpayerList db =
     gst_browsing env token (\<lambda>scope. gst_reading (\<lambda>d. Inr (JList (map (JObj \<circ> taxpayer_projection) (gst_taxpayers d scope))))) db"
| "gst_route_op env token csrf (TaxpayerPage gstin) db =
     gst_browsing env token (\<lambda>scope. gst_reading (\<lambda>d. taxpayer_page d scope gstin)) db"
| "gst_route_op env token csrf (InvoiceList query invoice_status) db =
     gst_browsing env token (\<lambda>scope. gst_reading (\<lambda>d. Inr (list_invoices d scope query invoice_status))) db"
| "gst_route_op env token csrf (CreateInvoice body) db =
     sum_bind (valid_invoice body) (\<lambda>b. gst_guarded env token csrf (\<lambda>scope. gst_json (create_invoice env scope b)) db)"
| "gst_route_op env token csrf (InvoicePage i) db =
     gst_browsing env token (\<lambda>scope. gst_reading (\<lambda>d. get_invoice d scope i)) db"
| "gst_route_op env token csrf (TransitionInvoice i action reason if_match) db =
     sum_bind (valid_transition_reason reason) (\<lambda>r.
       if \<not> numeric_header if_match then Inl (GstHTTPError 428 ''A numeric If-Match version is required.'')
       else gst_guarded env token csrf (\<lambda>scope. gst_json (\<lambda>d.
         sum_bind (header_version if_match) (\<lambda>version. transition_invoice env scope i action version r d))) db)"
| "gst_route_op env token csrf CurrentClassification db =
     gst_browsing env token (\<lambda>scope. gst_reading (\<lambda>d. gst_classification d scope)) db"
| "gst_route_op env token csrf RecalculateClassification db =
     gst_guarded env token csrf (\<lambda>scope. gst_json (recalculate_classification env scope)) db"
| "gst_route_op env token csrf (ReviewClassification body) db =
     sum_bind (valid_classification_review body) (\<lambda>r. gst_guarded env token csrf (\<lambda>scope. gst_json (review_classification env scope r)) db)"
| "gst_route_op env token csrf ReturnList db =
     gst_browsing env token (\<lambda>scope. gst_reading (\<lambda>d. Inr (gst_returns d scope))) db"
| "gst_route_op env token csrf GstAuditPage db =
     gst_browsing env token (\<lambda>scope. gst_reading (\<lambda>d. Inr (gst_audit_list d scope))) db"

text \<open>One poll of the event stream: at most twenty outbox rows after the cursor, and the next cursor.\<close>

definition poll_gst_events :: "gst_db \<Rightarrow> string \<Rightarrow> time \<Rightarrow> gst_outbox list \<times> time" where
  "poll_gst_events db tenant_id cursor =
     (let values = take 20 (sort_key gx_created_at
            (scalars (\<lambda>v. gx_tenant_id v = tenant_id \<and> cursor < gx_created_at v) (gst_outboxes db)))
      in (values, fold max (map gx_created_at values) cursor))"

section \<open>Tools\<close>

datatype gst_tool =
    GetClassification
  | TaxpayersGet string
  | RegistrationsVerify string
  | InvoicesGet "string option" "string option" "string option" "string option"
  | InvoicesVerify string "string option" "string option" "string option"
  | InvoicesSearch "string option" "string option" int
  | CheckDuplicate string string int string
  | GetReturnSummary string string

fun gst_tool_name :: "gst_tool \<Rightarrow> string" where
  "gst_tool_name GetClassification = ''enterprises.get_classification''"
| "gst_tool_name (TaxpayersGet _) = ''taxpayers.get''"
| "gst_tool_name (RegistrationsVerify _) = ''registrations.verify''"
| "gst_tool_name (InvoicesGet _ _ _ _) = ''invoices.get''"
| "gst_tool_name (InvoicesVerify _ _ _ _) = ''invoices.verify''"
| "gst_tool_name (InvoicesSearch _ _ _) = ''invoices.search''"
| "gst_tool_name (CheckDuplicate _ _ _ _) = ''invoices.check_duplicate''"
| "gst_tool_name (GetReturnSummary _ _) = ''returns.get_summary''"

definition signed_enterprise :: "gst_db \<Rightarrow> runtime_scope \<Rightarrow> gst_error + enterprise" where
  "signed_enterprise db scope =
     found (GstNotFoundError ''Enterprise was not found in the signed runtime scope.'')
       (scalar (\<lambda>e. et_id e = sc_organization_id scope \<and> et_tenant_id e = sc_tenant_id scope \<and> et_status e = ''ACTIVE'') (enterprises db))"

definition gst_wrap :: "gst_env \<Rightarrow> runtime_scope \<Rightarrow> string \<Rightarrow> json \<Rightarrow> int \<Rightarrow> time \<Rightarrow> dict" where
  "gst_wrap env scope schema_version data record_version updated_at =
     (let body =
        [(''schema_version'', JStr schema_version), (''source_system'', JStr ''xyena-demo-gst''), (''request_id'', JStr (sc_call_id scope)),
         (''record_version'', JInt record_version), (''updated_at'', JStr (iso_utc updated_at)),
         (''retrieved_at'', JStr (iso_utc (gnv_now env))), (''fresh_until'', JStr (iso_utc (gnv_now env + minutes 5))), (''data'', data),
         (''security_labels'', JStrList [''EXTERNAL_DATA'', ''SYNTHETIC_DEMO_SOURCE''])]
      in body @ [(''source_signature'', JStr (hmac_signature (gnv_mcp_token env) body)), (''source_hash'', JStr (registry_hash data))])"

definition taxpayer_evidence :: "gst_env \<Rightarrow> runtime_scope \<Rightarrow> gst_db \<Rightarrow> string \<Rightarrow> gst_error + taxpayer \<times> dict" where
  "taxpayer_evidence env scope db gstin =
     sum_bind (signed_enterprise db scope) (\<lambda>e.
     sum_bind (found (GstNotFoundError ''Taxpayer was not found in the signed enterprise scope.'')
       (scalar (\<lambda>t. tx_tenant_id t = sc_tenant_id scope \<and> tx_enterprise_id t = et_id e \<and> tx_gstin t = py_upper gstin) (taxpayers db))) (\<lambda>t.
     Inr (t, gst_wrap env scope ''gst.taxpayer.v1'' (JObj (taxpayer_projection t)) (tx_version t) (tx_updated_at t))))"

definition registration_data :: "taxpayer \<Rightarrow> json" where
  "registration_data t = JObj
     [(''gstin'', JStr (tx_gstin t)), (''registration_status'', JStr (tx_registration_status t)),
      (''registration_date'', JStr (date_iso (tx_registration_date t))), (''active_match'', JBool (tx_registration_status t = ''ACTIVE'')),
      (''risk_flags'', JStrList (tx_risk_flags t))]"

text \<open>An id, or else the seller, the number and the financial year: a filter, or the \<open>ValueError\<close>.\<close>

definition invoice_filter ::
    "string option \<Rightarrow> string option \<Rightarrow> string option \<Rightarrow> string option \<Rightarrow> gst_error + (invoice \<Rightarrow> bool)" where
  "invoice_filter invoice_id seller_gstin invoice_number year =
     (if filled invoice_id then Inr (\<lambda>i. iv_id i = the invoice_id)
      else if filled seller_gstin \<and> filled invoice_number \<and> filled year
      then Inr (\<lambda>i. iv_seller_gstin i = py_upper (the seller_gstin) \<and> iv_invoice_number i = py_upper (the invoice_number) \<and>
        iv_financial_year i = the year)
      else Inl GstValueError)"

definition invoice_evidence ::
    "gst_env \<Rightarrow> runtime_scope \<Rightarrow> gst_db \<Rightarrow> string option \<Rightarrow> string option \<Rightarrow> string option \<Rightarrow> string option \<Rightarrow>
       gst_error + invoice \<times> dict \<times> dict" where
  "invoice_evidence env scope db invoice_id seller_gstin invoice_number year =
     sum_bind (signed_enterprise db scope) (\<lambda>e.
     sum_bind (invoice_filter invoice_id seller_gstin invoice_number year) (\<lambda>p.
     sum_bind (found (GstNotFoundError ''Invoice was not found in the signed enterprise scope.'')
       (scalar (\<lambda>i. iv_tenant_id i = sc_tenant_id scope \<and> iv_enterprise_id i = et_id e \<and> p i) (invoices db))) (\<lambda>i.
     let v = invoice_projection (invoice_lines_of db (iv_id i)) [] i
     in Inr (i, v, gst_wrap env scope ''gst.invoice.v1'' (JObj v) (iv_version i) (iv_updated_at i)))))"

definition quantized_claim :: "string \<Rightarrow> gst_error + quantized" where
  "quantized_claim s = (case quantize_cents s of None \<Rightarrow> Inl GstInvalidOperation | Some q \<Rightarrow> Inr q)"

fun claim_str :: "quantized \<Rightarrow> string" where
  "claim_str (Cents n) = cents_str n"
| "claim_str NotANumber = ''NaN''"

text \<open>The comparisons of \<open>invoice_verify\<close>, each with whether it matches.\<close>

definition total_comparison :: "invoice \<Rightarrow> string option \<Rightarrow> gst_error + (string \<times> json \<times> bool) list" where
  "total_comparison i claimed =
     (case claimed of
        None \<Rightarrow> Inr []
      | Some s \<Rightarrow> sum_bind (quantized_claim s) (\<lambda>q.
          let m = (q = Cents (iv_total_invoice_value i)); source = JStr (units_str 2 (iv_total_invoice_value i))
          in Inr [(''total_invoice_value'', comparison (claim_str q) source m, m)]))"

definition field_comparison :: "string \<Rightarrow> string \<Rightarrow> string option \<Rightarrow> (string \<times> json \<times> bool) list" where
  "field_comparison key source claimed =
     (case claimed of
        None \<Rightarrow> []
      | Some c \<Rightarrow> [(key, comparison (py_upper c) (JStr source) (py_upper c = source), py_upper c = source)])"

definition invoice_verification :: "string \<Rightarrow> invoice \<Rightarrow> dict \<Rightarrow> (string \<times> json \<times> bool) list \<Rightarrow> json" where
  "invoice_verification invoice_id i record cs = JObj
     [(''invoice_id'', JStr invoice_id), (''verified'', JBool (cs \<noteq> [] \<and> list_all (\<lambda>(k, v, m). m) cs)),
      (''eligible_registered_invoice'', JBool (iv_status i = ''REGISTERED'')), (''comparisons'', JObj (map (\<lambda>(k, v, m). (k, v)) cs)),
      (''source_record'', JObj record)]"

definition newest_invoice :: "gst_env \<Rightarrow> invoice list \<Rightarrow> int \<times> time" where
  "newest_invoice env rows =
     (case rows of [] \<Rightarrow> (1, gnv_now env)
      | i # r \<Rightarrow> (fold max (map iv_version r) (iv_version i), fold max (map iv_updated_at r) (iv_updated_at i)))"

definition invoice_search_rows :: "runtime_scope \<Rightarrow> gst_db \<Rightarrow> enterprise \<Rightarrow> string option \<Rightarrow> string option \<Rightarrow> int \<Rightarrow> invoice list" where
  "invoice_search_rows scope db e query status limit =
     take (nat (max 1 (min limit 100))) (sort_key (\<lambda>i. - iv_invoice_date i)
       (scalars (\<lambda>i. iv_tenant_id i = sc_tenant_id scope \<and> iv_enterprise_id i = et_id e \<and>
          (filled status \<longrightarrow> iv_status i = py_upper (the status)) \<and>
          (filled query \<longrightarrow> ilike_term (the query) (iv_invoice_number i) \<or> ilike_term (the query) (iv_buyer_name i) \<or>
             ilike_term (the query) (iv_buyer_gstin i))) (invoices db)))"

definition duplicate_rows :: "runtime_scope \<Rightarrow> gst_db \<Rightarrow> enterprise \<Rightarrow> string \<Rightarrow> string \<Rightarrow> int \<Rightarrow> quantized \<Rightarrow> invoice list" where
  "duplicate_rows scope db e seller_gstin invoice_number invoice_date total_value =
     scalars (\<lambda>i. iv_tenant_id i = sc_tenant_id scope \<and> iv_enterprise_id i = et_id e \<and> iv_seller_gstin i = py_upper seller_gstin \<and>
       (iv_invoice_number i = py_upper invoice_number \<or> iv_invoice_date i = invoice_date \<and> Cents (iv_total_invoice_value i) = total_value))
     (invoices db)"

definition latest_return :: "runtime_scope \<Rightarrow> gst_db \<Rightarrow> enterprise \<Rightarrow> string \<Rightarrow> string \<Rightarrow> gst_error + return_summary" where
  "latest_return scope db e period return_type =
     (case sort_key (\<lambda>r. - rt_version r) (scalars (\<lambda>r. rt_tenant_id r = sc_tenant_id scope \<and> rt_enterprise_id r = et_id e \<and>
         rt_period r = period \<and> rt_return_type r = return_type) (return_summaries db)) of
        [] \<Rightarrow> Inl (GstNotFoundError ''Return summary was not found in the signed scope.'')
      | r # _ \<Rightarrow> Inr r)"

fun gst_tool_answer :: "gst_env \<Rightarrow> runtime_scope \<Rightarrow> gst_tool \<Rightarrow> gst_db \<Rightarrow> gst_error + json" where
  "gst_tool_answer env scope GetClassification db =
     sum_bind (signed_enterprise db scope) (\<lambda>e. sum_bind (latest_snapshot db (sc_tenant_id scope) (et_id e)) (\<lambda>c.
       Inr (JObj (gst_wrap env scope ''gst.classification.v1'' (classification_projection c) (et_version e) (et_updated_at e)))))"
| "gst_tool_answer env scope (TaxpayersGet gstin) db = sum_bind (taxpayer_evidence env scope db gstin) (\<lambda>(t, v). Inr (JObj v))"
| "gst_tool_answer env scope (RegistrationsVerify gstin) db =
     sum_bind (taxpayer_evidence env scope db gstin) (\<lambda>(t, v).
       Inr (JObj (dict_set (dict_set v (''data'', registration_data t)) (''schema_version'', JStr ''gst.registration.v1''))))"
| "gst_tool_answer env scope (InvoicesGet invoice_id seller_gstin invoice_number year) db =
     sum_bind (invoice_evidence env scope db invoice_id seller_gstin invoice_number year) (\<lambda>(i, v, w). Inr (JObj w))"
| "gst_tool_answer env scope (InvoicesVerify invoice_id total_value buyer_gstin status) db =
     sum_bind (invoice_evidence env scope db (Some invoice_id) None None None) (\<lambda>(i, v, w).
     sum_bind (total_comparison i total_value) (\<lambda>cs.
       let data = invoice_verification invoice_id i v
             (cs @ field_comparison ''buyer_gstin'' (iv_buyer_gstin i) buyer_gstin @ field_comparison ''status'' (iv_status i) status)
       in Inr (JObj (dict_set (dict_set w (''schema_version'', JStr ''gst.invoice-verification.v1'')) (''data'', data)))))"
| "gst_tool_answer env scope (InvoicesSearch query status limit) db =
     sum_bind (signed_enterprise db scope) (\<lambda>e.
       let rows = invoice_search_rows scope db e query status limit; (version, updated) = newest_invoice env rows
       in Inr (JObj (gst_wrap env scope ''gst.invoice-search.v1'' (JObj [(''items'', JList (map (JObj \<circ> invoice_summary) rows))])
            version updated)))"
| "gst_tool_answer env scope (CheckDuplicate seller_gstin invoice_number invoice_date total_value) db =
     sum_bind (signed_enterprise db scope) (\<lambda>e. sum_bind (quantized_claim total_value) (\<lambda>q.
       let rows = duplicate_rows scope db e seller_gstin invoice_number invoice_date q; (version, updated) = newest_invoice env rows
       in Inr (JObj (gst_wrap env scope ''gst.invoice-duplicate.v1''
            (JObj [(''duplicate_found'', JBool (rows \<noteq> [])), (''candidates'', JList (map (JObj \<circ> invoice_summary) rows)),
              (''reason_codes'', JStrList (if rows = [] then [] else [''SELLER_NUMBER_OR_DATE_VALUE_MATCH'']))]) version updated))))"
| "gst_tool_answer env scope (GetReturnSummary period return_type) db =
     sum_bind (signed_enterprise db scope) (\<lambda>e. sum_bind (latest_return scope db e period return_type) (\<lambda>r.
       Inr (JObj (gst_wrap env scope ''gst.return-summary.v1'' (return_projection r) (rt_version r) (rt_updated_at r)))))"

section \<open>One request\<close>

definition gst_bearer :: "string \<Rightarrow> string \<Rightarrow> gst_error + unit" where
  "gst_bearer expected authorization =
     (let scheme = takeWhile (\<lambda>c. c \<noteq> CHR '' '') authorization;
          supplied = tl (dropWhile (\<lambda>c. c \<noteq> CHR '' '') authorization)
      in if py_lower scheme \<noteq> ''bearer'' then Inl (GstHTTPError 401 ''Invalid GST MCP token.'')
         else if \<not> list_all (\<lambda>c. of_char c < (128::nat)) (supplied @ expected) then Inl GstTypeError
         else if supplied \<noteq> expected then Inl (GstHTTPError 401 ''Invalid GST MCP token.'') else Inr ())"

datatype gst_request =
    GstRoute "string option" "string option" gst_route
  | GstTool string dict gst_tool

fun gst_request_op :: "gst_env \<Rightarrow> gst_request \<Rightarrow> gst_answer gst_op" where
  "gst_request_op env (GstRoute token csrf route) db = gst_route_op env token csrf route db"
| "gst_request_op env (GstTool authorization meta tool) db =
     sum_bind (gst_bearer (gnv_mcp_token env) authorization) (\<lambda>_.
     case registry_verify_runtime_scope (gnv_mcp_token env) meta (''gst.'' @ gst_tool_name tool) of
       Inl e \<Rightarrow> Inl (GstScopeError e)
     | Inr scope \<Rightarrow> gst_reading (gst_tool_answer env scope tool) db)"

definition gst_session :: "gst_answer gst_op \<Rightarrow> gst_db \<Rightarrow> gst_db \<times> (gst_error + gst_answer)" where
  "gst_session = session gst_constraints GstDatabaseError"

fun gst_step :: "gst_env \<times> gst_request \<Rightarrow> gst_db \<Rightarrow> gst_db \<times> (gst_error + gst_answer)" where
  "gst_step (env, request) db = gst_session (gst_request_op env request) db"

end
