(* ===== verification/GstInvariant.thy ===== *)
theory GstInvariant
  imports GstApp
begin

text \<open>
  What a request of the GST portal can do to its invoices. \<open>invoice_act\<close> lists the two operations
  that change them, with the authority each needs; every other request leaves invoices, their
  lines and their history as they are (\<open>gst_request_act\<close>).
\<close>

definition gst_acting :: "gst_env \<Rightarrow> gst_db \<Rightarrow> string option \<Rightarrow> string option \<Rightarrow> string \<Rightarrow> gst_scope \<Rightarrow> bool" where
  "gst_acting env db token csrf role scope \<longleftrightarrow>
     go_session scope \<in> set (gst_sessions db) \<and> go_user scope \<in> set (gst_users db) \<and> go_enterprise scope \<in> set (enterprises db) \<and>
     go_membership scope \<in> set (memberships db) \<and> gs_user_id (go_session scope) = gu_id (go_user scope) \<and>
     gs_enterprise_id (go_session scope) = et_id (go_enterprise scope) \<and> mb_user_id (go_membership scope) = gu_id (go_user scope) \<and>
     mb_enterprise_id (go_membership scope) = et_id (go_enterprise scope) \<and>
     map_option hash_token token = Some (gs_token_hash (go_session scope)) \<and> gnv_now env < gs_expires_at (go_session scope) \<and>
     gu_status (go_user scope) = ''ACTIVE'' \<and> et_status (go_enterprise scope) = ''ACTIVE'' \<and> mb_status (go_membership scope) = ''ACTIVE'' \<and>
     map_option hash_token csrf = Some (gs_csrf_hash (go_session scope)) \<and> role \<in> set (mb_roles (go_membership scope))"

definition invoice_core :: "gst_db \<Rightarrow> invoice list \<times> invoice_line list \<times> status_history list" where
  "invoice_core db = (invoices db, invoice_lines db, status_histories db)"

lemma invoice_core_eq [simp]:
  "invoice_core db = invoice_core db' \<longleftrightarrow>
     invoices db = invoices db' \<and> invoice_lines db = invoice_lines db' \<and> status_histories db = status_histories db'"
  by (simp add: invoice_core_def)

inductive invoice_act :: "gst_env \<Rightarrow> gst_db \<Rightarrow> gst_db \<Rightarrow> gst_request \<Rightarrow> bool" for env db db' where
  idle: "invoice_core db' = invoice_core db \<Longrightarrow> invoice_act env db db' q"
| create: "gst_acting env db token csrf ''GST_OPERATOR'' scope \<Longrightarrow> valid_invoice body = Inr b \<Longrightarrow> invoice_core db1 = invoice_core db \<Longrightarrow>
     create_invoice env scope b db1 = Inr (db', v) \<Longrightarrow> invoice_act env db db' (GstRoute token csrf (CreateInvoice body))"
| move: "gst_acting env db token csrf role scope \<Longrightarrow> valid_transition_reason reason = Inr r \<Longrightarrow> header_version header = Inr version \<Longrightarrow>
     invoice_transition action = Some (prior, target, role) \<Longrightarrow> invoice_core db1 = invoice_core db \<Longrightarrow>
     transition_invoice env scope i action version r db1 = Inr (db', v) \<Longrightarrow>
     invoice_act env db db' (GstRoute token csrf (TransitionInvoice i action reason header))"

lemma gst_session_rowsD:
  assumes "scope \<in> set (gst_session_rows db token)"
  shows "go_session scope \<in> set (gst_sessions db) \<and> go_user scope \<in> set (gst_users db) \<and> go_enterprise scope \<in> set (enterprises db) \<and>
     go_membership scope \<in> set (memberships db) \<and> gs_user_id (go_session scope) = gu_id (go_user scope) \<and>
     gs_enterprise_id (go_session scope) = et_id (go_enterprise scope) \<and> mb_user_id (go_membership scope) = gu_id (go_user scope) \<and>
     mb_enterprise_id (go_membership scope) = et_id (go_enterprise scope) \<and> gs_token_hash (go_session scope) = hash_token token"
  using assms by (auto simp: gst_session_rows_def)

lemma resolve_gst_scope_Inr:
  assumes "resolve_gst_scope env token db = Inr (db1, scope)"
  obtains t where "token = Some t" "scope \<in> set (gst_session_rows db t)" "gnv_now env < gs_expires_at (go_session scope)"
    "gu_status (go_user scope) = ''ACTIVE''" "et_status (go_enterprise scope) = ''ACTIVE''" "mb_status (go_membership scope) = ''ACTIVE''"
    "invoice_core db1 = invoice_core db"
proof -
  from assms obtain t rest where t: "token = Some t" "gst_session_rows db t = scope # rest"
    and ok: "gnv_now env < gs_expires_at (go_session scope)" "gu_status (go_user scope) = ''ACTIVE''"
      "et_status (go_enterprise scope) = ''ACTIVE''" "mb_status (go_membership scope) = ''ACTIVE''" "invoice_core db1 = invoice_core db"
    by (auto simp: resolve_gst_scope_def filled_def update_gst_session_def split: if_splits list.splits option.splits)
  show thesis by (rule that [OF t(1) _ ok]) (simp add: t(2))
qed

lemma gst_roles_Inr: "gst_roles scope [role] = Inr u \<longleftrightarrow> role \<in> set (mb_roles (go_membership scope))"
  by (auto simp: gst_roles_def)

lemma gst_guarded_acting:
  assumes "gst_guarded env token csrf (\<lambda>scope. gst_json (f scope)) db = Inr (db', a)"
    and roles: "\<And>scope d d' v. f scope d = Inr (d', v) \<Longrightarrow> role \<in> set (mb_roles (go_membership scope))"
  obtains scope db1 v where "gst_acting env db token csrf role scope" "invoice_core db1 = invoice_core db" "f scope db1 = Inr (db', v)"
proof -
  from assms(1) obtain scope db1 v where r: "resolve_gst_scope env token db = Inr (db1, scope)"
    and c: "map_option hash_token csrf = Some (gs_csrf_hash (go_session scope))" and f: "f scope db1 = Inr (db', v)"
    by (auto simp: gst_guarded_def gst_browsing_def gst_json_def sum_bind_Inr verify_gst_csrf_def split: if_splits)
  show thesis
  proof (rule resolve_gst_scope_Inr [OF r])
    fix t
    assume t: "token = Some t" "scope \<in> set (gst_session_rows db t)" "gnv_now env < gs_expires_at (go_session scope)"
      "gu_status (go_user scope) = ''ACTIVE''" "et_status (go_enterprise scope) = ''ACTIVE''" "mb_status (go_membership scope) = ''ACTIVE''"
      "invoice_core db1 = invoice_core db"
    have "gst_acting env db token csrf role scope"
      using gst_session_rowsD [OF t(2)] t(1,3-6) c roles [OF f] by (simp add: gst_acting_def)
    then show thesis by (rule that [OF _ t(7) f])
  qed
qed

lemma create_invoice_role: "create_invoice env scope b d = Inr (d', v) \<Longrightarrow> ''GST_OPERATOR'' \<in> set (mb_roles (go_membership scope))"
  by (auto simp: create_invoice_def sum_bind_Inr gst_roles_Inr)

lemma transition_invoice_role:
  "transition_invoice env scope i action version r d = Inr (d', v) \<Longrightarrow>
     \<exists>prior target role. invoice_transition action = Some (prior, target, role) \<and> role \<in> set (mb_roles (go_membership scope))"
  by (auto simp: transition_invoice_def sum_bind_Inr gst_roles_Inr split: if_splits option.splits prod.splits)

lemma gst_browsing_core:
  assumes "gst_browsing env token f db = Inr (db', a)"
    and "\<And>scope d d' v. f scope d = Inr (d', v) \<Longrightarrow> invoice_core d' = invoice_core d"
  shows "invoice_core db' = invoice_core db"
proof -
  from assms(1) obtain db1 scope where "resolve_gst_scope env token db = Inr (db1, scope)" "f scope db1 = Inr (db', a)"
    by (auto simp: gst_browsing_def sum_bind_Inr)
  with assms(2) show ?thesis by (metis resolve_gst_scope_Inr)
qed

lemma gst_guarded_core:
  assumes "gst_guarded env token csrf f db = Inr (db', a)"
    and "\<And>scope d d' v. f scope d = Inr (d', v) \<Longrightarrow> invoice_core d' = invoice_core d"
  shows "invoice_core db' = invoice_core db"
  using assms(1) unfolding gst_guarded_def
  by (rule gst_browsing_core) (auto simp: sum_bind_Inr simp del: invoice_core_eq intro: assms(2))

lemma gst_reading_core: "gst_reading f d = Inr (d', v) \<Longrightarrow> invoice_core d' = invoice_core d"
  by (auto simp: gst_reading_def sum_bind_Inr)

lemma gst_json_core: "gst_json f d = Inr (d', v) \<Longrightarrow> (\<And>w. f d = Inr (d', w) \<Longrightarrow> invoice_core d' = invoice_core d) \<Longrightarrow> invoice_core d' = invoice_core d"
  by (auto simp: gst_json_def sum_bind_Inr simp del: invoice_core_eq)

lemma classification_core:
  "recalculate_classification env scope d = Inr (d', v) \<Longrightarrow> invoice_core d' = invoice_core d"
  "review_classification env scope r d = Inr (d', v) \<Longrightarrow> invoice_core d' = invoice_core d"
  "switch_enterprise scope e d = Inr (d', v) \<Longrightarrow> invoice_core d' = invoice_core d"
  by (auto simp: recalculate_classification_def review_classification_def switch_enterprise_def sum_bind_Inr Let_def record_gst_change_def
      store_enterprise_def add_snapshot_def update_gst_session_def split: option.splits)

lemma session_core [simp]:
  "invoice_core (update_gst_session scope f d) = invoice_core d" "invoice_core (d\<lparr>gst_sessions := rows\<rparr>) = invoice_core d"
  by (simp_all add: invoice_core_def update_gst_session_def)

lemma login_core: "create_gst_session env u d = Inr (d', v) \<Longrightarrow> invoice_core d' = invoice_core d"
  by (auto simp: create_gst_session_def split: list.splits)

lemma transition_route_act:
  assumes "gst_route_op env token csrf (TransitionInvoice i action reason header) db = Inr (db', a)"
  shows "invoice_act env db db' (GstRoute token csrf (TransitionInvoice i action reason header))"
proof -
  from assms obtain r where r: "valid_transition_reason reason = Inr r"
    and g: "gst_guarded env token csrf (\<lambda>scope. gst_json (\<lambda>d.
       sum_bind (header_version header) (\<lambda>version. transition_invoice env scope i action version r d))) db = Inr (db', a)"
    by (auto simp: sum_bind_Inr split: if_splits)
  define f where "f scope d = sum_bind (header_version header) (\<lambda>version. transition_invoice env scope i action version r d)" for scope d
  obtain prior target role where t: "invoice_transition action = Some (prior, target, role)"
  proof -
    from g obtain scope d v w where "transition_invoice env scope i action v r d = Inr (db', w)"
      by (auto simp: gst_guarded_def gst_browsing_def gst_json_def sum_bind_Inr)
    then show thesis using that transition_invoice_role by blast
  qed
  have roles: "role \<in> set (mb_roles (go_membership scope))" if "f scope d = Inr (d', v)" for scope d d' v
    using that transition_invoice_role t by (fastforce simp: f_def sum_bind_Inr)
  show ?thesis
  proof (rule gst_guarded_acting [OF g [folded f_def] roles], assumption)
    fix scope db1 v
    assume acting: "gst_acting env db token csrf role scope" and core: "invoice_core db1 = invoice_core db" and f: "f scope db1 = Inr (db', v)"
    from f obtain version where "header_version header = Inr version" "transition_invoice env scope i action version r db1 = Inr (db', v)"
      by (auto simp: f_def sum_bind_Inr)
    then show ?thesis using acting core r t by (blast intro: invoice_act.move)
  qed
qed

lemma gst_route_act:
  assumes "gst_route_op env token csrf route db = Inr (db', a)"
  shows "invoice_act env db db' (GstRoute token csrf route)"
proof (cases route)
  case (CreateInvoice body)
  with assms obtain b where b: "valid_invoice body = Inr b"
    and g: "gst_guarded env token csrf (\<lambda>scope. gst_json (create_invoice env scope b)) db = Inr (db', a)"
    by (auto simp: sum_bind_Inr)
  show ?thesis unfolding CreateInvoice
    by (rule gst_guarded_acting [OF g create_invoice_role]) (auto intro: invoice_act.create b simp del: invoice_core_eq)
next
  case (TransitionInvoice i action reason header)
  with assms show ?thesis by (simp only: transition_route_act)
next
  case (GstLogin body)
  with assms show ?thesis by (intro invoice_act.idle) (auto simp: sum_bind_Inr simp del: invoice_core_eq dest: login_core)
next
  case GstCurrentSession
  with assms show ?thesis
    by (intro invoice_act.idle) (auto simp: sum_bind_Inr rotate_gst_csrf_def simp del: invoice_core_eq elim!: gst_browsing_core)
next
  case GstLogout
  with assms show ?thesis by (intro invoice_act.idle) (auto simp del: invoice_core_eq elim!: gst_guarded_core)
next
  case (SwitchEnterprise e)
  with assms show ?thesis
    by (intro invoice_act.idle) (auto simp: sum_bind_Inr simp del: invoice_core_eq elim!: gst_guarded_core gst_json_core intro: classification_core)
next
  case RecalculateClassification
  with assms show ?thesis
    by (intro invoice_act.idle) (auto simp del: invoice_core_eq elim!: gst_guarded_core gst_json_core intro: classification_core)
next
  case (ReviewClassification body)
  with assms show ?thesis
    by (intro invoice_act.idle) (auto simp: sum_bind_Inr simp del: invoice_core_eq elim!: gst_guarded_core gst_json_core intro: classification_core)
qed (use assms in \<open>auto simp del: invoice_core_eq intro!: invoice_act.idle elim!: gst_browsing_core dest: gst_reading_core\<close>)

lemma gst_request_act: "gst_request_op env q db = Inr (db', a) \<Longrightarrow> invoice_act env db db' q"
  by (cases q) (auto simp: sum_bind_Inr split: sum.splits intro: gst_route_act invoice_act.idle gst_reading_core)

lemma gst_step_cases [case_names same act]:
  assumes "fst (gst_step (env, q) db) = db \<Longrightarrow> P"
    and "\<And>db'. fst (gst_step (env, q) db) = db' \<Longrightarrow> invoice_act env db db' q \<Longrightarrow> gst_constraints db' \<Longrightarrow> P"
  shows P
proof (cases rule: session_cases [of gst_constraints GstDatabaseError "gst_request_op env q" db])
  case (error e)
  then show P using assms(1) by (simp add: gst_session_def)
next
  case (ok db' a)
  then show P using assms(2) [of db'] by (simp add: gst_session_def gst_request_act)
qed

end
