(* ===== verification/GstProperties.thy ===== *)
theory GstProperties
  imports GstInvariant
begin

text \<open>
  The properties of the GST portal: the amounts of every invoice are the exact tax of its lines
  (\<open>gst_amounts_exact\<close>), an invoice moves only along its lifecycle and by the role of each step
  (\<open>gst_lifecycle_controlled\<close>), and its history explains its status (\<open>gst_history_explains\<close>).
\<close>

section \<open>Decimal arithmetic\<close>

lemma excess_digits_bound: "10 ^ 28 \<le> m \<Longrightarrow> 0 < excess_digits m \<and> 10 ^ (27 + excess_digits m) \<le> m"
proof (induction m rule: excess_digits.induct)
  case (1 m)
  let ?e = "excess_digits (m div 10)"
  have e: "excess_digits m = Suc ?e" using 1(2) by (subst excess_digits.simps) simp
  have "10 ^ (27 + ?e) \<le> m div 10"
  proof (cases "m div 10 < 10 ^ 28")
    case True
    then have "?e = 0" by (subst excess_digits.simps) simp
    moreover have "(10::nat) ^ 27 \<le> m div 10" using 1(2) by simp
    ultimately show ?thesis by simp
  next
    case False
    then show ?thesis using 1 by simp
  qed
  then have "10 * 10 ^ (27 + ?e) \<le> m" by (metis less_eq_div_iff_mult_less_eq mult.commute zero_less_numeral)
  then show ?case unfolding e add_Suc_right power_Suc by simp
qed

lemma context_round_small: "\<bar>n\<bar> < 10 ^ 28 \<Longrightarrow> context_round n = n"
  by (simp add: context_round_def)

lemma context_round_large:
  assumes "10 ^ 28 \<le> \<bar>n\<bar>"
  shows "10 ^ 28 \<le> \<bar>context_round n\<bar>"
proof -
  let ?m = "nat \<bar>n\<bar>"
  let ?e = "excess_digits ?m"
  have m: "10 ^ 28 \<le> ?m" using assms by (simp add: le_nat_iff)
  note e = excess_digits_bound [OF m, THEN conjunct1] excess_digits_bound [OF m, THEN conjunct2]
  have "10 ^ 27 \<le> ?m div 10 ^ ?e"
    using e(2) unfolding power_add by (subst less_eq_div_iff_mult_less_eq) (simp_all only: zero_less_power zero_less_numeral)
  then have "10 ^ 27 \<le> div_half_even ?m (10 ^ ?e)" by (simp add: div_half_even_def Let_def)
  moreover have "(10::nat) ^ 1 \<le> 10 ^ ?e" using e(1) by (intro power_increasing) simp_all
  ultimately have "(10::nat) ^ 27 * 10 ^ 1 \<le> div_half_even ?m (10 ^ ?e) * 10 ^ ?e" by (rule mult_le_mono)
  then have "(10::nat) ^ 28 \<le> div_half_even ?m (10 ^ ?e) * 10 ^ ?e" unfolding power_add [symmetric] by simp
  then have "int (10 ^ 28) \<le> int (div_half_even ?m (10 ^ ?e) * 10 ^ ?e)" by (simp only: of_nat_le_iff)
  moreover have "\<bar>context_round n\<bar> = int (div_half_even ?m (10 ^ ?e) * 10 ^ ?e)"
    using assms by (auto simp: context_round_def Let_def abs_mult abs_sgn_eq)
  ultimately show ?thesis by simp
qed

text \<open>A value below \<open>10 ^ 28\<close> was not rounded.\<close>

lemma context_round_exact: "\<bar>context_round n\<bar> < 10 ^ 28 \<Longrightarrow> context_round n = n"
  using context_round_large [of n] context_round_small [of n] by linarith

lemma round_away_one [simp]: "round_away n 1 = n"
  unfolding round_away_def by presburger

lemma round_away_half: "round_away (5 * n) 10 = round_away n 2"
proof -
  have "(2 * (5 * m) + 10) div (2 * 10) = (2 * m + 2) div (2 * 2)" for m :: int
    using div_mult_mult1 [of 5 "2 * m + 2" 4] by (simp add: algebra_simps)
  from this [of n] this [of "- n"] show ?thesis by (simp add: round_away_def)
qed

text \<open>The rounded value differs from the exact one by at most half a unit.\<close>

lemma round_away_error:
  assumes "0 < b"
  shows "\<bar>2 * (round_away a b * b - a)\<bar> \<le> b"
proof -
  have bound: "0 \<le> 2 * c + b - 2 * b * ((2 * c + b) div (2 * b)) \<and> 2 * c + b - 2 * b * ((2 * c + b) div (2 * b)) < 2 * b" for c
    using assms by (simp add: minus_mult_div_eq_mod)
  show ?thesis
  proof (cases "0 \<le> a")
    case True
    then have "2 * (round_away a b * b - a) = b - (2 * a + b - 2 * b * ((2 * a + b) div (2 * b)))"
      by (simp add: round_away_def)
    then show ?thesis using bound [of a] by linarith
  next
    case False
    then have "2 * (round_away a b * b - a) = (2 * - a + b - 2 * b * ((2 * - a + b) div (2 * b))) - b"
      by (simp add: round_away_def)
    then show ?thesis using bound [of "- a"] by linarith
  qed
qed

lemma round_away_bound:
  assumes "\<bar>round_away a 1000\<bar> < 1000000000000000000"
  shows "\<bar>a\<bar> < 10000000000000000000000"
  using round_away_error [of 1000 a] assms by simp

lemma gst_money_Inr: "gst_money a b = Inr n \<longleftrightarrow> n = round_away a b \<and> \<bar>n\<bar> < 10 ^ 28"
  by (auto simp: gst_money_def Let_def)

lemma fits_small: "amount_fits n \<Longrightarrow> \<bar>n\<bar> < 1000000000000000000"
  by (simp add: amount_fits_def)

section \<open>Lines\<close>

text \<open>The tax of a line in unbounded arithmetic.\<close>

definition exact_line :: "int \<Rightarrow> int \<Rightarrow> int \<Rightarrow> int \<Rightarrow> bool \<Rightarrow> line_amounts" where
  "exact_line quantity unit_price discount gst_rate intra_state =
     (let taxable = round_away (quantity * unit_price - 1000 * discount) 1000; tax = round_away (taxable * gst_rate) 10000;
          cgst = (if intra_state then round_away tax 2 else 0)
      in \<lparr>am_taxable_value = taxable, am_cgst_amount = cgst, am_sgst_amount = (if intra_state then tax - cgst else 0),
          am_igst_amount = (if intra_state then 0 else tax), am_total_value = taxable + tax\<rparr>)"

definition amounts_of_line :: "invoice_line \<Rightarrow> line_amounts" where
  "amounts_of_line l = \<lparr>am_taxable_value = il_taxable_value l, am_cgst_amount = il_cgst_amount l, am_sgst_amount = il_sgst_amount l,
     am_igst_amount = il_igst_amount l, am_total_value = il_total_value l\<rparr>"

lemma calculate_line_Inr:
  assumes "calculate_line q p d r intra = Inr a"
  obtains tax where "am_taxable_value a = round_away (context_round (context_round (q * p) - 1000 * d)) 1000" "0 \<le> am_taxable_value a"
    "tax = round_away (context_round (am_taxable_value a * r)) 10000"
    "am_cgst_amount a = (if intra then round_away (context_round (5 * tax)) 10 else 0)"
    "am_sgst_amount a = (if intra then context_round (tax - am_cgst_amount a) else 0)"
    "am_igst_amount a = (if intra then 0 else tax)" "am_total_value a = context_round (am_taxable_value a + tax)"
  using assms by (auto simp: calculate_line_def sum_bind_Inr gst_money_Inr split: if_splits)

lemma calculate_line_nonneg: "calculate_line q p d r intra = Inr a \<Longrightarrow> 0 \<le> am_taxable_value a"
  by (auto simp: calculate_line_def sum_bind_Inr split: if_splits)

text \<open>The amounts of a line that fits its columns are exact: the 28 digits of the context are never used up.\<close>

lemma calculate_line_exact:
  assumes calc: "calculate_line q p d r intra = Inr a"
    and fits: "amount_fits d" "\<bar>r\<bar> < 10 ^ 5" "amount_fits (am_taxable_value a)" "amount_fits (am_total_value a)"
  shows "a = exact_line q p d r intra"
proof -
  obtain tax where a: "am_taxable_value a = round_away (context_round (context_round (q * p) - 1000 * d)) 1000"
    "0 \<le> am_taxable_value a" "tax = round_away (context_round (am_taxable_value a * r)) 10000"
    "am_cgst_amount a = (if intra then round_away (context_round (5 * tax)) 10 else 0)"
    "am_sgst_amount a = (if intra then context_round (tax - am_cgst_amount a) else 0)"
    "am_igst_amount a = (if intra then 0 else tax)" "am_total_value a = context_round (am_taxable_value a + tax)"
    by (rule calculate_line_Inr [OF calc])
  note small = fits_small [OF fits(1)] fits_small [OF fits(3)] fits_small [OF fits(4)]
  have x: "\<bar>context_round (context_round (q * p) - 1000 * d)\<bar> < 10000000000000000000000"
    by (rule round_away_bound) (use small(2) a(1) in simp)
  then have 1: "context_round (context_round (q * p) - 1000 * d) = context_round (q * p) - 1000 * d"
    by (intro context_round_exact) simp
  then have "\<bar>context_round (q * p)\<bar> < 10000000000000000000000000" using x small(1) by linarith
  then have "context_round (q * p) = q * p" by (intro context_round_exact) simp
  then have taxable: "am_taxable_value a = round_away (q * p - 1000 * d) 1000" using a(1) 1 by simp
  have total: "am_total_value a = am_taxable_value a + tax"
    unfolding a(7) using small(3) unfolding a(7) by (intro context_round_exact) simp
  then have tax_small: "\<bar>tax\<bar> < 2000000000000000000" using small(2,3) by linarith
  have "\<bar>am_taxable_value a * r\<bar> = \<bar>am_taxable_value a\<bar> * \<bar>r\<bar>" by (rule abs_mult)
  also have "\<dots> \<le> 1000000000000000000 * 100000" by (rule mult_mono) (use small(2) fits(2) in simp_all)
  finally have tax: "tax = round_away (am_taxable_value a * r) 10000" using a(3) by (simp add: context_round_small)
  have "context_round (5 * tax) = 5 * tax" using tax_small by (intro context_round_small) simp
  then have cgst: "am_cgst_amount a = (if intra then round_away tax 2 else 0)" using a(4) by (simp add: round_away_half)
  have "\<bar>tax - am_cgst_amount a\<bar> < 10000000000000000000"
    using tax_small round_away_error [of 2 tax, OF zero_less_numeral] unfolding cgst by (simp split: if_split) linarith
  then have "am_sgst_amount a = (if intra then tax - am_cgst_amount a else 0)" using a(5) by (simp add: context_round_small)
  then show ?thesis
    using taxable tax cgst a(6) total by (intro line_amounts.equality) (auto simp: exact_line_def Let_def)
qed

lemma exact_line_split:
  "am_total_value (exact_line q p d r intra) = am_taxable_value (exact_line q p d r intra) + am_cgst_amount (exact_line q p d r intra) +
     am_sgst_amount (exact_line q p d r intra) + am_igst_amount (exact_line q p d r intra)"
  "intra \<Longrightarrow> am_igst_amount (exact_line q p d r intra) = 0"
  "\<not> intra \<Longrightarrow> am_cgst_amount (exact_line q p d r intra) = 0 \<and> am_sgst_amount (exact_line q p d r intra) = 0"
  by (simp_all add: exact_line_def Let_def)

lemma decimal_sum_exact:
  assumes "\<forall>n\<in>set ns. \<bar>n\<bar> < 10 ^ 18" "length ns \<le> 100"
  shows "decimal_sum ns = sum_list ns"
proof -
  have "foldl (\<lambda>a n. context_round (a + n)) s ns = s + sum_list ns"
    if "\<forall>n\<in>set ns. \<bar>n\<bar> < 10 ^ 18" "\<bar>s\<bar> \<le> (1000 - int (length ns)) * 10 ^ 18" "length ns \<le> 1000" for s
    using that
  proof (induction ns arbitrary: s)
    case (Cons n ns)
    have len: "int (length (n # ns)) = int (length ns) + 1" by simp
    have n: "\<bar>n\<bar> < 10 ^ 18" using Cons.prems(1) by simp
    have b: "\<bar>s + n\<bar> \<le> (1000 - int (length ns)) * 10 ^ 18"
      using n Cons.prems(2) unfolding len by (simp add: algebra_simps)
    also have "\<dots> \<le> 1000 * 10 ^ 18" by simp
    finally have "context_round (s + n) = s + n" by (intro context_round_small) simp
    then show ?case using Cons.IH [of "s + n"] Cons.prems b by simp
  qed simp
  from this [of 0] assms show ?thesis by (simp add: decimal_sum_def)
qed

section \<open>What the operations do to the tables\<close>

lemma gst_change_tables [simp]:
  "invoices (record_gst_change env k t ty i ver ev ac re db) = invoices db"
  "invoice_lines (record_gst_change env k t ty i ver ev ac re db) = invoice_lines db"
  "status_histories (record_gst_change env k t ty i ver ev ac re db) = status_histories db"
  by (simp_all add: record_gst_change_def)

lemma sum_map_Inr: "sum_map f xs = Inr ys \<Longrightarrow> list_all2 (\<lambda>x y. f x = Inr y) xs ys"
  by (induction xs arbitrary: ys) (auto simp: sum_bind_Inr)

lemma gst_total_Inr: "gst_total f lines = Inr n \<longleftrightarrow> n = decimal_sum (map (f \<circ> snd) lines) \<and> \<bar>n\<bar> < 10 ^ 28"
  by (simp add: gst_total_def gst_money_Inr)

text \<open>The invoice and the lines a creation adds.\<close>

definition drafted ::
    "gst_env \<Rightarrow> gst_scope \<Rightarrow> invoice_create \<Rightarrow> (line_create \<times> line_amounts) list \<Rightarrow> invoice" where
  "drafted env scope b lines =
     (let total = (\<lambda>f. decimal_sum (map (f \<circ> snd) lines)); taxable = total am_taxable_value; cgst = total am_cgst_amount;
          sgst = total am_sgst_amount; igst = total am_igst_amount
      in new_invoice env scope b taxable cgst sgst igst (decimal_sum [taxable, cgst, sgst, igst]))"

lemma create_invoice_Inr:
  assumes "create_invoice env scope b db = Inr (db', v)"
  obtains lines h where
    "list_all2 (\<lambda>x y. line_calculation (same_state (go_enterprise scope) (iq_place_of_supply b)) x = Inr y) (iq_lines b) lines"
    "invoices db' = invoices db @ [drafted env scope b lines]"
    "invoice_lines db' = invoice_lines db @ map (new_invoice_line env (iv_id (drafted env scope b lines))) (enumerate 1 lines)"
    "status_histories db' = status_histories db @ [h]" "ih_invoice_id h = uuid_str (gnv_uuid env 0)"
    "ih_new_status h = ''DRAFT''" "ih_version h = 1" "ih_actor_id h = gu_id (go_user scope)"
proof -
  from assms obtain lines where
    calc: "sum_map (line_calculation (same_state (go_enterprise scope) (iq_place_of_supply b))) (iq_lines b) = Inr lines"
    and db': "invoices db' = invoices db @ [drafted env scope b lines]"
      "invoice_lines db' = invoice_lines db @ map (new_invoice_line env (iv_id (drafted env scope b lines))) (enumerate 1 lines)"
      "status_histories db' = status_histories (add_status env (length lines + 1) (drafted env scope b lines) None ''DRAFT''
         (gu_id (go_user scope)) (Some ''Invoice created'') db)"
    by (auto simp: create_invoice_def sum_bind_Inr gst_total_Inr gst_money_Inr Let_def drafted_def add_status_def split: if_splits)
  show thesis
    by (rule that [OF sum_map_Inr [OF calc] db'(1,2), of "last (status_histories db')"])
      (simp_all add: db'(3) add_status_def drafted_def new_invoice_def Let_def)
qed

lemma moved_fields:
  "iv_id (moved env scope ls action target r x) = iv_id x" "iv_version (moved env scope ls action target r x) = iv_version x + 1"
  "iv_status (moved env scope ls action target r x) = target" "iv_updated_by (moved env scope ls action target r x) = gu_id (go_user scope)"
  "iv_tenant_id (moved env scope ls action target r x) = iv_tenant_id x"
  by (simp_all add: moved_def Let_def)

lemma transition_invoice_Inr:
  assumes "transition_invoice env scope i action version r db = Inr (db', v)"
  obtains x target role h where "x \<in> set (invoices db)" "iv_id x = i" "owned_by (go_enterprise scope) x" "iv_version x = version"
    "invoice_transition action = Some (iv_status x, target, role)"
    "action \<in> {''reject'', ''cancel''} \<longrightarrow> given_reason r"
    "invoices db' = update_rows (\<lambda>y. iv_id y = iv_id x)
       (\<lambda>_. (moved env scope (invoice_lines_of db (iv_id x)) action target r x)\<lparr>iv_updated_at := gnv_now env\<rparr>) (invoices db)"
    "invoice_lines db' = invoice_lines db" "status_histories db' = status_histories db @ [h]" "ih_invoice_id h = iv_id x"
    "ih_prior_status h = Some (iv_status x)" "ih_new_status h = target" "ih_version h = iv_version x + 1"
    "ih_actor_id h = gu_id (go_user scope)"
proof -
  from assms obtain x where x: "scalar (\<lambda>y. iv_id y = i \<and> owned_by (go_enterprise scope) y) (invoices db) = Some x"
    by (auto simp: transition_invoice_def find_invoice_def sum_bind_Inr)
  from assms obtain target role k t ty a n e u w where
    ok: "iv_version x = version" "invoice_transition action = Some (iv_status x, target, role)"
      "action \<in> {''reject'', ''cancel''} \<longrightarrow> given_reason r"
    and "record_gst_change env k t ty a n e u w (add_status env 0 (moved env scope (invoice_lines_of db (iv_id x)) action target r x)
       (Some (iv_status x)) target (gu_id (go_user scope)) r (store_invoice env (moved env scope (invoice_lines_of db (iv_id x)) action target r x) db)) = db'"
    unfolding transition_invoice_def find_invoice_def x found_simps sum_bind.simps
    by (cases "invoice_transition action") (auto simp: sum_bind_Inr Let_def split: if_split_asm)
  then have db': "invoices db' = invoices (store_invoice env (moved env scope (invoice_lines_of db (iv_id x)) action target r x) db)"
      "invoice_lines db' = invoice_lines db"
      "status_histories db' = status_histories (add_status env 0 (moved env scope (invoice_lines_of db (iv_id x)) action target r x)
         (Some (iv_status x)) target (gu_id (go_user scope)) r db)"
    by (auto simp: add_status_def store_invoice_def)
  have row: "x \<in> set (invoices db)" "iv_id x = i" "owned_by (go_enterprise scope) x" using scalar_Some [OF x] by auto
  show thesis
    by (rule that [OF row ok, of "last (status_histories db')"])
      (simp_all add: db' store_invoice_def add_status_def moved_fields)
qed

lemma gst_constraintsD:
  assumes "gst_constraints db"
  shows "unique_by (Some \<circ> iv_id) (invoices db)" "list_all invoice_fits (invoices db)" "list_all line_fits (invoice_lines db)"
    "l \<in> set (invoice_lines db) \<Longrightarrow> il_invoice_id l \<in> iv_id ` set (invoices db)"
    "h \<in> set (status_histories db) \<Longrightarrow> ih_invoice_id h \<in> iv_id ` set (invoices db)"
  using assms by (auto simp: gst_constraints_def gst_references_def Let_def list_all_iff)

text \<open>A row replaced by its primary key: the others stay.\<close>

lemma replaced_invoice:
  assumes "unique_by (Some \<circ> iv_id) rows" "x \<in> set rows" "y \<in> set rows"
  shows "(if y = x then n else y) \<in> set (update_rows (\<lambda>z. iv_id z = iv_id x) (\<lambda>_. n) rows)"
  using assms unique_byD [OF assms(1), of x y] by (auto simp: set_update_rows image_iff)

lemma fresh_invoice:
  assumes "unique_by (Some \<circ> iv_id) (rows @ [i])"
  shows "iv_id i \<notin> iv_id ` set rows"
  using assms by auto

section \<open>The lifecycle of an invoice\<close>

text \<open>The status of an invoice before and after a step, and the role that takes it.\<close>

definition invoice_moves :: "(string \<times> string \<times> string) set" where
  "invoice_moves =
     {(''DRAFT'', ''SUBMITTED'', ''GST_OPERATOR''), (''SUBMITTED'', ''REGISTERED'', ''GST_REVIEWER''),
      (''SUBMITTED'', ''REJECTED'', ''GST_REVIEWER''), (''REGISTERED'', ''CANCELLED'', ''GST_REVIEWER'')}"

text \<open>Parties, number, dates and amounts are the same: only the fields of the workflow may differ.\<close>

definition same_document :: "invoice \<Rightarrow> invoice \<Rightarrow> bool" where
  "same_document i i' \<longleftrightarrow>
     i' = i\<lparr>iv_status := iv_status i', iv_irn := iv_irn i', iv_ack_number := iv_ack_number i', iv_ack_date := iv_ack_date i',
       iv_cancellation_reason := iv_cancellation_reason i', iv_source_document_hash := iv_source_document_hash i',
       iv_version := iv_version i', iv_updated_by := iv_updated_by i', iv_updated_at := iv_updated_at i'\<rparr>"

definition moved_by :: "gst_env \<Rightarrow> gst_request \<Rightarrow> gst_db \<Rightarrow> invoice \<Rightarrow> invoice \<Rightarrow> bool" where
  "moved_by env q db i i' \<longleftrightarrow>
     (\<exists>token csrf scope role action reason header. q = GstRoute token csrf (TransitionInvoice (iv_id i) action reason header) \<and>
        gst_acting env db token csrf role scope \<and> owned_by (go_enterprise scope) i \<and> header_version header = Inr (iv_version i) \<and>
        (iv_status i, iv_status i', role) \<in> invoice_moves \<and> same_document i i' \<and> iv_version i' = iv_version i + 1 \<and>
        iv_updated_by i' = gu_id (go_user scope) \<and>
        (if iv_status i' = ''REGISTERED'' then iv_irn i' = Some (invoice_irn i') else iv_irn i' = iv_irn i) \<and>
        (iv_status i' \<in> {''REJECTED'', ''CANCELLED''} \<longrightarrow> given_reason reason))"

definition newly_drafted :: "gst_env \<Rightarrow> gst_request \<Rightarrow> gst_db \<Rightarrow> invoice \<Rightarrow> bool" where
  "newly_drafted env q db i \<longleftrightarrow>
     (\<exists>token csrf scope body. q = GstRoute token csrf (CreateInvoice body) \<and> gst_acting env db token csrf ''GST_OPERATOR'' scope \<and>
        owned_by (go_enterprise scope) i \<and> iv_seller_gstin i = et_primary_gstin (go_enterprise scope) \<and> iv_status i = ''DRAFT'' \<and>
        iv_version i = 1 \<and> iv_irn i = None \<and> iv_created_by i = gu_id (go_user scope) \<and> iv_invoice_date i \<le> gst_today env)"

lemma transition_moves:
  "invoice_transition action = Some (s, t, role) \<Longrightarrow> (s, t, role) \<in> invoice_moves \<and>
     (t = ''REGISTERED'' \<longleftrightarrow> action = ''register'') \<and> (t \<in> {''REJECTED'', ''CANCELLED''} \<longleftrightarrow> action \<in> {''reject'', ''cancel''})"
  by (auto simp: invoice_transition_def invoice_moves_def split: if_splits)

lemma moved_document: "same_document x ((moved env scope ls action target r x)\<lparr>iv_updated_at := t\<rparr>)"
  by (simp add: same_document_def moved_def Let_def)

lemma moved_irn:
  assumes "invoice_transition action = Some (s, target, role)"
  shows "let n = (moved env scope ls action target r x)\<lparr>iv_updated_at := t\<rparr> in
     if target = ''REGISTERED'' then iv_irn n = Some (invoice_irn n) else iv_irn n = iv_irn x"
proof (cases "action = ''register''")
  case True
  then show ?thesis using transition_moves [OF assms] by (simp add: moved_def Let_def invoice_irn_def)
next
  case False
  then show ?thesis using transition_moves [OF assms] by (simp add: moved_def Let_def)
qed

lemma valid_given_reason: "valid_transition_reason reason = Inr r \<Longrightarrow> given_reason r \<Longrightarrow> given_reason reason"
  by (cases reason; cases "py_strip (the reason) = []")
    (auto simp: valid_transition_reason_def given_reason_def non_blank_def py_strip_def [of "[]"] split: if_splits)

lemma act_moved:
  assumes act: "invoice_act env db db' q" and ok: "gst_constraints db" and y: "y \<in> set (invoices db)"
  shows "\<exists>y'\<in>set (invoices db'). iv_id y' = iv_id y \<and> (y' = y \<or> moved_by env q db y y')"
  using act
proof cases
  case (create token csrf scope body b db1 v)
  then show ?thesis using y by (auto elim!: create_invoice_Inr)
next
  case (move token csrf role scope reason r header version action prior target db1 i v)
  then have core: "invoices db1 = invoices db" by simp
  obtain x t role' h where x: "x \<in> set (invoices db1)" "iv_id x = i" "owned_by (go_enterprise scope) x" "iv_version x = version"
      "invoice_transition action = Some (iv_status x, t, role')"
      "action \<in> {''reject'', ''cancel''} \<longrightarrow> given_reason r"
    and db': "invoices db' = update_rows (\<lambda>y. iv_id y = iv_id x)
       (\<lambda>_. (moved env scope (invoice_lines_of db1 (iv_id x)) action t r x)\<lparr>iv_updated_at := gnv_now env\<rparr>) (invoices db1)"
    by (rule transition_invoice_Inr [OF move(7)])
  let ?n = "(moved env scope (invoice_lines_of db1 (iv_id x)) action t r x)\<lparr>iv_updated_at := gnv_now env\<rparr>"
  from x(5) move(5) have role: "role' = role" by simp
  note t = transition_moves [OF x(5), unfolded role]
  have reason: "t \<in> {''REJECTED'', ''CANCELLED''} \<longrightarrow> given_reason reason"
  proof
    assume "t \<in> {''REJECTED'', ''CANCELLED''}"
    then have "action \<in> {''reject'', ''cancel''}" using t by simp
    with x(6) have "given_reason r" by auto
    then show "given_reason reason" by (rule valid_given_reason [OF move(3)])
  qed
  have irn: "if t = ''REGISTERED'' then iv_irn ?n = Some (invoice_irn ?n) else iv_irn ?n = iv_irn x"
    using moved_irn [OF x(5), of "gnv_now env" env scope "invoice_lines_of db1 (iv_id x)" r x] unfolding Let_def .
  have fields: "iv_status ?n = t" "iv_version ?n = iv_version x + 1" "iv_updated_by ?n = gu_id (go_user scope)" "iv_id ?n = iv_id x"
    by (simp_all add: moved_fields)
  have "moved_by env q db x ?n"
    unfolding moved_by_def fields
    by (intro exI conjI) (rule move(1) [folded x(2)], rule move(2), rule x(3), rule move(4) [folded x(4)], rule t [THEN conjunct1],
        rule moved_document, rule refl, rule refl, rule irn, rule reason)
  moreover have "(if y = x then ?n else y) \<in> set (invoices db')"
    unfolding db' core by (rule replaced_invoice [OF gst_constraintsD(1) [OF ok] x(1) [unfolded core] y])
  ultimately show ?thesis by (intro bexI [of _ "if y = x then ?n else y"]) (auto simp: fields)
qed (use y in auto)

lemma act_drafted:
  assumes "invoice_act env db db' q" "y \<in> set (invoices db')"
  shows "iv_id y \<in> iv_id ` set (invoices db) \<or> newly_drafted env q db y"
  using assms(1)
proof cases
  case (create token csrf scope body b db1 v)
  then obtain lines where rows: "invoices db' = invoices db @ [drafted env scope b lines]" by (auto elim!: create_invoice_Inr)
  have "iq_invoice_date b \<le> gst_today env"
    using create(5) by (auto simp: create_invoice_def sum_bind_Inr split: if_splits)
  then have "newly_drafted env q db (drafted env scope b lines)"
    unfolding newly_drafted_def create(1) using create(2)
    by (intro exI conjI) (rule refl, assumption, simp_all add: drafted_def new_invoice_def owned_by_def Let_def)
  then show ?thesis using assms(2) by (auto simp: rows)
next
  case (move token csrf role scope reason r header version action prior target db1 i v)
  then show ?thesis using assms(2)
    by (auto simp: set_update_rows moved_fields elim!: transition_invoice_Inr split: if_splits)
qed (use assms(2) in auto)

lemma other_lines:
  "iv_id j \<noteq> i \<Longrightarrow> scalars (\<lambda>l. il_invoice_id l = i) (ls @ map (new_invoice_line env (iv_id j)) xs) = scalars (\<lambda>l. il_invoice_id l = i) ls"
  by (auto simp: scalars_def new_invoice_line_def filter_empty_conv split: prod.splits)

lemma act_lines:
  assumes act: "invoice_act env db db' q" and ok: "gst_constraints db'" and y: "y \<in> set (invoices db)"
  shows "invoice_lines_of db' (iv_id y) = invoice_lines_of db (iv_id y)"
  using act
proof cases
  case (create token csrf scope body b db1 v)
  then have core: "invoices db1 = invoices db" "invoice_lines db1 = invoice_lines db" by simp_all
  from create_invoice_Inr [OF create(5)] obtain lines where rows: "invoices db' = invoices db @ [drafted env scope b lines]"
    "invoice_lines db' = invoice_lines db @ map (new_invoice_line env (iv_id (drafted env scope b lines))) (enumerate 1 lines)"
    unfolding core by metis
  have "iv_id (drafted env scope b lines) \<notin> iv_id ` set (invoices db)"
    using gst_constraintsD(1) [OF ok] unfolding rows by (rule fresh_invoice)
  then have "iv_id (drafted env scope b lines) \<noteq> iv_id y" using y by auto
  then show ?thesis by (simp add: invoice_lines_of_def rows(2) other_lines)
next
  case (move token csrf role scope reason r header version action prior target db1 i v)
  then show ?thesis by (auto simp: invoice_lines_of_def elim!: transition_invoice_Inr)
qed (simp add: invoice_lines_of_def)

text \<open>
  C22. The lifecycle of an invoice. Whatever a request does, every invoice stays with its lines, its
  parties, its number and its amounts, and it is unchanged unless the request is a transition of
  that invoice that quotes its current version, made in a live session of an active member of the
  invoice's enterprise with the session's form token. An operator submits a draft; a reviewer
  registers or rejects what was submitted and cancels what was registered, giving a reason to
  reject or cancel. Each step makes the next version in the member's name, and only registration
  assigns the reference number. A new invoice is a first draft without a reference number, made
  by an operator of the enterprise that sells, and not dated in the future.
\<close>

theorem gst_lifecycle_controlled:
  assumes "gst_constraints db"
  shows "(\<forall>i\<in>set (invoices db). invoice_lines_of (fst (gst_step (env, q) db)) (iv_id i) = invoice_lines_of db (iv_id i) \<and>
            (\<exists>i'\<in>set (invoices (fst (gst_step (env, q) db))). iv_id i' = iv_id i \<and> (i' = i \<or> moved_by env q db i i'))) \<and>
         (\<forall>i'\<in>set (invoices (fst (gst_step (env, q) db))). iv_id i' \<in> iv_id ` set (invoices db) \<or> newly_drafted env q db i')"
proof (cases rule: gst_step_cases [of env q db])
  case same
  then show ?thesis by auto
next
  case (act db')
  show ?thesis unfolding act(1)
    using act_moved [OF act(2) assms] act_drafted [OF act(2)] act_lines [OF act(2,3)] by blast
qed

section \<open>The amounts of an invoice\<close>

definition within_state :: "invoice \<Rightarrow> bool" where
  "within_state i \<longleftrightarrow> take 2 (iv_seller_gstin i) = iv_place_of_supply i"

text \<open>The amounts of a line, in unbounded arithmetic and as distances from the exact fractions.\<close>

definition line_taxed :: "bool \<Rightarrow> invoice_line \<Rightarrow> bool" where
  "line_taxed intra l \<longleftrightarrow>
     0 \<le> il_taxable_value l \<and>
     amounts_of_line l = exact_line (il_quantity l) (il_unit_price l) (il_discount l) (il_gst_rate l) intra \<and>
     \<bar>2 * (il_taxable_value l * 1000 - (il_quantity l * il_unit_price l - 1000 * il_discount l))\<bar> \<le> 1000 \<and>
     \<bar>2 * ((il_cgst_amount l + il_sgst_amount l + il_igst_amount l) * 10000 - il_taxable_value l * il_gst_rate l)\<bar> \<le> 10000"

definition adds_up :: "invoice_line list \<Rightarrow> invoice \<Rightarrow> bool" where
  "adds_up ls i \<longleftrightarrow> ls \<noteq> [] \<and> list_all (line_taxed (within_state i)) ls \<and>
     iv_taxable_value i = sum_list (map il_taxable_value ls) \<and> iv_cgst_amount i = sum_list (map il_cgst_amount ls) \<and>
     iv_sgst_amount i = sum_list (map il_sgst_amount ls) \<and> iv_igst_amount i = sum_list (map il_igst_amount ls) \<and>
     iv_total_invoice_value i = iv_taxable_value i + iv_cgst_amount i + iv_sgst_amount i + iv_igst_amount i"

definition amounts_inv :: "gst_db \<Rightarrow> bool" where
  "amounts_inv db \<longleftrightarrow> gst_constraints db \<and> (\<forall>i\<in>set (invoices db). adds_up (invoice_lines_of db (iv_id i)) i)"

lemma adds_up_same_document: "same_document i i' \<Longrightarrow> adds_up ls i' = adds_up ls i"
  unfolding same_document_def by (erule ssubst) (simp add: adds_up_def within_state_def)

lemma exact_line_taxed:
  assumes "amounts_of_line l = exact_line (il_quantity l) (il_unit_price l) (il_discount l) (il_gst_rate l) intra" "0 \<le> il_taxable_value l"
  shows "line_taxed intra l"
proof -
  let ?a = "exact_line (il_quantity l) (il_unit_price l) (il_discount l) (il_gst_rate l) intra"
  have v: "il_taxable_value l = am_taxable_value ?a" "il_cgst_amount l = am_cgst_amount ?a" "il_sgst_amount l = am_sgst_amount ?a"
    "il_igst_amount l = am_igst_amount ?a" by (simp_all add: assms(1) [symmetric] amounts_of_line_def)
  have t: "il_taxable_value l = round_away (il_quantity l * il_unit_price l - 1000 * il_discount l) 1000"
    "il_cgst_amount l + il_sgst_amount l + il_igst_amount l = round_away (il_taxable_value l * il_gst_rate l) 10000"
    unfolding v by (simp_all add: exact_line_def Let_def)
  show ?thesis
    unfolding line_taxed_def t(2) using assms round_away_error [of 1000 "il_quantity l * il_unit_price l - 1000 * il_discount l"]
      round_away_error [of 10000 "il_taxable_value l * il_gst_rate l"] by (simp add: t(1) [symmetric])
qed

lemma new_line_amounts: "amounts_of_line (new_invoice_line env j (k, l, a)) = a"
  by (simp add: amounts_of_line_def new_invoice_line_def)

lemma drafted_line:
  assumes calc: "line_calculation intra l = Inr (l', a)" and fits: "line_fits (new_invoice_line env j (k, l', a))"
  shows "line_taxed intra (new_invoice_line env j (k, l', a))"
proof -
  let ?l = "new_invoice_line env j (k, l', a)"
  from calc have c: "calculate_line (il_quantity ?l) (il_unit_price ?l) (il_discount ?l) (il_gst_rate ?l) intra = Inr a"
    by (auto simp: line_calculation_def sum_bind_Inr new_invoice_line_def)
  have "a = exact_line (il_quantity ?l) (il_unit_price ?l) (il_discount ?l) (il_gst_rate ?l) intra"
    by (rule calculate_line_exact [OF c]) (use fits in \<open>simp_all add: line_fits_def new_invoice_line_def\<close>)
  moreover have "0 \<le> il_taxable_value ?l" using calculate_line_nonneg [OF c] by (simp add: new_invoice_line_def)
  ultimately show ?thesis by (intro exact_line_taxed) (simp_all add: new_line_amounts)
qed

lemma map_new_lines:
  "map il_taxable_value (map (new_invoice_line env j) (enumerate n lines)) = map (am_taxable_value \<circ> snd) lines"
  "map il_cgst_amount (map (new_invoice_line env j) (enumerate n lines)) = map (am_cgst_amount \<circ> snd) lines"
  "map il_sgst_amount (map (new_invoice_line env j) (enumerate n lines)) = map (am_sgst_amount \<circ> snd) lines"
  "map il_igst_amount (map (new_invoice_line env j) (enumerate n lines)) = map (am_igst_amount \<circ> snd) lines"
  by (induction lines arbitrary: n) (auto simp: new_invoice_line_def)

lemma drafted_sum:
  assumes "length lines \<le> 100" "list_all line_fits (map (new_invoice_line env j) (enumerate n lines))"
    and "map g (map (new_invoice_line env j) (enumerate n lines)) = map (f \<circ> snd) lines" "\<And>l. line_fits l \<Longrightarrow> amount_fits (g l)"
  shows "decimal_sum (map (f \<circ> snd) lines) = sum_list (map g (map (new_invoice_line env j) (enumerate n lines)))"
  unfolding assms(3) [symmetric]
  by (rule decimal_sum_exact) (use assms(1,2,4) in \<open>auto simp: list_all_iff amount_fits_def\<close>)

lemma line_fits_amounts:
  "line_fits l \<Longrightarrow> amount_fits (il_taxable_value l)" "line_fits l \<Longrightarrow> amount_fits (il_cgst_amount l)"
  "line_fits l \<Longrightarrow> amount_fits (il_sgst_amount l)" "line_fits l \<Longrightarrow> amount_fits (il_igst_amount l)"
  by (simp_all add: line_fits_def)

lemma drafted_adds_up:
  assumes calc: "list_all2 (\<lambda>x y. line_calculation (same_state (go_enterprise scope) (iq_place_of_supply b)) x = Inr y) (iq_lines b) lines"
    and len: "0 < length (iq_lines b)" "length (iq_lines b) \<le> 100"
    and fits: "list_all line_fits (map (new_invoice_line env j) (enumerate 1 lines))" "invoice_fits (drafted env scope b lines)"
  shows "adds_up (map (new_invoice_line env j) (enumerate 1 lines)) (drafted env scope b lines)"
proof -
  let ?i = "drafted env scope b lines" and ?ls = "map (new_invoice_line env j) (enumerate 1 lines)"
  have n: "length lines \<le> 100" "lines \<noteq> []" using calc len by (auto dest: list_all2_lengthD)
  have place: "within_state ?i = same_state (go_enterprise scope) (iq_place_of_supply b)"
    by (simp add: within_state_def same_state_def drafted_def new_invoice_def Let_def)
  have "line_taxed (within_state ?i) l" if l: "l \<in> set ?ls" for l
  proof -
    from l obtain k x a where l': "l = new_invoice_line env j (k, x, a)" "(k, x, a) \<in> set (enumerate 1 lines)" by auto
    from l'(2) have "snd (k, x, a) \<in> set (map snd (enumerate 1 lines))" unfolding set_map by (rule imageI)
    then have "(x, a) \<in> set lines" by (simp only: map_snd_enumerate snd_conv)
    with calc obtain y where "line_calculation (within_state ?i) y = Inr (x, a)"
      unfolding place by (auto simp: list_all2_conv_all_nth in_set_conv_nth)
    then show ?thesis unfolding l'(1) by (rule drafted_line) (use fits(1) l l'(1) in \<open>auto simp: list_all_iff\<close>)
  qed
  moreover have sums: "iv_taxable_value ?i = sum_list (map il_taxable_value ?ls)" "iv_cgst_amount ?i = sum_list (map il_cgst_amount ?ls)"
    "iv_sgst_amount ?i = sum_list (map il_sgst_amount ?ls)" "iv_igst_amount ?i = sum_list (map il_igst_amount ?ls)"
    using drafted_sum [OF n(1) fits(1) map_new_lines(1) line_fits_amounts(1)] drafted_sum [OF n(1) fits(1) map_new_lines(2) line_fits_amounts(2)]
      drafted_sum [OF n(1) fits(1) map_new_lines(3) line_fits_amounts(3)] drafted_sum [OF n(1) fits(1) map_new_lines(4) line_fits_amounts(4)]
    by (simp_all add: drafted_def new_invoice_def Let_def)
  moreover have "iv_total_invoice_value ?i =
      decimal_sum [iv_taxable_value ?i, iv_cgst_amount ?i, iv_sgst_amount ?i, iv_igst_amount ?i]"
    by (simp add: drafted_def new_invoice_def Let_def)
  then have "iv_total_invoice_value ?i = iv_taxable_value ?i + iv_cgst_amount ?i + iv_sgst_amount ?i + iv_igst_amount ?i"
    using decimal_sum_exact [of "[iv_taxable_value ?i, iv_cgst_amount ?i, iv_sgst_amount ?i, iv_igst_amount ?i]"] fits(2)
    by (simp add: invoice_fits_def amount_fits_def)
  moreover have "?ls \<noteq> []" using n(2) by (cases lines) simp_all
  ultimately show ?thesis unfolding adds_up_def list_all_iff by blast
qed

lemma valid_invoice_lines: "valid_invoice body = Inr b \<Longrightarrow> 0 < length (iq_lines b) \<and> length (iq_lines b) \<le> 100"
  by (auto simp: valid_invoice_def split: if_splits)

lemma new_lines_of:
  assumes "\<And>l. l \<in> set ls \<Longrightarrow> il_invoice_id l \<noteq> j"
  shows "scalars (\<lambda>l. il_invoice_id l = j) (ls @ map (new_invoice_line env j) xs) = map (new_invoice_line env j) xs"
  using assms by (auto simp: scalars_def new_invoice_line_def filter_empty_conv intro!: filter_True split: prod.splits)

lemma act_amounts:
  assumes act: "invoice_act env db db' q" and inv: "amounts_inv db" and ok: "gst_constraints db'" and y: "y \<in> set (invoices db')"
  shows "adds_up (invoice_lines_of db' (iv_id y)) y"
proof (cases "iv_id y \<in> iv_id ` set (invoices db)")
  case True
  then obtain x where x: "x \<in> set (invoices db)" "iv_id x = iv_id y" by auto
  have db: "gst_constraints db" using inv by (simp add: amounts_inv_def)
  from act_moved [OF act db x(1)] obtain x' where x': "x' \<in> set (invoices db')" "iv_id x' = iv_id x" "x' = x \<or> moved_by env q db x x'" by auto
  have "x' = y" using unique_byD [OF gst_constraintsD(1) [OF ok] x'(1) y] x'(2) x(2) by simp
  then have "y = x \<or> same_document x y" using x'(3) by (auto simp: moved_by_def)
  moreover have "adds_up (invoice_lines_of db (iv_id x)) x" using inv x(1) by (simp add: amounts_inv_def)
  ultimately show ?thesis using act_lines [OF act ok x(1)] x(2) adds_up_same_document by metis
next
  case False
  with act y show ?thesis
  proof cases
    case (create token csrf scope body b db1 v)
    then have core: "invoices db1 = invoices db" "invoice_lines db1 = invoice_lines db" by simp_all
    obtain lines h where
      calc: "list_all2 (\<lambda>x y. line_calculation (same_state (go_enterprise scope) (iq_place_of_supply b)) x = Inr y) (iq_lines b) lines"
      and rows: "invoices db' = invoices db1 @ [drafted env scope b lines]"
        "invoice_lines db' = invoice_lines db1 @ map (new_invoice_line env (iv_id (drafted env scope b lines))) (enumerate 1 lines)"
      by (rule create_invoice_Inr [OF create(5)])
    let ?j = "iv_id (drafted env scope b lines)"
    have yd: "y = drafted env scope b lines" using y False unfolding rows core by auto
    have "?j \<notin> iv_id ` set (invoices db)" using gst_constraintsD(1) [OF ok] unfolding rows core by (rule fresh_invoice)
    then have "il_invoice_id l \<noteq> ?j" if "l \<in> set (invoice_lines db)" for l
      using gst_constraintsD(4) [OF _ that] inv by (auto simp: amounts_inv_def)
    then have ls: "invoice_lines_of db' ?j = map (new_invoice_line env ?j) (enumerate 1 lines)"
      unfolding invoice_lines_of_def rows core by (rule new_lines_of)
    have fits: "list_all line_fits (map (new_invoice_line env ?j) (enumerate 1 lines))" "invoice_fits (drafted env scope b lines)"
      using gst_constraintsD(2,3) [OF ok] by (simp_all add: rows)
    show ?thesis
      unfolding yd ls using drafted_adds_up [OF calc _ _ fits] valid_invoice_lines [OF create(3)] by blast
  next
    case (move token csrf role scope reason r header version action prior target db1 i v)
    then show ?thesis using y act_drafted [OF act y] False by (auto simp: newly_drafted_def)
  qed auto
qed

lemma amounts_step:
  assumes "amounts_inv db"
  shows "amounts_inv (fst (gst_step (env, q) db))"
proof (cases rule: gst_step_cases [of env q db])
  case same
  show ?thesis unfolding same by (rule assms)
next
  case (act db')
  show ?thesis unfolding act(1) amounts_inv_def using act_amounts [OF act(2) assms act(3)] act(3) by blast
qed

interpretation gst_amounts: service gst_step amounts_inv
  by unfold_locales (auto intro: amounts_step simp del: gst_step.simps)

lemma sum_list_zero: "list_all (\<lambda>x. f x = (0::int)) xs \<Longrightarrow> sum_list (map f xs) = 0"
  by (induction xs) auto

lemma line_taxed_split:
  assumes "line_taxed intra l"
  shows "il_total_value l = il_taxable_value l + il_cgst_amount l + il_sgst_amount l + il_igst_amount l"
    "intra \<Longrightarrow> il_igst_amount l = 0" "\<not> intra \<Longrightarrow> il_cgst_amount l = 0" "\<not> intra \<Longrightarrow> il_sgst_amount l = 0"
proof -
  from assms have a: "amounts_of_line l = exact_line (il_quantity l) (il_unit_price l) (il_discount l) (il_gst_rate l) intra"
    by (simp add: line_taxed_def)
  note s = exact_line_split [where q = "il_quantity l" and p = "il_unit_price l" and d = "il_discount l" and r = "il_gst_rate l"
      and intra = intra, folded a, unfolded amounts_of_line_def line_amounts.simps]
  from s show "il_total_value l = il_taxable_value l + il_cgst_amount l + il_sgst_amount l + il_igst_amount l"
    "intra \<Longrightarrow> il_igst_amount l = 0" "\<not> intra \<Longrightarrow> il_cgst_amount l = 0" "\<not> intra \<Longrightarrow> il_sgst_amount l = 0" by simp_all
qed

lemma adds_up_split:
  assumes "adds_up ls i"
  shows "if within_state i then iv_igst_amount i = 0 else iv_cgst_amount i = 0 \<and> iv_sgst_amount i = 0"
    "iv_total_invoice_value i = sum_list (map il_total_value ls)"
proof -
  have taxed: "list_all (line_taxed (within_state i)) ls" using assms by (simp add: adds_up_def)
  show "if within_state i then iv_igst_amount i = 0 else iv_cgst_amount i = 0 \<and> iv_sgst_amount i = 0"
  proof (cases "within_state i")
    case True
    then have "list_all (\<lambda>l. il_igst_amount l = 0) ls" using taxed line_taxed_split(2) by (simp add: list_all_iff)
    then show ?thesis using assms True by (simp add: adds_up_def sum_list_zero)
  next
    case False
    then have "list_all (\<lambda>l. il_cgst_amount l = 0) ls" "list_all (\<lambda>l. il_sgst_amount l = 0) ls"
      using taxed line_taxed_split(3,4) by (simp_all add: list_all_iff)
    then show ?thesis using assms False by (simp add: adds_up_def sum_list_zero)
  qed
  have "sum_list (map il_total_value ls) = sum_list (map (\<lambda>l. il_taxable_value l + il_cgst_amount l + il_sgst_amount l + il_igst_amount l) ls)"
    using taxed line_taxed_split(1) by (intro arg_cong [where f = sum_list] map_cong) (auto simp: list_all_iff)
  then show "iv_total_invoice_value i = sum_list (map il_total_value ls)"
    using assms by (simp add: adds_up_def sum_list_addf)
qed

text \<open>
  C21. The tax of an invoice. From a database whose invoices add up, whatever requests are served,
  every invoice adds up: it has lines, its taxable value and its three taxes are the sums of those
  of its lines, and its total is their sum and that of the lines' totals. The amounts of each line
  are those of unbounded arithmetic, although the program computes with 28 digits: the taxable
  value is the quantity times the price less the discount, rounded to the nearest hundredth with
  ties upwards, never negative, and the tax is the rate of it, rounded in the same way. Within the
  seller's state the tax is split into the two halves and there is no integrated tax, otherwise it
  is all integrated.
\<close>

theorem gst_amounts_exact:
  assumes "gst_constraints db" "list_all (\<lambda>i. adds_up (invoice_lines_of db (iv_id i)) i) (invoices db)"
  shows "list_all (\<lambda>i. adds_up (invoice_lines_of (run gst_step qs db) (iv_id i)) i \<and>
            iv_total_invoice_value i = sum_list (map il_total_value (invoice_lines_of (run gst_step qs db) (iv_id i))) \<and>
            (if within_state i then iv_igst_amount i = 0 else iv_cgst_amount i = 0 \<and> iv_sgst_amount i = 0))
          (invoices (run gst_step qs db))"
proof -
  have "amounts_inv (run gst_step qs db)"
    using gst_amounts.run_inv [of db qs] assms by (simp add: amounts_inv_def list_all_iff)
  then show ?thesis using adds_up_split by (auto simp: amounts_inv_def list_all_iff)
qed

section \<open>The history of an invoice\<close>

definition next_status :: "status_history \<Rightarrow> status_history \<Rightarrow> bool" where
  "next_status h h' \<longleftrightarrow> ih_prior_status h' = Some (ih_new_status h) \<and> ih_version h' = ih_version h + 1 \<and>
     (ih_new_status h, ih_new_status h') \<in> (\<lambda>(s, t, role). (s, t)) ` invoice_moves"

definition explained :: "status_history list \<Rightarrow> invoice \<Rightarrow> bool" where
  "explained hs i \<longleftrightarrow> hs \<noteq> [] \<and> successively next_status hs \<and> ih_new_status (last hs) = iv_status i \<and>
     ih_version (last hs) = iv_version i \<and> ih_actor_id (last hs) = iv_updated_by i \<and>
     (iv_irn i \<noteq> None \<longleftrightarrow> iv_status i \<in> {''REGISTERED'', ''CANCELLED''})"

definition explained_inv :: "gst_db \<Rightarrow> bool" where
  "explained_inv db \<longleftrightarrow> gst_constraints db \<and> (\<forall>i\<in>set (invoices db). explained (history_of db (iv_id i)) i)"

lemma history_snoc:
  assumes "status_histories db' = status_histories db @ [h]"
  shows "history_of db' i = history_of db i @ (if ih_invoice_id h = i then [h] else [])"
  by (simp add: history_of_def scalars_def assms)

lemma explained_snoc:
  assumes "explained hs i" "ih_prior_status h = Some (iv_status i)" "ih_version h = iv_version i + 1"
    and "(iv_status i, ih_new_status h, role) \<in> invoice_moves" "iv_status i' = ih_new_status h" "iv_version i' = ih_version h"
    and "iv_updated_by i' = ih_actor_id h"
    and "if iv_status i' = ''REGISTERED'' then iv_irn i' \<noteq> None else iv_irn i' = iv_irn i"
  shows "explained (hs @ [h]) i'"
proof -
  have "(iv_status i, ih_new_status h) \<in> (\<lambda>(s, t, role). (s, t)) ` invoice_moves" by (rule image_eqI [OF _ assms(4)]) simp
  then have "next_status (last hs) h" using assms(1-3) by (simp add: next_status_def explained_def)
  moreover have "iv_irn i' \<noteq> None \<longleftrightarrow> iv_status i' \<in> {''REGISTERED'', ''CANCELLED''}"
    using assms(1,4,8) unfolding assms(5) explained_def invoice_moves_def by auto
  ultimately show ?thesis using assms(1,5-7) by (simp add: explained_def successively_append_iff)
qed

lemma act_explained:
  assumes act: "invoice_act env db db' q" and inv: "explained_inv db" and ok: "gst_constraints db'" and y: "y \<in> set (invoices db')"
  shows "explained (history_of db' (iv_id y)) y"
  using act
proof cases
  case idle
  then show ?thesis using inv y by (simp add: explained_inv_def history_of_def)
next
  case (create token csrf scope body b db1 v)
  then have core: "invoices db1 = invoices db" "status_histories db1 = status_histories db" by simp_all
  obtain lines h where rows: "invoices db' = invoices db1 @ [drafted env scope b lines]"
    and h: "status_histories db' = status_histories db1 @ [h]" "ih_invoice_id h = uuid_str (gnv_uuid env 0)"
      "ih_new_status h = ''DRAFT''" "ih_version h = 1" "ih_actor_id h = gu_id (go_user scope)"
    by (rule create_invoice_Inr [OF create(5)])
  have i: "iv_id (drafted env scope b lines) = ih_invoice_id h" "iv_status (drafted env scope b lines) = ''DRAFT''"
    "iv_version (drafted env scope b lines) = 1" "iv_updated_by (drafted env scope b lines) = gu_id (go_user scope)"
    "iv_irn (drafted env scope b lines) = None"
    by (simp_all add: drafted_def new_invoice_def Let_def h(2))
  have "history_of db1 j = history_of db j" for j by (simp add: history_of_def core)
  then have hist: "history_of db' j = history_of db j @ (if ih_invoice_id h = j then [h] else [])" for j by (simp add: history_snoc [OF h(1)])
  have fresh: "ih_invoice_id h \<notin> iv_id ` set (invoices db)"
    using gst_constraintsD(1) [OF ok] fresh_invoice unfolding rows core i(1) [symmetric] by blast
  have "ih_invoice_id h' \<noteq> ih_invoice_id h" if "h' \<in> set (status_histories db)" for h'
    using gst_constraintsD(5) [OF _ that] inv fresh by (auto simp: explained_inv_def)
  then have "history_of db (ih_invoice_id h) = []" by (simp add: history_of_def scalars_def filter_empty_conv)
  then have "explained (history_of db' (ih_invoice_id h)) (drafted env scope b lines)"
    by (simp add: hist explained_def h(3-5) i)
  moreover have "history_of db' (iv_id x) = history_of db (iv_id x)" if "x \<in> set (invoices db)" for x
    using fresh that by (auto simp: hist)
  ultimately show ?thesis using y inv by (auto simp: rows core explained_inv_def i(1))
next
  case (move token csrf role scope reason r header version action prior target db1 i v)
  then have core: "invoices db1 = invoices db" "status_histories db1 = status_histories db" by simp_all
  obtain x t role' h where x: "x \<in> set (invoices db1)" "iv_id x = i" "owned_by (go_enterprise scope) x" "iv_version x = version"
      "invoice_transition action = Some (iv_status x, t, role')"
    and db': "invoices db' = update_rows (\<lambda>y. iv_id y = iv_id x)
       (\<lambda>_. (moved env scope (invoice_lines_of db1 (iv_id x)) action t r x)\<lparr>iv_updated_at := gnv_now env\<rparr>) (invoices db1)"
    and h: "status_histories db' = status_histories db1 @ [h]" "ih_invoice_id h = iv_id x" "ih_prior_status h = Some (iv_status x)"
      "ih_new_status h = t" "ih_version h = iv_version x + 1" "ih_actor_id h = gu_id (go_user scope)"
    by (rule transition_invoice_Inr [OF move(7)])
  let ?n = "(moved env scope (invoice_lines_of db1 (iv_id x)) action t r x)\<lparr>iv_updated_at := gnv_now env\<rparr>"
  have "history_of db1 j = history_of db j" for j by (simp add: history_of_def core)
  then have hist: "history_of db' j = history_of db j @ (if iv_id x = j then [h] else [])" for j
    by (simp add: history_snoc [OF h(1)] h(2))
  have "explained (history_of db (iv_id x) @ [h]) ?n"
  proof (rule explained_snoc)
    show "explained (history_of db (iv_id x)) x" using inv x(1) by (simp add: explained_inv_def core)
    show "(iv_status x, ih_new_status h, role') \<in> invoice_moves" using transition_moves [OF x(5)] h(4) by simp
    show "if iv_status ?n = ''REGISTERED'' then iv_irn ?n \<noteq> None else iv_irn ?n = iv_irn x"
      using moved_irn [OF x(5), of "gnv_now env" env scope "invoice_lines_of db1 (iv_id x)" r x] by (simp add: Let_def moved_fields split: if_splits)
  qed (simp_all add: h moved_fields)
  then show ?thesis using y inv by (auto simp: db' core hist set_update_rows explained_inv_def moved_fields split: if_splits)
qed

lemma explained_step:
  assumes "explained_inv db"
  shows "explained_inv (fst (gst_step (env, q) db))"
proof (cases rule: gst_step_cases [of env q db])
  case same
  show ?thesis unfolding same by (rule assms)
next
  case (act db')
  show ?thesis unfolding act(1) explained_inv_def using act_explained [OF act(2) assms act(3)] act(3) by blast
qed

interpretation gst_history: service gst_step explained_inv
  by unfold_locales (auto intro: explained_step simp del: gst_step.simps)

text \<open>
  C26. The history of an invoice explains its status. From a database in which this holds, whatever
  requests are served, every invoice has a history; each entry names the status of the entry
  before it, is a step of the lifecycle from there and has the next version; the last entry has
  the invoice's status and version and the member who made it; and an invoice has a reference
  number exactly when it is registered or was cancelled after its registration. Reference numbers
  are unique, and so are invoice numbers of an enterprise within a financial year.
\<close>

theorem gst_history_explains:
  assumes "gst_constraints db" "list_all (\<lambda>i. explained (history_of db (iv_id i)) i) (invoices db)"
  shows "list_all (\<lambda>i. explained (history_of (run gst_step qs db) (iv_id i)) i) (invoices (run gst_step qs db)) \<and>
         unique_by iv_irn (invoices (run gst_step qs db)) \<and>
         unique_by (\<lambda>i. Some (iv_enterprise_id i, iv_financial_year i, iv_invoice_number i)) (invoices (run gst_step qs db))"
proof -
  have "explained_inv (run gst_step qs db)"
    using gst_history.run_inv [of db qs] assms by (simp add: explained_inv_def list_all_iff)
  then show ?thesis by (simp add: explained_inv_def list_all_iff gst_constraints_def)
qed

end
