(* ===== verification/GstSeed.thy ===== *)
theory GstSeed
  imports GstApp
begin

text \<open>
  The demonstration data of the GST portal (seed.py): a reviewer, and for each of three enterprises
  an operator, the two memberships, the taxpayer, a classification, three invoices with their lines
  and history, a return summary and an audit entry. \<open>gst_stable_id\<close> tabulates the values of
  \<open>uuid5\<close> for the names the seed uses; dates are day numbers. The random salt and the setting's
  password are inputs.
\<close>

definition gst_stable_ids :: "(string \<times> string) list" where
  "gst_stable_ids =
     [(''user-reviewer'', ''3edc8a49-793c-532e-966b-d9dcc95ddd38''),
      (''user-micro'', ''4a7f8783-1e5b-5f10-92f6-3371506ae2db''),
      (''membership-micro-operator'', ''25fbc50b-4a97-5476-878f-87c7ee9263b7''),
      (''membership-micro-reviewer'', ''a0c6a5cd-431f-5eab-aa67-0decdaf0498f''),
      (''taxpayer-micro'', ''79a0f64b-7ddd-58cb-9c67-4305dc872c6b''),
      (''classification-micro-2025-26'', ''c40e7309-5088-5c44-bce6-31321171ebb4''),
      (''invoice-micro-101'', ''ace6928b-1c25-54b7-9039-6d92606d548c''),
      (''line-micro-101-1'', ''bfa432c4-ec6a-530a-9eef-f43d0e9b5433''),
      (''history-micro-101-REGISTERED'', ''4027c3ee-3dc9-5744-9e83-c82a823fd33f''),
      (''invoice-micro-102'', ''5a7ee9b1-72c0-589c-8597-1107a45a12e9''),
      (''line-micro-102-1'', ''094dfbfc-86ac-5993-98e5-857e71df439a''),
      (''history-micro-102-SUBMITTED'', ''b11cd029-e279-5e60-b90d-2db812fc1cc0''),
      (''invoice-micro-103'', ''e49a51dc-e507-52e3-96a4-0637bc4356b9''),
      (''line-micro-103-1'', ''4ca28e41-49bf-5e6b-b04d-10016c330e4d''),
      (''history-micro-103-DRAFT'', ''409a406a-f65c-59d4-97b6-6dee6690826e''),
      (''return-micro-2026-08'', ''09da54c0-1cc8-54c4-8dbf-f823d4323167''),
      (''audit-seed-micro'', ''1ceb2797-7138-53d8-976e-b77a3334b82f''),
      (''user-small'', ''44c6556d-bd25-5509-bd3a-f3fc33df7c3b''),
      (''membership-small-operator'', ''8c68a42c-330e-5fb9-a75f-b6e3ddd4411a''),
      (''membership-small-reviewer'', ''1fd793b5-d352-5d38-ad8d-3b098e468a31''),
      (''taxpayer-small'', ''d8d92f8a-e307-583d-a5a4-477337350b1d''),
      (''classification-small-2025-26'', ''a2c92c3b-389f-53a6-83ff-9a9304557d6c''),
      (''invoice-small-201'', ''d7815944-b1c0-5239-a731-908c9b68edcf''),
      (''line-small-201-1'', ''3b203ec4-9a86-5bad-8e71-e1622466e996''),
      (''history-small-201-REGISTERED'', ''e0b7a411-0044-5d86-b62f-d13f5f899a11''),
      (''invoice-small-202'', ''618f38dc-a9a0-5cc1-867d-51a6da14b3bf''),
      (''line-small-202-1'', ''9d2f4caf-25b7-57d0-968b-164ea90f27f6''),
      (''history-small-202-SUBMITTED'', ''446de56d-9292-580f-8e3b-52ebe0daf738''),
      (''invoice-small-203'', ''04996343-52b3-5cce-b089-80d3f5edb357''),
      (''line-small-203-1'', ''37e5e5b5-e356-5d59-a46a-5a544a95d3a4''),
      (''history-small-203-DRAFT'', ''ad093da5-cdef-55b4-b861-69e40805bcc1''),
      (''return-small-2026-08'', ''59ac3f35-5766-5de1-9be8-9b2aa889a89c''),
      (''audit-seed-small'', ''ca929481-e1f3-5113-b4cb-4fec00ffff03''),
      (''user-medium'', ''3c9359c6-648c-5eee-9acf-25b8f092dde4''),
      (''membership-medium-operator'', ''6e038c44-5d37-5e8d-a701-d7a2d5bb2fdf''),
      (''membership-medium-reviewer'', ''4cf2baa9-9f17-5599-bc63-0a90205b1d85''),
      (''taxpayer-medium'', ''cd8ad9d0-a6b9-5da6-bcbe-90a872e55fec''),
      (''classification-medium-2025-26'', ''e39b0e5c-3ab5-55f3-8fba-4f8041326deb''),
      (''invoice-medium-301'', ''a61525c0-dcc7-5f33-8907-d1eeda23dcf6''),
      (''line-medium-301-1'', ''1eb215fb-1f4f-5d2e-9a68-a1ea7bf7aac4''),
      (''history-medium-301-REGISTERED'', ''3ae738cd-6d10-51ed-bc13-54178d446c53''),
      (''invoice-medium-302'', ''efe7b6d3-df66-58a8-b102-32e43fc4bf9a''),
      (''line-medium-302-1'', ''4e7785fd-ed95-553d-bbf6-0fc5141f32e3''),
      (''history-medium-302-SUBMITTED'', ''67b7123f-eaca-5b59-b9ac-424e9c2bb1d9''),
      (''invoice-medium-303'', ''4059afec-0786-5717-9710-2084516c85ec''),
      (''line-medium-303-1'', ''64f65e41-5dbb-53a3-ad3a-336a8607fc57''),
      (''history-medium-303-DRAFT'', ''a81c6057-b485-5b1b-b5c9-865cca62131c''),
      (''return-medium-2026-08'', ''dbec903c-91dd-5ea2-910e-f5f8c772fd7d''),
      (''audit-seed-medium'', ''264c7dbb-9e63-5d3c-acf3-8be04b9cf4cd'')]"

definition gst_stable_id :: "string \<Rightarrow> string" where
  "gst_stable_id name = (case map_of gst_stable_ids name of None \<Rightarrow> [] | Some i \<Rightarrow> i)"

record enterprise_fixture =
  ef_slug :: string
  ef_tenant_id :: string
  ef_enterprise_id :: string
  ef_business_id :: string
  ef_legal_name :: string
  ef_trade_name :: string
  ef_gstin :: string
  ef_state_code :: string
  ef_classification :: string
  ef_investment :: int
  ef_turnover :: int
  ef_city :: string

definition enterprise_fixtures :: "enterprise_fixture list" where
  "enterprise_fixtures =
     [\<lparr>ef_slug = ''micro'', ef_tenant_id = ''00000000-0000-4000-8000-000000001101'', ef_enterprise_id = ''00000000-0000-4000-8000-000000001201'', ef_business_id = ''biz_gst_micro_01'', ef_legal_name = ''Kaveri Precision Components Private Limited'', ef_trade_name = ''Kaveri Precision'', ef_gstin = ''29ABCDE1234F1Z5'', ef_state_code = ''29'', ef_classification = ''MICRO'', ef_investment = 1200000000, ef_turnover = 3400000000, ef_city = ''Bengaluru''\<rparr>,
      \<lparr>ef_slug = ''small'', ef_tenant_id = ''00000000-0000-4000-8000-000000001102'', ef_enterprise_id = ''00000000-0000-4000-8000-000000001202'', ef_business_id = ''biz_gst_small_01'', ef_legal_name = ''Western Loomworks Private Limited'', ef_trade_name = ''Western Loomworks'', ef_gstin = ''27PQRSX5678L1Z2'', ef_state_code = ''27'', ef_classification = ''SMALL'', ef_investment = 12000000000, ef_turnover = 42000000000, ef_city = ''Pune''\<rparr>,
      \<lparr>ef_slug = ''medium'', ef_tenant_id = ''00000000-0000-4000-8000-000000001103'', ef_enterprise_id = ''00000000-0000-4000-8000-000000001203'', ef_business_id = ''biz_gst_medium_01'', ef_legal_name = ''Northline Industrial Systems Limited'', ef_trade_name = ''Northline Systems'', ef_gstin = ''07LMNOP9012Q1Z7'', ef_state_code = ''07'', ef_classification = ''MEDIUM'', ef_investment = 60000000000, ef_turnover = 220000000000, ef_city = ''New Delhi''\<rparr>]"

definition fixture_enterprise :: "time \<Rightarrow> enterprise_fixture \<Rightarrow> enterprise" where
  "fixture_enterprise now f =
     \<lparr>et_id = ef_enterprise_id f, et_tenant_id = ef_tenant_id f, et_business_id = ef_business_id f, et_legal_name = ef_legal_name f,
      et_trade_name = ef_trade_name f, et_primary_gstin = ef_gstin f, et_declared_classification = ef_classification f,
      et_calculated_classification = ef_classification f, et_effective_classification = ef_classification f,
      et_classification_provenance = ''UDYAM_TEST_FIXTURE'', et_classification_as_of = 20543, et_status = ''ACTIVE'', et_version = 1,
      et_created_at = now, et_updated_at = now\<rparr>"

definition seeded_gst_user :: "time \<Rightarrow> string \<Rightarrow> string \<Rightarrow> string \<Rightarrow> string \<Rightarrow> gst_user" where
  "seeded_gst_user now name email display_name password_hash =
     \<lparr>gu_id = gst_stable_id name, gu_email = email, gu_display_name = display_name, gu_password_hash = password_hash,
      gu_status = ''ACTIVE'', gu_last_login_at = None, gu_created_at = now\<rparr>"

definition fixture_operator :: "time \<Rightarrow> string \<Rightarrow> enterprise_fixture \<Rightarrow> gst_user" where
  "fixture_operator now password_hash f =
     seeded_gst_user now (''user-'' @ ef_slug f) (ef_slug f @ ''.operator@gst.demo.xyena.test'') (ef_trade_name f @ '' Operator'') password_hash"

definition seeded_reviewer :: "time \<Rightarrow> string \<Rightarrow> gst_user" where
  "seeded_reviewer now password_hash = seeded_gst_user now ''user-reviewer'' ''gst.reviewer@gst.demo.xyena.test'' ''Meera Iyer'' password_hash"

definition fixture_membership :: "enterprise_fixture \<Rightarrow> string \<Rightarrow> string \<Rightarrow> string \<Rightarrow> enterprise_membership" where
  "fixture_membership f suffix user_id role =
     \<lparr>mb_id = gst_stable_id (''membership-'' @ ef_slug f @ suffix), mb_user_id = user_id, mb_enterprise_id = ef_enterprise_id f,
      mb_tenant_id = ef_tenant_id f, mb_roles = [''GST_VIEWER'', role], mb_status = ''ACTIVE''\<rparr>"

definition fixture_taxpayer :: "time \<Rightarrow> nat \<Rightarrow> enterprise_fixture \<Rightarrow> taxpayer" where
  "fixture_taxpayer now position f =
     \<lparr>tx_id = gst_stable_id (''taxpayer-'' @ ef_slug f), tx_tenant_id = ef_tenant_id f, tx_enterprise_id = ef_enterprise_id f,
      tx_gstin = ef_gstin f, tx_legal_name = ef_legal_name f, tx_trade_name = ef_trade_name f, tx_taxpayer_type = ''REGULAR'',
      tx_registration_status = ''ACTIVE'', tx_registration_date = 18718 + int position * 90, tx_state_code = ef_state_code f,
      tx_registered_address = [(''line1'', nat_str (12 + position) @ '', Industrial Estate''), (''city'', ef_city f),
        (''postal_code'', ''5600'' @ nat_str position @ ''0'')],
      tx_risk_flags = [], tx_version = 1, tx_updated_at = now\<rparr>"

definition fixture_snapshot :: "time \<Rightarrow> enterprise_fixture \<Rightarrow> classification_snapshot" where
  "fixture_snapshot now f =
     \<lparr>cs_id = gst_stable_id (''classification-'' @ ef_slug f @ ''-2025-26''), cs_tenant_id = ef_tenant_id f,
      cs_enterprise_id = ef_enterprise_id f, cs_financial_year = ''2025-26'', cs_investment_amount = ef_investment f,
      cs_annual_turnover = ef_turnover f, cs_declared_classification = ef_classification f,
      cs_calculated_classification = ef_classification f, cs_effective_classification = ef_classification f,
      cs_source_type = ''UDYAM_TEST_FIXTURE'', cs_source_reference = ''udyam_demo_'' @ ef_slug f @ ''_2025'',
      cs_source_hash = registry_hash (JObj [(''enterprise_id'', JStr (ef_enterprise_id f)), (''financial_year'', JStr ''2025-26''),
        (''investment'', JStr (units_str 2 (ef_investment f))), (''turnover'', JStr (units_str 2 (ef_turnover f))),
        (''classification'', JStr (ef_classification f))]),
      cs_threshold_policy_version = threshold_version, cs_verification_status = ''VERIFIED'', cs_effective_from = 20179,
      cs_effective_to = None, cs_created_at = now\<rparr>"

text \<open>The states, the ages in days, the buyers, the quantities and the prices of the three invoices of an enterprise.\<close>

record invoice_fixture =
  xi_suffix :: string
  xi_status :: string
  xi_days_ago :: int
  xi_buyer_name :: string
  xi_buyer_gstin :: string
  xi_quantity :: int
  xi_unit_price :: int

definition invoice_fixtures :: "nat \<Rightarrow> invoice_fixture list" where
  "invoice_fixtures position =
     [\<lparr>xi_suffix = nat_str position @ ''01'', xi_status = ''REGISTERED'', xi_days_ago = 12 + int position,
       xi_buyer_name = ''Bluepeak Retail Networks Limited'', xi_buyer_gstin = ''29BUYER1234A1Z8'', xi_quantity = 25000, xi_unit_price = 1850000\<rparr>,
      \<lparr>xi_suffix = nat_str position @ ''02'', xi_status = ''SUBMITTED'', xi_days_ago = 4 + int position,
       xi_buyer_name = ''Meridian Procurement Services'', xi_buyer_gstin = ''27BUYER5678B1Z6'', xi_quantity = 12000, xi_unit_price = 2400000\<rparr>,
      \<lparr>xi_suffix = nat_str position @ ''03'', xi_status = ''DRAFT'', xi_days_ago = int position,
       xi_buyer_name = ''Cedar Works India Private Limited'', xi_buyer_gstin = ''07BUYER9012C1Z4'', xi_quantity = 8000, xi_unit_price = 3125000\<rparr>]"

definition fixture_amounts :: "enterprise_fixture \<Rightarrow> invoice_fixture \<Rightarrow> gst_error + line_amounts" where
  "fixture_amounts f x = calculate_line (xi_quantity x) (xi_unit_price x) 0 1800 (ef_state_code f = take 2 (xi_buyer_gstin x))"

definition fixture_invoice :: "time \<Rightarrow> string \<Rightarrow> enterprise_fixture \<Rightarrow> invoice_fixture \<Rightarrow> line_amounts \<Rightarrow> invoice" where
  "fixture_invoice now actor_id f x a =
     (let number = py_upper (ef_slug f) @ ''/26/'' @ xi_suffix x; day = now div days 1 - xi_days_ago x;
          registered = (xi_status x = ''REGISTERED'');
          body = JObj [(''invoice_number'', JStr number), (''seller_gstin'', JStr (ef_gstin f)), (''buyer_gstin'', JStr (xi_buyer_gstin x)),
            (''total'', JStr (units_str 2 (am_total_value a)))]
      in \<lparr>iv_id = gst_stable_id (''invoice-'' @ ef_slug f @ ''-'' @ xi_suffix x), iv_tenant_id = ef_tenant_id f,
          iv_enterprise_id = ef_enterprise_id f, iv_invoice_number = number, iv_invoice_type = ''B2B'', iv_invoice_date = day,
          iv_financial_year = financial_year day, iv_seller_gstin = ef_gstin f, iv_buyer_gstin = xi_buyer_gstin x,
          iv_buyer_name = xi_buyer_name x, iv_purchase_order_id = Some (''PO-DEMO-'' @ xi_suffix x), iv_currency = ''INR'',
          iv_place_of_supply = take 2 (xi_buyer_gstin x), iv_taxable_value = am_taxable_value a, iv_cgst_amount = am_cgst_amount a,
          iv_sgst_amount = am_sgst_amount a, iv_igst_amount = am_igst_amount a, iv_cess_amount = 0,
          iv_total_invoice_value = am_total_value a, iv_status = xi_status x,
          iv_irn = (if registered then Some (''IRNDEMO'' @ py_upper (take 24 (registry_hash body))) else None),
          iv_ack_number = (if registered then Some (''ACK26'' @ xi_suffix x @ ''001'') else None),
          iv_ack_date = (if registered then Some (now - days (xi_days_ago x - 1)) else None), iv_cancellation_reason = None,
          iv_source_document_hash = (if xi_status x \<in> {''SUBMITTED'', ''REGISTERED'', ''REJECTED'', ''CANCELLED''}
            then Some (registry_hash body) else None),
          iv_security_flags = [], iv_version = (if registered then 3 else if xi_status x = ''SUBMITTED'' then 2 else 1),
          iv_created_by = actor_id, iv_updated_by = actor_id, iv_created_at = now, iv_updated_at = now\<rparr>)"

definition fixture_line :: "enterprise_fixture \<Rightarrow> invoice_fixture \<Rightarrow> line_amounts \<Rightarrow> invoice_line" where
  "fixture_line f x a =
     \<lparr>il_id = gst_stable_id (''line-'' @ ef_slug f @ ''-'' @ xi_suffix x @ ''-1''),
      il_invoice_id = gst_stable_id (''invoice-'' @ ef_slug f @ ''-'' @ xi_suffix x), il_line_number = 1,
      il_description = ''Synthetic industrial goods'', il_hsn_sac = ''847990'', il_quantity = xi_quantity x, il_unit = ''NOS'',
      il_unit_price = xi_unit_price x, il_discount = 0, il_taxable_value = am_taxable_value a, il_gst_rate = 1800,
      il_cgst_amount = am_cgst_amount a, il_sgst_amount = am_sgst_amount a, il_igst_amount = am_igst_amount a,
      il_total_value = am_total_value a\<rparr>"

definition fixture_history :: "time \<Rightarrow> string \<Rightarrow> enterprise_fixture \<Rightarrow> invoice_fixture \<Rightarrow> invoice \<Rightarrow> status_history" where
  "fixture_history now actor_id f x i =
     \<lparr>ih_id = gst_stable_id (''history-'' @ ef_slug f @ ''-'' @ xi_suffix x @ ''-'' @ xi_status x), ih_invoice_id = iv_id i,
      ih_tenant_id = ef_tenant_id f, ih_prior_status = None, ih_new_status = xi_status x, ih_reason = Some ''Synthetic seed state'',
      ih_actor_id = actor_id, ih_version = iv_version i, ih_occurred_at = now\<rparr>"

definition seed_invoice :: "time \<Rightarrow> string \<Rightarrow> enterprise_fixture \<Rightarrow> invoice_fixture \<Rightarrow> invoice gst_op" where
  "seed_invoice now actor_id f x db =
     sum_bind (fixture_amounts f x) (\<lambda>a.
       let i = fixture_invoice now actor_id f x a
       in Inr (db\<lparr>invoices := invoices db @ [i], invoice_lines := invoice_lines db @ [fixture_line f x a],
                 status_histories := status_histories db @ [fixture_history now actor_id f x i]\<rparr>, i))"

fun seed_invoices :: "time \<Rightarrow> string \<Rightarrow> enterprise_fixture \<Rightarrow> invoice_fixture list \<Rightarrow> invoice list gst_op" where
  "seed_invoices now actor_id f [] db = Inr (db, [])"
| "seed_invoices now actor_id f (x # xs) db =
     sum_bind (seed_invoice now actor_id f x db) (\<lambda>(db1, i). sum_bind (seed_invoices now actor_id f xs db1) (\<lambda>(db2, rows). Inr (db2, i # rows)))"

definition fixture_return :: "time \<Rightarrow> enterprise_fixture \<Rightarrow> invoice \<Rightarrow> return_summary" where
  "fixture_return now f i =
     \<lparr>rt_id = gst_stable_id (''return-'' @ ef_slug f @ ''-2026-08''), rt_tenant_id = ef_tenant_id f, rt_enterprise_id = ef_enterprise_id f,
      rt_gstin = ef_gstin f, rt_period = ''2026-08'', rt_return_type = ''GSTR1_DEMO'', rt_version = 1, rt_status = ''GENERATED'',
      rt_turnover = iv_taxable_value i, rt_tax_total = iv_cgst_amount i + iv_sgst_amount i + iv_igst_amount i, rt_invoice_count = 1,
      rt_source_hash = registry_hash (JObj [(''invoice_id'', JStr (iv_id i)), (''version'', JInt (iv_version i))]), rt_updated_at = now\<rparr>"

definition fixture_audit :: "time \<Rightarrow> enterprise_fixture \<Rightarrow> gst_audit" where
  "fixture_audit now f =
     \<lparr>ga_id = gst_stable_id (''audit-seed-'' @ ef_slug f), ga_tenant_id = ef_tenant_id f, ga_aggregate_type = ''ENTERPRISE'',
      ga_aggregate_id = ef_enterprise_id f, ga_aggregate_version = 1, ga_event_type = ''demo.enterprise_seeded'',
      ga_actor_type = ''SYSTEM'', ga_actor_id = ''gst-demo-seeder'', ga_reason = Some ''Versioned synthetic GST portal seed'',
      ga_metadata = [(''fixture'', JStr (ef_slug f))], ga_occurred_at = now\<rparr>"

definition seed_enterprise :: "time \<Rightarrow> string \<Rightarrow> nat \<times> enterprise_fixture \<Rightarrow> unit gst_op" where
  "seed_enterprise now password_hash pf db =
     (case pf of (position, f) \<Rightarrow>
        let operator = fixture_operator now password_hash f;
            db1 = db\<lparr>enterprises := enterprises db @ [fixture_enterprise now f], gst_users := gst_users db @ [operator],
              memberships := memberships db @ [fixture_membership f ''-operator'' (gu_id operator) ''GST_OPERATOR'',
                fixture_membership f ''-reviewer'' (gst_stable_id ''user-reviewer'') ''GST_REVIEWER''],
              taxpayers := taxpayers db @ [fixture_taxpayer now position f], classifications := classifications db @ [fixture_snapshot now f]\<rparr>
        in sum_bind (seed_invoices now (gu_id operator) f (invoice_fixtures position) db1) (\<lambda>(db2, rows).
             Inr (db2\<lparr>return_summaries := return_summaries db2 @ [fixture_return now f (hd rows)],
                      gst_audits := gst_audits db2 @ [fixture_audit now f]\<rparr>, ())))"

fun seed_enterprises :: "time \<Rightarrow> string \<Rightarrow> (nat \<times> enterprise_fixture) list \<Rightarrow> unit gst_op" where
  "seed_enterprises now password_hash [] db = Inr (db, ())"
| "seed_enterprises now password_hash (pf # pfs) db =
     sum_bind (seed_enterprise now password_hash pf db) (\<lambda>(db1, u). seed_enterprises now password_hash pfs db1)"

definition seeded_user_ids :: "string list" where
  "seeded_user_ids = map gst_stable_id (''user-reviewer'' # map (\<lambda>f. ''user-'' @ ef_slug f) enterprise_fixtures)"

text \<open>\<open>seed_demo_data\<close>: on a seeded database it only resets the passwords of the seeded users.\<close>

definition seed_gst :: "time \<Rightarrow> string \<Rightarrow> nat list \<Rightarrow> unit gst_op" where
  "seed_gst now password salt db =
     (let password_hash = hash_password salt password [] in
      if \<exists>e\<in>set (enterprises db). et_id e = ''00000000-0000-4000-8000-000000001201''
      then Inr (db\<lparr>gst_users := update_rows (\<lambda>u. gu_id u \<in> set seeded_user_ids) (\<lambda>u. u\<lparr>gu_password_hash := password_hash\<rparr>) (gst_users db)\<rparr>, ())
      else seed_enterprises now password_hash (enumerate 1 enterprise_fixtures)
             (db\<lparr>gst_users := gst_users db @ [seeded_reviewer now password_hash]\<rparr>))"

definition empty_gst :: gst_db where
  "empty_gst = \<lparr>gst_users = [], enterprises = [], memberships = [], gst_sessions = [], taxpayers = [], classifications = [], invoices = [],
     invoice_lines = [], status_histories = [], return_summaries = [], gst_audits = [], gst_outboxes = []\<rparr>"

end
