(* ===== verification/GstDemo.thy ===== *)
theory GstDemo
  imports GstProperties GstSeed
begin

text \<open>
  Demonstrations on the seeded users and the seeded submitted invoice of the first enterprise: the
  reviewer registers it, and the operator creates an invoice whose amounts are rounded ties. The
  digests and the printed answers are left unevaluated.
\<close>

definition tdemo_fixture :: enterprise_fixture where
  "tdemo_fixture = hd enterprise_fixtures"

definition tdemo_sold :: invoice_fixture where
  "tdemo_sold = invoice_fixtures 1 ! 1"

definition tdemo_session :: "string \<Rightarrow> gst_session_row" where
  "tdemo_session user =
     \<lparr>gs_id = ''s1'', gs_token_hash = hash_token ''cookie'', gs_csrf_hash = hash_token ''form'', gs_user_id = gst_stable_id user,
      gs_enterprise_id = ef_enterprise_id tdemo_fixture, gs_expires_at = days 30000, gs_created_at = 0, gs_last_seen_at = 0\<rparr>"

definition tdemo_amounts :: line_amounts where
  "tdemo_amounts = \<lparr>am_taxable_value = 28800000, am_cgst_amount = 0, am_sgst_amount = 0, am_igst_amount = 5184000, am_total_value = 33984000\<rparr>"

definition tdemo_start :: "string \<Rightarrow> gst_db" where
  "tdemo_start user =
     (let now = days 20600; operator = fixture_operator now [] tdemo_fixture;
          i = fixture_invoice now (gu_id operator) tdemo_fixture tdemo_sold tdemo_amounts
      in empty_gst
        \<lparr>gst_users := [seeded_reviewer now [], operator], enterprises := [fixture_enterprise now tdemo_fixture],
         memberships := [fixture_membership tdemo_fixture ''-operator'' (gu_id operator) ''GST_OPERATOR'',
           fixture_membership tdemo_fixture ''-reviewer'' (gst_stable_id ''user-reviewer'') ''GST_REVIEWER''],
         gst_sessions := [tdemo_session user],
         invoices := [i], invoice_lines := [fixture_line tdemo_fixture tdemo_sold tdemo_amounts],
         status_histories := [fixture_history now (gu_id operator) tdemo_fixture tdemo_sold i]\<rparr>)"

definition tdemo_env :: "char \<Rightarrow> gst_env" where
  "tdemo_env c = \<lparr>gnv_now = days 20601, gnv_uuid = (\<lambda>k. c # replicate k CHR ''0''), gnv_session_token = ''raw'', gnv_csrf_token = ''new'',
     gnv_salt = [1], gnv_ack = 42, gnv_mcp_token = ''mcp''\<rparr>"

definition tdemo_id :: string where
  "tdemo_id = gst_stable_id ''invoice-micro-102''"

definition tdemo_register :: gst_request where
  "tdemo_register = GstRoute (Some ''cookie'') (Some ''form'') (TransitionInvoice tdemo_id ''register'' None (Some ''2''))"

definition tdemo_line :: line_create where
  "tdemo_line = \<lparr>lc_description = ''Bearing'', lc_hsn_sac = ''8482'', lc_quantity = Finite False 25 (-1), lc_unit = ''NOS'',
     lc_unit_price = Finite False 9999 (-2), lc_discount = Finite False 1 (-2), lc_gst_rate = Finite False 18 0\<rparr>"

definition tdemo_body :: invoice_create where
  "tdemo_body =
     \<lparr>iq_invoice_number = ''MICRO/26/104'', iq_invoice_type = ''B2B'', iq_invoice_date = 20601, iq_buyer_gstin = ''29BUYER1234A1Z8'',
      iq_buyer_name = ''Bluepeak Retail'', iq_purchase_order_id = None, iq_place_of_supply = ''29'', iq_lines = [tdemo_line, tdemo_line]\<rparr>"

definition tdemo_create :: gst_request where
  "tdemo_create = GstRoute (Some ''cookie'') (Some ''form'') (CreateInvoice tdemo_body)"

definition tdemo_registered :: gst_db where
  "tdemo_registered = run gst_step [(tdemo_env CHR ''r'', tdemo_register)] (tdemo_start ''user-reviewer'')"

definition tdemo_created :: gst_db where
  "tdemo_created = run gst_step [(tdemo_env CHR ''c'', tdemo_create)] (tdemo_start ''user-micro'')"

lemma tdemo_years: "financial_year 20595 = ''2026-27''" "financial_year 20601 = ''2026-27''"
proof -
  have civil: "civil_of_days 20595 = (2026, 5, 22)" "civil_of_days 20601 = (2026, 5, 28)" by code_simp+
  have years: "nat 2026 = 2026" "nat (2026 + 1) = 2027" "((4::int) \<le> 5) = True" by simp_all
  have str: "nat_str 2026 = ''2026''" "nat_str 2027 = ''2027''" by (simp_all add: nat_str_eval)
  have year: "''2026'' @ ''-'' @ drop (length ''2027'' - 2) ''2027'' = ''2026-27''" by code_simp
  show "financial_year 20595 = ''2026-27''" "financial_year 20601 = ''2026-27''"
    unfolding financial_year_def civil prod.case Let_def if_True years str by (fact year)+
qed

definition tdemo_other_year :: "int \<Rightarrow> string" where
  "tdemo_other_year = financial_year"

declare financial_year_def [code del]
declare tdemo_other_year_def [code del]

text \<open>The financial years of the demonstration, tabulated.\<close>

lemma tdemo_year_table [code]: "financial_year d = (if d = 20595 \<or> d = 20601 then ''2026-27'' else tdemo_other_year d)"
  by (auto simp: tdemo_years tdemo_other_year_def)

declare registry_hash_def [code del]
declare hash_token_def [code del]
declare ack_number_def [code del]
declare units_str_def [code del]
declare invoice_projection_def [code del]
declare gst_session_view_def [code del]

lemma tdemo_amounts_calculated: "fixture_amounts tdemo_fixture tdemo_sold = Inr tdemo_amounts"
  by code_simp

lemma tdemo_constraints: "gst_constraints (tdemo_start ''user-reviewer'')" "gst_constraints (tdemo_start ''user-micro'')"
  by code_simp+

lemma tdemo_adds_up:
  "list_all (\<lambda>i. adds_up (invoice_lines_of (tdemo_start ''user-micro'') (iv_id i)) i) (invoices (tdemo_start ''user-micro''))"
  by code_simp

lemma tdemo_explained:
  "list_all (\<lambda>i. explained (history_of (tdemo_start ''user-reviewer'') (iv_id i)) i) (invoices (tdemo_start ''user-reviewer''))"
  by code_simp

lemma tdemo_before:
  "map (\<lambda>i. (iv_id i, iv_status i, iv_version i)) (invoices (tdemo_start ''user-reviewer'')) = [(tdemo_id, ''SUBMITTED'', 2)]"
  by code_simp

lemma tdemo_registered_row:
  "map (\<lambda>i. (iv_id i, iv_status i, iv_version i)) (invoices tdemo_registered) = [(tdemo_id, ''REGISTERED'', 3)]"
  by code_simp

lemma tdemo_places:
  "places_ok 3 (Finite False 25 (-1))" "places_ok 2 (Finite False 9999 (-2))" "places_ok 2 (Finite False 1 (-2))" "places_ok 2 (Finite False 18 0)"
  by (simp_all add: places_ok_def strip_zeros.simps nat_str_eval)

lemma tdemo_line_ok: "line_create_ok tdemo_line"
proof -
  have "length_between 2 300 ''Bearing''" "4 \<le> length (py_strip ''8482'') \<and> length (py_strip ''8482'') \<le> 8 \<and> list_all is_digit (py_strip ''8482'')"
    "2 \<le> length (py_strip ''NOS'') \<and> length (py_strip ''NOS'') \<le> 10 \<and> list_all is_alpha_upper (py_strip ''NOS'')" by code_simp+
  moreover have "dec_pos (Finite False 25 (-1))" "dec_pos (Finite False 9999 (-2))" "0 \<le> dec_num 0 (Finite False 1 (-2))"
    "0 \<le> dec_num 0 (Finite False 18 0)" "dec_le 0 (Finite False 18 0) 28"
    by (simp_all add: dec_pos_def dec_num_def dec_le_def dec_den_def)
  ultimately show ?thesis using tdemo_places by (simp only: line_create_ok_def tdemo_line_def line_create.simps simp_thms)
qed

lemma tdemo_valid: "valid_invoice tdemo_body = Inr tdemo_body"
proof -
  have "invoice_number_pattern (py_strip (iq_invoice_number tdemo_body)) \<and>
    iq_invoice_type tdemo_body \<in> {''B2B'', ''CREDIT_NOTE'', ''DEBIT_NOTE'', ''EXPORT''} \<and> gstin_pattern (py_strip (iq_buyer_gstin tdemo_body)) \<and>
    length_between 2 200 (iq_buyer_name tdemo_body) \<and> if_given (length_between 0 80) (iq_purchase_order_id tdemo_body) \<and>
    digits_pattern 2 (py_strip (iq_place_of_supply tdemo_body)) \<and> 1 \<le> length (iq_lines tdemo_body) \<and> length (iq_lines tdemo_body) \<le> 100" by code_simp
  moreover have "list_all line_create_ok (iq_lines tdemo_body)" by (simp add: tdemo_body_def tdemo_line_ok)
  moreover have "tdemo_body\<lparr>iq_invoice_number := py_upper (py_strip (iq_invoice_number tdemo_body)),
      iq_buyer_gstin := py_upper (py_strip (iq_buyer_gstin tdemo_body)), iq_buyer_name := py_strip (iq_buyer_name tdemo_body),
      iq_purchase_order_id := map_option py_strip (iq_purchase_order_id tdemo_body),
      iq_place_of_supply := py_strip (iq_place_of_supply tdemo_body), iq_lines := map strip_line (iq_lines tdemo_body)\<rparr> = tdemo_body" by code_simp
  ultimately show ?thesis by (simp only: valid_invoice_def simp_thms if_True)
qed

lemma tdemo_create_op:
  "gst_request_op env tdemo_create = gst_guarded env (Some ''cookie'') (Some ''form'') (\<lambda>scope. gst_json (create_invoice env scope tdemo_body))"
  by (rule ext) (simp add: tdemo_create_def tdemo_valid)

lemma tdemo_created_row:
  "map (\<lambda>i. (iv_invoice_number i, iv_taxable_value i, iv_cgst_amount i, iv_sgst_amount i, iv_total_invoice_value i)) (invoices tdemo_created) =
     [(''MICRO/26/102'', 28800000, 0, 0, 33984000), (''MICRO/26/104'', 49994, 4500, 4498, 58992)]"
  unfolding tdemo_created_def run_Cons run_Nil gst_step.simps tdemo_create_op by code_simp

text \<open>The seeded reviewer registers the submitted invoice.\<close>

theorem gst_lifecycle_controlled_witness:
  "gst_constraints (tdemo_start ''user-reviewer'') \<and>
   (\<exists>i\<in>set (invoices (tdemo_start ''user-reviewer'')).
      invoice_lines_of (fst (gst_step (tdemo_env CHR ''r'', tdemo_register) (tdemo_start ''user-reviewer''))) (iv_id i) =
        invoice_lines_of (tdemo_start ''user-reviewer'') (iv_id i) \<and>
      (\<exists>i'\<in>set (invoices (fst (gst_step (tdemo_env CHR ''r'', tdemo_register) (tdemo_start ''user-reviewer'')))).
         iv_status i = ''SUBMITTED'' \<and> iv_status i' = ''REGISTERED'' \<and> iv_version i' = 3 \<and>
         moved_by (tdemo_env CHR ''r'') tdemo_register (tdemo_start ''user-reviewer'') i i'))"
proof -
  let ?db = "tdemo_start ''user-reviewer''" and ?env = "tdemo_env CHR ''r''"
  let ?after = "fst (gst_step (?env, tdemo_register) ?db)"
  have after: "tdemo_registered = ?after" unfolding tdemo_registered_def by (simp del: gst_step.simps)
  obtain i where i: "i \<in> set (invoices ?db)" "iv_status i = ''SUBMITTED''" using tdemo_before by (auto simp: map_eq_Cons_conv)
  obtain i' where i': "i' \<in> set (invoices ?after)" "i' = i \<or> moved_by ?env tdemo_register ?db i i'"
    and lines: "invoice_lines_of ?after (iv_id i) = invoice_lines_of ?db (iv_id i)"
    using gst_lifecycle_controlled [OF tdemo_constraints(1), of ?env tdemo_register] i(1) by blast
  have "iv_status i' = ''REGISTERED'' \<and> iv_version i' = 3" using i'(1) tdemo_registered_row unfolding after [symmetric] by (auto simp: map_eq_Cons_conv)
  then show ?thesis using i i' lines tdemo_constraints(1) by force
qed

text \<open>The seeded operator creates an invoice of two lines, whose halves are rounded up.\<close>

theorem gst_amounts_exact_witness:
  "gst_constraints (tdemo_start ''user-micro'') \<and>
   list_all (\<lambda>i. adds_up (invoice_lines_of (tdemo_start ''user-micro'') (iv_id i)) i) (invoices (tdemo_start ''user-micro'')) \<and>
   (\<exists>i\<in>set (invoices tdemo_created). iv_taxable_value i = 49994 \<and> iv_cgst_amount i = 4500 \<and> iv_sgst_amount i = 4498 \<and>
      adds_up (invoice_lines_of tdemo_created (iv_id i)) i \<and> sum_list (map il_total_value (invoice_lines_of tdemo_created (iv_id i))) = 58992)"
proof -
  obtain i where i: "i \<in> set (invoices tdemo_created)" "iv_taxable_value i = 49994" "iv_cgst_amount i = 4500" "iv_sgst_amount i = 4498"
    "iv_total_invoice_value i = 58992"
  proof (rule that)
    show "invoices tdemo_created ! 1 \<in> set (invoices tdemo_created)" using arg_cong [OF tdemo_created_row, of length] by simp
  qed (use tdemo_created_row in \<open>auto simp: map_eq_Cons_conv\<close>)
  from gst_amounts_exact [OF tdemo_constraints(2) tdemo_adds_up, of "[(tdemo_env CHR ''c'', tdemo_create)]", folded tdemo_created_def] i(1)
  have "adds_up (invoice_lines_of tdemo_created (iv_id i)) i" "iv_total_invoice_value i = sum_list (map il_total_value (invoice_lines_of tdemo_created (iv_id i)))"
    by (auto simp: list_all_iff)
  then show ?thesis using i tdemo_constraints(2) tdemo_adds_up by auto
qed

theorem gst_history_explains_witness:
  "gst_constraints (tdemo_start ''user-reviewer'') \<and>
   list_all (\<lambda>i. explained (history_of (tdemo_start ''user-reviewer'') (iv_id i)) i) (invoices (tdemo_start ''user-reviewer'')) \<and>
   (\<exists>i\<in>set (invoices tdemo_registered). iv_status i = ''REGISTERED'' \<and> iv_irn i \<noteq> None \<and>
      ih_version (last (history_of tdemo_registered (iv_id i))) = 3)"
proof -
  obtain i where i: "i \<in> set (invoices tdemo_registered)" "iv_status i = ''REGISTERED''" "iv_version i = 3"
    using tdemo_registered_row by (auto simp: map_eq_Cons_conv)
  from gst_history_explains [OF tdemo_constraints(1) tdemo_explained, of "[(tdemo_env CHR ''r'', tdemo_register)]", folded tdemo_registered_def] i(1)
  have "explained (history_of tdemo_registered (iv_id i)) i" by (simp add: list_all_iff)
  then show ?thesis using i tdemo_constraints(1) tdemo_explained unfolding explained_def by force
qed

end
