(* ===== verification/Spec2Isabelle.thy ===== *)
theory Spec2Isabelle
  imports LedgerDemo BankDemo GuardianDemo RegistryDemo BrokerDemo FunderDemo WorkerDemo DataVault DeliveryDemo BusinessDemo GstDemo
begin

text \<open>
  A verification library of the Xyena platform: agents ask a tool broker to act for a user, a
  separate authorization plane decides what may be done, and the actions are carried out by
  remote services (a bank, a ledger, a funder marketplace, a delivery service, a business registry, a GST portal)
  that the broker reaches through a gateway.

  \<^bold>\<open>The parts and how they interact.\<close> The \<^emph>\<open>broker\<close> (packages/tools/broker.py) receives a request
  for a tool of the \<^emph>\<open>registry\<close> (packages/tools/registry.py). For a protected tool it asks
  \<^emph>\<open>Guardian\<close> (packages/guardian) through its client: Guardian evaluates its policy, records a
  decision and, when the decision or a human approval allows it, issues a signed token for this
  call and this request hash; the broker has Guardian consume the token and only then sends a
  message through the \<^emph>\<open>gateway\<close> (packages/mcp_gateway). The message carries the runtime scope of the
  call with an HMAC; each \<^emph>\<open>service\<close> (demos/*) checks it before it touches its database. The
  platform's sessions write a hash-chained audit log and an outbox (packages/audit); the \<^emph>\<open>worker\<close>
  (apps/worker) runs queued jobs and publishes the outbox. The \<^emph>\<open>data vault\<close> (packages/data_vault)
  keeps the users' objects.

  \<^bold>\<open>How the code is modelled.\<close> A table is a list of rows, a row a record with the columns of the
  model class; a database is a record of tables. An operation is a function from the database and
  its inputs to an error or the changed database and its answer, with the checks of the code in
  their order; every raise is a value of the component's error type. \<open>session\<close> (Prelude) runs it
  in a transaction: on an error, or when a key or reference of the tables would be violated,
  nothing changes. A step function serves one request of any kind; \<open>run\<close> serves a list of
  requests, so an arbitrary sequence of requests of arbitrary clients is an interleaving of their
  transactions, each of which is served as a whole (see the assumptions below). Where one request
  makes several transactions (the broker and Guardian, the claim and the end of a job) they are
  separate steps or separate databases, and the reads and writes of the unlocked session that
  ends a job are separate steps, too. The clock and the random
  identifiers are inputs of a step. Amounts of a row are integers (hundredths, or thousandths
  for quantities, as the NUMERIC columns have them); amounts of a request are decimals with sign,
  digits and exponent, and the rounding is written out. Canonical JSON, SHA-256 and HMAC are defined
  bit by bit; a theorem that rests on a digest concludes with equality or an explicit collision.

  \<^bold>\<open>Theories.\<close>
  \<^item> Prelude: tables, constraints, sessions, runs; the locales \<open>keyed_rows\<close> (a table with a key:
    lookup after update and append, sums over one changed row), \<open>service\<close> (an invariant that every
    request keeps holds after every run) and \<open>monotone_service\<close> (so does a preorder between
    earlier and later states). Every service of the development interprets one of them on its
    step function, and its properties are taken from the interpretation.
  \<^item> PyDecimal, PyNumeric, PyTime, PyJson, Sha256, Scrypt, PyContract: the parts of Python's library
    and of pydantic the services use, with round trips and rounding errors. RuntimeScope: the signed scope and its
    verification. Canonical, AuditLog, Contracts: the platform's digest, audit chain and messages.
  \<^item> Ledger, LedgerBooks, LedgerInvariant, LedgerAccounts, LedgerProperties, LedgerDemo: the
    double-entry ledger (demos/ledger-payment). LedgerBooks is its abstract specification, the
    five ways the books may change, and the proof that every operation makes one of them.
  \<^item> Bank, BankSeed, BankBooks, BankInvariant, BankProperties, BankDemo: accounts, consents, holds,
    transfers and reversals (demos/bank-mcp), with the corresponding specification of its money tables.
  \<^item> Guardian, GuardianEvents, GuardianProperties, GuardianDemo: policy, decisions, approvals and
    single-use authorizations. GuardianEvents is a relation of six guarded events that the
    service refines.
  \<^item> Registry, RegistryProperties, RegistryDemo: servers, discovery, tool versions and their review.
  \<^item> Gateway, Broker, BrokerGate, BrokerProperties, BrokerReplay, BrokerClaims, BrokerDemo: the call
    of a tool from the request to the stored result, together with Guardian's database and the
    messages sent; \<open>platform_step\<close> composes broker, Guardian and other clients of Guardian.
  \<^item> Funder, FunderService, FunderApp, FunderSeed, FunderInvariant, FunderProperties, FunderDemo: the
    marketplace (demos/funder-marketplace): programs with a capacity, offers, reservations, commitments.
  \<^item> Delivery, DeliveryService, DeliveryReads, DeliveryApp, DeliveryInvariant, DeliveryProperties,
    DeliveryDemo: the delivery workflow (demos/delivery-mcp) with its roles, corrections, events and
    signed evidence.
  \<^item> BusinessRegistry, BusinessService, BusinessApp, BusinessSeed, BusinessInvariant,
    BusinessProperties, BusinessDemo: the business registry (demos/business-registry): browser
    sessions and passwords, the review of records and of identity changes, signed evidence.
    BusinessInvariant reduces a request to one of five acts on the records.
  \<^item> GstPortal, GstService, GstApp, GstSeed, GstInvariant, GstProperties, GstDemo: the GST and
    e-invoice portal (demos/gst-portal): invoices with their tax, their lifecycle and history, the
    classification of enterprises, signed evidence. The tax arithmetic is that of Python's decimal
    context, digit by digit.
  \<^item> Worker, WorkerProperties, WorkerDemo: the job queue. DataVault: the vault with its routes.

  The theories named Properties and Claims hold the numbered properties, the theories named Demo a
  concrete history of the component, on which the witnesses of the properties are evaluated.

  \<^bold>\<open>What is shown.\<close> Of the composition: no protected tool is called without an authorization
  consumed for exactly that call, no authorization stands behind two calls, a tool with side
  effects is called at most once and at an allowlisted host, from where only a redirect of a server
  leads elsewhere, a completed call is answered from its stored result ever after,
  nothing is sent when Guardian cannot be asked, and the bank accepts the scope the broker signs.
  Of Guardian: its decisions are exactly those of the stated policy, its tables change by permitted
  events only, tokens are used once, approvals are final, the audit log is tamper-evident. Of the
  money: trial balance, explained balances, balanced journals and conservation at ledger and bank,
  solvency, guarded and at-most-once execution, exact capacity at the marketplace, a delivered value
  that is supported by accepted quantities and verified proof; the rows of other tenants stay
  untouched in every table of the ledger. Of the business registry: records
  change only by a reviewer, their history is complete, their columns stay well typed (and a lemma of
  BusinessDemo shows how a lookup by any identifier confuses two records). Of the GST portal: the amounts of an invoice are the
  exact tax of its lines, an invoice moves only along its lifecycle, its history explains its status. Of the platform's plumbing: one
  active version of a tool, confinement of a user's vault, attempts of a job that may exceed their
  maximum but not its double, and a worker loop that becomes idle while its handlers add events.

  \<^bold>\<open>Loops and bounds.\<close> The retries of the gateway recurse over the number of attempts that the
  server's configuration allows; one call follows up to 20 redirects, the limit of the HTTP client.
  The loop of the worker is a \<open>partial_function\<close>; it returns: first the attempts of the jobs run
  out, then the events, and the number of iterations is bounded by \<open>potential\<close>, a measure of both,
  and the events added meanwhile. The JSON
  recogniser of the delivery corrections has fuel twice the length of the text, and every nested
  value consumes a character. All other loops recurse over rows or digits.

  \<^bold>\<open>Parameters and assumptions.\<close> The JWT library, jsonschema validation, the MCP client and the remote
  servers behind it, the S3 client, the handlers and the webhook of the worker, environment
  variables, the collation of the database and pydantic's text of an address are arguments of the
  definitions. The database is PostgreSQL at its default isolation, READ COMMITTED. Guardian, the
  broker, the marketplace, the delivery service, the business registry and the portal lock the rows they
  decide on, and so do the claim and the recovery of a job; their transactions are taken as
  serialised by these locks. The tool registry and the vault are modelled one request at a time. The bank and the ledger take no row locks at all, against the
  documentation of the bank: the theorems about them are about requests served one after the other,
  and say nothing about concurrent ones, where an update of a balance can be lost. The HTTP client
  of the gateway follows redirects, with and without a token. Identifiers are texts; characters are below 256, and only ASCII letters have another case;
  column widths are enforced only where no contract bounds the text; decimal
  arithmetic stays within Python's 28 digits, except in the GST portal, where their rounding is
  modelled; the clocks of the servers are in UTC.

  \<^bold>\<open>Not modelled.\<close> The buyer ERP (demos/buyer-erp), the demonstration
  seed of the delivery service, the registration scripts, the conversation API, the agent runtime
  and its language model, memory, identity and configuration, the demo orchestration of
  apps/api/routes/demo.py, observability, migrations, tests and the web frontends. Health checks,
  event streams and static pages of the modelled services are left out since they change nothing.
\<close>

end
